(* ===== verification/Prelude.thy ===== *)
theory Prelude
  imports "HOL-Library.Word" "HOL-Library.Multiset" "HOL-Library.Product_Lexorder"
begin

text \<open>
  Shared vocabulary of the development: the machine integer types of the Rust sources, the
  saturating and wrapping arithmetic they use, the fixed-width byte encodings (\<open>to_be_bytes\<close>,
  \<open>to_le_bytes\<close> and their inverses), small facts about lists, and the locale of state machines
  with an invariant that every stateful component interprets.

  Conventions.  \<open>u8\<close> to \<open>u64\<close> are words of that width; an unchecked \<open>+ 1\<close> on a counter wraps,
  as in the release profile of the crates (no \<open>overflow-checks\<close> there).  A \<open>usize\<close> that is a
  length, an index or a count is a \<open>nat\<close>, and a product of two of them wraps: \<open>usize_mul\<close>.  A value of \<open>[u8; 32]\<close> is a 256-bit word, whose 32 bytes are
  \<open>hash_bytes\<close>; \<open>[0u8; 32]\<close> is \<open>0\<close>.  The signed types are the same words, compared by \<open><s\<close>.  SHA-256 is code of another crate: it is the parameter
  \<open>sha\<close> of every definition that hashes, and no theorem assumes anything of it beyond its type.
\<close>

section \<open>Machine integers\<close>

type_synonym u8 = "8 word"
type_synonym u16 = "16 word"
type_synonym u32 = "32 word"
type_synonym u64 = "64 word"
type_synonym i8 = "8 word"
type_synonym i16 = "16 word"
type_synonym i32 = "32 word"
type_synonym i64 = "64 word"
type_synonym bytes = "u8 list"
type_synonym hash = "256 word"
type_synonym sha = "bytes \<Rightarrow> hash"

named_theorems enc_simps \<open>lengths and injectivity of the byte encodings\<close>
named_theorems sat_simps \<open>saturating arithmetic read as natural numbers\<close>

definition sat_add :: "'a::len word \<Rightarrow> 'a word \<Rightarrow> 'a word" where
  "sat_add a b = (if 2 ^ LENGTH('a) \<le> unat a + unat b then - 1 else a + b)"

definition sat_sub :: "'a::len word \<Rightarrow> 'a word \<Rightarrow> 'a word" where
  "sat_sub a b = (if a < b then 0 else a - b)"

definition sat_mul :: "'a::len word \<Rightarrow> 'a word \<Rightarrow> 'a word" where
  "sat_mul a b = (if 2 ^ LENGTH('a) \<le> unat a * unat b then - 1 else a * b)"

text \<open>The sum and the product of two \<open>usize\<close> values, 64 bits wide.\<close>

definition usize_add :: "nat \<Rightarrow> nat \<Rightarrow> nat" where
  "usize_add a b = (a + b) mod 2 ^ 64"

definition usize_mul :: "nat \<Rightarrow> nat \<Rightarrow> nat" where
  "usize_mul a b = a * b mod 2 ^ 64"

lemma usize_mul_exact: "a * b < 2 ^ 64 \<Longrightarrow> usize_mul a b = a * b"
  by (simp add: usize_mul_def)

lemma usize_mul_add: "usize_add (usize_mul a b) c = (a * b + c) mod 2 ^ 64"
  by (simp add: usize_add_def usize_mul_def mod_simps)

lemma unat_add_no_wrap:
  fixes a b :: "'a::len word"
  assumes "unat a + unat b < 2 ^ LENGTH('a)"
  shows "unat (a + b) = unat a + unat b"
  using assms by (simp add: unat_word_ariths)

lemma unat_max_word: "unat (- 1 :: 'a::len word) = 2 ^ LENGTH('a) - 1"
  by (simp add: unsigned_minus_1_eq_mask mask_eq_exp_minus_1)

lemma unat_sat_add [sat_simps]:
  fixes a b :: "'a::len word"
  shows "unat (sat_add a b) = min (unat a + unat b) (2 ^ LENGTH('a) - 1)"
  by (auto simp: sat_add_def unat_max_word unat_add_no_wrap min_def)

lemma unat_sat_sub [sat_simps]: "unat (sat_sub a b) = unat a - unat b"
  by (auto simp: sat_sub_def unat_sub word_less_nat_alt word_le_nat_alt)

lemma unat_sat_mul [sat_simps]:
  fixes a b :: "'a::len word"
  shows "unat (sat_mul a b) = min (unat a * unat b) (2 ^ LENGTH('a) - 1)"
proof (cases "2 ^ LENGTH('a) \<le> unat a * unat b")
  case True
  then show ?thesis by (simp add: sat_mul_def unat_max_word min_absorb2)
next
  case False
  then have "unat a * unat b \<le> 2 ^ LENGTH('a) - 1" by simp
  with False show ?thesis by (simp add: sat_mul_def unat_word_ariths)
qed

lemma unat_of_nat_small: "n < 2 ^ LENGTH('a) \<Longrightarrow> unat (of_nat n :: 'a::len word) = n"
  by (simp add: unsigned_of_nat take_bit_nat_eq_self)

lemma unat_le_max: "unat (w :: 'a::len word) \<le> 2 ^ LENGTH('a) - 1"
  using unsigned_less [of w] by (metis less_eq_Suc_le Suc_pred' Suc_le_mono zero_less_numeral zero_less_power)

lemma sat_add_ge [simp]: "a \<le> sat_add a b"
  using unat_le_max [of a] by (simp add: word_le_nat_alt sat_simps)

lemma unat_inc:
  fixes a :: "'a::len word"
  assumes "unat a < 2 ^ LENGTH('a) - 1"
  shows "unat (a + 1) = Suc (unat a)"
  using assms unat_add_no_wrap [of a 1] by simp

lemma unat_inc_max: "a \<noteq> - 1 \<Longrightarrow> unat (a + 1) = Suc (unat a)"
  using unatSuc [of a] by (metis add.commute eq_neg_iff_add_eq_0)

lemma less_inc_max: "a \<noteq> - 1 \<Longrightarrow> a < a + (1 :: 'a::len word)"
  by (simp add: word_less_nat_alt unat_inc_max)

lemma unat_dec: "0 < a \<Longrightarrow> unat (a - 1) = unat a - 1"
  by (simp add: unat_minus_one word_gt_0)

text \<open>\<open>a as u64 * 100\<close> never wraps, and \<open>b.max(1) as u64\<close> is never zero.\<close>

lemma unat_scaled_count: "unat ((ucast (events :: u32) :: u64) * 100) = unat events * 100"
  and unat_sat_scaled_count: "unat (sat_mul (ucast events :: u64) 100) = unat events * 100"
proof -
  have u: "unat (ucast events :: u64) = unat events" and b: "unat events * 100 < 2 ^ 64"
    using unat_le_max [of events] by (simp_all add: unsigned_ucast_eq take_bit_nat_eq_self)
  show "unat ((ucast events :: u64) * 100) = unat events * 100"
    using b by (simp add: unat_word_ariths u)
  show "unat (sat_mul (ucast events :: u64) 100) = unat events * 100"
    using b by (simp add: sat_simps u)
qed

lemma unat_denom: "unat (ucast (max all 1 :: u32) :: u64) = max (unat all) 1"
  using unat_le_max [of all]
  by (auto simp: unsigned_ucast_eq take_bit_nat_eq_self max_def word_le_nat_alt)

section \<open>Fixed-width byte encodings\<close>

primrec le_bytes :: "nat \<Rightarrow> 'a::len word \<Rightarrow> bytes" where
  "le_bytes 0 w = []"
| "le_bytes (Suc n) w = ucast w # le_bytes n (drop_bit 8 w)"

definition be_bytes :: "nat \<Rightarrow> 'a::len word \<Rightarrow> bytes" where
  "be_bytes n w = rev (le_bytes n w)"

primrec from_le :: "bytes \<Rightarrow> 'a::len word" where
  "from_le [] = 0"
| "from_le (b # bs) = or (ucast b) (push_bit 8 (from_le bs))"

definition from_be :: "bytes \<Rightarrow> 'a::len word" where
  "from_be bs = from_le (rev bs)"

definition hash_bytes :: "hash \<Rightarrow> bytes" where
  "hash_bytes h = be_bytes 32 h"

lemma length_le_bytes [simp]: "length (le_bytes n w) = n"
  by (induction n arbitrary: w) auto

lemma length_be_bytes [simp]: "length (be_bytes n w) = n"
  by (simp add: be_bytes_def)

lemma length_hash_bytes [simp]: "length (hash_bytes h) = 32"
  by (simp add: hash_bytes_def)

lemma from_le_le_bytes: "(from_le (le_bytes n w) :: 'a::len word) = take_bit (8 * n) (w :: 'a word)"
proof (induction n arbitrary: w)
  case 0
  then show ?case by simp
next
  case (Suc n)
  show ?case
  proof (rule bit_word_eqI)
    fix k assume k: "k < LENGTH('a)"
    show "bit (from_le (le_bytes (Suc n) w) :: 'a word) k = bit (take_bit (8 * Suc n) w) k"
      using k Suc.IH [of "drop_bit 8 w"]
      by (auto simp: bit_simps)
  qed
qed

lemma from_le_le_bytes_id:
  "LENGTH('a) \<le> 8 * n \<Longrightarrow> from_le (le_bytes n (w :: 'a::len word)) = w"
  by (simp add: from_le_le_bytes take_bit_word_eq_self)

lemma bit_from_le:
  "bit (from_le bs :: 'a::len word) k \<longleftrightarrow>
   k < LENGTH('a) \<and> k div 8 < length bs \<and> bit (bs ! (k div 8)) (k mod 8)"
proof (induction bs arbitrary: k)
  case Nil
  then show ?case by simp
next
  case (Cons b bs)
  show ?case
  proof (cases "k < 8")
    case True
    then show ?thesis by (auto simp: bit_simps)
  next
    case False
    then have "k div 8 = Suc ((k - 8) div 8)" and "k mod 8 = (k - 8) mod 8"
      by (simp_all add: le_div_geq le_mod_geq)
    then show ?thesis using False Cons.IH [of "k - 8"] by (auto simp: bit_simps dest: bit_imp_le_length)
  qed
qed

lemma nth_le_bytes: "i < n \<Longrightarrow> le_bytes n w ! i = ucast (drop_bit (8 * i) w)"
  by (induction n arbitrary: w i) (auto simp: nth_Cons' drop_bit_drop_bit algebra_simps
      simp flip: drop_bit_Suc split: nat.split)

lemma le_bytes_from_le:
  assumes "length bs = n" and "8 * n \<le> LENGTH('a)"
  shows "le_bytes n (from_le bs :: 'a::len word) = bs"
proof (rule nth_equalityI)
  fix i assume i: "i < length (le_bytes n (from_le bs :: 'a word))"
  have "bit (ucast (drop_bit (8 * i) (from_le bs :: 'a word)) :: u8) k \<longleftrightarrow> bit (bs ! i) k" if "k < 8" for k
    using i that assms by (auto simp: bit_simps bit_from_le)
  then show "le_bytes n (from_le bs :: 'a word) ! i = bs ! i"
    using i by (simp add: nth_le_bytes) (rule bit_word_eqI, simp)
qed (simp add: assms)

lemma from_be_be_bytes_id:
  "LENGTH('a) \<le> 8 * n \<Longrightarrow> from_be (be_bytes n (w :: 'a::len word)) = w"
  by (simp add: from_be_def be_bytes_def from_le_le_bytes_id)

lemma le_bytes_inj:
  "LENGTH('a) \<le> 8 * n \<Longrightarrow> le_bytes n (v :: 'a::len word) = le_bytes n w \<longleftrightarrow> v = w"
  by (metis from_le_le_bytes_id)

lemma be_bytes_inj:
  "LENGTH('a) \<le> 8 * n \<Longrightarrow> be_bytes n (v :: 'a::len word) = be_bytes n w \<longleftrightarrow> v = w"
  by (simp add: be_bytes_def le_bytes_inj)

text \<open>The widths the sources use, as abbreviations and as rewrite rules on concatenations.\<close>

abbreviation be2 :: "u16 \<Rightarrow> bytes" where "be2 \<equiv> be_bytes 2"
abbreviation be4 :: "u32 \<Rightarrow> bytes" where "be4 \<equiv> be_bytes 4"
abbreviation be8 :: "u64 \<Rightarrow> bytes" where "be8 \<equiv> be_bytes 8"
abbreviation le2 :: "u16 \<Rightarrow> bytes" where "le2 \<equiv> le_bytes 2"
abbreviation le4 :: "u32 \<Rightarrow> bytes" where "le4 \<equiv> le_bytes 4"
abbreviation le8 :: "u64 \<Rightarrow> bytes" where "le8 \<equiv> le_bytes 8"

lemma fixed_inj [enc_simps]:
  "be2 a = be2 a' \<longleftrightarrow> a = a'" "be4 b = be4 b' \<longleftrightarrow> b = b'" "be8 c = be8 c' \<longleftrightarrow> c = c'"
  "le2 a = le2 a' \<longleftrightarrow> a = a'" "le4 b = le4 b' \<longleftrightarrow> b = b'" "le8 c = le8 c' \<longleftrightarrow> c = c'"
  "hash_bytes h = hash_bytes h' \<longleftrightarrow> h = h'"
  by (simp_all add: be_bytes_inj le_bytes_inj hash_bytes_def)

lemma append_fixed_inj [enc_simps]:
  "length xs = length ys \<Longrightarrow> xs @ us = ys @ vs \<longleftrightarrow> xs = ys \<and> us = vs"
  by (rule append_eq_append_conv) simp

lemma le_fixed_from_le:
  "length bs = 2 \<Longrightarrow> le2 (from_le bs) = bs" "length bs = 4 \<Longrightarrow> le4 (from_le bs) = bs"
  "length bs = 8 \<Longrightarrow> le8 (from_le bs) = bs"
  by (simp_all add: le_bytes_from_le)

lemma from_le_fixed [enc_simps]:
  "from_le (le2 a) = a" "from_le (le4 b) = b" "from_le (le8 c) = c"
  by (simp_all add: from_le_le_bytes_id)

text \<open>\<open>b as u8\<close> of a boolean is \<open>of_bool b\<close>.\<close>

lemma of_bool_byte [simp]: "(of_bool a :: u8) = of_bool b \<longleftrightarrow> a = b"
  by (cases a; cases b) simp_all

section \<open>Options and lists\<close>

definition unwrap_or :: "'a \<Rightarrow> 'a option \<Rightarrow> 'a" where
  "unwrap_or d x = (case x of None \<Rightarrow> d | Some v \<Rightarrow> v)"

lemma unwrap_or_simps [simp]: "unwrap_or d None = d" "unwrap_or d (Some v) = v"
  by (simp_all add: unwrap_or_def)

lemma filter_length_le_append [simp]:
  "length (filter P (xs @ [x])) = length (filter P xs) + (if P x then 1 else 0)"
  by simp

lemma last_snoc_default: "(if xs @ [x] = [] then d else f (last (xs @ [x]))) = f x"
  by simp

lemma sorted_wrt_snoc_less:
  "sorted_wrt (<) (xs @ [y]) \<longleftrightarrow> sorted_wrt (<) xs \<and> (xs \<noteq> [] \<longrightarrow> last xs < (y :: 'a::linorder))"
proof (cases xs rule: rev_cases)
  case (snoc ys x)
  then show ?thesis by (fastforce simp: sorted_wrt_append)
qed simp

section \<open>State machines with an invariant\<close>

text \<open>
  A component is a state and the operations its callers may apply, in any order.  \<open>run\<close> applies a
  list of them; an invariant that every operation keeps holds after every run.
\<close>

definition run :: "('op \<Rightarrow> 's \<Rightarrow> 's) \<Rightarrow> 'op list \<Rightarrow> 's \<Rightarrow> 's" where
  "run step ops s = fold step ops s"

lemma run_simps [simp]:
  "run step [] s = s"
  "run step (op # ops) s = run step ops (step op s)"
  "run step (ops @ ops') s = run step ops' (run step ops s)"
  by (simp_all add: run_def)

locale invariant_machine =
  fixes step :: "'op \<Rightarrow> 's \<Rightarrow> 's"
    and inv :: "'s \<Rightarrow> bool"
  assumes step_inv: "inv s \<Longrightarrow> inv (step op s)"
begin

lemma run_inv: "inv s \<Longrightarrow> inv (run step ops s)"
  by (induction ops arbitrary: s) (auto simp: step_inv)

end

text \<open>The sum of a quantity over a run, each term read in the state the operation meets.\<close>

primrec total :: "('op \<Rightarrow> 's \<Rightarrow> 's) \<Rightarrow> ('op \<Rightarrow> 's \<Rightarrow> nat) \<Rightarrow> 'op list \<Rightarrow> 's \<Rightarrow> nat" where
  "total step f [] s = 0"
| "total step f (op # ops) s = f op s + total step f ops (step op s)"

text \<open>What the steps of a run put out, in order.\<close>

primrec emitted :: "('op \<Rightarrow> 's \<Rightarrow> 's) \<Rightarrow> ('op \<Rightarrow> 's \<Rightarrow> 'e list) \<Rightarrow> 'op list \<Rightarrow> 's \<Rightarrow> 'e list" where
  "emitted step out [] s = []"
| "emitted step out (op # ops) s = out op s @ emitted step out ops (step op s)"

text \<open>A machine whose steps never increase a measure beyond what each operation may add.\<close>

locale budgeted_machine = invariant_machine step inv
  for step :: "'op \<Rightarrow> 's \<Rightarrow> 's" and inv :: "'s \<Rightarrow> bool" +
  fixes spend gain :: "'op \<Rightarrow> 's \<Rightarrow> nat"
    and level :: "'s \<Rightarrow> nat"
  assumes step_level: "inv s \<Longrightarrow> level (step op s) + spend op s \<le> level s + gain op s"
begin

lemma run_level:
  "inv s \<Longrightarrow>
   level (run step ops s) + total step spend ops s \<le> level s + total step gain ops s"
proof (induction ops arbitrary: s)
  case Nil
  then show ?case by simp
next
  case (Cons op ops)
  have "level (run step ops (step op s)) + total step spend ops (step op s)
      \<le> level (step op s) + total step gain ops (step op s)"
    using Cons.prems by (intro Cons.IH step_inv)
  with step_level [OF Cons.prems, of op] show ?case by simp
qed

end

text \<open>
  A view of the state that some operations leave alone and the others move by itself only: deleting
  the first kind from a run does not change what the view sees at its end.
\<close>

locale purged_view =
  fixes step :: "'op \<Rightarrow> 's \<Rightarrow> 's"
    and view :: "'s \<Rightarrow> 'v"
    and seen :: "'op \<Rightarrow> bool"
  assumes view_step: "view s = view t \<Longrightarrow> seen op \<Longrightarrow> view (step op s) = view (step op t)"
    and view_unseen: "\<not> seen op \<Longrightarrow> view (step op s) = view s"
begin

lemma view_purge: "view s = view t \<Longrightarrow> view (run step ops s) = view (run step (filter seen ops) t)"
proof (induction ops arbitrary: s t)
  case Nil
  then show ?case by simp
next
  case (Cons op ops)
  show ?case
  proof (cases "seen op")
    case True
    then show ?thesis using Cons.IH [OF view_step [OF Cons.prems True]] by simp
  next
    case False
    then show ?thesis using Cons.IH [of "step op s" t] view_unseen [OF False, of s] Cons.prems by simp
  qed
qed

end

end
