(* ===== verification/Ordered_Map.thy ===== *)
theory Ordered_Map
  imports Prelude
begin

text \<open>
  Rust's \<open>BTreeMap\<close> and \<open>BTreeSet\<close>: finite maps that iterate in the order of their keys.  A map is
  its list of entries, keys strictly increasing, as a type of its own; so two maps with the same
  lookups are equal, and the laws below need no well-formedness premise.  A set is a map to \<open>unit\<close>.
  The operations are executable, and every component of the sources that keeps a registry uses them.
\<close>

section \<open>Sorted association lists\<close>

abbreviation keys_sorted :: "('k::linorder \<times> 'v) list \<Rightarrow> bool" where
  "keys_sorted xs \<equiv> sorted_wrt (<) (map fst xs)"

fun al_insert :: "'k::linorder \<Rightarrow> 'v \<Rightarrow> ('k \<times> 'v) list \<Rightarrow> ('k \<times> 'v) list" where
  "al_insert k v [] = [(k, v)]"
| "al_insert k v ((k', v') # xs) =
     (if k < k' then (k, v) # (k', v') # xs
      else if k = k' then (k, v) # xs
      else (k', v') # al_insert k v xs)"

lemma set_keys_al_insert [simp]: "fst ` set (al_insert k v xs) = insert k (fst ` set xs)"
  by (induction k v xs rule: al_insert.induct) auto

lemma keys_sorted_al_insert: "keys_sorted xs \<Longrightarrow> keys_sorted (al_insert k v xs)"
proof (induction xs)
  case Nil
  then show ?case by simp
next
  case (Cons x xs)
  obtain k' v' where x: "x = (k', v')" by (cases x)
  have "keys_sorted (al_insert k v xs)" using Cons by simp
  moreover have "\<forall>y \<in> fst ` set xs. k' < y" using Cons.prems x by auto
  ultimately show ?case using Cons.prems x by fastforce
qed

lemma keys_sorted_filter: "keys_sorted xs \<Longrightarrow> keys_sorted (filter P xs)"
  by (induction xs) auto

lemma map_of_al_insert:
  "keys_sorted xs \<Longrightarrow> map_of (al_insert k v xs) = (map_of xs)(k \<mapsto> v)"
  by (induction xs) (auto simp: fun_eq_iff)

lemma keys_sorted_distinct: "keys_sorted xs \<Longrightarrow> distinct (map fst xs)"
  by (induction xs) auto

lemma keys_sorted_unique:
  assumes "keys_sorted xs" "keys_sorted ys" "map_of xs = map_of ys"
  shows "xs = ys"
proof -
  have eq: "set xs = set ys"
    using assms by (simp add: keys_sorted_distinct map_of_inject_set [symmetric])
  have "inj_on fst (set xs)"
    using keys_sorted_distinct [OF assms(1)] by (simp add: distinct_map)
  then show ?thesis
    using assms(1,2) eq map_sorted_distinct_set_unique [of fst xs ys]
    by (simp add: strict_sorted_iff)
qed

section \<open>The map type\<close>

typedef (overloaded) ('k::linorder, 'v) btmap = "{xs :: ('k \<times> 'v) list. keys_sorted xs}"
  morphisms entries Abs_btmap
  by (rule exI [of _ "[]"]) simp

setup_lifting type_definition_btmap

lift_definition bt_empty :: "('k::linorder, 'v) btmap" is "[]"
  by simp

lift_definition bt_get :: "('k::linorder, 'v) btmap \<Rightarrow> 'k \<Rightarrow> 'v option" is map_of .

lift_definition bt_insert :: "'k::linorder \<Rightarrow> 'v \<Rightarrow> ('k, 'v) btmap \<Rightarrow> ('k, 'v) btmap" is al_insert
  by (rule keys_sorted_al_insert)

lift_definition bt_remove :: "'k::linorder \<Rightarrow> ('k, 'v) btmap \<Rightarrow> ('k, 'v) btmap"
  is "\<lambda>k xs. filter (\<lambda>e. fst e \<noteq> k) xs"
  by (rule keys_sorted_filter)

lift_definition bt_retain :: "('k::linorder \<Rightarrow> 'v \<Rightarrow> bool) \<Rightarrow> ('k, 'v) btmap \<Rightarrow> ('k, 'v) btmap"
  is "\<lambda>P xs. filter (\<lambda>e. P (fst e) (snd e)) xs"
  by (rule keys_sorted_filter)

lift_definition bt_map :: "('k \<Rightarrow> 'v \<Rightarrow> 'w) \<Rightarrow> ('k::linorder, 'v) btmap \<Rightarrow> ('k, 'w) btmap"
  is "\<lambda>f xs. map (\<lambda>e. (fst e, f (fst e) (snd e))) xs"
  by (simp add: o_def)

definition bt_len :: "('k::linorder, 'v) btmap \<Rightarrow> nat" where
  "bt_len m = length (entries m)"

definition bt_keys :: "('k::linorder, 'v) btmap \<Rightarrow> 'k list" where
  "bt_keys m = map fst (entries m)"

definition bt_values :: "('k::linorder, 'v) btmap \<Rightarrow> 'v list" where
  "bt_values m = map snd (entries m)"

text \<open>\<open>contains_key\<close>, and \<open>entry(k).or_insert_with(|| d)\<close>: insert the default if the key is new.\<close>

definition bt_has :: "('k::linorder, 'v) btmap \<Rightarrow> 'k \<Rightarrow> bool" where
  "bt_has m k = (bt_get m k \<noteq> None)"

definition bt_or_insert :: "'k::linorder \<Rightarrow> 'v \<Rightarrow> ('k, 'v) btmap \<Rightarrow> ('k, 'v) btmap" where
  "bt_or_insert k d m = (if bt_has m k then m else bt_insert k d m)"

definition bt_get_or :: "'v \<Rightarrow> ('k::linorder, 'v) btmap \<Rightarrow> 'k \<Rightarrow> 'v" where
  "bt_get_or d m k = (case bt_get m k of None \<Rightarrow> d | Some v \<Rightarrow> v)"

text \<open>\<open>iter().next_back()\<close>: the entry with the greatest key.\<close>

definition bt_last :: "('k::linorder, 'v) btmap \<Rightarrow> ('k \<times> 'v) option" where
  "bt_last m = (if entries m = [] then None else Some (last (entries m)))"

section \<open>Laws\<close>

lemma bt_get_empty [simp]: "bt_get bt_empty k = None"
  by transfer simp

lemma bt_get_empty_map [simp]: "bt_get bt_empty = Map.empty"
  by (rule ext) simp

lemma bt_get_insert [simp]: "bt_get (bt_insert k v m) = (bt_get m)(k \<mapsto> v)"
  by transfer (rule map_of_al_insert)

lemma map_of_filter_key: "map_of (filter (\<lambda>e. fst e \<noteq> k) xs) = (map_of xs)(k := None)"
  by (induction xs) auto

lemma bt_get_remove [simp]: "bt_get (bt_remove k m) = (bt_get m)(k := None)"
  by transfer (rule map_of_filter_key)

lemma map_of_filter_sorted:
  "keys_sorted xs \<Longrightarrow>
   map_of (filter (\<lambda>e. P (fst e) (snd e)) xs) k =
     (case map_of xs k of None \<Rightarrow> None | Some v \<Rightarrow> if P k v then Some v else None)"
proof (induction xs)
  case Nil
  then show ?case by simp
next
  case (Cons x xs)
  have "k = fst x \<Longrightarrow> map_of xs k = None"
    using Cons.prems by (auto simp: map_of_eq_None_iff)
  with Cons show ?case by auto
qed

lemma bt_get_retain [simp]:
  "bt_get (bt_retain P m) k =
     (case bt_get m k of None \<Rightarrow> None | Some v \<Rightarrow> if P k v then Some v else None)"
  by transfer (rule map_of_filter_sorted)

lemma map_of_map_keyed: "map_of (map (\<lambda>e. (fst e, f (fst e) (snd e))) xs) k = map_option (f k) (map_of xs k)"
  by (induction xs) auto

lemma bt_get_map [simp]: "bt_get (bt_map f m) k = map_option (f k) (bt_get m k)"
  by transfer (rule map_of_map_keyed)

lemma bt_ext: "(\<And>k. bt_get m k = bt_get m' k) \<Longrightarrow> m = m'"
  by transfer (auto intro: keys_sorted_unique)

lemma in_entries_iff: "(k, v) \<in> set (entries m) \<longleftrightarrow> bt_get m k = Some v"
  by transfer (simp add: keys_sorted_distinct)

lemma keys_sorted_entries [simp]: "keys_sorted (entries m)"
  using entries [of m] by simp

lemma distinct_bt_keys [simp]: "distinct (bt_keys m)"
  by (simp add: bt_keys_def keys_sorted_distinct)

lemma sorted_bt_keys [simp]: "sorted_wrt (<) (bt_keys m)"
  by (simp add: bt_keys_def)

lemma set_bt_keys [simp]: "set (bt_keys m) = dom (bt_get m)"
  by (force simp: bt_keys_def in_entries_iff [symmetric] dom_def image_iff)

lemma set_bt_values: "set (bt_values m) = ran (bt_get m)"
  by (force simp: bt_values_def ran_def in_entries_iff [symmetric] image_iff)

lemma finite_bt_dom [simp]: "finite (dom (bt_get m))"
  by (metis List.finite_set set_bt_keys)

lemma bt_len_card: "bt_len m = card (dom (bt_get m))"
  by (metis bt_keys_def bt_len_def distinct_bt_keys distinct_card length_map set_bt_keys)

lemma bt_len_empty [simp]: "bt_len bt_empty = 0"
  unfolding bt_len_def by transfer simp

lemma bt_len_insert [simp]: "bt_len (bt_insert k v m) = (if bt_has m k then bt_len m else Suc (bt_len m))"
  by (auto simp: bt_len_card bt_has_def insert_absorb domIff)

lemma bt_len_remove [simp]: "bt_len (bt_remove k m) = (if bt_has m k then bt_len m - 1 else bt_len m)"
proof -
  have "dom (bt_get (bt_remove k m)) = dom (bt_get m) - {k}"
    by auto
  then show ?thesis
    by (auto simp: bt_len_card bt_has_def domIff card_Diff_singleton)
qed

lemma bt_len_map [simp]: "bt_len (bt_map f m) = bt_len m"
  unfolding bt_len_def by transfer simp

lemma bt_len_retain_le: "bt_len (bt_retain P m) \<le> bt_len m"
  unfolding bt_len_def by transfer simp

lemma bt_has_simps [simp]:
  "\<not> bt_has bt_empty k"
  "bt_has (bt_insert k' v m) k \<longleftrightarrow> k = k' \<or> bt_has m k"
  "bt_has (bt_remove k' m) k \<longleftrightarrow> k \<noteq> k' \<and> bt_has m k"
  "bt_has (bt_map f m) k \<longleftrightarrow> bt_has m k"
  by (auto simp: bt_has_def)

lemma bt_get_or_insert [simp]:
  "bt_get (bt_or_insert k d m) k' =
     (if k' = k \<and> \<not> bt_has m k then Some d else bt_get m k')"
  by (auto simp: bt_or_insert_def)

lemma bt_or_insert_get_some [simp]:
  "bt_get (bt_or_insert k d m) k = Some (bt_get_or d m k)"
  by (auto simp: bt_or_insert_def bt_get_or_def bt_has_def)

lemma bt_has_or_insert [simp]: "bt_has (bt_or_insert k d m) k' \<longleftrightarrow> k' = k \<or> bt_has m k'"
  by (auto simp: bt_or_insert_def)

lemma bt_insert_or_insert [simp]: "bt_insert k v (bt_or_insert k d m) = bt_insert k v m"
  by (rule bt_ext) auto

lemma bt_get_or_simps [simp]:
  "bt_get_or d bt_empty k = d"
  "bt_get_or d (bt_insert k' v m) k = (if k = k' then v else bt_get_or d m k)"
  "bt_get_or d (bt_or_insert k d m) k' = bt_get_or d m k'"
  by (auto simp: bt_get_or_def bt_has_def split: option.splits)

lemma bt_get_or_map: "bt_get_or d (bt_map f m) k = (if bt_has m k then f k (bt_get_or d m k) else d)"
  by (auto simp: bt_get_or_def bt_has_def)

lemma al_insert_snoc: "\<forall>e \<in> set xs. fst e < k \<Longrightarrow> al_insert k v xs = xs @ [(k, v)]"
  by (induction xs) auto

text \<open>A key above all others goes to the end.\<close>

lemma entries_insert_last:
  "\<forall>e \<in> set (entries m). fst e < k \<Longrightarrow> entries (bt_insert k v m) = entries m @ [(k, v)]"
  by (simp add: bt_insert.rep_eq al_insert_snoc)

text \<open>Evaluating an iteration over a concrete map goes through its entries.\<close>

lemmas bt_eval =
  bt_insert.rep_eq bt_empty.rep_eq bt_remove.rep_eq bt_retain.rep_eq bt_map.rep_eq
  bt_keys_def bt_values_def bt_len_def bt_or_insert_def bt_get_or_def

text \<open>Sums over the entries, which the counting invariants of the registries use.\<close>

definition bt_sum :: "('k \<Rightarrow> 'v \<Rightarrow> nat) \<Rightarrow> ('k::linorder, 'v) btmap \<Rightarrow> nat" where
  "bt_sum f m = (\<Sum>e \<leftarrow> entries m. f (fst e) (snd e))"

lemma bt_sum_dom: "bt_sum f m = (\<Sum>k \<in> dom (bt_get m). f k (the (bt_get m k)))"
proof -
  have "bt_sum f m = (\<Sum>k \<leftarrow> bt_keys m. f k (the (bt_get m k)))"
    unfolding bt_sum_def bt_keys_def
    by (auto simp: o_def in_entries_iff intro!: arg_cong [where f = sum_list] map_cong)
  then show ?thesis
    by (simp add: sum_list_distinct_conv_sum_set)
qed

lemma bt_sum_empty [simp]: "bt_sum f bt_empty = 0"
  by (simp add: bt_sum_def bt_empty.rep_eq)

text \<open>One entry split off; the rest does not depend on what is stored under that key.\<close>

lemma bt_sum_split:
  assumes "bt_get m k = Some w"
  shows "bt_sum f m = f k w + (\<Sum>j \<in> dom (bt_get m) - {k}. f j (the (bt_get m j)))"
proof -
  have "k \<in> dom (bt_get m)" using assms by auto
  from sum.remove [OF finite_bt_dom this, of "\<lambda>j. f j (the (bt_get m j))"] assms
  show ?thesis by (simp add: bt_sum_dom)
qed

lemma bt_sum_insert:
  "bt_sum f (bt_insert k v m) + (case bt_get m k of None \<Rightarrow> 0 | Some w \<Rightarrow> f k w) =
   bt_sum f m + f k v"
proof -
  let ?n = "bt_insert k v m" and ?R = "\<Sum>j \<in> dom (bt_get m) - {k}. f j (the (bt_get m j))"
  have "dom (bt_get ?n) - {k} = dom (bt_get m) - {k}" by auto
  moreover have "(\<Sum>j \<in> dom (bt_get m) - {k}. f j (the (bt_get ?n j))) = ?R"
    by (rule sum.cong) auto
  ultimately have n: "bt_sum f ?n = f k v + ?R"
    using bt_sum_split [of ?n k v f] by (simp only: bt_get_insert fun_upd_same)
  show ?thesis
  proof (cases "bt_get m k")
    case None
    then have "dom (bt_get m) - {k} = dom (bt_get m)" by (auto simp: domIff)
    with n None show ?thesis by (simp add: bt_sum_dom [of f m])
  next
    case (Some w)
    with n bt_sum_split [OF Some, of f] show ?thesis by simp
  qed
qed

instantiation btmap :: (linorder, equal) equal
begin

definition equal_btmap_def: "HOL.equal m n \<longleftrightarrow> entries m = entries n"

instance
  by standard (simp add: equal_btmap_def entries_inject)

end

end
