(* ===== verification/Lattice_Dag.thy ===== *)
theory Lattice_Dag
  imports Prelude
begin

text \<open>
  \<open>lattice_dag.rs\<close> (Gate 220): paths whose types carry their nodes.  The program is at the level of
  types, so the model is one of its type system: a node type is a name with a \<open>RANK\<close>; the types of edges
  and paths are the datatypes \<open>VerifiedEdge\<close> and \<open>path\<close>; the trait bounds of the implementations are
  \<open>well_bounded\<close>; an expression that makes a path compiles when its type is well bounded and each of its
  calls of \<open>VerifiedEdge::new\<close> passes the assertion on the ranks, which is \<open>constructs\<close>.  The weight of an
  edge and the addition of floats are parameters of \<open>total_divergence_risk\<close>.
\<close>

section \<open>Types\<close>

datatype 'n VerifiedEdge = VerifiedEdge (edge_from: 'n) (edge_to: 'n)

definition VerifiedEdge_new :: "('n \<Rightarrow> nat) \<Rightarrow> 'n VerifiedEdge \<Rightarrow> bool" where
  "VerifiedEdge_new RANK e \<longleftrightarrow> RANK (edge_from e) < RANK (edge_to e)"

datatype 'n path =
    BaseStep 'n 'n
  | ConsStep 'n 'n "'n path"

fun StartNode :: "'n path \<Rightarrow> 'n" where
  "StartNode (BaseStep From To) = From"
| "StartNode (ConsStep From Mid Next) = From"

fun EndNode :: "'n path \<Rightarrow> 'n" where
  "EndNode (BaseStep From To) = To"
| "EndNode (ConsStep From Mid Next) = EndNode Next"

text \<open>The bound \<open>Next: PathInvariants<StartNode = Inter>\<close>.\<close>

fun well_bounded :: "'n path \<Rightarrow> bool" where
  "well_bounded (BaseStep From To) \<longleftrightarrow> True"
| "well_bounded (ConsStep From Mid Next) \<longleftrightarrow> StartNode Next = Mid \<and> well_bounded Next"

text \<open>
  Making a value of a path type: its fields are edges, whose only constructor is \<open>new\<close>.  The judgement
  \<open>constructs RANK p s e\<close> says that a value of type \<open>p\<close>, a path from \<open>s\<close> to \<open>e\<close>, can be made.
\<close>

inductive constructs :: "('n \<Rightarrow> nat) \<Rightarrow> 'n path \<Rightarrow> 'n \<Rightarrow> 'n \<Rightarrow> bool" for RANK where
  base: "VerifiedEdge_new RANK (VerifiedEdge a b) \<Longrightarrow> constructs RANK (BaseStep a b) a b"
| cons: "VerifiedEdge_new RANK (VerifiedEdge a b) \<Longrightarrow> constructs RANK p b c \<Longrightarrow>
    constructs RANK (ConsStep a b p) a c"

code_pred constructs .

inductive_cases constructs_base [elim!]: "constructs RANK (BaseStep a b) s e"
inductive_cases constructs_cons [elim!]: "constructs RANK (ConsStep a b p) s e"

fun total_divergence_risk :: "('f \<Rightarrow> 'f \<Rightarrow> 'f) \<Rightarrow> 'f \<Rightarrow> 'n path \<Rightarrow> 'f" where
  "total_divergence_risk plus_f64 DIVERGENCE_WEIGHT (BaseStep From To) = DIVERGENCE_WEIGHT"
| "total_divergence_risk plus_f64 DIVERGENCE_WEIGHT (ConsStep From Mid Next) =
     plus_f64 DIVERGENCE_WEIGHT (total_divergence_risk plus_f64 DIVERGENCE_WEIGHT Next)"

definition HomotopyWitness_declare :: "'n path \<Rightarrow> 'n path \<Rightarrow> bool" where
  "HomotopyWitness_declare p1 p2 \<longleftrightarrow>
     well_bounded p1 \<and> well_bounded p2 \<and> StartNode p2 = StartNode p1 \<and> EndNode p2 = EndNode p1"

section \<open>What the types ensure\<close>

fun nodes_of :: "'n path \<Rightarrow> 'n list" where
  "nodes_of (BaseStep a b) = [a, b]"
| "nodes_of (ConsStep a b p) = a # nodes_of p"

lemma nodes_ends: "nodes_of p \<noteq> []" "hd (nodes_of p) = StartNode p" "last (nodes_of p) = EndNode p"
  by (induction p) auto

lemma two_nodes_of: "\<exists>b xs. nodes_of p = StartNode p # b # xs"
proof (cases p)
  case (ConsStep a b q)
  then show ?thesis using nodes_ends(1) [of q] by (cases "nodes_of q") auto
qed simp

lemma constructs_sound:
  "constructs RANK p s e \<Longrightarrow>
   well_bounded p \<and> StartNode p = s \<and> EndNode p = e \<and> sorted_wrt (<) (map RANK (nodes_of p))"
proof (induction rule: constructs.induct)
  case (base a b)
  then show ?case by (simp add: VerifiedEdge_new_def)
next
  case (cons a b p c)
  then have "RANK a < RANK b" by (simp add: VerifiedEdge_new_def)
  moreover obtain x xs where "nodes_of p = b # x # xs"
    using two_nodes_of [of p] cons by auto
  ultimately show ?case using cons by (auto intro: less_trans)
qed

lemma constructs_complete:
  "well_bounded p \<Longrightarrow> sorted_wrt (<) (map RANK (nodes_of p)) \<Longrightarrow> constructs RANK p (StartNode p) (EndNode p)"
proof (induction p)
  case (BaseStep a b)
  then show ?case by (auto intro!: constructs.base simp: VerifiedEdge_new_def)
next
  case (ConsStep a b p)
  obtain x xs where "nodes_of p = b # x # xs"
    using two_nodes_of [of p] ConsStep.prems by auto
  with ConsStep show ?case by (auto intro!: constructs.cons simp: VerifiedEdge_new_def)
qed

lemma sorted_wrt_less_length:
  "sorted_wrt (<) (ns :: nat list) \<Longrightarrow> ns \<noteq> [] \<Longrightarrow> hd ns + (length ns - 1) \<le> last ns"
proof (induction ns)
  case (Cons n ns)
  show ?case
  proof (cases ns)
    case (Cons m ms)
    with Cons.IH Cons.prems show ?thesis by fastforce
  qed simp
qed simp

lemma constructs_iff:
  "constructs RANK p s e \<longleftrightarrow>
     well_bounded p \<and> s = StartNode p \<and> e = EndNode p \<and> sorted_wrt (<) (map RANK (nodes_of p))"
  using constructs_sound constructs_complete by metis

lemma ascending_distinct: "sorted_wrt (<) (map f xs :: nat list) \<Longrightarrow> distinct xs"
  by (induction xs) (auto simp: image_iff)

lemma constructs_bounded:
  assumes "constructs RANK p s e"
  shows "distinct (nodes_of p)" "RANK s + (length (nodes_of p) - 1) \<le> RANK e"
proof -
  have up: "sorted_wrt (<) (map RANK (nodes_of p))" "s = hd (nodes_of p)" "e = last (nodes_of p)"
    using assms by (auto simp: constructs_iff nodes_ends)
  show "distinct (nodes_of p)" using up(1) by (rule ascending_distinct)
  show "RANK s + (length (nodes_of p) - 1) \<le> RANK e"
    using sorted_wrt_less_length [OF up(1)] up by (simp add: nodes_ends hd_map last_map)
qed

lemma total_divergence_risk_sum:
  "total_divergence_risk (+) (w :: nat) p = (length (nodes_of p) - 1) * w"
proof (induction p)
  case (ConsStep a b p)
  then show ?case using two_nodes_of [of p] by auto
qed simp

text \<open>
  C27.  Soundness and completeness of the typing of paths: a value of a path type can be made exactly
  if the type is well bounded and the ranks of its nodes ascend; and then no node is on the path twice
  (in particular no path leads back to its start), and it has at most as many edges as the ranks of its
  ends are apart.
\<close>

theorem lattice_paths_ascend:
  "(constructs RANK p s e \<longleftrightarrow>
      well_bounded p \<and> s = StartNode p \<and> e = EndNode p \<and> sorted_wrt (<) (map RANK (nodes_of p))) \<and>
   (constructs RANK p s e \<longrightarrow>
      distinct (nodes_of p) \<and> RANK s + (length (nodes_of p) - 1) \<le> RANK e)"
  using constructs_iff [of RANK p s e] constructs_bounded [of RANK p s e] by blast

theorem lattice_paths_ascend_witness:
  "distinct (nodes_of (ConsStep (1 :: nat) 2 (BaseStep 2 10))) \<and> \<not> constructs (\<lambda>n. n) (ConsStep (1 :: nat) 2 (BaseStep 2 1)) 1 1"
  using lattice_paths_ascend [of "\<lambda>n. n" "ConsStep (1 :: nat) 2 (BaseStep 2 10)" 1 10]
    lattice_paths_ascend [of "\<lambda>n. n" "ConsStep (1 :: nat) 2 (BaseStep 2 1)" 1 1]
  by simp

text \<open>
  The risk and the witness of homotopy ask for no edge: they are there also for path types of which no
  value can be made, a cycle among them.
\<close>

lemma risk_without_edges:
  "well_bounded (ConsStep a b (BaseStep b a)) \<and> \<not> constructs RANK (ConsStep a b (BaseStep b a)) s e \<and>
   HomotopyWitness_declare (ConsStep a b (BaseStep b a)) (ConsStep a b (BaseStep b a)) \<and>
   total_divergence_risk plus_f64 w (ConsStep a b (BaseStep b a)) = plus_f64 w w"
  by (auto simp: HomotopyWitness_declare_def VerifiedEdge_new_def elim!: constructs.cases)

end
