(* ===== verification/Hash_Chain.thy ===== *)
theory Hash_Chain
  imports Prelude
begin

text \<open>
  The hash chain that almost every module of the sources keeps: records that carry their own hash and
  the hash of the record before, starting from the all-zero genesis hash.  \<open>verify_from\<close> is the
  loop of every \<open>verify_chain\<close>; \<open>chained\<close> is what it decides.  The locale \<open>hash_log\<close> states what
  a module has to provide, the injectivity of the bytes it hashes, and gives it the tamper evidence of
  its log: two logs that verify and end in the same hash hold the same committed fields, unless the
  hash function has collided on the bytes of their records or produced the genesis hash.
\<close>

section \<open>Verification\<close>

definition genesis :: hash where
  "genesis = 0"

definition last_hash :: "('r \<Rightarrow> hash) \<Rightarrow> 'r list \<Rightarrow> hash" where
  "last_hash hsh rs = (if rs = [] then genesis else hsh (last rs))"

fun verify_from ::
  "('r \<Rightarrow> hash) \<Rightarrow> ('r \<Rightarrow> hash) \<Rightarrow> ('r \<Rightarrow> hash) \<Rightarrow> nat \<Rightarrow> hash \<Rightarrow> 'r list \<Rightarrow> bool \<times> nat option" where
  "verify_from prv hsh recomputed i expected_prev [] = (True, None)"
| "verify_from prv hsh recomputed i expected_prev (r # rs) =
     (if prv r \<noteq> expected_prev then (False, Some i)
      else if recomputed r \<noteq> hsh r then (False, Some i)
      else verify_from prv hsh recomputed (Suc i) (hsh r) rs)"

fun chained :: "('r \<Rightarrow> hash) \<Rightarrow> ('r \<Rightarrow> hash) \<Rightarrow> ('r \<Rightarrow> hash) \<Rightarrow> hash \<Rightarrow> 'r list \<Rightarrow> bool" where
  "chained prv hsh recomputed g [] \<longleftrightarrow> True"
| "chained prv hsh recomputed g (r # rs) \<longleftrightarrow>
     prv r = g \<and> hsh r = recomputed r \<and> chained prv hsh recomputed (hsh r) rs"

lemma last_hash_simps [simp]:
  "last_hash hsh [] = genesis"
  "last_hash hsh (rs @ [r]) = hsh r"
  by (simp_all add: last_hash_def)

lemma last_hash_eq: "rs \<noteq> [] \<Longrightarrow> last_hash hsh rs = hsh (last rs)"
  by (simp add: last_hash_def)

lemma verify_from_iff:
  "verify_from prv hsh rc i g rs = (True, None) \<longleftrightarrow> chained prv hsh rc g rs"
  by (induction rs arbitrary: i g) auto

lemma verify_from_cases:
  "verify_from prv hsh rc i g rs = (True, None) \<or>
   (\<exists>j. verify_from prv hsh rc i g rs = (False, Some j) \<and> i \<le> j \<and> j < i + length rs)"
proof (induction rs arbitrary: i g)
  case Nil
  then show ?case by simp
next
  case (Cons r rs)
  from Cons.IH [of "Suc i" "hsh r"] show ?case by auto
qed

text \<open>The index a failed verification reports is the first record at which the chain breaks.\<close>

lemma verify_from_first_broken:
  "verify_from prv hsh rc i g rs = (False, Some (i + j)) \<Longrightarrow>
   chained prv hsh rc g (take j rs) \<and> \<not> chained prv hsh rc g (take (Suc j) rs)"
proof (induction rs arbitrary: i g j)
  case Nil
  then show ?case by simp
next
  case (Cons r rs)
  show ?case
  proof (cases "prv r = g \<and> rc r = hsh r")
    case False
    with Cons.prems have "j = 0" by (auto split: if_splits)
    with False show ?thesis by auto
  next
    case True
    with Cons.prems have v: "verify_from prv hsh rc (Suc i) (hsh r) rs = (False, Some (i + j))"
      by simp
    then obtain k where j: "j = Suc k"
      using verify_from_cases [of prv hsh rc "Suc i" "hsh r" rs] by (cases j) auto
    with v Cons.IH [of "Suc i" "hsh r" k] True show ?thesis by simp
  qed
qed

lemma chained_snoc [simp]:
  "chained prv hsh rc genesis (rs @ [r]) \<longleftrightarrow>
   chained prv hsh rc genesis rs \<and> prv r = last_hash hsh rs \<and> hsh r = rc r"
proof -
  have "chained prv hsh rc g (rs @ [r]) \<longleftrightarrow>
      chained prv hsh rc g rs \<and> prv r = (if rs = [] then g else hsh (last rs)) \<and> hsh r = rc r" for g
    by (induction rs arbitrary: g) auto
  then show ?thesis by (simp add: last_hash_def)
qed

lemma chained_hash: "chained prv hsh rc g rs \<Longrightarrow> r \<in> set rs \<Longrightarrow> hsh r = rc r"
  by (induction rs arbitrary: g) auto

section \<open>Tamper evidence\<close>

text \<open>
  A forgery between two sets of hashed byte strings: two different strings of them with one hash, or
  one whose hash is the genesis hash.
\<close>

definition forgery :: "sha \<Rightarrow> bytes set \<Rightarrow> bool" where
  "forgery sha A \<longleftrightarrow> (\<exists>x \<in> A. \<exists>y \<in> A. x \<noteq> y \<and> sha x = sha y) \<or> (\<exists>x \<in> A. sha x = genesis)"

lemma forgery_mono: "forgery sha A \<Longrightarrow> A \<subseteq> B \<Longrightarrow> forgery sha B"
  by (auto simp: forgery_def)

lemma forgery_collision: "sha x = sha y \<Longrightarrow> x \<noteq> y \<Longrightarrow> x \<in> A \<Longrightarrow> y \<in> A \<Longrightarrow> forgery sha A"
  by (auto simp: forgery_def)

lemma forgery_genesis: "sha x = genesis \<Longrightarrow> x \<in> A \<Longrightarrow> forgery sha A"
  by (auto simp: forgery_def)

locale hash_log =
  fixes pre :: "'r \<Rightarrow> bytes"
    and prv hsh :: "'r \<Rightarrow> hash"
    and committed :: "'r \<Rightarrow> 'c"
  assumes pre_prv: "pre r = pre s \<Longrightarrow> prv r = prv s"
    and pre_committed: "pre r = pre s \<Longrightarrow> committed r = committed s"
begin

abbreviation ok :: "sha \<Rightarrow> 'r list \<Rightarrow> bool" where
  "ok sha rs \<equiv> chained prv hsh (\<lambda>r. sha (pre r)) genesis rs"

lemma ok_snoc:
  "ok sha (rs @ [r]) \<longleftrightarrow> ok sha rs \<and> prv r = last_hash hsh rs \<and> hsh r = sha (pre r)"
  by (rule chained_snoc)

lemma tamper_evident:
  assumes "ok sha rs" and "ok sha ss" and "last_hash hsh rs = last_hash hsh ss"
  shows "map committed rs = map committed ss \<or> forgery sha (pre ` (set rs \<union> set ss))"
  using assms
proof (induction rs arbitrary: ss rule: rev_induct)
  case Nil
  show ?case
  proof (cases ss rule: rev_cases)
    case (snoc ss' s)
    with Nil have "sha (pre s) = genesis" by (auto simp: ok_snoc)
    then show ?thesis using snoc by (auto intro: forgery_genesis [of sha "pre s"])
  qed simp
next
  case (snoc r rs)
  note prems = snoc.prems and IH = snoc.IH
  show ?case
  proof (cases ss rule: rev_cases)
    case Nil
    with prems have "sha (pre r) = genesis" by (auto simp: ok_snoc)
    then show ?thesis by (auto intro: forgery_genesis [of sha "pre r"])
  next
    case (snoc ss' s)
    have ok: "ok sha rs" "ok sha ss'" and eq: "sha (pre r) = sha (pre s)"
      and prv: "prv r = last_hash hsh rs" "prv s = last_hash hsh ss'"
      using prems snoc by (auto simp: ok_snoc)
    show ?thesis
    proof (cases "pre r = pre s")
      case False
      with eq have "forgery sha (pre ` (set (rs @ [r]) \<union> set ss))"
        by (rule forgery_collision) (simp_all add: snoc)
      then show ?thesis ..
    next
      case True
      then have "last_hash hsh rs = last_hash hsh ss'" using prv pre_prv [of r s] by simp
      from IH [OF ok this] show ?thesis
      proof
        assume "map committed rs = map committed ss'"
        then show ?thesis using pre_committed [OF True] by (simp add: snoc)
      next
        assume "forgery sha (pre ` (set rs \<union> set ss'))"
        then have "forgery sha (pre ` (set (rs @ [r]) \<union> set ss))"
          by (rule forgery_mono) (auto simp: snoc)
        then show ?thesis ..
      qed
    qed
  qed
qed

end

end
