(* ===== verification/Token_Bucket.thy ===== *)
theory Token_Bucket
  imports Ordered_Map Hash_Chain
begin

text \<open>
  Gate 303, \<open>aegis-cl-psi/src/token_bucket.rs\<close>: a token bucket per peer and the hash-chained log of
  its decisions.  The component's promise is a rate bound, proved by interpreting
  \<open>budgeted_machine\<close> on the registry: no schedule of messages and ticks lets a peer through more
  often than the initial capacity plus the refills.
\<close>

section \<open>Decisions and records\<close>

definition DEFAULT_CAPACITY :: u32 where "DEFAULT_CAPACITY = 100"
definition DEFAULT_REFILL_RATE :: u32 where "DEFAULT_REFILL_RATE = 10"

datatype BucketDecision = Allow | RateLimited

fun decision_byte :: "BucketDecision \<Rightarrow> u8" where
  "decision_byte Allow = 0"
| "decision_byte RateLimited = 1"

definition is_allowed :: "BucketDecision \<Rightarrow> bool" where
  "is_allowed d = (case d of Allow \<Rightarrow> True | _ \<Rightarrow> False)"

record BucketRecord =
  br_peer_id :: u32
  br_epoch :: u64
  br_tokens_before :: u32
  br_tokens_after :: u32
  br_decision :: BucketDecision
  br_record_hash :: hash
  br_prev_hash :: hash

definition bucket_bytes :: "u32 \<Rightarrow> u64 \<Rightarrow> u32 \<Rightarrow> u32 \<Rightarrow> BucketDecision \<Rightarrow> hash \<Rightarrow> bytes" where
  "bucket_bytes peer_id epoch tokens_before tokens_after decision prev =
     hash_bytes prev @ be4 peer_id @ be8 epoch @ be4 tokens_before @ be4 tokens_after
     @ [decision_byte decision]"

definition compute_bucket_hash ::
  "sha \<Rightarrow> u32 \<Rightarrow> u64 \<Rightarrow> u32 \<Rightarrow> u32 \<Rightarrow> BucketDecision \<Rightarrow> hash \<Rightarrow> hash" where
  "compute_bucket_hash sha peer_id epoch tokens_before tokens_after decision prev =
     sha (bucket_bytes peer_id epoch tokens_before tokens_after decision prev)"

definition build_bucket_record ::
  "sha \<Rightarrow> u32 \<Rightarrow> u64 \<Rightarrow> u32 \<Rightarrow> u32 \<Rightarrow> BucketDecision \<Rightarrow> hash \<Rightarrow> BucketRecord" where
  "build_bucket_record sha peer_id epoch tokens_before tokens_after decision prev_hash =
     \<lparr>br_peer_id = peer_id, br_epoch = epoch, br_tokens_before = tokens_before,
      br_tokens_after = tokens_after, br_decision = decision,
      br_record_hash = compute_bucket_hash sha peer_id epoch tokens_before tokens_after decision prev_hash,
      br_prev_hash = prev_hash\<rparr>"

record BucketLog =
  bl_peer_id :: u32
  bl_records :: "BucketRecord list"

definition BucketLog_new :: "u32 \<Rightarrow> BucketLog" where
  "BucketLog_new peer_id = \<lparr>bl_peer_id = peer_id, bl_records = []\<rparr>"

definition BucketLog_last_hash :: "BucketLog \<Rightarrow> hash" where
  "BucketLog_last_hash l = last_hash br_record_hash (bl_records l)"

definition BucketLog_push :: "sha \<Rightarrow> u64 \<Rightarrow> u32 \<Rightarrow> u32 \<Rightarrow> BucketDecision \<Rightarrow> BucketLog \<Rightarrow> BucketLog" where
  "BucketLog_push sha epoch tokens_before tokens_after decision l =
     (let prev = BucketLog_last_hash l;
          r = build_bucket_record sha (bl_peer_id l) epoch tokens_before tokens_after decision prev
      in l\<lparr>bl_records := bl_records l @ [r]\<rparr>)"

definition BucketLog_allow_count :: "BucketLog \<Rightarrow> nat" where
  "BucketLog_allow_count l = length (filter (\<lambda>r. br_decision r = Allow) (bl_records l))"

definition BucketLog_rate_limited_count :: "BucketLog \<Rightarrow> nat" where
  "BucketLog_rate_limited_count l = length (filter (\<lambda>r. br_decision r = RateLimited) (bl_records l))"

definition BucketRecord_bytes :: "BucketRecord \<Rightarrow> bytes" where
  "BucketRecord_bytes r =
     bucket_bytes (br_peer_id r) (br_epoch r) (br_tokens_before r) (br_tokens_after r) (br_decision r)
       (br_prev_hash r)"

definition BucketLog_verify_chain :: "sha \<Rightarrow> BucketLog \<Rightarrow> bool \<times> nat option" where
  "BucketLog_verify_chain sha l =
     verify_from br_prev_hash br_record_hash (\<lambda>r. sha (BucketRecord_bytes r)) 0 genesis (bl_records l)"

section \<open>The bucket of one peer\<close>

record TokenBucket =
  tb_tokens :: u32
  tb_capacity :: u32
  tb_refill_rate :: u32

definition TokenBucket_new :: "u32 \<Rightarrow> u32 \<Rightarrow> TokenBucket" where
  "TokenBucket_new capacity refill_rate =
     \<lparr>tb_tokens = capacity, tb_capacity = capacity, tb_refill_rate = refill_rate\<rparr>"

definition TokenBucket_is_full :: "TokenBucket \<Rightarrow> bool" where
  "TokenBucket_is_full b = (tb_tokens b = tb_capacity b)"

definition TokenBucket_consume :: "TokenBucket \<Rightarrow> BucketDecision \<times> TokenBucket" where
  "TokenBucket_consume b =
     (if tb_tokens b > 0 then (Allow, b\<lparr>tb_tokens := tb_tokens b - 1\<rparr>) else (RateLimited, b))"

definition TokenBucket_tick_refill :: "TokenBucket \<Rightarrow> TokenBucket" where
  "TokenBucket_tick_refill b =
     b\<lparr>tb_tokens := min (sat_add (tb_tokens b) (tb_refill_rate b)) (tb_capacity b)\<rparr>"

section \<open>The registry\<close>

record PeerBucketState =
  ps_bucket :: TokenBucket
  ps_log :: BucketLog

type_synonym TokenBucketRegistry = "(u32, PeerBucketState) btmap"

definition TokenBucketRegistry_new :: TokenBucketRegistry where
  "TokenBucketRegistry_new = bt_empty"

definition PeerBucketState_default :: "u32 \<Rightarrow> PeerBucketState" where
  "PeerBucketState_default peer_id =
     \<lparr>ps_bucket = TokenBucket_new DEFAULT_CAPACITY DEFAULT_REFILL_RATE, ps_log = BucketLog_new peer_id\<rparr>"

definition TokenBucketRegistry_ensure_peer :: "u32 \<Rightarrow> TokenBucketRegistry \<Rightarrow> TokenBucketRegistry" where
  "TokenBucketRegistry_ensure_peer peer_id peers = bt_or_insert peer_id (PeerBucketState_default peer_id) peers"

definition TokenBucketRegistry_consume ::
  "sha \<Rightarrow> u32 \<Rightarrow> u64 \<Rightarrow> TokenBucketRegistry \<Rightarrow> BucketDecision \<times> TokenBucketRegistry" where
  "TokenBucketRegistry_consume sha peer_id epoch peers =
     (let peers = TokenBucketRegistry_ensure_peer peer_id peers;
          state = bt_get_or (PeerBucketState_default peer_id) peers peer_id;
          before = tb_tokens (ps_bucket state);
          (decision, bucket) = TokenBucket_consume (ps_bucket state);
          after = tb_tokens bucket;
          log = BucketLog_push sha epoch before after decision (ps_log state)
      in (decision, bt_insert peer_id \<lparr>ps_bucket = bucket, ps_log = log\<rparr> peers))"

definition TokenBucketRegistry_tick_refill_all :: "TokenBucketRegistry \<Rightarrow> TokenBucketRegistry" where
  "TokenBucketRegistry_tick_refill_all peers =
     bt_map (\<lambda>_ state. state\<lparr>ps_bucket := TokenBucket_tick_refill (ps_bucket state)\<rparr>) peers"

definition TokenBucketRegistry_tokens :: "u32 \<Rightarrow> TokenBucketRegistry \<Rightarrow> u32" where
  "TokenBucketRegistry_tokens peer_id peers =
     (case bt_get peers peer_id of Some s \<Rightarrow> tb_tokens (ps_bucket s) | None \<Rightarrow> DEFAULT_CAPACITY)"

definition TokenBucketRegistry_get_log :: "u32 \<Rightarrow> TokenBucketRegistry \<Rightarrow> BucketLog option" where
  "TokenBucketRegistry_get_log peer_id peers = map_option ps_log (bt_get peers peer_id)"

definition TokenBucketRegistry_peer_count :: "TokenBucketRegistry \<Rightarrow> nat" where
  "TokenBucketRegistry_peer_count peers = bt_len peers"

section \<open>The log is tamper evident\<close>

lemma decision_byte_inj [simp]: "decision_byte d = decision_byte d' \<longleftrightarrow> d = d'"
  by (cases d; cases d') auto

lemma bucket_bytes_inj:
  "bucket_bytes p e b a d h = bucket_bytes p' e' b' a' d' h' \<longleftrightarrow>
   p = p' \<and> e = e' \<and> b = b' \<and> a = a' \<and> d = d' \<and> h = h'"
  by (auto simp: bucket_bytes_def enc_simps)

definition BucketRecord_committed :: "BucketRecord \<Rightarrow> u32 \<times> u64 \<times> u32 \<times> u32 \<times> BucketDecision" where
  "BucketRecord_committed r =
     (br_peer_id r, br_epoch r, br_tokens_before r, br_tokens_after r, br_decision r)"

interpretation bucket_chain: hash_log BucketRecord_bytes br_prev_hash br_record_hash BucketRecord_committed
  by unfold_locales (auto simp: BucketRecord_bytes_def BucketRecord_committed_def bucket_bytes_inj)

definition BucketLog_ok :: "sha \<Rightarrow> BucketLog \<Rightarrow> bool" where
  "BucketLog_ok sha l \<longleftrightarrow> bucket_chain.ok sha (bl_records l)"

lemma BucketLog_verify_iff: "BucketLog_verify_chain sha l = (True, None) \<longleftrightarrow> BucketLog_ok sha l"
  by (simp add: BucketLog_verify_chain_def BucketLog_ok_def verify_from_iff)

lemma BucketLog_tamper_evident:
  assumes "BucketLog_ok sha l" "BucketLog_ok sha l'" "BucketLog_last_hash l = BucketLog_last_hash l'"
  shows "map BucketRecord_committed (bl_records l) = map BucketRecord_committed (bl_records l') \<or>
    forgery sha (BucketRecord_bytes ` (set (bl_records l) \<union> set (bl_records l')))"
  using assms bucket_chain.tamper_evident by (simp add: BucketLog_ok_def BucketLog_last_hash_def)

lemma BucketLog_ok_new [simp]: "BucketLog_ok sha (BucketLog_new p)"
  by (simp add: BucketLog_ok_def BucketLog_new_def)

lemma BucketLog_ok_push [simp]:
  "BucketLog_ok sha (BucketLog_push sha e b a d l) \<longleftrightarrow> BucketLog_ok sha l"
  by (simp add: BucketLog_ok_def BucketLog_push_def BucketLog_last_hash_def
      build_bucket_record_def compute_bucket_hash_def BucketRecord_bytes_def Let_def)

lemma BucketLog_push_simps [simp]:
  "bl_peer_id (BucketLog_push sha e b a d l) = bl_peer_id l"
  "BucketLog_allow_count (BucketLog_push sha e b a d l) =
     BucketLog_allow_count l + (if d = Allow then 1 else 0)"
  by (simp_all add: BucketLog_push_def Let_def BucketLog_allow_count_def build_bucket_record_def)

lemma BucketLog_new_simps [simp]:
  "bl_peer_id (BucketLog_new p) = p" "BucketLog_allow_count (BucketLog_new p) = 0"
  by (simp_all add: BucketLog_new_def BucketLog_allow_count_def)

section \<open>The rate bound\<close>

definition TokenBucket_wf :: "TokenBucket \<Rightarrow> bool" where
  "TokenBucket_wf b \<longleftrightarrow> tb_tokens b \<le> tb_capacity b"

lemma TokenBucket_wf_new [simp]: "TokenBucket_wf (TokenBucket_new c r)"
  by (simp add: TokenBucket_wf_def TokenBucket_new_def)

lemma TokenBucket_consume_spec:
  assumes "TokenBucket_consume b = (d, b')"
  shows "tb_capacity b' = tb_capacity b" "tb_refill_rate b' = tb_refill_rate b"
    "TokenBucket_wf b \<Longrightarrow> TokenBucket_wf b'"
    "unat (tb_tokens b') + (if d = Allow then 1 else 0) = unat (tb_tokens b)"
    "d = RateLimited \<longleftrightarrow> tb_tokens b = 0"
proof -
  have pos: "0 < tb_tokens b \<Longrightarrow> unat (tb_tokens b - 1) + 1 = unat (tb_tokens b)"
    using unat_dec [of "tb_tokens b"] by (simp add: word_less_nat_alt)
  show "tb_capacity b' = tb_capacity b" "tb_refill_rate b' = tb_refill_rate b"
    "unat (tb_tokens b') + (if d = Allow then 1 else 0) = unat (tb_tokens b)"
    "d = RateLimited \<longleftrightarrow> tb_tokens b = 0"
    using assms pos by (auto simp: TokenBucket_consume_def word_gt_0 split: if_splits)
  show "TokenBucket_wf b \<Longrightarrow> TokenBucket_wf b'"
    using assms pos by (auto simp: TokenBucket_consume_def TokenBucket_wf_def word_le_nat_alt split: if_splits)
qed

lemma TokenBucket_tick_spec:
  "TokenBucket_wf (TokenBucket_tick_refill b)"
  "tb_capacity (TokenBucket_tick_refill b) = tb_capacity b"
  "tb_refill_rate (TokenBucket_tick_refill b) = tb_refill_rate b"
  "unat (tb_tokens (TokenBucket_tick_refill b)) \<le> unat (tb_tokens b) + unat (tb_refill_rate b)"
proof -
  have "unat (min (sat_add (tb_tokens b) (tb_refill_rate b)) (tb_capacity b))
      \<le> unat (sat_add (tb_tokens b) (tb_refill_rate b))"
    by (simp add: word_le_nat_alt [symmetric])
  then show "unat (tb_tokens (TokenBucket_tick_refill b)) \<le> unat (tb_tokens b) + unat (tb_refill_rate b)"
    by (simp add: TokenBucket_tick_refill_def sat_simps)
qed (simp_all add: TokenBucket_tick_refill_def TokenBucket_wf_def)

datatype TokenOp = Consume u32 u64 | TickRefillAll

fun token_step :: "sha \<Rightarrow> TokenOp \<Rightarrow> TokenBucketRegistry \<Rightarrow> TokenBucketRegistry" where
  "token_step sha (Consume p e) reg = snd (TokenBucketRegistry_consume sha p e reg)"
| "token_step sha TickRefillAll reg = TokenBucketRegistry_tick_refill_all reg"

fun allowed_to :: "u32 \<Rightarrow> sha \<Rightarrow> TokenOp \<Rightarrow> TokenBucketRegistry \<Rightarrow> nat" where
  "allowed_to p sha (Consume q e) reg =
     (if q = p \<and> fst (TokenBucketRegistry_consume sha q e reg) = Allow then 1 else 0)"
| "allowed_to p sha TickRefillAll reg = 0"

fun refilled :: "TokenOp \<Rightarrow> TokenBucketRegistry \<Rightarrow> nat" where
  "refilled (Consume q e) reg = 0"
| "refilled TickRefillAll reg = unat DEFAULT_REFILL_RATE"

definition peer_ok :: "sha \<Rightarrow> u32 \<Rightarrow> PeerBucketState \<Rightarrow> bool" where
  "peer_ok sha p s \<longleftrightarrow> TokenBucket_wf (ps_bucket s) \<and> tb_capacity (ps_bucket s) = DEFAULT_CAPACITY \<and>
     tb_refill_rate (ps_bucket s) = DEFAULT_REFILL_RATE \<and> bl_peer_id (ps_log s) = p \<and>
     BucketLog_ok sha (ps_log s)"

definition registry_ok :: "sha \<Rightarrow> TokenBucketRegistry \<Rightarrow> bool" where
  "registry_ok sha reg \<longleftrightarrow> (\<forall>p s. bt_get reg p = Some s \<longrightarrow> peer_ok sha p s)"

lemma peer_ok_default [simp]: "peer_ok sha p (PeerBucketState_default p)"
  by (simp add: peer_ok_def PeerBucketState_default_def) (simp add: TokenBucket_new_def)

lemma registry_ok_get_or:
  "registry_ok sha reg \<Longrightarrow> peer_ok sha p (bt_get_or (PeerBucketState_default p) reg p)"
  by (auto simp: registry_ok_def bt_get_or_def split: option.splits)

text \<open>What one consume does to the registry, and to the state of its peer.\<close>

definition consume_state :: "sha \<Rightarrow> u64 \<Rightarrow> PeerBucketState \<Rightarrow> BucketDecision \<times> PeerBucketState" where
  "consume_state sha e s =
     (let (d, b) = TokenBucket_consume (ps_bucket s)
      in (d, \<lparr>ps_bucket = b,
              ps_log = BucketLog_push sha e (tb_tokens (ps_bucket s)) (tb_tokens b) d (ps_log s)\<rparr>))"

lemma registry_consume_eq:
  "TokenBucketRegistry_consume sha p e reg =
     (let (d, s) = consume_state sha e (bt_get_or (PeerBucketState_default p) reg p)
      in (d, bt_insert p s reg))"
proof -
  have "bt_get_or (PeerBucketState_default p) (TokenBucketRegistry_ensure_peer p reg) p =
      bt_get_or (PeerBucketState_default p) reg p"
    by (simp add: TokenBucketRegistry_ensure_peer_def bt_get_or_def bt_has_def split: option.splits)
  then show ?thesis
    by (simp add: TokenBucketRegistry_consume_def consume_state_def Let_def case_prod_beta
        TokenBucketRegistry_ensure_peer_def)
qed

lemma consume_state_spec:
  assumes "consume_state sha e s = (d, s')"
  shows "peer_ok sha p s \<Longrightarrow> peer_ok sha p s'"
    "unat (tb_tokens (ps_bucket s')) + (if d = Allow then 1 else 0) = unat (tb_tokens (ps_bucket s))"
    "BucketLog_allow_count (ps_log s') = BucketLog_allow_count (ps_log s) + (if d = Allow then 1 else 0)"
proof -
  obtain b where b: "TokenBucket_consume (ps_bucket s) = (d, b)"
    and s': "s' = \<lparr>ps_bucket = b,
      ps_log = BucketLog_push sha e (tb_tokens (ps_bucket s)) (tb_tokens b) d (ps_log s)\<rparr>"
    using assms by (auto simp: consume_state_def Let_def split: prod.splits)
  note spec = TokenBucket_consume_spec [OF b]
  show "peer_ok sha p s \<Longrightarrow> peer_ok sha p s'"
    using spec by (simp add: peer_ok_def s')
  show "unat (tb_tokens (ps_bucket s')) + (if d = Allow then 1 else 0) = unat (tb_tokens (ps_bucket s))"
    "BucketLog_allow_count (ps_log s') = BucketLog_allow_count (ps_log s) + (if d = Allow then 1 else 0)"
    using spec by (simp_all add: s')
qed

lemma registry_ok_step: "registry_ok sha reg \<Longrightarrow> registry_ok sha (token_step sha op reg)"
proof (cases op)
  case (Consume p e)
  assume ok: "registry_ok sha reg"
  obtain d s where s: "consume_state sha e (bt_get_or (PeerBucketState_default p) reg p) = (d, s)"
    by fastforce
  have "peer_ok sha p s"
    using consume_state_spec(1) [OF s] registry_ok_get_or [OF ok] .
  with ok show ?thesis
    by (auto simp: Consume registry_consume_eq s registry_ok_def)
next
  case TickRefillAll
  assume "registry_ok sha reg"
  then show ?thesis
    by (auto simp: TickRefillAll TokenBucketRegistry_tick_refill_all_def registry_ok_def peer_ok_def
        TokenBucket_tick_spec)
qed

lemma tokens_get_or:
  "TokenBucketRegistry_tokens p reg = tb_tokens (ps_bucket (bt_get_or (PeerBucketState_default p) reg p))"
  by (simp add: TokenBucketRegistry_tokens_def bt_get_or_def PeerBucketState_default_def
      TokenBucket_new_def split: option.split)

interpretation token_registry: budgeted_machine "token_step sha" "registry_ok sha"
  "allowed_to p sha" refilled "\<lambda>reg. unat (TokenBucketRegistry_tokens p reg)" for sha p
proof
  fix op reg
  show "registry_ok sha reg \<Longrightarrow> registry_ok sha (token_step sha op reg)"
    by (rule registry_ok_step)
  assume ok: "registry_ok sha reg"
  show "unat (TokenBucketRegistry_tokens p (token_step sha op reg)) + allowed_to p sha op reg
      \<le> unat (TokenBucketRegistry_tokens p reg) + refilled op reg"
  proof (cases op)
    case (Consume q e)
    obtain d s where s: "consume_state sha e (bt_get_or (PeerBucketState_default q) reg q) = (d, s)"
      by fastforce
    show ?thesis
      using consume_state_spec(2) [OF s] by (auto simp: Consume registry_consume_eq s tokens_get_or)
  next
    case TickRefillAll
    have "tb_refill_rate (ps_bucket (bt_get_or (PeerBucketState_default p) reg p)) = DEFAULT_REFILL_RATE"
      using registry_ok_get_or [OF ok, of p] by (simp add: peer_ok_def)
    then show ?thesis
      using TokenBucket_tick_spec(4) [of "ps_bucket (bt_get_or (PeerBucketState_default p) reg p)"]
      by (simp add: TickRefillAll TokenBucketRegistry_tick_refill_all_def tokens_get_or bt_get_or_def
          split: option.splits)
  qed
qed

text \<open>The log of a peer counts exactly the messages it was allowed.\<close>

definition logged_allows :: "u32 \<Rightarrow> TokenBucketRegistry \<Rightarrow> nat" where
  "logged_allows p reg =
     (case TokenBucketRegistry_get_log p reg of None \<Rightarrow> 0 | Some l \<Rightarrow> BucketLog_allow_count l)"

lemma logged_allows_get_or:
  "logged_allows p reg = BucketLog_allow_count (ps_log (bt_get_or (PeerBucketState_default p) reg p))"
  by (simp add: logged_allows_def TokenBucketRegistry_get_log_def bt_get_or_def
      PeerBucketState_default_def split: option.split)

lemma logged_allows_step:
  "logged_allows p (token_step sha op reg) = logged_allows p reg + allowed_to p sha op reg"
proof (cases op)
  case (Consume q e)
  obtain d s where s: "consume_state sha e (bt_get_or (PeerBucketState_default q) reg q) = (d, s)"
    by fastforce
  show ?thesis
    using consume_state_spec(3) [OF s] by (auto simp: Consume registry_consume_eq s logged_allows_get_or)
next
  case TickRefillAll
  then show ?thesis
    by (simp add: TokenBucketRegistry_tick_refill_all_def logged_allows_get_or bt_get_or_def
        split: option.split)
qed

lemma logged_allows_run:
  "logged_allows p (run (token_step sha) ops reg) =
   logged_allows p reg + total (token_step sha) (allowed_to p sha) ops reg"
  by (induction ops arbitrary: reg) (simp_all add: logged_allows_step)

lemma total_refilled:
  "total (token_step sha) refilled ops reg = 10 * length (filter (\<lambda>op. op = TickRefillAll) ops)"
proof (induction ops arbitrary: reg)
  case Nil
  then show ?case by simp
next
  case (Cons op ops)
  then show ?case by (cases op) (simp_all add: DEFAULT_REFILL_RATE_def)
qed

lemma registry_ok_new [simp]: "registry_ok sha TokenBucketRegistry_new"
  by (simp add: registry_ok_def TokenBucketRegistry_new_def)

lemma registry_new_simps [simp]:
  "TokenBucketRegistry_tokens p TokenBucketRegistry_new = DEFAULT_CAPACITY"
  "logged_allows p TokenBucketRegistry_new = 0"
  by (simp_all add: TokenBucketRegistry_new_def TokenBucketRegistry_tokens_def logged_allows_def
      TokenBucketRegistry_get_log_def)

section \<open>Properties\<close>

text \<open>
  C1.  Rate bound: starting from the empty registry, whatever peers send and however the ticks fall
  between, the messages a peer was let through number at most its capacity of 100 plus 10 per tick,
  the tokens it still holds included; and that number is the one its log shows.
\<close>

theorem token_rate_bound:
  "let reg = run (token_step sha) ops TokenBucketRegistry_new
   in logged_allows p reg = total (token_step sha) (allowed_to p sha) ops TokenBucketRegistry_new \<and>
      logged_allows p reg + unat (TokenBucketRegistry_tokens p reg)
        \<le> 100 + 10 * length (filter (\<lambda>op. op = TickRefillAll) ops)"
  using token_registry.run_level [of sha TokenBucketRegistry_new p ops]
  by (simp add: Let_def logged_allows_run total_refilled DEFAULT_CAPACITY_def)

text \<open>
  The logs are sound and tamper evident: after any run, the log of every peer passes
  \<open>verify_chain\<close>; and another log that passes it and ends in the same hash holds the same
  decisions, unless SHA-256 has been forged on the bytes of their records.
\<close>

theorem token_log_tamper_evident:
  "TokenBucketRegistry_get_log p (run (token_step sha) ops TokenBucketRegistry_new) = Some l \<Longrightarrow>
   BucketLog_verify_chain sha l = (True, None) \<and>
   (BucketLog_verify_chain sha l' = (True, None) \<longrightarrow>
    BucketLog_last_hash l = BucketLog_last_hash l' \<longrightarrow>
      map BucketRecord_committed (bl_records l) = map BucketRecord_committed (bl_records l') \<or>
      forgery sha (BucketRecord_bytes ` (set (bl_records l) \<union> set (bl_records l'))))"
proof -
  assume l: "TokenBucketRegistry_get_log p (run (token_step sha) ops TokenBucketRegistry_new) = Some l"
  have "registry_ok sha (run (token_step sha) ops TokenBucketRegistry_new)"
    by (rule token_registry.run_inv) simp
  with l have "BucketLog_ok sha l"
    by (auto simp: registry_ok_def peer_ok_def TokenBucketRegistry_get_log_def)
  then show ?thesis
    using BucketLog_tamper_evident by (simp add: BucketLog_verify_iff)
qed

text \<open>A hash function to evaluate the witnesses with: the bytes read as one number.\<close>

lemma token_log_tamper_evident_witness:
  "\<exists>l. TokenBucketRegistry_get_log 7 (run (token_step from_be) [Consume 7 1, TickRefillAll]
          TokenBucketRegistry_new) = Some l \<and>
       bl_records l \<noteq> [] \<and> BucketLog_verify_chain from_be l = (True, None)"
proof -
  let ?reg = "run (token_step from_be) [Consume 7 1, TickRefillAll] TokenBucketRegistry_new"
  have "\<exists>l. TokenBucketRegistry_get_log 7 ?reg = Some l \<and> bl_records l \<noteq> []"
    by (simp add: TokenBucketRegistry_get_log_def TokenBucketRegistry_new_def registry_consume_eq
        consume_state_def TokenBucketRegistry_tick_refill_all_def BucketLog_push_def Let_def
        case_prod_beta)
  then obtain l where l: "TokenBucketRegistry_get_log 7 ?reg = Some l" and "bl_records l \<noteq> []"
    by blast
  with token_log_tamper_evident [OF l] show ?thesis by blast
qed

end
