(* ===== verification/Nonce_Cache.thy ===== *)
theory Nonce_Cache
  imports Ordered_Map Hash_Chain
begin

text \<open>
  Gate 306, \<open>aegis-cl-psi/src/nonce_cache.rs\<close>: replay detection over a window of epochs.  What the
  cache guarantees is proved exactly for any interleaving of checks and epoch advances: a nonce whose slot
  had room for it is a replay as long as the window has not passed its epoch, and epoch 0 leaves the
  window at the first advance.  So is what it does not guarantee: a nonce is fresh again once its
  epoch has left the window and where its slot was full, and since slots are per epoch a nonce
  checked under one epoch is fresh under another.
\<close>

section \<open>Decisions, records, log\<close>

datatype NonceDecision = Fresh | Replay

fun NonceDecision_byte :: "NonceDecision \<Rightarrow> u8" where
  "NonceDecision_byte Fresh = 0"
| "NonceDecision_byte Replay = 1"

lemma NonceDecision_byte_inj [simp]: "NonceDecision_byte x = NonceDecision_byte y \<longleftrightarrow> x = y"
  by (cases x; cases y) auto

record NonceRecord =
  nr_peer_id :: u32
  nr_epoch :: u64
  nr_nonce :: u64
  nr_decision :: NonceDecision
  nr_record_hash :: hash
  nr_prev_hash :: hash

definition nonce_bytes :: "u32 \<Rightarrow> u64 \<Rightarrow> u64 \<Rightarrow> NonceDecision \<Rightarrow> hash \<Rightarrow> bytes" where
  "nonce_bytes peer_id epoch nonce decision prev =
     hash_bytes prev @ be4 peer_id @ be8 epoch @ be8 nonce @ [NonceDecision_byte decision]"

definition compute_nonce_hash :: "sha \<Rightarrow> u32 \<Rightarrow> u64 \<Rightarrow> u64 \<Rightarrow> NonceDecision \<Rightarrow> hash \<Rightarrow> hash" where
  "compute_nonce_hash sha peer_id epoch nonce decision prev = sha (nonce_bytes peer_id epoch nonce decision prev)"

definition build_nonce_record :: "sha \<Rightarrow> u32 \<Rightarrow> u64 \<Rightarrow> u64 \<Rightarrow> NonceDecision \<Rightarrow> hash \<Rightarrow> NonceRecord" where
  "build_nonce_record sha peer_id epoch nonce decision prev_hash =
     \<lparr>nr_peer_id = peer_id, nr_epoch = epoch, nr_nonce = nonce, nr_decision = decision,
      nr_record_hash = compute_nonce_hash sha peer_id epoch nonce decision prev_hash, nr_prev_hash = prev_hash\<rparr>"

definition NonceRecord_bytes_of :: "NonceRecord \<Rightarrow> bytes" where
  "NonceRecord_bytes_of r = nonce_bytes (nr_peer_id r) (nr_epoch r) (nr_nonce r) (nr_decision r) (nr_prev_hash r)"

record NonceLog =
  nl_records :: "NonceRecord list"

definition NonceLog_new :: NonceLog where
  "NonceLog_new = \<lparr>nl_records = []\<rparr>"

definition NonceLog_last_hash :: "NonceLog \<Rightarrow> hash" where
  "NonceLog_last_hash l = last_hash nr_record_hash (nl_records l)"

definition NonceLog_push :: "sha \<Rightarrow> u32 \<Rightarrow> u64 \<Rightarrow> u64 \<Rightarrow> NonceDecision \<Rightarrow> NonceLog \<Rightarrow> NonceLog" where
  "NonceLog_push sha peer_id epoch nonce decision l =
     (let prev = NonceLog_last_hash l;
          r = build_nonce_record sha peer_id epoch nonce decision prev
      in l\<lparr>nl_records := nl_records l @ [r]\<rparr>)"

definition NonceLog_fresh_count :: "NonceLog \<Rightarrow> nat" where
  "NonceLog_fresh_count l = length (filter (\<lambda>r. nr_decision r = Fresh) (nl_records l))"

definition NonceLog_replay_count :: "NonceLog \<Rightarrow> nat" where
  "NonceLog_replay_count l = length (filter (\<lambda>r. nr_decision r = Replay) (nl_records l))"

definition NonceLog_verify_chain :: "sha \<Rightarrow> NonceLog \<Rightarrow> bool \<times> nat option" where
  "NonceLog_verify_chain sha l =
     verify_from nr_prev_hash nr_record_hash (\<lambda>r. sha (NonceRecord_bytes_of r)) 0 genesis (nl_records l)"

section \<open>The log is tamper evident\<close>

lemma nonce_bytes_inj:
  "nonce_bytes p0 e1 n2 d3 h = nonce_bytes p0' e1' n2' d3' h' \<longleftrightarrow>
   p0 = p0' \<and> e1 = e1' \<and> n2 = n2' \<and> d3 = d3' \<and> h = h'"
  by (auto simp: nonce_bytes_def enc_simps)

definition NonceRecord_committed :: "NonceRecord \<Rightarrow> u32 \<times> u64 \<times> u64 \<times> NonceDecision" where
  "NonceRecord_committed r = (nr_peer_id r, nr_epoch r, nr_nonce r, nr_decision r)"

interpretation nonce_chain: hash_log NonceRecord_bytes_of nr_prev_hash nr_record_hash NonceRecord_committed
  by unfold_locales (auto simp: NonceRecord_bytes_of_def NonceRecord_committed_def nonce_bytes_inj)

definition NonceLog_ok :: "sha \<Rightarrow> NonceLog \<Rightarrow> bool" where
  "NonceLog_ok sha l \<longleftrightarrow> nonce_chain.ok sha (nl_records l)"

lemma NonceLog_verify_iff: "NonceLog_verify_chain sha l = (True, None) \<longleftrightarrow> NonceLog_ok sha l"
  by (simp add: NonceLog_verify_chain_def NonceLog_ok_def verify_from_iff)

lemma NonceLog_tamper_evident:
  assumes "NonceLog_ok sha l" "NonceLog_ok sha l'" "NonceLog_last_hash l = NonceLog_last_hash l'"
  shows "map NonceRecord_committed (nl_records l) = map NonceRecord_committed (nl_records l') \<or>
    forgery sha (NonceRecord_bytes_of ` (set (nl_records l) \<union> set (nl_records l')))"
  using assms nonce_chain.tamper_evident by (simp add: NonceLog_ok_def NonceLog_last_hash_def)

lemma NonceLog_ok_new [simp]: "NonceLog_ok sha NonceLog_new"
  by (simp add: NonceLog_ok_def NonceLog_new_def)

lemma NonceLog_push_simps [simp]:
  "NonceLog_ok sha (NonceLog_push sha x0 x1 x2 x3 l) \<longleftrightarrow> NonceLog_ok sha l"
  "NonceLog_fresh_count (NonceLog_push sha x0 x1 x2 x3 l) = NonceLog_fresh_count l + (if x3 = Fresh then 1 else 0)"
  "NonceLog_replay_count (NonceLog_push sha x0 x1 x2 x3 l) = NonceLog_replay_count l + (if x3 = Replay then 1 else 0)"
  by (simp_all add: NonceLog_ok_def NonceLog_push_def NonceLog_last_hash_def build_nonce_record_def compute_nonce_hash_def NonceRecord_bytes_of_def Let_def NonceLog_fresh_count_def NonceLog_replay_count_def)

lemma NonceLog_new_simps [simp]:
  "NonceLog_fresh_count NonceLog_new = 0"
  "NonceLog_replay_count NonceLog_new = 0"
  by (simp_all add: NonceLog_new_def NonceLog_fresh_count_def NonceLog_replay_count_def)


section \<open>The cache\<close>

definition WINDOW_EPOCHS :: u64 where "WINDOW_EPOCHS = 8"
definition MAX_NONCES_PER_EPOCH :: nat where "MAX_NONCES_PER_EPOCH = 1024"

type_synonym NonceSlot = "(u32 \<times> u64, unit) btmap"

record NonceCache =
  nc_window :: "(u64, NonceSlot) btmap"
  nc_current_epoch :: u64
  nc_log :: NonceLog

definition NonceCache_new :: "u64 \<Rightarrow> NonceCache" where
  "NonceCache_new initial_epoch =
     \<lparr>nc_window = bt_empty, nc_current_epoch = initial_epoch, nc_log = NonceLog_new\<rparr>"

definition NonceCache_evict_old_epochs :: "NonceCache \<Rightarrow> NonceCache" where
  "NonceCache_evict_old_epochs c =
     (let cutoff = sat_sub (nc_current_epoch c) WINDOW_EPOCHS
      in c\<lparr>nc_window := bt_retain (\<lambda>epoch _. epoch > cutoff) (nc_window c)\<rparr>)"

definition NonceCache_advance_epoch :: "u64 \<Rightarrow> NonceCache \<Rightarrow> NonceCache" where
  "NonceCache_advance_epoch new_epoch c =
     (if new_epoch > nc_current_epoch c
      then NonceCache_evict_old_epochs (c\<lparr>nc_current_epoch := new_epoch\<rparr>) else c)"

definition NonceCache_check :: "sha \<Rightarrow> u32 \<Rightarrow> u64 \<Rightarrow> u64 \<Rightarrow> NonceCache \<Rightarrow> NonceDecision \<times> NonceCache" where
  "NonceCache_check sha peer_id epoch nonce c =
     (let c = (if epoch > nc_current_epoch c
               then NonceCache_evict_old_epochs (c\<lparr>nc_current_epoch := epoch\<rparr>) else c);
          slot = bt_get_or bt_empty (nc_window c) epoch;
          key = (peer_id, nonce);
          (decision, slot) =
            (if bt_has slot key then (Replay, slot)
             else (Fresh, if bt_len slot < MAX_NONCES_PER_EPOCH then bt_insert key () slot else slot))
      in (decision, c\<lparr>nc_window := bt_insert epoch slot (nc_window c),
                     nc_log := NonceLog_push sha peer_id epoch nonce decision (nc_log c)\<rparr>))"

definition NonceCache_window_size :: "NonceCache \<Rightarrow> nat" where
  "NonceCache_window_size c = sum_list (map bt_len (bt_values (nc_window c)))"

section \<open>What the window remembers\<close>

definition slot_of :: "NonceCache \<Rightarrow> u64 \<Rightarrow> NonceSlot" where
  "slot_of c e = bt_get_or bt_empty (nc_window c) e"

definition tracked :: "NonceCache \<Rightarrow> u32 \<Rightarrow> u64 \<Rightarrow> u64 \<Rightarrow> bool" where
  "tracked c p e n \<longleftrightarrow> bt_has (slot_of c e) (p, n)"

definition in_window :: "u64 \<Rightarrow> u64 \<Rightarrow> bool" where
  "in_window e cur \<longleftrightarrow> unat cur < unat e + 8"

text \<open>A check is an epoch advance followed by a look into, and an insertion in, one slot.\<close>

lemma nonce_check_eq:
  "NonceCache_check sha p e n c =
     (let c = NonceCache_advance_epoch e c;
          d = (if tracked c p e n then Replay else Fresh);
          slot = (if tracked c p e n \<or> MAX_NONCES_PER_EPOCH \<le> bt_len (slot_of c e) then slot_of c e
                  else bt_insert (p, n) () (slot_of c e))
      in (d, c\<lparr>nc_window := bt_insert e slot (nc_window c),
              nc_log := NonceLog_push sha p e n d (nc_log c)\<rparr>))"
  by (simp add: NonceCache_check_def NonceCache_advance_epoch_def tracked_def slot_of_def Let_def)

lemma advance_epoch_current:
  "nc_current_epoch (NonceCache_advance_epoch e c) = max e (nc_current_epoch c)"
  by (auto simp: NonceCache_advance_epoch_def NonceCache_evict_old_epochs_def max_def)

lemma advance_epoch_log [simp]: "nc_log (NonceCache_advance_epoch e c) = nc_log c"
  by (simp add: NonceCache_advance_epoch_def NonceCache_evict_old_epochs_def)

lemma cutoff_less_iff: "sat_sub cur WINDOW_EPOCHS < e \<longleftrightarrow> unat cur < unat e + 8 \<and> e \<noteq> 0"
proof -
  have "sat_sub cur WINDOW_EPOCHS < e \<longleftrightarrow> unat cur - 8 < unat e"
    by (simp add: word_less_nat_alt sat_simps WINDOW_EPOCHS_def)
  moreover have "e \<noteq> 0 \<longleftrightarrow> 0 < unat e" by (simp add: unat_gt_0)
  ultimately show ?thesis by linarith
qed

lemma slot_of_advance:
  "slot_of (NonceCache_advance_epoch cur c) e =
     (if nc_current_epoch c < cur \<and> \<not> (in_window e cur \<and> e \<noteq> 0) then bt_empty else slot_of c e)"
  by (auto simp: NonceCache_advance_epoch_def NonceCache_evict_old_epochs_def slot_of_def bt_get_or_def
      cutoff_less_iff in_window_def split: option.splits)

lemma slot_of_check:
  "slot_of (snd (NonceCache_check sha p e n c)) e' =
     (let c = NonceCache_advance_epoch e c
      in if e' = e \<and> \<not> tracked c p e n \<and> bt_len (slot_of c e) < MAX_NONCES_PER_EPOCH
         then bt_insert (p, n) () (slot_of c e) else slot_of c e')"
  by (auto simp: nonce_check_eq Let_def) (auto simp: slot_of_def)

datatype NonceOp = Check u32 u64 u64 | AdvanceEpoch u64

fun nonce_step :: "sha \<Rightarrow> NonceOp \<Rightarrow> NonceCache \<Rightarrow> NonceCache" where
  "nonce_step sha (Check p e n) c = snd (NonceCache_check sha p e n c)"
| "nonce_step sha (AdvanceEpoch e) c = NonceCache_advance_epoch e c"

fun op_epoch :: "NonceOp \<Rightarrow> u64" where
  "op_epoch (Check p e n) = e"
| "op_epoch (AdvanceEpoch e) = e"

definition slots_bounded :: "sha \<Rightarrow> NonceCache \<Rightarrow> bool" where
  "slots_bounded sha c \<longleftrightarrow> (\<forall>e. bt_len (slot_of c e) \<le> MAX_NONCES_PER_EPOCH) \<and> NonceLog_ok sha (nc_log c)"

interpretation nonce_machine: invariant_machine "nonce_step sha" "slots_bounded sha" for sha
proof
  fix op c
  assume inv: "slots_bounded sha c"
  then have adv: "slots_bounded sha (NonceCache_advance_epoch e c)" for e
    by (simp add: slots_bounded_def slot_of_advance)
  then have "slots_bounded sha (snd (NonceCache_check sha p e n c))" for p e n
    using adv [of e] by (auto simp: slots_bounded_def slot_of_check Let_def)
      (simp add: nonce_check_eq Let_def)
  with adv show "slots_bounded sha (nonce_step sha op c)" by (cases op) simp_all
qed

lemma check_decision: "fst (NonceCache_check sha p e n c) = (if tracked (NonceCache_advance_epoch e c) p e n then Replay else Fresh)"
  by (simp add: nonce_check_eq Let_def)

lemma tracked_after_check:
  "bt_len (slot_of c e) < MAX_NONCES_PER_EPOCH \<Longrightarrow> e \<noteq> 0 \<Longrightarrow>
   tracked (snd (NonceCache_check sha p e n c)) p e n"
  by (auto simp: tracked_def slot_of_check slot_of_advance Let_def in_window_def)

lemma in_window_refl [simp]: "in_window e e"
  by (simp add: in_window_def)

lemma in_window_antimono: "in_window e cur \<Longrightarrow> cur' \<le> cur \<Longrightarrow> in_window e cur'"
  by (simp add: in_window_def word_le_nat_alt)

lemma step_current: "nc_current_epoch (nonce_step sha op c) = max (op_epoch op) (nc_current_epoch c)"
  by (cases op) (simp_all add: nonce_check_eq Let_def advance_epoch_current)

lemma check_current: "nc_current_epoch (snd (NonceCache_check sha p e n c)) = max e (nc_current_epoch c)"
  by (simp add: nonce_check_eq Let_def advance_epoch_current)

text \<open>
  An operation leaves the slot of epoch \<open>e\<close> alone when it does not move the cache's epoch, or
  moves it to one that \<open>e\<close> is in the window of.
\<close>

definition keeps_slot :: "u64 \<Rightarrow> u64 \<Rightarrow> NonceOp \<Rightarrow> bool" where
  "keeps_slot e cur op \<longleftrightarrow> op_epoch op \<le> cur \<or> e \<noteq> 0 \<and> in_window e (op_epoch op)"

lemma keeps_slot_later: "keeps_slot e cur op \<Longrightarrow> cur \<le> cur' \<Longrightarrow> keeps_slot e cur' op"
  by (auto simp: keeps_slot_def)

lemma keeps_slot_back:
  "\<lbrakk>keeps_slot e cur op; keeps_slot e (max (op_epoch op) cur) op'\<rbrakk> \<Longrightarrow> keeps_slot e cur op'"
  by (auto simp: keeps_slot_def max_def intro: in_window_antimono split: if_splits)

lemma tracked_step_iff:
  "op \<noteq> Check p e n \<Longrightarrow> tracked (nonce_step sha op c) p e n \<longleftrightarrow>
     tracked c p e n \<and> keeps_slot e (nc_current_epoch c) op"
  by (cases op) (auto simp: tracked_def slot_of_check slot_of_advance Let_def keeps_slot_def)

lemma tracked_step_kept:
  "\<lbrakk>tracked c p e n; keeps_slot e (nc_current_epoch c) op\<rbrakk> \<Longrightarrow> tracked (nonce_step sha op c) p e n"
  by (cases op) (auto simp: tracked_def slot_of_check slot_of_advance Let_def keeps_slot_def)

lemma tracked_run_kept:
  assumes "tracked c p e n" "\<forall>op \<in> set ops. keeps_slot e (nc_current_epoch c) op"
  shows "tracked (run (nonce_step sha) ops c) p e n"
  using assms
proof (induction ops arbitrary: c)
  case Nil
  then show ?case by simp
next
  case (Cons op ops)
  have "\<forall>o' \<in> set ops. keeps_slot e (nc_current_epoch (nonce_step sha op c)) o'"
    using Cons.prems(2) by (auto simp: step_current intro: keeps_slot_later)
  then show ?case using Cons.IH Cons.prems by (simp add: tracked_step_kept)
qed

lemma tracked_run_iff:
  assumes "Check p e n \<notin> set ops"
  shows "tracked (run (nonce_step sha) ops c) p e n \<longleftrightarrow>
    tracked c p e n \<and> (\<forall>op \<in> set ops. keeps_slot e (nc_current_epoch c) op)"
  using assms
proof (induction ops arbitrary: c)
  case Nil
  then show ?case by simp
next
  case (Cons op ops)
  have op: "op \<noteq> Check p e n" and ops: "Check p e n \<notin> set ops" using Cons.prems by auto
  have "(\<forall>o' \<in> set ops. keeps_slot e (nc_current_epoch (nonce_step sha op c)) o') \<longleftrightarrow>
      (\<forall>o' \<in> set ops. keeps_slot e (nc_current_epoch c) o')" if "keeps_slot e (nc_current_epoch c) op"
    using that by (auto simp: step_current intro: keeps_slot_back keeps_slot_later)
  then show ?case using Cons.IH [OF ops] tracked_step_iff [OF op] by auto
qed

lemma tracked_check_iff:
  "tracked (snd (NonceCache_check sha p e n c)) p e n \<longleftrightarrow>
     tracked (NonceCache_advance_epoch e c) p e n \<or>
     bt_len (slot_of (NonceCache_advance_epoch e c) e) < MAX_NONCES_PER_EPOCH"
  by (auto simp: tracked_def slot_of_check Let_def)

lemma check_decision_reached:
  "e \<le> nc_current_epoch c \<Longrightarrow>
   fst (NonceCache_check sha p e n c) = (if tracked c p e n then Replay else Fresh)"
  by (auto simp: check_decision tracked_def slot_of_advance dest: leD)

lemma run_current_le: "nc_current_epoch c \<le> nc_current_epoch (run (nonce_step sha) ops c)"
proof (induction ops arbitrary: c)
  case (Cons op ops)
  show ?case using Cons.IH [of "nonce_step sha op c"] by (simp add: step_current)
qed simp

section \<open>Properties\<close>

text \<open>
  C2.  Replays are detected as long as the cache holds the nonce, and no longer: check a nonce of
  epoch \<open>e\<close> on any cache, then run any further checks of any peers and any epoch advances, and
  check the nonce again.  It is held if its slot had it already or had room for it, and every
  operation in between either did not move the cache's epoch or moved it to one fewer than eight
  epochs after \<open>e\<close>, with \<open>e\<close> not 0 (the first advance of the cache drops the slot of epoch 0).  A
  held nonce is answered \<open>Replay\<close>; one that is not held, and was not checked again in between, is
  answered \<open>Fresh\<close>, although it had been checked.
\<close>

theorem nonce_replay_detected:
  "let reached = NonceCache_advance_epoch e c;
       checked = snd (NonceCache_check sha p e n c);
       held = (tracked reached p e n \<or> bt_len (slot_of reached e) < MAX_NONCES_PER_EPOCH) \<and>
              (\<forall>op \<in> set ops. op_epoch op \<le> nc_current_epoch checked \<or>
                             e \<noteq> 0 \<and> unat (op_epoch op) < unat e + 8);
       decision = fst (NonceCache_check sha p e n (run (nonce_step sha) ops checked))
   in (held \<longrightarrow> decision = Replay) \<and>
      (\<not> held \<and> Check p e n \<notin> set ops \<longrightarrow> decision = Fresh)"
proof -
  let ?checked = "snd (NonceCache_check sha p e n c)"
  let ?c = "run (nonce_step sha) ops ?checked"
  have "e \<le> nc_current_epoch ?c"
    using run_current_le [of ?checked sha ops] by (auto simp: check_current)
  then have "fst (NonceCache_check sha p e n ?c) = (if tracked ?c p e n then Replay else Fresh)"
    by (rule check_decision_reached)
  then show ?thesis
    using tracked_run_kept [of ?checked p e n ops sha] tracked_run_iff [of p e n ops sha ?checked]
    unfolding Let_def tracked_check_iff keeps_slot_def in_window_def by auto
qed

lemma nonce_replay_detected_witness:
  "fst (NonceCache_check from_be 1 5 42
     (run (nonce_step from_be) [Check 2 9 42, AdvanceEpoch 12, Check 1 6 7]
       (snd (NonceCache_check from_be 1 5 42 (NonceCache_new 3))))) = Replay \<and>
   fst (NonceCache_check from_be 1 0 42
     (run (nonce_step from_be) [AdvanceEpoch 1]
       (snd (NonceCache_check from_be 1 0 42 (NonceCache_new 0))))) = Fresh"
proof
  have len: "bt_len (slot_of (NonceCache_advance_epoch e (NonceCache_new i)) e) < MAX_NONCES_PER_EPOCH" for e i
    by (simp add: slot_of_advance) (simp add: slot_of_def NonceCache_new_def MAX_NONCES_PER_EPOCH_def)
  show "fst (NonceCache_check from_be 1 5 42
     (run (nonce_step from_be) [Check 2 9 42, AdvanceEpoch 12, Check 1 6 7]
       (snd (NonceCache_check from_be 1 5 42 (NonceCache_new 3))))) = Replay"
    using nonce_replay_detected [of 5 "NonceCache_new 3" from_be 1 42 "[Check 2 9 42, AdvanceEpoch 12, Check 1 6 7]"] len
    unfolding Let_def by simp
  show "fst (NonceCache_check from_be 1 0 42
     (run (nonce_step from_be) [AdvanceEpoch 1]
       (snd (NonceCache_check from_be 1 0 42 (NonceCache_new 0))))) = Fresh"
    using nonce_replay_detected [of 0 "NonceCache_new 0" from_be 1 42 "[AdvanceEpoch 1]"]
    unfolding Let_def check_current by (simp add: NonceCache_new_def)
qed

text \<open>
  The window is exactly eight epochs, less epoch 0: after a nonce was recorded in epoch \<open>e\<close> and
  the cache advanced to a later epoch, presenting it again is a replay if and only if that epoch is
  within the window and \<open>e\<close> is not 0.  A nonce recorded in epoch 0 is fresh again from epoch 1 on,
  and one of an epoch left behind is fresh too, although the message that carries it is stale.
\<close>

theorem nonce_window_exact:
  assumes "bt_len (slot_of c e) < MAX_NONCES_PER_EPOCH"
    and "nc_current_epoch c < cur" and "e < cur"
  shows "fst (NonceCache_check sha p e n
           (NonceCache_advance_epoch cur (snd (NonceCache_check sha p e n c)))) = Replay
         \<longleftrightarrow> e \<noteq> 0 \<and> unat cur < unat e + 8"
proof -
  let ?c = "snd (NonceCache_check sha p e n c)"
  have cur: "nc_current_epoch ?c < cur"
    using assms(2,3) by (simp add: nonce_check_eq Let_def advance_epoch_current)
  have "slot_of (NonceCache_advance_epoch e (NonceCache_advance_epoch cur ?c)) e =
      slot_of (NonceCache_advance_epoch cur ?c) e"
    using assms(3) cur by (auto simp: slot_of_advance [of e] advance_epoch_current)
  also have "\<dots> = (if e \<noteq> 0 \<and> in_window e cur then slot_of ?c e else bt_empty)"
    using cur by (simp add: slot_of_advance)
  finally show ?thesis
    using assms(1) tracked_after_check [of c e sha p n]
    by (auto simp: check_decision tracked_def in_window_def)
qed

lemma nonce_window_exact_witness:
  "fst (NonceCache_check from_be 1 5 42 (NonceCache_advance_epoch 12
      (snd (NonceCache_check from_be 1 5 42 (NonceCache_new 3))))) = Replay \<and>
   fst (NonceCache_check from_be 1 5 42 (NonceCache_advance_epoch 13
      (snd (NonceCache_check from_be 1 5 42 (NonceCache_new 3))))) = Fresh"
proof -
  have len: "bt_len (slot_of (NonceCache_new 3) 5) < MAX_NONCES_PER_EPOCH"
    by (simp add: slot_of_def NonceCache_new_def MAX_NONCES_PER_EPOCH_def)
  have "nc_current_epoch (NonceCache_new 3) < 12" "nc_current_epoch (NonceCache_new 3) < 13"
    by (simp_all add: NonceCache_new_def)
  note w = nonce_window_exact [OF len this(1), of from_be 1 42] nonce_window_exact [OF len this(2), of from_be 1 42]
  have "d = Fresh" if "d \<noteq> Replay" for d using that by (cases d) auto
  then show ?thesis using w by simp
qed

text \<open>Slots are per epoch: a nonce that was checked under one epoch is fresh under every other.\<close>

lemma nonce_fresh_in_other_epoch:
  assumes "e' \<noteq> e"
  shows "fst (NonceCache_check sha p e' n (snd (NonceCache_check sha p e n (NonceCache_new initial)))) = Fresh"
proof -
  have "slot_of (NonceCache_new initial) k = bt_empty" for k by (simp add: slot_of_def NonceCache_new_def)
  then show ?thesis using assms by (simp add: check_decision tracked_def slot_of_advance slot_of_check Let_def)
qed

end
