(* ===== verification/Sequence_Tracker.thy ===== *)
theory Sequence_Tracker
  imports Ordered_Map Hash_Chain
begin

text \<open>
  Gate 318, \<open>aegis-cl-psi/src/message_sequence_tracker.rs\<close>: the next sequence number expected of
  every peer, and a hash-chained log per peer.  Between two resets the expected number never goes
  back, a number already passed is a duplicate, and the totals are those of the logs.
\<close>

section \<open>Events, records, log\<close>

datatype SequenceEvent = InOrder | Gap | Duplicate | Reset

fun SequenceEvent_byte :: "SequenceEvent \<Rightarrow> u8" where
  "SequenceEvent_byte InOrder = 0"
| "SequenceEvent_byte Gap = 1"
| "SequenceEvent_byte Duplicate = 2"
| "SequenceEvent_byte Reset = 3"

lemma SequenceEvent_byte_inj [simp]: "SequenceEvent_byte x = SequenceEvent_byte y \<longleftrightarrow> x = y"
  by (cases x; cases y) auto

record SequenceRecord =
  sr_peer_id :: u32
  sr_sequence :: u64
  sr_expected_before :: u64
  sr_event :: SequenceEvent
  sr_record_hash :: hash
  sr_prev_hash :: hash

definition seq_bytes :: "u32 \<Rightarrow> u64 \<Rightarrow> u64 \<Rightarrow> SequenceEvent \<Rightarrow> hash \<Rightarrow> bytes" where
  "seq_bytes peer_id sequence expected_before event prev =
     hash_bytes prev @ be4 peer_id @ be8 sequence @ be8 expected_before @ [SequenceEvent_byte event]"

definition compute_seq_hash :: "sha \<Rightarrow> u32 \<Rightarrow> u64 \<Rightarrow> u64 \<Rightarrow> SequenceEvent \<Rightarrow> hash \<Rightarrow> hash" where
  "compute_seq_hash sha peer_id sequence expected_before event prev = sha (seq_bytes peer_id sequence expected_before event prev)"

definition build_sequence_record :: "sha \<Rightarrow> u32 \<Rightarrow> u64 \<Rightarrow> u64 \<Rightarrow> SequenceEvent \<Rightarrow> hash \<Rightarrow> SequenceRecord" where
  "build_sequence_record sha peer_id sequence expected_before event prev_hash =
     \<lparr>sr_peer_id = peer_id, sr_sequence = sequence, sr_expected_before = expected_before, sr_event = event,
      sr_record_hash = compute_seq_hash sha peer_id sequence expected_before event prev_hash, sr_prev_hash = prev_hash\<rparr>"

definition SequenceRecord_bytes_of :: "SequenceRecord \<Rightarrow> bytes" where
  "SequenceRecord_bytes_of r = seq_bytes (sr_peer_id r) (sr_sequence r) (sr_expected_before r) (sr_event r) (sr_prev_hash r)"

record SequenceLog =
  sl_records :: "SequenceRecord list"

definition SequenceLog_new :: SequenceLog where
  "SequenceLog_new = \<lparr>sl_records = []\<rparr>"

definition SequenceLog_last_hash :: "SequenceLog \<Rightarrow> hash" where
  "SequenceLog_last_hash l = last_hash sr_record_hash (sl_records l)"

definition SequenceLog_push :: "sha \<Rightarrow> u32 \<Rightarrow> u64 \<Rightarrow> u64 \<Rightarrow> SequenceEvent \<Rightarrow> SequenceLog \<Rightarrow> SequenceLog" where
  "SequenceLog_push sha peer_id sequence expected_before event l =
     (let prev = SequenceLog_last_hash l;
          r = build_sequence_record sha peer_id sequence expected_before event prev
      in l\<lparr>sl_records := sl_records l @ [r]\<rparr>)"

definition SequenceLog_in_order_count :: "SequenceLog \<Rightarrow> nat" where
  "SequenceLog_in_order_count l = length (filter (\<lambda>r. sr_event r = InOrder) (sl_records l))"

definition SequenceLog_gap_count :: "SequenceLog \<Rightarrow> nat" where
  "SequenceLog_gap_count l = length (filter (\<lambda>r. sr_event r = Gap) (sl_records l))"

definition SequenceLog_duplicate_count :: "SequenceLog \<Rightarrow> nat" where
  "SequenceLog_duplicate_count l = length (filter (\<lambda>r. sr_event r = Duplicate) (sl_records l))"

definition SequenceLog_verify_chain :: "sha \<Rightarrow> SequenceLog \<Rightarrow> bool \<times> nat option" where
  "SequenceLog_verify_chain sha l =
     verify_from sr_prev_hash sr_record_hash (\<lambda>r. sha (SequenceRecord_bytes_of r)) 0 genesis (sl_records l)"

section \<open>The log is tamper evident\<close>

lemma seq_bytes_inj:
  "seq_bytes p0 s1 e2 e3 h = seq_bytes p0' s1' e2' e3' h' \<longleftrightarrow>
   p0 = p0' \<and> s1 = s1' \<and> e2 = e2' \<and> e3 = e3' \<and> h = h'"
  by (auto simp: seq_bytes_def enc_simps)

definition SequenceRecord_committed :: "SequenceRecord \<Rightarrow> u32 \<times> u64 \<times> u64 \<times> SequenceEvent" where
  "SequenceRecord_committed r = (sr_peer_id r, sr_sequence r, sr_expected_before r, sr_event r)"

interpretation seq_chain: hash_log SequenceRecord_bytes_of sr_prev_hash sr_record_hash SequenceRecord_committed
  by unfold_locales (auto simp: SequenceRecord_bytes_of_def SequenceRecord_committed_def seq_bytes_inj)

definition SequenceLog_ok :: "sha \<Rightarrow> SequenceLog \<Rightarrow> bool" where
  "SequenceLog_ok sha l \<longleftrightarrow> seq_chain.ok sha (sl_records l)"

lemma SequenceLog_verify_iff: "SequenceLog_verify_chain sha l = (True, None) \<longleftrightarrow> SequenceLog_ok sha l"
  by (simp add: SequenceLog_verify_chain_def SequenceLog_ok_def verify_from_iff)

lemma SequenceLog_tamper_evident:
  assumes "SequenceLog_ok sha l" "SequenceLog_ok sha l'" "SequenceLog_last_hash l = SequenceLog_last_hash l'"
  shows "map SequenceRecord_committed (sl_records l) = map SequenceRecord_committed (sl_records l') \<or>
    forgery sha (SequenceRecord_bytes_of ` (set (sl_records l) \<union> set (sl_records l')))"
  using assms seq_chain.tamper_evident by (simp add: SequenceLog_ok_def SequenceLog_last_hash_def)

lemma SequenceLog_ok_new [simp]: "SequenceLog_ok sha SequenceLog_new"
  by (simp add: SequenceLog_ok_def SequenceLog_new_def)

lemma SequenceLog_push_simps [simp]:
  "SequenceLog_ok sha (SequenceLog_push sha x0 x1 x2 x3 l) \<longleftrightarrow> SequenceLog_ok sha l"
  "SequenceLog_in_order_count (SequenceLog_push sha x0 x1 x2 x3 l) = SequenceLog_in_order_count l + (if x3 = InOrder then 1 else 0)"
  "SequenceLog_gap_count (SequenceLog_push sha x0 x1 x2 x3 l) = SequenceLog_gap_count l + (if x3 = Gap then 1 else 0)"
  "SequenceLog_duplicate_count (SequenceLog_push sha x0 x1 x2 x3 l) = SequenceLog_duplicate_count l + (if x3 = Duplicate then 1 else 0)"
  by (simp_all add: SequenceLog_ok_def SequenceLog_push_def SequenceLog_last_hash_def build_sequence_record_def compute_seq_hash_def SequenceRecord_bytes_of_def Let_def SequenceLog_in_order_count_def SequenceLog_gap_count_def SequenceLog_duplicate_count_def)

lemma SequenceLog_new_simps [simp]:
  "SequenceLog_in_order_count SequenceLog_new = 0"
  "SequenceLog_gap_count SequenceLog_new = 0"
  "SequenceLog_duplicate_count SequenceLog_new = 0"
  by (simp_all add: SequenceLog_new_def SequenceLog_in_order_count_def SequenceLog_gap_count_def SequenceLog_duplicate_count_def)


section \<open>The tracker\<close>

definition MAX_TRACKED_PEERS :: nat where "MAX_TRACKED_PEERS = 512"

datatype SeqError = TooManyPeers

record MessageSequenceTracker =
  st_peers :: "(u32, u64) btmap"
  st_gap_count_total :: u64
  st_duplicate_count_total :: u64
  st_reset_count_total :: u64
  st_logs :: "(u32, SequenceLog) btmap"

definition MessageSequenceTracker_new :: MessageSequenceTracker where
  "MessageSequenceTracker_new =
     \<lparr>st_peers = bt_empty, st_gap_count_total = 0, st_duplicate_count_total = 0,
      st_reset_count_total = 0, st_logs = bt_empty\<rparr>"

definition classify_sequence :: "u64 \<Rightarrow> u64 \<Rightarrow> SequenceEvent" where
  "classify_sequence sequence expected =
     (if sequence = 0 \<and> expected > 0 then Reset
      else if sequence = expected then InOrder
      else if sequence > expected then Gap
      else Duplicate)"

definition advance_expected ::
  "u32 \<Rightarrow> u64 \<Rightarrow> SequenceEvent \<Rightarrow> MessageSequenceTracker \<Rightarrow> MessageSequenceTracker" where
  "advance_expected peer_id sequence event t =
     (case event of
        InOrder \<Rightarrow> t\<lparr>st_peers := bt_insert peer_id (sequence + 1) (st_peers t)\<rparr>
      | Gap \<Rightarrow> t\<lparr>st_peers := bt_insert peer_id (sequence + 1) (st_peers t),
                 st_gap_count_total := st_gap_count_total t + 1\<rparr>
      | Duplicate \<Rightarrow> t\<lparr>st_duplicate_count_total := st_duplicate_count_total t + 1\<rparr>
      | Reset \<Rightarrow> t\<lparr>st_peers := bt_insert peer_id 1 (st_peers t),
                   st_reset_count_total := st_reset_count_total t + 1\<rparr>)"

definition MessageSequenceTracker_observe ::
  "sha \<Rightarrow> u32 \<Rightarrow> u64 \<Rightarrow> MessageSequenceTracker \<Rightarrow>
   (SeqError + SequenceEvent) \<times> MessageSequenceTracker" where
  "MessageSequenceTracker_observe sha peer_id sequence t =
     (let is_new = \<not> bt_has (st_peers t) peer_id
      in if is_new \<and> bt_len (st_peers t) \<ge> MAX_TRACKED_PEERS then (Inl TooManyPeers, t)
         else
           let expected = bt_get_or 0 (st_peers t) peer_id;
               event = classify_sequence sequence expected;
               t = advance_expected peer_id sequence event t;
               log = bt_get_or SequenceLog_new (st_logs t) peer_id
           in (Inr event,
               t\<lparr>st_logs := bt_insert peer_id
                   (SequenceLog_push sha peer_id sequence expected event log) (st_logs t)\<rparr>))"

definition MessageSequenceTracker_expected_sequence :: "u32 \<Rightarrow> MessageSequenceTracker \<Rightarrow> u64 option" where
  "MessageSequenceTracker_expected_sequence peer_id t = bt_get (st_peers t) peer_id"

definition MessageSequenceTracker_get_log :: "u32 \<Rightarrow> MessageSequenceTracker \<Rightarrow> SequenceLog option" where
  "MessageSequenceTracker_get_log peer_id t = bt_get (st_logs t) peer_id"

section \<open>Invariants\<close>

text \<open>A first message is in order or a gap, so a peer has a log exactly when it is tracked.\<close>

definition expected_of :: "MessageSequenceTracker \<Rightarrow> u32 \<Rightarrow> u64" where
  "expected_of t p = bt_get_or 0 (st_peers t) p"

definition log_sum :: "(SequenceLog \<Rightarrow> nat) \<Rightarrow> MessageSequenceTracker \<Rightarrow> nat" where
  "log_sum f t = bt_sum (\<lambda>_. f) (st_logs t)"

definition tracker_ok :: "sha \<Rightarrow> MessageSequenceTracker \<Rightarrow> bool" where
  "tracker_ok sha t \<longleftrightarrow>
     bt_len (st_peers t) \<le> MAX_TRACKED_PEERS \<and>
     (\<forall>p l. bt_get (st_logs t) p = Some l \<longrightarrow> SequenceLog_ok sha l) \<and>
     st_gap_count_total t = of_nat (log_sum SequenceLog_gap_count t) \<and>
     st_duplicate_count_total t = of_nat (log_sum SequenceLog_duplicate_count t)"

definition observe_step :: "sha \<Rightarrow> u32 \<times> u64 \<Rightarrow> MessageSequenceTracker \<Rightarrow> MessageSequenceTracker" where
  "observe_step sha msg t = snd (MessageSequenceTracker_observe sha (fst msg) (snd msg) t)"

lemma classify_new_not_duplicate: "classify_sequence s 0 \<in> {InOrder, Gap}"
  by (auto simp: classify_sequence_def word_neq_0_conv)

lemma log_sum_insert:
  "log_sum f (t\<lparr>st_logs := bt_insert p l (st_logs t)\<rparr>) +
     f (bt_get_or SequenceLog_new (st_logs t) p) = log_sum f t + f l"
  if "f SequenceLog_new = 0"
  using bt_sum_insert [of "\<lambda>_. f" p l "st_logs t"] that
  by (simp add: log_sum_def bt_get_or_def split: option.splits)

lemma st_logs_advance [simp]: "st_logs (advance_expected p s e t) = st_logs t"
  by (cases e) (simp_all add: advance_expected_def)

lemma tracker_ok_observe: "tracker_ok sha t \<Longrightarrow> tracker_ok sha (observe_step sha msg t)"
proof -
  assume ok: "tracker_ok sha t"
  obtain p s where msg: "msg = (p, s)" by fastforce
  let ?x = "expected_of t p" and ?log = "bt_get_or SequenceLog_new (st_logs t) p"
  define e where "e = classify_sequence s ?x"
  let ?l = "SequenceLog_push sha p s ?x e ?log"
  let ?t' = "advance_expected p s e t"
  show ?thesis
  proof (cases "\<not> bt_has (st_peers t) p \<and> MAX_TRACKED_PEERS \<le> bt_len (st_peers t)")
    case True
    with ok show ?thesis by (simp add: observe_step_def MessageSequenceTracker_observe_def msg)
  next
    case False
    have step: "observe_step sha msg t = ?t'\<lparr>st_logs := bt_insert p ?l (st_logs ?t')\<rparr>"
      using False by (auto simp: observe_step_def MessageSequenceTracker_observe_def msg Let_def expected_of_def e_def)
    have "SequenceLog_ok sha ?log"
      using ok by (auto simp: tracker_ok_def bt_get_or_def split: option.splits)
    moreover have "bt_len (st_peers ?t') \<le> MAX_TRACKED_PEERS"
      using ok False by (cases e) (auto simp: tracker_ok_def advance_expected_def)
    moreover have
      "log_sum SequenceLog_gap_count (observe_step sha msg t) =
         log_sum SequenceLog_gap_count t + (if e = Gap then 1 else 0)"
      "log_sum SequenceLog_duplicate_count (observe_step sha msg t) =
         log_sum SequenceLog_duplicate_count t + (if e = Duplicate then 1 else 0)"
      using log_sum_insert [where f = SequenceLog_gap_count and t = t and p = p and l = ?l]
        log_sum_insert [where f = SequenceLog_duplicate_count and t = t and p = p and l = ?l]
      by (simp_all add: step log_sum_def)
    moreover have
      "st_gap_count_total ?t' = st_gap_count_total t + (if e = Gap then 1 else 0)"
      "st_duplicate_count_total ?t' = st_duplicate_count_total t + (if e = Duplicate then 1 else 0)"
      by (cases e; simp add: advance_expected_def)+
    ultimately show ?thesis
      using ok by (cases e) (simp_all add: tracker_ok_def step)
  qed
qed

interpretation sequence_machine: invariant_machine "observe_step sha" "tracker_ok sha" for sha
  by unfold_locales (rule tracker_ok_observe)

lemma tracker_ok_new [simp]: "tracker_ok sha MessageSequenceTracker_new"
  by (simp add: tracker_ok_def MessageSequenceTracker_new_def log_sum_def)

text \<open>Without a reset or a wrap of \<open>u64\<close>, no step takes an expected number back.\<close>

lemma expected_of_observe:
  assumes "\<not> (fst msg = p \<and> (snd msg = 0 \<or> snd msg = - 1))"
  shows "expected_of t p \<le> expected_of (observe_step sha msg t) p"
proof -
  obtain q s where msg: "msg = (q, s)" by fastforce
  have inc: "x \<le> s + 1" if "q = p" "x \<le> s" for x
  proof -
    have "s \<noteq> - 1" using assms that by (simp add: msg)
    then have "s < s + 1" by (rule less_inc_max)
    with that show ?thesis by simp
  qed
  show ?thesis
    using assms inc
    by (auto simp: observe_step_def MessageSequenceTracker_observe_def msg Let_def expected_of_def
        advance_expected_def classify_sequence_def)
qed

lemma expected_of_run:
  assumes "\<And>m. m \<in> set msgs \<Longrightarrow> fst m = p \<Longrightarrow> snd m \<noteq> 0 \<and> snd m \<noteq> - 1"
  shows "expected_of t p \<le> expected_of (run (observe_step sha) msgs t) p"
  using assms
proof (induction msgs arbitrary: t)
  case Nil
  then show ?case by simp
next
  case (Cons m msgs)
  have "expected_of t p \<le> expected_of (observe_step sha m t) p"
    using Cons.prems [of m] by (intro expected_of_observe) auto
  also have "\<dots> \<le> expected_of (run (observe_step sha) msgs (observe_step sha m t)) p"
    using Cons.prems by (intro Cons.IH) auto
  finally show ?case by simp
qed

lemma observe_tracked:
  assumes "0 < expected_of t p"
  shows "fst (MessageSequenceTracker_observe sha p s t) = Inr (classify_sequence s (expected_of t p))"
proof -
  have "bt_has (st_peers t) p"
    using assms by (auto simp: expected_of_def bt_get_or_def bt_has_def split: option.splits)
  then show ?thesis
    by (simp add: MessageSequenceTracker_observe_def Let_def expected_of_def)
qed

section \<open>Properties\<close>

text \<open>
  The books agree: after any messages, at most 512 peers are tracked, every peer's log passes
  \<open>verify_chain\<close>, and the running totals of gaps and duplicates are, modulo \<open>2 ^ 64\<close>, the sums
  over the logs.
\<close>

theorem sequence_books_agree:
  "let t = run (observe_step sha) msgs MessageSequenceTracker_new
   in bt_len (st_peers t) \<le> 512 \<and>
      st_gap_count_total t = of_nat (bt_sum (\<lambda>_. SequenceLog_gap_count) (st_logs t)) \<and>
      st_duplicate_count_total t = of_nat (bt_sum (\<lambda>_. SequenceLog_duplicate_count) (st_logs t)) \<and>
      list_all (\<lambda>l. SequenceLog_verify_chain sha l = (True, None)) (bt_values (st_logs t))"
proof -
  have "tracker_ok sha (run (observe_step sha) msgs MessageSequenceTracker_new)"
    by (rule sequence_machine.run_inv) simp
  then show ?thesis
    by (auto simp: Let_def tracker_ok_def MAX_TRACKED_PEERS_def log_sum_def list_all_iff
        SequenceLog_verify_iff set_bt_values ran_def)
qed

text \<open>
  C3.  Old numbers stay dead: a sequence number below the one expected is a duplicate, and stays one
  whatever arrives from whomever in between, until its peer resets (sends number 0) or its counter
  wraps.
\<close>

theorem sequence_no_replay:
  assumes "0 < s" and "s < expected_of t p"
    and "\<And>m. m \<in> set msgs \<Longrightarrow> fst m = p \<Longrightarrow> snd m \<noteq> 0 \<and> snd m \<noteq> - 1"
  shows "fst (MessageSequenceTracker_observe sha p s (run (observe_step sha) msgs t)) = Inr Duplicate"
proof -
  let ?t = "run (observe_step sha) msgs t"
  have s: "s < expected_of ?t p"
    using expected_of_run [OF assms(3), where t = t and sha = sha] assms(2) by (rule less_le_trans [rotated])
  then have "0 < expected_of ?t p" using assms(1) by (rule less_trans [rotated])
  with s assms(1) show ?thesis
    by (auto simp: observe_tracked classify_sequence_def)
qed

lemma sequence_no_replay_witness:
  "fst (MessageSequenceTracker_observe from_be 7 1
     (run (observe_step from_be) [(7, 2), (8, 0)]
        (run (observe_step from_be) [(7, 0), (7, 1)] MessageSequenceTracker_new))) = Inr Duplicate"
proof (rule sequence_no_replay)
  show "1 < expected_of (run (observe_step from_be) [(7, 0), (7, 1)] MessageSequenceTracker_new) 7"
    by (simp add: observe_step_def MessageSequenceTracker_observe_def MessageSequenceTracker_new_def
        Let_def expected_of_def classify_sequence_def advance_expected_def MAX_TRACKED_PEERS_def)
qed auto

end
