(* ===== verification/Ack_Tracker.thy ===== *)
theory Ack_Tracker
  imports Ordered_Map Hash_Chain
begin

text \<open>
  Gate 308, \<open>aegis-cl-psi/src/message_ack_tracker.rs\<close>: messages awaiting acknowledgment, per peer,
  and the global log of what became of them.  The ledger balances for every peer and any order of
  sends, acknowledgments and expiries: what was sent is pending, acknowledged or timed out.
\<close>

section \<open>Status, records, log\<close>

datatype AckStatus = Pending | Acked | TimedOut

fun AckStatus_byte :: "AckStatus \<Rightarrow> u8" where
  "AckStatus_byte Pending = 0"
| "AckStatus_byte Acked = 1"
| "AckStatus_byte TimedOut = 2"

lemma AckStatus_byte_inj [simp]: "AckStatus_byte x = AckStatus_byte y \<longleftrightarrow> x = y"
  by (cases x; cases y) auto

record AckRecord =
  ar_peer_id :: u32
  ar_message_id :: u64
  ar_sent_at_epoch :: u64
  ar_acked_at_epoch :: "u64 option"
  ar_status :: AckStatus
  ar_record_hash :: hash
  ar_prev_hash :: hash

definition ack_bytes :: "u32 \<Rightarrow> u64 \<Rightarrow> u64 \<Rightarrow> u64 option \<Rightarrow> AckStatus \<Rightarrow> hash \<Rightarrow> bytes" where
  "ack_bytes peer_id message_id sent_at_epoch acked_at_epoch status prev =
     hash_bytes prev @ be4 peer_id @ be8 message_id @ be8 sent_at_epoch @ be8 (unwrap_or 0 acked_at_epoch) @ [AckStatus_byte status]"

definition compute_ack_hash :: "sha \<Rightarrow> u32 \<Rightarrow> u64 \<Rightarrow> u64 \<Rightarrow> u64 option \<Rightarrow> AckStatus \<Rightarrow> hash \<Rightarrow> hash" where
  "compute_ack_hash sha peer_id message_id sent_at_epoch acked_at_epoch status prev = sha (ack_bytes peer_id message_id sent_at_epoch acked_at_epoch status prev)"

definition build_ack_record :: "sha \<Rightarrow> u32 \<Rightarrow> u64 \<Rightarrow> u64 \<Rightarrow> u64 option \<Rightarrow> AckStatus \<Rightarrow> hash \<Rightarrow> AckRecord" where
  "build_ack_record sha peer_id message_id sent_at_epoch acked_at_epoch status prev_hash =
     \<lparr>ar_peer_id = peer_id, ar_message_id = message_id, ar_sent_at_epoch = sent_at_epoch, ar_acked_at_epoch = acked_at_epoch, ar_status = status,
      ar_record_hash = compute_ack_hash sha peer_id message_id sent_at_epoch acked_at_epoch status prev_hash, ar_prev_hash = prev_hash\<rparr>"

definition AckRecord_bytes_of :: "AckRecord \<Rightarrow> bytes" where
  "AckRecord_bytes_of r = ack_bytes (ar_peer_id r) (ar_message_id r) (ar_sent_at_epoch r) (ar_acked_at_epoch r) (ar_status r) (ar_prev_hash r)"

record AckLog =
  al_records :: "AckRecord list"

definition AckLog_new :: AckLog where
  "AckLog_new = \<lparr>al_records = []\<rparr>"

definition AckLog_last_hash :: "AckLog \<Rightarrow> hash" where
  "AckLog_last_hash l = last_hash ar_record_hash (al_records l)"

definition AckLog_push :: "sha \<Rightarrow> u32 \<Rightarrow> u64 \<Rightarrow> u64 \<Rightarrow> u64 option \<Rightarrow> AckStatus \<Rightarrow> AckLog \<Rightarrow> AckLog" where
  "AckLog_push sha peer_id message_id sent_at_epoch acked_at_epoch status l =
     (let prev = AckLog_last_hash l;
          r = build_ack_record sha peer_id message_id sent_at_epoch acked_at_epoch status prev
      in l\<lparr>al_records := al_records l @ [r]\<rparr>)"

definition AckLog_acked_count :: "AckLog \<Rightarrow> nat" where
  "AckLog_acked_count l = length (filter (\<lambda>r. ar_status r = Acked) (al_records l))"

definition AckLog_timed_out_count :: "AckLog \<Rightarrow> nat" where
  "AckLog_timed_out_count l = length (filter (\<lambda>r. ar_status r = TimedOut) (al_records l))"

definition AckLog_verify_chain :: "sha \<Rightarrow> AckLog \<Rightarrow> bool \<times> nat option" where
  "AckLog_verify_chain sha l =
     verify_from ar_prev_hash ar_record_hash (\<lambda>r. sha (AckRecord_bytes_of r)) 0 genesis (al_records l)"

section \<open>The log is tamper evident\<close>

text \<open>
  The hash covers \<open>acked_at_epoch.unwrap_or(0)\<close>, so it commits to that value only: no
  acknowledgment and one at epoch 0 hash alike.
\<close>

lemma ack_bytes_inj:
  "ack_bytes p0 m1 s2 a3 s4 h = ack_bytes p0' m1' s2' a3' s4' h' \<longleftrightarrow>
   p0 = p0' \<and> m1 = m1' \<and> s2 = s2' \<and> unwrap_or 0 a3 = unwrap_or 0 a3' \<and> s4 = s4' \<and> h = h'"
  by (auto simp: ack_bytes_def enc_simps)

definition AckRecord_committed :: "AckRecord \<Rightarrow> u32 \<times> u64 \<times> u64 \<times> u64 \<times> AckStatus" where
  "AckRecord_committed r = (ar_peer_id r, ar_message_id r, ar_sent_at_epoch r, unwrap_or 0 (ar_acked_at_epoch r), ar_status r)"

interpretation ack_chain: hash_log AckRecord_bytes_of ar_prev_hash ar_record_hash AckRecord_committed
  by unfold_locales (auto simp: AckRecord_bytes_of_def AckRecord_committed_def ack_bytes_inj)

definition AckLog_ok :: "sha \<Rightarrow> AckLog \<Rightarrow> bool" where
  "AckLog_ok sha l \<longleftrightarrow> ack_chain.ok sha (al_records l)"

lemma AckLog_verify_iff: "AckLog_verify_chain sha l = (True, None) \<longleftrightarrow> AckLog_ok sha l"
  by (simp add: AckLog_verify_chain_def AckLog_ok_def verify_from_iff)

lemma AckLog_tamper_evident:
  assumes "AckLog_ok sha l" "AckLog_ok sha l'" "AckLog_last_hash l = AckLog_last_hash l'"
  shows "map AckRecord_committed (al_records l) = map AckRecord_committed (al_records l') \<or>
    forgery sha (AckRecord_bytes_of ` (set (al_records l) \<union> set (al_records l')))"
  using assms ack_chain.tamper_evident by (simp add: AckLog_ok_def AckLog_last_hash_def)

lemma AckLog_ok_new [simp]: "AckLog_ok sha AckLog_new"
  by (simp add: AckLog_ok_def AckLog_new_def)

lemma AckLog_push_simps [simp]:
  "AckLog_ok sha (AckLog_push sha x0 x1 x2 x3 x4 l) \<longleftrightarrow> AckLog_ok sha l"
  "AckLog_acked_count (AckLog_push sha x0 x1 x2 x3 x4 l) = AckLog_acked_count l + (if x4 = Acked then 1 else 0)"
  "AckLog_timed_out_count (AckLog_push sha x0 x1 x2 x3 x4 l) = AckLog_timed_out_count l + (if x4 = TimedOut then 1 else 0)"
  by (simp_all add: AckLog_ok_def AckLog_push_def AckLog_last_hash_def build_ack_record_def compute_ack_hash_def AckRecord_bytes_of_def Let_def AckLog_acked_count_def AckLog_timed_out_count_def)

lemma AckLog_new_simps [simp]:
  "AckLog_acked_count AckLog_new = 0"
  "AckLog_timed_out_count AckLog_new = 0"
  by (simp_all add: AckLog_new_def AckLog_acked_count_def AckLog_timed_out_count_def)


section \<open>The tracker\<close>

definition ACK_TIMEOUT_EPOCHS :: u64 where "ACK_TIMEOUT_EPOCHS = 5"
definition MAX_PENDING_PER_PEER :: nat where "MAX_PENDING_PER_PEER = 128"

record PendingEntry =
  pe_sent_at_epoch :: u64

record PeerAckState =
  pa_pending :: "(u64, PendingEntry) btmap"
  pa_acked_count :: u64
  pa_timeout_count :: u64

definition PeerAckState_new :: PeerAckState where
  "PeerAckState_new = \<lparr>pa_pending = bt_empty, pa_acked_count = 0, pa_timeout_count = 0\<rparr>"

datatype AckError = AlreadyPending | PendingLimitReached

record MessageAckTracker =
  mt_peers :: "(u32, PeerAckState) btmap"
  mt_log :: AckLog

definition MessageAckTracker_new :: MessageAckTracker where
  "MessageAckTracker_new = \<lparr>mt_peers = bt_empty, mt_log = AckLog_new\<rparr>"

definition MessageAckTracker_ensure_peer :: "u32 \<Rightarrow> MessageAckTracker \<Rightarrow> MessageAckTracker" where
  "MessageAckTracker_ensure_peer peer_id t =
     t\<lparr>mt_peers := bt_or_insert peer_id PeerAckState_new (mt_peers t)\<rparr>"

definition MessageAckTracker_send ::
  "sha \<Rightarrow> u32 \<Rightarrow> u64 \<Rightarrow> u64 \<Rightarrow> MessageAckTracker \<Rightarrow> (AckError + unit) \<times> MessageAckTracker" where
  "MessageAckTracker_send sha peer_id message_id epoch t =
     (let t = MessageAckTracker_ensure_peer peer_id t;
          state = bt_get_or PeerAckState_new (mt_peers t) peer_id
      in if bt_has (pa_pending state) message_id then (Inl AlreadyPending, t)
         else if bt_len (pa_pending state) \<ge> MAX_PENDING_PER_PEER then (Inl PendingLimitReached, t)
         else (Inr (),
           t\<lparr>mt_peers := bt_insert peer_id
               (state\<lparr>pa_pending := bt_insert message_id \<lparr>pe_sent_at_epoch = epoch\<rparr> (pa_pending state)\<rparr>)
               (mt_peers t),
             mt_log := AckLog_push sha peer_id message_id epoch None Pending (mt_log t)\<rparr>))"

definition MessageAckTracker_ack ::
  "sha \<Rightarrow> u32 \<Rightarrow> u64 \<Rightarrow> u64 \<Rightarrow> MessageAckTracker \<Rightarrow> bool \<times> MessageAckTracker" where
  "MessageAckTracker_ack sha peer_id message_id epoch t =
     (case bt_get (mt_peers t) peer_id of
        None \<Rightarrow> (False, t)
      | Some state \<Rightarrow>
          (case bt_get (pa_pending state) message_id of
             None \<Rightarrow> (False, t)
           | Some entry \<Rightarrow>
               (True,
                t\<lparr>mt_peers := bt_insert peer_id
                    (state\<lparr>pa_pending := bt_remove message_id (pa_pending state),
                           pa_acked_count := pa_acked_count state + 1\<rparr>) (mt_peers t),
                  mt_log := AckLog_push sha peer_id message_id (pe_sent_at_epoch entry) (Some epoch)
                              Acked (mt_log t)\<rparr>)))"

definition ack_due :: "u64 \<Rightarrow> PendingEntry \<Rightarrow> bool" where
  "ack_due current_epoch entry \<longleftrightarrow> current_epoch \<ge> sat_add (pe_sent_at_epoch entry) ACK_TIMEOUT_EPOCHS"

definition collect_expired :: "u64 \<Rightarrow> (u32, PeerAckState) btmap \<Rightarrow> (u32 \<times> u64 \<times> u64) list" where
  "collect_expired current_epoch peers =
     concat (map (\<lambda>(peer_id, state).
       map (\<lambda>(mid, entry). (peer_id, mid, pe_sent_at_epoch entry))
         (filter (\<lambda>(mid, entry). ack_due current_epoch entry) (entries (pa_pending state))))
       (entries peers))"

definition expire_one :: "sha \<Rightarrow> u32 \<times> u64 \<times> u64 \<Rightarrow> MessageAckTracker \<Rightarrow> MessageAckTracker" where
  "expire_one sha x t =
     (case x of (peer_id, mid, sent) \<Rightarrow>
        let t = (case bt_get (mt_peers t) peer_id of
                   None \<Rightarrow> t
                 | Some state \<Rightarrow>
                     t\<lparr>mt_peers := bt_insert peer_id
                         (state\<lparr>pa_pending := bt_remove mid (pa_pending state),
                                pa_timeout_count := pa_timeout_count state + 1\<rparr>) (mt_peers t)\<rparr>)
        in t\<lparr>mt_log := AckLog_push sha peer_id mid sent None TimedOut (mt_log t)\<rparr>)"

definition MessageAckTracker_expire_timeouts :: "sha \<Rightarrow> u64 \<Rightarrow> MessageAckTracker \<Rightarrow> MessageAckTracker" where
  "MessageAckTracker_expire_timeouts sha current_epoch t =
     fold (expire_one sha) (collect_expired current_epoch (mt_peers t)) t"

definition MessageAckTracker_pending_count :: "u32 \<Rightarrow> MessageAckTracker \<Rightarrow> nat" where
  "MessageAckTracker_pending_count peer_id t =
     (case bt_get (mt_peers t) peer_id of Some s \<Rightarrow> bt_len (pa_pending s) | None \<Rightarrow> 0)"

definition MessageAckTracker_delivery_rate_pct :: "u32 \<Rightarrow> MessageAckTracker \<Rightarrow> u8" where
  "MessageAckTracker_delivery_rate_pct peer_id t =
     (case bt_get (mt_peers t) peer_id of
        Some state \<Rightarrow>
          (let total = pa_acked_count state + pa_timeout_count state
           in if total = 0 then 0 else ucast ((pa_acked_count state * 100) div total))
      | None \<Rightarrow> 0)"

section \<open>The ledger balances\<close>

definition pending_of :: "MessageAckTracker \<Rightarrow> u32 \<Rightarrow> (u64, PendingEntry) btmap" where
  "pending_of t p = pa_pending (bt_get_or PeerAckState_new (mt_peers t) p)"

definition log_count :: "AckStatus \<Rightarrow> u32 \<Rightarrow> AckLog \<Rightarrow> nat" where
  "log_count st p l = length (filter (\<lambda>r. ar_status r = st \<and> ar_peer_id r = p) (al_records l))"

lemma log_count_push [simp]:
  "log_count st p (AckLog_push sha q m s a st' l) = log_count st p l + (if st' = st \<and> q = p then 1 else 0)"
  by (simp add: log_count_def AckLog_push_def build_ack_record_def Let_def)

abbreviation logged :: "AckStatus \<Rightarrow> u32 \<Rightarrow> MessageAckTracker \<Rightarrow> nat" where
  "logged st p t \<equiv> log_count st p (mt_log t)"

definition balanced :: "sha \<Rightarrow> MessageAckTracker \<Rightarrow> bool" where
  "balanced sha t \<longleftrightarrow> AckLog_ok sha (mt_log t) \<and>
     (\<forall>p. bt_len (pending_of t p) \<le> MAX_PENDING_PER_PEER \<and>
          logged Pending p t = bt_len (pending_of t p) + logged Acked p t + logged TimedOut p t)"

lemma balanced_send: "balanced sha t \<Longrightarrow> balanced sha (snd (MessageAckTracker_send sha p m e t))"
  by (auto simp: balanced_def MessageAckTracker_send_def MessageAckTracker_ensure_peer_def Let_def
      pending_of_def)

text \<open>Taking a pending message out, with the entry that says why, keeps the balance.\<close>

lemma balanced_take_out:
  assumes "balanced sha t" and "bt_get (mt_peers t) p = Some s" and "bt_has (pa_pending s) m"
    and "st = Acked \<or> st = TimedOut" and "pa_pending s' = bt_remove m (pa_pending s)"
  shows "balanced sha (t\<lparr>mt_peers := bt_insert p s' (mt_peers t),
                        mt_log := AckLog_push sha p m e a st (mt_log t)\<rparr>)"
proof -
  have "pending_of t p = pa_pending s"
    using assms(2) by (simp add: pending_of_def bt_get_or_def)
  moreover have "0 < bt_len (pa_pending s)"
    using assms(3) by (auto simp: bt_len_card bt_has_def card_gt_0_iff)
  moreover have "bt_len (pending_of t p) \<le> MAX_PENDING_PER_PEER"
    using assms(1) by (simp add: balanced_def)
  ultimately show ?thesis
    using assms(1,3,4,5) unfolding balanced_def by (auto simp: pending_of_def bt_get_or_def)
qed

lemma balanced_ack: "balanced sha t \<Longrightarrow> balanced sha (snd (MessageAckTracker_ack sha p m e t))"
  by (auto simp: MessageAckTracker_ack_def bt_has_def intro!: balanced_take_out split: option.split)

lemma expire_one_eq:
  assumes "bt_has (pending_of t p) m"
  shows "\<exists>s s'. bt_get (mt_peers t) p = Some s \<and> pa_pending s' = bt_remove m (pa_pending s) \<and>
    expire_one sha (p, m, e) t =
      t\<lparr>mt_peers := bt_insert p s' (mt_peers t), mt_log := AckLog_push sha p m e None TimedOut (mt_log t)\<rparr>"
proof -
  obtain s where s: "bt_get (mt_peers t) p = Some s"
    using assms by (cases "bt_get (mt_peers t) p")
      (auto simp: pending_of_def bt_get_or_def bt_has_def PeerAckState_new_def)
  show ?thesis
    by (rule exI [of _ s], rule exI [of _ "s\<lparr>pa_pending := bt_remove m (pa_pending s),
      pa_timeout_count := pa_timeout_count s + 1\<rparr>"]) (simp add: expire_one_def s)
qed

lemma pending_of_expire_one:
  assumes "bt_has (pending_of t p) m"
  shows "pending_of (expire_one sha (p, m, e) t) q =
    (if q = p then bt_remove m (pending_of t p) else pending_of t q)"
  using expire_one_eq [OF assms, of sha e] by (auto simp: pending_of_def bt_get_or_def)

lemma balanced_expire_one:
  assumes "balanced sha t" and "bt_has (pending_of t p) m"
  shows "balanced sha (expire_one sha (p, m, e) t)"
proof -
  obtain s s' where s: "bt_get (mt_peers t) p = Some s" "pa_pending s' = bt_remove m (pa_pending s)"
    and e: "expire_one sha (p, m, e) t = t\<lparr>mt_peers := bt_insert p s' (mt_peers t),
      mt_log := AckLog_push sha p m e None TimedOut (mt_log t)\<rparr>"
    using expire_one_eq [OF assms(2), of sha e] by blast
  then have "bt_has (pa_pending s) m" using assms(2) by (simp add: pending_of_def bt_get_or_def)
  then show ?thesis unfolding e using assms(1) s by (intro balanced_take_out) auto
qed

text \<open>The collected list names pending messages, each once; so the fold takes each of them out.\<close>

definition to_take_out :: "(u32 \<times> u64 \<times> u64) list \<Rightarrow> MessageAckTracker \<Rightarrow> bool" where
  "to_take_out xs t \<longleftrightarrow> distinct (map (\<lambda>x. (fst x, fst (snd x))) xs) \<and>
     (\<forall>p m e. (p, m, e) \<in> set xs \<longrightarrow> bt_has (pending_of t p) m)"

lemma to_take_out_step:
  assumes "to_take_out ((q, n, e) # xs) t"
  shows "to_take_out xs (expire_one sha (q, n, e) t)"
proof -
  have pend: "bt_has (pending_of t q) n" using assms by (auto simp: to_take_out_def)
  have "m \<noteq> n" if "(q, m, e') \<in> set xs" for m e'
    using assms that by (force simp: to_take_out_def)
  then show ?thesis
    using assms by (auto simp: to_take_out_def pending_of_expire_one [OF pend] bt_has_def split: if_splits)
qed

lemma expire_all:
  assumes "to_take_out xs t"
  shows "(balanced sha t \<longrightarrow> balanced sha (fold (expire_one sha) xs t)) \<and>
    (\<forall>p m. bt_get (pending_of (fold (expire_one sha) xs t) p) m =
       (if \<exists>e. (p, m, e) \<in> set xs then None else bt_get (pending_of t p) m))"
  using assms
proof (induction xs arbitrary: t)
  case Nil
  then show ?case by simp
next
  case (Cons x xs)
  obtain q n e where x: "x = (q, n, e)" by (cases x)
  have pend: "bt_has (pending_of t q) n" using Cons.prems by (simp add: to_take_out_def x)
  note after = pending_of_expire_one [OF pend, of sha e]
  have "to_take_out xs (expire_one sha x t)"
    unfolding x by (rule to_take_out_step) (use Cons.prems x in simp)
  from Cons.IH [OF this] show ?case
    using balanced_expire_one [OF _ pend, of sha e] by (auto simp: x after)
qed

lemma collect_expired_iff:
  "(p, m, e) \<in> set (collect_expired now (mt_peers t)) \<longleftrightarrow>
   (\<exists>x. bt_get (pending_of t p) m = Some x \<and> ack_due now x \<and> e = pe_sent_at_epoch x)"
  by (cases "bt_get (mt_peers t) p")
    (force simp: collect_expired_def pending_of_def bt_get_or_def in_entries_iff PeerAckState_new_def)+

lemma distinct_keys_concat:
  assumes "distinct (map fst xs)" and "\<And>k v. (k, v) \<in> set xs \<Longrightarrow> distinct (map g (f k v))"
    and "\<And>k v y. (k, v) \<in> set xs \<Longrightarrow> y \<in> set (f k v) \<Longrightarrow> fst (g y) = k"
  shows "distinct (map g (concat (map (\<lambda>(k, v). f k v) xs)))"
  using assms
proof (induction xs)
  case Nil
  then show ?case by simp
next
  case (Cons x xs)
  obtain k v where x: "x = (k, v)" by (cases x)
  have "fst (g y) = k" if "y \<in> set (f k v)" for y using Cons.prems(3) that x by auto
  moreover have "fst (g y) \<noteq> k" if "(k', v') \<in> set xs" "y \<in> set (f k' v')" for k' v' y
  proof -
    have "fst (g y) = k'" using Cons.prems(3) that by auto
    moreover have "k' \<in> fst ` set xs" using that by force
    ultimately show ?thesis using Cons.prems(1) x by auto
  qed
  ultimately have "g y \<noteq> g z" if "y \<in> set (f k v)" "(k', v') \<in> set xs" "z \<in> set (f k' v')" for y z k' v'
    using that by metis
  moreover have "distinct (map g (concat (map (\<lambda>(k, v). f k v) xs)))"
    using Cons.prems(1) by (intro Cons.IH Cons.prems(2,3)) auto
  ultimately show ?case using Cons.prems(2) [of k v] by (fastforce simp: x)
qed

lemma to_take_out_collected: "to_take_out (collect_expired now (mt_peers t)) t"
proof -
  have "distinct (map (\<lambda>x. (fst x, fst (snd x))) (collect_expired now (mt_peers t)))"
    unfolding collect_expired_def
  proof (rule distinct_keys_concat)
    show "distinct (map fst (entries (mt_peers t)))"
      by (rule keys_sorted_distinct) simp
  next
    fix p s
    have "distinct (map fst (entries (pa_pending s)))" by (rule keys_sorted_distinct) simp
    then show "distinct (map (\<lambda>x. (fst x, fst (snd x))) (map (\<lambda>(mid, entry). (p, mid, pe_sent_at_epoch entry))
         (filter (\<lambda>(mid, entry). ack_due now entry) (entries (pa_pending s)))))"
      by (auto simp: distinct_map inj_on_def in_entries_iff intro: distinct_filter)
  qed auto
  then show ?thesis by (auto simp: to_take_out_def collect_expired_iff bt_has_def)
qed

lemmas expire_collected = expire_all [OF to_take_out_collected]

section \<open>The tracker as a machine\<close>

datatype AckOp = Send u32 u64 u64 | Ack u32 u64 u64 | Expire u64

fun ack_step :: "sha \<Rightarrow> AckOp \<Rightarrow> MessageAckTracker \<Rightarrow> MessageAckTracker" where
  "ack_step sha (Send p m e) t = snd (MessageAckTracker_send sha p m e t)"
| "ack_step sha (Ack p m e) t = snd (MessageAckTracker_ack sha p m e t)"
| "ack_step sha (Expire e) t = MessageAckTracker_expire_timeouts sha e t"

interpretation ack_machine: invariant_machine "ack_step sha" "balanced sha" for sha
proof
  fix t op assume "balanced sha t"
  then show "balanced sha (ack_step sha op t)"
    using expire_collected [where sha = sha]
    by (cases op) (auto simp: balanced_send balanced_ack MessageAckTracker_expire_timeouts_def)
qed

lemma balanced_new [simp]: "balanced sha MessageAckTracker_new"
  by (simp add: balanced_def MessageAckTracker_new_def pending_of_def PeerAckState_new_def log_count_def
      AckLog_new_def AckLog_ok_def)

lemma pending_count_eq: "MessageAckTracker_pending_count p t = bt_len (pending_of t p)"
  by (simp add: MessageAckTracker_pending_count_def pending_of_def bt_get_or_def PeerAckState_new_def
      split: option.split)

section \<open>Properties\<close>

text \<open>
  C4.  The ledger balances: after any sends, acknowledgments and expiries, and for every peer, the
  messages the log has as sent are those still pending, those acknowledged and those timed out; at
  most 128 are pending, and the log passes \<open>verify_chain\<close>.
\<close>

theorem ack_ledger_balances:
  "let t = run (ack_step sha) ops MessageAckTracker_new
   in log_count Pending p (mt_log t) =
        MessageAckTracker_pending_count p t + log_count Acked p (mt_log t) + log_count TimedOut p (mt_log t) \<and>
      MessageAckTracker_pending_count p t \<le> 128 \<and>
      AckLog_verify_chain sha (mt_log t) = (True, None)"
proof -
  have "balanced sha (run (ack_step sha) ops MessageAckTracker_new)"
    by (rule ack_machine.run_inv) simp
  then show ?thesis
    by (simp add: Let_def balanced_def pending_count_eq AckLog_verify_iff MAX_PENDING_PER_PEER_def)
qed

text \<open>
  Expiry is exact: \<open>expire_timeouts\<close> takes out the pending messages five epochs old or older
  (the sum saturating at the top of \<open>u64\<close>), of every peer, and no other.
\<close>

theorem ack_expiry_exact:
  "bt_get (pending_of (MessageAckTracker_expire_timeouts sha now t) p) m =
     (case bt_get (pending_of t p) m of
        None \<Rightarrow> None
      | Some x \<Rightarrow> if sat_add (pe_sent_at_epoch x) 5 \<le> now then None else Some x)"
  using expire_collected [where sha = sha and now = now and t = t]
  by (auto simp: MessageAckTracker_expire_timeouts_def collect_expired_iff ack_due_def
      ACK_TIMEOUT_EPOCHS_def split: option.split)

end
