(* ===== verification/Retry_Scheduler.thy ===== *)
theory Retry_Scheduler
  imports Ordered_Map Hash_Chain
begin

text \<open>
  Gate 311, \<open>aegis-cl-psi/src/message_retry_scheduler.rs\<close>: retries with a capped exponential
  backoff.  Per message the log balances (scheduled = waiting + succeeded + abandoned), a message is
  retried four times before it is abandoned, and a tick moves the due messages and no other.
\<close>

section \<open>Status, records, log\<close>

datatype RetryStatus = Scheduled | Retried | Abandoned | Succeeded

fun RetryStatus_status_byte :: "RetryStatus \<Rightarrow> u8" where
  "RetryStatus_status_byte Scheduled = 0"
| "RetryStatus_status_byte Retried = 1"
| "RetryStatus_status_byte Abandoned = 2"
| "RetryStatus_status_byte Succeeded = 3"

lemma RetryStatus_status_byte_inj [simp]: "RetryStatus_status_byte x = RetryStatus_status_byte y \<longleftrightarrow> x = y"
  by (cases x; cases y) auto

record RetryRecord =
  rr_peer_id :: u32
  rr_message_id :: u64
  rr_attempt :: u8
  rr_next_retry_epoch :: u64
  rr_status :: RetryStatus
  rr_record_hash :: hash
  rr_prev_hash :: hash

definition retry_bytes :: "u32 \<Rightarrow> u64 \<Rightarrow> u8 \<Rightarrow> u64 \<Rightarrow> RetryStatus \<Rightarrow> hash \<Rightarrow> bytes" where
  "retry_bytes peer_id message_id attempt next_retry_epoch status prev =
     hash_bytes prev @ be4 peer_id @ be8 message_id @ [attempt] @ be8 next_retry_epoch @ [RetryStatus_status_byte status]"

definition compute_retry_hash :: "sha \<Rightarrow> u32 \<Rightarrow> u64 \<Rightarrow> u8 \<Rightarrow> u64 \<Rightarrow> RetryStatus \<Rightarrow> hash \<Rightarrow> hash" where
  "compute_retry_hash sha peer_id message_id attempt next_retry_epoch status prev = sha (retry_bytes peer_id message_id attempt next_retry_epoch status prev)"

definition build_retry_record :: "sha \<Rightarrow> u32 \<Rightarrow> u64 \<Rightarrow> u8 \<Rightarrow> u64 \<Rightarrow> RetryStatus \<Rightarrow> hash \<Rightarrow> RetryRecord" where
  "build_retry_record sha peer_id message_id attempt next_retry_epoch status prev_hash =
     \<lparr>rr_peer_id = peer_id, rr_message_id = message_id, rr_attempt = attempt, rr_next_retry_epoch = next_retry_epoch, rr_status = status,
      rr_record_hash = compute_retry_hash sha peer_id message_id attempt next_retry_epoch status prev_hash, rr_prev_hash = prev_hash\<rparr>"

definition RetryRecord_bytes_of :: "RetryRecord \<Rightarrow> bytes" where
  "RetryRecord_bytes_of r = retry_bytes (rr_peer_id r) (rr_message_id r) (rr_attempt r) (rr_next_retry_epoch r) (rr_status r) (rr_prev_hash r)"

record RetryLog =
  rl_records :: "RetryRecord list"

definition RetryLog_new :: RetryLog where
  "RetryLog_new = \<lparr>rl_records = []\<rparr>"

definition RetryLog_last_hash :: "RetryLog \<Rightarrow> hash" where
  "RetryLog_last_hash l = last_hash rr_record_hash (rl_records l)"

definition RetryLog_push :: "sha \<Rightarrow> u32 \<Rightarrow> u64 \<Rightarrow> u8 \<Rightarrow> u64 \<Rightarrow> RetryStatus \<Rightarrow> RetryLog \<Rightarrow> RetryLog" where
  "RetryLog_push sha peer_id message_id attempt next_retry_epoch status l =
     (let prev = RetryLog_last_hash l;
          r = build_retry_record sha peer_id message_id attempt next_retry_epoch status prev
      in l\<lparr>rl_records := rl_records l @ [r]\<rparr>)"

definition RetryLog_retried_count :: "RetryLog \<Rightarrow> nat" where
  "RetryLog_retried_count l = length (filter (\<lambda>r. rr_status r = Retried) (rl_records l))"

definition RetryLog_abandoned_count :: "RetryLog \<Rightarrow> nat" where
  "RetryLog_abandoned_count l = length (filter (\<lambda>r. rr_status r = Abandoned) (rl_records l))"

definition RetryLog_succeeded_count :: "RetryLog \<Rightarrow> nat" where
  "RetryLog_succeeded_count l = length (filter (\<lambda>r. rr_status r = Succeeded) (rl_records l))"

definition RetryLog_verify_chain :: "sha \<Rightarrow> RetryLog \<Rightarrow> bool \<times> nat option" where
  "RetryLog_verify_chain sha l =
     verify_from rr_prev_hash rr_record_hash (\<lambda>r. sha (RetryRecord_bytes_of r)) 0 genesis (rl_records l)"

section \<open>The log is tamper evident\<close>

lemma retry_bytes_inj:
  "retry_bytes p0 m1 a2 n3 s4 h = retry_bytes p0' m1' a2' n3' s4' h' \<longleftrightarrow>
   p0 = p0' \<and> m1 = m1' \<and> a2 = a2' \<and> n3 = n3' \<and> s4 = s4' \<and> h = h'"
  by (auto simp: retry_bytes_def enc_simps)

definition RetryRecord_committed :: "RetryRecord \<Rightarrow> u32 \<times> u64 \<times> u8 \<times> u64 \<times> RetryStatus" where
  "RetryRecord_committed r = (rr_peer_id r, rr_message_id r, rr_attempt r, rr_next_retry_epoch r, rr_status r)"

interpretation retry_chain: hash_log RetryRecord_bytes_of rr_prev_hash rr_record_hash RetryRecord_committed
  by unfold_locales (auto simp: RetryRecord_bytes_of_def RetryRecord_committed_def retry_bytes_inj)

definition RetryLog_ok :: "sha \<Rightarrow> RetryLog \<Rightarrow> bool" where
  "RetryLog_ok sha l \<longleftrightarrow> retry_chain.ok sha (rl_records l)"

lemma RetryLog_verify_iff: "RetryLog_verify_chain sha l = (True, None) \<longleftrightarrow> RetryLog_ok sha l"
  by (simp add: RetryLog_verify_chain_def RetryLog_ok_def verify_from_iff)

lemma RetryLog_tamper_evident:
  assumes "RetryLog_ok sha l" "RetryLog_ok sha l'" "RetryLog_last_hash l = RetryLog_last_hash l'"
  shows "map RetryRecord_committed (rl_records l) = map RetryRecord_committed (rl_records l') \<or>
    forgery sha (RetryRecord_bytes_of ` (set (rl_records l) \<union> set (rl_records l')))"
  using assms retry_chain.tamper_evident by (simp add: RetryLog_ok_def RetryLog_last_hash_def)

lemma RetryLog_ok_new [simp]: "RetryLog_ok sha RetryLog_new"
  by (simp add: RetryLog_ok_def RetryLog_new_def)

lemma RetryLog_push_simps [simp]:
  "RetryLog_ok sha (RetryLog_push sha x0 x1 x2 x3 x4 l) \<longleftrightarrow> RetryLog_ok sha l"
  "RetryLog_retried_count (RetryLog_push sha x0 x1 x2 x3 x4 l) = RetryLog_retried_count l + (if x4 = Retried then 1 else 0)"
  "RetryLog_abandoned_count (RetryLog_push sha x0 x1 x2 x3 x4 l) = RetryLog_abandoned_count l + (if x4 = Abandoned then 1 else 0)"
  "RetryLog_succeeded_count (RetryLog_push sha x0 x1 x2 x3 x4 l) = RetryLog_succeeded_count l + (if x4 = Succeeded then 1 else 0)"
  by (simp_all add: RetryLog_ok_def RetryLog_push_def RetryLog_last_hash_def build_retry_record_def compute_retry_hash_def RetryRecord_bytes_of_def Let_def RetryLog_retried_count_def RetryLog_abandoned_count_def RetryLog_succeeded_count_def)

lemma RetryLog_new_simps [simp]:
  "RetryLog_retried_count RetryLog_new = 0"
  "RetryLog_abandoned_count RetryLog_new = 0"
  "RetryLog_succeeded_count RetryLog_new = 0"
  by (simp_all add: RetryLog_new_def RetryLog_retried_count_def RetryLog_abandoned_count_def RetryLog_succeeded_count_def)


section \<open>The scheduler\<close>

definition BASE_RETRY_EPOCHS :: u64 where "BASE_RETRY_EPOCHS = 2"
definition MAX_RETRY_EPOCHS :: u64 where "MAX_RETRY_EPOCHS = 32"
definition MAX_RETRIES :: u8 where "MAX_RETRIES = 5"

record RetryEntry =
  re_attempt_count :: u8
  re_next_retry_epoch :: u64

datatype RetryError = AlreadyScheduled

record MessageRetryScheduler =
  rs_pending :: "(u32 \<times> u64, RetryEntry) btmap"
  rs_abandoned_total :: u64
  rs_log :: RetryLog

definition MessageRetryScheduler_new :: MessageRetryScheduler where
  "MessageRetryScheduler_new = \<lparr>rs_pending = bt_empty, rs_abandoned_total = 0, rs_log = RetryLog_new\<rparr>"

definition backoff_interval :: "u8 \<Rightarrow> u64" where
  "backoff_interval attempt_count =
     (let shift = ucast (min attempt_count 5) :: u64;
          multiplier = push_bit (unat shift) 1
      in min (sat_mul BASE_RETRY_EPOCHS multiplier) MAX_RETRY_EPOCHS)"

definition MessageRetryScheduler_schedule ::
  "sha \<Rightarrow> u32 \<Rightarrow> u64 \<Rightarrow> u64 \<Rightarrow> MessageRetryScheduler \<Rightarrow> (RetryError + unit) \<times> MessageRetryScheduler" where
  "MessageRetryScheduler_schedule sha peer_id message_id epoch t =
     (let key = (peer_id, message_id)
      in if bt_has (rs_pending t) key then (Inl AlreadyScheduled, t)
         else
           let nxt = sat_add epoch (backoff_interval 0)
           in (Inr (),
               t\<lparr>rs_pending := bt_insert key \<lparr>re_attempt_count = 0, re_next_retry_epoch = nxt\<rparr> (rs_pending t),
                 rs_log := RetryLog_push sha peer_id message_id 0 nxt Scheduled (rs_log t)\<rparr>))"

definition MessageRetryScheduler_succeed ::
  "sha \<Rightarrow> u32 \<Rightarrow> u64 \<Rightarrow> u64 \<Rightarrow> MessageRetryScheduler \<Rightarrow> bool \<times> MessageRetryScheduler" where
  "MessageRetryScheduler_succeed sha peer_id message_id epoch t =
     (if bt_has (rs_pending t) (peer_id, message_id)
      then (True,
        t\<lparr>rs_pending := bt_remove (peer_id, message_id) (rs_pending t),
          rs_log := RetryLog_push sha peer_id message_id 0 epoch Succeeded (rs_log t)\<rparr>)
      else (False, t))"

definition retry_due :: "u64 \<Rightarrow> (u32 \<times> u64, RetryEntry) btmap \<Rightarrow> (u32 \<times> u64 \<times> u8) list" where
  "retry_due current_epoch pending =
     map (\<lambda>((pid, mid), e). (pid, mid, re_attempt_count e))
       (filter (\<lambda>(_, e). current_epoch \<ge> re_next_retry_epoch e) (entries pending))"

definition retry_one ::
  "sha \<Rightarrow> u64 \<Rightarrow> u32 \<times> u64 \<times> u8 \<Rightarrow> MessageRetryScheduler \<times> (u32 \<times> u64) list \<Rightarrow>
   MessageRetryScheduler \<times> (u32 \<times> u64) list" where
  "retry_one sha current_epoch x acc =
     (case (x, acc) of ((pid, mid, attempt), (t, ready)) \<Rightarrow>
        let new_attempt = sat_add attempt 1
        in if new_attempt \<ge> MAX_RETRIES then
             (t\<lparr>rs_pending := bt_remove (pid, mid) (rs_pending t),
                rs_abandoned_total := rs_abandoned_total t + 1,
                rs_log := RetryLog_push sha pid mid new_attempt current_epoch Abandoned (rs_log t)\<rparr>, ready)
           else
             let nxt = sat_add current_epoch (backoff_interval new_attempt);
                 pending = (case bt_get (rs_pending t) (pid, mid) of
                   None \<Rightarrow> rs_pending t
                 | Some entry \<Rightarrow> bt_insert (pid, mid)
                     (entry\<lparr>re_attempt_count := new_attempt, re_next_retry_epoch := nxt\<rparr>) (rs_pending t))
             in (t\<lparr>rs_pending := pending,
                   rs_log := RetryLog_push sha pid mid new_attempt nxt Retried (rs_log t)\<rparr>,
                 ready @ [(pid, mid)]))"

definition MessageRetryScheduler_tick ::
  "sha \<Rightarrow> u64 \<Rightarrow> MessageRetryScheduler \<Rightarrow> (u32 \<times> u64) list \<times> MessageRetryScheduler" where
  "MessageRetryScheduler_tick sha current_epoch t =
     (let (t', ready) = fold (retry_one sha current_epoch) (retry_due current_epoch (rs_pending t)) (t, [])
      in (ready, t'))"

definition MessageRetryScheduler_pending_count :: "MessageRetryScheduler \<Rightarrow> nat" where
  "MessageRetryScheduler_pending_count t = bt_len (rs_pending t)"

section \<open>The backoff\<close>

lemma unat_backoff: "unat (backoff_interval a) = min (2 * 2 ^ unat a) 32"
proof (cases "a < 5")
  case True
  then have "a \<in> {0, 1, 2, 3, 4}" by (simp add: word_less_nat_alt unat_word_ariths word_unat_eq_iff) arith
  then show ?thesis
    by (auto simp: backoff_interval_def Let_def sat_mul_def BASE_RETRY_EPOCHS_def MAX_RETRY_EPOCHS_def min_def)
next
  case False
  then have "5 \<le> unat a" by (simp add: word_less_nat_alt)
  then have "(2::nat) ^ 5 \<le> 2 ^ unat a" by (rule power_increasing) simp
  with False show ?thesis
    by (simp add: backoff_interval_def Let_def sat_mul_def BASE_RETRY_EPOCHS_def MAX_RETRY_EPOCHS_def min_def)
qed

lemma backoff_eq: "backoff_interval a = of_nat (min (2 * 2 ^ unat a) 32)"
  by (simp flip: unat_backoff)

section \<open>What the log says of a message\<close>

definition log_of :: "MessageRetryScheduler \<Rightarrow> u32 \<times> u64 \<Rightarrow> RetryStatus \<Rightarrow> nat" where
  "log_of t k st =
     length (filter (\<lambda>r. rr_status r = st \<and> (rr_peer_id r, rr_message_id r) = k) (rl_records (rs_log t)))"

lemma log_of_push:
  "rs_log t' = RetryLog_push sha p m a e st (rs_log t) \<Longrightarrow>
   log_of t' k = (\<lambda>s. log_of t k s + (if s = st \<and> k = (p, m) then 1 else 0))"
  by (auto simp: log_of_def RetryLog_push_def build_retry_record_def Let_def fun_eq_iff)

text \<open>The account of one message: its entry, if it has one, against the counts of its log records.\<close>

fun message_ok :: "RetryEntry option \<Rightarrow> (RetryStatus \<Rightarrow> nat) \<Rightarrow> bool" where
  "message_ok None c \<longleftrightarrow>
     c Scheduled = c Succeeded + c Abandoned \<and>
     4 * c Abandoned \<le> c Retried \<and> c Retried \<le> 4 * c Scheduled"
| "message_ok (Some e) c \<longleftrightarrow>
     unat (re_attempt_count e) \<le> 4 \<and> c Scheduled = Suc (c Succeeded + c Abandoned) \<and>
     4 * c Abandoned + unat (re_attempt_count e) \<le> c Retried \<and>
     c Retried \<le> 4 * (c Succeeded + c Abandoned) + unat (re_attempt_count e)"

definition retry_ok :: "sha \<Rightarrow> MessageRetryScheduler \<Rightarrow> bool" where
  "retry_ok sha t \<longleftrightarrow> RetryLog_ok sha (rs_log t) \<and>
     rs_abandoned_total t = of_nat (RetryLog_abandoned_count (rs_log t)) \<and>
     (\<forall>k. message_ok (bt_get (rs_pending t) k) (log_of t k))"

lemma retry_okD: "retry_ok sha t \<Longrightarrow> message_ok (bt_get (rs_pending t) k) (log_of t k)"
  by (simp add: retry_ok_def del: split_paired_All)

lemma retry_ok_attempt:
  "retry_ok sha t \<Longrightarrow> bt_get (rs_pending t) k = Some x \<Longrightarrow> unat (re_attempt_count x) \<le> 4"
  using retry_okD [of sha t k] by simp

text \<open>Every operation that writes a record moves one message.\<close>

lemma retry_ok_move:
  assumes "retry_ok sha t"
    and "rs_log t' = RetryLog_push sha p m a e st (rs_log t)"
    and "bt_get (rs_pending t') = (bt_get (rs_pending t))((p, m) := x)"
    and "rs_abandoned_total t' = (if st = Abandoned then rs_abandoned_total t + 1 else rs_abandoned_total t)"
    and "\<And>c. message_ok (bt_get (rs_pending t) (p, m)) c \<Longrightarrow> message_ok x (\<lambda>s. c s + (if s = st then 1 else 0))"
  shows "retry_ok sha t'"
proof -
  have "message_ok (bt_get (rs_pending t') k) (log_of t' k)" for k
    using retry_okD [OF assms(1), of k] assms(3) assms(5) [of "log_of t (p, m)"]
    by (cases "k = (p, m)") (simp_all add: log_of_push [OF assms(2)])
  then show ?thesis using assms(1,2,4) by (simp add: retry_ok_def del: split_paired_All)
qed

lemma retry_ok_new [simp]: "retry_ok sha MessageRetryScheduler_new"
  by (simp add: retry_ok_def MessageRetryScheduler_new_def RetryLog_ok_def RetryLog_new_def
      RetryLog_abandoned_count_def log_of_def)

lemma retry_ok_schedule: "retry_ok sha t \<Longrightarrow> retry_ok sha (snd (MessageRetryScheduler_schedule sha p m e t))"
  by (cases "bt_get (rs_pending t) (p, m)")
    (auto simp: MessageRetryScheduler_schedule_def Let_def bt_has_def elim: retry_ok_move)

lemma retry_ok_succeed: "retry_ok sha t \<Longrightarrow> retry_ok sha (snd (MessageRetryScheduler_succeed sha p m e t))"
  by (auto simp: MessageRetryScheduler_succeed_def bt_has_def elim!: retry_ok_move)

lemma attempt_cases:
  assumes "unat (a :: u8) \<le> 4"
  shows "sat_add a 1 = a + 1" and "unat (a + 1) = Suc (unat a)" and "MAX_RETRIES \<le> a + 1 \<longleftrightarrow> unat a = 4"
proof -
  show "sat_add a 1 = a + 1" using assms by (simp add: sat_add_def)
  show inc: "unat (a + 1) = Suc (unat a)" using assms by (intro unat_inc) simp
  show "MAX_RETRIES \<le> a + 1 \<longleftrightarrow> unat a = 4"
    using assms by (auto simp: MAX_RETRIES_def word_le_nat_alt inc)
qed

lemma retry_ok_one:
  assumes ok: "retry_ok sha t" and x: "bt_get (rs_pending t) (p, m) = Some x"
  shows "retry_ok sha (fst (retry_one sha now (p, m, re_attempt_count x) (t, ready)))"
proof -
  note a = retry_ok_attempt [OF ok x]
  show ?thesis
  proof (cases "unat (re_attempt_count x) = 4")
    case True
    then have "MAX_RETRIES \<le> re_attempt_count x + 1" using a by (simp add: attempt_cases)
    with True show ?thesis
      by (intro retry_ok_move [OF ok]) (auto simp: retry_one_def Let_def x attempt_cases)
  next
    case False
    then have "\<not> MAX_RETRIES \<le> re_attempt_count x + 1" using a by (simp add: attempt_cases)
    with False a show ?thesis
      by (intro retry_ok_move [OF ok]) (auto simp: retry_one_def Let_def x attempt_cases)
  qed
qed

section \<open>A tick\<close>

text \<open>Where one due message goes: back with the next attempt number and interval, or out.\<close>

definition next_entry :: "u64 \<Rightarrow> RetryEntry \<Rightarrow> RetryEntry option" where
  "next_entry now e =
     (if unat (re_attempt_count e) \<ge> 4 then None
      else Some \<lparr>re_attempt_count = re_attempt_count e + 1,
                 re_next_retry_epoch = sat_add now (backoff_interval (re_attempt_count e + 1))\<rparr>)"

definition is_due :: "u64 \<Rightarrow> RetryEntry \<Rightarrow> bool" where
  "is_due now e \<longleftrightarrow> re_next_retry_epoch e \<le> now"

lemma retry_one_effect:
  assumes ok: "retry_ok sha t" and x: "bt_get (rs_pending t) (p, m) = Some x"
    and r: "retry_one sha now (p, m, re_attempt_count x) (t, ready) = (t', ready')"
  shows "bt_get (rs_pending t') = (bt_get (rs_pending t))((p, m) := next_entry now x)"
    and "ready' = ready @ (if unat (re_attempt_count x) < 4 then [(p, m)] else [])"
  using retry_ok_attempt [OF ok x] r
  by (auto simp: retry_one_def Let_def x next_entry_def attempt_cases split: if_splits)

abbreviation due_key :: "u32 \<times> u64 \<times> u8 \<Rightarrow> u32 \<times> u64" where
  "due_key y \<equiv> (fst y, fst (snd y))"

definition due_in :: "(u32 \<times> u64 \<times> u8) list \<Rightarrow> MessageRetryScheduler \<Rightarrow> bool" where
  "due_in xs t \<longleftrightarrow> distinct (map due_key xs) \<and>
     (\<forall>y \<in> set xs. map_option re_attempt_count (bt_get (rs_pending t) (due_key y)) = Some (snd (snd y)))"

lemma retry_all:
  assumes "retry_ok sha t" and "due_in xs t" and "fold (retry_one sha now) xs (t, ready) = (t', ready')"
  shows "retry_ok sha t' \<and>
    (\<forall>k. bt_get (rs_pending t') k =
      (if k \<in> due_key ` set xs then next_entry now (the (bt_get (rs_pending t) k)) else bt_get (rs_pending t) k)) \<and>
    ready' = ready @ map due_key (filter (\<lambda>y. unat (snd (snd y)) < 4) xs)"
  using assms
proof (induction xs arbitrary: t ready)
  case Nil
  then show ?case by simp
next
  case (Cons y xs)
  obtain p m a where y: "y = (p, m, a)" by (cases y)
  obtain x where x: "bt_get (rs_pending t) (p, m) = Some x" and a: "a = re_attempt_count x"
    using Cons.prems(2) by (auto simp: due_in_def y)
  obtain t1 ready1 where one: "retry_one sha now (p, m, re_attempt_count x) (t, ready) = (t1, ready1)"
    by fastforce
  note effect = retry_one_effect [OF Cons.prems(1) x one]
  have "retry_ok sha t1"
    using retry_ok_one [OF Cons.prems(1) x, of now ready] by (simp add: one)
  moreover have "due_in xs t1"
    using Cons.prems(2) by (force simp: due_in_def y effect)
  moreover have "fold (retry_one sha now) xs (t1, ready1) = (t', ready')"
    using Cons.prems(3) by (simp add: y a one)
  ultimately show ?case
    using Cons.IH [of t1 ready1] Cons.prems(2) x
    by (auto simp: effect y a due_in_def simp del: split_paired_All)
qed

lemma due_in_collected: "due_in (retry_due now (rs_pending t)) t"
proof -
  have "distinct (map fst (entries (rs_pending t)))" by (rule keys_sorted_distinct) simp
  moreover have "map due_key (retry_due now (rs_pending t)) =
      map fst (filter (\<lambda>(_, e). re_next_retry_epoch e \<le> now) (entries (rs_pending t)))"
    by (auto simp: retry_due_def)
  ultimately have "distinct (map due_key (retry_due now (rs_pending t)))"
    by (simp add: distinct_map_filter)
  then show ?thesis by (auto simp: due_in_def retry_due_def in_entries_iff)
qed

lemma due_keys_collected:
  "k \<in> due_key ` set (retry_due now (rs_pending t)) \<longleftrightarrow>
   (\<exists>e. bt_get (rs_pending t) k = Some e \<and> is_due now e)"
  by (cases k) (force simp: retry_due_def in_entries_iff is_due_def)

lemma tick_effect:
  assumes "retry_ok sha t" and "MessageRetryScheduler_tick sha now t = (ready, t')"
  shows "retry_ok sha t'"
    and "bt_get (rs_pending t') k =
      (case bt_get (rs_pending t) k of
         None \<Rightarrow> None
       | Some e \<Rightarrow> if is_due now e then next_entry now e else Some e)"
    and "ready = map due_key (filter (\<lambda>y. unat (snd (snd y)) < 4) (retry_due now (rs_pending t)))"
proof -
  have "fold (retry_one sha now) (retry_due now (rs_pending t)) (t, []) = (t', ready)"
    using assms(2) by (auto simp: MessageRetryScheduler_tick_def split: prod.splits)
  note all = retry_all [OF assms(1) due_in_collected this]
  show "retry_ok sha t'" using all by blast
  show "bt_get (rs_pending t') k = (case bt_get (rs_pending t) k of
         None \<Rightarrow> None | Some e \<Rightarrow> if is_due now e then next_entry now e else Some e)"
    using all by (auto simp: due_keys_collected split: option.split simp del: split_paired_All)
  show "ready = map due_key (filter (\<lambda>y. unat (snd (snd y)) < 4) (retry_due now (rs_pending t)))"
    using all by simp
qed

lemma sorted_due_keys:
  "sorted_wrt (<) (map due_key (filter (\<lambda>y. unat (snd (snd y)) < 4) (retry_due now (rs_pending t))))"
proof -
  have "map due_key (filter (\<lambda>y. unat (snd (snd y)) < 4) (retry_due now m)) =
      map fst (filter (\<lambda>x. re_next_retry_epoch (snd x) \<le> now \<and> unat (re_attempt_count (snd x)) < 4) (entries m))" for m
    by (simp add: retry_due_def filter_map comp_def case_prod_beta)
  moreover have "keys_sorted (entries (rs_pending t))" by simp
  ultimately show ?thesis
    by (simp add: sorted_wrt_map sorted_wrt_filter)
qed

section \<open>The scheduler as a machine\<close>

datatype RetryOp = Schedule u32 u64 u64 | Succeed u32 u64 u64 | Tick u64

fun retry_step :: "sha \<Rightarrow> RetryOp \<Rightarrow> MessageRetryScheduler \<Rightarrow> MessageRetryScheduler" where
  "retry_step sha (Schedule p m e) t = snd (MessageRetryScheduler_schedule sha p m e t)"
| "retry_step sha (Succeed p m e) t = snd (MessageRetryScheduler_succeed sha p m e t)"
| "retry_step sha (Tick e) t = snd (MessageRetryScheduler_tick sha e t)"

interpretation retry_machine: invariant_machine "retry_step sha" "retry_ok sha" for sha
proof
  fix t op assume "retry_ok sha t"
  then show "retry_ok sha (retry_step sha op t)"
    by (cases op) (auto simp: retry_ok_schedule retry_ok_succeed intro: tick_effect(1) [OF _ prod.collapse [symmetric]])
qed

section \<open>Properties\<close>

text \<open>
  C5.  The life of a message: after any operations, what the log has scheduled is waiting, succeeded
  or abandoned; every abandonment was preceded by four retries and no scheduling leads to more than
  four; the log passes \<open>verify_chain\<close> and the counter of abandonments agrees with it modulo
  \<open>2 ^ 64\<close>.
\<close>

theorem retry_books_balance:
  "let t = run (retry_step sha) ops MessageRetryScheduler_new
   in log_of t k Scheduled =
        (if bt_has (rs_pending t) k then 1 else 0) + log_of t k Succeeded + log_of t k Abandoned \<and>
      4 * log_of t k Abandoned \<le> log_of t k Retried \<and> log_of t k Retried \<le> 4 * log_of t k Scheduled \<and>
      rs_abandoned_total t = of_nat (RetryLog_abandoned_count (rs_log t)) \<and>
      RetryLog_verify_chain sha (rs_log t) = (True, None)"
proof -
  let ?t = "run (retry_step sha) ops MessageRetryScheduler_new"
  have ok: "retry_ok sha ?t" by (rule retry_machine.run_inv) simp
  show ?thesis
    using retry_okD [OF ok, of k] ok
    by (cases "bt_get (rs_pending ?t) k")
      (simp_all add: Let_def bt_has_def RetryLog_verify_iff retry_ok_def del: split_paired_All)
qed

text \<open>
  A tick, in any state the operations reach: a message not yet due keeps its entry; a due one
  is retried, with the next attempt number and an interval of 2, 4, 8, 16 or 32 epochs, or, at the
  fifth time, dropped.  The list returned is that of the retried messages, in key order.
\<close>

theorem retry_tick_exact:
  fixes now :: u64
  assumes "t = run (retry_step sha) ops MessageRetryScheduler_new"
    and "MessageRetryScheduler_tick sha now t = (ready, t')"
  shows "bt_get (rs_pending t') k =
      (case bt_get (rs_pending t) k of
         None \<Rightarrow> None
       | Some e \<Rightarrow>
           if now < re_next_retry_epoch e then Some e
           else if unat (re_attempt_count e) = 4 then None
           else Some \<lparr>re_attempt_count = re_attempt_count e + 1,
                      re_next_retry_epoch =
                        sat_add now (of_nat (min (2 * 2 ^ Suc (unat (re_attempt_count e))) 32))\<rparr>) \<and>
    (k \<in> set ready \<longleftrightarrow>
      (\<exists>e. bt_get (rs_pending t) k = Some e \<and> re_next_retry_epoch e \<le> now \<and> unat (re_attempt_count e) < 4)) \<and>
    sorted_wrt (<) ready"
proof (intro conjI)
  have ok: "retry_ok sha t" unfolding assms(1) by (rule retry_machine.run_inv) simp
  note tick = tick_effect [OF ok assms(2)]
  have le: "unat (re_attempt_count e) \<le> 4" if "bt_get (rs_pending t) k = Some e" for e
    using retry_ok_attempt [OF ok that] .
  show "bt_get (rs_pending t') k = (case bt_get (rs_pending t) k of
         None \<Rightarrow> None
       | Some e \<Rightarrow>
           if now < re_next_retry_epoch e then Some e
           else if unat (re_attempt_count e) = 4 then None
           else Some \<lparr>re_attempt_count = re_attempt_count e + 1,
                      re_next_retry_epoch =
                        sat_add now (of_nat (min (2 * 2 ^ Suc (unat (re_attempt_count e))) 32))\<rparr>)"
    using le by (auto simp: tick(2) is_due_def next_entry_def backoff_eq attempt_cases split: option.split)
  show "k \<in> set ready \<longleftrightarrow>
      (\<exists>e. bt_get (rs_pending t) k = Some e \<and> re_next_retry_epoch e \<le> now \<and> unat (re_attempt_count e) < 4)"
    by (cases k) (force simp: tick(3) retry_due_def in_entries_iff)
  show "sorted_wrt (<) ready"
    unfolding tick(3) by (rule sorted_due_keys)
qed

lemma retry_tick_exact_witness:
  "let t = run (retry_step from_be) [Schedule 1 7 10] MessageRetryScheduler_new;
       r = MessageRetryScheduler_tick from_be 12 t
   in bt_get (rs_pending (snd r)) (1, 7) = Some \<lparr>re_attempt_count = 1, re_next_retry_epoch = 16\<rparr>"
proof -
  let ?t = "run (retry_step from_be) [Schedule 1 7 10] MessageRetryScheduler_new"
  have "bt_get (rs_pending ?t) (1, 7) = Some \<lparr>re_attempt_count = 0, re_next_retry_epoch = 12\<rparr>"
    by (simp add: MessageRetryScheduler_schedule_def MessageRetryScheduler_new_def Let_def backoff_eq sat_add_def)
  with retry_tick_exact [where k = "(1, 7)" and sha = from_be and ops = "[Schedule 1 7 10]" and now = 12,
      OF refl prod.collapse [symmetric]]
  show ?thesis by (simp add: Let_def sat_add_def)
qed

end
