(* ===== verification/Priority_Queue.thy ===== *)
theory Priority_Queue
  imports Hash_Chain "HOL-Library.Multiset" "HOL-Library.Product_Lexorder"
begin

text \<open>
  Gate 299, \<open>aegis-cl-psi/src/message_priority_queue.rs\<close>: the bounded queue of outbound messages.
  The entries stay sorted by class and sequence number, so what leaves is the least; a full queue
  gives up its oldest entry of the worst class, a critical one only when all are critical.
\<close>

section \<open>Classes, entries, records\<close>

datatype PriorityClass = Critical | High | Normal | Low

fun PriorityClass_class_byte :: "PriorityClass \<Rightarrow> u8" where
  "PriorityClass_class_byte Critical = 0"
| "PriorityClass_class_byte High = 1"
| "PriorityClass_class_byte Normal = 2"
| "PriorityClass_class_byte Low = 3"

lemma PriorityClass_class_byte_inj [simp]: "PriorityClass_class_byte x = PriorityClass_class_byte y \<longleftrightarrow> x = y"
  by (cases x; cases y) auto


text \<open>The derived order is that of the discriminants.\<close>

instantiation PriorityClass :: linorder
begin

definition less_eq_PriorityClass :: "PriorityClass \<Rightarrow> PriorityClass \<Rightarrow> bool" where
  "p \<le> q \<longleftrightarrow> PriorityClass_class_byte p \<le> PriorityClass_class_byte q"

definition less_PriorityClass :: "PriorityClass \<Rightarrow> PriorityClass \<Rightarrow> bool" where
  "p < q \<longleftrightarrow> PriorityClass_class_byte p < PriorityClass_class_byte q"

instance
  by standard (auto simp: less_eq_PriorityClass_def less_PriorityClass_def order.strict_iff_order)

end

definition PriorityClass_is_critical :: "PriorityClass \<Rightarrow> bool" where
  "PriorityClass_is_critical c \<longleftrightarrow> c = Critical"

record QueueEntry =
  qe_priority :: PriorityClass
  qe_enqueue_seq :: u64
  qe_peer_id :: u32
  qe_message_id :: u64
  qe_payload_hash :: hash

datatype QueueOperation = Enqueue | Dequeue | Evict

fun QueueOperation_op_byte :: "QueueOperation \<Rightarrow> u8" where
  "QueueOperation_op_byte Enqueue = 0"
| "QueueOperation_op_byte Dequeue = 1"
| "QueueOperation_op_byte Evict = 2"

lemma QueueOperation_op_byte_inj [simp]: "QueueOperation_op_byte x = QueueOperation_op_byte y \<longleftrightarrow> x = y"
  by (cases x; cases y) auto

record QueueRecord =
  qr_epoch :: u64
  qr_operation :: QueueOperation
  qr_queue_depth :: u32
  qr_evicted_message_id :: "u64 option"
  qr_record_hash :: hash
  qr_prev_hash :: hash

definition queue_bytes :: "u64 \<Rightarrow> QueueOperation \<Rightarrow> u32 \<Rightarrow> u64 option \<Rightarrow> hash \<Rightarrow> bytes" where
  "queue_bytes epoch operation queue_depth evicted_message_id prev =
     hash_bytes prev @ be8 epoch @ [QueueOperation_op_byte operation] @ be4 queue_depth @ be8 (unwrap_or (- 1) evicted_message_id)"

definition compute_queue_hash :: "sha \<Rightarrow> u64 \<Rightarrow> QueueOperation \<Rightarrow> u32 \<Rightarrow> u64 option \<Rightarrow> hash \<Rightarrow> hash" where
  "compute_queue_hash sha epoch operation queue_depth evicted_message_id prev = sha (queue_bytes epoch operation queue_depth evicted_message_id prev)"

definition build_queue_record :: "sha \<Rightarrow> u64 \<Rightarrow> QueueOperation \<Rightarrow> u32 \<Rightarrow> u64 option \<Rightarrow> hash \<Rightarrow> QueueRecord" where
  "build_queue_record sha epoch operation queue_depth evicted_message_id prev_hash =
     \<lparr>qr_epoch = epoch, qr_operation = operation, qr_queue_depth = queue_depth, qr_evicted_message_id = evicted_message_id,
      qr_record_hash = compute_queue_hash sha epoch operation queue_depth evicted_message_id prev_hash, qr_prev_hash = prev_hash\<rparr>"

definition QueueRecord_bytes_of :: "QueueRecord \<Rightarrow> bytes" where
  "QueueRecord_bytes_of r = queue_bytes (qr_epoch r) (qr_operation r) (qr_queue_depth r) (qr_evicted_message_id r) (qr_prev_hash r)"

section \<open>The records are tamper evident\<close>

text \<open>
  The hash covers \<open>evicted_message_id.unwrap_or(u64::MAX)\<close> and commits to that value only.
\<close>

lemma queue_bytes_inj:
  "queue_bytes e0 o1 q2 e3 h = queue_bytes e0' o1' q2' e3' h' \<longleftrightarrow>
   e0 = e0' \<and> o1 = o1' \<and> q2 = q2' \<and> unwrap_or (- 1) e3 = unwrap_or (- 1) e3' \<and> h = h'"
  by (auto simp: queue_bytes_def enc_simps)

definition QueueRecord_committed :: "QueueRecord \<Rightarrow> u64 \<times> QueueOperation \<times> u32 \<times> u64" where
  "QueueRecord_committed r = (qr_epoch r, qr_operation r, qr_queue_depth r, unwrap_or (- 1) (qr_evicted_message_id r))"

interpretation queue_chain: hash_log QueueRecord_bytes_of qr_prev_hash qr_record_hash QueueRecord_committed
  by unfold_locales (auto simp: QueueRecord_bytes_of_def QueueRecord_committed_def queue_bytes_inj)


section \<open>The queue\<close>

definition QUEUE_CAPACITY :: nat where "QUEUE_CAPACITY = 64"

record MessagePriorityQueue =
  mq_entries :: "QueueEntry list"
  mq_next_seq :: u64
  mq_records :: "QueueRecord list"
  mq_enqueue_count :: u64
  mq_dequeue_count :: u64
  mq_evict_count :: u64

datatype QueueError = CriticalReserveViolation

definition MessagePriorityQueue_new :: MessagePriorityQueue where
  "MessagePriorityQueue_new =
     \<lparr>mq_entries = [], mq_next_seq = 0, mq_records = [], mq_enqueue_count = 0, mq_dequeue_count = 0,
      mq_evict_count = 0\<rparr>"

definition MessagePriorityQueue_last_hash :: "MessagePriorityQueue \<Rightarrow> hash" where
  "MessagePriorityQueue_last_hash q = last_hash qr_record_hash (mq_records q)"

definition MessagePriorityQueue_push_record ::
  "sha \<Rightarrow> u64 \<Rightarrow> QueueOperation \<Rightarrow> u64 option \<Rightarrow> MessagePriorityQueue \<Rightarrow> MessagePriorityQueue" where
  "MessagePriorityQueue_push_record sha epoch op evicted q =
     (let depth = of_nat (length (mq_entries q));
          prev = MessagePriorityQueue_last_hash q;
          r = build_queue_record sha epoch op depth evicted prev
      in q\<lparr>mq_records := mq_records q @ [r]\<rparr>)"

definition entry_key :: "QueueEntry \<Rightarrow> PriorityClass \<times> u64" where
  "entry_key e = (qe_priority e, qe_enqueue_seq e)"

text \<open>
  \<open>max_by_key\<close> over the entries that are not critical; of equal keys the iterator keeps the last.
\<close>

definition evict_key :: "QueueEntry \<Rightarrow> PriorityClass \<times> u64" where
  "evict_key e = (qe_priority e, - 1 - qe_enqueue_seq e)"

definition better_victim :: "nat \<times> QueueEntry \<Rightarrow> (nat \<times> QueueEntry) option \<Rightarrow> (nat \<times> QueueEntry) option" where
  "better_victim x best =
     (if PriorityClass_is_critical (qe_priority (snd x)) then best
      else case best of
        None \<Rightarrow> Some x
      | Some b \<Rightarrow> if evict_key (snd b) \<le> evict_key (snd x) then Some x else best)"

definition evict_idx :: "QueueEntry list \<Rightarrow> nat option" where
  "evict_idx es = map_option fst (fold better_victim (List.enumerate 0 es) None)"

definition remove_nth :: "nat \<Rightarrow> 'a list \<Rightarrow> 'a list" where
  "remove_nth i xs = take i xs @ drop (Suc i) xs"

text \<open>
  What \<open>enqueue\<close> does first: room for one entry.  The result is the queue and the message it lost, or
  the error.
\<close>

definition make_room ::
  "PriorityClass \<Rightarrow> MessagePriorityQueue \<Rightarrow> QueueError + (u64 option \<times> MessagePriorityQueue)" where
  "make_room priority q =
     (if length (mq_entries q) \<ge> QUEUE_CAPACITY then
        case evict_idx (mq_entries q) of
          Some idx \<Rightarrow>
            Inr (Some (qe_message_id (mq_entries q ! idx)),
                 q\<lparr>mq_entries := remove_nth idx (mq_entries q), mq_evict_count := mq_evict_count q + 1\<rparr>)
        | None \<Rightarrow>
            if \<not> PriorityClass_is_critical priority then Inl CriticalReserveViolation
            else
              (case mq_entries q of
                 [] \<Rightarrow> Inr (None, q)
               | evicted # rest \<Rightarrow>
                   Inr (Some (qe_message_id evicted),
                        q\<lparr>mq_entries := rest, mq_evict_count := mq_evict_count q + 1\<rparr>))
      else Inr (None, q))"

definition insert_sorted :: "QueueEntry \<Rightarrow> QueueEntry list \<Rightarrow> QueueEntry list" where
  "insert_sorted entry es =
     (let insert_pos = length (takeWhile (\<lambda>e. entry_key e < entry_key entry) es)
      in take insert_pos es @ [entry] @ drop insert_pos es)"

definition MessagePriorityQueue_enqueue ::
  "sha \<Rightarrow> u64 \<Rightarrow> PriorityClass \<Rightarrow> u32 \<Rightarrow> u64 \<Rightarrow> hash \<Rightarrow> MessagePriorityQueue \<Rightarrow>
   (QueueError + unit) \<times> MessagePriorityQueue" where
  "MessagePriorityQueue_enqueue sha epoch priority peer_id message_id payload_hash q =
     (let seq = mq_next_seq q;
          q = q\<lparr>mq_next_seq := seq + 1\<rparr>;
          entry = \<lparr>qe_priority = priority, qe_enqueue_seq = seq, qe_peer_id = peer_id,
                   qe_message_id = message_id, qe_payload_hash = payload_hash\<rparr>
      in case make_room priority q of
           Inl err \<Rightarrow> (Inl err, q)
         | Inr (evicted_id, q) \<Rightarrow>
             (Inr (),
              MessagePriorityQueue_push_record sha epoch Enqueue evicted_id
                (q\<lparr>mq_entries := insert_sorted entry (mq_entries q),
                   mq_enqueue_count := mq_enqueue_count q + 1\<rparr>)))"

definition MessagePriorityQueue_dequeue ::
  "sha \<Rightarrow> u64 \<Rightarrow> MessagePriorityQueue \<Rightarrow> QueueEntry option \<times> MessagePriorityQueue" where
  "MessagePriorityQueue_dequeue sha epoch q =
     (case mq_entries q of
        [] \<Rightarrow> (None, q)
      | entry # rest \<Rightarrow>
          (Some entry,
           MessagePriorityQueue_push_record sha epoch Dequeue None
             (q\<lparr>mq_entries := rest, mq_dequeue_count := mq_dequeue_count q + 1\<rparr>)))"

definition MessagePriorityQueue_verify_chain :: "sha \<Rightarrow> MessagePriorityQueue \<Rightarrow> bool \<times> nat option" where
  "MessagePriorityQueue_verify_chain sha q =
     verify_from qr_prev_hash qr_record_hash (\<lambda>r. sha (QueueRecord_bytes_of r)) 0 genesis (mq_records q)"

section \<open>The victim\<close>

abbreviation critical :: "QueueEntry \<Rightarrow> bool" where
  "critical e \<equiv> qe_priority e = Critical"

lemma Critical_least [simp]: "Critical \<le> c"
  by (cases c) (simp_all add: less_eq_PriorityClass_def)

lemma evict_key_le:
  "evict_key e \<le> evict_key v \<longleftrightarrow>
   qe_priority e < qe_priority v \<or> qe_priority e = qe_priority v \<and> qe_enqueue_seq v \<le> qe_enqueue_seq e"
proof -
  have "unat (- 1 - s) = 2 ^ 64 - 1 - unat s" for s :: u64
    by (simp add: unat_sub unat_max_word)
  then have "- 1 - s \<le> - 1 - s' \<longleftrightarrow> s' \<le> s" for s s' :: u64
    using unat_le_max [of s] unat_le_max [of s'] by (auto simp: word_le_nat_alt)
  then show ?thesis by (auto simp: evict_key_def)
qed

lemma best_victim:
  "case fold better_victim (List.enumerate 0 es) None of
     None \<Rightarrow> \<forall>e \<in> set es. critical e
   | Some (i, v) \<Rightarrow> i < length es \<and> es ! i = v \<and> \<not> critical v \<and>
       (\<forall>e \<in> set es. \<not> critical e \<longrightarrow> evict_key e \<le> evict_key v)"
proof (induction es rule: rev_induct)
  case Nil
  then show ?case by simp
next
  case (snoc x es)
  then show ?case
    by (auto simp: enumerate_append_eq better_victim_def PriorityClass_is_critical_def nth_append
        split: option.splits)
qed

lemma evict_idx_None: "evict_idx es = None \<longleftrightarrow> (\<forall>e \<in> set es. critical e)"
  using best_victim [of es] by (auto simp: evict_idx_def split: option.splits)

text \<open>A victim is worse than or as bad as any entry, and the oldest of its class.\<close>

definition worst_in :: "QueueEntry \<Rightarrow> QueueEntry list \<Rightarrow> bool" where
  "worst_in v es \<longleftrightarrow> v \<in> set es \<and>
     (\<forall>e \<in> set es. qe_priority e \<le> qe_priority v \<and>
        (qe_priority e = qe_priority v \<longrightarrow> qe_enqueue_seq v \<le> qe_enqueue_seq e))"

lemma evict_idx_Some:
  assumes "evict_idx es = Some i"
  shows "i < length es" and "worst_in (es ! i) es"
proof -
  obtain v where "fold better_victim (List.enumerate 0 es) None = Some (i, v)"
    using assms by (auto simp: evict_idx_def)
  with best_victim [of es] have v: "i < length es" "es ! i = v" "\<not> critical v"
    and worst: "\<And>e. e \<in> set es \<Longrightarrow> \<not> critical e \<Longrightarrow> evict_key e \<le> evict_key v"
    by auto
  show "i < length es" by (fact v)
  have "qe_priority e \<le> qe_priority v \<and>
        (qe_priority e = qe_priority v \<longrightarrow> qe_enqueue_seq v \<le> qe_enqueue_seq e)" if "e \<in> set es" for e
    using worst [OF that] v(3) by (cases "critical e") (auto simp: evict_key_le)
  then show "worst_in (es ! i) es" using v by (auto simp: worst_in_def)
qed

lemma entry_key_le:
  "entry_key x \<le> entry_key e \<longleftrightarrow>
   qe_priority x < qe_priority e \<or> qe_priority x = qe_priority e \<and> qe_enqueue_seq x \<le> qe_enqueue_seq e"
  by (auto simp: entry_key_def)

section \<open>Order and contents\<close>

abbreviation entries_sorted :: "QueueEntry list \<Rightarrow> bool" where
  "entries_sorted es \<equiv> sorted (map entry_key es)"

lemma mset_remove_nth: "i < length xs \<Longrightarrow> add_mset (xs ! i) (mset (remove_nth i xs)) = mset xs"
  unfolding remove_nth_def using id_take_nth_drop [of i xs]
  by (metis add_mset_add_single mset.simps(2) mset_append union_mset_add_mset_right)

lemma remove_nth_simps [simp]:
  "remove_nth i [] = []" "remove_nth 0 (x # xs) = xs" "remove_nth (Suc i) (x # xs) = x # remove_nth i xs"
  by (simp_all add: remove_nth_def)

lemma set_remove_nth: "x \<in> set (remove_nth i xs) \<Longrightarrow> x \<in> set xs"
  by (auto simp: remove_nth_def dest: in_set_takeD in_set_dropD)

lemma length_remove_nth: "i < length xs \<Longrightarrow> length (remove_nth i xs) = length xs - 1"
  by (simp add: remove_nth_def)

lemma sorted_remove_nth: "entries_sorted es \<Longrightarrow> entries_sorted (remove_nth i es)"
proof (induction es arbitrary: i)
  case Nil
  then show ?case by simp
next
  case (Cons e es)
  then show ?case by (cases i) (auto dest: set_remove_nth)
qed

lemma insert_sorted_eq:
  "insert_sorted x es = takeWhile (\<lambda>e. entry_key e < entry_key x) es @ x # dropWhile (\<lambda>e. entry_key e < entry_key x) es"
  by (simp add: insert_sorted_def Let_def takeWhile_eq_take [symmetric] dropWhile_eq_drop [symmetric])

lemma mset_insert_sorted [simp]: "mset (insert_sorted x es) = add_mset x (mset es)"
  by (metis insert_sorted_eq mset.simps(2) mset_append takeWhile_dropWhile_id union_mset_add_mset_right)

lemma length_insert_sorted [simp]: "length (insert_sorted x es) = Suc (length es)"
  using mset_insert_sorted [of x es] by (metis size_add_mset size_mset)

lemma sorted_insert_sorted: "entries_sorted es \<Longrightarrow> entries_sorted (insert_sorted x es)"
proof (induction es)
  case Nil
  then show ?case by (simp add: insert_sorted_eq)
next
  case (Cons e es)
  then show ?case
    by (auto simp: insert_sorted_eq dest: set_takeWhileD set_dropWhileD)
qed

section \<open>Making room\<close>

lemma make_room_exact:
  assumes "entries_sorted (mq_entries q)"
  shows "case make_room pr q of
      Inl _ \<Rightarrow> QUEUE_CAPACITY \<le> length (mq_entries q) \<and> pr \<noteq> Critical \<and> (\<forall>e \<in> set (mq_entries q). critical e)
    | Inr (lost, q') \<Rightarrow>
        if length (mq_entries q) < QUEUE_CAPACITY then lost = None \<and> q' = q
        else \<exists>v es. worst_in v (mq_entries q) \<and> (critical v \<longrightarrow> pr = Critical) \<and> lost = Some (qe_message_id v) \<and>
          q' = q\<lparr>mq_entries := es, mq_evict_count := mq_evict_count q + 1\<rparr> \<and>
          add_mset v (mset es) = mset (mq_entries q) \<and> entries_sorted es"
proof (cases "length (mq_entries q) < QUEUE_CAPACITY")
  case True
  then show ?thesis by (simp add: make_room_def)
next
  case full: False
  show ?thesis
  proof (cases "evict_idx (mq_entries q)")
    case None
    then have crit: "\<forall>e \<in> set (mq_entries q). critical e" by (simp add: evict_idx_None)
    obtain v es where v: "mq_entries q = v # es"
      using full by (cases "mq_entries q") (auto simp: QUEUE_CAPACITY_def)
    have "worst_in v (mq_entries q)" using crit assms by (auto simp: worst_in_def v entry_key_def)
    then show ?thesis using full crit None assms
      by (auto simp: make_room_def PriorityClass_is_critical_def v)
  next
    case (Some i)
    note i = evict_idx_Some [OF Some]
    have "\<not> critical (mq_entries q ! i)"
      using best_victim [of "mq_entries q"] Some by (auto simp: evict_idx_def)
    then show ?thesis
      using full Some i assms
      by (auto simp: make_room_def mset_remove_nth sorted_remove_nth
          intro!: exI [of _ "mq_entries q ! i"] exI [of _ "remove_nth i (mq_entries q)"])
  qed
qed

section \<open>The queue as a machine\<close>

definition queue_ok :: "sha \<Rightarrow> MessagePriorityQueue \<Rightarrow> bool" where
  "queue_ok sha q \<longleftrightarrow> entries_sorted (mq_entries q) \<and> length (mq_entries q) \<le> QUEUE_CAPACITY \<and>
     mq_enqueue_count q = mq_dequeue_count q + mq_evict_count q + of_nat (length (mq_entries q)) \<and>
     queue_chain.ok sha (mq_records q)"

lemma push_record_simps [simp]:
  "mq_entries (MessagePriorityQueue_push_record sha e op v q) = mq_entries q"
  "mq_next_seq (MessagePriorityQueue_push_record sha e op v q) = mq_next_seq q"
  "queue_ok sha (MessagePriorityQueue_push_record sha e op v q) \<longleftrightarrow> queue_ok sha q"
  by (simp_all add: MessagePriorityQueue_push_record_def queue_ok_def Let_def build_queue_record_def
      compute_queue_hash_def QueueRecord_bytes_of_def MessagePriorityQueue_last_hash_def)

lemma queue_ok_seq [simp]: "queue_ok sha (q\<lparr>mq_next_seq := s\<rparr>) \<longleftrightarrow> queue_ok sha q"
  by (simp add: queue_ok_def)

lemma make_room_seq [simp]:
  "make_room pr (q\<lparr>mq_next_seq := s\<rparr>) =
     (case make_room pr q of Inl e \<Rightarrow> Inl e | Inr (lost, q') \<Rightarrow> Inr (lost, q'\<lparr>mq_next_seq := s\<rparr>))"
  by (auto simp: make_room_def split: option.split list.split)
lemma queue_ok_enqueue:
  assumes "queue_ok sha q"
  shows "queue_ok sha (snd (MessagePriorityQueue_enqueue sha epoch pr p m h q))"
proof (cases "make_room pr q")
  case (Inl e)
  then show ?thesis using assms by (simp add: MessagePriorityQueue_enqueue_def Let_def)
next
  case (Inr r)
  obtain lost q' where r: "r = (lost, q')" by (cases r)
  have sorted: "entries_sorted (mq_entries q)" using assms by (simp add: queue_ok_def)
  have "entries_sorted (mq_entries q') \<and> length (mq_entries q') < QUEUE_CAPACITY \<and>
      mq_enqueue_count q' = mq_dequeue_count q' + mq_evict_count q' + of_nat (length (mq_entries q')) \<and>
      queue_chain.ok sha (mq_records q')"
  proof (cases "length (mq_entries q) < QUEUE_CAPACITY")
    case True
    then show ?thesis using make_room_exact [OF sorted, of pr] assms Inr r by (simp add: queue_ok_def)
  next
    case False
    then obtain v es where
      q': "q' = q\<lparr>mq_entries := es, mq_evict_count := mq_evict_count q + 1\<rparr>" and
      es: "add_mset v (mset es) = mset (mq_entries q)" "entries_sorted es"
      using make_room_exact [OF sorted, of pr] Inr r by auto
    have len: "Suc (length es) = length (mq_entries q)" using es(1) by (metis size_add_mset size_mset)
    then have "(of_nat (length (mq_entries q)) :: u64) = 1 + of_nat (length es)" by (metis of_nat_Suc)
    then show ?thesis using assms es len by (auto simp: q' queue_ok_def)
  qed
  then show ?thesis
    using Inr r
    by (simp add: MessagePriorityQueue_enqueue_def Let_def) (simp add: queue_ok_def sorted_insert_sorted)
qed

lemma queue_ok_dequeue: "queue_ok sha q \<Longrightarrow> queue_ok sha (snd (MessagePriorityQueue_dequeue sha epoch q))"
  by (cases "mq_entries q"; simp add: MessagePriorityQueue_dequeue_def) (simp add: queue_ok_def)

datatype QueueOp = EnqueueOp u64 PriorityClass u32 u64 hash | DequeueOp u64

fun queue_step :: "sha \<Rightarrow> QueueOp \<Rightarrow> MessagePriorityQueue \<Rightarrow> MessagePriorityQueue" where
  "queue_step sha (EnqueueOp e pr p m h) q = snd (MessagePriorityQueue_enqueue sha e pr p m h q)"
| "queue_step sha (DequeueOp e) q = snd (MessagePriorityQueue_dequeue sha e q)"

interpretation queue_machine: invariant_machine "queue_step sha" "queue_ok sha" for sha
proof
  fix q op assume "queue_ok sha q"
  then show "queue_ok sha (queue_step sha op q)"
    by (cases op) (simp_all add: queue_ok_enqueue queue_ok_dequeue)
qed

lemma queue_ok_new [simp]: "queue_ok sha MessagePriorityQueue_new"
  by (simp add: queue_ok_def MessagePriorityQueue_new_def)

section \<open>Properties\<close>

text \<open>
  C6.  What \<open>enqueue\<close> does in any state the operations reach.  With room it adds the entry.  A full
  queue loses one entry for it: one of the worst class present, the oldest of that class (so a
  critical entry only if all are critical, and only for a critical message).  It fails, and keeps
  its entries, exactly when all 64 entries are critical and the message is not.
\<close>

theorem queue_enqueue_exact:
  assumes "q = run (queue_step sha) ops MessagePriorityQueue_new"
  shows "case MessagePriorityQueue_enqueue sha epoch pr p m h q of
      (Inl _, q') \<Rightarrow>
        length (mq_entries q) = 64 \<and> (\<forall>e \<in> set (mq_entries q). qe_priority e = Critical) \<and> pr \<noteq> Critical \<and>
        mq_entries q' = mq_entries q
    | (Inr _, q') \<Rightarrow>
        let new = \<lparr>qe_priority = pr, qe_enqueue_seq = mq_next_seq q, qe_peer_id = p, qe_message_id = m,
                   qe_payload_hash = h\<rparr>
        in if length (mq_entries q) < 64 then mset (mq_entries q') = add_mset new (mset (mq_entries q))
           else \<exists>v. worst_in v (mq_entries q) \<and> (qe_priority v = Critical \<longrightarrow> pr = Critical) \<and>
             add_mset v (mset (mq_entries q')) = add_mset new (mset (mq_entries q))"
proof -
  have ok: "queue_ok sha q" unfolding assms by (rule queue_machine.run_inv) simp
  then have sorted: "entries_sorted (mq_entries q)" and len: "length (mq_entries q) \<le> 64"
    by (simp_all add: queue_ok_def QUEUE_CAPACITY_def)
  show ?thesis
    using make_room_exact [OF sorted, of pr] len
    by (auto simp: MessagePriorityQueue_enqueue_def Let_def QUEUE_CAPACITY_def
        intro: add_mset_commute split: sum.splits prod.splits if_splits)
qed

lemma queue_enqueue_exact_witness:
  "case MessagePriorityQueue_enqueue from_be 9 Low 1 7 0 (run (queue_step from_be) [EnqueueOp 8 High 1 6 0] MessagePriorityQueue_new) of
      (Inl _, q') \<Rightarrow> False
    | (Inr _, q') \<Rightarrow> size (mset (mq_entries q')) = 2"
proof -
  let ?q = "run (queue_step from_be) [EnqueueOp 8 High 1 6 0] MessagePriorityQueue_new"
  have "length (mq_entries ?q) = 1"
    by (simp add: MessagePriorityQueue_enqueue_def MessagePriorityQueue_new_def Let_def make_room_def
        QUEUE_CAPACITY_def)
  then show ?thesis
    using queue_enqueue_exact [OF refl, where sha = from_be and epoch = 9 and pr = Low and p = 1
        and m = 7 and h = 0 and ops = "[EnqueueOp 8 High 1 6 0]"]
    by (auto split: prod.splits sum.splits simp: Let_def)
      (metis One_nat_def Suc_1 size_add_mset size_mset)
qed

text \<open>
  What \<open>dequeue\<close> takes out, in any state the operations reach, is least by class and then by
  sequence number, so first in, first out within a class; it is refused only by an empty queue.  At
  most 64 entries wait, the counters balance modulo \<open>2 ^ 64\<close>, and the records pass \<open>verify_chain\<close>.
\<close>

theorem queue_dequeue_least:
  assumes "q = run (queue_step sha) ops MessagePriorityQueue_new"
  shows "(case MessagePriorityQueue_dequeue sha epoch q of
      (None, q') \<Rightarrow> mq_entries q = [] \<and> q' = q
    | (Some x, q') \<Rightarrow>
        add_mset x (mset (mq_entries q')) = mset (mq_entries q) \<and>
        (\<forall>e \<in> set (mq_entries q). qe_priority x < qe_priority e \<or>
           qe_priority x = qe_priority e \<and> qe_enqueue_seq x \<le> qe_enqueue_seq e)) \<and>
    length (mq_entries q) \<le> 64 \<and>
    mq_enqueue_count q = mq_dequeue_count q + mq_evict_count q + of_nat (length (mq_entries q)) \<and>
    MessagePriorityQueue_verify_chain sha q = (True, None)"
proof (intro conjI)
  have ok: "queue_ok sha q" unfolding assms by (rule queue_machine.run_inv) simp
  then show "length (mq_entries q) \<le> 64"
    and "mq_enqueue_count q = mq_dequeue_count q + mq_evict_count q + of_nat (length (mq_entries q))"
    and "MessagePriorityQueue_verify_chain sha q = (True, None)"
    by (simp_all add: queue_ok_def QUEUE_CAPACITY_def MessagePriorityQueue_verify_chain_def verify_from_iff)
  show "case MessagePriorityQueue_dequeue sha epoch q of
      (None, q') \<Rightarrow> mq_entries q = [] \<and> q' = q
    | (Some x, q') \<Rightarrow>
        add_mset x (mset (mq_entries q')) = mset (mq_entries q) \<and>
        (\<forall>e \<in> set (mq_entries q). qe_priority x < qe_priority e \<or>
           qe_priority x = qe_priority e \<and> qe_enqueue_seq x \<le> qe_enqueue_seq e)"
    using ok by (auto simp: MessagePriorityQueue_dequeue_def queue_ok_def entry_key_le split: list.split)
qed

lemma queue_dequeue_least_witness:
  "let q = run (queue_step from_be) [EnqueueOp 8 High 1 6 0, EnqueueOp 8 Critical 1 7 0] MessagePriorityQueue_new
   in map_option qe_message_id (fst (MessagePriorityQueue_dequeue from_be 9 q)) = Some 7 \<and>
      MessagePriorityQueue_verify_chain from_be q = (True, None)"
  unfolding Let_def
  by (rule conjI, simp add: MessagePriorityQueue_enqueue_def MessagePriorityQueue_dequeue_def
      MessagePriorityQueue_push_record_def MessagePriorityQueue_new_def Let_def make_room_def QUEUE_CAPACITY_def
      insert_sorted_def entry_key_def less_PriorityClass_def less_eq_PriorityClass_def)
    (use queue_dequeue_least [OF refl] in blast)

end
