(* ===== verification/Fragmenter.thy ===== *)
theory Fragmenter
  imports Prelude "HOL-Library.Multiset"
begin

text \<open>
  Gate 304, \<open>aegis-cl-psi/src/message_fragmenter.rs\<close>: messages cut into fragments of 256 bytes and
  put together again from fragments that arrive in any order.  Indexing past the slots is a panic of
  the code, here the value \<open>None\<close>.
\<close>

section \<open>Fragments\<close>

definition FRAGMENT_SIZE :: nat where "FRAGMENT_SIZE = 256"
definition MAX_FRAGMENTS :: nat where "MAX_FRAGMENTS = 64"

record Fragment =
  fr_message_id :: u64
  fr_fragment_index :: u16
  fr_total_fragments :: u16
  fr_payload :: bytes
  fr_payload_hash :: hash

definition compute_fragment_hash :: "sha \<Rightarrow> u64 \<Rightarrow> u16 \<Rightarrow> u16 \<Rightarrow> bytes \<Rightarrow> hash" where
  "compute_fragment_hash sha message_id fragment_index total_fragments payload =
     sha (be8 message_id @ be2 fragment_index @ be2 total_fragments @ payload)"

definition build_fragment :: "sha \<Rightarrow> u64 \<Rightarrow> u16 \<Rightarrow> u16 \<Rightarrow> bytes \<Rightarrow> Fragment" where
  "build_fragment sha message_id fragment_index total_fragments payload =
     \<lparr>fr_message_id = message_id, fr_fragment_index = fragment_index,
      fr_total_fragments = total_fragments, fr_payload = payload,
      fr_payload_hash = compute_fragment_hash sha message_id fragment_index total_fragments payload\<rparr>"

datatype FragmentError = MessageTooLarge | EmptyPayload | InconsistentHeader | DuplicateFragment

text \<open>\<open>slice::chunks\<close>: pieces of \<open>n\<close> bytes, the last one shorter.\<close>

function chunks :: "nat \<Rightarrow> 'a list \<Rightarrow> 'a list list" where
  "chunks n xs = (if n = 0 \<or> xs = [] then [] else take n xs # chunks n (drop n xs))"
  by auto
termination by (relation "measure (\<lambda>(n, xs). length xs)") auto

declare chunks.simps [simp del]

definition fragment_message :: "sha \<Rightarrow> u64 \<Rightarrow> bytes \<Rightarrow> FragmentError + Fragment list" where
  "fragment_message sha message_id data =
     (if data = [] then Inl EmptyPayload
      else
        let total = (length data + FRAGMENT_SIZE - 1) div FRAGMENT_SIZE
        in if total > MAX_FRAGMENTS then Inl MessageTooLarge
           else Inr (map (\<lambda>(i, chunk). build_fragment sha message_id (of_nat i) (of_nat total) chunk)
                  (List.enumerate 0 (chunks FRAGMENT_SIZE data))))"

section \<open>Reassembly\<close>

record ReassemblyBuffer =
  rb_message_id :: u64
  rb_total_fragments :: u16
  rb_slots :: "bytes option list"
  rb_received :: nat

definition ReassemblyBuffer_new :: "u64 \<Rightarrow> u16 \<Rightarrow> ReassemblyBuffer" where
  "ReassemblyBuffer_new message_id total_fragments =
     \<lparr>rb_message_id = message_id, rb_total_fragments = total_fragments,
      rb_slots = replicate (unat total_fragments) None, rb_received = 0\<rparr>"

definition ReassemblyBuffer_is_complete :: "ReassemblyBuffer \<Rightarrow> bool" where
  "ReassemblyBuffer_is_complete b \<longleftrightarrow> rb_received b = unat (rb_total_fragments b)"

definition ReassemblyBuffer_missing_indices :: "ReassemblyBuffer \<Rightarrow> u16 list" where
  "ReassemblyBuffer_missing_indices b =
     map (\<lambda>(i, _). of_nat i) (filter (\<lambda>(_, s). s = None) (List.enumerate 0 (rb_slots b)))"

definition ReassemblyBuffer_insert ::
  "Fragment \<Rightarrow> ReassemblyBuffer \<Rightarrow> ((FragmentError + bytes option) \<times> ReassemblyBuffer) option" where
  "ReassemblyBuffer_insert frag b =
     (if fr_total_fragments frag \<noteq> rb_total_fragments b then Some (Inl InconsistentHeader, b)
      else
        let idx = unat (fr_fragment_index frag)
        in if idx \<ge> length (rb_slots b) then None
           else if rb_slots b ! idx \<noteq> None then Some (Inl DuplicateFragment, b)
           else
             let b = b\<lparr>rb_slots := (rb_slots b)[idx := Some (fr_payload frag)],
                       rb_received := rb_received b + 1\<rparr>
             in if ReassemblyBuffer_is_complete b then
                  if None \<in> set (rb_slots b) then None
                  else Some (Inr (Some (concat (map the (rb_slots b)))), b)
                else Some (Inr None, b))"

text \<open>Fragments inserted one after the other, and what each call returned.\<close>

fun inserts :: "Fragment list \<Rightarrow> ReassemblyBuffer \<Rightarrow> (FragmentError + bytes option) list option" where
  "inserts [] b = Some []"
| "inserts (f # fs) b =
     (case ReassemblyBuffer_insert f b of
        None \<Rightarrow> None
      | Some (r, b') \<Rightarrow> map_option (Cons r) (inserts fs b'))"

section \<open>Chunks\<close>

lemma chunks_Nil [simp]: "chunks n [] = []"
  by (simp add: chunks.simps)

lemma concat_chunks: "0 < n \<Longrightarrow> concat (chunks n xs) = xs"
  by (induction n xs rule: chunks.induct) (subst chunks.simps, simp)

lemma length_chunks: "0 < n \<Longrightarrow> length (chunks n xs) = (length xs + n - 1) div n"
proof (induction n xs rule: chunks.induct)
  case (1 n xs)
  show ?case
  proof (cases "xs = []")
    case False
    then have "length (chunks n xs) = Suc ((length (drop n xs) + n - 1) div n)"
      using 1 by (subst chunks.simps) simp
    also have "\<dots> = (length xs + n - 1) div n"
    proof (cases "n \<le> length xs")
      case True
      then have "length xs + n - 1 = length (drop n xs) + n - 1 + n" using 1(2) by simp
      then have "(length xs + n - 1) div n = (length (drop n xs) + n - 1 + n) div n" by (rule arg_cong)
      also have "\<dots> = Suc ((length (drop n xs) + n - 1) div n)"
        using 1(2) by (simp only: div_add_self2 neq0_conv Suc_eq_plus1)
      finally show ?thesis by simp
    next
      case short: False
      have "length xs + n - 1 = (length xs - 1) + n" using False by (cases xs) auto
      then have "(length xs + n - 1) div n = Suc ((length xs - 1) div n)"
        using 1(2) by (simp only: div_add_self2 neq0_conv Suc_eq_plus1)
      then show ?thesis using short 1(2) by simp
    qed
    finally show ?thesis .
  qed (use 1(2) in simp)
qed

lemma chunks_bounded: "c \<in> set (chunks n xs) \<Longrightarrow> length c \<le> n \<and> c \<noteq> []"
proof (induction n xs rule: chunks.induct)
  case (1 n xs)
  show ?case
  proof (cases "n = 0 \<or> xs = []")
    case True
    then show ?thesis using 1(2) by (subst (asm) chunks.simps) simp
  next
    case False
    then have "c = take n xs \<or> c \<in> set (chunks n (drop n xs))"
      using 1(2) by (subst (asm) chunks.simps) simp
    then show ?thesis using 1(1) False by auto
  qed
qed

section \<open>Filling the buffer\<close>

abbreviation pieces :: "bytes \<Rightarrow> bytes list" where
  "pieces data \<equiv> chunks FRAGMENT_SIZE data"

definition frag :: "sha \<Rightarrow> u64 \<Rightarrow> bytes \<Rightarrow> nat \<Rightarrow> Fragment" where
  "frag sha mid data i = build_fragment sha mid (of_nat i) (of_nat (length (pieces data))) (pieces data ! i)"

lemma length_pieces: "length (pieces data) = (length data + FRAGMENT_SIZE - 1) div FRAGMENT_SIZE"
  by (rule length_chunks) (simp add: FRAGMENT_SIZE_def)

lemma many_pieces: "MAX_FRAGMENTS < length (pieces data) \<longleftrightarrow> 16384 < length data"
  by (subst length_pieces) (simp add: FRAGMENT_SIZE_def MAX_FRAGMENTS_def, arith)

lemma some_pieces: "data \<noteq> [] \<Longrightarrow> 0 < length (pieces data)"
  by (subst length_pieces) (cases data; simp add: FRAGMENT_SIZE_def)

lemma fragment_message_eq:
  "fragment_message sha mid data =
     (if data = [] then Inl EmptyPayload
      else if MAX_FRAGMENTS < length (pieces data) then Inl MessageTooLarge
      else Inr (map (frag sha mid data) [0..<length (pieces data)]))"
proof -
  have "map (\<lambda>(i, chunk). build_fragment sha mid (of_nat i) (of_nat (length (pieces data))) chunk)
      (List.enumerate 0 (pieces data)) = map (frag sha mid data) [0..<length (pieces data)]"
    by (rule nth_equalityI) (simp_all add: nth_enumerate_eq frag_def)
  then show ?thesis by (simp add: fragment_message_def length_pieces Let_def)
qed

text \<open>The buffer after the fragments with the indexes of \<open>S\<close>.\<close>

definition filled :: "bytes \<Rightarrow> nat set \<Rightarrow> ReassemblyBuffer \<Rightarrow> bool" where
  "filled data S b \<longleftrightarrow>
     S \<subseteq> {..<length (pieces data)} \<and> rb_total_fragments b = of_nat (length (pieces data)) \<and>
     rb_slots b = map (\<lambda>i. if i \<in> S then Some (pieces data ! i) else None) [0..<length (pieces data)] \<and>
     rb_received b = card S"

lemma concat_slots: "concat (map the (map (\<lambda>i. Some (pieces data ! i)) [0..<length (pieces data)])) = data"
proof -
  have "map the (map (\<lambda>i. Some (pieces data ! i)) [0..<length (pieces data)]) = pieces data"
    by (rule nth_equalityI) simp_all
  then show ?thesis by (simp add: concat_chunks FRAGMENT_SIZE_def)
qed

lemma insert_piece:
  assumes b: "filled data S b" and i: "i < length (pieces data)" "i \<notin> S"
    and n: "length (pieces data) \<le> MAX_FRAGMENTS"
  obtains b' where "filled data (insert i S) b'"
    and "ReassemblyBuffer_insert (frag sha mid data i) b =
      Some (Inr (if insert i S = {..<length (pieces data)} then Some data else None), b')"
proof -
  let ?n = "length (pieces data)"
  have small: "unat (of_nat k :: u16) = k" if "k \<le> ?n" for k
    using that n by (intro unat_of_nat_small) (simp add: MAX_FRAGMENTS_def)
  define b' where "b' = b\<lparr>rb_slots := (rb_slots b)[i := Some (pieces data ! i)], rb_received := rb_received b + 1\<rparr>"
  have slots: "rb_slots b' = map (\<lambda>j. if j \<in> insert i S then Some (pieces data ! j) else None) [0..<?n]"
    using b i by (intro nth_equalityI) (auto simp: b'_def filled_def nth_list_update)
  have fin: "finite S" and sub: "insert i S \<subseteq> {..<?n}"
    using b i by (auto simp: filled_def intro: finite_subset)
  have b'_ok: "filled data (insert i S) b'"
    using b sub fin i by (simp add: filled_def slots) (simp add: b'_def)
  have "card (insert i S) = ?n \<longleftrightarrow> insert i S = {..<?n}"
    using sub card_subset_eq [of "{..<?n}" "insert i S"] by auto
  then have complete: "ReassemblyBuffer_is_complete b' \<longleftrightarrow> insert i S = {..<?n}"
    using b'_ok by (simp add: ReassemblyBuffer_is_complete_def filled_def small)
  have "rb_slots b' = map (\<lambda>j. Some (pieces data ! j)) [0..<?n]" if "insert i S = {..<?n}"
    unfolding slots that by simp
  then have "None \<notin> set (rb_slots b') \<and> concat (map the (rb_slots b')) = data" if "insert i S = {..<?n}"
    using that concat_slots by auto
  moreover have "ReassemblyBuffer_insert (frag sha mid data i) b =
      (if ReassemblyBuffer_is_complete b' then
         if None \<in> set (rb_slots b') then None else Some (Inr (Some (concat (map the (rb_slots b')))), b')
       else Some (Inr None, b'))"
    using b i by (simp add: ReassemblyBuffer_insert_def frag_def build_fragment_def filled_def small b'_def Let_def)
  ultimately have "ReassemblyBuffer_insert (frag sha mid data i) b =
      Some (Inr (if insert i S = {..<?n} then Some data else None), b')"
    by (simp add: complete)
  with b'_ok show ?thesis by (rule that)
qed

lemma inserts_pieces:
  assumes "filled data S b" and "length (pieces data) \<le> MAX_FRAGMENTS"
    and "distinct is" and "set is \<inter> S = {}" and "set is \<union> S = {..<length (pieces data)}" and "is \<noteq> []"
  shows "inserts (map (frag sha mid data) is) b =
    Some (replicate (length is - 1) (Inr None) @ [Inr (Some data)])"
  using assms
proof (induction "is" arbitrary: S b)
  case Nil
  then show ?case by simp
next
  case (Cons i rest)
  have i: "i < length (pieces data)" "i \<notin> S" using Cons.prems by auto
  obtain b' where b': "filled data (insert i S) b'"
    and step: "ReassemblyBuffer_insert (frag sha mid data i) b =
      Some (Inr (if insert i S = {..<length (pieces data)} then Some data else None), b')"
    by (rule insert_piece [OF Cons.prems(1) i Cons.prems(2)])
  show ?case
  proof (cases "rest = []")
    case True
    then have "insert i S = {..<length (pieces data)}" using Cons.prems(5) by auto
    then show ?thesis using True step by simp
  next
    case False
    then obtain j rest' where rest: "rest = j # rest'" by (cases rest) auto
    have "j \<notin> insert i S" using Cons.prems(3,4) by (auto simp: rest)
    moreover have "j \<in> {..<length (pieces data)}" using Cons.prems(5) by (auto simp: rest)
    ultimately have "insert i S \<noteq> {..<length (pieces data)}" by blast
    moreover have "inserts (map (frag sha mid data) rest) b' =
        Some (replicate (length rest - 1) (Inr None) @ [Inr (Some data)])"
    proof (rule Cons.IH [OF b' Cons.prems(2)])
      show "distinct rest" "set rest \<inter> insert i S = {}" using Cons.prems(3,4) by auto
      show "set rest \<union> insert i S = {..<length (pieces data)}" using Cons.prems(5) by auto
    qed (fact False)
    ultimately show ?thesis using step by (simp add: rest)
  qed
qed

lemma filled_new:
  "length (pieces data) \<le> MAX_FRAGMENTS \<Longrightarrow>
   filled data {} (ReassemblyBuffer_new mid (of_nat (length (pieces data))))"
  by (simp add: filled_def ReassemblyBuffer_new_def unat_of_nat_small MAX_FRAGMENTS_def map_replicate_const)

lemma permuted_pieces:
  assumes "mset fs = mset (map (frag sha mid data) [0..<length (pieces data)])"
    and "length (pieces data) \<le> MAX_FRAGMENTS"
  obtains "is" where "fs = map (frag sha mid data) is" and "mset is = mset [0..<length (pieces data)]"
proof
  let ?n = "length (pieces data)" and ?g = "\<lambda>f. unat (fr_fragment_index f)"
  have inv: "?g (frag sha mid data i) = i" if "i < ?n" for i
    using that assms(2) by (simp add: frag_def build_fragment_def unat_of_nat_small MAX_FRAGMENTS_def)
  have "set fs = frag sha mid data ` {..<?n}"
    using mset_eq_setD [OF assms(1)] by (simp add: lessThan_atLeast0)
  then have "map (\<lambda>f. frag sha mid data (?g f)) fs = fs"
    using inv by (intro map_idI) auto
  then show "fs = map (frag sha mid data) (map ?g fs)" by (simp add: comp_def)
  have "mset (map ?g fs) = image_mset ?g (mset fs)" by simp
  also have "\<dots> = mset (map ?g (map (frag sha mid data) [0..<?n]))"
    using assms(1) by (simp only: mset_map)
  also have "map ?g (map (frag sha mid data) [0..<?n]) = [0..<?n]"
    using inv by (intro map_idI [where f = "\<lambda>i. ?g (frag sha mid data i)", simplified comp_def] nth_equalityI) auto
  finally show "mset (map ?g fs) = mset [0..<?n]" .
qed

lemma reassemble:
  assumes "mset fs = mset (map (frag sha mid data) [0..<length (pieces data)])"
    and "length (pieces data) \<le> MAX_FRAGMENTS" and "data \<noteq> []"
  shows "inserts fs (ReassemblyBuffer_new mid' (of_nat (length (pieces data)))) =
      Some (replicate (length (pieces data) - 1) (Inr None) @ [Inr (Some data)])"
proof -
  obtain "is" where eq: "fs = map (frag sha mid data) is" and perm: "mset is = mset [0..<length (pieces data)]"
    by (rule permuted_pieces [OF assms(1,2)])
  have "distinct is" using mset_eq_imp_distinct_iff [OF perm] by simp
  moreover have "set is = {..<length (pieces data)}" using mset_eq_setD [OF perm] by (simp add: lessThan_atLeast0)
  moreover have "length is = length (pieces data)" using mset_eq_length [OF perm] by simp
  moreover have "is \<noteq> []" using calculation(3) some_pieces [OF assms(3)] by auto
  ultimately show ?thesis
    using inserts_pieces [OF filled_new [OF assms(2)] assms(2), of "is"] unfolding eq by simp
qed

lemma length_frag_payload:
  "i < length (pieces data) \<Longrightarrow> length (fr_payload (frag sha mid data i)) \<le> 256"
  using chunks_bounded [of "pieces data ! i" FRAGMENT_SIZE data]
  by (simp add: frag_def build_fragment_def FRAGMENT_SIZE_def)

section \<open>Properties\<close>

text \<open>
  C7.  Round trip: a message of 1 to 16384 bytes is cut into at most 64 fragments of at most 256
  bytes, and when these are inserted in any order into a buffer for that many, every call but the
  last waits and the last returns the message.  An empty message and a longer one are refused.
\<close>

theorem fragment_roundtrip:
  "case fragment_message sha mid data of
     Inl e \<Rightarrow> if data = [] then e = EmptyPayload else e = MessageTooLarge \<and> 16384 < length data
   | Inr frags \<Rightarrow>
       data \<noteq> [] \<and> length data \<le> 16384 \<and> length frags \<le> 64 \<and>
       list_all (\<lambda>f. length (fr_payload f) \<le> 256) frags \<and>
       (mset fs = mset frags \<longrightarrow>
          inserts fs (ReassemblyBuffer_new mid' (of_nat (length frags))) =
            Some (replicate (length frags - 1) (Inr None) @ [Inr (Some data)]))"
proof (cases "data = [] \<or> 16384 < length data")
  case True
  then show ?thesis by (auto simp: fragment_message_eq many_pieces)
next
  case False
  then have le: "length (pieces data) \<le> MAX_FRAGMENTS" using many_pieces [of data] by simp
  have ok: "fragment_message sha mid data = Inr (map (frag sha mid data) [0..<length (pieces data)])"
    using False by (simp add: fragment_message_eq many_pieces)
  show ?thesis
    using False le reassemble [OF _ le, of fs sha mid mid']
    unfolding ok sum.case list_all_length by (simp add: MAX_FRAGMENTS_def length_frag_payload)
qed

lemma fragment_roundtrip_witness:
  "let fs = rev (map (frag from_be 1 (replicate 300 7)) [0, 1])
   in inserts fs (ReassemblyBuffer_new 9 2) = Some [Inr None, Inr (Some (replicate 300 7))]"
proof -
  have n: "length (pieces (replicate 300 (7 :: u8))) = 2"
    by (subst length_pieces) (simp add: FRAGMENT_SIZE_def)
  have "fragment_message from_be 1 (replicate 300 7) = Inr (map (frag from_be 1 (replicate 300 7)) [0, 1])"
    using n by (simp add: fragment_message_eq MAX_FRAGMENTS_def upt_rec)
  then show ?thesis
    using fragment_roundtrip [where sha = from_be and mid = 1 and data = "replicate 300 7" and mid' = 9
        and fs = "rev (map (frag from_be 1 (replicate 300 7)) [0, 1])"]
    by (simp add: Let_def add_mset_commute numeral_2_eq_2 [symmetric])
qed

section \<open>What insert refuses\<close>

fun buffer_after :: "Fragment list \<Rightarrow> ReassemblyBuffer \<Rightarrow> ReassemblyBuffer option" where
  "buffer_after [] b = Some b"
| "buffer_after (f # fs) b =
     (case ReassemblyBuffer_insert f b of None \<Rightarrow> None | Some (_, b') \<Rightarrow> buffer_after fs b')"

definition buffer_wf :: "u16 \<Rightarrow> ReassemblyBuffer \<Rightarrow> bool" where
  "buffer_wf n b \<longleftrightarrow> rb_total_fragments b = n \<and> length (rb_slots b) = unat n \<and>
     rb_received b = length (filter (\<lambda>s. s \<noteq> None) (rb_slots b))"

lemma count_filled_update:
  "i < length xs \<Longrightarrow> xs ! i = None \<Longrightarrow>
   length (filter (\<lambda>s. s \<noteq> None) (xs[i := Some v])) = Suc (length (filter (\<lambda>s. s \<noteq> None) xs))"
  by (induction xs arbitrary: i) (auto split: nat.split simp: nth_Cons')

lemma buffer_complete_iff:
  "buffer_wf n b \<Longrightarrow> ReassemblyBuffer_is_complete b \<longleftrightarrow> None \<notin> set (rb_slots b)"
  by (metis (mono_tags, lifting) ReassemblyBuffer_is_complete_def buffer_wf_def filter_True
      length_filter_less nat_neq_iff)

lemma buffer_wf_fill:
  "buffer_wf n b \<Longrightarrow> i < length (rb_slots b) \<Longrightarrow> rb_slots b ! i = None \<Longrightarrow>
   buffer_wf n (b\<lparr>rb_slots := (rb_slots b)[i := Some v], rb_received := Suc (rb_received b)\<rparr>)"
  using count_filled_update [of i "rb_slots b" v] by (simp add: buffer_wf_def)

lemma insert_wf:
  assumes "buffer_wf n b" and "ReassemblyBuffer_insert f b = Some (r, b')"
  shows "buffer_wf n b'"
  using assms buffer_wf_fill [OF assms(1), of "unat (fr_fragment_index f)" "fr_payload f"]
  by (auto simp: ReassemblyBuffer_insert_def Let_def split: if_splits)

lemma buffer_after_wf: "buffer_wf n b \<Longrightarrow> buffer_after fs b = Some b' \<Longrightarrow> buffer_wf n b'"
  by (induction fs arbitrary: b) (auto split: option.splits dest: insert_wf)

lemma buffer_wf_new: "buffer_wf n (ReassemblyBuffer_new mid n)"
  by (simp add: buffer_wf_def ReassemblyBuffer_new_def)

text \<open>
  C8.  What \<open>insert\<close> refuses: another total is an inconsistent header, a slot already filled a
  duplicate, both leaving the buffer as it is; an index at or past the total, which the header check
  lets through, is a panic.  Everything else fills its slot, whatever its message id and payload
  hash, and the data comes back exactly when no slot is empty.
\<close>

theorem fragment_insert_refusals:
  assumes "buffer_after fs (ReassemblyBuffer_new mid n) = Some b"
  shows "case ReassemblyBuffer_insert f b of
      None \<Rightarrow> fr_total_fragments f = n \<and> n \<le> fr_fragment_index f
    | Some (Inl err, b') \<Rightarrow>
        b' = b \<and>
        err = (if fr_total_fragments f \<noteq> n then InconsistentHeader else DuplicateFragment) \<and>
        (fr_total_fragments f \<noteq> n \<or>
          fr_fragment_index f < n \<and> rb_slots b ! unat (fr_fragment_index f) \<noteq> None)
    | Some (Inr r, b') \<Rightarrow>
        fr_total_fragments f = n \<and> fr_fragment_index f < n \<and>
        rb_slots b ! unat (fr_fragment_index f) = None \<and>
        rb_slots b' = (rb_slots b)[unat (fr_fragment_index f) := Some (fr_payload f)] \<and>
        r = (if None \<in> set (rb_slots b') then None else Some (concat (map the (rb_slots b'))))"
proof -
  have wf: "buffer_wf n b" by (rule buffer_after_wf [OF buffer_wf_new assms])
  then have n: "rb_total_fragments b = n" "length (rb_slots b) = unat n" by (simp_all add: buffer_wf_def)
  show ?thesis
  proof (cases "fr_total_fragments f = n \<and> fr_fragment_index f < n \<and> rb_slots b ! unat (fr_fragment_index f) = None")
    case True
    then have "unat (fr_fragment_index f) < length (rb_slots b)" by (simp add: n word_less_nat_alt)
    note fill = buffer_complete_iff [OF buffer_wf_fill [OF wf this], of "fr_payload f"]
    then show ?thesis
      using True by (simp add: ReassemblyBuffer_insert_def Let_def n word_less_nat_alt)
  next
    case False
    then show ?thesis
      by (auto simp: ReassemblyBuffer_insert_def Let_def n word_less_nat_alt word_le_nat_alt)
  qed
qed

lemma fragment_insert_refusals_witness:
  "ReassemblyBuffer_insert (build_fragment from_be 1 5 2 [7]) (ReassemblyBuffer_new 1 2) = None \<and>
   fr_total_fragments (build_fragment from_be 1 5 2 [7]) = 2"
proof -
  have "ReassemblyBuffer_insert (build_fragment from_be 1 5 2 [7]) (ReassemblyBuffer_new 1 2) = None"
    by (simp add: ReassemblyBuffer_insert_def ReassemblyBuffer_new_def build_fragment_def Let_def)
  with fragment_insert_refusals [where fs = "[]" and mid = 1 and n = 2
      and f = "build_fragment from_be 1 5 2 [7]" and b = "ReassemblyBuffer_new 1 2"]
  show ?thesis by simp
qed

end
