(* ===== verification/Validation_Dfa.thy ===== *)
theory Validation_Dfa
  imports Ordered_Map
begin

text \<open>
  Pillar 5, \<open>aegis-runtime/src/validation_dfa.rs\<close>: the automaton that validates agent message frames.
  What it accepts is proved to be the language of a grammar, and its table to hold every transition.
\<close>

section \<open>States and classes\<close>

datatype ValidationState = Idle | Header | Payload | Checksum | Accept | Reject

datatype ByteClass = MagicByte | MagicConfirm | LengthByte | DataByte | ChecksumByte | InvalidByte

text \<open>The derived orders are those of the declaration, which the table's map iterates in.\<close>

fun state_rank :: "ValidationState \<Rightarrow> nat" where
  "state_rank Idle = 0" | "state_rank Header = 1" | "state_rank Payload = 2"
| "state_rank Checksum = 3" | "state_rank Accept = 4" | "state_rank Reject = 5"

fun class_rank :: "ByteClass \<Rightarrow> nat" where
  "class_rank MagicByte = 0" | "class_rank MagicConfirm = 1" | "class_rank LengthByte = 2"
| "class_rank DataByte = 3" | "class_rank ChecksumByte = 4" | "class_rank InvalidByte = 5"

lemma state_rank_inj [simp]: "state_rank s = state_rank t \<longleftrightarrow> s = t"
  by (cases s; cases t) auto

lemma class_rank_inj [simp]: "class_rank c = class_rank d \<longleftrightarrow> c = d"
  by (cases c; cases d) auto

instantiation ValidationState :: linorder
begin

definition less_eq_ValidationState :: "ValidationState \<Rightarrow> ValidationState \<Rightarrow> bool" where
  "s \<le> t \<longleftrightarrow> state_rank s \<le> state_rank t"

definition less_ValidationState :: "ValidationState \<Rightarrow> ValidationState \<Rightarrow> bool" where
  "s < t \<longleftrightarrow> state_rank s < state_rank t"

instance
  by standard (auto simp: less_eq_ValidationState_def less_ValidationState_def simp flip: state_rank_inj)

end

instantiation ByteClass :: linorder
begin

definition less_eq_ByteClass :: "ByteClass \<Rightarrow> ByteClass \<Rightarrow> bool" where
  "c \<le> d \<longleftrightarrow> class_rank c \<le> class_rank d"

definition less_ByteClass :: "ByteClass \<Rightarrow> ByteClass \<Rightarrow> bool" where
  "c < d \<longleftrightarrow> class_rank c < class_rank d"

instance
  by standard (auto simp: less_eq_ByteClass_def less_ByteClass_def simp flip: class_rank_inj)

end

definition classify_byte :: "u8 \<Rightarrow> ValidationState \<Rightarrow> ByteClass" where
  "classify_byte byte state =
     (case state of
        Idle \<Rightarrow> if byte = 0xE0 then MagicByte else InvalidByte
      | Header \<Rightarrow>
          if byte = 0xE0 then MagicConfirm
          else if 0x01 \<le> byte \<and> byte \<le> 0x3F then LengthByte
          else InvalidByte
      | Payload \<Rightarrow> if byte = 0xFF then ChecksumByte else DataByte
      | _ \<Rightarrow> DataByte)"

fun transition :: "ValidationState \<Rightarrow> ByteClass \<Rightarrow> ValidationState" where
  "transition Idle MagicByte = Header"
| "transition Idle _ = Reject"
| "transition Header MagicConfirm = Header"
| "transition Header LengthByte = Payload"
| "transition Header _ = Reject"
| "transition Payload ChecksumByte = Checksum"
| "transition Payload DataByte = Payload"
| "transition Payload _ = Reject"
| "transition Checksum DataByte = Accept"
| "transition Checksum _ = Reject"
| "transition Accept _ = Idle"
| "transition Reject _ = Reject"

section \<open>The automaton\<close>

record TransitionRecord =
  tn_from :: ValidationState
  tn_byte_class :: ByteClass
  tn_to :: ValidationState

record ValidationDfa =
  vd_state :: ValidationState
  vd_log :: "TransitionRecord list"
  vd_bytes_processed :: u64

definition ValidationDfa_new :: ValidationDfa where
  "ValidationDfa_new = \<lparr>vd_state = Idle, vd_log = [], vd_bytes_processed = 0\<rparr>"

definition ValidationDfa_is_accepted :: "ValidationDfa \<Rightarrow> bool" where
  "ValidationDfa_is_accepted d \<longleftrightarrow> vd_state d = Accept"

definition ValidationDfa_is_rejected :: "ValidationDfa \<Rightarrow> bool" where
  "ValidationDfa_is_rejected d \<longleftrightarrow> vd_state d = Reject"

definition ValidationDfa_step :: "u8 \<Rightarrow> ValidationDfa \<Rightarrow> ValidationDfa" where
  "ValidationDfa_step byte d =
     (let cls = classify_byte byte (vd_state d);
          nxt = transition (vd_state d) cls
      in d\<lparr>vd_log := vd_log d @ [\<lparr>tn_from = vd_state d, tn_byte_class = cls, tn_to = nxt\<rparr>],
           vd_state := nxt,
           vd_bytes_processed := vd_bytes_processed d + 1\<rparr>)"

definition ValidationDfa_process :: "bytes \<Rightarrow> ValidationDfa \<Rightarrow> ValidationDfa" where
  "ValidationDfa_process bs d = fold ValidationDfa_step bs d"

definition ValidationDfa_reset :: "ValidationDfa \<Rightarrow> ValidationDfa" where
  "ValidationDfa_reset d = d\<lparr>vd_state := Idle, vd_log := []\<rparr>"

abbreviation all_states :: "ValidationState list" where
  "all_states \<equiv> [Idle, Header, Payload, Checksum, Accept, Reject]"

abbreviation all_classes :: "ByteClass list" where
  "all_classes \<equiv> [MagicByte, MagicConfirm, LengthByte, DataByte, ChecksumByte, InvalidByte]"

definition ValidationDfa_build_table :: "(ValidationState \<times> ByteClass, ValidationState) btmap" where
  "ValidationDfa_build_table =
     fold (\<lambda>s. fold (\<lambda>c t. bt_insert (s, c) (transition s c) t) all_classes) all_states bt_empty"

section \<open>The language\<close>

text \<open>One step, on the state alone.\<close>

definition delta :: "u8 \<Rightarrow> ValidationState \<Rightarrow> ValidationState" where
  "delta b s = transition s (classify_byte b s)"

lemma process_state: "vd_state (ValidationDfa_process bs d) = fold delta bs (vd_state d)"
  by (induction bs arbitrary: d) (simp_all add: ValidationDfa_process_def ValidationDfa_step_def delta_def Let_def)

lemma delta_simps [simp]:
  "delta b Idle = (if b = 0xE0 then Header else Reject)"
  "delta b Header = (if b = 0xE0 then Header else if 1 \<le> b \<and> b \<le> 0x3F then Payload else Reject)"
  "delta b Payload = (if b = 0xFF then Checksum else Payload)"
  "delta b Checksum = Accept"
  "delta b Accept = Idle"
  "delta b Reject = Reject"
  by (simp_all add: delta_def classify_byte_def)

text \<open>
  A frame: the magic byte, once or more; a length byte; data without the byte \<open>0xFF\<close>; that byte; and
  one more, whatever it is.  A stream: frames, each but the last followed by one byte, whatever it is.
\<close>

definition frame :: "bytes \<Rightarrow> bool" where
  "frame w \<longleftrightarrow> (\<exists>k len data x. 1 \<le> len \<and> len \<le> 0x3F \<and> 0xFF \<notin> set data \<and>
     w = replicate (Suc k) 0xE0 @ [len] @ data @ [0xFF, x])"

inductive stream :: "bytes \<Rightarrow> bool" where
  stream_last: "frame w \<Longrightarrow> stream w"
| stream_more: "frame w \<Longrightarrow> stream rest \<Longrightarrow> stream (w @ [b] @ rest)"

lemma fold_reject [simp]: "fold delta bs Reject = Reject"
  by (induction bs) simp_all

lemma fold_data: "0xFF \<notin> set data \<Longrightarrow> fold delta data Payload = Payload"
  by (induction data) auto

lemma fold_magic: "(delta 0xE0 ^^ k) Header = Header"
  by (induction k) simp_all

lemma delta_length: "1 \<le> len \<Longrightarrow> len \<le> 0x3F \<Longrightarrow> delta len Header = Payload"
  by auto

lemma frame_accepted: "frame w \<Longrightarrow> fold delta w Idle = Accept"
  by (auto simp: frame_def fold_data fold_magic delta_length simp del: delta_simps(2))

lemma stream_accepted: "stream w \<Longrightarrow> fold delta w Idle = Accept"
  by (induction rule: stream.induct) (simp_all add: frame_accepted)

lemma payload_frame:
  "fold delta bs Payload = Accept \<Longrightarrow>
   \<exists>data x rest. bs = data @ [0xFF, x] @ rest \<and> 0xFF \<notin> set data \<and> fold delta rest Accept = Accept"
proof (induction bs)
  case Nil
  then show ?case by simp
next
  case (Cons b bs)
  show ?case
  proof (cases "b = 0xFF")
    case True
    with Cons.prems obtain x rest where "bs = x # rest" "fold delta rest Accept = Accept"
      by (cases bs) auto
    then show ?thesis using True by (intro exI [of _ "[]"]) auto
  next
    case False
    with Cons obtain data x rest where "bs = data @ [0xFF, x] @ rest" "0xFF \<notin> set data" "fold delta rest Accept = Accept"
      by auto
    then show ?thesis using False by (intro exI [of _ "b # data"]) auto
  qed
qed

lemma header_frame:
  "fold delta bs Header = Accept \<Longrightarrow>
   \<exists>w rest. replicate 1 0xE0 @ bs = w @ rest \<and> frame w \<and> fold delta rest Accept = Accept"
proof (induction bs)
  case Nil
  then show ?case by simp
next
  case (Cons b bs)
  show ?case
  proof (cases "b = 0xE0")
    case True
    with Cons obtain w rest where w: "replicate 1 0xE0 @ bs = w @ rest" "frame w" "fold delta rest Accept = Accept"
      by auto
    from w(2) obtain k len data x where f: "1 \<le> len" "len \<le> 0x3F" "0xFF \<notin> set data"
      "w = replicate (Suc k) 0xE0 @ [len] @ data @ [0xFF, x]" unfolding frame_def by blast
    have "frame (0xE0 # w)" unfolding frame_def using f by (intro exI [of _ "Suc k"]) auto
    then show ?thesis using w(1,3) True
      by - (rule exI [of _ "0xE0 # w"], rule exI [of _ rest], simp)
  next
    case False
    then have len: "1 \<le> b" "b \<le> 0x3F" and "fold delta bs Payload = Accept"
      using Cons.prems by (auto split: if_splits)
    then obtain data x rest where d: "bs = data @ [0xFF, x] @ rest" "0xFF \<notin> set data" "fold delta rest Accept = Accept"
      using payload_frame by blast
    have "frame (replicate (Suc 0) 0xE0 @ [b] @ data @ [0xFF, x])"
      unfolding frame_def using len d by blast
    then show ?thesis using d
      by - (rule exI [of _ "replicate (Suc 0) 0xE0 @ [b] @ data @ [0xFF, x]"], rule exI [of _ rest], simp)
  qed
qed

lemma accepted_stream: "fold delta bs Idle = Accept \<Longrightarrow> stream bs"
proof (induction bs rule: length_induct)
  case (1 bs)
  then obtain tail where bs: "bs = 0xE0 # tail" and "fold delta tail Header = Accept"
    by (cases bs) (auto split: if_splits)
  then obtain w rest where w: "bs = w @ rest" "frame w" "fold delta rest Accept = Accept"
    using header_frame [of tail] by auto
  show ?case
  proof (cases rest)
    case Nil
    then show ?thesis using w by (simp add: stream_last)
  next
    case (Cons b rest')
    then have "fold delta rest' Idle = Accept" using w(3) by simp
    then have "stream rest'" using 1(1) w(1) Cons by simp
    then show ?thesis using stream_more [OF w(2), of rest' b] w(1) Cons by simp
  qed
qed

section \<open>Properties\<close>

text \<open>
  C9.  The automaton accepts, from a fresh start, exactly the byte streams of the grammar: frames,
  each but the last followed by one byte of any value.  Rejection is final.
\<close>

theorem validation_language:
  "(ValidationDfa_is_accepted (ValidationDfa_process bs ValidationDfa_new) \<longleftrightarrow> stream bs) \<and>
   (ValidationDfa_is_rejected (ValidationDfa_process bs d) \<longrightarrow>
      ValidationDfa_is_rejected (ValidationDfa_process (bs @ cs) d))"
proof (intro conjI impI)
  show "ValidationDfa_is_accepted (ValidationDfa_process bs ValidationDfa_new) \<longleftrightarrow> stream bs"
    using accepted_stream stream_accepted
    by (auto simp: ValidationDfa_is_accepted_def process_state ValidationDfa_new_def)
  assume "ValidationDfa_is_rejected (ValidationDfa_process bs d)"
  then show "ValidationDfa_is_rejected (ValidationDfa_process (bs @ cs) d)"
    by (simp add: ValidationDfa_is_rejected_def process_state)
qed

lemma validation_language_witness:
  "ValidationDfa_is_rejected (ValidationDfa_process ([1] @ [0xE0]) ValidationDfa_new)"
proof -
  have "ValidationDfa_is_rejected (ValidationDfa_process [1] ValidationDfa_new)"
    by (simp add: ValidationDfa_is_rejected_def process_state ValidationDfa_new_def)
  then show ?thesis using validation_language [of "[1]" ValidationDfa_new "[0xE0]"] by blast
qed

fun linked :: "ValidationState \<Rightarrow> TransitionRecord list \<Rightarrow> ValidationState \<Rightarrow> bool" where
  "linked s [] t \<longleftrightarrow> s = t"
| "linked s (r # rs) t \<longleftrightarrow> tn_from r = s \<and> linked (tn_to r) rs t"

lemma linked_snoc [simp]: "linked s (rs @ [r]) t \<longleftrightarrow> linked s rs (tn_from r) \<and> tn_to r = t"
  by (induction rs arbitrary: s) auto

definition log_replays :: "ValidationDfa \<Rightarrow> bool" where
  "log_replays d \<longleftrightarrow> linked Idle (vd_log d) (vd_state d) \<and>
     list_all (\<lambda>r. tn_to r = transition (tn_from r) (tn_byte_class r)) (vd_log d)"

interpretation validation_machine: invariant_machine ValidationDfa_step log_replays
  by unfold_locales (auto simp: log_replays_def ValidationDfa_step_def Let_def)

lemma process_run: "ValidationDfa_process bs d = run ValidationDfa_step bs d"
  by (simp add: ValidationDfa_process_def run_def)

lemma length_log_process:
  "length (vd_log (ValidationDfa_process bs d)) = length (vd_log d) + length bs"
  by (induction bs arbitrary: d) (simp_all add: ValidationDfa_process_def ValidationDfa_step_def Let_def)

lemma table_row:
  "bt_get (fold (\<lambda>c t. bt_insert (s, c) (f s c) t) cs t) (s', c') =
     (if s' = s \<and> c' \<in> set cs then Some (f s c') else bt_get t (s', c'))"
  by (induction cs arbitrary: t) auto

lemma table_rows:
  "bt_get (fold (\<lambda>s. fold (\<lambda>c t. bt_insert (s, c) (f s c) t) cs) ss t) (s', c') =
     (if s' \<in> set ss \<and> c' \<in> set cs then Some (f s' c') else bt_get t (s', c'))"
  by (induction ss arbitrary: t) (auto simp: table_row)

lemma every_state: "s \<in> set all_states"
  by (cases s) simp_all

lemma every_class: "c \<in> set all_classes"
  by (cases c) simp_all

lemma table_get: "bt_get ValidationDfa_build_table (s, c) = Some (transition s c)"
  unfolding ValidationDfa_build_table_def table_rows using every_state [of s] every_class [of c] by (simp only: simp_thms if_True)

lemma table_len: "bt_len ValidationDfa_build_table = 36"
proof -
  have "dom (bt_get ValidationDfa_build_table) = set all_states \<times> set all_classes"
    using table_get every_state every_class by (auto simp only: dom_def)
  then have "bt_len ValidationDfa_build_table = card (set all_states) * card (set all_classes)"
    by (simp only: bt_len_card card_cartesian_product)
  then show ?thesis by simp
qed

text \<open>
  The log is a replay: after any bytes from a fresh start, it has one record per byte, the
  records link from idle to the present state, each is a transition of the table, and the table has
  all 36 pairs of a state and a class.
\<close>

theorem validation_log_replays:
  "let d = ValidationDfa_process bs ValidationDfa_new
   in length (vd_log d) = length bs \<and> linked Idle (vd_log d) (vd_state d) \<and>
      list_all (\<lambda>r. bt_get ValidationDfa_build_table (tn_from r, tn_byte_class r) = Some (tn_to r)) (vd_log d) \<and>
      bt_len ValidationDfa_build_table = 36"
proof -
  have "log_replays (ValidationDfa_process bs ValidationDfa_new)"
    unfolding process_run by (rule validation_machine.run_inv) (simp add: log_replays_def ValidationDfa_new_def)
  then show ?thesis
    by (auto simp: Let_def log_replays_def list_all_iff table_get table_len length_log_process)
      (simp add: ValidationDfa_new_def)
qed

end
