(* ===== verification/Hysteresis.thy ===== *)
theory Hysteresis
  imports Ordered_Map
begin

text \<open>
  Pillar 7, \<open>aegis-runtime/src/hysteresis.rs\<close>: the reputation filter.  Penalties double and
  recoveries halve with every demotion; the score stays within 0 and 10000, and five penalties
  without a recovery take any peer from full trust to nothing.
\<close>

section \<open>Peers\<close>

definition MAX_SCORE :: u16 where "MAX_SCORE = 10000"
definition QUARANTINE_THRESHOLD :: u16 where "QUARANTINE_THRESHOLD = 2000"
definition THROTTLE_THRESHOLD :: u16 where "THROTTLE_THRESHOLD = 5000"

datatype PeerStatus = Trusted | Throttled | Quarantined

record PeerRecord =
  pr_peer_id :: u64
  pr_score :: u16
  pr_demotion_count :: u16
  pr_penalty_events :: u32
  pr_recovery_events :: u32

definition PeerRecord_new :: "u64 \<Rightarrow> PeerRecord" where
  "PeerRecord_new peer_id =
     \<lparr>pr_peer_id = peer_id, pr_score = MAX_SCORE, pr_demotion_count = 0, pr_penalty_events = 0,
      pr_recovery_events = 0\<rparr>"

definition PeerRecord_status :: "PeerRecord \<Rightarrow> PeerStatus" where
  "PeerRecord_status r =
     (if pr_score r < QUARANTINE_THRESHOLD then Quarantined
      else if pr_score r < THROTTLE_THRESHOLD then Throttled
      else Trusted)"

definition PeerRecord_is_quarantined :: "PeerRecord \<Rightarrow> bool" where
  "PeerRecord_is_quarantined r \<longleftrightarrow> PeerRecord_status r = Quarantined"

definition penalty_weight :: "u16 \<Rightarrow> u16" where
  "penalty_weight demotion_count =
     (let shift = ucast (min demotion_count 4) :: u32;
          base = push_bit (unat shift) 500 :: u32
      in ucast (min base (ucast MAX_SCORE)))"

definition recovery_increment :: "u16 \<Rightarrow> u16" where
  "recovery_increment demotion_count =
     (let shift = ucast (min demotion_count 7) :: u32;
          inc = drop_bit (unat shift) 200 :: u32
      in ucast (max inc 1))"

section \<open>The filter\<close>

record HysteresisFilter =
  hf_peers :: "(u64, PeerRecord) btmap"
  hf_total_quarantined :: u32
  hf_total_penalties :: u32

definition HysteresisFilter_new :: HysteresisFilter where
  "HysteresisFilter_new = \<lparr>hf_peers = bt_empty, hf_total_quarantined = 0, hf_total_penalties = 0\<rparr>"

definition HysteresisFilter_register_peer :: "u64 \<Rightarrow> HysteresisFilter \<Rightarrow> HysteresisFilter" where
  "HysteresisFilter_register_peer pid f = f\<lparr>hf_peers := bt_or_insert pid (PeerRecord_new pid) (hf_peers f)\<rparr>"

definition HysteresisFilter_penalize :: "u64 \<Rightarrow> HysteresisFilter \<Rightarrow> PeerStatus \<times> HysteresisFilter" where
  "HysteresisFilter_penalize pid f =
     (let rec = bt_get_or (PeerRecord_new pid) (hf_peers f) pid;
          weight = penalty_weight (pr_demotion_count rec);
          rec = rec\<lparr>pr_score := sat_sub (pr_score rec) weight,
                    pr_demotion_count := pr_demotion_count rec + 1,
                    pr_penalty_events := pr_penalty_events rec + 1\<rparr>;
          status = PeerRecord_status rec
      in (status,
          f\<lparr>hf_peers := bt_insert pid rec (hf_peers f),
            hf_total_penalties := hf_total_penalties f + 1,
            hf_total_quarantined :=
              (if status = Quarantined then hf_total_quarantined f + 1 else hf_total_quarantined f)\<rparr>))"

definition HysteresisFilter_recover :: "u64 \<Rightarrow> HysteresisFilter \<Rightarrow> u16 \<times> HysteresisFilter" where
  "HysteresisFilter_recover pid f =
     (let rec = bt_get_or (PeerRecord_new pid) (hf_peers f) pid;
          inc = recovery_increment (pr_demotion_count rec);
          rec = rec\<lparr>pr_score := min (sat_add (pr_score rec) inc) MAX_SCORE,
                    pr_recovery_events := pr_recovery_events rec + 1\<rparr>
      in (pr_score rec, f\<lparr>hf_peers := bt_insert pid rec (hf_peers f)\<rparr>))"

definition HysteresisFilter_get_peer :: "u64 \<Rightarrow> HysteresisFilter \<Rightarrow> PeerRecord option" where
  "HysteresisFilter_get_peer pid f = bt_get (hf_peers f) pid"

definition HysteresisFilter_peer_count :: "HysteresisFilter \<Rightarrow> nat" where
  "HysteresisFilter_peer_count f = bt_len (hf_peers f)"

definition HysteresisFilter_active_quarantines :: "HysteresisFilter \<Rightarrow> u16" where
  "HysteresisFilter_active_quarantines f =
     of_nat (length (filter PeerRecord_is_quarantined (bt_values (hf_peers f))))"

section \<open>The weights\<close>

lemma small_u16:
  assumes "unat (d :: u16) < 5"
  shows "d = 0 \<or> d = 1 \<or> d = 2 \<or> d = 3 \<or> d = 4"
proof -
  have "unat d = 0 \<or> unat d = 1 \<or> unat d = 2 \<or> unat d = 3 \<or> unat d = 4" using assms by arith
  then show ?thesis by (simp add: word_unat_eq_iff)
qed

lemma unat_penalty_weight: "unat (penalty_weight d) = 500 * 2 ^ min (unat d) 4"
proof (cases "unat d < 4")
  case True
  then show ?thesis
    using small_u16 [of d] by (auto simp: penalty_weight_def Let_def MAX_SCORE_def min_def)
next
  case False
  then have "min d 4 = 4" by (simp add: min_def word_le_nat_alt word_unat_eq_iff)
  then show ?thesis using False by (simp add: penalty_weight_def Let_def MAX_SCORE_def)
qed

lemma recovery_increment_bounds: "1 \<le> unat (recovery_increment d) \<and> unat (recovery_increment d) \<le> 200"
proof -
  have "min d 7 = 7 \<or> unat d < 5 \<or> d = 5 \<or> d = 6"
    by (simp add: min_def word_le_nat_alt word_unat_eq_iff) arith
  then show ?thesis
    using small_u16 [of d] by (auto simp: recovery_increment_def Let_def)
qed

section \<open>Operations on one peer's score\<close>

definition score_of :: "HysteresisFilter \<Rightarrow> u64 \<Rightarrow> nat" where
  "score_of f p = unat (pr_score (bt_get_or (PeerRecord_new p) (hf_peers f) p))"

definition demotions_of :: "HysteresisFilter \<Rightarrow> u64 \<Rightarrow> u16" where
  "demotions_of f p = pr_demotion_count (bt_get_or (PeerRecord_new p) (hf_peers f) p)"

lemmas peer_view = score_of_def demotions_of_def

lemma register_view [simp]:
  "score_of (HysteresisFilter_register_peer q f) p = score_of f p"
  "demotions_of (HysteresisFilter_register_peer q f) p = demotions_of f p"
  by (auto simp: peer_view HysteresisFilter_register_peer_def bt_get_or_def bt_has_def split: option.split)

lemma penalize_view [simp]:
  "score_of (snd (HysteresisFilter_penalize q f)) p =
     (if p = q then score_of f p - 500 * 2 ^ min (unat (demotions_of f p)) 4 else score_of f p)"
  "demotions_of (snd (HysteresisFilter_penalize q f)) p =
     (if p = q then demotions_of f p + 1 else demotions_of f p)"
  by (simp_all add: peer_view HysteresisFilter_penalize_def Let_def bt_get_or_def sat_simps unat_penalty_weight)

lemma recover_view [simp]:
  "score_of (snd (HysteresisFilter_recover q f)) p =
     (if p = q then min (score_of f p + unat (recovery_increment (demotions_of f p))) 10000 else score_of f p)"
  "demotions_of (snd (HysteresisFilter_recover q f)) p = demotions_of f p"
  by (auto simp: peer_view HysteresisFilter_recover_def Let_def bt_get_or_def sat_simps MAX_SCORE_def
      min_def word_le_nat_alt split: if_splits)

section \<open>The filter as a machine\<close>

datatype FilterOp = Register u64 | Penalize u64 | Recover u64

fun filter_step :: "FilterOp \<Rightarrow> HysteresisFilter \<Rightarrow> HysteresisFilter" where
  "filter_step (Register p) f = HysteresisFilter_register_peer p f"
| "filter_step (Penalize p) f = snd (HysteresisFilter_penalize p f)"
| "filter_step (Recover p) f = snd (HysteresisFilter_recover p f)"

definition scores_bounded :: "HysteresisFilter \<Rightarrow> bool" where
  "scores_bounded f \<longleftrightarrow> (\<forall>p. score_of f p \<le> 10000)"

interpretation score_machine: invariant_machine filter_step scores_bounded
proof
  fix f op assume "scores_bounded f"
  then show "scores_bounded (filter_step op f)"
    by (cases op) (auto simp: scores_bounded_def intro: le_trans [OF diff_le_self])
qed

lemma view_new [simp]:
  "score_of HysteresisFilter_new p = 10000" "demotions_of HysteresisFilter_new p = 0"
  by (simp_all add: peer_view HysteresisFilter_new_def PeerRecord_new_def MAX_SCORE_def)

text \<open>The score after \<open>n\<close> penalties and no recovery: 500, 1000, 2000, 4000, 8000 taken off.\<close>

definition cliff :: "nat \<Rightarrow> nat" where
  "cliff n = (if n \<le> 4 then 10500 - 500 * 2 ^ n else 0)"

lemma cliff_step: "cliff n - 500 * 2 ^ min n 4 = cliff (Suc n)"
proof (cases "n < 5")
  case True
  then have "n = 0 \<or> n = 1 \<or> n = 2 \<or> n = 3 \<or> n = 4" by arith
  then show ?thesis by (auto simp: cliff_def)
qed (simp add: cliff_def)

lemma penalties_run:
  assumes "Recover p \<notin> set ops" and "length (filter (\<lambda>op. op = Penalize p) ops) < 2 ^ 16"
  shows "score_of (run filter_step ops HysteresisFilter_new) p = cliff (length (filter (\<lambda>op. op = Penalize p) ops)) \<and>
    unat (demotions_of (run filter_step ops HysteresisFilter_new) p) = length (filter (\<lambda>op. op = Penalize p) ops)"
  using assms
proof (induction ops rule: rev_induct)
  case Nil
  then show ?case by (simp add: cliff_def)
next
  case (snoc op ops)
  let ?n = "length (filter (\<lambda>op. op = Penalize p) ops)" and ?f = "run filter_step ops HysteresisFilter_new"
  have IH: "score_of ?f p = cliff ?n" "unat (demotions_of ?f p) = ?n"
    using snoc by (auto split: if_splits)
  show ?case
  proof (cases "op = Penalize p")
    case True
    then have "unat (demotions_of ?f p + 1) = Suc ?n"
      using IH(2) snoc.prems(2) by (simp add: unat_inc)
    then show ?thesis using IH True by (simp add: cliff_step)
  next
    case False
    then show ?thesis using IH snoc.prems(1) by (cases op) auto
  qed
qed

lemma get_peer_score:
  "HysteresisFilter_get_peer p f = Some r \<Longrightarrow> score_of f p = unat (pr_score r)"
  by (simp add: HysteresisFilter_get_peer_def score_of_def bt_get_or_def)

text \<open>
  Scores are bounded: after any registrations, penalties and recoveries, every peer's score is at
  most 10000.
\<close>

lemma hysteresis_score_bounded:
  "list_all (\<lambda>r. pr_score r \<le> MAX_SCORE) (bt_values (hf_peers (run filter_step ops HysteresisFilter_new)))"
proof -
  let ?f = "run filter_step ops HysteresisFilter_new"
  have "scores_bounded ?f" by (rule score_machine.run_inv) (simp add: scores_bounded_def)
  then have "unat (pr_score r) \<le> 10000" if "bt_get (hf_peers ?f) p = Some r" for p r
    using that get_peer_score [of p ?f r]
    unfolding scores_bounded_def HysteresisFilter_get_peer_def by metis
  then show ?thesis by (auto simp: list_all_iff set_bt_values ran_def MAX_SCORE_def word_le_nat_alt)
qed

section \<open>Properties\<close>

text \<open>
  The cliff: a peer that is penalized and never recovers, whatever happens to the others, has
  lost 500, 1500, 3500 and 7500 points after one to four penalties and everything from the fifth on
  (as long as its \<open>u16\<close> counter does not wrap), so it is throttled at the fourth penalty and
  quarantined exactly from the fifth.
\<close>

theorem hysteresis_cliff:
  assumes "Recover p \<notin> set ops" and "n = length (filter (\<lambda>op. op = Penalize p) ops)" and "n < 2 ^ 16"
    and "HysteresisFilter_get_peer p (run filter_step ops HysteresisFilter_new) = Some r"
  shows "unat (pr_score r) = (if n \<le> 4 then 10500 - 500 * 2 ^ n else 0) \<and>
    (PeerRecord_is_quarantined r \<longleftrightarrow> 5 \<le> n) \<and> (PeerRecord_status r = Throttled \<longleftrightarrow> n = 4)"
proof -
  have score: "unat (pr_score r) = cliff n"
    using penalties_run [OF assms(1)] assms(2,3) get_peer_score [OF assms(4)] by simp
  have "n = 0 \<or> n = 1 \<or> n = 2 \<or> n = 3 \<or> n = 4 \<or> 5 \<le> n" by arith
  then have "(cliff n < 2000 \<longleftrightarrow> 5 \<le> n) \<and> (\<not> cliff n < 2000 \<and> cliff n < 5000 \<longleftrightarrow> n = 4)"
    by (auto simp: cliff_def)
  then show ?thesis
    by (auto simp: PeerRecord_is_quarantined_def PeerRecord_status_def QUARANTINE_THRESHOLD_def
        THROTTLE_THRESHOLD_def word_less_nat_alt score) (simp_all add: cliff_def)
qed

lemma hysteresis_cliff_witness:
  "\<exists>r. HysteresisFilter_get_peer 7 (run filter_step [Penalize 7, Recover 8, Penalize 7] HysteresisFilter_new) = Some r \<and>
     unat (pr_score r) = 8500"
proof -
  obtain r where r: "HysteresisFilter_get_peer 7
      (run filter_step [Penalize 7, Recover 8, Penalize 7] HysteresisFilter_new) = Some r"
    by (simp add: HysteresisFilter_get_peer_def HysteresisFilter_penalize_def HysteresisFilter_recover_def
        HysteresisFilter_new_def Let_def)
  then show ?thesis using hysteresis_cliff [OF _ refl _ r] by simp
qed

end
