(* ===== verification/Frames.thy ===== *)
theory Frames
  imports Prelude
begin

text \<open>
  Pillar 6 and the telemetry emitter, \<open>aegis-runtime/src/gossip_emitter.rs\<close> and
  \<open>aegis-runtime/src/telemetry_emitter.rs\<close>: the two 64-byte frames and their parsers, the emitter's
  count, and the telemetry counters with their interleaved updates.  A fixed array is a list of its
  length; the socket's answer to a send is an argument.
\<close>

section \<open>The gossip frame\<close>

definition AEGIS_PROTOCOL_MAGIC :: u16 where "AEGIS_PROTOCOL_MAGIC = 0xE0E0"
definition FRAME_SIZE :: nat where "FRAME_SIZE = 64"

record GossipFrame =
  gf_local_node_id :: u16
  gf_root_state_pulses :: u64
  gf_semantic_traversals :: u64
  gf_agent_state_alpha :: u64
  gf_agent_state_beta :: u64
  gf_agent_state_gamma :: u64
  gf_cluster_consensus_score :: u16
  gf_network_friction :: u16

definition GossipFrame_to_bytes :: "GossipFrame \<Rightarrow> bytes" where
  "GossipFrame_to_bytes f =
     (let buf = le2 AEGIS_PROTOCOL_MAGIC @ le2 (gf_local_node_id f) @ le8 (gf_root_state_pulses f) @
            le8 (gf_semantic_traversals f) @ le8 (gf_agent_state_alpha f) @ le8 (gf_agent_state_beta f) @
            le8 (gf_agent_state_gamma f) @ le8 0 @ le8 0 @ le2 (gf_cluster_consensus_score f) @
            le2 (gf_network_friction f)
      in take FRAME_SIZE buf)"

text \<open>The bytes \<open>b[i..j]\<close>.\<close>

definition sub_bytes :: "nat \<Rightarrow> nat \<Rightarrow> bytes \<Rightarrow> bytes" where
  "sub_bytes i j b = take (j - i) (drop i b)"

definition GossipFrame_from_bytes :: "bytes \<Rightarrow> GossipFrame option" where
  "GossipFrame_from_bytes b =
     (let magic = from_le (sub_bytes 0 2 b) :: u16
      in if magic \<noteq> AEGIS_PROTOCOL_MAGIC then None
         else Some \<lparr>gf_local_node_id = from_le (sub_bytes 2 4 b),
           gf_root_state_pulses = from_le (sub_bytes 4 12 b),
           gf_semantic_traversals = from_le (sub_bytes 12 20 b),
           gf_agent_state_alpha = from_le (sub_bytes 20 28 b),
           gf_agent_state_beta = from_le (sub_bytes 28 36 b),
           gf_agent_state_gamma = from_le (sub_bytes 36 44 b),
           gf_cluster_consensus_score = from_le (sub_bytes 60 62 b),
           gf_network_friction = from_le (sub_bytes 62 64 b)\<rparr>)"

section \<open>The emitter\<close>

text \<open>What \<open>send_to\<close> of the standard library may answer.\<close>

datatype SendResult = Sent nat | WouldBlock | SendError nat

record GossipEmitter =
  ge_socket :: bool
  ge_sent_count :: u64

definition GossipEmitter_noop :: GossipEmitter where
  "GossipEmitter_noop = \<lparr>ge_socket = False, ge_sent_count = 0\<rparr>"

definition GossipEmitter_emit ::
  "(bytes \<Rightarrow> SendResult) \<Rightarrow> GossipFrame \<Rightarrow> GossipEmitter \<Rightarrow> (nat + nat) \<times> GossipEmitter" where
  "GossipEmitter_emit send_to frame e =
     (let bytes = GossipFrame_to_bytes frame
      in if \<not> ge_socket e then (Inr 0, e)
         else case send_to bytes of
             Sent n \<Rightarrow> (Inr n, e\<lparr>ge_sent_count := ge_sent_count e + 1\<rparr>)
           | WouldBlock \<Rightarrow> (Inr 0, e)
           | SendError code \<Rightarrow> (Inl code, e))"

section \<open>The telemetry packet\<close>

definition RESONANCE_MAGIC :: u16 where "RESONANCE_MAGIC = 0xE0E0"
definition TOTAL_PACKET_SIZE :: nat where "TOTAL_PACKET_SIZE = 64"

text \<open>\<open>buf[i..].copy_from_slice(bs)\<close>.\<close>

definition put_at :: "nat \<Rightarrow> bytes \<Rightarrow> bytes \<Rightarrow> bytes" where
  "put_at i bs buf = take i buf @ bs @ drop (i + length bs) buf"

type_synonym packet_data = "u16 \<times> u64 \<times> u64 \<times> u64 \<times> u64 \<times> u64 \<times> u64 \<times> u64 \<times> u16 \<times> u16"

fun construct_packet :: "packet_data \<Rightarrow> bytes" where
  "construct_packet (node_id, t0, sem, clear, concealed, merged, prolonged, vibrating, harmony, tension) =
     (let buf = replicate TOTAL_PACKET_SIZE 0;
          buf = put_at 0 (le2 RESONANCE_MAGIC) buf;
          buf = put_at 2 (le2 node_id) buf;
          buf = put_at 4 (le8 t0) buf;
          buf = put_at 12 (le8 sem) buf;
          buf = put_at 20 (le8 clear) buf;
          buf = put_at 28 (le8 concealed) buf;
          buf = put_at 36 (le8 merged) buf;
          buf = put_at 44 (le8 prolonged) buf;
          buf = put_at 52 (le8 vibrating) buf;
          buf = put_at 60 (le2 harmony) buf;
          buf = put_at 62 (le2 tension) buf
      in buf)"

definition parse_packet :: "bytes \<Rightarrow> packet_data option" where
  "parse_packet buf =
     (if length buf < TOTAL_PACKET_SIZE then None
      else
        let magic = from_le (sub_bytes 0 2 buf) :: u16
        in if magic \<noteq> RESONANCE_MAGIC then None
           else Some (from_le (sub_bytes 2 4 buf), from_le (sub_bytes 4 12 buf), from_le (sub_bytes 12 20 buf),
             from_le (sub_bytes 20 28 buf), from_le (sub_bytes 28 36 buf), from_le (sub_bytes 36 44 buf),
             from_le (sub_bytes 44 52 buf), from_le (sub_bytes 52 60 buf), from_le (sub_bytes 60 62 buf),
             from_le (sub_bytes 62 64 buf)))"

section \<open>Writing and reading the fields\<close>

lemma sub_bytes_append:
  "sub_bytes i j (xs @ ys) =
     (if j \<le> length xs then sub_bytes i j xs
      else if length xs \<le> i then sub_bytes (i - length xs) (j - length xs) ys
      else drop i xs @ take (j - length xs) ys)"
  by (auto simp: sub_bytes_def)

lemma sub_bytes_all [simp]: "length xs \<le> j \<Longrightarrow> sub_bytes 0 j xs = xs"
  by (simp add: sub_bytes_def)

lemma put_at_first: "put_at 0 bs (replicate n 0) = bs @ replicate (n - length bs) 0"
  by (simp add: put_at_def)

lemma put_at_next:
  "length xs = i \<Longrightarrow> put_at i bs (xs @ replicate n 0) = (xs @ bs) @ replicate (n - length bs) 0"
  by (simp add: put_at_def)

lemma construct_packet_eq:
  "construct_packet (node_id, t0, sem, clear, concealed, merged, prolonged, vibrating, harmony, tension) =
     le2 RESONANCE_MAGIC @ le2 node_id @ le8 t0 @ le8 sem @ le8 clear @ le8 concealed @ le8 merged @
     le8 prolonged @ le8 vibrating @ le2 harmony @ le2 tension"
proof -
  have "construct_packet (node_id, t0, sem, clear, concealed, merged, prolonged, vibrating, harmony, tension) =
     (((((((((le2 RESONANCE_MAGIC @ le2 node_id) @ le8 t0) @ le8 sem) @ le8 clear) @ le8 concealed) @ le8 merged) @
     le8 prolonged) @ le8 vibrating) @ le2 harmony) @ le2 tension"
    by (simp add: put_at_first put_at_next TOTAL_PACKET_SIZE_def Let_def del: append_assoc)
  then show ?thesis by (simp only: append_assoc)
qed

lemma to_bytes_eq:
  "GossipFrame_to_bytes f =
     le2 AEGIS_PROTOCOL_MAGIC @ le2 (gf_local_node_id f) @ le8 (gf_root_state_pulses f) @
     le8 (gf_semantic_traversals f) @ le8 (gf_agent_state_alpha f) @ le8 (gf_agent_state_beta f) @
     le8 (gf_agent_state_gamma f) @ le8 0 @ le8 0 @ le2 (gf_cluster_consensus_score f) @
     le2 (gf_network_friction f)"
  by (simp add: GossipFrame_to_bytes_def FRAME_SIZE_def Let_def)

lemmas read_frame = sub_bytes_append from_le_fixed

lemma from_to_bytes: "GossipFrame_from_bytes (GossipFrame_to_bytes f) = Some f"
  by (simp add: GossipFrame_from_bytes_def to_bytes_eq Let_def read_frame)

lemma parse_construct: "parse_packet (construct_packet d) = Some d"
proof -
  obtain n t s c1 c2 c3 rest where "d = (n, t, s, c1, c2, c3, rest)" by (cases d rule: prod_cases7)
  moreover obtain c4 c5 h x where "rest = (c4, c5, h, x)" by (cases rest)
  ultimately have d: "d = (n, t, s, c1, c2, c3, c4, c5, h, x)" by simp
  show ?thesis
    unfolding d construct_packet_eq by (simp add: parse_packet_def Let_def read_frame TOTAL_PACKET_SIZE_def)
qed

lemma length_sub_bytes [simp]: "j \<le> length b \<Longrightarrow> length (sub_bytes i j b) = j - i"
  by (simp add: sub_bytes_def)

lemma sub_bytes_join:
  assumes "i \<le> j" "j \<le> k"
  shows "sub_bytes i j b @ sub_bytes j k b = sub_bytes i k b"
proof -
  have "take ((j - i) + (k - j)) (drop i b) = take (j - i) (drop i b) @ take (k - j) (drop (j - i) (drop i b))"
    by (rule take_add)
  then show ?thesis using assms by (simp add: sub_bytes_def)
qed

lemma le_bytes_zero: "le_bytes n 0 = replicate n 0"
  by (induction n) simp_all

lemma le2_sub_bytes: "j \<le> length b \<Longrightarrow> j - i = 2 \<Longrightarrow> le2 (from_le (sub_bytes i j b)) = sub_bytes i j b"
  by (intro le_fixed_from_le) simp

lemma le8_sub_bytes: "j \<le> length b \<Longrightarrow> j - i = 8 \<Longrightarrow> le8 (from_le (sub_bytes i j b)) = sub_bytes i j b"
  by (intro le_fixed_from_le) simp

lemma from_bytes_some:
  assumes "GossipFrame_from_bytes b = Some f" and "length b = 64"
  shows "le2 AEGIS_PROTOCOL_MAGIC = sub_bytes 0 2 b"
    and "le2 (gf_local_node_id f) = sub_bytes 2 4 b" and "le8 (gf_root_state_pulses f) = sub_bytes 4 12 b"
    and "le8 (gf_semantic_traversals f) = sub_bytes 12 20 b" and "le8 (gf_agent_state_alpha f) = sub_bytes 20 28 b"
    and "le8 (gf_agent_state_beta f) = sub_bytes 28 36 b" and "le8 (gf_agent_state_gamma f) = sub_bytes 36 44 b"
    and "le2 (gf_cluster_consensus_score f) = sub_bytes 60 62 b" and "le2 (gf_network_friction f) = sub_bytes 62 64 b"
proof -
  have "from_le (sub_bytes 0 2 b) = AEGIS_PROTOCOL_MAGIC"
    using assms(1) by (simp add: GossipFrame_from_bytes_def Let_def split: if_splits)
  moreover have "le2 (from_le (sub_bytes 0 2 b)) = sub_bytes 0 2 b"
    using assms(2) by (intro le2_sub_bytes) auto
  ultimately show "le2 AEGIS_PROTOCOL_MAGIC = sub_bytes 0 2 b" by (simp only:)
qed (use assms in \<open>auto simp: GossipFrame_from_bytes_def Let_def le2_sub_bytes le8_sub_bytes split: if_splits\<close>)

lemma to_from_bytes:
  assumes "GossipFrame_from_bytes b = Some f" and "length b = 64"
  shows "GossipFrame_to_bytes f = take 44 b @ replicate 16 0 @ drop 60 b"
proof -
  have "GossipFrame_to_bytes f = (((((sub_bytes 0 2 b @ sub_bytes 2 4 b) @ sub_bytes 4 12 b) @ sub_bytes 12 20 b) @
      sub_bytes 20 28 b) @ sub_bytes 28 36 b @ sub_bytes 36 44 b) @ replicate 8 0 @ replicate 8 0 @
      (sub_bytes 60 62 b @ sub_bytes 62 64 b)"
    by (simp only: to_bytes_eq from_bytes_some [OF assms] le_bytes_zero append_assoc)
  also have "\<dots> = sub_bytes 0 44 b @ replicate 8 0 @ replicate 8 0 @ sub_bytes 60 64 b"
    by (simp add: sub_bytes_join del: append_assoc replicate.simps)
  also have "sub_bytes 0 44 b = take 44 b" by (simp add: sub_bytes_def)
  also have "sub_bytes 60 64 b = drop 60 b" using assms(2) by (simp add: sub_bytes_def)
  finally show ?thesis by (simp add: numeral_eq_Suc)
qed

section \<open>The telemetry counters\<close>

text \<open>
  The seven accumulators and two gauges are separate atomics.  A snapshot swaps the accumulators one
  by one, so other threads' updates may come between the swaps: the steps below are the atomic
  operations, and a snapshot is a sequence of them.
\<close>

datatype Counter =
  t0_integrity_pulse | semantic_traversals | acoustic_clear | acoustic_concealed | acoustic_merged
| acoustic_prolonged | acoustic_vibrating

record TelemetryAtomics =
  ta_counters :: "Counter \<Rightarrow> u64"
  ta_swarm_harmony_index :: u64
  ta_hysteresis_tension :: u64

definition TelemetryAtomics_with_values :: "u16 \<Rightarrow> u16 \<Rightarrow> TelemetryAtomics" where
  "TelemetryAtomics_with_values harmony tension =
     \<lparr>ta_counters = (\<lambda>_. 0), ta_swarm_harmony_index = ucast harmony, ta_hysteresis_tension = ucast tension\<rparr>"

definition TelemetryAtomics_new :: TelemetryAtomics where
  "TelemetryAtomics_new =
     \<lparr>ta_counters = (\<lambda>_. 0), ta_swarm_harmony_index = 100, ta_hysteresis_tension = 0\<rparr>"

definition fetch_add :: "Counter \<Rightarrow> u64 \<Rightarrow> TelemetryAtomics \<Rightarrow> TelemetryAtomics" where
  "fetch_add c n a = a\<lparr>ta_counters := (ta_counters a)(c := ta_counters a c + n)\<rparr>"

definition swap_zero :: "Counter \<Rightarrow> TelemetryAtomics \<Rightarrow> u64 \<times> TelemetryAtomics" where
  "swap_zero c a = (ta_counters a c, a\<lparr>ta_counters := (ta_counters a)(c := 0)\<rparr>)"

definition TelemetryAtomics_pulse_integrity :: "TelemetryAtomics \<Rightarrow> TelemetryAtomics" where
  "TelemetryAtomics_pulse_integrity = fetch_add t0_integrity_pulse 1"

definition TelemetryAtomics_record_traversal :: "TelemetryAtomics \<Rightarrow> TelemetryAtomics" where
  "TelemetryAtomics_record_traversal = fetch_add semantic_traversals 1"

definition TelemetryAtomics_set_harmony :: "u16 \<Rightarrow> TelemetryAtomics \<Rightarrow> TelemetryAtomics" where
  "TelemetryAtomics_set_harmony v a = a\<lparr>ta_swarm_harmony_index := ucast v\<rparr>"

definition TelemetryAtomics_set_tension :: "u16 \<Rightarrow> TelemetryAtomics \<Rightarrow> TelemetryAtomics" where
  "TelemetryAtomics_set_tension v a = a\<lparr>ta_hysteresis_tension := ucast v\<rparr>"

definition TelemetryAtomics_snapshot_and_reset ::
  "TelemetryAtomics \<Rightarrow> (u64 \<times> u64 \<times> u64 \<times> u64 \<times> u64 \<times> u64 \<times> u64 \<times> u16 \<times> u16) \<times> TelemetryAtomics" where
  "TelemetryAtomics_snapshot_and_reset a =
     (let (t0, a) = swap_zero t0_integrity_pulse a;
          (sem, a) = swap_zero semantic_traversals a;
          (clear, a) = swap_zero acoustic_clear a;
          (concealed, a) = swap_zero acoustic_concealed a;
          (merged, a) = swap_zero acoustic_merged a;
          (prolonged, a) = swap_zero acoustic_prolonged a;
          (vibrating, a) = swap_zero acoustic_vibrating a;
          harmony = ucast (ta_swarm_harmony_index a) :: u16;
          tension = ucast (ta_hysteresis_tension a) :: u16
      in ((t0, sem, clear, concealed, merged, prolonged, vibrating, harmony, tension), a))"

text \<open>The heartbeat of the emitter's thread: a snapshot, packed into the buffer and sent.\<close>

definition heartbeat :: "u16 \<Rightarrow> TelemetryAtomics \<Rightarrow> bytes \<times> TelemetryAtomics" where
  "heartbeat node_id a =
     (case TelemetryAtomics_snapshot_and_reset a of
        (s, a') \<Rightarrow> (construct_packet (node_id, s), a'))"

datatype AtomicStep = AddTo Counter u64 | SwapOut Counter | SetHarmony u16 | SetTension u16

fun atomic_step :: "AtomicStep \<Rightarrow> TelemetryAtomics \<Rightarrow> TelemetryAtomics" where
  "atomic_step (AddTo c n) a = fetch_add c n a"
| "atomic_step (SwapOut c) a = snd (swap_zero c a)"
| "atomic_step (SetHarmony v) a = TelemetryAtomics_set_harmony v a"
| "atomic_step (SetTension v) a = TelemetryAtomics_set_tension v a"

text \<open>What is added to a counter, and what swaps take out of it, along a run.\<close>

primrec added :: "Counter \<Rightarrow> AtomicStep list \<Rightarrow> u64" where
  "added c [] = 0"
| "added c (s # ss) = (case s of AddTo d n \<Rightarrow> if d = c then n else 0 | _ \<Rightarrow> 0) + added c ss"

primrec taken :: "Counter \<Rightarrow> AtomicStep list \<Rightarrow> TelemetryAtomics \<Rightarrow> u64" where
  "taken c [] a = 0"
| "taken c (s # ss) a =
     (case s of SwapOut d \<Rightarrow> if d = c then fst (swap_zero d a) else 0 | _ \<Rightarrow> 0) + taken c ss (atomic_step s a)"

abbreviation snapshot_steps :: "AtomicStep list" where
  "snapshot_steps \<equiv> map SwapOut [t0_integrity_pulse, semantic_traversals, acoustic_clear,
     acoustic_concealed, acoustic_merged, acoustic_prolonged, acoustic_vibrating]"

lemma snapshot_is_swaps:
  "TelemetryAtomics_snapshot_and_reset a =
    ((ta_counters a t0_integrity_pulse, ta_counters a semantic_traversals, ta_counters a acoustic_clear,
      ta_counters a acoustic_concealed, ta_counters a acoustic_merged, ta_counters a acoustic_prolonged,
      ta_counters a acoustic_vibrating, ucast (ta_swarm_harmony_index a), ucast (ta_hysteresis_tension a)),
     run atomic_step snapshot_steps a)"
  by (simp add: TelemetryAtomics_snapshot_and_reset_def swap_zero_def)

lemma counter_step:
  "ta_counters a c + added c [s] = taken c [s] a + ta_counters (atomic_step s a) c"
  by (cases s) (simp_all add: fetch_add_def swap_zero_def TelemetryAtomics_set_harmony_def
      TelemetryAtomics_set_tension_def)

lemma counters_balance: "ta_counters a c + added c ss = taken c ss a + ta_counters (run atomic_step ss a) c"
proof (induction ss arbitrary: a)
  case Nil
  then show ?case by simp
next
  case (Cons s ss)
  have "ta_counters a c + added c (s # ss) = (ta_counters a c + added c [s]) + added c ss" by simp
  also have "\<dots> = taken c [s] a + (ta_counters (atomic_step s a) c + added c ss)"
    by (simp only: counter_step add.assoc)
  also have "\<dots> = taken c (s # ss) a + ta_counters (run atomic_step (s # ss) a) c"
    by (simp only: Cons.IH run_simps taken.simps add.assoc add_0_right)
  finally show ?case .
qed

section \<open>Properties\<close>

text \<open>
  Gossip frames round trip: 64 bytes that parse back to the frame, and of the 64-byte strings
  that parse, writing again gives the same bytes with the reserved ones cleared.
\<close>

theorem gossip_frame_roundtrip:
  "length (GossipFrame_to_bytes f) = 64 \<and> GossipFrame_from_bytes (GossipFrame_to_bytes f) = Some f \<and>
   (GossipFrame_from_bytes b = Some g \<and> length b = 64 \<longrightarrow>
      GossipFrame_to_bytes g = take 44 b @ replicate 16 0 @ drop 60 b)"
proof -
  have "length (GossipFrame_to_bytes f) = 64" by (simp add: to_bytes_eq)
  then show ?thesis using from_to_bytes to_from_bytes by blast
qed

lemma gossip_frame_roundtrip_witness:
  "GossipFrame_to_bytes (the (GossipFrame_from_bytes ([0xE0, 0xE0] @ replicate 62 1))) =
     take 44 ([0xE0, 0xE0] @ replicate 62 1) @ replicate 16 0 @ drop 60 ([0xE0, 0xE0] @ replicate 62 1)"
proof -
  have "sub_bytes 0 2 ([0xE0, 0xE0] @ replicate 62 1) = [0xE0, 0xE0]" by (simp add: sub_bytes_def)
  moreover have "from_le [0xE0, 0xE0] = AEGIS_PROTOCOL_MAGIC" by (simp add: AEGIS_PROTOCOL_MAGIC_def)
  ultimately have "GossipFrame_from_bytes ([0xE0, 0xE0] @ replicate 62 1) =
      Some (the (GossipFrame_from_bytes ([0xE0, 0xE0] @ replicate 62 1)))"
    by (simp add: GossipFrame_from_bytes_def)
  moreover have "length ([0xE0, 0xE0] @ replicate 62 (1 :: u8)) = 64" by simp
  ultimately show ?thesis using gossip_frame_roundtrip by blast
qed

text \<open>
  Telemetry packets round trip; and since both protocols have the same magic number, a gossip
  frame parses as a telemetry packet: its two reserved words as counts of zero, its consensus score as
  the harmony and its friction as the tension.
\<close>

theorem telemetry_packet_roundtrip:
  "length (construct_packet d) = 64 \<and> parse_packet (construct_packet d) = Some d \<and>
   parse_packet (GossipFrame_to_bytes f) =
     Some (gf_local_node_id f, gf_root_state_pulses f, gf_semantic_traversals f, gf_agent_state_alpha f,
       gf_agent_state_beta f, gf_agent_state_gamma f, 0, 0, gf_cluster_consensus_score f, gf_network_friction f)"
proof -
  have magic: "AEGIS_PROTOCOL_MAGIC = RESONANCE_MAGIC"
    by (simp add: AEGIS_PROTOCOL_MAGIC_def RESONANCE_MAGIC_def)
  have "GossipFrame_to_bytes f = construct_packet (gf_local_node_id f, gf_root_state_pulses f,
      gf_semantic_traversals f, gf_agent_state_alpha f, gf_agent_state_beta f, gf_agent_state_gamma f, 0, 0,
      gf_cluster_consensus_score f, gf_network_friction f)"
    by (simp only: to_bytes_eq construct_packet_eq magic)
  moreover have "length (construct_packet d) = 64"
  proof -
    obtain n t s c1 c2 c3 rest where "d = (n, t, s, c1, c2, c3, rest)" by (cases d rule: prod_cases7)
    moreover obtain c4 c5 h x where "rest = (c4, c5, h, x)" by (cases rest)
    ultimately show ?thesis by (simp only: construct_packet_eq length_append length_le_bytes)
  qed
  ultimately show ?thesis by (simp add: parse_construct del: construct_packet.simps)
qed

text \<open>
  No count is lost or reported twice: however the atomic steps of increments and of any number
  of snapshots interleave, what the swaps took out of a counter and what it still holds add up, modulo
  \<open>2 ^ 64\<close>, to what was added.  A heartbeat that runs alone sends the packet of its counters and leaves
  them at zero.
\<close>

theorem telemetry_counts_conserved:
  "added c ss = taken c ss TelemetryAtomics_new + ta_counters (run atomic_step ss TelemetryAtomics_new) c \<and>
   (let (packet, a') = heartbeat node_id a
    in parse_packet packet = Some (node_id, fst (TelemetryAtomics_snapshot_and_reset a)) \<and>
       ta_counters a' c = 0 \<and> ta_swarm_harmony_index a' = ta_swarm_harmony_index a)"
  using counters_balance [of TelemetryAtomics_new c ss]
  by (cases c; simp add: TelemetryAtomics_new_def heartbeat_def snapshot_is_swaps parse_construct swap_zero_def
      del: construct_packet.simps)

end
