(* ===== verification/State_Anchor.thy ===== *)
theory State_Anchor
  imports Ordered_Map Hash_Chain
begin

text \<open>
  Pillar 1, \<open>aegis-runtime/src/state_anchor.rs\<close>: the append-only ledger keyed by segment.  Every entry
  hashes the head at the time of its append, while \<open>verify_chain\<close> walks the entries in the order of
  their keys; so it verifies an anchor exactly when the two orders are the same, up to forgeries.
\<close>

section \<open>Keys and entries\<close>

datatype SegmentKey = SegmentKey (sk_domain_id: u32) (sk_segment_id: u32)

text \<open>The derived order compares the fields in the order of their declaration.\<close>

instantiation SegmentKey :: linorder
begin

definition less_eq_SegmentKey :: "SegmentKey \<Rightarrow> SegmentKey \<Rightarrow> bool" where
  "k \<le> l \<longleftrightarrow> (sk_domain_id k, sk_segment_id k) \<le> (sk_domain_id l, sk_segment_id l)"

definition less_SegmentKey :: "SegmentKey \<Rightarrow> SegmentKey \<Rightarrow> bool" where
  "k < l \<longleftrightarrow> (sk_domain_id k, sk_segment_id k) < (sk_domain_id l, sk_segment_id l)"

instance
  by standard (auto simp: less_eq_SegmentKey_def less_SegmentKey_def intro: SegmentKey.expand)

end

record AnchorEntry =
  ae_key :: SegmentKey
  ae_payload :: bytes
  ae_entry_hash :: hash

record StateAnchor =
  sa_entries :: "(SegmentKey, AnchorEntry) btmap"
  sa_head_hash :: hash
  sa_corruption_count :: u32

definition StateAnchor_new :: StateAnchor where
  "StateAnchor_new = \<lparr>sa_entries = bt_empty, sa_head_hash = genesis, sa_corruption_count = 0\<rparr>"

datatype AnchorError = DuplicateKey SegmentKey

definition anchor_bytes :: "hash \<Rightarrow> SegmentKey \<Rightarrow> bytes \<Rightarrow> bytes" where
  "anchor_bytes prev key payload =
     hash_bytes prev @ le4 (sk_domain_id key) @ le4 (sk_segment_id key) @ payload"

definition StateAnchor_compute_hash :: "sha \<Rightarrow> hash \<Rightarrow> SegmentKey \<Rightarrow> bytes \<Rightarrow> hash" where
  "StateAnchor_compute_hash sha prev key payload = sha (anchor_bytes prev key payload)"

definition StateAnchor_append ::
  "sha \<Rightarrow> SegmentKey \<Rightarrow> bytes \<Rightarrow> StateAnchor \<Rightarrow> (AnchorError + hash) \<times> StateAnchor" where
  "StateAnchor_append sha key payload a =
     (if bt_has (sa_entries a) key then (Inl (DuplicateKey key), a)
      else
        let entry_hash = StateAnchor_compute_hash sha (sa_head_hash a) key payload
        in (Inr entry_hash,
            a\<lparr>sa_entries := bt_insert key \<lparr>ae_key = key, ae_payload = payload, ae_entry_hash = entry_hash\<rparr> (sa_entries a),
              sa_head_hash := entry_hash\<rparr>))"

fun verify_entries :: "sha \<Rightarrow> hash \<Rightarrow> AnchorEntry list \<Rightarrow> bool" where
  "verify_entries sha running [] \<longleftrightarrow> True"
| "verify_entries sha running (entry # rest) \<longleftrightarrow>
     (let expected = StateAnchor_compute_hash sha running (ae_key entry) (ae_payload entry)
      in if expected \<noteq> ae_entry_hash entry then False
         else verify_entries sha (ae_entry_hash entry) rest)"

definition StateAnchor_verify_chain :: "sha \<Rightarrow> StateAnchor \<Rightarrow> bool \<times> StateAnchor" where
  "StateAnchor_verify_chain sha a =
     (if verify_entries sha genesis (bt_values (sa_entries a)) then (True, a)
      else (False, a\<lparr>sa_corruption_count := sa_corruption_count a + 1\<rparr>))"

definition StateAnchor_passes_t0 :: "StateAnchor \<Rightarrow> bool" where
  "StateAnchor_passes_t0 a \<longleftrightarrow> sa_corruption_count a = 0"

text \<open>The vigil's thread: one verification per tick received, until one fails.\<close>

fun spawn_vigil :: "sha \<Rightarrow> u64 list \<Rightarrow> StateAnchor \<Rightarrow> StateAnchor" where
  "spawn_vigil sha [] a = a"
| "spawn_vigil sha (seq # ticks) a =
     (case StateAnchor_verify_chain sha a of
        (ok, a') \<Rightarrow> if ok then spawn_vigil sha ticks a' else a')"

section \<open>The order of appends\<close>

lemma anchor_bytes_inj:
  "anchor_bytes h k p = anchor_bytes h' k' p' \<longleftrightarrow> h = h' \<and> k = k' \<and> p = p'"
  by (cases k; cases k') (auto simp: anchor_bytes_def enc_simps)

text \<open>What an anchor knows of the entries \<open>es\<close> appended to it in this order.\<close>

definition anchors :: "sha \<Rightarrow> AnchorEntry list \<Rightarrow> StateAnchor \<Rightarrow> bool" where
  "anchors sha es a \<longleftrightarrow>
     verify_entries sha genesis es \<and> sa_head_hash a = last_hash ae_entry_hash es \<and>
     distinct (map ae_key es) \<and>
     bt_get (sa_entries a) = map_of (map (\<lambda>e. (ae_key e, e)) es)"

lemma verify_entries_append:
  "verify_entries sha g (es @ fs) \<longleftrightarrow>
   verify_entries sha g es \<and> verify_entries sha (if es = [] then g else ae_entry_hash (last es)) fs"
  by (induction es arbitrary: g) (auto simp: Let_def)

lemma anchors_new: "anchors sha [] StateAnchor_new"
  by (auto simp: anchors_def StateAnchor_new_def)

lemma map_of_keyed: "distinct (map ae_key es) \<Longrightarrow>
  map_of (map (\<lambda>e. (ae_key e, e)) es) k = Some e \<longleftrightarrow> e \<in> set es \<and> ae_key e = k"
  by (induction es) (auto simp: image_iff)

lemma map_of_keyed_None: "map_of (map (\<lambda>e. (ae_key e, e)) es) k = None \<longleftrightarrow> k \<notin> ae_key ` set es"
  by (induction es) auto

lemma anchors_append:
  assumes "anchors sha es a" and "k \<notin> ae_key ` set es"
  shows "\<exists>e. ae_key e = k \<and> anchors sha (es @ [e]) (snd (StateAnchor_append sha k p a))"
proof -
  let ?e = "\<lparr>ae_key = k, ae_payload = p, ae_entry_hash = StateAnchor_compute_hash sha (sa_head_hash a) k p\<rparr>"
  have "bt_get (sa_entries a) k = None" using assms by (simp add: anchors_def map_of_keyed_None)
  then have step: "snd (StateAnchor_append sha k p a) =
      a\<lparr>sa_entries := bt_insert k ?e (sa_entries a), sa_head_hash := ae_entry_hash ?e\<rparr>"
    by (simp add: StateAnchor_append_def bt_has_def Let_def)
  have "(map_of (map (\<lambda>e. (ae_key e, e)) es))(k \<mapsto> ?e) = map_of (map (\<lambda>e. (ae_key e, e)) (es @ [?e]))"
    using assms(2) map_of_keyed_None [of es k] by (simp add: fun_eq_iff map_add_def split: option.split)
  moreover have "verify_entries sha genesis (es @ [?e])"
    using assms(1) by (simp add: verify_entries_append anchors_def last_hash_def Let_def)
  ultimately have "anchors sha (es @ [?e]) (snd (StateAnchor_append sha k p a))"
    using assms by (auto simp: anchors_def step)
  then show ?thesis by (intro exI [of _ ?e]) simp
qed

definition append_step :: "sha \<Rightarrow> SegmentKey \<times> bytes \<Rightarrow> StateAnchor \<Rightarrow> StateAnchor" where
  "append_step sha kp a = snd (StateAnchor_append sha (fst kp) (snd kp) a)"

lemma anchors_run:
  assumes "distinct (map fst kps)"
  shows "\<exists>es. map ae_key es = map fst kps \<and> anchors sha es (run (append_step sha) kps StateAnchor_new)"
  using assms
proof (induction kps rule: rev_induct)
  case Nil
  then show ?case using anchors_new by (intro exI [of _ "[]"]) simp
next
  case (snoc kp kps)
  then obtain es where es: "map ae_key es = map fst kps"
    "anchors sha es (run (append_step sha) kps StateAnchor_new)" by auto
  have "fst kp \<notin> ae_key ` set es"
    using snoc.prems arg_cong [OF es(1), of set] by simp
  from anchors_append [OF es(2) this, of "snd kp"] obtain e where
    "ae_key e = fst kp" "anchors sha (es @ [e]) (append_step sha kp (run (append_step sha) kps StateAnchor_new))"
    unfolding append_step_def by blast
  then show ?case using es(1) by (intro exI [of _ "es @ [e]"]) simp
qed

section \<open>Two orders of one set of entries\<close>

text \<open>The byte strings a walk hashes, and all that an anchor's entries could have hashed.\<close>

primrec walked :: "hash \<Rightarrow> AnchorEntry list \<Rightarrow> bytes set" where
  "walked g [] = {}"
| "walked g (e # es) = insert (anchor_bytes g (ae_key e) (ae_payload e)) (walked (ae_entry_hash e) es)"

definition anchor_preimages :: "AnchorEntry set \<Rightarrow> bytes set" where
  "anchor_preimages E = {anchor_bytes h (ae_key e) (ae_payload e) | h e. e \<in> E \<and> h \<in> insert genesis (ae_entry_hash ` E)}"

lemma walked_preimages:
  "set es \<subseteq> E \<Longrightarrow> g \<in> insert genesis (ae_entry_hash ` E) \<Longrightarrow> walked g es \<subseteq> anchor_preimages E"
  by (induction es arbitrary: g) (auto simp: anchor_preimages_def)

definition prev_of :: "hash \<Rightarrow> AnchorEntry list \<Rightarrow> hash" where
  "prev_of g us = (if us = [] then g else ae_entry_hash (last us))"

lemma walk_at:
  assumes "verify_entries sha g (us @ x # vs)"
  shows "ae_entry_hash x = sha (anchor_bytes (prev_of g us) (ae_key x) (ae_payload x))"
    and "anchor_bytes (prev_of g us) (ae_key x) (ae_payload x) \<in> walked g (us @ x # vs)"
proof -
  show "ae_entry_hash x = sha (anchor_bytes (prev_of g us) (ae_key x) (ae_payload x))"
    using assms by (auto simp: verify_entries_append Let_def StateAnchor_compute_hash_def prev_of_def split: if_splits)
  show "anchor_bytes (prev_of g us) (ae_key x) (ae_payload x) \<in> walked g (us @ x # vs)"
    by (induction us arbitrary: g) (auto simp: prev_of_def)
qed

lemma two_orders:
  assumes "verify_entries sha g es" and "verify_entries sha g fs" and "set es = set fs"
    and "distinct (map ae_key es)" and "distinct (map ae_key fs)"
    and "walked g es \<union> walked g fs \<subseteq> A"
    and "g = genesis \<or> (\<exists>h k p. anchor_bytes h k p \<in> A \<and> sha (anchor_bytes h k p) = g \<and> k \<notin> ae_key ` set es)"
  shows "es = fs \<or> forgery sha A"
  using assms
proof (induction es arbitrary: g fs)
  case Nil
  then show ?case by simp
next
  case (Cons e es)
  then obtain f fs' where fs: "fs = f # fs'" by (cases fs) auto
  have e: "anchor_bytes g (ae_key e) (ae_payload e) \<in> A"
    "ae_entry_hash e = sha (anchor_bytes g (ae_key e) (ae_payload e))"
    using Cons.prems(1,6) by (auto simp: Let_def StateAnchor_compute_hash_def split: if_splits)
  have f: "anchor_bytes g (ae_key f) (ae_payload f) \<in> A"
    "ae_entry_hash f = sha (anchor_bytes g (ae_key f) (ae_payload f))"
    using Cons.prems(2,6) by (auto simp: fs Let_def StateAnchor_compute_hash_def split: if_splits)
  show ?case
  proof (cases "f = e")
    case True
    have "es = fs' \<or> forgery sha A"
    proof (rule Cons.IH)
      show "verify_entries sha (ae_entry_hash e) es" "verify_entries sha (ae_entry_hash e) fs'"
        using Cons.prems(1,2) True by (auto simp: fs Let_def split: if_splits)
      have "e \<notin> set es" "e \<notin> set fs'" using Cons.prems(4,5) True by (auto simp: fs)
      then show "set es = set fs'" using Cons.prems(3) True by (auto simp: fs)
      show "distinct (map ae_key es)" "distinct (map ae_key fs')" using Cons.prems(4,5) by (auto simp: fs)
      show "walked (ae_entry_hash e) es \<union> walked (ae_entry_hash e) fs' \<subseteq> A"
        using Cons.prems(6) True by (auto simp: fs)
      show "ae_entry_hash e = genesis \<or> (\<exists>h k p. anchor_bytes h k p \<in> A \<and>
          sha (anchor_bytes h k p) = ae_entry_hash e \<and> k \<notin> ae_key ` set es)"
        using e Cons.prems(4) by auto
    qed
    then show ?thesis by (simp add: fs True)
  next
    case False
    then have "f \<in> set es" using Cons.prems(3) by (auto simp: fs)
    then obtain us vs where es: "es = us @ f # vs" by (auto dest: split_list)
    have split: "e # es = (e # us) @ f # vs" by (simp add: es)
    let ?p = "prev_of g (e # us)" and ?x = "last (e # us)" and ?q = "prev_of g (butlast (e # us))"
    have p: "ae_entry_hash f = sha (anchor_bytes ?p (ae_key f) (ae_payload f))"
      "anchor_bytes ?p (ae_key f) (ae_payload f) \<in> A"
      using walk_at [OF Cons.prems(1) [unfolded split]] Cons.prems(6) by (auto simp: es)
    have "e # es = butlast (e # us) @ ?x # f # vs"
      unfolding split using append_butlast_last_id [of "e # us"] by (metis append.assoc append_Cons append_Nil list.distinct(1))
    note x = walk_at [OF Cons.prems(1) [unfolded this]]
    then have x_in: "anchor_bytes ?q (ae_key ?x) (ae_payload ?x) \<in> A"
      using Cons.prems(6) \<open>e # es = butlast (e # us) @ ?x # f # vs\<close> by auto
    have "forgery sha A"
    proof (cases "?p = g")
      case False
      then have "anchor_bytes ?p (ae_key f) (ae_payload f) \<noteq> anchor_bytes g (ae_key f) (ae_payload f)"
        by (simp add: anchor_bytes_inj)
      then show ?thesis by (rule forgery_collision [rotated]) (use p f in simp_all)
    next
      case True
      then have g: "sha (anchor_bytes ?q (ae_key ?x) (ae_payload ?x)) = g"
        using x(1) by (simp add: prev_of_def)
      from Cons.prems(7) show ?thesis
      proof
        assume "g = genesis"
        with g x_in show ?thesis by (auto intro: forgery_genesis)
      next
        assume "\<exists>h k p. anchor_bytes h k p \<in> A \<and> sha (anchor_bytes h k p) = g \<and> k \<notin> ae_key ` set (e # es)"
        then obtain h k p where b: "anchor_bytes h k p \<in> A" "sha (anchor_bytes h k p) = g"
          "k \<notin> ae_key ` set (e # es)" by blast
        have "?x \<in> set (e # us)" by (rule last_in_set) simp
        then have "k \<noteq> ae_key ?x" using b(3) by (auto simp: es)
        then have "anchor_bytes h k p \<noteq> anchor_bytes ?q (ae_key ?x) (ae_payload ?x)"
          by (simp add: anchor_bytes_inj)
        then show ?thesis by (rule forgery_collision [rotated]) (use b g x_in in simp_all)
      qed
    qed
    then show ?thesis ..
  qed
qed

section \<open>Properties\<close>

lemma anchors_values:
  assumes "anchors sha es a"
  shows "set (bt_values (sa_entries a)) = set es"
    and "map ae_key (bt_values (sa_entries a)) = bt_keys (sa_entries a)"
proof -
  have get: "bt_get (sa_entries a) k = Some e \<longleftrightarrow> e \<in> set es \<and> ae_key e = k" for k e
    using assms by (simp add: anchors_def map_of_keyed)
  then show "set (bt_values (sa_entries a)) = set es" by (auto simp: set_bt_values ran_def)
  show "map ae_key (bt_values (sa_entries a)) = bt_keys (sa_entries a)"
    by (auto simp: bt_values_def bt_keys_def in_entries_iff get)
qed

text \<open>
  C10.  When does an honest anchor verify?  After appends with distinct keys, if the keys came in
  ascending order; and if they did not, only by a forgery among the byte strings its entries could
  have hashed.  So an append below an earlier key makes \<open>verify_chain\<close> report corruption.
\<close>

theorem anchor_verifies_iff_ascending:
  assumes "distinct (map fst kps)" and "a = run (append_step sha) kps StateAnchor_new"
  shows "(sorted_wrt (<) (map fst kps) \<longrightarrow> StateAnchor_verify_chain sha a = (True, a)) \<and>
    (fst (StateAnchor_verify_chain sha a) \<longrightarrow>
       sorted_wrt (<) (map fst kps) \<or> forgery sha (anchor_preimages (set (bt_values (sa_entries a)))))"
proof -
  let ?vs = "bt_values (sa_entries a)"
  obtain es where keys: "map ae_key es = map fst kps" and es: "anchors sha es a"
    using anchors_run [OF assms(1)] assms(2) by blast
  note vs = anchors_values [OF es]
  have walk: "verify_entries sha genesis es" and dist: "distinct (map ae_key es)"
    using es by (simp_all add: anchors_def)
  have ascending: "es = ?vs" if "sorted_wrt (<) (map fst kps)"
  proof -
    have "map ae_key es = map ae_key ?vs"
    proof (rule strict_sorted_equal)
      show "sorted_wrt (<) (map ae_key es)" using that keys by simp
      show "sorted_wrt (<) (map ae_key ?vs)" unfolding vs(2) by simp
      show "set (map ae_key es) = set (map ae_key ?vs)" unfolding set_map vs(1) ..
    qed
    moreover have "inj_on ae_key (set es \<union> set ?vs)" using dist by (simp only: distinct_map vs(1) Un_absorb)
    ultimately show ?thesis by (simp only: inj_on_map_eq_map)
  qed
  have same: "es = ?vs \<or> forgery sha (anchor_preimages (set ?vs))" if "verify_entries sha genesis ?vs"
  proof (rule two_orders [OF walk that])
    show "walked genesis es \<union> walked genesis ?vs \<subseteq> anchor_preimages (set ?vs)"
      using walked_preimages [of es "set ?vs" genesis] walked_preimages [of ?vs "set ?vs" genesis] vs(1)
      by (simp only: subset_refl insertI1 Un_least)
    show "distinct (map ae_key ?vs)" unfolding vs(2) by simp
  qed (simp_all only: vs(1) dist simp_thms)
  have in_order: "sorted_wrt (<) (map fst kps)" if "es = ?vs"
    using sorted_bt_keys [of "sa_entries a"] unfolding vs(2) [symmetric] that [symmetric] keys .
  show ?thesis
  proof (intro conjI impI)
    assume "sorted_wrt (<) (map fst kps)"
    then have "verify_entries sha genesis ?vs" using ascending walk by metis
    then show "StateAnchor_verify_chain sha a = (True, a)" by (simp add: StateAnchor_verify_chain_def)
  next
    assume "fst (StateAnchor_verify_chain sha a)"
    then have "verify_entries sha genesis ?vs" by (simp add: StateAnchor_verify_chain_def split: if_splits)
    then show "sorted_wrt (<) (map fst kps) \<or> forgery sha (anchor_preimages (set ?vs))"
      using same in_order by metis
  qed
qed

lemma anchor_verifies_iff_ascending_witness:
  "fst (StateAnchor_verify_chain from_be (run (append_step from_be) [(SegmentKey 0 1, [7]), (SegmentKey 2 0, [8])] StateAnchor_new))"
  using anchor_verifies_iff_ascending [OF _ refl, of "[(SegmentKey 0 1, [7]), (SegmentKey 2 0, [8])]" from_be]
  by (simp add: less_SegmentKey_def)

lemma vigil_count:
  "StateAnchor_verify_chain sha a = (True, a) \<Longrightarrow> spawn_vigil sha ticks a = a"
  by (induction ticks) simp_all

end
