(* ===== verification/Domain_Firewall.thy ===== *)
theory Domain_Firewall
  imports Ordered_Map
begin

text \<open>
  Pillar 2 and the epistemic firewall, \<open>aegis-runtime/src/domain_firewall.rs\<close>,
  \<open>aegis-runtime/src/domain_boundary.rs\<close> and the ingestion of \<open>aegis-runtime/src/genesis_ledger.rs\<close>:
  what the mutable overlay can do to the verified substrate, which is nothing.
\<close>

section \<open>The firewall\<close>

datatype OpaqueSegmentKey = OpaqueSegmentKey (ok_domain_id: u32) (ok_segment_id: u32)

instantiation OpaqueSegmentKey :: linorder
begin

definition less_eq_OpaqueSegmentKey :: "OpaqueSegmentKey \<Rightarrow> OpaqueSegmentKey \<Rightarrow> bool" where
  "k \<le> l \<longleftrightarrow> (ok_domain_id k, ok_segment_id k) \<le> (ok_domain_id l, ok_segment_id l)"

definition less_OpaqueSegmentKey :: "OpaqueSegmentKey \<Rightarrow> OpaqueSegmentKey \<Rightarrow> bool" where
  "k < l \<longleftrightarrow> (ok_domain_id k, ok_segment_id k) < (ok_domain_id l, ok_segment_id l)"

instance
  by standard (auto simp: less_eq_OpaqueSegmentKey_def less_OpaqueSegmentKey_def intro: OpaqueSegmentKey.expand)

end

record Domain0Record =
  dr_key :: OpaqueSegmentKey
  dr_payload :: bytes
  dr_integrity_hash :: hash

definition Domain0Record_hash :: "sha \<Rightarrow> OpaqueSegmentKey \<Rightarrow> bytes \<Rightarrow> hash" where
  "Domain0Record_hash sha key bs = sha (le4 (ok_domain_id key) @ le4 (ok_segment_id key) @ bs)"

definition Domain0Record_new :: "sha \<Rightarrow> OpaqueSegmentKey \<Rightarrow> bytes \<Rightarrow> Domain0Record" where
  "Domain0Record_new sha key payload =
     \<lparr>dr_key = key, dr_payload = payload, dr_integrity_hash = Domain0Record_hash sha key payload\<rparr>"

definition Domain0Record_verify :: "sha \<Rightarrow> Domain0Record \<Rightarrow> bool" where
  "Domain0Record_verify sha r \<longleftrightarrow> Domain0Record_hash sha (dr_key r) (dr_payload r) = dr_integrity_hash r"

record Domain1Overlay =
  do_entries :: "(OpaqueSegmentKey, bytes) btmap"

definition Domain1Overlay_set :: "OpaqueSegmentKey \<Rightarrow> bytes \<Rightarrow> Domain1Overlay \<Rightarrow> Domain1Overlay" where
  "Domain1Overlay_set key data o1 = o1\<lparr>do_entries := bt_insert key data (do_entries o1)\<rparr>"

definition Domain1Overlay_get :: "OpaqueSegmentKey \<Rightarrow> Domain1Overlay \<Rightarrow> bytes option" where
  "Domain1Overlay_get key o1 = bt_get (do_entries o1) key"

datatype FirewallError = IntegrityViolation OpaqueSegmentKey | NotFound OpaqueSegmentKey

record DomainFirewall =
  df_domain0 :: "(OpaqueSegmentKey, Domain0Record) btmap"
  df_domain1 :: Domain1Overlay

definition DomainFirewall_new :: DomainFirewall where
  "DomainFirewall_new = \<lparr>df_domain0 = bt_empty, df_domain1 = \<lparr>do_entries = bt_empty\<rparr>\<rparr>"

definition DomainFirewall_register ::
  "sha \<Rightarrow> Domain0Record \<Rightarrow> DomainFirewall \<Rightarrow> (FirewallError + unit) \<times> DomainFirewall" where
  "DomainFirewall_register sha rec f =
     (if \<not> Domain0Record_verify sha rec then (Inl (IntegrityViolation (dr_key rec)), f)
      else (Inr (), f\<lparr>df_domain0 := bt_or_insert (dr_key rec) rec (df_domain0 f)\<rparr>))"

definition DomainFirewall_read_domain0 ::
  "sha \<Rightarrow> OpaqueSegmentKey \<Rightarrow> DomainFirewall \<Rightarrow> FirewallError + Domain0Record" where
  "DomainFirewall_read_domain0 sha key f =
     (case bt_get (df_domain0 f) key of
        None \<Rightarrow> Inl (NotFound key)
      | Some r \<Rightarrow> if Domain0Record_verify sha r then Inr r else Inl (IntegrityViolation key))"

definition DomainFirewall_write_domain1 :: "OpaqueSegmentKey \<Rightarrow> bytes \<Rightarrow> DomainFirewall \<Rightarrow> DomainFirewall" where
  "DomainFirewall_write_domain1 key data f = f\<lparr>df_domain1 := Domain1Overlay_set key data (df_domain1 f)\<rparr>"

definition DomainFirewall_read_domain1 :: "OpaqueSegmentKey \<Rightarrow> DomainFirewall \<Rightarrow> bytes option" where
  "DomainFirewall_read_domain1 key f = Domain1Overlay_get key (df_domain1 f)"

definition DomainFirewall_verify_all_domain0 :: "sha \<Rightarrow> DomainFirewall \<Rightarrow> nat" where
  "DomainFirewall_verify_all_domain0 sha f =
     length (filter (\<lambda>r. \<not> Domain0Record_verify sha r) (bt_values (df_domain0 f)))"

section \<open>The axiomatic core\<close>

datatype AxiomKey = AxiomKey (ak_section_num: u16) (ak_node_num: u16)

instantiation AxiomKey :: linorder
begin

definition less_eq_AxiomKey :: "AxiomKey \<Rightarrow> AxiomKey \<Rightarrow> bool" where
  "k \<le> l \<longleftrightarrow> (ak_section_num k, ak_node_num k) \<le> (ak_section_num l, ak_node_num l)"

definition less_AxiomKey :: "AxiomKey \<Rightarrow> AxiomKey \<Rightarrow> bool" where
  "k < l \<longleftrightarrow> (ak_section_num k, ak_node_num k) < (ak_section_num l, ak_node_num l)"

instance
  by standard (auto simp: less_eq_AxiomKey_def less_AxiomKey_def intro: AxiomKey.expand)

end

record T0Core =
  tc_raw_text_bytes :: bytes
  tc_offset_registry :: "(AxiomKey, nat \<times> nat) btmap"

definition T0Core_new :: "bytes \<Rightarrow> (AxiomKey, nat \<times> nat) btmap \<Rightarrow> T0Core" where
  "T0Core_new text offsets = \<lparr>tc_raw_text_bytes = text, tc_offset_registry = offsets\<rparr>"

text \<open>The two messages of the source are the two errors; slicing backwards panics (\<open>None\<close>).\<close>

datatype ResolveError = OffsetsExceedCore | KeyDoesNotExist

definition T0Core_resolve_reference :: "AxiomKey \<Rightarrow> T0Core \<Rightarrow> (ResolveError + bytes) option" where
  "T0Core_resolve_reference key core =
     (case bt_get (tc_offset_registry core) key of
        Some (start, stop) \<Rightarrow>
          if stop \<le> length (tc_raw_text_bytes core) then
            if start > stop then None
            else Some (Inr (take (stop - start) (drop start (tc_raw_text_bytes core))))
          else Some (Inl OffsetsExceedCore)
      | None \<Rightarrow> Some (Inl KeyDoesNotExist))"

definition T0Core_corpus_size :: "T0Core \<Rightarrow> nat" where
  "T0Core_corpus_size core = length (tc_raw_text_bytes core)"

section \<open>The genesis ledger\<close>

definition GENESIS_SEAL :: hash where
  "GENESIS_SEAL = 0x1a2b3c4d5e6f7a8b9c0d1e2f3a4b5c6d7e8f9a0b1c2d3e4f5a6b7c8d9e0f1a2b"

record T0Ledger =
  tl_raw_payload :: bytes

datatype IngestError = VerificationFailed

definition IngestionEngine_ingest :: "sha \<Rightarrow> bytes \<Rightarrow> IngestError + T0Ledger" where
  "IngestionEngine_ingest sha source_bytes =
     (let computed_seal = sha source_bytes
      in if computed_seal \<noteq> GENESIS_SEAL then Inl VerificationFailed
         else Inr \<lparr>tl_raw_payload = source_bytes\<rparr>)"

section \<open>The firewall as a machine\<close>

datatype FirewallOp = RegisterRecord Domain0Record | WriteDomain1 OpaqueSegmentKey bytes

fun firewall_step :: "sha \<Rightarrow> FirewallOp \<Rightarrow> DomainFirewall \<Rightarrow> DomainFirewall" where
  "firewall_step sha (RegisterRecord r) f = snd (DomainFirewall_register sha r f)"
| "firewall_step sha (WriteDomain1 k d) f = DomainFirewall_write_domain1 k d f"

definition substrate_ok :: "sha \<Rightarrow> DomainFirewall \<Rightarrow> bool" where
  "substrate_ok sha f \<longleftrightarrow>
     (\<forall>k r. bt_get (df_domain0 f) k = Some r \<longrightarrow> Domain0Record_verify sha r \<and> dr_key r = k)"

interpretation firewall_machine: invariant_machine "firewall_step sha" "substrate_ok sha" for sha
proof
  fix f op assume "substrate_ok sha f"
  then show "substrate_ok sha (firewall_step sha op f)"
    by (cases op) (auto simp: substrate_ok_def DomainFirewall_register_def DomainFirewall_write_domain1_def
        split: if_splits)
qed

abbreviation is_write :: "FirewallOp \<Rightarrow> bool" where
  "is_write op \<equiv> (case op of WriteDomain1 _ _ \<Rightarrow> True | RegisterRecord _ \<Rightarrow> False)"

text \<open>Neither side sees the other's operations.\<close>

interpretation substrate_view: purged_view "firewall_step sha" df_domain0 "\<lambda>op. \<not> is_write op" for sha
  by unfold_locales
    (auto simp: DomainFirewall_register_def DomainFirewall_write_domain1_def split: FirewallOp.splits)

interpretation overlay_view: purged_view "firewall_step sha" df_domain1 is_write for sha
  by unfold_locales
    (auto simp: DomainFirewall_register_def DomainFirewall_write_domain1_def split: FirewallOp.splits)

section \<open>Properties\<close>

text \<open>
  Isolation: after any registrations and overlay writes, what domain 0 answers is what it would
  answer without the writes, what domain 1 answers is what it would answer without the registrations,
  every record of domain 0 verifies, and so no read of it finds an integrity violation.
\<close>

theorem firewall_isolates_domains:
  "let f = run (firewall_step sha) ops DomainFirewall_new
   in DomainFirewall_read_domain0 sha k f =
        DomainFirewall_read_domain0 sha k (run (firewall_step sha) (filter (\<lambda>op. \<not> is_write op) ops) DomainFirewall_new) \<and>
      DomainFirewall_read_domain1 k f =
        DomainFirewall_read_domain1 k (run (firewall_step sha) (filter is_write ops) DomainFirewall_new) \<and>
      DomainFirewall_verify_all_domain0 sha f = 0 \<and>
      DomainFirewall_read_domain0 sha k f \<noteq> Inl (IntegrityViolation k)"
proof -
  let ?f = "run (firewall_step sha) ops DomainFirewall_new"
  have ok: "substrate_ok sha ?f"
    by (rule firewall_machine.run_inv) (simp add: substrate_ok_def DomainFirewall_new_def)
  have "DomainFirewall_read_domain0 sha k ?f =
        DomainFirewall_read_domain0 sha k (run (firewall_step sha) (filter (\<lambda>op. \<not> is_write op) ops) DomainFirewall_new)"
    using substrate_view.view_purge [OF refl, of sha ops DomainFirewall_new]
    unfolding DomainFirewall_read_domain0_def by (simp only:)
  moreover have "DomainFirewall_read_domain1 k ?f =
        DomainFirewall_read_domain1 k (run (firewall_step sha) (filter is_write ops) DomainFirewall_new)"
    using overlay_view.view_purge [OF refl, of sha ops DomainFirewall_new]
    unfolding DomainFirewall_read_domain1_def by (simp only:)
  moreover have "DomainFirewall_verify_all_domain0 sha ?f = 0"
    using ok by (auto simp: DomainFirewall_verify_all_domain0_def filter_empty_conv set_bt_values ran_def
        substrate_ok_def)
  moreover have "DomainFirewall_read_domain0 sha k ?f \<noteq> Inl (IntegrityViolation k)"
    using ok by (auto simp: DomainFirewall_read_domain0_def substrate_ok_def split: option.split)
  ultimately show ?thesis by (simp only: Let_def simp_thms)
qed

end
