(* ===== verification/Semantic_Graph.thy ===== *)
theory Semantic_Graph
  imports Ordered_Map
begin

text \<open>
  Pillar 4, \<open>aegis-runtime/src/semantic_graph.rs\<close>: the graph of semantic states and its traversal.
  The breadth-first search ends on every graph, cyclic or not, and lists exactly the nodes within the
  depth given, each once, nearest first.
\<close>

section \<open>The graph\<close>

datatype RelationType = DependsOn | ComposedOf | DerivedFrom | ObservedBy | GovernedBy

fun RelationType_as_u8 :: "RelationType \<Rightarrow> u8" where
  "RelationType_as_u8 DependsOn = 0"
| "RelationType_as_u8 ComposedOf = 1"
| "RelationType_as_u8 DerivedFrom = 2"
| "RelationType_as_u8 ObservedBy = 3"
| "RelationType_as_u8 GovernedBy = 4"

record EdgeRecord =
  er_from :: u64
  er_to :: u64
  er_relation :: RelationType
  er_weight :: u16

record SemanticNode =
  sn_id :: u64
  sn_label :: bytes
  sn_depth :: u32

definition SemanticNode_new :: "u64 \<Rightarrow> bytes \<Rightarrow> u32 \<Rightarrow> SemanticNode" where
  "SemanticNode_new nid label depth =
     (let len = min (length label) 32;
          lbl = take len label @ replicate (32 - len) 0
      in \<lparr>sn_id = nid, sn_label = lbl, sn_depth = depth\<rparr>)"

record SemanticGraph =
  sg_nodes :: "(u64, SemanticNode) btmap"
  sg_edges :: "(u64, EdgeRecord list) btmap"
  sg_next_id :: u64

datatype GraphError = NodeNotFound u64

definition SemanticGraph_new :: SemanticGraph where
  "SemanticGraph_new = \<lparr>sg_nodes = bt_empty, sg_edges = bt_empty, sg_next_id = 1\<rparr>"

definition SemanticGraph_add_node :: "bytes \<Rightarrow> u32 \<Rightarrow> SemanticGraph \<Rightarrow> u64 \<times> SemanticGraph" where
  "SemanticGraph_add_node label depth g =
     (let nid = sg_next_id g
      in (nid, g\<lparr>sg_next_id := nid + 1,
                 sg_nodes := bt_insert nid (SemanticNode_new nid label depth) (sg_nodes g)\<rparr>))"

definition SemanticGraph_add_edge ::
  "u64 \<Rightarrow> u64 \<Rightarrow> RelationType \<Rightarrow> u16 \<Rightarrow> SemanticGraph \<Rightarrow> (GraphError + unit) \<times> SemanticGraph" where
  "SemanticGraph_add_edge src dst relation weight g =
     (if \<not> bt_has (sg_nodes g) src then (Inl (NodeNotFound src), g)
      else if \<not> bt_has (sg_nodes g) dst then (Inl (NodeNotFound dst), g)
      else (Inr (),
        g\<lparr>sg_edges := bt_insert src
            (bt_get_or [] (sg_edges g) src @
              [\<lparr>er_from = src, er_to = dst, er_relation = relation, er_weight = weight\<rparr>]) (sg_edges g)\<rparr>))"

definition SemanticGraph_node_count :: "SemanticGraph \<Rightarrow> nat" where
  "SemanticGraph_node_count g = bt_len (sg_nodes g)"

definition SemanticGraph_edge_count :: "SemanticGraph \<Rightarrow> nat" where
  "SemanticGraph_edge_count g = sum_list (map length (bt_values (sg_edges g)))"

definition SemanticGraph_get_node :: "u64 \<Rightarrow> SemanticGraph \<Rightarrow> SemanticNode option" where
  "SemanticGraph_get_node nid g = bt_get (sg_nodes g) nid"

definition SemanticGraph_fingerprint :: "sha \<Rightarrow> SemanticGraph \<Rightarrow> hash" where
  "SemanticGraph_fingerprint sha g =
     sha (concat (map (\<lambda>(nid, node). le8 nid @ sn_label node @ le4 (sn_depth node)) (entries (sg_nodes g))) @
          concat (map (\<lambda>(from_id, edges). le8 from_id @
            concat (map (\<lambda>e. le8 (er_to e) @ [RelationType_as_u8 (er_relation e)] @ le2 (er_weight e)) edges))
            (entries (sg_edges g))))"

section \<open>The traversal\<close>

definition targets :: "(u64, EdgeRecord list) btmap \<Rightarrow> u64 set" where
  "targets edges = (\<Union>es \<in> ran (bt_get edges). er_to ` set es)"

lemma finite_targets [simp]: "finite (targets edges)"
  by (simp add: targets_def flip: set_bt_values)

lemma targets_out: "er_to ` set (bt_get_or [] edges u) \<subseteq> targets edges"
  by (cases "bt_get edges u") (auto simp: targets_def bt_get_or_def ran_def)

abbreviation unvisited :: "(u64, EdgeRecord list) btmap \<Rightarrow> (u64, bool) btmap \<Rightarrow> (u64 \<times> u32) list \<Rightarrow> u64 set" where
  "unvisited edges visited queue \<equiv> (targets edges \<union> fst ` set queue) - dom (bt_get visited)"

text \<open>
  The loop over the queue.  It ends because each turn either visits one of the finitely many nodes
  that are queued or are the target of an edge, or leaves them all and shortens the queue.
\<close>

function bfs ::
  "(u64, EdgeRecord list) btmap \<Rightarrow> u32 \<Rightarrow> (u64, bool) btmap \<Rightarrow> (u64 \<times> u32) list \<Rightarrow> u64 list \<Rightarrow> u64 list" where
  "bfs edges max_depth visited [] result = result"
| "bfs edges max_depth visited ((nid, depth) # queue) result =
     (if bt_has visited nid \<or> depth > max_depth then bfs edges max_depth visited queue result
      else bfs edges max_depth (bt_insert nid True visited)
             (queue @ map (\<lambda>edge. (er_to edge, depth + 1)) (bt_get_or [] edges nid)) (result @ [nid]))"
  by pat_completeness auto

termination
proof (relation "measures [\<lambda>(edges, md, visited, queue, r). card (unvisited edges visited queue),
    \<lambda>(edges, md, visited, queue, r). length queue]", goal_cases)
  case 1
  show ?case by simp
next
  case (2 edges md visited nid depth queue result)
  have "card (unvisited edges visited queue) \<le> card (unvisited edges visited ((nid, depth) # queue))"
    by (intro card_mono) auto
  then show ?case by (simp add: le_less)
next
  case (3 edges md visited nid depth queue result)
  have "nid \<in> unvisited edges visited ((nid, depth) # queue)" using 3 by (auto simp: bt_has_def)
  moreover have "unvisited edges (bt_insert nid True visited)
      (queue @ map (\<lambda>edge. (er_to edge, depth + 1)) (bt_get_or [] edges nid))
      \<subseteq> unvisited edges visited ((nid, depth) # queue) - {nid}"
    using targets_out [of edges nid] by (auto simp: image_image)
  ultimately have "card (unvisited edges (bt_insert nid True visited)
      (queue @ map (\<lambda>edge. (er_to edge, depth + 1)) (bt_get_or [] edges nid)))
      < card (unvisited edges visited ((nid, depth) # queue))"
    by (intro psubset_card_mono) auto
  then show ?case by (simp add: le_less)
qed

definition SemanticGraph_traverse_bfs :: "u64 \<Rightarrow> u32 \<Rightarrow> SemanticGraph \<Rightarrow> u64 list" where
  "SemanticGraph_traverse_bfs root max_depth g = bfs (sg_edges g) max_depth bt_empty [(root, 0)] []"

section \<open>Breadth first\<close>

definition edge_rel :: "(u64, EdgeRecord list) btmap \<Rightarrow> (u64 \<times> u64) set" where
  "edge_rel edges = {(u, v). v \<in> er_to ` set (bt_get_or [] edges u)}"

text \<open>
  What the loop keeps, with the depth \<open>D u\<close> at which each node was listed: listed nodes and queued
  ones are at the end of paths of their depth; an edge out of a listed node leads to one listed no
  deeper than the next level, or is queued for it, or is below the bound; the queue is sorted, spans
  two levels, and is at or below all that is listed.
\<close>

definition bfs_inv ::
  "(u64 \<times> u64) set \<Rightarrow> nat \<Rightarrow> u64 \<Rightarrow> (u64 \<times> nat) list \<Rightarrow> u64 list \<Rightarrow> (u64 \<Rightarrow> nat) \<Rightarrow> bool" where
  "bfs_inv E md root Q R D \<longleftrightarrow>
     distinct R \<and> sorted (map D R) \<and>
     (\<forall>u \<in> set R. D u \<le> md \<and> (root, u) \<in> E ^^ D u) \<and>
     (\<forall>x d. (x, d) \<in> set Q \<longrightarrow> (root, x) \<in> E ^^ d) \<and>
     (\<forall>u \<in> set R. \<forall>x. (u, x) \<in> E \<longrightarrow>
        x \<in> set R \<and> D x \<le> Suc (D u) \<or> (x, Suc (D u)) \<in> set Q \<or> md < Suc (D u)) \<and>
     sorted (map snd Q) \<and>
     (\<forall>u \<in> set R. \<forall>x d. (x, d) \<in> set Q \<longrightarrow> D u \<le> d) \<and>
     (\<forall>x d y d'. (x, d) \<in> set Q \<longrightarrow> (y, d') \<in> set Q \<longrightarrow> d' \<le> Suc d) \<and>
     (root \<in> set R \<and> D root = 0 \<or> (root, 0) \<in> set Q)"

lemma bfs_inv_start: "bfs_inv E md root [(root, 0)] [] D"
  by (simp add: bfs_inv_def)

lemma bfs_inv_skip:
  assumes "bfs_inv E md root ((w, d) # Q) R D" and "w \<in> set R \<or> md < d"
  shows "bfs_inv E md root Q R D"
proof -
  have "x \<in> set R \<and> D x \<le> Suc (D u) \<or> (x, Suc (D u)) \<in> set Q \<or> md < Suc (D u)"
    if "u \<in> set R" "(u, x) \<in> E" for u x
  proof -
    have "x \<in> set R \<and> D x \<le> Suc (D u) \<or> (x, Suc (D u)) \<in> set ((w, d) # Q) \<or> md < Suc (D u)"
      using assms(1) that by (simp add: bfs_inv_def)
    moreover have "D w \<le> d" if "w \<in> set R" using assms(1) that by (simp add: bfs_inv_def)
    ultimately show ?thesis using assms(2) by auto
  qed
  moreover have "root \<in> set R \<and> D root = 0 \<or> (root, 0) \<in> set Q"
    using assms by (auto simp: bfs_inv_def)
  moreover have "distinct R" "sorted (map D R)" "sorted (map snd Q)"
    "\<And>u. u \<in> set R \<Longrightarrow> D u \<le> md \<and> (root, u) \<in> E ^^ D u"
    "\<And>x d. (x, d) \<in> set Q \<Longrightarrow> (root, x) \<in> E ^^ d"
    "\<And>u x d. u \<in> set R \<Longrightarrow> (x, d) \<in> set Q \<Longrightarrow> D u \<le> d"
    "\<And>x d y d'. (x, d) \<in> set Q \<Longrightarrow> (y, d') \<in> set Q \<Longrightarrow> d' \<le> Suc d"
    using assms(1) by (simp_all add: bfs_inv_def)
  ultimately show ?thesis unfolding bfs_inv_def by blast
qed

lemma bfs_inv_visit:
  assumes inv: "bfs_inv E md root ((w, d) # Q) R D" and w: "w \<notin> set R" and d: "d \<le> md"
    and out: "set out = {x. (w, x) \<in> E}"
  shows "bfs_inv E md root (Q @ map (\<lambda>x. (x, Suc d)) out) (R @ [w]) (D(w := d))"
proof -
  let ?D = "D(w := d)" and ?Q = "Q @ map (\<lambda>x. (x, Suc d)) out"
  have D: "?D u = D u" if "u \<in> set R" for u using w that by auto
  have map: "map ?D R = map D R" using D by simp
  have low: "D u \<le> d" if "u \<in> set R" for u using inv that by (simp add: bfs_inv_def)
  have Q: "d \<le> d' \<and> d' \<le> Suc d \<and> (root, x) \<in> E ^^ d'" if "(x, d') \<in> set Q" for x d'
    using inv that by (force simp: bfs_inv_def)
  have Qs: "sorted (map snd Q)" using inv by (simp add: bfs_inv_def)
  have path: "(root, w) \<in> E ^^ d" using inv by (simp add: bfs_inv_def)
  have edge: "x \<in> set (R @ [w]) \<and> ?D x \<le> Suc (?D u) \<or> (x, Suc (?D u)) \<in> set ?Q \<or> md < Suc (?D u)"
    if "u \<in> set (R @ [w])" "(u, x) \<in> E" for u x
  proof (cases "u = w")
    case True
    then show ?thesis using that(2) out by auto
  next
    case False
    then have u: "u \<in> set R" using that(1) by simp
    then have "x \<in> set R \<and> D x \<le> Suc (D u) \<or> (x, Suc (D u)) \<in> set ((w, d) # Q) \<or> md < Suc (D u)"
      using inv that(2) by (simp add: bfs_inv_def)
    then show ?thesis using D u w by auto
  qed
  show ?thesis
    unfolding bfs_inv_def
  proof (intro conjI)
    show "distinct (R @ [w])" using inv w by (simp add: bfs_inv_def)
    show "sorted (map ?D (R @ [w]))"
      using inv low unfolding map_append map by (auto simp: bfs_inv_def sorted_append)
    show "\<forall>u \<in> set (R @ [w]). ?D u \<le> md \<and> (root, u) \<in> E ^^ ?D u"
      using inv D d path by (simp add: bfs_inv_def)
    show "\<forall>x d. (x, d) \<in> set ?Q \<longrightarrow> (root, x) \<in> E ^^ d"
      using Q path out by (auto intro: relpow_Suc_I)
    show "\<forall>u \<in> set (R @ [w]). \<forall>x. (u, x) \<in> E \<longrightarrow>
        x \<in> set (R @ [w]) \<and> ?D x \<le> Suc (?D u) \<or> (x, Suc (?D u)) \<in> set ?Q \<or> md < Suc (?D u)"
      using edge by blast
    show "sorted (map snd ?Q)"
      using Qs Q by (auto simp: sorted_append comp_def map_replicate_const)
    have "d \<le> d'" "d' \<le> Suc d" if "(x, d') \<in> set ?Q" for x d' using that Q by auto
    moreover have "?D u \<le> d" if "u \<in> set (R @ [w])" for u using that low D by auto
    ultimately show "\<forall>u \<in> set (R @ [w]). \<forall>x d. (x, d) \<in> set ?Q \<longrightarrow> ?D u \<le> d"
      "\<forall>x d y d'. (x, d) \<in> set ?Q \<longrightarrow> (y, d') \<in> set ?Q \<longrightarrow> d' \<le> Suc d"
      by (meson le_trans Suc_le_mono)+
    show "root \<in> set (R @ [w]) \<and> ?D root = 0 \<or> (root, 0) \<in> set ?Q"
      using inv w by (auto simp: bfs_inv_def)
  qed
qed

lemma bfs_inv_end:
  assumes "bfs_inv E md root [] R D" and "(root, v) \<in> E ^^ k" and "k \<le> md"
  shows "v \<in> set R \<and> D v \<le> k"
  using assms(2,3)
proof (induction k arbitrary: v)
  case 0
  then show ?case using assms(1) by (simp add: bfs_inv_def)
next
  case (Suc k)
  then obtain u where u: "(root, u) \<in> E ^^ k" "(u, v) \<in> E" by auto
  with Suc have "u \<in> set R \<and> D u \<le> k" by simp
  then show ?case using assms(1) u(2) Suc.prems(2) by (fastforce simp: bfs_inv_def)
qed

text \<open>The loop, once it has run: a list of levels with nothing left to do.\<close>

lemma bfs_ends:
  assumes "bfs_inv (edge_rel edges) (unat md) root (map (\<lambda>(x, d). (x, unat d)) queue) result D"
    and "\<And>u. bt_has visited u \<longleftrightarrow> u \<in> set result" and "md < - 1"
  shows "\<exists>D. bfs_inv (edge_rel edges) (unat md) root [] (bfs edges md visited queue result) D"
  using assms
proof (induction edges md visited queue result arbitrary: D rule: bfs.induct)
  case (1 edges md visited result)
  then show ?case by auto
next
  case (2 edges md visited nid depth queue result)
  show ?case
  proof (cases "bt_has visited nid \<or> depth > md")
    case True
    have "bfs_inv (edge_rel edges) (unat md) root ((nid, unat depth) # map (\<lambda>(x, d). (x, unat d)) queue) result D"
      using 2(3) by simp
    moreover have "nid \<in> set result \<or> unat md < unat depth"
      using True 2(4) by (simp add: word_less_nat_alt)
    ultimately have "bfs_inv (edge_rel edges) (unat md) root (map (\<lambda>(x, d). (x, unat d)) queue) result D"
      by (rule bfs_inv_skip)
    from 2(1) [OF True this 2(4,5)] True show ?thesis by simp
  next
    case False
    let ?out = "map er_to (bt_get_or [] edges nid)"
    let ?queue = "queue @ map (\<lambda>edge. (er_to edge, depth + 1)) (bt_get_or [] edges nid)"
    have "unat (depth + 1) = Suc (unat depth)"
      using False 2(5) by (intro unat_inc_max) auto
    then have queue: "map (\<lambda>(x, d). (x, unat d)) ?queue =
        map (\<lambda>(x, d). (x, unat d)) queue @ map (\<lambda>x. (x, Suc (unat depth))) ?out"
      by simp
    have "bfs_inv (edge_rel edges) (unat md) root (map (\<lambda>(x, d). (x, unat d)) ?queue) (result @ [nid]) (D(nid := unat depth))"
      unfolding queue
    proof (rule bfs_inv_visit)
      show "bfs_inv (edge_rel edges) (unat md) root ((nid, unat depth) # map (\<lambda>(x, d). (x, unat d)) queue) result D"
        using 2(3) by simp
      show "nid \<notin> set result" using False 2(4) by simp
      show "unat depth \<le> unat md" using False by (simp add: word_less_nat_alt)
      show "set ?out = {x. (nid, x) \<in> edge_rel edges}" by (simp add: edge_rel_def)
    qed
    moreover have "\<And>u. bt_has (bt_insert nid True visited) u \<longleftrightarrow> u \<in> set (result @ [nid])"
      using 2(4) by auto
    ultimately have "\<exists>D. bfs_inv (edge_rel edges) (unat md) root []
        (bfs edges md (bt_insert nid True visited) ?queue (result @ [nid])) D"
      by (rule 2(2) [OF False _ _ 2(5)])
    then show ?thesis using False by simp
  qed
qed

definition distance :: "(u64 \<times> u64) set \<Rightarrow> u64 \<Rightarrow> u64 \<Rightarrow> nat" where
  "distance E root v = (LEAST k. (root, v) \<in> E ^^ k)"

lemma bfs_distance:
  assumes "bfs_inv E md root [] R D" and "v \<in> set R"
  shows "D v = distance E root v"
proof -
  have D: "(root, v) \<in> E ^^ D v" "D v \<le> md" using assms by (simp_all add: bfs_inv_def)
  have "D v \<le> k" if "(root, v) \<in> E ^^ k" for k
    using bfs_inv_end [OF assms(1) that] D(2) by (cases "k \<le> md") auto
  then show ?thesis using D(1) unfolding distance_def by (intro Least_equality [symmetric])
qed

section \<open>Graphs the operations build\<close>

datatype GraphOp = AddNode bytes u32 | AddEdge u64 u64 RelationType u16

fun graph_step :: "GraphOp \<Rightarrow> SemanticGraph \<Rightarrow> SemanticGraph" where
  "graph_step (AddNode label depth) g = snd (SemanticGraph_add_node label depth g)"
| "graph_step (AddEdge src dst r w) g = snd (SemanticGraph_add_edge src dst r w g)"

definition graph_ok :: "SemanticGraph \<Rightarrow> bool" where
  "graph_ok g \<longleftrightarrow> (\<forall>(u, v) \<in> edge_rel (sg_edges g). bt_has (sg_nodes g) u \<and> bt_has (sg_nodes g) v)"

lemma edge_rel_insert:
  "edge_rel (bt_insert u (bt_get_or [] es u @ [e]) es) = insert (u, er_to e) (edge_rel es)"
  by (auto simp: edge_rel_def split: if_splits)

interpretation graph_machine: invariant_machine graph_step graph_ok
proof
  fix g op assume "graph_ok g"
  then show "graph_ok (graph_step op g)"
    by (cases op) (auto simp: graph_ok_def edge_rel_insert SemanticGraph_add_node_def SemanticGraph_add_edge_def
        Let_def)
qed

lemma graph_ok_new [simp]: "graph_ok SemanticGraph_new"
  by (simp add: graph_ok_def edge_rel_def SemanticGraph_new_def)

lemma graph_ok_path:
  assumes "graph_ok g" and "bt_has (sg_nodes g) u"
  shows "(u, v) \<in> edge_rel (sg_edges g) ^^ k \<Longrightarrow> bt_has (sg_nodes g) v"
proof (induction k arbitrary: v)
  case 0
  then show ?case using assms(2) by simp
next
  case (Suc k)
  then obtain w where "(w, v) \<in> edge_rel (sg_edges g)" by (blast elim: relpow_Suc_E)
  then show ?case using assms(1) by (auto simp: graph_ok_def)
qed

section \<open>Properties\<close>

text \<open>
  C11.  The traversal, on any graph and for any bound below the top of \<open>u32\<close>, ends with each node
  within \<open>max_depth\<close> edges of the root, once, in order of distance; on a graph the operations built,
  from one of its nodes, it lists nodes of the graph only.
\<close>

theorem traverse_bfs_correct:
  assumes "max_depth < - 1"
  shows "distinct (SemanticGraph_traverse_bfs root max_depth g) \<and>
    set (SemanticGraph_traverse_bfs root max_depth g) =
      {v. \<exists>k \<le> unat max_depth. (root, v) \<in> edge_rel (sg_edges g) ^^ k} \<and>
    sorted (map (distance (edge_rel (sg_edges g)) root) (SemanticGraph_traverse_bfs root max_depth g)) \<and>
    (g = run graph_step ops SemanticGraph_new \<and> bt_has (sg_nodes g) root \<longrightarrow>
       set (SemanticGraph_traverse_bfs root max_depth g) \<subseteq> dom (bt_get (sg_nodes g)))"
proof -
  let ?E = "edge_rel (sg_edges g)" and ?R = "SemanticGraph_traverse_bfs root max_depth g"
  obtain D where inv: "bfs_inv ?E (unat max_depth) root [] ?R D"
    using bfs_ends [of "sg_edges g" max_depth root "[(root, 0)]" "[]" _ bt_empty] bfs_inv_start assms
    by (auto simp: SemanticGraph_traverse_bfs_def)
  then have R: "distinct ?R" "sorted (map D ?R)" "\<And>v. v \<in> set ?R \<Longrightarrow> D v \<le> unat max_depth \<and> (root, v) \<in> ?E ^^ D v"
    by (simp_all add: bfs_inv_def)
  have eq: "set ?R = {v. \<exists>k \<le> unat max_depth. (root, v) \<in> ?E ^^ k}"
    using R(3) bfs_inv_end [OF inv] by blast
  have "map D ?R = map (distance ?E root) ?R" by (rule map_cong [OF refl bfs_distance [OF inv]])
  then have "sorted (map (distance ?E root) ?R)" using R(2) by (simp only:)
  moreover have "set ?R \<subseteq> dom (bt_get (sg_nodes g))" if "graph_ok g" "bt_has (sg_nodes g) root"
    using graph_ok_path [OF that] unfolding eq by (auto simp: bt_has_def)
  moreover have "graph_ok (run graph_step ops SemanticGraph_new)"
    by (rule graph_machine.run_inv) simp
  ultimately show ?thesis using R(1) eq by blast
qed

lemma traverse_bfs_correct_witness:
  "let g = run graph_step [AddNode [] 0, AddNode [] 1, AddEdge 1 2 DependsOn 5, AddEdge 2 1 DependsOn 5] SemanticGraph_new
   in distinct (SemanticGraph_traverse_bfs 1 7 g) \<and> set (SemanticGraph_traverse_bfs 1 7 g) \<subseteq> dom (bt_get (sg_nodes g))"
proof -
  let ?g = "run graph_step [AddNode [] 0, AddNode [] 1, AddEdge 1 2 DependsOn 5, AddEdge 2 1 DependsOn 5] SemanticGraph_new"
  have "bt_has (sg_nodes ?g) 1"
    by (simp add: SemanticGraph_add_node_def SemanticGraph_add_edge_def SemanticGraph_new_def Let_def)
  moreover have "(7 :: u32) < - 1" by (simp add: word_less_nat_alt unat_max_word)
  ultimately show ?thesis
    using traverse_bfs_correct [of 7 1 ?g] unfolding Let_def by blast
qed

end
