(* ===== verification/Semantic_Algebra.thy ===== *)
theory Semantic_Algebra
  imports Domain_Firewall
begin

text \<open>
  The fractal arena, \<open>aegis-runtime/src/semantic_algebra.rs\<close>: nodes and edges in two flat arrays,
  traversed with a stack of 16 and a ring of 32 slots, and the builder that fills them.  The traversal
  with the stack is a partial function, as the source guards against no cycle: it is proved to return
  the leaves of every arena whose edges ascend and whose need of stack is at most 16, and not to
  return at all from a node that is its own child.
\<close>

section \<open>The arena\<close>

datatype MorphOperator = BaseForm | Intensive | Passive | Causative | Reflexive | Reciprocal

fun MorphOperator_arity :: "MorphOperator \<Rightarrow> u8" where
  "MorphOperator_arity BaseForm = 3"
| "MorphOperator_arity Intensive = 2"
| "MorphOperator_arity Passive = 1"
| "MorphOperator_arity Causative = 2"
| "MorphOperator_arity Reflexive = 1"
| "MorphOperator_arity Reciprocal = 2"

datatype NodeType = Root "u8 \<times> u8 \<times> u8" | DerivedWord MorphOperator | DataLeaf AxiomKey

record ArenaNode =
  an_node_type :: NodeType
  an_edge_start :: u32
  an_edge_count :: u16

record FractalArena =
  fa_nodes :: "ArenaNode list"
  fa_edges :: "u32 list"

definition FractalArena_get_node :: "FractalArena \<Rightarrow> u32 \<Rightarrow> ArenaNode option" where
  "FractalArena_get_node A index =
     (if unat index < length (fa_nodes A) then Some (fa_nodes A ! unat index) else None)"

text \<open>The edges a node refers to; none if their end is beyond the array.\<close>

definition arena_children :: "FractalArena \<Rightarrow> ArenaNode \<Rightarrow> u32 list" where
  "arena_children A node =
     (let start = unat (an_edge_start node); stop = start + unat (an_edge_count node)
      in if stop \<le> length (fa_edges A) then take (stop - start) (drop start (fa_edges A)) else [])"

definition STACK_SIZE :: nat where "STACK_SIZE = 16"
definition QUEUE_SIZE :: nat where "QUEUE_SIZE = 32"

text \<open>The array and its pointer are the list of the pointer's elements, the top first.\<close>

definition push_child :: "u32 \<Rightarrow> u32 list \<Rightarrow> u32 list" where
  "push_child child stack = (if length stack < STACK_SIZE then child # stack else stack)"

partial_function (option) trace_loop ::
  "FractalArena \<Rightarrow> u32 list \<Rightarrow> AxiomKey list \<Rightarrow> AxiomKey list option" where
  "trace_loop A stack yield_buffer =
     (case stack of
        [] \<Rightarrow> Some yield_buffer
      | current_idx # stack \<Rightarrow>
          (case FractalArena_get_node A current_idx of
             None \<Rightarrow> trace_loop A stack yield_buffer
           | Some node \<Rightarrow>
               (case an_node_type node of
                  DataLeaf key \<Rightarrow> trace_loop A stack (yield_buffer @ [key])
                | _ \<Rightarrow> trace_loop A (fold push_child (arena_children A node) stack) yield_buffer)))"

definition FractalArena_trace_growth :: "FractalArena \<Rightarrow> u32 \<Rightarrow> AxiomKey list option" where
  "FractalArena_trace_growth A root_index = trace_loop A (push_child root_index []) []"

text \<open>The ring: its slots from head to tail; one slot stays free, so it holds 31.\<close>

definition enqueue_child :: "u32 \<Rightarrow> u32 list \<Rightarrow> u32 list" where
  "enqueue_child child queue = (if Suc (length queue) < QUEUE_SIZE then queue @ [child] else queue)"

partial_function (option) bfs_loop :: "FractalArena \<Rightarrow> u32 list \<Rightarrow> u32 list \<Rightarrow> u32 list option" where
  "bfs_loop A queue result =
     (case queue of
        [] \<Rightarrow> Some result
      | current_idx # queue \<Rightarrow>
          (case FractalArena_get_node A current_idx of
             None \<Rightarrow> bfs_loop A queue (result @ [current_idx])
           | Some node \<Rightarrow>
               bfs_loop A (fold enqueue_child (arena_children A node) queue) (result @ [current_idx])))"

definition FractalArena_bfs_traverse :: "FractalArena \<Rightarrow> u32 \<Rightarrow> u32 list option" where
  "FractalArena_bfs_traverse A root_index = bfs_loop A (enqueue_child root_index []) []"

section \<open>The builder\<close>

record ArenaBuilder =
  ab_nodes :: "ArenaNode list"
  ab_edges :: "u32 list"

definition ArenaBuilder_new :: ArenaBuilder where
  "ArenaBuilder_new = \<lparr>ab_nodes = [], ab_edges = []\<rparr>"

definition ArenaBuilder_add_root :: "u8 \<times> u8 \<times> u8 \<Rightarrow> ArenaBuilder \<Rightarrow> ArenaBuilder" where
  "ArenaBuilder_add_root root_consonants b =
     (let edge_start = of_nat (length (ab_edges b))
      in b\<lparr>ab_nodes := ab_nodes b @
            [\<lparr>an_node_type = Root root_consonants, an_edge_start = edge_start, an_edge_count = 0\<rparr>]\<rparr>)"

definition ArenaBuilder_add_derived :: "MorphOperator \<Rightarrow> ArenaBuilder \<Rightarrow> ArenaBuilder" where
  "ArenaBuilder_add_derived operator b =
     (let edge_start = of_nat (length (ab_edges b))
      in b\<lparr>ab_nodes := ab_nodes b @
            [\<lparr>an_node_type = DerivedWord operator, an_edge_start = edge_start, an_edge_count = 0\<rparr>]\<rparr>)"

definition ArenaBuilder_add_leaf :: "AxiomKey \<Rightarrow> ArenaBuilder \<Rightarrow> ArenaBuilder" where
  "ArenaBuilder_add_leaf key b =
     b\<lparr>ab_nodes := ab_nodes b @ [\<lparr>an_node_type = DataLeaf key, an_edge_start = 0, an_edge_count = 0\<rparr>]\<rparr>"

definition ArenaBuilder_connect :: "u32 \<Rightarrow> u32 \<Rightarrow> ArenaBuilder \<Rightarrow> ArenaBuilder" where
  "ArenaBuilder_connect parent_idx child_idx b =
     (let edge_pos = of_nat (length (ab_edges b));
          b = b\<lparr>ab_edges := ab_edges b @ [child_idx]\<rparr>
      in if unat parent_idx < length (ab_nodes b) then
           let parent = ab_nodes b ! unat parent_idx;
               parent = (if an_edge_count parent = 0
                 then parent\<lparr>an_edge_start := edge_pos, an_edge_count := 1\<rparr>
                 else parent\<lparr>an_edge_count := an_edge_count parent + 1\<rparr>)
           in b\<lparr>ab_nodes := (ab_nodes b)[unat parent_idx := parent]\<rparr>
         else b)"

definition ArenaBuilder_build :: "ArenaBuilder \<Rightarrow> FractalArena" where
  "ArenaBuilder_build b = \<lparr>fa_nodes = ab_nodes b, fa_edges = ab_edges b\<rparr>"

section \<open>Ascending arenas\<close>

definition ascending :: "FractalArena \<Rightarrow> bool" where
  "ascending A \<longleftrightarrow> (\<forall>i node. FractalArena_get_node A i = Some node \<longrightarrow>
     (\<forall>c \<in> set (arena_children A node). i < c))"

text \<open>The leaves below a node, in the order the stack meets them: the last child first.\<close>

function leaves :: "FractalArena \<Rightarrow> u32 \<Rightarrow> AxiomKey list" where
  "leaves A i =
     (case FractalArena_get_node A i of
        None \<Rightarrow> []
      | Some node \<Rightarrow>
          (case an_node_type node of
             DataLeaf key \<Rightarrow> [key]
           | _ \<Rightarrow> concat (map (\<lambda>c. if i < c then leaves A c else []) (rev (arena_children A node)))))"
  by auto
termination
  by (relation "measure (\<lambda>(A, i). length (fa_nodes A) - unat i)")
    (auto simp: FractalArena_get_node_def word_less_nat_alt split: if_splits)

text \<open>The stack that a list of pending nodes needs, given what each needs by itself.\<close>

fun stack_need :: "nat list \<Rightarrow> nat" where
  "stack_need [] = 0"
| "stack_need (n # ns) = max (n + length ns) (stack_need ns)"

function need :: "FractalArena \<Rightarrow> u32 \<Rightarrow> nat" where
  "need A i =
     (case FractalArena_get_node A i of
        None \<Rightarrow> 1
      | Some node \<Rightarrow>
          (case an_node_type node of
             DataLeaf key \<Rightarrow> 1
           | _ \<Rightarrow> max 1 (stack_need (map (\<lambda>c. if i < c then need A c else 1) (rev (arena_children A node))))))"
  by auto
termination
  by (relation "measure (\<lambda>(A, i). length (fa_nodes A) - unat i)")
    (auto simp: FractalArena_get_node_def word_less_nat_alt split: if_splits)

declare leaves.simps [simp del] need.simps [simp del]

abbreviation is_leaf :: "ArenaNode \<Rightarrow> bool" where
  "is_leaf node \<equiv> (\<exists>key. an_node_type node = DataLeaf key)"

lemma leaves_inner:
  assumes "ascending A" and "FractalArena_get_node A i = Some node" and "\<not> is_leaf node"
  shows "leaves A i = concat (map (leaves A) (rev (arena_children A node)))"
    and "need A i = max 1 (stack_need (map (need A) (rev (arena_children A node))))"
proof -
  have up: "i < c" if "c \<in> set (arena_children A node)" for c
    using assms(1,2) that unfolding ascending_def by blast
  have l: "map (\<lambda>c. if i < c then leaves A c else []) (rev (arena_children A node)) =
      map (leaves A) (rev (arena_children A node))" using up by auto
  have n: "map (\<lambda>c. if i < c then need A c else 1) (rev (arena_children A node)) =
      map (need A) (rev (arena_children A node))" using up by auto
  show "leaves A i = concat (map (leaves A) (rev (arena_children A node)))"
    using assms(3) by (cases "an_node_type node", subst leaves.simps)
      (simp_all only: leaves.simps [of A i] assms(2) option.case NodeType.case l, blast)
  show "need A i = max 1 (stack_need (map (need A) (rev (arena_children A node))))"
    using assms(3) by (cases "an_node_type node")
      (simp_all only: need.simps [of A i] assms(2) option.case NodeType.case n, blast)
qed

lemma leaves_end:
  "FractalArena_get_node A i = None \<Longrightarrow> leaves A i = []"
  "FractalArena_get_node A i = Some node \<Longrightarrow> an_node_type node = DataLeaf key \<Longrightarrow> leaves A i = [key]"
  by (simp_all add: leaves.simps)

lemma need_pos: "1 \<le> need A i"
  by (subst need.simps) (auto split: option.split NodeType.split)

lemma stack_need_length: "list_all (\<lambda>n. 1 \<le> n) ns \<Longrightarrow> length ns \<le> stack_need ns"
  by (induction ns) auto

lemma fold_push:
  "length st \<le> STACK_SIZE \<Longrightarrow> fold push_child cs st = rev (take (STACK_SIZE - length st) cs) @ st"
proof (induction cs arbitrary: st)
  case Nil
  then show ?case by simp
next
  case (Cons c cs)
  show ?case
  proof (cases "length st < STACK_SIZE")
    case True
    then have "STACK_SIZE - length st = Suc (STACK_SIZE - length (c # st))" by simp
    then show ?thesis using True Cons.IH [of "c # st"] by (simp add: push_child_def)
  next
    case False
    then show ?thesis using Cons.IH [of st] Cons.prems by (simp add: push_child_def)
  qed
qed

section \<open>One turn of the loop\<close>

lemma trace_loop_Nil: "trace_loop A [] out = Some out"
  by (simp add: trace_loop.simps)

lemma trace_loop_missing:
  "FractalArena_get_node A i = None \<Longrightarrow> trace_loop A (i # st) out = trace_loop A st out"
  by (subst trace_loop.simps) simp

lemma trace_loop_leaf:
  "FractalArena_get_node A i = Some node \<Longrightarrow> an_node_type node = DataLeaf key \<Longrightarrow>
   trace_loop A (i # st) out = trace_loop A st (out @ [key])"
  by (subst trace_loop.simps) simp

lemma trace_loop_inner:
  "FractalArena_get_node A i = Some node \<Longrightarrow> \<not> is_leaf node \<Longrightarrow>
   trace_loop A (i # st) out = trace_loop A (fold push_child (arena_children A node) st) out"
  by (subst trace_loop.simps) (auto split: NodeType.split)

lemmas trace_turn = trace_loop_Nil trace_loop_missing trace_loop_leaf trace_loop_inner

text \<open>A list of pending nodes, each of which is worked off.\<close>

lemma trace_pending:
  assumes "\<And>c st out. c \<in> set cs \<Longrightarrow> length st + need A c \<le> STACK_SIZE \<Longrightarrow>
      trace_loop A (c # st) out = trace_loop A st (out @ leaves A c)"
    and "length st + stack_need (map (need A) cs) \<le> STACK_SIZE"
  shows "trace_loop A (cs @ st) out = trace_loop A st (out @ concat (map (leaves A) cs))"
  using assms
proof (induction cs arbitrary: out)
  case Nil
  then show ?case by simp
next
  case (Cons c cs)
  have "trace_loop A (c # (cs @ st)) out = trace_loop A (cs @ st) (out @ leaves A c)"
    using Cons.prems(2) by (intro Cons.prems(1)) auto
  also have "\<dots> = trace_loop A st ((out @ leaves A c) @ concat (map (leaves A) cs))"
    using Cons.prems by (intro Cons.IH) auto
  finally show ?case by simp
qed

lemma trace_node:
  assumes "ascending A" and "length st + need A i \<le> STACK_SIZE"
  shows "trace_loop A (i # st) out = trace_loop A st (out @ leaves A i)"
  using assms
proof (induction A i arbitrary: st out rule: leaves.induct)
  case (1 A i)
  show ?case
  proof (cases "FractalArena_get_node A i")
    case None
    then show ?thesis by (simp add: trace_turn leaves_end)
  next
    case (Some node)
    show ?thesis
    proof (cases "is_leaf node")
      case True
      then show ?thesis using Some by (auto simp: trace_turn leaves_end)
    next
      case False
      let ?cs = "rev (arena_children A node)"
      note inner = leaves_inner [OF 1(3) Some False]
      have "length ?cs \<le> stack_need (map (need A) ?cs)"
        using stack_need_length [of "map (need A) ?cs"] need_pos by (simp add: list_all_iff)
      then have fits: "length st + stack_need (map (need A) ?cs) \<le> STACK_SIZE"
        "length st + length ?cs \<le> STACK_SIZE"
        using 1(4) inner(2) by auto
      have IH: "trace_loop A (c # st) out = trace_loop A st (out @ leaves A c)"
        if "c \<in> set ?cs" "length st + need A c \<le> STACK_SIZE" for c st out
      proof -
        have "i < c" using 1(3) Some that(1) unfolding ascending_def by auto
        with 1(1,2) Some False that 1(3) show ?thesis by (cases "an_node_type node") auto
      qed
      have "trace_loop A (i # st) out = trace_loop A (?cs @ st) out"
        using fits(2) by (simp add: trace_turn(4) [OF Some False] fold_push)
      also have "\<dots> = trace_loop A st (out @ concat (map (leaves A) ?cs))"
        by (rule trace_pending [OF IH fits(1)])
      finally show ?thesis by (simp add: inner(1))
    qed
  qed
qed

section \<open>Reachable leaves\<close>

definition child_rel :: "FractalArena \<Rightarrow> (u32 \<times> u32) set" where
  "child_rel A = {(i, c). \<exists>node. FractalArena_get_node A i = Some node \<and> \<not> is_leaf node \<and>
     c \<in> set (arena_children A node)}"

definition reaches :: "FractalArena \<Rightarrow> u32 \<Rightarrow> AxiomKey \<Rightarrow> bool" where
  "reaches A i key \<longleftrightarrow> (\<exists>j node. (i, j) \<in> (child_rel A)\<^sup>* \<and>
     FractalArena_get_node A j = Some node \<and> an_node_type node = DataLeaf key)"

lemma reaches_iff:
  "reaches A i k \<longleftrightarrow>
   (\<exists>node. FractalArena_get_node A i = Some node \<and> an_node_type node = DataLeaf k) \<or>
   (\<exists>c. (i, c) \<in> child_rel A \<and> reaches A c k)"
proof
  assume "reaches A i k"
  then obtain j node where j: "(i, j) \<in> (child_rel A)\<^sup>*" "FractalArena_get_node A j = Some node"
    "an_node_type node = DataLeaf k" unfolding reaches_def by blast
  from j(1) show "(\<exists>node. FractalArena_get_node A i = Some node \<and> an_node_type node = DataLeaf k) \<or>
   (\<exists>c. (i, c) \<in> child_rel A \<and> reaches A c k)"
  proof (cases rule: converse_rtranclE)
    case base
    then show ?thesis using j by blast
  next
    case (step c)
    then have "reaches A c k" using j unfolding reaches_def by blast
    then show ?thesis using step by blast
  qed
next
  assume "(\<exists>node. FractalArena_get_node A i = Some node \<and> an_node_type node = DataLeaf k) \<or>
   (\<exists>c. (i, c) \<in> child_rel A \<and> reaches A c k)"
  then show "reaches A i k"
    unfolding reaches_def by (blast intro: converse_rtrancl_into_rtrancl)
qed

lemma reaches_leaf:
  "FractalArena_get_node A i = Some node \<Longrightarrow> an_node_type node = DataLeaf key \<Longrightarrow> reaches A i k \<longleftrightarrow> k = key"
  by (subst reaches_iff) (auto simp: child_rel_def)

lemma reaches_inner:
  "FractalArena_get_node A i = Some node \<Longrightarrow> \<not> is_leaf node \<Longrightarrow>
   reaches A i k \<longleftrightarrow> (\<exists>c \<in> set (arena_children A node). reaches A c k)"
  by (subst reaches_iff) (auto simp: child_rel_def)

lemma reaches_missing: "FractalArena_get_node A i = None \<Longrightarrow> \<not> reaches A i k"
  by (subst reaches_iff) (auto simp: child_rel_def)

lemma set_leaves: "ascending A \<Longrightarrow> k \<in> set (leaves A i) \<longleftrightarrow> reaches A i k"
proof (induction A i rule: leaves.induct)
  case (1 A i)
  show ?case
  proof (cases "FractalArena_get_node A i")
    case None
    then show ?thesis by (simp add: leaves_end reaches_missing)
  next
    case (Some node)
    show ?thesis
    proof (cases "is_leaf node")
      case True
      then show ?thesis using Some by (auto simp: leaves_end reaches_leaf)
    next
      case False
      have "k \<in> set (leaves A c) \<longleftrightarrow> reaches A c k" if "c \<in> set (arena_children A node)" for c
      proof -
        have "i < c" using 1(3) Some that unfolding ascending_def by auto
        with 1(1,2) Some False that 1(3) show ?thesis by (cases "an_node_type node") auto
      qed
      then show ?thesis by (simp add: leaves_inner(1) [OF 1(3) Some False] reaches_inner [OF Some False])
    qed
  qed
qed

section \<open>What any run returns\<close>

lemma fold_push_set: "set (fold push_child cs st) \<subseteq> set cs \<union> set st"
  by (induction cs arbitrary: st) (fastforce simp: push_child_def split: if_splits)+

lemma trace_loop_sound:
  assumes "trace_loop A st out = Some r"
  shows "\<forall>k \<in> set r. k \<in> set out \<or> (\<exists>i \<in> set st. reaches A i k)"
proof (rule trace_loop.raw_induct [OF _ assms,
      of "\<lambda>A st out r. \<forall>k \<in> set r. k \<in> set out \<or> (\<exists>i \<in> set st. reaches A i k)"], goal_cases)
  case (1 loop A st out r)
  note IH = 1(1)
  show ?case
  proof (cases st)
    case Nil
    then show ?thesis using 1(2) by simp
  next
    case (Cons i st')
    show ?thesis
    proof (cases "FractalArena_get_node A i")
      case None
      then have "loop A st' out = Some r" using 1(2) Cons by simp
      from IH [OF this] show ?thesis using Cons by auto
    next
      case (Some node)
      show ?thesis
      proof (cases "is_leaf node")
        case True
        then obtain key where key: "an_node_type node = DataLeaf key" by blast
        then have "loop A st' (out @ [key]) = Some r" using 1(2) Cons Some by simp
        from IH [OF this] show ?thesis using Cons reaches_leaf [OF Some key] by auto
      next
        case False
        then have "loop A (fold push_child (arena_children A node) st') out = Some r"
          using 1(2) Cons Some by (cases "an_node_type node") simp_all
        from IH [OF this] show ?thesis
          using fold_push_set [of "arena_children A node" st'] reaches_inner [OF Some False]
          unfolding Cons by fastforce
      qed
    qed
  qed
qed

lemma trace_loop_diverges:
  assumes "FractalArena_get_node A i = Some node" and "\<not> is_leaf node" and "arena_children A node = [i]"
  shows "trace_loop A [i] out = None"
proof (rule ccontr)
  assume "trace_loop A [i] out \<noteq> None"
  then obtain r where r: "trace_loop A [i] out = Some r" by blast
  have "\<not> (A' = A \<and> st = [i])" if "trace_loop A' st out' = Some r'" for A' st out' r'
  proof (rule trace_loop.raw_induct [OF _ that, of "\<lambda>A' st _ _. \<not> (A' = A \<and> st = [i])"], goal_cases)
    case (1 loop A' st out' r')
    show ?case
    proof
      assume here: "A' = A \<and> st = [i]"
      then have "loop A (fold push_child (arena_children A node) []) out' = Some r'"
        using 1(2) assms(1,2) by (cases "an_node_type node") simp_all
      then have "loop A [i] out' = Some r'" by (simp add: assms(3) push_child_def STACK_SIZE_def)
      from 1(1) [OF this] show False by simp
    qed
  qed
  from this [OF r] show False by simp
qed

text \<open>A node with more than 16 children: the children past the sixteenth are dropped.\<close>

lemma trace_leaf_stack:
  "(\<And>c. c \<in> set cs \<Longrightarrow> \<exists>node. FractalArena_get_node A c = Some node \<and> an_node_type node = DataLeaf (f c)) \<Longrightarrow>
   trace_loop A cs out = Some (out @ map f cs)"
proof (induction cs arbitrary: out)
  case Nil
  then show ?case by (simp add: trace_turn)
next
  case (Cons c cs)
  obtain node where "FractalArena_get_node A c = Some node" "an_node_type node = DataLeaf (f c)"
    using Cons.prems by auto
  then show ?case using Cons.IH Cons.prems by (simp add: trace_loop_leaf)
qed

lemma trace_growth_drops_children:
  assumes "FractalArena_get_node A i = Some node" and "\<not> is_leaf node"
    and "\<And>c. c \<in> set (arena_children A node) \<Longrightarrow>
      \<exists>n. FractalArena_get_node A c = Some n \<and> an_node_type n = DataLeaf (f c)"
  shows "FractalArena_trace_growth A i = Some (map f (rev (take 16 (arena_children A node))))"
proof -
  have "trace_loop A (rev (take 16 (arena_children A node))) [] =
      Some ([] @ map f (rev (take 16 (arena_children A node))))"
    using assms(3) by (intro trace_leaf_stack) (auto dest: in_set_takeD)
  then show ?thesis
    by (simp add: FractalArena_trace_growth_def push_child_def STACK_SIZE_def trace_loop_inner [OF assms(1,2)]
        fold_push)
qed

section \<open>Properties\<close>

text \<open>
  C12.  The traversal with the bounded stack.  What it returns are leaves reachable from the root.  On
  an arena whose edges ascend, if the root needs at most 16 slots of stack, it returns, and exactly
  the reachable leaves, one for each path to them, the last child first.  From a node that is its own
  only child it never returns.
\<close>

theorem trace_growth_correct:
  "(FractalArena_trace_growth A root = Some r \<longrightarrow> (\<forall>k \<in> set r. reaches A root k)) \<and>
   (ascending A \<and> need A root \<le> 16 \<longrightarrow>
      FractalArena_trace_growth A root = Some (leaves A root) \<and>
      set (leaves A root) = {k. reaches A root k}) \<and>
   (FractalArena_get_node A root = Some node \<and> arena_children A node = [root] \<and>
      (\<forall>key. an_node_type node \<noteq> DataLeaf key) \<longrightarrow> FractalArena_trace_growth A root = None)"
proof -
  have start: "FractalArena_trace_growth A root = trace_loop A [root] []"
    by (simp add: FractalArena_trace_growth_def push_child_def STACK_SIZE_def)
  have "\<forall>k \<in> set r. reaches A root k" if "FractalArena_trace_growth A root = Some r"
    using trace_loop_sound [OF that [unfolded start]] by simp
  moreover have "FractalArena_trace_growth A root = Some (leaves A root)"
    if "ascending A" "need A root \<le> 16"
    using trace_node [OF that(1), of "[]" root "[]"] that(2) by (simp add: start trace_turn STACK_SIZE_def)
  ultimately show ?thesis using set_leaves trace_loop_diverges unfolding start by blast
qed

lemma trace_growth_correct_witness:
  "let A = \<lparr>fa_nodes = [\<lparr>an_node_type = Root (1, 2, 3), an_edge_start = 0, an_edge_count = 2\<rparr>,
                        \<lparr>an_node_type = DataLeaf (AxiomKey 1 1), an_edge_start = 0, an_edge_count = 0\<rparr>],
           fa_edges = [1, 1]\<rparr>
   in FractalArena_trace_growth A 0 = Some (leaves A 0) \<and> set (leaves A 0) = {k. reaches A 0 k}"
proof -
  let ?leaf = "\<lparr>an_node_type = DataLeaf (AxiomKey 1 1), an_edge_start = 0, an_edge_count = 0\<rparr> :: ArenaNode"
  let ?root = "\<lparr>an_node_type = Root (1, 2, 3), an_edge_start = 0, an_edge_count = 2\<rparr> :: ArenaNode"
  let ?A = "\<lparr>fa_nodes = [?root, ?leaf], fa_edges = [1, 1]\<rparr> :: FractalArena"
  have root: "FractalArena_get_node ?A 0 = Some ?root" and leaf: "FractalArena_get_node ?A 1 = Some ?leaf"
    by (simp_all add: FractalArena_get_node_def)
  have only: "i = 0 \<and> node = ?root \<or> i = 1 \<and> node = ?leaf" if "FractalArena_get_node ?A i = Some node" for i node
  proof -
    have "unat i = 0 \<or> unat i = 1" using that by (auto simp: FractalArena_get_node_def split: if_splits)
    then have "i = 0 \<or> i = 1" by (auto simp: word_unat_eq_iff)
    then show ?thesis using that root leaf by auto
  qed
  have kids: "arena_children ?A ?root = [1, 1]" "arena_children ?A ?leaf = []"
    by (simp_all add: arena_children_def)
  have up: "ascending ?A" unfolding ascending_def using only kids by fastforce
  have "need ?A 1 = 1" using leaf by (subst need.simps) simp
  then have "need ?A 0 \<le> 16" using leaves_inner(2) [OF up root] kids by simp
  with up show ?thesis using trace_growth_correct [of ?A 0] unfolding Let_def by blast
qed

text \<open>
  \<open>connect\<close> keeps a node's children as one slice from its first edge, so when the edges of two
  parents are interleaved the slice of the first takes in an edge of the second.
\<close>

lemma connect_interleaved:
  "let b = ArenaBuilder_connect 0 3 (ArenaBuilder_connect 1 2 (ArenaBuilder_connect 0 2
             (ArenaBuilder_add_leaf (AxiomKey 0 1) (ArenaBuilder_add_leaf (AxiomKey 0 0)
             (ArenaBuilder_add_derived Passive (ArenaBuilder_add_root (1, 2, 3) ArenaBuilder_new))))));
       A = ArenaBuilder_build b
   in arena_children A (fa_nodes A ! 0) = [2, 2]"
  by (simp add: ArenaBuilder_connect_def ArenaBuilder_add_leaf_def ArenaBuilder_add_derived_def
      ArenaBuilder_add_root_def ArenaBuilder_new_def ArenaBuilder_build_def arena_children_def Let_def)

end
