(* ===== verification/Acoustic_Dfa.thy ===== *)
theory Acoustic_Dfa
  imports Prelude
begin

text \<open>
  The acoustic automaton, \<open>aegis-runtime/src/acoustic_dfa.rs\<close>: the rules that give a character its
  state from the character after it and two marks, applied to a whole string and as a stream.  A
  character is its code point.
\<close>

type_synonym char_code = u32

section \<open>States and rules\<close>

datatype AcousticState =
  ClearArticulation | ConcealedResonance | MergedAssimilation | ProlongedEcho | VibratingRelease

fun AcousticState_duration_multiplier :: "AcousticState \<Rightarrow> u32" where
  "AcousticState_duration_multiplier ClearArticulation = 1"
| "AcousticState_duration_multiplier ConcealedResonance = 1"
| "AcousticState_duration_multiplier MergedAssimilation = 2"
| "AcousticState_duration_multiplier ProlongedEcho = 2"
| "AcousticState_duration_multiplier VibratingRelease = 1"

fun AcousticState_label :: "AcousticState \<Rightarrow> string" where
  "AcousticState_label ClearArticulation = ''CLEAR''"
| "AcousticState_label ConcealedResonance = ''CONCEALED''"
| "AcousticState_label MergedAssimilation = ''MERGED''"
| "AcousticState_label ProlongedEcho = ''PROLONGED''"
| "AcousticState_label VibratingRelease = ''VIBRATING''"

fun AcousticState_as_u64 :: "AcousticState \<Rightarrow> u64" where
  "AcousticState_as_u64 ClearArticulation = 0"
| "AcousticState_as_u64 ConcealedResonance = 1"
| "AcousticState_as_u64 MergedAssimilation = 2"
| "AcousticState_as_u64 ProlongedEcho = 3"
| "AcousticState_as_u64 VibratingRelease = 4"

definition AcousticAutomaton_is_guttural_letter :: "char_code \<Rightarrow> bool" where
  "AcousticAutomaton_is_guttural_letter c \<longleftrightarrow>
     c \<in> set [0x02BE, 0x68, 0x02BF, 0x1E25, 0x0639, 0x062D, 0x063A, 0x062E, 0x0621, 0x0647]"

definition AcousticAutomaton_is_plosive_letter :: "char_code \<Rightarrow> bool" where
  "AcousticAutomaton_is_plosive_letter c \<longleftrightarrow>
     c \<in> set [0x71, 0x6B, 0x74, 0x62, 0x64, 0x70, 0x0642, 0x0643, 0x0637, 0x0628, 0x062F, 0x062A]"

definition AcousticAutomaton_evaluate_transition ::
  "char_code \<Rightarrow> char_code option \<Rightarrow> bool \<Rightarrow> bool \<Rightarrow> AcousticState \<times> u32" where
  "AcousticAutomaton_evaluate_transition current_char next_char has_shadda has_prolongation =
     (if has_prolongation then (ProlongedEcho, 2)
      else
        let fallback =
              (if AcousticAutomaton_is_plosive_letter current_char \<and> next_char = None
               then (VibratingRelease, 1) else (ClearArticulation, 1))
        in case next_char of
             Some nxt \<Rightarrow>
               if current_char = 0x6E \<and> AcousticAutomaton_is_guttural_letter nxt then (ConcealedResonance, 1)
               else if current_char = nxt \<and> has_shadda then (MergedAssimilation, 2)
               else fallback
           | None \<Rightarrow> fallback)"

text \<open>\<open>get(i).copied()\<close> of a slice.\<close>

definition get_at :: "nat \<Rightarrow> 'a list \<Rightarrow> 'a option" where
  "get_at i xs = (if i < length xs then Some (xs ! i) else None)"

definition AcousticAutomaton_process_string ::
  "char_code list \<Rightarrow> bool list \<Rightarrow> bool list \<Rightarrow> (AcousticState \<times> char_code) list" where
  "AcousticAutomaton_process_string chars diacritics prolongations =
     map (\<lambda>(i, c).
       let next_char = get_at (i + 1) chars;
           has_shadda = unwrap_or False (get_at i diacritics);
           has_prolongation = unwrap_or False (get_at i prolongations);
           (state, duration) = AcousticAutomaton_evaluate_transition c next_char has_shadda has_prolongation
       in (state, c)) (List.enumerate 0 chars)"

definition fnv_mix :: "u64 \<Rightarrow> u64 \<Rightarrow> u64" where
  "fnv_mix h x = xor h x * 0x100000001b3"

definition AcousticAutomaton_compute_acoustic_hash :: "(AcousticState \<times> char_code) list \<Rightarrow> u64" where
  "AcousticAutomaton_compute_acoustic_hash states =
     fold (\<lambda>(state, c) h. fnv_mix (fnv_mix h (AcousticState_as_u64 state)) (ucast c)) states 0xcbf29ce484222325"

section \<open>The stream\<close>

record AcousticStream =
  as_chars :: "char_code list"
  as_prev_char :: "char_code option"
  as_diacritics :: "bool list"
  as_prolongations :: "bool list"
  as_index :: nat

definition AcousticStream_new :: "char_code list \<Rightarrow> bool list \<Rightarrow> bool list \<Rightarrow> AcousticStream" where
  "AcousticStream_new input diacritics prolongations =
     \<lparr>as_chars = input, as_prev_char = None, as_diacritics = diacritics,
      as_prolongations = prolongations, as_index = 0\<rparr>"

definition AcousticStream_next ::
  "AcousticStream \<Rightarrow> (AcousticState \<times> char_code) option \<times> AcousticStream" where
  "AcousticStream_next s =
     (case as_chars s of
        [] \<Rightarrow> (None, s)
      | current_char # rest \<Rightarrow>
          let next_char = get_at 0 rest;
              has_shadda = unwrap_or False (get_at (as_index s) (as_diacritics s));
              has_prolongation = unwrap_or False (get_at (as_index s) (as_prolongations s));
              (state, duration) =
                AcousticAutomaton_evaluate_transition current_char next_char has_shadda has_prolongation
          in (Some (state, current_char),
              s\<lparr>as_chars := rest, as_prev_char := Some current_char, as_index := as_index s + 1\<rparr>))"

text \<open>Calls of \<open>next\<close> until it answers \<open>None\<close>.\<close>

function collect :: "AcousticStream \<Rightarrow> (AcousticState \<times> char_code) list" where
  "collect s = (case AcousticStream_next s of (None, s') \<Rightarrow> [] | (Some x, s') \<Rightarrow> x # collect s')"
  by auto
termination
  by (relation "measure (\<lambda>s. length (as_chars s))")
    (auto simp: AcousticStream_next_def Let_def split: list.splits prod.splits)

declare collect.simps [simp del]

section \<open>Properties\<close>

lemma collect_from:
  assumes "as_chars s = drop (as_index s) chars" and "as_index s \<le> length chars"
  shows "collect s = drop (as_index s)
    (AcousticAutomaton_process_string chars (as_diacritics s) (as_prolongations s))"
  using assms
proof (induction s rule: collect.induct)
  case (1 s)
  let ?i = "as_index s"
  show ?case
  proof (cases "?i = length chars")
    case True
    then show ?thesis using 1(2)
      by (subst collect.simps) (simp add: AcousticStream_next_def AcousticAutomaton_process_string_def)
  next
    case False
    then have i: "?i < length chars" using 1(3) by simp
    then have rest: "as_chars s = chars ! ?i # drop (Suc ?i) chars"
      using 1(2) by (simp add: Cons_nth_drop_Suc)
    obtain x s' where x: "AcousticStream_next s = (Some x, s')"
      using rest by (auto simp: AcousticStream_next_def Let_def case_prod_beta)
    then have s': "as_chars s' = drop (Suc ?i) chars" "as_index s' = Suc ?i"
        "as_diacritics s' = as_diacritics s" "as_prolongations s' = as_prolongations s"
      using rest by (auto simp: AcousticStream_next_def Let_def split: prod.splits)
    have "get_at 0 (drop (Suc ?i) chars) = get_at (?i + 1) chars"
      using i by (auto simp: get_at_def)
    then have head: "AcousticAutomaton_process_string chars (as_diacritics s) (as_prolongations s) ! ?i = x"
      using x i rest by (auto simp: AcousticStream_next_def AcousticAutomaton_process_string_def nth_enumerate_eq
          Let_def split: prod.splits)
    have "collect s' = drop (Suc ?i) (AcousticAutomaton_process_string chars (as_diacritics s) (as_prolongations s))"
      using 1(1) [OF x [symmetric] refl] i by (simp add: s')
    moreover have "?i < length (AcousticAutomaton_process_string chars (as_diacritics s) (as_prolongations s))"
      using i by (simp add: AcousticAutomaton_process_string_def)
    ultimately show ?thesis
      using head x by (subst collect.simps) (simp flip: Cons_nth_drop_Suc)
  qed
qed

text \<open>
  The stream and the batch agree: reading the stream to its end gives what \<open>process_string\<close>
  gives, one state per character in order, whatever the lengths of the two slices of marks; and the
  duration a rule returns is the multiplier of its state.
\<close>

theorem acoustic_stream_is_batch:
  "collect (AcousticStream_new input diacritics prolongations) =
     AcousticAutomaton_process_string input diacritics prolongations \<and>
   map snd (AcousticAutomaton_process_string input diacritics prolongations) = input \<and>
   snd (AcousticAutomaton_evaluate_transition c nxt shadda prolonged) =
     AcousticState_duration_multiplier (fst (AcousticAutomaton_evaluate_transition c nxt shadda prolonged))"
proof (intro conjI)
  show "collect (AcousticStream_new input diacritics prolongations) =
      AcousticAutomaton_process_string input diacritics prolongations"
    using collect_from [of "AcousticStream_new input diacritics prolongations" input]
    by (simp add: AcousticStream_new_def)
  show "map snd (AcousticAutomaton_process_string input diacritics prolongations) = input"
    by (rule nth_equalityI)
      (simp_all add: AcousticAutomaton_process_string_def nth_enumerate_eq Let_def split: prod.split)
  show "snd (AcousticAutomaton_evaluate_transition c nxt shadda prolonged) =
      AcousticState_duration_multiplier (fst (AcousticAutomaton_evaluate_transition c nxt shadda prolonged))"
    by (simp add: AcousticAutomaton_evaluate_transition_def Let_def split: option.split)
qed

end
