(* ===== verification/Affine_Canvas.thy ===== *)
theory Affine_Canvas
  imports Ordered_Map "HOL-Library.Signed_Division"
begin

text \<open>
  Pillar 3, \<open>aegis-runtime/src/affine_canvas.rs\<close>: integer affine maps with a scale of 1000 and the
  layout of agents.  \<open>i64\<close> is a 64-bit word read with \<open>sint\<close>: sums and products wrap, the division
  truncates.  Within the range where nothing wraps the map is the rational one truncated, and
  translations compose exactly.
\<close>

type_synonym i64 = "64 word"

definition i64_div :: "i64 \<Rightarrow> i64 \<Rightarrow> i64" where
  "i64_div a b = of_int (sint a sdiv sint b)"

section \<open>Transforms\<close>

definition SCALE_FACTOR :: i64 where "SCALE_FACTOR = 1000"

record AffineMatrix =
  am_a :: i64
  am_b :: i64
  am_tx :: i64
  am_c :: i64
  am_d :: i64
  am_ty :: i64

definition AffineMatrix_identity :: AffineMatrix where
  "AffineMatrix_identity =
     \<lparr>am_a = SCALE_FACTOR, am_b = 0, am_tx = 0, am_c = 0, am_d = SCALE_FACTOR, am_ty = 0\<rparr>"

definition AffineMatrix_scale :: "i64 \<Rightarrow> i64 \<Rightarrow> AffineMatrix" where
  "AffineMatrix_scale sx sy = \<lparr>am_a = sx, am_b = 0, am_tx = 0, am_c = 0, am_d = sy, am_ty = 0\<rparr>"

definition AffineMatrix_translate :: "i64 \<Rightarrow> i64 \<Rightarrow> AffineMatrix" where
  "AffineMatrix_translate tx ty =
     \<lparr>am_a = SCALE_FACTOR, am_b = 0, am_tx = tx, am_c = 0, am_d = SCALE_FACTOR, am_ty = ty\<rparr>"

definition AffineMatrix_apply :: "AffineMatrix \<Rightarrow> i64 \<Rightarrow> i64 \<Rightarrow> i64 \<times> i64" where
  "AffineMatrix_apply m x y =
     (let xp = i64_div (am_a m * x + am_b m * y) SCALE_FACTOR + am_tx m;
          yp = i64_div (am_c m * x + am_d m * y) SCALE_FACTOR + am_ty m
      in (xp, yp))"

definition AffineMatrix_compose :: "AffineMatrix \<Rightarrow> AffineMatrix \<Rightarrow> AffineMatrix" where
  "AffineMatrix_compose m other =
     \<lparr>am_a = i64_div (am_a other * am_a m + am_b other * am_c m) SCALE_FACTOR,
      am_b = i64_div (am_a other * am_b m + am_b other * am_d m) SCALE_FACTOR,
      am_tx = i64_div (am_a other * am_tx m + am_b other * am_ty m) SCALE_FACTOR + am_tx other,
      am_c = i64_div (am_c other * am_a m + am_d other * am_c m) SCALE_FACTOR,
      am_d = i64_div (am_c other * am_b m + am_d other * am_d m) SCALE_FACTOR,
      am_ty = i64_div (am_c other * am_tx m + am_d other * am_ty m) SCALE_FACTOR + am_ty other\<rparr>"

section \<open>The canvas\<close>

record AgentBound =
  ag_x :: i64
  ag_y :: i64
  ag_width :: i64
  ag_height :: i64

record AgentSpec =
  sp_id :: u64
  sp_logical_x :: i64
  sp_logical_y :: i64
  sp_logical_w :: i64
  sp_logical_h :: i64

record AffineCanvas =
  ac_bounds :: "(u64, AgentBound) btmap"
  ac_transform :: AffineMatrix

definition AffineCanvas_new :: "AffineMatrix \<Rightarrow> AffineCanvas" where
  "AffineCanvas_new transform = \<lparr>ac_bounds = bt_empty, ac_transform = transform\<rparr>"

definition i64_abs :: "i64 \<Rightarrow> i64" where
  "i64_abs x = (if x <s 0 then - x else x)"

definition place_agent :: "AffineMatrix \<Rightarrow> AgentSpec \<Rightarrow> AgentBound" where
  "place_agent transform spec =
     (let (x, y) = AffineMatrix_apply transform (sp_logical_x spec) (sp_logical_y spec);
          (w, _) = AffineMatrix_apply transform (sp_logical_w spec) 0;
          (_, h) = AffineMatrix_apply transform 0 (sp_logical_h spec)
      in \<lparr>ag_x = x, ag_y = y, ag_width = i64_abs w, ag_height = i64_abs h\<rparr>)"

definition AffineCanvas_layout_agents :: "AgentSpec list \<Rightarrow> AffineCanvas \<Rightarrow> AffineCanvas" where
  "AffineCanvas_layout_agents agents c =
     c\<lparr>ac_bounds := fold (\<lambda>spec. bt_insert (sp_id spec) (place_agent (ac_transform c) spec)) agents bt_empty\<rparr>"

definition AffineCanvas_get_bound :: "u64 \<Rightarrow> AffineCanvas \<Rightarrow> AgentBound option" where
  "AffineCanvas_get_bound aid c = bt_get (ac_bounds c) aid"

definition AffineCanvas_fingerprint :: "sha \<Rightarrow> AffineCanvas \<Rightarrow> hash" where
  "AffineCanvas_fingerprint sha c =
     sha (concat (map (\<lambda>(aid, b). le8 aid @ le8 (ag_x b) @ le8 (ag_y b) @ le8 (ag_width b) @ le8 (ag_height b))
       (entries (ac_bounds c))))"

section \<open>Signed arithmetic without wrap\<close>

abbreviation in_range :: "int \<Rightarrow> bool" where
  "in_range i \<equiv> - (2 ^ 63) \<le> i \<and> i < 2 ^ 63"

lemma sint_small: "in_range i \<Longrightarrow> sint (of_int i :: i64) = i"
  by (simp add: signed_of_int signed_take_bit_int_eq_self)

lemma sint_range: "in_range (sint (w :: i64))"
  using sint_greater_eq [of w] sint_less [of w] by simp

lemma sint_add: "in_range (sint a + sint b) \<Longrightarrow> sint (a + b :: i64) = sint a + sint b"
  using sint_small [of "sint a + sint b"] by simp

lemma sint_mult: "in_range (sint a * sint b) \<Longrightarrow> sint (a * b :: i64) = sint a * sint b"
  using sint_small [of "sint a * sint b"] by simp

lemma sint_scale: "sint SCALE_FACTOR = 1000"
  by (simp add: SCALE_FACTOR_def)

lemma sint_div_scale: "sint (i64_div w SCALE_FACTOR) = sint w sdiv 1000"
proof -
  have "\<bar>sint w\<bar> div 1000 \<le> \<bar>sint w\<bar>" by simp
  then have "\<bar>sint w sdiv 1000\<bar> \<le> \<bar>sint w\<bar>"
    by (simp add: signed_divide_int_def abs_mult abs_sgn_eq)
  then have "in_range (sint w sdiv 1000)"
    using sint_range [of w] by (cases "sint w < 0") (auto simp: signed_divide_int_def abs_if sgn_if split: if_splits)
  then show ?thesis unfolding i64_div_def sint_scale by (rule sint_small)
qed

text \<open>Multiplying by the scale and dividing again is the identity where the product does not wrap.\<close>

abbreviation scalable :: "i64 \<Rightarrow> bool" where
  "scalable w \<equiv> in_range (1000 * sint w)"

lemma div_scale_mult: "scalable w \<Longrightarrow> i64_div (SCALE_FACTOR * w) SCALE_FACTOR = w"
proof -
  assume w: "scalable w"
  then have "sint (SCALE_FACTOR * w) = 1000 * sint w" by (simp add: sint_mult sint_scale)
  moreover have "(1000 * sint w) sdiv 1000 = sint w"
    by (cases "sint w < 0") (auto simp: signed_divide_int_def sgn_if abs_if abs_mult)
  ultimately show ?thesis unfolding i64_div_def sint_scale by simp
qed

lemma apply_translate:
  "scalable x \<Longrightarrow> scalable y \<Longrightarrow> AffineMatrix_apply (AffineMatrix_translate u v) x y = (x + u, y + v)"
  by (simp add: AffineMatrix_apply_def AffineMatrix_translate_def div_scale_mult)

definition matrix_scalable :: "AffineMatrix \<Rightarrow> bool" where
  "matrix_scalable m \<longleftrightarrow> scalable (am_a m) \<and> scalable (am_b m) \<and> scalable (am_tx m) \<and>
     scalable (am_c m) \<and> scalable (am_d m) \<and> scalable (am_ty m)"

lemma compose_translate:
  assumes "matrix_scalable m"
  shows "AffineMatrix_compose m (AffineMatrix_translate u v) = m\<lparr>am_tx := am_tx m + u, am_ty := am_ty m + v\<rparr>"
  using assms
  by (simp add: AffineMatrix_compose_def AffineMatrix_translate_def matrix_scalable_def div_scale_mult)

text \<open>A row of the map within the range where no intermediate result wraps.\<close>

definition row_fits :: "i64 \<Rightarrow> i64 \<Rightarrow> i64 \<Rightarrow> i64 \<Rightarrow> i64 \<Rightarrow> bool" where
  "row_fits a b t x y \<longleftrightarrow> in_range (sint a * sint x) \<and> in_range (sint b * sint y) \<and>
     in_range (sint a * sint x + sint b * sint y) \<and>
     in_range ((sint a * sint x + sint b * sint y) sdiv 1000 + sint t)"

lemma row_exact:
  "row_fits a b t x y \<Longrightarrow>
   sint (i64_div (a * x + b * y) SCALE_FACTOR + t) = (sint a * sint x + sint b * sint y) sdiv 1000 + sint t"
  by (simp add: row_fits_def sint_add sint_mult sint_div_scale)

lemma layout_bound:
  "AffineCanvas_get_bound aid (AffineCanvas_layout_agents (agents @ [spec]) c) =
     (if sp_id spec = aid then Some (place_agent (ac_transform c) spec)
      else AffineCanvas_get_bound aid (AffineCanvas_layout_agents agents c))"
  by (simp add: AffineCanvas_get_bound_def AffineCanvas_layout_agents_def)

section \<open>Properties\<close>

text \<open>
  Where nothing wraps, \<open>apply\<close> is the affine map with the product sums divided by 1000 and
  truncated toward zero; the identity is the identity; and composing with a translation is applying
  the map and then the translation, with no rounding lost.
\<close>

theorem affine_apply_exact:
  "(row_fits (am_a m) (am_b m) (am_tx m) x y \<and> row_fits (am_c m) (am_d m) (am_ty m) x y \<longrightarrow>
      sint (fst (AffineMatrix_apply m x y)) =
        (sint (am_a m) * sint x + sint (am_b m) * sint y) sdiv 1000 + sint (am_tx m) \<and>
      sint (snd (AffineMatrix_apply m x y)) =
        (sint (am_c m) * sint x + sint (am_d m) * sint y) sdiv 1000 + sint (am_ty m)) \<and>
   (scalable x \<and> scalable y \<longrightarrow> AffineMatrix_apply AffineMatrix_identity x y = (x, y)) \<and>
   (matrix_scalable m \<and> scalable (fst (AffineMatrix_apply m x y)) \<and> scalable (snd (AffineMatrix_apply m x y)) \<longrightarrow>
      AffineMatrix_apply (AffineMatrix_compose m (AffineMatrix_translate u v)) x y =
        (case AffineMatrix_apply m x y of (x', y') \<Rightarrow> AffineMatrix_apply (AffineMatrix_translate u v) x' y'))"
proof -
  have "AffineMatrix_identity = AffineMatrix_translate 0 0"
    by (simp add: AffineMatrix_identity_def AffineMatrix_translate_def)
  then have ident: "scalable x \<Longrightarrow> scalable y \<Longrightarrow> AffineMatrix_apply AffineMatrix_identity x y = (x, y)"
    using apply_translate [of x y 0 0] by simp
  have "AffineMatrix_apply (m\<lparr>am_tx := am_tx m + u, am_ty := am_ty m + v\<rparr>) x y =
      (fst (AffineMatrix_apply m x y) + u, snd (AffineMatrix_apply m x y) + v)"
    by (simp add: AffineMatrix_apply_def)
  then have comp: "matrix_scalable m \<Longrightarrow> scalable (fst (AffineMatrix_apply m x y)) \<Longrightarrow>
      scalable (snd (AffineMatrix_apply m x y)) \<Longrightarrow>
      AffineMatrix_apply (AffineMatrix_compose m (AffineMatrix_translate u v)) x y =
        (case AffineMatrix_apply m x y of (x', y') \<Rightarrow> AffineMatrix_apply (AffineMatrix_translate u v) x' y')"
    unfolding case_prod_beta by (simp only: apply_translate compose_translate)
  have "fst (AffineMatrix_apply m x y) = i64_div (am_a m * x + am_b m * y) SCALE_FACTOR + am_tx m"
    "snd (AffineMatrix_apply m x y) = i64_div (am_c m * x + am_d m * y) SCALE_FACTOR + am_ty m"
    by (simp_all add: AffineMatrix_apply_def)
  then show ?thesis using row_exact ident comp by metis
qed

lemma affine_apply_exact_witness:
  "AffineMatrix_apply AffineMatrix_identity 7 (- 5) = (7, - 5) \<and>
   sint (fst (AffineMatrix_apply (AffineMatrix_scale 500 1500) (- 3) 4)) = - 1"
proof -
  have "AffineMatrix_apply AffineMatrix_identity 7 (- 5) = (7, - 5)"
    using affine_apply_exact [of undefined 7 "- 5"] by simp
  moreover have "row_fits 500 0 0 (- 3) 4" "row_fits 0 1500 0 (- 3) 4"
    by (simp_all add: row_fits_def signed_divide_int_def)
  then have "sint (fst (AffineMatrix_apply (AffineMatrix_scale 500 1500) (- 3) 4)) = - 1"
    using affine_apply_exact [of "AffineMatrix_scale 500 1500" "- 3" 4]
    by (simp add: AffineMatrix_scale_def signed_divide_int_def)
  ultimately show ?thesis ..
qed

end
