(* ===== verification/Autonode_Node.thy ===== *)
theory Autonode_Node
  imports State_Anchor Domain_Firewall Affine_Canvas Semantic_Graph Validation_Dfa Frames Hysteresis
begin

text \<open>
  The full node, \<open>aegis-runtime/src/autonode.rs\<close>: the seven pillars behind one verdict, and the
  beacon that reports it.  Whether the socket binds and what a send answers are arguments.
\<close>

section \<open>The node\<close>

datatype AutonodeError = AutonodeError string

record Autonode =
  au_anchor :: StateAnchor
  au_firewall :: DomainFirewall
  au_canvas :: AffineCanvas
  au_graph :: SemanticGraph
  au_dfa :: ValidationDfa
  au_emitter :: GossipEmitter
  au_hysteresis :: HysteresisFilter

definition Autonode_noop :: Autonode where
  "Autonode_noop =
     \<lparr>au_anchor = StateAnchor_new, au_firewall = DomainFirewall_new,
      au_canvas = AffineCanvas_new AffineMatrix_identity, au_graph = SemanticGraph_new,
      au_dfa = ValidationDfa_new, au_emitter = GossipEmitter_noop, au_hysteresis = HysteresisFilter_new\<rparr>"

definition Autonode_new :: "bool \<Rightarrow> AutonodeError + Autonode" where
  "Autonode_new socket_binds =
     (if \<not> socket_binds then Inl (AutonodeError ''gossip emitter socket bind failed'')
      else Inr
        \<lparr>au_anchor = StateAnchor_new, au_firewall = DomainFirewall_new,
         au_canvas = AffineCanvas_new AffineMatrix_identity, au_graph = SemanticGraph_new,
         au_dfa = ValidationDfa_new, au_emitter = \<lparr>ge_socket = True, ge_sent_count = 0\<rparr>,
         au_hysteresis = HysteresisFilter_new\<rparr>)"

definition Autonode_t0_verdict :: "sha \<Rightarrow> Autonode \<Rightarrow> bool" where
  "Autonode_t0_verdict sha n \<longleftrightarrow>
     sa_corruption_count (au_anchor n) = 0 \<and>
     DomainFirewall_verify_all_domain0 sha (au_firewall n) = 0 \<and>
     HysteresisFilter_active_quarantines (au_hysteresis n) = 0"

fun dfa_state_byte :: "ValidationState \<Rightarrow> u8" where
  "dfa_state_byte Idle = 0"
| "dfa_state_byte Header = 1"
| "dfa_state_byte Payload = 2"
| "dfa_state_byte Checksum = 3"
| "dfa_state_byte Accept = 4"
| "dfa_state_byte Reject = 5"

definition Autonode_constitutional_hash :: "sha \<Rightarrow> Autonode \<Rightarrow> hash" where
  "Autonode_constitutional_hash sha n =
     sha (hash_bytes (sa_head_hash (au_anchor n)) @ hash_bytes (AffineCanvas_fingerprint sha (au_canvas n)) @
          [dfa_state_byte (vd_state (au_dfa n))])"

definition beacon_frame :: "sha \<Rightarrow> u64 \<Rightarrow> Autonode \<Rightarrow> GossipFrame" where
  "beacon_frame sha epoch n =
     (let consensus = (if Autonode_t0_verdict sha n then 10000 else 0);
          friction = HysteresisFilter_active_quarantines (au_hysteresis n)
      in \<lparr>gf_local_node_id = 0x0001,
          gf_root_state_pulses = of_nat (bt_len (sa_entries (au_anchor n))),
          gf_semantic_traversals = of_nat (SemanticGraph_node_count (au_graph n)),
          gf_agent_state_alpha = epoch,
          gf_agent_state_beta = vd_bytes_processed (au_dfa n),
          gf_agent_state_gamma = 0,
          gf_cluster_consensus_score = consensus,
          gf_network_friction = friction\<rparr>)"

definition Autonode_emit_beacon ::
  "sha \<Rightarrow> (bytes \<Rightarrow> SendResult) \<Rightarrow> u64 \<Rightarrow> Autonode \<Rightarrow> (AutonodeError + unit) \<times> Autonode" where
  "Autonode_emit_beacon sha send_to epoch n =
     (case GossipEmitter_emit send_to (beacon_frame sha epoch n) (au_emitter n) of
        (Inr _, e) \<Rightarrow> (Inr (), n\<lparr>au_emitter := e\<rparr>)
      | (Inl _, e) \<Rightarrow> (Inl (AutonodeError ''gossip emit failed''), n\<lparr>au_emitter := e\<rparr>))"

definition Autonode_validate_payload :: "bytes \<Rightarrow> Autonode \<Rightarrow> ValidationState \<times> Autonode" where
  "Autonode_validate_payload payload n =
     (let d = ValidationDfa_process payload (au_dfa n) in (vd_state d, n\<lparr>au_dfa := d\<rparr>))"

section \<open>The node as a machine\<close>

text \<open>The pillars are public fields: any operation of any of them may come at any time.\<close>

datatype NodeOp =
  AnchorAppend SegmentKey bytes | AnchorVerify | Firewall FirewallOp | Layout "AgentSpec list"
| Graph GraphOp | Validate bytes | ResetDfa | Peer FilterOp | Beacon u64 "bytes \<Rightarrow> SendResult"

fun node_step :: "sha \<Rightarrow> NodeOp \<Rightarrow> Autonode \<Rightarrow> Autonode" where
  "node_step sha (AnchorAppend k p) n = n\<lparr>au_anchor := snd (StateAnchor_append sha k p (au_anchor n))\<rparr>"
| "node_step sha AnchorVerify n = n\<lparr>au_anchor := snd (StateAnchor_verify_chain sha (au_anchor n))\<rparr>"
| "node_step sha (Firewall op) n = n\<lparr>au_firewall := firewall_step sha op (au_firewall n)\<rparr>"
| "node_step sha (Layout specs) n = n\<lparr>au_canvas := AffineCanvas_layout_agents specs (au_canvas n)\<rparr>"
| "node_step sha (Graph op) n = n\<lparr>au_graph := graph_step op (au_graph n)\<rparr>"
| "node_step sha (Validate bs) n = snd (Autonode_validate_payload bs n)"
| "node_step sha ResetDfa n = n\<lparr>au_dfa := ValidationDfa_reset (au_dfa n)\<rparr>"
| "node_step sha (Peer op) n = n\<lparr>au_hysteresis := filter_step op (au_hysteresis n)\<rparr>"
| "node_step sha (Beacon epoch send_to) n = snd (Autonode_emit_beacon sha send_to epoch n)"

definition failed_verification :: "sha \<Rightarrow> NodeOp \<Rightarrow> Autonode \<Rightarrow> nat" where
  "failed_verification sha op n =
     (case op of AnchorVerify \<Rightarrow> if fst (StateAnchor_verify_chain sha (au_anchor n)) then 0 else 1 | _ \<Rightarrow> 0)"

lemma node_step_corruption:
  "sa_corruption_count (au_anchor (node_step sha op n)) =
     sa_corruption_count (au_anchor n) + of_nat (failed_verification sha op n)"
  by (cases op; auto simp: StateAnchor_append_def StateAnchor_verify_chain_def failed_verification_def
      Autonode_validate_payload_def Autonode_emit_beacon_def Let_def
      split: prod.split sum.split)+

text \<open>Registering only adds records that verify, under keys that are free: no bad record goes away.\<close>

definition records_verify :: "sha \<Rightarrow> DomainFirewall \<Rightarrow> bool" where
  "records_verify sha f \<longleftrightarrow> (\<forall>k r. bt_get (df_domain0 f) k = Some r \<longrightarrow> Domain0Record_verify sha r)"

lemma register_records_verify:
  "records_verify sha (snd (DomainFirewall_register sha rec f)) \<longleftrightarrow> records_verify sha f"
  by (cases "bt_get (df_domain0 f) (dr_key rec)")
    (auto simp: records_verify_def DomainFirewall_register_def bt_has_def split: if_splits,
      metis option.distinct(1))

lemma firewall_step_verify_iff: "records_verify sha (firewall_step sha op f) \<longleftrightarrow> records_verify sha f"
  by (cases op) (simp_all add: register_records_verify, simp add: records_verify_def DomainFirewall_write_domain1_def)

lemma node_step_firewall:
  "au_firewall (node_step sha op n) = (case op of Firewall fop \<Rightarrow> firewall_step sha fop (au_firewall n) | _ \<Rightarrow> au_firewall n)"
  by (cases op) (simp_all add: Autonode_validate_payload_def Autonode_emit_beacon_def Let_def
      split: prod.split sum.split)

lemma node_run_verify_iff: "records_verify sha (au_firewall (run (node_step sha) ops n)) \<longleftrightarrow> records_verify sha (au_firewall n)"
  by (induction ops arbitrary: n) (simp_all add: node_step_firewall firewall_step_verify_iff split: NodeOp.split)

lemma corruption_counted:
  "sa_corruption_count (au_anchor (run (node_step sha) ops n)) =
     sa_corruption_count (au_anchor n) + of_nat (total (node_step sha) (failed_verification sha) ops n)"
  by (induction ops arbitrary: n) (simp_all add: node_step_corruption add.assoc)

lemma records_verify_iff:
  "records_verify sha f \<longleftrightarrow>
   (\<forall>r \<in> set (bt_values (df_domain0 f)). Domain0Record_hash sha (dr_key r) (dr_payload r) = dr_integrity_hash r)"
  by (auto simp: set_bt_values ran_def records_verify_def Domain0Record_verify_def)

lemma verify_all_iff: "DomainFirewall_verify_all_domain0 sha f = 0 \<longleftrightarrow> records_verify sha f"
  by (auto simp: DomainFirewall_verify_all_domain0_def filter_empty_conv set_bt_values ran_def records_verify_def)

lemma of_nat_zero_iff: "(of_nat k = (0 :: 'a::len word)) \<longleftrightarrow> 2 ^ LENGTH('a) dvd k"
  by (simp add: word_of_nat_eq_0_iff)

lemma word_add_of_nat_zero_iff: "w + of_nat k = (0 :: 'a::len word) \<longleftrightarrow> 2 ^ LENGTH('a) dvd unat w + k"
proof -
  have "w + of_nat k = of_nat (unat w + k)" by simp
  then show ?thesis by (simp only: of_nat_zero_iff)
qed

lemma active_quarantines_eq:
  "HysteresisFilter_active_quarantines f = of_nat (length (filter (\<lambda>r. pr_score r < 2000) (bt_values (hf_peers f))))"
proof -
  have "PeerRecord_is_quarantined = (\<lambda>r. pr_score r < 2000)"
    by (rule ext) (simp add: PeerRecord_is_quarantined_def PeerRecord_status_def QUARANTINE_THRESHOLD_def)
  then show ?thesis by (simp only: HysteresisFilter_active_quarantines_def)
qed

lemma verdict_run_iff:
  "Autonode_t0_verdict sha (run (node_step sha) ops n0) \<longleftrightarrow>
     2 ^ 32 dvd unat (sa_corruption_count (au_anchor n0)) + total (node_step sha) (failed_verification sha) ops n0 \<and>
     records_verify sha (au_firewall n0) \<and>
     2 ^ 16 dvd length (filter (\<lambda>r. pr_score r < 2000)
       (bt_values (hf_peers (au_hysteresis (run (node_step sha) ops n0)))))"
  by (simp add: Autonode_t0_verdict_def verify_all_iff node_run_verify_iff active_quarantines_eq corruption_counted
      of_nat_zero_iff word_add_of_nat_zero_iff)

lemma emit_beacon_eq:
  "Autonode_emit_beacon sha send_to epoch n =
     (if \<not> ge_socket (au_emitter n) then (Inr (), n)
      else case send_to (GossipFrame_to_bytes (beacon_frame sha epoch n)) of
          Sent _ \<Rightarrow> (Inr (), n\<lparr>au_emitter := (au_emitter n)\<lparr>ge_sent_count := ge_sent_count (au_emitter n) + 1\<rparr>\<rparr>)
        | WouldBlock \<Rightarrow> (Inr (), n)
        | SendError _ \<Rightarrow> (Inl (AutonodeError ''gossip emit failed''), n))"
  by (simp add: Autonode_emit_beacon_def GossipEmitter_emit_def Let_def split: SendResult.split)

section \<open>Properties\<close>

text \<open>
  C13.  The verdict and the beacon, from any state of the node (its pillars are public fields, so the
  count of the anchor, the records of domain 0 and the peers may be any) and after any operations on
  any pillar.  The verdict passes exactly when all three hold: the anchor's corruption count it
  started with and the verifications that failed since come to a multiple of \<open>2 ^ 32\<close>, the width of
  the count; every record of domain 0 it started with matches its integrity hash; and the number of
  peers scored below 2000 is a multiple of \<open>2 ^ 16\<close>, as the count is cast to \<open>u16\<close>: 65536
  quarantined peers pass for none.  And \<open>emit_beacon\<close> hands the socket 64 bytes that parse back to the
  state of the node: a consensus of 10000 if the verdict passes and of 0 if not, the quarantines as
  friction, the anchor's entries as pulses.  It fails only if the send fails, counts only what was
  sent, and leaves all else as it was; without a socket it does nothing.
\<close>

theorem autonode_beacon_reports_verdict:
  "let n = run (node_step sha) ops n0;
       failed = unat (sa_corruption_count (au_anchor n0)) +
                total (node_step sha) (failed_verification sha) ops n0;
       quarantined = length (filter (\<lambda>r. pr_score r < 2000) (bt_values (hf_peers (au_hysteresis n))));
       passes = (2 ^ 32 dvd failed \<and>
          (\<forall>r \<in> set (bt_values (df_domain0 (au_firewall n0))).
             Domain0Record_hash sha (dr_key r) (dr_payload r) = dr_integrity_hash r) \<and>
          2 ^ 16 dvd quarantined)
   in Autonode_t0_verdict sha n = passes \<and>
      (\<exists>sent. length sent = 64 \<and>
        GossipFrame_from_bytes sent = Some
          \<lparr>gf_local_node_id = 1, gf_root_state_pulses = of_nat (bt_len (sa_entries (au_anchor n))),
           gf_semantic_traversals = of_nat (SemanticGraph_node_count (au_graph n)),
           gf_agent_state_alpha = epoch, gf_agent_state_beta = vd_bytes_processed (au_dfa n),
           gf_agent_state_gamma = 0, gf_cluster_consensus_score = (if passes then 10000 else 0),
           gf_network_friction = of_nat quarantined\<rparr> \<and>
        (\<forall>send_to. Autonode_emit_beacon sha send_to epoch n =
          (if \<not> ge_socket (au_emitter n) then (Inr (), n)
           else case send_to sent of
               Sent _ \<Rightarrow> (Inr (), n\<lparr>au_emitter :=
                 (au_emitter n)\<lparr>ge_sent_count := ge_sent_count (au_emitter n) + 1\<rparr>\<rparr>)
             | WouldBlock \<Rightarrow> (Inr (), n)
             | SendError _ \<Rightarrow> (Inl (AutonodeError ''gossip emit failed''), n))))"
proof -
  let ?n = "run (node_step sha) ops n0"
  let ?sent = "GossipFrame_to_bytes (beacon_frame sha epoch ?n)"
  have "length ?sent = 64" by (simp add: to_bytes_eq)
  moreover have "GossipFrame_from_bytes ?sent = Some (beacon_frame sha epoch ?n)" by (rule from_to_bytes)
  ultimately show ?thesis
    unfolding Let_def verdict_run_iff [symmetric] records_verify_iff [symmetric]
    by (intro conjI exI [of _ ?sent])
      (simp_all add: emit_beacon_eq beacon_frame_def active_quarantines_eq)
qed

text \<open>A node whose domain 0 holds a forged record: no operation makes its verdict pass.\<close>

lemma autonode_beacon_reports_verdict_witness:
  "let forged = \<lparr>dr_key = OpaqueSegmentKey 0 1, dr_payload = [7], dr_integrity_hash = 0\<rparr>;
       f = DomainFirewall_new\<lparr>df_domain0 := bt_insert (dr_key forged) forged bt_empty\<rparr>
   in \<not> Autonode_t0_verdict (\<lambda>_. 1) (run (node_step (\<lambda>_. 1)) [AnchorVerify] (Autonode_noop\<lparr>au_firewall := f\<rparr>))"
  unfolding Let_def
  by (subst autonode_beacon_reports_verdict [unfolded Let_def, THEN conjunct1])
    (simp add: set_bt_values DomainFirewall_new_def Domain0Record_hash_def)

end
