(* ===== verification/Spsf_Store.thy ===== *)
theory Spsf_Store
  imports Ordered_Map "HOL-Library.Sublist"
begin

text \<open>
  Gate 220, the sovereign persistence layer, \<open>aegis-cl-psi/src/spsf.rs\<close>: an append-only file of
  length-prefixed records behind a 32-byte header, and an index of the records committed since the
  file was opened.  The file system is the content of the one path the layer uses (\<open>None\<close> if there is
  no such file), and the outcome of each call on it is an argument, a write that fails included, of
  which any number of bytes may have reached the disk.  The file only ever grows, by exactly the
  records accepted where no write fails, and then it determines them; the index is always numbered
  0, 1, 2 and so on, but it is not read back on opening, so the numbering in the file starts again.
\<close>

section \<open>Records\<close>

record SpsfRecord =
  sf_sequence_id :: u64
  sf_node_rank :: u64
  sf_state_hash :: hash
  sf_payload :: bytes

datatype SpsfError =
    ReadFailed | HeaderTooShort | GenesisMismatch | CreateFailed | HeaderWriteFailed | HeaderFlushFailed
  | Discontinuity | FirstNotZero | AppendOpenFailed | RecordWriteFailed | RecordFlushFailed

definition SovereignPersistenceLayer_encode :: "SpsfRecord \<Rightarrow> bytes" where
  "SovereignPersistenceLayer_encode r =
     be8 (sf_sequence_id r) @ be8 (sf_node_rank r) @ hash_bytes (sf_state_hash r) @
     be4 (of_nat (length (sf_payload r))) @ sf_payload r"

record SovereignPersistenceLayer =
  sl_index :: "(u64, SpsfRecord) btmap"
  sl_genesis_root :: hash

section \<open>The file system\<close>

text \<open>\<open>write_all\<close>: all of it, or an error after some of it.\<close>

datatype WriteOutcome = Written | Torn nat

fun written :: "WriteOutcome \<Rightarrow> bytes \<Rightarrow> bytes" where
  "written Written bs = bs"
| "written (Torn n) bs = take n bs"

record OpenIo =
  oi_read :: bool
  oi_create :: bool
  oi_write :: WriteOutcome
  oi_flush :: bool

record CommitIo =
  ci_open :: bool
  ci_write :: WriteOutcome
  ci_flush :: bool

definition SovereignPersistenceLayer_open ::
  "OpenIo \<Rightarrow> hash \<Rightarrow> bytes option \<Rightarrow> (SpsfError + SovereignPersistenceLayer) \<times> bytes option" where
  "SovereignPersistenceLayer_open io genesis_root file =
     (let opened = Inr \<lparr>sl_index = bt_empty, sl_genesis_root = genesis_root\<rparr>
      in case file of
           Some existing \<Rightarrow>
             (if \<not> oi_read io then (Inl ReadFailed, file)
              else if length existing < 32 then (Inl HeaderTooShort, file)
              else if take 32 existing \<noteq> hash_bytes genesis_root then (Inl GenesisMismatch, file)
              else (opened, file))
         | None \<Rightarrow>
             (if \<not> oi_create io then (Inl CreateFailed, None)
              else
                let f = Some (written (oi_write io) (hash_bytes genesis_root))
                in if oi_write io \<noteq> Written then (Inl HeaderWriteFailed, f)
                   else if \<not> oi_flush io then (Inl HeaderFlushFailed, f)
                   else (opened, f)))"

definition sequence_guard :: "u64 \<Rightarrow> (u64, SpsfRecord) btmap \<Rightarrow> SpsfError option" where
  "sequence_guard sequence_id index =
     (case bt_last index of
        Some (last_seq, _) \<Rightarrow> if sequence_id \<noteq> last_seq + 1 then Some Discontinuity else None
      | None \<Rightarrow> if sequence_id \<noteq> 0 then Some FirstNotZero else None)"

definition SovereignPersistenceLayer_commit_verified_step ::
  "CommitIo \<Rightarrow> nat \<Rightarrow> u64 \<Rightarrow> hash \<Rightarrow> bytes \<Rightarrow> bytes option \<times> SovereignPersistenceLayer \<Rightarrow>
   (SpsfError + unit) \<times> bytes option \<times> SovereignPersistenceLayer" where
  "SovereignPersistenceLayer_commit_verified_step io rank sequence_id state_hash payload fl =
     (case fl of (file, l) \<Rightarrow>
        (case sequence_guard sequence_id (sl_index l) of
           Some e \<Rightarrow> (Inl e, file, l)
         | None \<Rightarrow>
             let r = \<lparr>sf_sequence_id = sequence_id, sf_node_rank = of_nat rank,
                      sf_state_hash = state_hash, sf_payload = payload\<rparr>
             in case (file, ci_open io) of
                  (Some content, True) \<Rightarrow>
                    (let f = Some (content @ written (ci_write io) (SovereignPersistenceLayer_encode r))
                     in if ci_write io \<noteq> Written then (Inl RecordWriteFailed, f, l)
                        else if \<not> ci_flush io then (Inl RecordFlushFailed, f, l)
                        else (Inr (), f, l\<lparr>sl_index := bt_insert sequence_id r (sl_index l)\<rparr>))
                | _ \<Rightarrow> (Inl AppendOpenFailed, file, l)))"

definition SovereignPersistenceLayer_record_by_sequence ::
  "u64 \<Rightarrow> SovereignPersistenceLayer \<Rightarrow> SpsfRecord option" where
  "SovereignPersistenceLayer_record_by_sequence sequence_id l = bt_get (sl_index l) sequence_id"

definition SovereignPersistenceLayer_read_by_sequence ::
  "u64 \<Rightarrow> SovereignPersistenceLayer \<Rightarrow> bytes option" where
  "SovereignPersistenceLayer_read_by_sequence sequence_id l =
     map_option sf_payload (bt_get (sl_index l) sequence_id)"

definition SovereignPersistenceLayer_len :: "SovereignPersistenceLayer \<Rightarrow> nat" where
  "SovereignPersistenceLayer_len l = bt_len (sl_index l)"

definition SovereignPersistenceLayer_is_empty :: "SovereignPersistenceLayer \<Rightarrow> bool" where
  "SovereignPersistenceLayer_is_empty l = (SovereignPersistenceLayer_len l = 0)"

definition SovereignPersistenceLayer_max_sequence :: "SovereignPersistenceLayer \<Rightarrow> u64 option" where
  "SovereignPersistenceLayer_max_sequence l = map_option fst (bt_last (sl_index l))"

section \<open>Uses of the layer\<close>

datatype SpsfOp = Reopen OpenIo hash | Commit CommitIo nat u64 hash bytes

fun spsf_step :: "SpsfOp \<Rightarrow> bytes option \<times> SovereignPersistenceLayer \<Rightarrow> bytes option \<times> SovereignPersistenceLayer" where
  "spsf_step (Reopen io root) (file, l) =
     (case SovereignPersistenceLayer_open io root file of
        (Inr l', f) \<Rightarrow> (f, l')
      | (Inl _, f) \<Rightarrow> (f, l))"
| "spsf_step (Commit io rank s h p) fl = snd (SovereignPersistenceLayer_commit_verified_step io rank s h p fl)"

text \<open>The record a step commits, if it does.\<close>

fun accepted :: "SpsfOp \<Rightarrow> bytes option \<times> SovereignPersistenceLayer \<Rightarrow> SpsfRecord list" where
  "accepted (Reopen io root) fl = []"
| "accepted (Commit io rank s h p) fl =
     (case SovereignPersistenceLayer_commit_verified_step io rank s h p fl of
        (Inr _, _) \<Rightarrow> [\<lparr>sf_sequence_id = s, sf_node_rank = of_nat rank, sf_state_hash = h, sf_payload = p\<rparr>]
      | (Inl _, _) \<Rightarrow> [])"

text \<open>A commit whose write and flush do not fail; opening the file for it may.\<close>

fun faultless :: "SpsfOp \<Rightarrow> bool" where
  "faultless (Reopen io root) \<longleftrightarrow> True"
| "faultless (Commit io rank s h p) \<longleftrightarrow> ci_write io = Written \<and> ci_flush io"

definition encode_all :: "SpsfRecord list \<Rightarrow> bytes" where
  "encode_all rs = concat (map SovereignPersistenceLayer_encode rs)"

abbreviation short_payload :: "SpsfRecord \<Rightarrow> bool" where
  "short_payload r \<equiv> length (sf_payload r) < 2 ^ 32"

section \<open>The encoding\<close>

lemma encode_all_simps [simp]:
  "encode_all [] = []"
  "encode_all (r # rs) = SovereignPersistenceLayer_encode r @ encode_all rs"
  "encode_all (rs @ ss) = encode_all rs @ encode_all ss"
  by (simp_all add: encode_all_def)

lemma encode_not_Nil [simp]: "SovereignPersistenceLayer_encode r \<noteq> []"
  by (auto simp: SovereignPersistenceLayer_encode_def simp flip: length_0_conv)

text \<open>A record is a prefix code, as long as its length fits the length field.\<close>

lemma encode_prefix:
  assumes "short_payload r" "short_payload s"
    and "SovereignPersistenceLayer_encode r @ xs = SovereignPersistenceLayer_encode s @ ys"
  shows "r = s \<and> xs = ys"
proof -
  have eq: "sf_sequence_id r = sf_sequence_id s" "sf_node_rank r = sf_node_rank s"
    "sf_state_hash r = sf_state_hash s"
    "(of_nat (length (sf_payload r)) :: u32) = of_nat (length (sf_payload s))"
    "sf_payload r @ xs = sf_payload s @ ys"
    using assms(3) by (simp_all add: SovereignPersistenceLayer_encode_def enc_simps)
  from arg_cong [OF eq(4), of unat] have "length (sf_payload r) = length (sf_payload s)"
    using assms(1,2) by (simp add: unat_of_nat_small)
  with eq show ?thesis by simp
qed

lemma encode_all_inj:
  "list_all short_payload rs \<Longrightarrow> list_all short_payload ss \<Longrightarrow> encode_all rs = encode_all ss \<Longrightarrow> rs = ss"
proof (induction rs arbitrary: ss)
  case Nil
  then show ?case by (cases ss) auto
next
  case (Cons r rs)
  show ?case
  proof (cases ss)
    case Nil
    with Cons.prems show ?thesis by simp
  next
    case (Cons s ss')
    with Cons.prems Cons.IH [of ss'] encode_prefix [of r s "encode_all rs" "encode_all ss'"]
    show ?thesis by simp
  qed
qed

section \<open>The index\<close>

text \<open>The index holds records numbered from 0, in the order they were committed.\<close>

definition numbered :: "SpsfRecord list \<Rightarrow> (u64 \<times> SpsfRecord) list" where
  "numbered rs = map (\<lambda>r. (sf_sequence_id r, r)) rs"

definition index_of :: "SpsfRecord list \<Rightarrow> (u64, SpsfRecord) btmap \<Rightarrow> bool" where
  "index_of rs m \<longleftrightarrow> entries m = numbered rs \<and> map sf_sequence_id rs = map of_nat [0..<length rs]"

lemma index_of_empty [simp]: "index_of [] bt_empty"
  by (simp add: index_of_def numbered_def bt_empty.rep_eq)

lemma index_of_guard:
  assumes "index_of rs m"
  shows "sequence_guard s m = None \<longleftrightarrow> s = of_nat (length rs)"
proof (cases rs rule: rev_cases)
  case Nil
  with assms show ?thesis by (simp add: index_of_def numbered_def sequence_guard_def bt_last_def)
next
  case (snoc qs q)
  with assms have "entries m = numbered qs @ [(of_nat (length qs), q)]"
    by (simp add: index_of_def numbered_def)
  then show ?thesis
    by (simp add: sequence_guard_def bt_last_def snoc add.commute)
qed

lemma index_of_insert:
  assumes "index_of rs m" "length rs < 2 ^ 64" "sf_sequence_id r = of_nat (length rs)"
  shows "index_of (rs @ [r]) (bt_insert (of_nat (length rs)) r m)"
proof -
  have "(of_nat i :: u64) < of_nat (length rs)" if "i < length rs" for i
    using that assms(2) by (simp add: word_less_nat_alt unat_of_nat_small)
  moreover have "map fst (entries m) = map of_nat [0..<length rs]"
    using assms(1) by (simp add: index_of_def numbered_def o_def)
  then have "fst ` set (entries m) = of_nat ` {0..<length rs}"
    by (metis image_set set_upt)
  ultimately have "\<forall>x \<in> fst ` set (entries m). x < of_nat (length rs)" by simp
  then have "\<forall>e \<in> set (entries m). fst e < of_nat (length rs)" by simp
  from entries_insert_last [OF this] assms show ?thesis
    by (simp add: index_of_def numbered_def)
qed

section \<open>Histories\<close>

text \<open>
  What the layer promises, without its file and its index: the records accepted so far, and those
  of them accepted since the last opening.  Opening succeeds if the file can be read and its genesis
  root is the one given; a commit is accepted if its number is the count since the last opening, and
  the file can be opened to append to.
\<close>

fun history_step :: "hash \<Rightarrow> SpsfOp \<Rightarrow> SpsfRecord list \<times> SpsfRecord list \<Rightarrow> SpsfRecord list \<times> SpsfRecord list" where
  "history_step root (Reopen io r) (rs, seg) = (rs, if oi_read io \<and> r = root then [] else seg)"
| "history_step root (Commit io rank s h p) (rs, seg) =
     (let r = \<lparr>sf_sequence_id = s, sf_node_rank = of_nat rank, sf_state_hash = h, sf_payload = p\<rparr>
      in if s = of_nat (length seg) \<and> ci_open io then (rs @ [r], seg @ [r]) else (rs, seg))"

text \<open>The state reached: the file is the header and the history, the index what was accepted since the opening.\<close>

definition holds :: "hash \<Rightarrow> SpsfRecord list \<times> SpsfRecord list \<Rightarrow> bytes option \<times> SovereignPersistenceLayer \<Rightarrow> bool" where
  "holds root H fl \<longleftrightarrow>
     fst fl = Some (hash_bytes root @ encode_all (fst H)) \<and> index_of (snd H) (sl_index (snd fl))"

lemma history_step_length: "length (snd (history_step root op H)) \<le> Suc (length (snd H))"
  by (cases H; cases op) (simp_all add: Let_def)

lemma holds_reopen:
  assumes "holds root H fl"
  shows "holds root (history_step root (Reopen io r) H) (spsf_step (Reopen io r) fl)"
  using assms by (cases H; cases fl) (auto simp: holds_def SovereignPersistenceLayer_open_def enc_simps)

lemma commit_step_eq:
  assumes "holds root H (f, l)" "faultless (Commit io rank s h p)"
  shows "SovereignPersistenceLayer_commit_verified_step io rank s h p (f, l) =
    (let r = \<lparr>sf_sequence_id = s, sf_node_rank = of_nat rank, sf_state_hash = h, sf_payload = p\<rparr>
     in if s \<noteq> of_nat (length (snd H)) then (Inl (the (sequence_guard s (sl_index l))), f, l)
        else if \<not> ci_open io then (Inl AppendOpenFailed, f, l)
        else (Inr (), Some (hash_bytes root @ encode_all (fst H @ [r])), l\<lparr>sl_index := bt_insert s r (sl_index l)\<rparr>))"
proof -
  have seg: "index_of (snd H) (sl_index l)" and f: "f = Some (hash_bytes root @ encode_all (fst H))"
    using assms(1) by (simp_all add: holds_def)
  show ?thesis
    using index_of_guard [OF seg, of s] assms(2)
    by (auto simp: f SovereignPersistenceLayer_commit_verified_step_def Let_def split: option.splits bool.splits)
qed

lemma holds_step:
  assumes "holds root H fl" "length (snd H) < 2 ^ 64" "faultless op"
  shows "holds root (history_step root op H) (spsf_step op fl) \<and>
    fst (history_step root op H) = fst H @ accepted op fl"
proof (cases op)
  case (Reopen io r)
  then show ?thesis using holds_reopen [OF assms(1)] by (cases H) simp
next
  case (Commit io rank s h p)
  obtain f l where fl: "fl = (f, l)" by fastforce
  obtain rs seg where H: "H = (rs, seg)" by fastforce
  note eq = commit_step_eq [of root H f l io rank s h p]
  have "index_of seg (sl_index l)" using assms(1) by (simp add: holds_def H fl)
  from index_of_insert [OF this] show ?thesis
    using assms eq by (auto simp: Commit fl H holds_def Let_def split: if_splits)
qed

lemma holds_run:
  assumes "holds root H fl" "length (snd H) + length ops < 2 ^ 64" "list_all faultless ops"
  shows "holds root (run (history_step root) ops H) (run spsf_step ops fl) \<and>
    fst (run (history_step root) ops H) = fst H @ emitted spsf_step accepted ops fl"
  using assms
proof (induction ops arbitrary: H fl)
  case Nil
  then show ?case by simp
next
  case (Cons op ops)
  have "length (snd (history_step root op H)) + length ops < 2 ^ 64"
    using history_step_length [of root op H] Cons.prems(2) by simp
  with Cons.IH [of "history_step root op H" "spsf_step op fl"] holds_step [of root H fl op] Cons.prems
  show ?case by simp
qed

lemma history_run_length: "length (snd (run (history_step root) ops H)) \<le> length (snd H) + length ops"
proof (induction ops arbitrary: H)
  case (Cons op ops)
  show ?case using Cons.IH [of "history_step root op H"] history_step_length [of root op H] by simp
qed simp

lemma index_of_lookup:
  assumes "index_of seg m" "length seg < 2 ^ 64"
  shows "bt_get m i = (if unat i < length seg then Some (seg ! unat i) else None)"
proof -
  have e: "entries m = numbered seg" and n: "map sf_sequence_id seg = map of_nat [0..<length seg]"
    using assms(1) by (simp_all add: index_of_def)
  have num: "sf_sequence_id (seg ! k) = of_nat k" if "k < length seg" for k
    using arg_cong [OF n, of "\<lambda>xs. xs ! k"] that by simp
  have "bt_get m i = Some r \<longleftrightarrow> (\<exists>k < length seg. i = of_nat k \<and> r = seg ! k)" for r
    using in_entries_iff [of i r m] by (auto simp: e numbered_def in_set_conv_nth num image_iff)
  moreover have "(\<exists>k < length seg. i = of_nat k \<and> r = seg ! k) \<longleftrightarrow> unat i < length seg \<and> r = seg ! unat i" for r
    using assms(2) by (auto simp: unat_of_nat_small intro: exI [of _ "unat i"])
  ultimately show ?thesis by (cases "bt_get m i") auto
qed

lemma reached_history:
  assumes "SovereignPersistenceLayer_open io root None = (Inr l, f)"
    and "list_all faultless ops" and "length ops < 2 ^ 64"
  defines "H \<equiv> run (history_step root) ops ([], [])" and "fl \<equiv> run spsf_step ops (f, l)"
  shows "fst H = emitted spsf_step accepted ops (f, l)" "fst fl = Some (hash_bytes root @ encode_all (fst H))"
    "index_of (snd H) (sl_index (snd fl))" "length (snd H) < 2 ^ 64"
    "bt_get (sl_index (snd fl)) i = (if unat i < length (snd H) then Some (snd H ! unat i) else None)"
proof -
  have "holds root ([], []) (f, l)"
    using assms(1) by (auto simp: SovereignPersistenceLayer_open_def holds_def Let_def split: if_splits)
  from holds_run [OF this _ assms(2)] assms(3)
  have "holds root H fl" and "fst H = emitted spsf_step accepted ops (f, l)"
    by (simp_all add: H_def fl_def)
  then show "fst H = emitted spsf_step accepted ops (f, l)" "fst fl = Some (hash_bytes root @ encode_all (fst H))"
    and ix: "index_of (snd H) (sl_index (snd fl))" by (simp_all add: holds_def)
  show len: "length (snd H) < 2 ^ 64"
    using history_run_length [of root ops "([], [])"] assms(3) by (simp add: H_def)
  show "bt_get (sl_index (snd fl)) i = (if unat i < length (snd H) then Some (snd H ! unat i) else None)"
    by (rule index_of_lookup [OF ix len])
qed

section \<open>Properties\<close>

text \<open>
  C14.  The file is the history: from a fresh file, after any calls whose writes and flushes succeed,
  refused commits and reopenings among them, the accepted records are those a commit of which came
  with the count of records accepted since the last successful opening as its number, while the file
  could be opened; the file is the genesis root followed by the encodings of the accepted records in
  order, and determines them, where payloads are below 4 GiB; and the index holds exactly the records
  accepted since the last opening, each under its number 0, 1, 2 and so on.
\<close>

theorem spsf_file_is_history:
  assumes "SovereignPersistenceLayer_open io root None = (Inr l, f)"
    and "list_all faultless ops" and "length ops < 2 ^ 64"
  shows "let (rs, seg) = run (history_step root) ops ([], []); (f', l') = run spsf_step ops (f, l)
    in emitted spsf_step accepted ops (f, l) = rs \<and>
       f' = Some (hash_bytes root @ encode_all rs) \<and>
       bt_values (sl_index l') = seg \<and>
       bt_keys (sl_index l') = map of_nat [0..<length seg] \<and>
       SovereignPersistenceLayer_len l' = length seg \<and>
       SovereignPersistenceLayer_record_by_sequence i l' = (if unat i < length seg then Some (seg ! unat i) else None) \<and>
       (\<forall>rs'. list_all short_payload rs \<and> list_all short_payload rs' \<and>
          f' = Some (hash_bytes root @ encode_all rs') \<longrightarrow> rs' = rs)"
proof -
  note h = reached_history [OF assms]
  obtain rs seg f' l' where "run (history_step root) ops ([], []) = (rs, seg)" "run spsf_step ops (f, l) = (f', l')"
    by fastforce
  then show ?thesis
    using h encode_all_inj
    by (auto simp: Let_def bt_values_def bt_keys_def numbered_def o_def bt_len_def index_of_def
        SovereignPersistenceLayer_len_def SovereignPersistenceLayer_record_by_sequence_def)
qed

lemma spsf_file_is_history_witness:
  "let io = \<lparr>ci_open = True, ci_write = Written, ci_flush = True\<rparr>;
       r = \<lparr>sf_sequence_id = 0, sf_node_rank = 1, sf_state_hash = 6, sf_payload = []\<rparr>;
       l = \<lparr>sl_index = bt_empty, sl_genesis_root = 7\<rparr>; f = Some (hash_bytes 7);
       ops = [Commit io 1 0 5 [9], Commit io 1 2 5 [9], Reopen \<lparr>oi_read = True, oi_create = True, oi_write = Written, oi_flush = True\<rparr> 7, Commit io 1 0 6 []];
       (f', l') = run spsf_step ops (f, l)
   in f' = Some (hash_bytes 7 @ encode_all [r\<lparr>sf_state_hash := 5, sf_payload := [9]\<rparr>, r]) \<and>
      bt_values (sl_index l') = [r]"
  using spsf_file_is_history [of "\<lparr>oi_read = True, oi_create = True, oi_write = Written, oi_flush = True\<rparr>" 7
      "\<lparr>sl_index = bt_empty, sl_genesis_root = 7\<rparr>" "Some (hash_bytes 7)"
      "let io = \<lparr>ci_open = True, ci_write = Written, ci_flush = True\<rparr> in
       [Commit io 1 0 5 [9], Commit io 1 2 5 [9], Reopen \<lparr>oi_read = True, oi_create = True, oi_write = Written, oi_flush = True\<rparr> 7, Commit io 1 0 6 []]" 0]
  unfolding Let_def
  by (auto simp: SovereignPersistenceLayer_open_def Let_def simp del: emitted.simps spsf_step.simps split: prod.splits)

text \<open>
  The index is not read back: after reopening a file that holds a record, sequence number 0 is
  accepted again, and the file holds two records of that number.
\<close>

lemma spsf_replay_after_reopen:
  assumes "ci_open io" "ci_write io = Written" "ci_flush io" "oi_read oio"
  shows "let fl = (Some (hash_bytes root), \<lparr>sl_index = bt_empty, sl_genesis_root = root\<rparr>);
             ops = [Commit io rank 0 h p, Reopen oio root, Commit io rank' 0 h' p']
         in map sf_sequence_id (emitted spsf_step accepted ops fl) = [0, 0] \<and>
            fst (run spsf_step ops fl) = Some (hash_bytes root @ encode_all (emitted spsf_step accepted ops fl))"
  using assms
  by (simp add: SovereignPersistenceLayer_commit_verified_step_def SovereignPersistenceLayer_open_def
      sequence_guard_def bt_last_def bt_empty.rep_eq Let_def)

text \<open>
  A write that stops midway leaves its bytes in the file; the retry that follows is accepted behind
  them, and is not found where a reader of records would look for it.
\<close>

lemma spsf_retry_after_torn_write:
  assumes "ci_open io" "ci_write io = Written" "ci_flush io" "n < length (SovereignPersistenceLayer_encode r)"
    and "r = \<lparr>sf_sequence_id = 0, sf_node_rank = of_nat rank, sf_state_hash = h, sf_payload = p\<rparr>"
  shows "let fl = (Some (hash_bytes root), \<lparr>sl_index = bt_empty, sl_genesis_root = root\<rparr>);
             ops = [Commit (io\<lparr>ci_write := Torn n\<rparr>) rank 0 h p, Commit io rank 0 h p]
         in emitted spsf_step accepted ops fl = [r] \<and>
            fst (run spsf_step ops fl) =
              Some (hash_bytes root @ take n (SovereignPersistenceLayer_encode r) @ SovereignPersistenceLayer_encode r)"
  using assms
  by (simp add: SovereignPersistenceLayer_commit_verified_step_def sequence_guard_def bt_last_def bt_empty.rep_eq Let_def)

end
