(* ===== verification/Spsf_Compactor.thy ===== *)
theory Spsf_Compactor
  imports Hash_Chain
begin

text \<open>
  Gate 328, \<open>aegis-cl-psi/src/spsf_compactor.rs\<close>: compaction of a list of entries, sequence number
  and state hash, to its most recent ones, with the dropped ones sealed in an anchor: the hash chain
  over them, which the verifier continues over the rest.  \<open>chain_from\<close> is that chain, and is proved to
  determine the entries unless the hash function is forged on them.
\<close>

section \<open>Anchors\<close>

type_synonym entry = "u64 \<times> hash"

record CompactionAnchor =
  an_anchor_sequence :: u64
  an_terminal_hash :: hash
  an_entry_count :: u64

text \<open>The loop over the entries, which the verifier repeats from another start.\<close>

definition chain_bytes :: "hash \<Rightarrow> entry \<Rightarrow> bytes" where
  "chain_bytes acc e = hash_bytes acc @ be8 (fst e) @ hash_bytes (snd e)"

definition chain_from :: "sha \<Rightarrow> hash \<Rightarrow> entry list \<Rightarrow> hash" where
  "chain_from sha acc es = foldl (\<lambda>acc e. sha (chain_bytes acc e)) acc es"

definition CompactionAnchor_from_pruned :: "sha \<Rightarrow> entry list \<Rightarrow> CompactionAnchor" where
  "CompactionAnchor_from_pruned sha pruned =
     (if pruned = [] then \<lparr>an_anchor_sequence = 0, an_terminal_hash = genesis, an_entry_count = 0\<rparr>
      else \<lparr>an_anchor_sequence = fst (last pruned), an_terminal_hash = chain_from sha genesis pruned,
            an_entry_count = of_nat (length pruned)\<rparr>)"

section \<open>Compaction\<close>

record CompactionInput =
  ci_entries :: "entry list"
  ci_retain_count :: nat
  ci_compaction_epoch :: u64

record CompactionResult =
  cr_compaction_epoch :: u64
  cr_pruned_count :: nat
  cr_retained_count :: nat
  cr_anchor :: CompactionAnchor
  cr_certificate_hash :: hash

definition compute_certificate_hash :: "sha \<Rightarrow> u64 \<Rightarrow> nat \<Rightarrow> nat \<Rightarrow> CompactionAnchor \<Rightarrow> hash" where
  "compute_certificate_hash sha epoch pruned_count retained_count anchor =
     sha (be8 epoch @ be8 (of_nat pruned_count) @ be8 (of_nat retained_count) @
          hash_bytes (an_terminal_hash anchor) @ be8 (an_anchor_sequence anchor) @ be8 (an_entry_count anchor))"

definition compact :: "sha \<Rightarrow> CompactionInput \<Rightarrow> CompactionResult" where
  "compact sha inp =
     (let total = length (ci_entries inp);
          pruned_count = (if ci_retain_count inp \<ge> total then 0 else total - ci_retain_count inp);
          retained_count = total - pruned_count;
          pruned = take pruned_count (ci_entries inp);
          anchor = CompactionAnchor_from_pruned sha pruned
      in \<lparr>cr_compaction_epoch = ci_compaction_epoch inp, cr_pruned_count = pruned_count,
          cr_retained_count = retained_count, cr_anchor = anchor,
          cr_certificate_hash =
            compute_certificate_hash sha (ci_compaction_epoch inp) pruned_count retained_count anchor\<rparr>)"

section \<open>The log of compactions\<close>

record CompactionRecord =
  cc_compaction_epoch :: u64
  cc_pruned_count :: u64
  cc_retained_count :: u64
  cc_anchor_sequence :: u64
  cc_anchor_terminal_hash :: hash
  cc_record_hash :: hash
  cc_prev_hash :: hash

definition record_bytes :: "u64 \<Rightarrow> u64 \<Rightarrow> u64 \<Rightarrow> u64 \<Rightarrow> hash \<Rightarrow> hash \<Rightarrow> bytes" where
  "record_bytes compaction_epoch pruned_count retained_count anchor_sequence anchor_terminal_hash prev =
     hash_bytes prev @ be8 compaction_epoch @ be8 pruned_count @ be8 retained_count @ be8 anchor_sequence @ hash_bytes anchor_terminal_hash"

definition compute_record_hash :: "sha \<Rightarrow> u64 \<Rightarrow> u64 \<Rightarrow> u64 \<Rightarrow> u64 \<Rightarrow> hash \<Rightarrow> hash \<Rightarrow> hash" where
  "compute_record_hash sha compaction_epoch pruned_count retained_count anchor_sequence anchor_terminal_hash prev = sha (record_bytes compaction_epoch pruned_count retained_count anchor_sequence anchor_terminal_hash prev)"

definition build_record_record :: "sha \<Rightarrow> u64 \<Rightarrow> u64 \<Rightarrow> u64 \<Rightarrow> u64 \<Rightarrow> hash \<Rightarrow> hash \<Rightarrow> CompactionRecord" where
  "build_record_record sha compaction_epoch pruned_count retained_count anchor_sequence anchor_terminal_hash prev_hash =
     \<lparr>cc_compaction_epoch = compaction_epoch, cc_pruned_count = pruned_count, cc_retained_count = retained_count, cc_anchor_sequence = anchor_sequence, cc_anchor_terminal_hash = anchor_terminal_hash,
      cc_record_hash = compute_record_hash sha compaction_epoch pruned_count retained_count anchor_sequence anchor_terminal_hash prev_hash, cc_prev_hash = prev_hash\<rparr>"

definition CompactionRecord_bytes_of :: "CompactionRecord \<Rightarrow> bytes" where
  "CompactionRecord_bytes_of r = record_bytes (cc_compaction_epoch r) (cc_pruned_count r) (cc_retained_count r) (cc_anchor_sequence r) (cc_anchor_terminal_hash r) (cc_prev_hash r)"

record CompactionLog =
  cl_records :: "CompactionRecord list"

definition CompactionLog_new :: CompactionLog where
  "CompactionLog_new = \<lparr>cl_records = []\<rparr>"

definition CompactionLog_last_hash :: "CompactionLog \<Rightarrow> hash" where
  "CompactionLog_last_hash l = last_hash cc_record_hash (cl_records l)"

definition CompactionLog_verify_chain :: "sha \<Rightarrow> CompactionLog \<Rightarrow> bool \<times> nat option" where
  "CompactionLog_verify_chain sha l =
     verify_from cc_prev_hash cc_record_hash (\<lambda>r. sha (CompactionRecord_bytes_of r)) 0 genesis (cl_records l)"

definition CompactionLog_record ::
  "sha \<Rightarrow> CompactionResult \<Rightarrow> CompactionLog \<Rightarrow> CompactionRecord \<times> CompactionLog" where
  "CompactionLog_record sha result l =
     (let rec = build_record_record sha (cr_compaction_epoch result) (of_nat (cr_pruned_count result))
                  (of_nat (cr_retained_count result)) (an_anchor_sequence (cr_anchor result))
                  (an_terminal_hash (cr_anchor result)) (CompactionLog_last_hash l)
      in (rec, l\<lparr>cl_records := cl_records l @ [rec]\<rparr>))"

definition CompactionLog_total_pruned :: "CompactionLog \<Rightarrow> u64" where
  "CompactionLog_total_pruned l = sum_list (map cc_pruned_count (cl_records l))"

definition CompactionLog_latest :: "CompactionLog \<Rightarrow> CompactionRecord option" where
  "CompactionLog_latest l = (if cl_records l = [] then None else Some (last (cl_records l)))"

section \<open>The log is tamper evident\<close>

lemma record_bytes_inj:
  "record_bytes c0 p1 r2 a3 a4 h = record_bytes c0' p1' r2' a3' a4' h' \<longleftrightarrow>
   c0 = c0' \<and> p1 = p1' \<and> r2 = r2' \<and> a3 = a3' \<and> a4 = a4' \<and> h = h'"
  by (auto simp: record_bytes_def enc_simps)

definition CompactionRecord_committed :: "CompactionRecord \<Rightarrow> u64 \<times> u64 \<times> u64 \<times> u64 \<times> hash" where
  "CompactionRecord_committed r = (cc_compaction_epoch r, cc_pruned_count r, cc_retained_count r, cc_anchor_sequence r, cc_anchor_terminal_hash r)"

interpretation record_chain: hash_log CompactionRecord_bytes_of cc_prev_hash cc_record_hash CompactionRecord_committed
  by unfold_locales (auto simp: CompactionRecord_bytes_of_def CompactionRecord_committed_def record_bytes_inj)

definition CompactionLog_ok :: "sha \<Rightarrow> CompactionLog \<Rightarrow> bool" where
  "CompactionLog_ok sha l \<longleftrightarrow> record_chain.ok sha (cl_records l)"

lemma CompactionLog_verify_iff: "CompactionLog_verify_chain sha l = (True, None) \<longleftrightarrow> CompactionLog_ok sha l"
  by (simp add: CompactionLog_verify_chain_def CompactionLog_ok_def verify_from_iff)

lemma CompactionLog_tamper_evident:
  assumes "CompactionLog_ok sha l" "CompactionLog_ok sha l'" "CompactionLog_last_hash l = CompactionLog_last_hash l'"
  shows "map CompactionRecord_committed (cl_records l) = map CompactionRecord_committed (cl_records l') \<or>
    forgery sha (CompactionRecord_bytes_of ` (set (cl_records l) \<union> set (cl_records l')))"
  using assms record_chain.tamper_evident by (simp add: CompactionLog_ok_def CompactionLog_last_hash_def)

lemma CompactionLog_ok_new [simp]: "CompactionLog_ok sha CompactionLog_new"
  by (simp add: CompactionLog_ok_def CompactionLog_new_def)

lemma CompactionLog_record_simps [simp]:
  "CompactionLog_ok sha (snd (CompactionLog_record sha result l)) \<longleftrightarrow> CompactionLog_ok sha l"
  "CompactionLog_total_pruned (snd (CompactionLog_record sha result l)) =
     CompactionLog_total_pruned l + of_nat (cr_pruned_count result)"
  by (simp_all add: CompactionLog_ok_def CompactionLog_record_def CompactionLog_last_hash_def
      build_record_record_def compute_record_hash_def CompactionRecord_bytes_of_def Let_def
      CompactionLog_total_pruned_def)

section \<open>The chain over the entries\<close>

lemma chain_from_simps [simp]:
  "chain_from sha acc [] = acc"
  "chain_from sha acc (es @ [e]) = sha (chain_bytes (chain_from sha acc es) e)"
  by (simp_all add: chain_from_def)

lemma chain_from_append: "chain_from sha acc (es @ fs) = chain_from sha (chain_from sha acc es) fs"
  by (simp add: chain_from_def)

lemma chain_bytes_inj: "chain_bytes a e = chain_bytes b f \<longleftrightarrow> a = b \<and> e = f"
  by (auto simp: chain_bytes_def enc_simps prod_eq_iff)

text \<open>The strings the chain hashes.\<close>

definition chained_strings :: "sha \<Rightarrow> entry list \<Rightarrow> bytes set" where
  "chained_strings sha es = {chain_bytes (chain_from sha genesis (take i es)) (es ! i) | i. i < length es}"

lemma chained_strings_snoc:
  "chained_strings sha (es @ [e]) = insert (chain_bytes (chain_from sha genesis es) e) (chained_strings sha es)"
proof -
  have "chained_strings sha xs = (\<lambda>i. chain_bytes (chain_from sha genesis (take i xs)) (xs ! i)) ` {..<length xs}" for xs
    by (auto simp: chained_strings_def)
  then show ?thesis by (simp add: lessThan_Suc nth_append cong: image_cong_simp)
qed

lemma chain_determines:
  assumes "chain_from sha genesis es = chain_from sha genesis fs"
  shows "es = fs \<or> forgery sha (chained_strings sha es \<union> chained_strings sha fs)"
  using assms
proof (induction es arbitrary: fs rule: rev_induct)
  case Nil
  show ?case
    using Nil by (cases fs rule: rev_cases) (auto simp: chained_strings_snoc forgery_def)
next
  case (snoc e es)
  note prems = snoc.prems and IH = snoc.IH
  show ?case
  proof (cases fs rule: rev_cases)
    case Nil
    with prems show ?thesis by (auto simp: chained_strings_snoc forgery_def)
  next
    case (snoc fs' f)
    let ?A = "chained_strings sha (es @ [e]) \<union> chained_strings sha fs"
    have sub: "chained_strings sha es \<union> chained_strings sha fs' \<subseteq> ?A"
      by (auto simp: snoc chained_strings_snoc)
    let ?x = "chain_bytes (chain_from sha genesis es) e" and ?y = "chain_bytes (chain_from sha genesis fs') f"
    have eq: "sha ?x = sha ?y" using prems by (simp add: snoc)
    show ?thesis
    proof (cases "?x = ?y")
      case False
      with eq have "forgery sha ?A"
        by (rule forgery_collision) (simp_all add: snoc chained_strings_snoc)
      then show ?thesis ..
    next
      case True
      then have "e = f" and "chain_from sha genesis es = chain_from sha genesis fs'"
        by (simp_all add: chain_bytes_inj)
      with IH [of fs'] sub show ?thesis by (auto simp: snoc dest: forgery_mono)
    qed
  qed
qed

section \<open>What a compaction keeps\<close>

lemma compact_counts:
  "cr_pruned_count (compact sha inp) = length (ci_entries inp) - ci_retain_count inp"
  "cr_retained_count (compact sha inp) = min (ci_retain_count inp) (length (ci_entries inp))"
  by (auto simp: compact_def Let_def)

lemma compact_epoch: "cr_compaction_epoch (compact sha inp) = ci_compaction_epoch inp"
  by (simp add: compact_def Let_def)

lemma compact_anchor:
  "cr_anchor (compact sha inp) =
     CompactionAnchor_from_pruned sha (take (length (ci_entries inp) - ci_retain_count inp) (ci_entries inp))"
  by (auto simp: compact_def Let_def)

lemma from_pruned_terminal: "an_terminal_hash (CompactionAnchor_from_pruned sha ps) = chain_from sha genesis ps"
  by (simp add: CompactionAnchor_from_pruned_def)

text \<open>
  Compacting what an earlier compaction kept: the new anchor starts from the genesis hash again, so it
  seals the entries dropped now and says nothing of those dropped before.
\<close>

lemma recompaction_forgets:
  assumes "inp = \<lparr>ci_entries = ps @ qs @ rs, ci_retain_count = length qs + length rs, ci_compaction_epoch = e\<rparr>"
    and "inp' = \<lparr>ci_entries = drop (cr_pruned_count (compact sha inp)) (ci_entries inp),
                 ci_retain_count = length rs, ci_compaction_epoch = e'\<rparr>"
  shows "cr_anchor (compact sha inp') = CompactionAnchor_from_pruned sha qs"
  by (simp add: assms compact_anchor compact_counts)

end
