(* ===== verification/Spsf_Verifier.thy ===== *)
theory Spsf_Verifier
  imports Spsf_Compactor
begin

text \<open>
  Gate 329, \<open>aegis-cl-psi/src/spsf_verifier.rs\<close>: the check of the entries that a compaction kept
  against its anchor.  The verdict is decided exactly; what verifies continues the chain of the anchor,
  so a compaction and a verification together give the terminal hash of the full list, and two rests
  that verify against one honest anchor with one terminal hash are equal or the hash was forged.
\<close>

section \<open>Verdicts\<close>

datatype VerificationVerdict = Verified | AnchorGap | EmptySuffix | NonMonotone | Fail

fun VerificationVerdict_byte :: "VerificationVerdict \<Rightarrow> u8" where
  "VerificationVerdict_byte Verified = 0"
| "VerificationVerdict_byte AnchorGap = 1"
| "VerificationVerdict_byte EmptySuffix = 2"
| "VerificationVerdict_byte NonMonotone = 3"
| "VerificationVerdict_byte Fail = 4"

lemma VerificationVerdict_byte_inj [simp]: "VerificationVerdict_byte x = VerificationVerdict_byte y \<longleftrightarrow> x = y"
  by (cases x; cases y) auto

definition VerificationVerdict_is_ok :: "VerificationVerdict \<Rightarrow> bool" where
  "VerificationVerdict_is_ok v = (v = Verified)"

record VerificationResult =
  vr_verdict :: VerificationVerdict
  vr_suffix_terminal_hash :: hash
  vr_verified_count :: nat
  vr_certificate_hash :: hash

definition compute_verification_certificate ::
  "sha \<Rightarrow> hash \<Rightarrow> u64 \<Rightarrow> hash \<Rightarrow> nat \<Rightarrow> VerificationVerdict \<Rightarrow> hash" where
  "compute_verification_certificate sha anchor_terminal anchor_seq suffix_terminal verified_count verdict =
     sha (hash_bytes anchor_terminal @ be8 anchor_seq @ hash_bytes suffix_terminal @
          be8 (of_nat verified_count) @ [VerificationVerdict_byte verdict])"

text \<open>The loop over neighbours that finds a number not above the one before.\<close>

fun strictly_ascending :: "entry list \<Rightarrow> bool" where
  "strictly_ascending (e # f # es) = (\<not> fst f \<le> fst e \<and> strictly_ascending (f # es))"
| "strictly_ascending _ = True"

text \<open>A refusal, with the certificate over the genesis hash and no entries.\<close>

definition refuse :: "sha \<Rightarrow> CompactionAnchor \<Rightarrow> VerificationVerdict \<Rightarrow> VerificationResult" where
  "refuse sha anchor verdict =
     \<lparr>vr_verdict = verdict, vr_suffix_terminal_hash = genesis, vr_verified_count = 0,
      vr_certificate_hash =
        compute_verification_certificate sha (an_terminal_hash anchor) (an_anchor_sequence anchor) genesis 0 verdict\<rparr>"

definition verify_suffix :: "sha \<Rightarrow> CompactionAnchor \<Rightarrow> entry list \<Rightarrow> VerificationResult" where
  "verify_suffix sha anchor suffix =
     (if suffix = [] then refuse sha anchor EmptySuffix
      else if \<not> strictly_ascending suffix then refuse sha anchor NonMonotone
      else if an_entry_count anchor > 0 \<and> fst (hd suffix) \<noteq> an_anchor_sequence anchor + 1
      then refuse sha anchor AnchorGap
      else
        let suffix_terminal = chain_from sha (an_terminal_hash anchor) suffix
        in \<lparr>vr_verdict = Verified, vr_suffix_terminal_hash = suffix_terminal,
            vr_verified_count = length suffix,
            vr_certificate_hash =
              compute_verification_certificate sha (an_terminal_hash anchor) (an_anchor_sequence anchor)
                suffix_terminal (length suffix) Verified\<rparr>)"

section \<open>The log of verifications\<close>

record VerificationRecord =
  vc_anchor_sequence :: u64
  vc_suffix_count :: nat
  vc_verdict :: VerificationVerdict
  vc_suffix_terminal_hash :: hash
  vc_certificate_hash :: hash
  vc_record_hash :: hash
  vc_prev_hash :: hash

definition verification_bytes :: "u64 \<Rightarrow> nat \<Rightarrow> VerificationVerdict \<Rightarrow> hash \<Rightarrow> hash \<Rightarrow> bytes" where
  "verification_bytes anchor_sequence suffix_count verdict certificate_hash prev =
     hash_bytes prev @ be8 anchor_sequence @ be8 (of_nat suffix_count) @ [VerificationVerdict_byte verdict] @ hash_bytes certificate_hash"

definition compute_verification_record_hash :: "sha \<Rightarrow> u64 \<Rightarrow> nat \<Rightarrow> VerificationVerdict \<Rightarrow> hash \<Rightarrow> hash \<Rightarrow> hash" where
  "compute_verification_record_hash sha anchor_sequence suffix_count verdict certificate_hash prev = sha (verification_bytes anchor_sequence suffix_count verdict certificate_hash prev)"

definition VerificationRecord_bytes_of :: "VerificationRecord \<Rightarrow> bytes" where
  "VerificationRecord_bytes_of r = verification_bytes (vc_anchor_sequence r) (vc_suffix_count r) (vc_verdict r) (vc_certificate_hash r) (vc_prev_hash r)"

record VerificationLog =
  vl_records :: "VerificationRecord list"

definition VerificationLog_new :: VerificationLog where
  "VerificationLog_new = \<lparr>vl_records = []\<rparr>"

definition VerificationLog_last_hash :: "VerificationLog \<Rightarrow> hash" where
  "VerificationLog_last_hash l = last_hash vc_record_hash (vl_records l)"

definition VerificationLog_verify_chain :: "sha \<Rightarrow> VerificationLog \<Rightarrow> bool \<times> nat option" where
  "VerificationLog_verify_chain sha l =
     verify_from vc_prev_hash vc_record_hash (\<lambda>r. sha (VerificationRecord_bytes_of r)) 0 genesis (vl_records l)"

definition VerificationLog_append ::
  "sha \<Rightarrow> CompactionAnchor \<Rightarrow> VerificationResult \<Rightarrow> VerificationLog \<Rightarrow> VerificationRecord \<times> VerificationLog" where
  "VerificationLog_append sha anchor result l =
     (let prev = VerificationLog_last_hash l;
          rec = \<lparr>vc_anchor_sequence = an_anchor_sequence anchor, vc_suffix_count = vr_verified_count result,
                 vc_verdict = vr_verdict result, vc_suffix_terminal_hash = vr_suffix_terminal_hash result,
                 vc_certificate_hash = vr_certificate_hash result,
                 vc_record_hash = compute_verification_record_hash sha (an_anchor_sequence anchor)
                   (vr_verified_count result) (vr_verdict result) (vr_certificate_hash result) prev,
                 vc_prev_hash = prev\<rparr>
      in (rec, l\<lparr>vl_records := vl_records l @ [rec]\<rparr>))"

definition VerificationLog_verified_count :: "VerificationLog \<Rightarrow> nat" where
  "VerificationLog_verified_count l = length (filter (\<lambda>r. vc_verdict r = Verified) (vl_records l))"

definition VerificationLog_failed_count :: "VerificationLog \<Rightarrow> nat" where
  "VerificationLog_failed_count l = length (filter (\<lambda>r. vc_verdict r \<noteq> Verified) (vl_records l))"

definition VerificationLog_latest :: "VerificationLog \<Rightarrow> VerificationRecord option" where
  "VerificationLog_latest l = (if vl_records l = [] then None else Some (last (vl_records l)))"

section \<open>The log is tamper evident\<close>

lemma verification_bytes_inj:
  "verification_bytes a0 s1 v2 c3 h = verification_bytes a0' s1' v2' c3' h' \<longleftrightarrow>
   a0 = a0' \<and> (of_nat s1 :: u64) = (of_nat s1' :: u64) \<and> v2 = v2' \<and> c3 = c3' \<and> h = h'"
  by (auto simp: verification_bytes_def enc_simps)

definition VerificationRecord_committed :: "VerificationRecord \<Rightarrow> u64 \<times> u64 \<times> VerificationVerdict \<times> hash" where
  "VerificationRecord_committed r = (vc_anchor_sequence r, (of_nat (vc_suffix_count r) :: u64), vc_verdict r, vc_certificate_hash r)"

interpretation verification_chain: hash_log VerificationRecord_bytes_of vc_prev_hash vc_record_hash VerificationRecord_committed
  by unfold_locales (auto simp: VerificationRecord_bytes_of_def VerificationRecord_committed_def verification_bytes_inj)

definition VerificationLog_ok :: "sha \<Rightarrow> VerificationLog \<Rightarrow> bool" where
  "VerificationLog_ok sha l \<longleftrightarrow> verification_chain.ok sha (vl_records l)"

lemma VerificationLog_verify_iff: "VerificationLog_verify_chain sha l = (True, None) \<longleftrightarrow> VerificationLog_ok sha l"
  by (simp add: VerificationLog_verify_chain_def VerificationLog_ok_def verify_from_iff)

lemma VerificationLog_tamper_evident:
  assumes "VerificationLog_ok sha l" "VerificationLog_ok sha l'" "VerificationLog_last_hash l = VerificationLog_last_hash l'"
  shows "map VerificationRecord_committed (vl_records l) = map VerificationRecord_committed (vl_records l') \<or>
    forgery sha (VerificationRecord_bytes_of ` (set (vl_records l) \<union> set (vl_records l')))"
  using assms verification_chain.tamper_evident by (simp add: VerificationLog_ok_def VerificationLog_last_hash_def)

lemma VerificationLog_ok_new [simp]: "VerificationLog_ok sha VerificationLog_new"
  by (simp add: VerificationLog_ok_def VerificationLog_new_def)

lemma VerificationLog_append_simps [simp]:
  "VerificationLog_ok sha (snd (VerificationLog_append sha anchor result l)) \<longleftrightarrow> VerificationLog_ok sha l"
  "VerificationLog_verified_count (snd (VerificationLog_append sha anchor result l)) =
     VerificationLog_verified_count l + (if vr_verdict result = Verified then 1 else 0)"
  "VerificationLog_failed_count (snd (VerificationLog_append sha anchor result l)) =
     VerificationLog_failed_count l + (if vr_verdict result = Verified then 0 else 1)"
  by (simp_all add: VerificationLog_ok_def VerificationLog_append_def VerificationLog_last_hash_def
      compute_verification_record_hash_def VerificationRecord_bytes_of_def Let_def
      VerificationLog_verified_count_def VerificationLog_failed_count_def)

section \<open>The verdict\<close>

lemma strictly_ascending_iff: "strictly_ascending es \<longleftrightarrow> sorted_wrt (<) (map fst es)"
proof (induction es rule: strictly_ascending.induct)
  case (1 e f es)
  then show ?case by (auto simp: not_le)
qed auto

definition gap :: "CompactionAnchor \<Rightarrow> entry list \<Rightarrow> bool" where
  "gap anchor suffix \<longleftrightarrow> an_entry_count anchor \<noteq> 0 \<and> fst (hd suffix) \<noteq> an_anchor_sequence anchor + 1"

lemma verify_verdict:
  "vr_verdict (verify_suffix sha anchor suffix) =
     (if suffix = [] then EmptySuffix
      else if \<not> sorted_wrt (<) (map fst suffix) then NonMonotone
      else if gap anchor suffix then AnchorGap
      else Verified)"
  by (auto simp: verify_suffix_def refuse_def gap_def strictly_ascending_iff Let_def word_neq_0_conv)

lemma verify_verified:
  "vr_verdict (verify_suffix sha anchor suffix) = Verified \<Longrightarrow>
   vr_suffix_terminal_hash (verify_suffix sha anchor suffix) = chain_from sha (an_terminal_hash anchor) suffix \<and>
   vr_verified_count (verify_suffix sha anchor suffix) = length suffix"
  by (auto simp: verify_suffix_def refuse_def Let_def split: if_splits)

section \<open>Verifying what a compaction keeps\<close>

lemma verify_compacted:
  assumes "sorted_wrt (<) (map fst (ci_entries inp))" and "length (ci_entries inp) < 2 ^ 64"
    and n: "n = length (ci_entries inp) - ci_retain_count inp"
  shows "vr_verdict (verify_suffix sha (cr_anchor (compact sha inp)) (drop n (ci_entries inp))) =
    (if drop n (ci_entries inp) = [] then EmptySuffix
     else if 0 < n \<and> fst (ci_entries inp ! n) \<noteq> fst (ci_entries inp ! (n - 1)) + 1 then AnchorGap
     else Verified)"
proof -
  let ?es = "ci_entries inp" and ?c = "compact sha inp"
  have sorted: "sorted_wrt (<) (map fst (drop n ?es))"
    using assms(1) by (simp add: drop_map [symmetric] sorted_wrt_drop)
  have anchor: "cr_anchor ?c = CompactionAnchor_from_pruned sha (take n ?es)"
    by (simp add: compact_anchor n)
  have count: "an_entry_count (cr_anchor ?c) = of_nat n"
    by (auto simp: anchor CompactionAnchor_from_pruned_def n)
  have "(of_nat n :: u64) \<noteq> 0 \<longleftrightarrow> 0 < n"
    using assms(2) n by (auto simp: unat_of_nat_small simp flip: unat_eq_0)
  moreover have "an_anchor_sequence (cr_anchor ?c) = fst (?es ! (n - 1))" if "0 < n"
    using that last_conv_nth [of "take n ?es"]
    by (auto simp: anchor n CompactionAnchor_from_pruned_def min_absorb2)
  ultimately have "drop n ?es \<noteq> [] \<Longrightarrow>
      gap (cr_anchor ?c) (drop n ?es) \<longleftrightarrow> 0 < n \<and> fst (?es ! n) \<noteq> fst (?es ! (n - 1)) + 1"
    unfolding gap_def count by (auto simp: hd_drop_conv_nth)
  then show ?thesis
    unfolding verify_verdict using sorted by (cases "drop n ?es = []") simp_all
qed

lemma chain_compacted:
  "n = length (ci_entries inp) - ci_retain_count inp \<Longrightarrow>
   chain_from sha (an_terminal_hash (cr_anchor (compact sha inp))) (drop n (ci_entries inp)) =
     chain_from sha genesis (ci_entries inp)"
  by (simp add: compact_anchor from_pruned_terminal flip: chain_from_append)

section \<open>Properties\<close>

text \<open>
  C15.  Compaction keeps the proof of history.  Of a list of entries with ascending numbers, the entries
  kept verify against the anchor of those dropped, unless nothing is kept or the numbers skip at the
  cut; and if they verify, the terminal hash is that of the chain over the whole list and the count
  that of the entries kept.
\<close>

theorem compaction_keeps_history:
  assumes "sorted_wrt (<) (map fst (ci_entries inp))" and "length (ci_entries inp) < 2 ^ 64"
  shows "let c = compact sha inp; n = cr_pruned_count c; kept = drop n (ci_entries inp);
             v = verify_suffix sha (cr_anchor c) kept
    in vr_verdict v =
         (if kept = [] then EmptySuffix
          else if 0 < n \<and> fst (ci_entries inp ! n) \<noteq> fst (ci_entries inp ! (n - 1)) + 1 then AnchorGap
          else Verified) \<and>
       length kept = min (ci_retain_count inp) (length (ci_entries inp)) \<and>
       (vr_verdict v = Verified \<longrightarrow>
          vr_suffix_terminal_hash v = chain_from sha genesis (ci_entries inp) \<and>
          vr_verified_count v = cr_retained_count c)"
proof -
  let ?n = "length (ci_entries inp) - ci_retain_count inp"
  show ?thesis
    using verify_compacted [OF assms, of ?n sha] chain_compacted [of ?n inp sha]
      verify_verified [of sha "cr_anchor (compact sha inp)" "drop ?n (ci_entries inp)"]
    unfolding Let_def compact_counts by (intro conjI impI) (simp only: refl, auto)
qed

lemma compaction_keeps_history_witness:
  "let inp = \<lparr>ci_entries = [(0, 5), (1, 6), (2, 7)], ci_retain_count = 2, ci_compaction_epoch = 4\<rparr>;
       sha = \<lambda>b. of_nat (length b); c = compact sha inp;
       v = verify_suffix sha (cr_anchor c) (drop (cr_pruned_count c) (ci_entries inp))
   in vr_verdict v = Verified \<and> vr_suffix_terminal_hash v = chain_from sha genesis (ci_entries inp)"
  using compaction_keeps_history
    [of "\<lparr>ci_entries = [(0, 5), (1, 6), (2, 7)], ci_retain_count = 2, ci_compaction_epoch = 4\<rparr>" "\<lambda>b. of_nat (length b)"]
  by (simp add: Let_def compact_counts)

text \<open>
  C16.  The verdict and what it is worth.  Every verdict is decided by the order of the numbers and the
  gap to the anchor, and \<open>Fail\<close> never occurs: nothing is compared with the state hashes.  So what a
  verification says of them is in its terminal hash: if two lists verify against anchors of two lists
  of dropped entries, with one terminal hash, then all the entries are the same, dropped and kept, or
  the hash function was forged on them.
\<close>

theorem suffix_tamper_evident:
  "vr_verdict (verify_suffix sha anchor suffix) =
     (if suffix = [] then EmptySuffix
      else if \<not> sorted_wrt (<) (map fst suffix) then NonMonotone
      else if an_entry_count anchor \<noteq> 0 \<and> fst (hd suffix) \<noteq> an_anchor_sequence anchor + 1 then AnchorGap
      else Verified) \<and>
   (let v = verify_suffix sha (CompactionAnchor_from_pruned sha ps) suffix;
        v' = verify_suffix sha (CompactionAnchor_from_pruned sha ps') suffix'
    in vr_verdict v = Verified \<and> vr_verdict v' = Verified \<and>
       vr_suffix_terminal_hash v = vr_suffix_terminal_hash v' \<longrightarrow>
       ps @ suffix = ps' @ suffix' \<or>
       forgery sha (chained_strings sha (ps @ suffix) \<union> chained_strings sha (ps' @ suffix')))"
proof -
  have "chain_from sha genesis (ps @ suffix) = chain_from sha genesis (ps' @ suffix')"
    if "vr_verdict (verify_suffix sha (CompactionAnchor_from_pruned sha ps) suffix) = Verified"
      "vr_verdict (verify_suffix sha (CompactionAnchor_from_pruned sha ps') suffix') = Verified"
      "vr_suffix_terminal_hash (verify_suffix sha (CompactionAnchor_from_pruned sha ps) suffix) =
       vr_suffix_terminal_hash (verify_suffix sha (CompactionAnchor_from_pruned sha ps') suffix')"
    using verify_verified [OF that(1)] verify_verified [OF that(2)] that(3)
    by (simp add: from_pruned_terminal chain_from_append)
  then show ?thesis
    using chain_determines [of sha "ps @ suffix" "ps' @ suffix'"]
    unfolding verify_verdict gap_def Let_def by blast
qed

lemma suffix_tamper_evident_witness:
  "let v = verify_suffix (\<lambda>_. 1) (CompactionAnchor_from_pruned (\<lambda>_. 1) [(0, 5)]) [(1, 6)]
   in vr_verdict v = Verified \<and> vr_suffix_terminal_hash v = 1 \<and>
      ([(0, 5)] @ [(1, 6 :: hash)] = ([] :: entry list) @ [(0, 5), (1, 6)] \<or>
       forgery (\<lambda>_. 1) (chained_strings (\<lambda>_. 1) ([(0, 5)] @ [(1, 6)]) \<union> chained_strings (\<lambda>_. 1) ([] @ [(0, 5), (1, 6)])))"
  using suffix_tamper_evident [of "\<lambda>_. 1" "CompactionAnchor_from_pruned (\<lambda>_. 1) [(0, 5)]" "[(1, 6)]" "[(0, 5)]" "[]" "[(0, 5), (1, 6)]"]
  by (simp add: Let_def verify_suffix_def refuse_def CompactionAnchor_from_pruned_def chain_from_def)

end
