(* ===== verification/Node_State_Machine.thy ===== *)
theory Node_State_Machine
  imports Hash_Chain
begin

text \<open>
  Gate 262, \<open>aegis-cl-psi/src/node_state_machine.rs\<close>: the life cycle of a node.  The table of the
  documentation is the step relation \<open>node_edge\<close>; \<open>can_transition_to\<close> is proved to decide it, and the
  histories a node can have are proved to be exactly the paths of the relation from \<open>Initializing\<close>.
\<close>

section \<open>States\<close>

datatype NodeState = Initializing | Active | Degraded | Recovery | Halted

fun NodeState_as_u8 :: "NodeState \<Rightarrow> u8" where
  "NodeState_as_u8 Initializing = 0"
| "NodeState_as_u8 Active = 1"
| "NodeState_as_u8 Degraded = 2"
| "NodeState_as_u8 Recovery = 3"
| "NodeState_as_u8 Halted = 4"

lemma NodeState_as_u8_inj [simp]: "NodeState_as_u8 x = NodeState_as_u8 y \<longleftrightarrow> x = y"
  by (cases x; cases y) auto

definition NodeState_is_terminal :: "NodeState \<Rightarrow> bool" where
  "NodeState_is_terminal s = (s = Halted)"

definition NodeState_is_operational :: "NodeState \<Rightarrow> bool" where
  "NodeState_is_operational s = (s = Active \<or> s = Recovery)"

fun NodeState_can_transition_to :: "NodeState \<Rightarrow> NodeState \<Rightarrow> bool" where
  "NodeState_can_transition_to Initializing Active = True"
| "NodeState_can_transition_to Active Degraded = True"
| "NodeState_can_transition_to Active Halted = True"
| "NodeState_can_transition_to Degraded Recovery = True"
| "NodeState_can_transition_to Degraded Halted = True"
| "NodeState_can_transition_to Recovery Active = True"
| "NodeState_can_transition_to Recovery Degraded = True"
| "NodeState_can_transition_to _ _ = False"

definition decode_state :: "u8 \<Rightarrow> NodeState option" where
  "decode_state b =
     (if b = 0 then Some Initializing else if b = 1 then Some Active else if b = 2 then Some Degraded
      else if b = 3 then Some Recovery else if b = 4 then Some Halted else None)"

lemma decode_state_as_u8 [simp]: "decode_state (NodeState_as_u8 s) = Some s"
  by (cases s) (simp_all add: decode_state_def)

text \<open>The adjacency that the documentation of the module gives.\<close>

inductive node_edge :: "NodeState \<Rightarrow> NodeState \<Rightarrow> bool" where
  boot: "node_edge Initializing Active"
| degrade: "node_edge Active Degraded"
| halt: "node_edge Active Halted"
| recover: "node_edge Degraded Recovery"
| fail: "node_edge Degraded Halted"
| resume: "node_edge Recovery Active"
| relapse: "node_edge Recovery Degraded"

inductive_cases node_edgeE: "node_edge s t"
inductive_simps node_edge_from [simp]:
  "node_edge Initializing t" "node_edge Active t" "node_edge Degraded t" "node_edge Recovery t" "node_edge Halted t"

lemma can_transition_iff: "NodeState_can_transition_to s t \<longleftrightarrow> node_edge s t"
  by (cases s; cases t) simp_all

section \<open>Records, history\<close>

record NodeRecord =
  nr_node_id :: u32
  nr_from_state :: NodeState
  nr_to_state :: NodeState
  nr_epoch :: u64
  nr_reason :: string
  nr_record_hash :: hash
  nr_prev_hash :: hash

definition node_bytes :: "u32 \<Rightarrow> NodeState \<Rightarrow> NodeState \<Rightarrow> u64 \<Rightarrow> hash \<Rightarrow> bytes" where
  "node_bytes node_id from_state to_state epoch prev =
     hash_bytes prev @ be4 node_id @ [NodeState_as_u8 from_state] @ [NodeState_as_u8 to_state] @ be8 epoch"

definition compute_record_hash :: "sha \<Rightarrow> u32 \<Rightarrow> NodeState \<Rightarrow> NodeState \<Rightarrow> u64 \<Rightarrow> hash \<Rightarrow> hash" where
  "compute_record_hash sha node_id from_state to_state epoch prev = sha (node_bytes node_id from_state to_state epoch prev)"

definition NodeRecord_bytes_of :: "NodeRecord \<Rightarrow> bytes" where
  "NodeRecord_bytes_of r = node_bytes (nr_node_id r) (nr_from_state r) (nr_to_state r) (nr_epoch r) (nr_prev_hash r)"

record NodeHistory =
  nh_node_id :: u32
  nh_current_state :: NodeState
  nh_records :: "NodeRecord list"

definition NodeHistory_new :: "u32 \<Rightarrow> NodeHistory" where
  "NodeHistory_new node_id = \<lparr>nh_node_id = node_id, nh_current_state = Initializing, nh_records = []\<rparr>"

datatype TransitionError = InvalidTransition NodeState NodeState | TerminalState | StaleEpoch

definition NodeHistory_last_hash :: "NodeHistory \<Rightarrow> hash" where
  "NodeHistory_last_hash l = last_hash nr_record_hash (nh_records l)"

definition NodeHistory_verify_chain :: "sha \<Rightarrow> NodeHistory \<Rightarrow> bool \<times> nat option" where
  "NodeHistory_verify_chain sha l =
     verify_from nr_prev_hash nr_record_hash (\<lambda>r. sha (NodeRecord_bytes_of r)) 0 genesis (nh_records l)"

definition NodeHistory_transition ::
  "sha \<Rightarrow> NodeState \<Rightarrow> u64 \<Rightarrow> string \<Rightarrow> NodeHistory \<Rightarrow> (TransitionError + NodeRecord) \<times> NodeHistory" where
  "NodeHistory_transition sha to_state epoch reason h =
     (if NodeState_is_terminal (nh_current_state h) then (Inl TerminalState, h)
      else if \<not> NodeState_can_transition_to (nh_current_state h) to_state
      then (Inl (InvalidTransition (nh_current_state h) to_state), h)
      else if nh_records h \<noteq> [] \<and> epoch < nr_epoch (last (nh_records h)) then (Inl StaleEpoch, h)
      else
        let prev_hash = NodeHistory_last_hash h;
            r = \<lparr>nr_node_id = nh_node_id h, nr_from_state = nh_current_state h, nr_to_state = to_state,
                 nr_epoch = epoch, nr_reason = reason,
                 nr_record_hash = compute_record_hash sha (nh_node_id h) (nh_current_state h) to_state epoch prev_hash,
                 nr_prev_hash = prev_hash\<rparr>
        in (Inr r, h\<lparr>nh_current_state := to_state, nh_records := nh_records h @ [r]\<rparr>))"

definition NodeHistory_degraded_count :: "NodeHistory \<Rightarrow> nat" where
  "NodeHistory_degraded_count h = length (filter (\<lambda>r. nr_to_state r = Degraded) (nh_records h))"

definition NodeHistory_recovery_count :: "NodeHistory \<Rightarrow> nat" where
  "NodeHistory_recovery_count h =
     length (filter (\<lambda>r. nr_to_state r = Active \<and> nr_from_state r = Recovery) (nh_records h))"

section \<open>The history is tamper evident\<close>

text \<open>The reason of a transition is not hashed.\<close>

lemma node_bytes_inj:
  "node_bytes n0 f1 t2 e3 h = node_bytes n0' f1' t2' e3' h' \<longleftrightarrow>
   n0 = n0' \<and> f1 = f1' \<and> t2 = t2' \<and> e3 = e3' \<and> h = h'"
  by (auto simp: node_bytes_def enc_simps)

definition NodeRecord_committed :: "NodeRecord \<Rightarrow> u32 \<times> NodeState \<times> NodeState \<times> u64" where
  "NodeRecord_committed r = (nr_node_id r, nr_from_state r, nr_to_state r, nr_epoch r)"

interpretation node_chain: hash_log NodeRecord_bytes_of nr_prev_hash nr_record_hash NodeRecord_committed
  by unfold_locales (auto simp: NodeRecord_bytes_of_def NodeRecord_committed_def node_bytes_inj)

definition NodeHistory_ok :: "sha \<Rightarrow> NodeHistory \<Rightarrow> bool" where
  "NodeHistory_ok sha l \<longleftrightarrow> node_chain.ok sha (nh_records l)"

lemma NodeHistory_verify_iff: "NodeHistory_verify_chain sha l = (True, None) \<longleftrightarrow> NodeHistory_ok sha l"
  by (simp add: NodeHistory_verify_chain_def NodeHistory_ok_def verify_from_iff)

lemma NodeHistory_tamper_evident:
  assumes "NodeHistory_ok sha l" "NodeHistory_ok sha l'" "NodeHistory_last_hash l = NodeHistory_last_hash l'"
  shows "map NodeRecord_committed (nh_records l) = map NodeRecord_committed (nh_records l') \<or>
    forgery sha (NodeRecord_bytes_of ` (set (nh_records l) \<union> set (nh_records l')))"
  using assms node_chain.tamper_evident by (simp add: NodeHistory_ok_def NodeHistory_last_hash_def)


section \<open>Histories are paths\<close>

definition path_of :: "NodeHistory \<Rightarrow> NodeState list" where
  "path_of h = map nr_to_state (nh_records h)"

definition attempt :: "sha \<Rightarrow> NodeState \<times> u64 \<times> string \<Rightarrow> NodeHistory \<Rightarrow> NodeHistory" where
  "attempt sha a h = (case a of (s, e, reason) \<Rightarrow> snd (NodeHistory_transition sha s e reason h))"

definition admissible :: "NodeHistory \<Rightarrow> NodeState \<Rightarrow> u64 \<Rightarrow> bool" where
  "admissible h s e \<longleftrightarrow> node_edge (nh_current_state h) s \<and> (nh_records h \<noteq> [] \<longrightarrow> nr_epoch (last (nh_records h)) \<le> e)"

definition next_record :: "sha \<Rightarrow> NodeHistory \<Rightarrow> NodeState \<Rightarrow> u64 \<Rightarrow> NodeRecord \<Rightarrow> bool" where
  "next_record sha h s e r \<longleftrightarrow>
     nr_from_state r = nh_current_state h \<and> nr_to_state r = s \<and> nr_epoch r = e \<and>
     nr_record_hash r = sha (NodeRecord_bytes_of r) \<and> nr_prev_hash r = NodeHistory_last_hash h"

lemma transition_outcome:
  "(case NodeHistory_transition sha s e reason h of
      (Inl err, h') \<Rightarrow> h' = h \<and> \<not> admissible h s e
    | (Inr r, h') \<Rightarrow> admissible h s e \<and>
        h' = h\<lparr>nh_current_state := s, nh_records := nh_records h @ [r]\<rparr> \<and>
        next_record sha h s e r)"
  by (cases "nh_current_state h")
    (auto simp: NodeHistory_transition_def admissible_def can_transition_iff NodeState_is_terminal_def
      Let_def compute_record_hash_def NodeRecord_bytes_of_def next_record_def not_less)

lemma transition_cases:
  assumes "P h"
    and "\<And>r. admissible h (fst a) (fst (snd a)) \<Longrightarrow>
      next_record sha h (fst a) (fst (snd a)) r \<Longrightarrow>
      P (h\<lparr>nh_current_state := fst a, nh_records := nh_records h @ [r]\<rparr>)"
  shows "P (attempt sha a h)"
  using transition_outcome [where sha = sha and s = "fst a" and e = "fst (snd a)" and reason = "snd (snd a)" and h = h] assms
  by (auto simp: attempt_def split: prod.splits sum.splits)

text \<open>What holds of every history: a path, epochs that never go back, and every recovery paid for.\<close>

definition history_ok :: "sha \<Rightarrow> NodeHistory \<Rightarrow> bool" where
  "history_ok sha h \<longleftrightarrow>
     successively node_edge (Initializing # path_of h) \<and>
     nh_current_state h = last (Initializing # path_of h) \<and>
     sorted (map nr_epoch (nh_records h)) \<and>
     NodeHistory_ok sha h \<and>
     NodeHistory_recovery_count h + (if nh_current_state h \<in> {Degraded, Recovery} then 1 else 0)
       \<le> NodeHistory_degraded_count h"

lemma sorted_snoc: "sorted (xs @ [y]) \<longleftrightarrow> sorted xs \<and> (xs \<noteq> [] \<longrightarrow> last xs \<le> y)"
proof (cases xs rule: rev_cases)
  case (snoc ys x)
  then show ?thesis by (force simp: sorted_append)
qed simp

lemma successively_snoc: "successively P (xs @ [y]) \<longleftrightarrow> successively P xs \<and> (xs \<noteq> [] \<longrightarrow> P (last xs) y)"
  by (auto simp: successively_append_iff)

lemma history_ok_attempt: "history_ok sha h \<Longrightarrow> history_ok sha (attempt sha a h)"
proof (rule transition_cases [where P = "history_ok sha"])
  assume ok: "history_ok sha h" and adm: "admissible h (fst a) (fst (snd a))"
  fix r assume "next_record sha h (fst a) (fst (snd a)) r"
  then have f: "nr_from_state r = nh_current_state h" "nr_to_state r = fst a" "nr_epoch r = fst (snd a)"
    "nr_record_hash r = sha (NodeRecord_bytes_of r)" "nr_prev_hash r = NodeHistory_last_hash h"
    by (simp_all add: next_record_def)
  let ?h = "h\<lparr>nh_current_state := fst a, nh_records := nh_records h @ [r]\<rparr>"
  have edge: "node_edge (nh_current_state h) (fst a)" using adm by (simp add: admissible_def)
  have path: "Initializing # path_of ?h = (Initializing # path_of h) @ [fst a]"
    by (simp add: path_of_def f)
  have "successively node_edge (Initializing # path_of ?h) \<and> fst a = last (Initializing # path_of ?h)"
    unfolding path successively_snoc last_snoc using ok edge by (simp add: history_ok_def)
  moreover have "sorted (map nr_epoch (nh_records h @ [r]))"
    using ok adm by (auto simp: history_ok_def admissible_def sorted_snoc f last_map)
  moreover have "NodeHistory_ok sha ?h"
    using ok by (simp add: history_ok_def NodeHistory_ok_def f NodeHistory_last_hash_def)
  moreover have
    "NodeHistory_recovery_count ?h = NodeHistory_recovery_count h + (if nh_current_state h = Recovery \<and> fst a = Active then 1 else 0)"
    "NodeHistory_degraded_count ?h = NodeHistory_degraded_count h + (if fst a = Degraded then 1 else 0)"
    by (simp_all add: NodeHistory_recovery_count_def NodeHistory_degraded_count_def f)
  then have "NodeHistory_recovery_count ?h + (if fst a \<in> {Degraded, Recovery} then 1 else 0) \<le> NodeHistory_degraded_count ?h"
    using ok edge by (cases rule: node_edgeE) (auto simp: history_ok_def)
  ultimately show "history_ok sha ?h"
    unfolding history_ok_def by simp
qed

interpretation history_machine: invariant_machine "attempt sha" "history_ok sha" for sha
  by unfold_locales (rule history_ok_attempt)

lemma history_ok_new: "history_ok sha (NodeHistory_new i)"
  by (simp add: history_ok_def NodeHistory_new_def path_of_def NodeHistory_ok_def
      NodeHistory_recovery_count_def NodeHistory_degraded_count_def)

text \<open>Every path is the history of a run, here of one whose epochs never change.\<close>

lemma run_path:
  assumes "successively node_edge (nh_current_state h # path)"
    and "\<forall>r \<in> set (nh_records h). nr_epoch r = e"
  shows "path_of (run (attempt sha) (map (\<lambda>s. (s, e, reason)) path) h) = path_of h @ path"
  using assms
proof (induction path arbitrary: h)
  case Nil
  then show ?case by simp
next
  case (Cons s path)
  have adm: "admissible h s e" using Cons.prems by (auto simp: admissible_def)
  obtain r where r: "attempt sha (s, e, reason) h = h\<lparr>nh_current_state := s, nh_records := nh_records h @ [r]\<rparr>"
      "nr_to_state r = s" "nr_epoch r = e"
    using transition_outcome [where sha = sha and s = s and e = e and reason = reason and h = h] adm
    by (cases "NodeHistory_transition sha s e reason h") (fastforce simp: attempt_def next_record_def split: sum.splits)
  have "path_of (run (attempt sha) (map (\<lambda>s. (s, e, reason)) path) (attempt sha (s, e, reason) h)) =
      path_of (attempt sha (s, e, reason) h) @ path"
    using Cons.prems r by (intro Cons.IH) (auto simp: successively_Cons)
  then show ?case by (simp add: r path_of_def)
qed

text \<open>A path has nothing behind \<open>Halted\<close>.\<close>

lemma halted_last: "successively node_edge (s # path) \<Longrightarrow> Halted \<notin> set (butlast (s # path))"
  by (induction path arbitrary: s) auto

section \<open>Properties\<close>

text \<open>
  C17.  The life of a node.  After any attempts, its history is a path of the documented adjacency from
  \<open>Initializing\<close> to its current state, with nothing behind \<open>Halted\<close>, epochs that never go back, a
  chain that verifies, and no more recoveries than degradations, one fewer while degraded or
  recovering.  Conversely every such path is the history of some attempts.
\<close>

theorem node_lifecycle_exact:
  "(let h = run (attempt sha) attempts (NodeHistory_new i)
    in successively node_edge (Initializing # path_of h) \<and>
       nh_current_state h = last (Initializing # path_of h) \<and>
       Halted \<notin> set (butlast (path_of h)) \<and>
       sorted (map nr_epoch (nh_records h)) \<and>
       NodeHistory_verify_chain sha h = (True, None) \<and>
       NodeHistory_recovery_count h + (if nh_current_state h \<in> {Degraded, Recovery} then 1 else 0)
         \<le> NodeHistory_degraded_count h) \<and>
   (successively node_edge (Initializing # path) \<longrightarrow>
      (\<exists>attempts. path_of (run (attempt sha) attempts (NodeHistory_new i)) = path))"
proof (intro conjI impI)
  have "history_ok sha (run (attempt sha) attempts (NodeHistory_new i))"
    by (rule history_machine.run_inv) (rule history_ok_new)
  then show "let h = run (attempt sha) attempts (NodeHistory_new i)
    in successively node_edge (Initializing # path_of h) \<and>
       nh_current_state h = last (Initializing # path_of h) \<and>
       Halted \<notin> set (butlast (path_of h)) \<and>
       sorted (map nr_epoch (nh_records h)) \<and>
       NodeHistory_verify_chain sha h = (True, None) \<and>
       NodeHistory_recovery_count h + (if nh_current_state h \<in> {Degraded, Recovery} then 1 else 0)
         \<le> NodeHistory_degraded_count h"
    using halted_last [of Initializing "path_of (run (attempt sha) attempts (NodeHistory_new i))"]
    by (auto simp: history_ok_def Let_def NodeHistory_verify_iff split: if_splits)
  assume "successively node_edge (Initializing # path)"
  then have "path_of (run (attempt sha) (map (\<lambda>s. (s, 0, [])) path) (NodeHistory_new i)) = path"
    using run_path [of "NodeHistory_new i" path 0 sha "[]"] by (simp add: NodeHistory_new_def path_of_def)
  then show "\<exists>attempts. path_of (run (attempt sha) attempts (NodeHistory_new i)) = path" ..
qed

lemma node_lifecycle_exact_witness:
  "\<exists>attempts. path_of (run (attempt (\<lambda>b. of_nat (length b))) attempts (NodeHistory_new 4)) =
     [Active, Degraded, Recovery, Degraded, Recovery, Active, Halted]"
  using node_lifecycle_exact [of "\<lambda>b. of_nat (length b)" "[]" 4 "[Active, Degraded, Recovery, Degraded, Recovery, Active, Halted]"]
  by simp

end
