(* ===== verification/Quorum_Guard.thy ===== *)
theory Quorum_Guard
  imports Hash_Chain "HOL-Library.Sublist"
begin

text \<open>
  Gate 266, \<open>aegis-cl-psi/src/quorum_guard.rs\<close>: the health of the quorum, epoch by epoch.  The levels
  are the documented fractions, 70 and 61.8034 percent, for every number of nodes below \<open>2 ^ 44\<close>, above
  which the products wrap; the deltas sum to the last percentage; \<open>longest_outage\<close> is the length of
  the longest run of consecutive alerts.
\<close>

section \<open>Levels\<close>

type_synonym i16 = "16 word"

datatype QuorumLevel = Healthy | AtThreshold | BelowQuorum | NoNodes

fun QuorumLevel_as_u8 :: "QuorumLevel \<Rightarrow> u8" where
  "QuorumLevel_as_u8 Healthy = 0"
| "QuorumLevel_as_u8 AtThreshold = 1"
| "QuorumLevel_as_u8 BelowQuorum = 2"
| "QuorumLevel_as_u8 NoNodes = 3"

lemma QuorumLevel_as_u8_inj [simp]: "QuorumLevel_as_u8 x = QuorumLevel_as_u8 y \<longleftrightarrow> x = y"
  by (cases x; cases y) auto

definition QuorumLevel_is_quorum_met :: "QuorumLevel \<Rightarrow> bool" where
  "QuorumLevel_is_quorum_met l = (l = Healthy \<or> l = AtThreshold)"

definition QuorumLevel_requires_alert :: "QuorumLevel \<Rightarrow> bool" where
  "QuorumLevel_requires_alert l = (l = BelowQuorum \<or> l = NoNodes)"

text \<open>Counts of nodes are \<open>usize\<close>, here words of 64 bits, as they are multiplied.\<close>

definition classify_quorum :: "u64 \<Rightarrow> u64 \<Rightarrow> QuorumLevel" where
  "classify_quorum nodes operational =
     (if nodes = 0 then NoNodes
      else if operational * 1000000 \<ge> nodes * 700000 then Healthy
      else if operational * 1000000 \<ge> nodes * 618034 then AtThreshold
      else BelowQuorum)"

section \<open>Statuses, guard\<close>

record QuorumStatus =
  qs_epoch :: u64
  qs_total_nodes :: u64
  qs_operational_nodes :: u64
  qs_quorum_level :: QuorumLevel
  qs_quorum_pct :: u8
  qs_quorum_delta :: i16
  qs_status_hash :: hash
  qs_prev_hash :: hash

definition status_bytes :: "u64 \<Rightarrow> u64 \<Rightarrow> u64 \<Rightarrow> QuorumLevel \<Rightarrow> hash \<Rightarrow> bytes" where
  "status_bytes epoch total_nodes operational_nodes quorum_level prev =
     hash_bytes prev @ be8 epoch @ be8 total_nodes @ be8 operational_nodes @ [QuorumLevel_as_u8 quorum_level]"

definition compute_status_hash :: "sha \<Rightarrow> u64 \<Rightarrow> u64 \<Rightarrow> u64 \<Rightarrow> QuorumLevel \<Rightarrow> hash \<Rightarrow> hash" where
  "compute_status_hash sha epoch total_nodes operational_nodes quorum_level prev = sha (status_bytes epoch total_nodes operational_nodes quorum_level prev)"

definition QuorumStatus_bytes_of :: "QuorumStatus \<Rightarrow> bytes" where
  "QuorumStatus_bytes_of r = status_bytes (qs_epoch r) (qs_total_nodes r) (qs_operational_nodes r) (qs_quorum_level r) (qs_prev_hash r)"

definition build_status :: "sha \<Rightarrow> u64 \<Rightarrow> u64 \<Rightarrow> u64 \<Rightarrow> u8 \<Rightarrow> hash \<Rightarrow> QuorumStatus" where
  "build_status sha epoch nodes operational prev_pct prev_hash =
     (let level = classify_quorum nodes operational;
          quorum_pct = (if nodes = 0 then 0 else ucast (min ((operational * 100) div nodes) 100));
          quorum_delta = ucast quorum_pct - ucast prev_pct
      in \<lparr>qs_epoch = epoch, qs_total_nodes = nodes, qs_operational_nodes = operational,
          qs_quorum_level = level, qs_quorum_pct = quorum_pct, qs_quorum_delta = quorum_delta,
          qs_status_hash = compute_status_hash sha epoch nodes operational level prev_hash,
          qs_prev_hash = prev_hash\<rparr>)"

datatype GuardError = StaleEpoch

record QuorumGuard =
  qg_statuses :: "QuorumStatus list"

definition QuorumGuard_new :: QuorumGuard where
  "QuorumGuard_new = \<lparr>qg_statuses = []\<rparr>"

definition QuorumGuard_last_hash :: "QuorumGuard \<Rightarrow> hash" where
  "QuorumGuard_last_hash l = last_hash qs_status_hash (qg_statuses l)"

definition QuorumGuard_verify_chain :: "sha \<Rightarrow> QuorumGuard \<Rightarrow> bool \<times> nat option" where
  "QuorumGuard_verify_chain sha l =
     verify_from qs_prev_hash qs_status_hash (\<lambda>r. sha (QuorumStatus_bytes_of r)) 0 genesis (qg_statuses l)"

definition QuorumGuard_prev_pct :: "QuorumGuard \<Rightarrow> u8" where
  "QuorumGuard_prev_pct g = (if qg_statuses g = [] then 0 else qs_quorum_pct (last (qg_statuses g)))"

definition QuorumGuard_observe ::
  "sha \<Rightarrow> u64 \<Rightarrow> u64 \<Rightarrow> u64 \<Rightarrow> QuorumGuard \<Rightarrow> (GuardError + QuorumStatus) \<times> QuorumGuard" where
  "QuorumGuard_observe sha epoch nodes operational g =
     (if qg_statuses g \<noteq> [] \<and> epoch \<le> qs_epoch (last (qg_statuses g)) then (Inl StaleEpoch, g)
      else
        let status = build_status sha epoch nodes operational (QuorumGuard_prev_pct g) (QuorumGuard_last_hash g)
        in (Inr status, g\<lparr>qg_statuses := qg_statuses g @ [status]\<rparr>))"

definition QuorumGuard_latest :: "QuorumGuard \<Rightarrow> QuorumStatus option" where
  "QuorumGuard_latest g = (if qg_statuses g = [] then None else Some (last (qg_statuses g)))"

definition QuorumGuard_alert_epochs :: "QuorumGuard \<Rightarrow> nat" where
  "QuorumGuard_alert_epochs g =
     length (filter (\<lambda>s. QuorumLevel_requires_alert (qs_quorum_level s)) (qg_statuses g))"

fun outage_loop :: "(nat \<times> nat) \<Rightarrow> QuorumStatus list \<Rightarrow> nat" where
  "outage_loop (longest, current) [] = longest"
| "outage_loop (longest, current) (s # ss) =
     (if QuorumLevel_requires_alert (qs_quorum_level s)
      then let current = current + 1
           in outage_loop (if current > longest then current else longest, current) ss
      else outage_loop (longest, 0) ss)"

definition QuorumGuard_longest_outage :: "QuorumGuard \<Rightarrow> nat" where
  "QuorumGuard_longest_outage g = outage_loop (0, 0) (qg_statuses g)"

definition QuorumGuard_latest_delta :: "QuorumGuard \<Rightarrow> i16" where
  "QuorumGuard_latest_delta g = (if qg_statuses g = [] then 0 else qs_quorum_delta (last (qg_statuses g)))"

section \<open>The guard is tamper evident\<close>

text \<open>Percentage and delta are not hashed.\<close>

lemma status_bytes_inj:
  "status_bytes e0 t1 o2 q3 h = status_bytes e0' t1' o2' q3' h' \<longleftrightarrow>
   e0 = e0' \<and> t1 = t1' \<and> o2 = o2' \<and> q3 = q3' \<and> h = h'"
  by (auto simp: status_bytes_def enc_simps)

definition QuorumStatus_committed :: "QuorumStatus \<Rightarrow> u64 \<times> u64 \<times> u64 \<times> QuorumLevel" where
  "QuorumStatus_committed r = (qs_epoch r, qs_total_nodes r, qs_operational_nodes r, qs_quorum_level r)"

interpretation status_chain: hash_log QuorumStatus_bytes_of qs_prev_hash qs_status_hash QuorumStatus_committed
  by unfold_locales (auto simp: QuorumStatus_bytes_of_def QuorumStatus_committed_def status_bytes_inj)

definition QuorumGuard_ok :: "sha \<Rightarrow> QuorumGuard \<Rightarrow> bool" where
  "QuorumGuard_ok sha l \<longleftrightarrow> status_chain.ok sha (qg_statuses l)"

lemma QuorumGuard_verify_iff: "QuorumGuard_verify_chain sha l = (True, None) \<longleftrightarrow> QuorumGuard_ok sha l"
  by (simp add: QuorumGuard_verify_chain_def QuorumGuard_ok_def verify_from_iff)

lemma QuorumGuard_tamper_evident:
  assumes "QuorumGuard_ok sha l" "QuorumGuard_ok sha l'" "QuorumGuard_last_hash l = QuorumGuard_last_hash l'"
  shows "map QuorumStatus_committed (qg_statuses l) = map QuorumStatus_committed (qg_statuses l') \<or>
    forgery sha (QuorumStatus_bytes_of ` (set (qg_statuses l) \<union> set (qg_statuses l')))"
  using assms status_chain.tamper_evident by (simp add: QuorumGuard_ok_def QuorumGuard_last_hash_def)

lemma QuorumGuard_ok_new [simp]: "QuorumGuard_ok sha QuorumGuard_new"
  by (simp add: QuorumGuard_ok_def QuorumGuard_new_def)


section \<open>The longest outage\<close>

definition alert :: "QuorumStatus \<Rightarrow> bool" where
  "alert s = QuorumLevel_requires_alert (qs_quorum_level s)"

text \<open>The statuses seen are \<open>xs\<close>: the longest run of alerts in them, and the one they end with.\<close>

definition outage_inv :: "QuorumStatus list \<Rightarrow> nat \<Rightarrow> nat \<Rightarrow> bool" where
  "outage_inv xs longest current \<longleftrightarrow>
     (\<exists>ys. sublist ys xs \<and> list_all alert ys \<and> length ys = longest) \<and>
     (\<forall>ys. sublist ys xs \<and> list_all alert ys \<longrightarrow> length ys \<le> longest) \<and>
     (\<exists>ys. suffix ys xs \<and> list_all alert ys \<and> length ys = current) \<and>
     (\<forall>ys. suffix ys xs \<and> list_all alert ys \<longrightarrow> length ys \<le> current)"

lemma alert_suffix_snoc:
  "suffix ys (xs @ [s]) \<and> list_all alert ys \<longleftrightarrow> ys = [] \<or> (\<exists>zs. ys = zs @ [s] \<and> alert s \<and> suffix zs xs \<and> list_all alert zs)"
  by auto

lemma alert_sublist_snoc:
  "sublist ys (xs @ [s]) \<and> list_all alert ys \<longleftrightarrow>
   (suffix ys (xs @ [s]) \<and> list_all alert ys) \<or> (sublist ys xs \<and> list_all alert ys)"
  unfolding sublist_snoc by blast

lemma outage_inv_quiet: "outage_inv xs longest current \<Longrightarrow> \<not> alert s \<Longrightarrow> outage_inv (xs @ [s]) longest 0"
  unfolding outage_inv_def conj_assoc [symmetric] alert_sublist_snoc alert_suffix_snoc by auto

lemma outage_inv_alert:
  assumes "outage_inv xs longest current" and "alert s"
  shows "outage_inv (xs @ [s]) (max (Suc current) longest) (Suc current)"
proof -
  obtain ys where ys: "suffix ys xs" "list_all alert ys" "length ys = current"
    using assms(1) by (auto simp: outage_inv_def)
  have new: "suffix (ys @ [s]) (xs @ [s])" "list_all alert (ys @ [s])" "length (ys @ [s]) = Suc current"
    using ys assms(2) by simp_all
  have bound: "length zs \<le> Suc current" if "suffix zs (xs @ [s]) \<and> list_all alert zs" for zs
    using that [unfolded alert_suffix_snoc] assms(1) by (auto simp: outage_inv_def)
  have old: "length zs \<le> longest" if "sublist zs xs \<and> list_all alert zs" for zs
    using that assms(1) by (simp add: outage_inv_def)
  obtain zs where zs: "sublist zs xs" "list_all alert zs" "length zs = longest"
    using assms(1) by (auto simp: outage_inv_def)
  have "\<exists>vs. sublist vs (xs @ [s]) \<and> list_all alert vs \<and> length vs = max (Suc current) longest"
  proof (cases "longest \<le> Suc current")
    case True
    with new have "sublist (ys @ [s]) (xs @ [s]) \<and> length (ys @ [s]) = max (Suc current) longest"
      by (simp add: sublist_snoc max_absorb1)
    with new show ?thesis by blast
  next
    case False
    with zs have "sublist zs (xs @ [s]) \<and> length zs = max (Suc current) longest"
      by (simp add: sublist_snoc max_def)
    with zs show ?thesis by blast
  qed
  moreover have "length vs \<le> max (Suc current) longest" if "sublist vs (xs @ [s]) \<and> list_all alert vs" for vs
    using that [unfolded alert_sublist_snoc] bound [of vs] old [of vs] by linarith
  ultimately show ?thesis
    using new bound unfolding outage_inv_def by blast
qed

lemma outage_loop_inv:
  "outage_inv xs longest current \<Longrightarrow> \<exists>current'. outage_inv (xs @ ss) (outage_loop (longest, current) ss) current'"
proof (induction ss arbitrary: xs longest current)
  case Nil
  then show ?case by auto
next
  case (Cons s ss)
  show ?case
  proof (cases "alert s")
    case True
    from Cons.IH [OF outage_inv_alert [OF Cons.prems True]] True
    show ?thesis by (cases "longest < Suc current") (simp_all add: alert_def max_def)
  next
    case False
    from Cons.IH [OF outage_inv_quiet [OF Cons.prems False]] False
    show ?thesis by (simp add: alert_def)
  qed
qed

lemma longest_outage_exact:
  "(\<exists>ys. sublist ys (qg_statuses g) \<and> list_all alert ys \<and> length ys = QuorumGuard_longest_outage g) \<and>
   (\<forall>ys. sublist ys (qg_statuses g) \<and> list_all alert ys \<longrightarrow> length ys \<le> QuorumGuard_longest_outage g)"
proof -
  have "outage_inv [] 0 0" by (simp add: outage_inv_def)
  from outage_loop_inv [OF this, of "qg_statuses g"] show ?thesis
    by (auto simp: outage_inv_def QuorumGuard_longest_outage_def)
qed

section \<open>Levels and percentages\<close>

lemma unat_scaled:
  fixes w :: u64
  assumes "unat w < 2 ^ 44" and "k \<le> 2 ^ 20"
  shows "unat (w * of_nat k) = unat w * k"
proof -
  have "unat w * k \<le> unat w * 2 ^ 20" using assms(2) by simp
  also have "\<dots> < 2 ^ 44 * 2 ^ 20" using assms(1) by simp
  finally show ?thesis
    using assms(2) by (simp add: unat_word_ariths unat_of_nat_small)
qed

lemma classify_exact:
  assumes "unat nodes < 2 ^ 44" "unat operational < 2 ^ 44"
  shows "classify_quorum nodes operational =
    (if nodes = 0 then NoNodes
     else if 70 * unat nodes \<le> 100 * unat operational then Healthy
     else if 618034 * unat nodes \<le> 1000000 * unat operational then AtThreshold
     else BelowQuorum)"
  using unat_scaled [OF assms(1), of 700000] unat_scaled [OF assms(1), of 618034] unat_scaled [OF assms(2), of 1000000]
  by (auto simp: classify_quorum_def word_le_nat_alt)

lemma build_status_pct:
  assumes "unat nodes < 2 ^ 44" "unat operational < 2 ^ 44"
  shows "unat (qs_quorum_pct (build_status sha e nodes operational p h)) = min 100 (unat operational * 100 div unat nodes)"
proof -
  let ?q = "(operational * 100) div nodes"
  have q: "unat ?q = unat operational * 100 div unat nodes"
    using unat_scaled [OF assms(2), of 100] by (simp add: unat_div)
  then have "unat (min ?q 100) = min 100 (unat operational * 100 div unat nodes)"
    by (auto simp: min_def word_le_nat_alt)
  then show ?thesis
    by (simp add: build_status_def Let_def unsigned_ucast_eq take_bit_nat_eq_self)
qed

section \<open>Histories\<close>

text \<open>A percentage is the one before plus the delta; the sums telescope, since they stay in range.\<close>

definition delta_sum :: "QuorumStatus list \<Rightarrow> int" where
  "delta_sum ss = (\<Sum>s \<leftarrow> ss. sint (qs_quorum_delta s))"

definition last_pct :: "QuorumStatus list \<Rightarrow> u8" where
  "last_pct ss = (if ss = [] then 0 else qs_quorum_pct (last ss))"

lemma sint_delta: "sint (ucast a - ucast b :: i16) = int (unat a) - int (unat b)" for a b :: u8
proof -
  have u: "sint (ucast w :: i16) = int (unat w) \<and> unat w < 256" for w :: u8
  proof -
    have "uint w < 256" and nonneg: "0 \<le> uint w" using uint_lt2p [of w] by simp_all
    then have "signed_take_bit 15 (uint w) = uint w" using nonneg by (intro signed_take_bit_int_eq_self) (rule order_trans [of _ 0], simp_all)
    then show ?thesis using unat_le_max [of w] by (simp add: signed_ucast_eq)
  qed
  have "\<bar>int (unat a) - int (unat b)\<bar> < 256"
    using conjunct2 [OF u [of a]] conjunct2 [OF u [of b]] by arith
  then have "signed_take_bit 15 (int (unat a) - int (unat b)) = int (unat a) - int (unat b)"
    by (intro signed_take_bit_int_eq_self) auto
  then show ?thesis
    using u [of a] u [of b] by (subst sint_word_ariths) simp
qed

definition guard_ok :: "sha \<Rightarrow> QuorumGuard \<Rightarrow> bool" where
  "guard_ok sha g \<longleftrightarrow>
     QuorumGuard_ok sha g \<and> sorted_wrt (<) (map qs_epoch (qg_statuses g)) \<and>
     delta_sum (qg_statuses g) = int (unat (last_pct (qg_statuses g))) \<and>
     (\<forall>s \<in> set (qg_statuses g). qs_quorum_level s = classify_quorum (qs_total_nodes s) (qs_operational_nodes s) \<and>
        (unat (qs_total_nodes s) < 2 ^ 44 \<and> unat (qs_operational_nodes s) < 2 ^ 44 \<longrightarrow>
         unat (qs_quorum_pct s) = min 100 (unat (qs_operational_nodes s) * 100 div unat (qs_total_nodes s))))"

definition observe :: "sha \<Rightarrow> u64 \<times> u64 \<times> u64 \<Rightarrow> QuorumGuard \<Rightarrow> QuorumGuard" where
  "observe sha q g = (case q of (epoch, nodes, operational) \<Rightarrow> snd (QuorumGuard_observe sha epoch nodes operational g))"

lemma guard_ok_observe: "guard_ok sha g \<Longrightarrow> guard_ok sha (observe sha q g)"
proof -
  assume ok: "guard_ok sha g"
  obtain e n p where q: "q = (e, n, p)" by (cases q)
  let ?s = "build_status sha e n p (QuorumGuard_prev_pct g) (QuorumGuard_last_hash g)"
  let ?g = "g\<lparr>qg_statuses := qg_statuses g @ [?s]\<rparr>"
  show ?thesis
  proof (cases "qg_statuses g \<noteq> [] \<and> e \<le> qs_epoch (last (qg_statuses g))")
    case True
    with ok show ?thesis by (simp add: observe_def q QuorumGuard_observe_def)
  next
    case False
    have fields: "qs_epoch ?s = e" "qs_total_nodes ?s = n" "qs_operational_nodes ?s = p"
      "qs_quorum_level ?s = classify_quorum n p" "qs_prev_hash ?s = QuorumGuard_last_hash g"
      "qs_status_hash ?s = sha (QuorumStatus_bytes_of ?s)"
      "qs_quorum_delta ?s = ucast (qs_quorum_pct ?s) - ucast (last_pct (qg_statuses g))"
      by (simp_all add: build_status_def Let_def compute_status_hash_def QuorumStatus_bytes_of_def
          last_pct_def QuorumGuard_prev_pct_def)
    have "delta_sum (qg_statuses ?g) = int (unat (qs_quorum_pct ?s))"
      using ok by (simp add: guard_ok_def delta_sum_def fields sint_delta)
    moreover have "sorted_wrt (<) (map qs_epoch (qg_statuses ?g))"
      using ok False by (auto simp: guard_ok_def sorted_wrt_snoc_less fields last_map)
    moreover have "QuorumGuard_ok sha ?g"
      using ok fields(5,6) unfolding QuorumGuard_last_hash_def by (simp add: guard_ok_def QuorumGuard_ok_def)
    ultimately have "guard_ok sha ?g"
      using ok build_status_pct [of n p] by (auto simp: guard_ok_def fields last_pct_def)
    then show ?thesis
      using False by (auto simp: observe_def q QuorumGuard_observe_def Let_def)
  qed
qed

interpretation guard_machine: invariant_machine "observe sha" "guard_ok sha" for sha
  by unfold_locales (rule guard_ok_observe)

section \<open>Properties\<close>

text \<open>
  C18.  The record of the quorum.  After any observations: epochs strictly ascend and the chain
  verifies; below \<open>2 ^ 44\<close> nodes, every level is that of the documented fractions and every percentage
  the rounded one, at most 100; the deltas sum to the last percentage; and \<open>longest_outage\<close> is the
  length of some run of consecutive alerts and of no longer one.
\<close>

theorem quorum_record_exact:
  "let g = run (observe sha) observations (QuorumGuard_new); ss = qg_statuses g
   in sorted_wrt (<) (map qs_epoch ss) \<and> QuorumGuard_verify_chain sha g = (True, None) \<and>
      list_all (\<lambda>s. let n = unat (qs_total_nodes s); p = unat (qs_operational_nodes s)
        in n < 2 ^ 44 \<and> p < 2 ^ 44 \<longrightarrow>
           qs_quorum_level s =
             (if n = 0 then NoNodes else if 70 * n \<le> 100 * p then Healthy
              else if 618034 * n \<le> 1000000 * p then AtThreshold else BelowQuorum) \<and>
           unat (qs_quorum_pct s) = min 100 (p * 100 div n)) ss \<and>
      (\<Sum>s \<leftarrow> ss. sint (qs_quorum_delta s)) = int (unat (last_pct ss)) \<and>
      (\<exists>ys. sublist ys ss \<and> list_all alert ys \<and> length ys = QuorumGuard_longest_outage g) \<and>
      (\<forall>ys. sublist ys ss \<and> list_all alert ys \<longrightarrow> length ys \<le> QuorumGuard_longest_outage g)"
proof -
  have "guard_ok sha (QuorumGuard_new)"
    by (simp add: guard_ok_def QuorumGuard_ok_def QuorumGuard_new_def delta_sum_def last_pct_def)
  then have ok: "guard_ok sha (run (observe sha) observations (QuorumGuard_new))"
    by (rule guard_machine.run_inv)
  then show ?thesis
    using longest_outage_exact [of "run (observe sha) observations (QuorumGuard_new)"]
    by (auto simp: Let_def guard_ok_def delta_sum_def QuorumGuard_verify_iff list_all_iff classify_exact unat_eq_0)
qed

lemma quorum_record_exact_witness:
  "let g = run (observe (\<lambda>b. of_nat (length b))) [(1, 10, 8)] QuorumGuard_new
   in list_all (\<lambda>s. qs_quorum_level s = Healthy \<and> unat (qs_quorum_pct s) = 80) (qg_statuses g) \<and>
      (\<Sum>s \<leftarrow> qg_statuses g. sint (qs_quorum_delta s)) = int (unat (last_pct (qg_statuses g)))"
proof -
  let ?g = "run (observe (\<lambda>b. of_nat (length b))) [(1, 10, 8)] QuorumGuard_new"
  have "qg_statuses ?g = [build_status (\<lambda>b. of_nat (length b)) 1 10 8 0 genesis]"
    by (simp add: observe_def QuorumGuard_observe_def QuorumGuard_new_def QuorumGuard_prev_pct_def
        QuorumGuard_last_hash_def Let_def)
  moreover have "qs_total_nodes (build_status (\<lambda>b. of_nat (length b)) 1 10 8 0 genesis) = 10"
    "qs_operational_nodes (build_status (\<lambda>b. of_nat (length b)) 1 10 8 0 genesis) = 8"
    by (simp_all add: build_status_def Let_def)
  ultimately show ?thesis
    using quorum_record_exact [of "\<lambda>b. of_nat (length b)" "[(1, 10, 8)]"] by (simp add: Let_def last_pct_def del: run_simps)
qed

end
