(* ===== verification/Epochs.thy ===== *)
theory Epochs
  imports Prelude
begin

text \<open>
  The epoch discipline that many components share: each message carries an epoch, the component keeps
  the greatest one seen, and starts anew when a message exceeds it; a message of an older epoch
  counts for the current one.  \<open>epoch_top e xs\<close> is the epoch kept after the epochs \<open>xs\<close>, from \<open>e\<close>; a position
  is current if the epoch kept has not advanced since, and \<open>epoch_held e xs\<close> counts the current ones.
\<close>

definition epoch_top :: "'e::linorder \<Rightarrow> 'e list \<Rightarrow> 'e" where
  "epoch_top e xs = fold max xs e"

definition epoch_current :: "'e::linorder \<Rightarrow> 'e list \<Rightarrow> nat \<Rightarrow> bool" where
  "epoch_current e xs i \<longleftrightarrow> i < length xs \<and> epoch_top e (take (Suc i) xs) = epoch_top e xs"

definition epoch_held :: "'e::linorder \<Rightarrow> 'e list \<Rightarrow> nat" where
  "epoch_held e xs = length (filter (epoch_current e xs) [0..<length xs])"

lemma epoch_top_simps [simp]:
  "epoch_top e [] = e"
  "epoch_top e (xs @ [x]) = max (epoch_top e xs) x"
  by (simp_all add: epoch_top_def max.commute)

lemma epoch_top_Cons: "epoch_top e (x # xs) = epoch_top (max e x) xs"
  by (simp add: epoch_top_def max.commute)

lemma epoch_top_ge: "e \<le> epoch_top e xs"
  by (induction xs rule: rev_induct) (auto simp: le_max_iff_disj)

lemma epoch_top_append: "epoch_top e (xs @ ys) = epoch_top (epoch_top e xs) ys"
  by (simp add: epoch_top_def)

lemma epoch_top_take_le: "epoch_top e (take n xs) \<le> epoch_top e xs"
  using epoch_top_append [of e "take n xs" "drop n xs"] epoch_top_ge [of "epoch_top e (take n xs)" "drop n xs"] by simp

text \<open>A message above all before makes itself the only current one; any other joins the current ones.\<close>

lemma epoch_current_snoc:
  "epoch_current e (xs @ [x]) i \<longleftrightarrow> i = length xs \<or> (\<not> epoch_top e xs < x \<and> epoch_current e xs i)"
proof (cases "i < length xs")
  case True
  then have "take (Suc i) (xs @ [x]) = take (Suc i) xs" by simp
  with True epoch_top_take_le [of e "Suc i" xs] show ?thesis
    by (auto simp: epoch_current_def max_def not_less)
next
  case False
  then show ?thesis by (auto simp: epoch_current_def)
qed

lemma epoch_held_Nil [simp]: "epoch_held e [] = 0"
  by (simp add: epoch_held_def)

lemma epoch_held_snoc: "epoch_held e (xs @ [x]) = (if epoch_top e xs < x then 1 else Suc (epoch_held e xs))"
proof -
  have "filter (epoch_current e (xs @ [x])) [0..<length xs] = (if epoch_top e xs < x then [] else filter (epoch_current e xs) [0..<length xs])"
    by (auto simp: epoch_current_snoc filter_empty_conv intro!: filter_cong)
  moreover have "epoch_current e (xs @ [x]) (length xs)" by (simp add: epoch_current_snoc)
  ultimately show ?thesis by (simp add: epoch_held_def)
qed

lemma epoch_held_le: "epoch_held e xs \<le> length xs"
  unfolding epoch_held_def by (rule order_trans [OF length_filter_le]) simp

end
