(* ===== verification/Flood_Guard.thy ===== *)
theory Flood_Guard
  imports Ordered_Map Hash_Chain Epochs
begin

text \<open>
  Gate 285, \<open>aegis-cl-psi/src/flood_guard.rs\<close>: messages counted per source and epoch, with an
  escalating verdict.  For any interleaving of messages of all sources and seals, the count of a source
  is the number of its messages since its epoch last advanced, and the verdicts let at most 300 of
  them through.
\<close>

section \<open>Levels\<close>

definition FLOOD_WARN_THRESHOLD :: u32 where "FLOOD_WARN_THRESHOLD = 50"
definition FLOOD_LIMIT :: u32 where "FLOOD_LIMIT = 100"
definition FLOOD_BAN_THRESHOLD :: u32 where "FLOOD_BAN_THRESHOLD = 500"

datatype FloodLevel = Clean | Warning | Blocking | Banned

fun FloodLevel_level_byte :: "FloodLevel \<Rightarrow> u8" where
  "FloodLevel_level_byte Clean = 0"
| "FloodLevel_level_byte Warning = 1"
| "FloodLevel_level_byte Blocking = 2"
| "FloodLevel_level_byte Banned = 3"

lemma FloodLevel_level_byte_inj [simp]: "FloodLevel_level_byte x = FloodLevel_level_byte y \<longleftrightarrow> x = y"
  by (cases x; cases y) auto

instantiation FloodLevel :: linorder
begin

definition less_eq_FloodLevel :: "FloodLevel \<Rightarrow> FloodLevel \<Rightarrow> bool" where
  "x \<le> y \<longleftrightarrow> FloodLevel_level_byte x \<le> FloodLevel_level_byte y"

definition less_FloodLevel :: "FloodLevel \<Rightarrow> FloodLevel \<Rightarrow> bool" where
  "x < y \<longleftrightarrow> FloodLevel_level_byte x < FloodLevel_level_byte y"

instance
  by standard (auto simp: less_eq_FloodLevel_def less_FloodLevel_def order.strict_iff_order)

end

fun FloodLevel_should_drop :: "FloodLevel \<Rightarrow> u32 \<Rightarrow> bool" where
  "FloodLevel_should_drop Banned message_count = True"
| "FloodLevel_should_drop Blocking message_count = (message_count mod 2 = 0)"
| "FloodLevel_should_drop _ message_count = False"

definition classify_flood :: "u32 \<Rightarrow> FloodLevel" where
  "classify_flood message_count =
     (if message_count > FLOOD_BAN_THRESHOLD then Banned
      else if message_count > FLOOD_LIMIT then Blocking
      else if message_count > FLOOD_WARN_THRESHOLD then Warning
      else Clean)"

section \<open>Records, log\<close>

record FloodRecord =
  fr_source_id :: u32
  fr_epoch :: u64
  fr_message_count :: u32
  fr_dropped_count :: u32
  fr_level :: FloodLevel
  fr_record_hash :: hash
  fr_prev_hash :: hash

definition flood_bytes :: "u32 \<Rightarrow> u64 \<Rightarrow> u32 \<Rightarrow> u32 \<Rightarrow> FloodLevel \<Rightarrow> hash \<Rightarrow> bytes" where
  "flood_bytes source_id epoch message_count dropped_count level prev =
     hash_bytes prev @ be4 source_id @ be8 epoch @ be4 message_count @ be4 dropped_count @ [FloodLevel_level_byte level]"

definition compute_flood_hash :: "sha \<Rightarrow> u32 \<Rightarrow> u64 \<Rightarrow> u32 \<Rightarrow> u32 \<Rightarrow> FloodLevel \<Rightarrow> hash \<Rightarrow> hash" where
  "compute_flood_hash sha source_id epoch message_count dropped_count level prev = sha (flood_bytes source_id epoch message_count dropped_count level prev)"

definition build_flood_record :: "sha \<Rightarrow> u32 \<Rightarrow> u64 \<Rightarrow> u32 \<Rightarrow> u32 \<Rightarrow> FloodLevel \<Rightarrow> hash \<Rightarrow> FloodRecord" where
  "build_flood_record sha source_id epoch message_count dropped_count level prev_hash =
     \<lparr>fr_source_id = source_id, fr_epoch = epoch, fr_message_count = message_count, fr_dropped_count = dropped_count, fr_level = level,
      fr_record_hash = compute_flood_hash sha source_id epoch message_count dropped_count level prev_hash, fr_prev_hash = prev_hash\<rparr>"

definition FloodRecord_bytes_of :: "FloodRecord \<Rightarrow> bytes" where
  "FloodRecord_bytes_of r = flood_bytes (fr_source_id r) (fr_epoch r) (fr_message_count r) (fr_dropped_count r) (fr_level r) (fr_prev_hash r)"

record FloodLog =
  fl_source_id :: u32
  fl_records :: "FloodRecord list"

definition FloodLog_new :: "u32 \<Rightarrow> FloodLog" where
  "FloodLog_new source_id = \<lparr>fl_source_id = source_id, fl_records = []\<rparr>"

definition FloodLog_last_hash :: "FloodLog \<Rightarrow> hash" where
  "FloodLog_last_hash l = last_hash fr_record_hash (fl_records l)"

definition FloodLog_banned_epoch_count :: "FloodLog \<Rightarrow> nat" where
  "FloodLog_banned_epoch_count l = length (filter (\<lambda>r. fr_level r = Banned) (fl_records l))"

definition FloodLog_verify_chain :: "sha \<Rightarrow> FloodLog \<Rightarrow> bool \<times> nat option" where
  "FloodLog_verify_chain sha l =
     verify_from fr_prev_hash fr_record_hash (\<lambda>r. sha (FloodRecord_bytes_of r)) 0 genesis (fl_records l)"

datatype FloodError = StaleEpoch

definition FloodLog_record :: "sha \<Rightarrow> u64 \<Rightarrow> u32 \<Rightarrow> u32 \<Rightarrow> FloodLog \<Rightarrow> (FloodError + FloodRecord) \<times> FloodLog" where
  "FloodLog_record sha epoch message_count dropped_count l =
     (if fl_records l \<noteq> [] \<and> epoch \<le> fr_epoch (last (fl_records l)) then (Inl StaleEpoch, l)
      else
        let r = build_flood_record sha (fl_source_id l) epoch message_count dropped_count
                  (classify_flood message_count) (FloodLog_last_hash l)
        in (Inr r, l\<lparr>fl_records := fl_records l @ [r]\<rparr>))"

definition FloodLog_total_dropped :: "FloodLog \<Rightarrow> u64" where
  "FloodLog_total_dropped l = sum_list (map (\<lambda>r. ucast (fr_dropped_count r)) (fl_records l))"

definition FloodLog_worst_level :: "FloodLog \<Rightarrow> FloodLevel" where
  "FloodLog_worst_level l =
     (case map fr_level (fl_records l) of [] \<Rightarrow> Clean | x # xs \<Rightarrow> fold max xs x)"

section \<open>The log is tamper evident\<close>

lemma flood_bytes_inj:
  "flood_bytes s0 e1 m2 d3 l4 h = flood_bytes s0' e1' m2' d3' l4' h' \<longleftrightarrow>
   s0 = s0' \<and> e1 = e1' \<and> m2 = m2' \<and> d3 = d3' \<and> l4 = l4' \<and> h = h'"
  by (auto simp: flood_bytes_def enc_simps)

definition FloodRecord_committed :: "FloodRecord \<Rightarrow> u32 \<times> u64 \<times> u32 \<times> u32 \<times> FloodLevel" where
  "FloodRecord_committed r = (fr_source_id r, fr_epoch r, fr_message_count r, fr_dropped_count r, fr_level r)"

interpretation flood_chain: hash_log FloodRecord_bytes_of fr_prev_hash fr_record_hash FloodRecord_committed
  by unfold_locales (auto simp: FloodRecord_bytes_of_def FloodRecord_committed_def flood_bytes_inj)

definition FloodLog_ok :: "sha \<Rightarrow> FloodLog \<Rightarrow> bool" where
  "FloodLog_ok sha l \<longleftrightarrow> flood_chain.ok sha (fl_records l)"

lemma FloodLog_verify_iff: "FloodLog_verify_chain sha l = (True, None) \<longleftrightarrow> FloodLog_ok sha l"
  by (simp add: FloodLog_verify_chain_def FloodLog_ok_def verify_from_iff)

lemma FloodLog_tamper_evident:
  assumes "FloodLog_ok sha l" "FloodLog_ok sha l'" "FloodLog_last_hash l = FloodLog_last_hash l'"
  shows "map FloodRecord_committed (fl_records l) = map FloodRecord_committed (fl_records l') \<or>
    forgery sha (FloodRecord_bytes_of ` (set (fl_records l) \<union> set (fl_records l')))"
  using assms flood_chain.tamper_evident by (simp add: FloodLog_ok_def FloodLog_last_hash_def)

lemma FloodLog_ok_new [simp]: "FloodLog_ok sha (FloodLog_new p)"
  by (simp add: FloodLog_ok_def FloodLog_new_def)


section \<open>The guard\<close>

record SourceState =
  ss_log :: FloodLog
  ss_current_epoch :: u64
  ss_msg_count :: u32
  ss_drop_count :: u32

record FloodGuard =
  fg_sources :: "(u32, SourceState) btmap"

definition FloodGuard_new :: FloodGuard where
  "FloodGuard_new = \<lparr>fg_sources = bt_empty\<rparr>"

definition FloodGuard_source_count :: "FloodGuard \<Rightarrow> nat" where
  "FloodGuard_source_count g = bt_len (fg_sources g)"

definition new_source :: "u32 \<Rightarrow> u64 \<Rightarrow> SourceState" where
  "new_source source_id epoch =
     \<lparr>ss_log = FloodLog_new source_id, ss_current_epoch = epoch, ss_msg_count = 0, ss_drop_count = 0\<rparr>"

definition count_message :: "u64 \<Rightarrow> SourceState \<Rightarrow> FloodLevel \<times> SourceState" where
  "count_message epoch state =
     (let state = (if epoch > ss_current_epoch state
                   then state\<lparr>ss_current_epoch := epoch, ss_msg_count := 0, ss_drop_count := 0\<rparr> else state);
          state = state\<lparr>ss_msg_count := sat_add (ss_msg_count state) 1\<rparr>;
          level = classify_flood (ss_msg_count state)
      in (level, if FloodLevel_should_drop level (ss_msg_count state)
                 then state\<lparr>ss_drop_count := sat_add (ss_drop_count state) 1\<rparr> else state))"

definition FloodGuard_observe_message :: "u32 \<Rightarrow> u64 \<Rightarrow> FloodGuard \<Rightarrow> FloodLevel \<times> FloodGuard" where
  "FloodGuard_observe_message source_id epoch g =
     (let state = bt_get_or (new_source source_id epoch) (fg_sources g) source_id
      in case count_message epoch state of
           (level, state) \<Rightarrow> (level, g\<lparr>fg_sources := bt_insert source_id state (fg_sources g)\<rparr>))"

definition seal_source :: "sha \<Rightarrow> u64 \<Rightarrow> SourceState \<Rightarrow> SourceState" where
  "seal_source sha epoch state =
     (if ss_current_epoch state = epoch
      then state\<lparr>ss_log := snd (FloodLog_record sha epoch (ss_msg_count state) (ss_drop_count state) (ss_log state))\<rparr>
      else state)"

definition FloodGuard_seal_epoch :: "sha \<Rightarrow> u64 \<Rightarrow> FloodGuard \<Rightarrow> FloodGuard" where
  "FloodGuard_seal_epoch sha epoch g = g\<lparr>fg_sources := bt_map (\<lambda>_. seal_source sha epoch) (fg_sources g)\<rparr>"

definition FloodGuard_get_log :: "u32 \<Rightarrow> FloodGuard \<Rightarrow> FloodLog option" where
  "FloodGuard_get_log source_id g = map_option ss_log (bt_get (fg_sources g) source_id)"

definition FloodGuard_sources_at_level :: "FloodLevel \<Rightarrow> FloodGuard \<Rightarrow> u32 list" where
  "FloodGuard_sources_at_level min_level g =
     map fst (filter (\<lambda>e. classify_flood (ss_msg_count (snd e)) \<ge> min_level) (entries (fg_sources g)))"

definition FloodGuard_current_msg_count :: "u32 \<Rightarrow> FloodGuard \<Rightarrow> u32" where
  "FloodGuard_current_msg_count source_id g =
     (case bt_get (fg_sources g) source_id of None \<Rightarrow> 0 | Some s \<Rightarrow> ss_msg_count s)"

section \<open>What is counted and what is dropped\<close>

datatype FloodOp = Message u32 u64 | Seal u64

fun flood_step :: "sha \<Rightarrow> FloodOp \<Rightarrow> FloodGuard \<Rightarrow> FloodGuard" where
  "flood_step sha (Message source_id epoch) g = snd (FloodGuard_observe_message source_id epoch g)"
| "flood_step sha (Seal epoch) g = FloodGuard_seal_epoch sha epoch g"

text \<open>The epochs of the messages of one source.\<close>

fun epoch_from :: "u32 \<Rightarrow> FloodOp \<Rightarrow> u64 list" where
  "epoch_from s (Message source_id epoch) = (if source_id = s then [epoch] else [])"
| "epoch_from s (Seal epoch) = []"

definition epochs_from :: "u32 \<Rightarrow> FloodOp list \<Rightarrow> u64 list" where
  "epochs_from s ops = concat (map (epoch_from s) ops)"

text \<open>Of \<open>n\<close> messages in an epoch, how many the verdicts drop.\<close>

definition drops :: "nat \<Rightarrow> nat" where
  "drops n = (if n \<le> 100 then 0 else if n \<le> 500 then n div 2 - 50 else n - 300)"

lemma drops_le: "drops n \<le> n" and passes_le: "n - drops n \<le> 300"
  by (auto simp: drops_def)

lemma classify_flood_nat:
  "classify_flood c =
     (if 500 < unat c then Banned else if 100 < unat c then Blocking else if 50 < unat c then Warning else Clean)"
  by (simp add: classify_flood_def word_less_nat_alt FLOOD_BAN_THRESHOLD_def FLOOD_LIMIT_def FLOOD_WARN_THRESHOLD_def)

lemma should_drop_drops:
  assumes "unat c = Suc n"
  shows "drops (Suc n) = drops n + (if FloodLevel_should_drop (classify_flood c) c then 1 else 0)"
proof -
  have "c mod 2 = 0 \<longleftrightarrow> unat c mod 2 = 0"
    by (simp add: unat_mod flip: unat_eq_0)
  then have d: "FloodLevel_should_drop (classify_flood c) c \<longleftrightarrow> 500 < Suc n \<or> (100 < Suc n \<and> Suc n mod 2 = 0)"
    by (simp add: classify_flood_nat assms)
  consider "Suc n \<le> 100" | "100 < Suc n" "Suc n \<le> 500" | "500 < Suc n" by linarith
  then show ?thesis
    unfolding d by cases (auto simp: drops_def; presburger)+
qed

definition tally :: "nat \<Rightarrow> SourceState \<Rightarrow> bool" where
  "tally n st \<longleftrightarrow> unat (ss_msg_count st) = min n (2 ^ 32 - 1) \<and> (n < 2 ^ 32 \<longrightarrow> unat (ss_drop_count st) = drops n)"

lemma tally_count:
  assumes "tally n st"
  shows "tally (if ss_current_epoch st < e then 1 else Suc n) (snd (count_message e st)) \<and>
    ss_current_epoch (snd (count_message e st)) = max (ss_current_epoch st) e \<and>
    ss_log (snd (count_message e st)) = ss_log st"
proof -
  define st' where "st' = (if e > ss_current_epoch st then st\<lparr>ss_current_epoch := e, ss_msg_count := 0, ss_drop_count := 0\<rparr> else st)"
  define k where "k = (if ss_current_epoch st < e then 0 else n)"
  let ?c = "sat_add (ss_msg_count st') 1"
  have t: "tally k st'" using assms by (simp add: st'_def k_def tally_def drops_def)
  have c: "unat ?c = min (Suc k) (2 ^ 32 - 1)" using t by (simp add: tally_def sat_simps)
  have cm: "snd (count_message e st) =
      (if FloodLevel_should_drop (classify_flood ?c) ?c
       then st'\<lparr>ss_msg_count := ?c, ss_drop_count := sat_add (ss_drop_count st') 1\<rparr> else st'\<lparr>ss_msg_count := ?c\<rparr>)"
    by (simp add: count_message_def Let_def st'_def)
  have "tally (Suc k) (snd (count_message e st))"
  proof (cases "Suc k < 2 ^ 32")
    case True
    then have "unat ?c = Suc k" using c by simp
    from should_drop_drops [OF this] True t c drops_le [of "Suc k"]
    show ?thesis by (auto simp: cm tally_def sat_simps)
  next
    case False
    then show ?thesis using c by (auto simp: cm tally_def)
  qed
  then show ?thesis
    by (auto simp: cm k_def st'_def max_def split: if_splits)
qed

text \<open>The state of a source after its epochs \<open>es\<close>.\<close>

definition source_after :: "sha \<Rightarrow> u64 list \<Rightarrow> SourceState option \<Rightarrow> bool" where
  "source_after sha es so \<longleftrightarrow>
     (case so of
        None \<Rightarrow> es = []
      | Some st \<Rightarrow> es \<noteq> [] \<and> ss_current_epoch st = epoch_top (hd es) es \<and> tally (epoch_held (hd es) es) st \<and>
          FloodLog_ok sha (ss_log st))"

lemma FloodLog_ok_record: "FloodLog_ok sha l \<Longrightarrow> FloodLog_ok sha (snd (FloodLog_record sha e c d l))"
  by (simp add: FloodLog_record_def FloodLog_ok_def Let_def build_flood_record_def compute_flood_hash_def
      FloodRecord_bytes_of_def FloodLog_last_hash_def)

lemma source_after_message:
  assumes "source_after sha es so"
  shows "source_after sha (es @ [e]) (Some (snd (count_message e (unwrap_or (new_source s e) so))))"
proof (cases so)
  case None
  have "tally 0 (new_source s e)" by (simp add: tally_def new_source_def drops_def)
  from tally_count [OF this, of e] assms None show ?thesis
    by (simp add: source_after_def new_source_def epoch_top_def epoch_held_snoc [of e "[]", simplified])
next
  case (Some st)
  with assms tally_count [of "epoch_held (hd es) es" st e] show ?thesis
    by (simp add: source_after_def epoch_held_snoc)
qed

lemma source_after_seal:
  "source_after sha es so \<Longrightarrow> source_after sha es (map_option (seal_source sha e) so)"
  by (auto simp: source_after_def seal_source_def tally_def FloodLog_ok_record split: option.splits)

lemma source_after_run:
  "source_after sha (epochs_from s ops) (bt_get (fg_sources (run (flood_step sha) ops FloodGuard_new)) s)"
proof (induction ops rule: rev_induct)
  case Nil
  then show ?case by (simp add: source_after_def epochs_from_def FloodGuard_new_def)
next
  case (snoc op ops)
  let ?g = "run (flood_step sha) ops FloodGuard_new"
  show ?case
  proof (cases op)
    case (Message i e)
    have "bt_get (fg_sources (flood_step sha op ?g)) s =
        (if i = s then Some (snd (count_message e (unwrap_or (new_source s e) (bt_get (fg_sources ?g) s))))
         else bt_get (fg_sources ?g) s)"
      by (auto simp: Message FloodGuard_observe_message_def Let_def bt_get_or_def unwrap_or_def split: prod.splits)
    then show ?thesis
      using snoc source_after_message [OF snoc, of e s] by (auto simp: Message epochs_from_def)
  next
    case (Seal e)
    then show ?thesis
      using source_after_seal [OF snoc, of e] by (simp add: FloodGuard_seal_epoch_def epochs_from_def)
  qed
qed

section \<open>Properties\<close>

text \<open>
  C19.  The flood is held back.  After any messages of any sources and any seals, let \<open>n\<close> be the number
  of messages of a source since the last one that advanced its epoch: its count is \<open>n\<close>, its level is
  by the thresholds 50, 100 and 500 of \<open>n\<close>, every message of \<open>n\<close> beyond 500 and every second one between
  100 and 500 has been dropped, so that at most 300 were let through, and its log verifies.
\<close>

theorem flood_held_back:
  assumes "epochs_from s ops \<noteq> []"
    and "n = epoch_held (hd (epochs_from s ops)) (epochs_from s ops)" and "n < 2 ^ 32"
  shows "\<exists>st. bt_get (fg_sources (run (flood_step sha) ops FloodGuard_new)) s = Some st \<and>
    unat (ss_msg_count st) = n \<and>
    classify_flood (ss_msg_count st) =
      (if 500 < n then Banned else if 100 < n then Blocking else if 50 < n then Warning else Clean) \<and>
    unat (ss_drop_count st) = (if n \<le> 100 then 0 else if n \<le> 500 then n div 2 - 50 else n - 300) \<and>
    n - unat (ss_drop_count st) \<le> 300 \<and>
    FloodLog_verify_chain sha (ss_log st) = (True, None)"
proof -
  obtain st where "bt_get (fg_sources (run (flood_step sha) ops FloodGuard_new)) s = Some st"
      "tally n st" "FloodLog_ok sha (ss_log st)"
    using source_after_run [of sha s ops] assms(1,2) by (auto simp: source_after_def split: option.splits)
  then show ?thesis
    using assms(3) passes_le [of n]
    by (intro exI [of _ st]) (auto simp: tally_def classify_flood_nat FloodLog_verify_iff drops_def)
qed

lemma flood_held_back_witness:
  "\<exists>st. bt_get (fg_sources (run (flood_step (\<lambda>b. of_nat (length b))) [Message 1 4, Message 2 9, Message 1 7, Seal 7, Message 1 3] FloodGuard_new)) 1 = Some st \<and>
     unat (ss_msg_count st) = 2 \<and> unat (ss_drop_count st) = 0 \<and> FloodLog_verify_chain (\<lambda>b. of_nat (length b)) (ss_log st) = (True, None)"
proof -
  let ?ops = "[Message 1 4, Message 2 9, Message 1 7, Seal 7, Message 1 3]"
  have e: "epochs_from 1 ?ops = [4, 7, 3]" by (simp add: epochs_from_def)
  have h: "2 = epoch_held (hd (epochs_from 1 ?ops)) (epochs_from 1 ?ops)"
    unfolding e by (simp add: epoch_held_def epoch_current_def epoch_top_def upt_rec)
  from flood_held_back [OF _ h, of "\<lambda>b. of_nat (length b)"] e show ?thesis by auto
qed

end
