(* ===== verification/Message_Deduplicator.thy ===== *)
theory Message_Deduplicator
  imports Ordered_Map Hash_Chain Epochs
begin

text \<open>
  Gate 295, \<open>aegis-cl-psi/src/message_deduplicator.rs\<close>: duplicates of a message, within an epoch.  For
  any interleaving of messages and seals, a message is a duplicate exactly if the same key came before
  and no message has advanced the epoch since; so of the messages of an epoch exactly the first of
  each key is fresh.  The counts of an epoch are sealed only if the caller asks for it before the next.
\<close>

text \<open>
  The seen set is a map to \<open>unit\<close>, as in the nonce cache.
\<close>

section \<open>Decisions, records, log\<close>

datatype DedupDecision = Fresh | Duplicate

fun DedupDecision_decision_byte :: "DedupDecision \<Rightarrow> u8" where
  "DedupDecision_decision_byte Fresh = 0"
| "DedupDecision_decision_byte Duplicate = 1"

lemma DedupDecision_decision_byte_inj [simp]: "DedupDecision_decision_byte x = DedupDecision_decision_byte y \<longleftrightarrow> x = y"
  by (cases x; cases y) auto

record DedupRecord =
  dr_epoch :: u64
  dr_seen_count :: u32
  dr_dup_count :: u32
  dr_record_hash :: hash
  dr_prev_hash :: hash

definition dedup_bytes :: "u64 \<Rightarrow> u32 \<Rightarrow> u32 \<Rightarrow> hash \<Rightarrow> bytes" where
  "dedup_bytes epoch seen_count dup_count prev =
     hash_bytes prev @ be8 epoch @ be4 seen_count @ be4 dup_count"

definition compute_dedup_hash :: "sha \<Rightarrow> u64 \<Rightarrow> u32 \<Rightarrow> u32 \<Rightarrow> hash \<Rightarrow> hash" where
  "compute_dedup_hash sha epoch seen_count dup_count prev = sha (dedup_bytes epoch seen_count dup_count prev)"

definition build_dedup_record :: "sha \<Rightarrow> u64 \<Rightarrow> u32 \<Rightarrow> u32 \<Rightarrow> hash \<Rightarrow> DedupRecord" where
  "build_dedup_record sha epoch seen_count dup_count prev_hash =
     \<lparr>dr_epoch = epoch, dr_seen_count = seen_count, dr_dup_count = dup_count,
      dr_record_hash = compute_dedup_hash sha epoch seen_count dup_count prev_hash, dr_prev_hash = prev_hash\<rparr>"

definition DedupRecord_bytes_of :: "DedupRecord \<Rightarrow> bytes" where
  "DedupRecord_bytes_of r = dedup_bytes (dr_epoch r) (dr_seen_count r) (dr_dup_count r) (dr_prev_hash r)"

record DedupLog =
  dl_records :: "DedupRecord list"

definition DedupLog_new :: DedupLog where
  "DedupLog_new = \<lparr>dl_records = []\<rparr>"

definition DedupLog_last_hash :: "DedupLog \<Rightarrow> hash" where
  "DedupLog_last_hash l = last_hash dr_record_hash (dl_records l)"

definition DedupLog_verify_chain :: "sha \<Rightarrow> DedupLog \<Rightarrow> bool \<times> nat option" where
  "DedupLog_verify_chain sha l =
     verify_from dr_prev_hash dr_record_hash (\<lambda>r. sha (DedupRecord_bytes_of r)) 0 genesis (dl_records l)"

datatype DedupError = StaleEpoch

definition DedupLog_record :: "sha \<Rightarrow> u64 \<Rightarrow> u32 \<Rightarrow> u32 \<Rightarrow> DedupLog \<Rightarrow> (DedupError + DedupRecord) \<times> DedupLog" where
  "DedupLog_record sha epoch seen_count dup_count l =
     (if dl_records l \<noteq> [] \<and> epoch \<le> dr_epoch (last (dl_records l)) then (Inl StaleEpoch, l)
      else
        let r = build_dedup_record sha epoch seen_count dup_count (DedupLog_last_hash l)
        in (Inr r, l\<lparr>dl_records := dl_records l @ [r]\<rparr>))"

definition DedupLog_total_seen :: "DedupLog \<Rightarrow> u64" where
  "DedupLog_total_seen l = sum_list (map (\<lambda>r. ucast (dr_seen_count r)) (dl_records l))"

definition DedupLog_total_dups :: "DedupLog \<Rightarrow> u64" where
  "DedupLog_total_dups l = sum_list (map (\<lambda>r. ucast (dr_dup_count r)) (dl_records l))"

definition DedupLog_dup_rate_pct :: "DedupLog \<Rightarrow> u8" where
  "DedupLog_dup_rate_pct l =
     (let all = DedupLog_total_seen l + DedupLog_total_dups l
      in if all = 0 then 0 else ucast (min ((DedupLog_total_dups l * 100) div all) 100))"

section \<open>The log is tamper evident\<close>

lemma dedup_bytes_inj:
  "dedup_bytes e0 s1 d2 h = dedup_bytes e0' s1' d2' h' \<longleftrightarrow>
   e0 = e0' \<and> s1 = s1' \<and> d2 = d2' \<and> h = h'"
  by (auto simp: dedup_bytes_def enc_simps)

definition DedupRecord_committed :: "DedupRecord \<Rightarrow> u64 \<times> u32 \<times> u32" where
  "DedupRecord_committed r = (dr_epoch r, dr_seen_count r, dr_dup_count r)"

interpretation dedup_chain: hash_log DedupRecord_bytes_of dr_prev_hash dr_record_hash DedupRecord_committed
  by unfold_locales (auto simp: DedupRecord_bytes_of_def DedupRecord_committed_def dedup_bytes_inj)

definition DedupLog_ok :: "sha \<Rightarrow> DedupLog \<Rightarrow> bool" where
  "DedupLog_ok sha l \<longleftrightarrow> dedup_chain.ok sha (dl_records l)"

lemma DedupLog_verify_iff: "DedupLog_verify_chain sha l = (True, None) \<longleftrightarrow> DedupLog_ok sha l"
  by (simp add: DedupLog_verify_chain_def DedupLog_ok_def verify_from_iff)

lemma DedupLog_tamper_evident:
  assumes "DedupLog_ok sha l" "DedupLog_ok sha l'" "DedupLog_last_hash l = DedupLog_last_hash l'"
  shows "map DedupRecord_committed (dl_records l) = map DedupRecord_committed (dl_records l') \<or>
    forgery sha (DedupRecord_bytes_of ` (set (dl_records l) \<union> set (dl_records l')))"
  using assms dedup_chain.tamper_evident by (simp add: DedupLog_ok_def DedupLog_last_hash_def)

lemma DedupLog_ok_new [simp]: "DedupLog_ok sha DedupLog_new"
  by (simp add: DedupLog_ok_def DedupLog_new_def)


section \<open>The deduplicator\<close>

type_synonym MsgKey = "u32 \<times> u64"

record MessageDeduplicator =
  md_current_epoch :: u64
  md_seen :: "(MsgKey, unit) btmap"
  md_seen_count :: u32
  md_dup_count :: u32
  md_log :: DedupLog

definition MessageDeduplicator_new :: "u64 \<Rightarrow> MessageDeduplicator" where
  "MessageDeduplicator_new initial_epoch =
     \<lparr>md_current_epoch = initial_epoch, md_seen = bt_empty, md_seen_count = 0, md_dup_count = 0,
      md_log = DedupLog_new\<rparr>"

definition MessageDeduplicator_observe ::
  "u32 \<Rightarrow> u64 \<Rightarrow> u64 \<Rightarrow> MessageDeduplicator \<Rightarrow> DedupDecision \<times> MessageDeduplicator" where
  "MessageDeduplicator_observe peer_id message_id epoch d =
     (let d = (if epoch > md_current_epoch d
               then d\<lparr>md_current_epoch := epoch, md_seen := bt_empty, md_seen_count := 0, md_dup_count := 0\<rparr>
               else d);
          key = (peer_id, message_id)
      in if bt_has (md_seen d) key
         then (Duplicate, d\<lparr>md_dup_count := sat_add (md_dup_count d) 1\<rparr>)
         else (Fresh, d\<lparr>md_seen := bt_insert key () (md_seen d), md_seen_count := sat_add (md_seen_count d) 1\<rparr>))"

definition MessageDeduplicator_seal_epoch :: "sha \<Rightarrow> u64 \<Rightarrow> MessageDeduplicator \<Rightarrow> MessageDeduplicator" where
  "MessageDeduplicator_seal_epoch sha epoch d =
     (if md_current_epoch d = epoch
      then d\<lparr>md_log := snd (DedupLog_record sha epoch (md_seen_count d) (md_dup_count d) (md_log d))\<rparr>
      else d)"

definition MessageDeduplicator_dup_rate_current :: "MessageDeduplicator \<Rightarrow> u32" where
  "MessageDeduplicator_dup_rate_current d =
     (let all = ucast (md_seen_count d) + (ucast (md_dup_count d) :: u64)
      in if all = 0 then 0 else ucast ((ucast (md_dup_count d) * 100) div all))"

section \<open>What has been seen\<close>

datatype DedupOp = Observe u32 u64 u64 | Seal u64

fun dedup_step :: "sha \<Rightarrow> DedupOp \<Rightarrow> MessageDeduplicator \<Rightarrow> MessageDeduplicator" where
  "dedup_step sha (Observe p m e) d = snd (MessageDeduplicator_observe p m e d)"
| "dedup_step sha (Seal e) d = MessageDeduplicator_seal_epoch sha e d"

fun message_of :: "DedupOp \<Rightarrow> (MsgKey \<times> u64) list" where
  "message_of (Observe p m e) = [((p, m), e)]"
| "message_of (Seal e) = []"

definition messages :: "DedupOp list \<Rightarrow> (MsgKey \<times> u64) list" where
  "messages ops = concat (map message_of ops)"

text \<open>The keys of the messages since the epoch last advanced.\<close>

definition keys_since :: "u64 \<Rightarrow> (MsgKey \<times> u64) list \<Rightarrow> MsgKey set" where
  "keys_since e0 ms = {fst (ms ! i) | i. epoch_current e0 (map snd ms) i}"

lemma keys_since_snoc:
  "keys_since e0 (ms @ [(k, e)]) = (if epoch_top e0 (map snd ms) < e then {k} else insert k (keys_since e0 ms))"
proof -
  have img: "keys_since e0 xs = (\<lambda>i. fst (xs ! i)) ` {i. epoch_current e0 (map snd xs) i}" for xs
    by (auto simp: keys_since_def)
  have "{i. epoch_current e0 (map snd (ms @ [(k, e)])) i} = insert (length ms)
      (if epoch_top e0 (map snd ms) < e then {} else {i. epoch_current e0 (map snd ms) i})"
    by (auto simp: epoch_current_snoc)
  moreover have "(\<lambda>i. fst ((ms @ [(k, e)]) ! i)) ` {i. epoch_current e0 (map snd ms) i} = keys_since e0 ms"
    unfolding img by (rule image_cong) (auto simp: nth_append epoch_current_def)
  ultimately show ?thesis
    unfolding img [of "ms @ [(k, e)]"] by simp
qed

lemma keys_since_card: "card (keys_since e0 ms) \<le> epoch_held e0 (map snd ms)"
proof -
  have "keys_since e0 ms = set (map (\<lambda>i. fst (ms ! i)) (filter (epoch_current e0 (map snd ms)) [0..<length (map snd ms)]))"
    by (auto simp: keys_since_def epoch_current_def)
  then show ?thesis
    using card_length [of "map (\<lambda>i. fst (ms ! i)) (filter (epoch_current e0 (map snd ms)) [0..<length (map snd ms)])"]
    by (simp add: epoch_held_def)
qed

text \<open>The state after the messages \<open>ms\<close>.\<close>

definition dedup_after :: "sha \<Rightarrow> u64 \<Rightarrow> (MsgKey \<times> u64) list \<Rightarrow> MessageDeduplicator \<Rightarrow> bool" where
  "dedup_after sha e0 ms d \<longleftrightarrow>
     md_current_epoch d = epoch_top e0 (map snd ms) \<and>
     dom (bt_get (md_seen d)) = keys_since e0 ms \<and>
     unat (md_seen_count d) = min (bt_len (md_seen d)) (2 ^ 32 - 1) \<and>
     (epoch_held e0 (map snd ms) < 2 ^ 32 \<longrightarrow>
        unat (md_seen_count d) + unat (md_dup_count d) = epoch_held e0 (map snd ms)) \<and>
     DedupLog_ok sha (md_log d) \<and> sorted_wrt (<) (map dr_epoch (dl_records (md_log d)))"

definition advance :: "u64 \<Rightarrow> MessageDeduplicator \<Rightarrow> MessageDeduplicator" where
  "advance e d =
     (if e > md_current_epoch d
      then d\<lparr>md_current_epoch := e, md_seen := bt_empty, md_seen_count := 0, md_dup_count := 0\<rparr> else d)"

lemma bt_has_dom: "bt_has m k \<longleftrightarrow> k \<in> dom (bt_get m)"
  by (auto simp: bt_has_def)

text \<open>The decision on the next message, and the state after it.\<close>

lemma observe_decision:
  assumes "dedup_after sha e0 ms d"
  shows "fst (MessageDeduplicator_observe p m e d) = Duplicate \<longleftrightarrow>
    \<not> epoch_top e0 (map snd ms) < e \<and> (p, m) \<in> keys_since e0 ms"
  using assms by (auto simp: MessageDeduplicator_observe_def Let_def dedup_after_def bt_has_dom)

lemma observe_after:
  assumes "dedup_after sha e0 ms d"
  shows "dedup_after sha e0 (ms @ [((p, m), e)]) (snd (MessageDeduplicator_observe p m e d))"
proof -
  let ?d = "advance e d" and ?k = "(p, m)"
  define n where "n = (if md_current_epoch d < e then 0 else epoch_held e0 (map snd ms))"
  have held: "epoch_held e0 (map snd (ms @ [(?k, e)])) = Suc n"
    using assms by (simp add: epoch_held_snoc dedup_after_def n_def)
  have "keys_since e0 (ms @ [(?k, e)]) = insert ?k (dom (bt_get (md_seen ?d)))"
    using assms by (auto simp: keys_since_snoc dedup_after_def advance_def)
  moreover have "md_current_epoch ?d = epoch_top e0 (map snd (ms @ [(?k, e)]))"
    using assms by (auto simp: dedup_after_def advance_def max_def)
  moreover have "unat (md_seen_count ?d) = min (bt_len (md_seen ?d)) (2 ^ 32 - 1)"
    and "n < 2 ^ 32 \<longrightarrow> unat (md_seen_count ?d) + unat (md_dup_count ?d) = n"
    and "md_log ?d = md_log d"
    using assms by (auto simp: dedup_after_def advance_def n_def)
  moreover have "snd (MessageDeduplicator_observe p m e d) =
      (if bt_has (md_seen ?d) ?k then ?d\<lparr>md_dup_count := sat_add (md_dup_count ?d) 1\<rparr>
       else ?d\<lparr>md_seen := bt_insert ?k () (md_seen ?d), md_seen_count := sat_add (md_seen_count ?d) 1\<rparr>)"
    by (simp add: MessageDeduplicator_observe_def advance_def Let_def)
  ultimately show ?thesis
    using assms unfolding dedup_after_def held
    by (cases "bt_has (md_seen ?d) ?k") (auto simp: sat_simps bt_has_dom)
qed

lemma seal_after: "dedup_after sha e0 ms d \<Longrightarrow> dedup_after sha e0 ms (MessageDeduplicator_seal_epoch sha e d)"
proof -
  assume a: "dedup_after sha e0 ms d"
  have "DedupLog_ok sha l \<and> sorted_wrt (<) (map dr_epoch (dl_records l)) \<Longrightarrow>
      DedupLog_ok sha (snd (DedupLog_record sha e c u l)) \<and>
      sorted_wrt (<) (map dr_epoch (dl_records (snd (DedupLog_record sha e c u l))))" for l c u
    by (auto simp: DedupLog_record_def Let_def DedupLog_ok_def build_dedup_record_def compute_dedup_hash_def
        DedupRecord_bytes_of_def DedupLog_last_hash_def sorted_wrt_snoc_less last_map)
  with a show ?thesis unfolding MessageDeduplicator_seal_epoch_def dedup_after_def by auto
qed

lemma dedup_after_run: "dedup_after sha e0 (messages ops) (run (dedup_step sha) ops (MessageDeduplicator_new e0))"
proof (induction ops rule: rev_induct)
  case Nil
  then show ?case
    by (simp add: dedup_after_def messages_def keys_since_def epoch_current_def MessageDeduplicator_new_def
        DedupLog_new_def DedupLog_ok_def fun_eq_iff)
next
  case (snoc op ops)
  show ?case
  proof (cases op)
    case (Observe p m e)
    with observe_after [OF snoc, of p m e] show ?thesis by (simp add: messages_def)
  next
    case (Seal e)
    with seal_after [OF snoc, of e] show ?thesis by (simp add: messages_def)
  qed
qed

section \<open>Properties\<close>

text \<open>
  C20.  The first of each key is fresh.  After any messages and seals, the next message is a duplicate
  exactly if its key came before, at a position since which the greatest epoch has not advanced, and
  the message itself does not advance it; what is counted as seen and as duplicate adds up to the
  messages since that advance, for less than \<open>2 ^ 32\<close> of them; and the log verifies, one record an epoch.
\<close>

theorem dedup_first_is_fresh:
  "let ms = messages ops; d = run (dedup_step sha) ops (MessageDeduplicator_new e0)
   in (fst (MessageDeduplicator_observe p m e d) = Duplicate \<longleftrightarrow>
        e \<le> epoch_top e0 (map snd ms) \<and>
        (\<exists>i < length ms. fst (ms ! i) = (p, m) \<and>
           epoch_top e0 (map snd (take (Suc i) ms)) = epoch_top e0 (map snd ms))) \<and>
      (epoch_held e0 (map snd ms) < 2 ^ 32 \<longrightarrow>
        unat (md_seen_count d) = card (keys_since e0 ms) \<and>
        unat (md_seen_count d) + unat (md_dup_count d) = epoch_held e0 (map snd ms)) \<and>
      DedupLog_verify_chain sha (md_log d) = (True, None) \<and>
      sorted_wrt (<) (map dr_epoch (dl_records (md_log d)))"
proof -
  let ?d = "run (dedup_step sha) ops (MessageDeduplicator_new e0)"
  have a: "dedup_after sha e0 (messages ops) ?d" by (rule dedup_after_run)
  have "(p, m) \<in> keys_since e0 (messages ops) \<longleftrightarrow>
      (\<exists>i < length (messages ops). fst (messages ops ! i) = (p, m) \<and>
         epoch_top e0 (map snd (take (Suc i) (messages ops))) = epoch_top e0 (map snd (messages ops)))"
    unfolding keys_since_def epoch_current_def mem_Collect_eq take_map length_map by metis
  moreover have "unat (md_seen_count ?d) = card (keys_since e0 (messages ops))"
    if "epoch_held e0 (map snd (messages ops)) < 2 ^ 32"
  proof -
    have "card (keys_since e0 (messages ops)) = bt_len (md_seen ?d)"
      using a by (simp add: dedup_after_def bt_len_card)
    moreover have "card (keys_since e0 (messages ops)) \<le> epoch_held e0 (map snd (messages ops))"
      using that keys_since_card by blast
    ultimately show ?thesis using a that by (simp add: dedup_after_def)
  qed
  ultimately show ?thesis
    using a observe_decision [OF a, of p m e]
    by (simp add: Let_def dedup_after_def DedupLog_verify_iff not_less)
qed

lemma dedup_first_is_fresh_witness:
  "unat (md_seen_count (run (dedup_step (\<lambda>b. of_nat (length b))) [Observe 1 2 5, Observe 1 2 3, Observe 1 3 5] (MessageDeduplicator_new 4))) +
   unat (md_dup_count (run (dedup_step (\<lambda>b. of_nat (length b))) [Observe 1 2 5, Observe 1 2 3, Observe 1 3 5] (MessageDeduplicator_new 4))) = 3"
proof -
  let ?ops = "[Observe 1 2 5, Observe 1 2 3, Observe 1 3 5]"
  have "map snd (messages ?ops) = [5, 3, 5]" by (simp add: messages_def)
  moreover have "epoch_held 4 [5, 3, 5 :: u64] = 3"
    by (simp add: epoch_held_def epoch_current_def epoch_top_def upt_rec)
  ultimately show ?thesis
    using dedup_first_is_fresh [of ?ops "\<lambda>b. of_nat (length b)" 4 1 2 5] by (simp add: Let_def del: run_simps)
qed

end
