(* ===== verification/Rate_Monitor.thy ===== *)
theory Rate_Monitor
  imports Hash_Chain
begin

text \<open>
  What the 185 modules \<open>aegis-cl-psi/src/gossip_broadcast_*.rs\<close> have in common: per epoch a count of
  events out of a total, their rate in percent, a flag that the rate is on the wrong side of a
  threshold, and the log of these entries, hash chained.  The modules differ in the names, the
  threshold and its side, whether the product and the sums saturate, and whether there is a total;
  \<open>rate_monitor\<close> gives the operations of a module from these.  The sums are proved to be exact, so the
  differences in arithmetic are none, and the flag to be the comparison of the two counts.
\<close>

section \<open>Entries\<close>

record RateEntry =
  re_epoch_end :: u64
  re_events :: u32
  re_total :: u32
  re_rate_pct :: u32
  re_flag :: bool
  re_entry_hash :: hash
  re_prev_hash :: hash

definition rate_bytes :: "hash \<Rightarrow> u64 \<Rightarrow> u32 \<Rightarrow> u32 \<Rightarrow> u32 \<Rightarrow> bool \<Rightarrow> bytes" where
  "rate_bytes prev epoch_end events all rate_pct flag =
     hash_bytes prev @ be8 epoch_end @ be4 events @ be4 all @ be4 rate_pct @ [if flag then 1 else 0]"

definition RateEntry_bytes_of :: "RateEntry \<Rightarrow> bytes" where
  "RateEntry_bytes_of e =
     rate_bytes (re_prev_hash e) (re_epoch_end e) (re_events e) (re_total e) (re_rate_pct e) (re_flag e)"

record RateLog =
  rl_entries :: "RateEntry list"

definition RateLog_new :: RateLog where
  "RateLog_new = \<lparr>rl_entries = []\<rparr>"

section \<open>The operations\<close>

definition saturating_pct :: "u32 \<Rightarrow> u32 \<Rightarrow> u32" where
  "saturating_pct events all =
     (let denom = ucast (max all 1) :: u64
      in ucast (min (sat_mul (ucast events) 100 div denom) 100))"

definition plain_pct :: "u32 \<Rightarrow> u32 \<Rightarrow> u32" where
  "plain_pct events all =
     (let denom = ucast (max all 1) :: u64
      in ucast (min (ucast events * 100 div denom) 100))"

definition wrapping_sum :: "u32 list \<Rightarrow> u64" where
  "wrapping_sum xs = foldl (\<lambda>acc x. acc + ucast x) 0 xs"

definition saturating_sum :: "u32 list \<Rightarrow> u64" where
  "saturating_sum xs = foldl (\<lambda>acc x. sat_add acc (ucast x)) 0 xs"

definition RateLog_record ::
  "(u32 \<Rightarrow> u32 \<Rightarrow> u32) \<Rightarrow> (u32 \<Rightarrow> bool) \<Rightarrow> sha \<Rightarrow> u64 \<Rightarrow> u32 \<Rightarrow> u32 \<Rightarrow> RateLog \<Rightarrow> RateEntry \<times> RateLog" where
  "RateLog_record pct flagged sha epoch_end events all l =
     (let rate_pct = pct events all;
          flag = flagged rate_pct;
          prev = last_hash re_entry_hash (rl_entries l);
          entry_hash = sha (rate_bytes prev epoch_end events all rate_pct flag);
          e = \<lparr>re_epoch_end = epoch_end, re_events = events, re_total = all, re_rate_pct = rate_pct,
               re_flag = flag, re_entry_hash = entry_hash, re_prev_hash = prev\<rparr>
      in (e, l\<lparr>rl_entries := rl_entries l @ [e]\<rparr>))"

definition RateLog_flag_count :: "RateLog \<Rightarrow> nat" where
  "RateLog_flag_count l = length (filter re_flag (rl_entries l))"

definition RateLog_total_events :: "(u32 list \<Rightarrow> u64) \<Rightarrow> RateLog \<Rightarrow> u64" where
  "RateLog_total_events add l = add (map re_events (rl_entries l))"

definition RateLog_mean_rate_pct :: "(u32 list \<Rightarrow> u64) \<Rightarrow> RateLog \<Rightarrow> u32" where
  "RateLog_mean_rate_pct add l =
     (if rl_entries l = [] then 0
      else ucast (add (map re_rate_pct (rl_entries l)) div of_nat (length (rl_entries l))))"

definition RateLog_verify_chain :: "sha \<Rightarrow> RateLog \<Rightarrow> bool \<times> nat option" where
  "RateLog_verify_chain sha l =
     verify_from re_prev_hash re_entry_hash (\<lambda>e. sha (RateEntry_bytes_of e)) 0 genesis (rl_entries l)"

text \<open>A module: its operations, the total of the events if it has one.\<close>

record RateMonitor =
  rm_record :: "sha \<Rightarrow> u64 \<Rightarrow> u32 \<Rightarrow> u32 \<Rightarrow> RateLog \<Rightarrow> RateEntry \<times> RateLog"
  rm_flag_count :: "RateLog \<Rightarrow> nat"
  rm_total_events :: "(RateLog \<Rightarrow> u64) option"
  rm_mean_rate_pct :: "RateLog \<Rightarrow> u32"
  rm_verify_chain :: "sha \<Rightarrow> RateLog \<Rightarrow> bool \<times> nat option"

definition rate_monitor ::
  "(u32 \<Rightarrow> u32 \<Rightarrow> u32) \<Rightarrow> (u32 \<Rightarrow> bool) \<Rightarrow> (u32 list \<Rightarrow> u64) option \<Rightarrow> (u32 list \<Rightarrow> u64) \<Rightarrow> RateMonitor" where
  "rate_monitor pct flagged add_events add_rates =
     \<lparr>rm_record = RateLog_record pct flagged,
      rm_flag_count = RateLog_flag_count,
      rm_total_events = map_option RateLog_total_events add_events,
      rm_mean_rate_pct = RateLog_mean_rate_pct add_rates,
      rm_verify_chain = RateLog_verify_chain\<rparr>"

section \<open>The log is tamper evident\<close>

lemma rate_bytes_inj:
  "rate_bytes p e v t r f = rate_bytes p' e' v' t' r' f' \<longleftrightarrow>
   p = p' \<and> e = e' \<and> v = v' \<and> t = t' \<and> r = r' \<and> f = f'"
  by (auto simp: rate_bytes_def enc_simps split: if_splits)

definition RateEntry_committed :: "RateEntry \<Rightarrow> u64 \<times> u32 \<times> u32 \<times> u32 \<times> bool" where
  "RateEntry_committed e = (re_epoch_end e, re_events e, re_total e, re_rate_pct e, re_flag e)"

interpretation rate_chain: hash_log RateEntry_bytes_of re_prev_hash re_entry_hash RateEntry_committed
  by unfold_locales (auto simp: RateEntry_bytes_of_def RateEntry_committed_def rate_bytes_inj)

definition RateLog_ok :: "sha \<Rightarrow> RateLog \<Rightarrow> bool" where
  "RateLog_ok sha l \<longleftrightarrow> rate_chain.ok sha (rl_entries l)"

lemma RateLog_verify_iff: "RateLog_verify_chain sha l = (True, None) \<longleftrightarrow> RateLog_ok sha l"
  by (simp add: RateLog_verify_chain_def RateLog_ok_def verify_from_iff)

section \<open>The arithmetic is exact\<close>

lemma unat_capped: "unat (ucast (min (q :: u64) 100) :: u32) = min (unat q) 100"
proof -
  have "unat (min q 100) = min (unat q) 100" by (simp add: min_def word_le_nat_alt)
  then show ?thesis by (simp add: unsigned_ucast_eq take_bit_nat_eq_self)
qed

lemma pct_exact:
  "unat (saturating_pct events all) = min (unat events * 100 div max (unat all) 1) 100"
  "plain_pct events all = saturating_pct events all"
proof -
  show "unat (saturating_pct events all) = min (unat events * 100 div max (unat all) 1) 100"
    by (simp add: saturating_pct_def Let_def unat_capped unat_div unat_sat_scaled_count unat_denom)
  have "sat_mul (ucast events :: u64) 100 = ucast events * 100"
    by (rule word_unat_eq_iff [THEN iffD2]) (simp only: unat_sat_scaled_count unat_scaled_count)
  then show "plain_pct events all = saturating_pct events all"
    by (simp add: saturating_pct_def plain_pct_def)
qed

lemma foldl_sums:
  "length xs < 2 ^ 32 \<Longrightarrow>
   unat (wrapping_sum xs) = sum_list (map unat xs) \<and> unat (saturating_sum xs) = sum_list (map unat xs) \<and>
   sum_list (map unat xs) \<le> length xs * (2 ^ 32 - 1)"
proof (induction xs rule: rev_induct)
  case Nil
  then show ?case by (simp add: wrapping_sum_def saturating_sum_def)
next
  case (snoc x xs)
  have u: "unat (ucast x :: u64) = unat x" and x: "unat x \<le> 2 ^ 32 - 1"
    using unat_le_max [of x] by (simp_all add: unsigned_ucast_eq take_bit_nat_eq_self)
  have len: "length xs < 2 ^ 32 - 1" using snoc.prems by simp
  then have bound: "length xs * (2 ^ 32 - 1) + unat x < 2 ^ 64"
    using x mult_le_mono1 [of "length xs" "2 ^ 32 - 2" "2 ^ 32 - 1"] by simp
  have IH: "unat (wrapping_sum xs) = sum_list (map unat xs)" "unat (saturating_sum xs) = sum_list (map unat xs)"
    "sum_list (map unat xs) \<le> length xs * (2 ^ 32 - 1)"
    using snoc by simp_all
  have "unat (wrapping_sum xs + ucast x) = unat (wrapping_sum xs) + unat x"
    using IH bound by (subst unat_add_no_wrap) (simp_all add: u)
  moreover have "unat (sat_add (saturating_sum xs) (ucast x)) = unat (saturating_sum xs) + unat x"
    using IH bound by (simp add: sat_simps u)
  moreover have "wrapping_sum (xs @ [x]) = wrapping_sum xs + ucast x"
    "saturating_sum (xs @ [x]) = sat_add (saturating_sum xs) (ucast x)"
    by (simp_all add: wrapping_sum_def saturating_sum_def)
  ultimately show ?case using IH x by (simp add: algebra_simps)
qed

lemmas sums_exact = foldl_sums [THEN conjunct1] foldl_sums [THEN conjunct2, THEN conjunct1]

text \<open>The rate against a threshold, without the rounding.\<close>

lemma rate_above: "t < 100 \<Longrightarrow> t < min (n * 100 div d) 100 \<longleftrightarrow> Suc t * d \<le> 100 * n" if "0 < d" for d :: nat
  using that less_eq_div_iff_mult_less_eq [of d "Suc t" "n * 100"] by (auto simp: Suc_le_eq mult.commute)

lemma rate_below: "t \<le> 100 \<Longrightarrow> min (n * 100 div d) 100 < t \<longleftrightarrow> 100 * n < t * d" if "0 < d" for d :: nat
  using that div_less_iff_less_mult [of d "n * 100" t] by (auto simp: mult.commute min_less_iff_disj)

section \<open>Every monitor\<close>

text \<open>The limit a module documents for its rate in percent: the side of a threshold that is flagged.\<close>

datatype RateLimit = AbovePct nat | BelowPct nat

fun limit_pct :: "RateLimit \<Rightarrow> nat" where
  "limit_pct (AbovePct t) = t"
| "limit_pct (BelowPct t) = t"

fun flagged_by :: "RateLimit \<Rightarrow> u32 \<Rightarrow> bool" where
  "flagged_by (AbovePct t) rate \<longleftrightarrow> rate > of_nat t"
| "flagged_by (BelowPct t) rate \<longleftrightarrow> rate < of_nat t"

text \<open>A module does what it documents: its limit, and whether it has a total of the events.\<close>

fun monitor_ok :: "RateMonitor \<times> RateLimit \<times> bool \<Rightarrow> bool" where
  "monitor_ok (m, limit, totals) \<longleftrightarrow>
     (\<exists>pct add_events add_rates.
        m = rate_monitor pct (flagged_by limit) add_events add_rates \<and> limit_pct limit < 100 \<and>
        pct \<in> {saturating_pct, plain_pct} \<and> add_rates \<in> {wrapping_sum, saturating_sum} \<and>
        (totals \<longleftrightarrow> add_events \<noteq> None) \<and>
        (\<forall>add. add_events = Some add \<longrightarrow> add \<in> {wrapping_sum, saturating_sum}))"

text \<open>The two sides of a threshold, in the form the modules have them.\<close>

lemma monitor_okI:
  assumes "n < 100" and "of_nat n = t" and "pct = saturating_pct \<or> pct = plain_pct"
    and "add = wrapping_sum \<or> add = saturating_sum"
    and "e = None \<or> e = Some wrapping_sum \<or> e = Some saturating_sum" and "totals = (e \<noteq> None)"
  shows "monitor_ok (rate_monitor pct (\<lambda>rate. rate > t) e add, AbovePct n, totals)"
    and "monitor_ok (rate_monitor pct (\<lambda>rate. rate < t) e add, BelowPct n, totals)"
proof -
  have "flagged_by (AbovePct n) = (\<lambda>rate. rate > t)" "flagged_by (BelowPct n) = (\<lambda>rate. rate < t)"
    using assms(2) by auto
  then show "monitor_ok (rate_monitor pct (\<lambda>rate. rate > t) e add, AbovePct n, totals)"
    and "monitor_ok (rate_monitor pct (\<lambda>rate. rate < t) e add, BelowPct n, totals)"
    using assms unfolding monitor_ok.simps by (auto intro!: exI [of _ pct] exI [of _ e] exI [of _ add])
qed

definition feed :: "RateMonitor \<Rightarrow> sha \<Rightarrow> u64 \<times> u32 \<times> u32 \<Rightarrow> RateLog \<Rightarrow> RateLog" where
  "feed m sha input l = (case input of (epoch, events, all) \<Rightarrow> snd (rm_record m sha epoch events all l))"

text \<open>What a limit says of an entry: the counts compared, with an empty total read as 1.\<close>

definition entry_exact :: "RateLimit \<Rightarrow> RateEntry \<Rightarrow> bool" where
  "entry_exact limit e \<longleftrightarrow>
     (let n = unat (re_events e); d = max (unat (re_total e)) 1
      in unat (re_rate_pct e) = min (n * 100 div d) 100 \<and>
         re_flag e = (case limit of AbovePct t \<Rightarrow> Suc t * d \<le> 100 * n | BelowPct t \<Rightarrow> 100 * n < t * d))"

lemma flagged_exact:
  assumes "unat r = min (n * 100 div d) 100" and "0 < d" and "limit_pct limit < 100"
  shows "flagged_by limit r \<longleftrightarrow> (case limit of AbovePct t \<Rightarrow> Suc t * d \<le> 100 * n | BelowPct t \<Rightarrow> 100 * n < t * d)"
proof -
  have "unat (of_nat (limit_pct limit) :: u32) = limit_pct limit"
    using assms(3) by (simp add: unat_of_nat_small)
  then show ?thesis
    using assms rate_above [OF assms(2), of _ n] rate_below [OF assms(2), of _ n]
    by (cases limit) (simp_all add: word_less_nat_alt)
qed

lemma feed_entry:
  assumes "pct = saturating_pct \<or> pct = plain_pct" and "limit_pct limit < 100"
    and "m = rate_monitor pct (flagged_by limit) add_events add_rates"
  shows "\<exists>e. rl_entries (feed m sha (epoch, events, all) l) = rl_entries l @ [e] \<and>
    (re_epoch_end e, re_events e, re_total e) = (epoch, events, all) \<and> entry_exact limit e \<and>
    re_prev_hash e = last_hash re_entry_hash (rl_entries l) \<and> re_entry_hash e = sha (RateEntry_bytes_of e)"
proof -
  have r: "unat (pct events all) = min (unat events * 100 div max (unat all) 1) 100"
    using assms(1) by (auto simp: pct_exact)
  have "entry_exact limit (fst (rm_record m sha epoch events all l))"
    using flagged_exact [OF r _ assms(2)] r
    by (cases limit) (simp_all add: assms(3) rate_monitor_def RateLog_record_def Let_def entry_exact_def)
  then show ?thesis
    by (intro exI [of _ "fst (rm_record m sha epoch events all l)"])
      (simp add: assms(3) feed_def rate_monitor_def RateLog_record_def Let_def RateEntry_bytes_of_def)
qed

lemma feed_run:
  assumes "pct = saturating_pct \<or> pct = plain_pct" and "limit_pct limit < 100"
    and "m = rate_monitor pct (flagged_by limit) add_events add_rates"
    and "l = run (feed m sha) inputs RateLog_new"
  shows "map (\<lambda>e. (re_epoch_end e, re_events e, re_total e)) (rl_entries l) = inputs \<and>
    list_all (entry_exact limit) (rl_entries l) \<and> RateLog_ok sha l"
  using assms(4)
proof (induction inputs arbitrary: l rule: rev_induct)
  case Nil
  then show ?case by (simp add: RateLog_new_def RateLog_ok_def)
next
  case (snoc input inputs)
  obtain epoch events all where input: "input = (epoch, events, all)" by (cases input)
  from feed_entry [OF assms(1,2,3), of sha epoch events all "run (feed m sha) inputs RateLog_new"] snoc
  show ?case by (auto simp: input RateLog_ok_def)
qed

text \<open>The mean of rates that are at most 100.\<close>

lemma mean_exact:
  assumes "rl_entries l \<noteq> []" "length (rl_entries l) < 2 ^ 32" "add = wrapping_sum \<or> add = saturating_sum"
    and "list_all (\<lambda>e. unat (re_rate_pct e) \<le> 100) (rl_entries l)"
  shows "unat (RateLog_mean_rate_pct add l) = (\<Sum>e \<leftarrow> rl_entries l. unat (re_rate_pct e)) div length (rl_entries l) \<and>
    unat (RateLog_mean_rate_pct add l) \<le> 100"
proof -
  let ?S = "\<Sum>e \<leftarrow> rl_entries l. unat (re_rate_pct e)" and ?n = "length (rl_entries l)"
  have "?S \<le> 100 * ?n"
    using assms(4) sum_list_mono [of "rl_entries l" "\<lambda>e. unat (re_rate_pct e)" "\<lambda>_. 100"]
    by (simp add: list_all_iff sum_list_triv)
  then have "?S < 101 * ?n" using assms(1) by (cases "rl_entries l") auto
  then have le: "?S div ?n \<le> 100" using less_mult_imp_div_less [of ?S 101 ?n] by simp
  have sum: "unat (add (map re_rate_pct (rl_entries l))) = ?S"
    using assms(2,3) sums_exact [of "map re_rate_pct (rl_entries l)"] by (auto simp: o_def)
  have len: "unat (of_nat ?n :: u64) = ?n" using assms(2) by (simp add: unat_of_nat_small)
  have "unat (add (map re_rate_pct (rl_entries l)) div of_nat ?n) = ?S div ?n"
    by (simp add: unat_div sum len)
  then have "unat (RateLog_mean_rate_pct add l) = ?S div ?n"
    using assms(1) le by (simp add: RateLog_mean_rate_pct_def unsigned_ucast_eq take_bit_nat_eq_self)
  with le show ?thesis by simp
qed

lemma monitor_exact:
  assumes "monitor_ok (m, limit, totals)" and "length inputs < 2 ^ 32"
  shows "let l = run (feed m sha) inputs RateLog_new; es = rl_entries l
     in map (\<lambda>e. (re_epoch_end e, re_events e, re_total e)) es = inputs \<and>
        list_all (entry_exact limit) es \<and>
        rm_verify_chain m sha l = (True, None) \<and>
        rm_flag_count m l = length (filter re_flag es) \<and>
        (case rm_total_events m of None \<Rightarrow> \<not> totals | Some f \<Rightarrow> totals \<and> unat (f l) = (\<Sum>e \<leftarrow> es. unat (re_events e))) \<and>
        (es \<noteq> [] \<longrightarrow>
           unat (rm_mean_rate_pct m l) = (\<Sum>e \<leftarrow> es. unat (re_rate_pct e)) div length es \<and>
           unat (rm_mean_rate_pct m l) \<le> 100)"
proof -
  obtain pct add_events add_rates where
    m: "m = rate_monitor pct (flagged_by limit) add_events add_rates" and
    t: "limit_pct limit < 100" and pct: "pct = saturating_pct \<or> pct = plain_pct" and
    rates: "add_rates = wrapping_sum \<or> add_rates = saturating_sum" and totals: "totals \<longleftrightarrow> add_events \<noteq> None" and
    events: "\<forall>add. add_events = Some add \<longrightarrow> add = wrapping_sum \<or> add = saturating_sum"
    using assms(1) unfolding monitor_ok.simps insert_iff empty_iff simp_thms by (elim exE conjE) (rule that)
  let ?l = "run (feed m sha) inputs RateLog_new" and ?es = "rl_entries (run (feed m sha) inputs RateLog_new)"
  have fed: "map (\<lambda>e. (re_epoch_end e, re_events e, re_total e)) ?es = inputs"
    "list_all (entry_exact limit) ?es" "RateLog_ok sha ?l"
    using feed_run [OF pct t m refl, of sha inputs] by simp_all
  have len: "length ?es < 2 ^ 32" using arg_cong [OF fed(1), of length] assms(2) by simp
  have ops: "rm_mean_rate_pct m = RateLog_mean_rate_pct add_rates" "rm_verify_chain m = RateLog_verify_chain"
    "rm_flag_count m = RateLog_flag_count" "rm_total_events m = map_option RateLog_total_events add_events"
    by (simp_all add: m rate_monitor_def)
  have mean: "?es \<noteq> [] \<longrightarrow> unat (rm_mean_rate_pct m ?l) = (\<Sum>e \<leftarrow> ?es. unat (re_rate_pct e)) div length ?es \<and>
      unat (rm_mean_rate_pct m ?l) \<le> 100"
    using mean_exact [of ?l add_rates] len rates fed(2) unfolding ops
    by (auto simp: list_all_iff entry_exact_def Let_def)
  have "unat (RateLog_total_events add ?l) = (\<Sum>e \<leftarrow> ?es. unat (re_events e))" if "add_events = Some add" for add
    using events that sums_exact [of "map re_events ?es"] len by (auto simp: RateLog_total_events_def o_def)
  then have sums: "case rm_total_events m of None \<Rightarrow> \<not> totals
      | Some f \<Rightarrow> totals \<and> unat (f ?l) = (\<Sum>e \<leftarrow> ?es. unat (re_events e))"
    unfolding ops totals by (cases add_events) simp_all
  have verified: "rm_verify_chain m sha ?l = (True, None)"
    using fed(3) by (simp only: ops RateLog_verify_iff)
  have flags: "rm_flag_count m ?l = length (filter re_flag ?es)"
    by (simp only: ops RateLog_flag_count_def)
  show ?thesis
    unfolding Let_def by (intro conjI fed(1,2) verified flags sums mean)
qed

end
