(* ===== verification/Rate_Monitors.thy ===== *)
theory Rate_Monitors
  imports Rate_Monitor
begin

text \<open>
  The 185 monitors \<open>aegis-cl-psi/src/gossip_broadcast_*.rs\<close>, each the operations of its log: the
  threshold with its side, and the arithmetic its source uses.  A definition has the name of the log
  type of its module; two modules use one name, of which the one of \<open>broadcast_drop\<close> is called
  \<open>GossipBroadcastBroadcastDropLog\<close> here.
\<close>

section \<open>The modules\<close>

definition GossipBroadcastAckLog :: RateMonitor where
  "GossipBroadcastAckLog = rate_monitor plain_pct (\<lambda>rate. rate < 80) None wrapping_sum"

definition GossipAckDelayE5Log :: RateMonitor where
  "GossipAckDelayE5Log = rate_monitor saturating_pct (\<lambda>rate. rate > 15) (Some wrapping_sum) wrapping_sum"

definition GossipAckDelayE6Log :: RateMonitor where
  "GossipAckDelayE6Log = rate_monitor saturating_pct (\<lambda>rate. rate > 17) (Some wrapping_sum) wrapping_sum"

definition GossipAckTimeoutLog :: RateMonitor where
  "GossipAckTimeoutLog = rate_monitor saturating_pct (\<lambda>rate. rate > 8) (Some wrapping_sum) wrapping_sum"

definition GossipAckTimeoutE3Log :: RateMonitor where
  "GossipAckTimeoutE3Log = rate_monitor saturating_pct (\<lambda>rate. rate > 8) (Some saturating_sum) saturating_sum"

definition GossipAckTimeoutE4Log :: RateMonitor where
  "GossipAckTimeoutE4Log = rate_monitor saturating_pct (\<lambda>rate. rate > 8) (Some wrapping_sum) wrapping_sum"

definition GossipAuthFailE6Log :: RateMonitor where
  "GossipAuthFailE6Log = rate_monitor saturating_pct (\<lambda>rate. rate > 9) (Some wrapping_sum) wrapping_sum"

definition GossipBackpressureE3Log :: RateMonitor where
  "GossipBackpressureE3Log = rate_monitor saturating_pct (\<lambda>rate. rate > 20) (Some wrapping_sum) wrapping_sum"

definition GossipBackpressureE4Log :: RateMonitor where
  "GossipBackpressureE4Log = rate_monitor saturating_pct (\<lambda>rate. rate > 20) (Some wrapping_sum) wrapping_sum"

definition GossipBackpressureE5Log :: RateMonitor where
  "GossipBackpressureE5Log = rate_monitor saturating_pct (\<lambda>rate. rate > 14) (Some wrapping_sum) wrapping_sum"

definition GossipBackpressureE6Log :: RateMonitor where
  "GossipBackpressureE6Log = rate_monitor saturating_pct (\<lambda>rate. rate > 18) (Some wrapping_sum) wrapping_sum"

definition GossipBandwidthExceedLog :: RateMonitor where
  "GossipBandwidthExceedLog = rate_monitor saturating_pct (\<lambda>rate. rate > 20) (Some saturating_sum) saturating_sum"

definition GossipBandwidthExceedE3Log :: RateMonitor where
  "GossipBandwidthExceedE3Log = rate_monitor saturating_pct (\<lambda>rate. rate > 20) (Some wrapping_sum) wrapping_sum"

definition GossipBandwidthExceedE4Log :: RateMonitor where
  "GossipBandwidthExceedE4Log = rate_monitor saturating_pct (\<lambda>rate. rate > 20) (Some wrapping_sum) wrapping_sum"

definition GossipBroadcastBatchLog :: RateMonitor where
  "GossipBroadcastBatchLog = rate_monitor plain_pct (\<lambda>rate. rate < 50) (Some wrapping_sum) wrapping_sum"

definition GossipBatchE3Log :: RateMonitor where
  "GossipBatchE3Log = rate_monitor saturating_pct (\<lambda>rate. rate < 50) (Some wrapping_sum) wrapping_sum"

definition GossipBatchE4Log :: RateMonitor where
  "GossipBatchE4Log = rate_monitor saturating_pct (\<lambda>rate. rate < 50) (Some saturating_sum) saturating_sum"

definition GossipBroadcastBroadcastDropLog :: RateMonitor where
  "GossipBroadcastBroadcastDropLog = rate_monitor saturating_pct (\<lambda>rate. rate > 2) (Some saturating_sum) saturating_sum"

definition GossipBroadcastDropE3Log :: RateMonitor where
  "GossipBroadcastDropE3Log = rate_monitor saturating_pct (\<lambda>rate. rate > 2) (Some wrapping_sum) wrapping_sum"

definition GossipBroadcastDropE4Log :: RateMonitor where
  "GossipBroadcastDropE4Log = rate_monitor saturating_pct (\<lambda>rate. rate > 2) (Some wrapping_sum) wrapping_sum"

definition GossipBroadcastStormE5Log :: RateMonitor where
  "GossipBroadcastStormE5Log = rate_monitor saturating_pct (\<lambda>rate. rate > 17) (Some wrapping_sum) wrapping_sum"

definition GossipBufferOverflowE5Log :: RateMonitor where
  "GossipBufferOverflowE5Log = rate_monitor saturating_pct (\<lambda>rate. rate > 8) (Some wrapping_sum) wrapping_sum"

definition GossipBufferOverflowE6Log :: RateMonitor where
  "GossipBufferOverflowE6Log = rate_monitor saturating_pct (\<lambda>rate. rate > 15) (Some wrapping_sum) wrapping_sum"

definition GossipCapacityBreachLog :: RateMonitor where
  "GossipCapacityBreachLog = rate_monitor saturating_pct (\<lambda>rate. rate > 5) (Some wrapping_sum) wrapping_sum"

definition GossipCapacityBreachE3Log :: RateMonitor where
  "GossipCapacityBreachE3Log = rate_monitor saturating_pct (\<lambda>rate. rate > 5) (Some wrapping_sum) wrapping_sum"

definition GossipCapacityBreachE4Log :: RateMonitor where
  "GossipCapacityBreachE4Log = rate_monitor saturating_pct (\<lambda>rate. rate > 5) (Some wrapping_sum) wrapping_sum"

definition GossipCertExpireE6Log :: RateMonitor where
  "GossipCertExpireE6Log = rate_monitor saturating_pct (\<lambda>rate. rate > 4) (Some wrapping_sum) wrapping_sum"

definition GossipCertRejectE5Log :: RateMonitor where
  "GossipCertRejectE5Log = rate_monitor saturating_pct (\<lambda>rate. rate > 4) (Some wrapping_sum) wrapping_sum"

definition GossipCollisionLog :: RateMonitor where
  "GossipCollisionLog = rate_monitor saturating_pct (\<lambda>rate. rate > 5) (Some wrapping_sum) wrapping_sum"

definition GossipCollisionE3Log :: RateMonitor where
  "GossipCollisionE3Log = rate_monitor saturating_pct (\<lambda>rate. rate > 5) (Some wrapping_sum) wrapping_sum"

definition GossipCollisionE4Log :: RateMonitor where
  "GossipCollisionE4Log = rate_monitor saturating_pct (\<lambda>rate. rate > 5) (Some saturating_sum) saturating_sum"

definition GossipCongestionLog :: RateMonitor where
  "GossipCongestionLog = rate_monitor saturating_pct (\<lambda>rate. rate > 30) (Some saturating_sum) saturating_sum"

definition GossipCongestionE3Log :: RateMonitor where
  "GossipCongestionE3Log = rate_monitor saturating_pct (\<lambda>rate. rate > 30) (Some wrapping_sum) wrapping_sum"

definition GossipCongestionE4Log :: RateMonitor where
  "GossipCongestionE4Log = rate_monitor saturating_pct (\<lambda>rate. rate > 30) (Some wrapping_sum) wrapping_sum"

definition GossipConsensusLagE5Log :: RateMonitor where
  "GossipConsensusLagE5Log = rate_monitor saturating_pct (\<lambda>rate. rate > 12) (Some wrapping_sum) wrapping_sum"

definition GossipCrcFailE6Log :: RateMonitor where
  "GossipCrcFailE6Log = rate_monitor saturating_pct (\<lambda>rate. rate > 6) (Some wrapping_sum) wrapping_sum"

definition GossipCryptoFailE5Log :: RateMonitor where
  "GossipCryptoFailE5Log = rate_monitor saturating_pct (\<lambda>rate. rate > 2) (Some wrapping_sum) wrapping_sum"

definition GossipDedupMissLog :: RateMonitor where
  "GossipDedupMissLog = rate_monitor saturating_pct (\<lambda>rate. rate > 3) (Some wrapping_sum) wrapping_sum"

definition GossipDedupMissE3Log :: RateMonitor where
  "GossipDedupMissE3Log = rate_monitor saturating_pct (\<lambda>rate. rate > 3) (Some wrapping_sum) wrapping_sum"

definition GossipDedupMissE4Log :: RateMonitor where
  "GossipDedupMissE4Log = rate_monitor saturating_pct (\<lambda>rate. rate > 11) (Some wrapping_sum) wrapping_sum"

definition GossipDedupMissE6Log :: RateMonitor where
  "GossipDedupMissE6Log = rate_monitor saturating_pct (\<lambda>rate. rate > 25) (Some wrapping_sum) wrapping_sum"

definition GossipBroadcastDropLog :: RateMonitor where
  "GossipBroadcastDropLog = rate_monitor plain_pct (\<lambda>rate. rate > 10) (Some wrapping_sum) wrapping_sum"

definition GossipDropCascadeE5Log :: RateMonitor where
  "GossipDropCascadeE5Log = rate_monitor saturating_pct (\<lambda>rate. rate > 9) (Some wrapping_sum) wrapping_sum"

definition GossipDropCascadeE6Log :: RateMonitor where
  "GossipDropCascadeE6Log = rate_monitor saturating_pct (\<lambda>rate. rate > 11) (Some wrapping_sum) wrapping_sum"

definition GossipBroadcastDuplicateLog :: RateMonitor where
  "GossipBroadcastDuplicateLog = rate_monitor plain_pct (\<lambda>rate. rate > 10) (Some wrapping_sum) wrapping_sum"

definition GossipDuplicateE3Log :: RateMonitor where
  "GossipDuplicateE3Log = rate_monitor saturating_pct (\<lambda>rate. rate > 10) (Some wrapping_sum) wrapping_sum"

definition GossipDuplicateE4Log :: RateMonitor where
  "GossipDuplicateE4Log = rate_monitor saturating_pct (\<lambda>rate. rate > 10) (Some wrapping_sum) wrapping_sum"

definition GossipEchoDetectE6Log :: RateMonitor where
  "GossipEchoDetectE6Log = rate_monitor saturating_pct (\<lambda>rate. rate > 7) (Some wrapping_sum) wrapping_sum"

definition GossipEpochDriftE5Log :: RateMonitor where
  "GossipEpochDriftE5Log = rate_monitor saturating_pct (\<lambda>rate. rate > 8) (Some wrapping_sum) wrapping_sum"

definition GossipEpochDriftE6Log :: RateMonitor where
  "GossipEpochDriftE6Log = rate_monitor saturating_pct (\<lambda>rate. rate > 9) (Some wrapping_sum) wrapping_sum"

definition GossipEpochGapLog :: RateMonitor where
  "GossipEpochGapLog = rate_monitor saturating_pct (\<lambda>rate. rate > 5) (Some wrapping_sum) wrapping_sum"

definition GossipEpochGapE3Log :: RateMonitor where
  "GossipEpochGapE3Log = rate_monitor saturating_pct (\<lambda>rate. rate > 5) (Some wrapping_sum) wrapping_sum"

definition GossipEpochGapE4Log :: RateMonitor where
  "GossipEpochGapE4Log = rate_monitor saturating_pct (\<lambda>rate. rate > 5) (Some wrapping_sum) wrapping_sum"

definition GossipEpochOverlapLog :: RateMonitor where
  "GossipEpochOverlapLog = rate_monitor saturating_pct (\<lambda>rate. rate > 3) (Some saturating_sum) wrapping_sum"

definition GossipEpochOverlapE3Log :: RateMonitor where
  "GossipEpochOverlapE3Log = rate_monitor saturating_pct (\<lambda>rate. rate > 3) (Some saturating_sum) wrapping_sum"

definition GossipEpochOverlapE4Log :: RateMonitor where
  "GossipEpochOverlapE4Log = rate_monitor saturating_pct (\<lambda>rate. rate > 15) (Some wrapping_sum) wrapping_sum"

definition GossipEpochSealE5Log :: RateMonitor where
  "GossipEpochSealE5Log = rate_monitor saturating_pct (\<lambda>rate. rate > 18) (Some wrapping_sum) wrapping_sum"

definition GossipEpochSkipE5Log :: RateMonitor where
  "GossipEpochSkipE5Log = rate_monitor saturating_pct (\<lambda>rate. rate > 5) (Some wrapping_sum) wrapping_sum"

definition GossipEpochSkipE6Log :: RateMonitor where
  "GossipEpochSkipE6Log = rate_monitor saturating_pct (\<lambda>rate. rate > 7) (Some wrapping_sum) wrapping_sum"

definition GossipEpochStallLog :: RateMonitor where
  "GossipEpochStallLog = rate_monitor saturating_pct (\<lambda>rate. rate > 5) (Some wrapping_sum) wrapping_sum"

definition GossipEpochStallE3Log :: RateMonitor where
  "GossipEpochStallE3Log = rate_monitor saturating_pct (\<lambda>rate. rate > 5) (Some wrapping_sum) wrapping_sum"

definition GossipEpochStallE4Log :: RateMonitor where
  "GossipEpochStallE4Log = rate_monitor saturating_pct (\<lambda>rate. rate > 5) (Some wrapping_sum) wrapping_sum"

definition GossipFanoutLog :: RateMonitor where
  "GossipFanoutLog = rate_monitor saturating_pct (\<lambda>rate. rate < 40) (Some wrapping_sum) wrapping_sum"

definition GossipFanoutDropE5Log :: RateMonitor where
  "GossipFanoutDropE5Log = rate_monitor saturating_pct (\<lambda>rate. rate > 13) (Some wrapping_sum) wrapping_sum"

definition GossipFanoutE3Log :: RateMonitor where
  "GossipFanoutE3Log = rate_monitor saturating_pct (\<lambda>rate. rate < 40) (Some wrapping_sum) wrapping_sum"

definition GossipFanoutE4Log :: RateMonitor where
  "GossipFanoutE4Log = rate_monitor saturating_pct (\<lambda>rate. rate < 40) (Some wrapping_sum) wrapping_sum"

definition GossipFanoutE5Log :: RateMonitor where
  "GossipFanoutE5Log = rate_monitor saturating_pct (\<lambda>rate. rate > 18) (Some wrapping_sum) wrapping_sum"

definition GossipFanoutE6Log :: RateMonitor where
  "GossipFanoutE6Log = rate_monitor saturating_pct (\<lambda>rate. rate > 30) (Some wrapping_sum) wrapping_sum"

definition GossipFloodBurstE6Log :: RateMonitor where
  "GossipFloodBurstE6Log = rate_monitor saturating_pct (\<lambda>rate. rate > 22) (Some wrapping_sum) wrapping_sum"

definition GossipFloodGuardE5Log :: RateMonitor where
  "GossipFloodGuardE5Log = rate_monitor saturating_pct (\<lambda>rate. rate > 16) (Some wrapping_sum) wrapping_sum"

definition GossipFloodRateLog :: RateMonitor where
  "GossipFloodRateLog = rate_monitor saturating_pct (\<lambda>rate. rate > 15) (Some wrapping_sum) wrapping_sum"

definition GossipFloodRateE3Log :: RateMonitor where
  "GossipFloodRateE3Log = rate_monitor saturating_pct (\<lambda>rate. rate > 15) (Some wrapping_sum) wrapping_sum"

definition GossipFloodRateE4Log :: RateMonitor where
  "GossipFloodRateE4Log = rate_monitor saturating_pct (\<lambda>rate. rate > 20) (Some wrapping_sum) wrapping_sum"

definition GossipFragmentationLog :: RateMonitor where
  "GossipFragmentationLog = rate_monitor saturating_pct (\<lambda>rate. rate > 25) (Some wrapping_sum) wrapping_sum"

definition GossipFragmentationE3Log :: RateMonitor where
  "GossipFragmentationE3Log = rate_monitor saturating_pct (\<lambda>rate. rate > 25) (Some wrapping_sum) wrapping_sum"

definition GossipFragmentationE4Log :: RateMonitor where
  "GossipFragmentationE4Log = rate_monitor saturating_pct (\<lambda>rate. rate > 25) (Some wrapping_sum) wrapping_sum"

definition GossipHeaderCorruptE5Log :: RateMonitor where
  "GossipHeaderCorruptE5Log = rate_monitor saturating_pct (\<lambda>rate. rate > 4) (Some wrapping_sum) wrapping_sum"

definition GossipHeaderCorruptE6Log :: RateMonitor where
  "GossipHeaderCorruptE6Log = rate_monitor saturating_pct (\<lambda>rate. rate > 6) (Some wrapping_sum) wrapping_sum"

definition GossipHeartbeatMissE6Log :: RateMonitor where
  "GossipHeartbeatMissE6Log = rate_monitor saturating_pct (\<lambda>rate. rate > 13) (Some wrapping_sum) wrapping_sum"

definition GossipJitterE3Log :: RateMonitor where
  "GossipJitterE3Log = rate_monitor saturating_pct (\<lambda>rate. rate > 15) (Some wrapping_sum) wrapping_sum"

definition GossipJitterE4Log :: RateMonitor where
  "GossipJitterE4Log = rate_monitor saturating_pct (\<lambda>rate. rate > 15) (Some wrapping_sum) wrapping_sum"

definition GossipLatencySpikeE5Log :: RateMonitor where
  "GossipLatencySpikeE5Log = rate_monitor saturating_pct (\<lambda>rate. rate > 13) (Some wrapping_sum) wrapping_sum"

definition GossipLatencySpikeE6Log :: RateMonitor where
  "GossipLatencySpikeE6Log = rate_monitor saturating_pct (\<lambda>rate. rate > 15) (Some wrapping_sum) wrapping_sum"

definition GossipLinkFailE5Log :: RateMonitor where
  "GossipLinkFailE5Log = rate_monitor saturating_pct (\<lambda>rate. rate > 7) (Some wrapping_sum) wrapping_sum"

definition GossipLinkFailE6Log :: RateMonitor where
  "GossipLinkFailE6Log = rate_monitor saturating_pct (\<lambda>rate. rate > 9) (Some wrapping_sum) wrapping_sum"

definition GossipLoopDetectE6Log :: RateMonitor where
  "GossipLoopDetectE6Log = rate_monitor saturating_pct (\<lambda>rate. rate > 3) (Some wrapping_sum) wrapping_sum"

definition GossipLossLog :: RateMonitor where
  "GossipLossLog = rate_monitor saturating_pct (\<lambda>rate. rate > 3) (Some wrapping_sum) wrapping_sum"

definition GossipLossE3Log :: RateMonitor where
  "GossipLossE3Log = rate_monitor saturating_pct (\<lambda>rate. rate > 3) (Some wrapping_sum) wrapping_sum"

definition GossipLossE4Log :: RateMonitor where
  "GossipLossE4Log = rate_monitor saturating_pct (\<lambda>rate. rate > 3) (Some wrapping_sum) wrapping_sum"

definition GossipMalformE6Log :: RateMonitor where
  "GossipMalformE6Log = rate_monitor saturating_pct (\<lambda>rate. rate > 5) (Some wrapping_sum) wrapping_sum"

definition GossipMsgLossE5Log :: RateMonitor where
  "GossipMsgLossE5Log = rate_monitor saturating_pct (\<lambda>rate. rate > 11) (Some wrapping_sum) wrapping_sum"

definition GossipMsgLossE6Log :: RateMonitor where
  "GossipMsgLossE6Log = rate_monitor saturating_pct (\<lambda>rate. rate > 8) (Some wrapping_sum) wrapping_sum"

definition GossipMsgOrderingLog :: RateMonitor where
  "GossipMsgOrderingLog = rate_monitor saturating_pct (\<lambda>rate. rate > 5) (Some wrapping_sum) wrapping_sum"

definition GossipMsgOrderingE3Log :: RateMonitor where
  "GossipMsgOrderingE3Log = rate_monitor saturating_pct (\<lambda>rate. rate > 5) (Some saturating_sum) saturating_sum"

definition GossipMsgOrderingE4Log :: RateMonitor where
  "GossipMsgOrderingE4Log = rate_monitor saturating_pct (\<lambda>rate. rate > 7) (Some wrapping_sum) wrapping_sum"

definition GossipNackRateLog :: RateMonitor where
  "GossipNackRateLog = rate_monitor saturating_pct (\<lambda>rate. rate > 6) (Some wrapping_sum) wrapping_sum"

definition GossipNackRateE3Log :: RateMonitor where
  "GossipNackRateE3Log = rate_monitor saturating_pct (\<lambda>rate. rate > 6) (Some wrapping_sum) wrapping_sum"

definition GossipNackRateE4Log :: RateMonitor where
  "GossipNackRateE4Log = rate_monitor saturating_pct (\<lambda>rate. rate > 6) (Some wrapping_sum) wrapping_sum"

definition GossipNonceCollisionE5Log :: RateMonitor where
  "GossipNonceCollisionE5Log = rate_monitor saturating_pct (\<lambda>rate. rate > 3) (Some wrapping_sum) wrapping_sum"

definition GossipNonceCollisionE6Log :: RateMonitor where
  "GossipNonceCollisionE6Log = rate_monitor saturating_pct (\<lambda>rate. rate > 5) (Some wrapping_sum) wrapping_sum"

definition GossipOrphanMsgE5Log :: RateMonitor where
  "GossipOrphanMsgE5Log = rate_monitor saturating_pct (\<lambda>rate. rate > 6) (Some wrapping_sum) wrapping_sum"

definition GossipPartialDeliveryLog :: RateMonitor where
  "GossipPartialDeliveryLog = rate_monitor saturating_pct (\<lambda>rate. rate > 8) (Some wrapping_sum) wrapping_sum"

definition GossipPartialDeliveryE3Log :: RateMonitor where
  "GossipPartialDeliveryE3Log = rate_monitor saturating_pct (\<lambda>rate. rate > 8) (Some wrapping_sum) wrapping_sum"

definition GossipPartialDeliveryE4Log :: RateMonitor where
  "GossipPartialDeliveryE4Log = rate_monitor saturating_pct (\<lambda>rate. rate > 8) (Some wrapping_sum) wrapping_sum"

definition GossipPartitionDetectE5Log :: RateMonitor where
  "GossipPartitionDetectE5Log = rate_monitor saturating_pct (\<lambda>rate. rate > 5) (Some wrapping_sum) wrapping_sum"

definition GossipPartitionDetectE6Log :: RateMonitor where
  "GossipPartitionDetectE6Log = rate_monitor saturating_pct (\<lambda>rate. rate > 7) (Some wrapping_sum) wrapping_sum"

definition GossipPartitionHealE5Log :: RateMonitor where
  "GossipPartitionHealE5Log = rate_monitor saturating_pct (\<lambda>rate. rate > 22) (Some wrapping_sum) wrapping_sum"

definition GossipPeerChurnLog :: RateMonitor where
  "GossipPeerChurnLog = rate_monitor saturating_pct (\<lambda>rate. rate > 25) (Some wrapping_sum) wrapping_sum"

definition GossipPeerChurnE3Log :: RateMonitor where
  "GossipPeerChurnE3Log = rate_monitor saturating_pct (\<lambda>rate. rate > 25) (Some wrapping_sum) wrapping_sum"

definition GossipPeerChurnE4Log :: RateMonitor where
  "GossipPeerChurnE4Log = rate_monitor saturating_pct (\<lambda>rate. rate > 25) (Some wrapping_sum) wrapping_sum"

definition GossipPeerChurnE5Log :: RateMonitor where
  "GossipPeerChurnE5Log = rate_monitor saturating_pct (\<lambda>rate. rate > 20) (Some wrapping_sum) wrapping_sum"

definition GossipPeerChurnE6Log :: RateMonitor where
  "GossipPeerChurnE6Log = rate_monitor saturating_pct (\<lambda>rate. rate > 24) (Some wrapping_sum) wrapping_sum"

definition GossipPeerDriftLog :: RateMonitor where
  "GossipPeerDriftLog = rate_monitor saturating_pct (\<lambda>rate. rate > 15) (Some wrapping_sum) wrapping_sum"

definition GossipPeerDriftE3Log :: RateMonitor where
  "GossipPeerDriftE3Log = rate_monitor saturating_pct (\<lambda>rate. rate > 15) (Some wrapping_sum) wrapping_sum"

definition GossipPeerDriftE4Log :: RateMonitor where
  "GossipPeerDriftE4Log = rate_monitor saturating_pct (\<lambda>rate. rate > 15) (Some wrapping_sum) wrapping_sum"

definition GossipPeerIsolationLog :: RateMonitor where
  "GossipPeerIsolationLog = rate_monitor saturating_pct (\<lambda>rate. rate > 10) (Some wrapping_sum) wrapping_sum"

definition GossipPeerIsolationE3Log :: RateMonitor where
  "GossipPeerIsolationE3Log = rate_monitor saturating_pct (\<lambda>rate. rate > 10) (Some wrapping_sum) wrapping_sum"

definition GossipPeerIsolationE4Log :: RateMonitor where
  "GossipPeerIsolationE4Log = rate_monitor saturating_pct (\<lambda>rate. rate > 6) (Some wrapping_sum) wrapping_sum"

definition GossipPeerLatencyLog :: RateMonitor where
  "GossipPeerLatencyLog = rate_monitor saturating_pct (\<lambda>rate. rate > 20) (Some wrapping_sum) wrapping_sum"

definition GossipPeerLatencyE3Log :: RateMonitor where
  "GossipPeerLatencyE3Log = rate_monitor saturating_pct (\<lambda>rate. rate > 20) (Some wrapping_sum) wrapping_sum"

definition GossipPeerLatencyE4Log :: RateMonitor where
  "GossipPeerLatencyE4Log = rate_monitor saturating_pct (\<lambda>rate. rate > 20) (Some wrapping_sum) wrapping_sum"

definition GossipPeerRejectionLog :: RateMonitor where
  "GossipPeerRejectionLog = rate_monitor saturating_pct (\<lambda>rate. rate > 10) (Some wrapping_sum) wrapping_sum"

definition GossipPeerRejectionE3Log :: RateMonitor where
  "GossipPeerRejectionE3Log = rate_monitor saturating_pct (\<lambda>rate. rate > 10) (Some wrapping_sum) wrapping_sum"

definition GossipPeerRejectionE4Log :: RateMonitor where
  "GossipPeerRejectionE4Log = rate_monitor saturating_pct (\<lambda>rate. rate > 10) (Some wrapping_sum) wrapping_sum"

definition GossipPeerTimeoutLog :: RateMonitor where
  "GossipPeerTimeoutLog = rate_monitor saturating_pct (\<lambda>rate. rate > 10) (Some wrapping_sum) wrapping_sum"

definition GossipPeerTimeoutE3Log :: RateMonitor where
  "GossipPeerTimeoutE3Log = rate_monitor saturating_pct (\<lambda>rate. rate > 10) (Some wrapping_sum) wrapping_sum"

definition GossipPeerTimeoutE4Log :: RateMonitor where
  "GossipPeerTimeoutE4Log = rate_monitor saturating_pct (\<lambda>rate. rate > 8) (Some wrapping_sum) wrapping_sum"

definition GossipPhiAngularE7Log :: RateMonitor where
  "GossipPhiAngularE7Log = rate_monitor saturating_pct (\<lambda>rate. rate > 61) (Some saturating_sum) wrapping_sum"

definition GossipPhiConvergenceE7Log :: RateMonitor where
  "GossipPhiConvergenceE7Log = rate_monitor saturating_pct (\<lambda>rate. rate > 61) (Some saturating_sum) wrapping_sum"

definition GossipPhiDeviationE7Log :: RateMonitor where
  "GossipPhiDeviationE7Log = rate_monitor saturating_pct (\<lambda>rate. rate > 38) (Some saturating_sum) wrapping_sum"

definition GossipPhiFibonacciE7Log :: RateMonitor where
  "GossipPhiFibonacciE7Log = rate_monitor saturating_pct (\<lambda>rate. rate > 55) (Some saturating_sum) wrapping_sum"

definition GossipPhiHolographicE7Log :: RateMonitor where
  "GossipPhiHolographicE7Log = rate_monitor saturating_pct (\<lambda>rate. rate > 61) (Some saturating_sum) wrapping_sum"

definition GossipPhiReciprocalE7Log :: RateMonitor where
  "GossipPhiReciprocalE7Log = rate_monitor saturating_pct (\<lambda>rate. rate > 61) (Some saturating_sum) wrapping_sum"

definition GossipPhiSealE8Log :: RateMonitor where
  "GossipPhiSealE8Log = rate_monitor saturating_pct (\<lambda>rate. rate > 61) (Some saturating_sum) wrapping_sum"

definition GossipPhiSquaredE7Log :: RateMonitor where
  "GossipPhiSquaredE7Log = rate_monitor saturating_pct (\<lambda>rate. rate > 61) (Some saturating_sum) wrapping_sum"

definition GossipPhiStabilityE8Log :: RateMonitor where
  "GossipPhiStabilityE8Log = rate_monitor saturating_pct (\<lambda>rate. rate > 61) (Some saturating_sum) wrapping_sum"

definition GossipPhiUnitaryE7Log :: RateMonitor where
  "GossipPhiUnitaryE7Log = rate_monitor saturating_pct (\<lambda>rate. rate > 61) (Some saturating_sum) wrapping_sum"

definition GossipPriorityDropE6Log :: RateMonitor where
  "GossipPriorityDropE6Log = rate_monitor saturating_pct (\<lambda>rate. rate > 18) (Some wrapping_sum) wrapping_sum"

definition GossipPriorityInvertE5Log :: RateMonitor where
  "GossipPriorityInvertE5Log = rate_monitor saturating_pct (\<lambda>rate. rate > 9) (Some wrapping_sum) wrapping_sum"

definition GossipProbeFailE5Log :: RateMonitor where
  "GossipProbeFailE5Log = rate_monitor saturating_pct (\<lambda>rate. rate > 14) (Some wrapping_sum) wrapping_sum"

definition GossipPropagationLog :: RateMonitor where
  "GossipPropagationLog = rate_monitor saturating_pct (\<lambda>rate. rate > 10) (Some wrapping_sum) wrapping_sum"

definition GossipPropagationE3Log :: RateMonitor where
  "GossipPropagationE3Log = rate_monitor saturating_pct (\<lambda>rate. rate > 10) (Some wrapping_sum) wrapping_sum"

definition GossipPropagationE4Log :: RateMonitor where
  "GossipPropagationE4Log = rate_monitor saturating_pct (\<lambda>rate. rate > 10) (Some wrapping_sum) wrapping_sum"

definition GossipQueueOverflowLog :: RateMonitor where
  "GossipQueueOverflowLog = rate_monitor saturating_pct (\<lambda>rate. rate > 3) (Some wrapping_sum) wrapping_sum"

definition GossipQueueOverflowE3Log :: RateMonitor where
  "GossipQueueOverflowE3Log = rate_monitor saturating_pct (\<lambda>rate. rate > 3) (Some wrapping_sum) wrapping_sum"

definition GossipQueueOverflowE4Log :: RateMonitor where
  "GossipQueueOverflowE4Log = rate_monitor saturating_pct (\<lambda>rate. rate > 3) (Some saturating_sum) saturating_sum"

definition GossipQuorumMissE5Log :: RateMonitor where
  "GossipQuorumMissE5Log = rate_monitor saturating_pct (\<lambda>rate. rate > 7) (Some wrapping_sum) wrapping_sum"

definition GossipQuorumMissE6Log :: RateMonitor where
  "GossipQuorumMissE6Log = rate_monitor saturating_pct (\<lambda>rate. rate > 13) (Some wrapping_sum) wrapping_sum"

definition GossipRebroadcastLog :: RateMonitor where
  "GossipRebroadcastLog = rate_monitor saturating_pct (\<lambda>rate. rate > 12) (Some wrapping_sum) wrapping_sum"

definition GossipRebroadcastE3Log :: RateMonitor where
  "GossipRebroadcastE3Log = rate_monitor saturating_pct (\<lambda>rate. rate > 12) (Some wrapping_sum) wrapping_sum"

definition GossipRebroadcastE4Log :: RateMonitor where
  "GossipRebroadcastE4Log = rate_monitor saturating_pct (\<lambda>rate. rate > 12) (Some wrapping_sum) wrapping_sum"

definition GossipRebroadcastE5Log :: RateMonitor where
  "GossipRebroadcastE5Log = rate_monitor saturating_pct (\<lambda>rate. rate > 25) (Some wrapping_sum) wrapping_sum"

definition GossipRebroadcastE6Log :: RateMonitor where
  "GossipRebroadcastE6Log = rate_monitor saturating_pct (\<lambda>rate. rate > 28) (Some wrapping_sum) wrapping_sum"

definition GossipRelayDropE5Log :: RateMonitor where
  "GossipRelayDropE5Log = rate_monitor saturating_pct (\<lambda>rate. rate > 10) (Some wrapping_sum) wrapping_sum"

definition GossipRelayDropE6Log :: RateMonitor where
  "GossipRelayDropE6Log = rate_monitor saturating_pct (\<lambda>rate. rate > 12) (Some wrapping_sum) wrapping_sum"

definition GossipReplayDetectE6Log :: RateMonitor where
  "GossipReplayDetectE6Log = rate_monitor saturating_pct (\<lambda>rate. rate > 8) (Some wrapping_sum) wrapping_sum"

definition GossipRetryLog :: RateMonitor where
  "GossipRetryLog = rate_monitor saturating_pct (\<lambda>rate. rate > 8) (Some wrapping_sum) wrapping_sum"

definition GossipRetryE3Log :: RateMonitor where
  "GossipRetryE3Log = rate_monitor saturating_pct (\<lambda>rate. rate > 8) (Some wrapping_sum) wrapping_sum"

definition GossipRetryE4Log :: RateMonitor where
  "GossipRetryE4Log = rate_monitor saturating_pct (\<lambda>rate. rate > 8) (Some wrapping_sum) wrapping_sum"

definition GossipRouteFlapE5Log :: RateMonitor where
  "GossipRouteFlapE5Log = rate_monitor saturating_pct (\<lambda>rate. rate > 12) (Some wrapping_sum) wrapping_sum"

definition GossipRouteFlapE6Log :: RateMonitor where
  "GossipRouteFlapE6Log = rate_monitor saturating_pct (\<lambda>rate. rate > 14) (Some wrapping_sum) wrapping_sum"

definition GossipSeqGapE5Log :: RateMonitor where
  "GossipSeqGapE5Log = rate_monitor saturating_pct (\<lambda>rate. rate > 8) (Some wrapping_sum) wrapping_sum"

definition GossipSeqGapE6Log :: RateMonitor where
  "GossipSeqGapE6Log = rate_monitor saturating_pct (\<lambda>rate. rate > 10) (Some wrapping_sum) wrapping_sum"

definition GossipBroadcastSequenceLog :: RateMonitor where
  "GossipBroadcastSequenceLog = rate_monitor plain_pct (\<lambda>rate. rate > 15) (Some wrapping_sum) wrapping_sum"

definition GossipStateDesyncE5Log :: RateMonitor where
  "GossipStateDesyncE5Log = rate_monitor saturating_pct (\<lambda>rate. rate > 11) (Some wrapping_sum) wrapping_sum"

definition GossipSyncLagLog :: RateMonitor where
  "GossipSyncLagLog = rate_monitor saturating_pct (\<lambda>rate. rate > 30) (Some wrapping_sum) wrapping_sum"

definition GossipSyncLagE3Log :: RateMonitor where
  "GossipSyncLagE3Log = rate_monitor saturating_pct (\<lambda>rate. rate > 30) (Some wrapping_sum) wrapping_sum"

definition GossipSyncLagE4Log :: RateMonitor where
  "GossipSyncLagE4Log = rate_monitor saturating_pct (\<lambda>rate. rate > 30) (Some wrapping_sum) wrapping_sum"

definition GossipSyncLagE5Log :: RateMonitor where
  "GossipSyncLagE5Log = rate_monitor saturating_pct (\<lambda>rate. rate > 10) (Some wrapping_sum) wrapping_sum"

definition GossipSyncLagE6Log :: RateMonitor where
  "GossipSyncLagE6Log = rate_monitor saturating_pct (\<lambda>rate. rate > 21) (Some wrapping_sum) wrapping_sum"

definition GossipBroadcastTimeoutLog :: RateMonitor where
  "GossipBroadcastTimeoutLog = rate_monitor plain_pct (\<lambda>rate. rate > 5) (Some wrapping_sum) wrapping_sum"

definition GossipTimeoutE3Log :: RateMonitor where
  "GossipTimeoutE3Log = rate_monitor saturating_pct (\<lambda>rate. rate > 4) (Some wrapping_sum) wrapping_sum"

definition GossipTimeoutE4Log :: RateMonitor where
  "GossipTimeoutE4Log = rate_monitor saturating_pct (\<lambda>rate. rate > 4) (Some wrapping_sum) wrapping_sum"

definition GossipTopologyStaleE5Log :: RateMonitor where
  "GossipTopologyStaleE5Log = rate_monitor saturating_pct (\<lambda>rate. rate > 14) (Some wrapping_sum) wrapping_sum"

definition GossipTopologyStaleE6Log :: RateMonitor where
  "GossipTopologyStaleE6Log = rate_monitor saturating_pct (\<lambda>rate. rate > 16) (Some wrapping_sum) wrapping_sum"

definition GossipTtlExceededLog :: RateMonitor where
  "GossipTtlExceededLog = rate_monitor saturating_pct (\<lambda>rate. rate > 4) (Some wrapping_sum) wrapping_sum"

definition GossipTtlExceededE3Log :: RateMonitor where
  "GossipTtlExceededE3Log = rate_monitor saturating_pct (\<lambda>rate. rate > 4) (Some wrapping_sum) wrapping_sum"

definition GossipTtlExceededE4Log :: RateMonitor where
  "GossipTtlExceededE4Log = rate_monitor saturating_pct (\<lambda>rate. rate > 9) (Some wrapping_sum) wrapping_sum"

definition GossipTtlExhaustE6Log :: RateMonitor where
  "GossipTtlExhaustE6Log = rate_monitor saturating_pct (\<lambda>rate. rate > 19) (Some wrapping_sum) wrapping_sum"

definition GossipTtlExpireE5Log :: RateMonitor where
  "GossipTtlExpireE5Log = rate_monitor saturating_pct (\<lambda>rate. rate > 19) (Some wrapping_sum) wrapping_sum"

definition GossipVersionMismatchE6Log :: RateMonitor where
  "GossipVersionMismatchE6Log = rate_monitor saturating_pct (\<lambda>rate. rate > 11) (Some wrapping_sum) wrapping_sum"

definition GossipWindowExhaustE5Log :: RateMonitor where
  "GossipWindowExhaustE5Log = rate_monitor saturating_pct (\<lambda>rate. rate > 16) (Some wrapping_sum) wrapping_sum"

definition GossipWindowExhaustE6Log :: RateMonitor where
  "GossipWindowExhaustE6Log = rate_monitor saturating_pct (\<lambda>rate. rate > 20) (Some wrapping_sum) wrapping_sum"

definition GossipWindowMissE3Log :: RateMonitor where
  "GossipWindowMissE3Log = rate_monitor saturating_pct (\<lambda>rate. rate > 10) (Some wrapping_sum) wrapping_sum"

definition GossipWindowMissE4Log :: RateMonitor where
  "GossipWindowMissE4Log = rate_monitor saturating_pct (\<lambda>rate. rate > 10) (Some wrapping_sum) wrapping_sum"

definition GossipBroadcastAckLog_min_ack_rate_pct :: "RateLog \<Rightarrow> u32" where
  "GossipBroadcastAckLog_min_ack_rate_pct l =
     (case map re_rate_pct (rl_entries l) of [] \<Rightarrow> 100 | x # xs \<Rightarrow> fold min xs x)"

section \<open>All of them\<close>

text \<open>
  What the comment at the head of each module documents: the threshold of its rate and the side of it
  that is flagged, and, last, whether the log has a total of its events.
\<close>

definition rate_monitors_1 :: "(RateMonitor \<times> RateLimit \<times> bool) list" where
  "rate_monitors_1 =
     [(GossipBroadcastAckLog, BelowPct 80, False), (GossipAckDelayE5Log, AbovePct 15, True),
      (GossipAckDelayE6Log, AbovePct 17, True), (GossipAckTimeoutLog, AbovePct 8, True),
      (GossipAckTimeoutE3Log, AbovePct 8, True), (GossipAckTimeoutE4Log, AbovePct 8, True),
      (GossipAuthFailE6Log, AbovePct 9, True), (GossipBackpressureE3Log, AbovePct 20, True),
      (GossipBackpressureE4Log, AbovePct 20, True), (GossipBackpressureE5Log, AbovePct 14, True),
      (GossipBackpressureE6Log, AbovePct 18, True), (GossipBandwidthExceedLog, AbovePct 20, True),
      (GossipBandwidthExceedE3Log, AbovePct 20, True), (GossipBandwidthExceedE4Log, AbovePct 20, True),
      (GossipBroadcastBatchLog, BelowPct 50, True), (GossipBatchE3Log, BelowPct 50, True),
      (GossipBatchE4Log, BelowPct 50, True), (GossipBroadcastBroadcastDropLog, AbovePct 2, True),
      (GossipBroadcastDropE3Log, AbovePct 2, True), (GossipBroadcastDropE4Log, AbovePct 2, True),
      (GossipBroadcastStormE5Log, AbovePct 17, True), (GossipBufferOverflowE5Log, AbovePct 8, True),
      (GossipBufferOverflowE6Log, AbovePct 15, True), (GossipCapacityBreachLog, AbovePct 5, True),
      (GossipCapacityBreachE3Log, AbovePct 5, True), (GossipCapacityBreachE4Log, AbovePct 5, True),
      (GossipCertExpireE6Log, AbovePct 4, True), (GossipCertRejectE5Log, AbovePct 4, True),
      (GossipCollisionLog, AbovePct 5, True), (GossipCollisionE3Log, AbovePct 5, True),
      (GossipCollisionE4Log, AbovePct 5, True), (GossipCongestionLog, AbovePct 30, True),
      (GossipCongestionE3Log, AbovePct 30, True), (GossipCongestionE4Log, AbovePct 30, True),
      (GossipConsensusLagE5Log, AbovePct 12, True), (GossipCrcFailE6Log, AbovePct 6, True),
      (GossipCryptoFailE5Log, AbovePct 2, True)]"

definition rate_monitors_2 :: "(RateMonitor \<times> RateLimit \<times> bool) list" where
  "rate_monitors_2 =
     [(GossipDedupMissLog, AbovePct 3, True), (GossipDedupMissE3Log, AbovePct 3, True),
      (GossipDedupMissE4Log, AbovePct 11, True), (GossipDedupMissE6Log, AbovePct 25, True),
      (GossipBroadcastDropLog, AbovePct 10, True), (GossipDropCascadeE5Log, AbovePct 9, True),
      (GossipDropCascadeE6Log, AbovePct 11, True), (GossipBroadcastDuplicateLog, AbovePct 10, True),
      (GossipDuplicateE3Log, AbovePct 10, True), (GossipDuplicateE4Log, AbovePct 10, True),
      (GossipEchoDetectE6Log, AbovePct 7, True), (GossipEpochDriftE5Log, AbovePct 8, True),
      (GossipEpochDriftE6Log, AbovePct 9, True), (GossipEpochGapLog, AbovePct 5, True),
      (GossipEpochGapE3Log, AbovePct 5, True), (GossipEpochGapE4Log, AbovePct 5, True),
      (GossipEpochOverlapLog, AbovePct 3, True), (GossipEpochOverlapE3Log, AbovePct 3, True),
      (GossipEpochOverlapE4Log, AbovePct 15, True), (GossipEpochSealE5Log, AbovePct 18, True),
      (GossipEpochSkipE5Log, AbovePct 5, True), (GossipEpochSkipE6Log, AbovePct 7, True),
      (GossipEpochStallLog, AbovePct 5, True), (GossipEpochStallE3Log, AbovePct 5, True),
      (GossipEpochStallE4Log, AbovePct 5, True), (GossipFanoutLog, BelowPct 40, True),
      (GossipFanoutDropE5Log, AbovePct 13, True), (GossipFanoutE3Log, BelowPct 40, True),
      (GossipFanoutE4Log, BelowPct 40, True), (GossipFanoutE5Log, AbovePct 18, True),
      (GossipFanoutE6Log, AbovePct 30, True), (GossipFloodBurstE6Log, AbovePct 22, True),
      (GossipFloodGuardE5Log, AbovePct 16, True), (GossipFloodRateLog, AbovePct 15, True),
      (GossipFloodRateE3Log, AbovePct 15, True), (GossipFloodRateE4Log, AbovePct 20, True),
      (GossipFragmentationLog, AbovePct 25, True)]"

definition rate_monitors_3 :: "(RateMonitor \<times> RateLimit \<times> bool) list" where
  "rate_monitors_3 =
     [(GossipFragmentationE3Log, AbovePct 25, True), (GossipFragmentationE4Log, AbovePct 25, True),
      (GossipHeaderCorruptE5Log, AbovePct 4, True), (GossipHeaderCorruptE6Log, AbovePct 6, True),
      (GossipHeartbeatMissE6Log, AbovePct 13, True), (GossipJitterE3Log, AbovePct 15, True),
      (GossipJitterE4Log, AbovePct 15, True), (GossipLatencySpikeE5Log, AbovePct 13, True),
      (GossipLatencySpikeE6Log, AbovePct 15, True), (GossipLinkFailE5Log, AbovePct 7, True),
      (GossipLinkFailE6Log, AbovePct 9, True), (GossipLoopDetectE6Log, AbovePct 3, True),
      (GossipLossLog, AbovePct 3, True), (GossipLossE3Log, AbovePct 3, True),
      (GossipLossE4Log, AbovePct 3, True), (GossipMalformE6Log, AbovePct 5, True),
      (GossipMsgLossE5Log, AbovePct 11, True), (GossipMsgLossE6Log, AbovePct 8, True),
      (GossipMsgOrderingLog, AbovePct 5, True), (GossipMsgOrderingE3Log, AbovePct 5, True),
      (GossipMsgOrderingE4Log, AbovePct 7, True), (GossipNackRateLog, AbovePct 6, True),
      (GossipNackRateE3Log, AbovePct 6, True), (GossipNackRateE4Log, AbovePct 6, True),
      (GossipNonceCollisionE5Log, AbovePct 3, True), (GossipNonceCollisionE6Log, AbovePct 5, True),
      (GossipOrphanMsgE5Log, AbovePct 6, True), (GossipPartialDeliveryLog, AbovePct 8, True),
      (GossipPartialDeliveryE3Log, AbovePct 8, True), (GossipPartialDeliveryE4Log, AbovePct 8, True),
      (GossipPartitionDetectE5Log, AbovePct 5, True), (GossipPartitionDetectE6Log, AbovePct 7, True),
      (GossipPartitionHealE5Log, AbovePct 22, True), (GossipPeerChurnLog, AbovePct 25, True),
      (GossipPeerChurnE3Log, AbovePct 25, True), (GossipPeerChurnE4Log, AbovePct 25, True),
      (GossipPeerChurnE5Log, AbovePct 20, True)]"

definition rate_monitors_4 :: "(RateMonitor \<times> RateLimit \<times> bool) list" where
  "rate_monitors_4 =
     [(GossipPeerChurnE6Log, AbovePct 24, True), (GossipPeerDriftLog, AbovePct 15, True),
      (GossipPeerDriftE3Log, AbovePct 15, True), (GossipPeerDriftE4Log, AbovePct 15, True),
      (GossipPeerIsolationLog, AbovePct 10, True), (GossipPeerIsolationE3Log, AbovePct 10, True),
      (GossipPeerIsolationE4Log, AbovePct 6, True), (GossipPeerLatencyLog, AbovePct 20, True),
      (GossipPeerLatencyE3Log, AbovePct 20, True), (GossipPeerLatencyE4Log, AbovePct 20, True),
      (GossipPeerRejectionLog, AbovePct 10, True), (GossipPeerRejectionE3Log, AbovePct 10, True),
      (GossipPeerRejectionE4Log, AbovePct 10, True), (GossipPeerTimeoutLog, AbovePct 10, True),
      (GossipPeerTimeoutE3Log, AbovePct 10, True), (GossipPeerTimeoutE4Log, AbovePct 8, True),
      (GossipPhiAngularE7Log, AbovePct 61, True), (GossipPhiConvergenceE7Log, AbovePct 61, True),
      (GossipPhiDeviationE7Log, AbovePct 38, True), (GossipPhiFibonacciE7Log, AbovePct 55, True),
      (GossipPhiHolographicE7Log, AbovePct 61, True), (GossipPhiReciprocalE7Log, AbovePct 61, True),
      (GossipPhiSealE8Log, AbovePct 61, True), (GossipPhiSquaredE7Log, AbovePct 61, True),
      (GossipPhiStabilityE8Log, AbovePct 61, True), (GossipPhiUnitaryE7Log, AbovePct 61, True),
      (GossipPriorityDropE6Log, AbovePct 18, True), (GossipPriorityInvertE5Log, AbovePct 9, True),
      (GossipProbeFailE5Log, AbovePct 14, True), (GossipPropagationLog, AbovePct 10, True),
      (GossipPropagationE3Log, AbovePct 10, True), (GossipPropagationE4Log, AbovePct 10, True),
      (GossipQueueOverflowLog, AbovePct 3, True), (GossipQueueOverflowE3Log, AbovePct 3, True),
      (GossipQueueOverflowE4Log, AbovePct 3, True), (GossipQuorumMissE5Log, AbovePct 7, True),
      (GossipQuorumMissE6Log, AbovePct 13, True)]"

definition rate_monitors_5 :: "(RateMonitor \<times> RateLimit \<times> bool) list" where
  "rate_monitors_5 =
     [(GossipRebroadcastLog, AbovePct 12, True), (GossipRebroadcastE3Log, AbovePct 12, True),
      (GossipRebroadcastE4Log, AbovePct 12, True), (GossipRebroadcastE5Log, AbovePct 25, True),
      (GossipRebroadcastE6Log, AbovePct 28, True), (GossipRelayDropE5Log, AbovePct 10, True),
      (GossipRelayDropE6Log, AbovePct 12, True), (GossipReplayDetectE6Log, AbovePct 8, True),
      (GossipRetryLog, AbovePct 8, True), (GossipRetryE3Log, AbovePct 8, True),
      (GossipRetryE4Log, AbovePct 8, True), (GossipRouteFlapE5Log, AbovePct 12, True),
      (GossipRouteFlapE6Log, AbovePct 14, True), (GossipSeqGapE5Log, AbovePct 8, True),
      (GossipSeqGapE6Log, AbovePct 10, True), (GossipBroadcastSequenceLog, AbovePct 15, True),
      (GossipStateDesyncE5Log, AbovePct 11, True), (GossipSyncLagLog, AbovePct 30, True),
      (GossipSyncLagE3Log, AbovePct 30, True), (GossipSyncLagE4Log, AbovePct 30, True),
      (GossipSyncLagE5Log, AbovePct 10, True), (GossipSyncLagE6Log, AbovePct 21, True),
      (GossipBroadcastTimeoutLog, AbovePct 5, True), (GossipTimeoutE3Log, AbovePct 4, True),
      (GossipTimeoutE4Log, AbovePct 4, True), (GossipTopologyStaleE5Log, AbovePct 14, True),
      (GossipTopologyStaleE6Log, AbovePct 16, True), (GossipTtlExceededLog, AbovePct 4, True),
      (GossipTtlExceededE3Log, AbovePct 4, True), (GossipTtlExceededE4Log, AbovePct 9, True),
      (GossipTtlExhaustE6Log, AbovePct 19, True), (GossipTtlExpireE5Log, AbovePct 19, True),
      (GossipVersionMismatchE6Log, AbovePct 11, True), (GossipWindowExhaustE5Log, AbovePct 16, True),
      (GossipWindowExhaustE6Log, AbovePct 20, True), (GossipWindowMissE3Log, AbovePct 10, True),
      (GossipWindowMissE4Log, AbovePct 10, True)]"

definition rate_monitors :: "(RateMonitor \<times> RateLimit \<times> bool) list" where
  "rate_monitors = rate_monitors_1 @ rate_monitors_2 @ rate_monitors_3 @ rate_monitors_4 @ rate_monitors_5"

lemma rate_monitors_1_ok: "list_all monitor_ok rate_monitors_1"
  unfolding rate_monitors_1_def list.pred_inject
    GossipBroadcastAckLog_def GossipAckDelayE5Log_def GossipAckDelayE6Log_def
    GossipAckTimeoutLog_def GossipAckTimeoutE3Log_def GossipAckTimeoutE4Log_def
    GossipAuthFailE6Log_def GossipBackpressureE3Log_def GossipBackpressureE4Log_def
    GossipBackpressureE5Log_def GossipBackpressureE6Log_def GossipBandwidthExceedLog_def
    GossipBandwidthExceedE3Log_def GossipBandwidthExceedE4Log_def GossipBroadcastBatchLog_def
    GossipBatchE3Log_def GossipBatchE4Log_def GossipBroadcastBroadcastDropLog_def
    GossipBroadcastDropE3Log_def GossipBroadcastDropE4Log_def GossipBroadcastStormE5Log_def
    GossipBufferOverflowE5Log_def GossipBufferOverflowE6Log_def GossipCapacityBreachLog_def
    GossipCapacityBreachE3Log_def GossipCapacityBreachE4Log_def GossipCertExpireE6Log_def
    GossipCertRejectE5Log_def GossipCollisionLog_def GossipCollisionE3Log_def
    GossipCollisionE4Log_def GossipCongestionLog_def GossipCongestionE3Log_def
    GossipCongestionE4Log_def GossipConsensusLagE5Log_def GossipCrcFailE6Log_def
    GossipCryptoFailE5Log_def
  by (intro conjI TrueI monitor_okI) simp_all

lemma rate_monitors_2_ok: "list_all monitor_ok rate_monitors_2"
  unfolding rate_monitors_2_def list.pred_inject
    GossipDedupMissLog_def GossipDedupMissE3Log_def GossipDedupMissE4Log_def
    GossipDedupMissE6Log_def GossipBroadcastDropLog_def GossipDropCascadeE5Log_def
    GossipDropCascadeE6Log_def GossipBroadcastDuplicateLog_def GossipDuplicateE3Log_def
    GossipDuplicateE4Log_def GossipEchoDetectE6Log_def GossipEpochDriftE5Log_def
    GossipEpochDriftE6Log_def GossipEpochGapLog_def GossipEpochGapE3Log_def
    GossipEpochGapE4Log_def GossipEpochOverlapLog_def GossipEpochOverlapE3Log_def
    GossipEpochOverlapE4Log_def GossipEpochSealE5Log_def GossipEpochSkipE5Log_def
    GossipEpochSkipE6Log_def GossipEpochStallLog_def GossipEpochStallE3Log_def
    GossipEpochStallE4Log_def GossipFanoutLog_def GossipFanoutDropE5Log_def
    GossipFanoutE3Log_def GossipFanoutE4Log_def GossipFanoutE5Log_def
    GossipFanoutE6Log_def GossipFloodBurstE6Log_def GossipFloodGuardE5Log_def
    GossipFloodRateLog_def GossipFloodRateE3Log_def GossipFloodRateE4Log_def
    GossipFragmentationLog_def
  by (intro conjI TrueI monitor_okI) simp_all

lemma rate_monitors_3_ok: "list_all monitor_ok rate_monitors_3"
  unfolding rate_monitors_3_def list.pred_inject
    GossipFragmentationE3Log_def GossipFragmentationE4Log_def GossipHeaderCorruptE5Log_def
    GossipHeaderCorruptE6Log_def GossipHeartbeatMissE6Log_def GossipJitterE3Log_def
    GossipJitterE4Log_def GossipLatencySpikeE5Log_def GossipLatencySpikeE6Log_def
    GossipLinkFailE5Log_def GossipLinkFailE6Log_def GossipLoopDetectE6Log_def
    GossipLossLog_def GossipLossE3Log_def GossipLossE4Log_def
    GossipMalformE6Log_def GossipMsgLossE5Log_def GossipMsgLossE6Log_def
    GossipMsgOrderingLog_def GossipMsgOrderingE3Log_def GossipMsgOrderingE4Log_def
    GossipNackRateLog_def GossipNackRateE3Log_def GossipNackRateE4Log_def
    GossipNonceCollisionE5Log_def GossipNonceCollisionE6Log_def GossipOrphanMsgE5Log_def
    GossipPartialDeliveryLog_def GossipPartialDeliveryE3Log_def GossipPartialDeliveryE4Log_def
    GossipPartitionDetectE5Log_def GossipPartitionDetectE6Log_def GossipPartitionHealE5Log_def
    GossipPeerChurnLog_def GossipPeerChurnE3Log_def GossipPeerChurnE4Log_def
    GossipPeerChurnE5Log_def
  by (intro conjI TrueI monitor_okI) simp_all

lemma rate_monitors_4_ok: "list_all monitor_ok rate_monitors_4"
  unfolding rate_monitors_4_def list.pred_inject
    GossipPeerChurnE6Log_def GossipPeerDriftLog_def GossipPeerDriftE3Log_def
    GossipPeerDriftE4Log_def GossipPeerIsolationLog_def GossipPeerIsolationE3Log_def
    GossipPeerIsolationE4Log_def GossipPeerLatencyLog_def GossipPeerLatencyE3Log_def
    GossipPeerLatencyE4Log_def GossipPeerRejectionLog_def GossipPeerRejectionE3Log_def
    GossipPeerRejectionE4Log_def GossipPeerTimeoutLog_def GossipPeerTimeoutE3Log_def
    GossipPeerTimeoutE4Log_def GossipPhiAngularE7Log_def GossipPhiConvergenceE7Log_def
    GossipPhiDeviationE7Log_def GossipPhiFibonacciE7Log_def GossipPhiHolographicE7Log_def
    GossipPhiReciprocalE7Log_def GossipPhiSealE8Log_def GossipPhiSquaredE7Log_def
    GossipPhiStabilityE8Log_def GossipPhiUnitaryE7Log_def GossipPriorityDropE6Log_def
    GossipPriorityInvertE5Log_def GossipProbeFailE5Log_def GossipPropagationLog_def
    GossipPropagationE3Log_def GossipPropagationE4Log_def GossipQueueOverflowLog_def
    GossipQueueOverflowE3Log_def GossipQueueOverflowE4Log_def GossipQuorumMissE5Log_def
    GossipQuorumMissE6Log_def
  by (intro conjI TrueI monitor_okI) simp_all

lemma rate_monitors_5_ok: "list_all monitor_ok rate_monitors_5"
  unfolding rate_monitors_5_def list.pred_inject
    GossipRebroadcastLog_def GossipRebroadcastE3Log_def GossipRebroadcastE4Log_def
    GossipRebroadcastE5Log_def GossipRebroadcastE6Log_def GossipRelayDropE5Log_def
    GossipRelayDropE6Log_def GossipReplayDetectE6Log_def GossipRetryLog_def
    GossipRetryE3Log_def GossipRetryE4Log_def GossipRouteFlapE5Log_def
    GossipRouteFlapE6Log_def GossipSeqGapE5Log_def GossipSeqGapE6Log_def
    GossipBroadcastSequenceLog_def GossipStateDesyncE5Log_def GossipSyncLagLog_def
    GossipSyncLagE3Log_def GossipSyncLagE4Log_def GossipSyncLagE5Log_def
    GossipSyncLagE6Log_def GossipBroadcastTimeoutLog_def GossipTimeoutE3Log_def
    GossipTimeoutE4Log_def GossipTopologyStaleE5Log_def GossipTopologyStaleE6Log_def
    GossipTtlExceededLog_def GossipTtlExceededE3Log_def GossipTtlExceededE4Log_def
    GossipTtlExhaustE6Log_def GossipTtlExpireE5Log_def GossipVersionMismatchE6Log_def
    GossipWindowExhaustE5Log_def GossipWindowExhaustE6Log_def GossipWindowMissE3Log_def
    GossipWindowMissE4Log_def
  by (intro conjI TrueI monitor_okI) simp_all

lemma rate_monitors_ok: "x \<in> set rate_monitors \<Longrightarrow> monitor_ok x"
  using rate_monitors_1_ok rate_monitors_2_ok rate_monitors_3_ok rate_monitors_4_ok rate_monitors_5_ok
  by (auto simp: rate_monitors_def list_all_iff simp del: monitor_ok.simps)

section \<open>Properties\<close>

text \<open>
  C22.  Every monitor is exact.  For each of the 185 modules, with the limit its head comment documents:
  after any records the log holds them in order and verifies; each entry has the rate in percent,
  rounded down and at most 100, and is flagged exactly if, for a limit above \<open>t\<close>, \<open>t + 1\<close> percent of
  the total do not exceed the events, and for a limit below \<open>t\<close>, the events are below \<open>t\<close> percent of
  the total, an empty total read as 1; the number of flags, the total of the events (of every module
  but \<open>gossip_broadcast_ack\<close>, which has none) and the mean of the rates are exact for fewer than
  \<open>2 ^ 32\<close> entries, and the mean is at most 100.
\<close>

theorem rate_monitors_exact:
  assumes "(m, limit, totals) \<in> set rate_monitors" and "length inputs < 2 ^ 32"
  shows "let l = run (feed m sha) inputs RateLog_new; es = rl_entries l
     in map (\<lambda>e. (re_epoch_end e, re_events e, re_total e)) es = inputs \<and>
        list_all (\<lambda>e. let n = unat (re_events e); d = max (unat (re_total e)) 1
          in unat (re_rate_pct e) = min (n * 100 div d) 100 \<and>
             re_flag e = (case limit of AbovePct t \<Rightarrow> Suc t * d \<le> 100 * n | BelowPct t \<Rightarrow> 100 * n < t * d)) es \<and>
        rm_verify_chain m sha l = (True, None) \<and>
        rm_flag_count m l = length (filter re_flag es) \<and>
        (case rm_total_events m of None \<Rightarrow> \<not> totals | Some f \<Rightarrow> totals \<and> unat (f l) = (\<Sum>e \<leftarrow> es. unat (re_events e))) \<and>
        (es \<noteq> [] \<longrightarrow>
           unat (rm_mean_rate_pct m l) = (\<Sum>e \<leftarrow> es. unat (re_rate_pct e)) div length es \<and>
           unat (rm_mean_rate_pct m l) \<le> 100)"
  using monitor_exact [OF rate_monitors_ok [OF assms(1)] assms(2)] unfolding entry_exact_def [abs_def] .

lemma rate_monitors_exact_witness:
  "let l = run (feed GossipAckDelayE5Log (\<lambda>b. of_nat (length b))) [(1, 15, 100), (2, 16, 100), (3, 3, 0)] RateLog_new
   in map re_flag (rl_entries l) = [False, True, True] \<and>
      rm_verify_chain GossipAckDelayE5Log (\<lambda>b. of_nat (length b)) l = (True, None)"
proof -
  let ?l = "run (feed GossipAckDelayE5Log (\<lambda>b. of_nat (length b))) [(1, 15, 100), (2, 16, 100), (3, 3, 0)] RateLog_new"
  have "(GossipAckDelayE5Log, AbovePct 15, True) \<in> set rate_monitors" by (simp add: rate_monitors_def rate_monitors_1_def)
  moreover have "length [(1 :: u64, 15 :: u32, 100 :: u32), (2, 16, 100), (3, 3, 0)] < 2 ^ 32" by simp
  ultimately have "map (\<lambda>e. (re_epoch_end e, re_events e, re_total e)) (rl_entries ?l) = [(1, 15, 100), (2, 16, 100), (3, 3, 0)]"
    and "list_all (\<lambda>e. re_flag e = (16 * max (unat (re_total e)) 1 \<le> 100 * unat (re_events e))) (rl_entries ?l)"
    and v: "rm_verify_chain GossipAckDelayE5Log (\<lambda>b. of_nat (length b)) ?l = (True, None)"
    using rate_monitors_exact [of GossipAckDelayE5Log "AbovePct 15" True
        "[(1, 15, 100), (2, 16, 100), (3, 3, 0)]" "\<lambda>b. of_nat (length b)"]
    unfolding Let_def list_all_iff by simp_all
  then have "map re_flag (rl_entries ?l) = [False, True, True]"
    by (auto simp: map_eq_Cons_conv)
  with v show ?thesis by (simp only: Let_def simp_thms)
qed

text \<open>
  Two things the code does not mean to do.  An epoch without acknowledgments expected is flagged as
  one that lacks them, as the empty total is read as 1.  And a batch log flags an epoch in which less
  than half of the batches were underfilled, the opposite of what its flag says.
\<close>

lemma ack_flags_idle_epoch:
  "re_flag (fst (rm_record GossipBroadcastAckLog sha epoch 0 0 l))"
  by (simp add: GossipBroadcastAckLog_def rate_monitor_def RateLog_record_def plain_pct_def Let_def)

lemma batch_e4_flags_full_batches:
  "re_flag (fst (rm_record GossipBatchE4Log sha epoch 0 10 l))"
  "\<not> re_flag (fst (rm_record GossipBatchE4Log sha epoch 10 10 l))"
  by (simp_all add: GossipBatchE4Log_def rate_monitor_def RateLog_record_def saturating_pct_def sat_mul_def Let_def)

text \<open>Nothing in an entry says which monitor it is of: a log of one verifies as a log of any other.\<close>

lemma monitors_share_logs:
  assumes "x \<in> set rate_monitors" "y \<in> set rate_monitors"
  shows "rm_verify_chain (fst x) sha l = rm_verify_chain (fst y) sha l"
proof -
  have "rm_verify_chain (fst z) = RateLog_verify_chain" if "monitor_ok z" for z
    using that by (cases z) (auto simp: rate_monitor_def)
  then show ?thesis using assms by (simp only: rate_monitors_ok)
qed

end
