(* ===== verification/Journal.thy ===== *)
theory Journal
  imports Hash_Chain
begin

text \<open>
  Registries whose log is a journal.  A component holds a table and a hash-chained log, and every
  operation appends the records that say how it changed the table.  The locale \<open>journal\<close> states what a
  component must provide: each operation extends the log by honest records, and the new view of the
  table is the old one with the committed fields of those records played on it.  Then the log refines
  the table: replaying it from nothing gives the view, so the hash of the last record commits to the
  whole view, and the log of an earlier moment is a prefix of the log of a later one.
\<close>

locale journal = hash_log pre prv hsh committed
  for pre :: "'r \<Rightarrow> bytes" and prv hsh :: "'r \<Rightarrow> hash" and committed :: "'r \<Rightarrow> 'c" +
  fixes step :: "sha \<Rightarrow> 'op \<Rightarrow> 's \<Rightarrow> 's"
    and journalled :: "'s \<Rightarrow> 'r list"
    and view :: "'s \<Rightarrow> 'v"
    and play :: "'c \<Rightarrow> 'v \<Rightarrow> 'v"
    and start :: 's
  assumes start_journalled: "journalled start = []"
    and step_ok: "ok sha (journalled s) \<Longrightarrow> ok sha (journalled (step sha op s))"
    and step_played: "\<exists>rs. journalled (step sha op s) = journalled s @ rs \<and>
        view (step sha op s) = fold play (map committed rs) (view s)"
begin

lemma run_ok: "ok sha (journalled s) \<Longrightarrow> ok sha (journalled (run (step sha) ops s))"
  by (induction ops arbitrary: s) (auto intro: step_ok)

lemma run_played:
  "\<exists>rs. journalled (run (step sha) ops s) = journalled s @ rs \<and>
     view (run (step sha) ops s) = fold play (map committed rs) (view s)"
proof (induction ops arbitrary: s)
  case Nil
  then show ?case by simp
next
  case (Cons op ops)
  obtain rs where "journalled (step sha op s) = journalled s @ rs"
      "view (step sha op s) = fold play (map committed rs) (view s)"
    using step_played by blast
  moreover obtain rs' where "journalled (run (step sha) ops (step sha op s)) = journalled (step sha op s) @ rs'"
      "view (run (step sha) ops (step sha op s)) = fold play (map committed rs') (view (step sha op s))"
    using Cons.IH by blast
  ultimately show ?case by (intro exI [of _ "rs @ rs'"]) simp
qed

theorem replay:
  "view (run (step sha) ops start) = fold play (map committed (journalled (run (step sha) ops start))) (view start)"
  using run_played [of sha ops start] by (auto simp: start_journalled)

theorem log_ok: "ok sha (journalled (run (step sha) ops start))"
  by (rule run_ok) (simp add: start_journalled)

theorem hash_commits_to_view:
  assumes "s = run (step sha) ops start" and "t = run (step sha) ops' start"
    and "last_hash hsh (journalled s) = last_hash hsh (journalled t)"
  shows "view s = view t \<or> forgery sha (pre ` (set (journalled s) \<union> set (journalled t)))"
proof -
  have "ok sha (journalled s)" "ok sha (journalled t)" using assms log_ok by simp_all
  from tamper_evident [OF this assms(3)] show ?thesis
    using replay [of sha ops] replay [of sha ops'] assms(1,2) by auto
qed

text \<open>An earlier log is a prefix of a later one, and gives back the view of that time.\<close>

theorem view_of_prefix:
  "\<exists>n. view (run (step sha) ops start) =
     fold play (map committed (take n (journalled (run (step sha) (ops @ ops') start)))) (view start)"
proof -
  let ?s = "run (step sha) ops start"
  obtain rs where "journalled (run (step sha) (ops @ ops') start) = journalled ?s @ rs"
    using run_played [of sha ops' ?s] by auto
  then show ?thesis
    using replay [of sha ops] by (intro exI [of _ "length (journalled ?s)"]) simp
qed

end

end
