(* ===== verification/Routing_Table.thy ===== *)
theory Routing_Table
  imports Ordered_Map Journal
begin

text \<open>
  Gate 301, \<open>aegis-cl-psi/src/routing_table.rs\<close>: next hops by destination, at most 256 of them, every
  change journalled.  The table refines its log: playing the records gives the table back, whose
  inserts and removes balance its size.
\<close>

section \<open>Operations, records, log\<close>

datatype RouteOperation = RInsert | RUpdate | RRemove

fun RouteOperation_op_byte :: "RouteOperation \<Rightarrow> u8" where
  "RouteOperation_op_byte RInsert = 0"
| "RouteOperation_op_byte RUpdate = 1"
| "RouteOperation_op_byte RRemove = 2"

lemma RouteOperation_op_byte_inj [simp]: "RouteOperation_op_byte x = RouteOperation_op_byte y \<longleftrightarrow> x = y"
  by (cases x; cases y) auto

record RouteRecord =
  rr_epoch :: u64
  rr_destination :: u32
  rr_next_hop :: u32
  rr_metric :: u8
  rr_operation :: RouteOperation
  rr_record_hash :: hash
  rr_prev_hash :: hash

definition route_bytes :: "u64 \<Rightarrow> u32 \<Rightarrow> u32 \<Rightarrow> u8 \<Rightarrow> RouteOperation \<Rightarrow> hash \<Rightarrow> bytes" where
  "route_bytes epoch destination next_hop metric operation prev =
     hash_bytes prev @ be8 epoch @ be4 destination @ be4 next_hop @ [metric] @ [RouteOperation_op_byte operation]"

definition compute_route_hash :: "sha \<Rightarrow> u64 \<Rightarrow> u32 \<Rightarrow> u32 \<Rightarrow> u8 \<Rightarrow> RouteOperation \<Rightarrow> hash \<Rightarrow> hash" where
  "compute_route_hash sha epoch destination next_hop metric operation prev = sha (route_bytes epoch destination next_hop metric operation prev)"

definition build_route_record :: "sha \<Rightarrow> u64 \<Rightarrow> u32 \<Rightarrow> u32 \<Rightarrow> u8 \<Rightarrow> RouteOperation \<Rightarrow> hash \<Rightarrow> RouteRecord" where
  "build_route_record sha epoch destination next_hop metric operation prev_hash =
     \<lparr>rr_epoch = epoch, rr_destination = destination, rr_next_hop = next_hop, rr_metric = metric, rr_operation = operation,
      rr_record_hash = compute_route_hash sha epoch destination next_hop metric operation prev_hash, rr_prev_hash = prev_hash\<rparr>"

definition RouteRecord_bytes_of :: "RouteRecord \<Rightarrow> bytes" where
  "RouteRecord_bytes_of r = route_bytes (rr_epoch r) (rr_destination r) (rr_next_hop r) (rr_metric r) (rr_operation r) (rr_prev_hash r)"

record RouteLog =
  rol_records :: "RouteRecord list"

definition RouteLog_new :: RouteLog where
  "RouteLog_new = \<lparr>rol_records = []\<rparr>"

definition RouteLog_last_hash :: "RouteLog \<Rightarrow> hash" where
  "RouteLog_last_hash l = last_hash rr_record_hash (rol_records l)"

definition RouteLog_push :: "sha \<Rightarrow> u64 \<Rightarrow> u32 \<Rightarrow> u32 \<Rightarrow> u8 \<Rightarrow> RouteOperation \<Rightarrow> RouteLog \<Rightarrow> RouteLog" where
  "RouteLog_push sha epoch destination next_hop metric operation l =
     (let prev = RouteLog_last_hash l;
          r = build_route_record sha epoch destination next_hop metric operation prev
      in l\<lparr>rol_records := rol_records l @ [r]\<rparr>)"

definition RouteLog_insert_count :: "RouteLog \<Rightarrow> nat" where
  "RouteLog_insert_count l = length (filter (\<lambda>r. rr_operation r = RInsert) (rol_records l))"

definition RouteLog_update_count :: "RouteLog \<Rightarrow> nat" where
  "RouteLog_update_count l = length (filter (\<lambda>r. rr_operation r = RUpdate) (rol_records l))"

definition RouteLog_remove_count :: "RouteLog \<Rightarrow> nat" where
  "RouteLog_remove_count l = length (filter (\<lambda>r. rr_operation r = RRemove) (rol_records l))"

definition RouteLog_verify_chain :: "sha \<Rightarrow> RouteLog \<Rightarrow> bool \<times> nat option" where
  "RouteLog_verify_chain sha l =
     verify_from rr_prev_hash rr_record_hash (\<lambda>r. sha (RouteRecord_bytes_of r)) 0 genesis (rol_records l)"

lemma route_bytes_inj:
  "route_bytes e0 d1 n2 m3 o4 h = route_bytes e0' d1' n2' m3' o4' h' \<longleftrightarrow>
   e0 = e0' \<and> d1 = d1' \<and> n2 = n2' \<and> m3 = m3' \<and> o4 = o4' \<and> h = h'"
  by (auto simp: route_bytes_def enc_simps)

definition RouteRecord_committed :: "RouteRecord \<Rightarrow> u64 \<times> u32 \<times> u32 \<times> u8 \<times> RouteOperation" where
  "RouteRecord_committed r = (rr_epoch r, rr_destination r, rr_next_hop r, rr_metric r, rr_operation r)"

interpretation route_chain: hash_log RouteRecord_bytes_of rr_prev_hash rr_record_hash RouteRecord_committed
  by unfold_locales (auto simp: RouteRecord_bytes_of_def RouteRecord_committed_def route_bytes_inj)

definition RouteLog_ok :: "sha \<Rightarrow> RouteLog \<Rightarrow> bool" where
  "RouteLog_ok sha l \<longleftrightarrow> route_chain.ok sha (rol_records l)"

lemma RouteLog_verify_iff: "RouteLog_verify_chain sha l = (True, None) \<longleftrightarrow> RouteLog_ok sha l"
  by (simp add: RouteLog_verify_chain_def RouteLog_ok_def verify_from_iff)

lemma RouteLog_tamper_evident:
  assumes "RouteLog_ok sha l" "RouteLog_ok sha l'" "RouteLog_last_hash l = RouteLog_last_hash l'"
  shows "map RouteRecord_committed (rol_records l) = map RouteRecord_committed (rol_records l') \<or>
    forgery sha (RouteRecord_bytes_of ` (set (rol_records l) \<union> set (rol_records l')))"
  using assms route_chain.tamper_evident by (simp add: RouteLog_ok_def RouteLog_last_hash_def)

lemma RouteLog_ok_new [simp]: "RouteLog_ok sha RouteLog_new"
  by (simp add: RouteLog_ok_def RouteLog_new_def)

lemma RouteLog_push_simps [simp]:
  "RouteLog_ok sha (RouteLog_push sha x0 x1 x2 x3 x4 l) \<longleftrightarrow> RouteLog_ok sha l"
  "RouteLog_insert_count (RouteLog_push sha x0 x1 x2 x3 x4 l) = RouteLog_insert_count l + (if x4 = RInsert then 1 else 0)"
  "RouteLog_update_count (RouteLog_push sha x0 x1 x2 x3 x4 l) = RouteLog_update_count l + (if x4 = RUpdate then 1 else 0)"
  "RouteLog_remove_count (RouteLog_push sha x0 x1 x2 x3 x4 l) = RouteLog_remove_count l + (if x4 = RRemove then 1 else 0)"
  by (simp_all add: RouteLog_ok_def RouteLog_push_def RouteLog_last_hash_def build_route_record_def compute_route_hash_def RouteRecord_bytes_of_def Let_def RouteLog_insert_count_def RouteLog_update_count_def RouteLog_remove_count_def)

lemma RouteLog_new_simps [simp]:
  "RouteLog_insert_count RouteLog_new = 0"
  "RouteLog_update_count RouteLog_new = 0"
  "RouteLog_remove_count RouteLog_new = 0"
  by (simp_all add: RouteLog_new_def RouteLog_insert_count_def RouteLog_update_count_def RouteLog_remove_count_def)

section \<open>The table\<close>

definition MAX_ROUTES :: nat where
  "MAX_ROUTES = 256"

definition METRIC_DIRECT :: u8 where
  "METRIC_DIRECT = 1"

definition METRIC_INFINITY :: u8 where
  "METRIC_INFINITY = 255"

record RouteEntry =
  re_next_hop :: u32
  re_metric :: u8

record RoutingTable =
  rt_routes :: "(u32, RouteEntry) btmap"
  rt_log :: RouteLog

datatype RouteError = TableFull

definition RoutingTable_new :: RoutingTable where
  "RoutingTable_new = \<lparr>rt_routes = bt_empty, rt_log = RouteLog_new\<rparr>"

definition RoutingTable_route_count :: "RoutingTable \<Rightarrow> nat" where
  "RoutingTable_route_count t = bt_len (rt_routes t)"

definition RoutingTable_lookup :: "u32 \<Rightarrow> RoutingTable \<Rightarrow> (u32 \<times> u8) option" where
  "RoutingTable_lookup destination t =
     map_option (\<lambda>e. (re_next_hop e, re_metric e)) (bt_get (rt_routes t) destination)"

definition RoutingTable_insert ::
  "sha \<Rightarrow> u64 \<Rightarrow> u32 \<Rightarrow> u32 \<Rightarrow> u8 \<Rightarrow> RoutingTable \<Rightarrow> (RouteError + unit) \<times> RoutingTable" where
  "RoutingTable_insert sha epoch destination next_hop metric t =
     (let known = bt_has (rt_routes t) destination
      in if \<not> known \<and> MAX_ROUTES \<le> bt_len (rt_routes t) then (Inl TableFull, t)
         else
           let op = (if known then RUpdate else RInsert)
           in (Inr (), t\<lparr>rt_routes := bt_insert destination \<lparr>re_next_hop = next_hop, re_metric = metric\<rparr> (rt_routes t),
                        rt_log := RouteLog_push sha epoch destination next_hop metric op (rt_log t)\<rparr>))"

definition RoutingTable_remove :: "sha \<Rightarrow> u64 \<Rightarrow> u32 \<Rightarrow> RoutingTable \<Rightarrow> bool \<times> RoutingTable" where
  "RoutingTable_remove sha epoch destination t =
     (case bt_get (rt_routes t) destination of
        None \<Rightarrow> (False, t)
      | Some e \<Rightarrow>
          (True, t\<lparr>rt_routes := bt_remove destination (rt_routes t),
                   rt_log := RouteLog_push sha epoch destination (re_next_hop e) (re_metric e) RRemove (rt_log t)\<rparr>))"

definition RoutingTable_all_routes :: "RoutingTable \<Rightarrow> (u32 \<times> u32 \<times> u8) list" where
  "RoutingTable_all_routes t = map (\<lambda>(d, e). (d, re_next_hop e, re_metric e)) (entries (rt_routes t))"

section \<open>The log refines the table\<close>

datatype RouteOp = InsertRoute u64 u32 u32 u8 | RemoveRoute u64 u32

fun route_step :: "sha \<Rightarrow> RouteOp \<Rightarrow> RoutingTable \<Rightarrow> RoutingTable" where
  "route_step sha (InsertRoute e d h m) t = snd (RoutingTable_insert sha e d h m t)"
| "route_step sha (RemoveRoute e d) t = snd (RoutingTable_remove sha e d t)"

fun play_route :: "u64 \<times> u32 \<times> u32 \<times> u8 \<times> RouteOperation \<Rightarrow> (u32 \<rightharpoonup> u32 \<times> u8) \<Rightarrow> (u32 \<rightharpoonup> u32 \<times> u8)" where
  "play_route (e, d, h, m, RRemove) v = v(d := None)"
| "play_route (e, d, h, m, _) v = v(d \<mapsto> (h, m))"

definition route_view :: "RoutingTable \<Rightarrow> (u32 \<rightharpoonup> u32 \<times> u8)" where
  "route_view t d = RoutingTable_lookup d t"

lemmas route_defs = RoutingTable_insert_def RoutingTable_remove_def route_view_def RoutingTable_lookup_def
  RouteLog_push_def build_route_record_def RouteRecord_committed_def Let_def

lemma route_step_ok: "RouteLog_ok sha (rt_log t) \<Longrightarrow> RouteLog_ok sha (rt_log (route_step sha op t))"
  by (cases op) (auto simp: RoutingTable_insert_def RoutingTable_remove_def Let_def split: option.splits)

lemma route_step_played:
  "\<exists>rs. rol_records (rt_log (route_step sha op t)) = rol_records (rt_log t) @ rs \<and>
     route_view (route_step sha op t) = fold play_route (map RouteRecord_committed rs) (route_view t)"
  by (cases op; cases "RoutingTable_remove sha (case op of RemoveRoute e d \<Rightarrow> e) (case op of RemoveRoute e d \<Rightarrow> d) t")
    (auto simp: route_defs fun_eq_iff split: option.splits)

interpretation routes: journal RouteRecord_bytes_of rr_prev_hash rr_record_hash RouteRecord_committed
    route_step "\<lambda>t. rol_records (rt_log t)" route_view play_route RoutingTable_new
  using route_step_ok route_step_played
  by unfold_locales (auto simp: RouteLog_ok_def RoutingTable_new_def RouteLog_new_def)

section \<open>The size of the table\<close>

definition routes_balanced :: "RoutingTable \<Rightarrow> bool" where
  "routes_balanced t \<longleftrightarrow>
     RouteLog_insert_count (rt_log t) = RouteLog_remove_count (rt_log t) + RoutingTable_route_count t \<and>
     RoutingTable_route_count t \<le> MAX_ROUTES"

lemma route_step_balanced: "routes_balanced t \<Longrightarrow> routes_balanced (route_step sha op t)"
proof (cases op)
  case (RemoveRoute e d)
  have "bt_has (rt_routes t) d \<Longrightarrow> 0 < bt_len (rt_routes t)"
    by (auto simp: bt_len_card bt_has_def card_gt_0_iff)
  then show "routes_balanced t \<Longrightarrow> ?thesis"
    by (auto simp: RemoveRoute routes_balanced_def RoutingTable_remove_def RoutingTable_route_count_def bt_has_def
        split: option.splits)
qed (auto simp: routes_balanced_def RoutingTable_insert_def RoutingTable_route_count_def Let_def)

interpretation routes_inv: invariant_machine "route_step sha" routes_balanced for sha
  by unfold_locales (rule route_step_balanced)

lemma routes_balanced_new: "routes_balanced RoutingTable_new"
  by (simp add: routes_balanced_def RoutingTable_new_def RoutingTable_route_count_def RouteLog_new_def
      RouteLog_insert_count_def RouteLog_remove_count_def)

text \<open>A table of routes is its log: sizes, lookups and chain after any operations.\<close>

lemma routing_table_is_log:
  fixes ops :: "RouteOp list" and sha :: sha
  defines "t \<equiv> run (route_step sha) ops RoutingTable_new"
  shows "(\<lambda>d. RoutingTable_lookup d t) = fold play_route (map RouteRecord_committed (rol_records (rt_log t))) Map.empty"
    and "RouteLog_verify_chain sha (rt_log t) = (True, None)"
    and "RouteLog_insert_count (rt_log t) = RouteLog_remove_count (rt_log t) + RoutingTable_route_count t"
    and "RoutingTable_route_count t \<le> 256"
proof -
  have "route_view RoutingTable_new = Map.empty"
    by (simp add: fun_eq_iff route_view_def RoutingTable_lookup_def RoutingTable_new_def)
  then show "(\<lambda>d. RoutingTable_lookup d t) = fold play_route (map RouteRecord_committed (rol_records (rt_log t))) Map.empty"
    using routes.replay [of sha ops] by (simp add: t_def route_view_def [abs_def])
  show "RouteLog_verify_chain sha (rt_log t) = (True, None)"
    using routes.log_ok [of sha ops] by (simp add: t_def RouteLog_verify_iff RouteLog_ok_def)
  have "routes_balanced t" unfolding t_def by (rule routes_inv.run_inv) (rule routes_balanced_new)
  then show "RouteLog_insert_count (rt_log t) = RouteLog_remove_count (rt_log t) + RoutingTable_route_count t"
    and "RoutingTable_route_count t \<le> 256"
    by (simp_all add: routes_balanced_def MAX_ROUTES_def)
qed

lemma RoutingTable_all_routes_iff: "(d, h, m) \<in> set (RoutingTable_all_routes t) \<longleftrightarrow> RoutingTable_lookup d t = Some (h, m)"
proof -
  have "(d, h, m) \<in> set (RoutingTable_all_routes t) \<longleftrightarrow>
      (\<exists>e. (d, e) \<in> set (entries (rt_routes t)) \<and> h = re_next_hop e \<and> m = re_metric e)"
    by (force simp: RoutingTable_all_routes_def)
  then show ?thesis
    unfolding in_entries_iff RoutingTable_lookup_def by auto
qed

end
