(* ===== verification/Connection_Pool.thy ===== *)
theory Connection_Pool
  imports Ordered_Map Journal
begin

text \<open>
  Gate 309, \<open>aegis-cl-psi/src/peer_connection_pool.rs\<close>: at most 64 connections, reused, drained, closed
  and evicted when idle.  The life cycle is the relation \<open>conn_edge\<close>; the log refines the pool: the
  entries of all connections, with the epochs they were opened and last used at, are what playing the
  records gives.
\<close>

section \<open>States, records, log\<close>

datatype ConnectionState = Idle | Active | Draining | Closed

fun ConnectionState_state_byte :: "ConnectionState \<Rightarrow> u8" where
  "ConnectionState_state_byte Idle = 0"
| "ConnectionState_state_byte Active = 1"
| "ConnectionState_state_byte Draining = 2"
| "ConnectionState_state_byte Closed = 3"

lemma ConnectionState_state_byte_inj [simp]: "ConnectionState_state_byte x = ConnectionState_state_byte y \<longleftrightarrow> x = y"
  by (cases x; cases y) auto

record PoolRecord =
  plr_peer_id :: u32
  plr_epoch :: u64
  plr_from_state :: ConnectionState
  plr_to_state :: ConnectionState
  plr_record_hash :: hash
  plr_prev_hash :: hash

definition pool_bytes :: "u32 \<Rightarrow> u64 \<Rightarrow> ConnectionState \<Rightarrow> ConnectionState \<Rightarrow> hash \<Rightarrow> bytes" where
  "pool_bytes peer_id epoch from_state to_state prev =
     hash_bytes prev @ be4 peer_id @ be8 epoch @ [ConnectionState_state_byte from_state] @ [ConnectionState_state_byte to_state]"

definition compute_pool_hash :: "sha \<Rightarrow> u32 \<Rightarrow> u64 \<Rightarrow> ConnectionState \<Rightarrow> ConnectionState \<Rightarrow> hash \<Rightarrow> hash" where
  "compute_pool_hash sha peer_id epoch from_state to_state prev = sha (pool_bytes peer_id epoch from_state to_state prev)"

definition build_pool_record :: "sha \<Rightarrow> u32 \<Rightarrow> u64 \<Rightarrow> ConnectionState \<Rightarrow> ConnectionState \<Rightarrow> hash \<Rightarrow> PoolRecord" where
  "build_pool_record sha peer_id epoch from_state to_state prev_hash =
     \<lparr>plr_peer_id = peer_id, plr_epoch = epoch, plr_from_state = from_state, plr_to_state = to_state,
      plr_record_hash = compute_pool_hash sha peer_id epoch from_state to_state prev_hash, plr_prev_hash = prev_hash\<rparr>"

definition PoolRecord_bytes_of :: "PoolRecord \<Rightarrow> bytes" where
  "PoolRecord_bytes_of r = pool_bytes (plr_peer_id r) (plr_epoch r) (plr_from_state r) (plr_to_state r) (plr_prev_hash r)"

record PoolLog =
  pll_records :: "PoolRecord list"

definition PoolLog_new :: PoolLog where
  "PoolLog_new = \<lparr>pll_records = []\<rparr>"

definition PoolLog_last_hash :: "PoolLog \<Rightarrow> hash" where
  "PoolLog_last_hash l = last_hash plr_record_hash (pll_records l)"

definition PoolLog_push :: "sha \<Rightarrow> u32 \<Rightarrow> u64 \<Rightarrow> ConnectionState \<Rightarrow> ConnectionState \<Rightarrow> PoolLog \<Rightarrow> PoolLog" where
  "PoolLog_push sha peer_id epoch from_state to_state l =
     (let prev = PoolLog_last_hash l;
          r = build_pool_record sha peer_id epoch from_state to_state prev
      in l\<lparr>pll_records := pll_records l @ [r]\<rparr>)"

definition PoolLog_verify_chain :: "sha \<Rightarrow> PoolLog \<Rightarrow> bool \<times> nat option" where
  "PoolLog_verify_chain sha l =
     verify_from plr_prev_hash plr_record_hash (\<lambda>r. sha (PoolRecord_bytes_of r)) 0 genesis (pll_records l)"

definition PoolLog_transition_count_to :: "ConnectionState \<Rightarrow> PoolLog \<Rightarrow> nat" where
  "PoolLog_transition_count_to s l = length (filter (\<lambda>r. plr_to_state r = s) (pll_records l))"

lemma pool_bytes_inj:
  "pool_bytes p0 e1 f2 t3 h = pool_bytes p0' e1' f2' t3' h' \<longleftrightarrow>
   p0 = p0' \<and> e1 = e1' \<and> f2 = f2' \<and> t3 = t3' \<and> h = h'"
  by (auto simp: pool_bytes_def enc_simps)

definition PoolRecord_committed :: "PoolRecord \<Rightarrow> u32 \<times> u64 \<times> ConnectionState \<times> ConnectionState" where
  "PoolRecord_committed r = (plr_peer_id r, plr_epoch r, plr_from_state r, plr_to_state r)"

interpretation pool_chain: hash_log PoolRecord_bytes_of plr_prev_hash plr_record_hash PoolRecord_committed
  by unfold_locales (auto simp: PoolRecord_bytes_of_def PoolRecord_committed_def pool_bytes_inj)

definition PoolLog_ok :: "sha \<Rightarrow> PoolLog \<Rightarrow> bool" where
  "PoolLog_ok sha l \<longleftrightarrow> pool_chain.ok sha (pll_records l)"

lemma PoolLog_verify_iff: "PoolLog_verify_chain sha l = (True, None) \<longleftrightarrow> PoolLog_ok sha l"
  by (simp add: PoolLog_verify_chain_def PoolLog_ok_def verify_from_iff)

lemma PoolLog_tamper_evident:
  assumes "PoolLog_ok sha l" "PoolLog_ok sha l'" "PoolLog_last_hash l = PoolLog_last_hash l'"
  shows "map PoolRecord_committed (pll_records l) = map PoolRecord_committed (pll_records l') \<or>
    forgery sha (PoolRecord_bytes_of ` (set (pll_records l) \<union> set (pll_records l')))"
  using assms pool_chain.tamper_evident by (simp add: PoolLog_ok_def PoolLog_last_hash_def)

lemma PoolLog_ok_new [simp]: "PoolLog_ok sha PoolLog_new"
  by (simp add: PoolLog_ok_def PoolLog_new_def)

lemma PoolLog_push_simps [simp]:
  "PoolLog_ok sha (PoolLog_push sha x0 x1 x2 x3 l) \<longleftrightarrow> PoolLog_ok sha l"
  by (simp_all add: PoolLog_ok_def PoolLog_push_def PoolLog_last_hash_def build_pool_record_def compute_pool_hash_def PoolRecord_bytes_of_def Let_def)

lemma PoolLog_transition_count_push [simp]:
  "PoolLog_transition_count_to s (PoolLog_push sha p e f t l) = PoolLog_transition_count_to s l + (if t = s then 1 else 0)"
  by (simp add: PoolLog_transition_count_to_def PoolLog_push_def build_pool_record_def Let_def)

section \<open>The pool\<close>

definition MAX_POOL_SIZE :: nat where
  "MAX_POOL_SIZE = 64"

definition MAX_IDLE_EPOCHS :: u64 where
  "MAX_IDLE_EPOCHS = 20"

record ConnectionEntry =
  ce_state :: ConnectionState
  ce_opened_epoch :: u64
  ce_last_used_epoch :: u64

record PeerConnectionPool =
  pp_connections :: "(u32, ConnectionEntry) btmap"
  pp_log :: PoolLog

datatype PoolError = PoolFull | InvalidTransition

definition PeerConnectionPool_new :: PeerConnectionPool where
  "PeerConnectionPool_new = \<lparr>pp_connections = bt_empty, pp_log = PoolLog_new\<rparr>"

text \<open>The change of one entry and its record, which four of the operations share.\<close>

definition move_to ::
  "sha \<Rightarrow> u32 \<Rightarrow> u64 \<Rightarrow> ConnectionState \<Rightarrow> ConnectionEntry \<Rightarrow> PeerConnectionPool \<Rightarrow> PeerConnectionPool" where
  "move_to sha peer_id epoch from_state entry pool =
     pool\<lparr>pp_connections := bt_insert peer_id entry (pp_connections pool),
          pp_log := PoolLog_push sha peer_id epoch from_state (ce_state entry) (pp_log pool)\<rparr>"

definition remove_conn ::
  "sha \<Rightarrow> u64 \<Rightarrow> u32 \<times> ConnectionState \<Rightarrow> PeerConnectionPool \<Rightarrow> PeerConnectionPool" where
  "remove_conn sha epoch c pool =
     pool\<lparr>pp_connections := bt_remove (fst c) (pp_connections pool),
          pp_log := PoolLog_push sha (fst c) epoch (snd c) Closed (pp_log pool)\<rparr>"

definition PeerConnectionPool_connect ::
  "sha \<Rightarrow> u32 \<Rightarrow> u64 \<Rightarrow> PeerConnectionPool \<Rightarrow> (PoolError + unit) \<times> PeerConnectionPool" where
  "PeerConnectionPool_connect sha peer_id epoch pool =
     (case bt_get (pp_connections pool) peer_id of
        Some e \<Rightarrow>
          (case ce_state e of
             Idle \<Rightarrow> (Inr (), move_to sha peer_id epoch Idle (e\<lparr>ce_state := Active, ce_last_used_epoch := epoch\<rparr>) pool)
           | Active \<Rightarrow> (Inr (), pool)
           | _ \<Rightarrow> (Inl InvalidTransition, pool))
      | None \<Rightarrow>
          if MAX_POOL_SIZE \<le> bt_len (pp_connections pool) then (Inl PoolFull, pool)
          else (Inr (), move_to sha peer_id epoch Idle
                 \<lparr>ce_state = Active, ce_opened_epoch = epoch, ce_last_used_epoch = epoch\<rparr> pool))"

definition PeerConnectionPool_release ::
  "sha \<Rightarrow> u32 \<Rightarrow> u64 \<Rightarrow> PeerConnectionPool \<Rightarrow> bool \<times> PeerConnectionPool" where
  "PeerConnectionPool_release sha peer_id epoch pool =
     (case bt_get (pp_connections pool) peer_id of
        Some e \<Rightarrow>
          if ce_state e = Active
          then (True, move_to sha peer_id epoch Active (e\<lparr>ce_state := Idle, ce_last_used_epoch := epoch\<rparr>) pool)
          else (False, pool)
      | None \<Rightarrow> (False, pool))"

definition PeerConnectionPool_drain ::
  "sha \<Rightarrow> u32 \<Rightarrow> u64 \<Rightarrow> PeerConnectionPool \<Rightarrow> bool \<times> PeerConnectionPool" where
  "PeerConnectionPool_drain sha peer_id epoch pool =
     (case bt_get (pp_connections pool) peer_id of
        Some e \<Rightarrow>
          if ce_state e = Active \<or> ce_state e = Idle
          then (True, move_to sha peer_id epoch (ce_state e) (e\<lparr>ce_state := Draining\<rparr>) pool)
          else (False, pool)
      | None \<Rightarrow> (False, pool))"

definition PeerConnectionPool_close ::
  "sha \<Rightarrow> u32 \<Rightarrow> u64 \<Rightarrow> PeerConnectionPool \<Rightarrow> bool \<times> PeerConnectionPool" where
  "PeerConnectionPool_close sha peer_id epoch pool =
     (case bt_get (pp_connections pool) peer_id of
        Some e \<Rightarrow> (True, remove_conn sha epoch (peer_id, ce_state e) pool)
      | None \<Rightarrow> (False, pool))"

definition idle_too_long :: "u64 \<Rightarrow> ConnectionEntry \<Rightarrow> bool" where
  "idle_too_long current_epoch e \<longleftrightarrow>
     ce_state e = Idle \<and> current_epoch \<ge> sat_add (ce_last_used_epoch e) MAX_IDLE_EPOCHS"

definition to_evict :: "u64 \<Rightarrow> PeerConnectionPool \<Rightarrow> (u32 \<times> ConnectionState) list" where
  "to_evict current_epoch pool =
     map (\<lambda>(pid, e). (pid, ce_state e)) (filter (\<lambda>(pid, e). idle_too_long current_epoch e) (entries (pp_connections pool)))"

definition PeerConnectionPool_evict_idle :: "sha \<Rightarrow> u64 \<Rightarrow> PeerConnectionPool \<Rightarrow> PeerConnectionPool" where
  "PeerConnectionPool_evict_idle sha current_epoch pool =
     fold (remove_conn sha current_epoch) (to_evict current_epoch pool) pool"

definition PeerConnectionPool_state :: "u32 \<Rightarrow> PeerConnectionPool \<Rightarrow> ConnectionState option" where
  "PeerConnectionPool_state peer_id pool = map_option ce_state (bt_get (pp_connections pool) peer_id)"

definition PeerConnectionPool_active_count :: "PeerConnectionPool \<Rightarrow> nat" where
  "PeerConnectionPool_active_count pool = length (filter (\<lambda>e. ce_state e = Active) (bt_values (pp_connections pool)))"

definition PeerConnectionPool_idle_count :: "PeerConnectionPool \<Rightarrow> nat" where
  "PeerConnectionPool_idle_count pool = length (filter (\<lambda>e. ce_state e = Idle) (bt_values (pp_connections pool)))"

definition PeerConnectionPool_pool_size :: "PeerConnectionPool \<Rightarrow> nat" where
  "PeerConnectionPool_pool_size pool = bt_len (pp_connections pool)"

section \<open>The log refines the pool\<close>

datatype PoolOp = Connect u32 u64 | Release u32 u64 | Drain u32 u64 | Close u32 u64 | EvictIdle u64

fun pool_step :: "sha \<Rightarrow> PoolOp \<Rightarrow> PeerConnectionPool \<Rightarrow> PeerConnectionPool" where
  "pool_step sha (Connect p e) s = snd (PeerConnectionPool_connect sha p e s)"
| "pool_step sha (Release p e) s = snd (PeerConnectionPool_release sha p e s)"
| "pool_step sha (Drain p e) s = snd (PeerConnectionPool_drain sha p e s)"
| "pool_step sha (Close p e) s = snd (PeerConnectionPool_close sha p e s)"
| "pool_step sha (EvictIdle e) s = PeerConnectionPool_evict_idle sha e s"

text \<open>The life cycle: the edges a connection may take; every entry is in one of the first three states.\<close>

inductive conn_edge :: "ConnectionState \<Rightarrow> ConnectionState \<Rightarrow> bool" where
  opened: "conn_edge Idle Active"
| released: "conn_edge Active Idle"
| drained: "s \<in> {Active, Idle} \<Longrightarrow> conn_edge s Draining"
| shut: "s \<noteq> Closed \<Longrightarrow> conn_edge s Closed"

inductive_simps conn_edge_from [simp]:
  "conn_edge Idle t" "conn_edge Active t" "conn_edge Draining t" "conn_edge Closed t"

fun play_conn ::
  "u32 \<times> u64 \<times> ConnectionState \<times> ConnectionState \<Rightarrow> (u32 \<rightharpoonup> ConnectionEntry) \<Rightarrow> (u32 \<rightharpoonup> ConnectionEntry)" where
  "play_conn (p, e, f, Closed) v = v(p := None)"
| "play_conn (p, e, f, Draining) v = v(p := map_option (\<lambda>c. c\<lparr>ce_state := Draining\<rparr>) (v p))"
| "play_conn (p, e, f, t) v =
     (case v p of
        None \<Rightarrow> v(p \<mapsto> \<lparr>ce_state = t, ce_opened_epoch = e, ce_last_used_epoch = e\<rparr>)
      | Some c \<Rightarrow> v(p \<mapsto> c\<lparr>ce_state := t, ce_last_used_epoch := e\<rparr>))"

definition pool_view :: "PeerConnectionPool \<Rightarrow> (u32 \<rightharpoonup> ConnectionEntry)" where
  "pool_view s = bt_get (pp_connections s)"

text \<open>What an operation may do to a pool, one connection at a time.\<close>

inductive pool_move :: "sha \<Rightarrow> PeerConnectionPool \<Rightarrow> PeerConnectionPool \<Rightarrow> bool" for sha where
  open_conn: "pool_view s p = None \<Longrightarrow> bt_len (pp_connections s) < MAX_POOL_SIZE \<Longrightarrow>
    pool_move sha s (move_to sha p e Idle \<lparr>ce_state = Active, ce_opened_epoch = e, ce_last_used_epoch = e\<rparr> s)"
| turn_conn: "pool_view s p = Some c \<Longrightarrow> (ce_state c, t) \<in> {(Idle, Active), (Active, Idle)} \<Longrightarrow>
    pool_move sha s (move_to sha p e (ce_state c) (c\<lparr>ce_state := t, ce_last_used_epoch := e\<rparr>) s)"
| drain_conn: "pool_view s p = Some c \<Longrightarrow> ce_state c \<in> {Active, Idle} \<Longrightarrow>
    pool_move sha s (move_to sha p e (ce_state c) (c\<lparr>ce_state := Draining\<rparr>) s)"
| close_conn: "pool_view s p = Some c \<Longrightarrow> pool_move sha s (remove_conn sha e (p, ce_state c) s)"

inductive_cases pool_moveE: "pool_move sha s t"

lemmas pool_change_defs = move_to_def remove_conn_def pool_view_def PoolLog_push_def build_pool_record_def
  PoolRecord_committed_def PoolLog_ok_def compute_pool_hash_def PoolRecord_bytes_of_def PoolLog_last_hash_def Let_def

lemma pool_move_played:
  assumes "pool_move sha s s'"
  shows "\<exists>r. pll_records (pp_log s') = pll_records (pp_log s) @ [r] \<and>
    pool_view s' = play_conn (PoolRecord_committed r) (pool_view s) \<and>
    (PoolLog_ok sha (pp_log s) \<longrightarrow> PoolLog_ok sha (pp_log s'))"
  using assms by cases (auto simp: pool_change_defs)

lemma pool_moves_played:
  "(pool_move sha)\<^sup>*\<^sup>* s s' \<Longrightarrow>
   \<exists>rs. pll_records (pp_log s') = pll_records (pp_log s) @ rs \<and>
     pool_view s' = fold play_conn (map PoolRecord_committed rs) (pool_view s) \<and>
     (PoolLog_ok sha (pp_log s) \<longrightarrow> PoolLog_ok sha (pp_log s'))"
proof (induction rule: rtranclp_induct)
  case base
  show ?case by simp
next
  case (step t u)
  from step.IH obtain rs where rs: "pll_records (pp_log t) = pll_records (pp_log s) @ rs"
      "pool_view t = fold play_conn (map PoolRecord_committed rs) (pool_view s)"
      "PoolLog_ok sha (pp_log s) \<longrightarrow> PoolLog_ok sha (pp_log t)"
    by blast
  from pool_move_played [OF step.hyps(2)] obtain r where "pll_records (pp_log u) = pll_records (pp_log t) @ [r]"
      "pool_view u = play_conn (PoolRecord_committed r) (pool_view t)"
      "PoolLog_ok sha (pp_log t) \<longrightarrow> PoolLog_ok sha (pp_log u)"
    by blast
  with rs show ?case by (intro exI [of _ "rs @ [r]"]) simp
qed

text \<open>Removing a list of connections, each once.\<close>

lemma remove_conns_moves:
  assumes "distinct (map fst cs)" and "\<forall>c \<in> set cs. PeerConnectionPool_state (fst c) s = Some (snd c)"
  shows "(pool_move sha)\<^sup>*\<^sup>* s (fold (remove_conn sha e) cs s) \<and>
    pool_view (fold (remove_conn sha e) cs s) = (pool_view s) |` (- fst ` set cs)"
  using assms
proof (induction cs arbitrary: s)
  case Nil
  then show ?case by simp
next
  case (Cons c cs)
  let ?s = "remove_conn sha e c s"
  obtain d where d: "pool_view s (fst c) = Some d" "snd c = ce_state d"
    using Cons.prems by (auto simp: PeerConnectionPool_state_def pool_view_def)
  have "?s = remove_conn sha e (fst c, ce_state d) s" by (simp flip: d(2))
  with d(1) have move: "pool_move sha s ?s" by (metis close_conn)
  have view: "pool_view ?s = (pool_view s)(fst c := None)"
    by (simp add: pool_view_def remove_conn_def)
  have "\<forall>c' \<in> set cs. fst c' \<noteq> fst c" using Cons.prems by force
  then have "\<forall>c' \<in> set cs. PeerConnectionPool_state (fst c') ?s = Some (snd c')"
    using Cons.prems by (simp add: PeerConnectionPool_state_def remove_conn_def)
  with Cons.IH [of ?s] Cons.prems move show ?case
    by (auto simp: view restrict_map_def fun_eq_iff intro: converse_rtranclp_into_rtranclp)
qed

lemma to_evict_exact:
  "distinct (map fst (to_evict e s))"
  "c \<in> set (to_evict e s) \<longleftrightarrow> (\<exists>d. pool_view s (fst c) = Some d \<and> snd c = ce_state d \<and> idle_too_long e d)"
proof -
  have "map fst (to_evict e s) = map fst (filter (\<lambda>(pid, x). idle_too_long e x) (entries (pp_connections s)))"
    by (simp add: to_evict_def o_def split_beta)
  then show "distinct (map fst (to_evict e s))"
    by (metis distinct_map_filter keys_sorted_distinct keys_sorted_entries)
  show "c \<in> set (to_evict e s) \<longleftrightarrow> (\<exists>d. pool_view s (fst c) = Some d \<and> snd c = ce_state d \<and> idle_too_long e d)"
    by (cases c) (auto simp: to_evict_def pool_view_def simp flip: in_entries_iff)
qed

lemma pool_step_moves: "(pool_move sha)\<^sup>*\<^sup>* s (pool_step sha op s)"
proof (cases op)
  case (Connect p e)
  show ?thesis
  proof (cases "bt_get (pp_connections s) p")
    case None
    then show ?thesis
      using open_conn [of s p sha e] by (auto simp: Connect PeerConnectionPool_connect_def pool_view_def not_le)
  next
    case (Some c)
    then show ?thesis
      using turn_conn [of s p c Active sha e]
      by (cases "ce_state c") (auto simp: Connect PeerConnectionPool_connect_def pool_view_def)
  qed
next
  case (Release p e)
  show ?thesis
    using turn_conn [of s p "the (bt_get (pp_connections s) p)" Idle sha e]
    by (auto simp: Release PeerConnectionPool_release_def pool_view_def split: option.splits)
next
  case (Drain p e)
  show ?thesis
    using drain_conn [of s p "the (bt_get (pp_connections s) p)" sha e]
    by (auto simp: Drain PeerConnectionPool_drain_def pool_view_def split: option.splits)
next
  case (Close p e)
  show ?thesis
    using close_conn [of s p "the (bt_get (pp_connections s) p)" sha e]
    by (auto simp: Close PeerConnectionPool_close_def pool_view_def split: option.splits)
next
  case (EvictIdle e)
  have "\<forall>c \<in> set (to_evict e s). PeerConnectionPool_state (fst c) s = Some (snd c)"
    by (auto simp: to_evict_exact PeerConnectionPool_state_def pool_view_def)
  then show ?thesis
    using remove_conns_moves [of "to_evict e s" s sha e] to_evict_exact(1)
    by (simp add: EvictIdle PeerConnectionPool_evict_idle_def)
qed

lemma pool_step_played:
  "\<exists>rs. pll_records (pp_log (pool_step sha op s)) = pll_records (pp_log s) @ rs \<and>
     pool_view (pool_step sha op s) = fold play_conn (map PoolRecord_committed rs) (pool_view s)"
  using pool_moves_played [OF pool_step_moves] by blast

lemma pool_step_ok: "PoolLog_ok sha (pp_log s) \<Longrightarrow> PoolLog_ok sha (pp_log (pool_step sha op s))"
  using pool_moves_played [OF pool_step_moves] by blast

interpretation pools: journal PoolRecord_bytes_of plr_prev_hash plr_record_hash PoolRecord_committed
    pool_step "\<lambda>s. pll_records (pp_log s)" pool_view play_conn PeerConnectionPool_new
  using pool_step_ok pool_step_played
  by unfold_locales (auto simp: PoolLog_ok_def PeerConnectionPool_new_def PoolLog_new_def)

section \<open>Capacity and eviction\<close>

text \<open>No entry is closed, the pool is within its capacity, and every record is an edge of the life cycle.\<close>

definition pool_inv :: "PeerConnectionPool \<Rightarrow> bool" where
  "pool_inv s \<longleftrightarrow>
     bt_len (pp_connections s) \<le> MAX_POOL_SIZE \<and>
     (\<forall>c \<in> ran (pool_view s). ce_state c \<noteq> Closed) \<and>
     (\<forall>r \<in> set (pll_records (pp_log s)). conn_edge (plr_from_state r) (plr_to_state r))"

lemma ran_upd: "ran (v(k := w)) \<subseteq> ran v \<union> set_option w"
  by (auto simp: ran_def)

lemma pool_move_inv:
  assumes "pool_move sha s t" and "pool_inv s"
  shows "pool_inv t"
  using assms(1)
proof cases
  case (open_conn p e)
  then show ?thesis
    using assms(2) ran_upd [of "pool_view s" p "Some \<lparr>ce_state = Active, ce_opened_epoch = e, ce_last_used_epoch = e\<rparr>"]
    by (auto simp: pool_inv_def pool_change_defs bt_has_def)
next
  case (turn_conn p c t e)
  then show ?thesis
    using assms(2) ran_upd [of "pool_view s" p "Some (c\<lparr>ce_state := t, ce_last_used_epoch := e\<rparr>)"]
    by (auto simp: pool_inv_def pool_change_defs bt_has_def)
next
  case (drain_conn p c e)
  then show ?thesis
    using assms(2) ran_upd [of "pool_view s" p "Some (c\<lparr>ce_state := Draining\<rparr>)"]
    by (auto simp: pool_inv_def pool_change_defs bt_has_def)
next
  case (close_conn p c e)
  then have "ce_state c \<noteq> Closed"
    using assms(2) by (auto simp: pool_inv_def intro: ranI)
  with close_conn show ?thesis
    using assms(2) ran_upd [of "pool_view s" p None]
    by (cases "ce_state c") (auto simp: pool_inv_def pool_change_defs bt_has_def)
qed

lemma pool_step_inv: "pool_inv s \<Longrightarrow> pool_inv (pool_step sha op s)"
  by (rule rtranclp_induct [OF pool_step_moves]) (auto intro: pool_move_inv)

interpretation pool_machine: invariant_machine "pool_step sha" pool_inv for sha
  by unfold_locales (rule pool_step_inv)

lemma pool_inv_new: "pool_inv PeerConnectionPool_new"
  by (simp add: pool_inv_def PeerConnectionPool_new_def PoolLog_new_def pool_view_def)

text \<open>An eviction removes exactly the connections idle for too long.\<close>

lemma evict_idle_exact:
  "bt_get (pp_connections (PeerConnectionPool_evict_idle sha e s)) p =
     (case bt_get (pp_connections s) p of
        None \<Rightarrow> None
      | Some c \<Rightarrow> if idle_too_long e c then None else Some c)"
proof -
  have "\<forall>c \<in> set (to_evict e s). PeerConnectionPool_state (fst c) s = Some (snd c)"
    by (auto simp: to_evict_exact PeerConnectionPool_state_def pool_view_def)
  then have "pool_view (PeerConnectionPool_evict_idle sha e s) p = (pool_view s |` (- fst ` set (to_evict e s))) p"
    using remove_conns_moves [of "to_evict e s" s sha e] to_evict_exact(1)
    by (simp add: PeerConnectionPool_evict_idle_def)
  moreover have "p \<in> fst ` set (to_evict e s) \<longleftrightarrow> (\<exists>c. pool_view s p = Some c \<and> idle_too_long e c)"
    by (auto simp: to_evict_exact(2) image_iff intro!: bexI [of _ "(p, ce_state c)" for c])
  ultimately show ?thesis
    by (auto simp: pool_view_def restrict_map_def split: option.splits)
qed

text \<open>A released connection is reused at once, and is gone twenty epochs later if it was not.\<close>

lemma release_then_connect:
  assumes "PeerConnectionPool_release sha p e s = (True, s')"
  shows "PeerConnectionPool_connect sha p e' s' = (Inr (), snd (PeerConnectionPool_connect sha p e' s'))"
    and "PeerConnectionPool_state p (snd (PeerConnectionPool_connect sha p e' s')) = Some Active"
    and "e' \<ge> sat_add e 20 \<Longrightarrow> PeerConnectionPool_state p (PeerConnectionPool_evict_idle sha e' s') = None"
proof -
  obtain c where c: "bt_get (pp_connections s') p = Some c" "ce_state c = Idle" "ce_last_used_epoch c = e"
    using assms by (auto simp: PeerConnectionPool_release_def move_to_def split: option.splits if_splits)
  then show "PeerConnectionPool_connect sha p e' s' = (Inr (), snd (PeerConnectionPool_connect sha p e' s'))"
    and "PeerConnectionPool_state p (snd (PeerConnectionPool_connect sha p e' s')) = Some Active"
    by (simp_all add: PeerConnectionPool_connect_def PeerConnectionPool_state_def move_to_def)
  show "PeerConnectionPool_state p (PeerConnectionPool_evict_idle sha e' s') = None" if "e' \<ge> sat_add e 20"
    using that c by (simp add: PeerConnectionPool_state_def evict_idle_exact idle_too_long_def MAX_IDLE_EPOCHS_def)
qed

section \<open>Properties\<close>

text \<open>
  C23.  The log refines the pool.  After any operations the log verifies, each record is an edge of the
  life cycle, and playing the records from nothing gives every connection with its state and its
  epochs, at most 64 of them.  So two pools whose logs end in the same hash hold the same connections,
  unless a hash was forged.
\<close>

theorem pool_refined_by_log:
  "let s = run (pool_step sha) ops PeerConnectionPool_new; t = run (pool_step sha) ops' PeerConnectionPool_new;
       rs = pll_records (pp_log s)
   in bt_get (pp_connections s) = fold play_conn (map PoolRecord_committed rs) Map.empty \<and>
      PoolLog_verify_chain sha (pp_log s) = (True, None) \<and>
      (\<forall>r \<in> set rs. conn_edge (plr_from_state r) (plr_to_state r)) \<and>
      PeerConnectionPool_pool_size s \<le> 64 \<and>
      (PoolLog_last_hash (pp_log s) = PoolLog_last_hash (pp_log t) \<longrightarrow>
         pp_connections s = pp_connections t \<or>
         forgery sha (PoolRecord_bytes_of ` (set rs \<union> set (pll_records (pp_log t)))))"
proof -
  have start: "bt_get (pp_connections PeerConnectionPool_new) = Map.empty"
    by (simp add: PeerConnectionPool_new_def)
  have inv: "pool_inv (run (pool_step sha) ops PeerConnectionPool_new)"
    by (rule pool_machine.run_inv) (rule pool_inv_new)
  have ok: "PoolLog_ok sha (pp_log (run (pool_step sha) ops PeerConnectionPool_new))"
    using pools.log_ok by (simp add: PoolLog_ok_def)
  show ?thesis
    using inv ok pools.replay [of sha ops] pools.hash_commits_to_view [OF refl refl, of sha ops ops']
    by (auto simp: Let_def start pool_inv_def MAX_POOL_SIZE_def PoolLog_verify_iff PeerConnectionPool_pool_size_def
        PoolLog_last_hash_def pool_view_def intro: bt_ext)
qed

lemma pool_refined_by_log_witness:
  "let s = run (pool_step (\<lambda>b. of_nat (length b))) [Connect 7 1, Release 7 2, Connect 9 3, EvictIdle 30] PeerConnectionPool_new
   in PeerConnectionPool_pool_size s \<le> 64 \<and>
      bt_get (pp_connections s) = fold play_conn (map PoolRecord_committed (pll_records (pp_log s))) Map.empty"
  using pool_refined_by_log [of "\<lambda>b. of_nat (length b)" "[Connect 7 1, Release 7 2, Connect 9 3, EvictIdle 30]" "[]"]
  unfolding Let_def by blast

end
