(* ===== verification/Peer_Blocklist.thy ===== *)
theory Peer_Blocklist
  imports Ordered_Map Journal
begin

text \<open>
  Gate 307, \<open>aegis-cl-psi/src/peer_blocklist.rs\<close>: temporary and permanent bans of peers.  A peer is
  banned from its ban until the ban expires or is lifted, whether or not the expired bans have been
  swept; the log refines who is on the list, since when and why, but not until when.
\<close>

section \<open>Reasons, actions, records, log\<close>

datatype BanReason = ManualBan | ExcessiveMisses | ReplayAttack | RateLimitViolation | PermanentBan

fun BanReason_reason_byte :: "BanReason \<Rightarrow> u8" where
  "BanReason_reason_byte ManualBan = 0"
| "BanReason_reason_byte ExcessiveMisses = 1"
| "BanReason_reason_byte ReplayAttack = 2"
| "BanReason_reason_byte RateLimitViolation = 3"
| "BanReason_reason_byte PermanentBan = 4"

lemma BanReason_reason_byte_inj [simp]: "BanReason_reason_byte x = BanReason_reason_byte y \<longleftrightarrow> x = y"
  by (cases x; cases y) auto

datatype BanAction = Ban | Unban | Expire

fun BanAction_action_byte :: "BanAction \<Rightarrow> u8" where
  "BanAction_action_byte Ban = 0"
| "BanAction_action_byte Unban = 1"
| "BanAction_action_byte Expire = 2"

lemma BanAction_action_byte_inj [simp]: "BanAction_action_byte x = BanAction_action_byte y \<longleftrightarrow> x = y"
  by (cases x; cases y) auto

record BanRecord =
  bnr_peer_id :: u32
  bnr_epoch :: u64
  bnr_reason :: BanReason
  bnr_action :: BanAction
  bnr_record_hash :: hash
  bnr_prev_hash :: hash

definition ban_bytes :: "u32 \<Rightarrow> u64 \<Rightarrow> BanReason \<Rightarrow> BanAction \<Rightarrow> hash \<Rightarrow> bytes" where
  "ban_bytes peer_id epoch reason action prev =
     hash_bytes prev @ be4 peer_id @ be8 epoch @ [BanReason_reason_byte reason] @ [BanAction_action_byte action]"

definition compute_ban_hash :: "sha \<Rightarrow> u32 \<Rightarrow> u64 \<Rightarrow> BanReason \<Rightarrow> BanAction \<Rightarrow> hash \<Rightarrow> hash" where
  "compute_ban_hash sha peer_id epoch reason action prev = sha (ban_bytes peer_id epoch reason action prev)"

definition build_ban_record :: "sha \<Rightarrow> u32 \<Rightarrow> u64 \<Rightarrow> BanReason \<Rightarrow> BanAction \<Rightarrow> hash \<Rightarrow> BanRecord" where
  "build_ban_record sha peer_id epoch reason action prev_hash =
     \<lparr>bnr_peer_id = peer_id, bnr_epoch = epoch, bnr_reason = reason, bnr_action = action,
      bnr_record_hash = compute_ban_hash sha peer_id epoch reason action prev_hash, bnr_prev_hash = prev_hash\<rparr>"

definition BanRecord_bytes_of :: "BanRecord \<Rightarrow> bytes" where
  "BanRecord_bytes_of r = ban_bytes (bnr_peer_id r) (bnr_epoch r) (bnr_reason r) (bnr_action r) (bnr_prev_hash r)"

record BanLog =
  bnl_records :: "BanRecord list"

definition BanLog_new :: BanLog where
  "BanLog_new = \<lparr>bnl_records = []\<rparr>"

definition BanLog_last_hash :: "BanLog \<Rightarrow> hash" where
  "BanLog_last_hash l = last_hash bnr_record_hash (bnl_records l)"

definition BanLog_push :: "sha \<Rightarrow> u32 \<Rightarrow> u64 \<Rightarrow> BanReason \<Rightarrow> BanAction \<Rightarrow> BanLog \<Rightarrow> BanLog" where
  "BanLog_push sha peer_id epoch reason action l =
     (let prev = BanLog_last_hash l;
          r = build_ban_record sha peer_id epoch reason action prev
      in l\<lparr>bnl_records := bnl_records l @ [r]\<rparr>)"

definition BanLog_ban_count :: "BanLog \<Rightarrow> nat" where
  "BanLog_ban_count l = length (filter (\<lambda>r. bnr_action r = Ban) (bnl_records l))"

definition BanLog_unban_count :: "BanLog \<Rightarrow> nat" where
  "BanLog_unban_count l = length (filter (\<lambda>r. bnr_action r = Unban) (bnl_records l))"

definition BanLog_verify_chain :: "sha \<Rightarrow> BanLog \<Rightarrow> bool \<times> nat option" where
  "BanLog_verify_chain sha l =
     verify_from bnr_prev_hash bnr_record_hash (\<lambda>r. sha (BanRecord_bytes_of r)) 0 genesis (bnl_records l)"

lemma ban_bytes_inj:
  "ban_bytes p0 e1 r2 a3 h = ban_bytes p0' e1' r2' a3' h' \<longleftrightarrow>
   p0 = p0' \<and> e1 = e1' \<and> r2 = r2' \<and> a3 = a3' \<and> h = h'"
  by (auto simp: ban_bytes_def enc_simps)

definition BanRecord_committed :: "BanRecord \<Rightarrow> u32 \<times> u64 \<times> BanReason \<times> BanAction" where
  "BanRecord_committed r = (bnr_peer_id r, bnr_epoch r, bnr_reason r, bnr_action r)"

interpretation ban_chain: hash_log BanRecord_bytes_of bnr_prev_hash bnr_record_hash BanRecord_committed
  by unfold_locales (auto simp: BanRecord_bytes_of_def BanRecord_committed_def ban_bytes_inj)

definition BanLog_ok :: "sha \<Rightarrow> BanLog \<Rightarrow> bool" where
  "BanLog_ok sha l \<longleftrightarrow> ban_chain.ok sha (bnl_records l)"

lemma BanLog_verify_iff: "BanLog_verify_chain sha l = (True, None) \<longleftrightarrow> BanLog_ok sha l"
  by (simp add: BanLog_verify_chain_def BanLog_ok_def verify_from_iff)

lemma BanLog_tamper_evident:
  assumes "BanLog_ok sha l" "BanLog_ok sha l'" "BanLog_last_hash l = BanLog_last_hash l'"
  shows "map BanRecord_committed (bnl_records l) = map BanRecord_committed (bnl_records l') \<or>
    forgery sha (BanRecord_bytes_of ` (set (bnl_records l) \<union> set (bnl_records l')))"
  using assms ban_chain.tamper_evident by (simp add: BanLog_ok_def BanLog_last_hash_def)

lemma BanLog_ok_new [simp]: "BanLog_ok sha BanLog_new"
  by (simp add: BanLog_ok_def BanLog_new_def)

lemma BanLog_push_simps [simp]:
  "BanLog_ok sha (BanLog_push sha x0 x1 x2 x3 l) \<longleftrightarrow> BanLog_ok sha l"
  "BanLog_ban_count (BanLog_push sha x0 x1 x2 x3 l) = BanLog_ban_count l + (if x3 = Ban then 1 else 0)"
  "BanLog_unban_count (BanLog_push sha x0 x1 x2 x3 l) = BanLog_unban_count l + (if x3 = Unban then 1 else 0)"
  by (simp_all add: BanLog_ok_def BanLog_push_def BanLog_last_hash_def build_ban_record_def compute_ban_hash_def BanRecord_bytes_of_def Let_def BanLog_ban_count_def BanLog_unban_count_def)

lemma BanLog_new_simps [simp]:
  "BanLog_ban_count BanLog_new = 0"
  "BanLog_unban_count BanLog_new = 0"
  by (simp_all add: BanLog_new_def BanLog_ban_count_def BanLog_unban_count_def)

section \<open>The list\<close>

definition DEFAULT_BAN_DURATION_EPOCHS :: u64 where
  "DEFAULT_BAN_DURATION_EPOCHS = 10"

definition MAX_BLOCKLIST_SIZE :: nat where
  "MAX_BLOCKLIST_SIZE = 256"

record BanEntry =
  be_banned_at_epoch :: u64
  be_expires_at_epoch :: "u64 option"
  be_reason :: BanReason

record PeerBlocklist =
  bl_entries :: "(u32, BanEntry) btmap"
  bl_log :: BanLog

datatype BlocklistError = AlreadyBanned | BlocklistFull

definition PeerBlocklist_new :: PeerBlocklist where
  "PeerBlocklist_new = \<lparr>bl_entries = bt_empty, bl_log = BanLog_new\<rparr>"

definition PeerBlocklist_ban ::
  "sha \<Rightarrow> u32 \<Rightarrow> u64 \<Rightarrow> BanReason \<Rightarrow> u64 option \<Rightarrow> PeerBlocklist \<Rightarrow> (BlocklistError + unit) \<times> PeerBlocklist" where
  "PeerBlocklist_ban sha peer_id epoch reason duration_epochs b =
     (if bt_has (bl_entries b) peer_id then (Inl AlreadyBanned, b)
      else if MAX_BLOCKLIST_SIZE \<le> bt_len (bl_entries b) then (Inl BlocklistFull, b)
      else
        let expires_at = map_option (sat_add epoch) duration_epochs
        in (Inr (), b\<lparr>bl_entries := bt_insert peer_id
                       \<lparr>be_banned_at_epoch = epoch, be_expires_at_epoch = expires_at, be_reason = reason\<rparr> (bl_entries b),
                      bl_log := BanLog_push sha peer_id epoch reason Ban (bl_log b)\<rparr>))"

definition PeerBlocklist_unban :: "sha \<Rightarrow> u32 \<Rightarrow> u64 \<Rightarrow> PeerBlocklist \<Rightarrow> bool \<times> PeerBlocklist" where
  "PeerBlocklist_unban sha peer_id epoch b =
     (case bt_get (bl_entries b) peer_id of
        None \<Rightarrow> (False, b)
      | Some e \<Rightarrow>
          (True, b\<lparr>bl_entries := bt_remove peer_id (bl_entries b),
                   bl_log := BanLog_push sha peer_id epoch (be_reason e) Unban (bl_log b)\<rparr>))"

definition still_active :: "u64 \<Rightarrow> BanEntry \<Rightarrow> bool" where
  "still_active current_epoch e = (case be_expires_at_epoch e of None \<Rightarrow> True | Some x \<Rightarrow> current_epoch < x)"

definition PeerBlocklist_is_banned :: "u32 \<Rightarrow> u64 \<Rightarrow> PeerBlocklist \<Rightarrow> bool" where
  "PeerBlocklist_is_banned peer_id current_epoch b =
     unwrap_or False (map_option (still_active current_epoch) (bt_get (bl_entries b) peer_id))"

definition expired_bans :: "u64 \<Rightarrow> PeerBlocklist \<Rightarrow> (u32 \<times> BanReason) list" where
  "expired_bans current_epoch b =
     map (\<lambda>(pid, e). (pid, be_reason e))
       (filter (\<lambda>(pid, e). case be_expires_at_epoch e of None \<Rightarrow> False | Some x \<Rightarrow> current_epoch \<ge> x) (entries (bl_entries b)))"

definition expire_ban :: "sha \<Rightarrow> u64 \<Rightarrow> u32 \<times> BanReason \<Rightarrow> PeerBlocklist \<Rightarrow> PeerBlocklist" where
  "expire_ban sha current_epoch c b =
     b\<lparr>bl_entries := bt_remove (fst c) (bl_entries b),
       bl_log := BanLog_push sha (fst c) current_epoch (snd c) Expire (bl_log b)\<rparr>"

definition PeerBlocklist_expire_bans :: "sha \<Rightarrow> u64 \<Rightarrow> PeerBlocklist \<Rightarrow> PeerBlocklist" where
  "PeerBlocklist_expire_bans sha current_epoch b = fold (expire_ban sha current_epoch) (expired_bans current_epoch b) b"

definition PeerBlocklist_banned_peers :: "u64 \<Rightarrow> PeerBlocklist \<Rightarrow> u32 list" where
  "PeerBlocklist_banned_peers current_epoch b =
     map fst (filter (\<lambda>(pid, e). case be_expires_at_epoch e of None \<Rightarrow> True | Some x \<Rightarrow> current_epoch < x) (entries (bl_entries b)))"

definition PeerBlocklist_blocklist_size :: "PeerBlocklist \<Rightarrow> nat" where
  "PeerBlocklist_blocklist_size b = bt_len (bl_entries b)"

section \<open>The log refines the list\<close>

datatype BanOp = BanPeer u32 u64 BanReason "u64 option" | UnbanPeer u32 u64 | ExpireBans u64

fun ban_step :: "sha \<Rightarrow> BanOp \<Rightarrow> PeerBlocklist \<Rightarrow> PeerBlocklist" where
  "ban_step sha (BanPeer p e r d) b = snd (PeerBlocklist_ban sha p e r d b)"
| "ban_step sha (UnbanPeer p e) b = snd (PeerBlocklist_unban sha p e b)"
| "ban_step sha (ExpireBans e) b = PeerBlocklist_expire_bans sha e b"

fun play_ban :: "u32 \<times> u64 \<times> BanReason \<times> BanAction \<Rightarrow> (u32 \<rightharpoonup> u64 \<times> BanReason) \<Rightarrow> (u32 \<rightharpoonup> u64 \<times> BanReason)" where
  "play_ban (p, e, r, Ban) v = v(p \<mapsto> (e, r))"
| "play_ban (p, e, r, _) v = v(p := None)"

definition ban_view :: "PeerBlocklist \<Rightarrow> (u32 \<rightharpoonup> u64 \<times> BanReason)" where
  "ban_view b p = map_option (\<lambda>e. (be_banned_at_epoch e, be_reason e)) (bt_get (bl_entries b) p)"

lemma expire_ban_simps [simp]:
  "bl_entries (expire_ban sha e c b) = bt_remove (fst c) (bl_entries b)"
  "bl_log (expire_ban sha e c b) = BanLog_push sha (fst c) e (snd c) Expire (bl_log b)"
  by (simp_all add: expire_ban_def)

lemma bnl_records_push:
  "bnl_records (BanLog_push sha p e r a l) = bnl_records l @ [build_ban_record sha p e r a (BanLog_last_hash l)]"
  by (simp add: BanLog_push_def Let_def)

lemma committed_build: "BanRecord_committed (build_ban_record sha p e r a h) = (p, e, r, a)"
  by (simp add: BanRecord_committed_def build_ban_record_def)

lemma expire_fold:
  "bl_entries (fold (expire_ban sha e) cs b) = bt_retain (\<lambda>p x. p \<notin> fst ` set cs) (bl_entries b)"
proof (induction cs arbitrary: b)
  case Nil
  then show ?case by (intro bt_ext) (simp split: option.splits)
next
  case (Cons c cs)
  show ?case
    by (rule bt_ext) (auto simp: Cons.IH split: option.splits)
qed

lemma expire_fold_played:
  "\<exists>rs. bnl_records (bl_log (fold (expire_ban sha e) cs b)) = bnl_records (bl_log b) @ rs \<and>
     ban_view (fold (expire_ban sha e) cs b) = fold play_ban (map BanRecord_committed rs) (ban_view b) \<and>
     (BanLog_ok sha (bl_log b) \<longrightarrow> BanLog_ok sha (bl_log (fold (expire_ban sha e) cs b)))"
proof (induction cs arbitrary: b)
  case Nil
  then show ?case by simp
next
  case (Cons c cs)
  let ?b = "expire_ban sha e c b"
  obtain rs where "bnl_records (bl_log (fold (expire_ban sha e) cs ?b)) = bnl_records (bl_log ?b) @ rs"
      "ban_view (fold (expire_ban sha e) cs ?b) = fold play_ban (map BanRecord_committed rs) (ban_view ?b)"
      "BanLog_ok sha (bl_log ?b) \<longrightarrow> BanLog_ok sha (bl_log (fold (expire_ban sha e) cs ?b))"
    using Cons.IH by blast
  moreover have "ban_view ?b = play_ban (fst c, e, snd c, Expire) (ban_view b)"
    by (auto simp: fun_eq_iff ban_view_def)
  ultimately show ?case
    by (intro exI [of _ "build_ban_record sha (fst c) e (snd c) Expire (BanLog_last_hash (bl_log b)) # rs"])
      (simp add: bnl_records_push committed_build)
qed

lemma ban_step_played:
  "\<exists>rs. bnl_records (bl_log (ban_step sha op b)) = bnl_records (bl_log b) @ rs \<and>
     ban_view (ban_step sha op b) = fold play_ban (map BanRecord_committed rs) (ban_view b) \<and>
     (BanLog_ok sha (bl_log b) \<longrightarrow> BanLog_ok sha (bl_log (ban_step sha op b)))"
proof (cases op)
  case (BanPeer p e r d)
  show ?thesis
  proof (cases "bt_has (bl_entries b) p \<or> MAX_BLOCKLIST_SIZE \<le> bt_len (bl_entries b)")
    case True
    then show ?thesis by (auto simp: BanPeer PeerBlocklist_ban_def)
  next
    case False
    then show ?thesis
      by (intro exI [of _ "[build_ban_record sha p e r Ban (BanLog_last_hash (bl_log b))]"])
        (auto simp: BanPeer PeerBlocklist_ban_def bnl_records_push committed_build Let_def ban_view_def fun_eq_iff)
  qed
next
  case (UnbanPeer p e)
  show ?thesis
  proof (cases "bt_get (bl_entries b) p")
    case None
    then show ?thesis by (simp add: UnbanPeer PeerBlocklist_unban_def)
  next
    case (Some x)
    then show ?thesis
      by (intro exI [of _ "[build_ban_record sha p e (be_reason x) Unban (BanLog_last_hash (bl_log b))]"])
        (auto simp: UnbanPeer PeerBlocklist_unban_def bnl_records_push committed_build ban_view_def fun_eq_iff)
  qed
next
  case (ExpireBans e)
  then show ?thesis using expire_fold_played by (simp add: PeerBlocklist_expire_bans_def)
qed

interpretation bans: journal BanRecord_bytes_of bnr_prev_hash bnr_record_hash BanRecord_committed
    ban_step "\<lambda>b. bnl_records (bl_log b)" ban_view play_ban PeerBlocklist_new
proof unfold_locales
  show "bnl_records (bl_log PeerBlocklist_new) = []"
    by (simp add: PeerBlocklist_new_def BanLog_new_def)
  show "ban_chain.ok sha (bnl_records (bl_log (ban_step sha op s)))" if "ban_chain.ok sha (bnl_records (bl_log s))" for sha s op
    using that ban_step_played [of sha op s] by (auto simp: BanLog_ok_def)
  show "\<exists>rs. bnl_records (bl_log (ban_step sha op s)) = bnl_records (bl_log s) @ rs \<and>
      ban_view (ban_step sha op s) = fold play_ban (map BanRecord_committed rs) (ban_view s)" for sha op s
    using ban_step_played [of sha op s] by auto
qed

section \<open>Who is banned, and until when\<close>

lemma expired_bans_iff:
  "p \<in> fst ` set (expired_bans e b) \<longleftrightarrow> (\<exists>x. bt_get (bl_entries b) p = Some x \<and> \<not> still_active e x)"
proof -
  have "p \<in> fst ` set (expired_bans e b) \<longleftrightarrow> (\<exists>x. (p, x) \<in> set (entries (bl_entries b)) \<and> \<not> still_active e x)"
    by (force simp: expired_bans_def still_active_def image_iff not_less split: option.splits)
  then show ?thesis by (simp add: in_entries_iff)
qed

lemma expire_bans_get:
  "bt_get (bl_entries (PeerBlocklist_expire_bans sha e b)) p =
     (case bt_get (bl_entries b) p of None \<Rightarrow> None | Some x \<Rightarrow> if still_active e x then Some x else None)"
  by (auto simp: PeerBlocklist_expire_bans_def expire_fold expired_bans_iff split: option.splits)

text \<open>Sweeping changes no answer, neither for the epoch of the sweep nor for a later one.\<close>

lemma expire_bans_invisible:
  "e \<le> e' \<Longrightarrow> PeerBlocklist_is_banned p e' (PeerBlocklist_expire_bans sha e b) = PeerBlocklist_is_banned p e' b"
  by (auto simp: PeerBlocklist_is_banned_def expire_bans_get still_active_def split: option.splits)

text \<open>A temporary ban lasts exactly its epochs, a permanent one until it is lifted.\<close>

lemma ban_lasts:
  assumes "PeerBlocklist_ban sha p e r d b = (Inr (), b')"
  shows "PeerBlocklist_is_banned p e' b' \<longleftrightarrow> (case d of None \<Rightarrow> True | Some n \<Rightarrow> e' < sat_add e n)"
    and "q \<noteq> p \<Longrightarrow> PeerBlocklist_is_banned q e' b' = PeerBlocklist_is_banned q e' b"
    and "\<not> PeerBlocklist_is_banned p e' (snd (PeerBlocklist_unban sha p e'' b'))"
  using assms
  by (auto simp: PeerBlocklist_ban_def PeerBlocklist_is_banned_def PeerBlocklist_unban_def still_active_def Let_def
      split: if_splits option.splits)

lemma banned_peers_iff: "p \<in> set (PeerBlocklist_banned_peers e b) \<longleftrightarrow> PeerBlocklist_is_banned p e b"
proof -
  have "p \<in> set (PeerBlocklist_banned_peers e b) \<longleftrightarrow> (\<exists>x. (p, x) \<in> set (entries (bl_entries b)) \<and> still_active e x)"
    by (force simp: PeerBlocklist_banned_peers_def still_active_def)
  then show ?thesis
    by (cases "bt_get (bl_entries b) p") (auto simp: in_entries_iff PeerBlocklist_is_banned_def)
qed

text \<open>
  The lapsed ban of a peer stands in the way of a new one until it is swept: the peer is not banned,
  and cannot be.
\<close>

lemma lapsed_ban_blocks_new_one:
  assumes "bt_get (bl_entries b) p = Some x" and "be_expires_at_epoch x = Some n" and "n \<le> e"
  shows "\<not> PeerBlocklist_is_banned p e b"
    and "PeerBlocklist_ban sha p e r d b = (Inl AlreadyBanned, b)"
    and "fst (PeerBlocklist_ban sha p e r d (PeerBlocklist_expire_bans sha e b)) \<noteq> Inl AlreadyBanned"
  using assms
  by (auto simp: PeerBlocklist_is_banned_def PeerBlocklist_ban_def still_active_def bt_has_def expire_bans_get Let_def not_less)

text \<open>The list has at most 256 bans.\<close>

lemma ban_step_bounded:
  "bt_len (bl_entries b) \<le> 256 \<Longrightarrow> bt_len (bl_entries (ban_step sha op b)) \<le> 256"
proof (cases op)
  case (ExpireBans e)
  then show "bt_len (bl_entries b) \<le> 256 \<Longrightarrow> ?thesis"
    using bt_len_retain_le [of "\<lambda>p x. p \<notin> fst ` set (expired_bans e b)" "bl_entries b"]
    by (simp add: PeerBlocklist_expire_bans_def expire_fold)
qed (auto simp: PeerBlocklist_ban_def PeerBlocklist_unban_def MAX_BLOCKLIST_SIZE_def Let_def split: option.splits)

interpretation bounded_bans: invariant_machine "ban_step sha" "\<lambda>b. bt_len (bl_entries b) \<le> 256" for sha
  by unfold_locales (rule ban_step_bounded)

lemma blocklist_bounded: "PeerBlocklist_blocklist_size (run (ban_step sha) ops PeerBlocklist_new) \<le> 256"
  unfolding PeerBlocklist_blocklist_size_def by (rule bounded_bans.run_inv) (simp add: PeerBlocklist_new_def)

end
