(* ===== verification/Session_Tracker.thy ===== *)
theory Session_Tracker
  imports Ordered_Map Hash_Chain
begin

text \<open>
  Gate 293, \<open>aegis-cl-psi/src/session_tracker.rs\<close>: the sessions of the peers, each with its own chained
  history.  The transitions of the documentation are the relation \<open>session_edge\<close>; every history is one
  of its paths from \<open>Open\<close> to the current state, a closed session stays closed, and no operation touches
  another session.
\<close>

section \<open>States\<close>

datatype SessionState = Open | Active | Suspended | Closed

fun SessionState_state_byte :: "SessionState \<Rightarrow> u8" where
  "SessionState_state_byte Open = 0"
| "SessionState_state_byte Active = 1"
| "SessionState_state_byte Suspended = 2"
| "SessionState_state_byte Closed = 3"

lemma SessionState_state_byte_inj [simp]: "SessionState_state_byte x = SessionState_state_byte y \<longleftrightarrow> x = y"
  by (cases x; cases y) auto

definition SessionState_is_terminal :: "SessionState \<Rightarrow> bool" where
  "SessionState_is_terminal s = (s = Closed)"

definition SessionState_can_transition_to :: "SessionState \<Rightarrow> SessionState \<Rightarrow> bool" where
  "SessionState_can_transition_to s t =
     ((s, t) \<in> {(Open, Active), (Open, Closed), (Active, Suspended), (Active, Closed), (Suspended, Active), (Suspended, Closed)})"

text \<open>The transitions the documentation of the module allows.\<close>

inductive session_edge :: "SessionState \<Rightarrow> SessionState \<Rightarrow> bool" where
  activate: "session_edge Open Active"
| suspend: "session_edge Active Suspended"
| resume: "session_edge Suspended Active"
| close: "s \<noteq> Closed \<Longrightarrow> session_edge s Closed"

inductive_simps session_edge_from [simp]:
  "session_edge Open t" "session_edge Active t" "session_edge Suspended t" "session_edge Closed t"

lemma session_transition_iff: "SessionState_can_transition_to s t \<longleftrightarrow> session_edge s t"
  by (cases s; cases t) (simp_all add: SessionState_can_transition_to_def)

section \<open>Records, histories\<close>

record SessionRecord =
  ser_peer_id :: u32
  ser_session_id :: u64
  ser_epoch :: u64
  ser_from_state :: SessionState
  ser_to_state :: SessionState
  ser_record_hash :: hash
  ser_prev_hash :: hash

definition session_bytes :: "u32 \<Rightarrow> u64 \<Rightarrow> u64 \<Rightarrow> SessionState \<Rightarrow> SessionState \<Rightarrow> hash \<Rightarrow> bytes" where
  "session_bytes peer_id session_id epoch from_state to_state prev =
     hash_bytes prev @ be4 peer_id @ be8 session_id @ be8 epoch @ [SessionState_state_byte from_state] @ [SessionState_state_byte to_state]"

definition compute_session_hash :: "sha \<Rightarrow> u32 \<Rightarrow> u64 \<Rightarrow> u64 \<Rightarrow> SessionState \<Rightarrow> SessionState \<Rightarrow> hash \<Rightarrow> hash" where
  "compute_session_hash sha peer_id session_id epoch from_state to_state prev = sha (session_bytes peer_id session_id epoch from_state to_state prev)"

definition build_session_record :: "sha \<Rightarrow> u32 \<Rightarrow> u64 \<Rightarrow> u64 \<Rightarrow> SessionState \<Rightarrow> SessionState \<Rightarrow> hash \<Rightarrow> SessionRecord" where
  "build_session_record sha peer_id session_id epoch from_state to_state prev_hash =
     \<lparr>ser_peer_id = peer_id, ser_session_id = session_id, ser_epoch = epoch, ser_from_state = from_state, ser_to_state = to_state,
      ser_record_hash = compute_session_hash sha peer_id session_id epoch from_state to_state prev_hash, ser_prev_hash = prev_hash\<rparr>"

definition SessionRecord_bytes_of :: "SessionRecord \<Rightarrow> bytes" where
  "SessionRecord_bytes_of r = session_bytes (ser_peer_id r) (ser_session_id r) (ser_epoch r) (ser_from_state r) (ser_to_state r) (ser_prev_hash r)"

record SessionHistory =
  sh_peer_id :: u32
  sh_session_id :: u64
  sh_current :: SessionState
  sh_records :: "SessionRecord list"

datatype SessionError = InvalidTransition SessionState SessionState | SessionAlreadyClosed | SessionNotFound | DuplicateSessionId

definition SessionHistory_new :: "u32 \<Rightarrow> u64 \<Rightarrow> SessionHistory" where
  "SessionHistory_new peer_id session_id =
     \<lparr>sh_peer_id = peer_id, sh_session_id = session_id, sh_current = Open, sh_records = []\<rparr>"

definition SessionHistory_last_hash :: "SessionHistory \<Rightarrow> hash" where
  "SessionHistory_last_hash l = last_hash ser_record_hash (sh_records l)"

definition SessionHistory_verify_chain :: "sha \<Rightarrow> SessionHistory \<Rightarrow> bool \<times> nat option" where
  "SessionHistory_verify_chain sha l =
     verify_from ser_prev_hash ser_record_hash (\<lambda>r. sha (SessionRecord_bytes_of r)) 0 genesis (sh_records l)"

definition SessionHistory_transition ::
  "sha \<Rightarrow> u64 \<Rightarrow> SessionState \<Rightarrow> SessionHistory \<Rightarrow> (SessionError + SessionRecord) \<times> SessionHistory" where
  "SessionHistory_transition sha epoch to_state h =
     (if SessionState_is_terminal (sh_current h) then (Inl SessionAlreadyClosed, h)
      else if \<not> SessionState_can_transition_to (sh_current h) to_state
      then (Inl (InvalidTransition (sh_current h) to_state), h)
      else
        let r = build_session_record sha (sh_peer_id h) (sh_session_id h) epoch (sh_current h) to_state (SessionHistory_last_hash h)
        in (Inr r, h\<lparr>sh_records := sh_records h @ [r], sh_current := to_state\<rparr>))"

definition SessionHistory_closed_count :: "SessionHistory \<Rightarrow> nat" where
  "SessionHistory_closed_count h = length (filter (\<lambda>r. ser_to_state r = Closed) (sh_records h))"

definition SessionHistory_suspended_count :: "SessionHistory \<Rightarrow> nat" where
  "SessionHistory_suspended_count h = length (filter (\<lambda>r. ser_to_state r = Suspended) (sh_records h))"

lemma session_bytes_inj:
  "session_bytes p0 s1 e2 f3 t4 h = session_bytes p0' s1' e2' f3' t4' h' \<longleftrightarrow>
   p0 = p0' \<and> s1 = s1' \<and> e2 = e2' \<and> f3 = f3' \<and> t4 = t4' \<and> h = h'"
  by (auto simp: session_bytes_def enc_simps)

definition SessionRecord_committed :: "SessionRecord \<Rightarrow> u32 \<times> u64 \<times> u64 \<times> SessionState \<times> SessionState" where
  "SessionRecord_committed r = (ser_peer_id r, ser_session_id r, ser_epoch r, ser_from_state r, ser_to_state r)"

interpretation session_chain: hash_log SessionRecord_bytes_of ser_prev_hash ser_record_hash SessionRecord_committed
  by unfold_locales (auto simp: SessionRecord_bytes_of_def SessionRecord_committed_def session_bytes_inj)

definition SessionHistory_ok :: "sha \<Rightarrow> SessionHistory \<Rightarrow> bool" where
  "SessionHistory_ok sha l \<longleftrightarrow> session_chain.ok sha (sh_records l)"

lemma SessionHistory_verify_iff: "SessionHistory_verify_chain sha l = (True, None) \<longleftrightarrow> SessionHistory_ok sha l"
  by (simp add: SessionHistory_verify_chain_def SessionHistory_ok_def verify_from_iff)

lemma SessionHistory_tamper_evident:
  assumes "SessionHistory_ok sha l" "SessionHistory_ok sha l'" "SessionHistory_last_hash l = SessionHistory_last_hash l'"
  shows "map SessionRecord_committed (sh_records l) = map SessionRecord_committed (sh_records l') \<or>
    forgery sha (SessionRecord_bytes_of ` (set (sh_records l) \<union> set (sh_records l')))"
  using assms session_chain.tamper_evident by (simp add: SessionHistory_ok_def SessionHistory_last_hash_def)

section \<open>The registry\<close>

record SessionRegistry =
  sg_sessions :: "(u32 \<times> u64, SessionHistory) btmap"

definition SessionRegistry_new :: SessionRegistry where
  "SessionRegistry_new = \<lparr>sg_sessions = bt_empty\<rparr>"

definition SessionRegistry_session_count :: "SessionRegistry \<Rightarrow> nat" where
  "SessionRegistry_session_count g = bt_len (sg_sessions g)"

definition SessionRegistry_open_session ::
  "u32 \<Rightarrow> u64 \<Rightarrow> SessionRegistry \<Rightarrow> (SessionError + unit) \<times> SessionRegistry" where
  "SessionRegistry_open_session peer_id session_id g =
     (if bt_has (sg_sessions g) (peer_id, session_id) then (Inl DuplicateSessionId, g)
      else (Inr (), g\<lparr>sg_sessions := bt_insert (peer_id, session_id) (SessionHistory_new peer_id session_id) (sg_sessions g)\<rparr>))"

definition SessionRegistry_transition ::
  "sha \<Rightarrow> u32 \<Rightarrow> u64 \<Rightarrow> u64 \<Rightarrow> SessionState \<Rightarrow> SessionRegistry \<Rightarrow> (SessionError + SessionRecord) \<times> SessionRegistry" where
  "SessionRegistry_transition sha peer_id session_id epoch to_state g =
     (case bt_get (sg_sessions g) (peer_id, session_id) of
        None \<Rightarrow> (Inl SessionNotFound, g)
      | Some h \<Rightarrow>
          (let (res, h') = SessionHistory_transition sha epoch to_state h
           in (res, g\<lparr>sg_sessions := bt_insert (peer_id, session_id) h' (sg_sessions g)\<rparr>)))"

definition SessionRegistry_current_state :: "u32 \<Rightarrow> u64 \<Rightarrow> SessionRegistry \<Rightarrow> SessionState option" where
  "SessionRegistry_current_state peer_id session_id g = map_option sh_current (bt_get (sg_sessions g) (peer_id, session_id))"

definition SessionRegistry_active_sessions :: "SessionRegistry \<Rightarrow> (u32 \<times> u64) list" where
  "SessionRegistry_active_sessions g =
     map fst (filter (\<lambda>(k, h). \<not> SessionState_is_terminal (sh_current h)) (entries (sg_sessions g)))"

definition SessionRegistry_closed_session_count :: "SessionRegistry \<Rightarrow> nat" where
  "SessionRegistry_closed_session_count g =
     length (filter (\<lambda>h. SessionState_is_terminal (sh_current h)) (bt_values (sg_sessions g)))"

section \<open>Histories are paths\<close>

definition session_path :: "SessionHistory \<Rightarrow> SessionState list" where
  "session_path h = Open # map ser_to_state (sh_records h)"

definition session_inv :: "sha \<Rightarrow> u32 \<times> u64 \<Rightarrow> SessionHistory \<Rightarrow> bool" where
  "session_inv sha k h \<longleftrightarrow>
     (sh_peer_id h, sh_session_id h) = k \<and>
     successively session_edge (session_path h) \<and> last (session_path h) = sh_current h \<and>
     list_all (\<lambda>r. (ser_peer_id r, ser_session_id r) = k) (sh_records h) \<and> SessionHistory_ok sha h"

lemma session_inv_new: "session_inv sha (p, i) (SessionHistory_new p i)"
  by (simp add: session_inv_def SessionHistory_new_def session_path_def SessionHistory_ok_def)

lemma session_inv_transition:
  assumes "session_inv sha k h"
  shows "session_inv sha k (snd (SessionHistory_transition sha e t h))"
proof (cases "session_edge (sh_current h) t")
  case False
  then show ?thesis using assms by (auto simp: SessionHistory_transition_def session_transition_iff)
next
  case True
  then have "\<not> SessionState_is_terminal (sh_current h)"
    by (auto simp: SessionState_is_terminal_def)
  with True assms show ?thesis
    by (auto simp: session_inv_def SessionHistory_transition_def session_transition_iff session_path_def Let_def
        build_session_record_def compute_session_hash_def SessionRecord_bytes_of_def SessionHistory_ok_def
        SessionHistory_last_hash_def successively_append_iff split: if_splits simp flip: append_Cons)
qed

lemma session_inv_transitioned:
  "SessionHistory_transition sha e t h = (res, h') \<Longrightarrow> session_inv sha k h \<Longrightarrow> session_inv sha k h'"
  using session_inv_transition [of sha k h e t] by simp

text \<open>In a path, only the last state can be closed.\<close>

lemma closed_last: "successively session_edge (s # path) \<Longrightarrow> Closed \<notin> set (butlast (s # path))"
  by (induction path arbitrary: s) auto

lemma closed_at_most_once:
  assumes "session_inv sha k h"
  shows "SessionHistory_closed_count h = (if sh_current h = Closed then 1 else 0)"
proof (cases "sh_records h" rule: rev_cases)
  case Nil
  then show ?thesis using assms by (auto simp: SessionHistory_closed_count_def session_inv_def session_path_def)
next
  case (snoc rs r)
  have "Closed \<notin> set (butlast (session_path h))"
    using assms closed_last unfolding session_inv_def session_path_def by blast
  then have "filter (\<lambda>r. ser_to_state r = Closed) rs = []"
    by (auto simp: snoc session_path_def filter_empty_conv butlast_append image_iff simp flip: append_Cons)
  then show ?thesis
    using assms by (simp add: SessionHistory_closed_count_def snoc session_inv_def session_path_def)
qed

section \<open>The registry keeps its sessions apart\<close>

datatype SessionOp = OpenSession u32 u64 | Transition u32 u64 u64 SessionState

fun session_step :: "sha \<Rightarrow> SessionOp \<Rightarrow> SessionRegistry \<Rightarrow> SessionRegistry" where
  "session_step sha (OpenSession p i) g = snd (SessionRegistry_open_session p i g)"
| "session_step sha (Transition p i e t) g = snd (SessionRegistry_transition sha p i e t g)"

fun session_of :: "SessionOp \<Rightarrow> u32 \<times> u64" where
  "session_of (OpenSession p i) = (p, i)"
| "session_of (Transition p i e t) = (p, i)"

definition registry_inv :: "sha \<Rightarrow> SessionRegistry \<Rightarrow> bool" where
  "registry_inv sha g \<longleftrightarrow> (\<forall>k h. bt_get (sg_sessions g) k = Some h \<longrightarrow> session_inv sha k h)"

lemma registry_step_inv: "registry_inv sha g \<Longrightarrow> registry_inv sha (session_step sha op g)"
  by (cases op)
    (auto simp: registry_inv_def SessionRegistry_open_session_def SessionRegistry_transition_def session_inv_new
      split: option.splits prod.splits intro: session_inv_transitioned)

interpretation registry_machine: invariant_machine "session_step sha" "registry_inv sha" for sha
  by unfold_locales (rule registry_step_inv)

text \<open>What a session has become depends on the operations on that session only.\<close>

interpretation session_apart: purged_view "session_step sha" "\<lambda>g :: SessionRegistry. bt_get (sg_sessions g) k" "\<lambda>op. session_of op = k" for sha k
proof unfold_locales
  fix op and s t :: SessionRegistry assume "bt_get (sg_sessions s) k = bt_get (sg_sessions t) k" and "session_of op = k"
  then show "bt_get (sg_sessions (session_step sha op s)) k = bt_get (sg_sessions (session_step sha op t)) k"
    by (cases op) (auto simp: SessionRegistry_open_session_def SessionRegistry_transition_def bt_has_def
        split: option.splits prod.splits)
next
  fix op and s :: SessionRegistry assume "session_of op \<noteq> k"
  then show "bt_get (sg_sessions (session_step sha op s)) k = bt_get (sg_sessions s) k"
    by (cases op) (auto simp: SessionRegistry_open_session_def SessionRegistry_transition_def split: option.splits prod.splits)
qed

lemma session_isolated:
  "bt_get (sg_sessions (run (session_step sha) ops g)) k =
   bt_get (sg_sessions (run (session_step sha) (filter (\<lambda>op. session_of op = k) ops) g)) k"
  using session_apart.view_purge by blast

lemma registry_histories:
  assumes "bt_get (sg_sessions (run (session_step sha) ops SessionRegistry_new)) (p, i) = Some h"
  shows "sh_peer_id h = p \<and> sh_session_id h = i"
    and "successively session_edge (session_path h) \<and> last (session_path h) = sh_current h"
    and "SessionHistory_verify_chain sha h = (True, None)"
    and "SessionHistory_closed_count h = (if sh_current h = Closed then 1 else 0)"
proof -
  have "registry_inv sha (run (session_step sha) ops SessionRegistry_new)"
    by (rule registry_machine.run_inv) (simp add: registry_inv_def SessionRegistry_new_def)
  with assms have inv: "session_inv sha (p, i) h" by (simp add: registry_inv_def)
  then show "sh_peer_id h = p \<and> sh_session_id h = i"
    and "successively session_edge (session_path h) \<and> last (session_path h) = sh_current h"
    and "SessionHistory_verify_chain sha h = (True, None)"
    by (simp_all add: session_inv_def SessionHistory_verify_iff)
  show "SessionHistory_closed_count h = (if sh_current h = Closed then 1 else 0)"
    using inv by (rule closed_at_most_once)
qed

text \<open>A closed session refuses everything, and cannot be opened again.\<close>

lemma closed_is_final:
  assumes "SessionRegistry_current_state p i g = Some Closed"
  shows "fst (SessionRegistry_transition sha p i e t g) = Inl SessionAlreadyClosed"
    and "fst (SessionRegistry_open_session p i g) = Inl DuplicateSessionId"
    and "SessionRegistry_current_state p i (run (session_step sha) ops g) = Some Closed"
proof -
  obtain h where h: "bt_get (sg_sessions g) (p, i) = Some h" "sh_current h = Closed"
    using assms by (auto simp: SessionRegistry_current_state_def)
  then show "fst (SessionRegistry_transition sha p i e t g) = Inl SessionAlreadyClosed"
    and "fst (SessionRegistry_open_session p i g) = Inl DuplicateSessionId"
    by (simp_all add: SessionRegistry_transition_def SessionHistory_transition_def SessionState_is_terminal_def
        SessionRegistry_open_session_def bt_has_def)
  have "bt_get (sg_sessions (run (session_step sha) ops g)) (p, i) = Some h"
    using h(1)
  proof (induction ops arbitrary: g)
    case (Cons op ops)
    have "bt_get (sg_sessions (session_step sha op g)) (p, i) = Some h"
      using Cons.prems h(2)
      by (cases op) (auto simp: SessionRegistry_open_session_def SessionRegistry_transition_def
          SessionHistory_transition_def SessionState_is_terminal_def bt_has_def Let_def split: option.splits)
    then show ?case by (simp add: Cons.IH)
  qed simp
  then show "SessionRegistry_current_state p i (run (session_step sha) ops g) = Some Closed"
    by (simp add: SessionRegistry_current_state_def h(2))
qed

lemma active_sessions_exact:
  "k \<in> set (SessionRegistry_active_sessions g) \<longleftrightarrow>
   (\<exists>s. SessionRegistry_current_state (fst k) (snd k) g = Some s \<and> s \<noteq> Closed)"
proof -
  have "k \<in> set (SessionRegistry_active_sessions g) \<longleftrightarrow>
      (\<exists>h. (k, h) \<in> set (entries (sg_sessions g)) \<and> sh_current h \<noteq> Closed)"
    by (force simp: SessionRegistry_active_sessions_def SessionState_is_terminal_def)
  then show ?thesis by (auto simp: in_entries_iff SessionRegistry_current_state_def)
qed

lemma sessions_split:
  "length (SessionRegistry_active_sessions g) + SessionRegistry_closed_session_count g = SessionRegistry_session_count g"
  using sum_length_filter_compl [of "\<lambda>h. \<not> SessionState_is_terminal (sh_current h)" "bt_values (sg_sessions g)"]
  by (simp add: SessionRegistry_active_sessions_def SessionRegistry_closed_session_count_def
      SessionRegistry_session_count_def bt_values_def bt_len_def filter_map o_def case_prod_unfold)

end
