(* ===== verification/Spsf_Scheduler.thy ===== *)
theory Spsf_Scheduler
  imports Hash_Chain
begin

text \<open>
  Gate 330, \<open>aegis-cl-psi/src/spsf_scheduler.rs\<close>: when to compact.  A plan is triggered by a thousand
  entries or by fifty epochs since the last compaction; it drops 200 entries, never keeping fewer than
  ten of them.
\<close>

section \<open>Plans\<close>

definition COMPACT_ENTRY_THRESHOLD :: nat where
  "COMPACT_ENTRY_THRESHOLD = 1000"

definition COMPACT_EPOCH_INTERVAL :: u64 where
  "COMPACT_EPOCH_INTERVAL = 50"

definition PRUNE_TARGET_SIZE :: nat where
  "PRUNE_TARGET_SIZE = 200"

definition MIN_RETAIN :: nat where
  "MIN_RETAIN = 10"

datatype TriggerReason = NoTrigger | EntryCount | EpochAge | Both

fun TriggerReason_byte :: "TriggerReason \<Rightarrow> u8" where
  "TriggerReason_byte NoTrigger = 0"
| "TriggerReason_byte EntryCount = 1"
| "TriggerReason_byte EpochAge = 2"
| "TriggerReason_byte Both = 3"

lemma TriggerReason_byte_inj [simp]: "TriggerReason_byte x = TriggerReason_byte y \<longleftrightarrow> x = y"
  by (cases x; cases y) auto

fun TriggerReason_from_flags :: "bool \<Rightarrow> bool \<Rightarrow> TriggerReason" where
  "TriggerReason_from_flags False False = NoTrigger"
| "TriggerReason_from_flags True False = EntryCount"
| "TriggerReason_from_flags False True = EpochAge"
| "TriggerReason_from_flags True True = Both"

lemma from_flags_none [simp]: "TriggerReason_from_flags a b = NoTrigger \<longleftrightarrow> \<not> a \<and> \<not> b"
  by (cases a; cases b) simp_all

record CompactionPlan =
  pn_triggered :: bool
  pn_trigger_reason :: TriggerReason
  pn_recommended_retain :: nat
  pn_plan_epoch :: u64
  pn_total_entries :: nat
  pn_last_compaction_epoch :: u64
  pn_plan_hash :: hash

definition compute_plan_hash :: "sha \<Rightarrow> u64 \<Rightarrow> TriggerReason \<Rightarrow> nat \<Rightarrow> nat \<Rightarrow> u64 \<Rightarrow> hash" where
  "compute_plan_hash sha plan_epoch trigger_reason recommended_retain total_entries last_compaction_epoch =
     sha (be8 plan_epoch @ [TriggerReason_byte trigger_reason] @ be8 (of_nat recommended_retain) @
          be8 (of_nat total_entries) @ be8 last_compaction_epoch)"

definition evaluate :: "sha \<Rightarrow> u64 \<Rightarrow> nat \<Rightarrow> u64 \<Rightarrow> CompactionPlan" where
  "evaluate sha current_epoch total_entries last_compaction_epoch =
     (let entry_trigger = total_entries \<ge> COMPACT_ENTRY_THRESHOLD;
          epoch_trigger = sat_sub current_epoch last_compaction_epoch \<ge> COMPACT_EPOCH_INTERVAL;
          trigger_reason = TriggerReason_from_flags entry_trigger epoch_trigger;
          triggered = (trigger_reason \<noteq> NoTrigger);
          recommended_retain =
            (if triggered then let naive = total_entries - PRUNE_TARGET_SIZE in min (max naive MIN_RETAIN) total_entries
             else total_entries)
      in \<lparr>pn_triggered = triggered, pn_trigger_reason = trigger_reason, pn_recommended_retain = recommended_retain,
          pn_plan_epoch = current_epoch, pn_total_entries = total_entries,
          pn_last_compaction_epoch = last_compaction_epoch,
          pn_plan_hash = compute_plan_hash sha current_epoch trigger_reason recommended_retain total_entries last_compaction_epoch\<rparr>)"

section \<open>The log of plans\<close>

record CompactionPlanRecord =
  cp_plan_epoch :: u64
  cp_triggered :: bool
  cp_trigger_reason :: TriggerReason
  cp_total_entries :: nat
  cp_plan_hash :: hash
  cp_record_hash :: hash
  cp_prev_hash :: hash

definition plan_record_bytes :: "u64 \<Rightarrow> bool \<Rightarrow> TriggerReason \<Rightarrow> nat \<Rightarrow> hash \<Rightarrow> hash \<Rightarrow> bytes" where
  "plan_record_bytes plan_epoch triggered trigger_reason total_entries plan_hash prev =
     hash_bytes prev @ be8 plan_epoch @ [of_bool triggered] @ [TriggerReason_byte trigger_reason] @ be8 (of_nat total_entries) @ hash_bytes plan_hash"

definition compute_plan_record_hash :: "sha \<Rightarrow> u64 \<Rightarrow> bool \<Rightarrow> TriggerReason \<Rightarrow> nat \<Rightarrow> hash \<Rightarrow> hash \<Rightarrow> hash" where
  "compute_plan_record_hash sha plan_epoch triggered trigger_reason total_entries plan_hash prev = sha (plan_record_bytes plan_epoch triggered trigger_reason total_entries plan_hash prev)"

definition build_plan_record_record :: "sha \<Rightarrow> u64 \<Rightarrow> bool \<Rightarrow> TriggerReason \<Rightarrow> nat \<Rightarrow> hash \<Rightarrow> hash \<Rightarrow> CompactionPlanRecord" where
  "build_plan_record_record sha plan_epoch triggered trigger_reason total_entries plan_hash prev_hash =
     \<lparr>cp_plan_epoch = plan_epoch, cp_triggered = triggered, cp_trigger_reason = trigger_reason, cp_total_entries = total_entries, cp_plan_hash = plan_hash,
      cp_record_hash = compute_plan_record_hash sha plan_epoch triggered trigger_reason total_entries plan_hash prev_hash, cp_prev_hash = prev_hash\<rparr>"

definition CompactionPlanRecord_bytes_of :: "CompactionPlanRecord \<Rightarrow> bytes" where
  "CompactionPlanRecord_bytes_of r = plan_record_bytes (cp_plan_epoch r) (cp_triggered r) (cp_trigger_reason r) (cp_total_entries r) (cp_plan_hash r) (cp_prev_hash r)"

record SchedulerLog =
  sdl_records :: "CompactionPlanRecord list"

definition SchedulerLog_new :: SchedulerLog where
  "SchedulerLog_new = \<lparr>sdl_records = []\<rparr>"

definition SchedulerLog_last_hash :: "SchedulerLog \<Rightarrow> hash" where
  "SchedulerLog_last_hash l = last_hash cp_record_hash (sdl_records l)"

definition SchedulerLog_verify_chain :: "sha \<Rightarrow> SchedulerLog \<Rightarrow> bool \<times> nat option" where
  "SchedulerLog_verify_chain sha l =
     verify_from cp_prev_hash cp_record_hash (\<lambda>r. sha (CompactionPlanRecord_bytes_of r)) 0 genesis (sdl_records l)"

definition SchedulerLog_append :: "sha \<Rightarrow> CompactionPlan \<Rightarrow> SchedulerLog \<Rightarrow> CompactionPlanRecord \<times> SchedulerLog" where
  "SchedulerLog_append sha plan l =
     (let rec = build_plan_record_record sha (pn_plan_epoch plan) (pn_triggered plan) (pn_trigger_reason plan)
                  (pn_total_entries plan) (pn_plan_hash plan) (SchedulerLog_last_hash l)
      in (rec, l\<lparr>sdl_records := sdl_records l @ [rec]\<rparr>))"

definition SchedulerLog_triggered_count :: "SchedulerLog \<Rightarrow> nat" where
  "SchedulerLog_triggered_count l = length (filter cp_triggered (sdl_records l))"

definition SchedulerLog_latest :: "SchedulerLog \<Rightarrow> CompactionPlanRecord option" where
  "SchedulerLog_latest l = (if sdl_records l = [] then None else Some (last (sdl_records l)))"

lemma plan_record_bytes_inj:
  "plan_record_bytes p0 t1 t2 t3 p4 h = plan_record_bytes p0' t1' t2' t3' p4' h' \<longleftrightarrow>
   p0 = p0' \<and> t1 = t1' \<and> t2 = t2' \<and> (of_nat t3 :: u64) = (of_nat t3' :: u64) \<and> p4 = p4' \<and> h = h'"
  by (auto simp: plan_record_bytes_def enc_simps)

definition CompactionPlanRecord_committed :: "CompactionPlanRecord \<Rightarrow> u64 \<times> bool \<times> TriggerReason \<times> u64 \<times> hash" where
  "CompactionPlanRecord_committed r = (cp_plan_epoch r, cp_triggered r, cp_trigger_reason r, (of_nat (cp_total_entries r) :: u64), cp_plan_hash r)"

interpretation plan_record_chain: hash_log CompactionPlanRecord_bytes_of cp_prev_hash cp_record_hash CompactionPlanRecord_committed
  by unfold_locales (auto simp: CompactionPlanRecord_bytes_of_def CompactionPlanRecord_committed_def plan_record_bytes_inj)

definition SchedulerLog_ok :: "sha \<Rightarrow> SchedulerLog \<Rightarrow> bool" where
  "SchedulerLog_ok sha l \<longleftrightarrow> plan_record_chain.ok sha (sdl_records l)"

lemma SchedulerLog_verify_iff: "SchedulerLog_verify_chain sha l = (True, None) \<longleftrightarrow> SchedulerLog_ok sha l"
  by (simp add: SchedulerLog_verify_chain_def SchedulerLog_ok_def verify_from_iff)

lemma SchedulerLog_tamper_evident:
  assumes "SchedulerLog_ok sha l" "SchedulerLog_ok sha l'" "SchedulerLog_last_hash l = SchedulerLog_last_hash l'"
  shows "map CompactionPlanRecord_committed (sdl_records l) = map CompactionPlanRecord_committed (sdl_records l') \<or>
    forgery sha (CompactionPlanRecord_bytes_of ` (set (sdl_records l) \<union> set (sdl_records l')))"
  using assms plan_record_chain.tamper_evident by (simp add: SchedulerLog_ok_def SchedulerLog_last_hash_def)

lemma SchedulerLog_ok_new [simp]: "SchedulerLog_ok sha SchedulerLog_new"
  by (simp add: SchedulerLog_ok_def SchedulerLog_new_def)

lemma SchedulerLog_append_simps [simp]:
  "SchedulerLog_ok sha (snd (SchedulerLog_append sha plan l)) \<longleftrightarrow> SchedulerLog_ok sha l"
  "SchedulerLog_triggered_count (snd (SchedulerLog_append sha plan l)) =
     SchedulerLog_triggered_count l + of_bool (pn_triggered plan)"
  "length (sdl_records (snd (SchedulerLog_append sha plan l))) = Suc (length (sdl_records l))"
  by (simp_all add: SchedulerLog_ok_def SchedulerLog_append_def SchedulerLog_last_hash_def
      build_plan_record_record_def compute_plan_record_hash_def CompactionPlanRecord_bytes_of_def Let_def
      SchedulerLog_triggered_count_def)

section \<open>What a plan says\<close>

lemma evaluate_triggered:
  "pn_triggered (evaluate sha e n c) \<longleftrightarrow> 1000 \<le> n \<or> unat c + 50 \<le> unat e"
  by (auto simp: evaluate_def Let_def COMPACT_ENTRY_THRESHOLD_def COMPACT_EPOCH_INTERVAL_def word_le_nat_alt sat_simps)

text \<open>A triggered plan drops 200 entries, or all but ten if that is fewer; the documentation would keep 200.\<close>

lemma evaluate_retain:
  "pn_recommended_retain (evaluate sha e n c) =
     (if pn_triggered (evaluate sha e n c) then n - min 200 (n - 10) else n)"
  by (auto simp: evaluate_def Let_def PRUNE_TARGET_SIZE_def MIN_RETAIN_def min_def max_def)

lemma evaluate_retain_bounds:
  "pn_recommended_retain (evaluate sha e n c) \<le> n" "min 10 n \<le> pn_recommended_retain (evaluate sha e n c)"
  by (auto simp: evaluate_retain)

lemma evaluate_fields [simp]:
  "pn_plan_epoch (evaluate sha e n c) = e" "pn_total_entries (evaluate sha e n c) = n"
  "pn_last_compaction_epoch (evaluate sha e n c) = c"
  by (simp_all add: evaluate_def Let_def)

end
