(* ===== verification/Spsf_Manager.thy ===== *)
theory Spsf_Manager
  imports Spsf_Verifier Spsf_Scheduler
begin

text \<open>
  Gate 331, \<open>aegis-cl-psi/src/spsf_manager.rs\<close>: the scheduler, the compactor and the verifier put
  together.  Over any interleaving of entries and ticks, the live entries are the accepted ones less
  the dropped ones, of which the records keep count; the last ten are always kept, so no number is
  accepted twice; every verdict is decided; and a backlog is worked off by 200 entries a tick.
\<close>

section \<open>The log\<close>

record ManagementRecord =
  mr_epoch :: u64
  mr_compacted :: bool
  mr_plan_triggered :: bool
  mr_pruned_count :: nat
  mr_retained_count :: nat
  mr_verify_verdict :: VerificationVerdict
  mr_record_hash :: hash
  mr_prev_hash :: hash

definition management_bytes :: "u64 \<Rightarrow> bool \<Rightarrow> bool \<Rightarrow> nat \<Rightarrow> nat \<Rightarrow> VerificationVerdict \<Rightarrow> hash \<Rightarrow> bytes" where
  "management_bytes epoch compacted plan_triggered pruned_count retained_count verify_verdict prev =
     hash_bytes prev @ be8 epoch @ [of_bool compacted] @ [of_bool plan_triggered] @ be8 (of_nat pruned_count) @ be8 (of_nat retained_count) @ [VerificationVerdict_byte verify_verdict]"

definition compute_management_hash :: "sha \<Rightarrow> u64 \<Rightarrow> bool \<Rightarrow> bool \<Rightarrow> nat \<Rightarrow> nat \<Rightarrow> VerificationVerdict \<Rightarrow> hash \<Rightarrow> hash" where
  "compute_management_hash sha epoch compacted plan_triggered pruned_count retained_count verify_verdict prev = sha (management_bytes epoch compacted plan_triggered pruned_count retained_count verify_verdict prev)"

definition build_management_record :: "sha \<Rightarrow> u64 \<Rightarrow> bool \<Rightarrow> bool \<Rightarrow> nat \<Rightarrow> nat \<Rightarrow> VerificationVerdict \<Rightarrow> hash \<Rightarrow> ManagementRecord" where
  "build_management_record sha epoch compacted plan_triggered pruned_count retained_count verify_verdict prev_hash =
     \<lparr>mr_epoch = epoch, mr_compacted = compacted, mr_plan_triggered = plan_triggered, mr_pruned_count = pruned_count, mr_retained_count = retained_count, mr_verify_verdict = verify_verdict,
      mr_record_hash = compute_management_hash sha epoch compacted plan_triggered pruned_count retained_count verify_verdict prev_hash, mr_prev_hash = prev_hash\<rparr>"

definition ManagementRecord_bytes_of :: "ManagementRecord \<Rightarrow> bytes" where
  "ManagementRecord_bytes_of r = management_bytes (mr_epoch r) (mr_compacted r) (mr_plan_triggered r) (mr_pruned_count r) (mr_retained_count r) (mr_verify_verdict r) (mr_prev_hash r)"

record ManagementLog =
  ml_records :: "ManagementRecord list"

definition ManagementLog_new :: ManagementLog where
  "ManagementLog_new = \<lparr>ml_records = []\<rparr>"

definition ManagementLog_last_hash :: "ManagementLog \<Rightarrow> hash" where
  "ManagementLog_last_hash l = last_hash mr_record_hash (ml_records l)"

definition ManagementLog_verify_chain :: "sha \<Rightarrow> ManagementLog \<Rightarrow> bool \<times> nat option" where
  "ManagementLog_verify_chain sha l =
     verify_from mr_prev_hash mr_record_hash (\<lambda>r. sha (ManagementRecord_bytes_of r)) 0 genesis (ml_records l)"

definition ManagementLog_append_inner ::
  "sha \<Rightarrow> u64 \<Rightarrow> bool \<Rightarrow> bool \<Rightarrow> nat \<Rightarrow> nat \<Rightarrow> VerificationVerdict \<Rightarrow> ManagementLog \<Rightarrow> ManagementRecord \<times> ManagementLog" where
  "ManagementLog_append_inner sha epoch compacted plan_triggered pruned_count retained_count verdict l =
     (let rec = build_management_record sha epoch compacted plan_triggered pruned_count retained_count verdict
                  (ManagementLog_last_hash l)
      in (rec, l\<lparr>ml_records := ml_records l @ [rec]\<rparr>))"

definition ManagementLog_latest :: "ManagementLog \<Rightarrow> ManagementRecord option" where
  "ManagementLog_latest l = (if ml_records l = [] then None else Some (last (ml_records l)))"

definition ManagementLog_total_compacted_entries :: "ManagementLog \<Rightarrow> nat" where
  "ManagementLog_total_compacted_entries l = sum_list (map mr_pruned_count (filter mr_compacted (ml_records l)))"

lemma management_bytes_inj:
  "management_bytes e0 c1 p2 p3 r4 v5 h = management_bytes e0' c1' p2' p3' r4' v5' h' \<longleftrightarrow>
   e0 = e0' \<and> c1 = c1' \<and> p2 = p2' \<and> (of_nat p3 :: u64) = (of_nat p3' :: u64) \<and> (of_nat r4 :: u64) = (of_nat r4' :: u64) \<and> v5 = v5' \<and> h = h'"
  by (auto simp: management_bytes_def enc_simps)

definition ManagementRecord_committed :: "ManagementRecord \<Rightarrow> u64 \<times> bool \<times> bool \<times> u64 \<times> u64 \<times> VerificationVerdict" where
  "ManagementRecord_committed r = (mr_epoch r, mr_compacted r, mr_plan_triggered r, (of_nat (mr_pruned_count r) :: u64), (of_nat (mr_retained_count r) :: u64), mr_verify_verdict r)"

interpretation management_chain: hash_log ManagementRecord_bytes_of mr_prev_hash mr_record_hash ManagementRecord_committed
  by unfold_locales (auto simp: ManagementRecord_bytes_of_def ManagementRecord_committed_def management_bytes_inj)

definition ManagementLog_ok :: "sha \<Rightarrow> ManagementLog \<Rightarrow> bool" where
  "ManagementLog_ok sha l \<longleftrightarrow> management_chain.ok sha (ml_records l)"

lemma ManagementLog_verify_iff: "ManagementLog_verify_chain sha l = (True, None) \<longleftrightarrow> ManagementLog_ok sha l"
  by (simp add: ManagementLog_verify_chain_def ManagementLog_ok_def verify_from_iff)

lemma ManagementLog_tamper_evident:
  assumes "ManagementLog_ok sha l" "ManagementLog_ok sha l'" "ManagementLog_last_hash l = ManagementLog_last_hash l'"
  shows "map ManagementRecord_committed (ml_records l) = map ManagementRecord_committed (ml_records l') \<or>
    forgery sha (ManagementRecord_bytes_of ` (set (ml_records l) \<union> set (ml_records l')))"
  using assms management_chain.tamper_evident by (simp add: ManagementLog_ok_def ManagementLog_last_hash_def)

lemma ManagementLog_ok_new [simp]: "ManagementLog_ok sha ManagementLog_new"
  by (simp add: ManagementLog_ok_def ManagementLog_new_def)

lemma ManagementLog_append_simps [simp]:
  "ManagementLog_ok sha (snd (ManagementLog_append_inner sha e c t p r v l)) \<longleftrightarrow> ManagementLog_ok sha l"
  "ManagementLog_total_compacted_entries (snd (ManagementLog_append_inner sha e c t p r v l)) =
     ManagementLog_total_compacted_entries l + (if c then p else 0)"
  "length (ml_records (snd (ManagementLog_append_inner sha e c t p r v l))) = Suc (length (ml_records l))"
  by (simp_all add: ManagementLog_ok_def ManagementLog_append_inner_def ManagementLog_last_hash_def
      build_management_record_def compute_management_hash_def ManagementRecord_bytes_of_def Let_def
      ManagementLog_total_compacted_entries_def)

section \<open>The manager\<close>

record SpsfManager =
  sm_entries :: "entry list"
  sm_current_anchor :: CompactionAnchor
  sm_last_compaction_epoch :: u64
  sm_scheduler_log :: SchedulerLog
  sm_compaction_log :: CompactionLog
  sm_verification_log :: VerificationLog
  sm_management_log :: ManagementLog

definition SpsfManager_new :: SpsfManager where
  "SpsfManager_new =
     \<lparr>sm_entries = [], sm_current_anchor = \<lparr>an_anchor_sequence = 0, an_terminal_hash = genesis, an_entry_count = 0\<rparr>,
      sm_last_compaction_epoch = 0, sm_scheduler_log = SchedulerLog_new, sm_compaction_log = CompactionLog_new,
      sm_verification_log = VerificationLog_new, sm_management_log = ManagementLog_new\<rparr>"

definition SpsfManager_entry_count :: "SpsfManager \<Rightarrow> nat" where
  "SpsfManager_entry_count s = length (sm_entries s)"

datatype IngestError = NonMonotoneSequence

definition SpsfManager_ingest :: "u64 \<Rightarrow> hash \<Rightarrow> SpsfManager \<Rightarrow> (IngestError + unit) \<times> SpsfManager" where
  "SpsfManager_ingest sequence_id state_hash s =
     (if sm_entries s \<noteq> [] \<and> sequence_id \<le> fst (last (sm_entries s)) then (Inl NonMonotoneSequence, s)
      else (Inr (), s\<lparr>sm_entries := sm_entries s @ [(sequence_id, state_hash)]\<rparr>))"

text \<open>The verification at the end of every tick, with its record.\<close>

definition verify_and_log :: "sha \<Rightarrow> SpsfManager \<Rightarrow> VerificationVerdict \<times> SpsfManager" where
  "verify_and_log sha s =
     (let verify_result = verify_suffix sha (sm_current_anchor s) (sm_entries s)
      in (vr_verdict verify_result,
          s\<lparr>sm_verification_log :=
              snd (VerificationLog_append sha (sm_current_anchor s) verify_result (sm_verification_log s))\<rparr>))"

definition SpsfManager_tick :: "sha \<Rightarrow> u64 \<Rightarrow> SpsfManager \<Rightarrow> ManagementRecord \<times> SpsfManager" where
  "SpsfManager_tick sha current_epoch s =
     (let plan = evaluate sha current_epoch (length (sm_entries s)) (sm_last_compaction_epoch s);
          s = s\<lparr>sm_scheduler_log := snd (SchedulerLog_append sha plan (sm_scheduler_log s))\<rparr>
      in if pn_triggered plan then
           let result = compact sha \<lparr>ci_entries = sm_entries s, ci_retain_count = pn_recommended_retain plan,
                                     ci_compaction_epoch = current_epoch\<rparr>;
               s = s\<lparr>sm_entries := drop (cr_pruned_count result) (sm_entries s),
                     sm_current_anchor := cr_anchor result,
                     sm_last_compaction_epoch := current_epoch,
                     sm_compaction_log := snd (CompactionLog_record sha result (sm_compaction_log s))\<rparr>;
               (verdict, s) = verify_and_log sha s;
               (rec, log) = ManagementLog_append_inner sha current_epoch True True (cr_pruned_count result)
                 (cr_retained_count result) verdict (sm_management_log s)
           in (rec, s\<lparr>sm_management_log := log\<rparr>)
         else
           let (verdict, s) = verify_and_log sha s;
               (rec, log) = ManagementLog_append_inner sha current_epoch False False 0 (length (sm_entries s)) verdict
                 (sm_management_log s)
           in (rec, s\<lparr>sm_management_log := log\<rparr>))"

definition SpsfManager_manager_hash :: "sha \<Rightarrow> SpsfManager \<Rightarrow> hash" where
  "SpsfManager_manager_hash sha s =
     sha (hash_bytes (SchedulerLog_last_hash (sm_scheduler_log s)) @
          hash_bytes (CompactionLog_last_hash (sm_compaction_log s)) @
          hash_bytes (VerificationLog_last_hash (sm_verification_log s)))"

section \<open>One tick\<close>

text \<open>How many entries a tick drops.\<close>

definition pruned_by :: "u64 \<Rightarrow> SpsfManager \<Rightarrow> nat" where
  "pruned_by e s =
     (if 1000 \<le> length (sm_entries s) \<or> unat (sm_last_compaction_epoch s) + 50 \<le> unat e
      then min 200 (length (sm_entries s) - 10) else 0)"

definition compacts :: "u64 \<Rightarrow> SpsfManager \<Rightarrow> bool" where
  "compacts e s \<longleftrightarrow> 1000 \<le> length (sm_entries s) \<or> unat (sm_last_compaction_epoch s) + 50 \<le> unat e"

lemma tick_state:
  "snd (SpsfManager_tick sha e s) =
     (let n = pruned_by e s;
          plan = evaluate sha e (length (sm_entries s)) (sm_last_compaction_epoch s);
          result = compact sha \<lparr>ci_entries = sm_entries s, ci_retain_count = pn_recommended_retain plan, ci_compaction_epoch = e\<rparr>;
          anchor = (if compacts e s then CompactionAnchor_from_pruned sha (take n (sm_entries s)) else sm_current_anchor s);
          v = verify_suffix sha anchor (drop n (sm_entries s))
      in \<lparr>sm_entries = drop n (sm_entries s), sm_current_anchor = anchor,
          sm_last_compaction_epoch = (if compacts e s then e else sm_last_compaction_epoch s),
          sm_scheduler_log = snd (SchedulerLog_append sha plan (sm_scheduler_log s)),
          sm_compaction_log = (if compacts e s then snd (CompactionLog_record sha result (sm_compaction_log s)) else sm_compaction_log s),
          sm_verification_log = snd (VerificationLog_append sha anchor v (sm_verification_log s)),
          sm_management_log = snd (ManagementLog_append_inner sha e (compacts e s) (compacts e s) n
             (length (sm_entries s) - n) (vr_verdict v) (sm_management_log s))\<rparr>)"
proof -
  have trig: "pn_triggered (evaluate sha e (length (sm_entries s)) (sm_last_compaction_epoch s)) = compacts e s"
    by (simp add: evaluate_triggered compacts_def)
  have ret: "pn_recommended_retain (evaluate sha e (length (sm_entries s)) (sm_last_compaction_epoch s)) =
      length (sm_entries s) - pruned_by e s"
    by (auto simp: evaluate_retain trig pruned_by_def compacts_def)
  have "pruned_by e s \<le> length (sm_entries s)" by (auto simp: pruned_by_def)
  moreover have "\<not> compacts e s \<Longrightarrow> pruned_by e s = 0" by (simp add: pruned_by_def compacts_def)
  ultimately show ?thesis
    by (cases "compacts e s")
      (simp_all add: SpsfManager_tick_def verify_and_log_def trig ret compact_counts compact_anchor Let_def split_beta)
qed

lemma tick_record:
  "fst (SpsfManager_tick sha e s) =
     (let s' = snd (SpsfManager_tick sha e s) in last (ml_records (sm_management_log s')))"
  by (simp add: SpsfManager_tick_def verify_and_log_def ManagementLog_append_inner_def Let_def split_beta)

lemma tick_verdict:
  "mr_verify_verdict (fst (SpsfManager_tick sha e s)) =
     vr_verdict (verify_suffix sha (sm_current_anchor (snd (SpsfManager_tick sha e s))) (sm_entries (snd (SpsfManager_tick sha e s))))"
  by (simp add: tick_record tick_state ManagementLog_append_inner_def build_management_record_def Let_def)

lemma pruned_keeps: "min 10 (length (sm_entries s)) \<le> length (sm_entries s) - pruned_by e s"
  by (auto simp: pruned_by_def)

lemma pruned_le: "pruned_by e s \<le> length (sm_entries s)" "pruned_by e s \<le> 200"
  by (auto simp: pruned_by_def)

lemma pruned_none: "\<not> compacts e s \<Longrightarrow> pruned_by e s = 0"
  by (simp add: pruned_by_def compacts_def)

section \<open>Runs\<close>

datatype ManagerOp = Ingest u64 hash | Tick u64

fun manager_step :: "sha \<Rightarrow> ManagerOp \<Rightarrow> SpsfManager \<Rightarrow> SpsfManager" where
  "manager_step sha (Ingest i h) s = snd (SpsfManager_ingest i h s)"
| "manager_step sha (Tick e) s = snd (SpsfManager_tick sha e s)"

fun accepted_entry :: "ManagerOp \<Rightarrow> SpsfManager \<Rightarrow> entry list" where
  "accepted_entry (Ingest i h) s = (if fst (SpsfManager_ingest i h s) = Inr () then [(i, h)] else [])"
| "accepted_entry (Tick e) s = []"

definition accepted_history :: "sha \<Rightarrow> ManagerOp list \<Rightarrow> entry list" where
  "accepted_history sha ops = emitted (manager_step sha) accepted_entry ops SpsfManager_new"

definition logs_ok :: "sha \<Rightarrow> SpsfManager \<Rightarrow> bool" where
  "logs_ok sha s \<longleftrightarrow>
     SchedulerLog_verify_chain sha (sm_scheduler_log s) = (True, None) \<and>
     CompactionLog_verify_chain sha (sm_compaction_log s) = (True, None) \<and>
     VerificationLog_verify_chain sha (sm_verification_log s) = (True, None) \<and>
     ManagementLog_verify_chain sha (sm_management_log s) = (True, None)"

lemmas log_oks = SchedulerLog_verify_iff CompactionLog_verify_iff VerificationLog_verify_iff ManagementLog_verify_iff

text \<open>The state that the accepted entries \<open>hist\<close> have led to.\<close>

definition after_history :: "sha \<Rightarrow> entry list \<Rightarrow> SpsfManager \<Rightarrow> bool" where
  "after_history sha hist s \<longleftrightarrow>
     (let d = ManagementLog_total_compacted_entries (sm_management_log s)
      in sorted_wrt (<) (map fst hist) \<and> d \<le> length hist \<and> sm_entries s = drop d hist \<and>
         min 10 (length hist) \<le> length (sm_entries s) \<and>
         (\<exists>c \<le> d. sm_current_anchor s = CompactionAnchor_from_pruned sha (drop c (take d hist))) \<and>
         logs_ok sha s)"

lemma after_history_new: "after_history sha [] SpsfManager_new"
  by (simp add: after_history_def SpsfManager_new_def ManagementLog_total_compacted_entries_def ManagementLog_new_def
      CompactionAnchor_from_pruned_def logs_ok_def log_oks SchedulerLog_new_def CompactionLog_new_def
      VerificationLog_new_def Let_def SchedulerLog_ok_def CompactionLog_ok_def VerificationLog_ok_def ManagementLog_ok_def)

lemma ingest_accepts:
  assumes "after_history sha hist s"
  shows "fst (SpsfManager_ingest i h s) = Inr () \<longleftrightarrow> (hist \<noteq> [] \<longrightarrow> fst (last hist) < i)"
proof -
  let ?d = "ManagementLog_total_compacted_entries (sm_management_log s)"
  have e: "sm_entries s = drop ?d hist" and l: "min 10 (length hist) \<le> length (sm_entries s)"
    using assms by (auto simp: after_history_def Let_def)
  show ?thesis
  proof (cases "hist = []")
    case True
    then show ?thesis by (simp add: SpsfManager_ingest_def e)
  next
    case False
    with l have "sm_entries s \<noteq> []" by (auto simp: min_def split: if_splits)
    moreover from this e have "last (sm_entries s) = last hist" by (metis drop_eq_Nil last_drop not_le)
    ultimately show ?thesis using False by (auto simp: SpsfManager_ingest_def not_le)
  qed
qed

lemma after_history_ingest:
  assumes "after_history sha hist s"
  shows "after_history sha (hist @ accepted_entry (Ingest i h) s) (snd (SpsfManager_ingest i h s))"
proof (cases "fst (SpsfManager_ingest i h s) = Inr ()")
  case False
  then have "snd (SpsfManager_ingest i h s) = s" by (auto simp: SpsfManager_ingest_def split: if_splits)
  with False assms show ?thesis by simp
next
  case True
  then have s': "snd (SpsfManager_ingest i h s) = s\<lparr>sm_entries := sm_entries s @ [(i, h)]\<rparr>"
    by (auto simp: SpsfManager_ingest_def split: if_splits)
  have "hist \<noteq> [] \<longrightarrow> last (map fst hist) < i"
    using True ingest_accepts [OF assms] by (simp add: last_map)
  then show ?thesis
    using assms True by (auto simp: after_history_def s' Let_def sorted_wrt_snoc_less logs_ok_def)
qed

lemma after_history_tick:
  assumes "after_history sha hist s"
  shows "after_history sha hist (snd (SpsfManager_tick sha e s))"
proof -
  let ?d = "ManagementLog_total_compacted_entries (sm_management_log s)" and ?n = "pruned_by e s"
  let ?s = "snd (SpsfManager_tick sha e s)"
  have h: "sm_entries s = drop ?d hist" "?d \<le> length hist" "sorted_wrt (<) (map fst hist)" "logs_ok sha s"
      "min 10 (length hist) \<le> length (sm_entries s)"
    using assms by (auto simp: after_history_def Let_def)
  obtain c where c: "c \<le> ?d" "sm_current_anchor s = CompactionAnchor_from_pruned sha (drop c (take ?d hist))"
    using assms by (auto simp: after_history_def Let_def)
  have d': "ManagementLog_total_compacted_entries (sm_management_log ?s) = ?d + ?n"
    by (simp add: tick_state pruned_none Let_def)
  have entries: "sm_entries ?s = drop (?d + ?n) hist"
    by (simp add: tick_state h(1) add.commute Let_def)
  have "logs_ok sha ?s"
    using h(4) by (simp add: logs_ok_def log_oks tick_state Let_def)
  moreover have "?d + ?n \<le> length hist" using pruned_le(1) [of e s] h(1,2) by simp
  moreover have "min 10 (length hist) \<le> length (sm_entries ?s)"
    using pruned_keeps [of s e] h(1,2,5) by (simp add: entries)
  moreover have "\<exists>c' \<le> ?d + ?n. sm_current_anchor ?s = CompactionAnchor_from_pruned sha (drop c' (take (?d + ?n) hist))"
  proof (cases "compacts e s")
    case True
    then show ?thesis by (intro exI [of _ ?d]) (simp add: tick_state h(1) take_drop Let_def add.commute)
  next
    case False
    with c show ?thesis by (intro exI [of _ c]) (simp add: tick_state pruned_none Let_def)
  qed
  ultimately show ?thesis
    using h(3) by (simp add: after_history_def d' entries Let_def)
qed

lemma after_history_run:
  "after_history sha hist s \<Longrightarrow>
   after_history sha (hist @ emitted (manager_step sha) accepted_entry ops s) (run (manager_step sha) ops s)"
proof (induction ops arbitrary: hist s)
  case Nil
  then show ?case by simp
next
  case (Cons op ops)
  have "after_history sha (hist @ accepted_entry op s) (manager_step sha op s)"
    using Cons.prems after_history_ingest after_history_tick by (cases op) (auto simp del: accepted_entry.simps(1))
  from Cons.IH [OF this] show ?case by simp
qed

lemma after_history_reached: "after_history sha (accepted_history sha ops) (run (manager_step sha) ops SpsfManager_new)"
  using after_history_run [OF after_history_new] by (simp add: accepted_history_def)

section \<open>The verdicts\<close>

definition consecutive :: "entry list \<Rightarrow> bool" where
  "consecutive es \<longleftrightarrow> (\<forall>i. Suc i < length es \<longrightarrow> fst (es ! Suc i) = fst (es ! i) + 1)"

lemma verdict_after:
  assumes "after_history sha hist s"
  shows "vr_verdict (verify_suffix sha (sm_current_anchor s) (sm_entries s)) \<in> {EmptySuffix, AnchorGap, Verified}"
    and "vr_verdict (verify_suffix sha (sm_current_anchor s) (sm_entries s)) = EmptySuffix \<longleftrightarrow> hist = []"
    and "consecutive hist \<Longrightarrow> vr_verdict (verify_suffix sha (sm_current_anchor s) (sm_entries s)) \<noteq> AnchorGap"
proof -
  let ?d = "ManagementLog_total_compacted_entries (sm_management_log s)"
  have h: "sm_entries s = drop ?d hist" "?d \<le> length hist" "sorted_wrt (<) (map fst hist)"
      "min 10 (length hist) \<le> length (sm_entries s)"
    using assms by (auto simp: after_history_def Let_def)
  obtain c where c: "c \<le> ?d" "sm_current_anchor s = CompactionAnchor_from_pruned sha (drop c (take ?d hist))"
    using assms by (auto simp: after_history_def Let_def)
  have sorted: "sorted_wrt (<) (map fst (sm_entries s))"
    using h(3) by (simp add: h(1) drop_map [symmetric] sorted_wrt_drop)
  have empty: "sm_entries s = [] \<longleftrightarrow> hist = []" using h(1,4) by (auto simp: min_def split: if_splits)
  show "vr_verdict (verify_suffix sha (sm_current_anchor s) (sm_entries s)) \<in> {EmptySuffix, AnchorGap, Verified}"
    and "vr_verdict (verify_suffix sha (sm_current_anchor s) (sm_entries s)) = EmptySuffix \<longleftrightarrow> hist = []"
    using sorted empty by (simp_all add: verify_verdict)
  show "vr_verdict (verify_suffix sha (sm_current_anchor s) (sm_entries s)) \<noteq> AnchorGap" if cons: "consecutive hist"
  proof (cases "hist = [] \<or> c = ?d")
    case True
    then show ?thesis using sorted empty c(2) by (auto simp: verify_verdict gap_def CompactionAnchor_from_pruned_def)
  next
    case False
    with h c(1) have lt: "c < ?d" "?d < length hist" by (auto simp: empty [unfolded h(1)])
    then have "last (drop c (take ?d hist)) = hist ! (?d - 1)"
      by (simp add: last_drop last_conv_nth)
    then have "an_anchor_sequence (sm_current_anchor s) = fst (hist ! (?d - 1))"
      using lt by (simp add: c(2) CompactionAnchor_from_pruned_def)
    moreover have "fst (hist ! ?d) = fst (hist ! (?d - 1)) + 1"
      using cons lt by (auto simp: consecutive_def dest: spec [of _ "?d - 1"])
    ultimately have "\<not> gap (sm_current_anchor s) (sm_entries s)"
      using lt by (simp add: gap_def h(1) hd_drop_conv_nth)
    then show ?thesis using sorted by (simp add: verify_verdict)
  qed
qed

section \<open>A backlog is worked off\<close>

lemma tick_length: "length (sm_entries (snd (SpsfManager_tick sha e s))) = length (sm_entries s) - pruned_by e s"
  by (simp add: tick_state Let_def)

lemma ticks_length:
  "length (sm_entries (run (manager_step sha) (map Tick es) s)) \<le> max 999 (length (sm_entries s) - 200 * length es)"
proof (induction es arbitrary: s)
  case Nil
  then show ?case by simp
next
  case (Cons e es)
  let ?s = "snd (SpsfManager_tick sha e s)"
  have "length (sm_entries (run (manager_step sha) (map Tick es) ?s)) \<le> max 999 (length (sm_entries ?s) - 200 * length es)"
    by (rule Cons.IH)
  moreover have "length (sm_entries ?s) \<le> max 999 (length (sm_entries s) - 200)"
    by (auto simp: tick_length pruned_by_def)
  ultimately show ?case by simp
qed

text \<open>
  The compactions that ticks at the epochs \<open>es\<close> owe to \<open>len\<close> live entries and a last compaction at
  \<open>since\<close>: the epoch of each and the number of entries it drops.
\<close>

fun owed :: "u64 list \<Rightarrow> nat \<Rightarrow> u64 \<Rightarrow> (u64 \<times> nat) list" where
  "owed [] len since = []"
| "owed (e # es) len since =
     (if 1000 \<le> len \<or> unat since + 50 \<le> unat e
      then (e, min 200 (len - 10)) # owed es (len - min 200 (len - 10)) e
      else owed es len since)"

lemma owed_bounds: "list_all (\<lambda>(e, n). n \<le> 200) (owed es len since)"
  by (induction es len since rule: owed.induct) simp_all

lemma owed_in_time: "e \<in> set es \<Longrightarrow> unat since + 50 \<le> unat e \<Longrightarrow> owed es len since \<noteq> []"
  by (induction es len since rule: owed.induct) auto

text \<open>The compactions a log records, and the entries the last of a list of them dropped.\<close>

definition compactions :: "CompactionLog \<Rightarrow> (u64 \<times> nat) list" where
  "compactions l = map (\<lambda>c. (cc_compaction_epoch c, unat (cc_pruned_count c))) (cl_records l)"

definition last_dropped :: "(u64 \<times> nat) list \<Rightarrow> entry list \<Rightarrow> entry list" where
  "last_dropped cs es = take (snd (last cs)) (drop (sum_list (map snd (butlast cs))) es)"

lemma compactions_record:
  "compactions (snd (CompactionLog_record sha result l)) =
     compactions l @ [(cr_compaction_epoch result, unat (of_nat (cr_pruned_count result) :: u64))]"
  by (simp add: compactions_def CompactionLog_record_def build_record_record_def Let_def)

lemma manager_tick_effect:
  "sm_entries (snd (SpsfManager_tick sha e s)) = drop (pruned_by e s) (sm_entries s)"
  "sm_last_compaction_epoch (snd (SpsfManager_tick sha e s)) = (if compacts e s then e else sm_last_compaction_epoch s)"
  "sm_current_anchor (snd (SpsfManager_tick sha e s)) =
     (if compacts e s then CompactionAnchor_from_pruned sha (take (pruned_by e s) (sm_entries s)) else sm_current_anchor s)"
  by (simp_all add: tick_state Let_def)

lemma tick_compactions:
  "compactions (sm_compaction_log (snd (SpsfManager_tick sha e s))) =
     compactions (sm_compaction_log s) @ (if compacts e s then [(e, pruned_by e s)] else [])"
proof -
  have "length (sm_entries s) - (length (sm_entries s) - pruned_by e s) = pruned_by e s"
    using pruned_le [of e s] by simp
  moreover have "pruned_by e s < 2 ^ 64" using pruned_le(2) [of e s] by simp
  moreover have "pn_recommended_retain (evaluate sha e (length (sm_entries s)) (sm_last_compaction_epoch s)) =
      length (sm_entries s) - pruned_by e s" if "compacts e s"
    using that by (auto simp: evaluate_retain evaluate_triggered pruned_by_def compacts_def)
  ultimately show ?thesis
    by (simp add: tick_state compactions_record compact_counts compact_epoch unat_of_nat_small Let_def)
qed

lemma ticks_effect:
  "let s' = run (manager_step sha) (map Tick es) s;
       cs = owed es (length (sm_entries s)) (sm_last_compaction_epoch s)
   in compactions (sm_compaction_log s') = compactions (sm_compaction_log s) @ cs \<and>
      sm_entries s' = drop (sum_list (map snd cs)) (sm_entries s) \<and>
      sm_last_compaction_epoch s' = (if cs = [] then sm_last_compaction_epoch s else fst (last cs)) \<and>
      sm_current_anchor s' = (if cs = [] then sm_current_anchor s
        else CompactionAnchor_from_pruned sha (last_dropped cs (sm_entries s)))"
proof (induction es arbitrary: s)
  case Nil
  then show ?case by simp
next
  case (Cons e es)
  let ?s = "snd (SpsfManager_tick sha e s)"
  let ?cs = "owed es (length (sm_entries ?s)) (sm_last_compaction_epoch ?s)"
  have cs: "owed (e # es) (length (sm_entries s)) (sm_last_compaction_epoch s) =
      (if compacts e s then [(e, pruned_by e s)] else []) @ ?cs"
    by (simp add: manager_tick_effect compacts_def pruned_by_def)
  show ?case
    using Cons.IH [of ?s] unfolding cs Let_def
    by (auto simp: manager_tick_effect tick_compactions last_dropped_def pruned_none add.commute simp del: owed.simps)
qed

text \<open>
  A tick never drops more than 200 entries, whatever has gathered: \<open>PRUNE_TARGET_SIZE\<close>, documented as
  the number of entries kept, is the number dropped.
\<close>

lemma tick_drops_at_most_200: "length (sm_entries s) \<le> length (sm_entries (snd (SpsfManager_tick sha e s))) + 200"
  using pruned_le [of e s] by (simp add: tick_length)

text \<open>
  A compaction by age of at most ten entries drops nothing and puts the empty anchor in the place of
  the one there was: what it sealed is forgotten.
\<close>

lemma idle_compaction_erases_anchor:
  assumes "length (sm_entries s) \<le> 10" and "unat (sm_last_compaction_epoch s) + 50 \<le> unat e"
  shows "sm_entries (snd (SpsfManager_tick sha e s)) = sm_entries s"
    and "sm_current_anchor (snd (SpsfManager_tick sha e s)) = \<lparr>an_anchor_sequence = 0, an_terminal_hash = genesis, an_entry_count = 0\<rparr>"
    and "mr_compacted (fst (SpsfManager_tick sha e s)) \<and> mr_pruned_count (fst (SpsfManager_tick sha e s)) = 0"
  using assms
  by (simp_all add: tick_record tick_state pruned_by_def compacts_def CompactionAnchor_from_pruned_def
      ManagementLog_append_inner_def build_management_record_def Let_def)

section \<open>Properties\<close>

text \<open>
  C24.  The manager forgets nothing but what it says.  After any entries and ticks the accepted numbers
  ascend strictly; the live entries are the accepted ones less as many as the management log records as
  dropped, and at least the last ten; the anchor seals the entries dropped by the last compaction; the
  four logs verify; a further entry is accepted exactly if its number is above all accepted so far; and
  a tick finds the entries verified, or a gap at the anchor, which consecutive numbers never have, or
  nothing accepted yet.
\<close>

theorem manager_keeps_history:
  assumes "hist = accepted_history sha ops" and "s = run (manager_step sha) ops SpsfManager_new"
  shows "sorted_wrt (<) (map fst hist) \<and>
    (let d = ManagementLog_total_compacted_entries (sm_management_log s)
     in sm_entries s = drop d hist \<and> min 10 (length hist) \<le> length (sm_entries s) \<and>
        (\<exists>c \<le> d. sm_current_anchor s = CompactionAnchor_from_pruned sha (drop c (take d hist)))) \<and>
    logs_ok sha s \<and>
    (fst (SpsfManager_ingest i h s) = Inr () \<longleftrightarrow> (\<forall>e \<in> set hist. fst e < i)) \<and>
    mr_verify_verdict (fst (SpsfManager_tick sha epoch s)) \<in>
      (if hist = [] then {EmptySuffix} else if consecutive hist then {Verified} else {Verified, AnchorGap})"
proof -
  have inv: "after_history sha hist s" using after_history_reached assms by simp
  have sorted: "sorted_wrt (<) (map fst hist)" using inv by (simp add: after_history_def Let_def)
  have "(hist \<noteq> [] \<longrightarrow> fst (last hist) < i) \<longleftrightarrow> (\<forall>e \<in> set hist. fst e < i)"
  proof (cases hist rule: rev_cases)
    case (snoc es e)
    then have "\<forall>x \<in> set es. fst x < fst e" using sorted by (auto simp: sorted_wrt_append)
    then show ?thesis by (auto simp: snoc)
  qed simp
  moreover have "mr_verify_verdict (fst (SpsfManager_tick sha epoch s)) \<in>
      (if hist = [] then {EmptySuffix} else if consecutive hist then {Verified} else {Verified, AnchorGap})"
    using verdict_after [OF after_history_tick [OF inv, of epoch]] unfolding tick_verdict by auto
  ultimately show ?thesis
    using inv ingest_accepts [OF inv, of i h] by (auto simp: after_history_def Let_def)
qed

lemma manager_keeps_history_witness:
  "let sha = (\<lambda>b. of_nat (length b)); ops = [Ingest 3 7, Ingest 3 8, Ingest 4 9, Tick 60];
       s = run (manager_step sha) ops SpsfManager_new
   in accepted_history sha ops = [(3, 7), (4, 9)] \<and> sorted_wrt (<) (map fst (accepted_history sha ops)) \<and>
      logs_ok sha s"
  using manager_keeps_history [OF refl refl,
      of "\<lambda>b. of_nat (length b)" "[Ingest 3 7, Ingest 3 8, Ingest 4 9, Tick 60]" 0 0 0]
  by (simp add: Let_def accepted_history_def SpsfManager_ingest_def SpsfManager_new_def)

text \<open>
  C25.  A backlog is worked off, and compaction comes in time.  Any sequence of ticks performs exactly
  the compactions owed: one at each tick that finds a thousand entries or comes fifty epochs after the
  last compaction, each dropping the oldest 200 entries, or all but ten where that is less.  The log of
  compactions grows by these, the entries lose what they drop, the anchor seals what the last of them
  dropped, and its epoch is the last compaction epoch.  So any number of ticks leaves fewer than a
  thousand entries, or 200 less for each; no compaction drops more than 200; and among ticks of which
  one is fifty epochs after the last compaction, there is a compaction.
\<close>

theorem manager_catches_up:
  "let s' = run (manager_step sha) (map Tick es) s;
       cs = owed es (length (sm_entries s)) (sm_last_compaction_epoch s)
   in map (\<lambda>c. (cc_compaction_epoch c, unat (cc_pruned_count c))) (cl_records (sm_compaction_log s')) =
        map (\<lambda>c. (cc_compaction_epoch c, unat (cc_pruned_count c))) (cl_records (sm_compaction_log s)) @ cs \<and>
      sm_entries s' = drop (sum_list (map snd cs)) (sm_entries s) \<and>
      sm_last_compaction_epoch s' = (if cs = [] then sm_last_compaction_epoch s else fst (last cs)) \<and>
      sm_current_anchor s' = (if cs = [] then sm_current_anchor s
        else CompactionAnchor_from_pruned sha
          (take (snd (last cs)) (drop (sum_list (map snd (butlast cs))) (sm_entries s)))) \<and>
      length (sm_entries s') \<le> max 999 (length (sm_entries s) - 200 * length es) \<and>
      list_all (\<lambda>(e, n). n \<le> 200) cs \<and>
      (e \<in> set es \<and> unat (sm_last_compaction_epoch s) + 50 \<le> unat e \<longrightarrow> cs \<noteq> [])"
  using ticks_effect [of sha es s] ticks_length [of sha es s] owed_bounds owed_in_time
  unfolding Let_def compactions_def last_dropped_def by blast

lemma manager_catches_up_witness:
  "let s = run (manager_step (\<lambda>b. of_nat (length b))) (map Tick [20, 50, 51])
     (SpsfManager_new\<lparr>sm_entries := map (\<lambda>i. (of_nat i, 0)) [0..<300]\<rparr>)
   in sm_entries s = map (\<lambda>i. (of_nat i, 0)) [200..<300] \<and> sm_last_compaction_epoch s = 50"
  using manager_catches_up [of "\<lambda>b. of_nat (length b)" "[20, 50, 51]"
      "SpsfManager_new\<lparr>sm_entries := map (\<lambda>i. (of_nat i, 0)) [0..<300]\<rparr>" 50]
  by (simp add: SpsfManager_new_def Let_def drop_map del: run_simps)

end
