(* ===== verification/Gossip_Broadcaster.thy ===== *)
theory Gossip_Broadcaster
  imports Ordered_Map Hash_Chain
begin

text \<open>
  Gate 255, \<open>aegis-cl-psi/src/gossip_broadcaster.rs\<close>: messages with an eight byte tag, and the log that
  takes them if the tag is right and the sequence number above the last of its node.  The log holds,
  for each node, strictly ascending numbers, the last of which is the one remembered; the tag has no
  key, so it says nothing of who made the message.
\<close>

section \<open>Messages\<close>

text \<open>A telemetry packet is 32 bytes, whose meaning this module does not look at.\<close>

type_synonym TelemetryPacket = bytes

record GossipMessage =
  gm_node_id :: u32
  gm_sequence :: u64
  gm_packet :: TelemetryPacket
  gm_mac :: bytes

definition mac_bytes :: "u32 \<Rightarrow> u64 \<Rightarrow> TelemetryPacket \<Rightarrow> bytes" where
  "mac_bytes node_id sequence packet = be4 node_id @ be8 sequence @ packet"

definition compute_mac :: "sha \<Rightarrow> u32 \<Rightarrow> u64 \<Rightarrow> TelemetryPacket \<Rightarrow> bytes" where
  "compute_mac sha node_id sequence packet = take 8 (hash_bytes (sha (mac_bytes node_id sequence packet)))"

definition GossipMessage_is_mac_valid :: "sha \<Rightarrow> GossipMessage \<Rightarrow> bool" where
  "GossipMessage_is_mac_valid sha m = (compute_mac sha (gm_node_id m) (gm_sequence m) (gm_packet m) = gm_mac m)"

definition build_message :: "sha \<Rightarrow> u32 \<Rightarrow> u64 \<Rightarrow> TelemetryPacket \<Rightarrow> GossipMessage" where
  "build_message sha node_id sequence packet =
     \<lparr>gm_node_id = node_id, gm_sequence = sequence, gm_packet = packet,
      gm_mac = compute_mac sha node_id sequence packet\<rparr>"

section \<open>The log\<close>

record GossipLog =
  gl_messages :: "GossipMessage list"
  gl_node_sequences :: "(u32, u64) btmap"

datatype GossipError = InvalidMac | StaleSequence

definition GossipLog_new :: GossipLog where
  "GossipLog_new = \<lparr>gl_messages = [], gl_node_sequences = bt_empty\<rparr>"

definition GossipLog_node_count :: "GossipLog \<Rightarrow> nat" where
  "GossipLog_node_count l = bt_len (gl_node_sequences l)"

definition GossipLog_latest_sequence :: "u32 \<Rightarrow> GossipLog \<Rightarrow> u64 option" where
  "GossipLog_latest_sequence node_id l = bt_get (gl_node_sequences l) node_id"

definition GossipLog_node_messages :: "u32 \<Rightarrow> GossipLog \<Rightarrow> GossipMessage list" where
  "GossipLog_node_messages node_id l = filter (\<lambda>m. gm_node_id m = node_id) (gl_messages l)"

definition GossipLog_append :: "sha \<Rightarrow> GossipMessage \<Rightarrow> GossipLog \<Rightarrow> (GossipError + unit) \<times> GossipLog" where
  "GossipLog_append sha msg l =
     (if \<not> GossipMessage_is_mac_valid sha msg then (Inl InvalidMac, l)
      else case bt_get (gl_node_sequences l) (gm_node_id msg) of
        Some last_seq \<Rightarrow>
          if gm_sequence msg \<le> last_seq then (Inl StaleSequence, l)
          else (Inr (), \<lparr>gl_messages = gl_messages l @ [msg],
                         gl_node_sequences = bt_insert (gm_node_id msg) (gm_sequence msg) (gl_node_sequences l)\<rparr>)
      | None \<Rightarrow> (Inr (), \<lparr>gl_messages = gl_messages l @ [msg],
                         gl_node_sequences = bt_insert (gm_node_id msg) (gm_sequence msg) (gl_node_sequences l)\<rparr>))"

section \<open>What the log holds\<close>

definition log_inv :: "sha \<Rightarrow> GossipLog \<Rightarrow> bool" where
  "log_inv sha l \<longleftrightarrow>
     (\<forall>m \<in> set (gl_messages l). GossipMessage_is_mac_valid sha m) \<and>
     (\<forall>n. sorted_wrt (<) (map gm_sequence (GossipLog_node_messages n l)) \<and>
          GossipLog_latest_sequence n l =
            (if GossipLog_node_messages n l = [] then None else Some (gm_sequence (last (GossipLog_node_messages n l)))))"

definition receive :: "sha \<Rightarrow> GossipMessage \<Rightarrow> GossipLog \<Rightarrow> GossipLog" where
  "receive sha m l = snd (GossipLog_append sha m l)"

definition fresh_for :: "GossipMessage \<Rightarrow> GossipLog \<Rightarrow> bool" where
  "fresh_for m l \<longleftrightarrow> (case GossipLog_latest_sequence (gm_node_id m) l of None \<Rightarrow> True | Some q \<Rightarrow> q < gm_sequence m)"

lemma append_outcome:
  "GossipLog_append sha m l =
     (if \<not> GossipMessage_is_mac_valid sha m then (Inl InvalidMac, l)
      else if fresh_for m l
      then (Inr (), \<lparr>gl_messages = gl_messages l @ [m],
                     gl_node_sequences = bt_insert (gm_node_id m) (gm_sequence m) (gl_node_sequences l)\<rparr>)
      else (Inl StaleSequence, l))"
  by (auto simp: GossipLog_append_def fresh_for_def GossipLog_latest_sequence_def not_le split: option.splits)

lemma receive_inv:
  assumes "log_inv sha l"
  shows "log_inv sha (receive sha m l)"
proof (cases "GossipMessage_is_mac_valid sha m \<and> fresh_for m l")
  case False
  then have "receive sha m l = l" by (auto simp: receive_def append_outcome)
  with assms show ?thesis by simp
next
  case True
  let ?n = "gm_node_id m" and ?l = "receive sha m l"
  have l': "gl_messages ?l = gl_messages l @ [m]"
      "gl_node_sequences ?l = bt_insert ?n (gm_sequence m) (gl_node_sequences l)"
    using True by (simp_all add: receive_def append_outcome)
  have msgs: "GossipLog_node_messages k ?l = GossipLog_node_messages k l @ (if k = ?n then [m] else [])" for k
    by (simp add: GossipLog_node_messages_def l')
  have "GossipLog_node_messages ?n l \<noteq> [] \<longrightarrow> last (map gm_sequence (GossipLog_node_messages ?n l)) < gm_sequence m"
    using True assms by (auto simp: log_inv_def fresh_for_def last_map)
  then have "sorted_wrt (<) (map gm_sequence (GossipLog_node_messages k ?l))" for k
    using assms by (simp add: log_inv_def msgs sorted_wrt_snoc_less)
  moreover have "GossipLog_latest_sequence k ?l =
      (if GossipLog_node_messages k ?l = [] then None else Some (gm_sequence (last (GossipLog_node_messages k ?l))))" for k
    using assms unfolding log_inv_def msgs by (auto simp: GossipLog_latest_sequence_def l')
  ultimately show ?thesis
    using assms True unfolding log_inv_def by (auto simp: l')
qed

interpretation gossip_log: invariant_machine "receive sha" "log_inv sha" for sha
  by unfold_locales (rule receive_inv)

lemma gossip_log_reached: "log_inv sha (run (receive sha) ms GossipLog_new)"
  by (rule gossip_log.run_inv)
    (simp add: log_inv_def GossipLog_new_def GossipLog_node_messages_def GossipLog_latest_sequence_def)

text \<open>Built messages are valid, whoever built them and for whatever node.\<close>

lemma anyone_can_build: "GossipMessage_is_mac_valid sha (build_message sha node_id sequence packet)"
  by (simp add: GossipMessage_is_mac_valid_def build_message_def)

text \<open>One message with the greatest number silences a node for good.\<close>

lemma max_sequence_silences:
  assumes "GossipLog_append sha (build_message sha n (- 1) p) l = (Inr (), l')" and "gm_node_id m = n"
  shows "fst (GossipLog_append sha m l') \<noteq> Inr ()"
  using assms
  by (auto simp: append_outcome fresh_for_def GossipLog_latest_sequence_def build_message_def not_less split: if_splits option.splits)

end
