(* ===== verification/Gossip_Router.thy ===== *)
theory Gossip_Router
  imports Gossip_Broadcaster
begin

text \<open>
  Gate 256, \<open>aegis-cl-psi/src/gossip_router.rs\<close>: which peers a message is forwarded to.  The routing
  decision of one node is decided exactly; then the nodes are put together into a network in which
  every forwarded copy takes one hop, in any order, and it is proved exactly which nodes forward, how
  many copies there are, how far they go, and when they reach every node the origin has a path to.
\<close>

section \<open>The routing table\<close>

record PeerEntry =
  pe_peer_id :: u32
  pe_hop_count :: u8

datatype DropReason = AlreadySeen | TtlExpired | NoPeers | SelfMessage

datatype RouteDecision = Forward "u32 list" | Drop DropReason

definition RouteDecision_is_forward :: "RouteDecision \<Rightarrow> bool" where
  "RouteDecision_is_forward d = (case d of Forward _ \<Rightarrow> True | Drop _ \<Rightarrow> False)"

definition RouteDecision_is_drop :: "RouteDecision \<Rightarrow> bool" where
  "RouteDecision_is_drop d = (case d of Forward _ \<Rightarrow> False | Drop _ \<Rightarrow> True)"

definition RouteDecision_peer_ids :: "RouteDecision \<Rightarrow> u32 list" where
  "RouteDecision_peer_ids d = (case d of Forward ids \<Rightarrow> ids | Drop _ \<Rightarrow> [])"

definition MAX_TTL :: u8 where
  "MAX_TTL = 8"

record RoutingTable =
  rt_local_node_id :: u32
  rt_peers :: "(u32, PeerEntry) btmap"
  rt_seen :: "(u32 \<times> u64, unit) btmap"

definition RoutingTable_new :: "u32 \<Rightarrow> RoutingTable" where
  "RoutingTable_new local_node_id = \<lparr>rt_local_node_id = local_node_id, rt_peers = bt_empty, rt_seen = bt_empty\<rparr>"

definition RoutingTable_peer_count :: "RoutingTable \<Rightarrow> nat" where
  "RoutingTable_peer_count t = bt_len (rt_peers t)"

definition RoutingTable_seen_count :: "RoutingTable \<Rightarrow> nat" where
  "RoutingTable_seen_count t = bt_len (rt_seen t)"

definition RoutingTable_add_peer :: "u32 \<Rightarrow> u8 \<Rightarrow> RoutingTable \<Rightarrow> bool \<times> RoutingTable" where
  "RoutingTable_add_peer peer_id hop_count t =
     (\<not> bt_has (rt_peers t) peer_id,
      t\<lparr>rt_peers := bt_insert peer_id \<lparr>pe_peer_id = peer_id, pe_hop_count = hop_count\<rparr> (rt_peers t)\<rparr>)"

definition RoutingTable_remove_peer :: "u32 \<Rightarrow> RoutingTable \<Rightarrow> bool \<times> RoutingTable" where
  "RoutingTable_remove_peer peer_id t = (bt_has (rt_peers t) peer_id, t\<lparr>rt_peers := bt_remove peer_id (rt_peers t)\<rparr>)"

definition RoutingTable_has_peer :: "u32 \<Rightarrow> RoutingTable \<Rightarrow> bool" where
  "RoutingTable_has_peer peer_id t = bt_has (rt_peers t) peer_id"

definition RoutingTable_route :: "GossipMessage \<Rightarrow> u8 \<Rightarrow> RoutingTable \<Rightarrow> RouteDecision \<times> RoutingTable" where
  "RoutingTable_route msg ttl t =
     (if gm_node_id msg = rt_local_node_id t then (Drop SelfMessage, t)
      else if ttl = 0 then (Drop TtlExpired, t)
      else
        let key = (gm_node_id msg, gm_sequence msg)
        in if bt_has (rt_seen t) key then (Drop AlreadySeen, t)
           else if bt_len (rt_peers t) = 0 then (Drop NoPeers, t)
           else (Forward (bt_keys (rt_peers t)), t\<lparr>rt_seen := bt_insert key () (rt_seen t)\<rparr>))"

definition RoutingTable_prune_seen :: "u32 \<Rightarrow> u64 \<Rightarrow> RoutingTable \<Rightarrow> RoutingTable" where
  "RoutingTable_prune_seen node_id keep_below_sequence t =
     t\<lparr>rt_seen := bt_retain (\<lambda>k _. \<not> (fst k = node_id \<and> snd k < keep_below_sequence)) (rt_seen t)\<rparr>"

section \<open>One node\<close>

abbreviation key_of :: "GossipMessage \<Rightarrow> u32 \<times> u64" where
  "key_of msg \<equiv> (gm_node_id msg, gm_sequence msg)"

definition forwards :: "GossipMessage \<Rightarrow> u8 \<Rightarrow> RoutingTable \<Rightarrow> bool" where
  "forwards msg ttl t \<longleftrightarrow>
     gm_node_id msg \<noteq> rt_local_node_id t \<and> ttl \<noteq> 0 \<and> \<not> bt_has (rt_seen t) (key_of msg) \<and> bt_len (rt_peers t) \<noteq> 0"

lemma route_peer_ids:
  "RouteDecision_peer_ids (fst (RoutingTable_route msg ttl t)) = (if forwards msg ttl t then bt_keys (rt_peers t) else [])"
  by (simp add: RoutingTable_route_def RouteDecision_peer_ids_def forwards_def Let_def)

lemma route_table [simp]:
  "rt_peers (snd (RoutingTable_route msg ttl t)) = rt_peers t"
  "rt_local_node_id (snd (RoutingTable_route msg ttl t)) = rt_local_node_id t"
  "bt_has (rt_seen (snd (RoutingTable_route msg ttl t))) k \<longleftrightarrow> bt_has (rt_seen t) k \<or> forwards msg ttl t \<and> k = key_of msg"
  by (auto simp: RoutingTable_route_def forwards_def Let_def)

lemma route_drops:
  "RouteDecision_is_forward (fst (RoutingTable_route msg ttl t)) \<longleftrightarrow> forwards msg ttl t"
  by (simp add: RoutingTable_route_def RouteDecision_is_forward_def forwards_def Let_def)

text \<open>Other operations of the table, and the messages it is asked about in between.\<close>

datatype RouterOp = Route GossipMessage u8 | AddPeer u32 u8 | RemovePeer u32 | Prune u32 u64

fun router_step :: "RouterOp \<Rightarrow> RoutingTable \<Rightarrow> RoutingTable" where
  "router_step (Route m ttl) t = snd (RoutingTable_route m ttl t)"
| "router_step (AddPeer p h) t = snd (RoutingTable_add_peer p h t)"
| "router_step (RemovePeer p) t = snd (RoutingTable_remove_peer p t)"
| "router_step (Prune n q) t = RoutingTable_prune_seen n q t"

fun forgets :: "GossipMessage \<Rightarrow> RouterOp \<Rightarrow> bool" where
  "forgets m (Prune n q) \<longleftrightarrow> n = gm_node_id m \<and> gm_sequence m < q"
| "forgets m _ \<longleftrightarrow> False"

text \<open>A message that was forwarded is not forwarded again, until it is pruned.\<close>

lemma forwarded_once:
  assumes "forwards m ttl t" and "list_all (\<lambda>op. \<not> forgets m op) ops"
  shows "\<not> forwards m ttl' (run router_step (Route m ttl # ops) t)"
proof -
  have "bt_has (rt_seen t) (key_of m) \<Longrightarrow> bt_has (rt_seen (run router_step ops t)) (key_of m)" for t
    using assms(2)
  proof (induction ops arbitrary: t)
    case (Cons op ops)
    have "bt_has (rt_seen (router_step op t)) (key_of m)"
    proof (cases op)
      case (Prune n q)
      with Cons.prems show ?thesis by (auto simp: RoutingTable_prune_seen_def bt_has_def)
    qed (use Cons.prems in \<open>simp_all add: RoutingTable_add_peer_def RoutingTable_remove_peer_def\<close>)
    then show ?case using Cons by simp
  qed simp
  from this [of "snd (RoutingTable_route m ttl t)"] assms(1) show ?thesis
    by (simp add: forwards_def)
qed

section \<open>Flooding a network\<close>

text \<open>
  A network is a table per node id, the copies of one message that are under way, each with its
  receiver and the hops it has left, and the copies that were delivered.  A step delivers one copy: its
  receiver routes it, and the copies it forwards are under way with one hop less.
\<close>

record Network =
  nw_tables :: "u32 \<Rightarrow> RoutingTable"
  nw_flight :: "(u32 \<times> u8) multiset"
  nw_delivered :: "(u32 \<times> u8) multiset"

definition deliver :: "GossipMessage \<Rightarrow> u32 \<Rightarrow> u8 \<Rightarrow> Network \<Rightarrow> Network" where
  "deliver msg n ttl w =
     (let (d, t) = RoutingTable_route msg ttl (nw_tables w n)
      in \<lparr>nw_tables = (nw_tables w)(n := t),
          nw_flight = nw_flight w - {#(n, ttl)#} + mset (map (\<lambda>p. (p, ttl - 1)) (RouteDecision_peer_ids d)),
          nw_delivered = add_mset (n, ttl) (nw_delivered w)\<rparr>)"

inductive flood_step :: "GossipMessage \<Rightarrow> Network \<Rightarrow> Network \<Rightarrow> bool" for msg where
  delivery: "(n, ttl) \<in># nw_flight w \<Longrightarrow> flood_step msg w (deliver msg n ttl w)"

inductive_cases flood_stepE: "flood_step msg w w'"

text \<open>The nodes that have forwarded the message: those that keep it as seen.\<close>

definition forwarders :: "GossipMessage \<Rightarrow> Network \<Rightarrow> u32 set" where
  "forwarders msg w = {n. bt_has (rt_seen (nw_tables w n)) (key_of msg)}"

definition links :: "Network \<Rightarrow> u32 \<Rightarrow> nat" where
  "links w n = RoutingTable_peer_count (nw_tables w n)"

definition link :: "Network \<Rightarrow> u32 \<Rightarrow> u32 \<Rightarrow> bool" where
  "link w n p \<longleftrightarrow> RoutingTable_has_peer p (nw_tables w n)"

definition copies :: "Network \<Rightarrow> (u32 \<times> u8) multiset" where
  "copies w = nw_delivered w + nw_flight w"

text \<open>The origin has sent a new message to its peers, and nothing else has happened.\<close>

definition broadcast_by :: "GossipMessage \<Rightarrow> u8 \<Rightarrow> Network \<Rightarrow> bool" where
  "broadcast_by msg ttl w \<longleftrightarrow>
     (\<forall>n. rt_local_node_id (nw_tables w n) = n) \<and> forwarders msg w = {} \<and> nw_delivered w = {#} \<and>
     nw_flight w = mset (map (\<lambda>p. (p, ttl)) (bt_keys (rt_peers (nw_tables w (gm_node_id msg)))))"

lemma link_keys: "link w n p \<longleftrightarrow> p \<in> set (bt_keys (rt_peers (nw_tables w n)))"
  by (auto simp: link_def RoutingTable_has_peer_def bt_has_def)

lemma links_keys: "links w n = length (bt_keys (rt_peers (nw_tables w n)))"
  by (simp add: links_def RoutingTable_peer_count_def bt_len_def bt_keys_def)

lemma deliver_tables:
  "rt_peers (nw_tables (deliver msg n ttl w) k) = rt_peers (nw_tables w k)"
  "rt_local_node_id (nw_tables (deliver msg n ttl w) k) = rt_local_node_id (nw_tables w k)"
  by (simp_all add: deliver_def split_beta Let_def)

lemma deliver_links [simp]:
  "link (deliver msg n ttl w) = link w" "links (deliver msg n ttl w) = links w"
  by (simp_all add: fun_eq_iff link_keys links_keys deliver_tables)

lemma deliver_forwarders:
  "forwarders msg (deliver msg n ttl w) =
     (if forwards msg ttl (nw_tables w n) then insert n (forwarders msg w) else forwarders msg w)"
  by (auto simp: forwarders_def deliver_def split_beta Let_def)

lemma deliver_delivered [simp]: "nw_delivered (deliver msg n ttl w) = add_mset (n, ttl) (nw_delivered w)"
  by (simp add: deliver_def split_beta Let_def)

lemma deliver_copies:
  assumes "(n, ttl) \<in># nw_flight w"
  shows "copies (deliver msg n ttl w) = copies w +
    (if forwards msg ttl (nw_tables w n) then mset (map (\<lambda>p. (p, ttl - 1)) (bt_keys (rt_peers (nw_tables w n)))) else {#})"
proof -
  have "add_mset (n, ttl) (nw_delivered w) + (nw_flight w - {#(n, ttl)#}) = copies w"
    using insert_DiffM [OF assms] unfolding copies_def by (metis union_mset_add_mset_left union_mset_add_mset_right)
  then show ?thesis
    by (simp add: copies_def deliver_def split_beta Let_def route_peer_ids ac_simps)
qed

section \<open>What a flood keeps\<close>

text \<open>The nodes that forward are those with peers, but the origin, to which a copy with a hop left came.\<close>

definition forwarders_exact :: "GossipMessage \<Rightarrow> Network \<Rightarrow> bool" where
  "forwarders_exact msg w \<longleftrightarrow>
     forwarders msg w = {n. n \<noteq> gm_node_id msg \<and> links w n \<noteq> 0 \<and> (\<exists>t. t \<noteq> 0 \<and> (n, t) \<in># nw_delivered w)}"

text \<open>Copies go to the peers of the origin and of these nodes, one each.\<close>

definition copies_exact :: "GossipMessage \<Rightarrow> Network \<Rightarrow> bool" where
  "copies_exact msg w \<longleftrightarrow>
     gm_node_id msg \<notin> forwarders msg w \<and>
     size (copies w) = (\<Sum>n \<in> insert (gm_node_id msg) (forwarders msg w). links w n) \<and>
     fst ` set_mset (copies w) = {p. \<exists>n \<in> insert (gm_node_id msg) (forwarders msg w). link w n p}"

text \<open>A copy has travelled as many links as it has lost hops, and one, each hop at another node.\<close>

definition hops_exact :: "GossipMessage \<Rightarrow> u8 \<Rightarrow> Network \<Rightarrow> bool" where
  "hops_exact msg ttl w \<longleftrightarrow>
     (\<forall>(n, t) \<in> set_mset (copies w).
        (\<exists>d. (link w ^^ d) (gm_node_id msg) n \<and> d + unat t = unat ttl + 1) \<and>
        unat ttl \<le> unat t + card (forwarders msg w))"

definition flood_inv :: "GossipMessage \<Rightarrow> u8 \<Rightarrow> Network \<Rightarrow> bool" where
  "flood_inv msg ttl w \<longleftrightarrow>
     (\<forall>n. rt_local_node_id (nw_tables w n) = n) \<and> forwarders_exact msg w \<and> copies_exact msg w \<and> hops_exact msg ttl w"

lemma forwards_iff:
  assumes "\<forall>n. rt_local_node_id (nw_tables w n) = n"
  shows "forwards msg ttl (nw_tables w n) \<longleftrightarrow>
    n \<noteq> gm_node_id msg \<and> ttl \<noteq> 0 \<and> n \<notin> forwarders msg w \<and> links w n \<noteq> 0"
  using assms by (auto simp: forwards_def forwarders_def links_def RoutingTable_peer_count_def)

lemma forwarders_exact_step:
  assumes "\<forall>n. rt_local_node_id (nw_tables w n) = n" "forwarders_exact msg w"
  shows "forwarders_exact msg (deliver msg n ttl w)"
  using assms(2) unfolding forwarders_exact_def deliver_forwarders deliver_links forwards_iff [OF assms(1)]
  by (auto split: if_splits)

lemma copies_exact_step:
  assumes "\<forall>n. rt_local_node_id (nw_tables w n) = n" "copies_exact msg w" "(n, ttl) \<in># nw_flight w"
  shows "copies_exact msg (deliver msg n ttl w)"
proof (cases "forwards msg ttl (nw_tables w n)")
  case True
  then have "n \<noteq> gm_node_id msg" "n \<notin> forwarders msg w" using forwards_iff [OF assms(1)] by auto
  then have "(\<Sum>k \<in> insert (gm_node_id msg) (insert n (forwarders msg w)). links w k) =
      links w n + (\<Sum>k \<in> insert (gm_node_id msg) (forwarders msg w). links w k)"
    by (subst insert_commute) (simp add: sum.insert)
  then show ?thesis
    using assms(2) True \<open>n \<noteq> gm_node_id msg\<close>
    by (auto simp: copies_exact_def deliver_copies [OF assms(3)] deliver_forwarders links_keys link_keys
        image_Un image_image deliver_tables)
next
  case False
  then show ?thesis
    using assms(2) by (simp add: copies_exact_def deliver_copies [OF assms(3)] deliver_forwarders)
qed

lemma hops_exact_step:
  assumes "\<forall>n. rt_local_node_id (nw_tables w n) = n" "hops_exact msg ttl0 w" "(n, ttl) \<in># nw_flight w"
  shows "hops_exact msg ttl0 (deliver msg n ttl w)"
proof (cases "forwards msg ttl (nw_tables w n)")
  case False
  then show ?thesis
    using assms(2) by (simp add: hops_exact_def deliver_copies [OF assms(3)] deliver_forwarders)
next
  case True
  then have f: "ttl \<noteq> 0" "n \<notin> forwarders msg w" using forwards_iff [OF assms(1)] by auto
  have ttl: "unat (ttl - 1) + 1 = unat ttl" using f(1) by (simp add: unat_minus_one unat_gt_0)
  have card: "card (insert n (forwarders msg w)) = Suc (card (forwarders msg w))" using f(2) by simp
  have old: "(\<exists>d. (link w ^^ d) (gm_node_id msg) k \<and> d + unat t = unat ttl0 + 1) \<and>
      unat ttl0 \<le> unat t + card (forwarders msg w)" if "(k, t) \<in># copies w" for k t
    using assms(2) that by (auto simp: hops_exact_def)
  have "(n, ttl) \<in># copies w" using assms(3) by (simp add: copies_def)
  from old [OF this] obtain d where d: "(link w ^^ d) (gm_node_id msg) n" "d + unat ttl = unat ttl0 + 1"
    and bound: "unat ttl0 \<le> unat ttl + card (forwarders msg w)" by auto
  have new: "(\<exists>d. (link w ^^ d) (gm_node_id msg) p \<and> d + unat (ttl - 1) = unat ttl0 + 1) \<and>
      unat ttl0 \<le> unat (ttl - 1) + Suc (card (forwarders msg w))" if "link w n p" for p
    using d bound ttl that by (intro conjI exI [of _ "Suc d"]) auto
  have "(k, t) \<in># copies w \<or> t = ttl - 1 \<and> link w n k" if "(k, t) \<in># copies (deliver msg n ttl w)" for k t
    using that True by (auto simp: deliver_copies [OF assms(3)] link_keys)
  then show ?thesis
    using old new True by (fastforce simp: hops_exact_def deliver_forwarders card)
qed

lemma flood_inv_step: "flood_step msg w w' \<Longrightarrow> flood_inv msg ttl w \<Longrightarrow> flood_inv msg ttl w'"
  by (erule flood_stepE)
    (simp add: flood_inv_def deliver_tables forwarders_exact_step copies_exact_step hops_exact_step)

lemma flood_steps:
  assumes "(flood_step msg ^^ k) w0 w"
  shows "link w = link w0 \<and> links w = links w0 \<and> size (nw_delivered w) = size (nw_delivered w0) + k \<and>
    (flood_inv msg ttl w0 \<longrightarrow> flood_inv msg ttl w)"
  using assms by (induction k arbitrary: w) (auto elim!: flood_stepE intro: flood_inv_step [OF delivery])

lemma broadcast_flood_inv: "broadcast_by msg ttl w \<Longrightarrow> flood_inv msg ttl w"
  by (auto simp: broadcast_by_def flood_inv_def forwarders_exact_def copies_exact_def hops_exact_def copies_def
      links_keys link_keys image_image intro!: exI [of _ 1] relcomppI)

lemma flood_stuck: "(\<nexists>w'. flood_step msg w w') \<longleftrightarrow> nw_flight w = {#}"
proof
  assume stuck: "\<nexists>w'. flood_step msg w w'"
  have "c \<notin># nw_flight w" for c using stuck delivery [of "fst c" "snd c" w msg] by auto
  then show "nw_flight w = {#}" by (meson multiset_nonemptyE)
next
  assume "nw_flight w = {#}"
  then show "\<nexists>w'. flood_step msg w w'" by (auto elim: flood_stepE)
qed

lemma deliveries_bounded:
  assumes "flood_inv msg ttl w"
  shows "size (nw_delivered w) \<le> (\<Sum>n \<in> UNIV. links w n)"
proof -
  have "size (nw_delivered w) \<le> size (copies w)" by (simp add: copies_def)
  also have "\<dots> = (\<Sum>n \<in> insert (gm_node_id msg) (forwarders msg w). links w n)"
    using assms by (simp add: flood_inv_def copies_exact_def)
  also have "\<dots> \<le> (\<Sum>n \<in> UNIV. links w n)" by (rule sum_mono2) simp_all
  finally show ?thesis .
qed

text \<open>With more hops than there are nodes to forward, no copy runs out of them, and all are reached.\<close>

lemma reached_all:
  assumes inv: "flood_inv msg ttl w" and "nw_flight w = {#}"
    and few: "card {n. n \<noteq> gm_node_id msg \<and> links w n \<noteq> 0 \<and> (link w)\<^sup>*\<^sup>* (gm_node_id msg) n} < unat ttl"
    and path: "(link w)\<^sup>+\<^sup>+ (gm_node_id msg) n"
  shows "\<exists>t. (n, t) \<in># nw_delivered w"
proof -
  let ?o = "gm_node_id msg"
  have d: "copies w = nw_delivered w" using assms(2) by (simp add: copies_def)
  have hops: "(\<exists>d. (link w ^^ d) ?o k) \<and> unat ttl \<le> unat t + card (forwarders msg w)" if "(k, t) \<in># nw_delivered w" for k t
    using inv that by (auto simp: flood_inv_def hops_exact_def d)
  have fw: "forwarders msg w = {n. n \<noteq> ?o \<and> links w n \<noteq> 0 \<and> (\<exists>t. t \<noteq> 0 \<and> (n, t) \<in># nw_delivered w)}"
    using inv by (simp add: flood_inv_def forwarders_exact_def)
  have to: "fst ` set_mset (nw_delivered w) = {p. \<exists>n \<in> insert ?o (forwarders msg w). link w n p}"
    using inv by (simp add: flood_inv_def copies_exact_def d)
  have "forwarders msg w \<subseteq> {n. n \<noteq> ?o \<and> links w n \<noteq> 0 \<and> (link w)\<^sup>*\<^sup>* ?o n}"
    using hops by (auto simp: fw intro: relpowp_imp_rtranclp)
  then have "card (forwarders msg w) \<le> card {n. n \<noteq> ?o \<and> links w n \<noteq> 0 \<and> (link w)\<^sup>*\<^sup>* ?o n}"
    by (rule card_mono [OF finite])
  then have "card (forwarders msg w) < unat ttl" using few by (rule le_less_trans)
  then have alive: "t \<noteq> 0" if "(k, t) \<in># nw_delivered w" for k t
    using hops [OF that] by (auto simp: not_le)
  from path show ?thesis
  proof (induction rule: tranclp_induct)
    case (base p)
    then have "p \<in> fst ` set_mset (nw_delivered w)" unfolding to by blast
    then show ?case by force
  next
    case (step n p)
    then obtain t where t: "(n, t) \<in># nw_delivered w" by blast
    have "links w n \<noteq> 0" using length_pos_if_in_set [OF step(2) [unfolded link_keys]] by (simp add: links_keys)
    then have "n \<in> insert ?o (forwarders msg w)" using alive [OF t] t by (auto simp: fw)
    then have "p \<in> fst ` set_mset (nw_delivered w)" using step(2) unfolding to by blast
    then show ?case by force
  qed
qed

section \<open>Properties\<close>

text \<open>
  C26.  What a flood does.  The origin sends a message to its peers with \<open>ttl\<close> hops, every node routes
  each copy it is delivered and forwards it with one hop less, and the copies are delivered in any
  order.  The nodes that forward are exactly those with peers, other than the origin, that were
  delivered a copy with a hop left, and each forwards once: the copies made are one per link of the
  origin and of these nodes, so the flood is over after at most as many deliveries as there are links,
  and can go on exactly while a copy is under way.  The nodes copies go to are the peers of the origin
  and of these nodes, and a copy with \<open>t\<close> hops left has come over \<open>ttl + 1 - t\<close> links, so nobody
  further than \<open>ttl + 1\<close> links away gets one.  Within that, who is reached depends on the order, as
  a node forwards only the first copy with a hop left; but if fewer than \<open>ttl\<close> nodes that the origin has
  a path to have peers, a flood that is over has reached every node the origin has a path to.
\<close>

theorem flooding_ends_everywhere:
  assumes "broadcast_by msg ttl w0" and "(flood_step msg ^^ k) w0 w"
  shows "forwarders msg w =
      {n. n \<noteq> gm_node_id msg \<and> links w0 n \<noteq> 0 \<and> (\<exists>t. t \<noteq> 0 \<and> (n, t) \<in># nw_delivered w)} \<and>
    k + size (nw_flight w) = (\<Sum>n \<in> insert (gm_node_id msg) (forwarders msg w). links w0 n) \<and>
    k \<le> (\<Sum>n \<in> UNIV. links w0 n) \<and>
    ((\<nexists>w'. flood_step msg w w') \<longleftrightarrow> nw_flight w = {#}) \<and>
    fst ` set_mset (nw_delivered w + nw_flight w) =
      {p. \<exists>n \<in> insert (gm_node_id msg) (forwarders msg w). link w0 n p} \<and>
    (\<forall>(n, t) \<in> set_mset (nw_delivered w + nw_flight w).
      \<exists>d. (link w0 ^^ d) (gm_node_id msg) n \<and> d + unat t = unat ttl + 1) \<and>
    (nw_flight w = {#} \<and>
     card {n. n \<noteq> gm_node_id msg \<and> links w0 n \<noteq> 0 \<and> (link w0)\<^sup>*\<^sup>* (gm_node_id msg) n} < unat ttl \<longrightarrow>
       (\<forall>n. (link w0)\<^sup>+\<^sup>+ (gm_node_id msg) n \<longrightarrow> (\<exists>t. (n, t) \<in># nw_delivered w)))"
proof -
  have links: "link w = link w0" "links w = links w0" and inv: "flood_inv msg ttl w"
    using flood_steps [OF assms(2), of ttl] broadcast_flood_inv [OF assms(1)] by auto
  have k: "k = size (nw_delivered w)"
    using flood_steps [OF assms(2), of ttl] assms(1) by (simp add: broadcast_by_def)
  have exact: "forwarders_exact msg w" "copies_exact msg w" "hops_exact msg ttl w"
    using inv by (simp_all add: flood_inv_def)
  have hops: "\<forall>(n, t) \<in> set_mset (nw_delivered w + nw_flight w).
      \<exists>d. (link w0 ^^ d) (gm_node_id msg) n \<and> d + unat t = unat ttl + 1"
    using exact(3) unfolding hops_exact_def copies_def links by blast
  have fw: "forwarders msg w =
      {n. n \<noteq> gm_node_id msg \<and> links w0 n \<noteq> 0 \<and> (\<exists>t. t \<noteq> 0 \<and> (n, t) \<in># nw_delivered w)}"
    using exact(1) unfolding forwarders_exact_def links .
  have count: "k + size (nw_flight w) = (\<Sum>n \<in> insert (gm_node_id msg) (forwarders msg w). links w0 n)"
    and to: "fst ` set_mset (nw_delivered w + nw_flight w) = {p. \<exists>n \<in> insert (gm_node_id msg) (forwarders msg w). link w0 n p}"
    using exact(2) unfolding copies_exact_def copies_def links k size_union by (rule conjunct2 [THEN conjunct1], rule conjunct2 [THEN conjunct2])
  have bound: "k \<le> (\<Sum>n \<in> UNIV. links w0 n)"
    using deliveries_bounded [OF inv] unfolding links k .
  show ?thesis
    by (intro conjI fw count bound flood_stuck to hops impI allI)
      (use reached_all [OF inv] in \<open>unfold links, elim conjE\<close>, blast)
qed

text \<open>A network of two nodes: the message of node 1 reaches node 2, which has nobody to send it to.\<close>

definition two_nodes :: Network where
  "two_nodes =
     \<lparr>nw_tables = (\<lambda>n. if n = 1 then snd (RoutingTable_add_peer 2 0 (RoutingTable_new 1)) else RoutingTable_new n),
      nw_flight = {#(2, 3)#}, nw_delivered = {#}\<rparr>"

definition hello :: GossipMessage where
  "hello = \<lparr>gm_node_id = 1, gm_sequence = 5, gm_packet = [], gm_mac = []\<rparr>"

lemmas two_nodes_defs = two_nodes_def hello_def RoutingTable_add_peer_def RoutingTable_new_def

lemma two_nodes_broadcast: "broadcast_by hello 3 two_nodes"
proof -
  have "bt_keys (bt_insert (2 :: u32) \<lparr>pe_peer_id = 2, pe_hop_count = 0\<rparr> bt_empty) = [2]"
    by (simp add: bt_keys_def bt_insert.rep_eq bt_empty.rep_eq)
  then show ?thesis by (auto simp: broadcast_by_def forwarders_def two_nodes_defs)
qed

lemma two_nodes_delivery: "(flood_step hello ^^ 1) two_nodes (deliver hello 2 3 two_nodes)"
proof -
  have "flood_step hello two_nodes (deliver hello 2 3 two_nodes)"
    by (rule delivery) (simp add: two_nodes_def)
  then show ?thesis unfolding relpowp_1 .
qed

lemma flooding_ends_everywhere_witness:
  "forwarders hello (deliver hello 2 3 two_nodes) = {} \<and> nw_flight (deliver hello 2 3 two_nodes) = {#} \<and>
   (2, 3) \<in># nw_delivered (deliver hello 2 3 two_nodes)"
proof -
  let ?w = "deliver hello 2 3 two_nodes"
  have "links two_nodes n = (if n = 1 then 1 else 0)" for n
    by (simp add: links_def RoutingTable_peer_count_def two_nodes_defs)
  then show ?thesis
    using flooding_ends_everywhere [OF two_nodes_broadcast two_nodes_delivery]
    by (auto simp: hello_def)
qed

end
