(* ===== verification/Epoch_Log.thy ===== *)
theory Epoch_Log
  imports Hash_Chain Ordered_Map
begin

text \<open>
  What the per-epoch logs of the mesh share.  A log has one operation that derives an entry from its
  arguments, links it to the entry before and appends it; everything else reads the entries.  The locale
  \<open>epoch_log\<close> states this as laws, and gives each log its contract: any run of the operation leaves a
  log that verifies and holds the arguments of the calls in order, and a log that verifies and ends in
  the same hash holds the same arguments, or the hash was forged.  Before it, the accessors of slices
  and iterators the logs use, and the arithmetic of their percentages.
\<close>

section \<open>Slices and iterators\<close>

definition last_opt :: "'a list \<Rightarrow> 'a option" where
  "last_opt xs = (if xs = [] then None else Some (last xs))"

definition first_opt :: "'a list \<Rightarrow> 'a option" where
  "first_opt xs = (if xs = [] then None else Some (hd xs))"

definition nth_opt :: "nat \<Rightarrow> 'a list \<Rightarrow> 'a option" where
  "nth_opt i xs = (if i < length xs then Some (xs ! i) else None)"

definition list_max :: "'a::linorder list \<Rightarrow> 'a option" where
  "list_max xs = (if xs = [] then None else Some (Max (set xs)))"

definition list_min :: "'a::linorder list \<Rightarrow> 'a option" where
  "list_min xs = (if xs = [] then None else Some (Min (set xs)))"

text \<open>The first least and the last greatest element under a key, as the iterators of the language take them.\<close>

fun min_by_key :: "('a \<Rightarrow> 'k::linorder) \<Rightarrow> 'a list \<Rightarrow> 'a option" where
  "min_by_key f [] = None"
| "min_by_key f (x # xs) =
     (case min_by_key f xs of None \<Rightarrow> Some x | Some y \<Rightarrow> Some (if f x \<le> f y then x else y))"

fun max_by_key :: "('a \<Rightarrow> 'k::linorder) \<Rightarrow> 'a list \<Rightarrow> 'a option" where
  "max_by_key f [] = None"
| "max_by_key f (x # xs) =
     (case max_by_key f xs of None \<Rightarrow> Some x | Some y \<Rightarrow> Some (if f x > f y then x else y))"

text \<open>An iterator of pairs collected into an ordered map: a later pair replaces an earlier one.\<close>

definition bt_of_list :: "('k::linorder \<times> 'v) list \<Rightarrow> ('k, 'v) btmap" where
  "bt_of_list xs = fold (\<lambda>(k, v) m. bt_insert k v m) xs bt_empty"

definition string_bytes :: "string \<Rightarrow> bytes" where
  "string_bytes s = map of_char s"

definition pop_count :: "'a::len word \<Rightarrow> nat" where
  "pop_count w = length (filter (bit w) [0..<LENGTH('a)])"

definition smin :: "'a::len word \<Rightarrow> 'a word \<Rightarrow> 'a word" where
  "smin a b = (if b <s a then b else a)"

definition smax :: "'a::len word \<Rightarrow> 'a word \<Rightarrow> 'a word" where
  "smax a b = (if a <s b then b else a)"

lemma bt_of_list_get: "bt_get (bt_of_list xs) k = map_of (rev xs) k"
proof -
  have "bt_get (fold (\<lambda>(k, v) m. bt_insert k v m) xs m) k = (case map_of (rev xs) k of Some v \<Rightarrow> Some v | None \<Rightarrow> bt_get m k)" for m
    by (induction xs arbitrary: m) (auto simp: map_add_def split: option.splits)
  then show ?thesis by (simp add: bt_of_list_def split: option.split)
qed

text \<open>Sorting is stable: what was in order stays in order among equal keys.\<close>

lemma insort_key_wrt:
  assumes "sorted_wrt (\<lambda>x y. f x < f y \<or> f x = f y \<and> R x y) ys" "\<forall>y \<in> set ys. R x y"
  shows "sorted_wrt (\<lambda>x y. f x < f y \<or> f x = f y \<and> R x y) (insort_key (f :: 'a \<Rightarrow> 'k::linorder) x ys)"
  using assms
proof (induction ys)
  case (Cons y ys)
  show ?case
  proof (cases "f x \<le> f y")
    case True
    then have "f x < f z \<or> f x = f z \<and> R x z" if "z \<in> set (y # ys)" for z
      using Cons.prems that by (cases "z = y") (auto simp: le_less)
    then show ?thesis using Cons.prems True by simp
  next
    case False
    then show ?thesis using Cons by (auto simp: set_insort_key)
  qed
qed simp

lemma sort_key_stable_wrt:
  "sorted_wrt R xs \<Longrightarrow>
     sorted_wrt (\<lambda>x y. f x < f y \<or> f x = f y \<and> R x y) (sort_key (f :: 'a \<Rightarrow> 'k::linorder) xs)"
  by (induction xs) (simp_all add: insort_key_wrt)

lemma take_before_drop:
  "sorted_wrt Q xs \<Longrightarrow> x \<in> set (take k xs) \<Longrightarrow> y \<in> set (drop k xs) \<Longrightarrow> Q x y"
  using sorted_wrt_append [of Q "take k xs" "drop k xs"] by simp

lemma mset_eq_facts:
  assumes "mset xs = mset ys"
  shows "set xs = set ys" "length xs = length ys" "distinct (map f xs) \<longleftrightarrow> distinct (map f ys)"
  using assms mset_eq_setD mset_eq_length mset_eq_imp_distinct_iff [of "map f xs" "map f ys"] by auto

text \<open>The check of a chain whose records must also be consistent in themselves.\<close>

fun verify_checked ::
  "('r \<Rightarrow> bool) \<Rightarrow> ('r \<Rightarrow> hash) \<Rightarrow> ('r \<Rightarrow> hash) \<Rightarrow> ('r \<Rightarrow> hash) \<Rightarrow> nat \<Rightarrow> hash \<Rightarrow> 'r list
     \<Rightarrow> bool \<times> nat option" where
  "verify_checked consistent prv hsh recomputed i expected_prev [] = (True, None)"
| "verify_checked consistent prv hsh recomputed i expected_prev (r # rs) =
     (if prv r \<noteq> expected_prev then (False, Some i)
      else if \<not> consistent r then (False, Some i)
      else if recomputed r \<noteq> hsh r then (False, Some i)
      else verify_checked consistent prv hsh recomputed (Suc i) (hsh r) rs)"

lemma verify_checked_iff:
  "verify_checked consistent prv hsh rc i g rs = (True, None) \<longleftrightarrow>
     chained prv hsh rc g rs \<and> list_all consistent rs"
  by (induction rs arbitrary: i g) auto

text \<open>A list of words written one after the other is determined by its bytes.\<close>

lemma concat_fixed_inj:
  assumes "\<And>x. length (f x) = n" "0 < n" "\<And>x y. f x = f y \<longleftrightarrow> x = y"
  shows "concat (map f xs) = concat (map f ys) \<longleftrightarrow> xs = ys"
proof (induction xs arbitrary: ys)
  case Nil
  show ?case using assms(1) [of "hd ys"] assms(2) by (cases ys) auto
next
  case (Cons x xs)
  show ?case
  proof (cases ys)
    case Nil
    then show ?thesis using assms(1) [of x] assms(2) by auto
  next
    case (Cons y zs)
    have "length (f x) = length (f y)" by (simp add: assms(1))
    then show ?thesis using Cons Cons.IH [of zs] by (simp add: assms(3))
  qed
qed

lemma concat_be4_inj [enc_simps]: "concat (map be4 xs) = concat (map be4 ys) \<longleftrightarrow> xs = ys"
  by (rule concat_fixed_inj [where n = 4]) (simp_all add: enc_simps)

lemma by_key_None [simp]: "min_by_key f xs = None \<longleftrightarrow> xs = []" "max_by_key f xs = None \<longleftrightarrow> xs = []"
  by (cases xs; simp split: option.split)+

lemma min_by_key_least: "min_by_key f xs = Some x \<Longrightarrow> x \<in> set xs \<and> (\<forall>y \<in> set xs. f x \<le> f y)"
proof (induction xs arbitrary: x)
  case (Cons a xs)
  then show ?case by (cases "min_by_key f xs") (auto split: if_splits dest: less_imp_le)
qed simp

lemma max_by_key_greatest: "max_by_key f xs = Some x \<Longrightarrow> x \<in> set xs \<and> (\<forall>y \<in> set xs. f y \<le> f x)"
proof (induction xs arbitrary: x)
  case (Cons a xs)
  then show ?case by (cases "max_by_key f xs") (auto split: if_splits dest: less_imp_le)
qed simp

lemma opt_snoc [simp]:
  "last_opt [] = None" "last_opt (xs @ [x]) = Some x" "last_opt xs = None \<longleftrightarrow> xs = []"
  "first_opt [] = None" "first_opt (x # xs) = Some x"
  by (simp_all add: last_opt_def first_opt_def)

lemma unwrap_list_max:
  fixes xs :: "'a::len word list"
  shows "x \<in> set xs \<Longrightarrow> x \<le> unwrap_or 0 (list_max xs)"
    and "xs \<noteq> [] \<Longrightarrow> unwrap_or 0 (list_max xs) \<in> set xs"
  by (auto simp: list_max_def)

text \<open>A sum of words is the sum of their values as long as it fits.\<close>

lemma unat_sum_list:
  fixes xs :: "'a::len word list"
  assumes "sum_list (map unat xs) < 2 ^ LENGTH('a)"
  shows "unat (sum_list xs) = sum_list (map unat xs)"
  using assms
proof (induction xs)
  case (Cons x xs)
  then show ?case by (simp add: unat_add_no_wrap)
qed simp

section \<open>Percentages\<close>

text \<open>
  \<open>(a as u64 * 100 / b.max(1) as u64) as u32\<close>.  A part of a whole has the exact percentage; a part
  that exceeds its whole may be cut off by the last cast.
\<close>

lemma unat_pct:
  "unat (ucast (ucast (a :: u32) * 100 div (ucast (max b 1 :: u32) :: u64)) :: u32) =
   (unat a * 100 div max (unat b) 1) mod 2 ^ 32"
  by (simp add: unat_div unsigned_ucast_eq [where 'b = 64] take_bit_eq_mod unat_scaled_count unat_denom)

lemma percent_le: "m \<le> n \<Longrightarrow> m * 100 div max n 1 \<le> (100 :: nat)"
  using div_le_mono [of "m * 100" "max n 1 * 100" "max n 1"] by simp

lemma pct_of_part:
  assumes "(a :: u32) \<le> b"
  shows "unat (ucast (ucast a * 100 div (ucast (max b 1 :: u32) :: u64)) :: u32) =
    unat a * 100 div max (unat b) 1"
proof -
  have "unat a * 100 div max (unat b) 1 \<le> 100"
    using assms by (intro percent_le) (simp add: word_le_nat_alt)
  then show ?thesis by (simp add: unat_pct)
qed

lemma pct_comparisons:
  fixes a b t :: u32
  assumes "a \<le> b"
  defines "p \<equiv> ucast (ucast a * 100 div (ucast (max b 1) :: u64)) :: u32"
  shows "t \<le> p \<longleftrightarrow> unat t * max (unat b) 1 \<le> 100 * unat a"
    and "p < t \<longleftrightarrow> 100 * unat a < unat t * max (unat b) 1"
    and "p \<le> 100"
proof -
  have p: "unat p = unat a * 100 div max (unat b) 1"
    unfolding p_def by (rule pct_of_part [OF assms(1)])
  show ge: "t \<le> p \<longleftrightarrow> unat t * max (unat b) 1 \<le> 100 * unat a"
    by (simp add: word_le_nat_alt p less_eq_div_iff_mult_less_eq mult.commute)
  then show "p < t \<longleftrightarrow> 100 * unat a < unat t * max (unat b) 1" by (simp add: not_le [symmetric])
  have "unat a * 100 div max (unat b) 1 \<le> 100"
    using assms(1) by (intro percent_le) (simp add: word_le_nat_alt)
  then show "p \<le> 100" by (simp add: word_le_nat_alt p)
qed

section \<open>The contract of a log\<close>

locale epoch_log = hash_log pre prv hsh committed
  for pre :: "'r \<Rightarrow> bytes" and prv hsh :: "'r \<Rightarrow> hash" and committed :: "'r \<Rightarrow> 'c" +
  fixes rec :: "sha \<Rightarrow> 'i \<Rightarrow> 's \<Rightarrow> 'r \<times> 's"
    and logged :: "'s \<Rightarrow> 'r list"
    and fresh :: 's
    and inputs :: "'c \<Rightarrow> 'i"
  assumes fresh_log: "logged fresh = []"
    and rec_logs: "logged (snd (rec sha i s)) = logged s @ [fst (rec sha i s)]"
    and rec_linked: "prv (fst (rec sha i s)) = last_hash hsh (logged s)"
    and rec_hashed: "hsh (fst (rec sha i s)) = sha (pre (fst (rec sha i s)))"
    and rec_inputs: "inputs (committed (fst (rec sha i s))) = i"
begin

abbreviation after :: "sha \<Rightarrow> 'i list \<Rightarrow> 's" where
  "after sha is \<equiv> run (\<lambda>i s. snd (rec sha i s)) is fresh"

lemma rec_ok: "ok sha (logged (snd (rec sha i s))) \<longleftrightarrow> ok sha (logged s)"
  by (simp add: rec_logs rec_linked rec_hashed del: split_paired_All)

lemma after_ok: "ok sha (logged (after sha is))"
  by (induction "is" rule: rev_induct) (simp_all add: fresh_log rec_ok)

lemma after_inputs: "map (\<lambda>r. inputs (committed r)) (logged (after sha is)) = is"
  by (induction "is" rule: rev_induct) (simp_all add: fresh_log rec_logs rec_inputs)

theorem hash_commits_to_inputs:
  assumes "ok sha rs" and "last_hash hsh rs = last_hash hsh (logged (after sha is))"
  shows "map (\<lambda>r. inputs (committed r)) rs = is \<or>
    forgery sha (pre ` (set rs \<union> set (logged (after sha is))))"
  using tamper_evident [OF assms(1) after_ok assms(2)]
proof
  assume "map committed rs = map committed (logged (after sha is))"
  then have "map inputs (map committed rs) = map inputs (map committed (logged (after sha is)))" by simp
  then show ?thesis using after_inputs [of sha "is"] by (simp add: o_def)
qed simp

theorem equal_hash_equal_inputs:
  assumes "last_hash hsh (logged (after sha is)) = last_hash hsh (logged (after sha js))"
  shows "is = js \<or> forgery sha (pre ` (set (logged (after sha is)) \<union> set (logged (after sha js))))"
  using hash_commits_to_inputs [OF after_ok assms] by (simp add: after_inputs)

end

section \<open>Logs whose epochs must rise\<close>

text \<open>
  Many logs refuse an entry whose epoch is not beyond that of the last entry.  \<open>admit\<close> is that guard on
  the list of what was admitted so far; a log under the guard holds what it admits and nothing else.
\<close>

definition admit :: "('i \<Rightarrow> 'k::linorder) \<Rightarrow> 'i \<Rightarrow> 'i list \<Rightarrow> 'i list" where
  "admit key i kept = (if kept \<noteq> [] \<and> key i \<le> key (last kept) then kept else kept @ [i])"

lemma admit_rising:
  "sorted_wrt (<) (map key kept) \<Longrightarrow> sorted_wrt (<) (map key (admit key i kept))"
  by (cases kept rule: rev_cases)
    (auto simp: admit_def sorted_wrt_append not_le intro: less_trans)

lemma fold_admit_rising: "sorted_wrt (<) (map key (fold (admit key) is []))"
  by (induction "is" rule: rev_induct) (simp_all add: admit_rising)

locale rising_log = hash_log pre prv hsh committed
  for pre :: "'r \<Rightarrow> bytes" and prv hsh :: "'r \<Rightarrow> hash" and committed :: "'r \<Rightarrow> 'c" +
  fixes rec :: "sha \<Rightarrow> 'i \<Rightarrow> 's \<Rightarrow> ('e + 'r) \<times> 's"
    and logged :: "'s \<Rightarrow> 'r list"
    and fresh :: 's
    and inputs :: "'c \<Rightarrow> 'i"
    and key :: "'i \<Rightarrow> 'k::linorder"
  assumes fresh_log: "logged fresh = []"
    and rec_refused: "logged s \<noteq> [] \<Longrightarrow> key i \<le> key (inputs (committed (last (logged s)))) \<Longrightarrow>
      isl (fst (rec sha i s)) \<and> snd (rec sha i s) = s"
    and rec_logs: "logged s = [] \<or> key (inputs (committed (last (logged s)))) < key i \<Longrightarrow>
      \<exists>r. fst (rec sha i s) = Inr r \<and> logged (snd (rec sha i s)) = logged s @ [r] \<and>
        prv r = last_hash hsh (logged s) \<and> hsh r = sha (pre r) \<and> inputs (committed r) = i"
begin

abbreviation after :: "sha \<Rightarrow> 'i list \<Rightarrow> 's" where
  "after sha is \<equiv> run (\<lambda>i s. snd (rec sha i s)) is fresh"

abbreviation held :: "'s \<Rightarrow> 'i list" where
  "held s \<equiv> map (\<lambda>r. inputs (committed r)) (logged s)"

lemma rec_step:
  "held (snd (rec sha i s)) = admit key i (held s) \<and>
   (ok sha (logged s) \<longrightarrow> ok sha (logged (snd (rec sha i s))))"
proof (cases "logged s \<noteq> [] \<and> key i \<le> key (inputs (committed (last (logged s))))")
  case True
  then show ?thesis using rec_refused [of s i sha] by (simp add: admit_def last_map)
next
  case False
  then obtain r where "logged (snd (rec sha i s)) = logged s @ [r]" "prv r = last_hash hsh (logged s)"
      "hsh r = sha (pre r)" "inputs (committed r) = i"
    using rec_logs [of s i sha] by fastforce
  moreover have "\<not> (held s \<noteq> [] \<and> key i \<le> key (last (held s)))"
    using False by (cases "logged s = []") (simp_all add: last_map)
  ultimately show ?thesis by (simp add: admit_def)
qed

lemma after_ok: "ok sha (logged (after sha is))"
  by (induction "is" rule: rev_induct) (simp_all add: fresh_log rec_step)

lemma after_inputs: "held (after sha is) = fold (admit key) is []"
  by (induction "is" rule: rev_induct) (simp_all add: fresh_log rec_step)

lemma after_rising: "sorted_wrt (<) (map (\<lambda>r. key (inputs (committed r))) (logged (after sha is)))"
  using fold_admit_rising [of key "is"] by (simp add: after_inputs [of sha "is", symmetric] o_def)

theorem hash_commits_to_inputs:
  assumes "ok sha rs" and "last_hash hsh rs = last_hash hsh (logged (after sha is))"
  shows "map (\<lambda>r. inputs (committed r)) rs = fold (admit key) is [] \<or>
    forgery sha (pre ` (set rs \<union> set (logged (after sha is))))"
  using tamper_evident [OF assms(1) after_ok assms(2)]
proof
  assume "map committed rs = map committed (logged (after sha is))"
  then have "map inputs (map committed rs) = map inputs (map committed (logged (after sha is)))" by simp
  then show ?thesis using after_inputs [of sha "is"] by (simp add: o_def)
qed simp

end

end
