(* ===== verification/Gossip_Peer_Logs.thy ===== *)
theory Gossip_Peer_Logs
  imports Epoch_Log
begin

text \<open>
  The logs that follow the peers of a node from epoch to epoch: how many come and go, time out, stay
  up or are reached, their scores and tiers, the fanout, the pool and the pressure on it.
\<close>

section \<open>Gossip Peer Churn Tracker (Gate 393)\<close>

text \<open>
  \<open>gossip_peer_churn.rs\<close>. Tracks peer join/leave events per epoch to detect network
  instability.
\<close>

record GossipPeerChurnEntry =
  gpce_epoch_end :: u64
  gpce_joins :: u32
  gpce_leaves :: u32
  gpce_churn_count :: u32
  gpce_entry_hash :: hash
  gpce_prev_hash :: hash

definition peer_churn_bytes ::
  "hash \<Rightarrow> u64 \<Rightarrow> u32 \<Rightarrow> u32 \<Rightarrow> u32 \<Rightarrow> bytes"
      where
  "peer_churn_bytes prev epoch_end joins leaves churn_count =
     hash_bytes prev @ be8 epoch_end @ be4 joins @ be4 leaves @ be4 churn_count"

definition compute_peer_churn_hash ::
  "sha \<Rightarrow> hash \<Rightarrow> u64 \<Rightarrow> u32 \<Rightarrow> u32 \<Rightarrow> u32
      \<Rightarrow> hash" where
  "compute_peer_churn_hash sha prev epoch_end joins leaves churn_count =
     sha (peer_churn_bytes prev epoch_end joins leaves churn_count)"

record GossipPeerChurnLog_churn =
  gpcl_entries :: "GossipPeerChurnEntry list"

definition GossipPeerChurnLog_churn_new :: "GossipPeerChurnLog_churn" where
  "GossipPeerChurnLog_churn_new =
     \<lparr>gpcl_entries = []\<rparr>"

definition GossipPeerChurnLog_churn_entry_count :: "GossipPeerChurnLog_churn \<Rightarrow> nat" where
  "GossipPeerChurnLog_churn_entry_count self =
     length (gpcl_entries self)"

definition GossipPeerChurnLog_churn_latest ::
  "GossipPeerChurnLog_churn \<Rightarrow> GossipPeerChurnEntry option" where
  "GossipPeerChurnLog_churn_latest self =
     last_opt (gpcl_entries self)"

definition GossipPeerChurnLog_churn_total_joins :: "GossipPeerChurnLog_churn \<Rightarrow> u64" where
  "GossipPeerChurnLog_churn_total_joins self =
     sum_list (map (\<lambda>e. (ucast (gpce_joins e) :: u64)) (gpcl_entries self))"

definition GossipPeerChurnLog_churn_total_leaves :: "GossipPeerChurnLog_churn \<Rightarrow> u64" where
  "GossipPeerChurnLog_churn_total_leaves self =
     sum_list (map (\<lambda>e. (ucast (gpce_leaves e) :: u64)) (gpcl_entries self))"

definition GossipPeerChurnLog_churn_max_churn :: "GossipPeerChurnLog_churn \<Rightarrow> u32" where
  "GossipPeerChurnLog_churn_max_churn self =
     unwrap_or 0 (list_max (map gpce_churn_count (gpcl_entries self)))"

definition GossipPeerChurnLog_churn_average_churn :: "GossipPeerChurnLog_churn \<Rightarrow> u32" where
  "GossipPeerChurnLog_churn_average_churn self =
     (if (gpcl_entries self) = [] then 0
      else (let sum_v = sum_list (map gpce_churn_count (gpcl_entries self))
      in sum_v div (of_nat (length (gpcl_entries self)) :: u32)))"

definition GossipPeerChurnLog_churn_record ::
  "sha \<Rightarrow> u64 \<Rightarrow> u32 \<Rightarrow> u32 \<Rightarrow> GossipPeerChurnLog_churn
      \<Rightarrow> GossipPeerChurnEntry \<times> GossipPeerChurnLog_churn" where
  "GossipPeerChurnLog_churn_record sha epoch_end joins leaves self =
     (let churn_count = sat_add joins leaves;
          prev = last_hash gpce_entry_hash (gpcl_entries self);
          entry_hash = compute_peer_churn_hash sha prev epoch_end joins leaves churn_count;
          self = self\<lparr>gpcl_entries := (gpcl_entries self) @ [\<lparr>gpce_epoch_end = epoch_end,
            gpce_joins = joins, gpce_leaves = leaves, gpce_churn_count = churn_count,
            gpce_entry_hash = entry_hash, gpce_prev_hash = prev\<rparr>]\<rparr>
      in (last (gpcl_entries self), self))"

definition GossipPeerChurnEntry_bytes_of :: "GossipPeerChurnEntry \<Rightarrow> bytes" where
  "GossipPeerChurnEntry_bytes_of e =
     peer_churn_bytes (gpce_prev_hash e) (gpce_epoch_end e) (gpce_joins e) (gpce_leaves e)
         (gpce_churn_count e)"

definition GossipPeerChurnLog_churn_verify_chain ::
  "sha \<Rightarrow> GossipPeerChurnLog_churn \<Rightarrow> bool \<times> nat option" where
  "GossipPeerChurnLog_churn_verify_chain sha self =
     verify_from gpce_prev_hash gpce_entry_hash (\<lambda>r. sha (GossipPeerChurnEntry_bytes_of r)) 0
         genesis (gpcl_entries self)"

lemma peer_churn_bytes_inj:
  "peer_churn_bytes prev epoch_end joins leaves churn_count = peer_churn_bytes prev' epoch_end' joins'
      leaves' churn_count' \<longleftrightarrow>
   prev = prev' \<and> epoch_end = epoch_end' \<and> joins = joins' \<and> leaves = leaves' \<and>
       churn_count = churn_count'"
  by (auto simp: peer_churn_bytes_def enc_simps)

definition GossipPeerChurnEntry_committed :: "GossipPeerChurnEntry \<Rightarrow> u64 \<times> u32
    \<times> u32 \<times> u32" where
  "GossipPeerChurnEntry_committed e =
     (gpce_epoch_end e, gpce_joins e, gpce_leaves e, gpce_churn_count e)"

interpretation peer_churn: epoch_log GossipPeerChurnEntry_bytes_of gpce_prev_hash gpce_entry_hash
    GossipPeerChurnEntry_committed
  "\<lambda>sha (epoch_end, joins, leaves) l. GossipPeerChurnLog_churn_record sha epoch_end joins leaves
      l"
  gpcl_entries GossipPeerChurnLog_churn_new "\<lambda>(a, b, c, _). (a, b, c)"
  by unfold_locales (auto simp: GossipPeerChurnLog_churn_record_def compute_peer_churn_hash_def
      GossipPeerChurnLog_churn_new_def Let_def GossipPeerChurnEntry_bytes_of_def
      GossipPeerChurnEntry_committed_def peer_churn_bytes_inj)

lemma peer_churn_verify_iff: "GossipPeerChurnLog_churn_verify_chain sha l = (True,
    None) \<longleftrightarrow> peer_churn.ok sha (gpcl_entries l)"
  by (simp add: GossipPeerChurnLog_churn_verify_chain_def verify_from_iff)

section \<open>Gossip Peer Diversity Log (Gate 414)\<close>

text \<open>
  \<open>gossip_peer_diversity.rs\<close>. Per-epoch tracking of peer diversity in the gossip overlay.
  Diversity measures the spread of peers across distinct subnets or zones.
\<close>

definition DIVERSITY_FLOOR :: u32 where
  "DIVERSITY_FLOOR = 20"

record GossipPeerDiversityEntry =
  gpde_epoch_end :: u64
  gpde_distinct_zones :: u32
  gpde_total_peers :: u32
  gpde_diversity_score :: u32
  gpde_low_diversity :: bool
  gpde_entry_hash :: hash
  gpde_prev_hash :: hash

definition peer_diversity_bytes ::
  "hash \<Rightarrow> u64 \<Rightarrow> u32 \<Rightarrow> u32 \<Rightarrow> u32 \<Rightarrow> bool
      \<Rightarrow> bytes" where
  "peer_diversity_bytes prev epoch_end distinct_zones total_peers diversity_score low_diversity =
     hash_bytes prev @ be8 epoch_end @ be4 distinct_zones @ be4 total_peers @ be4 diversity_score @
         [of_bool low_diversity]"

definition compute_peer_diversity_hash ::
  "sha \<Rightarrow> hash \<Rightarrow> u64 \<Rightarrow> u32 \<Rightarrow> u32 \<Rightarrow> u32
      \<Rightarrow> bool \<Rightarrow> hash" where
  "compute_peer_diversity_hash sha prev epoch_end distinct_zones total_peers diversity_score
      low_diversity =
     sha (peer_diversity_bytes prev epoch_end distinct_zones total_peers diversity_score low_diversity)"

record GossipPeerDiversityLog =
  gpdl_entries :: "GossipPeerDiversityEntry list"

definition GossipPeerDiversityLog_new :: "GossipPeerDiversityLog" where
  "GossipPeerDiversityLog_new =
     \<lparr>gpdl_entries = []\<rparr>"

definition GossipPeerDiversityLog_entry_count :: "GossipPeerDiversityLog \<Rightarrow> nat" where
  "GossipPeerDiversityLog_entry_count self =
     length (gpdl_entries self)"

definition GossipPeerDiversityLog_latest ::
  "GossipPeerDiversityLog \<Rightarrow> GossipPeerDiversityEntry option" where
  "GossipPeerDiversityLog_latest self =
     last_opt (gpdl_entries self)"

definition GossipPeerDiversityLog_low_diversity_count ::
  "GossipPeerDiversityLog \<Rightarrow> nat" where
  "GossipPeerDiversityLog_low_diversity_count self =
     length (filter gpde_low_diversity (gpdl_entries self))"

definition GossipPeerDiversityLog_max_diversity_score ::
  "GossipPeerDiversityLog \<Rightarrow> u32" where
  "GossipPeerDiversityLog_max_diversity_score self =
     unwrap_or 0 (list_max (map gpde_diversity_score (gpdl_entries self)))"

definition GossipPeerDiversityLog_mean_diversity_score ::
  "GossipPeerDiversityLog \<Rightarrow> u32" where
  "GossipPeerDiversityLog_mean_diversity_score self =
     (if (gpdl_entries self) = [] then 0
      else (let sum_v = sum_list (map (\<lambda>e. (ucast (gpde_diversity_score e) :: u64))
          (gpdl_entries self))
      in (ucast (sum_v div (of_nat (length (gpdl_entries self)) :: u64)) :: u32)))"

definition GossipPeerDiversityLog_record ::
  "sha \<Rightarrow> u64 \<Rightarrow> u32 \<Rightarrow> u32 \<Rightarrow> GossipPeerDiversityLog
      \<Rightarrow> GossipPeerDiversityEntry \<times> GossipPeerDiversityLog" where
  "GossipPeerDiversityLog_record sha epoch_end distinct_zones total_peers self =
     (let raw = (ucast (((ucast distinct_zones :: u64) * 100) div (ucast (max total_peers 1) :: u64)) ::
         u32);
          diversity_score = min raw 100;
          low_diversity = diversity_score < DIVERSITY_FLOOR;
          prev = last_hash gpde_entry_hash (gpdl_entries self);
          entry_hash = compute_peer_diversity_hash sha prev epoch_end distinct_zones total_peers
            diversity_score low_diversity;
          self = self\<lparr>gpdl_entries := (gpdl_entries self) @ [\<lparr>gpde_epoch_end = epoch_end,
            gpde_distinct_zones = distinct_zones, gpde_total_peers = total_peers,
            gpde_diversity_score = diversity_score, gpde_low_diversity = low_diversity,
            gpde_entry_hash = entry_hash, gpde_prev_hash = prev\<rparr>]\<rparr>
      in (last (gpdl_entries self), self))"

definition GossipPeerDiversityEntry_bytes_of :: "GossipPeerDiversityEntry \<Rightarrow> bytes" where
  "GossipPeerDiversityEntry_bytes_of e =
     peer_diversity_bytes (gpde_prev_hash e) (gpde_epoch_end e) (gpde_distinct_zones e)
         (gpde_total_peers e) (gpde_diversity_score e) (gpde_low_diversity e)"

definition GossipPeerDiversityLog_verify_chain ::
  "sha \<Rightarrow> GossipPeerDiversityLog \<Rightarrow> bool \<times> nat option" where
  "GossipPeerDiversityLog_verify_chain sha self =
     verify_from gpde_prev_hash gpde_entry_hash (\<lambda>r. sha (GossipPeerDiversityEntry_bytes_of r))
         0 genesis (gpdl_entries self)"

lemma peer_diversity_bytes_inj:
  "peer_diversity_bytes prev epoch_end distinct_zones total_peers diversity_score low_diversity =
      peer_diversity_bytes prev' epoch_end' distinct_zones' total_peers' diversity_score' low_diversity'
      \<longleftrightarrow>
   prev = prev' \<and> epoch_end = epoch_end' \<and> distinct_zones = distinct_zones' \<and> total_peers
       = total_peers' \<and> diversity_score = diversity_score' \<and> low_diversity = low_diversity'"
  by (auto simp: peer_diversity_bytes_def enc_simps)

definition GossipPeerDiversityEntry_committed :: "GossipPeerDiversityEntry \<Rightarrow> u64 \<times>
    u32 \<times> u32 \<times> u32 \<times> bool" where
  "GossipPeerDiversityEntry_committed e =
     (gpde_epoch_end e, gpde_distinct_zones e, gpde_total_peers e, gpde_diversity_score e,
         gpde_low_diversity e)"

interpretation peer_diversity: epoch_log GossipPeerDiversityEntry_bytes_of gpde_prev_hash
    gpde_entry_hash GossipPeerDiversityEntry_committed
  "\<lambda>sha (epoch_end, distinct_zones, total_peers) l. GossipPeerDiversityLog_record sha epoch_end
      distinct_zones total_peers l"
  gpdl_entries GossipPeerDiversityLog_new "\<lambda>(a, b, c, _, _). (a, b, c)"
  by unfold_locales (auto simp: GossipPeerDiversityLog_record_def compute_peer_diversity_hash_def
      GossipPeerDiversityLog_new_def Let_def GossipPeerDiversityEntry_bytes_of_def
      GossipPeerDiversityEntry_committed_def peer_diversity_bytes_inj)

lemma peer_diversity_verify_iff: "GossipPeerDiversityLog_verify_chain sha l = (True,
    None) \<longleftrightarrow> peer_diversity.ok sha (gpdl_entries l)"
  by (simp add: GossipPeerDiversityLog_verify_chain_def verify_from_iff)

section \<open>Gossip Peer Timeout Log (Gate 407)\<close>

text \<open>
  \<open>gossip_peer_timeout.rs\<close>. Per-epoch tracking of peer connection timeout events.
\<close>

definition TIMEOUT_RATE_THRESHOLD :: u32 where
  "TIMEOUT_RATE_THRESHOLD = 10"

record GossipPeerTimeoutEntry =
  gpte_epoch_end :: u64
  gpte_timeout_count :: u32
  gpte_active_peers :: u32
  gpte_timeout_rate_pct :: u32
  gpte_high_timeout :: bool
  gpte_entry_hash :: hash
  gpte_prev_hash :: hash

definition peer_timeout_bytes ::
  "hash \<Rightarrow> u64 \<Rightarrow> u32 \<Rightarrow> u32 \<Rightarrow> u32 \<Rightarrow> bool
      \<Rightarrow> bytes" where
  "peer_timeout_bytes prev epoch_end timeout_count active_peers timeout_rate_pct high_timeout =
     hash_bytes prev @ be8 epoch_end @ be4 timeout_count @ be4 active_peers @ be4 timeout_rate_pct @
         [of_bool high_timeout]"

definition compute_peer_timeout_hash ::
  "sha \<Rightarrow> hash \<Rightarrow> u64 \<Rightarrow> u32 \<Rightarrow> u32 \<Rightarrow> u32
      \<Rightarrow> bool \<Rightarrow> hash" where
  "compute_peer_timeout_hash sha prev epoch_end timeout_count active_peers timeout_rate_pct high_timeout
      =
     sha (peer_timeout_bytes prev epoch_end timeout_count active_peers timeout_rate_pct high_timeout)"

record GossipPeerTimeoutLog_timeout =
  gptl_entries :: "GossipPeerTimeoutEntry list"

definition GossipPeerTimeoutLog_timeout_new :: "GossipPeerTimeoutLog_timeout" where
  "GossipPeerTimeoutLog_timeout_new =
     \<lparr>gptl_entries = []\<rparr>"

definition GossipPeerTimeoutLog_timeout_entry_count ::
  "GossipPeerTimeoutLog_timeout \<Rightarrow> nat" where
  "GossipPeerTimeoutLog_timeout_entry_count self =
     length (gptl_entries self)"

definition GossipPeerTimeoutLog_timeout_latest ::
  "GossipPeerTimeoutLog_timeout \<Rightarrow> GossipPeerTimeoutEntry option" where
  "GossipPeerTimeoutLog_timeout_latest self =
     last_opt (gptl_entries self)"

definition GossipPeerTimeoutLog_timeout_total_timeouts ::
  "GossipPeerTimeoutLog_timeout \<Rightarrow> u64" where
  "GossipPeerTimeoutLog_timeout_total_timeouts self =
     sum_list (map (\<lambda>e. (ucast (gpte_timeout_count e) :: u64)) (gptl_entries self))"

definition GossipPeerTimeoutLog_timeout_high_timeout_count ::
  "GossipPeerTimeoutLog_timeout \<Rightarrow> nat" where
  "GossipPeerTimeoutLog_timeout_high_timeout_count self =
     length (filter gpte_high_timeout (gptl_entries self))"

definition GossipPeerTimeoutLog_timeout_max_timeout_rate_pct ::
  "GossipPeerTimeoutLog_timeout \<Rightarrow> u32" where
  "GossipPeerTimeoutLog_timeout_max_timeout_rate_pct self =
     unwrap_or 0 (list_max (map gpte_timeout_rate_pct (gptl_entries self)))"

definition GossipPeerTimeoutLog_timeout_record ::
  "sha \<Rightarrow> u64 \<Rightarrow> u32 \<Rightarrow> u32 \<Rightarrow> GossipPeerTimeoutLog_timeout
      \<Rightarrow> GossipPeerTimeoutEntry \<times> GossipPeerTimeoutLog_timeout" where
  "GossipPeerTimeoutLog_timeout_record sha epoch_end timeout_count active_peers self =
     (let timeout_rate_pct = (ucast (((ucast timeout_count :: u64) * 100) div (ucast (max active_peers
         1) :: u64)) :: u32);
          high_timeout = timeout_rate_pct \<ge> TIMEOUT_RATE_THRESHOLD;
          prev = last_hash gpte_entry_hash (gptl_entries self);
          entry_hash = compute_peer_timeout_hash sha prev epoch_end timeout_count active_peers
            timeout_rate_pct high_timeout;
          self = self\<lparr>gptl_entries := (gptl_entries self) @ [\<lparr>gpte_epoch_end = epoch_end,
            gpte_timeout_count = timeout_count, gpte_active_peers = active_peers,
            gpte_timeout_rate_pct = timeout_rate_pct, gpte_high_timeout = high_timeout,
            gpte_entry_hash = entry_hash, gpte_prev_hash = prev\<rparr>]\<rparr>
      in (last (gptl_entries self), self))"

definition GossipPeerTimeoutEntry_bytes_of :: "GossipPeerTimeoutEntry \<Rightarrow> bytes" where
  "GossipPeerTimeoutEntry_bytes_of e =
     peer_timeout_bytes (gpte_prev_hash e) (gpte_epoch_end e) (gpte_timeout_count e) (gpte_active_peers
         e) (gpte_timeout_rate_pct e) (gpte_high_timeout e)"

definition GossipPeerTimeoutLog_timeout_verify_chain ::
  "sha \<Rightarrow> GossipPeerTimeoutLog_timeout \<Rightarrow> bool \<times> nat option" where
  "GossipPeerTimeoutLog_timeout_verify_chain sha self =
     verify_from gpte_prev_hash gpte_entry_hash (\<lambda>r. sha (GossipPeerTimeoutEntry_bytes_of r)) 0
         genesis (gptl_entries self)"

lemma peer_timeout_bytes_inj:
  "peer_timeout_bytes prev epoch_end timeout_count active_peers timeout_rate_pct high_timeout =
      peer_timeout_bytes prev' epoch_end' timeout_count' active_peers' timeout_rate_pct' high_timeout'
      \<longleftrightarrow>
   prev = prev' \<and> epoch_end = epoch_end' \<and> timeout_count = timeout_count' \<and> active_peers
       = active_peers' \<and> timeout_rate_pct = timeout_rate_pct' \<and> high_timeout = high_timeout'"
  by (auto simp: peer_timeout_bytes_def enc_simps)

definition GossipPeerTimeoutEntry_committed :: "GossipPeerTimeoutEntry \<Rightarrow> u64 \<times> u32
    \<times> u32 \<times> u32 \<times> bool" where
  "GossipPeerTimeoutEntry_committed e =
     (gpte_epoch_end e, gpte_timeout_count e, gpte_active_peers e, gpte_timeout_rate_pct e,
         gpte_high_timeout e)"

interpretation peer_timeout: epoch_log GossipPeerTimeoutEntry_bytes_of gpte_prev_hash gpte_entry_hash
    GossipPeerTimeoutEntry_committed
  "\<lambda>sha (epoch_end, timeout_count, active_peers) l. GossipPeerTimeoutLog_timeout_record sha
      epoch_end timeout_count active_peers l"
  gptl_entries GossipPeerTimeoutLog_timeout_new "\<lambda>(a, b, c, _, _). (a, b, c)"
  by unfold_locales (auto simp: GossipPeerTimeoutLog_timeout_record_def compute_peer_timeout_hash_def
      GossipPeerTimeoutLog_timeout_new_def Let_def GossipPeerTimeoutEntry_bytes_of_def
      GossipPeerTimeoutEntry_committed_def peer_timeout_bytes_inj)

lemma peer_timeout_verify_iff: "GossipPeerTimeoutLog_timeout_verify_chain sha l = (True,
    None) \<longleftrightarrow> peer_timeout.ok sha (gptl_entries l)"
  by (simp add: GossipPeerTimeoutLog_timeout_verify_chain_def verify_from_iff)

lemma peer_timeout_flag_iff:
  "timeout_count \<le> active_peers \<Longrightarrow>
   gpte_high_timeout (fst (GossipPeerTimeoutLog_timeout_record sha epoch_end timeout_count active_peers
       l)) \<longleftrightarrow> 10 * max (unat active_peers) 1 \<le> 100 * unat timeout_count"
  by (simp add: GossipPeerTimeoutLog_timeout_record_def TIMEOUT_RATE_THRESHOLD_def Let_def
      pct_comparisons)

section \<open>Gossip Peer Uptime Log (Gate 405)\<close>

text \<open>
  \<open>gossip_peer_uptime.rs\<close>. Per-epoch tracking of peer uptime. For each epoch, records how
  many ticks/slots a peer was connected vs disconnected.
\<close>

definition UPTIME_FLOOR :: u32 where
  "UPTIME_FLOOR = 80"

record GossipPeerUptimeEntry =
  gpue_epoch_end :: u64
  gpue_connected_ticks :: u32
  gpue_total_ticks :: u32
  gpue_uptime_pct :: u32
  gpue_low_uptime :: bool
  gpue_entry_hash :: hash
  gpue_prev_hash :: hash

definition peer_uptime_bytes ::
  "hash \<Rightarrow> u64 \<Rightarrow> u32 \<Rightarrow> u32 \<Rightarrow> u32 \<Rightarrow> bool
      \<Rightarrow> bytes" where
  "peer_uptime_bytes prev epoch_end connected_ticks total_ticks uptime_pct low_uptime =
     hash_bytes prev @ be8 epoch_end @ be4 connected_ticks @ be4 total_ticks @ be4 uptime_pct @
         [of_bool low_uptime]"

definition compute_peer_uptime_hash ::
  "sha \<Rightarrow> hash \<Rightarrow> u64 \<Rightarrow> u32 \<Rightarrow> u32 \<Rightarrow> u32
      \<Rightarrow> bool \<Rightarrow> hash" where
  "compute_peer_uptime_hash sha prev epoch_end connected_ticks total_ticks uptime_pct low_uptime =
     sha (peer_uptime_bytes prev epoch_end connected_ticks total_ticks uptime_pct low_uptime)"

record GossipPeerUptimeLog =
  gpul_entries :: "GossipPeerUptimeEntry list"

definition GossipPeerUptimeLog_new :: "GossipPeerUptimeLog" where
  "GossipPeerUptimeLog_new =
     \<lparr>gpul_entries = []\<rparr>"

definition GossipPeerUptimeLog_entry_count :: "GossipPeerUptimeLog \<Rightarrow> nat" where
  "GossipPeerUptimeLog_entry_count self =
     length (gpul_entries self)"

definition GossipPeerUptimeLog_latest ::
  "GossipPeerUptimeLog \<Rightarrow> GossipPeerUptimeEntry option" where
  "GossipPeerUptimeLog_latest self =
     last_opt (gpul_entries self)"

definition GossipPeerUptimeLog_total_connected :: "GossipPeerUptimeLog \<Rightarrow> u64" where
  "GossipPeerUptimeLog_total_connected self =
     sum_list (map (\<lambda>e. (ucast (gpue_connected_ticks e) :: u64)) (gpul_entries self))"

definition GossipPeerUptimeLog_total_ticks_all :: "GossipPeerUptimeLog \<Rightarrow> u64" where
  "GossipPeerUptimeLog_total_ticks_all self =
     sum_list (map (\<lambda>e. (ucast (gpue_total_ticks e) :: u64)) (gpul_entries self))"

definition GossipPeerUptimeLog_low_uptime_count :: "GossipPeerUptimeLog \<Rightarrow> nat" where
  "GossipPeerUptimeLog_low_uptime_count self =
     length (filter gpue_low_uptime (gpul_entries self))"

definition GossipPeerUptimeLog_min_uptime_pct :: "GossipPeerUptimeLog \<Rightarrow> u32" where
  "GossipPeerUptimeLog_min_uptime_pct self =
     unwrap_or 100 (list_min (map gpue_uptime_pct (gpul_entries self)))"

definition GossipPeerUptimeLog_record ::
  "sha \<Rightarrow> u64 \<Rightarrow> u32 \<Rightarrow> u32 \<Rightarrow> GossipPeerUptimeLog
      \<Rightarrow> GossipPeerUptimeEntry \<times> GossipPeerUptimeLog" where
  "GossipPeerUptimeLog_record sha epoch_end connected_ticks total_ticks self =
     (let uptime_pct = (ucast (((ucast connected_ticks :: u64) * 100) div (ucast (max total_ticks 1) ::
         u64)) :: u32);
          low_uptime = uptime_pct < UPTIME_FLOOR;
          prev = last_hash gpue_entry_hash (gpul_entries self);
          entry_hash = compute_peer_uptime_hash sha prev epoch_end connected_ticks total_ticks
            uptime_pct low_uptime;
          self = self\<lparr>gpul_entries := (gpul_entries self) @ [\<lparr>gpue_epoch_end = epoch_end,
            gpue_connected_ticks = connected_ticks, gpue_total_ticks = total_ticks,
            gpue_uptime_pct = uptime_pct, gpue_low_uptime = low_uptime, gpue_entry_hash = entry_hash,
            gpue_prev_hash = prev\<rparr>]\<rparr>
      in (last (gpul_entries self), self))"

definition GossipPeerUptimeEntry_bytes_of :: "GossipPeerUptimeEntry \<Rightarrow> bytes" where
  "GossipPeerUptimeEntry_bytes_of e =
     peer_uptime_bytes (gpue_prev_hash e) (gpue_epoch_end e) (gpue_connected_ticks e) (gpue_total_ticks
         e) (gpue_uptime_pct e) (gpue_low_uptime e)"

definition GossipPeerUptimeLog_verify_chain ::
  "sha \<Rightarrow> GossipPeerUptimeLog \<Rightarrow> bool \<times> nat option" where
  "GossipPeerUptimeLog_verify_chain sha self =
     verify_from gpue_prev_hash gpue_entry_hash (\<lambda>r. sha (GossipPeerUptimeEntry_bytes_of r)) 0
         genesis (gpul_entries self)"

lemma peer_uptime_bytes_inj:
  "peer_uptime_bytes prev epoch_end connected_ticks total_ticks uptime_pct low_uptime =
      peer_uptime_bytes prev' epoch_end' connected_ticks' total_ticks' uptime_pct' low_uptime'
      \<longleftrightarrow>
   prev = prev' \<and> epoch_end = epoch_end' \<and> connected_ticks = connected_ticks' \<and>
       total_ticks = total_ticks' \<and> uptime_pct = uptime_pct' \<and> low_uptime = low_uptime'"
  by (auto simp: peer_uptime_bytes_def enc_simps)

definition GossipPeerUptimeEntry_committed :: "GossipPeerUptimeEntry \<Rightarrow> u64 \<times> u32
    \<times> u32 \<times> u32 \<times> bool" where
  "GossipPeerUptimeEntry_committed e =
     (gpue_epoch_end e, gpue_connected_ticks e, gpue_total_ticks e, gpue_uptime_pct e,
         gpue_low_uptime e)"

interpretation peer_uptime: epoch_log GossipPeerUptimeEntry_bytes_of gpue_prev_hash gpue_entry_hash
    GossipPeerUptimeEntry_committed
  "\<lambda>sha (epoch_end, connected_ticks, total_ticks) l. GossipPeerUptimeLog_record sha epoch_end
      connected_ticks total_ticks l"
  gpul_entries GossipPeerUptimeLog_new "\<lambda>(a, b, c, _, _). (a, b, c)"
  by unfold_locales (auto simp: GossipPeerUptimeLog_record_def compute_peer_uptime_hash_def
      GossipPeerUptimeLog_new_def Let_def GossipPeerUptimeEntry_bytes_of_def
      GossipPeerUptimeEntry_committed_def peer_uptime_bytes_inj)

lemma peer_uptime_verify_iff: "GossipPeerUptimeLog_verify_chain sha l = (True,
    None) \<longleftrightarrow> peer_uptime.ok sha (gpul_entries l)"
  by (simp add: GossipPeerUptimeLog_verify_chain_def verify_from_iff)

lemma peer_uptime_flag_iff:
  "connected_ticks \<le> total_ticks \<Longrightarrow>
   gpue_low_uptime (fst (GossipPeerUptimeLog_record sha epoch_end connected_ticks total_ticks l))
       \<longleftrightarrow> 100 * unat connected_ticks < 80 * max (unat total_ticks) 1"
  by (simp add: GossipPeerUptimeLog_record_def UPTIME_FLOOR_def Let_def pct_comparisons)

section \<open>Gossip Peer Reputation Log (Gate 398)\<close>

text \<open>
  \<open>gossip_peer_reputation.rs\<close>. Tracks a per-peer reputation score updated each epoch. The
  score is an integer in [0, 100]. Updates use saturating arithmetic: on_time delivery ->
  score.saturating_add(REPUTATION_REWARD) (reward = 5) missed delivery ->
  score.saturating_sub(REPUTATION_PENALTY) (penalty = 10) churn event ->
  score.saturating_sub(REPUTATION_CHURN_PENALTY) (churn = 3) Score is clamped to [0, 100] after each
  update.
\<close>

definition REPUTATION_INITIAL_SCORE :: u32 where
  "REPUTATION_INITIAL_SCORE = 50"

definition REPUTATION_REWARD :: u32 where
  "REPUTATION_REWARD = 5"

definition REPUTATION_PENALTY :: u32 where
  "REPUTATION_PENALTY = 10"

definition REPUTATION_CHURN_PENALTY :: u32 where
  "REPUTATION_CHURN_PENALTY = 3"

definition REPUTATION_MAX :: u32 where
  "REPUTATION_MAX = 100"

definition REPUTATION_TRUSTED_FLOOR :: u32 where
  "REPUTATION_TRUSTED_FLOOR = 80"

definition REPUTATION_UNTRUSTED_CEIL :: u32 where
  "REPUTATION_UNTRUSTED_CEIL = 40"

datatype ReputationClass = Trusted | Neutral | Untrusted

fun ReputationClass_as_u8 :: "ReputationClass \<Rightarrow> u8" where
  "ReputationClass_as_u8 ReputationClass.Trusted = 0"
| "ReputationClass_as_u8 ReputationClass.Neutral = 1"
| "ReputationClass_as_u8 ReputationClass.Untrusted = 2"

lemma ReputationClass_as_u8_inj [simp]: "ReputationClass_as_u8 x = ReputationClass_as_u8 y
    \<longleftrightarrow> x = y"
  by (cases x; cases y) auto

definition ReputationClass_classify :: "u32 \<Rightarrow> ReputationClass" where
  "ReputationClass_classify score =
     (if score \<ge> REPUTATION_TRUSTED_FLOOR then ReputationClass.Trusted
      else if score \<ge> REPUTATION_UNTRUSTED_CEIL then ReputationClass.Neutral
      else ReputationClass.Untrusted)"

record GossipPeerReputationEntry =
  gpre_peer_id :: u64
  gpre_epoch_end :: u64
  gpre_score :: u32
  gpre_reputation_class :: ReputationClass
  gpre_delivered :: bool
  gpre_churned :: bool
  gpre_entry_hash :: hash
  gpre_prev_hash :: hash

definition peer_reputation_bytes ::
  "hash \<Rightarrow> u64 \<Rightarrow> u64 \<Rightarrow> u32 \<Rightarrow> ReputationClass
      \<Rightarrow> bool \<Rightarrow> bool \<Rightarrow> bytes" where
  "peer_reputation_bytes prev peer_id epoch_end score reputation_class delivered churned =
     hash_bytes prev @ be8 peer_id @ be8 epoch_end @ be4 score @
         [ReputationClass_as_u8 reputation_class] @ [of_bool delivered] @ [of_bool churned]"

definition compute_peer_reputation_hash ::
  "sha \<Rightarrow> hash \<Rightarrow> u64 \<Rightarrow> u64 \<Rightarrow> u32 \<Rightarrow>
      ReputationClass \<Rightarrow> bool \<Rightarrow> bool \<Rightarrow> hash" where
  "compute_peer_reputation_hash sha prev peer_id epoch_end score reputation_class delivered churned =
     sha (peer_reputation_bytes prev peer_id epoch_end score reputation_class delivered churned)"

record GossipPeerReputationLog =
  gprl_entries :: "GossipPeerReputationEntry list"
  gprl_peer_scores :: "(u64, u32) btmap"

definition GossipPeerReputationLog_new :: "GossipPeerReputationLog" where
  "GossipPeerReputationLog_new =
     \<lparr>gprl_entries = [], gprl_peer_scores = bt_empty\<rparr>"

definition GossipPeerReputationLog_entry_count :: "GossipPeerReputationLog \<Rightarrow> nat" where
  "GossipPeerReputationLog_entry_count self =
     length (gprl_entries self)"

definition GossipPeerReputationLog_latest ::
  "GossipPeerReputationLog \<Rightarrow> GossipPeerReputationEntry option" where
  "GossipPeerReputationLog_latest self =
     last_opt (gprl_entries self)"

definition GossipPeerReputationLog_score_for ::
  "u64 \<Rightarrow> GossipPeerReputationLog \<Rightarrow> u32" where
  "GossipPeerReputationLog_score_for peer_id self =
     unwrap_or REPUTATION_INITIAL_SCORE (bt_get (gprl_peer_scores self) peer_id)"

definition GossipPeerReputationLog_trusted_count :: "GossipPeerReputationLog \<Rightarrow> nat" where
  "GossipPeerReputationLog_trusted_count self =
     length (filter (\<lambda>s. s \<ge> REPUTATION_TRUSTED_FLOOR) (bt_values (gprl_peer_scores self)))"

definition GossipPeerReputationLog_untrusted_count :: "GossipPeerReputationLog \<Rightarrow> nat" where
  "GossipPeerReputationLog_untrusted_count self =
     length (filter (\<lambda>s. s < REPUTATION_UNTRUSTED_CEIL) (bt_values (gprl_peer_scores self)))"

definition GossipPeerReputationLog_record ::
  "sha \<Rightarrow> u64 \<Rightarrow> u64 \<Rightarrow> bool \<Rightarrow> bool \<Rightarrow>
      GossipPeerReputationLog \<Rightarrow> GossipPeerReputationEntry \<times> GossipPeerReputationLog"
      where
  "GossipPeerReputationLog_record sha peer_id epoch_end delivered churned self =
     (let base = unwrap_or REPUTATION_INITIAL_SCORE (bt_get (gprl_peer_scores self) peer_id);
          after_delivery = (if delivered then sat_add base REPUTATION_REWARD else sat_sub base
            REPUTATION_PENALTY);
          after_churn = (if churned then sat_sub after_delivery REPUTATION_CHURN_PENALTY else
            after_delivery);
          score = min after_churn REPUTATION_MAX;
          self = self\<lparr>gprl_peer_scores := bt_insert peer_id score (gprl_peer_scores
            self)\<rparr>;
          reputation_class = ReputationClass_classify score;
          prev = last_hash gpre_entry_hash (gprl_entries self);
          entry_hash = compute_peer_reputation_hash sha prev peer_id epoch_end score reputation_class
            delivered churned;
          self = self\<lparr>gprl_entries := (gprl_entries self) @ [\<lparr>gpre_peer_id = peer_id,
            gpre_epoch_end = epoch_end, gpre_score = score, gpre_reputation_class = reputation_class,
            gpre_delivered = delivered, gpre_churned = churned, gpre_entry_hash = entry_hash,
            gpre_prev_hash = prev\<rparr>]\<rparr>
      in (last (gprl_entries self), self))"

definition GossipPeerReputationEntry_bytes_of :: "GossipPeerReputationEntry \<Rightarrow> bytes" where
  "GossipPeerReputationEntry_bytes_of e =
     peer_reputation_bytes (gpre_prev_hash e) (gpre_peer_id e) (gpre_epoch_end e) (gpre_score e)
         (gpre_reputation_class e) (gpre_delivered e) (gpre_churned e)"

definition GossipPeerReputationLog_verify_chain ::
  "sha \<Rightarrow> GossipPeerReputationLog \<Rightarrow> bool \<times> nat option" where
  "GossipPeerReputationLog_verify_chain sha self =
     verify_from gpre_prev_hash gpre_entry_hash (\<lambda>r. sha (GossipPeerReputationEntry_bytes_of r))
         0 genesis (gprl_entries self)"

lemma peer_reputation_bytes_inj:
  "peer_reputation_bytes prev peer_id epoch_end score reputation_class delivered churned =
      peer_reputation_bytes prev' peer_id' epoch_end' score' reputation_class' delivered' churned'
      \<longleftrightarrow>
   prev = prev' \<and> peer_id = peer_id' \<and> epoch_end = epoch_end' \<and> score = score' \<and>
       reputation_class = reputation_class' \<and> delivered = delivered' \<and> churned = churned'"
  by (auto simp: peer_reputation_bytes_def enc_simps)

definition GossipPeerReputationEntry_committed :: "GossipPeerReputationEntry \<Rightarrow> u64 \<times>
    u64 \<times> u32 \<times> ReputationClass \<times> bool \<times> bool" where
  "GossipPeerReputationEntry_committed e =
     (gpre_peer_id e, gpre_epoch_end e, gpre_score e, gpre_reputation_class e, gpre_delivered e,
         gpre_churned e)"

interpretation peer_reputation: epoch_log GossipPeerReputationEntry_bytes_of gpre_prev_hash
    gpre_entry_hash GossipPeerReputationEntry_committed
  "\<lambda>sha (peer_id, epoch_end, delivered, churned) l. GossipPeerReputationLog_record sha peer_id
      epoch_end delivered churned l"
  gprl_entries GossipPeerReputationLog_new "\<lambda>(a, b, _, _, e, f). (a, b, e, f)"
  by unfold_locales (auto simp: GossipPeerReputationLog_record_def compute_peer_reputation_hash_def
      GossipPeerReputationLog_new_def Let_def GossipPeerReputationEntry_bytes_of_def
      GossipPeerReputationEntry_committed_def peer_reputation_bytes_inj)

lemma peer_reputation_verify_iff: "GossipPeerReputationLog_verify_chain sha l = (True,
    None) \<longleftrightarrow> peer_reputation.ok sha (gprl_entries l)"
  by (simp add: GossipPeerReputationLog_verify_chain_def verify_from_iff)

section \<open>Gossip Neighbor Score Log (Gate 400)\<close>

text \<open>
  \<open>gossip_neighbor_score.rs\<close>. Per-peer per-epoch composite neighbor score combining three
  signals:
\<close>

definition NEIGHBOR_ELITE_FLOOR :: u32 where
  "NEIGHBOR_ELITE_FLOOR = 85"

definition NEIGHBOR_WEAK_CEIL :: u32 where
  "NEIGHBOR_WEAK_CEIL = 50"

datatype NeighborTier = Elite | Active | Weak

fun NeighborTier_as_u8 :: "NeighborTier \<Rightarrow> u8" where
  "NeighborTier_as_u8 NeighborTier.Elite = 0"
| "NeighborTier_as_u8 NeighborTier.Active = 1"
| "NeighborTier_as_u8 NeighborTier.Weak = 2"

lemma NeighborTier_as_u8_inj [simp]: "NeighborTier_as_u8 x = NeighborTier_as_u8 y \<longleftrightarrow>
    x = y"
  by (cases x; cases y) auto

definition NeighborTier_classify :: "u32 \<Rightarrow> NeighborTier" where
  "NeighborTier_classify score =
     (if score \<ge> NEIGHBOR_ELITE_FLOOR then NeighborTier.Elite
      else if score \<ge> NEIGHBOR_WEAK_CEIL then NeighborTier.Active
      else NeighborTier.Weak)"

record GossipNeighborScoreEntry =
  gnse_peer_id :: u64
  gnse_epoch_end :: u64
  gnse_latency_score :: u32
  gnse_reliability_score :: u32
  gnse_stability_score :: u32
  gnse_composite_score :: u32
  gnse_neighbor_tier :: NeighborTier
  gnse_entry_hash :: hash
  gnse_prev_hash :: hash

definition neighbor_score_bytes ::
  "hash \<Rightarrow> u64 \<Rightarrow> u64 \<Rightarrow> u32 \<Rightarrow> u32 \<Rightarrow> u32
      \<Rightarrow> u32 \<Rightarrow> NeighborTier \<Rightarrow> bytes" where
  "neighbor_score_bytes prev peer_id epoch_end latency_score reliability_score stability_score
      composite_score neighbor_tier =
     hash_bytes prev @ be8 peer_id @ be8 epoch_end @ be4 latency_score @ be4 reliability_score @
         be4 stability_score @ be4 composite_score @ [NeighborTier_as_u8 neighbor_tier]"

definition compute_neighbor_score_hash ::
  "sha \<Rightarrow> hash \<Rightarrow> u64 \<Rightarrow> u64 \<Rightarrow> u32 \<Rightarrow> u32
      \<Rightarrow> u32 \<Rightarrow> u32 \<Rightarrow> NeighborTier \<Rightarrow> hash" where
  "compute_neighbor_score_hash sha prev peer_id epoch_end latency_score reliability_score
      stability_score composite_score neighbor_tier =
     sha (neighbor_score_bytes prev peer_id epoch_end latency_score reliability_score stability_score
         composite_score neighbor_tier)"

record GossipNeighborScoreLog =
  gnsl_entries :: "GossipNeighborScoreEntry list"
  gnsl_peer_composites :: "(u64, u32) btmap"

definition GossipNeighborScoreLog_new :: "GossipNeighborScoreLog" where
  "GossipNeighborScoreLog_new =
     \<lparr>gnsl_entries = [], gnsl_peer_composites = bt_empty\<rparr>"

definition GossipNeighborScoreLog_entry_count :: "GossipNeighborScoreLog \<Rightarrow> nat" where
  "GossipNeighborScoreLog_entry_count self =
     length (gnsl_entries self)"

definition GossipNeighborScoreLog_latest ::
  "GossipNeighborScoreLog \<Rightarrow> GossipNeighborScoreEntry option" where
  "GossipNeighborScoreLog_latest self =
     last_opt (gnsl_entries self)"

definition GossipNeighborScoreLog_score_for ::
  "u64 \<Rightarrow> GossipNeighborScoreLog \<Rightarrow> u32" where
  "GossipNeighborScoreLog_score_for peer_id self =
     unwrap_or 0 (bt_get (gnsl_peer_composites self) peer_id)"

definition GossipNeighborScoreLog_elite_count :: "GossipNeighborScoreLog \<Rightarrow> nat" where
  "GossipNeighborScoreLog_elite_count self =
     length (filter (\<lambda>s. s \<ge> NEIGHBOR_ELITE_FLOOR) (bt_values (gnsl_peer_composites self)))"

definition GossipNeighborScoreLog_weak_count :: "GossipNeighborScoreLog \<Rightarrow> nat" where
  "GossipNeighborScoreLog_weak_count self =
     length (filter (\<lambda>s. s < NEIGHBOR_WEAK_CEIL) (bt_values (gnsl_peer_composites self)))"

definition GossipNeighborScoreLog_record ::
  "sha \<Rightarrow> u64 \<Rightarrow> u64 \<Rightarrow> u32 \<Rightarrow> u32 \<Rightarrow> u32
      \<Rightarrow> GossipNeighborScoreLog \<Rightarrow> GossipNeighborScoreEntry \<times>
      GossipNeighborScoreLog" where
  "GossipNeighborScoreLog_record sha peer_id epoch_end latency_score reliability_score stability_score
      self =
     (let composite_score = (sat_add (sat_add latency_score reliability_score) stability_score) div 3;
          neighbor_tier = NeighborTier_classify composite_score;
          self = self\<lparr>gnsl_peer_composites := bt_insert peer_id composite_score
            (gnsl_peer_composites self)\<rparr>;
          prev = last_hash gnse_entry_hash (gnsl_entries self);
          entry_hash = compute_neighbor_score_hash sha prev peer_id epoch_end latency_score
            reliability_score stability_score composite_score neighbor_tier;
          self = self\<lparr>gnsl_entries := (gnsl_entries self) @ [\<lparr>gnse_peer_id = peer_id,
            gnse_epoch_end = epoch_end, gnse_latency_score = latency_score,
            gnse_reliability_score = reliability_score, gnse_stability_score = stability_score,
            gnse_composite_score = composite_score, gnse_neighbor_tier = neighbor_tier,
            gnse_entry_hash = entry_hash, gnse_prev_hash = prev\<rparr>]\<rparr>
      in (last (gnsl_entries self), self))"

definition GossipNeighborScoreEntry_bytes_of :: "GossipNeighborScoreEntry \<Rightarrow> bytes" where
  "GossipNeighborScoreEntry_bytes_of e =
     neighbor_score_bytes (gnse_prev_hash e) (gnse_peer_id e) (gnse_epoch_end e) (gnse_latency_score e)
         (gnse_reliability_score e) (gnse_stability_score e) (gnse_composite_score e)
         (gnse_neighbor_tier e)"

definition GossipNeighborScoreLog_verify_chain ::
  "sha \<Rightarrow> GossipNeighborScoreLog \<Rightarrow> bool \<times> nat option" where
  "GossipNeighborScoreLog_verify_chain sha self =
     verify_from gnse_prev_hash gnse_entry_hash (\<lambda>r. sha (GossipNeighborScoreEntry_bytes_of r))
         0 genesis (gnsl_entries self)"

lemma neighbor_score_bytes_inj:
  "neighbor_score_bytes prev peer_id epoch_end latency_score reliability_score stability_score
      composite_score neighbor_tier = neighbor_score_bytes prev' peer_id' epoch_end' latency_score'
      reliability_score' stability_score' composite_score' neighbor_tier' \<longleftrightarrow>
   prev = prev' \<and> peer_id = peer_id' \<and> epoch_end = epoch_end' \<and> latency_score =
       latency_score' \<and> reliability_score = reliability_score' \<and> stability_score =
       stability_score' \<and> composite_score = composite_score' \<and> neighbor_tier = neighbor_tier'"
  by (auto simp: neighbor_score_bytes_def enc_simps)

definition GossipNeighborScoreEntry_committed :: "GossipNeighborScoreEntry \<Rightarrow> u64 \<times>
    u64 \<times> u32 \<times> u32 \<times> u32 \<times> u32 \<times> NeighborTier" where
  "GossipNeighborScoreEntry_committed e =
     (gnse_peer_id e, gnse_epoch_end e, gnse_latency_score e, gnse_reliability_score e,
         gnse_stability_score e, gnse_composite_score e, gnse_neighbor_tier e)"

interpretation neighbor_score: epoch_log GossipNeighborScoreEntry_bytes_of gnse_prev_hash
    gnse_entry_hash GossipNeighborScoreEntry_committed
  "\<lambda>sha (peer_id, epoch_end, latency_score, reliability_score,
      stability_score) l. GossipNeighborScoreLog_record sha peer_id epoch_end latency_score
      reliability_score stability_score l"
  gnsl_entries GossipNeighborScoreLog_new "\<lambda>(a, b, c, d, e, _, _). (a, b, c, d, e)"
  by unfold_locales (auto simp: GossipNeighborScoreLog_record_def compute_neighbor_score_hash_def
      GossipNeighborScoreLog_new_def Let_def GossipNeighborScoreEntry_bytes_of_def
      GossipNeighborScoreEntry_committed_def neighbor_score_bytes_inj)

lemma neighbor_score_verify_iff: "GossipNeighborScoreLog_verify_chain sha l = (True,
    None) \<longleftrightarrow> neighbor_score.ok sha (gnsl_entries l)"
  by (simp add: GossipNeighborScoreLog_verify_chain_def verify_from_iff)

section \<open>Gossip Reachability Map (Gate 387)\<close>

text \<open>
  \<open>gossip_reachability.rs\<close>. Tracks per-peer reachability status (Reachable / Unreachable)
  per epoch in a hash-chained event log. Provides aggregate reachable/unreachable peer counts across
  the entire event history.
\<close>

record GossipReachabilityEvent =
  gre_peer_id :: u64
  gre_epoch :: u64
  gre_reachable :: bool
  gre_event_hash :: hash
  gre_prev_hash :: hash

definition reach_bytes ::
  "hash \<Rightarrow> u64 \<Rightarrow> u64 \<Rightarrow> bool \<Rightarrow> bytes" where
  "reach_bytes prev peer_id epoch reachable =
     hash_bytes prev @ be8 peer_id @ be8 epoch @ [of_bool reachable]"

definition compute_reach_hash ::
  "sha \<Rightarrow> hash \<Rightarrow> u64 \<Rightarrow> u64 \<Rightarrow> bool \<Rightarrow> hash"
      where
  "compute_reach_hash sha prev peer_id epoch reachable =
     sha (reach_bytes prev peer_id epoch reachable)"

record GossipReachabilityLog =
  grl_events :: "GossipReachabilityEvent list"
  grl_status :: "(u64, bool) btmap"

definition GossipReachabilityLog_new :: "GossipReachabilityLog" where
  "GossipReachabilityLog_new =
     \<lparr>grl_events = [], grl_status = bt_empty\<rparr>"

definition GossipReachabilityLog_event_count :: "GossipReachabilityLog \<Rightarrow> nat" where
  "GossipReachabilityLog_event_count self =
     length (grl_events self)"

definition GossipReachabilityLog_latest ::
  "GossipReachabilityLog \<Rightarrow> GossipReachabilityEvent option" where
  "GossipReachabilityLog_latest self =
     last_opt (grl_events self)"

definition GossipReachabilityLog_is_reachable ::
  "u64 \<Rightarrow> GossipReachabilityLog \<Rightarrow> bool option" where
  "GossipReachabilityLog_is_reachable peer_id self =
     bt_get (grl_status self) peer_id"

definition GossipReachabilityLog_reachable_count :: "GossipReachabilityLog \<Rightarrow> nat" where
  "GossipReachabilityLog_reachable_count self =
     length (filter (\<lambda>x. x) (bt_values (grl_status self)))"

definition GossipReachabilityLog_unreachable_count :: "GossipReachabilityLog \<Rightarrow> nat" where
  "GossipReachabilityLog_unreachable_count self =
     length (filter (\<lambda>r. \<not> r) (bt_values (grl_status self)))"

definition GossipReachabilityLog_record_event ::
  "sha \<Rightarrow> u64 \<Rightarrow> u64 \<Rightarrow> bool \<Rightarrow> GossipReachabilityLog
      \<Rightarrow> GossipReachabilityEvent \<times> GossipReachabilityLog" where
  "GossipReachabilityLog_record_event sha peer_id epoch reachable self =
     (let self = self\<lparr>grl_status := bt_insert peer_id reachable (grl_status self)\<rparr>;
          prev = last_hash gre_event_hash (grl_events self);
          event_hash = compute_reach_hash sha prev peer_id epoch reachable;
          self = self\<lparr>grl_events := (grl_events self) @ [\<lparr>gre_peer_id = peer_id,
            gre_epoch = epoch, gre_reachable = reachable, gre_event_hash = event_hash,
            gre_prev_hash = prev\<rparr>]\<rparr>
      in (last (grl_events self), self))"

definition GossipReachabilityLog_mark_reachable ::
  "sha \<Rightarrow> u64 \<Rightarrow> u64 \<Rightarrow> GossipReachabilityLog \<Rightarrow>
      GossipReachabilityEvent \<times> GossipReachabilityLog" where
  "GossipReachabilityLog_mark_reachable sha peer_id epoch self =
     (let (result, self) = GossipReachabilityLog_record_event sha peer_id epoch True self
      in (result, self))"

definition GossipReachabilityLog_mark_unreachable ::
  "sha \<Rightarrow> u64 \<Rightarrow> u64 \<Rightarrow> GossipReachabilityLog \<Rightarrow>
      GossipReachabilityEvent \<times> GossipReachabilityLog" where
  "GossipReachabilityLog_mark_unreachable sha peer_id epoch self =
     (let (result, self) = GossipReachabilityLog_record_event sha peer_id epoch False self
      in (result, self))"

definition GossipReachabilityEvent_bytes_of :: "GossipReachabilityEvent \<Rightarrow> bytes" where
  "GossipReachabilityEvent_bytes_of e =
     reach_bytes (gre_prev_hash e) (gre_peer_id e) (gre_epoch e) (gre_reachable e)"

definition GossipReachabilityLog_verify_chain ::
  "sha \<Rightarrow> GossipReachabilityLog \<Rightarrow> bool \<times> nat option" where
  "GossipReachabilityLog_verify_chain sha self =
     verify_from gre_prev_hash gre_event_hash (\<lambda>r. sha (GossipReachabilityEvent_bytes_of r)) 0
         genesis (grl_events self)"

lemma reach_bytes_inj:
  "reach_bytes prev peer_id epoch reachable = reach_bytes prev' peer_id' epoch' reachable'
      \<longleftrightarrow>
   prev = prev' \<and> peer_id = peer_id' \<and> epoch = epoch' \<and> reachable = reachable'"
  by (auto simp: reach_bytes_def enc_simps)

definition GossipReachabilityEvent_committed :: "GossipReachabilityEvent \<Rightarrow> u64 \<times> u64
    \<times> bool" where
  "GossipReachabilityEvent_committed e =
     (gre_peer_id e, gre_epoch e, gre_reachable e)"

interpretation reachability: epoch_log GossipReachabilityEvent_bytes_of gre_prev_hash gre_event_hash
    GossipReachabilityEvent_committed
  "\<lambda>sha (peer_id, epoch, reachable) l. GossipReachabilityLog_record_event sha peer_id epoch
      reachable l"
  grl_events GossipReachabilityLog_new "\<lambda>c. c"
  by unfold_locales (auto simp: GossipReachabilityLog_record_event_def compute_reach_hash_def
      GossipReachabilityLog_new_def Let_def GossipReachabilityEvent_bytes_of_def
      GossipReachabilityEvent_committed_def reach_bytes_inj)

lemma reachability_verify_iff: "GossipReachabilityLog_verify_chain sha l = (True,
    None) \<longleftrightarrow> reachability.ok sha (grl_events l)"
  by (simp add: GossipReachabilityLog_verify_chain_def verify_from_iff)

section \<open>Gossip Connection Pool Log (Gate 409)\<close>

text \<open>
  \<open>gossip_connection_pool.rs\<close>. Per-epoch tracking of the gossip connection pool state.
\<close>

definition POOL_UTILIZATION_FLOOR :: u32 where
  "POOL_UTILIZATION_FLOOR = 30"

record GossipConnectionPoolEntry =
  gcpe_epoch_end :: u64
  gcpe_pool_size :: u32
  gcpe_active_count :: u32
  gcpe_idle_count :: u32
  gcpe_utilization_pct :: u32
  gcpe_underutilized :: bool
  gcpe_entry_hash :: hash
  gcpe_prev_hash :: hash

definition connection_pool_bytes ::
  "hash \<Rightarrow> u64 \<Rightarrow> u32 \<Rightarrow> u32 \<Rightarrow> u32 \<Rightarrow> u32
      \<Rightarrow> bool \<Rightarrow> bytes" where
  "connection_pool_bytes prev epoch_end pool_size active_count idle_count utilization_pct underutilized
      =
     hash_bytes prev @ be8 epoch_end @ be4 pool_size @ be4 active_count @ be4 idle_count @
         be4 utilization_pct @ [of_bool underutilized]"

definition compute_connection_pool_hash ::
  "sha \<Rightarrow> hash \<Rightarrow> u64 \<Rightarrow> u32 \<Rightarrow> u32 \<Rightarrow> u32
      \<Rightarrow> u32 \<Rightarrow> bool \<Rightarrow> hash" where
  "compute_connection_pool_hash sha prev epoch_end pool_size active_count idle_count utilization_pct
      underutilized =
     sha (connection_pool_bytes prev epoch_end pool_size active_count idle_count utilization_pct
         underutilized)"

record GossipConnectionPoolLog =
  gcpl_entries :: "GossipConnectionPoolEntry list"

definition GossipConnectionPoolLog_new :: "GossipConnectionPoolLog" where
  "GossipConnectionPoolLog_new =
     \<lparr>gcpl_entries = []\<rparr>"

definition GossipConnectionPoolLog_entry_count :: "GossipConnectionPoolLog \<Rightarrow> nat" where
  "GossipConnectionPoolLog_entry_count self =
     length (gcpl_entries self)"

definition GossipConnectionPoolLog_latest ::
  "GossipConnectionPoolLog \<Rightarrow> GossipConnectionPoolEntry option" where
  "GossipConnectionPoolLog_latest self =
     last_opt (gcpl_entries self)"

definition GossipConnectionPoolLog_max_pool_size :: "GossipConnectionPoolLog \<Rightarrow> u32" where
  "GossipConnectionPoolLog_max_pool_size self =
     unwrap_or 0 (list_max (map gcpe_pool_size (gcpl_entries self)))"

definition GossipConnectionPoolLog_underutilized_count ::
  "GossipConnectionPoolLog \<Rightarrow> nat" where
  "GossipConnectionPoolLog_underutilized_count self =
     length (filter gcpe_underutilized (gcpl_entries self))"

definition GossipConnectionPoolLog_min_utilization_pct ::
  "GossipConnectionPoolLog \<Rightarrow> u32" where
  "GossipConnectionPoolLog_min_utilization_pct self =
     unwrap_or 100 (list_min (map gcpe_utilization_pct (gcpl_entries self)))"

definition GossipConnectionPoolLog_record ::
  "sha \<Rightarrow> u64 \<Rightarrow> u32 \<Rightarrow> u32 \<Rightarrow> GossipConnectionPoolLog
      \<Rightarrow> GossipConnectionPoolEntry \<times> GossipConnectionPoolLog" where
  "GossipConnectionPoolLog_record sha epoch_end pool_size active_count self =
     (let idle_count = sat_sub pool_size active_count;
          utilization_pct = (ucast (((ucast active_count :: u64) * 100) div (ucast (max pool_size 1) ::
            u64)) :: u32);
          underutilized = utilization_pct < POOL_UTILIZATION_FLOOR;
          prev = last_hash gcpe_entry_hash (gcpl_entries self);
          entry_hash = compute_connection_pool_hash sha prev epoch_end pool_size active_count idle_count
            utilization_pct underutilized;
          self = self\<lparr>gcpl_entries := (gcpl_entries self) @ [\<lparr>gcpe_epoch_end = epoch_end,
            gcpe_pool_size = pool_size, gcpe_active_count = active_count, gcpe_idle_count = idle_count,
            gcpe_utilization_pct = utilization_pct, gcpe_underutilized = underutilized,
            gcpe_entry_hash = entry_hash, gcpe_prev_hash = prev\<rparr>]\<rparr>
      in (last (gcpl_entries self), self))"

definition GossipConnectionPoolEntry_bytes_of :: "GossipConnectionPoolEntry \<Rightarrow> bytes" where
  "GossipConnectionPoolEntry_bytes_of e =
     connection_pool_bytes (gcpe_prev_hash e) (gcpe_epoch_end e) (gcpe_pool_size e) (gcpe_active_count
         e) (gcpe_idle_count e) (gcpe_utilization_pct e) (gcpe_underutilized e)"

definition GossipConnectionPoolLog_verify_chain ::
  "sha \<Rightarrow> GossipConnectionPoolLog \<Rightarrow> bool \<times> nat option" where
  "GossipConnectionPoolLog_verify_chain sha self =
     verify_from gcpe_prev_hash gcpe_entry_hash (\<lambda>r. sha (GossipConnectionPoolEntry_bytes_of r))
         0 genesis (gcpl_entries self)"

lemma connection_pool_bytes_inj:
  "connection_pool_bytes prev epoch_end pool_size active_count idle_count utilization_pct underutilized
      = connection_pool_bytes prev' epoch_end' pool_size' active_count' idle_count' utilization_pct'
      underutilized' \<longleftrightarrow>
   prev = prev' \<and> epoch_end = epoch_end' \<and> pool_size = pool_size' \<and> active_count =
       active_count' \<and> idle_count = idle_count' \<and> utilization_pct = utilization_pct' \<and>
       underutilized = underutilized'"
  by (auto simp: connection_pool_bytes_def enc_simps)

definition GossipConnectionPoolEntry_committed :: "GossipConnectionPoolEntry \<Rightarrow> u64 \<times>
    u32 \<times> u32 \<times> u32 \<times> u32 \<times> bool" where
  "GossipConnectionPoolEntry_committed e =
     (gcpe_epoch_end e, gcpe_pool_size e, gcpe_active_count e, gcpe_idle_count e,
         gcpe_utilization_pct e, gcpe_underutilized e)"

interpretation connection_pool: epoch_log GossipConnectionPoolEntry_bytes_of gcpe_prev_hash
    gcpe_entry_hash GossipConnectionPoolEntry_committed
  "\<lambda>sha (epoch_end, pool_size, active_count) l. GossipConnectionPoolLog_record sha epoch_end
      pool_size active_count l"
  gcpl_entries GossipConnectionPoolLog_new "\<lambda>(a, b, c, _, _, _). (a, b, c)"
  by unfold_locales (auto simp: GossipConnectionPoolLog_record_def compute_connection_pool_hash_def
      GossipConnectionPoolLog_new_def Let_def GossipConnectionPoolEntry_bytes_of_def
      GossipConnectionPoolEntry_committed_def connection_pool_bytes_inj)

lemma connection_pool_verify_iff: "GossipConnectionPoolLog_verify_chain sha l = (True,
    None) \<longleftrightarrow> connection_pool.ok sha (gcpl_entries l)"
  by (simp add: GossipConnectionPoolLog_verify_chain_def verify_from_iff)

lemma connection_pool_flag_iff:
  "active_count \<le> pool_size \<Longrightarrow>
   gcpe_underutilized (fst (GossipConnectionPoolLog_record sha epoch_end pool_size active_count l))
       \<longleftrightarrow> 100 * unat active_count < 30 * max (unat pool_size) 1"
  by (simp add: GossipConnectionPoolLog_record_def POOL_UTILIZATION_FLOOR_def Let_def pct_comparisons)

section \<open>Gossip Topology Change Detector (Gate 389)\<close>

text \<open>
  \<open>gossip_topology_change.rs\<close>. Detects changes in the gossip peer topology between
  epochs. A topology change is any epoch where the peer count differs from the previous epoch. Tracks
  the delta (signed, represented as i32) and a changed flag per epoch in a hash-chained log.
\<close>

record GossipTopologyChangeEntry =
  gtce_epoch_end :: u64
  gtce_peer_count :: u32
  gtce_delta :: i32
  gtce_changed :: bool
  gtce_entry_hash :: hash
  gtce_prev_hash :: hash

definition topology_bytes ::
  "hash \<Rightarrow> u64 \<Rightarrow> u32 \<Rightarrow> i32 \<Rightarrow> bool \<Rightarrow> bytes"
      where
  "topology_bytes prev epoch_end peer_count delta_v changed =
     hash_bytes prev @ be8 epoch_end @ be4 peer_count @ be4 delta_v @ [of_bool changed]"

definition compute_topology_hash ::
  "sha \<Rightarrow> hash \<Rightarrow> u64 \<Rightarrow> u32 \<Rightarrow> i32 \<Rightarrow> bool
      \<Rightarrow> hash" where
  "compute_topology_hash sha prev epoch_end peer_count delta_v changed =
     sha (topology_bytes prev epoch_end peer_count delta_v changed)"

record GossipTopologyChangeLog =
  gtcl_entries :: "GossipTopologyChangeEntry list"
  gtcl_last_peer_count :: "u32 option"

definition GossipTopologyChangeLog_new :: "GossipTopologyChangeLog" where
  "GossipTopologyChangeLog_new =
     \<lparr>gtcl_entries = [], gtcl_last_peer_count = None\<rparr>"

definition GossipTopologyChangeLog_entry_count :: "GossipTopologyChangeLog \<Rightarrow> nat" where
  "GossipTopologyChangeLog_entry_count self =
     length (gtcl_entries self)"

definition GossipTopologyChangeLog_latest ::
  "GossipTopologyChangeLog \<Rightarrow> GossipTopologyChangeEntry option" where
  "GossipTopologyChangeLog_latest self =
     last_opt (gtcl_entries self)"

definition GossipTopologyChangeLog_change_count :: "GossipTopologyChangeLog \<Rightarrow> nat" where
  "GossipTopologyChangeLog_change_count self =
     length (filter gtce_changed (gtcl_entries self))"

definition GossipTopologyChangeLog_max_peer_count :: "GossipTopologyChangeLog \<Rightarrow> u32" where
  "GossipTopologyChangeLog_max_peer_count self =
     unwrap_or 0 (list_max (map gtce_peer_count (gtcl_entries self)))"

definition GossipTopologyChangeLog_record ::
  "sha \<Rightarrow> u64 \<Rightarrow> u32 \<Rightarrow> GossipTopologyChangeLog \<Rightarrow>
      GossipTopologyChangeEntry \<times> GossipTopologyChangeLog" where
  "GossipTopologyChangeLog_record sha epoch_end peer_count self =
     (let delta_v = (case gtcl_last_peer_count self of None \<Rightarrow> 0 | Some p \<Rightarrow>
         peer_count - p);
          changed = delta_v \<noteq> 0;
          self = self\<lparr>gtcl_last_peer_count := Some peer_count\<rparr>;
          prev = last_hash gtce_entry_hash (gtcl_entries self);
          entry_hash = compute_topology_hash sha prev epoch_end peer_count delta_v changed;
          self = self\<lparr>gtcl_entries := (gtcl_entries self) @ [\<lparr>gtce_epoch_end = epoch_end,
            gtce_peer_count = peer_count, gtce_delta = delta_v, gtce_changed = changed,
            gtce_entry_hash = entry_hash, gtce_prev_hash = prev\<rparr>]\<rparr>
      in (last (gtcl_entries self), self))"

definition GossipTopologyChangeEntry_bytes_of :: "GossipTopologyChangeEntry \<Rightarrow> bytes" where
  "GossipTopologyChangeEntry_bytes_of e =
     topology_bytes (gtce_prev_hash e) (gtce_epoch_end e) (gtce_peer_count e) (gtce_delta e)
         (gtce_changed e)"

definition GossipTopologyChangeLog_verify_chain ::
  "sha \<Rightarrow> GossipTopologyChangeLog \<Rightarrow> bool \<times> nat option" where
  "GossipTopologyChangeLog_verify_chain sha self =
     verify_from gtce_prev_hash gtce_entry_hash (\<lambda>r. sha (GossipTopologyChangeEntry_bytes_of r))
         0 genesis (gtcl_entries self)"

lemma topology_bytes_inj:
  "topology_bytes prev epoch_end peer_count delta_v changed = topology_bytes prev' epoch_end'
      peer_count' delta_v' changed' \<longleftrightarrow>
   prev = prev' \<and> epoch_end = epoch_end' \<and> peer_count = peer_count' \<and> delta_v = delta_v'
       \<and> changed = changed'"
  by (auto simp: topology_bytes_def enc_simps)

definition GossipTopologyChangeEntry_committed :: "GossipTopologyChangeEntry \<Rightarrow> u64 \<times>
    u32 \<times> i32 \<times> bool" where
  "GossipTopologyChangeEntry_committed e =
     (gtce_epoch_end e, gtce_peer_count e, gtce_delta e, gtce_changed e)"

interpretation topology_change: epoch_log GossipTopologyChangeEntry_bytes_of gtce_prev_hash
    gtce_entry_hash GossipTopologyChangeEntry_committed
  "\<lambda>sha (epoch_end, peer_count) l. GossipTopologyChangeLog_record sha epoch_end peer_count l"
  gtcl_entries GossipTopologyChangeLog_new "\<lambda>(a, b, _, _). (a, b)"
  by unfold_locales (auto simp: GossipTopologyChangeLog_record_def compute_topology_hash_def
      GossipTopologyChangeLog_new_def Let_def GossipTopologyChangeEntry_bytes_of_def
      GossipTopologyChangeEntry_committed_def topology_bytes_inj)

lemma topology_change_verify_iff: "GossipTopologyChangeLog_verify_chain sha l = (True,
    None) \<longleftrightarrow> topology_change.ok sha (gtcl_entries l)"
  by (simp add: GossipTopologyChangeLog_verify_chain_def verify_from_iff)

section \<open>Gossip Fanout Tracker (Gate 378)\<close>

text \<open>
  \<open>gossip_fanout_tracker.rs\<close>. Tracks how widely each epoch's gossip broadcast has spread
  across the registered peer network. Records per-epoch fanout metrics in a hash-chained FanoutLog.
\<close>

record GossipFanoutEntry =
  gfe_epoch_end :: u64
  gfe_total_peers :: u32
  gfe_reached_peers :: u32
  gfe_coverage_pct :: u32
  gfe_entry_hash :: hash
  gfe_prev_hash :: hash

definition fanout_bytes ::
  "hash \<Rightarrow> u64 \<Rightarrow> u32 \<Rightarrow> u32 \<Rightarrow> u32 \<Rightarrow> bytes"
      where
  "fanout_bytes prev epoch_end total_peers reached_peers coverage_pct =
     hash_bytes prev @ be8 epoch_end @ be4 total_peers @ be4 reached_peers @ be4 coverage_pct"

definition compute_fanout_hash ::
  "sha \<Rightarrow> hash \<Rightarrow> u64 \<Rightarrow> u32 \<Rightarrow> u32 \<Rightarrow> u32
      \<Rightarrow> hash" where
  "compute_fanout_hash sha prev epoch_end total_peers reached_peers coverage_pct =
     sha (fanout_bytes prev epoch_end total_peers reached_peers coverage_pct)"

record GossipFanoutLog_tracker =
  gfl_entries :: "GossipFanoutEntry list"

definition GossipFanoutLog_tracker_new :: "GossipFanoutLog_tracker" where
  "GossipFanoutLog_tracker_new =
     \<lparr>gfl_entries = []\<rparr>"

definition GossipFanoutLog_tracker_entry_count :: "GossipFanoutLog_tracker \<Rightarrow> nat" where
  "GossipFanoutLog_tracker_entry_count self =
     length (gfl_entries self)"

definition GossipFanoutLog_tracker_latest ::
  "GossipFanoutLog_tracker \<Rightarrow> GossipFanoutEntry option" where
  "GossipFanoutLog_tracker_latest self =
     last_opt (gfl_entries self)"

definition GossipFanoutLog_tracker_full_coverage_count ::
  "GossipFanoutLog_tracker \<Rightarrow> nat" where
  "GossipFanoutLog_tracker_full_coverage_count self =
     length (filter (\<lambda>e. (gfe_coverage_pct e) = 100) (gfl_entries self))"

definition GossipFanoutLog_tracker_average_coverage_pct ::
  "GossipFanoutLog_tracker \<Rightarrow> u32" where
  "GossipFanoutLog_tracker_average_coverage_pct self =
     (if (gfl_entries self) = [] then 0
      else (let sum_v = sum_list (map (\<lambda>e. (ucast (gfe_coverage_pct e) :: u64)) (gfl_entries
          self))
      in (ucast (sum_v div (of_nat (length (gfl_entries self)) :: u64)) :: u32)))"

definition GossipFanoutLog_tracker_record ::
  "sha \<Rightarrow> u64 \<Rightarrow> u32 \<Rightarrow> u32 \<Rightarrow> GossipFanoutLog_tracker
      \<Rightarrow> GossipFanoutEntry \<times> GossipFanoutLog_tracker" where
  "GossipFanoutLog_tracker_record sha epoch_end total_peers reached_peers self =
     (let coverage_pct = (if total_peers = 0 then 0 else (ucast (((ucast reached_peers :: u64) * 100)
         div (ucast total_peers :: u64)) :: u32));
          prev = last_hash gfe_entry_hash (gfl_entries self);
          entry_hash = compute_fanout_hash sha prev epoch_end total_peers reached_peers coverage_pct;
          self = self\<lparr>gfl_entries := (gfl_entries self) @ [\<lparr>gfe_epoch_end = epoch_end,
            gfe_total_peers = total_peers, gfe_reached_peers = reached_peers,
            gfe_coverage_pct = coverage_pct, gfe_entry_hash = entry_hash,
            gfe_prev_hash = prev\<rparr>]\<rparr>
      in (last (gfl_entries self), self))"

definition GossipFanoutEntry_bytes_of :: "GossipFanoutEntry \<Rightarrow> bytes" where
  "GossipFanoutEntry_bytes_of e =
     fanout_bytes (gfe_prev_hash e) (gfe_epoch_end e) (gfe_total_peers e) (gfe_reached_peers e)
         (gfe_coverage_pct e)"

definition GossipFanoutLog_tracker_verify_chain ::
  "sha \<Rightarrow> GossipFanoutLog_tracker \<Rightarrow> bool \<times> nat option" where
  "GossipFanoutLog_tracker_verify_chain sha self =
     verify_from gfe_prev_hash gfe_entry_hash (\<lambda>r. sha (GossipFanoutEntry_bytes_of r)) 0 genesis
         (gfl_entries self)"

lemma fanout_bytes_inj:
  "fanout_bytes prev epoch_end total_peers reached_peers coverage_pct = fanout_bytes prev' epoch_end'
      total_peers' reached_peers' coverage_pct' \<longleftrightarrow>
   prev = prev' \<and> epoch_end = epoch_end' \<and> total_peers = total_peers' \<and> reached_peers =
       reached_peers' \<and> coverage_pct = coverage_pct'"
  by (auto simp: fanout_bytes_def enc_simps)

definition GossipFanoutEntry_committed :: "GossipFanoutEntry \<Rightarrow> u64 \<times> u32 \<times> u32
    \<times> u32" where
  "GossipFanoutEntry_committed e =
     (gfe_epoch_end e, gfe_total_peers e, gfe_reached_peers e, gfe_coverage_pct e)"

interpretation fanout_tracker: epoch_log GossipFanoutEntry_bytes_of gfe_prev_hash gfe_entry_hash
    GossipFanoutEntry_committed
  "\<lambda>sha (epoch_end, total_peers, reached_peers) l. GossipFanoutLog_tracker_record sha epoch_end
      total_peers reached_peers l"
  gfl_entries GossipFanoutLog_tracker_new "\<lambda>(a, b, c, _). (a, b, c)"
  by unfold_locales (auto simp: GossipFanoutLog_tracker_record_def compute_fanout_hash_def
      GossipFanoutLog_tracker_new_def Let_def GossipFanoutEntry_bytes_of_def
      GossipFanoutEntry_committed_def fanout_bytes_inj)

lemma fanout_tracker_verify_iff: "GossipFanoutLog_tracker_verify_chain sha l = (True,
    None) \<longleftrightarrow> fanout_tracker.ok sha (gfl_entries l)"
  by (simp add: GossipFanoutLog_tracker_verify_chain_def verify_from_iff)

section \<open>Gossip Fanout Epoch Log (Gate 401)\<close>

text \<open>
  \<open>gossip_fanout_epoch.rs\<close>. Per-epoch tracking of gossip fanout - how many peers each
  message was forwarded to on average. Fanout drives network coverage vs. bandwidth cost.
\<close>

definition FANOUT_HIGH_THRESHOLD :: u32 where
  "FANOUT_HIGH_THRESHOLD = 600"

definition FANOUT_LOW_THRESHOLD :: u32 where
  "FANOUT_LOW_THRESHOLD = 200"

record GossipFanoutEpochEntry =
  gfee_epoch_end :: u64
  gfee_total_forwards :: u32
  gfee_total_messages :: u32
  gfee_mean_fanout_x100 :: u32
  gfee_high_fanout :: bool
  gfee_low_fanout :: bool
  gfee_entry_hash :: hash
  gfee_prev_hash :: hash

definition fanout_epoch_bytes ::
  "hash \<Rightarrow> u64 \<Rightarrow> u32 \<Rightarrow> u32 \<Rightarrow> u32 \<Rightarrow> bool
      \<Rightarrow> bool \<Rightarrow> bytes" where
  "fanout_epoch_bytes prev epoch_end total_forwards total_messages mean_fanout_x100 high_fanout
      low_fanout =
     hash_bytes prev @ be8 epoch_end @ be4 total_forwards @ be4 total_messages @ be4 mean_fanout_x100 @
         [of_bool high_fanout] @ [of_bool low_fanout]"

definition compute_fanout_epoch_hash ::
  "sha \<Rightarrow> hash \<Rightarrow> u64 \<Rightarrow> u32 \<Rightarrow> u32 \<Rightarrow> u32
      \<Rightarrow> bool \<Rightarrow> bool \<Rightarrow> hash" where
  "compute_fanout_epoch_hash sha prev epoch_end total_forwards total_messages mean_fanout_x100
      high_fanout low_fanout =
     sha (fanout_epoch_bytes prev epoch_end total_forwards total_messages mean_fanout_x100 high_fanout
         low_fanout)"

record GossipFanoutEpochLog =
  gfel_entries :: "GossipFanoutEpochEntry list"

definition GossipFanoutEpochLog_new :: "GossipFanoutEpochLog" where
  "GossipFanoutEpochLog_new =
     \<lparr>gfel_entries = []\<rparr>"

definition GossipFanoutEpochLog_entry_count :: "GossipFanoutEpochLog \<Rightarrow> nat" where
  "GossipFanoutEpochLog_entry_count self =
     length (gfel_entries self)"

definition GossipFanoutEpochLog_latest ::
  "GossipFanoutEpochLog \<Rightarrow> GossipFanoutEpochEntry option" where
  "GossipFanoutEpochLog_latest self =
     last_opt (gfel_entries self)"

definition GossipFanoutEpochLog_total_forwards_all :: "GossipFanoutEpochLog \<Rightarrow> u64" where
  "GossipFanoutEpochLog_total_forwards_all self =
     sum_list (map (\<lambda>e. (ucast (gfee_total_forwards e) :: u64)) (gfel_entries self))"

definition GossipFanoutEpochLog_total_messages_all :: "GossipFanoutEpochLog \<Rightarrow> u64" where
  "GossipFanoutEpochLog_total_messages_all self =
     sum_list (map (\<lambda>e. (ucast (gfee_total_messages e) :: u64)) (gfel_entries self))"

definition GossipFanoutEpochLog_high_fanout_count :: "GossipFanoutEpochLog \<Rightarrow> nat" where
  "GossipFanoutEpochLog_high_fanout_count self =
     length (filter gfee_high_fanout (gfel_entries self))"

definition GossipFanoutEpochLog_low_fanout_count :: "GossipFanoutEpochLog \<Rightarrow> nat" where
  "GossipFanoutEpochLog_low_fanout_count self =
     length (filter gfee_low_fanout (gfel_entries self))"

definition GossipFanoutEpochLog_max_mean_fanout_x100 :: "GossipFanoutEpochLog \<Rightarrow> u32" where
  "GossipFanoutEpochLog_max_mean_fanout_x100 self =
     unwrap_or 0 (list_max (map gfee_mean_fanout_x100 (gfel_entries self)))"

definition GossipFanoutEpochLog_record ::
  "sha \<Rightarrow> u64 \<Rightarrow> u32 \<Rightarrow> u32 \<Rightarrow> GossipFanoutEpochLog
      \<Rightarrow> GossipFanoutEpochEntry \<times> GossipFanoutEpochLog" where
  "GossipFanoutEpochLog_record sha epoch_end total_forwards total_messages self =
     (let denom = (ucast (max total_messages 1) :: u64);
          mean_fanout_x100 = (ucast (((ucast total_forwards :: u64) * 100) div denom) :: u32);
          high_fanout = mean_fanout_x100 \<ge> FANOUT_HIGH_THRESHOLD;
          low_fanout = mean_fanout_x100 < FANOUT_LOW_THRESHOLD;
          prev = last_hash gfee_entry_hash (gfel_entries self);
          entry_hash = compute_fanout_epoch_hash sha prev epoch_end total_forwards total_messages
            mean_fanout_x100 high_fanout low_fanout;
          self = self\<lparr>gfel_entries := (gfel_entries self) @ [\<lparr>gfee_epoch_end = epoch_end,
            gfee_total_forwards = total_forwards, gfee_total_messages = total_messages,
            gfee_mean_fanout_x100 = mean_fanout_x100, gfee_high_fanout = high_fanout,
            gfee_low_fanout = low_fanout, gfee_entry_hash = entry_hash,
            gfee_prev_hash = prev\<rparr>]\<rparr>
      in (last (gfel_entries self), self))"

definition GossipFanoutEpochEntry_bytes_of :: "GossipFanoutEpochEntry \<Rightarrow> bytes" where
  "GossipFanoutEpochEntry_bytes_of e =
     fanout_epoch_bytes (gfee_prev_hash e) (gfee_epoch_end e) (gfee_total_forwards e)
         (gfee_total_messages e) (gfee_mean_fanout_x100 e) (gfee_high_fanout e) (gfee_low_fanout e)"

definition GossipFanoutEpochLog_verify_chain ::
  "sha \<Rightarrow> GossipFanoutEpochLog \<Rightarrow> bool \<times> nat option" where
  "GossipFanoutEpochLog_verify_chain sha self =
     verify_from gfee_prev_hash gfee_entry_hash (\<lambda>r. sha (GossipFanoutEpochEntry_bytes_of r)) 0
         genesis (gfel_entries self)"

lemma fanout_epoch_bytes_inj:
  "fanout_epoch_bytes prev epoch_end total_forwards total_messages mean_fanout_x100 high_fanout
      low_fanout = fanout_epoch_bytes prev' epoch_end' total_forwards' total_messages' mean_fanout_x100'
      high_fanout' low_fanout' \<longleftrightarrow>
   prev = prev' \<and> epoch_end = epoch_end' \<and> total_forwards = total_forwards' \<and>
       total_messages = total_messages' \<and> mean_fanout_x100 = mean_fanout_x100' \<and> high_fanout =
       high_fanout' \<and> low_fanout = low_fanout'"
  by (auto simp: fanout_epoch_bytes_def enc_simps)

definition GossipFanoutEpochEntry_committed :: "GossipFanoutEpochEntry \<Rightarrow> u64 \<times> u32
    \<times> u32 \<times> u32 \<times> bool \<times> bool" where
  "GossipFanoutEpochEntry_committed e =
     (gfee_epoch_end e, gfee_total_forwards e, gfee_total_messages e, gfee_mean_fanout_x100 e,
         gfee_high_fanout e, gfee_low_fanout e)"

interpretation fanout_epoch: epoch_log GossipFanoutEpochEntry_bytes_of gfee_prev_hash gfee_entry_hash
    GossipFanoutEpochEntry_committed
  "\<lambda>sha (epoch_end, total_forwards, total_messages) l. GossipFanoutEpochLog_record sha epoch_end
      total_forwards total_messages l"
  gfel_entries GossipFanoutEpochLog_new "\<lambda>(a, b, c, _, _, _). (a, b, c)"
  by unfold_locales (auto simp: GossipFanoutEpochLog_record_def compute_fanout_epoch_hash_def
      GossipFanoutEpochLog_new_def Let_def GossipFanoutEpochEntry_bytes_of_def
      GossipFanoutEpochEntry_committed_def fanout_epoch_bytes_inj)

lemma fanout_epoch_verify_iff: "GossipFanoutEpochLog_verify_chain sha l = (True,
    None) \<longleftrightarrow> fanout_epoch.ok sha (gfel_entries l)"
  by (simp add: GossipFanoutEpochLog_verify_chain_def verify_from_iff)

section \<open>Gossip Backpressure Signal (Gate 388)\<close>

text \<open>
  \<open>gossip_backpressure.rs\<close>. Records whether the gossip pipeline experienced backpressure
  during each epoch. Backpressure is signalled when the pending frame queue depth exceeds a threshold.
  Tracks the depth and a binary under_pressure flag per epoch in a hash-chained log.
\<close>

record GossipBackpressureEntry =
  gbe_epoch_end :: u64
  gbe_queue_depth :: u32
  gbe_threshold :: u32
  gbe_under_pressure :: bool
  gbe_entry_hash :: hash
  gbe_prev_hash :: hash

definition backpressure_bytes ::
  "hash \<Rightarrow> u64 \<Rightarrow> u32 \<Rightarrow> u32 \<Rightarrow> bool \<Rightarrow> bytes"
      where
  "backpressure_bytes prev epoch_end queue_depth threshold under_pressure =
     hash_bytes prev @ be8 epoch_end @ be4 queue_depth @ be4 threshold @ [of_bool under_pressure]"

definition compute_backpressure_hash ::
  "sha \<Rightarrow> hash \<Rightarrow> u64 \<Rightarrow> u32 \<Rightarrow> u32 \<Rightarrow> bool
      \<Rightarrow> hash" where
  "compute_backpressure_hash sha prev epoch_end queue_depth threshold under_pressure =
     sha (backpressure_bytes prev epoch_end queue_depth threshold under_pressure)"

record GossipBackpressureLog =
  gbl_entries :: "GossipBackpressureEntry list"

definition GossipBackpressureLog_new :: "GossipBackpressureLog" where
  "GossipBackpressureLog_new =
     \<lparr>gbl_entries = []\<rparr>"

definition GossipBackpressureLog_entry_count :: "GossipBackpressureLog \<Rightarrow> nat" where
  "GossipBackpressureLog_entry_count self =
     length (gbl_entries self)"

definition GossipBackpressureLog_latest ::
  "GossipBackpressureLog \<Rightarrow> GossipBackpressureEntry option" where
  "GossipBackpressureLog_latest self =
     last_opt (gbl_entries self)"

definition GossipBackpressureLog_pressure_epoch_count :: "GossipBackpressureLog \<Rightarrow> nat" where
  "GossipBackpressureLog_pressure_epoch_count self =
     length (filter gbe_under_pressure (gbl_entries self))"

definition GossipBackpressureLog_max_queue_depth :: "GossipBackpressureLog \<Rightarrow> u32" where
  "GossipBackpressureLog_max_queue_depth self =
     unwrap_or 0 (list_max (map gbe_queue_depth (gbl_entries self)))"

definition GossipBackpressureLog_record ::
  "sha \<Rightarrow> u64 \<Rightarrow> u32 \<Rightarrow> u32 \<Rightarrow> GossipBackpressureLog
      \<Rightarrow> GossipBackpressureEntry \<times> GossipBackpressureLog" where
  "GossipBackpressureLog_record sha epoch_end queue_depth threshold self =
     (let under_pressure = queue_depth > threshold;
          prev = last_hash gbe_entry_hash (gbl_entries self);
          entry_hash = compute_backpressure_hash sha prev epoch_end queue_depth threshold
            under_pressure;
          self = self\<lparr>gbl_entries := (gbl_entries self) @ [\<lparr>gbe_epoch_end = epoch_end,
            gbe_queue_depth = queue_depth, gbe_threshold = threshold,
            gbe_under_pressure = under_pressure, gbe_entry_hash = entry_hash,
            gbe_prev_hash = prev\<rparr>]\<rparr>
      in (last (gbl_entries self), self))"

definition GossipBackpressureEntry_bytes_of :: "GossipBackpressureEntry \<Rightarrow> bytes" where
  "GossipBackpressureEntry_bytes_of e =
     backpressure_bytes (gbe_prev_hash e) (gbe_epoch_end e) (gbe_queue_depth e) (gbe_threshold e)
         (gbe_under_pressure e)"

definition GossipBackpressureLog_verify_chain ::
  "sha \<Rightarrow> GossipBackpressureLog \<Rightarrow> bool \<times> nat option" where
  "GossipBackpressureLog_verify_chain sha self =
     verify_from gbe_prev_hash gbe_entry_hash (\<lambda>r. sha (GossipBackpressureEntry_bytes_of r)) 0
         genesis (gbl_entries self)"

lemma backpressure_bytes_inj:
  "backpressure_bytes prev epoch_end queue_depth threshold under_pressure = backpressure_bytes prev'
      epoch_end' queue_depth' threshold' under_pressure' \<longleftrightarrow>
   prev = prev' \<and> epoch_end = epoch_end' \<and> queue_depth = queue_depth' \<and> threshold =
       threshold' \<and> under_pressure = under_pressure'"
  by (auto simp: backpressure_bytes_def enc_simps)

definition GossipBackpressureEntry_committed :: "GossipBackpressureEntry \<Rightarrow> u64 \<times> u32
    \<times> u32 \<times> bool" where
  "GossipBackpressureEntry_committed e =
     (gbe_epoch_end e, gbe_queue_depth e, gbe_threshold e, gbe_under_pressure e)"

interpretation backpressure: epoch_log GossipBackpressureEntry_bytes_of gbe_prev_hash gbe_entry_hash
    GossipBackpressureEntry_committed
  "\<lambda>sha (epoch_end, queue_depth, threshold) l. GossipBackpressureLog_record sha epoch_end
      queue_depth threshold l"
  gbl_entries GossipBackpressureLog_new "\<lambda>(a, b, c, _). (a, b, c)"
  by unfold_locales (auto simp: GossipBackpressureLog_record_def compute_backpressure_hash_def
      GossipBackpressureLog_new_def Let_def GossipBackpressureEntry_bytes_of_def
      GossipBackpressureEntry_committed_def backpressure_bytes_inj)

lemma backpressure_verify_iff: "GossipBackpressureLog_verify_chain sha l = (True,
    None) \<longleftrightarrow> backpressure.ok sha (gbl_entries l)"
  by (simp add: GossipBackpressureLog_verify_chain_def verify_from_iff)

section \<open>Gossip Backpressure Epoch Log (Gate 396)\<close>

text \<open>
  \<open>gossip_backpressure_epoch.rs\<close>. Tracks per-epoch gossip backpressure event counts. A
  backpressure event occurs when the gossip send queue is full and a frame must be dropped or delayed.
  high_pressure = pressure_events >= BACKPRESSURE_SATURATION_THRESHOLD.
\<close>

definition BACKPRESSURE_SATURATION_THRESHOLD :: u32 where
  "BACKPRESSURE_SATURATION_THRESHOLD = 10"

record GossipBackpressureEpochEntry =
  gbee_epoch_end :: u64
  gbee_pressure_events :: u32
  gbee_high_pressure :: bool
  gbee_entry_hash :: hash
  gbee_prev_hash :: hash

definition backpressure_epoch_bytes ::
  "hash \<Rightarrow> u64 \<Rightarrow> u32 \<Rightarrow> bool \<Rightarrow> bytes" where
  "backpressure_epoch_bytes prev epoch_end pressure_events high_pressure =
     hash_bytes prev @ be8 epoch_end @ be4 pressure_events @ [of_bool high_pressure]"

definition compute_backpressure_epoch_hash ::
  "sha \<Rightarrow> hash \<Rightarrow> u64 \<Rightarrow> u32 \<Rightarrow> bool \<Rightarrow> hash"
      where
  "compute_backpressure_epoch_hash sha prev epoch_end pressure_events high_pressure =
     sha (backpressure_epoch_bytes prev epoch_end pressure_events high_pressure)"

record GossipBackpressureEpochLog =
  gbel_entries :: "GossipBackpressureEpochEntry list"

definition GossipBackpressureEpochLog_new :: "GossipBackpressureEpochLog" where
  "GossipBackpressureEpochLog_new =
     \<lparr>gbel_entries = []\<rparr>"

definition GossipBackpressureEpochLog_entry_count ::
  "GossipBackpressureEpochLog \<Rightarrow> nat" where
  "GossipBackpressureEpochLog_entry_count self =
     length (gbel_entries self)"

definition GossipBackpressureEpochLog_latest ::
  "GossipBackpressureEpochLog \<Rightarrow> GossipBackpressureEpochEntry option" where
  "GossipBackpressureEpochLog_latest self =
     last_opt (gbel_entries self)"

definition GossipBackpressureEpochLog_total_pressure_events ::
  "GossipBackpressureEpochLog \<Rightarrow> u64" where
  "GossipBackpressureEpochLog_total_pressure_events self =
     sum_list (map (\<lambda>e. (ucast (gbee_pressure_events e) :: u64)) (gbel_entries self))"

definition GossipBackpressureEpochLog_high_pressure_count ::
  "GossipBackpressureEpochLog \<Rightarrow> nat" where
  "GossipBackpressureEpochLog_high_pressure_count self =
     length (filter gbee_high_pressure (gbel_entries self))"

definition GossipBackpressureEpochLog_max_pressure_events ::
  "GossipBackpressureEpochLog \<Rightarrow> u32" where
  "GossipBackpressureEpochLog_max_pressure_events self =
     unwrap_or 0 (list_max (map gbee_pressure_events (gbel_entries self)))"

definition GossipBackpressureEpochLog_record ::
  "sha \<Rightarrow> u64 \<Rightarrow> u32 \<Rightarrow> GossipBackpressureEpochLog \<Rightarrow>
      GossipBackpressureEpochEntry \<times> GossipBackpressureEpochLog" where
  "GossipBackpressureEpochLog_record sha epoch_end pressure_events self =
     (let high_pressure = pressure_events \<ge> BACKPRESSURE_SATURATION_THRESHOLD;
          prev = last_hash gbee_entry_hash (gbel_entries self);
          entry_hash = compute_backpressure_epoch_hash sha prev epoch_end pressure_events high_pressure;
          self = self\<lparr>gbel_entries := (gbel_entries self) @ [\<lparr>gbee_epoch_end = epoch_end,
            gbee_pressure_events = pressure_events, gbee_high_pressure = high_pressure,
            gbee_entry_hash = entry_hash, gbee_prev_hash = prev\<rparr>]\<rparr>
      in (last (gbel_entries self), self))"

definition GossipBackpressureEpochEntry_bytes_of ::
  "GossipBackpressureEpochEntry \<Rightarrow> bytes" where
  "GossipBackpressureEpochEntry_bytes_of e =
     backpressure_epoch_bytes (gbee_prev_hash e) (gbee_epoch_end e) (gbee_pressure_events e)
         (gbee_high_pressure e)"

definition GossipBackpressureEpochLog_verify_chain ::
  "sha \<Rightarrow> GossipBackpressureEpochLog \<Rightarrow> bool \<times> nat option" where
  "GossipBackpressureEpochLog_verify_chain sha self =
     verify_from gbee_prev_hash gbee_entry_hash (\<lambda>r. sha (GossipBackpressureEpochEntry_bytes_of
         r)) 0 genesis (gbel_entries self)"

lemma backpressure_epoch_bytes_inj:
  "backpressure_epoch_bytes prev epoch_end pressure_events high_pressure = backpressure_epoch_bytes
      prev' epoch_end' pressure_events' high_pressure' \<longleftrightarrow>
   prev = prev' \<and> epoch_end = epoch_end' \<and> pressure_events = pressure_events' \<and>
       high_pressure = high_pressure'"
  by (auto simp: backpressure_epoch_bytes_def enc_simps)

definition GossipBackpressureEpochEntry_committed :: "GossipBackpressureEpochEntry \<Rightarrow> u64
    \<times> u32 \<times> bool" where
  "GossipBackpressureEpochEntry_committed e =
     (gbee_epoch_end e, gbee_pressure_events e, gbee_high_pressure e)"

interpretation backpressure_epoch: epoch_log GossipBackpressureEpochEntry_bytes_of gbee_prev_hash
    gbee_entry_hash GossipBackpressureEpochEntry_committed
  "\<lambda>sha (epoch_end, pressure_events) l. GossipBackpressureEpochLog_record sha epoch_end
      pressure_events l"
  gbel_entries GossipBackpressureEpochLog_new "\<lambda>(a, b, _). (a, b)"
  by unfold_locales (auto simp: GossipBackpressureEpochLog_record_def
      compute_backpressure_epoch_hash_def GossipBackpressureEpochLog_new_def Let_def
      GossipBackpressureEpochEntry_bytes_of_def GossipBackpressureEpochEntry_committed_def
      backpressure_epoch_bytes_inj)

lemma backpressure_epoch_verify_iff: "GossipBackpressureEpochLog_verify_chain sha l = (True,
    None) \<longleftrightarrow> backpressure_epoch.ok sha (gbel_entries l)"
  by (simp add: GossipBackpressureEpochLog_verify_chain_def verify_from_iff)

end
