(* ===== verification/Gossip_Delivery_Logs.thy ===== *)
theory Gossip_Delivery_Logs
  imports Epoch_Log
begin

text \<open>
  The logs that follow what becomes of messages from epoch to epoch: frames and their sizes, rates and
  jitter, latencies and acknowledgments, retransmissions, drops and duplicates, queues and windows.
\<close>

section \<open>Gossip Delivery Ratio Tracker (Gate 392)\<close>

text \<open>
  \<open>gossip_delivery_ratio.rs\<close>. Tracks the ratio of successfully delivered frames to total
  dispatched frames per epoch. delivery_ratio_pct = floor(delivered * 100 / max(dispatched, 1)).
  Classifies each epoch as: Full (100%), Partial (>=50%), Poor (<50%).
\<close>

datatype DeliveryClass = Full | Partial | Poor

fun DeliveryClass_as_u8 :: "DeliveryClass \<Rightarrow> u8" where
  "DeliveryClass_as_u8 DeliveryClass.Full = 0"
| "DeliveryClass_as_u8 DeliveryClass.Partial = 1"
| "DeliveryClass_as_u8 DeliveryClass.Poor = 2"

lemma DeliveryClass_as_u8_inj [simp]: "DeliveryClass_as_u8 x = DeliveryClass_as_u8 y
    \<longleftrightarrow> x = y"
  by (cases x; cases y) auto

definition DeliveryClass_classify :: "u32 \<Rightarrow> DeliveryClass" where
  "DeliveryClass_classify ratio_pct =
     (if ratio_pct = 100 then DeliveryClass.Full
      else if ratio_pct \<ge> 50 then DeliveryClass.Partial
      else DeliveryClass.Poor)"

record GossipDeliveryRatioEntry =
  gdre_epoch_end :: u64
  gdre_dispatched :: u32
  gdre_delivered :: u32
  gdre_delivery_ratio_pct :: u32
  gdre_class :: DeliveryClass
  gdre_entry_hash :: hash
  gdre_prev_hash :: hash

definition delivery_ratio_bytes ::
  "hash \<Rightarrow> u64 \<Rightarrow> u32 \<Rightarrow> u32 \<Rightarrow> u32 \<Rightarrow>
      DeliveryClass \<Rightarrow> bytes" where
  "delivery_ratio_bytes prev epoch_end dispatched delivered delivery_ratio_pct class_v =
     hash_bytes prev @ be8 epoch_end @ be4 dispatched @ be4 delivered @ be4 delivery_ratio_pct @
         [DeliveryClass_as_u8 class_v]"

definition compute_delivery_ratio_hash ::
  "sha \<Rightarrow> hash \<Rightarrow> u64 \<Rightarrow> u32 \<Rightarrow> u32 \<Rightarrow> u32
      \<Rightarrow> DeliveryClass \<Rightarrow> hash" where
  "compute_delivery_ratio_hash sha prev epoch_end dispatched delivered delivery_ratio_pct class_v =
     sha (delivery_ratio_bytes prev epoch_end dispatched delivered delivery_ratio_pct class_v)"

record GossipDeliveryRatioLog =
  gdrl_entries :: "GossipDeliveryRatioEntry list"

definition GossipDeliveryRatioLog_new :: "GossipDeliveryRatioLog" where
  "GossipDeliveryRatioLog_new =
     \<lparr>gdrl_entries = []\<rparr>"

definition GossipDeliveryRatioLog_entry_count :: "GossipDeliveryRatioLog \<Rightarrow> nat" where
  "GossipDeliveryRatioLog_entry_count self =
     length (gdrl_entries self)"

definition GossipDeliveryRatioLog_latest ::
  "GossipDeliveryRatioLog \<Rightarrow> GossipDeliveryRatioEntry option" where
  "GossipDeliveryRatioLog_latest self =
     last_opt (gdrl_entries self)"

definition GossipDeliveryRatioLog_full_count :: "GossipDeliveryRatioLog \<Rightarrow> nat" where
  "GossipDeliveryRatioLog_full_count self =
     length (filter (\<lambda>e. (gdre_class e) = DeliveryClass.Full) (gdrl_entries self))"

definition GossipDeliveryRatioLog_partial_count :: "GossipDeliveryRatioLog \<Rightarrow> nat" where
  "GossipDeliveryRatioLog_partial_count self =
     length (filter (\<lambda>e. (gdre_class e) = DeliveryClass.Partial) (gdrl_entries self))"

definition GossipDeliveryRatioLog_poor_count :: "GossipDeliveryRatioLog \<Rightarrow> nat" where
  "GossipDeliveryRatioLog_poor_count self =
     length (filter (\<lambda>e. (gdre_class e) = DeliveryClass.Poor) (gdrl_entries self))"

definition GossipDeliveryRatioLog_average_ratio_pct :: "GossipDeliveryRatioLog \<Rightarrow> u32" where
  "GossipDeliveryRatioLog_average_ratio_pct self =
     (if (gdrl_entries self) = [] then 0
      else (let sum_v = sum_list (map gdre_delivery_ratio_pct (gdrl_entries self))
      in sum_v div (of_nat (length (gdrl_entries self)) :: u32)))"

definition GossipDeliveryRatioLog_record ::
  "sha \<Rightarrow> u64 \<Rightarrow> u32 \<Rightarrow> u32 \<Rightarrow> GossipDeliveryRatioLog
      \<Rightarrow> GossipDeliveryRatioEntry \<times> GossipDeliveryRatioLog" where
  "GossipDeliveryRatioLog_record sha epoch_end dispatched delivered self =
     (let delivered = min delivered dispatched;
          delivery_ratio_pct = (ucast (((ucast delivered :: u64) * 100) div (ucast (max dispatched 1) ::
            u64)) :: u32);
          class_v = DeliveryClass_classify delivery_ratio_pct;
          prev = last_hash gdre_entry_hash (gdrl_entries self);
          entry_hash = compute_delivery_ratio_hash sha prev epoch_end dispatched delivered
            delivery_ratio_pct class_v;
          self = self\<lparr>gdrl_entries := (gdrl_entries self) @ [\<lparr>gdre_epoch_end = epoch_end,
            gdre_dispatched = dispatched, gdre_delivered = delivered,
            gdre_delivery_ratio_pct = delivery_ratio_pct, gdre_class = class_v,
            gdre_entry_hash = entry_hash, gdre_prev_hash = prev\<rparr>]\<rparr>
      in (last (gdrl_entries self), self))"

definition GossipDeliveryRatioEntry_bytes_of :: "GossipDeliveryRatioEntry \<Rightarrow> bytes" where
  "GossipDeliveryRatioEntry_bytes_of e =
     delivery_ratio_bytes (gdre_prev_hash e) (gdre_epoch_end e) (gdre_dispatched e) (gdre_delivered e)
         (gdre_delivery_ratio_pct e) (gdre_class e)"

definition GossipDeliveryRatioLog_verify_chain ::
  "sha \<Rightarrow> GossipDeliveryRatioLog \<Rightarrow> bool \<times> nat option" where
  "GossipDeliveryRatioLog_verify_chain sha self =
     verify_from gdre_prev_hash gdre_entry_hash (\<lambda>r. sha (GossipDeliveryRatioEntry_bytes_of r))
         0 genesis (gdrl_entries self)"

lemma delivery_ratio_bytes_inj:
  "delivery_ratio_bytes prev epoch_end dispatched delivered delivery_ratio_pct class_v =
      delivery_ratio_bytes prev' epoch_end' dispatched' delivered' delivery_ratio_pct' class_v'
      \<longleftrightarrow>
   prev = prev' \<and> epoch_end = epoch_end' \<and> dispatched = dispatched' \<and> delivered =
       delivered' \<and> delivery_ratio_pct = delivery_ratio_pct' \<and> class_v = class_v'"
  by (auto simp: delivery_ratio_bytes_def enc_simps)

definition GossipDeliveryRatioEntry_committed :: "GossipDeliveryRatioEntry \<Rightarrow> u64 \<times>
    u32 \<times> u32 \<times> u32 \<times> DeliveryClass" where
  "GossipDeliveryRatioEntry_committed e =
     (gdre_epoch_end e, gdre_dispatched e, gdre_delivered e, gdre_delivery_ratio_pct e, gdre_class e)"

interpretation delivery_ratio: hash_log GossipDeliveryRatioEntry_bytes_of gdre_prev_hash gdre_entry_hash
    GossipDeliveryRatioEntry_committed
  by unfold_locales (auto simp: GossipDeliveryRatioEntry_bytes_of_def
      GossipDeliveryRatioEntry_committed_def delivery_ratio_bytes_inj)

lemma delivery_ratio_verify_iff: "GossipDeliveryRatioLog_verify_chain sha l = (True,
    None) \<longleftrightarrow> delivery_ratio.ok sha (gdrl_entries l)"
  by (simp add: GossipDeliveryRatioLog_verify_chain_def verify_from_iff)

lemma gossip_delivery_ratio_log_record_ok: "delivery_ratio.ok sha (gdrl_entries l) \<Longrightarrow>
    delivery_ratio.ok sha (gdrl_entries (snd (GossipDeliveryRatioLog_record sha epoch_end dispatched
    delivered l)))"
  by (simp add: Let_def split_def GossipDeliveryRatioLog_record_def compute_delivery_ratio_hash_def
      GossipDeliveryRatioEntry_bytes_of_def split: option.split sum.split)

section \<open>Gossip Drop Rate Tracker (Gate 385)\<close>

text \<open>
  \<open>gossip_drop_rate.rs\<close>. Tracks the per-epoch frame drop rate - the fraction of
  dispatched frames that were not successfully delivered. Represented as an integer percentage (floor
  division, no f64).
\<close>

record GossipDropRateEntry =
  gdre2_epoch_end :: u64
  gdre2_dispatched :: u32
  gdre2_dropped :: u32
  gdre2_drop_pct :: u32
  gdre2_entry_hash :: hash
  gdre2_prev_hash :: hash

definition drop_bytes ::
  "hash \<Rightarrow> u64 \<Rightarrow> u32 \<Rightarrow> u32 \<Rightarrow> u32 \<Rightarrow> bytes"
      where
  "drop_bytes prev epoch_end dispatched dropped drop_pct =
     hash_bytes prev @ be8 epoch_end @ be4 dispatched @ be4 dropped @ be4 drop_pct"

definition compute_drop_hash ::
  "sha \<Rightarrow> hash \<Rightarrow> u64 \<Rightarrow> u32 \<Rightarrow> u32 \<Rightarrow> u32
      \<Rightarrow> hash" where
  "compute_drop_hash sha prev epoch_end dispatched dropped drop_pct =
     sha (drop_bytes prev epoch_end dispatched dropped drop_pct)"

record GossipDropRateLog =
  gdrl2_entries :: "GossipDropRateEntry list"

definition GossipDropRateLog_new :: "GossipDropRateLog" where
  "GossipDropRateLog_new =
     \<lparr>gdrl2_entries = []\<rparr>"

definition GossipDropRateLog_entry_count :: "GossipDropRateLog \<Rightarrow> nat" where
  "GossipDropRateLog_entry_count self =
     length (gdrl2_entries self)"

definition GossipDropRateLog_latest ::
  "GossipDropRateLog \<Rightarrow> GossipDropRateEntry option" where
  "GossipDropRateLog_latest self =
     last_opt (gdrl2_entries self)"

definition GossipDropRateLog_high_drop_count ::
  "u32 \<Rightarrow> GossipDropRateLog \<Rightarrow> nat" where
  "GossipDropRateLog_high_drop_count threshold_pct self =
     length (filter (\<lambda>e. (gdre2_drop_pct e) \<ge> threshold_pct) (gdrl2_entries self))"

definition GossipDropRateLog_average_drop_pct :: "GossipDropRateLog \<Rightarrow> u32" where
  "GossipDropRateLog_average_drop_pct self =
     (if (gdrl2_entries self) = [] then 0
      else (let sum_v = sum_list (map (\<lambda>e. (ucast (gdre2_drop_pct e) :: u64)) (gdrl2_entries
          self))
      in (ucast (sum_v div (of_nat (length (gdrl2_entries self)) :: u64)) :: u32)))"

definition GossipDropRateLog_record ::
  "sha \<Rightarrow> u64 \<Rightarrow> u32 \<Rightarrow> u32 \<Rightarrow> GossipDropRateLog
      \<Rightarrow> GossipDropRateEntry \<times> GossipDropRateLog" where
  "GossipDropRateLog_record sha epoch_end dispatched delivered self =
     (let dropped = sat_sub dispatched delivered;
          drop_pct = (if dispatched = 0 then 0 else (ucast (((ucast dropped :: u64) * 100) div (ucast
            dispatched :: u64)) :: u32));
          prev = last_hash gdre2_entry_hash (gdrl2_entries self);
          entry_hash = compute_drop_hash sha prev epoch_end dispatched dropped drop_pct;
          self = self\<lparr>gdrl2_entries := (gdrl2_entries self) @
            [\<lparr>gdre2_epoch_end = epoch_end, gdre2_dispatched = dispatched,
            gdre2_dropped = dropped, gdre2_drop_pct = drop_pct, gdre2_entry_hash = entry_hash,
            gdre2_prev_hash = prev\<rparr>]\<rparr>
      in (last (gdrl2_entries self), self))"

definition GossipDropRateEntry_bytes_of :: "GossipDropRateEntry \<Rightarrow> bytes" where
  "GossipDropRateEntry_bytes_of e =
     drop_bytes (gdre2_prev_hash e) (gdre2_epoch_end e) (gdre2_dispatched e) (gdre2_dropped e)
         (gdre2_drop_pct e)"

definition GossipDropRateLog_verify_chain ::
  "sha \<Rightarrow> GossipDropRateLog \<Rightarrow> bool \<times> nat option" where
  "GossipDropRateLog_verify_chain sha self =
     verify_from gdre2_prev_hash gdre2_entry_hash (\<lambda>r. sha (GossipDropRateEntry_bytes_of r)) 0
         genesis (gdrl2_entries self)"

lemma drop_bytes_inj:
  "drop_bytes prev epoch_end dispatched dropped drop_pct = drop_bytes prev' epoch_end' dispatched'
      dropped' drop_pct' \<longleftrightarrow>
   prev = prev' \<and> epoch_end = epoch_end' \<and> dispatched = dispatched' \<and> dropped = dropped'
       \<and> drop_pct = drop_pct'"
  by (auto simp: drop_bytes_def enc_simps)

definition GossipDropRateEntry_committed :: "GossipDropRateEntry \<Rightarrow> u64 \<times> u32 \<times>
    u32 \<times> u32" where
  "GossipDropRateEntry_committed e =
     (gdre2_epoch_end e, gdre2_dispatched e, gdre2_dropped e, gdre2_drop_pct e)"

interpretation drop_rate: hash_log GossipDropRateEntry_bytes_of gdre2_prev_hash gdre2_entry_hash
    GossipDropRateEntry_committed
  by unfold_locales (auto simp: GossipDropRateEntry_bytes_of_def GossipDropRateEntry_committed_def
      drop_bytes_inj)

lemma drop_rate_verify_iff: "GossipDropRateLog_verify_chain sha l = (True,
    None) \<longleftrightarrow> drop_rate.ok sha (gdrl2_entries l)"
  by (simp add: GossipDropRateLog_verify_chain_def verify_from_iff)

lemma gossip_drop_rate_log_record_ok: "drop_rate.ok sha (gdrl2_entries l) \<Longrightarrow> drop_rate.ok
    sha (gdrl2_entries (snd (GossipDropRateLog_record sha epoch_end dispatched delivered l)))"
  by (simp add: Let_def split_def GossipDropRateLog_record_def compute_drop_hash_def
      GossipDropRateEntry_bytes_of_def split: option.split sum.split)

section \<open>Gossip Retransmit Counter (Gate 390)\<close>

text \<open>
  \<open>gossip_retransmit.rs\<close>. Tracks per-epoch gossip retransmit attempts - frames re-sent
  after an initial delivery failure. High retransmit counts indicate persistent delivery problems for
  specific peers.
\<close>

record GossipRetransmitEntry =
  gre2_epoch_end :: u64
  gre2_peer_id :: u64
  gre2_retransmit_count :: u32
  gre2_entry_hash :: hash
  gre2_prev_hash :: hash

definition retransmit_bytes ::
  "hash \<Rightarrow> u64 \<Rightarrow> u64 \<Rightarrow> u32 \<Rightarrow> bytes" where
  "retransmit_bytes prev epoch_end peer_id retransmit_count =
     hash_bytes prev @ be8 epoch_end @ be8 peer_id @ be4 retransmit_count"

definition compute_retransmit_hash ::
  "sha \<Rightarrow> hash \<Rightarrow> u64 \<Rightarrow> u64 \<Rightarrow> u32 \<Rightarrow> hash"
      where
  "compute_retransmit_hash sha prev epoch_end peer_id retransmit_count =
     sha (retransmit_bytes prev epoch_end peer_id retransmit_count)"

record GossipRetransmitLog =
  grl2_entries :: "GossipRetransmitEntry list"
  grl2_peer_totals :: "(u64, u64) btmap"

definition GossipRetransmitLog_new :: "GossipRetransmitLog" where
  "GossipRetransmitLog_new =
     \<lparr>grl2_entries = [], grl2_peer_totals = bt_empty\<rparr>"

definition GossipRetransmitLog_entry_count :: "GossipRetransmitLog \<Rightarrow> nat" where
  "GossipRetransmitLog_entry_count self =
     length (grl2_entries self)"

definition GossipRetransmitLog_latest ::
  "GossipRetransmitLog \<Rightarrow> GossipRetransmitEntry option" where
  "GossipRetransmitLog_latest self =
     last_opt (grl2_entries self)"

definition GossipRetransmitLog_total_retransmits :: "GossipRetransmitLog \<Rightarrow> u64" where
  "GossipRetransmitLog_total_retransmits self =
     sum_list (map (\<lambda>e. (ucast (gre2_retransmit_count e) :: u64)) (grl2_entries self))"

definition GossipRetransmitLog_max_retransmits :: "GossipRetransmitLog \<Rightarrow> u32" where
  "GossipRetransmitLog_max_retransmits self =
     unwrap_or 0 (list_max (map gre2_retransmit_count (grl2_entries self)))"

definition GossipRetransmitLog_peer_total ::
  "u64 \<Rightarrow> GossipRetransmitLog \<Rightarrow> u64" where
  "GossipRetransmitLog_peer_total peer_id self =
     unwrap_or 0 (bt_get (grl2_peer_totals self) peer_id)"

definition GossipRetransmitLog_record ::
  "sha \<Rightarrow> u64 \<Rightarrow> u64 \<Rightarrow> u32 \<Rightarrow> GossipRetransmitLog
      \<Rightarrow> GossipRetransmitEntry \<times> GossipRetransmitLog" where
  "GossipRetransmitLog_record sha epoch_end peer_id retransmit_count self =
     (let self = self\<lparr>grl2_peer_totals := bt_insert peer_id (bt_get_or 0 (grl2_peer_totals self)
         peer_id + (ucast retransmit_count :: u64)) (grl2_peer_totals self)\<rparr>;
          prev = last_hash gre2_entry_hash (grl2_entries self);
          entry_hash = compute_retransmit_hash sha prev epoch_end peer_id retransmit_count;
          self = self\<lparr>grl2_entries := (grl2_entries self) @ [\<lparr>gre2_epoch_end = epoch_end,
            gre2_peer_id = peer_id, gre2_retransmit_count = retransmit_count,
            gre2_entry_hash = entry_hash, gre2_prev_hash = prev\<rparr>]\<rparr>
      in (last (grl2_entries self), self))"

definition GossipRetransmitEntry_bytes_of :: "GossipRetransmitEntry \<Rightarrow> bytes" where
  "GossipRetransmitEntry_bytes_of e =
     retransmit_bytes (gre2_prev_hash e) (gre2_epoch_end e) (gre2_peer_id e) (gre2_retransmit_count e)"

definition GossipRetransmitLog_verify_chain ::
  "sha \<Rightarrow> GossipRetransmitLog \<Rightarrow> bool \<times> nat option" where
  "GossipRetransmitLog_verify_chain sha self =
     verify_from gre2_prev_hash gre2_entry_hash (\<lambda>r. sha (GossipRetransmitEntry_bytes_of r)) 0
         genesis (grl2_entries self)"

lemma retransmit_bytes_inj:
  "retransmit_bytes prev epoch_end peer_id retransmit_count = retransmit_bytes prev' epoch_end' peer_id'
      retransmit_count' \<longleftrightarrow>
   prev = prev' \<and> epoch_end = epoch_end' \<and> peer_id = peer_id' \<and> retransmit_count =
       retransmit_count'"
  by (auto simp: retransmit_bytes_def enc_simps)

definition GossipRetransmitEntry_committed :: "GossipRetransmitEntry \<Rightarrow> u64 \<times> u64
    \<times> u32" where
  "GossipRetransmitEntry_committed e =
     (gre2_epoch_end e, gre2_peer_id e, gre2_retransmit_count e)"

interpretation retransmit: epoch_log GossipRetransmitEntry_bytes_of gre2_prev_hash gre2_entry_hash
    GossipRetransmitEntry_committed
  "\<lambda>sha (epoch_end, peer_id, retransmit_count) l. GossipRetransmitLog_record sha epoch_end
      peer_id retransmit_count l"
  grl2_entries GossipRetransmitLog_new "\<lambda>c. c"
  by unfold_locales (auto simp: GossipRetransmitLog_record_def compute_retransmit_hash_def
      GossipRetransmitLog_new_def Let_def GossipRetransmitEntry_bytes_of_def
      GossipRetransmitEntry_committed_def retransmit_bytes_inj)

lemma retransmit_verify_iff: "GossipRetransmitLog_verify_chain sha l = (True,
    None) \<longleftrightarrow> retransmit.ok sha (grl2_entries l)"
  by (simp add: GossipRetransmitLog_verify_chain_def verify_from_iff)

section \<open>Gossip Deduplication Window Log (Gate 399)\<close>

text \<open>
  \<open>gossip_dedup_window.rs\<close>. Per-epoch tracking of duplicate gossip messages detected. A
  duplicate is a message whose ID was already seen earlier in the same epoch window.
\<close>

definition DUP_SATURATION_THRESHOLD :: u32 where
  "DUP_SATURATION_THRESHOLD = 25"

record GossipDedupWindowEntry =
  gdwe_epoch_end :: u64
  gdwe_seen_count :: u32
  gdwe_dup_count :: u32
  gdwe_dup_ratio_pct :: u32
  gdwe_high_dup :: bool
  gdwe_entry_hash :: hash
  gdwe_prev_hash :: hash

definition dedup_window_bytes ::
  "hash \<Rightarrow> u64 \<Rightarrow> u32 \<Rightarrow> u32 \<Rightarrow> u32 \<Rightarrow> bool
      \<Rightarrow> bytes" where
  "dedup_window_bytes prev epoch_end seen_count dup_count dup_ratio_pct high_dup =
     hash_bytes prev @ be8 epoch_end @ be4 seen_count @ be4 dup_count @ be4 dup_ratio_pct @
         [of_bool high_dup]"

definition compute_dedup_window_hash ::
  "sha \<Rightarrow> hash \<Rightarrow> u64 \<Rightarrow> u32 \<Rightarrow> u32 \<Rightarrow> u32
      \<Rightarrow> bool \<Rightarrow> hash" where
  "compute_dedup_window_hash sha prev epoch_end seen_count dup_count dup_ratio_pct high_dup =
     sha (dedup_window_bytes prev epoch_end seen_count dup_count dup_ratio_pct high_dup)"

record GossipDedupWindowLog =
  gdwl_entries :: "GossipDedupWindowEntry list"

definition GossipDedupWindowLog_new :: "GossipDedupWindowLog" where
  "GossipDedupWindowLog_new =
     \<lparr>gdwl_entries = []\<rparr>"

definition GossipDedupWindowLog_entry_count :: "GossipDedupWindowLog \<Rightarrow> nat" where
  "GossipDedupWindowLog_entry_count self =
     length (gdwl_entries self)"

definition GossipDedupWindowLog_latest ::
  "GossipDedupWindowLog \<Rightarrow> GossipDedupWindowEntry option" where
  "GossipDedupWindowLog_latest self =
     last_opt (gdwl_entries self)"

definition GossipDedupWindowLog_total_seen :: "GossipDedupWindowLog \<Rightarrow> u64" where
  "GossipDedupWindowLog_total_seen self =
     sum_list (map (\<lambda>e. (ucast (gdwe_seen_count e) :: u64)) (gdwl_entries self))"

definition GossipDedupWindowLog_total_dup :: "GossipDedupWindowLog \<Rightarrow> u64" where
  "GossipDedupWindowLog_total_dup self =
     sum_list (map (\<lambda>e. (ucast (gdwe_dup_count e) :: u64)) (gdwl_entries self))"

definition GossipDedupWindowLog_high_dup_count :: "GossipDedupWindowLog \<Rightarrow> nat" where
  "GossipDedupWindowLog_high_dup_count self =
     length (filter gdwe_high_dup (gdwl_entries self))"

definition GossipDedupWindowLog_max_dup_ratio_pct :: "GossipDedupWindowLog \<Rightarrow> u32" where
  "GossipDedupWindowLog_max_dup_ratio_pct self =
     unwrap_or 0 (list_max (map gdwe_dup_ratio_pct (gdwl_entries self)))"

definition GossipDedupWindowLog_record ::
  "sha \<Rightarrow> u64 \<Rightarrow> u32 \<Rightarrow> u32 \<Rightarrow> GossipDedupWindowLog
      \<Rightarrow> GossipDedupWindowEntry \<times> GossipDedupWindowLog" where
  "GossipDedupWindowLog_record sha epoch_end seen_count dup_count self =
     (let total_v = max (sat_add seen_count dup_count) 1;
          dup_ratio_pct = (ucast (((ucast dup_count :: u64) * 100) div (ucast total_v :: u64)) :: u32);
          high_dup = dup_ratio_pct \<ge> DUP_SATURATION_THRESHOLD;
          prev = last_hash gdwe_entry_hash (gdwl_entries self);
          entry_hash = compute_dedup_window_hash sha prev epoch_end seen_count dup_count dup_ratio_pct
            high_dup;
          self = self\<lparr>gdwl_entries := (gdwl_entries self) @ [\<lparr>gdwe_epoch_end = epoch_end,
            gdwe_seen_count = seen_count, gdwe_dup_count = dup_count,
            gdwe_dup_ratio_pct = dup_ratio_pct, gdwe_high_dup = high_dup, gdwe_entry_hash = entry_hash,
            gdwe_prev_hash = prev\<rparr>]\<rparr>
      in (last (gdwl_entries self), self))"

definition GossipDedupWindowEntry_bytes_of :: "GossipDedupWindowEntry \<Rightarrow> bytes" where
  "GossipDedupWindowEntry_bytes_of e =
     dedup_window_bytes (gdwe_prev_hash e) (gdwe_epoch_end e) (gdwe_seen_count e) (gdwe_dup_count e)
         (gdwe_dup_ratio_pct e) (gdwe_high_dup e)"

definition GossipDedupWindowLog_verify_chain ::
  "sha \<Rightarrow> GossipDedupWindowLog \<Rightarrow> bool \<times> nat option" where
  "GossipDedupWindowLog_verify_chain sha self =
     verify_from gdwe_prev_hash gdwe_entry_hash (\<lambda>r. sha (GossipDedupWindowEntry_bytes_of r)) 0
         genesis (gdwl_entries self)"

lemma dedup_window_bytes_inj:
  "dedup_window_bytes prev epoch_end seen_count dup_count dup_ratio_pct high_dup = dedup_window_bytes
      prev' epoch_end' seen_count' dup_count' dup_ratio_pct' high_dup' \<longleftrightarrow>
   prev = prev' \<and> epoch_end = epoch_end' \<and> seen_count = seen_count' \<and> dup_count =
       dup_count' \<and> dup_ratio_pct = dup_ratio_pct' \<and> high_dup = high_dup'"
  by (auto simp: dedup_window_bytes_def enc_simps)

definition GossipDedupWindowEntry_committed :: "GossipDedupWindowEntry \<Rightarrow> u64 \<times> u32
    \<times> u32 \<times> u32 \<times> bool" where
  "GossipDedupWindowEntry_committed e =
     (gdwe_epoch_end e, gdwe_seen_count e, gdwe_dup_count e, gdwe_dup_ratio_pct e, gdwe_high_dup e)"

interpretation dedup_window: epoch_log GossipDedupWindowEntry_bytes_of gdwe_prev_hash gdwe_entry_hash
    GossipDedupWindowEntry_committed
  "\<lambda>sha (epoch_end, seen_count, dup_count) l. GossipDedupWindowLog_record sha epoch_end
      seen_count dup_count l"
  gdwl_entries GossipDedupWindowLog_new "\<lambda>(a, b, c, _, _). (a, b, c)"
  by unfold_locales (auto simp: GossipDedupWindowLog_record_def compute_dedup_window_hash_def
      GossipDedupWindowLog_new_def Let_def GossipDedupWindowEntry_bytes_of_def
      GossipDedupWindowEntry_committed_def dedup_window_bytes_inj)

lemma dedup_window_verify_iff: "GossipDedupWindowLog_verify_chain sha l = (True,
    None) \<longleftrightarrow> dedup_window.ok sha (gdwl_entries l)"
  by (simp add: GossipDedupWindowLog_verify_chain_def verify_from_iff)

section \<open>Gossip Message Size Log (Gate 406)\<close>

text \<open>
  \<open>gossip_message_size.rs\<close>. Per-epoch tracking of gossip message payload sizes in bytes.
\<close>

definition OVERSIZE_THRESHOLD :: u32 where
  "OVERSIZE_THRESHOLD = 65536"

record GossipMessageSizeEntry =
  gmse_epoch_end :: u64
  gmse_min_size :: u32
  gmse_max_size :: u32
  gmse_mean_size :: u32
  gmse_oversized :: bool
  gmse_entry_hash :: hash
  gmse_prev_hash :: hash

definition message_size_bytes ::
  "hash \<Rightarrow> u64 \<Rightarrow> u32 \<Rightarrow> u32 \<Rightarrow> u32 \<Rightarrow> bool
      \<Rightarrow> bytes" where
  "message_size_bytes prev epoch_end min_size max_size mean_size oversized =
     hash_bytes prev @ be8 epoch_end @ be4 min_size @ be4 max_size @ be4 mean_size @
         [of_bool oversized]"

definition compute_message_size_hash ::
  "sha \<Rightarrow> hash \<Rightarrow> u64 \<Rightarrow> u32 \<Rightarrow> u32 \<Rightarrow> u32
      \<Rightarrow> bool \<Rightarrow> hash" where
  "compute_message_size_hash sha prev epoch_end min_size max_size mean_size oversized =
     sha (message_size_bytes prev epoch_end min_size max_size mean_size oversized)"

record GossipMessageSizeLog =
  gmsl_entries :: "GossipMessageSizeEntry list"

definition GossipMessageSizeLog_new :: "GossipMessageSizeLog" where
  "GossipMessageSizeLog_new =
     \<lparr>gmsl_entries = []\<rparr>"

definition GossipMessageSizeLog_entry_count :: "GossipMessageSizeLog \<Rightarrow> nat" where
  "GossipMessageSizeLog_entry_count self =
     length (gmsl_entries self)"

definition GossipMessageSizeLog_latest ::
  "GossipMessageSizeLog \<Rightarrow> GossipMessageSizeEntry option" where
  "GossipMessageSizeLog_latest self =
     last_opt (gmsl_entries self)"

definition GossipMessageSizeLog_oversized_count :: "GossipMessageSizeLog \<Rightarrow> nat" where
  "GossipMessageSizeLog_oversized_count self =
     length (filter gmse_oversized (gmsl_entries self))"

definition GossipMessageSizeLog_max_ever_size :: "GossipMessageSizeLog \<Rightarrow> u32" where
  "GossipMessageSizeLog_max_ever_size self =
     unwrap_or 0 (list_max (map gmse_max_size (gmsl_entries self)))"

definition GossipMessageSizeLog_mean_of_means :: "GossipMessageSizeLog \<Rightarrow> u32" where
  "GossipMessageSizeLog_mean_of_means self =
     (if (gmsl_entries self) = [] then 0
      else (let sum_v = sum_list (map (\<lambda>e. (ucast (gmse_mean_size e) :: u64)) (gmsl_entries
          self))
      in (ucast (sum_v div (of_nat (length (gmsl_entries self)) :: u64)) :: u32)))"

definition GossipMessageSizeLog_record ::
  "sha \<Rightarrow> u64 \<Rightarrow> u32 \<Rightarrow> u32 \<Rightarrow> GossipMessageSizeLog
      \<Rightarrow> GossipMessageSizeEntry \<times> GossipMessageSizeLog" where
  "GossipMessageSizeLog_record sha epoch_end min_size max_size self =
     (let mean_size = (sat_add min_size max_size) div 2;
          oversized = max_size \<ge> OVERSIZE_THRESHOLD;
          prev = last_hash gmse_entry_hash (gmsl_entries self);
          entry_hash = compute_message_size_hash sha prev epoch_end min_size max_size mean_size
            oversized;
          self = self\<lparr>gmsl_entries := (gmsl_entries self) @ [\<lparr>gmse_epoch_end = epoch_end,
            gmse_min_size = min_size, gmse_max_size = max_size, gmse_mean_size = mean_size,
            gmse_oversized = oversized, gmse_entry_hash = entry_hash,
            gmse_prev_hash = prev\<rparr>]\<rparr>
      in (last (gmsl_entries self), self))"

definition GossipMessageSizeEntry_bytes_of :: "GossipMessageSizeEntry \<Rightarrow> bytes" where
  "GossipMessageSizeEntry_bytes_of e =
     message_size_bytes (gmse_prev_hash e) (gmse_epoch_end e) (gmse_min_size e) (gmse_max_size e)
         (gmse_mean_size e) (gmse_oversized e)"

definition GossipMessageSizeLog_verify_chain ::
  "sha \<Rightarrow> GossipMessageSizeLog \<Rightarrow> bool \<times> nat option" where
  "GossipMessageSizeLog_verify_chain sha self =
     verify_from gmse_prev_hash gmse_entry_hash (\<lambda>r. sha (GossipMessageSizeEntry_bytes_of r)) 0
         genesis (gmsl_entries self)"

lemma message_size_bytes_inj:
  "message_size_bytes prev epoch_end min_size max_size mean_size oversized = message_size_bytes prev'
      epoch_end' min_size' max_size' mean_size' oversized' \<longleftrightarrow>
   prev = prev' \<and> epoch_end = epoch_end' \<and> min_size = min_size' \<and> max_size = max_size'
       \<and> mean_size = mean_size' \<and> oversized = oversized'"
  by (auto simp: message_size_bytes_def enc_simps)

definition GossipMessageSizeEntry_committed :: "GossipMessageSizeEntry \<Rightarrow> u64 \<times> u32
    \<times> u32 \<times> u32 \<times> bool" where
  "GossipMessageSizeEntry_committed e =
     (gmse_epoch_end e, gmse_min_size e, gmse_max_size e, gmse_mean_size e, gmse_oversized e)"

interpretation message_size: epoch_log GossipMessageSizeEntry_bytes_of gmse_prev_hash gmse_entry_hash
    GossipMessageSizeEntry_committed
  "\<lambda>sha (epoch_end, min_size, max_size) l. GossipMessageSizeLog_record sha epoch_end min_size
      max_size l"
  gmsl_entries GossipMessageSizeLog_new "\<lambda>(a, b, c, _, _). (a, b, c)"
  by unfold_locales (auto simp: GossipMessageSizeLog_record_def compute_message_size_hash_def
      GossipMessageSizeLog_new_def Let_def GossipMessageSizeEntry_bytes_of_def
      GossipMessageSizeEntry_committed_def message_size_bytes_inj)

lemma message_size_verify_iff: "GossipMessageSizeLog_verify_chain sha l = (True,
    None) \<longleftrightarrow> message_size.ok sha (gmsl_entries l)"
  by (simp add: GossipMessageSizeLog_verify_chain_def verify_from_iff)

section \<open>Gossip Frame Rate Monitor (Gate 384)\<close>

text \<open>
  \<open>gossip_frame_rate.rs\<close>. Tracks the number of gossip frames processed per epoch and
  detects throughput anomalies - epochs where the frame rate deviates more than a configurable
  threshold from the rolling average (spike detection).
\<close>

definition GOSSIP_FRAME_RATE_WINDOW :: nat where
  "GOSSIP_FRAME_RATE_WINDOW = 4"

definition SPIKE_FACTOR :: u32 where
  "SPIKE_FACTOR = 2"

record GossipFrameRateEntry =
  gfre_epoch_end :: u64
  gfre_frame_count :: u32
  gfre_rolling_avg :: u32
  gfre_is_spike :: bool
  gfre_entry_hash :: hash
  gfre_prev_hash :: hash

definition frame_rate_bytes ::
  "hash \<Rightarrow> u64 \<Rightarrow> u32 \<Rightarrow> u32 \<Rightarrow> bool \<Rightarrow> bytes"
      where
  "frame_rate_bytes prev epoch_end frame_count rolling_avg is_spike =
     hash_bytes prev @ be8 epoch_end @ be4 frame_count @ be4 rolling_avg @ [of_bool is_spike]"

definition compute_frame_rate_hash ::
  "sha \<Rightarrow> hash \<Rightarrow> u64 \<Rightarrow> u32 \<Rightarrow> u32 \<Rightarrow> bool
      \<Rightarrow> hash" where
  "compute_frame_rate_hash sha prev epoch_end frame_count rolling_avg is_spike =
     sha (frame_rate_bytes prev epoch_end frame_count rolling_avg is_spike)"

record GossipFrameRateLog =
  gfrl_entries :: "GossipFrameRateEntry list"
  gfrl_window :: "u32 list"

definition GossipFrameRateLog_new :: "GossipFrameRateLog" where
  "GossipFrameRateLog_new =
     \<lparr>gfrl_entries = [], gfrl_window = []\<rparr>"

definition GossipFrameRateLog_entry_count :: "GossipFrameRateLog \<Rightarrow> nat" where
  "GossipFrameRateLog_entry_count self =
     length (gfrl_entries self)"

definition GossipFrameRateLog_latest ::
  "GossipFrameRateLog \<Rightarrow> GossipFrameRateEntry option" where
  "GossipFrameRateLog_latest self =
     last_opt (gfrl_entries self)"

definition GossipFrameRateLog_spike_count :: "GossipFrameRateLog \<Rightarrow> nat" where
  "GossipFrameRateLog_spike_count self =
     length (filter gfre_is_spike (gfrl_entries self))"

definition GossipFrameRateLog_record ::
  "sha \<Rightarrow> u64 \<Rightarrow> u32 \<Rightarrow> GossipFrameRateLog \<Rightarrow>
      GossipFrameRateEntry \<times> GossipFrameRateLog" where
  "GossipFrameRateLog_record sha epoch_end frame_count self =
     (let rolling_avg = (if (gfrl_window self) = [] then 0 else (let sum_v = sum_list (map (\<lambda>v.
         (ucast v :: u64)) (gfrl_window self)) in (ucast (sum_v div (of_nat (length (gfrl_window self))
         :: u64)) :: u32)));
          is_spike = rolling_avg > 0 \<and> frame_count > (sat_mul rolling_avg SPIKE_FACTOR);
          self = self\<lparr>gfrl_window := (gfrl_window self) @ [frame_count]\<rparr>;
          self = (if (length (gfrl_window self)) > GOSSIP_FRAME_RATE_WINDOW then (let self =
            self\<lparr>gfrl_window := tl (gfrl_window self)\<rparr>
      in self)
      else self);
          prev = last_hash gfre_entry_hash (gfrl_entries self);
          entry_hash = compute_frame_rate_hash sha prev epoch_end frame_count rolling_avg is_spike;
          self = self\<lparr>gfrl_entries := (gfrl_entries self) @ [\<lparr>gfre_epoch_end = epoch_end,
            gfre_frame_count = frame_count, gfre_rolling_avg = rolling_avg, gfre_is_spike = is_spike,
            gfre_entry_hash = entry_hash, gfre_prev_hash = prev\<rparr>]\<rparr>
      in (last (gfrl_entries self), self))"

definition GossipFrameRateEntry_bytes_of :: "GossipFrameRateEntry \<Rightarrow> bytes" where
  "GossipFrameRateEntry_bytes_of e =
     frame_rate_bytes (gfre_prev_hash e) (gfre_epoch_end e) (gfre_frame_count e) (gfre_rolling_avg e)
         (gfre_is_spike e)"

definition GossipFrameRateLog_verify_chain ::
  "sha \<Rightarrow> GossipFrameRateLog \<Rightarrow> bool \<times> nat option" where
  "GossipFrameRateLog_verify_chain sha self =
     verify_from gfre_prev_hash gfre_entry_hash (\<lambda>r. sha (GossipFrameRateEntry_bytes_of r)) 0
         genesis (gfrl_entries self)"

lemma frame_rate_bytes_inj:
  "frame_rate_bytes prev epoch_end frame_count rolling_avg is_spike = frame_rate_bytes prev' epoch_end'
      frame_count' rolling_avg' is_spike' \<longleftrightarrow>
   prev = prev' \<and> epoch_end = epoch_end' \<and> frame_count = frame_count' \<and> rolling_avg =
       rolling_avg' \<and> is_spike = is_spike'"
  by (auto simp: frame_rate_bytes_def enc_simps)

definition GossipFrameRateEntry_committed :: "GossipFrameRateEntry \<Rightarrow> u64 \<times> u32
    \<times> u32 \<times> bool" where
  "GossipFrameRateEntry_committed e =
     (gfre_epoch_end e, gfre_frame_count e, gfre_rolling_avg e, gfre_is_spike e)"

interpretation frame_rate: epoch_log GossipFrameRateEntry_bytes_of gfre_prev_hash gfre_entry_hash
    GossipFrameRateEntry_committed
  "\<lambda>sha (epoch_end, frame_count) l. GossipFrameRateLog_record sha epoch_end frame_count l"
  gfrl_entries GossipFrameRateLog_new "\<lambda>(a, b, _, _). (a, b)"
  by unfold_locales (auto simp: GossipFrameRateLog_record_def compute_frame_rate_hash_def
      GossipFrameRateLog_new_def Let_def GossipFrameRateEntry_bytes_of_def
      GossipFrameRateEntry_committed_def frame_rate_bytes_inj)

lemma frame_rate_verify_iff: "GossipFrameRateLog_verify_chain sha l = (True,
    None) \<longleftrightarrow> frame_rate.ok sha (gfrl_entries l)"
  by (simp add: GossipFrameRateLog_verify_chain_def verify_from_iff)

section \<open>Gossip Frame Size Histogram (Gate 397)\<close>

text \<open>
  \<open>gossip_frame_size_histogram.rs\<close>. Per-epoch histogram of gossip frame sizes bucketed
  into three ranges:
\<close>

datatype FrameSizeBucket = Small | Medium | Large | Tied

fun FrameSizeBucket_as_u8 :: "FrameSizeBucket \<Rightarrow> u8" where
  "FrameSizeBucket_as_u8 FrameSizeBucket.Small = 0"
| "FrameSizeBucket_as_u8 FrameSizeBucket.Medium = 1"
| "FrameSizeBucket_as_u8 FrameSizeBucket.Large = 2"
| "FrameSizeBucket_as_u8 FrameSizeBucket.Tied = 3"

lemma FrameSizeBucket_as_u8_inj [simp]: "FrameSizeBucket_as_u8 x = FrameSizeBucket_as_u8 y
    \<longleftrightarrow> x = y"
  by (cases x; cases y) auto

record GossipFrameSizeHistogramEntry =
  gfshe_epoch_end :: u64
  gfshe_small_count :: u32
  gfshe_medium_count :: u32
  gfshe_large_count :: u32
  gfshe_total_frames :: u32
  gfshe_entry_hash :: hash
  gfshe_prev_hash :: hash

definition frame_size_histogram_bytes ::
  "hash \<Rightarrow> u64 \<Rightarrow> u32 \<Rightarrow> u32 \<Rightarrow> u32 \<Rightarrow> u32
      \<Rightarrow> bytes" where
  "frame_size_histogram_bytes prev epoch_end small_count medium_count large_count total_frames =
     hash_bytes prev @ be8 epoch_end @ be4 small_count @ be4 medium_count @ be4 large_count @
         be4 total_frames"

definition compute_frame_size_histogram_hash ::
  "sha \<Rightarrow> hash \<Rightarrow> u64 \<Rightarrow> u32 \<Rightarrow> u32 \<Rightarrow> u32
      \<Rightarrow> u32 \<Rightarrow> hash" where
  "compute_frame_size_histogram_hash sha prev epoch_end small_count medium_count large_count
      total_frames =
     sha (frame_size_histogram_bytes prev epoch_end small_count medium_count large_count total_frames)"

record GossipFrameSizeHistogramLog =
  gfshl_entries :: "GossipFrameSizeHistogramEntry list"

definition GossipFrameSizeHistogramLog_new :: "GossipFrameSizeHistogramLog" where
  "GossipFrameSizeHistogramLog_new =
     \<lparr>gfshl_entries = []\<rparr>"

definition GossipFrameSizeHistogramLog_entry_count ::
  "GossipFrameSizeHistogramLog \<Rightarrow> nat" where
  "GossipFrameSizeHistogramLog_entry_count self =
     length (gfshl_entries self)"

definition GossipFrameSizeHistogramLog_latest ::
  "GossipFrameSizeHistogramLog \<Rightarrow> GossipFrameSizeHistogramEntry option" where
  "GossipFrameSizeHistogramLog_latest self =
     last_opt (gfshl_entries self)"

definition GossipFrameSizeHistogramLog_total_small ::
  "GossipFrameSizeHistogramLog \<Rightarrow> u64" where
  "GossipFrameSizeHistogramLog_total_small self =
     sum_list (map (\<lambda>e. (ucast (gfshe_small_count e) :: u64)) (gfshl_entries self))"

definition GossipFrameSizeHistogramLog_total_medium ::
  "GossipFrameSizeHistogramLog \<Rightarrow> u64" where
  "GossipFrameSizeHistogramLog_total_medium self =
     sum_list (map (\<lambda>e. (ucast (gfshe_medium_count e) :: u64)) (gfshl_entries self))"

definition GossipFrameSizeHistogramLog_total_large ::
  "GossipFrameSizeHistogramLog \<Rightarrow> u64" where
  "GossipFrameSizeHistogramLog_total_large self =
     sum_list (map (\<lambda>e. (ucast (gfshe_large_count e) :: u64)) (gfshl_entries self))"

definition GossipFrameSizeHistogramLog_dominant_bucket ::
  "GossipFrameSizeHistogramLog \<Rightarrow> FrameSizeBucket" where
  "GossipFrameSizeHistogramLog_dominant_bucket self =
     (let s = GossipFrameSizeHistogramLog_total_small self;
          m = GossipFrameSizeHistogramLog_total_medium self;
          l = GossipFrameSizeHistogramLog_total_large self;
          max_v = max (max s m) l;
          leaders = length (filter (\<lambda>x. x) [s = max_v, m = max_v, l = max_v])
      in if leaders > 1 then FrameSizeBucket.Tied
      else if s = max_v then FrameSizeBucket.Small
      else if m = max_v then FrameSizeBucket.Medium
      else FrameSizeBucket.Large)"

definition GossipFrameSizeHistogramLog_record ::
  "sha \<Rightarrow> u64 \<Rightarrow> u32 \<Rightarrow> u32 \<Rightarrow> u32 \<Rightarrow>
      GossipFrameSizeHistogramLog \<Rightarrow> GossipFrameSizeHistogramEntry \<times>
      GossipFrameSizeHistogramLog" where
  "GossipFrameSizeHistogramLog_record sha epoch_end small_count medium_count large_count self =
     (let total_frames = sat_add (sat_add small_count medium_count) large_count;
          prev = last_hash gfshe_entry_hash (gfshl_entries self);
          entry_hash = compute_frame_size_histogram_hash sha prev epoch_end small_count medium_count
            large_count total_frames;
          self = self\<lparr>gfshl_entries := (gfshl_entries self) @
            [\<lparr>gfshe_epoch_end = epoch_end, gfshe_small_count = small_count,
            gfshe_medium_count = medium_count, gfshe_large_count = large_count,
            gfshe_total_frames = total_frames, gfshe_entry_hash = entry_hash,
            gfshe_prev_hash = prev\<rparr>]\<rparr>
      in (last (gfshl_entries self), self))"

definition GossipFrameSizeHistogramEntry_bytes_of ::
  "GossipFrameSizeHistogramEntry \<Rightarrow> bytes" where
  "GossipFrameSizeHistogramEntry_bytes_of e =
     frame_size_histogram_bytes (gfshe_prev_hash e) (gfshe_epoch_end e) (gfshe_small_count e)
         (gfshe_medium_count e) (gfshe_large_count e) (gfshe_total_frames e)"

definition GossipFrameSizeHistogramLog_verify_chain ::
  "sha \<Rightarrow> GossipFrameSizeHistogramLog \<Rightarrow> bool \<times> nat option" where
  "GossipFrameSizeHistogramLog_verify_chain sha self =
     verify_from gfshe_prev_hash gfshe_entry_hash (\<lambda>r. sha
         (GossipFrameSizeHistogramEntry_bytes_of r)) 0 genesis (gfshl_entries self)"

lemma frame_size_histogram_bytes_inj:
  "frame_size_histogram_bytes prev epoch_end small_count medium_count large_count total_frames =
      frame_size_histogram_bytes prev' epoch_end' small_count' medium_count' large_count' total_frames'
      \<longleftrightarrow>
   prev = prev' \<and> epoch_end = epoch_end' \<and> small_count = small_count' \<and> medium_count =
       medium_count' \<and> large_count = large_count' \<and> total_frames = total_frames'"
  by (auto simp: frame_size_histogram_bytes_def enc_simps)

definition GossipFrameSizeHistogramEntry_committed :: "GossipFrameSizeHistogramEntry \<Rightarrow> u64
    \<times> u32 \<times> u32 \<times> u32 \<times> u32" where
  "GossipFrameSizeHistogramEntry_committed e =
     (gfshe_epoch_end e, gfshe_small_count e, gfshe_medium_count e, gfshe_large_count e,
         gfshe_total_frames e)"

interpretation frame_size_histogram: epoch_log GossipFrameSizeHistogramEntry_bytes_of gfshe_prev_hash
    gfshe_entry_hash GossipFrameSizeHistogramEntry_committed
  "\<lambda>sha (epoch_end, small_count, medium_count, large_count) l.
      GossipFrameSizeHistogramLog_record sha epoch_end small_count medium_count large_count l"
  gfshl_entries GossipFrameSizeHistogramLog_new "\<lambda>(a, b, c, d, _). (a, b, c, d)"
  by unfold_locales (auto simp: GossipFrameSizeHistogramLog_record_def
      compute_frame_size_histogram_hash_def GossipFrameSizeHistogramLog_new_def Let_def
      GossipFrameSizeHistogramEntry_bytes_of_def GossipFrameSizeHistogramEntry_committed_def
      frame_size_histogram_bytes_inj)

lemma frame_size_histogram_verify_iff: "GossipFrameSizeHistogramLog_verify_chain sha l = (True,
    None) \<longleftrightarrow> frame_size_histogram.ok sha (gfshl_entries l)"
  by (simp add: GossipFrameSizeHistogramLog_verify_chain_def verify_from_iff)

section \<open>Gossip Latency Histogram Log (Gate 408)\<close>

text \<open>
  \<open>gossip_latency_histogram.rs\<close>. Per-epoch message latency histogram with four buckets:
\<close>

definition STALL_DEGRADED_THRESHOLD :: u32 where
  "STALL_DEGRADED_THRESHOLD = 5"

record GossipLatencyHistogramEntry =
  glhe_epoch_end :: u64
  glhe_fast_count :: u32
  glhe_normal_count :: u32
  glhe_slow_count :: u32
  glhe_stall_count :: u32
  glhe_stall_pct :: u32
  glhe_degraded :: bool
  glhe_entry_hash :: hash
  glhe_prev_hash :: hash

definition latency_histogram_bytes ::
  "hash \<Rightarrow> u64 \<Rightarrow> u32 \<Rightarrow> u32 \<Rightarrow> u32 \<Rightarrow> u32
      \<Rightarrow> u32 \<Rightarrow> bool \<Rightarrow> bytes" where
  "latency_histogram_bytes prev epoch_end fast_count normal_count slow_count stall_count stall_pct
      degraded =
     hash_bytes prev @ be8 epoch_end @ be4 fast_count @ be4 normal_count @ be4 slow_count @
         be4 stall_count @ be4 stall_pct @ [of_bool degraded]"

definition compute_latency_histogram_hash ::
  "sha \<Rightarrow> hash \<Rightarrow> u64 \<Rightarrow> u32 \<Rightarrow> u32 \<Rightarrow> u32
      \<Rightarrow> u32 \<Rightarrow> u32 \<Rightarrow> bool \<Rightarrow> hash" where
  "compute_latency_histogram_hash sha prev epoch_end fast_count normal_count slow_count stall_count
      stall_pct degraded =
     sha (latency_histogram_bytes prev epoch_end fast_count normal_count slow_count stall_count
         stall_pct degraded)"

record GossipLatencyHistogramLog =
  glhl_entries :: "GossipLatencyHistogramEntry list"

definition GossipLatencyHistogramLog_new :: "GossipLatencyHistogramLog" where
  "GossipLatencyHistogramLog_new =
     \<lparr>glhl_entries = []\<rparr>"

definition GossipLatencyHistogramLog_entry_count :: "GossipLatencyHistogramLog \<Rightarrow> nat" where
  "GossipLatencyHistogramLog_entry_count self =
     length (glhl_entries self)"

definition GossipLatencyHistogramLog_latest ::
  "GossipLatencyHistogramLog \<Rightarrow> GossipLatencyHistogramEntry option" where
  "GossipLatencyHistogramLog_latest self =
     last_opt (glhl_entries self)"

definition GossipLatencyHistogramLog_total_fast :: "GossipLatencyHistogramLog \<Rightarrow> u64" where
  "GossipLatencyHistogramLog_total_fast self =
     sum_list (map (\<lambda>e. (ucast (glhe_fast_count e) :: u64)) (glhl_entries self))"

definition GossipLatencyHistogramLog_total_stall :: "GossipLatencyHistogramLog \<Rightarrow> u64" where
  "GossipLatencyHistogramLog_total_stall self =
     sum_list (map (\<lambda>e. (ucast (glhe_stall_count e) :: u64)) (glhl_entries self))"

definition GossipLatencyHistogramLog_degraded_count ::
  "GossipLatencyHistogramLog \<Rightarrow> nat" where
  "GossipLatencyHistogramLog_degraded_count self =
     length (filter glhe_degraded (glhl_entries self))"

definition GossipLatencyHistogramLog_max_stall_pct ::
  "GossipLatencyHistogramLog \<Rightarrow> u32" where
  "GossipLatencyHistogramLog_max_stall_pct self =
     unwrap_or 0 (list_max (map glhe_stall_pct (glhl_entries self)))"

definition GossipLatencyHistogramLog_record ::
  "sha \<Rightarrow> u64 \<Rightarrow> u32 \<Rightarrow> u32 \<Rightarrow> u32 \<Rightarrow> u32
      \<Rightarrow> GossipLatencyHistogramLog \<Rightarrow> GossipLatencyHistogramEntry \<times>
      GossipLatencyHistogramLog" where
  "GossipLatencyHistogramLog_record sha epoch_end fast_count normal_count slow_count stall_count self =
     (let total_v = max (sat_add (sat_add (sat_add fast_count normal_count) slow_count) stall_count) 1;
          stall_pct = (ucast (((ucast stall_count :: u64) * 100) div (ucast total_v :: u64)) :: u32);
          degraded = stall_pct \<ge> STALL_DEGRADED_THRESHOLD;
          prev = last_hash glhe_entry_hash (glhl_entries self);
          entry_hash = compute_latency_histogram_hash sha prev epoch_end fast_count normal_count
            slow_count stall_count stall_pct degraded;
          self = self\<lparr>glhl_entries := (glhl_entries self) @ [\<lparr>glhe_epoch_end = epoch_end,
            glhe_fast_count = fast_count, glhe_normal_count = normal_count,
            glhe_slow_count = slow_count, glhe_stall_count = stall_count, glhe_stall_pct = stall_pct,
            glhe_degraded = degraded, glhe_entry_hash = entry_hash,
            glhe_prev_hash = prev\<rparr>]\<rparr>
      in (last (glhl_entries self), self))"

definition GossipLatencyHistogramEntry_bytes_of ::
  "GossipLatencyHistogramEntry \<Rightarrow> bytes" where
  "GossipLatencyHistogramEntry_bytes_of e =
     latency_histogram_bytes (glhe_prev_hash e) (glhe_epoch_end e) (glhe_fast_count e)
         (glhe_normal_count e) (glhe_slow_count e) (glhe_stall_count e) (glhe_stall_pct e)
         (glhe_degraded e)"

definition GossipLatencyHistogramLog_verify_chain ::
  "sha \<Rightarrow> GossipLatencyHistogramLog \<Rightarrow> bool \<times> nat option" where
  "GossipLatencyHistogramLog_verify_chain sha self =
     verify_from glhe_prev_hash glhe_entry_hash (\<lambda>r. sha (GossipLatencyHistogramEntry_bytes_of
         r)) 0 genesis (glhl_entries self)"

lemma latency_histogram_bytes_inj:
  "latency_histogram_bytes prev epoch_end fast_count normal_count slow_count stall_count stall_pct
      degraded = latency_histogram_bytes prev' epoch_end' fast_count' normal_count' slow_count'
      stall_count' stall_pct' degraded' \<longleftrightarrow>
   prev = prev' \<and> epoch_end = epoch_end' \<and> fast_count = fast_count' \<and> normal_count =
       normal_count' \<and> slow_count = slow_count' \<and> stall_count = stall_count' \<and> stall_pct
       = stall_pct' \<and> degraded = degraded'"
  by (auto simp: latency_histogram_bytes_def enc_simps)

definition GossipLatencyHistogramEntry_committed :: "GossipLatencyHistogramEntry \<Rightarrow> u64
    \<times> u32 \<times> u32 \<times> u32 \<times> u32 \<times> u32 \<times> bool" where
  "GossipLatencyHistogramEntry_committed e =
     (glhe_epoch_end e, glhe_fast_count e, glhe_normal_count e, glhe_slow_count e, glhe_stall_count e,
         glhe_stall_pct e, glhe_degraded e)"

interpretation latency_histogram: epoch_log GossipLatencyHistogramEntry_bytes_of glhe_prev_hash
    glhe_entry_hash GossipLatencyHistogramEntry_committed
  "\<lambda>sha (epoch_end, fast_count, normal_count, slow_count,
      stall_count) l. GossipLatencyHistogramLog_record sha epoch_end fast_count normal_count slow_count
      stall_count l"
  glhl_entries GossipLatencyHistogramLog_new "\<lambda>(a, b, c, d, e, _, _). (a, b, c, d, e)"
  by unfold_locales (auto simp: GossipLatencyHistogramLog_record_def compute_latency_histogram_hash_def
      GossipLatencyHistogramLog_new_def Let_def GossipLatencyHistogramEntry_bytes_of_def
      GossipLatencyHistogramEntry_committed_def latency_histogram_bytes_inj)

lemma latency_histogram_verify_iff: "GossipLatencyHistogramLog_verify_chain sha l = (True,
    None) \<longleftrightarrow> latency_histogram.ok sha (glhl_entries l)"
  by (simp add: GossipLatencyHistogramLog_verify_chain_def verify_from_iff)

section \<open>Gossip Latency Tracker (Gate 379)\<close>

text \<open>
  \<open>gossip_latency_tracker.rs\<close>. Tracks synthetic per-peer latency as the epoch delta
  between when a frame was dispatched and when the peer's sync state last acknowledged it. Latency is
  represented as an integer epoch count (no wall-clock time - determinism invariant).
\<close>

record GossipLatencyRecord =
  glr_peer_id :: u64
  glr_dispatch_epoch :: u64
  glr_ack_epoch :: u64
  glr_latency_epochs :: u64
  glr_record_hash :: hash
  glr_prev_hash :: hash

definition latency_bytes ::
  "hash \<Rightarrow> u64 \<Rightarrow> u64 \<Rightarrow> u64 \<Rightarrow> u64 \<Rightarrow> bytes"
      where
  "latency_bytes prev peer_id dispatch_epoch ack_epoch latency_epochs =
     hash_bytes prev @ be8 peer_id @ be8 dispatch_epoch @ be8 ack_epoch @ be8 latency_epochs"

definition compute_latency_hash ::
  "sha \<Rightarrow> hash \<Rightarrow> u64 \<Rightarrow> u64 \<Rightarrow> u64 \<Rightarrow> u64
      \<Rightarrow> hash" where
  "compute_latency_hash sha prev peer_id dispatch_epoch ack_epoch latency_epochs =
     sha (latency_bytes prev peer_id dispatch_epoch ack_epoch latency_epochs)"

record GossipLatencyLog =
  gll_records :: "GossipLatencyRecord list"

definition GossipLatencyLog_new :: "GossipLatencyLog" where
  "GossipLatencyLog_new =
     \<lparr>gll_records = []\<rparr>"

definition GossipLatencyLog_record_count :: "GossipLatencyLog \<Rightarrow> nat" where
  "GossipLatencyLog_record_count self =
     length (gll_records self)"

definition GossipLatencyLog_latest :: "GossipLatencyLog \<Rightarrow> GossipLatencyRecord option" where
  "GossipLatencyLog_latest self =
     last_opt (gll_records self)"

definition GossipLatencyLog_max_latency :: "GossipLatencyLog \<Rightarrow> u64" where
  "GossipLatencyLog_max_latency self =
     unwrap_or 0 (list_max (map glr_latency_epochs (gll_records self)))"

definition GossipLatencyLog_min_latency :: "GossipLatencyLog \<Rightarrow> u64" where
  "GossipLatencyLog_min_latency self =
     unwrap_or 0 (list_min (map glr_latency_epochs (gll_records self)))"

definition GossipLatencyLog_avg_latency :: "GossipLatencyLog \<Rightarrow> u64" where
  "GossipLatencyLog_avg_latency self =
     (if (gll_records self) = [] then 0
      else (let sum_v = sum_list (map glr_latency_epochs (gll_records self))
      in sum_v div (of_nat (length (gll_records self)) :: u64)))"

definition GossipLatencyLog_record ::
  "sha \<Rightarrow> u64 \<Rightarrow> u64 \<Rightarrow> u64 \<Rightarrow> GossipLatencyLog
      \<Rightarrow> GossipLatencyRecord \<times> GossipLatencyLog" where
  "GossipLatencyLog_record sha peer_id dispatch_epoch ack_epoch self =
     (let latency_epochs = sat_sub ack_epoch dispatch_epoch;
          prev = last_hash glr_record_hash (gll_records self);
          record_hash = compute_latency_hash sha prev peer_id dispatch_epoch ack_epoch latency_epochs;
          self = self\<lparr>gll_records := (gll_records self) @ [\<lparr>glr_peer_id = peer_id,
            glr_dispatch_epoch = dispatch_epoch, glr_ack_epoch = ack_epoch,
            glr_latency_epochs = latency_epochs, glr_record_hash = record_hash,
            glr_prev_hash = prev\<rparr>]\<rparr>
      in (last (gll_records self), self))"

definition GossipLatencyRecord_bytes_of :: "GossipLatencyRecord \<Rightarrow> bytes" where
  "GossipLatencyRecord_bytes_of r =
     latency_bytes (glr_prev_hash r) (glr_peer_id r) (glr_dispatch_epoch r) (glr_ack_epoch r)
         (glr_latency_epochs r)"

definition GossipLatencyLog_verify_chain ::
  "sha \<Rightarrow> GossipLatencyLog \<Rightarrow> bool \<times> nat option" where
  "GossipLatencyLog_verify_chain sha self =
     verify_from glr_prev_hash glr_record_hash (\<lambda>r. sha (GossipLatencyRecord_bytes_of r)) 0
         genesis (gll_records self)"

lemma latency_bytes_inj:
  "latency_bytes prev peer_id dispatch_epoch ack_epoch latency_epochs = latency_bytes prev' peer_id'
      dispatch_epoch' ack_epoch' latency_epochs' \<longleftrightarrow>
   prev = prev' \<and> peer_id = peer_id' \<and> dispatch_epoch = dispatch_epoch' \<and> ack_epoch =
       ack_epoch' \<and> latency_epochs = latency_epochs'"
  by (auto simp: latency_bytes_def enc_simps)

definition GossipLatencyRecord_committed :: "GossipLatencyRecord \<Rightarrow> u64 \<times> u64 \<times>
    u64 \<times> u64" where
  "GossipLatencyRecord_committed r =
     (glr_peer_id r, glr_dispatch_epoch r, glr_ack_epoch r, glr_latency_epochs r)"

interpretation latency_tracker: epoch_log GossipLatencyRecord_bytes_of glr_prev_hash glr_record_hash
    GossipLatencyRecord_committed
  "\<lambda>sha (peer_id, dispatch_epoch, ack_epoch) l. GossipLatencyLog_record sha peer_id
      dispatch_epoch ack_epoch l"
  gll_records GossipLatencyLog_new "\<lambda>(a, b, c, _). (a, b, c)"
  by unfold_locales (auto simp: GossipLatencyLog_record_def compute_latency_hash_def
      GossipLatencyLog_new_def Let_def GossipLatencyRecord_bytes_of_def
      GossipLatencyRecord_committed_def latency_bytes_inj)

lemma latency_tracker_verify_iff: "GossipLatencyLog_verify_chain sha l = (True,
    None) \<longleftrightarrow> latency_tracker.ok sha (gll_records l)"
  by (simp add: GossipLatencyLog_verify_chain_def verify_from_iff)

section \<open>Gossip Round-Trip Time Log (Gate 411)\<close>

text \<open>
  \<open>gossip_round_trip_time.rs\<close>. Per-epoch tracking of gossip message round-trip times
  (RTT) in milliseconds.
\<close>

definition RTT_HIGH_THRESHOLD :: u32 where
  "RTT_HIGH_THRESHOLD = 500"

record GossipRoundTripTimeEntry =
  grtte_epoch_end :: u64
  grtte_min_rtt_ms :: u32
  grtte_max_rtt_ms :: u32
  grtte_mean_rtt_ms :: u32
  grtte_high_rtt :: bool
  grtte_entry_hash :: hash
  grtte_prev_hash :: hash

definition round_trip_time_bytes ::
  "hash \<Rightarrow> u64 \<Rightarrow> u32 \<Rightarrow> u32 \<Rightarrow> u32 \<Rightarrow> bool
      \<Rightarrow> bytes" where
  "round_trip_time_bytes prev epoch_end min_rtt_ms max_rtt_ms mean_rtt_ms high_rtt =
     hash_bytes prev @ be8 epoch_end @ be4 min_rtt_ms @ be4 max_rtt_ms @ be4 mean_rtt_ms @
         [of_bool high_rtt]"

definition compute_round_trip_time_hash ::
  "sha \<Rightarrow> hash \<Rightarrow> u64 \<Rightarrow> u32 \<Rightarrow> u32 \<Rightarrow> u32
      \<Rightarrow> bool \<Rightarrow> hash" where
  "compute_round_trip_time_hash sha prev epoch_end min_rtt_ms max_rtt_ms mean_rtt_ms high_rtt =
     sha (round_trip_time_bytes prev epoch_end min_rtt_ms max_rtt_ms mean_rtt_ms high_rtt)"

record GossipRoundTripTimeLog =
  grttl_entries :: "GossipRoundTripTimeEntry list"

definition GossipRoundTripTimeLog_new :: "GossipRoundTripTimeLog" where
  "GossipRoundTripTimeLog_new =
     \<lparr>grttl_entries = []\<rparr>"

definition GossipRoundTripTimeLog_entry_count :: "GossipRoundTripTimeLog \<Rightarrow> nat" where
  "GossipRoundTripTimeLog_entry_count self =
     length (grttl_entries self)"

definition GossipRoundTripTimeLog_latest ::
  "GossipRoundTripTimeLog \<Rightarrow> GossipRoundTripTimeEntry option" where
  "GossipRoundTripTimeLog_latest self =
     last_opt (grttl_entries self)"

definition GossipRoundTripTimeLog_high_rtt_count :: "GossipRoundTripTimeLog \<Rightarrow> nat" where
  "GossipRoundTripTimeLog_high_rtt_count self =
     length (filter grtte_high_rtt (grttl_entries self))"

definition GossipRoundTripTimeLog_max_ever_rtt :: "GossipRoundTripTimeLog \<Rightarrow> u32" where
  "GossipRoundTripTimeLog_max_ever_rtt self =
     unwrap_or 0 (list_max (map grtte_max_rtt_ms (grttl_entries self)))"

definition GossipRoundTripTimeLog_mean_of_means :: "GossipRoundTripTimeLog \<Rightarrow> u32" where
  "GossipRoundTripTimeLog_mean_of_means self =
     (if (grttl_entries self) = [] then 0
      else (let sum_v = sum_list (map (\<lambda>e. (ucast (grtte_mean_rtt_ms e) :: u64)) (grttl_entries
          self))
      in (ucast (sum_v div (of_nat (length (grttl_entries self)) :: u64)) :: u32)))"

definition GossipRoundTripTimeLog_record ::
  "sha \<Rightarrow> u64 \<Rightarrow> u32 \<Rightarrow> u32 \<Rightarrow> GossipRoundTripTimeLog
      \<Rightarrow> GossipRoundTripTimeEntry \<times> GossipRoundTripTimeLog" where
  "GossipRoundTripTimeLog_record sha epoch_end min_rtt_ms max_rtt_ms self =
     (let mean_rtt_ms = (sat_add min_rtt_ms max_rtt_ms) div 2;
          high_rtt = max_rtt_ms \<ge> RTT_HIGH_THRESHOLD;
          prev = last_hash grtte_entry_hash (grttl_entries self);
          entry_hash = compute_round_trip_time_hash sha prev epoch_end min_rtt_ms max_rtt_ms mean_rtt_ms
            high_rtt;
          self = self\<lparr>grttl_entries := (grttl_entries self) @
            [\<lparr>grtte_epoch_end = epoch_end, grtte_min_rtt_ms = min_rtt_ms,
            grtte_max_rtt_ms = max_rtt_ms, grtte_mean_rtt_ms = mean_rtt_ms, grtte_high_rtt = high_rtt,
            grtte_entry_hash = entry_hash, grtte_prev_hash = prev\<rparr>]\<rparr>
      in (last (grttl_entries self), self))"

definition GossipRoundTripTimeEntry_bytes_of :: "GossipRoundTripTimeEntry \<Rightarrow> bytes" where
  "GossipRoundTripTimeEntry_bytes_of e =
     round_trip_time_bytes (grtte_prev_hash e) (grtte_epoch_end e) (grtte_min_rtt_ms e)
         (grtte_max_rtt_ms e) (grtte_mean_rtt_ms e) (grtte_high_rtt e)"

definition GossipRoundTripTimeLog_verify_chain ::
  "sha \<Rightarrow> GossipRoundTripTimeLog \<Rightarrow> bool \<times> nat option" where
  "GossipRoundTripTimeLog_verify_chain sha self =
     verify_from grtte_prev_hash grtte_entry_hash (\<lambda>r. sha (GossipRoundTripTimeEntry_bytes_of
         r)) 0 genesis (grttl_entries self)"

lemma round_trip_time_bytes_inj:
  "round_trip_time_bytes prev epoch_end min_rtt_ms max_rtt_ms mean_rtt_ms high_rtt =
      round_trip_time_bytes prev' epoch_end' min_rtt_ms' max_rtt_ms' mean_rtt_ms' high_rtt'
      \<longleftrightarrow>
   prev = prev' \<and> epoch_end = epoch_end' \<and> min_rtt_ms = min_rtt_ms' \<and> max_rtt_ms =
       max_rtt_ms' \<and> mean_rtt_ms = mean_rtt_ms' \<and> high_rtt = high_rtt'"
  by (auto simp: round_trip_time_bytes_def enc_simps)

definition GossipRoundTripTimeEntry_committed :: "GossipRoundTripTimeEntry \<Rightarrow> u64 \<times>
    u32 \<times> u32 \<times> u32 \<times> bool" where
  "GossipRoundTripTimeEntry_committed e =
     (grtte_epoch_end e, grtte_min_rtt_ms e, grtte_max_rtt_ms e, grtte_mean_rtt_ms e, grtte_high_rtt e)"

interpretation round_trip_time: epoch_log GossipRoundTripTimeEntry_bytes_of grtte_prev_hash
    grtte_entry_hash GossipRoundTripTimeEntry_committed
  "\<lambda>sha (epoch_end, min_rtt_ms, max_rtt_ms) l. GossipRoundTripTimeLog_record sha epoch_end
      min_rtt_ms max_rtt_ms l"
  grttl_entries GossipRoundTripTimeLog_new "\<lambda>(a, b, c, _, _). (a, b, c)"
  by unfold_locales (auto simp: GossipRoundTripTimeLog_record_def compute_round_trip_time_hash_def
      GossipRoundTripTimeLog_new_def Let_def GossipRoundTripTimeEntry_bytes_of_def
      GossipRoundTripTimeEntry_committed_def round_trip_time_bytes_inj)

lemma round_trip_time_verify_iff: "GossipRoundTripTimeLog_verify_chain sha l = (True,
    None) \<longleftrightarrow> round_trip_time.ok sha (grttl_entries l)"
  by (simp add: GossipRoundTripTimeLog_verify_chain_def verify_from_iff)

section \<open>Gossip Jitter Tracker (Gate 386)\<close>

text \<open>
  \<open>gossip_jitter.rs\<close>. Measures epoch-to-epoch delivery jitter as the absolute difference
  between consecutive epoch frame counts. High jitter indicates unstable throughput. All arithmetic is
  integer - no f64.
\<close>

record GossipJitterEntry =
  gje_epoch_end :: u64
  gje_frame_count :: u32
  gje_jitter :: u32
  gje_entry_hash :: hash
  gje_prev_hash :: hash

definition jitter_bytes ::
  "hash \<Rightarrow> u64 \<Rightarrow> u32 \<Rightarrow> u32 \<Rightarrow> bytes" where
  "jitter_bytes prev epoch_end frame_count jitter =
     hash_bytes prev @ be8 epoch_end @ be4 frame_count @ be4 jitter"

definition compute_jitter_hash ::
  "sha \<Rightarrow> hash \<Rightarrow> u64 \<Rightarrow> u32 \<Rightarrow> u32 \<Rightarrow> hash"
      where
  "compute_jitter_hash sha prev epoch_end frame_count jitter =
     sha (jitter_bytes prev epoch_end frame_count jitter)"

record GossipJitterLog =
  gjl_entries :: "GossipJitterEntry list"
  gjl_last_frame_count :: "u32 option"

definition GossipJitterLog_new :: "GossipJitterLog" where
  "GossipJitterLog_new =
     \<lparr>gjl_entries = [], gjl_last_frame_count = None\<rparr>"

definition GossipJitterLog_entry_count :: "GossipJitterLog \<Rightarrow> nat" where
  "GossipJitterLog_entry_count self =
     length (gjl_entries self)"

definition GossipJitterLog_latest :: "GossipJitterLog \<Rightarrow> GossipJitterEntry option" where
  "GossipJitterLog_latest self =
     last_opt (gjl_entries self)"

definition GossipJitterLog_max_jitter :: "GossipJitterLog \<Rightarrow> u32" where
  "GossipJitterLog_max_jitter self =
     unwrap_or 0 (list_max (map gje_jitter (gjl_entries self)))"

definition GossipJitterLog_avg_jitter :: "GossipJitterLog \<Rightarrow> u32" where
  "GossipJitterLog_avg_jitter self =
     (if (gjl_entries self) = [] then 0
      else (let sum_v = sum_list (map (\<lambda>e. (ucast (gje_jitter e) :: u64)) (gjl_entries self))
      in (ucast (sum_v div (of_nat (length (gjl_entries self)) :: u64)) :: u32)))"

definition GossipJitterLog_record ::
  "sha \<Rightarrow> u64 \<Rightarrow> u32 \<Rightarrow> GossipJitterLog \<Rightarrow> GossipJitterEntry
      \<times> GossipJitterLog" where
  "GossipJitterLog_record sha epoch_end frame_count self =
     (let jitter = (case gjl_last_frame_count self of None \<Rightarrow> 0 | Some p \<Rightarrow> if
         frame_count \<ge> p then frame_count - p else p - frame_count);
          self = self\<lparr>gjl_last_frame_count := Some frame_count\<rparr>;
          prev = last_hash gje_entry_hash (gjl_entries self);
          entry_hash = compute_jitter_hash sha prev epoch_end frame_count jitter;
          self = self\<lparr>gjl_entries := (gjl_entries self) @ [\<lparr>gje_epoch_end = epoch_end,
            gje_frame_count = frame_count, gje_jitter = jitter, gje_entry_hash = entry_hash,
            gje_prev_hash = prev\<rparr>]\<rparr>
      in (last (gjl_entries self), self))"

definition GossipJitterEntry_bytes_of :: "GossipJitterEntry \<Rightarrow> bytes" where
  "GossipJitterEntry_bytes_of e =
     jitter_bytes (gje_prev_hash e) (gje_epoch_end e) (gje_frame_count e) (gje_jitter e)"

definition GossipJitterLog_verify_chain ::
  "sha \<Rightarrow> GossipJitterLog \<Rightarrow> bool \<times> nat option" where
  "GossipJitterLog_verify_chain sha self =
     verify_from gje_prev_hash gje_entry_hash (\<lambda>r. sha (GossipJitterEntry_bytes_of r)) 0 genesis
         (gjl_entries self)"

lemma jitter_bytes_inj:
  "jitter_bytes prev epoch_end frame_count jitter = jitter_bytes prev' epoch_end' frame_count' jitter'
      \<longleftrightarrow>
   prev = prev' \<and> epoch_end = epoch_end' \<and> frame_count = frame_count' \<and> jitter = jitter'"
  by (auto simp: jitter_bytes_def enc_simps)

definition GossipJitterEntry_committed :: "GossipJitterEntry \<Rightarrow> u64 \<times> u32 \<times>
    u32" where
  "GossipJitterEntry_committed e =
     (gje_epoch_end e, gje_frame_count e, gje_jitter e)"

interpretation jitter: epoch_log GossipJitterEntry_bytes_of gje_prev_hash gje_entry_hash
    GossipJitterEntry_committed
  "\<lambda>sha (epoch_end, frame_count) l. GossipJitterLog_record sha epoch_end frame_count l"
  gjl_entries GossipJitterLog_new "\<lambda>(a, b, _). (a, b)"
  by unfold_locales (auto simp: GossipJitterLog_record_def compute_jitter_hash_def
      GossipJitterLog_new_def Let_def GossipJitterEntry_bytes_of_def GossipJitterEntry_committed_def
      jitter_bytes_inj)

lemma jitter_verify_iff: "GossipJitterLog_verify_chain sha l = (True,
    None) \<longleftrightarrow> jitter.ok sha (gjl_entries l)"
  by (simp add: GossipJitterLog_verify_chain_def verify_from_iff)

section \<open>Gossip Acknowledgment Latency Tracker (Gate 391)\<close>

text \<open>
  \<open>gossip_ack_latency.rs\<close>. Tracks per-peer acknowledgment latency in epochs (ack_epoch -
  dispatch_epoch). Maintains rolling window (size 4) for per-peer average latency. High ack latency
  indicates slow or unreliable peers.
\<close>

definition WINDOW_SIZE :: nat where
  "WINDOW_SIZE = 4"

record GossipAckLatencyEntry =
  gale_peer_id :: u64
  gale_epoch :: u64
  gale_latency_epochs :: u64
  gale_rolling_avg :: u64
  gale_entry_hash :: hash
  gale_prev_hash :: hash

definition ack_latency_bytes ::
  "hash \<Rightarrow> u64 \<Rightarrow> u64 \<Rightarrow> u64 \<Rightarrow> u64 \<Rightarrow> bytes"
      where
  "ack_latency_bytes prev peer_id epoch latency_epochs rolling_avg =
     hash_bytes prev @ be8 peer_id @ be8 epoch @ be8 latency_epochs @ be8 rolling_avg"

definition compute_ack_latency_hash ::
  "sha \<Rightarrow> hash \<Rightarrow> u64 \<Rightarrow> u64 \<Rightarrow> u64 \<Rightarrow> u64
      \<Rightarrow> hash" where
  "compute_ack_latency_hash sha prev peer_id epoch latency_epochs rolling_avg =
     sha (ack_latency_bytes prev peer_id epoch latency_epochs rolling_avg)"

record GossipAckLatencyLog =
  gall_entries :: "GossipAckLatencyEntry list"
  gall_peer_windows :: "(u64, u64 list) btmap"

definition GossipAckLatencyLog_new :: "GossipAckLatencyLog" where
  "GossipAckLatencyLog_new =
     \<lparr>gall_entries = [], gall_peer_windows = bt_empty\<rparr>"

definition GossipAckLatencyLog_entry_count :: "GossipAckLatencyLog \<Rightarrow> nat" where
  "GossipAckLatencyLog_entry_count self =
     length (gall_entries self)"

definition GossipAckLatencyLog_latest ::
  "GossipAckLatencyLog \<Rightarrow> GossipAckLatencyEntry option" where
  "GossipAckLatencyLog_latest self =
     last_opt (gall_entries self)"

definition GossipAckLatencyLog_avg_latency_for ::
  "u64 \<Rightarrow> GossipAckLatencyLog \<Rightarrow> u64" where
  "GossipAckLatencyLog_avg_latency_for peer_id self =
     (let peer_entries = map gale_latency_epochs (filter (\<lambda>e. (gale_peer_id e) = peer_id)
         (gall_entries self))
      in if peer_entries = [] then 0
      else (let sum_v = sum_list peer_entries
      in sum_v div (of_nat (length peer_entries) :: u64)))"

definition GossipAckLatencyLog_max_latency :: "GossipAckLatencyLog \<Rightarrow> u64" where
  "GossipAckLatencyLog_max_latency self =
     unwrap_or 0 (list_max (map gale_latency_epochs (gall_entries self)))"

definition GossipAckLatencyLog_overall_avg :: "GossipAckLatencyLog \<Rightarrow> u64" where
  "GossipAckLatencyLog_overall_avg self =
     (if (gall_entries self) = [] then 0
      else (let sum_v = sum_list (map gale_latency_epochs (gall_entries self))
      in sum_v div (of_nat (length (gall_entries self)) :: u64)))"

definition GossipAckLatencyLog_record ::
  "sha \<Rightarrow> u64 \<Rightarrow> u64 \<Rightarrow> u64 \<Rightarrow> GossipAckLatencyLog
      \<Rightarrow> GossipAckLatencyEntry \<times> GossipAckLatencyLog" where
  "GossipAckLatencyLog_record sha peer_id dispatch_epoch ack_epoch self =
     (let latency_epochs = sat_sub ack_epoch dispatch_epoch;
          window = bt_get_or [] (gall_peer_windows self) peer_id @ [latency_epochs];
          window = (if WINDOW_SIZE < length window then tl window else window);
          self = self\<lparr>gall_peer_windows := bt_insert peer_id window (gall_peer_windows
            self)\<rparr>;
          rolling_avg = sum_list window div of_nat (length window);
          prev = last_hash gale_entry_hash (gall_entries self);
          entry_hash = compute_ack_latency_hash sha prev peer_id ack_epoch latency_epochs rolling_avg;
          self = self\<lparr>gall_entries := (gall_entries self) @ [\<lparr>gale_peer_id = peer_id,
            gale_epoch = ack_epoch, gale_latency_epochs = latency_epochs,
            gale_rolling_avg = rolling_avg, gale_entry_hash = entry_hash,
            gale_prev_hash = prev\<rparr>]\<rparr>
      in (last (gall_entries self), self))"

definition GossipAckLatencyEntry_bytes_of :: "GossipAckLatencyEntry \<Rightarrow> bytes" where
  "GossipAckLatencyEntry_bytes_of e =
     ack_latency_bytes (gale_prev_hash e) (gale_peer_id e) (gale_epoch e) (gale_latency_epochs e)
         (gale_rolling_avg e)"

definition GossipAckLatencyLog_verify_chain ::
  "sha \<Rightarrow> GossipAckLatencyLog \<Rightarrow> bool \<times> nat option" where
  "GossipAckLatencyLog_verify_chain sha self =
     verify_from gale_prev_hash gale_entry_hash (\<lambda>r. sha (GossipAckLatencyEntry_bytes_of r)) 0
         genesis (gall_entries self)"

lemma ack_latency_bytes_inj:
  "ack_latency_bytes prev peer_id epoch latency_epochs rolling_avg = ack_latency_bytes prev' peer_id'
      epoch' latency_epochs' rolling_avg' \<longleftrightarrow>
   prev = prev' \<and> peer_id = peer_id' \<and> epoch = epoch' \<and> latency_epochs = latency_epochs'
       \<and> rolling_avg = rolling_avg'"
  by (auto simp: ack_latency_bytes_def enc_simps)

definition GossipAckLatencyEntry_committed :: "GossipAckLatencyEntry \<Rightarrow> u64 \<times> u64
    \<times> u64 \<times> u64" where
  "GossipAckLatencyEntry_committed e =
     (gale_peer_id e, gale_epoch e, gale_latency_epochs e, gale_rolling_avg e)"

interpretation ack_latency: hash_log GossipAckLatencyEntry_bytes_of gale_prev_hash gale_entry_hash
    GossipAckLatencyEntry_committed
  by unfold_locales (auto simp: GossipAckLatencyEntry_bytes_of_def GossipAckLatencyEntry_committed_def
      ack_latency_bytes_inj)

lemma ack_latency_verify_iff: "GossipAckLatencyLog_verify_chain sha l = (True,
    None) \<longleftrightarrow> ack_latency.ok sha (gall_entries l)"
  by (simp add: GossipAckLatencyLog_verify_chain_def verify_from_iff)

lemma gossip_ack_latency_log_record_ok: "ack_latency.ok sha (gall_entries l) \<Longrightarrow>
    ack_latency.ok sha (gall_entries (snd (GossipAckLatencyLog_record sha peer_id dispatch_epoch
    ack_epoch l)))"
  by (simp add: Let_def split_def GossipAckLatencyLog_record_def compute_ack_latency_hash_def
      GossipAckLatencyEntry_bytes_of_def split: option.split sum.split)

section \<open>Gossip Queue Depth Log (Gate 404)\<close>

text \<open>
  \<open>gossip_queue_depth.rs\<close>. Per-epoch tracking of gossip send-queue depth samples. The
  queue depth is sampled at epoch boundaries. High queue depth indicates the gossip layer cannot drain
  messages fast enough.
\<close>

definition QUEUE_FULL_THRESHOLD :: u32 where
  "QUEUE_FULL_THRESHOLD = 1000"

record GossipQueueDepthEntry =
  gqde_epoch_end :: u64
  gqde_min_depth :: u32
  gqde_max_depth :: u32
  gqde_mean_depth :: u32
  gqde_queue_full :: bool
  gqde_entry_hash :: hash
  gqde_prev_hash :: hash

definition queue_depth_bytes ::
  "hash \<Rightarrow> u64 \<Rightarrow> u32 \<Rightarrow> u32 \<Rightarrow> u32 \<Rightarrow> bool
      \<Rightarrow> bytes" where
  "queue_depth_bytes prev epoch_end min_depth max_depth mean_depth queue_full =
     hash_bytes prev @ be8 epoch_end @ be4 min_depth @ be4 max_depth @ be4 mean_depth @
         [of_bool queue_full]"

definition compute_queue_depth_hash ::
  "sha \<Rightarrow> hash \<Rightarrow> u64 \<Rightarrow> u32 \<Rightarrow> u32 \<Rightarrow> u32
      \<Rightarrow> bool \<Rightarrow> hash" where
  "compute_queue_depth_hash sha prev epoch_end min_depth max_depth mean_depth queue_full =
     sha (queue_depth_bytes prev epoch_end min_depth max_depth mean_depth queue_full)"

record GossipQueueDepthLog =
  gqdl_entries :: "GossipQueueDepthEntry list"

definition GossipQueueDepthLog_new :: "GossipQueueDepthLog" where
  "GossipQueueDepthLog_new =
     \<lparr>gqdl_entries = []\<rparr>"

definition GossipQueueDepthLog_entry_count :: "GossipQueueDepthLog \<Rightarrow> nat" where
  "GossipQueueDepthLog_entry_count self =
     length (gqdl_entries self)"

definition GossipQueueDepthLog_latest ::
  "GossipQueueDepthLog \<Rightarrow> GossipQueueDepthEntry option" where
  "GossipQueueDepthLog_latest self =
     last_opt (gqdl_entries self)"

definition GossipQueueDepthLog_queue_full_count :: "GossipQueueDepthLog \<Rightarrow> nat" where
  "GossipQueueDepthLog_queue_full_count self =
     length (filter gqde_queue_full (gqdl_entries self))"

definition GossipQueueDepthLog_max_ever_depth :: "GossipQueueDepthLog \<Rightarrow> u32" where
  "GossipQueueDepthLog_max_ever_depth self =
     unwrap_or 0 (list_max (map gqde_max_depth (gqdl_entries self)))"

definition GossipQueueDepthLog_mean_of_means :: "GossipQueueDepthLog \<Rightarrow> u32" where
  "GossipQueueDepthLog_mean_of_means self =
     (if (gqdl_entries self) = [] then 0
      else (let sum_v = sum_list (map (\<lambda>e. (ucast (gqde_mean_depth e) :: u64)) (gqdl_entries
          self))
      in (ucast (sum_v div (of_nat (length (gqdl_entries self)) :: u64)) :: u32)))"

definition GossipQueueDepthLog_record ::
  "sha \<Rightarrow> u64 \<Rightarrow> u32 \<Rightarrow> u32 \<Rightarrow> GossipQueueDepthLog
      \<Rightarrow> GossipQueueDepthEntry \<times> GossipQueueDepthLog" where
  "GossipQueueDepthLog_record sha epoch_end min_depth max_depth self =
     (let mean_depth = (sat_add min_depth max_depth) div 2;
          queue_full = max_depth \<ge> QUEUE_FULL_THRESHOLD;
          prev = last_hash gqde_entry_hash (gqdl_entries self);
          entry_hash = compute_queue_depth_hash sha prev epoch_end min_depth max_depth mean_depth
            queue_full;
          self = self\<lparr>gqdl_entries := (gqdl_entries self) @ [\<lparr>gqde_epoch_end = epoch_end,
            gqde_min_depth = min_depth, gqde_max_depth = max_depth, gqde_mean_depth = mean_depth,
            gqde_queue_full = queue_full, gqde_entry_hash = entry_hash,
            gqde_prev_hash = prev\<rparr>]\<rparr>
      in (last (gqdl_entries self), self))"

definition GossipQueueDepthEntry_bytes_of :: "GossipQueueDepthEntry \<Rightarrow> bytes" where
  "GossipQueueDepthEntry_bytes_of e =
     queue_depth_bytes (gqde_prev_hash e) (gqde_epoch_end e) (gqde_min_depth e) (gqde_max_depth e)
         (gqde_mean_depth e) (gqde_queue_full e)"

definition GossipQueueDepthLog_verify_chain ::
  "sha \<Rightarrow> GossipQueueDepthLog \<Rightarrow> bool \<times> nat option" where
  "GossipQueueDepthLog_verify_chain sha self =
     verify_from gqde_prev_hash gqde_entry_hash (\<lambda>r. sha (GossipQueueDepthEntry_bytes_of r)) 0
         genesis (gqdl_entries self)"

lemma queue_depth_bytes_inj:
  "queue_depth_bytes prev epoch_end min_depth max_depth mean_depth queue_full = queue_depth_bytes prev'
      epoch_end' min_depth' max_depth' mean_depth' queue_full' \<longleftrightarrow>
   prev = prev' \<and> epoch_end = epoch_end' \<and> min_depth = min_depth' \<and> max_depth =
       max_depth' \<and> mean_depth = mean_depth' \<and> queue_full = queue_full'"
  by (auto simp: queue_depth_bytes_def enc_simps)

definition GossipQueueDepthEntry_committed :: "GossipQueueDepthEntry \<Rightarrow> u64 \<times> u32
    \<times> u32 \<times> u32 \<times> bool" where
  "GossipQueueDepthEntry_committed e =
     (gqde_epoch_end e, gqde_min_depth e, gqde_max_depth e, gqde_mean_depth e, gqde_queue_full e)"

interpretation queue_depth: epoch_log GossipQueueDepthEntry_bytes_of gqde_prev_hash gqde_entry_hash
    GossipQueueDepthEntry_committed
  "\<lambda>sha (epoch_end, min_depth, max_depth) l. GossipQueueDepthLog_record sha epoch_end min_depth
      max_depth l"
  gqdl_entries GossipQueueDepthLog_new "\<lambda>(a, b, c, _, _). (a, b, c)"
  by unfold_locales (auto simp: GossipQueueDepthLog_record_def compute_queue_depth_hash_def
      GossipQueueDepthLog_new_def Let_def GossipQueueDepthEntry_bytes_of_def
      GossipQueueDepthEntry_committed_def queue_depth_bytes_inj)

lemma queue_depth_verify_iff: "GossipQueueDepthLog_verify_chain sha l = (True,
    None) \<longleftrightarrow> queue_depth.ok sha (gqdl_entries l)"
  by (simp add: GossipQueueDepthLog_verify_chain_def verify_from_iff)

section \<open>Gossip Window Fill Log (Gate 412)\<close>

text \<open>
  \<open>gossip_window_fill.rs\<close>. Per-epoch tracking of gossip sliding window fill ratio. The
  window is a fixed-capacity slot buffer; fill_ratio measures how full it was during the epoch.
\<close>

definition WINDOW_FULL_THRESHOLD :: u32 where
  "WINDOW_FULL_THRESHOLD = 90"

record GossipWindowFillEntry =
  gwfe_epoch_end :: u64
  gwfe_slots_used :: u32
  gwfe_slots_total :: u32
  gwfe_fill_pct :: u32
  gwfe_window_full :: bool
  gwfe_window_empty :: bool
  gwfe_entry_hash :: hash
  gwfe_prev_hash :: hash

definition window_fill_bytes ::
  "hash \<Rightarrow> u64 \<Rightarrow> u32 \<Rightarrow> u32 \<Rightarrow> u32 \<Rightarrow> bool
      \<Rightarrow> bool \<Rightarrow> bytes" where
  "window_fill_bytes prev epoch_end slots_used slots_total fill_pct window_full window_empty =
     hash_bytes prev @ be8 epoch_end @ be4 slots_used @ be4 slots_total @ be4 fill_pct @
         [of_bool window_full] @ [of_bool window_empty]"

definition compute_window_fill_hash ::
  "sha \<Rightarrow> hash \<Rightarrow> u64 \<Rightarrow> u32 \<Rightarrow> u32 \<Rightarrow> u32
      \<Rightarrow> bool \<Rightarrow> bool \<Rightarrow> hash" where
  "compute_window_fill_hash sha prev epoch_end slots_used slots_total fill_pct window_full window_empty
      =
     sha (window_fill_bytes prev epoch_end slots_used slots_total fill_pct window_full window_empty)"

record GossipWindowFillLog =
  gwfl_entries :: "GossipWindowFillEntry list"

definition GossipWindowFillLog_new :: "GossipWindowFillLog" where
  "GossipWindowFillLog_new =
     \<lparr>gwfl_entries = []\<rparr>"

definition GossipWindowFillLog_entry_count :: "GossipWindowFillLog \<Rightarrow> nat" where
  "GossipWindowFillLog_entry_count self =
     length (gwfl_entries self)"

definition GossipWindowFillLog_latest ::
  "GossipWindowFillLog \<Rightarrow> GossipWindowFillEntry option" where
  "GossipWindowFillLog_latest self =
     last_opt (gwfl_entries self)"

definition GossipWindowFillLog_full_count :: "GossipWindowFillLog \<Rightarrow> nat" where
  "GossipWindowFillLog_full_count self =
     length (filter gwfe_window_full (gwfl_entries self))"

definition GossipWindowFillLog_empty_count :: "GossipWindowFillLog \<Rightarrow> nat" where
  "GossipWindowFillLog_empty_count self =
     length (filter gwfe_window_empty (gwfl_entries self))"

definition GossipWindowFillLog_max_fill_pct :: "GossipWindowFillLog \<Rightarrow> u32" where
  "GossipWindowFillLog_max_fill_pct self =
     unwrap_or 0 (list_max (map gwfe_fill_pct (gwfl_entries self)))"

definition GossipWindowFillLog_record ::
  "sha \<Rightarrow> u64 \<Rightarrow> u32 \<Rightarrow> u32 \<Rightarrow> GossipWindowFillLog
      \<Rightarrow> GossipWindowFillEntry \<times> GossipWindowFillLog" where
  "GossipWindowFillLog_record sha epoch_end slots_used slots_total self =
     (let fill_pct = (ucast (((ucast slots_used :: u64) * 100) div (ucast (max slots_total 1) :: u64))
         :: u32);
          window_full = fill_pct \<ge> WINDOW_FULL_THRESHOLD;
          window_empty = fill_pct = 0;
          prev = last_hash gwfe_entry_hash (gwfl_entries self);
          entry_hash = compute_window_fill_hash sha prev epoch_end slots_used slots_total fill_pct
            window_full window_empty;
          self = self\<lparr>gwfl_entries := (gwfl_entries self) @ [\<lparr>gwfe_epoch_end = epoch_end,
            gwfe_slots_used = slots_used, gwfe_slots_total = slots_total, gwfe_fill_pct = fill_pct,
            gwfe_window_full = window_full, gwfe_window_empty = window_empty,
            gwfe_entry_hash = entry_hash, gwfe_prev_hash = prev\<rparr>]\<rparr>
      in (last (gwfl_entries self), self))"

definition GossipWindowFillEntry_bytes_of :: "GossipWindowFillEntry \<Rightarrow> bytes" where
  "GossipWindowFillEntry_bytes_of e =
     window_fill_bytes (gwfe_prev_hash e) (gwfe_epoch_end e) (gwfe_slots_used e) (gwfe_slots_total e)
         (gwfe_fill_pct e) (gwfe_window_full e) (gwfe_window_empty e)"

definition GossipWindowFillLog_verify_chain ::
  "sha \<Rightarrow> GossipWindowFillLog \<Rightarrow> bool \<times> nat option" where
  "GossipWindowFillLog_verify_chain sha self =
     verify_from gwfe_prev_hash gwfe_entry_hash (\<lambda>r. sha (GossipWindowFillEntry_bytes_of r)) 0
         genesis (gwfl_entries self)"

lemma window_fill_bytes_inj:
  "window_fill_bytes prev epoch_end slots_used slots_total fill_pct window_full window_empty =
      window_fill_bytes prev' epoch_end' slots_used' slots_total' fill_pct' window_full' window_empty'
      \<longleftrightarrow>
   prev = prev' \<and> epoch_end = epoch_end' \<and> slots_used = slots_used' \<and> slots_total =
       slots_total' \<and> fill_pct = fill_pct' \<and> window_full = window_full' \<and> window_empty =
       window_empty'"
  by (auto simp: window_fill_bytes_def enc_simps)

definition GossipWindowFillEntry_committed :: "GossipWindowFillEntry \<Rightarrow> u64 \<times> u32
    \<times> u32 \<times> u32 \<times> bool \<times> bool" where
  "GossipWindowFillEntry_committed e =
     (gwfe_epoch_end e, gwfe_slots_used e, gwfe_slots_total e, gwfe_fill_pct e, gwfe_window_full e,
         gwfe_window_empty e)"

interpretation window_fill: epoch_log GossipWindowFillEntry_bytes_of gwfe_prev_hash gwfe_entry_hash
    GossipWindowFillEntry_committed
  "\<lambda>sha (epoch_end, slots_used, slots_total) l. GossipWindowFillLog_record sha epoch_end
      slots_used slots_total l"
  gwfl_entries GossipWindowFillLog_new "\<lambda>(a, b, c, _, _, _). (a, b, c)"
  by unfold_locales (auto simp: GossipWindowFillLog_record_def compute_window_fill_hash_def
      GossipWindowFillLog_new_def Let_def GossipWindowFillEntry_bytes_of_def
      GossipWindowFillEntry_committed_def window_fill_bytes_inj)

lemma window_fill_verify_iff: "GossipWindowFillLog_verify_chain sha l = (True,
    None) \<longleftrightarrow> window_fill.ok sha (gwfl_entries l)"
  by (simp add: GossipWindowFillLog_verify_chain_def verify_from_iff)

lemma window_fill_flag_iff:
  "slots_used \<le> slots_total \<Longrightarrow>
   gwfe_window_full (fst (GossipWindowFillLog_record sha epoch_end slots_used slots_total l))
       \<longleftrightarrow> 90 * max (unat slots_total) 1 \<le> 100 * unat slots_used"
  by (simp add: GossipWindowFillLog_record_def WINDOW_FULL_THRESHOLD_def Let_def pct_comparisons)

section \<open>Gossip TTL Tracker Log (Gate 403)\<close>

text \<open>
  \<open>gossip_ttl_tracker.rs\<close>. Per-epoch tracking of message Time-To-Live (TTL) hop counts.
  Each gossip message carries a TTL that decrements at each hop; a message is dropped when TTL reaches
  zero.
\<close>

definition TTL_EFFICIENCY_FLOOR :: u32 where
  "TTL_EFFICIENCY_FLOOR = 70"

record GossipTtlTrackerEntry =
  gtte_epoch_end :: u64
  gtte_expired_count :: u32
  gtte_delivered_count :: u32
  gtte_mean_hops_x10 :: u32
  gtte_ttl_efficiency_pct :: u32
  gtte_low_efficiency :: bool
  gtte_entry_hash :: hash
  gtte_prev_hash :: hash

definition ttl_tracker_bytes ::
  "hash \<Rightarrow> u64 \<Rightarrow> u32 \<Rightarrow> u32 \<Rightarrow> u32 \<Rightarrow> u32
      \<Rightarrow> bool \<Rightarrow> bytes" where
  "ttl_tracker_bytes prev epoch_end expired_count delivered_count mean_hops_x10 ttl_efficiency_pct
      low_efficiency =
     hash_bytes prev @ be8 epoch_end @ be4 expired_count @ be4 delivered_count @ be4 mean_hops_x10 @
         be4 ttl_efficiency_pct @ [of_bool low_efficiency]"

definition compute_ttl_tracker_hash ::
  "sha \<Rightarrow> hash \<Rightarrow> u64 \<Rightarrow> u32 \<Rightarrow> u32 \<Rightarrow> u32
      \<Rightarrow> u32 \<Rightarrow> bool \<Rightarrow> hash" where
  "compute_ttl_tracker_hash sha prev epoch_end expired_count delivered_count mean_hops_x10
      ttl_efficiency_pct low_efficiency =
     sha (ttl_tracker_bytes prev epoch_end expired_count delivered_count mean_hops_x10
         ttl_efficiency_pct low_efficiency)"

record GossipTtlTrackerLog =
  gttl_entries :: "GossipTtlTrackerEntry list"

definition GossipTtlTrackerLog_new :: "GossipTtlTrackerLog" where
  "GossipTtlTrackerLog_new =
     \<lparr>gttl_entries = []\<rparr>"

definition GossipTtlTrackerLog_entry_count :: "GossipTtlTrackerLog \<Rightarrow> nat" where
  "GossipTtlTrackerLog_entry_count self =
     length (gttl_entries self)"

definition GossipTtlTrackerLog_latest ::
  "GossipTtlTrackerLog \<Rightarrow> GossipTtlTrackerEntry option" where
  "GossipTtlTrackerLog_latest self =
     last_opt (gttl_entries self)"

definition GossipTtlTrackerLog_total_expired :: "GossipTtlTrackerLog \<Rightarrow> u64" where
  "GossipTtlTrackerLog_total_expired self =
     sum_list (map (\<lambda>e. (ucast (gtte_expired_count e) :: u64)) (gttl_entries self))"

definition GossipTtlTrackerLog_total_delivered :: "GossipTtlTrackerLog \<Rightarrow> u64" where
  "GossipTtlTrackerLog_total_delivered self =
     sum_list (map (\<lambda>e. (ucast (gtte_delivered_count e) :: u64)) (gttl_entries self))"

definition GossipTtlTrackerLog_low_efficiency_count :: "GossipTtlTrackerLog \<Rightarrow> nat" where
  "GossipTtlTrackerLog_low_efficiency_count self =
     length (filter gtte_low_efficiency (gttl_entries self))"

definition GossipTtlTrackerLog_min_efficiency_pct :: "GossipTtlTrackerLog \<Rightarrow> u32" where
  "GossipTtlTrackerLog_min_efficiency_pct self =
     unwrap_or 100 (list_min (map gtte_ttl_efficiency_pct (gttl_entries self)))"

definition GossipTtlTrackerLog_record ::
  "sha \<Rightarrow> u64 \<Rightarrow> u32 \<Rightarrow> u32 \<Rightarrow> u32 \<Rightarrow>
      GossipTtlTrackerLog \<Rightarrow> GossipTtlTrackerEntry \<times> GossipTtlTrackerLog" where
  "GossipTtlTrackerLog_record sha epoch_end expired_count delivered_count total_hops self =
     (let mean_hops_x10 = (ucast (((ucast total_hops :: u64) * 10) div (ucast (max delivered_count 1) ::
         u64)) :: u32);
          total_v = max (sat_add expired_count delivered_count) 1;
          ttl_efficiency_pct = (ucast (((ucast delivered_count :: u64) * 100) div (ucast total_v ::
            u64)) :: u32);
          low_efficiency = ttl_efficiency_pct < TTL_EFFICIENCY_FLOOR;
          prev = last_hash gtte_entry_hash (gttl_entries self);
          entry_hash = compute_ttl_tracker_hash sha prev epoch_end expired_count delivered_count
            mean_hops_x10 ttl_efficiency_pct low_efficiency;
          self = self\<lparr>gttl_entries := (gttl_entries self) @ [\<lparr>gtte_epoch_end = epoch_end,
            gtte_expired_count = expired_count, gtte_delivered_count = delivered_count,
            gtte_mean_hops_x10 = mean_hops_x10, gtte_ttl_efficiency_pct = ttl_efficiency_pct,
            gtte_low_efficiency = low_efficiency, gtte_entry_hash = entry_hash,
            gtte_prev_hash = prev\<rparr>]\<rparr>
      in (last (gttl_entries self), self))"

definition GossipTtlTrackerEntry_bytes_of :: "GossipTtlTrackerEntry \<Rightarrow> bytes" where
  "GossipTtlTrackerEntry_bytes_of e =
     ttl_tracker_bytes (gtte_prev_hash e) (gtte_epoch_end e) (gtte_expired_count e)
         (gtte_delivered_count e) (gtte_mean_hops_x10 e) (gtte_ttl_efficiency_pct e)
         (gtte_low_efficiency e)"

definition GossipTtlTrackerLog_verify_chain ::
  "sha \<Rightarrow> GossipTtlTrackerLog \<Rightarrow> bool \<times> nat option" where
  "GossipTtlTrackerLog_verify_chain sha self =
     verify_from gtte_prev_hash gtte_entry_hash (\<lambda>r. sha (GossipTtlTrackerEntry_bytes_of r)) 0
         genesis (gttl_entries self)"

lemma ttl_tracker_bytes_inj:
  "ttl_tracker_bytes prev epoch_end expired_count delivered_count mean_hops_x10 ttl_efficiency_pct
      low_efficiency = ttl_tracker_bytes prev' epoch_end' expired_count' delivered_count' mean_hops_x10'
      ttl_efficiency_pct' low_efficiency' \<longleftrightarrow>
   prev = prev' \<and> epoch_end = epoch_end' \<and> expired_count = expired_count' \<and>
       delivered_count = delivered_count' \<and> mean_hops_x10 = mean_hops_x10' \<and>
       ttl_efficiency_pct = ttl_efficiency_pct' \<and> low_efficiency = low_efficiency'"
  by (auto simp: ttl_tracker_bytes_def enc_simps)

definition GossipTtlTrackerEntry_committed :: "GossipTtlTrackerEntry \<Rightarrow> u64 \<times> u32
    \<times> u32 \<times> u32 \<times> u32 \<times> bool" where
  "GossipTtlTrackerEntry_committed e =
     (gtte_epoch_end e, gtte_expired_count e, gtte_delivered_count e, gtte_mean_hops_x10 e,
         gtte_ttl_efficiency_pct e, gtte_low_efficiency e)"

interpretation ttl_tracker: hash_log GossipTtlTrackerEntry_bytes_of gtte_prev_hash gtte_entry_hash
    GossipTtlTrackerEntry_committed
  by unfold_locales (auto simp: GossipTtlTrackerEntry_bytes_of_def GossipTtlTrackerEntry_committed_def
      ttl_tracker_bytes_inj)

lemma ttl_tracker_verify_iff: "GossipTtlTrackerLog_verify_chain sha l = (True,
    None) \<longleftrightarrow> ttl_tracker.ok sha (gttl_entries l)"
  by (simp add: GossipTtlTrackerLog_verify_chain_def verify_from_iff)

lemma gossip_ttl_tracker_log_record_ok: "ttl_tracker.ok sha (gttl_entries l) \<Longrightarrow>
    ttl_tracker.ok sha (gttl_entries (snd (GossipTtlTrackerLog_record sha epoch_end expired_count
    delivered_count total_hops l)))"
  by (simp add: Let_def split_def GossipTtlTrackerLog_record_def compute_ttl_tracker_hash_def
      GossipTtlTrackerEntry_bytes_of_def split: option.split sum.split)

end
