(* ===== verification/Gossip_Epoch_Logs.thy ===== *)
theory Gossip_Epoch_Logs
  imports Epoch_Log
begin

text \<open>
  The logs that sum up an epoch of gossip: its bandwidth, errors and convergence, the verdict on its
  health, and the snapshots, reports and seals that put the figures of other logs on record.
\<close>

section \<open>Gossip Epoch Bandwidth Log (Gate 402)\<close>

text \<open>
  \<open>gossip_epoch_bandwidth.rs\<close>. Per-epoch byte-level bandwidth accounting for the gossip
  layer.
\<close>

definition BANDWIDTH_OVERHEAD_THRESHOLD :: u32 where
  "BANDWIDTH_OVERHEAD_THRESHOLD = 20"

record GossipEpochBandwidthEntry =
  gebe_epoch_end :: u64
  gebe_bytes_sent :: u64
  gebe_bytes_received :: u64
  gebe_bytes_overhead :: u64
  gebe_overhead_pct :: u32
  gebe_high_overhead :: bool
  gebe_entry_hash :: hash
  gebe_prev_hash :: hash

definition epoch_bandwidth_bytes ::
  "hash \<Rightarrow> u64 \<Rightarrow> u64 \<Rightarrow> u64 \<Rightarrow> u64 \<Rightarrow> u32
      \<Rightarrow> bool \<Rightarrow> bytes" where
  "epoch_bandwidth_bytes prev epoch_end bytes_sent bytes_received bytes_overhead overhead_pct
      high_overhead =
     hash_bytes prev @ be8 epoch_end @ be8 bytes_sent @ be8 bytes_received @ be8 bytes_overhead @
         be4 overhead_pct @ [of_bool high_overhead]"

definition compute_epoch_bandwidth_hash ::
  "sha \<Rightarrow> hash \<Rightarrow> u64 \<Rightarrow> u64 \<Rightarrow> u64 \<Rightarrow> u64
      \<Rightarrow> u32 \<Rightarrow> bool \<Rightarrow> hash" where
  "compute_epoch_bandwidth_hash sha prev epoch_end bytes_sent bytes_received bytes_overhead overhead_pct
      high_overhead =
     sha (epoch_bandwidth_bytes prev epoch_end bytes_sent bytes_received bytes_overhead overhead_pct
         high_overhead)"

record GossipEpochBandwidthLog =
  gebl_entries :: "GossipEpochBandwidthEntry list"

definition GossipEpochBandwidthLog_new :: "GossipEpochBandwidthLog" where
  "GossipEpochBandwidthLog_new =
     \<lparr>gebl_entries = []\<rparr>"

definition GossipEpochBandwidthLog_entry_count :: "GossipEpochBandwidthLog \<Rightarrow> nat" where
  "GossipEpochBandwidthLog_entry_count self =
     length (gebl_entries self)"

definition GossipEpochBandwidthLog_latest ::
  "GossipEpochBandwidthLog \<Rightarrow> GossipEpochBandwidthEntry option" where
  "GossipEpochBandwidthLog_latest self =
     last_opt (gebl_entries self)"

definition GossipEpochBandwidthLog_total_sent :: "GossipEpochBandwidthLog \<Rightarrow> u64" where
  "GossipEpochBandwidthLog_total_sent self =
     sum_list (map gebe_bytes_sent (gebl_entries self))"

definition GossipEpochBandwidthLog_total_received :: "GossipEpochBandwidthLog \<Rightarrow> u64" where
  "GossipEpochBandwidthLog_total_received self =
     sum_list (map gebe_bytes_received (gebl_entries self))"

definition GossipEpochBandwidthLog_total_overhead :: "GossipEpochBandwidthLog \<Rightarrow> u64" where
  "GossipEpochBandwidthLog_total_overhead self =
     sum_list (map gebe_bytes_overhead (gebl_entries self))"

definition GossipEpochBandwidthLog_high_overhead_count ::
  "GossipEpochBandwidthLog \<Rightarrow> nat" where
  "GossipEpochBandwidthLog_high_overhead_count self =
     length (filter gebe_high_overhead (gebl_entries self))"

definition GossipEpochBandwidthLog_max_overhead_pct :: "GossipEpochBandwidthLog \<Rightarrow> u32" where
  "GossipEpochBandwidthLog_max_overhead_pct self =
     unwrap_or 0 (list_max (map gebe_overhead_pct (gebl_entries self)))"

definition GossipEpochBandwidthLog_record ::
  "sha \<Rightarrow> u64 \<Rightarrow> u64 \<Rightarrow> u64 \<Rightarrow> u64 \<Rightarrow>
      GossipEpochBandwidthLog \<Rightarrow> GossipEpochBandwidthEntry \<times> GossipEpochBandwidthLog"
      where
  "GossipEpochBandwidthLog_record sha epoch_end bytes_sent bytes_received bytes_overhead self =
     (let total_v = max (sat_add bytes_sent bytes_received) 1;
          overhead_pct = (ucast ((sat_mul bytes_overhead 100) div total_v) :: u32);
          high_overhead = overhead_pct \<ge> BANDWIDTH_OVERHEAD_THRESHOLD;
          prev = last_hash gebe_entry_hash (gebl_entries self);
          entry_hash = compute_epoch_bandwidth_hash sha prev epoch_end bytes_sent bytes_received
            bytes_overhead overhead_pct high_overhead;
          self = self\<lparr>gebl_entries := (gebl_entries self) @ [\<lparr>gebe_epoch_end = epoch_end,
            gebe_bytes_sent = bytes_sent, gebe_bytes_received = bytes_received,
            gebe_bytes_overhead = bytes_overhead, gebe_overhead_pct = overhead_pct,
            gebe_high_overhead = high_overhead, gebe_entry_hash = entry_hash,
            gebe_prev_hash = prev\<rparr>]\<rparr>
      in (last (gebl_entries self), self))"

definition GossipEpochBandwidthEntry_bytes_of :: "GossipEpochBandwidthEntry \<Rightarrow> bytes" where
  "GossipEpochBandwidthEntry_bytes_of e =
     epoch_bandwidth_bytes (gebe_prev_hash e) (gebe_epoch_end e) (gebe_bytes_sent e)
         (gebe_bytes_received e) (gebe_bytes_overhead e) (gebe_overhead_pct e) (gebe_high_overhead e)"

definition GossipEpochBandwidthLog_verify_chain ::
  "sha \<Rightarrow> GossipEpochBandwidthLog \<Rightarrow> bool \<times> nat option" where
  "GossipEpochBandwidthLog_verify_chain sha self =
     verify_from gebe_prev_hash gebe_entry_hash (\<lambda>r. sha (GossipEpochBandwidthEntry_bytes_of r))
         0 genesis (gebl_entries self)"

lemma epoch_bandwidth_bytes_inj:
  "epoch_bandwidth_bytes prev epoch_end bytes_sent bytes_received bytes_overhead overhead_pct
      high_overhead = epoch_bandwidth_bytes prev' epoch_end' bytes_sent' bytes_received' bytes_overhead'
      overhead_pct' high_overhead' \<longleftrightarrow>
   prev = prev' \<and> epoch_end = epoch_end' \<and> bytes_sent = bytes_sent' \<and> bytes_received =
       bytes_received' \<and> bytes_overhead = bytes_overhead' \<and> overhead_pct = overhead_pct'
       \<and> high_overhead = high_overhead'"
  by (auto simp: epoch_bandwidth_bytes_def enc_simps)

definition GossipEpochBandwidthEntry_committed :: "GossipEpochBandwidthEntry \<Rightarrow> u64 \<times>
    u64 \<times> u64 \<times> u64 \<times> u32 \<times> bool" where
  "GossipEpochBandwidthEntry_committed e =
     (gebe_epoch_end e, gebe_bytes_sent e, gebe_bytes_received e, gebe_bytes_overhead e,
         gebe_overhead_pct e, gebe_high_overhead e)"

interpretation epoch_bandwidth: epoch_log GossipEpochBandwidthEntry_bytes_of gebe_prev_hash
    gebe_entry_hash GossipEpochBandwidthEntry_committed
  "\<lambda>sha (epoch_end, bytes_sent, bytes_received, bytes_overhead) l.
      GossipEpochBandwidthLog_record sha epoch_end bytes_sent bytes_received bytes_overhead l"
  gebl_entries GossipEpochBandwidthLog_new "\<lambda>(a, b, c, d, _, _). (a, b, c, d)"
  by unfold_locales (auto simp: GossipEpochBandwidthLog_record_def compute_epoch_bandwidth_hash_def
      GossipEpochBandwidthLog_new_def Let_def GossipEpochBandwidthEntry_bytes_of_def
      GossipEpochBandwidthEntry_committed_def epoch_bandwidth_bytes_inj)

lemma epoch_bandwidth_verify_iff: "GossipEpochBandwidthLog_verify_chain sha l = (True,
    None) \<longleftrightarrow> epoch_bandwidth.ok sha (gebl_entries l)"
  by (simp add: GossipEpochBandwidthLog_verify_chain_def verify_from_iff)

section \<open>Gossip Epoch Convergence Log (Gate 413)\<close>

text \<open>
  \<open>gossip_epoch_convergence.rs\<close>. Per-epoch tracking of gossip state convergence across
  peers. Convergence measures how many peers share the same view of the current state.
\<close>

definition CONVERGENCE_FLOOR :: u32 where
  "CONVERGENCE_FLOOR = 75"

record GossipEpochConvergenceEntry =
  gece_epoch_end :: u64
  gece_peers_total :: u32
  gece_peers_converged :: u32
  gece_convergence_pct :: u32
  gece_not_converged :: bool
  gece_entry_hash :: hash
  gece_prev_hash :: hash

definition epoch_convergence_bytes ::
  "hash \<Rightarrow> u64 \<Rightarrow> u32 \<Rightarrow> u32 \<Rightarrow> u32 \<Rightarrow> bool
      \<Rightarrow> bytes" where
  "epoch_convergence_bytes prev epoch_end peers_total peers_converged convergence_pct not_converged =
     hash_bytes prev @ be8 epoch_end @ be4 peers_total @ be4 peers_converged @ be4 convergence_pct @
         [of_bool not_converged]"

definition compute_epoch_convergence_hash ::
  "sha \<Rightarrow> hash \<Rightarrow> u64 \<Rightarrow> u32 \<Rightarrow> u32 \<Rightarrow> u32
      \<Rightarrow> bool \<Rightarrow> hash" where
  "compute_epoch_convergence_hash sha prev epoch_end peers_total peers_converged convergence_pct
      not_converged =
     sha (epoch_convergence_bytes prev epoch_end peers_total peers_converged convergence_pct
         not_converged)"

record GossipEpochConvergenceLog =
  gecl_entries :: "GossipEpochConvergenceEntry list"

definition GossipEpochConvergenceLog_new :: "GossipEpochConvergenceLog" where
  "GossipEpochConvergenceLog_new =
     \<lparr>gecl_entries = []\<rparr>"

definition GossipEpochConvergenceLog_entry_count :: "GossipEpochConvergenceLog \<Rightarrow> nat" where
  "GossipEpochConvergenceLog_entry_count self =
     length (gecl_entries self)"

definition GossipEpochConvergenceLog_latest ::
  "GossipEpochConvergenceLog \<Rightarrow> GossipEpochConvergenceEntry option" where
  "GossipEpochConvergenceLog_latest self =
     last_opt (gecl_entries self)"

definition GossipEpochConvergenceLog_not_converged_count ::
  "GossipEpochConvergenceLog \<Rightarrow> nat" where
  "GossipEpochConvergenceLog_not_converged_count self =
     length (filter gece_not_converged (gecl_entries self))"

definition GossipEpochConvergenceLog_min_convergence_pct ::
  "GossipEpochConvergenceLog \<Rightarrow> u32" where
  "GossipEpochConvergenceLog_min_convergence_pct self =
     unwrap_or 100 (list_min (map gece_convergence_pct (gecl_entries self)))"

definition GossipEpochConvergenceLog_mean_convergence_pct ::
  "GossipEpochConvergenceLog \<Rightarrow> u32" where
  "GossipEpochConvergenceLog_mean_convergence_pct self =
     (if (gecl_entries self) = [] then 0
      else (let sum_v = sum_list (map (\<lambda>e. (ucast (gece_convergence_pct e) :: u64))
          (gecl_entries self))
      in (ucast (sum_v div (of_nat (length (gecl_entries self)) :: u64)) :: u32)))"

definition GossipEpochConvergenceLog_record ::
  "sha \<Rightarrow> u64 \<Rightarrow> u32 \<Rightarrow> u32 \<Rightarrow> GossipEpochConvergenceLog
      \<Rightarrow> GossipEpochConvergenceEntry \<times> GossipEpochConvergenceLog" where
  "GossipEpochConvergenceLog_record sha epoch_end peers_total peers_converged self =
     (let convergence_pct = (ucast (((ucast peers_converged :: u64) * 100) div (ucast (max peers_total
         1) :: u64)) :: u32);
          not_converged = convergence_pct < CONVERGENCE_FLOOR;
          prev = last_hash gece_entry_hash (gecl_entries self);
          entry_hash = compute_epoch_convergence_hash sha prev epoch_end peers_total peers_converged
            convergence_pct not_converged;
          self = self\<lparr>gecl_entries := (gecl_entries self) @ [\<lparr>gece_epoch_end = epoch_end,
            gece_peers_total = peers_total, gece_peers_converged = peers_converged,
            gece_convergence_pct = convergence_pct, gece_not_converged = not_converged,
            gece_entry_hash = entry_hash, gece_prev_hash = prev\<rparr>]\<rparr>
      in (last (gecl_entries self), self))"

definition GossipEpochConvergenceEntry_bytes_of ::
  "GossipEpochConvergenceEntry \<Rightarrow> bytes" where
  "GossipEpochConvergenceEntry_bytes_of e =
     epoch_convergence_bytes (gece_prev_hash e) (gece_epoch_end e) (gece_peers_total e)
         (gece_peers_converged e) (gece_convergence_pct e) (gece_not_converged e)"

definition GossipEpochConvergenceLog_verify_chain ::
  "sha \<Rightarrow> GossipEpochConvergenceLog \<Rightarrow> bool \<times> nat option" where
  "GossipEpochConvergenceLog_verify_chain sha self =
     verify_from gece_prev_hash gece_entry_hash (\<lambda>r. sha (GossipEpochConvergenceEntry_bytes_of
         r)) 0 genesis (gecl_entries self)"

lemma epoch_convergence_bytes_inj:
  "epoch_convergence_bytes prev epoch_end peers_total peers_converged convergence_pct not_converged =
      epoch_convergence_bytes prev' epoch_end' peers_total' peers_converged' convergence_pct'
      not_converged' \<longleftrightarrow>
   prev = prev' \<and> epoch_end = epoch_end' \<and> peers_total = peers_total' \<and> peers_converged =
       peers_converged' \<and> convergence_pct = convergence_pct' \<and> not_converged = not_converged'"
  by (auto simp: epoch_convergence_bytes_def enc_simps)

definition GossipEpochConvergenceEntry_committed :: "GossipEpochConvergenceEntry \<Rightarrow> u64
    \<times> u32 \<times> u32 \<times> u32 \<times> bool" where
  "GossipEpochConvergenceEntry_committed e =
     (gece_epoch_end e, gece_peers_total e, gece_peers_converged e, gece_convergence_pct e,
         gece_not_converged e)"

interpretation epoch_convergence: epoch_log GossipEpochConvergenceEntry_bytes_of gece_prev_hash
    gece_entry_hash GossipEpochConvergenceEntry_committed
  "\<lambda>sha (epoch_end, peers_total, peers_converged) l. GossipEpochConvergenceLog_record sha
      epoch_end peers_total peers_converged l"
  gecl_entries GossipEpochConvergenceLog_new "\<lambda>(a, b, c, _, _). (a, b, c)"
  by unfold_locales (auto simp: GossipEpochConvergenceLog_record_def compute_epoch_convergence_hash_def
      GossipEpochConvergenceLog_new_def Let_def GossipEpochConvergenceEntry_bytes_of_def
      GossipEpochConvergenceEntry_committed_def epoch_convergence_bytes_inj)

lemma epoch_convergence_verify_iff: "GossipEpochConvergenceLog_verify_chain sha l = (True,
    None) \<longleftrightarrow> epoch_convergence.ok sha (gecl_entries l)"
  by (simp add: GossipEpochConvergenceLog_verify_chain_def verify_from_iff)

lemma epoch_convergence_flag_iff:
  "peers_converged \<le> peers_total \<Longrightarrow>
   gece_not_converged (fst (GossipEpochConvergenceLog_record sha epoch_end peers_total peers_converged
       l)) \<longleftrightarrow> 100 * unat peers_converged < 75 * max (unat peers_total) 1"
  by (simp add: GossipEpochConvergenceLog_record_def CONVERGENCE_FLOOR_def Let_def pct_comparisons)

section \<open>Gossip Epoch Error Log (Gate 410)\<close>

text \<open>
  \<open>gossip_epoch_error.rs\<close>. Per-epoch tracking of gossip layer errors and exceptions.
\<close>

definition ERROR_BURST_THRESHOLD :: u32 where
  "ERROR_BURST_THRESHOLD = 2"

record GossipEpochErrorEntry =
  geee_epoch_end :: u64
  geee_error_count :: u32
  geee_warning_count :: u32
  geee_total_events :: u32
  geee_error_rate_pct :: u32
  geee_error_burst :: bool
  geee_entry_hash :: hash
  geee_prev_hash :: hash

definition epoch_error_bytes ::
  "hash \<Rightarrow> u64 \<Rightarrow> u32 \<Rightarrow> u32 \<Rightarrow> u32 \<Rightarrow> u32
      \<Rightarrow> bool \<Rightarrow> bytes" where
  "epoch_error_bytes prev epoch_end error_count warning_count total_events error_rate_pct error_burst =
     hash_bytes prev @ be8 epoch_end @ be4 error_count @ be4 warning_count @ be4 total_events @
         be4 error_rate_pct @ [of_bool error_burst]"

definition compute_epoch_error_hash ::
  "sha \<Rightarrow> hash \<Rightarrow> u64 \<Rightarrow> u32 \<Rightarrow> u32 \<Rightarrow> u32
      \<Rightarrow> u32 \<Rightarrow> bool \<Rightarrow> hash" where
  "compute_epoch_error_hash sha prev epoch_end error_count warning_count total_events error_rate_pct
      error_burst =
     sha (epoch_error_bytes prev epoch_end error_count warning_count total_events error_rate_pct
         error_burst)"

record GossipEpochErrorLog =
  geel_entries :: "GossipEpochErrorEntry list"

definition GossipEpochErrorLog_new :: "GossipEpochErrorLog" where
  "GossipEpochErrorLog_new =
     \<lparr>geel_entries = []\<rparr>"

definition GossipEpochErrorLog_entry_count :: "GossipEpochErrorLog \<Rightarrow> nat" where
  "GossipEpochErrorLog_entry_count self =
     length (geel_entries self)"

definition GossipEpochErrorLog_latest ::
  "GossipEpochErrorLog \<Rightarrow> GossipEpochErrorEntry option" where
  "GossipEpochErrorLog_latest self =
     last_opt (geel_entries self)"

definition GossipEpochErrorLog_total_errors :: "GossipEpochErrorLog \<Rightarrow> u64" where
  "GossipEpochErrorLog_total_errors self =
     sum_list (map (\<lambda>e. (ucast (geee_error_count e) :: u64)) (geel_entries self))"

definition GossipEpochErrorLog_total_warnings :: "GossipEpochErrorLog \<Rightarrow> u64" where
  "GossipEpochErrorLog_total_warnings self =
     sum_list (map (\<lambda>e. (ucast (geee_warning_count e) :: u64)) (geel_entries self))"

definition GossipEpochErrorLog_burst_count :: "GossipEpochErrorLog \<Rightarrow> nat" where
  "GossipEpochErrorLog_burst_count self =
     length (filter geee_error_burst (geel_entries self))"

definition GossipEpochErrorLog_max_error_rate_pct :: "GossipEpochErrorLog \<Rightarrow> u32" where
  "GossipEpochErrorLog_max_error_rate_pct self =
     unwrap_or 0 (list_max (map geee_error_rate_pct (geel_entries self)))"

definition GossipEpochErrorLog_record ::
  "sha \<Rightarrow> u64 \<Rightarrow> u32 \<Rightarrow> u32 \<Rightarrow> u32 \<Rightarrow>
      GossipEpochErrorLog \<Rightarrow> GossipEpochErrorEntry \<times> GossipEpochErrorLog" where
  "GossipEpochErrorLog_record sha epoch_end error_count warning_count total_events self =
     (let error_rate_pct = (ucast (((ucast error_count :: u64) * 100) div (ucast (max total_events 1) ::
         u64)) :: u32);
          error_burst = error_rate_pct \<ge> ERROR_BURST_THRESHOLD;
          prev = last_hash geee_entry_hash (geel_entries self);
          entry_hash = compute_epoch_error_hash sha prev epoch_end error_count warning_count
            total_events error_rate_pct error_burst;
          self = self\<lparr>geel_entries := (geel_entries self) @ [\<lparr>geee_epoch_end = epoch_end,
            geee_error_count = error_count, geee_warning_count = warning_count,
            geee_total_events = total_events, geee_error_rate_pct = error_rate_pct,
            geee_error_burst = error_burst, geee_entry_hash = entry_hash,
            geee_prev_hash = prev\<rparr>]\<rparr>
      in (last (geel_entries self), self))"

definition GossipEpochErrorEntry_bytes_of :: "GossipEpochErrorEntry \<Rightarrow> bytes" where
  "GossipEpochErrorEntry_bytes_of e =
     epoch_error_bytes (geee_prev_hash e) (geee_epoch_end e) (geee_error_count e) (geee_warning_count e)
         (geee_total_events e) (geee_error_rate_pct e) (geee_error_burst e)"

definition GossipEpochErrorLog_verify_chain ::
  "sha \<Rightarrow> GossipEpochErrorLog \<Rightarrow> bool \<times> nat option" where
  "GossipEpochErrorLog_verify_chain sha self =
     verify_from geee_prev_hash geee_entry_hash (\<lambda>r. sha (GossipEpochErrorEntry_bytes_of r)) 0
         genesis (geel_entries self)"

lemma epoch_error_bytes_inj:
  "epoch_error_bytes prev epoch_end error_count warning_count total_events error_rate_pct error_burst =
      epoch_error_bytes prev' epoch_end' error_count' warning_count' total_events' error_rate_pct'
      error_burst' \<longleftrightarrow>
   prev = prev' \<and> epoch_end = epoch_end' \<and> error_count = error_count' \<and> warning_count =
       warning_count' \<and> total_events = total_events' \<and> error_rate_pct = error_rate_pct' \<and>
       error_burst = error_burst'"
  by (auto simp: epoch_error_bytes_def enc_simps)

definition GossipEpochErrorEntry_committed :: "GossipEpochErrorEntry \<Rightarrow> u64 \<times> u32
    \<times> u32 \<times> u32 \<times> u32 \<times> bool" where
  "GossipEpochErrorEntry_committed e =
     (geee_epoch_end e, geee_error_count e, geee_warning_count e, geee_total_events e,
         geee_error_rate_pct e, geee_error_burst e)"

interpretation epoch_error: epoch_log GossipEpochErrorEntry_bytes_of geee_prev_hash geee_entry_hash
    GossipEpochErrorEntry_committed
  "\<lambda>sha (epoch_end, error_count, warning_count, total_events) l. GossipEpochErrorLog_record sha
      epoch_end error_count warning_count total_events l"
  geel_entries GossipEpochErrorLog_new "\<lambda>(a, b, c, d, _, _). (a, b, c, d)"
  by unfold_locales (auto simp: GossipEpochErrorLog_record_def compute_epoch_error_hash_def
      GossipEpochErrorLog_new_def Let_def GossipEpochErrorEntry_bytes_of_def
      GossipEpochErrorEntry_committed_def epoch_error_bytes_inj)

lemma epoch_error_verify_iff: "GossipEpochErrorLog_verify_chain sha l = (True,
    None) \<longleftrightarrow> epoch_error.ok sha (geel_entries l)"
  by (simp add: GossipEpochErrorLog_verify_chain_def verify_from_iff)

lemma epoch_error_flag_iff:
  "error_count \<le> total_events \<Longrightarrow>
   geee_error_burst (fst (GossipEpochErrorLog_record sha epoch_end error_count warning_count
       total_events l)) \<longleftrightarrow> 2 * max (unat total_events) 1 \<le> 100 * unat
       error_count"
  by (simp add: GossipEpochErrorLog_record_def ERROR_BURST_THRESHOLD_def Let_def pct_comparisons)

section \<open>Gossip Epoch Health Verdict (Gate 394)\<close>

text \<open>
  \<open>gossip_epoch_health.rs\<close>. Synthesises per-epoch gossip pipeline signals into a single
  health verdict: Healthy / Degraded / Critical.
\<close>

datatype EpochHealthVerdict = Healthy | Degraded | Critical

fun EpochHealthVerdict_as_u8 :: "EpochHealthVerdict \<Rightarrow> u8" where
  "EpochHealthVerdict_as_u8 EpochHealthVerdict.Healthy = 0"
| "EpochHealthVerdict_as_u8 EpochHealthVerdict.Degraded = 1"
| "EpochHealthVerdict_as_u8 EpochHealthVerdict.Critical = 2"

lemma EpochHealthVerdict_as_u8_inj [simp]: "EpochHealthVerdict_as_u8 x = EpochHealthVerdict_as_u8 y
    \<longleftrightarrow> x = y"
  by (cases x; cases y) auto

definition EpochHealthVerdict_classify ::
  "u32 \<Rightarrow> u32 \<Rightarrow> u32 \<Rightarrow> bool \<Rightarrow> EpochHealthVerdict" where
  "EpochHealthVerdict_classify delivery_ratio_pct drop_pct churn_count under_pressure =
     (if delivery_ratio_pct < 50 \<or> drop_pct > 50 \<or> churn_count > 20 then
         EpochHealthVerdict.Critical
      else if delivery_ratio_pct < 80 \<or> drop_pct > 10 \<or> under_pressure \<or> churn_count > 5
          then EpochHealthVerdict.Degraded
      else EpochHealthVerdict.Healthy)"

record GossipEpochHealthEntry =
  gehe_epoch_end :: u64
  gehe_delivery_ratio_pct :: u32
  gehe_drop_pct :: u32
  gehe_churn_count :: u32
  gehe_under_pressure :: bool
  gehe_verdict :: EpochHealthVerdict
  gehe_entry_hash :: hash
  gehe_prev_hash :: hash

definition epoch_health_bytes ::
  "hash \<Rightarrow> u64 \<Rightarrow> u32 \<Rightarrow> u32 \<Rightarrow> u32 \<Rightarrow> bool
      \<Rightarrow> EpochHealthVerdict \<Rightarrow> bytes" where
  "epoch_health_bytes prev epoch_end delivery_ratio_pct drop_pct churn_count under_pressure verdict =
     hash_bytes prev @ be8 epoch_end @ be4 delivery_ratio_pct @ be4 drop_pct @ be4 churn_count @
         [of_bool under_pressure] @ [EpochHealthVerdict_as_u8 verdict]"

definition compute_epoch_health_hash ::
  "sha \<Rightarrow> hash \<Rightarrow> u64 \<Rightarrow> u32 \<Rightarrow> u32 \<Rightarrow> u32
      \<Rightarrow> bool \<Rightarrow> EpochHealthVerdict \<Rightarrow> hash" where
  "compute_epoch_health_hash sha prev epoch_end delivery_ratio_pct drop_pct churn_count under_pressure
      verdict =
     sha (epoch_health_bytes prev epoch_end delivery_ratio_pct drop_pct churn_count under_pressure
         verdict)"

record GossipEpochHealthLog =
  gehl_entries :: "GossipEpochHealthEntry list"

definition GossipEpochHealthLog_new :: "GossipEpochHealthLog" where
  "GossipEpochHealthLog_new =
     \<lparr>gehl_entries = []\<rparr>"

definition GossipEpochHealthLog_entry_count :: "GossipEpochHealthLog \<Rightarrow> nat" where
  "GossipEpochHealthLog_entry_count self =
     length (gehl_entries self)"

definition GossipEpochHealthLog_latest ::
  "GossipEpochHealthLog \<Rightarrow> GossipEpochHealthEntry option" where
  "GossipEpochHealthLog_latest self =
     last_opt (gehl_entries self)"

definition GossipEpochHealthLog_healthy_count :: "GossipEpochHealthLog \<Rightarrow> nat" where
  "GossipEpochHealthLog_healthy_count self =
     length (filter (\<lambda>e. (gehe_verdict e) = EpochHealthVerdict.Healthy) (gehl_entries self))"

definition GossipEpochHealthLog_degraded_count :: "GossipEpochHealthLog \<Rightarrow> nat" where
  "GossipEpochHealthLog_degraded_count self =
     length (filter (\<lambda>e. (gehe_verdict e) = EpochHealthVerdict.Degraded) (gehl_entries self))"

definition GossipEpochHealthLog_critical_count :: "GossipEpochHealthLog \<Rightarrow> nat" where
  "GossipEpochHealthLog_critical_count self =
     length (filter (\<lambda>e. (gehe_verdict e) = EpochHealthVerdict.Critical) (gehl_entries self))"

definition GossipEpochHealthLog_record ::
  "sha \<Rightarrow> u64 \<Rightarrow> u32 \<Rightarrow> u32 \<Rightarrow> u32 \<Rightarrow> bool
      \<Rightarrow> GossipEpochHealthLog \<Rightarrow> GossipEpochHealthEntry \<times>
      GossipEpochHealthLog" where
  "GossipEpochHealthLog_record sha epoch_end delivery_ratio_pct drop_pct churn_count under_pressure self
      =
     (let verdict = EpochHealthVerdict_classify delivery_ratio_pct drop_pct churn_count under_pressure;
          prev = last_hash gehe_entry_hash (gehl_entries self);
          entry_hash = compute_epoch_health_hash sha prev epoch_end delivery_ratio_pct drop_pct
            churn_count under_pressure verdict;
          self = self\<lparr>gehl_entries := (gehl_entries self) @ [\<lparr>gehe_epoch_end = epoch_end,
            gehe_delivery_ratio_pct = delivery_ratio_pct, gehe_drop_pct = drop_pct,
            gehe_churn_count = churn_count, gehe_under_pressure = under_pressure,
            gehe_verdict = verdict, gehe_entry_hash = entry_hash, gehe_prev_hash = prev\<rparr>]\<rparr>
      in (last (gehl_entries self), self))"

definition GossipEpochHealthEntry_bytes_of :: "GossipEpochHealthEntry \<Rightarrow> bytes" where
  "GossipEpochHealthEntry_bytes_of e =
     epoch_health_bytes (gehe_prev_hash e) (gehe_epoch_end e) (gehe_delivery_ratio_pct e) (gehe_drop_pct
         e) (gehe_churn_count e) (gehe_under_pressure e) (gehe_verdict e)"

definition GossipEpochHealthLog_verify_chain ::
  "sha \<Rightarrow> GossipEpochHealthLog \<Rightarrow> bool \<times> nat option" where
  "GossipEpochHealthLog_verify_chain sha self =
     verify_from gehe_prev_hash gehe_entry_hash (\<lambda>r. sha (GossipEpochHealthEntry_bytes_of r)) 0
         genesis (gehl_entries self)"

lemma epoch_health_bytes_inj:
  "epoch_health_bytes prev epoch_end delivery_ratio_pct drop_pct churn_count under_pressure verdict =
      epoch_health_bytes prev' epoch_end' delivery_ratio_pct' drop_pct' churn_count' under_pressure'
      verdict' \<longleftrightarrow>
   prev = prev' \<and> epoch_end = epoch_end' \<and> delivery_ratio_pct = delivery_ratio_pct' \<and>
       drop_pct = drop_pct' \<and> churn_count = churn_count' \<and> under_pressure = under_pressure'
       \<and> verdict = verdict'"
  by (auto simp: epoch_health_bytes_def enc_simps)

definition GossipEpochHealthEntry_committed :: "GossipEpochHealthEntry \<Rightarrow> u64 \<times> u32
    \<times> u32 \<times> u32 \<times> bool \<times> EpochHealthVerdict" where
  "GossipEpochHealthEntry_committed e =
     (gehe_epoch_end e, gehe_delivery_ratio_pct e, gehe_drop_pct e, gehe_churn_count e,
         gehe_under_pressure e, gehe_verdict e)"

interpretation epoch_health: epoch_log GossipEpochHealthEntry_bytes_of gehe_prev_hash gehe_entry_hash
    GossipEpochHealthEntry_committed
  "\<lambda>sha (epoch_end, delivery_ratio_pct, drop_pct, churn_count,
      under_pressure) l. GossipEpochHealthLog_record sha epoch_end delivery_ratio_pct drop_pct
      churn_count under_pressure l"
  gehl_entries GossipEpochHealthLog_new "\<lambda>(a, b, c, d, e, _). (a, b, c, d, e)"
  by unfold_locales (auto simp: GossipEpochHealthLog_record_def compute_epoch_health_hash_def
      GossipEpochHealthLog_new_def Let_def GossipEpochHealthEntry_bytes_of_def
      GossipEpochHealthEntry_committed_def epoch_health_bytes_inj)

lemma epoch_health_verify_iff: "GossipEpochHealthLog_verify_chain sha l = (True,
    None) \<longleftrightarrow> epoch_health.ok sha (gehl_entries l)"
  by (simp add: GossipEpochHealthLog_verify_chain_def verify_from_iff)

section \<open>Gossip Epoch Window (Gate 380)\<close>

text \<open>
  \<open>gossip_epoch_window.rs\<close>. Maintains a fixed-size sliding window of recent gossip epoch
  coverage observations, classifying the window as Healthy/Degraded/Critical based on average coverage
  percentage.
\<close>

definition GOSSIP_WINDOW_SIZE :: nat where
  "GOSSIP_WINDOW_SIZE = 4"

datatype GossipWindowState = Healthy | Degraded | Critical

fun GossipWindowState_as_u8 :: "GossipWindowState \<Rightarrow> u8" where
  "GossipWindowState_as_u8 GossipWindowState.Healthy = 0"
| "GossipWindowState_as_u8 GossipWindowState.Degraded = 1"
| "GossipWindowState_as_u8 GossipWindowState.Critical = 2"

lemma GossipWindowState_as_u8_inj [simp]: "GossipWindowState_as_u8 x = GossipWindowState_as_u8 y
    \<longleftrightarrow> x = y"
  by (cases x; cases y) auto

definition GossipWindowState_classify :: "u32 \<Rightarrow> GossipWindowState" where
  "GossipWindowState_classify avg_coverage_pct =
     (if avg_coverage_pct \<ge> 75 then GossipWindowState.Healthy
      else if avg_coverage_pct \<ge> 50 then GossipWindowState.Degraded
      else GossipWindowState.Critical)"

record GossipWindowEntry =
  gwe_epoch_end :: u64
  gwe_coverage_pct :: u32
  gwe_window_avg_pct :: u32
  gwe_state :: GossipWindowState
  gwe_entry_hash :: hash
  gwe_prev_hash :: hash

definition window_bytes ::
  "hash \<Rightarrow> u64 \<Rightarrow> u32 \<Rightarrow> u32 \<Rightarrow> GossipWindowState
      \<Rightarrow> bytes" where
  "window_bytes prev epoch_end coverage_pct window_avg_pct state =
     hash_bytes prev @ be8 epoch_end @ be4 coverage_pct @ be4 window_avg_pct @
         [GossipWindowState_as_u8 state]"

definition compute_window_hash ::
  "sha \<Rightarrow> hash \<Rightarrow> u64 \<Rightarrow> u32 \<Rightarrow> u32 \<Rightarrow>
      GossipWindowState \<Rightarrow> hash" where
  "compute_window_hash sha prev epoch_end coverage_pct window_avg_pct state =
     sha (window_bytes prev epoch_end coverage_pct window_avg_pct state)"

record GossipEpochWindow =
  gew_entries :: "GossipWindowEntry list"
  gew_window_buffer :: "u32 list"

definition GossipEpochWindow_new :: "GossipEpochWindow" where
  "GossipEpochWindow_new =
     \<lparr>gew_entries = [], gew_window_buffer = []\<rparr>"

definition GossipEpochWindow_entry_count :: "GossipEpochWindow \<Rightarrow> nat" where
  "GossipEpochWindow_entry_count self =
     length (gew_entries self)"

definition GossipEpochWindow_latest :: "GossipEpochWindow \<Rightarrow> GossipWindowEntry option" where
  "GossipEpochWindow_latest self =
     last_opt (gew_entries self)"

definition GossipEpochWindow_healthy_count :: "GossipEpochWindow \<Rightarrow> nat" where
  "GossipEpochWindow_healthy_count self =
     length (filter (\<lambda>e. (gwe_state e) = GossipWindowState.Healthy) (gew_entries self))"

definition GossipEpochWindow_degraded_count :: "GossipEpochWindow \<Rightarrow> nat" where
  "GossipEpochWindow_degraded_count self =
     length (filter (\<lambda>e. (gwe_state e) = GossipWindowState.Degraded) (gew_entries self))"

definition GossipEpochWindow_critical_count :: "GossipEpochWindow \<Rightarrow> nat" where
  "GossipEpochWindow_critical_count self =
     length (filter (\<lambda>e. (gwe_state e) = GossipWindowState.Critical) (gew_entries self))"

definition GossipEpochWindow_push ::
  "sha \<Rightarrow> u64 \<Rightarrow> u32 \<Rightarrow> GossipEpochWindow \<Rightarrow>
      GossipWindowEntry \<times> GossipEpochWindow" where
  "GossipEpochWindow_push sha epoch_end coverage_pct self =
     (let self = self\<lparr>gew_window_buffer := (gew_window_buffer self) @ [coverage_pct]\<rparr>;
          self = (if (length (gew_window_buffer self)) > GOSSIP_WINDOW_SIZE then (let self =
            self\<lparr>gew_window_buffer := tl (gew_window_buffer self)\<rparr>
      in self)
      else self);
          sum_v = sum_list (map (\<lambda>v. (ucast v :: u64)) (gew_window_buffer self));
          window_avg_pct = (ucast (sum_v div (of_nat (length (gew_window_buffer self)) :: u64)) :: u32);
          state = GossipWindowState_classify window_avg_pct;
          prev = last_hash gwe_entry_hash (gew_entries self);
          entry_hash = compute_window_hash sha prev epoch_end coverage_pct window_avg_pct state;
          self = self\<lparr>gew_entries := (gew_entries self) @ [\<lparr>gwe_epoch_end = epoch_end,
            gwe_coverage_pct = coverage_pct, gwe_window_avg_pct = window_avg_pct, gwe_state = state,
            gwe_entry_hash = entry_hash, gwe_prev_hash = prev\<rparr>]\<rparr>
      in (last (gew_entries self), self))"

definition GossipWindowEntry_bytes_of :: "GossipWindowEntry \<Rightarrow> bytes" where
  "GossipWindowEntry_bytes_of e =
     window_bytes (gwe_prev_hash e) (gwe_epoch_end e) (gwe_coverage_pct e) (gwe_window_avg_pct e)
         (gwe_state e)"

definition GossipEpochWindow_verify_chain ::
  "sha \<Rightarrow> GossipEpochWindow \<Rightarrow> bool \<times> nat option" where
  "GossipEpochWindow_verify_chain sha self =
     verify_from gwe_prev_hash gwe_entry_hash (\<lambda>r. sha (GossipWindowEntry_bytes_of r)) 0 genesis
         (gew_entries self)"

lemma window_bytes_inj:
  "window_bytes prev epoch_end coverage_pct window_avg_pct state = window_bytes prev' epoch_end'
      coverage_pct' window_avg_pct' state' \<longleftrightarrow>
   prev = prev' \<and> epoch_end = epoch_end' \<and> coverage_pct = coverage_pct' \<and> window_avg_pct
       = window_avg_pct' \<and> state = state'"
  by (auto simp: window_bytes_def enc_simps)

definition GossipWindowEntry_committed :: "GossipWindowEntry \<Rightarrow> u64 \<times> u32 \<times> u32
    \<times> GossipWindowState" where
  "GossipWindowEntry_committed e =
     (gwe_epoch_end e, gwe_coverage_pct e, gwe_window_avg_pct e, gwe_state e)"

interpretation epoch_window: epoch_log GossipWindowEntry_bytes_of gwe_prev_hash gwe_entry_hash
    GossipWindowEntry_committed
  "\<lambda>sha (epoch_end, coverage_pct) l. GossipEpochWindow_push sha epoch_end coverage_pct l"
  gew_entries GossipEpochWindow_new "\<lambda>(a, b, _, _). (a, b)"
  by unfold_locales (auto simp: GossipEpochWindow_push_def compute_window_hash_def
      GossipEpochWindow_new_def Let_def GossipWindowEntry_bytes_of_def GossipWindowEntry_committed_def
      window_bytes_inj)

lemma epoch_window_verify_iff: "GossipEpochWindow_verify_chain sha l = (True,
    None) \<longleftrightarrow> epoch_window.ok sha (gew_entries l)"
  by (simp add: GossipEpochWindow_verify_chain_def verify_from_iff)

section \<open>Gossip Epoch Seal (Gate 383)\<close>

text \<open>
  \<open>gossip_epoch_seal.rs\<close>. Produces a final immutable seal for each gossip epoch by
  committing all epoch-level signals - fanout coverage, average latency, window average, window state,
  and peer score - into a single hash-chained GossipEpochSeal.
\<close>

record GossipEpochSeal_seal =
  ges_epoch_end :: u64
  ges_coverage_pct :: u32
  ges_avg_latency :: u64
  ges_window_avg_pct :: u32
  ges_window_state :: u8
  ges_peer_score_pct :: u32
  ges_seal_hash :: hash
  ges_prev_hash :: hash

definition gossip_epoch_seal_seal_bytes ::
  "hash \<Rightarrow> u64 \<Rightarrow> u32 \<Rightarrow> u64 \<Rightarrow> u32 \<Rightarrow> u8
      \<Rightarrow> u32 \<Rightarrow> bytes" where
  "gossip_epoch_seal_seal_bytes prev epoch_end coverage_pct avg_latency window_avg_pct window_state
      peer_score_pct =
     hash_bytes prev @ be8 epoch_end @ be4 coverage_pct @ be8 avg_latency @ be4 window_avg_pct @
         [window_state] @ be4 peer_score_pct"

definition gossip_epoch_seal_compute_seal_hash ::
  "sha \<Rightarrow> hash \<Rightarrow> u64 \<Rightarrow> u32 \<Rightarrow> u64 \<Rightarrow> u32
      \<Rightarrow> u8 \<Rightarrow> u32 \<Rightarrow> hash" where
  "gossip_epoch_seal_compute_seal_hash sha prev epoch_end coverage_pct avg_latency window_avg_pct
      window_state peer_score_pct =
     sha (gossip_epoch_seal_seal_bytes prev epoch_end coverage_pct avg_latency window_avg_pct
         window_state peer_score_pct)"

record GossipEpochSealChain =
  gesc_seals :: "GossipEpochSeal_seal list"

definition GossipEpochSealChain_new :: "GossipEpochSealChain" where
  "GossipEpochSealChain_new =
     \<lparr>gesc_seals = []\<rparr>"

definition GossipEpochSealChain_seal_count :: "GossipEpochSealChain \<Rightarrow> nat" where
  "GossipEpochSealChain_seal_count self =
     length (gesc_seals self)"

definition GossipEpochSealChain_latest ::
  "GossipEpochSealChain \<Rightarrow> GossipEpochSeal_seal option" where
  "GossipEpochSealChain_latest self =
     last_opt (gesc_seals self)"

definition GossipEpochSealChain_seal ::
  "sha \<Rightarrow> u64 \<Rightarrow> u32 \<Rightarrow> u64 \<Rightarrow> u32 \<Rightarrow> u8
      \<Rightarrow> u32 \<Rightarrow> GossipEpochSealChain \<Rightarrow> GossipEpochSeal_seal \<times>
      GossipEpochSealChain" where
  "GossipEpochSealChain_seal sha epoch_end coverage_pct avg_latency window_avg_pct window_state
      peer_score_pct self =
     (let prev = last_hash ges_seal_hash (gesc_seals self);
          seal_hash = gossip_epoch_seal_compute_seal_hash sha prev epoch_end coverage_pct avg_latency
            window_avg_pct window_state peer_score_pct;
          self = self\<lparr>gesc_seals := (gesc_seals self) @ [\<lparr>ges_epoch_end = epoch_end,
            ges_coverage_pct = coverage_pct, ges_avg_latency = avg_latency,
            ges_window_avg_pct = window_avg_pct, ges_window_state = window_state,
            ges_peer_score_pct = peer_score_pct, ges_seal_hash = seal_hash,
            ges_prev_hash = prev\<rparr>]\<rparr>
      in (last (gesc_seals self), self))"

definition GossipEpochSeal_seal_bytes_of :: "GossipEpochSeal_seal \<Rightarrow> bytes" where
  "GossipEpochSeal_seal_bytes_of s =
     gossip_epoch_seal_seal_bytes (ges_prev_hash s) (ges_epoch_end s) (ges_coverage_pct s)
         (ges_avg_latency s) (ges_window_avg_pct s) (ges_window_state s) (ges_peer_score_pct s)"

definition GossipEpochSealChain_verify_chain ::
  "sha \<Rightarrow> GossipEpochSealChain \<Rightarrow> bool \<times> nat option" where
  "GossipEpochSealChain_verify_chain sha self =
     verify_from ges_prev_hash ges_seal_hash (\<lambda>r. sha (GossipEpochSeal_seal_bytes_of r)) 0
         genesis (gesc_seals self)"

lemma gossip_epoch_seal_seal_bytes_inj:
  "gossip_epoch_seal_seal_bytes prev epoch_end coverage_pct avg_latency window_avg_pct window_state
      peer_score_pct = gossip_epoch_seal_seal_bytes prev' epoch_end' coverage_pct' avg_latency'
      window_avg_pct' window_state' peer_score_pct' \<longleftrightarrow>
   prev = prev' \<and> epoch_end = epoch_end' \<and> coverage_pct = coverage_pct' \<and> avg_latency =
       avg_latency' \<and> window_avg_pct = window_avg_pct' \<and> window_state = window_state' \<and>
       peer_score_pct = peer_score_pct'"
  by (auto simp: gossip_epoch_seal_seal_bytes_def enc_simps)

definition GossipEpochSeal_seal_committed :: "GossipEpochSeal_seal \<Rightarrow> u64 \<times> u32
    \<times> u64 \<times> u32 \<times> u8 \<times> u32" where
  "GossipEpochSeal_seal_committed s =
     (ges_epoch_end s, ges_coverage_pct s, ges_avg_latency s, ges_window_avg_pct s, ges_window_state s,
         ges_peer_score_pct s)"

interpretation epoch_seal: epoch_log GossipEpochSeal_seal_bytes_of ges_prev_hash ges_seal_hash
    GossipEpochSeal_seal_committed
  "\<lambda>sha (epoch_end, coverage_pct, avg_latency, window_avg_pct, window_state,
      peer_score_pct) l. GossipEpochSealChain_seal sha epoch_end coverage_pct avg_latency window_avg_pct
      window_state peer_score_pct l"
  gesc_seals GossipEpochSealChain_new "\<lambda>c. c"
  by unfold_locales (auto simp: GossipEpochSealChain_seal_def gossip_epoch_seal_compute_seal_hash_def
      GossipEpochSealChain_new_def Let_def GossipEpochSeal_seal_bytes_of_def
      GossipEpochSeal_seal_committed_def gossip_epoch_seal_seal_bytes_inj)

lemma epoch_seal_verify_iff: "GossipEpochSealChain_verify_chain sha l = (True,
    None) \<longleftrightarrow> epoch_seal.ok sha (gesc_seals l)"
  by (simp add: GossipEpochSealChain_verify_chain_def verify_from_iff)

section \<open>Gossip Health Snapshot (Gate 381)\<close>

text \<open>
  \<open>gossip_health_snapshot.rs\<close>. Aggregates per-epoch gossip health signals from the fanout
  tracker, latency tracker, and epoch window into a single hash-chained snapshot.
\<close>

record GossipHealthSnapshot =
  ghs_epoch_end :: u64
  ghs_coverage_pct :: u32
  ghs_avg_latency :: u64
  ghs_window_avg_pct :: u32
  ghs_window_state :: u8
  ghs_snapshot_hash :: hash
  ghs_prev_hash :: hash

definition snapshot_bytes ::
  "hash \<Rightarrow> u64 \<Rightarrow> u32 \<Rightarrow> u64 \<Rightarrow> u32 \<Rightarrow> u8
      \<Rightarrow> bytes" where
  "snapshot_bytes prev epoch_end coverage_pct avg_latency window_avg_pct window_state =
     hash_bytes prev @ be8 epoch_end @ be4 coverage_pct @ be8 avg_latency @ be4 window_avg_pct @
         [window_state]"

definition compute_snapshot_hash ::
  "sha \<Rightarrow> hash \<Rightarrow> u64 \<Rightarrow> u32 \<Rightarrow> u64 \<Rightarrow> u32
      \<Rightarrow> u8 \<Rightarrow> hash" where
  "compute_snapshot_hash sha prev epoch_end coverage_pct avg_latency window_avg_pct window_state =
     sha (snapshot_bytes prev epoch_end coverage_pct avg_latency window_avg_pct window_state)"

record GossipHealthLog =
  ghl_snapshots :: "GossipHealthSnapshot list"

definition GossipHealthLog_new :: "GossipHealthLog" where
  "GossipHealthLog_new =
     \<lparr>ghl_snapshots = []\<rparr>"

definition GossipHealthLog_snapshot_count :: "GossipHealthLog \<Rightarrow> nat" where
  "GossipHealthLog_snapshot_count self =
     length (ghl_snapshots self)"

definition GossipHealthLog_latest :: "GossipHealthLog \<Rightarrow> GossipHealthSnapshot option" where
  "GossipHealthLog_latest self =
     last_opt (ghl_snapshots self)"

definition GossipHealthLog_healthy_count :: "GossipHealthLog \<Rightarrow> nat" where
  "GossipHealthLog_healthy_count self =
     length (filter (\<lambda>s. (ghs_window_state s) = 0) (ghl_snapshots self))"

definition GossipHealthLog_degraded_count :: "GossipHealthLog \<Rightarrow> nat" where
  "GossipHealthLog_degraded_count self =
     length (filter (\<lambda>s. (ghs_window_state s) = 1) (ghl_snapshots self))"

definition GossipHealthLog_critical_count :: "GossipHealthLog \<Rightarrow> nat" where
  "GossipHealthLog_critical_count self =
     length (filter (\<lambda>s. (ghs_window_state s) = 2) (ghl_snapshots self))"

definition GossipHealthLog_record ::
  "sha \<Rightarrow> u64 \<Rightarrow> u32 \<Rightarrow> u64 \<Rightarrow> u32 \<Rightarrow> u8
      \<Rightarrow> GossipHealthLog \<Rightarrow> GossipHealthSnapshot \<times> GossipHealthLog" where
  "GossipHealthLog_record sha epoch_end coverage_pct avg_latency window_avg_pct window_state self =
     (let prev = last_hash ghs_snapshot_hash (ghl_snapshots self);
          snapshot_hash = compute_snapshot_hash sha prev epoch_end coverage_pct avg_latency
            window_avg_pct window_state;
          self = self\<lparr>ghl_snapshots := (ghl_snapshots self) @ [\<lparr>ghs_epoch_end = epoch_end,
            ghs_coverage_pct = coverage_pct, ghs_avg_latency = avg_latency,
            ghs_window_avg_pct = window_avg_pct, ghs_window_state = window_state,
            ghs_snapshot_hash = snapshot_hash, ghs_prev_hash = prev\<rparr>]\<rparr>
      in (last (ghl_snapshots self), self))"

definition GossipHealthSnapshot_bytes_of :: "GossipHealthSnapshot \<Rightarrow> bytes" where
  "GossipHealthSnapshot_bytes_of s =
     snapshot_bytes (ghs_prev_hash s) (ghs_epoch_end s) (ghs_coverage_pct s) (ghs_avg_latency s)
         (ghs_window_avg_pct s) (ghs_window_state s)"

definition GossipHealthLog_verify_chain ::
  "sha \<Rightarrow> GossipHealthLog \<Rightarrow> bool \<times> nat option" where
  "GossipHealthLog_verify_chain sha self =
     verify_from ghs_prev_hash ghs_snapshot_hash (\<lambda>r. sha (GossipHealthSnapshot_bytes_of r)) 0
         genesis (ghl_snapshots self)"

lemma snapshot_bytes_inj:
  "snapshot_bytes prev epoch_end coverage_pct avg_latency window_avg_pct window_state = snapshot_bytes
      prev' epoch_end' coverage_pct' avg_latency' window_avg_pct' window_state' \<longleftrightarrow>
   prev = prev' \<and> epoch_end = epoch_end' \<and> coverage_pct = coverage_pct' \<and> avg_latency =
       avg_latency' \<and> window_avg_pct = window_avg_pct' \<and> window_state = window_state'"
  by (auto simp: snapshot_bytes_def enc_simps)

definition GossipHealthSnapshot_committed :: "GossipHealthSnapshot \<Rightarrow> u64 \<times> u32
    \<times> u64 \<times> u32 \<times> u8" where
  "GossipHealthSnapshot_committed s =
     (ghs_epoch_end s, ghs_coverage_pct s, ghs_avg_latency s, ghs_window_avg_pct s, ghs_window_state s)"

interpretation health_snapshot: epoch_log GossipHealthSnapshot_bytes_of ghs_prev_hash ghs_snapshot_hash
    GossipHealthSnapshot_committed
  "\<lambda>sha (epoch_end, coverage_pct, avg_latency, window_avg_pct,
      window_state) l. GossipHealthLog_record sha epoch_end coverage_pct avg_latency window_avg_pct
      window_state l"
  ghl_snapshots GossipHealthLog_new "\<lambda>c. c"
  by unfold_locales (auto simp: GossipHealthLog_record_def compute_snapshot_hash_def
      GossipHealthLog_new_def Let_def GossipHealthSnapshot_bytes_of_def
      GossipHealthSnapshot_committed_def snapshot_bytes_inj)

lemma health_snapshot_verify_iff: "GossipHealthLog_verify_chain sha l = (True,
    None) \<longleftrightarrow> health_snapshot.ok sha (ghl_snapshots l)"
  by (simp add: GossipHealthLog_verify_chain_def verify_from_iff)

section \<open>Gossip Network Health Report: constitutional health synthesis (Gate 320)\<close>

text \<open>
  \<open>gossip_health_report.rs\<close>. Aggregates signals from the gossip layer (liveness, rate
  accounting, sequence integrity) into a single `GossipHealthReport` with a `NetworkHealthClass`
  verdict. Reports are hash-chained for audit replay.
\<close>

definition RED_EXCEEDED_THRESHOLD :: u32 where
  "RED_EXCEEDED_THRESHOLD = 3"

definition RED_GAP_THRESHOLD :: u64 where
  "RED_GAP_THRESHOLD = 10"

definition YELLOW_DROP_THRESHOLD :: u64 where
  "YELLOW_DROP_THRESHOLD = 100"

datatype NetworkHealthClass = Green | Yellow | Red

fun NetworkHealthClass_as_u8 :: "NetworkHealthClass \<Rightarrow> u8" where
  "NetworkHealthClass_as_u8 NetworkHealthClass.Green = 0"
| "NetworkHealthClass_as_u8 NetworkHealthClass.Yellow = 1"
| "NetworkHealthClass_as_u8 NetworkHealthClass.Red = 2"

lemma NetworkHealthClass_as_u8_inj [simp]: "NetworkHealthClass_as_u8 x = NetworkHealthClass_as_u8 y
    \<longleftrightarrow> x = y"
  by (cases x; cases y) auto

definition NetworkHealthClass_class_byte :: "NetworkHealthClass \<Rightarrow> u8" where
  "NetworkHealthClass_class_byte self =
     NetworkHealthClass_as_u8 self"

definition NetworkHealthClass_classify ::
  "u32 \<Rightarrow> u32 \<Rightarrow> u32 \<Rightarrow> u64 \<Rightarrow> u32 \<Rightarrow> u64
      \<Rightarrow> NetworkHealthClass" where
  "NetworkHealthClass_classify dead_peers degraded_peers suspect_peers total_dropped exceeded_epochs
      sequence_gaps =
     (if dead_peers \<ge> 1 \<or> exceeded_epochs \<ge> RED_EXCEEDED_THRESHOLD \<or> sequence_gaps \<ge>
         RED_GAP_THRESHOLD then NetworkHealthClass.Red
      else if degraded_peers \<ge> 1 \<or> suspect_peers \<ge> 1 \<or> total_dropped \<ge>
          YELLOW_DROP_THRESHOLD \<or> sequence_gaps \<ge> 1 then NetworkHealthClass.Yellow
      else NetworkHealthClass.Green)"

record HealthReportInput =
  hri_epoch :: u64
  hri_live_peers :: u32
  hri_degraded_peers :: u32
  hri_suspect_peers :: u32
  hri_dead_peers :: u32
  hri_total_dropped :: u64
  hri_exceeded_epochs :: u32
  hri_sequence_gaps :: u64
  hri_sequence_dups :: u64

record GossipHealthReport =
  ghr_epoch :: u64
  ghr_health_class :: NetworkHealthClass
  ghr_live_peers :: u32
  ghr_degraded_peers :: u32
  ghr_suspect_peers :: u32
  ghr_dead_peers :: u32
  ghr_total_dropped :: u64
  ghr_exceeded_epochs :: u32
  ghr_sequence_gaps :: u64
  ghr_sequence_dups :: u64
  ghr_report_hash :: hash
  ghr_prev_hash :: hash

definition report_bytes ::
  "hash \<Rightarrow> HealthReportInput \<Rightarrow> NetworkHealthClass \<Rightarrow> bytes" where
  "report_bytes prev inp class_v =
     hash_bytes prev @ be8 (hri_epoch inp) @ be4 (hri_live_peers inp) @ be4 (hri_degraded_peers inp) @
         be4 (hri_suspect_peers inp) @ be4 (hri_dead_peers inp) @ be8 (hri_total_dropped inp) @
         be4 (hri_exceeded_epochs inp) @ be8 (hri_sequence_gaps inp) @ be8 (hri_sequence_dups inp) @
         [NetworkHealthClass_class_byte class_v]"

definition compute_report_hash ::
  "sha \<Rightarrow> hash \<Rightarrow> HealthReportInput \<Rightarrow> NetworkHealthClass \<Rightarrow>
      hash" where
  "compute_report_hash sha prev inp class_v =
     sha (report_bytes prev inp class_v)"

record GossipHealthMonitor =
  ghm_reports :: "GossipHealthReport list"

definition GossipHealthMonitor_new :: "GossipHealthMonitor" where
  "GossipHealthMonitor_new =
     \<lparr>ghm_reports = []\<rparr>"

definition GossipHealthMonitor_record ::
  "sha \<Rightarrow> HealthReportInput \<Rightarrow> GossipHealthMonitor \<Rightarrow>
      GossipHealthReport \<times> GossipHealthMonitor" where
  "GossipHealthMonitor_record sha inp self =
     (let prev = last_hash ghr_report_hash (ghm_reports self);
          class_v = NetworkHealthClass_classify (hri_dead_peers inp) (hri_degraded_peers inp)
            (hri_suspect_peers inp) (hri_total_dropped inp) (hri_exceeded_epochs inp) (hri_sequence_gaps
            inp);
          report_hash = compute_report_hash sha prev inp class_v;
          r = \<lparr>ghr_epoch = hri_epoch inp, ghr_health_class = class_v,
            ghr_live_peers = hri_live_peers inp, ghr_degraded_peers = hri_degraded_peers inp,
            ghr_suspect_peers = hri_suspect_peers inp, ghr_dead_peers = hri_dead_peers inp,
            ghr_total_dropped = hri_total_dropped inp, ghr_exceeded_epochs = hri_exceeded_epochs inp,
            ghr_sequence_gaps = hri_sequence_gaps inp, ghr_sequence_dups = hri_sequence_dups inp,
            ghr_report_hash = report_hash, ghr_prev_hash = prev\<rparr>;
          self = self\<lparr>ghm_reports := (ghm_reports self) @ [r]\<rparr>
      in (r, self))"

definition GossipHealthMonitor_latest ::
  "GossipHealthMonitor \<Rightarrow> GossipHealthReport option" where
  "GossipHealthMonitor_latest self =
     last_opt (ghm_reports self)"

definition GossipHealthMonitor_health_class ::
  "GossipHealthMonitor \<Rightarrow> NetworkHealthClass option" where
  "GossipHealthMonitor_health_class self =
     map_option ghr_health_class (GossipHealthMonitor_latest self)"

definition GossipHealthReport_bytes_of :: "GossipHealthReport \<Rightarrow> bytes" where
  "GossipHealthReport_bytes_of r =
     report_bytes (ghr_prev_hash r) (\<lparr>hri_epoch = ghr_epoch r, hri_live_peers = ghr_live_peers r,
         hri_degraded_peers = ghr_degraded_peers r, hri_suspect_peers = ghr_suspect_peers r,
         hri_dead_peers = ghr_dead_peers r, hri_total_dropped = ghr_total_dropped r,
         hri_exceeded_epochs = ghr_exceeded_epochs r, hri_sequence_gaps = ghr_sequence_gaps r,
         hri_sequence_dups = ghr_sequence_dups r\<rparr>) (ghr_health_class r)"

definition GossipHealthMonitor_verify_chain ::
  "sha \<Rightarrow> GossipHealthMonitor \<Rightarrow> bool \<times> nat option" where
  "GossipHealthMonitor_verify_chain sha self =
     verify_from ghr_prev_hash ghr_report_hash (\<lambda>r. sha (GossipHealthReport_bytes_of r)) 0
         genesis (ghm_reports self)"

lemma report_bytes_inj:
  "report_bytes prev inp class_v = report_bytes prev' inp' class_v' \<longleftrightarrow>
   prev = prev' \<and> (hri_epoch inp) = (hri_epoch inp') \<and> (hri_live_peers inp) = (hri_live_peers
       inp') \<and> (hri_degraded_peers inp) = (hri_degraded_peers inp') \<and> (hri_suspect_peers inp)
       = (hri_suspect_peers inp') \<and> (hri_dead_peers inp) = (hri_dead_peers inp') \<and>
       (hri_total_dropped inp) = (hri_total_dropped inp') \<and> (hri_exceeded_epochs inp) =
       (hri_exceeded_epochs inp') \<and> (hri_sequence_gaps inp) = (hri_sequence_gaps inp') \<and>
       (hri_sequence_dups inp) = (hri_sequence_dups inp') \<and> (NetworkHealthClass_class_byte class_v)
       = (NetworkHealthClass_class_byte class_v')"
  by (auto simp: report_bytes_def enc_simps)

definition GossipHealthReport_committed :: "GossipHealthReport \<Rightarrow> u64 \<times> u32 \<times>
    u32 \<times> u32 \<times> u32 \<times> u64 \<times> u32 \<times> u64 \<times> u64 \<times> u8" where
  "GossipHealthReport_committed r =
     (hri_epoch (\<lparr>hri_epoch = ghr_epoch r, hri_live_peers = ghr_live_peers r,
         hri_degraded_peers = ghr_degraded_peers r, hri_suspect_peers = ghr_suspect_peers r,
         hri_dead_peers = ghr_dead_peers r, hri_total_dropped = ghr_total_dropped r,
         hri_exceeded_epochs = ghr_exceeded_epochs r, hri_sequence_gaps = ghr_sequence_gaps r,
         hri_sequence_dups = ghr_sequence_dups r\<rparr>), hri_live_peers (\<lparr>hri_epoch = ghr_epoch
         r, hri_live_peers = ghr_live_peers r, hri_degraded_peers = ghr_degraded_peers r,
         hri_suspect_peers = ghr_suspect_peers r, hri_dead_peers = ghr_dead_peers r,
         hri_total_dropped = ghr_total_dropped r, hri_exceeded_epochs = ghr_exceeded_epochs r,
         hri_sequence_gaps = ghr_sequence_gaps r, hri_sequence_dups = ghr_sequence_dups r\<rparr>),
         hri_degraded_peers (\<lparr>hri_epoch = ghr_epoch r, hri_live_peers = ghr_live_peers r,
         hri_degraded_peers = ghr_degraded_peers r, hri_suspect_peers = ghr_suspect_peers r,
         hri_dead_peers = ghr_dead_peers r, hri_total_dropped = ghr_total_dropped r,
         hri_exceeded_epochs = ghr_exceeded_epochs r, hri_sequence_gaps = ghr_sequence_gaps r,
         hri_sequence_dups = ghr_sequence_dups r\<rparr>), hri_suspect_peers (\<lparr>hri_epoch =
         ghr_epoch r, hri_live_peers = ghr_live_peers r, hri_degraded_peers = ghr_degraded_peers r,
         hri_suspect_peers = ghr_suspect_peers r, hri_dead_peers = ghr_dead_peers r,
         hri_total_dropped = ghr_total_dropped r, hri_exceeded_epochs = ghr_exceeded_epochs r,
         hri_sequence_gaps = ghr_sequence_gaps r, hri_sequence_dups = ghr_sequence_dups r\<rparr>),
         hri_dead_peers (\<lparr>hri_epoch = ghr_epoch r, hri_live_peers = ghr_live_peers r,
         hri_degraded_peers = ghr_degraded_peers r, hri_suspect_peers = ghr_suspect_peers r,
         hri_dead_peers = ghr_dead_peers r, hri_total_dropped = ghr_total_dropped r,
         hri_exceeded_epochs = ghr_exceeded_epochs r, hri_sequence_gaps = ghr_sequence_gaps r,
         hri_sequence_dups = ghr_sequence_dups r\<rparr>), hri_total_dropped (\<lparr>hri_epoch =
         ghr_epoch r, hri_live_peers = ghr_live_peers r, hri_degraded_peers = ghr_degraded_peers r,
         hri_suspect_peers = ghr_suspect_peers r, hri_dead_peers = ghr_dead_peers r,
         hri_total_dropped = ghr_total_dropped r, hri_exceeded_epochs = ghr_exceeded_epochs r,
         hri_sequence_gaps = ghr_sequence_gaps r, hri_sequence_dups = ghr_sequence_dups r\<rparr>),
         hri_exceeded_epochs (\<lparr>hri_epoch = ghr_epoch r, hri_live_peers = ghr_live_peers r,
         hri_degraded_peers = ghr_degraded_peers r, hri_suspect_peers = ghr_suspect_peers r,
         hri_dead_peers = ghr_dead_peers r, hri_total_dropped = ghr_total_dropped r,
         hri_exceeded_epochs = ghr_exceeded_epochs r, hri_sequence_gaps = ghr_sequence_gaps r,
         hri_sequence_dups = ghr_sequence_dups r\<rparr>), hri_sequence_gaps (\<lparr>hri_epoch =
         ghr_epoch r, hri_live_peers = ghr_live_peers r, hri_degraded_peers = ghr_degraded_peers r,
         hri_suspect_peers = ghr_suspect_peers r, hri_dead_peers = ghr_dead_peers r,
         hri_total_dropped = ghr_total_dropped r, hri_exceeded_epochs = ghr_exceeded_epochs r,
         hri_sequence_gaps = ghr_sequence_gaps r, hri_sequence_dups = ghr_sequence_dups r\<rparr>),
         hri_sequence_dups (\<lparr>hri_epoch = ghr_epoch r, hri_live_peers = ghr_live_peers r,
         hri_degraded_peers = ghr_degraded_peers r, hri_suspect_peers = ghr_suspect_peers r,
         hri_dead_peers = ghr_dead_peers r, hri_total_dropped = ghr_total_dropped r,
         hri_exceeded_epochs = ghr_exceeded_epochs r, hri_sequence_gaps = ghr_sequence_gaps r,
         hri_sequence_dups = ghr_sequence_dups r\<rparr>), NetworkHealthClass_class_byte
         (ghr_health_class r))"

interpretation health_report: hash_log GossipHealthReport_bytes_of ghr_prev_hash ghr_report_hash
    GossipHealthReport_committed
  by unfold_locales (auto simp: GossipHealthReport_bytes_of_def GossipHealthReport_committed_def
      report_bytes_inj)

lemma health_report_verify_iff: "GossipHealthMonitor_verify_chain sha l = (True,
    None) \<longleftrightarrow> health_report.ok sha (ghm_reports l)"
  by (simp add: GossipHealthMonitor_verify_chain_def verify_from_iff)

lemma gossip_health_monitor_record_ok: "health_report.ok sha (ghm_reports l) \<Longrightarrow>
    health_report.ok sha (ghm_reports (snd (GossipHealthMonitor_record sha inp l)))"
  by (simp add: Let_def split_def GossipHealthMonitor_record_def compute_report_hash_def
      GossipHealthReport_bytes_of_def report_bytes_def split: option.split sum.split)

section \<open>Gossip Broadcast Summary (Gate 377)\<close>

text \<open>
  \<open>gossip_broadcast_summary.rs\<close>. Produces a per-epoch GossipBroadcastSummary by combining
  dispatch statistics from GossipPeerDispatcher with validation outcome counts from
  GossipBroadcastValidator into a single hash-chained summary.
\<close>

record GossipBroadcastSummary =
  gbs_epoch_end :: u64
  gbs_dispatched :: u32
  gbs_delivered :: u32
  gbs_valid_count :: u32
  gbs_checksum_fail :: u32
  gbs_epoch_regressed :: u32
  gbs_checksum_and_epoch :: u32
  gbs_summary_hash :: hash
  gbs_prev_hash :: hash

definition summary_bytes ::
  "hash \<Rightarrow> u64 \<Rightarrow> u32 \<Rightarrow> u32 \<Rightarrow> u32 \<Rightarrow> u32
      \<Rightarrow> u32 \<Rightarrow> u32 \<Rightarrow> bytes" where
  "summary_bytes prev epoch_end dispatched delivered valid_count checksum_fail epoch_regressed
      checksum_and_epoch =
     hash_bytes prev @ be8 epoch_end @ be4 dispatched @ be4 delivered @ be4 valid_count @
         be4 checksum_fail @ be4 epoch_regressed @ be4 checksum_and_epoch"

definition compute_summary_hash ::
  "sha \<Rightarrow> hash \<Rightarrow> u64 \<Rightarrow> u32 \<Rightarrow> u32 \<Rightarrow> u32
      \<Rightarrow> u32 \<Rightarrow> u32 \<Rightarrow> u32 \<Rightarrow> hash" where
  "compute_summary_hash sha prev epoch_end dispatched delivered valid_count checksum_fail
      epoch_regressed checksum_and_epoch =
     sha (summary_bytes prev epoch_end dispatched delivered valid_count checksum_fail epoch_regressed
         checksum_and_epoch)"

record GossipBroadcastSummaryLog =
  gbsl_summaries :: "GossipBroadcastSummary list"

definition GossipBroadcastSummaryLog_new :: "GossipBroadcastSummaryLog" where
  "GossipBroadcastSummaryLog_new =
     \<lparr>gbsl_summaries = []\<rparr>"

definition GossipBroadcastSummaryLog_summary_count ::
  "GossipBroadcastSummaryLog \<Rightarrow> nat" where
  "GossipBroadcastSummaryLog_summary_count self =
     length (gbsl_summaries self)"

definition GossipBroadcastSummaryLog_latest ::
  "GossipBroadcastSummaryLog \<Rightarrow> GossipBroadcastSummary option" where
  "GossipBroadcastSummaryLog_latest self =
     last_opt (gbsl_summaries self)"

definition GossipBroadcastSummaryLog_record ::
  "sha \<Rightarrow> u64 \<Rightarrow> u32 \<Rightarrow> u32 \<Rightarrow> u32 \<Rightarrow> u32
      \<Rightarrow> u32 \<Rightarrow> u32 \<Rightarrow> GossipBroadcastSummaryLog \<Rightarrow>
      GossipBroadcastSummary \<times> GossipBroadcastSummaryLog" where
  "GossipBroadcastSummaryLog_record sha epoch_end dispatched delivered valid_count checksum_fail
      epoch_regressed checksum_and_epoch self =
     (let prev = last_hash gbs_summary_hash (gbsl_summaries self);
          summary_hash = compute_summary_hash sha prev epoch_end dispatched delivered valid_count
            checksum_fail epoch_regressed checksum_and_epoch;
          self = self\<lparr>gbsl_summaries := (gbsl_summaries self) @
            [\<lparr>gbs_epoch_end = epoch_end, gbs_dispatched = dispatched, gbs_delivered = delivered,
            gbs_valid_count = valid_count, gbs_checksum_fail = checksum_fail,
            gbs_epoch_regressed = epoch_regressed, gbs_checksum_and_epoch = checksum_and_epoch,
            gbs_summary_hash = summary_hash, gbs_prev_hash = prev\<rparr>]\<rparr>
      in (last (gbsl_summaries self), self))"

definition GossipBroadcastSummaryLog_total_valid :: "GossipBroadcastSummaryLog \<Rightarrow> u64" where
  "GossipBroadcastSummaryLog_total_valid self =
     sum_list (map (\<lambda>s. (ucast (gbs_valid_count s) :: u64)) (gbsl_summaries self))"

definition GossipBroadcastSummaryLog_total_failed :: "GossipBroadcastSummaryLog \<Rightarrow> u64" where
  "GossipBroadcastSummaryLog_total_failed self =
     sum_list (map (\<lambda>s. (ucast (((gbs_checksum_fail s) + (gbs_epoch_regressed s)) +
         (gbs_checksum_and_epoch s)) :: u64)) (gbsl_summaries self))"

definition GossipBroadcastSummary_bytes_of :: "GossipBroadcastSummary \<Rightarrow> bytes" where
  "GossipBroadcastSummary_bytes_of s =
     summary_bytes (gbs_prev_hash s) (gbs_epoch_end s) (gbs_dispatched s) (gbs_delivered s)
         (gbs_valid_count s) (gbs_checksum_fail s) (gbs_epoch_regressed s) (gbs_checksum_and_epoch s)"

definition GossipBroadcastSummaryLog_verify_chain ::
  "sha \<Rightarrow> GossipBroadcastSummaryLog \<Rightarrow> bool \<times> nat option" where
  "GossipBroadcastSummaryLog_verify_chain sha self =
     verify_from gbs_prev_hash gbs_summary_hash (\<lambda>r. sha (GossipBroadcastSummary_bytes_of r)) 0
         genesis (gbsl_summaries self)"

lemma summary_bytes_inj:
  "summary_bytes prev epoch_end dispatched delivered valid_count checksum_fail epoch_regressed
      checksum_and_epoch = summary_bytes prev' epoch_end' dispatched' delivered' valid_count'
      checksum_fail' epoch_regressed' checksum_and_epoch' \<longleftrightarrow>
   prev = prev' \<and> epoch_end = epoch_end' \<and> dispatched = dispatched' \<and> delivered =
       delivered' \<and> valid_count = valid_count' \<and> checksum_fail = checksum_fail' \<and>
       epoch_regressed = epoch_regressed' \<and> checksum_and_epoch = checksum_and_epoch'"
  by (auto simp: summary_bytes_def enc_simps)

definition GossipBroadcastSummary_committed :: "GossipBroadcastSummary \<Rightarrow> u64 \<times> u32
    \<times> u32 \<times> u32 \<times> u32 \<times> u32 \<times> u32" where
  "GossipBroadcastSummary_committed s =
     (gbs_epoch_end s, gbs_dispatched s, gbs_delivered s, gbs_valid_count s, gbs_checksum_fail s,
         gbs_epoch_regressed s, gbs_checksum_and_epoch s)"

interpretation broadcast_summary: epoch_log GossipBroadcastSummary_bytes_of gbs_prev_hash
    gbs_summary_hash GossipBroadcastSummary_committed
  "\<lambda>sha (epoch_end, dispatched, delivered, valid_count, checksum_fail, epoch_regressed,
      checksum_and_epoch) l. GossipBroadcastSummaryLog_record sha epoch_end dispatched delivered
      valid_count checksum_fail epoch_regressed checksum_and_epoch l"
  gbsl_summaries GossipBroadcastSummaryLog_new "\<lambda>c. c"
  by unfold_locales (auto simp: GossipBroadcastSummaryLog_record_def compute_summary_hash_def
      GossipBroadcastSummaryLog_new_def Let_def GossipBroadcastSummary_bytes_of_def
      GossipBroadcastSummary_committed_def summary_bytes_inj)

lemma broadcast_summary_verify_iff: "GossipBroadcastSummaryLog_verify_chain sha l = (True,
    None) \<longleftrightarrow> broadcast_summary.ok sha (gbsl_summaries l)"
  by (simp add: GossipBroadcastSummaryLog_verify_chain_def verify_from_iff)

section \<open>Gossip Pipeline Summary Seal (Gate 395)\<close>

text \<open>
  \<open>gossip_pipeline_summary.rs\<close>. Per-epoch summary that seals all gossip pipeline signals
  from Gates 390-394 into a single hash-chained record:
\<close>

record GossipPipelineSummaryEntry =
  gpse_epoch_end :: u64
  gpse_retransmit_count :: u32
  gpse_mean_ack_latency :: u64
  gpse_delivery_ratio_pct :: u32
  gpse_churn_count :: u32
  gpse_health_verdict :: EpochHealthVerdict
  gpse_entry_hash :: hash
  gpse_prev_hash :: hash

definition pipeline_summary_bytes ::
  "hash \<Rightarrow> u64 \<Rightarrow> u32 \<Rightarrow> u64 \<Rightarrow> u32 \<Rightarrow> u32
      \<Rightarrow> EpochHealthVerdict \<Rightarrow> bytes" where
  "pipeline_summary_bytes prev epoch_end retransmit_count mean_ack_latency delivery_ratio_pct
      churn_count health_verdict =
     hash_bytes prev @ be8 epoch_end @ be4 retransmit_count @ be8 mean_ack_latency @
         be4 delivery_ratio_pct @ be4 churn_count @ [EpochHealthVerdict_as_u8 health_verdict]"

definition compute_pipeline_summary_hash ::
  "sha \<Rightarrow> hash \<Rightarrow> u64 \<Rightarrow> u32 \<Rightarrow> u64 \<Rightarrow> u32
      \<Rightarrow> u32 \<Rightarrow> EpochHealthVerdict \<Rightarrow> hash" where
  "compute_pipeline_summary_hash sha prev epoch_end retransmit_count mean_ack_latency delivery_ratio_pct
      churn_count health_verdict =
     sha (pipeline_summary_bytes prev epoch_end retransmit_count mean_ack_latency delivery_ratio_pct
         churn_count health_verdict)"

record GossipPipelineSummaryLog =
  gpsl_entries :: "GossipPipelineSummaryEntry list"

definition GossipPipelineSummaryLog_new :: "GossipPipelineSummaryLog" where
  "GossipPipelineSummaryLog_new =
     \<lparr>gpsl_entries = []\<rparr>"

definition GossipPipelineSummaryLog_entry_count :: "GossipPipelineSummaryLog \<Rightarrow> nat" where
  "GossipPipelineSummaryLog_entry_count self =
     length (gpsl_entries self)"

definition GossipPipelineSummaryLog_latest ::
  "GossipPipelineSummaryLog \<Rightarrow> GossipPipelineSummaryEntry option" where
  "GossipPipelineSummaryLog_latest self =
     last_opt (gpsl_entries self)"

definition GossipPipelineSummaryLog_healthy_epochs :: "GossipPipelineSummaryLog \<Rightarrow> nat" where
  "GossipPipelineSummaryLog_healthy_epochs self =
     length (filter (\<lambda>e. (gpse_health_verdict e) = EpochHealthVerdict.Healthy) (gpsl_entries
         self))"

definition GossipPipelineSummaryLog_degraded_epochs ::
  "GossipPipelineSummaryLog \<Rightarrow> nat" where
  "GossipPipelineSummaryLog_degraded_epochs self =
     length (filter (\<lambda>e. (gpse_health_verdict e) = EpochHealthVerdict.Degraded) (gpsl_entries
         self))"

definition GossipPipelineSummaryLog_critical_epochs ::
  "GossipPipelineSummaryLog \<Rightarrow> nat" where
  "GossipPipelineSummaryLog_critical_epochs self =
     length (filter (\<lambda>e. (gpse_health_verdict e) = EpochHealthVerdict.Critical) (gpsl_entries
         self))"

definition GossipPipelineSummaryLog_record ::
  "sha \<Rightarrow> u64 \<Rightarrow> u32 \<Rightarrow> u64 \<Rightarrow> u32 \<Rightarrow> u32
      \<Rightarrow> EpochHealthVerdict \<Rightarrow> GossipPipelineSummaryLog \<Rightarrow>
      GossipPipelineSummaryEntry \<times> GossipPipelineSummaryLog" where
  "GossipPipelineSummaryLog_record sha epoch_end retransmit_count mean_ack_latency delivery_ratio_pct
      churn_count health_verdict self =
     (let prev = last_hash gpse_entry_hash (gpsl_entries self);
          entry_hash = compute_pipeline_summary_hash sha prev epoch_end retransmit_count
            mean_ack_latency delivery_ratio_pct churn_count health_verdict;
          self = self\<lparr>gpsl_entries := (gpsl_entries self) @ [\<lparr>gpse_epoch_end = epoch_end,
            gpse_retransmit_count = retransmit_count, gpse_mean_ack_latency = mean_ack_latency,
            gpse_delivery_ratio_pct = delivery_ratio_pct, gpse_churn_count = churn_count,
            gpse_health_verdict = health_verdict, gpse_entry_hash = entry_hash,
            gpse_prev_hash = prev\<rparr>]\<rparr>
      in (last (gpsl_entries self), self))"

definition GossipPipelineSummaryEntry_bytes_of :: "GossipPipelineSummaryEntry \<Rightarrow> bytes" where
  "GossipPipelineSummaryEntry_bytes_of e =
     pipeline_summary_bytes (gpse_prev_hash e) (gpse_epoch_end e) (gpse_retransmit_count e)
         (gpse_mean_ack_latency e) (gpse_delivery_ratio_pct e) (gpse_churn_count e) (gpse_health_verdict
         e)"

definition GossipPipelineSummaryLog_verify_chain ::
  "sha \<Rightarrow> GossipPipelineSummaryLog \<Rightarrow> bool \<times> nat option" where
  "GossipPipelineSummaryLog_verify_chain sha self =
     verify_from gpse_prev_hash gpse_entry_hash (\<lambda>r. sha (GossipPipelineSummaryEntry_bytes_of
         r)) 0 genesis (gpsl_entries self)"

lemma pipeline_summary_bytes_inj:
  "pipeline_summary_bytes prev epoch_end retransmit_count mean_ack_latency delivery_ratio_pct
      churn_count health_verdict = pipeline_summary_bytes prev' epoch_end' retransmit_count'
      mean_ack_latency' delivery_ratio_pct' churn_count' health_verdict' \<longleftrightarrow>
   prev = prev' \<and> epoch_end = epoch_end' \<and> retransmit_count = retransmit_count' \<and>
       mean_ack_latency = mean_ack_latency' \<and> delivery_ratio_pct = delivery_ratio_pct' \<and>
       churn_count = churn_count' \<and> health_verdict = health_verdict'"
  by (auto simp: pipeline_summary_bytes_def enc_simps)

definition GossipPipelineSummaryEntry_committed :: "GossipPipelineSummaryEntry \<Rightarrow> u64
    \<times> u32 \<times> u64 \<times> u32 \<times> u32 \<times> EpochHealthVerdict" where
  "GossipPipelineSummaryEntry_committed e =
     (gpse_epoch_end e, gpse_retransmit_count e, gpse_mean_ack_latency e, gpse_delivery_ratio_pct e,
         gpse_churn_count e, gpse_health_verdict e)"

interpretation pipeline_summary: epoch_log GossipPipelineSummaryEntry_bytes_of gpse_prev_hash
    gpse_entry_hash GossipPipelineSummaryEntry_committed
  "\<lambda>sha (epoch_end, retransmit_count, mean_ack_latency, delivery_ratio_pct, churn_count,
      health_verdict) l. GossipPipelineSummaryLog_record sha epoch_end retransmit_count mean_ack_latency
      delivery_ratio_pct churn_count health_verdict l"
  gpsl_entries GossipPipelineSummaryLog_new "\<lambda>c. c"
  by unfold_locales (auto simp: GossipPipelineSummaryLog_record_def compute_pipeline_summary_hash_def
      GossipPipelineSummaryLog_new_def Let_def GossipPipelineSummaryEntry_bytes_of_def
      GossipPipelineSummaryEntry_committed_def pipeline_summary_bytes_inj)

lemma pipeline_summary_verify_iff: "GossipPipelineSummaryLog_verify_chain sha l = (True,
    None) \<longleftrightarrow> pipeline_summary.ok sha (gpsl_entries l)"
  by (simp add: GossipPipelineSummaryLog_verify_chain_def verify_from_iff)

section \<open>Gossip Epoch Finalizer: terminal gossip state seal at epoch close (Gate 280)\<close>

text \<open>
  \<open>gossip_epoch_finalizer.rs\<close>. Produces a GossipEpochSeal that cryptographically binds
  the terminal state of all gossip-layer subsystems at epoch close.
\<close>

record GossipEpochSeal_finalizer =
  ges2_epoch :: u64
  ges2_supervision_hash :: hash
  ges2_scheduler_hash :: hash
  ges2_spread_hash :: hash
  ges2_registry_peer_count :: u32
  ges2_trusted_count :: u32
  ges2_blocked_count :: u32
  ges2_seal_hash :: hash
  ges2_prev_seal_hash :: hash

definition gossip_epoch_finalizer_seal_bytes ::
  "u64 \<Rightarrow> hash \<Rightarrow> hash \<Rightarrow> hash \<Rightarrow> u32 \<Rightarrow> u32
      \<Rightarrow> u32 \<Rightarrow> hash \<Rightarrow> bytes" where
  "gossip_epoch_finalizer_seal_bytes epoch supervision_hash scheduler_hash spread_hash
      registry_peer_count trusted_count blocked_count prev =
     hash_bytes prev @ be8 epoch @ hash_bytes supervision_hash @ hash_bytes scheduler_hash @
         hash_bytes spread_hash @ be4 registry_peer_count @ be4 trusted_count @ be4 blocked_count"

definition gossip_epoch_finalizer_compute_seal_hash ::
  "sha \<Rightarrow> u64 \<Rightarrow> hash \<Rightarrow> hash \<Rightarrow> hash \<Rightarrow> u32
      \<Rightarrow> u32 \<Rightarrow> u32 \<Rightarrow> hash \<Rightarrow> hash" where
  "gossip_epoch_finalizer_compute_seal_hash sha epoch supervision_hash scheduler_hash spread_hash
      registry_peer_count trusted_count blocked_count prev =
     sha (gossip_epoch_finalizer_seal_bytes epoch supervision_hash scheduler_hash spread_hash
         registry_peer_count trusted_count blocked_count prev)"

definition build_gossip_seal ::
  "sha \<Rightarrow> u64 \<Rightarrow> hash \<Rightarrow> hash \<Rightarrow> hash \<Rightarrow> u32
      \<Rightarrow> u32 \<Rightarrow> u32 \<Rightarrow> hash \<Rightarrow> GossipEpochSeal_finalizer"
      where
  "build_gossip_seal sha epoch supervision_hash scheduler_hash spread_hash registry_peer_count
      trusted_count blocked_count prev_seal_hash =
     (let seal_hash = gossip_epoch_finalizer_compute_seal_hash sha epoch supervision_hash scheduler_hash
         spread_hash registry_peer_count trusted_count blocked_count prev_seal_hash
      in \<lparr>ges2_epoch = epoch, ges2_supervision_hash = supervision_hash,
          ges2_scheduler_hash = scheduler_hash, ges2_spread_hash = spread_hash,
          ges2_registry_peer_count = registry_peer_count, ges2_trusted_count = trusted_count,
          ges2_blocked_count = blocked_count, ges2_seal_hash = seal_hash,
          ges2_prev_seal_hash = prev_seal_hash\<rparr>)"

definition GossipEpochSeal_finalizer_majority_trusted ::
  "GossipEpochSeal_finalizer \<Rightarrow> bool" where
  "GossipEpochSeal_finalizer_majority_trusted self \<longleftrightarrow>
     (if (ges2_registry_peer_count self) = 0 then False
      else ((ges2_trusted_count self) * 2) \<ge> (ges2_registry_peer_count self))"

definition GossipEpochSeal_finalizer_no_blocked_peers ::
  "GossipEpochSeal_finalizer \<Rightarrow> bool" where
  "GossipEpochSeal_finalizer_no_blocked_peers self \<longleftrightarrow>
     (ges2_blocked_count self) = 0"

record GossipEpochChain =
  gec_seals :: "GossipEpochSeal_finalizer list"

datatype GossipEpochError = StaleEpoch

fun GossipEpochError_as_u8 :: "GossipEpochError \<Rightarrow> u8" where
  "GossipEpochError_as_u8 GossipEpochError.StaleEpoch = 0"

lemma GossipEpochError_as_u8_inj [simp]: "GossipEpochError_as_u8 x = GossipEpochError_as_u8 y
    \<longleftrightarrow> x = y"
  by (cases x; cases y) auto

definition GossipEpochChain_new :: "GossipEpochChain" where
  "GossipEpochChain_new =
     \<lparr>gec_seals = []\<rparr>"

definition GossipEpochChain_latest ::
  "GossipEpochChain \<Rightarrow> GossipEpochSeal_finalizer option" where
  "GossipEpochChain_latest self =
     last_opt (gec_seals self)"

definition GossipEpochChain_last_hash :: "GossipEpochChain \<Rightarrow> hash" where
  "GossipEpochChain_last_hash self =
     last_hash ges2_seal_hash (gec_seals self)"

definition GossipEpochChain_terminal_hash :: "GossipEpochChain \<Rightarrow> hash" where
  "GossipEpochChain_terminal_hash self =
     GossipEpochChain_last_hash self"

definition GossipEpochChain_seal_count :: "GossipEpochChain \<Rightarrow> nat" where
  "GossipEpochChain_seal_count self =
     length (gec_seals self)"

definition GossipEpochChain_append ::
  "sha \<Rightarrow> u64 \<Rightarrow> hash \<Rightarrow> hash \<Rightarrow> hash \<Rightarrow> u32
      \<Rightarrow> u32 \<Rightarrow> u32 \<Rightarrow> GossipEpochChain \<Rightarrow> (GossipEpochError
      + GossipEpochSeal_finalizer) \<times> GossipEpochChain" where
  "GossipEpochChain_append sha epoch supervision_hash scheduler_hash spread_hash registry_peer_count
      trusted_count blocked_count self =
     (if gec_seals self \<noteq> [] \<and> epoch \<le> (ges2_epoch (last (gec_seals self))) then (Inl
         GossipEpochError.StaleEpoch, self)
      else (let prev = GossipEpochChain_last_hash self;
          seal = build_gossip_seal sha epoch supervision_hash scheduler_hash spread_hash
            registry_peer_count trusted_count blocked_count prev;
          self = self\<lparr>gec_seals := (gec_seals self) @ [seal]\<rparr>
      in (Inr (last (gec_seals self)), self)))"

definition GossipEpochSeal_finalizer_bytes_of :: "GossipEpochSeal_finalizer \<Rightarrow> bytes" where
  "GossipEpochSeal_finalizer_bytes_of seal =
     gossip_epoch_finalizer_seal_bytes (ges2_epoch seal) (ges2_supervision_hash seal)
         (ges2_scheduler_hash seal) (ges2_spread_hash seal) (ges2_registry_peer_count seal)
         (ges2_trusted_count seal) (ges2_blocked_count seal) (ges2_prev_seal_hash seal)"

definition GossipEpochChain_verify_chain ::
  "sha \<Rightarrow> GossipEpochChain \<Rightarrow> bool \<times> nat option" where
  "GossipEpochChain_verify_chain sha self =
     verify_from ges2_prev_seal_hash ges2_seal_hash (\<lambda>r. sha (GossipEpochSeal_finalizer_bytes_of
         r)) 0 genesis (gec_seals self)"

lemma gossip_epoch_finalizer_seal_bytes_inj:
  "gossip_epoch_finalizer_seal_bytes epoch supervision_hash scheduler_hash spread_hash
      registry_peer_count trusted_count blocked_count prev = gossip_epoch_finalizer_seal_bytes epoch'
      supervision_hash' scheduler_hash' spread_hash' registry_peer_count' trusted_count' blocked_count'
      prev' \<longleftrightarrow>
   prev = prev' \<and> epoch = epoch' \<and> supervision_hash = supervision_hash' \<and> scheduler_hash
       = scheduler_hash' \<and> spread_hash = spread_hash' \<and> registry_peer_count =
       registry_peer_count' \<and> trusted_count = trusted_count' \<and> blocked_count = blocked_count'"
  by (auto simp: gossip_epoch_finalizer_seal_bytes_def enc_simps)

definition GossipEpochSeal_finalizer_committed :: "GossipEpochSeal_finalizer \<Rightarrow> u64 \<times>
    hash \<times> hash \<times> hash \<times> u32 \<times> u32 \<times> u32" where
  "GossipEpochSeal_finalizer_committed seal =
     (ges2_epoch seal, ges2_supervision_hash seal, ges2_scheduler_hash seal, ges2_spread_hash seal,
         ges2_registry_peer_count seal, ges2_trusted_count seal, ges2_blocked_count seal)"

interpretation epoch_finalizer: rising_log GossipEpochSeal_finalizer_bytes_of ges2_prev_seal_hash
    ges2_seal_hash GossipEpochSeal_finalizer_committed
  "\<lambda>sha (epoch, supervision_hash, scheduler_hash, spread_hash, registry_peer_count,
      trusted_count, blocked_count) l. GossipEpochChain_append sha epoch supervision_hash scheduler_hash
      spread_hash registry_peer_count trusted_count blocked_count l"
  gec_seals GossipEpochChain_new "\<lambda>c. c" "\<lambda>(epoch, _, _, _, _, _, _). epoch"
  by unfold_locales (auto simp: GossipEpochChain_append_def gossip_epoch_finalizer_compute_seal_hash_def
      GossipEpochChain_new_def Let_def GossipEpochSeal_finalizer_bytes_of_def
      GossipEpochSeal_finalizer_committed_def gossip_epoch_finalizer_seal_bytes_inj
      build_gossip_seal_def GossipEpochChain_last_hash_def)

lemma epoch_finalizer_verify_iff: "GossipEpochChain_verify_chain sha l = (True,
    None) \<longleftrightarrow> epoch_finalizer.ok sha (gec_seals l)"
  by (simp add: GossipEpochChain_verify_chain_def verify_from_iff)

section \<open>Gossip Peer Score Tracker (Gate 382)\<close>

text \<open>
  \<open>gossip_peer_score.rs\<close>. Maintains a per-peer delivery reliability score as a
  hash-chained event log. Each score event records whether a peer successfully delivered a gossip
  frame (hit) or failed (miss). The running score is an integer percentage:
\<close>

record GossipPeerScoreEvent =
  gpse2_peer_id :: u64
  gpse2_epoch :: u64
  gpse2_is_hit :: bool
  gpse2_hits :: u64
  gpse2_total :: u64
  gpse2_score_pct :: u32
  gpse2_event_hash :: hash
  gpse2_prev_hash :: hash

definition score_bytes ::
  "hash \<Rightarrow> u64 \<Rightarrow> u64 \<Rightarrow> bool \<Rightarrow> u64 \<Rightarrow> u64
      \<Rightarrow> u32 \<Rightarrow> bytes" where
  "score_bytes prev peer_id epoch is_hit hits total_v score_pct =
     hash_bytes prev @ be8 peer_id @ be8 epoch @ [of_bool is_hit] @ be8 hits @ be8 total_v @
         be4 score_pct"

definition compute_score_hash ::
  "sha \<Rightarrow> hash \<Rightarrow> u64 \<Rightarrow> u64 \<Rightarrow> bool \<Rightarrow> u64
      \<Rightarrow> u64 \<Rightarrow> u32 \<Rightarrow> hash" where
  "compute_score_hash sha prev peer_id epoch is_hit hits total_v score_pct =
     sha (score_bytes prev peer_id epoch is_hit hits total_v score_pct)"

record GossipPeerScoreLog =
  gpsl2_events :: "GossipPeerScoreEvent list"
  gpsl2_totals :: "(u64, u64 \<times> u64) btmap"

definition GossipPeerScoreLog_new :: "GossipPeerScoreLog" where
  "GossipPeerScoreLog_new =
     \<lparr>gpsl2_events = [], gpsl2_totals = bt_empty\<rparr>"

definition GossipPeerScoreLog_event_count :: "GossipPeerScoreLog \<Rightarrow> nat" where
  "GossipPeerScoreLog_event_count self =
     length (gpsl2_events self)"

definition GossipPeerScoreLog_latest ::
  "GossipPeerScoreLog \<Rightarrow> GossipPeerScoreEvent option" where
  "GossipPeerScoreLog_latest self =
     last_opt (gpsl2_events self)"

definition GossipPeerScoreLog_score_for ::
  "u64 \<Rightarrow> GossipPeerScoreLog \<Rightarrow> u32" where
  "GossipPeerScoreLog_score_for peer_id self =
     (case bt_get (gpsl2_totals self) peer_id of
         None \<Rightarrow> 0
       | Some (hits, total_v) \<Rightarrow> if total_v = 0 then 0
      else (ucast ((hits * 100) div total_v) :: u32))"

definition GossipPeerScoreLog_record_event ::
  "sha \<Rightarrow> u64 \<Rightarrow> u64 \<Rightarrow> bool \<Rightarrow> GossipPeerScoreLog
      \<Rightarrow> GossipPeerScoreEvent \<times> GossipPeerScoreLog" where
  "GossipPeerScoreLog_record_event sha peer_id epoch is_hit self =
     (let (hits, total_v) = bt_get_or (0, 0) (gpsl2_totals self) peer_id;
          hits = (if is_hit then hits + 1 else hits);
          total_v = total_v + 1;
          self = self\<lparr>gpsl2_totals := bt_insert peer_id (hits,
            total_v) (gpsl2_totals self)\<rparr>;
          score_pct = (ucast ((hits * 100) div total_v) :: u32);
          prev = last_hash gpse2_event_hash (gpsl2_events self);
          event_hash = compute_score_hash sha prev peer_id epoch is_hit hits total_v score_pct;
          self = self\<lparr>gpsl2_events := (gpsl2_events self) @ [\<lparr>gpse2_peer_id = peer_id,
            gpse2_epoch = epoch, gpse2_is_hit = is_hit, gpse2_hits = hits,
            gpse2_total = total_v, gpse2_score_pct = score_pct,
            gpse2_event_hash = event_hash, gpse2_prev_hash = prev\<rparr>]\<rparr>
      in (last (gpsl2_events self), self))"

definition GossipPeerScoreLog_record_hit ::
  "sha \<Rightarrow> u64 \<Rightarrow> u64 \<Rightarrow> GossipPeerScoreLog \<Rightarrow>
      GossipPeerScoreEvent \<times> GossipPeerScoreLog" where
  "GossipPeerScoreLog_record_hit sha peer_id epoch self =
     (let (result, self) = GossipPeerScoreLog_record_event sha peer_id epoch True self
      in (result, self))"

definition GossipPeerScoreLog_record_miss ::
  "sha \<Rightarrow> u64 \<Rightarrow> u64 \<Rightarrow> GossipPeerScoreLog \<Rightarrow>
      GossipPeerScoreEvent \<times> GossipPeerScoreLog" where
  "GossipPeerScoreLog_record_miss sha peer_id epoch self =
     (let (result, self) = GossipPeerScoreLog_record_event sha peer_id epoch False self
      in (result, self))"

definition GossipPeerScoreEvent_bytes_of :: "GossipPeerScoreEvent \<Rightarrow> bytes" where
  "GossipPeerScoreEvent_bytes_of e =
     score_bytes (gpse2_prev_hash e) (gpse2_peer_id e) (gpse2_epoch e) (gpse2_is_hit e) (gpse2_hits e)
         (gpse2_total e) (gpse2_score_pct e)"

definition GossipPeerScoreLog_verify_chain ::
  "sha \<Rightarrow> GossipPeerScoreLog \<Rightarrow> bool \<times> nat option" where
  "GossipPeerScoreLog_verify_chain sha self =
     verify_from gpse2_prev_hash gpse2_event_hash (\<lambda>r. sha (GossipPeerScoreEvent_bytes_of r)) 0
         genesis (gpsl2_events self)"

lemma score_bytes_inj:
  "score_bytes prev peer_id epoch is_hit hits total_v score_pct = score_bytes prev' peer_id' epoch'
      is_hit' hits' total_v' score_pct' \<longleftrightarrow>
   prev = prev' \<and> peer_id = peer_id' \<and> epoch = epoch' \<and> is_hit = is_hit' \<and> hits =
       hits' \<and> total_v = total_v' \<and> score_pct = score_pct'"
  by (auto simp: score_bytes_def enc_simps)

definition GossipPeerScoreEvent_committed :: "GossipPeerScoreEvent \<Rightarrow> u64 \<times> u64
    \<times> bool \<times> u64 \<times> u64 \<times> u32" where
  "GossipPeerScoreEvent_committed e =
     (gpse2_peer_id e, gpse2_epoch e, gpse2_is_hit e, gpse2_hits e, gpse2_total e, gpse2_score_pct e)"

interpretation peer_score: epoch_log GossipPeerScoreEvent_bytes_of gpse2_prev_hash gpse2_event_hash
    GossipPeerScoreEvent_committed
  "\<lambda>sha (peer_id, epoch, is_hit) l. GossipPeerScoreLog_record_event sha peer_id epoch is_hit l"
  gpsl2_events GossipPeerScoreLog_new "\<lambda>(a, b, c, _, _, _). (a, b, c)"
  by unfold_locales (auto simp: GossipPeerScoreLog_record_event_def compute_score_hash_def
      GossipPeerScoreLog_new_def Let_def GossipPeerScoreEvent_bytes_of_def
      GossipPeerScoreEvent_committed_def score_bytes_inj split_def)

lemma peer_score_verify_iff: "GossipPeerScoreLog_verify_chain sha l = (True,
    None) \<longleftrightarrow> peer_score.ok sha (gpsl2_events l)"
  by (simp add: GossipPeerScoreLog_verify_chain_def verify_from_iff)

end
