(* ===== verification/Swarm_Health.thy ===== *)
theory Swarm_Health
  imports Epoch_Log
begin

text \<open>
  The health of the swarm and what is derived from it: the entropy budget of a node and its forecast,
  the verdict on a swarm of budgets, the divergence oracle, the watchdog over a window of oracle
  readings, the pulse that joins them, the adaptive thresholds and the drift of the quorum.
\<close>

section \<open>Gate 234: Entropy Budget - Constitutional Adaptation Accounting\<close>

text \<open>
  \<open>entropy_budget.rs\<close>. Implements AdaptivePower(T) <= ReplayVerifiability(T) as a
  concrete numerical
\<close>

definition INITIAL_ENTROPY_BUDGET :: u64 where
  "INITIAL_ENTROPY_BUDGET = 1000"

definition ADAPTIVE_EVENT_COST :: u64 where
  "ADAPTIVE_EVENT_COST = 10"

definition REPLAY_REPLENISHMENT :: u64 where
  "REPLAY_REPLENISHMENT = 7"

definition MAX_ENTROPY_BUDGET :: u64 where
  "MAX_ENTROPY_BUDGET = 10000"

datatype EntryKind = AdaptiveEvent | ReplayCertification | Custom

fun EntryKind_as_u8 :: "EntryKind \<Rightarrow> u8" where
  "EntryKind_as_u8 EntryKind.AdaptiveEvent = 0"
| "EntryKind_as_u8 EntryKind.ReplayCertification = 1"
| "EntryKind_as_u8 EntryKind.Custom = 2"

lemma EntryKind_as_u8_inj [simp]: "EntryKind_as_u8 x = EntryKind_as_u8 y \<longleftrightarrow> x = y"
  by (cases x; cases y) auto

record BudgetEntry =
  be2_kind :: EntryKind
  be2_delta :: i64
  be2_balance_after :: u64
  be2_entry_hash :: hash
  be2_prev_entry_hash :: hash

datatype BudgetError = InsufficientBudget u64 u64 | InvalidCustomDelta

record EntropyBudget =
  eb_balance :: u64
  eb_entries :: "BudgetEntry list"

definition EntropyBudget_new :: "EntropyBudget" where
  "EntropyBudget_new =
     \<lparr>eb_balance = INITIAL_ENTROPY_BUDGET, eb_entries = []\<rparr>"

definition EntropyBudget_with_balance :: "u64 \<Rightarrow> EntropyBudget" where
  "EntropyBudget_with_balance balance =
     \<lparr>eb_balance = min balance MAX_ENTROPY_BUDGET, eb_entries = []\<rparr>"

definition EntropyBudget_can_adapt :: "EntropyBudget \<Rightarrow> bool" where
  "EntropyBudget_can_adapt self \<longleftrightarrow>
     (eb_balance self) \<ge> ADAPTIVE_EVENT_COST"

definition EntropyBudget_last_hash :: "EntropyBudget \<Rightarrow> hash" where
  "EntropyBudget_last_hash self =
     last_hash be2_entry_hash (eb_entries self)"

definition entry_bytes :: "i64 \<Rightarrow> u64 \<Rightarrow> hash \<Rightarrow> bytes" where
  "entry_bytes delta_v balance_after prev =
     hash_bytes prev @ be8 delta_v @ be8 balance_after"

definition compute_entry_hash ::
  "sha \<Rightarrow> i64 \<Rightarrow> u64 \<Rightarrow> hash \<Rightarrow> hash" where
  "compute_entry_hash sha delta_v balance_after prev =
     sha (entry_bytes delta_v balance_after prev)"

definition EntropyBudget_push_entry ::
  "sha \<Rightarrow> EntryKind \<Rightarrow> i64 \<Rightarrow> EntropyBudget \<Rightarrow> BudgetEntry
      \<times> EntropyBudget" where
  "EntropyBudget_push_entry sha kind delta_v self =
     (let prev = EntropyBudget_last_hash self;
          hash = compute_entry_hash sha delta_v (eb_balance self) prev;
          self = self\<lparr>eb_entries := (eb_entries self) @ [\<lparr>be2_kind = kind,
            be2_delta = delta_v, be2_balance_after = eb_balance self, be2_entry_hash = hash,
            be2_prev_entry_hash = prev\<rparr>]\<rparr>
      in (last (eb_entries self), self))"

definition EntropyBudget_consume_adaptive ::
  "sha \<Rightarrow> EntropyBudget \<Rightarrow> (BudgetError + BudgetEntry) \<times> EntropyBudget"
      where
  "EntropyBudget_consume_adaptive sha self =
     (if (eb_balance self) < ADAPTIVE_EVENT_COST then (Inl (BudgetError.InsufficientBudget (eb_balance
         self) ADAPTIVE_EVENT_COST), self)
      else (let self = self\<lparr>eb_balance := (eb_balance self) - ADAPTIVE_EVENT_COST\<rparr>;
          (entry, self) = EntropyBudget_push_entry sha EntryKind.AdaptiveEvent (- ADAPTIVE_EVENT_COST)
            self
      in (Inr entry, self)))"

definition EntropyBudget_replenish_replay ::
  "sha \<Rightarrow> EntropyBudget \<Rightarrow> BudgetEntry \<times> EntropyBudget" where
  "EntropyBudget_replenish_replay sha self =
     (let added = min REPLAY_REPLENISHMENT (MAX_ENTROPY_BUDGET - (eb_balance self));
          self = self\<lparr>eb_balance := (eb_balance self) + added\<rparr>
      in (let (result, self) = EntropyBudget_push_entry sha EntryKind.ReplayCertification added self
      in (result, self)))"

definition EntropyBudget_apply_custom ::
  "sha \<Rightarrow> i64 \<Rightarrow> EntropyBudget \<Rightarrow> (BudgetError + BudgetEntry) \<times>
      EntropyBudget" where
  "EntropyBudget_apply_custom sha delta_v self =
     (if delta_v = 0 then (Inl BudgetError.InvalidCustomDelta, self)
      else if delta_v <s 0 \<and> eb_balance self < - delta_v
      then (Inl (BudgetError.InsufficientBudget (eb_balance self) (- delta_v)), self)
      else
        (let self =
           (if delta_v <s 0 then self\<lparr>eb_balance := eb_balance self - (- delta_v)\<rparr>
            else self\<lparr>eb_balance := eb_balance self
              + min delta_v (MAX_ENTROPY_BUDGET - eb_balance self)\<rparr>);
           (entry, self) = EntropyBudget_push_entry sha EntryKind.Custom delta_v self
         in (Inr entry, self)))"

definition BudgetEntry_bytes_of :: "BudgetEntry \<Rightarrow> bytes" where
  "BudgetEntry_bytes_of entry =
     entry_bytes (be2_delta entry) (be2_balance_after entry) (be2_prev_entry_hash entry)"

definition EntropyBudget_verify_chain ::
  "sha \<Rightarrow> EntropyBudget \<Rightarrow> bool \<times> nat option" where
  "EntropyBudget_verify_chain sha self =
     verify_from be2_prev_entry_hash be2_entry_hash (\<lambda>r. sha (BudgetEntry_bytes_of r)) 0 genesis
         (eb_entries self)"

lemma entry_bytes_inj:
  "entry_bytes delta_v balance_after prev = entry_bytes delta_v' balance_after' prev'
      \<longleftrightarrow>
   prev = prev' \<and> delta_v = delta_v' \<and> balance_after = balance_after'"
  by (auto simp: entry_bytes_def enc_simps)

definition BudgetEntry_committed :: "BudgetEntry \<Rightarrow> i64 \<times> u64" where
  "BudgetEntry_committed entry =
     (be2_delta entry, be2_balance_after entry)"

interpretation entropy_budget: hash_log BudgetEntry_bytes_of be2_prev_entry_hash be2_entry_hash
    BudgetEntry_committed
  by unfold_locales (auto simp: BudgetEntry_bytes_of_def BudgetEntry_committed_def entry_bytes_inj)

lemma entropy_budget_verify_iff: "EntropyBudget_verify_chain sha l = (True,
    None) \<longleftrightarrow> entropy_budget.ok sha (eb_entries l)"
  by (simp add: EntropyBudget_verify_chain_def verify_from_iff)

lemma entropy_budget_push_entry_ok: "entropy_budget.ok sha (eb_entries l) \<Longrightarrow>
    entropy_budget.ok sha (eb_entries (snd (EntropyBudget_push_entry sha kind delta_v l)))"
  by (simp add: Let_def split_def EntropyBudget_push_entry_def compute_entry_hash_def
      BudgetEntry_bytes_of_def EntropyBudget_last_hash_def split: option.split sum.split)

lemma entropy_budget_consume_adaptive_ok: "entropy_budget.ok sha (eb_entries l) \<Longrightarrow>
    entropy_budget.ok sha (eb_entries (snd (EntropyBudget_consume_adaptive sha l)))"
  by (simp add: Let_def split_def EntropyBudget_consume_adaptive_def entropy_budget_push_entry_ok
      EntropyBudget_last_hash_def split: option.split sum.split)

lemma entropy_budget_replenish_replay_ok: "entropy_budget.ok sha (eb_entries l) \<Longrightarrow>
    entropy_budget.ok sha (eb_entries (snd (EntropyBudget_replenish_replay sha l)))"
  by (simp add: Let_def split_def EntropyBudget_replenish_replay_def entropy_budget_push_entry_ok
      EntropyBudget_last_hash_def split: option.split sum.split)

lemma entropy_budget_apply_custom_ok: "entropy_budget.ok sha (eb_entries l) \<Longrightarrow>
    entropy_budget.ok sha (eb_entries (snd (EntropyBudget_apply_custom sha delta_v l)))"
  by (simp add: Let_def split_def EntropyBudget_apply_custom_def entropy_budget_push_entry_ok
      EntropyBudget_last_hash_def split: option.split sum.split)

section \<open>Gate 237: Swarm Health Monitor - Unified constitutional health across the swarm\<close>

text \<open>
  \<open>swarm_health.rs\<close>. Aggregates GovernancePipeline + SwarmAutonode outputs into a single
  SwarmHealthReport per epoch. Provides a T0 health verdict (pass/fail) and a reason code for any
  constitutional breach.
\<close>

datatype HealthVerdict = Pass | Warn | Fail

fun HealthVerdict_as_u8 :: "HealthVerdict \<Rightarrow> u8" where
  "HealthVerdict_as_u8 HealthVerdict.Pass = 0"
| "HealthVerdict_as_u8 HealthVerdict.Warn = 1"
| "HealthVerdict_as_u8 HealthVerdict.Fail = 2"

lemma HealthVerdict_as_u8_inj [simp]: "HealthVerdict_as_u8 x = HealthVerdict_as_u8 y
    \<longleftrightarrow> x = y"
  by (cases x; cases y) auto

definition HealthVerdict_is_pass :: "HealthVerdict \<Rightarrow> bool" where
  "HealthVerdict_is_pass self \<longleftrightarrow>
     self = HealthVerdict.Pass"

definition HealthVerdict_is_operational :: "HealthVerdict \<Rightarrow> bool" where
  "HealthVerdict_is_operational self \<longleftrightarrow>
     self \<noteq> HealthVerdict.Fail"

datatype HealthFailReason = Nothing | MutationAuthoritySuspended | QuorumNotReached | EntropyExhausted |
    ContinuityBreach | D4DriftDetected

fun HealthFailReason_as_u8 :: "HealthFailReason \<Rightarrow> u8" where
  "HealthFailReason_as_u8 HealthFailReason.Nothing = 0"
| "HealthFailReason_as_u8 HealthFailReason.MutationAuthoritySuspended = 1"
| "HealthFailReason_as_u8 HealthFailReason.QuorumNotReached = 2"
| "HealthFailReason_as_u8 HealthFailReason.EntropyExhausted = 3"
| "HealthFailReason_as_u8 HealthFailReason.ContinuityBreach = 4"
| "HealthFailReason_as_u8 HealthFailReason.D4DriftDetected = 5"

lemma HealthFailReason_as_u8_inj [simp]: "HealthFailReason_as_u8 x = HealthFailReason_as_u8 y
    \<longleftrightarrow> x = y"
  by (cases x; cases y) auto

record HealthSnapshot =
  hs_epoch :: u64
  hs_node_count :: nat
  hs_coherent_node_count :: nat
  hs_continuously_coherent_count :: nat
  hs_quorum_reached :: bool
  hs_continuous_quorum :: bool
  hs_mutation_authority_active :: bool
  hs_entropy_balance :: u64
  hs_drift_class_int :: u8
  hs_is_continuously_coherent :: bool

record SwarmHealthReport =
  shr_epoch :: u64
  shr_verdict :: HealthVerdict
  shr_primary_fail_reason :: HealthFailReason
  shr_node_count :: nat
  shr_coherent_node_count :: nat
  shr_quorum_reached :: bool
  shr_continuous_quorum :: bool
  shr_mutation_authority_active :: bool
  shr_entropy_balance :: u64
  shr_drift_class_int :: u8
  shr_health_hash :: hash
  shr_prev_health_hash :: hash

definition health_bytes ::
  "hash \<Rightarrow> HealthVerdict \<Rightarrow> u64 \<Rightarrow> nat \<Rightarrow> bytes" where
  "health_bytes prev verdict epoch coherent_count =
     hash_bytes prev @ [HealthVerdict_as_u8 verdict] @ be8 epoch @ be4 (of_nat coherent_count :: u32)"

definition compute_health_hash ::
  "sha \<Rightarrow> hash \<Rightarrow> HealthVerdict \<Rightarrow> u64 \<Rightarrow> nat \<Rightarrow>
      hash" where
  "compute_health_hash sha prev verdict epoch coherent_count =
     sha (health_bytes prev verdict epoch coherent_count)"

definition assess_health ::
  "sha \<Rightarrow> HealthSnapshot \<Rightarrow> hash \<Rightarrow> SwarmHealthReport" where
  "assess_health sha snap prev_hash =
     (let (verdict, reason) = if (hs_drift_class_int snap) \<ge> 4 then (HealthVerdict.Fail,
         HealthFailReason.D4DriftDetected) else if \<not> (hs_mutation_authority_active snap) then
         (HealthVerdict.Fail, HealthFailReason.MutationAuthoritySuspended) else if \<not>
         (hs_quorum_reached snap) then (HealthVerdict.Fail, HealthFailReason.QuorumNotReached) else if
         (hs_entropy_balance snap) < ADAPTIVE_EVENT_COST then (HealthVerdict.Fail,
         HealthFailReason.EntropyExhausted) else if \<not> (hs_is_continuously_coherent snap) then
         (HealthVerdict.Fail, HealthFailReason.ContinuityBreach) else if (hs_coherent_node_count snap) <
         (hs_node_count snap) then (HealthVerdict.Warn, HealthFailReason.Nothing) else
         (HealthVerdict.Pass, HealthFailReason.Nothing);
          health_hash = compute_health_hash sha prev_hash verdict (hs_epoch snap)
            (hs_coherent_node_count snap)
      in \<lparr>shr_epoch = hs_epoch snap, shr_verdict = verdict, shr_primary_fail_reason = reason,
          shr_node_count = hs_node_count snap, shr_coherent_node_count = hs_coherent_node_count snap,
          shr_quorum_reached = hs_quorum_reached snap, shr_continuous_quorum = hs_continuous_quorum
          snap, shr_mutation_authority_active = hs_mutation_authority_active snap,
          shr_entropy_balance = hs_entropy_balance snap, shr_drift_class_int = hs_drift_class_int snap,
          shr_health_hash = health_hash, shr_prev_health_hash = prev_hash\<rparr>)"

record HealthHistory =
  hh_reports :: "SwarmHealthReport list"

datatype HealthError = HealthError string

definition HealthHistory_new :: "HealthHistory" where
  "HealthHistory_new =
     \<lparr>hh_reports = []\<rparr>"

definition HealthHistory_last_hash :: "HealthHistory \<Rightarrow> hash" where
  "HealthHistory_last_hash self =
     last_hash shr_health_hash (hh_reports self)"

definition HealthHistory_current_verdict :: "HealthHistory \<Rightarrow> HealthVerdict" where
  "HealthHistory_current_verdict self =
     unwrap_or HealthVerdict.Pass (map_option shr_verdict (last_opt (hh_reports self)))"

definition HealthHistory_fail_count :: "HealthHistory \<Rightarrow> nat" where
  "HealthHistory_fail_count self =
     length (filter (\<lambda>r. (shr_verdict r) = HealthVerdict.Fail) (hh_reports self))"

definition HealthHistory_record ::
  "sha \<Rightarrow> HealthSnapshot \<Rightarrow> HealthHistory \<Rightarrow> (HealthError +
      SwarmHealthReport) \<times> HealthHistory" where
  "HealthHistory_record sha snap self =
     (if hh_reports self \<noteq> [] \<and> (hs_epoch snap) \<le> (shr_epoch (last (hh_reports self)))
         then (Inl (HealthError ''epoch must be strictly greater than last epoch''), self)
      else (let prev_hash = HealthHistory_last_hash self;
          report = assess_health sha snap prev_hash;
          self = self\<lparr>hh_reports := (hh_reports self) @ [report]\<rparr>
      in (Inr (last (hh_reports self)), self)))"

definition SwarmHealthReport_bytes_of :: "SwarmHealthReport \<Rightarrow> bytes" where
  "SwarmHealthReport_bytes_of rep =
     health_bytes (shr_prev_health_hash rep) (shr_verdict rep) (shr_epoch rep) (shr_coherent_node_count
         rep)"

definition HealthHistory_verify_chain ::
  "sha \<Rightarrow> HealthHistory \<Rightarrow> bool \<times> nat option" where
  "HealthHistory_verify_chain sha self =
     verify_from shr_prev_health_hash shr_health_hash (\<lambda>r. sha (SwarmHealthReport_bytes_of r)) 0
         genesis (hh_reports self)"

lemma health_bytes_inj:
  "health_bytes prev verdict epoch coherent_count = health_bytes prev' verdict' epoch' coherent_count'
      \<longleftrightarrow>
   prev = prev' \<and> verdict = verdict' \<and> epoch = epoch' \<and> (of_nat coherent_count :: u32) =
       (of_nat coherent_count' :: u32)"
  by (auto simp: health_bytes_def enc_simps)

definition SwarmHealthReport_committed :: "SwarmHealthReport \<Rightarrow> HealthVerdict \<times> u64
    \<times> u32" where
  "SwarmHealthReport_committed rep =
     (shr_verdict rep, shr_epoch rep, of_nat (shr_coherent_node_count rep) :: u32)"

interpretation swarm_health: hash_log SwarmHealthReport_bytes_of shr_prev_health_hash shr_health_hash
    SwarmHealthReport_committed
  by unfold_locales (auto simp: SwarmHealthReport_bytes_of_def SwarmHealthReport_committed_def
      health_bytes_inj)

lemma swarm_health_verify_iff: "HealthHistory_verify_chain sha l = (True,
    None) \<longleftrightarrow> swarm_health.ok sha (hh_reports l)"
  by (simp add: HealthHistory_verify_chain_def verify_from_iff)

lemma assess_health_linked:
  "shr_prev_health_hash (assess_health sha snap prev_hash) = prev_hash"
  "shr_health_hash (assess_health sha snap prev_hash) = sha (SwarmHealthReport_bytes_of (assess_health
      sha snap prev_hash))"
  by (simp_all add: assess_health_def compute_health_hash_def SwarmHealthReport_bytes_of_def Let_def
      split_def)

lemma health_history_record_ok: "swarm_health.ok sha (hh_reports l) \<Longrightarrow> swarm_health.ok
    sha (hh_reports (snd (HealthHistory_record sha snap l)))"
  by (simp add: Let_def split_def HealthHistory_record_def HealthHistory_last_hash_def
      assess_health_linked split: option.split sum.split)

section \<open>Gate 238: Divergence Oracle - Deterministic constitutional divergence analysis\<close>

text \<open>
  \<open>divergence_oracle.rs\<close>. Compares two SwarmHealthReports (before/after) and produces a
  DivergenceOracle record describing the constitutional delta. Designed for audit surfaces and
  rollback decision logic.
\<close>

datatype DivergenceClass = Stable | Nominal | Elevated | Critical | Terminal

fun DivergenceClass_as_u8 :: "DivergenceClass \<Rightarrow> u8" where
  "DivergenceClass_as_u8 DivergenceClass.Stable = 0"
| "DivergenceClass_as_u8 DivergenceClass.Nominal = 1"
| "DivergenceClass_as_u8 DivergenceClass.Elevated = 2"
| "DivergenceClass_as_u8 DivergenceClass.Critical = 3"
| "DivergenceClass_as_u8 DivergenceClass.Terminal = 4"

lemma DivergenceClass_as_u8_inj [simp]: "DivergenceClass_as_u8 x = DivergenceClass_as_u8 y
    \<longleftrightarrow> x = y"
  by (cases x; cases y) auto

instantiation DivergenceClass :: linorder
begin

definition less_eq_DivergenceClass where
  "a \<le> b \<longleftrightarrow> DivergenceClass_as_u8 a \<le> DivergenceClass_as_u8 b"

definition less_DivergenceClass where
  "a < b \<longleftrightarrow> DivergenceClass_as_u8 a < DivergenceClass_as_u8 b"

instance
  by standard (auto simp: less_eq_DivergenceClass_def less_DivergenceClass_def less_le)

end

definition DivergenceClass_adaptive_permitted :: "DivergenceClass \<Rightarrow> bool" where
  "DivergenceClass_adaptive_permitted self \<longleftrightarrow>
     DivergenceClass_as_u8 self < DivergenceClass_as_u8 DivergenceClass.Critical"

definition DivergenceClass_rollback_recommended :: "DivergenceClass \<Rightarrow> bool" where
  "DivergenceClass_rollback_recommended self \<longleftrightarrow>
     DivergenceClass_as_u8 self \<ge> DivergenceClass_as_u8 DivergenceClass.Elevated"

record DivergenceOracle =
  do2_epoch :: u64
  do2_divergence_class :: DivergenceClass
  do2_verdict_before :: HealthVerdict
  do2_verdict_after :: HealthVerdict
  do2_entropy_delta :: i64
  do2_coherent_delta :: i64
  do2_primary_reason :: HealthFailReason
  do2_adaptive_permitted :: bool
  do2_rollback_recommended :: bool
  do2_oracle_hash :: hash
  do2_prev_oracle_hash :: hash

definition oracle_bytes ::
  "hash \<Rightarrow> DivergenceClass \<Rightarrow> u64 \<Rightarrow> HealthVerdict \<Rightarrow>
      HealthVerdict \<Rightarrow> bytes" where
  "oracle_bytes prev class_v epoch verdict_before verdict_after =
     hash_bytes prev @ [DivergenceClass_as_u8 class_v] @ be8 epoch @
         [HealthVerdict_as_u8 verdict_before] @ [HealthVerdict_as_u8 verdict_after]"

definition compute_oracle_hash ::
  "sha \<Rightarrow> hash \<Rightarrow> DivergenceClass \<Rightarrow> u64 \<Rightarrow> HealthVerdict
      \<Rightarrow> HealthVerdict \<Rightarrow> hash" where
  "compute_oracle_hash sha prev class_v epoch verdict_before verdict_after =
     sha (oracle_bytes prev class_v epoch verdict_before verdict_after)"

definition compute_oracle ::
  "sha \<Rightarrow> SwarmHealthReport \<Rightarrow> SwarmHealthReport \<Rightarrow> hash \<Rightarrow>
      DivergenceOracle" where
  "compute_oracle sha before after prev_oracle_hash =
     (let verdict_before = shr_verdict before;
          verdict_after = shr_verdict after;
          entropy_delta = (shr_entropy_balance after) - (shr_entropy_balance before);
          coherent_delta = (of_nat (shr_coherent_node_count after) :: i64) - (of_nat
            (shr_coherent_node_count before) :: i64);
          divergence_class = (if (shr_drift_class_int after) \<ge> 4 then DivergenceClass.Terminal else
            if verdict_after = HealthVerdict.Fail \<and> (shr_verdict before) \<noteq>
            HealthVerdict.Fail then DivergenceClass.Critical else if verdict_after = HealthVerdict.Warn
            \<and> verdict_before = HealthVerdict.Pass then DivergenceClass.Elevated else if
            verdict_after = verdict_before \<and> (entropy_delta <s 0 \<or> coherent_delta <s 0) then
            DivergenceClass.Nominal else DivergenceClass.Stable);
          oracle_hash = compute_oracle_hash sha prev_oracle_hash divergence_class (shr_epoch after)
            verdict_before verdict_after
      in \<lparr>do2_epoch = shr_epoch after, do2_divergence_class = divergence_class,
          do2_verdict_before = verdict_before, do2_verdict_after = verdict_after,
          do2_entropy_delta = entropy_delta, do2_coherent_delta = coherent_delta,
          do2_primary_reason = shr_primary_fail_reason after, do2_adaptive_permitted =
          DivergenceClass_adaptive_permitted divergence_class, do2_rollback_recommended =
          DivergenceClass_rollback_recommended divergence_class, do2_oracle_hash = oracle_hash,
          do2_prev_oracle_hash = prev_oracle_hash\<rparr>)"

datatype OracleError = OracleError string

record OracleHistory =
  oh_oracles :: "DivergenceOracle list"

definition OracleHistory_new :: "OracleHistory" where
  "OracleHistory_new =
     \<lparr>oh_oracles = []\<rparr>"

definition OracleHistory_last_hash :: "OracleHistory \<Rightarrow> hash" where
  "OracleHistory_last_hash self =
     last_hash do2_oracle_hash (oh_oracles self)"

definition OracleHistory_current_class :: "OracleHistory \<Rightarrow> DivergenceClass" where
  "OracleHistory_current_class self =
     unwrap_or DivergenceClass.Stable (map_option do2_divergence_class (last_opt (oh_oracles self)))"

definition OracleHistory_worst_class :: "OracleHistory \<Rightarrow> DivergenceClass option" where
  "OracleHistory_worst_class self =
     list_max (map do2_divergence_class (oh_oracles self))"

definition OracleHistory_record ::
  "sha \<Rightarrow> SwarmHealthReport \<Rightarrow> SwarmHealthReport \<Rightarrow> OracleHistory
      \<Rightarrow> (OracleError + DivergenceOracle) \<times> OracleHistory" where
  "OracleHistory_record sha before after self =
     (if oh_oracles self \<noteq> [] \<and> (shr_epoch after) \<le> (do2_epoch (last (oh_oracles self)))
         then (Inl (OracleError ''epoch must be strictly greater than last oracle epoch''), self)
      else (let prev_hash = OracleHistory_last_hash self;
          oracle = compute_oracle sha before after prev_hash;
          self = self\<lparr>oh_oracles := (oh_oracles self) @ [oracle]\<rparr>
      in (Inr (last (oh_oracles self)), self)))"

definition DivergenceOracle_bytes_of :: "DivergenceOracle \<Rightarrow> bytes" where
  "DivergenceOracle_bytes_of oracle =
     oracle_bytes (do2_prev_oracle_hash oracle) (do2_divergence_class oracle) (do2_epoch oracle)
         (do2_verdict_before oracle) (do2_verdict_after oracle)"

definition OracleHistory_verify_chain ::
  "sha \<Rightarrow> OracleHistory \<Rightarrow> bool \<times> nat option" where
  "OracleHistory_verify_chain sha self =
     verify_from do2_prev_oracle_hash do2_oracle_hash (\<lambda>r. sha (DivergenceOracle_bytes_of r)) 0
         genesis (oh_oracles self)"

lemma oracle_bytes_inj:
  "oracle_bytes prev class_v epoch verdict_before verdict_after = oracle_bytes prev' class_v' epoch'
      verdict_before' verdict_after' \<longleftrightarrow>
   prev = prev' \<and> class_v = class_v' \<and> epoch = epoch' \<and> verdict_before = verdict_before'
       \<and> verdict_after = verdict_after'"
  by (auto simp: oracle_bytes_def enc_simps)

definition DivergenceOracle_committed :: "DivergenceOracle \<Rightarrow> DivergenceClass \<times> u64
    \<times> HealthVerdict \<times> HealthVerdict" where
  "DivergenceOracle_committed oracle =
     (do2_divergence_class oracle, do2_epoch oracle, do2_verdict_before oracle,
         do2_verdict_after oracle)"

interpretation divergence_oracle: hash_log DivergenceOracle_bytes_of do2_prev_oracle_hash
    do2_oracle_hash DivergenceOracle_committed
  by unfold_locales (auto simp: DivergenceOracle_bytes_of_def DivergenceOracle_committed_def
      oracle_bytes_inj)

lemma divergence_oracle_verify_iff: "OracleHistory_verify_chain sha l = (True,
    None) \<longleftrightarrow> divergence_oracle.ok sha (oh_oracles l)"
  by (simp add: OracleHistory_verify_chain_def verify_from_iff)

lemma compute_oracle_linked:
  "do2_prev_oracle_hash (compute_oracle sha before after prev_oracle_hash) = prev_oracle_hash"
  "do2_oracle_hash (compute_oracle sha before after prev_oracle_hash) = sha (DivergenceOracle_bytes_of
      (compute_oracle sha before after prev_oracle_hash))"
  by (simp_all add: compute_oracle_def compute_oracle_hash_def DivergenceOracle_bytes_of_def Let_def
      split_def)

lemma oracle_history_record_ok: "divergence_oracle.ok sha (oh_oracles l) \<Longrightarrow>
    divergence_oracle.ok sha (oh_oracles (snd (OracleHistory_record sha before after l)))"
  by (simp add: Let_def split_def OracleHistory_record_def OracleHistory_last_hash_def
      compute_oracle_linked split: option.split sum.split)

section \<open>Resilience Watchdog: rolling-window constitutional stability tracker (Gate 239)\<close>

text \<open>
  \<open>resilience_watchdog.rs\<close>. Monitors DivergenceOracle history over a configurable rolling
  window to detect:
\<close>

datatype ResilienceVerdict = Recovering | Stable | Oscillating | Degrading | Insufficient

fun ResilienceVerdict_as_u8 :: "ResilienceVerdict \<Rightarrow> u8" where
  "ResilienceVerdict_as_u8 ResilienceVerdict.Recovering = 0"
| "ResilienceVerdict_as_u8 ResilienceVerdict.Stable = 1"
| "ResilienceVerdict_as_u8 ResilienceVerdict.Oscillating = 2"
| "ResilienceVerdict_as_u8 ResilienceVerdict.Degrading = 3"
| "ResilienceVerdict_as_u8 ResilienceVerdict.Insufficient = 4"

lemma ResilienceVerdict_as_u8_inj [simp]: "ResilienceVerdict_as_u8 x = ResilienceVerdict_as_u8 y
    \<longleftrightarrow> x = y"
  by (cases x; cases y) auto

definition ResilienceVerdict_is_healthy :: "ResilienceVerdict \<Rightarrow> bool" where
  "ResilienceVerdict_is_healthy self \<longleftrightarrow>
     self = ResilienceVerdict.Recovering \<or> self = ResilienceVerdict.Stable"

definition ResilienceVerdict_requires_intervention :: "ResilienceVerdict \<Rightarrow> bool" where
  "ResilienceVerdict_requires_intervention self \<longleftrightarrow>
     self = ResilienceVerdict.Oscillating \<or> self = ResilienceVerdict.Degrading"

record WatchdogReport =
  wr_epoch :: u64
  wr_verdict :: ResilienceVerdict
  wr_window_size :: nat
  wr_window_peak_class :: DivergenceClass
  wr_latest_class :: DivergenceClass
  wr_transition_count :: nat
  wr_oscillation_count :: nat
  wr_watchdog_hash :: hash
  wr_prev_watchdog_hash :: hash

definition DEFAULT_WINDOW_SIZE :: nat where
  "DEFAULT_WINDOW_SIZE = 8"

fun scan_transitions :: "DivergenceClass \<Rightarrow> bool option \<Rightarrow> DivergenceClass list
    \<Rightarrow> nat \<times> nat" where
  "scan_transitions prev_class prev_direction [] = (0, 0)"
| "scan_transitions prev_class prev_direction (c # rest) =
     (if c \<noteq> prev_class then
        (let worsening = DivergenceClass_as_u8 c > DivergenceClass_as_u8 prev_class;
             (transitions, oscillations) = scan_transitions c (Some worsening) rest;
             turned = (case prev_direction of Some pd \<Rightarrow> pd \<noteq> worsening | None
               \<Rightarrow> False)
         in (transitions + 1, if turned then oscillations + 1 else oscillations))
      else scan_transitions prev_class prev_direction rest)"

fun never_improves :: "DivergenceClass \<Rightarrow> DivergenceClass list \<Rightarrow> bool" where
  "never_improves p [] \<longleftrightarrow> True"
| "never_improves p (c # rest) \<longleftrightarrow>
     (if DivergenceClass_as_u8 c < DivergenceClass_as_u8 p then False else never_improves c rest)"

definition watchdog_bytes ::
  "hash \<Rightarrow> ResilienceVerdict \<Rightarrow> u64 \<Rightarrow> DivergenceClass \<Rightarrow>
      bytes" where
  "watchdog_bytes prev verdict epoch peak_class =
     hash_bytes prev @ [ResilienceVerdict_as_u8 verdict] @ be8 epoch @
         [DivergenceClass_as_u8 peak_class]"

definition compute_watchdog_hash ::
  "sha \<Rightarrow> hash \<Rightarrow> ResilienceVerdict \<Rightarrow> u64 \<Rightarrow>
      DivergenceClass \<Rightarrow> hash" where
  "compute_watchdog_hash sha prev verdict epoch peak_class =
     sha (watchdog_bytes prev verdict epoch peak_class)"

definition assess_resilience :: "sha \<Rightarrow> DivergenceOracle list \<Rightarrow> nat \<Rightarrow>
    hash \<Rightarrow> WatchdogReport" where
  "assess_resilience sha oracles window_size prev_hash =
     (let epoch = unwrap_or 0 (map_option do2_epoch (last_opt oracles));
          window = drop (length oracles - window_size) oracles;
          classes = map do2_divergence_class window
      in if length window < 2 then
           (let peak = unwrap_or DivergenceClass.Stable (first_opt classes)
            in \<lparr>wr_epoch = epoch, wr_verdict = ResilienceVerdict.Insufficient,
                 wr_window_size = length window, wr_window_peak_class = peak,
                 wr_latest_class = peak, wr_transition_count = 0,
                 wr_oscillation_count = 0,
                 wr_watchdog_hash = compute_watchdog_hash sha prev_hash ResilienceVerdict.Insufficient
                   epoch peak,
                 wr_prev_watchdog_hash = prev_hash\<rparr>)
         else
           (let peak = unwrap_or DivergenceClass.Stable (list_max classes);
                latest = last classes;
                (transition_count, oscillation_count) = scan_transitions (hd classes) None (tl classes);
                verdict =
                  (if oscillation_count \<ge> 2 then ResilienceVerdict.Oscillating
                   else if DivergenceClass_as_u8 latest < DivergenceClass_as_u8 peak then
                     ResilienceVerdict.Recovering
                   else if never_improves (hd classes) (tl classes) \<and> transition_count > 0 then
                     ResilienceVerdict.Degrading
                   else ResilienceVerdict.Stable)
            in \<lparr>wr_epoch = epoch, wr_verdict = verdict,
                 wr_window_size = length window, wr_window_peak_class = peak,
                 wr_latest_class = latest, wr_transition_count = transition_count,
                 wr_oscillation_count = oscillation_count,
                 wr_watchdog_hash = compute_watchdog_hash sha prev_hash verdict epoch peak,
                 wr_prev_watchdog_hash = prev_hash\<rparr>))"

record WatchdogHistory =
  wh_reports :: "WatchdogReport list"
  wh_window_size :: nat

datatype WatchdogError = WatchdogError string

definition WatchdogHistory_new :: "nat \<Rightarrow> WatchdogHistory" where
  "WatchdogHistory_new window_size =
     \<lparr>wh_reports = [], wh_window_size = window_size\<rparr>"

definition WatchdogHistory_new_default :: "WatchdogHistory" where
  "WatchdogHistory_new_default =
     WatchdogHistory_new DEFAULT_WINDOW_SIZE"

definition WatchdogHistory_last_hash :: "WatchdogHistory \<Rightarrow> hash" where
  "WatchdogHistory_last_hash self =
     last_hash wr_watchdog_hash (wh_reports self)"

definition WatchdogHistory_current_verdict :: "WatchdogHistory \<Rightarrow> ResilienceVerdict" where
  "WatchdogHistory_current_verdict self =
     unwrap_or ResilienceVerdict.Insufficient (map_option wr_verdict (last_opt (wh_reports self)))"

definition WatchdogHistory_intervention_count :: "WatchdogHistory \<Rightarrow> nat" where
  "WatchdogHistory_intervention_count self =
     length (filter (\<lambda>r. ResilienceVerdict_requires_intervention (wr_verdict r)) (wh_reports
         self))"

definition WatchdogHistory_record ::
  "sha \<Rightarrow> DivergenceOracle list \<Rightarrow> WatchdogHistory \<Rightarrow> (WatchdogError +
      WatchdogReport) \<times> WatchdogHistory" where
  "WatchdogHistory_record sha oracles self =
     (let new_epoch = unwrap_or 0 (map_option do2_epoch (last_opt oracles))
      in if wh_reports self \<noteq> [] \<and> new_epoch \<le> (wr_epoch (last (wh_reports self))) then
          (Inl (WatchdogError ''epoch must be strictly greater than last recorded epoch''), self)
      else (let prev_hash = WatchdogHistory_last_hash self;
          report = assess_resilience sha oracles (wh_window_size self) prev_hash;
          self = self\<lparr>wh_reports := (wh_reports self) @ [report]\<rparr>
      in (Inr (last (wh_reports self)), self)))"

definition WatchdogReport_bytes_of :: "WatchdogReport \<Rightarrow> bytes" where
  "WatchdogReport_bytes_of rep =
     watchdog_bytes (wr_prev_watchdog_hash rep) (wr_verdict rep) (wr_epoch rep) (wr_window_peak_class
         rep)"

definition WatchdogHistory_verify_chain ::
  "sha \<Rightarrow> WatchdogHistory \<Rightarrow> bool \<times> nat option" where
  "WatchdogHistory_verify_chain sha self =
     verify_from wr_prev_watchdog_hash wr_watchdog_hash (\<lambda>r. sha (WatchdogReport_bytes_of r)) 0
         genesis (wh_reports self)"

lemma watchdog_bytes_inj:
  "watchdog_bytes prev verdict epoch peak_class = watchdog_bytes prev' verdict' epoch' peak_class'
      \<longleftrightarrow>
   prev = prev' \<and> verdict = verdict' \<and> epoch = epoch' \<and> peak_class = peak_class'"
  by (auto simp: watchdog_bytes_def enc_simps)

definition WatchdogReport_committed :: "WatchdogReport \<Rightarrow> ResilienceVerdict \<times> u64
    \<times> DivergenceClass" where
  "WatchdogReport_committed rep =
     (wr_verdict rep, wr_epoch rep, wr_window_peak_class rep)"

interpretation resilience_watchdog: hash_log WatchdogReport_bytes_of wr_prev_watchdog_hash
    wr_watchdog_hash WatchdogReport_committed
  by unfold_locales (auto simp: WatchdogReport_bytes_of_def WatchdogReport_committed_def
      watchdog_bytes_inj)

lemma resilience_watchdog_verify_iff: "WatchdogHistory_verify_chain sha l = (True,
    None) \<longleftrightarrow> resilience_watchdog.ok sha (wh_reports l)"
  by (simp add: WatchdogHistory_verify_chain_def verify_from_iff)

lemma assess_resilience_linked:
  "wr_prev_watchdog_hash (assess_resilience sha oracles window_size prev_hash) = prev_hash"
  "wr_watchdog_hash (assess_resilience sha oracles window_size prev_hash) = sha (WatchdogReport_bytes_of
      (assess_resilience sha oracles window_size prev_hash))"
  by (simp_all add: assess_resilience_def compute_watchdog_hash_def WatchdogReport_bytes_of_def Let_def
      split_def)

lemma watchdog_history_record_ok: "resilience_watchdog.ok sha (wh_reports l) \<Longrightarrow>
    resilience_watchdog.ok sha (wh_reports (snd (WatchdogHistory_record sha oracles l)))"
  by (simp add: Let_def split_def WatchdogHistory_record_def WatchdogHistory_last_hash_def
      assess_resilience_linked split: option.split sum.split)

section \<open>Constitutional Pulse: compact 3-byte epoch health signal (Gate 240)\<close>

text \<open>
  \<open>constitutional_pulse.rs\<close>. Combines HealthVerdict + ResilienceVerdict + DivergenceClass
  into a single [health_byte, resilience_byte, divergence_byte] pulse that can be broadcast cheaply
  over gossip channels.
\<close>

datatype PulseVerdict = Green | Yellow | Red

fun PulseVerdict_as_u8 :: "PulseVerdict \<Rightarrow> u8" where
  "PulseVerdict_as_u8 PulseVerdict.Green = 0"
| "PulseVerdict_as_u8 PulseVerdict.Yellow = 1"
| "PulseVerdict_as_u8 PulseVerdict.Red = 2"

lemma PulseVerdict_as_u8_inj [simp]: "PulseVerdict_as_u8 x = PulseVerdict_as_u8 y \<longleftrightarrow>
    x = y"
  by (cases x; cases y) auto

definition PulseVerdict_is_nominal :: "PulseVerdict \<Rightarrow> bool" where
  "PulseVerdict_is_nominal self \<longleftrightarrow>
     self = PulseVerdict.Green"

definition PulseVerdict_is_alert :: "PulseVerdict \<Rightarrow> bool" where
  "PulseVerdict_is_alert self \<longleftrightarrow>
     self = PulseVerdict.Red"

record ConstitutionalPulse =
  cp2_epoch :: u64
  cp2_health_verdict :: HealthVerdict
  cp2_resilience_verdict :: ResilienceVerdict
  cp2_divergence_class :: DivergenceClass
  cp2_pulse_verdict :: PulseVerdict
  cp2_pulse_bytes :: bytes
  cp2_pulse_hash :: hash
  cp2_prev_pulse_hash :: hash

definition derive_verdict ::
  "HealthVerdict \<Rightarrow> ResilienceVerdict \<Rightarrow> DivergenceClass \<Rightarrow>
      PulseVerdict" where
  "derive_verdict h r d =
     (if h = HealthVerdict.Fail \<or> ResilienceVerdict_requires_intervention r \<or>
         (DivergenceClass_as_u8 d) \<ge> (DivergenceClass_as_u8 DivergenceClass.Critical) then
         PulseVerdict.Red
      else if h = HealthVerdict.Warn \<or> \<not> (ResilienceVerdict_is_healthy r) \<or>
          (DivergenceClass_as_u8 d) \<ge> (DivergenceClass_as_u8 DivergenceClass.Elevated) then
          PulseVerdict.Yellow
      else PulseVerdict.Green)"

definition constitutional_pulse_pulse_bytes ::
  "hash \<Rightarrow> bytes \<Rightarrow> u64 \<Rightarrow> bytes" where
  "constitutional_pulse_pulse_bytes prev pulse_bytes epoch =
     hash_bytes prev @ pulse_bytes @ be8 epoch"

definition compute_pulse_hash ::
  "sha \<Rightarrow> hash \<Rightarrow> bytes \<Rightarrow> u64 \<Rightarrow> hash" where
  "compute_pulse_hash sha prev pulse_bytes epoch =
     sha (constitutional_pulse_pulse_bytes prev pulse_bytes epoch)"

definition build_pulse ::
  "sha \<Rightarrow> u64 \<Rightarrow> HealthVerdict \<Rightarrow> ResilienceVerdict \<Rightarrow>
      DivergenceClass \<Rightarrow> hash \<Rightarrow> ConstitutionalPulse" where
  "build_pulse sha epoch health resilience divergence prev_hash =
     (let pulse_bytes = [HealthVerdict_as_u8 health, ResilienceVerdict_as_u8 resilience,
         DivergenceClass_as_u8 divergence];
          pulse_verdict = derive_verdict health resilience divergence;
          pulse_hash = compute_pulse_hash sha prev_hash pulse_bytes epoch
      in \<lparr>cp2_epoch = epoch, cp2_health_verdict = health, cp2_resilience_verdict = resilience,
          cp2_divergence_class = divergence, cp2_pulse_verdict = pulse_verdict,
          cp2_pulse_bytes = pulse_bytes, cp2_pulse_hash = pulse_hash,
          cp2_prev_pulse_hash = prev_hash\<rparr>)"

record PulseChain =
  pc_pulses :: "ConstitutionalPulse list"

datatype PulseError = PulseError string

definition PulseChain_new :: "PulseChain" where
  "PulseChain_new =
     \<lparr>pc_pulses = []\<rparr>"

definition PulseChain_last_hash :: "PulseChain \<Rightarrow> hash" where
  "PulseChain_last_hash self =
     last_hash cp2_pulse_hash (pc_pulses self)"

definition PulseChain_current_verdict :: "PulseChain \<Rightarrow> PulseVerdict" where
  "PulseChain_current_verdict self =
     unwrap_or PulseVerdict.Yellow (map_option cp2_pulse_verdict (last_opt (pc_pulses self)))"

definition PulseChain_green_streak :: "PulseChain \<Rightarrow> nat" where
  "PulseChain_green_streak self =
     length (takeWhile (\<lambda>p. (cp2_pulse_verdict p) = PulseVerdict.Green) (rev (pc_pulses self)))"

definition PulseChain_red_count :: "PulseChain \<Rightarrow> nat" where
  "PulseChain_red_count self =
     length (filter (\<lambda>p. (cp2_pulse_verdict p) = PulseVerdict.Red) (pc_pulses self))"

definition PulseChain_push ::
  "sha \<Rightarrow> u64 \<Rightarrow> HealthVerdict \<Rightarrow> ResilienceVerdict \<Rightarrow>
      DivergenceClass \<Rightarrow> PulseChain \<Rightarrow> (PulseError + ConstitutionalPulse) \<times>
      PulseChain" where
  "PulseChain_push sha epoch health resilience divergence self =
     (if pc_pulses self \<noteq> [] \<and> epoch \<le> (cp2_epoch (last (pc_pulses self))) then (Inl
         (PulseError ''epoch must be strictly greater than last epoch''), self)
      else (let prev_hash = PulseChain_last_hash self;
          pulse = build_pulse sha epoch health resilience divergence prev_hash;
          self = self\<lparr>pc_pulses := (pc_pulses self) @ [pulse]\<rparr>
      in (Inr (last (pc_pulses self)), self)))"

definition ConstitutionalPulse_bytes_of :: "ConstitutionalPulse \<Rightarrow> bytes" where
  "ConstitutionalPulse_bytes_of p =
     constitutional_pulse_pulse_bytes (cp2_prev_pulse_hash p) (cp2_pulse_bytes p) (cp2_epoch p)"

definition PulseChain_verify_chain ::
  "sha \<Rightarrow> PulseChain \<Rightarrow> bool \<times> nat option" where
  "PulseChain_verify_chain sha self =
     verify_from cp2_prev_pulse_hash cp2_pulse_hash (\<lambda>r. sha (ConstitutionalPulse_bytes_of r)) 0
         genesis (pc_pulses self)"

lemma constitutional_pulse_pulse_bytes_inj:
  "constitutional_pulse_pulse_bytes prev pulse_bytes epoch = constitutional_pulse_pulse_bytes prev'
      pulse_bytes' epoch' \<longleftrightarrow>
   prev = prev' \<and> pulse_bytes = pulse_bytes' \<and> epoch = epoch'"
  by (auto simp: constitutional_pulse_pulse_bytes_def enc_simps append_eq_append_conv)

definition ConstitutionalPulse_committed :: "ConstitutionalPulse \<Rightarrow> bytes \<times> u64" where
  "ConstitutionalPulse_committed p =
     (cp2_pulse_bytes p, cp2_epoch p)"

interpretation constitutional_pulse: hash_log ConstitutionalPulse_bytes_of cp2_prev_pulse_hash
    cp2_pulse_hash ConstitutionalPulse_committed
  by unfold_locales (auto simp: ConstitutionalPulse_bytes_of_def ConstitutionalPulse_committed_def
      constitutional_pulse_pulse_bytes_inj)

lemma constitutional_pulse_verify_iff: "PulseChain_verify_chain sha l = (True,
    None) \<longleftrightarrow> constitutional_pulse.ok sha (pc_pulses l)"
  by (simp add: PulseChain_verify_chain_def verify_from_iff)

lemma build_pulse_linked:
  "cp2_prev_pulse_hash (build_pulse sha epoch health resilience divergence prev_hash) = prev_hash"
  "cp2_pulse_hash (build_pulse sha epoch health resilience divergence prev_hash) = sha
      (ConstitutionalPulse_bytes_of (build_pulse sha epoch health resilience divergence prev_hash))"
  by (simp_all add: build_pulse_def compute_pulse_hash_def ConstitutionalPulse_bytes_of_def Let_def
      split_def)

lemma pulse_chain_push_ok: "constitutional_pulse.ok sha (pc_pulses l) \<Longrightarrow>
    constitutional_pulse.ok sha (pc_pulses (snd (PulseChain_push sha epoch health resilience divergence
    l)))"
  by (simp add: Let_def split_def PulseChain_push_def PulseChain_last_hash_def build_pulse_linked split:
      option.split sum.split)

section \<open>Adaptive Threshold Engine: dynamic constitutional alert thresholds (Gate 241)\<close>

text \<open>
  \<open>adaptive_threshold.rs\<close>. Prevents alert fatigue by tracking a rolling baseline for
  entropy balance and coherent_node_count. Thresholds tighten when the system is healthy (reducing
  tolerance for drops) and relax when sustained degraded (preventing false alarms from
  already-degraded state).
\<close>

definition PHI_NUMERATOR :: u64 where
  "PHI_NUMERATOR = 618034"

definition PHI_DENOMINATOR :: u64 where
  "PHI_DENOMINATOR = 1000000"

definition DEFAULT_WINDOW :: nat where
  "DEFAULT_WINDOW = 10"

record ThresholdProfile =
  tp_entropy_threshold :: u64
  tp_coherence_threshold :: nat
  tp_sample_count :: nat

definition ThresholdProfile_compute :: "HealthSnapshot list \<Rightarrow> ThresholdProfile" where
  "ThresholdProfile_compute window =
     (if window = [] then \<lparr>tp_entropy_threshold = ADAPTIVE_EVENT_COST,
         tp_coherence_threshold = 1, tp_sample_count = 0\<rparr>
      else (let total_entropy = sum_list (map hs_entropy_balance window);
          baseline_entropy = total_entropy div (of_nat (length window) :: u64);
          phi_entropy = (baseline_entropy * PHI_NUMERATOR) div PHI_DENOMINATOR;
          entropy_threshold = max phi_entropy ADAPTIVE_EVENT_COST;
          total_coherent = sum_list (map hs_coherent_node_count window);
          total_nodes = sum_list (map hs_node_count window);
          latest_nodes = unwrap_or 1 (map_option hs_node_count (last_opt window));
          coherence_threshold = (if total_nodes = 0 then 1 else (let frac_num = usize_mul total_coherent
            (unat PHI_NUMERATOR); frac_den = usize_mul total_nodes (unat PHI_DENOMINATOR);
            threshold = max (frac_num div frac_den) 1 in max (min threshold latest_nodes) 1))
      in \<lparr>tp_entropy_threshold = entropy_threshold, tp_coherence_threshold = coherence_threshold,
          tp_sample_count = length window\<rparr>))"

datatype EvaluationResult = Clear | EntropyAlert | CoherenceAlert | BothAlert

fun EvaluationResult_as_u8 :: "EvaluationResult \<Rightarrow> u8" where
  "EvaluationResult_as_u8 EvaluationResult.Clear = 0"
| "EvaluationResult_as_u8 EvaluationResult.EntropyAlert = 1"
| "EvaluationResult_as_u8 EvaluationResult.CoherenceAlert = 2"
| "EvaluationResult_as_u8 EvaluationResult.BothAlert = 3"

lemma EvaluationResult_as_u8_inj [simp]: "EvaluationResult_as_u8 x = EvaluationResult_as_u8 y
    \<longleftrightarrow> x = y"
  by (cases x; cases y) auto

definition EvaluationResult_is_clear :: "EvaluationResult \<Rightarrow> bool" where
  "EvaluationResult_is_clear self \<longleftrightarrow>
     self = EvaluationResult.Clear"

definition EvaluationResult_has_entropy_alert :: "EvaluationResult \<Rightarrow> bool" where
  "EvaluationResult_has_entropy_alert self \<longleftrightarrow>
     self = EvaluationResult.EntropyAlert \<or> self = EvaluationResult.BothAlert"

definition EvaluationResult_has_coherence_alert :: "EvaluationResult \<Rightarrow> bool" where
  "EvaluationResult_has_coherence_alert self \<longleftrightarrow>
     self = EvaluationResult.CoherenceAlert \<or> self = EvaluationResult.BothAlert"

record ThresholdEvaluation =
  te_epoch :: u64
  te_profile :: ThresholdProfile
  te_result :: EvaluationResult
  te_entropy_balance :: u64
  te_coherent_count :: nat
  te_evaluation_hash :: hash
  te_prev_hash :: hash

definition eval_bytes ::
  "hash \<Rightarrow> EvaluationResult \<Rightarrow> u64 \<Rightarrow> u64 \<Rightarrow> bytes" where
  "eval_bytes prev result epoch entropy_threshold =
     hash_bytes prev @ [EvaluationResult_as_u8 result] @ be8 epoch @ be8 entropy_threshold"

definition compute_eval_hash ::
  "sha \<Rightarrow> hash \<Rightarrow> EvaluationResult \<Rightarrow> u64 \<Rightarrow> u64
      \<Rightarrow> hash" where
  "compute_eval_hash sha prev result epoch entropy_threshold =
     sha (eval_bytes prev result epoch entropy_threshold)"

definition evaluate_snapshot ::
  "sha \<Rightarrow> HealthSnapshot \<Rightarrow> ThresholdProfile \<Rightarrow> hash \<Rightarrow>
      ThresholdEvaluation" where
  "evaluate_snapshot sha snap profile prev_hash =
     (let entropy_below = (hs_entropy_balance snap) < (tp_entropy_threshold profile);
          coherence_below = (hs_coherent_node_count snap) < (tp_coherence_threshold profile);
          result = (case (entropy_below, coherence_below) of (False,
            False) \<Rightarrow> EvaluationResult.Clear | (True,
            False) \<Rightarrow> EvaluationResult.EntropyAlert | (False,
            True) \<Rightarrow> EvaluationResult.CoherenceAlert | (True,
            True) \<Rightarrow> EvaluationResult.BothAlert);
          evaluation_hash = compute_eval_hash sha prev_hash result (hs_epoch snap) (tp_entropy_threshold
            profile)
      in \<lparr>te_epoch = hs_epoch snap, te_profile = profile, te_result = result,
          te_entropy_balance = hs_entropy_balance snap, te_coherent_count = hs_coherent_node_count snap,
          te_evaluation_hash = evaluation_hash, te_prev_hash = prev_hash\<rparr>)"

record EvaluationHistory =
  eh_evaluations :: "ThresholdEvaluation list"
  eh_window_size :: nat

datatype ThresholdError = ThresholdError string

definition EvaluationHistory_new :: "nat \<Rightarrow> EvaluationHistory" where
  "EvaluationHistory_new window_size =
     \<lparr>eh_evaluations = [], eh_window_size = window_size\<rparr>"

definition EvaluationHistory_new_default :: "EvaluationHistory" where
  "EvaluationHistory_new_default =
     EvaluationHistory_new DEFAULT_WINDOW"

definition EvaluationHistory_last_hash :: "EvaluationHistory \<Rightarrow> hash" where
  "EvaluationHistory_last_hash self =
     last_hash te_evaluation_hash (eh_evaluations self)"

definition EvaluationHistory_alert_count :: "EvaluationHistory \<Rightarrow> nat" where
  "EvaluationHistory_alert_count self =
     length (filter (\<lambda>e. \<not> (EvaluationResult_is_clear (te_result e))) (eh_evaluations
         self))"

definition EvaluationHistory_record ::
  "sha \<Rightarrow> HealthSnapshot \<Rightarrow> HealthSnapshot list \<Rightarrow> EvaluationHistory
      \<Rightarrow> (ThresholdError + ThresholdEvaluation) \<times> EvaluationHistory" where
  "EvaluationHistory_record sha snap history self =
     (if eh_evaluations self \<noteq> [] \<and> (hs_epoch snap) \<le> (te_epoch (last (eh_evaluations
         self))) then (Inl (ThresholdError ''epoch must be strictly greater''), self)
      else (let window_start = (length history) - (eh_window_size self);
          window = drop window_start history;
          profile = ThresholdProfile_compute window;
          prev_hash = EvaluationHistory_last_hash self;
          eval = evaluate_snapshot sha snap profile prev_hash;
          self = self\<lparr>eh_evaluations := (eh_evaluations self) @ [eval]\<rparr>
      in (Inr (last (eh_evaluations self)), self)))"

definition ThresholdEvaluation_bytes_of :: "ThresholdEvaluation \<Rightarrow> bytes" where
  "ThresholdEvaluation_bytes_of eval =
     eval_bytes (te_prev_hash eval) (te_result eval) (te_epoch eval) (tp_entropy_threshold (te_profile
         eval))"

definition EvaluationHistory_verify_chain ::
  "sha \<Rightarrow> EvaluationHistory \<Rightarrow> bool \<times> nat option" where
  "EvaluationHistory_verify_chain sha self =
     verify_from te_prev_hash te_evaluation_hash (\<lambda>r. sha (ThresholdEvaluation_bytes_of r)) 0
         genesis (eh_evaluations self)"

lemma eval_bytes_inj:
  "eval_bytes prev result epoch entropy_threshold = eval_bytes prev' result' epoch' entropy_threshold'
      \<longleftrightarrow>
   prev = prev' \<and> result = result' \<and> epoch = epoch' \<and> entropy_threshold =
       entropy_threshold'"
  by (auto simp: eval_bytes_def enc_simps)

definition ThresholdEvaluation_committed :: "ThresholdEvaluation \<Rightarrow> EvaluationResult \<times>
    u64 \<times> u64" where
  "ThresholdEvaluation_committed eval =
     (te_result eval, te_epoch eval, tp_entropy_threshold (te_profile eval))"

interpretation adaptive_threshold: hash_log ThresholdEvaluation_bytes_of te_prev_hash te_evaluation_hash
    ThresholdEvaluation_committed
  by unfold_locales (auto simp: ThresholdEvaluation_bytes_of_def ThresholdEvaluation_committed_def
      eval_bytes_inj)

lemma adaptive_threshold_verify_iff: "EvaluationHistory_verify_chain sha l = (True,
    None) \<longleftrightarrow> adaptive_threshold.ok sha (eh_evaluations l)"
  by (simp add: EvaluationHistory_verify_chain_def verify_from_iff)

lemma evaluate_snapshot_linked:
  "te_prev_hash (evaluate_snapshot sha snap profile prev_hash) = prev_hash"
  "te_evaluation_hash (evaluate_snapshot sha snap profile prev_hash) = sha (ThresholdEvaluation_bytes_of
      (evaluate_snapshot sha snap profile prev_hash))"
  by (simp_all add: evaluate_snapshot_def compute_eval_hash_def ThresholdEvaluation_bytes_of_def Let_def
      split_def)

lemma evaluation_history_record_ok: "adaptive_threshold.ok sha (eh_evaluations l) \<Longrightarrow>
    adaptive_threshold.ok sha (eh_evaluations (snd (EvaluationHistory_record sha snap history l)))"
  by (simp add: Let_def split_def EvaluationHistory_record_def EvaluationHistory_last_hash_def
      evaluate_snapshot_linked split: option.split sum.split)

section \<open>Quorum Drift Detector: quorum transition tracking across epochs (Gate 242)\<close>

text \<open>
  \<open>quorum_drift.rs\<close>. Detects quorum loss events and recovery trajectories from
  HealthReport sequences. Tracks transitions between quorum_reached=true and quorum_reached=false.
\<close>

datatype QuorumEventKind = QuorumLost | QuorumRestored

fun QuorumEventKind_as_u8 :: "QuorumEventKind \<Rightarrow> u8" where
  "QuorumEventKind_as_u8 QuorumEventKind.QuorumLost = 0"
| "QuorumEventKind_as_u8 QuorumEventKind.QuorumRestored = 1"

lemma QuorumEventKind_as_u8_inj [simp]: "QuorumEventKind_as_u8 x = QuorumEventKind_as_u8 y
    \<longleftrightarrow> x = y"
  by (cases x; cases y) auto

record QuorumEvent =
  qe2_epoch :: u64
  qe2_kind :: QuorumEventKind
  qe2_health_verdict :: HealthVerdict

record QuorumDriftSummary =
  qds_epoch :: u64
  qds_loss_count :: nat
  qds_restoration_count :: nat
  qds_longest_absence :: nat
  qds_current_absence_run :: nat
  qds_is_currently_quorate :: bool
  qds_events :: "QuorumEvent list"
  qds_drift_hash :: hash
  qds_prev_drift_hash :: hash

record DriftScan =
  ds_events :: "QuorumEvent list"
  ds_loss_count :: nat
  ds_restoration_count :: nat
  ds_longest_absence :: nat
  ds_current_absence :: nat
  ds_prev_quorate :: bool

definition drift_scan :: "SwarmHealthReport \<Rightarrow> DriftScan \<Rightarrow> DriftScan" where
  "drift_scan rep s =
     (let q = shr_quorum_reached rep
      in if q \<noteq> ds_prev_quorate s then
           (if \<not> q then
              s\<lparr>ds_events := ds_events s @ [\<lparr>qe2_epoch = shr_epoch rep,
                    qe2_kind = QuorumEventKind.QuorumLost, qe2_health_verdict = shr_verdict
                      rep\<rparr>],
                ds_loss_count := ds_loss_count s + 1, ds_current_absence := 1,
                  ds_prev_quorate := q\<rparr>
            else
              s\<lparr>ds_events := ds_events s @ [\<lparr>qe2_epoch = shr_epoch rep,
                    qe2_kind = QuorumEventKind.QuorumRestored, qe2_health_verdict = shr_verdict
                      rep\<rparr>],
                ds_restoration_count := ds_restoration_count s + 1,
                ds_longest_absence := max (ds_longest_absence s) (ds_current_absence s),
                ds_current_absence := 0, ds_prev_quorate := q\<rparr>)
         else if \<not> q then s\<lparr>ds_current_absence := ds_current_absence s + 1\<rparr>
         else s)"

definition drift_bytes ::
  "hash \<Rightarrow> nat \<Rightarrow> nat \<Rightarrow> u64 \<Rightarrow> bytes" where
  "drift_bytes prev loss_count longest_absence epoch =
     hash_bytes prev @ be4 (of_nat loss_count :: u32) @ be4 (of_nat longest_absence :: u32) @ be8 epoch"

definition compute_drift_hash ::
  "sha \<Rightarrow> hash \<Rightarrow> nat \<Rightarrow> nat \<Rightarrow> u64 \<Rightarrow> hash"
      where
  "compute_drift_hash sha prev loss_count longest_absence epoch =
     sha (drift_bytes prev loss_count longest_absence epoch)"

definition analyze_quorum_drift :: "sha \<Rightarrow> SwarmHealthReport list \<Rightarrow> hash
    \<Rightarrow> QuorumDriftSummary" where
  "analyze_quorum_drift sha reports prev_hash =
     (let epoch = unwrap_or 0 (map_option shr_epoch (last_opt reports))
      in if reports = [] then
           \<lparr>qds_epoch = epoch, qds_loss_count = 0,
             qds_restoration_count = 0, qds_longest_absence = 0,
             qds_current_absence_run = 0, qds_is_currently_quorate = True,
             qds_events = [], qds_drift_hash = compute_drift_hash sha prev_hash 0 0 epoch,
             qds_prev_drift_hash = prev_hash\<rparr>
         else
           (let prev_quorate = shr_quorum_reached (hd reports);
                s = fold drift_scan (tl reports) \<lparr>ds_events = [], ds_loss_count = 0,
                  ds_restoration_count = 0,
                  ds_longest_absence = 0, ds_current_absence = (if \<not> prev_quorate then 1 else 0),
                  ds_prev_quorate = prev_quorate\<rparr>;
                is_currently_quorate = shr_quorum_reached (last reports);
                longest_absence = (if \<not> is_currently_quorate then max (ds_longest_absence s)
                  (ds_current_absence s)
                  else ds_longest_absence s);
                current_absence = (if \<not> is_currently_quorate then ds_current_absence s else 0)
            in \<lparr>qds_epoch = epoch, qds_loss_count = ds_loss_count s,
                 qds_restoration_count = ds_restoration_count s,
                 qds_longest_absence = longest_absence,
                 qds_current_absence_run = current_absence,
                 qds_is_currently_quorate = is_currently_quorate, qds_events = ds_events s,
                 qds_drift_hash = compute_drift_hash sha prev_hash (ds_loss_count s) longest_absence
                   epoch,
                 qds_prev_drift_hash = prev_hash\<rparr>))"

record DriftHistory =
  dh_summaries :: "QuorumDriftSummary list"

datatype DriftError = DriftError string

definition DriftHistory_new :: "DriftHistory" where
  "DriftHistory_new =
     \<lparr>dh_summaries = []\<rparr>"

definition DriftHistory_last_hash :: "DriftHistory \<Rightarrow> hash" where
  "DriftHistory_last_hash self =
     last_hash qds_drift_hash (dh_summaries self)"

definition DriftHistory_total_loss_count :: "DriftHistory \<Rightarrow> nat" where
  "DriftHistory_total_loss_count self =
     unwrap_or 0 (map_option qds_loss_count (last_opt (dh_summaries self)))"

definition DriftHistory_record ::
  "sha \<Rightarrow> SwarmHealthReport list \<Rightarrow> DriftHistory \<Rightarrow> (DriftError +
      QuorumDriftSummary) \<times> DriftHistory" where
  "DriftHistory_record sha reports self =
     (let new_epoch = unwrap_or 0 (map_option shr_epoch (last_opt reports))
      in if dh_summaries self \<noteq> [] \<and> new_epoch \<le> (qds_epoch (last (dh_summaries self)))
          then (Inl (DriftError ''epoch must be strictly greater''), self)
      else (let prev_hash = DriftHistory_last_hash self;
          summary = analyze_quorum_drift sha reports prev_hash;
          self = self\<lparr>dh_summaries := (dh_summaries self) @ [summary]\<rparr>
      in (Inr (last (dh_summaries self)), self)))"

definition QuorumDriftSummary_bytes_of :: "QuorumDriftSummary \<Rightarrow> bytes" where
  "QuorumDriftSummary_bytes_of s =
     drift_bytes (qds_prev_drift_hash s) (qds_loss_count s) (qds_longest_absence s) (qds_epoch s)"

definition DriftHistory_verify_chain ::
  "sha \<Rightarrow> DriftHistory \<Rightarrow> bool \<times> nat option" where
  "DriftHistory_verify_chain sha self =
     verify_from qds_prev_drift_hash qds_drift_hash (\<lambda>r. sha (QuorumDriftSummary_bytes_of r)) 0
         genesis (dh_summaries self)"

lemma drift_bytes_inj:
  "drift_bytes prev loss_count longest_absence epoch = drift_bytes prev' loss_count' longest_absence'
      epoch' \<longleftrightarrow>
   prev = prev' \<and> (of_nat loss_count :: u32) = (of_nat loss_count' :: u32) \<and> (of_nat
       longest_absence :: u32) = (of_nat longest_absence' :: u32) \<and> epoch = epoch'"
  by (auto simp: drift_bytes_def enc_simps)

definition QuorumDriftSummary_committed :: "QuorumDriftSummary \<Rightarrow> u32 \<times> u32 \<times>
    u64" where
  "QuorumDriftSummary_committed s =
     (of_nat (qds_loss_count s) :: u32, of_nat (qds_longest_absence s) :: u32, qds_epoch s)"

interpretation quorum_drift: hash_log QuorumDriftSummary_bytes_of qds_prev_drift_hash qds_drift_hash
    QuorumDriftSummary_committed
  by unfold_locales (auto simp: QuorumDriftSummary_bytes_of_def QuorumDriftSummary_committed_def
      drift_bytes_inj)

lemma quorum_drift_verify_iff: "DriftHistory_verify_chain sha l = (True,
    None) \<longleftrightarrow> quorum_drift.ok sha (dh_summaries l)"
  by (simp add: DriftHistory_verify_chain_def verify_from_iff)

lemma analyze_quorum_drift_linked:
  "qds_prev_drift_hash (analyze_quorum_drift sha reports prev_hash) = prev_hash"
  "qds_drift_hash (analyze_quorum_drift sha reports prev_hash) = sha (QuorumDriftSummary_bytes_of
      (analyze_quorum_drift sha reports prev_hash))"
  by (simp_all add: analyze_quorum_drift_def compute_drift_hash_def QuorumDriftSummary_bytes_of_def
      Let_def split_def)

lemma drift_history_record_ok: "quorum_drift.ok sha (dh_summaries l) \<Longrightarrow> quorum_drift.ok
    sha (dh_summaries (snd (DriftHistory_record sha reports l)))"
  by (simp add: Let_def split_def DriftHistory_record_def DriftHistory_last_hash_def
      analyze_quorum_drift_linked split: option.split sum.split)

section \<open>Entropy Forecast Engine: predicts future entropy balance (Gate 243)\<close>

text \<open>
  \<open>entropy_forecast.rs\<close>. Computes an integer drain rate from a window of EntryBalance
  observations and forecasts how many epochs remain before entropy drops below ADAPTIVE_EVENT_COST.
\<close>

datatype ExhaustionRisk = Immediate | Imminent | Moderate | Low | Nothing

fun ExhaustionRisk_as_u8 :: "ExhaustionRisk \<Rightarrow> u8" where
  "ExhaustionRisk_as_u8 ExhaustionRisk.Immediate = 0"
| "ExhaustionRisk_as_u8 ExhaustionRisk.Imminent = 1"
| "ExhaustionRisk_as_u8 ExhaustionRisk.Moderate = 2"
| "ExhaustionRisk_as_u8 ExhaustionRisk.Low = 3"
| "ExhaustionRisk_as_u8 ExhaustionRisk.Nothing = 4"

lemma ExhaustionRisk_as_u8_inj [simp]: "ExhaustionRisk_as_u8 x = ExhaustionRisk_as_u8 y
    \<longleftrightarrow> x = y"
  by (cases x; cases y) auto

definition ExhaustionRisk_is_actionable :: "ExhaustionRisk \<Rightarrow> bool" where
  "ExhaustionRisk_is_actionable self \<longleftrightarrow>
     self = ExhaustionRisk.Immediate \<or> self = ExhaustionRisk.Imminent"

definition ExhaustionRisk_from_epochs :: "u64 option \<Rightarrow> ExhaustionRisk" where
  "ExhaustionRisk_from_epochs epochs =
     (case epochs of
        None \<Rightarrow> ExhaustionRisk.Nothing
      | Some n \<Rightarrow>
          if n \<le> 1 then ExhaustionRisk.Immediate
          else if n \<le> 10 then ExhaustionRisk.Imminent
          else if n \<le> 50 then ExhaustionRisk.Moderate
          else if n \<le> 200 then ExhaustionRisk.Low
          else ExhaustionRisk.Nothing)"

record ForecastReport =
  fr2_epoch :: u64
  fr2_current_balance :: u64
  fr2_drain_per_epoch :: u64
  fr2_epochs_until_exhaustion :: "u64 option"
  fr2_exhaustion_risk :: ExhaustionRisk
  fr2_sample_count :: nat
  fr2_forecast_hash :: hash
  fr2_prev_forecast_hash :: hash

definition forecast_bytes ::
  "hash \<Rightarrow> ExhaustionRisk \<Rightarrow> u64 \<Rightarrow> u64 \<Rightarrow> bytes" where
  "forecast_bytes prev risk drain_per_epoch epoch =
     hash_bytes prev @ [ExhaustionRisk_as_u8 risk] @ be8 drain_per_epoch @ be8 epoch"

definition compute_forecast_hash ::
  "sha \<Rightarrow> hash \<Rightarrow> ExhaustionRisk \<Rightarrow> u64 \<Rightarrow> u64 \<Rightarrow>
      hash" where
  "compute_forecast_hash sha prev risk drain_per_epoch epoch =
     sha (forecast_bytes prev risk drain_per_epoch epoch)"

definition compute_forecast ::
  "sha \<Rightarrow> ((u64 \<times> u64) list) \<Rightarrow> u64 \<Rightarrow> u64 \<Rightarrow> hash
      \<Rightarrow> ForecastReport" where
  "compute_forecast sha balances current_epoch current_balance prev_hash =
     (let sample_count = length balances;
          drain_per_epoch = (if (length balances) < 2 then 0 else (let start_balance = snd (balances !
            0); end_balance = snd (balances ! ((length balances) - 1));
            observed_drain = sat_sub start_balance end_balance;
            epochs_elapsed = max (sat_sub (of_nat (length balances) :: u64) 1) 1 in observed_drain div
            epochs_elapsed));
          epochs_until_exhaustion = (if current_balance < ADAPTIVE_EVENT_COST then Some 0 else if
            drain_per_epoch = 0 then None else (let headroom = sat_sub current_balance
            ADAPTIVE_EVENT_COST in Some (headroom div drain_per_epoch)));
          exhaustion_risk = (if current_balance < ADAPTIVE_EVENT_COST then ExhaustionRisk.Immediate else
            ExhaustionRisk_from_epochs epochs_until_exhaustion);
          forecast_hash = compute_forecast_hash sha prev_hash exhaustion_risk drain_per_epoch
            current_epoch
      in \<lparr>fr2_epoch = current_epoch, fr2_current_balance = current_balance,
          fr2_drain_per_epoch = drain_per_epoch, fr2_epochs_until_exhaustion = epochs_until_exhaustion,
          fr2_exhaustion_risk = exhaustion_risk, fr2_sample_count = sample_count,
          fr2_forecast_hash = forecast_hash, fr2_prev_forecast_hash = prev_hash\<rparr>)"

record ForecastHistory =
  fh_reports :: "ForecastReport list"

datatype ForecastError = ForecastError string

definition ForecastHistory_new :: "ForecastHistory" where
  "ForecastHistory_new =
     \<lparr>fh_reports = []\<rparr>"

definition ForecastHistory_last_hash :: "ForecastHistory \<Rightarrow> hash" where
  "ForecastHistory_last_hash self =
     last_hash fr2_forecast_hash (fh_reports self)"

definition ForecastHistory_actionable_count :: "ForecastHistory \<Rightarrow> nat" where
  "ForecastHistory_actionable_count self =
     length (filter (\<lambda>r. ExhaustionRisk_is_actionable (fr2_exhaustion_risk r)) (fh_reports
         self))"

definition ForecastHistory_record ::
  "sha \<Rightarrow> ((u64 \<times> u64) list) \<Rightarrow> u64 \<Rightarrow> u64 \<Rightarrow>
      ForecastHistory \<Rightarrow> (ForecastError + ForecastReport) \<times> ForecastHistory" where
  "ForecastHistory_record sha balances current_epoch current_balance self =
     (if fh_reports self \<noteq> [] \<and> current_epoch \<le> (fr2_epoch (last (fh_reports self)))
         then (Inl (ForecastError ''epoch must be strictly greater''), self)
      else (let prev_hash = ForecastHistory_last_hash self;
          report = compute_forecast sha balances current_epoch current_balance prev_hash;
          self = self\<lparr>fh_reports := (fh_reports self) @ [report]\<rparr>
      in (Inr (last (fh_reports self)), self)))"

definition ForecastReport_bytes_of :: "ForecastReport \<Rightarrow> bytes" where
  "ForecastReport_bytes_of rep =
     forecast_bytes (fr2_prev_forecast_hash rep) (fr2_exhaustion_risk rep) (fr2_drain_per_epoch rep)
         (fr2_epoch rep)"

definition ForecastHistory_verify_chain ::
  "sha \<Rightarrow> ForecastHistory \<Rightarrow> bool \<times> nat option" where
  "ForecastHistory_verify_chain sha self =
     verify_from fr2_prev_forecast_hash fr2_forecast_hash (\<lambda>r. sha (ForecastReport_bytes_of r))
         0 genesis (fh_reports self)"

lemma forecast_bytes_inj:
  "forecast_bytes prev risk drain_per_epoch epoch = forecast_bytes prev' risk' drain_per_epoch' epoch'
      \<longleftrightarrow>
   prev = prev' \<and> risk = risk' \<and> drain_per_epoch = drain_per_epoch' \<and> epoch = epoch'"
  by (auto simp: forecast_bytes_def enc_simps)

definition ForecastReport_committed :: "ForecastReport \<Rightarrow> ExhaustionRisk \<times> u64
    \<times> u64" where
  "ForecastReport_committed rep =
     (fr2_exhaustion_risk rep, fr2_drain_per_epoch rep, fr2_epoch rep)"

interpretation entropy_forecast: hash_log ForecastReport_bytes_of fr2_prev_forecast_hash
    fr2_forecast_hash ForecastReport_committed
  by unfold_locales (auto simp: ForecastReport_bytes_of_def ForecastReport_committed_def
      forecast_bytes_inj)

lemma entropy_forecast_verify_iff: "ForecastHistory_verify_chain sha l = (True,
    None) \<longleftrightarrow> entropy_forecast.ok sha (fh_reports l)"
  by (simp add: ForecastHistory_verify_chain_def verify_from_iff)

lemma compute_forecast_linked:
  "fr2_prev_forecast_hash (compute_forecast sha balances current_epoch current_balance prev_hash) =
      prev_hash"
  "fr2_forecast_hash (compute_forecast sha balances current_epoch current_balance prev_hash) = sha
      (ForecastReport_bytes_of (compute_forecast sha balances current_epoch current_balance prev_hash))"
  by (simp_all add: compute_forecast_def compute_forecast_hash_def ForecastReport_bytes_of_def Let_def
      split_def)

lemma forecast_history_record_ok: "entropy_forecast.ok sha (fh_reports l) \<Longrightarrow>
    entropy_forecast.ok sha (fh_reports (snd (ForecastHistory_record sha balances current_epoch
    current_balance l)))"
  by (simp add: Let_def split_def ForecastHistory_record_def ForecastHistory_last_hash_def
      compute_forecast_linked split: option.split sum.split)

end
