(* ===== verification/System_Health.thy ===== *)
theory System_Health
  imports Swarm_Health
begin

text \<open>
  The system health vector and the logs around it: stability and momentum of the coherence over a
  window, the constitutional phase, the vector that joins all axes, the dashboard frame, the ledger of
  epochs and the alerts.
\<close>

section \<open>Coherence Stability Index: rolling integer stability score (Gate 244)\<close>

text \<open>
  \<open>coherence_stability.rs\<close>. Aggregates lattice coherence signals over a rolling window
  into a single integer stability score in [0, 100].
\<close>

record CoherenceSnapshot =
  cs_epoch :: u64
  cs_global_section :: bool
  cs_satisfied_count :: u8
  cs_coherence_score :: u64

datatype StabilityGrade = F | D | C | B | A

fun StabilityGrade_as_u8 :: "StabilityGrade \<Rightarrow> u8" where
  "StabilityGrade_as_u8 StabilityGrade.F = 0"
| "StabilityGrade_as_u8 StabilityGrade.D = 1"
| "StabilityGrade_as_u8 StabilityGrade.C = 2"
| "StabilityGrade_as_u8 StabilityGrade.B = 3"
| "StabilityGrade_as_u8 StabilityGrade.A = 4"

lemma StabilityGrade_as_u8_inj [simp]: "StabilityGrade_as_u8 x = StabilityGrade_as_u8 y
    \<longleftrightarrow> x = y"
  by (cases x; cases y) auto

definition StabilityGrade_from_score :: "u64 \<Rightarrow> StabilityGrade" where
  "StabilityGrade_from_score score =
     (if 90 \<le> score \<and> score \<le> 100 then StabilityGrade.A else if 70 \<le> score \<and> score
         \<le> 89 then StabilityGrade.B else if 50 \<le> score \<and> score \<le> 69 then
         StabilityGrade.C else if 30 \<le> score \<and> score \<le> 49 then StabilityGrade.D else
         StabilityGrade.F)"

definition StabilityGrade_is_passing :: "StabilityGrade \<Rightarrow> bool" where
  "StabilityGrade_is_passing self \<longleftrightarrow>
     StabilityGrade_as_u8 self \<ge> StabilityGrade_as_u8 StabilityGrade.C"

record StabilityScore =
  ss2_epoch :: u64
  ss2_raw_score :: u64
  ss2_grade :: StabilityGrade
  ss2_global_section_rate :: u64
  ss2_satisfied_rate :: u64
  ss2_score_avg :: u64
  ss2_sample_count :: nat
  ss2_stability_hash :: hash
  ss2_prev_stability_hash :: hash

definition stability_bytes ::
  "hash \<Rightarrow> u64 \<Rightarrow> StabilityGrade \<Rightarrow> u64 \<Rightarrow> bytes" where
  "stability_bytes prev score grade epoch =
     hash_bytes prev @ be8 score @ [StabilityGrade_as_u8 grade] @ be8 epoch"

definition compute_stability_hash ::
  "sha \<Rightarrow> hash \<Rightarrow> u64 \<Rightarrow> StabilityGrade \<Rightarrow> u64 \<Rightarrow>
      hash" where
  "compute_stability_hash sha prev score grade epoch =
     sha (stability_bytes prev score grade epoch)"

definition compute_stability ::
  "sha \<Rightarrow> CoherenceSnapshot list \<Rightarrow> u64 \<Rightarrow> hash \<Rightarrow>
      StabilityScore" where
  "compute_stability sha window epoch prev_hash =
     (let sample_count = length window
      in if sample_count = 0 then (let hash = compute_stability_hash sha prev_hash 0 StabilityGrade.F
          epoch
      in \<lparr>ss2_epoch = epoch, ss2_raw_score = 0, ss2_grade = StabilityGrade.F,
          ss2_global_section_rate = 0, ss2_satisfied_rate = 0, ss2_score_avg = 0, ss2_sample_count = 0,
          ss2_stability_hash = hash, ss2_prev_stability_hash = prev_hash\<rparr>)
      else (let n = (of_nat sample_count :: u64);
          global_section_count = (of_nat (length (filter cs_global_section window)) :: u64);
          global_section_rate = (global_section_count * 100) div n;
          satisfied_sum = sum_list (map (\<lambda>s. (ucast (cs_satisfied_count s) :: u64)) window);
          satisfied_rate = (satisfied_sum * 100) div (n * 5);
          score_sum = sum_list (map (\<lambda>s. min (cs_coherence_score s) 100) window);
          score_avg = score_sum div n;
          raw_score = ((global_section_rate + satisfied_rate) + score_avg) div 3;
          raw_score = min raw_score 100;
          grade = StabilityGrade_from_score raw_score;
          stability_hash = compute_stability_hash sha prev_hash raw_score grade epoch
      in \<lparr>ss2_epoch = epoch, ss2_raw_score = raw_score, ss2_grade = grade,
          ss2_global_section_rate = global_section_rate, ss2_satisfied_rate = satisfied_rate,
          ss2_score_avg = score_avg, ss2_sample_count = sample_count,
          ss2_stability_hash = stability_hash, ss2_prev_stability_hash = prev_hash\<rparr>))"

record StabilityHistory =
  sh2_scores :: "StabilityScore list"
  sh2_window_size :: nat
  sh2_snapshots :: "CoherenceSnapshot list"

datatype StabilityError = StabilityError string

definition StabilityHistory_new :: "nat \<Rightarrow> StabilityHistory" where
  "StabilityHistory_new window_size =
     \<lparr>sh2_scores = [], sh2_window_size = window_size, sh2_snapshots = []\<rparr>"

definition StabilityHistory_new_default :: "StabilityHistory" where
  "StabilityHistory_new_default =
     StabilityHistory_new 10"

definition StabilityHistory_last_hash :: "StabilityHistory \<Rightarrow> hash" where
  "StabilityHistory_last_hash self =
     last_hash ss2_stability_hash (sh2_scores self)"

definition StabilityHistory_current_grade :: "StabilityHistory \<Rightarrow> StabilityGrade" where
  "StabilityHistory_current_grade self =
     unwrap_or StabilityGrade.F (map_option ss2_grade (last_opt (sh2_scores self)))"

definition StabilityHistory_passing_count :: "StabilityHistory \<Rightarrow> nat" where
  "StabilityHistory_passing_count self =
     length (filter (\<lambda>s. StabilityGrade_is_passing (ss2_grade s)) (sh2_scores self))"

definition StabilityHistory_record ::
  "sha \<Rightarrow> CoherenceSnapshot \<Rightarrow> StabilityHistory \<Rightarrow> (StabilityError +
      StabilityScore) \<times> StabilityHistory" where
  "StabilityHistory_record sha snap self =
     (if sh2_scores self \<noteq> [] \<and> (cs_epoch snap) \<le> (ss2_epoch (last (sh2_scores self)))
         then (Inl (StabilityError ''epoch must be strictly greater''), self)
      else (let epoch = cs_epoch snap;
          self = self\<lparr>sh2_snapshots := (sh2_snapshots self) @ [snap]\<rparr>;
          window_start = (length (sh2_snapshots self)) - (sh2_window_size self);
          window = drop window_start (sh2_snapshots self);
          prev_hash = StabilityHistory_last_hash self;
          score = compute_stability sha window epoch prev_hash;
          self = self\<lparr>sh2_scores := (sh2_scores self) @ [score]\<rparr>
      in (Inr (last (sh2_scores self)), self)))"

definition StabilityScore_bytes_of :: "StabilityScore \<Rightarrow> bytes" where
  "StabilityScore_bytes_of s =
     stability_bytes (ss2_prev_stability_hash s) (ss2_raw_score s) (ss2_grade s) (ss2_epoch s)"

definition StabilityHistory_verify_chain ::
  "sha \<Rightarrow> StabilityHistory \<Rightarrow> bool \<times> nat option" where
  "StabilityHistory_verify_chain sha self =
     verify_from ss2_prev_stability_hash ss2_stability_hash (\<lambda>r. sha (StabilityScore_bytes_of
         r)) 0 genesis (sh2_scores self)"

lemma stability_bytes_inj:
  "stability_bytes prev score grade epoch = stability_bytes prev' score' grade' epoch'
      \<longleftrightarrow>
   prev = prev' \<and> score = score' \<and> grade = grade' \<and> epoch = epoch'"
  by (auto simp: stability_bytes_def enc_simps)

definition StabilityScore_committed :: "StabilityScore \<Rightarrow> u64 \<times> StabilityGrade
    \<times> u64" where
  "StabilityScore_committed s =
     (ss2_raw_score s, ss2_grade s, ss2_epoch s)"

interpretation coherence_stability: hash_log StabilityScore_bytes_of ss2_prev_stability_hash
    ss2_stability_hash StabilityScore_committed
  by unfold_locales (auto simp: StabilityScore_bytes_of_def StabilityScore_committed_def
      stability_bytes_inj)

lemma coherence_stability_verify_iff: "StabilityHistory_verify_chain sha l = (True,
    None) \<longleftrightarrow> coherence_stability.ok sha (sh2_scores l)"
  by (simp add: StabilityHistory_verify_chain_def verify_from_iff)

lemma compute_stability_linked:
  "ss2_prev_stability_hash (compute_stability sha window epoch prev_hash) = prev_hash"
  "ss2_stability_hash (compute_stability sha window epoch prev_hash) = sha (StabilityScore_bytes_of
      (compute_stability sha window epoch prev_hash))"
  by (simp_all add: compute_stability_def compute_stability_hash_def StabilityScore_bytes_of_def Let_def
      split_def)

lemma stability_history_record_ok: "coherence_stability.ok sha (sh2_scores l) \<Longrightarrow>
    coherence_stability.ok sha (sh2_scores (snd (StabilityHistory_record sha snap l)))"
  by (simp add: Let_def split_def StabilityHistory_record_def StabilityHistory_last_hash_def
      compute_stability_linked split: option.split sum.split)

section \<open>Constitutional Momentum Tracker: directional stability trend (Gate 245)\<close>

text \<open>
  \<open>momentum_tracker.rs\<close>. Computes a signed momentum integer from consecutive
  StabilityScore observations. Positive momentum = improving. Negative = declining. Zero = stable.
\<close>

datatype MomentumDir = Improving | Stable | Declining

fun MomentumDir_as_u8 :: "MomentumDir \<Rightarrow> u8" where
  "MomentumDir_as_u8 MomentumDir.Improving = 0"
| "MomentumDir_as_u8 MomentumDir.Stable = 1"
| "MomentumDir_as_u8 MomentumDir.Declining = 2"

lemma MomentumDir_as_u8_inj [simp]: "MomentumDir_as_u8 x = MomentumDir_as_u8 y \<longleftrightarrow> x =
    y"
  by (cases x; cases y) auto

definition MomentumDir_from_int :: "i64 \<Rightarrow> MomentumDir" where
  "MomentumDir_from_int v =
     (if 0 <s v then MomentumDir.Improving
      else if v <s 0 then MomentumDir.Declining
      else MomentumDir.Stable)"

record MomentumSample =
  ms_epoch :: u64
  ms_raw_score :: u64

record MomentumReport =
  mr2_epoch :: u64
  mr2_momentum_int :: i64
  mr2_momentum_dir :: MomentumDir
  mr2_peak_score :: u64
  mr2_trough_score :: u64
  mr2_score_range :: u64
  mr2_sample_count :: nat
  mr2_momentum_hash :: hash
  mr2_prev_hash :: hash

definition DEFAULT_MOMENTUM_WINDOW :: nat where
  "DEFAULT_MOMENTUM_WINDOW = 8"

definition momentum_bytes ::
  "hash \<Rightarrow> MomentumDir \<Rightarrow> i64 \<Rightarrow> u64 \<Rightarrow> bytes" where
  "momentum_bytes prev dir momentum_int epoch =
     hash_bytes prev @ [MomentumDir_as_u8 dir] @ be8 momentum_int @ be8 epoch"

definition compute_momentum_hash ::
  "sha \<Rightarrow> hash \<Rightarrow> MomentumDir \<Rightarrow> i64 \<Rightarrow> u64 \<Rightarrow>
      hash" where
  "compute_momentum_hash sha prev dir momentum_int epoch =
     sha (momentum_bytes prev dir momentum_int epoch)"

definition compute_momentum ::
  "sha \<Rightarrow> MomentumSample list \<Rightarrow> u64 \<Rightarrow> hash \<Rightarrow>
      MomentumReport" where
  "compute_momentum sha samples epoch prev_hash =
     (let sample_count = length samples
      in if sample_count = 0 then (let hash = compute_momentum_hash sha prev_hash MomentumDir.Stable 0
          epoch
      in \<lparr>mr2_epoch = epoch, mr2_momentum_int = 0, mr2_momentum_dir = MomentumDir.Stable,
          mr2_peak_score = 0, mr2_trough_score = 0, mr2_score_range = 0, mr2_sample_count = 0,
          mr2_momentum_hash = hash, mr2_prev_hash = prev_hash\<rparr>)
      else (let peak = unwrap_or 0 (list_max (map ms_raw_score samples));
          trough = unwrap_or 0 (list_min (map ms_raw_score samples));
          momentum_int = (if sample_count < 2 then 0 else (let first = ms_raw_score (samples ! 0);
            last_v = ms_raw_score (samples ! (sample_count - 1)) in last_v - first));
          momentum_dir = MomentumDir_from_int momentum_int;
          momentum_hash = compute_momentum_hash sha prev_hash momentum_dir momentum_int epoch
      in \<lparr>mr2_epoch = epoch, mr2_momentum_int = momentum_int, mr2_momentum_dir = momentum_dir,
          mr2_peak_score = peak, mr2_trough_score = trough, mr2_score_range = peak - trough,
          mr2_sample_count = sample_count, mr2_momentum_hash = momentum_hash,
          mr2_prev_hash = prev_hash\<rparr>))"

record MomentumHistory =
  mh_reports :: "MomentumReport list"
  mh_samples :: "MomentumSample list"
  mh_window_size :: nat

datatype MomentumError = MomentumError string

definition MomentumHistory_new :: "nat \<Rightarrow> MomentumHistory" where
  "MomentumHistory_new window_size =
     \<lparr>mh_reports = [], mh_samples = [], mh_window_size = window_size\<rparr>"

definition MomentumHistory_new_default :: "MomentumHistory" where
  "MomentumHistory_new_default =
     MomentumHistory_new DEFAULT_MOMENTUM_WINDOW"

definition MomentumHistory_last_hash :: "MomentumHistory \<Rightarrow> hash" where
  "MomentumHistory_last_hash self =
     last_hash mr2_momentum_hash (mh_reports self)"

definition MomentumHistory_current_direction :: "MomentumHistory \<Rightarrow> MomentumDir" where
  "MomentumHistory_current_direction self =
     unwrap_or MomentumDir.Stable (map_option mr2_momentum_dir (last_opt (mh_reports self)))"

definition MomentumHistory_improving_count :: "MomentumHistory \<Rightarrow> nat" where
  "MomentumHistory_improving_count self =
     length (filter (\<lambda>r. (mr2_momentum_dir r) = MomentumDir.Improving) (mh_reports self))"

definition MomentumHistory_declining_count :: "MomentumHistory \<Rightarrow> nat" where
  "MomentumHistory_declining_count self =
     length (filter (\<lambda>r. (mr2_momentum_dir r) = MomentumDir.Declining) (mh_reports self))"

definition MomentumHistory_record ::
  "sha \<Rightarrow> MomentumSample \<Rightarrow> MomentumHistory \<Rightarrow> (MomentumError +
      MomentumReport) \<times> MomentumHistory" where
  "MomentumHistory_record sha sample self =
     (if mh_reports self \<noteq> [] \<and> (ms_epoch sample) \<le> (mr2_epoch (last (mh_reports self)))
         then (Inl (MomentumError ''epoch must be strictly greater''), self)
      else (let epoch = ms_epoch sample;
          self = self\<lparr>mh_samples := (mh_samples self) @ [sample]\<rparr>;
          window_start = (length (mh_samples self)) - (mh_window_size self);
          window = drop window_start (mh_samples self);
          prev_hash = MomentumHistory_last_hash self;
          report = compute_momentum sha window epoch prev_hash;
          self = self\<lparr>mh_reports := (mh_reports self) @ [report]\<rparr>
      in (Inr (last (mh_reports self)), self)))"

definition MomentumReport_bytes_of :: "MomentumReport \<Rightarrow> bytes" where
  "MomentumReport_bytes_of rep =
     momentum_bytes (mr2_prev_hash rep) (mr2_momentum_dir rep) (mr2_momentum_int rep) (mr2_epoch rep)"

definition MomentumHistory_verify_chain ::
  "sha \<Rightarrow> MomentumHistory \<Rightarrow> bool \<times> nat option" where
  "MomentumHistory_verify_chain sha self =
     verify_from mr2_prev_hash mr2_momentum_hash (\<lambda>r. sha (MomentumReport_bytes_of r)) 0 genesis
         (mh_reports self)"

lemma momentum_bytes_inj:
  "momentum_bytes prev dir momentum_int epoch = momentum_bytes prev' dir' momentum_int' epoch'
      \<longleftrightarrow>
   prev = prev' \<and> dir = dir' \<and> momentum_int = momentum_int' \<and> epoch = epoch'"
  by (auto simp: momentum_bytes_def enc_simps)

definition MomentumReport_committed :: "MomentumReport \<Rightarrow> MomentumDir \<times> i64 \<times>
    u64" where
  "MomentumReport_committed rep =
     (mr2_momentum_dir rep, mr2_momentum_int rep, mr2_epoch rep)"

interpretation momentum_tracker: hash_log MomentumReport_bytes_of mr2_prev_hash mr2_momentum_hash
    MomentumReport_committed
  by unfold_locales (auto simp: MomentumReport_bytes_of_def MomentumReport_committed_def
      momentum_bytes_inj)

lemma momentum_tracker_verify_iff: "MomentumHistory_verify_chain sha l = (True,
    None) \<longleftrightarrow> momentum_tracker.ok sha (mh_reports l)"
  by (simp add: MomentumHistory_verify_chain_def verify_from_iff)

lemma compute_momentum_linked:
  "mr2_prev_hash (compute_momentum sha samples epoch prev_hash) = prev_hash"
  "mr2_momentum_hash (compute_momentum sha samples epoch prev_hash) = sha (MomentumReport_bytes_of
      (compute_momentum sha samples epoch prev_hash))"
  by (simp_all add: compute_momentum_def compute_momentum_hash_def MomentumReport_bytes_of_def Let_def
      split_def)

lemma momentum_history_record_ok: "momentum_tracker.ok sha (mh_reports l) \<Longrightarrow>
    momentum_tracker.ok sha (mh_reports (snd (MomentumHistory_record sha sample l)))"
  by (simp add: Let_def split_def MomentumHistory_record_def MomentumHistory_last_hash_def
      compute_momentum_linked split: option.split sum.split)

section \<open>Phase Transition Detector: constitutional regime change detection (Gate 246)\<close>

text \<open>
  \<open>phase_transition.rs\<close>. Models constitutional health as a 4-state machine. Transitions
  are detected from consecutive PulseVerdict + ResilienceVerdict pairs.
\<close>

datatype ConstitutionalPhase = Nominal | Degraded | Recovery | Critical

fun ConstitutionalPhase_as_u8 :: "ConstitutionalPhase \<Rightarrow> u8" where
  "ConstitutionalPhase_as_u8 ConstitutionalPhase.Nominal = 0"
| "ConstitutionalPhase_as_u8 ConstitutionalPhase.Degraded = 1"
| "ConstitutionalPhase_as_u8 ConstitutionalPhase.Recovery = 2"
| "ConstitutionalPhase_as_u8 ConstitutionalPhase.Critical = 3"

lemma ConstitutionalPhase_as_u8_inj [simp]: "ConstitutionalPhase_as_u8 x = ConstitutionalPhase_as_u8 y
    \<longleftrightarrow> x = y"
  by (cases x; cases y) auto

definition ConstitutionalPhase_is_operational :: "ConstitutionalPhase \<Rightarrow> bool" where
  "ConstitutionalPhase_is_operational self \<longleftrightarrow>
     self = ConstitutionalPhase.Nominal \<or> self = ConstitutionalPhase.Recovery"

definition ConstitutionalPhase_severity :: "ConstitutionalPhase \<Rightarrow> u8" where
  "ConstitutionalPhase_severity self =
     (case self of
         ConstitutionalPhase.Nominal \<Rightarrow> 0
       | ConstitutionalPhase.Recovery \<Rightarrow> 1
       | ConstitutionalPhase.Degraded \<Rightarrow> 2
       | ConstitutionalPhase.Critical \<Rightarrow> 3)"

datatype TransitionCause = PulseEscalation | PulseRecovery | ResilienceShift | Initial

fun TransitionCause_as_u8 :: "TransitionCause \<Rightarrow> u8" where
  "TransitionCause_as_u8 TransitionCause.PulseEscalation = 0"
| "TransitionCause_as_u8 TransitionCause.PulseRecovery = 1"
| "TransitionCause_as_u8 TransitionCause.ResilienceShift = 2"
| "TransitionCause_as_u8 TransitionCause.Initial = 3"

lemma TransitionCause_as_u8_inj [simp]: "TransitionCause_as_u8 x = TransitionCause_as_u8 y
    \<longleftrightarrow> x = y"
  by (cases x; cases y) auto

record PhaseObservation =
  po_epoch :: u64
  po_phase :: ConstitutionalPhase
  po_cause :: TransitionCause
  po_pulse :: PulseVerdict
  po_resilience :: ResilienceVerdict
  po_is_transition :: bool
  po_phase_hash :: hash
  po_prev_hash :: hash

definition classify_phase ::
  "PulseVerdict \<Rightarrow> ResilienceVerdict \<Rightarrow> ConstitutionalPhase" where
  "classify_phase pulse resilience =
     (if pulse = PulseVerdict.Red \<or> ResilienceVerdict_requires_intervention resilience then
         ConstitutionalPhase.Critical
      else if pulse = PulseVerdict.Yellow \<or> \<not> (ResilienceVerdict_is_healthy resilience) then
          ConstitutionalPhase.Degraded
      else ConstitutionalPhase.Nominal)"

definition determine_cause ::
  "ConstitutionalPhase option \<Rightarrow> ConstitutionalPhase \<Rightarrow> PulseVerdict option
      \<Rightarrow> PulseVerdict \<Rightarrow> ResilienceVerdict option \<Rightarrow> ResilienceVerdict
      \<Rightarrow> TransitionCause" where
  "determine_cause prev_phase new_phase prev_pulse new_pulse prev_resilience new_resilience =
     (if prev_phase = None then TransitionCause.Initial
      else (let pp = the prev_phase;
          pulse_changed = unwrap_or False (map_option (\<lambda>p. p \<noteq> new_pulse) prev_pulse);
          resilience_changed = unwrap_or False (map_option (\<lambda>r. r \<noteq> new_resilience)
            prev_resilience)
      in if pulse_changed then (let prev_p = the prev_pulse
      in if (PulseVerdict_as_u8 new_pulse) > (PulseVerdict_as_u8 prev_p) then
          TransitionCause.PulseEscalation
      else TransitionCause.PulseRecovery)
      else if resilience_changed then TransitionCause.ResilienceShift
      else if (ConstitutionalPhase_severity new_phase) > (ConstitutionalPhase_severity pp) then
          TransitionCause.PulseEscalation
      else TransitionCause.PulseRecovery))"

definition phase_bytes ::
  "hash \<Rightarrow> ConstitutionalPhase \<Rightarrow> TransitionCause \<Rightarrow> u64 \<Rightarrow>
      bytes" where
  "phase_bytes prev phase cause epoch =
     hash_bytes prev @ [ConstitutionalPhase_as_u8 phase] @ [TransitionCause_as_u8 cause] @ be8 epoch"

definition compute_phase_hash ::
  "sha \<Rightarrow> hash \<Rightarrow> ConstitutionalPhase \<Rightarrow> TransitionCause \<Rightarrow>
      u64 \<Rightarrow> hash" where
  "compute_phase_hash sha prev phase cause epoch =
     sha (phase_bytes prev phase cause epoch)"

record PhaseHistory =
  ph_observations :: "PhaseObservation list"

datatype PhaseError = PhaseError string

definition PhaseHistory_new :: "PhaseHistory" where
  "PhaseHistory_new =
     \<lparr>ph_observations = []\<rparr>"

definition PhaseHistory_last_hash :: "PhaseHistory \<Rightarrow> hash" where
  "PhaseHistory_last_hash self =
     last_hash po_phase_hash (ph_observations self)"

definition PhaseHistory_current_phase :: "PhaseHistory \<Rightarrow> ConstitutionalPhase" where
  "PhaseHistory_current_phase self =
     unwrap_or ConstitutionalPhase.Nominal (map_option po_phase (last_opt (ph_observations self)))"

definition PhaseHistory_transition_count :: "PhaseHistory \<Rightarrow> nat" where
  "PhaseHistory_transition_count self =
     length (filter po_is_transition (ph_observations self))"

definition PhaseHistory_critical_count :: "PhaseHistory \<Rightarrow> nat" where
  "PhaseHistory_critical_count self =
     length (filter (\<lambda>o_v. (po_phase o_v) = ConstitutionalPhase.Critical) (ph_observations
         self))"

definition PhaseHistory_record ::
  "sha \<Rightarrow> u64 \<Rightarrow> PulseVerdict \<Rightarrow> ResilienceVerdict \<Rightarrow>
      PhaseHistory \<Rightarrow> (PhaseError + PhaseObservation) \<times> PhaseHistory" where
  "PhaseHistory_record sha epoch pulse resilience self =
     (if ph_observations self \<noteq> [] \<and> epoch \<le> (po_epoch (last (ph_observations self)))
         then (Inl (PhaseError ''epoch must be strictly greater''), self)
      else (let prev_phase = map_option po_phase (last_opt (ph_observations self));
          prev_pulse = map_option po_pulse (last_opt (ph_observations self));
          prev_resilience = map_option po_resilience (last_opt (ph_observations self));
          raw_phase = classify_phase pulse resilience;
          phase = (case prev_phase of Some pp \<Rightarrow> if (ConstitutionalPhase_severity pp) \<ge>
            (ConstitutionalPhase_severity ConstitutionalPhase.Degraded) \<and>
            (ConstitutionalPhase_severity raw_phase) < (ConstitutionalPhase_severity pp) then
            ConstitutionalPhase.Recovery else raw_phase | None \<Rightarrow> raw_phase);
          cause = determine_cause prev_phase phase prev_pulse pulse prev_resilience resilience;
          is_transition = unwrap_or True (map_option (\<lambda>p. p \<noteq> phase) prev_phase);
          prev_hash = PhaseHistory_last_hash self;
          phase_hash = compute_phase_hash sha prev_hash phase cause epoch;
          obs = \<lparr>po_epoch = epoch, po_phase = phase, po_cause = cause, po_pulse = pulse,
            po_resilience = resilience, po_is_transition = is_transition, po_phase_hash = phase_hash,
            po_prev_hash = prev_hash\<rparr>;
          self = self\<lparr>ph_observations := (ph_observations self) @ [obs]\<rparr>
      in (Inr (last (ph_observations self)), self)))"

definition PhaseObservation_bytes_of :: "PhaseObservation \<Rightarrow> bytes" where
  "PhaseObservation_bytes_of obs =
     phase_bytes (po_prev_hash obs) (po_phase obs) (po_cause obs) (po_epoch obs)"

definition PhaseHistory_verify_chain ::
  "sha \<Rightarrow> PhaseHistory \<Rightarrow> bool \<times> nat option" where
  "PhaseHistory_verify_chain sha self =
     verify_from po_prev_hash po_phase_hash (\<lambda>r. sha (PhaseObservation_bytes_of r)) 0 genesis
         (ph_observations self)"

lemma phase_bytes_inj:
  "phase_bytes prev phase cause epoch = phase_bytes prev' phase' cause' epoch' \<longleftrightarrow>
   prev = prev' \<and> phase = phase' \<and> cause = cause' \<and> epoch = epoch'"
  by (auto simp: phase_bytes_def enc_simps)

definition PhaseObservation_committed :: "PhaseObservation \<Rightarrow> ConstitutionalPhase \<times>
    TransitionCause \<times> u64" where
  "PhaseObservation_committed obs =
     (po_phase obs, po_cause obs, po_epoch obs)"

interpretation phase_transition: hash_log PhaseObservation_bytes_of po_prev_hash po_phase_hash
    PhaseObservation_committed
  by unfold_locales (auto simp: PhaseObservation_bytes_of_def PhaseObservation_committed_def
      phase_bytes_inj)

lemma phase_transition_verify_iff: "PhaseHistory_verify_chain sha l = (True,
    None) \<longleftrightarrow> phase_transition.ok sha (ph_observations l)"
  by (simp add: PhaseHistory_verify_chain_def verify_from_iff)

lemma phase_history_record_ok: "phase_transition.ok sha (ph_observations l) \<Longrightarrow>
    phase_transition.ok sha (ph_observations (snd (PhaseHistory_record sha epoch pulse resilience l)))"
  by (simp add: Let_def split_def PhaseHistory_record_def compute_phase_hash_def
      PhaseObservation_bytes_of_def PhaseHistory_last_hash_def split: option.split sum.split)

section \<open>Constitutional Health Aggregator: unified system health vector (Gate 247)\<close>

text \<open>
  \<open>health_aggregator.rs\<close>. Composes swarm health, resilience, pulse, stability, momentum,
  and phase signals into a single SystemHealthVector per epoch.
\<close>

datatype OverallCondition = Optimal | Good | Caution | Alert | Emergency

fun OverallCondition_as_u8 :: "OverallCondition \<Rightarrow> u8" where
  "OverallCondition_as_u8 OverallCondition.Optimal = 0"
| "OverallCondition_as_u8 OverallCondition.Good = 1"
| "OverallCondition_as_u8 OverallCondition.Caution = 2"
| "OverallCondition_as_u8 OverallCondition.Alert = 3"
| "OverallCondition_as_u8 OverallCondition.Emergency = 4"

lemma OverallCondition_as_u8_inj [simp]: "OverallCondition_as_u8 x = OverallCondition_as_u8 y
    \<longleftrightarrow> x = y"
  by (cases x; cases y) auto

instantiation OverallCondition :: linorder
begin

definition less_eq_OverallCondition where
  "a \<le> b \<longleftrightarrow> OverallCondition_as_u8 a \<le> OverallCondition_as_u8 b"

definition less_OverallCondition where
  "a < b \<longleftrightarrow> OverallCondition_as_u8 a < OverallCondition_as_u8 b"

instance
  by standard (auto simp: less_eq_OverallCondition_def less_OverallCondition_def less_le)

end

definition OverallCondition_is_operational :: "OverallCondition \<Rightarrow> bool" where
  "OverallCondition_is_operational self \<longleftrightarrow>
     (OverallCondition_as_u8 self) \<le> (OverallCondition_as_u8 OverallCondition.Caution)"

definition OverallCondition_requires_action :: "OverallCondition \<Rightarrow> bool" where
  "OverallCondition_requires_action self \<longleftrightarrow>
     (OverallCondition_as_u8 self) \<ge> (OverallCondition_as_u8 OverallCondition.Alert)"

record SystemHealthVector =
  shv_epoch :: u64
  shv_health_verdict :: HealthVerdict
  shv_resilience_verdict :: ResilienceVerdict
  shv_pulse_verdict :: PulseVerdict
  shv_stability_grade :: StabilityGrade
  shv_momentum_dir :: MomentumDir
  shv_phase :: ConstitutionalPhase
  shv_degraded_count :: u8
  shv_condition :: OverallCondition
  shv_vector_hash :: hash
  shv_prev_vector_hash :: hash

definition vector_bytes ::
  "hash \<Rightarrow> OverallCondition \<Rightarrow> u8 \<Rightarrow> u64 \<Rightarrow> bytes" where
  "vector_bytes prev condition degraded_count epoch =
     hash_bytes prev @ [OverallCondition_as_u8 condition] @ [degraded_count] @ be8 epoch"

definition compute_vector_hash ::
  "sha \<Rightarrow> hash \<Rightarrow> OverallCondition \<Rightarrow> u8 \<Rightarrow> u64
      \<Rightarrow> hash" where
  "compute_vector_hash sha prev condition degraded_count epoch =
     sha (vector_bytes prev condition degraded_count epoch)"

definition build_vector ::
  "sha \<Rightarrow> u64 \<Rightarrow> HealthVerdict \<Rightarrow> ResilienceVerdict \<Rightarrow>
      PulseVerdict \<Rightarrow> StabilityGrade \<Rightarrow> MomentumDir \<Rightarrow>
      ConstitutionalPhase \<Rightarrow> hash \<Rightarrow> SystemHealthVector" where
  "build_vector sha epoch health_verdict resilience_verdict pulse_verdict stability_grade momentum_dir
      phase prev_hash =
     (let degraded_count = 0;
          degraded_count = (if health_verdict \<noteq> HealthVerdict.Pass then (let degraded_count =
            degraded_count + 1
      in degraded_count)
      else degraded_count);
          degraded_count = (if \<not> (ResilienceVerdict_is_healthy resilience_verdict) then (let
            degraded_count = degraded_count + 1
      in degraded_count)
      else degraded_count);
          degraded_count = (if pulse_verdict \<noteq> PulseVerdict.Green then (let degraded_count =
            degraded_count + 1
      in degraded_count)
      else degraded_count);
          degraded_count = (if \<not> (StabilityGrade_is_passing stability_grade) then (let
            degraded_count = degraded_count + 1
      in degraded_count)
      else degraded_count);
          degraded_count = (if momentum_dir = MomentumDir.Declining then (let degraded_count =
            degraded_count + 1
      in degraded_count)
      else degraded_count);
          degraded_count = (if \<not> (ConstitutionalPhase_is_operational phase) then (let
            degraded_count = degraded_count + 1
      in degraded_count)
      else degraded_count);
          is_emergency = health_verdict = HealthVerdict.Fail \<or> pulse_verdict = PulseVerdict.Red
            \<or> phase = ConstitutionalPhase.Critical \<or> ResilienceVerdict_requires_intervention
            resilience_verdict;
          condition = (if is_emergency then OverallCondition.Emergency else if degraded_count = 0 then
            OverallCondition.Optimal else if degraded_count = 1 then OverallCondition.Good else if
            degraded_count = 2 then OverallCondition.Caution else OverallCondition.Alert);
          vector_hash = compute_vector_hash sha prev_hash condition degraded_count epoch
      in \<lparr>shv_epoch = epoch, shv_health_verdict = health_verdict,
          shv_resilience_verdict = resilience_verdict, shv_pulse_verdict = pulse_verdict,
          shv_stability_grade = stability_grade, shv_momentum_dir = momentum_dir, shv_phase = phase,
          shv_degraded_count = degraded_count, shv_condition = condition, shv_vector_hash = vector_hash,
          shv_prev_vector_hash = prev_hash\<rparr>)"

record VectorHistory =
  vh_vectors :: "SystemHealthVector list"

datatype VectorError = VectorError string

definition VectorHistory_new :: "VectorHistory" where
  "VectorHistory_new =
     \<lparr>vh_vectors = []\<rparr>"

definition VectorHistory_last_hash :: "VectorHistory \<Rightarrow> hash" where
  "VectorHistory_last_hash self =
     last_hash shv_vector_hash (vh_vectors self)"

definition VectorHistory_current_condition :: "VectorHistory \<Rightarrow> OverallCondition" where
  "VectorHistory_current_condition self =
     unwrap_or OverallCondition.Optimal (map_option shv_condition (last_opt (vh_vectors self)))"

definition VectorHistory_emergency_count :: "VectorHistory \<Rightarrow> nat" where
  "VectorHistory_emergency_count self =
     length (filter (\<lambda>v. (shv_condition v) = OverallCondition.Emergency) (vh_vectors self))"

definition VectorHistory_optimal_count :: "VectorHistory \<Rightarrow> nat" where
  "VectorHistory_optimal_count self =
     length (filter (\<lambda>v. (shv_condition v) = OverallCondition.Optimal) (vh_vectors self))"

definition VectorHistory_record ::
  "sha \<Rightarrow> u64 \<Rightarrow> HealthVerdict \<Rightarrow> ResilienceVerdict \<Rightarrow>
      PulseVerdict \<Rightarrow> StabilityGrade \<Rightarrow> MomentumDir \<Rightarrow>
      ConstitutionalPhase \<Rightarrow> VectorHistory \<Rightarrow> (VectorError + SystemHealthVector)
      \<times> VectorHistory" where
  "VectorHistory_record sha epoch health_verdict resilience_verdict pulse_verdict stability_grade
      momentum_dir phase self =
     (if vh_vectors self \<noteq> [] \<and> epoch \<le> (shv_epoch (last (vh_vectors self))) then (Inl
         (VectorError ''epoch must be strictly greater''), self)
      else (let prev_hash = VectorHistory_last_hash self;
          v = build_vector sha epoch health_verdict resilience_verdict pulse_verdict stability_grade
            momentum_dir phase prev_hash;
          self = self\<lparr>vh_vectors := (vh_vectors self) @ [v]\<rparr>
      in (Inr (last (vh_vectors self)), self)))"

definition SystemHealthVector_bytes_of :: "SystemHealthVector \<Rightarrow> bytes" where
  "SystemHealthVector_bytes_of v =
     vector_bytes (shv_prev_vector_hash v) (shv_condition v) (shv_degraded_count v) (shv_epoch v)"

definition VectorHistory_verify_chain ::
  "sha \<Rightarrow> VectorHistory \<Rightarrow> bool \<times> nat option" where
  "VectorHistory_verify_chain sha self =
     verify_from shv_prev_vector_hash shv_vector_hash (\<lambda>r. sha (SystemHealthVector_bytes_of r))
         0 genesis (vh_vectors self)"

lemma vector_bytes_inj:
  "vector_bytes prev condition degraded_count epoch = vector_bytes prev' condition' degraded_count'
      epoch' \<longleftrightarrow>
   prev = prev' \<and> condition = condition' \<and> degraded_count = degraded_count' \<and> epoch =
       epoch'"
  by (auto simp: vector_bytes_def enc_simps)

definition SystemHealthVector_committed :: "SystemHealthVector \<Rightarrow> OverallCondition \<times>
    u8 \<times> u64" where
  "SystemHealthVector_committed v =
     (shv_condition v, shv_degraded_count v, shv_epoch v)"

interpretation health_aggregator: hash_log SystemHealthVector_bytes_of shv_prev_vector_hash
    shv_vector_hash SystemHealthVector_committed
  by unfold_locales (auto simp: SystemHealthVector_bytes_of_def SystemHealthVector_committed_def
      vector_bytes_inj)

lemma health_aggregator_verify_iff: "VectorHistory_verify_chain sha l = (True,
    None) \<longleftrightarrow> health_aggregator.ok sha (vh_vectors l)"
  by (simp add: VectorHistory_verify_chain_def verify_from_iff)

lemma build_vector_linked:
  "shv_prev_vector_hash (build_vector sha epoch health_verdict resilience_verdict pulse_verdict
      stability_grade momentum_dir phase prev_hash) = prev_hash"
  "shv_vector_hash (build_vector sha epoch health_verdict resilience_verdict pulse_verdict
      stability_grade momentum_dir phase prev_hash) = sha (SystemHealthVector_bytes_of (build_vector sha
      epoch health_verdict resilience_verdict pulse_verdict stability_grade momentum_dir phase
      prev_hash))"
  by (simp_all add: build_vector_def compute_vector_hash_def SystemHealthVector_bytes_of_def Let_def
      split_def)

lemma vector_history_record_ok: "health_aggregator.ok sha (vh_vectors l) \<Longrightarrow>
    health_aggregator.ok sha (vh_vectors (snd (VectorHistory_record sha epoch health_verdict
    resilience_verdict pulse_verdict stability_grade momentum_dir phase l)))"
  by (simp add: Let_def split_def VectorHistory_record_def VectorHistory_last_hash_def
      build_vector_linked split: option.split sum.split)

section \<open>Constitutional Health Dashboard: unified epoch-by-epoch frame (Gate 248)\<close>

text \<open>
  \<open>health_dashboard.rs\<close>. Wires SystemHealthVector + PhaseObservation + MomentumReport
  into a single DashboardFrame per epoch. The dashboard is the operator-facing summary of the full
  constitutional health stack.
\<close>

datatype OverallTrend = Thriving | Stable | Concerning | Critical

fun OverallTrend_as_u8 :: "OverallTrend \<Rightarrow> u8" where
  "OverallTrend_as_u8 OverallTrend.Thriving = 0"
| "OverallTrend_as_u8 OverallTrend.Stable = 1"
| "OverallTrend_as_u8 OverallTrend.Concerning = 2"
| "OverallTrend_as_u8 OverallTrend.Critical = 3"

lemma OverallTrend_as_u8_inj [simp]: "OverallTrend_as_u8 x = OverallTrend_as_u8 y \<longleftrightarrow>
    x = y"
  by (cases x; cases y) auto

definition OverallTrend_is_positive :: "OverallTrend \<Rightarrow> bool" where
  "OverallTrend_is_positive self \<longleftrightarrow>
     self = OverallTrend.Thriving \<or> self = OverallTrend.Stable"

definition OverallTrend_derive ::
  "OverallCondition \<Rightarrow> MomentumDir \<Rightarrow> ConstitutionalPhase \<Rightarrow>
      OverallTrend" where
  "OverallTrend_derive condition momentum_dir phase =
     (if OverallCondition_as_u8 condition \<ge> OverallCondition_as_u8 OverallCondition.Alert \<or>
         \<not> (ConstitutionalPhase_is_operational phase) then OverallTrend.Critical
      else if condition = OverallCondition.Optimal \<and> momentum_dir = MomentumDir.Improving \<and>
          ConstitutionalPhase_is_operational phase then OverallTrend.Thriving
      else if condition = OverallCondition.Caution \<or> momentum_dir = MomentumDir.Declining then
          OverallTrend.Concerning
      else OverallTrend.Stable)"

record DashboardFrame =
  df2_epoch :: u64
  df2_vector :: SystemHealthVector
  df2_phase :: ConstitutionalPhase
  df2_momentum_dir :: MomentumDir
  df2_momentum_int :: i64
  df2_overall_trend :: OverallTrend
  df2_frame_hash :: hash
  df2_prev_frame_hash :: hash

definition frame_bytes ::
  "hash \<Rightarrow> OverallCondition \<Rightarrow> OverallTrend \<Rightarrow> u64 \<Rightarrow> bytes"
      where
  "frame_bytes prev condition trend epoch =
     hash_bytes prev @ [OverallCondition_as_u8 condition] @ [OverallTrend_as_u8 trend] @ be8 epoch"

definition compute_frame_hash ::
  "sha \<Rightarrow> hash \<Rightarrow> OverallCondition \<Rightarrow> OverallTrend \<Rightarrow> u64
      \<Rightarrow> hash" where
  "compute_frame_hash sha prev condition trend epoch =
     sha (frame_bytes prev condition trend epoch)"

definition build_frame ::
  "sha \<Rightarrow> u64 \<Rightarrow> SystemHealthVector \<Rightarrow> ConstitutionalPhase
      \<Rightarrow> MomentumDir \<Rightarrow> i64 \<Rightarrow> hash \<Rightarrow> DashboardFrame" where
  "build_frame sha epoch vector phase momentum_dir momentum_int prev_hash =
     (let overall_trend = OverallTrend_derive (shv_condition vector) momentum_dir phase;
          frame_hash = compute_frame_hash sha prev_hash (shv_condition vector) overall_trend epoch
      in \<lparr>df2_epoch = epoch, df2_vector = vector, df2_phase = phase,
          df2_momentum_dir = momentum_dir, df2_momentum_int = momentum_int,
          df2_overall_trend = overall_trend, df2_frame_hash = frame_hash,
          df2_prev_frame_hash = prev_hash\<rparr>)"

record DashboardHistory =
  dh2_frames :: "DashboardFrame list"

datatype DashboardError = DashboardError string

definition DashboardHistory_new :: "DashboardHistory" where
  "DashboardHistory_new =
     \<lparr>dh2_frames = []\<rparr>"

definition DashboardHistory_last_hash :: "DashboardHistory \<Rightarrow> hash" where
  "DashboardHistory_last_hash self =
     last_hash df2_frame_hash (dh2_frames self)"

definition DashboardHistory_current_trend :: "DashboardHistory \<Rightarrow> OverallTrend" where
  "DashboardHistory_current_trend self =
     unwrap_or OverallTrend.Stable (map_option df2_overall_trend (last_opt (dh2_frames self)))"

definition DashboardHistory_thriving_count :: "DashboardHistory \<Rightarrow> nat" where
  "DashboardHistory_thriving_count self =
     length (filter (\<lambda>f. (df2_overall_trend f) = OverallTrend.Thriving) (dh2_frames self))"

definition DashboardHistory_critical_count :: "DashboardHistory \<Rightarrow> nat" where
  "DashboardHistory_critical_count self =
     length (filter (\<lambda>f. (df2_overall_trend f) = OverallTrend.Critical) (dh2_frames self))"

definition DashboardHistory_record ::
  "sha \<Rightarrow> u64 \<Rightarrow> SystemHealthVector \<Rightarrow> ConstitutionalPhase
      \<Rightarrow> MomentumDir \<Rightarrow> i64 \<Rightarrow> DashboardHistory \<Rightarrow>
      (DashboardError + DashboardFrame) \<times> DashboardHistory" where
  "DashboardHistory_record sha epoch vector phase momentum_dir momentum_int self =
     (if dh2_frames self \<noteq> [] \<and> epoch \<le> (df2_epoch (last (dh2_frames self))) then (Inl
         (DashboardError ''epoch must be strictly greater''), self)
      else (let prev_hash = DashboardHistory_last_hash self;
          frame = build_frame sha epoch vector phase momentum_dir momentum_int prev_hash;
          self = self\<lparr>dh2_frames := (dh2_frames self) @ [frame]\<rparr>
      in (Inr (last (dh2_frames self)), self)))"

definition DashboardFrame_bytes_of :: "DashboardFrame \<Rightarrow> bytes" where
  "DashboardFrame_bytes_of f =
     frame_bytes (df2_prev_frame_hash f) (shv_condition (df2_vector f)) (df2_overall_trend f) (df2_epoch
         f)"

definition DashboardHistory_verify_chain ::
  "sha \<Rightarrow> DashboardHistory \<Rightarrow> bool \<times> nat option" where
  "DashboardHistory_verify_chain sha self =
     verify_from df2_prev_frame_hash df2_frame_hash (\<lambda>r. sha (DashboardFrame_bytes_of r)) 0
         genesis (dh2_frames self)"

lemma frame_bytes_inj:
  "frame_bytes prev condition trend epoch = frame_bytes prev' condition' trend' epoch'
      \<longleftrightarrow>
   prev = prev' \<and> condition = condition' \<and> trend = trend' \<and> epoch = epoch'"
  by (auto simp: frame_bytes_def enc_simps)

definition DashboardFrame_committed :: "DashboardFrame \<Rightarrow> OverallCondition \<times>
    OverallTrend \<times> u64" where
  "DashboardFrame_committed f =
     (shv_condition (df2_vector f), df2_overall_trend f, df2_epoch f)"

interpretation health_dashboard: hash_log DashboardFrame_bytes_of df2_prev_frame_hash df2_frame_hash
    DashboardFrame_committed
  by unfold_locales (auto simp: DashboardFrame_bytes_of_def DashboardFrame_committed_def
      frame_bytes_inj)

lemma health_dashboard_verify_iff: "DashboardHistory_verify_chain sha l = (True,
    None) \<longleftrightarrow> health_dashboard.ok sha (dh2_frames l)"
  by (simp add: DashboardHistory_verify_chain_def verify_from_iff)

lemma build_frame_linked:
  "df2_prev_frame_hash (build_frame sha epoch vector phase momentum_dir momentum_int prev_hash) =
      prev_hash"
  "df2_frame_hash (build_frame sha epoch vector phase momentum_dir momentum_int prev_hash) = sha
      (DashboardFrame_bytes_of (build_frame sha epoch vector phase momentum_dir momentum_int
      prev_hash))"
  by (simp_all add: build_frame_def compute_frame_hash_def DashboardFrame_bytes_of_def Let_def
      split_def)

lemma dashboard_history_record_ok: "health_dashboard.ok sha (dh2_frames l) \<Longrightarrow>
    health_dashboard.ok sha (dh2_frames (snd (DashboardHistory_record sha epoch vector phase
    momentum_dir momentum_int l)))"
  by (simp add: Let_def split_def DashboardHistory_record_def DashboardHistory_last_hash_def
      build_frame_linked split: option.split sum.split)

section \<open>Epoch Health Ledger: tamper-evident running health record (Gate 249)\<close>

text \<open>
  \<open>epoch_health_ledger.rs\<close>. Records one HealthLedgerEntry per epoch, accumulating the
  DashboardFrame hash into a running ledger_hash. Suitable for external attestation.
\<close>

record HealthLedgerEntry =
  hle_epoch :: u64
  hle_frame_hash :: hash
  hle_condition :: OverallCondition
  hle_trend :: OverallTrend
  hle_ledger_hash :: hash
  hle_prev_hash :: hash

definition ledger_bytes ::
  "hash \<Rightarrow> hash \<Rightarrow> OverallCondition \<Rightarrow> u64 \<Rightarrow> bytes" where
  "ledger_bytes prev frame_hash condition epoch =
     hash_bytes prev @ hash_bytes frame_hash @ [OverallCondition_as_u8 condition] @ be8 epoch"

definition compute_ledger_hash ::
  "sha \<Rightarrow> hash \<Rightarrow> hash \<Rightarrow> OverallCondition \<Rightarrow> u64
      \<Rightarrow> hash" where
  "compute_ledger_hash sha prev frame_hash condition epoch =
     sha (ledger_bytes prev frame_hash condition epoch)"

record HealthLedger =
  hl_entries :: "HealthLedgerEntry list"

datatype LedgerError = LedgerError string

definition HealthLedger_new :: "HealthLedger" where
  "HealthLedger_new =
     \<lparr>hl_entries = []\<rparr>"

definition HealthLedger_terminal_hash :: "HealthLedger \<Rightarrow> hash" where
  "HealthLedger_terminal_hash self =
     last_hash hle_ledger_hash (hl_entries self)"

definition HealthLedger_worst_condition :: "HealthLedger \<Rightarrow> OverallCondition" where
  "HealthLedger_worst_condition self =
     unwrap_or OverallCondition.Optimal (list_max (map hle_condition (hl_entries self)))"

definition HealthLedger_critical_epoch_count :: "HealthLedger \<Rightarrow> nat" where
  "HealthLedger_critical_epoch_count self =
     length (filter (\<lambda>e. (hle_trend e) = OverallTrend.Critical) (hl_entries self))"

definition HealthLedger_thriving_epoch_count :: "HealthLedger \<Rightarrow> nat" where
  "HealthLedger_thriving_epoch_count self =
     length (filter (\<lambda>e. (hle_trend e) = OverallTrend.Thriving) (hl_entries self))"

definition HealthLedger_record ::
  "sha \<Rightarrow> DashboardFrame \<Rightarrow> HealthLedger \<Rightarrow> (LedgerError +
      HealthLedgerEntry) \<times> HealthLedger" where
  "HealthLedger_record sha frame self =
     (if hl_entries self \<noteq> [] \<and> (df2_epoch frame) \<le> (hle_epoch (last (hl_entries self)))
         then (Inl (LedgerError ''epoch must be strictly greater''), self)
      else (let prev_hash = HealthLedger_terminal_hash self;
          ledger_hash = compute_ledger_hash sha prev_hash (df2_frame_hash frame) (shv_condition
            (df2_vector frame)) (df2_epoch frame);
          entry = \<lparr>hle_epoch = df2_epoch frame, hle_frame_hash = df2_frame_hash frame,
            hle_condition = shv_condition (df2_vector frame), hle_trend = df2_overall_trend frame,
            hle_ledger_hash = ledger_hash, hle_prev_hash = prev_hash\<rparr>;
          self = self\<lparr>hl_entries := (hl_entries self) @ [entry]\<rparr>
      in (Inr (last (hl_entries self)), self)))"

definition HealthLedgerEntry_bytes_of :: "HealthLedgerEntry \<Rightarrow> bytes" where
  "HealthLedgerEntry_bytes_of e =
     ledger_bytes (hle_prev_hash e) (hle_frame_hash e) (hle_condition e) (hle_epoch e)"

definition HealthLedger_verify_chain ::
  "sha \<Rightarrow> HealthLedger \<Rightarrow> bool \<times> nat option" where
  "HealthLedger_verify_chain sha self =
     verify_from hle_prev_hash hle_ledger_hash (\<lambda>r. sha (HealthLedgerEntry_bytes_of r)) 0
         genesis (hl_entries self)"

lemma ledger_bytes_inj:
  "ledger_bytes prev frame_hash condition epoch = ledger_bytes prev' frame_hash' condition' epoch'
      \<longleftrightarrow>
   prev = prev' \<and> frame_hash = frame_hash' \<and> condition = condition' \<and> epoch = epoch'"
  by (auto simp: ledger_bytes_def enc_simps)

definition HealthLedgerEntry_committed :: "HealthLedgerEntry \<Rightarrow> hash \<times>
    OverallCondition \<times> u64" where
  "HealthLedgerEntry_committed e =
     (hle_frame_hash e, hle_condition e, hle_epoch e)"

interpretation epoch_health_ledger: hash_log HealthLedgerEntry_bytes_of hle_prev_hash hle_ledger_hash
    HealthLedgerEntry_committed
  by unfold_locales (auto simp: HealthLedgerEntry_bytes_of_def HealthLedgerEntry_committed_def
      ledger_bytes_inj)

lemma epoch_health_ledger_verify_iff: "HealthLedger_verify_chain sha l = (True,
    None) \<longleftrightarrow> epoch_health_ledger.ok sha (hl_entries l)"
  by (simp add: HealthLedger_verify_chain_def verify_from_iff)

lemma health_ledger_record_ok: "epoch_health_ledger.ok sha (hl_entries l) \<Longrightarrow>
    epoch_health_ledger.ok sha (hl_entries (snd (HealthLedger_record sha frame l)))"
  by (simp add: Let_def split_def HealthLedger_record_def compute_ledger_hash_def
      HealthLedgerEntry_bytes_of_def HealthLedger_terminal_hash_def split: option.split sum.split)

section \<open>Constitutional Alert Engine: severity classification + hash-linked alert log (Gate 250)\<close>

text \<open>
  \<open>alert_engine.rs\<close>. Classifies each DashboardFrame into an AlertSeverity and appends to
  a hash-linked AlertLog.
\<close>

datatype AlertSeverity = Nothing | Info | Warn | Critical | Emergency

fun AlertSeverity_as_u8 :: "AlertSeverity \<Rightarrow> u8" where
  "AlertSeverity_as_u8 AlertSeverity.Nothing = 0"
| "AlertSeverity_as_u8 AlertSeverity.Info = 1"
| "AlertSeverity_as_u8 AlertSeverity.Warn = 2"
| "AlertSeverity_as_u8 AlertSeverity.Critical = 3"
| "AlertSeverity_as_u8 AlertSeverity.Emergency = 4"

lemma AlertSeverity_as_u8_inj [simp]: "AlertSeverity_as_u8 x = AlertSeverity_as_u8 y
    \<longleftrightarrow> x = y"
  by (cases x; cases y) auto

instantiation AlertSeverity :: linorder
begin

definition less_eq_AlertSeverity where
  "a \<le> b \<longleftrightarrow> AlertSeverity_as_u8 a \<le> AlertSeverity_as_u8 b"

definition less_AlertSeverity where
  "a < b \<longleftrightarrow> AlertSeverity_as_u8 a < AlertSeverity_as_u8 b"

instance
  by standard (auto simp: less_eq_AlertSeverity_def less_AlertSeverity_def less_le)

end

definition AlertSeverity_requires_action :: "AlertSeverity \<Rightarrow> bool" where
  "AlertSeverity_requires_action self \<longleftrightarrow>
     (AlertSeverity_as_u8 self) \<ge> (AlertSeverity_as_u8 AlertSeverity.Warn)"

definition AlertSeverity_is_silent :: "AlertSeverity \<Rightarrow> bool" where
  "AlertSeverity_is_silent self \<longleftrightarrow>
     self = AlertSeverity.Nothing"

definition AlertSeverity_classify ::
  "OverallCondition \<Rightarrow> OverallTrend \<Rightarrow> AlertSeverity" where
  "AlertSeverity_classify condition trend =
     (let is_emergency_cond = condition = OverallCondition.Emergency;
          is_alert_cond = condition = OverallCondition.Alert;
          is_caution_cond = condition = OverallCondition.Caution;
          is_critical_trend = trend = OverallTrend.Critical;
          is_concerning = trend = OverallTrend.Concerning
      in if is_emergency_cond \<and> is_critical_trend then AlertSeverity.Emergency
      else if is_emergency_cond \<or> is_critical_trend then AlertSeverity.Critical
      else if is_alert_cond \<or> (is_concerning \<and> is_caution_cond) then AlertSeverity.Warn
      else if is_caution_cond \<or> is_concerning then AlertSeverity.Info
      else AlertSeverity.Nothing)"

definition AlertSeverity_message :: "AlertSeverity \<Rightarrow> string" where
  "AlertSeverity_message self =
     (case self of
         AlertSeverity.Nothing \<Rightarrow> ''system nominal''
       | AlertSeverity.Info \<Rightarrow> ''minor degradation detected''
       | AlertSeverity.Warn \<Rightarrow> ''degradation requires attention''
       | AlertSeverity.Critical \<Rightarrow> ''critical condition - intervention recommended''
       | AlertSeverity.Emergency \<Rightarrow> ''emergency - immediate intervention required'')"

record AlertRecord =
  ar2_epoch :: u64
  ar2_severity :: AlertSeverity
  ar2_condition :: OverallCondition
  ar2_trend :: OverallTrend
  ar2_message :: string
  ar2_alert_hash :: hash
  ar2_prev_alert_hash :: hash

definition alert_bytes ::
  "hash \<Rightarrow> AlertSeverity \<Rightarrow> OverallCondition \<Rightarrow> u64 \<Rightarrow>
      bytes" where
  "alert_bytes prev severity condition epoch =
     hash_bytes prev @ [AlertSeverity_as_u8 severity] @ [OverallCondition_as_u8 condition] @ be8 epoch"

definition compute_alert_hash ::
  "sha \<Rightarrow> hash \<Rightarrow> AlertSeverity \<Rightarrow> OverallCondition \<Rightarrow> u64
      \<Rightarrow> hash" where
  "compute_alert_hash sha prev severity condition epoch =
     sha (alert_bytes prev severity condition epoch)"

record AlertLog =
  al2_records :: "AlertRecord list"

datatype AlertError = AlertError string

definition AlertLog_new :: "AlertLog" where
  "AlertLog_new =
     \<lparr>al2_records = []\<rparr>"

definition AlertLog_last_hash :: "AlertLog \<Rightarrow> hash" where
  "AlertLog_last_hash self =
     last_hash ar2_alert_hash (al2_records self)"

definition AlertLog_current_severity :: "AlertLog \<Rightarrow> AlertSeverity" where
  "AlertLog_current_severity self =
     unwrap_or AlertSeverity.Nothing (map_option ar2_severity (last_opt (al2_records self)))"

definition AlertLog_escalation_count :: "AlertLog \<Rightarrow> nat" where
  "AlertLog_escalation_count self =
     length (filter (\<lambda>r. AlertSeverity_requires_action (ar2_severity r)) (al2_records self))"

definition AlertLog_suppression_count :: "AlertLog \<Rightarrow> nat" where
  "AlertLog_suppression_count self =
     length (filter (\<lambda>r. AlertSeverity_is_silent (ar2_severity r)) (al2_records self))"

definition AlertLog_peak_severity :: "AlertLog \<Rightarrow> AlertSeverity" where
  "AlertLog_peak_severity self =
     unwrap_or AlertSeverity.Nothing (list_max (map ar2_severity (al2_records self)))"

definition AlertLog_record ::
  "sha \<Rightarrow> DashboardFrame \<Rightarrow> AlertLog \<Rightarrow> (AlertError + AlertRecord)
      \<times> AlertLog" where
  "AlertLog_record sha frame self =
     (if al2_records self \<noteq> [] \<and> (df2_epoch frame) \<le> (ar2_epoch (last (al2_records
         self))) then (Inl (AlertError ''epoch must be strictly greater''), self)
      else (let severity = AlertSeverity_classify (shv_condition (df2_vector frame)) (df2_overall_trend
          frame);
          message = AlertSeverity_message severity;
          prev_hash = AlertLog_last_hash self;
          alert_hash = compute_alert_hash sha prev_hash severity (shv_condition (df2_vector frame))
            (df2_epoch frame);
          rec = \<lparr>ar2_epoch = df2_epoch frame, ar2_severity = severity,
            ar2_condition = shv_condition (df2_vector frame), ar2_trend = df2_overall_trend frame,
            ar2_message = message, ar2_alert_hash = alert_hash, ar2_prev_alert_hash = prev_hash\<rparr>;
          self = self\<lparr>al2_records := (al2_records self) @ [rec]\<rparr>
      in (Inr (last (al2_records self)), self)))"

definition AlertRecord_bytes_of :: "AlertRecord \<Rightarrow> bytes" where
  "AlertRecord_bytes_of r =
     alert_bytes (ar2_prev_alert_hash r) (ar2_severity r) (ar2_condition r) (ar2_epoch r)"

definition AlertLog_verify_chain ::
  "sha \<Rightarrow> AlertLog \<Rightarrow> bool \<times> nat option" where
  "AlertLog_verify_chain sha self =
     verify_from ar2_prev_alert_hash ar2_alert_hash (\<lambda>r. sha (AlertRecord_bytes_of r)) 0 genesis
         (al2_records self)"

lemma alert_bytes_inj:
  "alert_bytes prev severity condition epoch = alert_bytes prev' severity' condition' epoch'
      \<longleftrightarrow>
   prev = prev' \<and> severity = severity' \<and> condition = condition' \<and> epoch = epoch'"
  by (auto simp: alert_bytes_def enc_simps)

definition AlertRecord_committed :: "AlertRecord \<Rightarrow> AlertSeverity \<times> OverallCondition
    \<times> u64" where
  "AlertRecord_committed r =
     (ar2_severity r, ar2_condition r, ar2_epoch r)"

interpretation alert_engine: hash_log AlertRecord_bytes_of ar2_prev_alert_hash ar2_alert_hash
    AlertRecord_committed
  by unfold_locales (auto simp: AlertRecord_bytes_of_def AlertRecord_committed_def alert_bytes_inj)

lemma alert_engine_verify_iff: "AlertLog_verify_chain sha l = (True,
    None) \<longleftrightarrow> alert_engine.ok sha (al2_records l)"
  by (simp add: AlertLog_verify_chain_def verify_from_iff)

lemma alert_log_record_ok: "alert_engine.ok sha (al2_records l) \<Longrightarrow> alert_engine.ok sha
    (al2_records (snd (AlertLog_record sha frame l)))"
  by (simp add: Let_def split_def AlertLog_record_def compute_alert_hash_def AlertRecord_bytes_of_def
      AlertLog_last_hash_def split: option.split sum.split)

end
