(* ===== verification/Recovery.thy ===== *)
theory Recovery
  imports System_Health
begin

text \<open>
  What the alerts lead to: the interventions recommended for a health vector and their plan, the
  sequence of recovery steps made from plans and how a step advances, and the certificate over the
  logs of an audit.
\<close>

section \<open>Intervention Recommender: ranked constitutional remediation actions (Gate 251)\<close>

text \<open>
  \<open>intervention_recommender.rs\<close>. Given an AlertSeverity + SystemHealthVector, produces a
  ranked list of InterventionAction items with priority scores (0-100).
\<close>

datatype InterventionKind = MonitorOnly | TightenThresholds | ForceResilient | QuorumRecovery |
    PulseReset | PhaseRecovery | EmergencyHalt

fun InterventionKind_as_u8 :: "InterventionKind \<Rightarrow> u8" where
  "InterventionKind_as_u8 InterventionKind.MonitorOnly = 0"
| "InterventionKind_as_u8 InterventionKind.TightenThresholds = 1"
| "InterventionKind_as_u8 InterventionKind.ForceResilient = 2"
| "InterventionKind_as_u8 InterventionKind.QuorumRecovery = 3"
| "InterventionKind_as_u8 InterventionKind.PulseReset = 4"
| "InterventionKind_as_u8 InterventionKind.PhaseRecovery = 5"
| "InterventionKind_as_u8 InterventionKind.EmergencyHalt = 6"

lemma InterventionKind_as_u8_inj [simp]: "InterventionKind_as_u8 x = InterventionKind_as_u8 y
    \<longleftrightarrow> x = y"
  by (cases x; cases y) auto

definition InterventionKind_is_disruptive :: "InterventionKind \<Rightarrow> bool" where
  "InterventionKind_is_disruptive self \<longleftrightarrow>
     self = InterventionKind.QuorumRecovery \<or> self = InterventionKind.PhaseRecovery \<or> self =
         InterventionKind.EmergencyHalt"

record InterventionAction =
  ia_kind :: InterventionKind
  ia_priority :: u8
  ia_rationale :: string

record InterventionPlan =
  ip_epoch :: u64
  ip_severity :: AlertSeverity
  ip_actions :: "InterventionAction list"
  ip_plan_hash :: hash
  ip_prev_plan_hash :: hash

definition action_rank :: "InterventionAction \<Rightarrow> nat \<times> u8" where
  "action_rank a = (255 - unat (ia_priority a), InterventionKind_as_u8 (ia_kind a))"

definition recommend_actions ::
  "AlertSeverity \<Rightarrow> SystemHealthVector \<Rightarrow> InterventionAction list" where
  "recommend_actions severity vector =
     (let actions = [];
          actions = (case severity of
         AlertSeverity.Nothing \<Rightarrow> (let actions = actions @
           [\<lparr>ia_kind = InterventionKind.MonitorOnly, ia_priority = 10,
           ia_rationale = ''system nominal - continue observation''\<rparr>]
      in actions)
       | AlertSeverity.Info \<Rightarrow> (let actions = actions @
           [\<lparr>ia_kind = InterventionKind.MonitorOnly, ia_priority = 20,
           ia_rationale = ''minor degradation - increased observation frequency''\<rparr>]
      in if (shv_momentum_dir vector) = MomentumDir.Declining then (let actions = actions @
          [\<lparr>ia_kind = InterventionKind.TightenThresholds, ia_priority = 35,
          ia_rationale = ''declining momentum - tighten alert thresholds preemptively''\<rparr>]
      in actions)
      else actions)
       | AlertSeverity.Warn \<Rightarrow> (let actions = actions @
           [\<lparr>ia_kind = InterventionKind.TightenThresholds, ia_priority = 55,
           ia_rationale = ''degradation warrants threshold tightening''\<rparr>];
          actions = (if (shv_resilience_verdict vector) \<noteq> ResilienceVerdict.Stable \<and>
            (shv_resilience_verdict vector) \<noteq> ResilienceVerdict.Recovering then (let actions =
            actions @ [\<lparr>ia_kind = InterventionKind.ForceResilient, ia_priority = 60,
            ia_rationale = ''non-stable resilience - trigger recovery protocol''\<rparr>]
      in actions)
      else actions)
      in if (shv_pulse_verdict vector) \<noteq> PulseVerdict.Green then (let actions = actions @
          [\<lparr>ia_kind = InterventionKind.PulseReset, ia_priority = 50,
          ia_rationale = ''non-green pulse - reset baseline''\<rparr>]
      in actions)
      else actions)
       | AlertSeverity.Critical \<Rightarrow> (let actions = actions @
           [\<lparr>ia_kind = InterventionKind.ForceResilient, ia_priority = 75,
           ia_rationale = ''critical condition - resilience recovery required''\<rparr>];
          actions = (if (shv_condition vector) = OverallCondition.Emergency \<or> (shv_health_verdict
            vector) = HealthVerdict.Fail then (let actions = actions @
            [\<lparr>ia_kind = InterventionKind.EmergencyHalt, ia_priority = 90,
            ia_rationale = ''health failure - suspend adaptive events''\<rparr>]
      in actions)
      else actions);
          actions = (if \<not> (ConstitutionalPhase_is_operational (shv_phase vector)) then (let actions
            = actions @ [\<lparr>ia_kind = InterventionKind.PhaseRecovery, ia_priority = 80,
            ia_rationale = ''non-operational phase - force phase recovery''\<rparr>]
      in actions)
      else actions);
          actions = actions @ [\<lparr>ia_kind = InterventionKind.QuorumRecovery, ia_priority = 65,
            ia_rationale = ''critical alert - verify quorum integrity''\<rparr>]
      in actions)
       | AlertSeverity.Emergency \<Rightarrow> (let actions = actions @
           [\<lparr>ia_kind = InterventionKind.EmergencyHalt, ia_priority = 100,
           ia_rationale = ''emergency - immediate halt of adaptive mutations''\<rparr>];
          actions = actions @ [\<lparr>ia_kind = InterventionKind.PhaseRecovery, ia_priority = 95,
            ia_rationale = ''emergency - force phase recovery toward Nominal''\<rparr>];
          actions = actions @ [\<lparr>ia_kind = InterventionKind.QuorumRecovery, ia_priority = 85,
            ia_rationale = ''emergency - quorum re-establishment required''\<rparr>];
          actions = actions @ [\<lparr>ia_kind = InterventionKind.ForceResilient, ia_priority = 80,
            ia_rationale = ''emergency - resilience recovery protocol''\<rparr>]
      in if (shv_pulse_verdict vector) = PulseVerdict.Red then (let actions = actions @
          [\<lparr>ia_kind = InterventionKind.PulseReset, ia_priority = 75,
          ia_rationale = ''red pulse - reset constitutional pulse baseline''\<rparr>]
      in actions)
      else actions));
          actions = (if (AlertSeverity_as_u8 severity) \<ge> (AlertSeverity_as_u8 AlertSeverity.Warn)
            \<and> \<not> (list_ex (\<lambda>a. (ia_kind a) = InterventionKind.MonitorOnly) actions)
            then (let actions = actions @ [\<lparr>ia_kind = InterventionKind.MonitorOnly,
            ia_priority = 30, ia_rationale =
            ''elevated severity - maintain continuous observation''\<rparr>]
      in actions)
      else actions)
      in actions)"

definition intervention_recommender_plan_bytes ::
  "hash \<Rightarrow> AlertSeverity \<Rightarrow> u8 \<Rightarrow> u64 \<Rightarrow> bytes" where
  "intervention_recommender_plan_bytes prev severity top_priority epoch =
     hash_bytes prev @ [AlertSeverity_as_u8 severity] @ [top_priority] @ be8 epoch"

definition intervention_recommender_compute_plan_hash ::
  "sha \<Rightarrow> hash \<Rightarrow> AlertSeverity \<Rightarrow> u8 \<Rightarrow> u64 \<Rightarrow>
      hash" where
  "intervention_recommender_compute_plan_hash sha prev severity top_priority epoch =
     sha (intervention_recommender_plan_bytes prev severity top_priority epoch)"

definition build_plan :: "sha \<Rightarrow> u64 \<Rightarrow> AlertSeverity \<Rightarrow>
    SystemHealthVector \<Rightarrow> hash \<Rightarrow> InterventionPlan" where
  "build_plan sha epoch severity vector prev_hash =
     (let actions = sort_key action_rank (recommend_actions severity vector);
          top_priority = unwrap_or 0 (map_option ia_priority (first_opt actions));
          plan_hash = intervention_recommender_compute_plan_hash sha prev_hash severity top_priority
            epoch
      in \<lparr>ip_epoch = epoch, ip_severity = severity, ip_actions = actions,
           ip_plan_hash = plan_hash, ip_prev_plan_hash = prev_hash\<rparr>)"

record PlanHistory =
  ph2_plans :: "InterventionPlan list"

datatype PlanError = PlanError string

definition PlanHistory_new :: "PlanHistory" where
  "PlanHistory_new =
     \<lparr>ph2_plans = []\<rparr>"

definition PlanHistory_last_hash :: "PlanHistory \<Rightarrow> hash" where
  "PlanHistory_last_hash self =
     last_hash ip_plan_hash (ph2_plans self)"

definition PlanHistory_disruptive_count :: "PlanHistory \<Rightarrow> nat" where
  "PlanHistory_disruptive_count self =
     length (filter (\<lambda>a. InterventionKind_is_disruptive (ia_kind a)) (concat (map ip_actions
         (ph2_plans self))))"

definition PlanHistory_record ::
  "sha \<Rightarrow> u64 \<Rightarrow> AlertSeverity \<Rightarrow> SystemHealthVector \<Rightarrow>
      PlanHistory \<Rightarrow> (PlanError + InterventionPlan) \<times> PlanHistory" where
  "PlanHistory_record sha epoch severity vector self =
     (if ph2_plans self \<noteq> [] \<and> epoch \<le> (ip_epoch (last (ph2_plans self))) then (Inl
         (PlanError ''epoch must be strictly greater''), self)
      else (let prev_hash = PlanHistory_last_hash self;
          plan = build_plan sha epoch severity vector prev_hash;
          self = self\<lparr>ph2_plans := (ph2_plans self) @ [plan]\<rparr>
      in (Inr (last (ph2_plans self)), self)))"

definition InterventionPlan_bytes_of :: "InterventionPlan \<Rightarrow> bytes" where
  "InterventionPlan_bytes_of p =
     intervention_recommender_plan_bytes (ip_prev_plan_hash p) (ip_severity p) (unwrap_or 0 (map_option
         ia_priority (first_opt (ip_actions p)))) (ip_epoch p)"

definition PlanHistory_verify_chain ::
  "sha \<Rightarrow> PlanHistory \<Rightarrow> bool \<times> nat option" where
  "PlanHistory_verify_chain sha self =
     verify_from ip_prev_plan_hash ip_plan_hash (\<lambda>r. sha (InterventionPlan_bytes_of r)) 0
         genesis (ph2_plans self)"

lemma intervention_recommender_plan_bytes_inj:
  "intervention_recommender_plan_bytes prev severity top_priority epoch =
      intervention_recommender_plan_bytes prev' severity' top_priority' epoch' \<longleftrightarrow>
   prev = prev' \<and> severity = severity' \<and> top_priority = top_priority' \<and> epoch = epoch'"
  by (auto simp: intervention_recommender_plan_bytes_def enc_simps)

definition InterventionPlan_committed :: "InterventionPlan \<Rightarrow> AlertSeverity \<times> u8
    \<times> u64" where
  "InterventionPlan_committed p =
     (ip_severity p, unwrap_or 0 (map_option ia_priority (first_opt (ip_actions p))), ip_epoch p)"

interpretation intervention_recommender: hash_log InterventionPlan_bytes_of ip_prev_plan_hash
    ip_plan_hash InterventionPlan_committed
  by unfold_locales (auto simp: InterventionPlan_bytes_of_def InterventionPlan_committed_def
      intervention_recommender_plan_bytes_inj)

lemma intervention_recommender_verify_iff: "PlanHistory_verify_chain sha l = (True,
    None) \<longleftrightarrow> intervention_recommender.ok sha (ph2_plans l)"
  by (simp add: PlanHistory_verify_chain_def verify_from_iff)

lemma build_plan_linked:
  "ip_prev_plan_hash (build_plan sha epoch severity vector prev_hash) = prev_hash"
  "ip_plan_hash (build_plan sha epoch severity vector prev_hash) = sha (InterventionPlan_bytes_of
      (build_plan sha epoch severity vector prev_hash))"
  by (simp_all add: build_plan_def intervention_recommender_compute_plan_hash_def
      InterventionPlan_bytes_of_def Let_def split_def)

lemma plan_history_record_ok: "intervention_recommender.ok sha (ph2_plans l) \<Longrightarrow>
    intervention_recommender.ok sha (ph2_plans (snd (PlanHistory_record sha epoch severity vector l)))"
  by (simp add: Let_def split_def PlanHistory_record_def PlanHistory_last_hash_def build_plan_linked
      split: option.split sum.split)

section \<open>Recovery Sequencer: time-ordered step execution with progress hash (Gate 252)\<close>

text \<open>
  \<open>recovery_sequencer.rs\<close>. Sequences the top-priority InterventionActions from a set of
  InterventionPlans into a time-ordered RecoverySequence with StepStatus tracking.
\<close>

datatype StepStatus = Pending | InProgress | Completed | Skipped

fun StepStatus_as_u8 :: "StepStatus \<Rightarrow> u8" where
  "StepStatus_as_u8 StepStatus.Pending = 0"
| "StepStatus_as_u8 StepStatus.InProgress = 1"
| "StepStatus_as_u8 StepStatus.Completed = 2"
| "StepStatus_as_u8 StepStatus.Skipped = 3"

lemma StepStatus_as_u8_inj [simp]: "StepStatus_as_u8 x = StepStatus_as_u8 y \<longleftrightarrow> x = y"
  by (cases x; cases y) auto

definition StepStatus_is_terminal :: "StepStatus \<Rightarrow> bool" where
  "StepStatus_is_terminal self \<longleftrightarrow>
     self = StepStatus.Completed \<or> self = StepStatus.Skipped"

record RecoveryStep =
  rs2_step_index :: nat
  rs2_epoch :: u64
  rs2_kind :: InterventionKind
  rs2_priority :: u8
  rs2_status :: StepStatus
  rs2_step_hash :: hash

definition step_bytes ::
  "hash \<Rightarrow> InterventionKind \<Rightarrow> StepStatus \<Rightarrow> u64 \<Rightarrow> bytes"
      where
  "step_bytes prev kind status epoch =
     hash_bytes prev @ [InterventionKind_as_u8 kind] @ [StepStatus_as_u8 status] @ be8 epoch"

definition compute_step_hash ::
  "sha \<Rightarrow> hash \<Rightarrow> InterventionKind \<Rightarrow> StepStatus \<Rightarrow> u64
      \<Rightarrow> hash" where
  "compute_step_hash sha prev kind status epoch =
     sha (step_bytes prev kind status epoch)"

record RecoverySequence =
  rs3_epoch :: u64
  rs3_steps :: "RecoveryStep list"
  rs3_sequence_hash :: hash
  rs3_completed_count :: nat
  rs3_pending_count :: nat
  rs3_is_complete :: bool

definition first_of_kind :: "InterventionAction \<Rightarrow> InterventionAction list \<Rightarrow>
    InterventionAction list" where
  "first_of_kind action unique_actions =
     (if ia_kind action \<in> ia_kind ` set unique_actions then unique_actions
      else unique_actions @ [action])"

fun pending_steps :: "sha \<Rightarrow> u64 \<Rightarrow> nat \<Rightarrow> hash \<Rightarrow>
    InterventionAction list \<Rightarrow> RecoveryStep list" where
  "pending_steps sha epoch i prev_hash [] = []"
| "pending_steps sha epoch i prev_hash (action # rest) =
     (let step_hash = compute_step_hash sha prev_hash (ia_kind action) StepStatus.Pending epoch
      in \<lparr>rs2_step_index = i, rs2_epoch = epoch, rs2_kind = ia_kind action,
           rs2_priority = ia_priority action, rs2_status = StepStatus.Pending,
           rs2_step_hash = step_hash\<rparr> # pending_steps sha epoch (i + 1) step_hash rest)"

definition compute_sequence_hash :: "sha \<Rightarrow> RecoveryStep list \<Rightarrow> u64 \<Rightarrow>
    hash" where
  "compute_sequence_hash sha steps epoch =
     sha (concat (map (\<lambda>s. hash_bytes (rs2_step_hash s)) steps) @ be8 epoch)"

definition sequence_of_steps :: "sha \<Rightarrow> u64 \<Rightarrow> RecoveryStep list \<Rightarrow>
    RecoverySequence" where
  "sequence_of_steps sha epoch steps =
     \<lparr>rs3_epoch = epoch, rs3_steps = steps,
       rs3_sequence_hash = compute_sequence_hash sha steps epoch,
       rs3_completed_count = length (filter (\<lambda>s. rs2_status s = StepStatus.Completed) steps),
       rs3_pending_count = length (filter (\<lambda>s. rs2_status s = StepStatus.Pending) steps),
       rs3_is_complete = list_all (\<lambda>s. rs2_status s = StepStatus.Completed)
         (filter (\<lambda>s. rs2_status s \<noteq> StepStatus.Skipped) steps)\<rparr>"

definition build_sequence :: "sha \<Rightarrow> u64 \<Rightarrow> InterventionPlan list \<Rightarrow>
    RecoverySequence" where
  "build_sequence sha epoch plans =
     (let unique_actions = fold first_of_kind (concat (map ip_actions plans)) []
      in sequence_of_steps sha epoch (pending_steps sha epoch 0 genesis (sort_key action_rank
          unique_actions)))"

fun rehash_steps :: "sha \<Rightarrow> u64 \<Rightarrow> hash \<Rightarrow> RecoveryStep list
    \<Rightarrow> RecoveryStep list" where
  "rehash_steps sha epoch ph [] = []"
| "rehash_steps sha epoch ph (s # rest) =
     (let new_h = compute_step_hash sha ph (rs2_kind s) (rs2_status s) epoch
      in s\<lparr>rs2_step_hash := new_h\<rparr> # rehash_steps sha epoch new_h rest)"

datatype SequenceError = SequenceError string

definition advance_step :: "sha \<Rightarrow> RecoverySequence \<Rightarrow> nat \<Rightarrow>
    StepStatus \<Rightarrow> SequenceError + RecoverySequence" where
  "advance_step sha sequence step_index new_status =
     (let steps = rs3_steps sequence; epoch = rs3_epoch sequence
      in if step_index \<ge> length steps then Inl (SequenceError ''step_index out of bounds'')
         else if StepStatus_is_terminal (rs2_status (steps ! step_index))
         then Inl (SequenceError ''step is already terminal'')
         else
           (let prev_hash = (if step_index = 0 then genesis else rs2_step_hash (steps ! (step_index -
             1)));
                new_hash = compute_step_hash sha prev_hash (rs2_kind (steps ! step_index)) new_status
                  epoch;
                advanced = (steps ! step_index)\<lparr>rs2_status := new_status,
                  rs2_step_hash := new_hash\<rparr>
            in Inr (sequence_of_steps sha epoch
                 (take step_index steps @ [advanced] @ rehash_steps sha epoch new_hash (drop (step_index
                   + 1) steps)))))"

subsection \<open>Moves of a sequence\<close>

text \<open>
  What a sequence does, without its hashes: a move sets the status of a step that is there and is not
  terminal, and changes nothing otherwise.
\<close>

definition move_status :: "nat \<times> StepStatus \<Rightarrow> StepStatus list \<Rightarrow> StepStatus list" where
  "move_status m ss =
     (if fst m < length ss \<and> \<not> StepStatus_is_terminal (ss ! fst m) then ss[fst m := snd m] else ss)"

definition advance :: "sha \<Rightarrow> nat \<times> StepStatus \<Rightarrow> RecoverySequence \<Rightarrow> RecoverySequence" where
  "advance sha m q = (case advance_step sha q (fst m) (snd m) of Inl _ \<Rightarrow> q | Inr q' \<Rightarrow> q')"

fun steps_linked :: "sha \<Rightarrow> u64 \<Rightarrow> hash \<Rightarrow> RecoveryStep list \<Rightarrow> bool" where
  "steps_linked sha epoch prev [] \<longleftrightarrow> True"
| "steps_linked sha epoch prev (s # rest) \<longleftrightarrow>
     rs2_step_hash s = compute_step_hash sha prev (rs2_kind s) (rs2_status s) epoch \<and>
     steps_linked sha epoch (rs2_step_hash s) rest"

definition sequence_ok :: "sha \<Rightarrow> RecoverySequence \<Rightarrow> bool" where
  "sequence_ok sha q \<longleftrightarrow>
     q = sequence_of_steps sha (rs3_epoch q) (rs3_steps q) \<and> steps_linked sha (rs3_epoch q) genesis (rs3_steps q)"

definition statuses :: "RecoverySequence \<Rightarrow> StepStatus list" where
  "statuses q = map rs2_status (rs3_steps q)"

definition step_plan :: "RecoverySequence \<Rightarrow> (nat \<times> u64 \<times> InterventionKind \<times> u8) list" where
  "step_plan q = map (\<lambda>s. (rs2_step_index s, rs2_epoch s, rs2_kind s, rs2_priority s)) (rs3_steps q)"

lemma steps_linked_append:
  "steps_linked sha e prev (xs @ ys) \<longleftrightarrow>
     steps_linked sha e prev xs \<and> steps_linked sha e (if xs = [] then prev else rs2_step_hash (last xs)) ys"
  by (induction xs arbitrary: prev) auto

lemma rehash_linked: "steps_linked sha e prev (rehash_steps sha e prev ss)"
  by (induction ss arbitrary: prev) (auto simp: Let_def)

lemma rehash_keeps [simp]:
  "map rs2_status (rehash_steps sha e prev ss) = map rs2_status ss"
  "map (\<lambda>s. (rs2_step_index s, rs2_epoch s, rs2_kind s, rs2_priority s)) (rehash_steps sha e prev ss) =
   map (\<lambda>s. (rs2_step_index s, rs2_epoch s, rs2_kind s, rs2_priority s)) ss"
  by (induction ss arbitrary: prev) (auto simp: Let_def)

lemma pending_linked: "steps_linked sha e prev (pending_steps sha e i prev as)"
  by (induction "as" arbitrary: i prev) (auto simp: Let_def)

lemma pending_views:
  "map rs2_status (pending_steps sha e i prev as) = replicate (length as) StepStatus.Pending"
  "map rs2_kind (pending_steps sha e i prev as) = map ia_kind as"
  "map (\<lambda>s. (rs2_step_index s, rs2_epoch s, rs2_kind s, rs2_priority s)) (pending_steps sha e i prev as) =
   map (\<lambda>(j, a). (j, e, ia_kind a, ia_priority a)) (zip [i..<i + length as] as)"
  by (induction "as" arbitrary: i prev) (auto simp: Let_def upt_conv_Cons simp del: upt_Suc)

lemma sequence_of_steps_simps [simp]:
  "rs3_epoch (sequence_of_steps sha e ss) = e" "rs3_steps (sequence_of_steps sha e ss) = ss"
  "rs3_sequence_hash (sequence_of_steps sha e ss) = compute_sequence_hash sha ss e"
  by (simp_all add: sequence_of_steps_def)

lemma sequence_ok_of_steps: "sequence_ok sha (sequence_of_steps sha e ss) \<longleftrightarrow> steps_linked sha e genesis ss"
  by (simp add: sequence_ok_def)

lemma map_list_update_split:
  "i < length xs \<Longrightarrow> map f (take i xs @ [x] @ drop (i + 1) xs) = (map f xs)[i := f x]"
  by (simp add: upd_conv_take_nth_drop take_map drop_map)

lemma advance_step_sound:
  assumes "sequence_ok sha q"
  shows "case advance_step sha q i st of
      Inl _ \<Rightarrow> move_status (i, st) (statuses q) = statuses q \<and>
        (i \<ge> length (statuses q) \<or> StepStatus_is_terminal (statuses q ! i))
    | Inr q' \<Rightarrow> sequence_ok sha q' \<and> statuses q' = move_status (i, st) (statuses q) \<and>
        step_plan q' = step_plan q \<and> rs3_epoch q' = rs3_epoch q \<and> i < length (statuses q) \<and>
        \<not> StepStatus_is_terminal (statuses q ! i) \<and> statuses q' = (statuses q)[i := st]"
proof (cases "i < length (rs3_steps q) \<and> \<not> StepStatus_is_terminal (rs2_status (rs3_steps q ! i))")
  case True
  define ss e s where "ss = rs3_steps q" and "e = rs3_epoch q" and "s = ss ! i"
  define h where "h = compute_step_hash sha (if i = 0 then genesis else rs2_step_hash (ss ! (i - 1))) (rs2_kind s) st e"
  define s' where "s' = s\<lparr>rs2_status := st, rs2_step_hash := h\<rparr>"
  define ss' where "ss' = take i ss @ [s'] @ rehash_steps sha e h (drop (i + 1) ss)"
  have r: "advance_step sha q i st = Inr (sequence_of_steps sha e ss')"
    using True by (simp add: advance_step_def Let_def ss'_def s'_def h_def s_def ss_def e_def)
  have i: "i < length ss" using True by (simp add: ss_def)
  have "steps_linked sha e genesis (take i ss)"
    using assms steps_linked_append [of sha e genesis "take i ss" "drop i ss"] by (simp add: sequence_ok_def ss_def e_def)
  moreover have "i \<noteq> 0 \<Longrightarrow> last (take i ss) = ss ! (i - 1)"
    using i by (subst last_conv_nth) (auto simp: min_def)
  ultimately have "steps_linked sha e genesis ss'"
    using i by (auto simp: ss'_def steps_linked_append s'_def h_def rehash_linked)
  moreover have "map rs2_status ss' = (map rs2_status ss)[i := st]"
    using i by (simp add: ss'_def s'_def upd_conv_take_nth_drop take_map drop_map)
  moreover have "map (\<lambda>s. (rs2_step_index s, rs2_epoch s, rs2_kind s, rs2_priority s)) ss' =
      (map (\<lambda>s. (rs2_step_index s, rs2_epoch s, rs2_kind s, rs2_priority s)) ss)
        [i := (rs2_step_index s, rs2_epoch s, rs2_kind s, rs2_priority s)]"
    using i by (simp add: ss'_def s'_def upd_conv_take_nth_drop take_map drop_map)
  then have "map (\<lambda>s. (rs2_step_index s, rs2_epoch s, rs2_kind s, rs2_priority s)) ss' =
      map (\<lambda>s. (rs2_step_index s, rs2_epoch s, rs2_kind s, rs2_priority s)) ss"
    using i by (simp add: s_def list_update_same_conv)
  ultimately show ?thesis
    using True i by (simp add: r sequence_ok_of_steps statuses_def step_plan_def move_status_def ss_def e_def)
next
  case False
  then show ?thesis
    by (auto simp: advance_step_def Let_def move_status_def statuses_def)
qed

lemma advance_sound:
  assumes "sequence_ok sha q"
  shows "sequence_ok sha (advance sha m q) \<and> statuses (advance sha m q) = move_status m (statuses q) \<and>
    step_plan (advance sha m q) = step_plan q \<and> rs3_epoch (advance sha m q) = rs3_epoch q"
  using advance_step_sound [OF assms, of "fst m" "snd m"] assms by (auto simp: advance_def split: sum.splits)

lemma advances_sound:
  assumes "sequence_ok sha q"
  shows "sequence_ok sha (run (advance sha) ms q) \<and> statuses (run (advance sha) ms q) = run move_status ms (statuses q) \<and>
    step_plan (run (advance sha) ms q) = step_plan q \<and> rs3_epoch (run (advance sha) ms q) = rs3_epoch q"
  using assms by (induction ms arbitrary: q) (simp_all add: advance_sound)

lemma moved_terminal:
  "i < length ss \<Longrightarrow> StepStatus_is_terminal (ss ! i) \<Longrightarrow>
     length (run move_status ms ss) = length ss \<and> run move_status ms ss ! i = ss ! i"
proof (induction ms arbitrary: ss)
  case (Cons m ms)
  then have "i < length (move_status m ss)" "move_status m ss ! i = ss ! i"
    by (auto simp: move_status_def nth_list_update)
  then show ?case using Cons by (simp add: move_status_def)
qed simp

subsection \<open>What a sequence holds\<close>

lemma first_of_kind_kinds:
  "distinct (map ia_kind us) \<Longrightarrow> distinct (map ia_kind (first_of_kind a us))"
  "ia_kind ` set (first_of_kind a us) = insert (ia_kind a) (ia_kind ` set us)"
  by (auto simp: first_of_kind_def)

lemma firsts_of_kinds:
  "distinct (map ia_kind us) \<Longrightarrow> distinct (map ia_kind (fold first_of_kind as us)) \<and>
     ia_kind ` set (fold first_of_kind as us) = ia_kind ` (set as \<union> set us)"
  by (induction "as" arbitrary: us) (simp_all add: first_of_kind_kinds image_Un)

lemma first_of_kind_found:
  "a \<in> set (fold first_of_kind as us) \<Longrightarrow>
     a \<in> set us \<or> (ia_kind a \<notin> ia_kind ` set us \<and> find (\<lambda>b. ia_kind b = ia_kind a) as = Some a)"
proof (induction "as" arbitrary: us)
  case (Cons x xs)
  then have "a \<in> set (first_of_kind x us) \<or> (ia_kind a \<notin> ia_kind ` set (first_of_kind x us) \<and>
      find (\<lambda>b. ia_kind b = ia_kind a) xs = Some a)"
    by simp
  then show ?case by (auto simp: first_of_kind_kinds(2)) (auto simp: first_of_kind_def split: if_splits)
qed simp

lemma distinct_sort_key: "distinct (map f (sort_key k xs)) \<longleftrightarrow> distinct (map f xs)"
proof -
  have "mset (map f (sort_key k xs)) = mset (map f xs)" by simp
  then show ?thesis by (rule mset_eq_imp_distinct_iff)
qed

lemma build_sequence_ok: "sequence_ok sha (build_sequence sha e plans)"
  by (simp add: build_sequence_def Let_def sequence_ok_of_steps pending_linked)

abbreviation unique_actions :: "InterventionPlan list \<Rightarrow> InterventionAction list" where
  "unique_actions plans \<equiv> sort_key action_rank (fold first_of_kind (concat (map ip_actions plans)) [])"

lemma unique_actions_kinds:
  "distinct (map ia_kind (unique_actions plans))"
  "ia_kind ` set (unique_actions plans) = ia_kind ` set (concat (map ip_actions plans))"
  "sorted (map action_rank (unique_actions plans))"
  using firsts_of_kinds [of "[]" "concat (map ip_actions plans)"] by (simp_all add: distinct_sort_key)

lemma build_sequence_views:
  "statuses (build_sequence sha e plans) = replicate (length (unique_actions plans)) StepStatus.Pending"
  "step_plan (build_sequence sha e plans) =
     map (\<lambda>(j, a). (j, e, ia_kind a, ia_priority a)) (zip [0..<length (unique_actions plans)] (unique_actions plans))"
  "map rs2_kind (rs3_steps (build_sequence sha e plans)) = map ia_kind (unique_actions plans)"
  "rs3_epoch (build_sequence sha e plans) = e"
  using pending_views [of sha e 0 genesis "unique_actions plans"]
  by (simp_all add: build_sequence_def Let_def statuses_def step_plan_def)

subsection \<open>What the hash of a sequence commits to\<close>

definition hashed_steps :: "u64 \<Rightarrow> RecoveryStep list \<Rightarrow> bytes set" where
  "hashed_steps e ss = {step_bytes h (rs2_kind s) (rs2_status s) e | h s. s \<in> set ss}"

definition hashed_bytes :: "RecoverySequence \<Rightarrow> bytes set" where
  "hashed_bytes q = insert (concat (map hash_bytes (map rs2_step_hash (rs3_steps q))) @ be8 (rs3_epoch q))
     (hashed_steps (rs3_epoch q) (rs3_steps q))"

lemma hashed_steps_Cons:
  "step_bytes p (rs2_kind s) (rs2_status s) e \<in> hashed_steps e (s # ss)" "hashed_steps e ss \<subseteq> hashed_steps e (s # ss)"
  by (auto simp: hashed_steps_def)

lemma sequence_ok_hash:
  "sequence_ok sha q \<Longrightarrow> rs3_sequence_hash q =
     sha (concat (map hash_bytes (map rs2_step_hash (rs3_steps q))) @ be8 (rs3_epoch q))"
  unfolding sequence_ok_def using sequence_of_steps_simps(3) [of sha "rs3_epoch q" "rs3_steps q"]
  by (simp add: compute_sequence_hash_def o_def)

lemma concat_hash_bytes_inj:
  "concat (map hash_bytes hs) @ be8 (e :: u64) = concat (map hash_bytes hs') @ be8 e' \<longleftrightarrow> hs = hs' \<and> e = e'"
proof
  assume eq: "concat (map hash_bytes hs) @ be8 e = concat (map hash_bytes hs') @ be8 e'"
  have l: "length (concat (map hash_bytes hs)) = 32 * length hs" for hs
    by (induction hs) auto
  have "length hs = length hs'" using arg_cong [OF eq, of length] by (simp add: l del: length_concat)
  moreover from this have "concat (map hash_bytes hs) = concat (map hash_bytes hs')" "be8 e = be8 e'"
    using eq by (simp_all add: l append_eq_append_conv del: length_concat)
  moreover have "hs = hs'" if "length hs = length hs'" "concat (map hash_bytes hs) = concat (map hash_bytes hs')"
    using that by (induction hs hs' rule: list_induct2) (simp_all add: enc_simps)
  ultimately show "hs = hs' \<and> e = e'"
    by (simp add: enc_simps)
qed auto

lemma linked_hashes_commit:
  assumes "steps_linked sha e p ss" and "steps_linked sha e p ts" and "map rs2_step_hash ss = map rs2_step_hash ts"
  shows "map (\<lambda>s. (rs2_kind s, rs2_status s)) ss = map (\<lambda>s. (rs2_kind s, rs2_status s)) ts \<or>
    forgery sha (hashed_steps e ss \<union> hashed_steps e ts)"
  using assms
proof (induction ss arbitrary: p ts)
  case (Cons s ss)
  then obtain t ts' where ts: "ts = t # ts'" by (cases ts) auto
  let ?b = "\<lambda>s. step_bytes p (rs2_kind s) (rs2_status s) e"
  have same: "sha (?b s) = sha (?b t)" using Cons.prems by (simp add: ts compute_step_hash_def)
  show ?case
  proof (cases "?b s = ?b t")
    case True
    then have kinds: "rs2_kind s = rs2_kind t \<and> rs2_status s = rs2_status t"
      by (simp add: step_bytes_def enc_simps)
    have tl: "steps_linked sha e (rs2_step_hash s) ss"
      using Cons.prems(1) unfolding steps_linked.simps by (rule conjunct2)
    have tl': "steps_linked sha e (rs2_step_hash t) ts'"
      using Cons.prems(2) unfolding ts steps_linked.simps by (rule conjunct2)
    have hs: "rs2_step_hash t = rs2_step_hash s" "map rs2_step_hash ss = map rs2_step_hash ts'"
      using Cons.prems(3) by (simp_all add: ts)
    have IH: "map (\<lambda>s. (rs2_kind s, rs2_status s)) ss = map (\<lambda>s. (rs2_kind s, rs2_status s)) ts' \<or>
        forgery sha (hashed_steps e ss \<union> hashed_steps e ts')"
      by (rule Cons.IH [OF tl tl' [unfolded hs(1)] hs(2)])
    have "hashed_steps e ss \<union> hashed_steps e ts' \<subseteq> hashed_steps e (s # ss) \<union> hashed_steps e (t # ts')"
      using hashed_steps_Cons(2) by blast
    then have "forgery sha (hashed_steps e ss \<union> hashed_steps e ts') \<longrightarrow> forgery sha (hashed_steps e (s # ss) \<union> hashed_steps e (t # ts'))"
      by (simp add: forgery_mono)
    with IH kinds show ?thesis unfolding ts list.map by (elim disjE) simp_all
  next
    case False
    have "forgery sha (hashed_steps e (s # ss) \<union> hashed_steps e (t # ts'))"
      by (rule forgery_collision [OF same False]) (simp_all add: hashed_steps_Cons)
    then show ?thesis unfolding ts ..
  qed
qed simp

lemma sequence_hash_commits:
  assumes "sequence_ok sha q" and "sequence_ok sha r" and "rs3_sequence_hash q = rs3_sequence_hash r"
  shows "(rs3_epoch q = rs3_epoch r \<and> map rs2_kind (rs3_steps q) = map rs2_kind (rs3_steps r) \<and>
      statuses q = statuses r) \<or> forgery sha (hashed_bytes q \<union> hashed_bytes r)"
proof -
  let ?b = "\<lambda>q. concat (map hash_bytes (map rs2_step_hash (rs3_steps q))) @ be8 (rs3_epoch q)"
  let ?v = "map (\<lambda>s. (rs2_kind s, rs2_status s))"
  have same: "sha (?b q) = sha (?b r)" using assms by (simp only: sequence_ok_hash)
  show ?thesis
  proof (cases "?b q = ?b r")
    case True
    then have eq: "map rs2_step_hash (rs3_steps q) = map rs2_step_hash (rs3_steps r)" "rs3_epoch q = rs3_epoch r"
      by (simp_all only: concat_hash_bytes_inj)
    have "steps_linked sha (rs3_epoch q) genesis (rs3_steps q)" "steps_linked sha (rs3_epoch q) genesis (rs3_steps r)"
      using assms(1,2) eq(2) by (simp_all add: sequence_ok_def)
    from linked_hashes_commit [OF this eq(1)] show ?thesis
    proof
      assume "?v (rs3_steps q) = ?v (rs3_steps r)"
      then have "map fst (?v (rs3_steps q)) = map fst (?v (rs3_steps r))"
          "map snd (?v (rs3_steps q)) = map snd (?v (rs3_steps r))"
        by simp_all
      then show ?thesis using eq(2) by (simp add: o_def statuses_def)
    next
      assume "forgery sha (hashed_steps (rs3_epoch q) (rs3_steps q) \<union> hashed_steps (rs3_epoch q) (rs3_steps r))"
      then have "forgery sha (hashed_bytes q \<union> hashed_bytes r)"
        by (rule forgery_mono) (auto simp: hashed_bytes_def eq(2))
      then show ?thesis ..
    qed
  next
    case False
    have "forgery sha (hashed_bytes q \<union> hashed_bytes r)"
      by (rule forgery_collision [OF same False]) (simp_all only: hashed_bytes_def insert_iff Un_iff simp_thms)
    then show ?thesis ..
  qed
qed

subsection \<open>The contract of a sequence\<close>

lemma sequence_ok_counts:
  assumes "sequence_ok sha q"
  shows "rs3_completed_count q = length (filter (\<lambda>s. s = StepStatus.Completed) (statuses q))"
    and "rs3_pending_count q = length (filter (\<lambda>s. s = StepStatus.Pending) (statuses q))"
    and "rs3_is_complete q \<longleftrightarrow> list_all StepStatus_is_terminal (statuses q)"
proof -
  have q: "q = sequence_of_steps sha (rs3_epoch q) (rs3_steps q)" using assms by (simp add: sequence_ok_def)
  have s: "statuses (sequence_of_steps sha e ss) = map rs2_status ss" for e ss by (simp add: statuses_def)
  show "rs3_completed_count q = length (filter (\<lambda>s. s = StepStatus.Completed) (statuses q))"
    "rs3_pending_count q = length (filter (\<lambda>s. s = StepStatus.Pending) (statuses q))"
    by (subst q, subst (3) q, simp add: sequence_of_steps_def statuses_def filter_map o_def)+
  show "rs3_is_complete q \<longleftrightarrow> list_all StepStatus_is_terminal (statuses q)"
    by (subst q, subst (3) q)
      (auto simp: sequence_of_steps_def statuses_def list_all_iff StepStatus_is_terminal_def)
qed

lemma step_of_build:
  assumes "s \<in> set (rs3_steps (build_sequence sha e plans))"
  shows "rs2_epoch s = e \<and> map_option ia_priority
    (find (\<lambda>a. ia_kind a = rs2_kind s) (concat (map ip_actions plans))) = Some (rs2_priority s)"
proof -
  let ?us = "unique_actions plans"
  have "(rs2_step_index s, rs2_epoch s, rs2_kind s, rs2_priority s) \<in> set (step_plan (build_sequence sha e plans))"
    using assms by (auto simp: step_plan_def)
  then obtain a where a: "a \<in> set ?us" "rs2_epoch s = e" "rs2_kind s = ia_kind a" "rs2_priority s = ia_priority a"
    unfolding build_sequence_views(2) by (auto dest: set_zip_rightD)
  then have "find (\<lambda>b. ia_kind b = ia_kind a) (concat (map ip_actions plans)) = Some a"
    using first_of_kind_found [of a "concat (map ip_actions plans)" "[]"] by simp
  then show ?thesis using a by simp
qed

lemma step_plan_same:
  assumes "step_plan q = step_plan r"
  shows "map rs2_kind (rs3_steps q) = map rs2_kind (rs3_steps r)"
    and "map rs2_step_index (rs3_steps q) = map rs2_step_index (rs3_steps r)"
    and "map (\<lambda>s. f (rs2_epoch s) (rs2_kind s) (rs2_priority s)) (rs3_steps q) =
      map (\<lambda>s. f (rs2_epoch s) (rs2_kind s) (rs2_priority s)) (rs3_steps r)"
  using arg_cong [OF assms, of "map (\<lambda>(i, e, k, p). k)"] arg_cong [OF assms, of "map (\<lambda>(i, e, k, p). i)"]
    arg_cong [OF assms, of "map (\<lambda>(i, e, k, p). f e k p)"]
  by (simp_all add: step_plan_def o_def)

lemma step_plan_step:
  assumes "step_plan q = step_plan r" and "s \<in> set (rs3_steps q)"
  obtains t where "t \<in> set (rs3_steps r)" "rs2_epoch t = rs2_epoch s" "rs2_kind t = rs2_kind s"
    "rs2_priority t = rs2_priority s"
proof -
  have "(rs2_step_index s, rs2_epoch s, rs2_kind s, rs2_priority s) \<in> set (step_plan q)"
    using assms(2) by (simp add: step_plan_def)
  then have "(rs2_step_index s, rs2_epoch s, rs2_kind s, rs2_priority s) \<in> set (step_plan r)"
    by (simp add: assms(1))
  then show thesis using that by (auto simp: step_plan_def)
qed

lemma build_sequence_holds:
  fixes sha e plans
  defines "ss \<equiv> rs3_steps (build_sequence sha e plans)"
  shows "distinct (map rs2_kind ss)" and "rs2_kind ` set ss = ia_kind ` set (concat (map ip_actions plans))"
    and "map rs2_step_index ss = [0..<length ss]"
    and "sorted (map (\<lambda>s. (255 - unat (rs2_priority s), InterventionKind_as_u8 (rs2_kind s))) ss)"
proof -
  let ?us = "unique_actions plans"
  note views = build_sequence_views [of sha e plans]
  have kinds: "map rs2_kind ss = map ia_kind ?us" using views(3) by (simp add: ss_def)
  show "distinct (map rs2_kind ss)" using unique_actions_kinds(1) kinds by simp
  show "rs2_kind ` set ss = ia_kind ` set (concat (map ip_actions plans))"
    using unique_actions_kinds(2) [of plans] arg_cong [OF kinds, of set] by simp
  have n: "length ss = length ?us" using arg_cong [OF kinds, of length] by simp
  have plan: "map (\<lambda>s. (rs2_step_index s, rs2_epoch s, rs2_kind s, rs2_priority s)) ss =
      map (\<lambda>(j, a). (j, e, ia_kind a, ia_priority a)) (zip [0..<length ss] ?us)"
    using views(2) by (simp add: step_plan_def ss_def [symmetric] n)
  show "map rs2_step_index ss = [0..<length ss]"
    using arg_cong [OF plan, of "map fst"] n by (simp add: o_def split_def)
  have "map (\<lambda>s. (255 - unat (rs2_priority s), InterventionKind_as_u8 (rs2_kind s))) ss =
      map action_rank (map snd (zip [0..<length ss] ?us))"
    using arg_cong [OF plan, of "map (\<lambda>(j, e, k, p). (255 - unat p, InterventionKind_as_u8 k))"]
    by (simp add: o_def split_def action_rank_def del: map_snd_zip)
  also have "map snd (zip [0..<length ss] ?us) = ?us" by (simp add: n)
  finally have "map (\<lambda>s. (255 - unat (rs2_priority s), InterventionKind_as_u8 (rs2_kind s))) ss = map action_rank ?us" .
  then show "sorted (map (\<lambda>s. (255 - unat (rs2_priority s), InterventionKind_as_u8 (rs2_kind s))) ss)"
    using unique_actions_kinds(3) by simp
qed

lemma moved_length [simp]: "length (run move_status ms ss) = length ss"
  by (induction ms arbitrary: ss) (simp_all add: move_status_def)
text \<open>
  C28.  Whatever plans a sequence is built from and whatever moves are tried on it, it holds each kind
  of the plans once, with the priority of its first action, sorted by priority and kind and numbered from
  0; the statuses follow the moves, where a move is refused exactly if its step is not there or terminal;
  the counts and completeness are those of the statuses (a sequence is complete once every step is
  terminal); and two sequences with one hash agree in their epoch, kinds and statuses, or the hash was
  forged.
\<close>

theorem recovery_sequence_exact:
  "let as = concat (map ip_actions plans);
       q = run (advance sha) ms (build_sequence sha e plans);
       r = run (advance sha) ms' (build_sequence sha e' plans');
       kinds = map rs2_kind (rs3_steps q);
       n = length kinds
   in (distinct kinds \<and> set kinds = ia_kind ` set as \<and> map rs2_step_index (rs3_steps q) = [0..<n] \<and>
       sorted (map (\<lambda>s. (255 - unat (rs2_priority s), InterventionKind_as_u8 (rs2_kind s))) (rs3_steps q)) \<and>
       (\<forall>s \<in> set (rs3_steps q). rs2_epoch s = e \<and>
          map_option ia_priority (find (\<lambda>a. ia_kind a = rs2_kind s) as) = Some (rs2_priority s))) \<and>
      (statuses q = run move_status ms (replicate n StepStatus.Pending) \<and>
       (\<forall>i st. case advance_step sha q i st of
            Inl _ \<Rightarrow> n \<le> i \<or> StepStatus_is_terminal (statuses q ! i)
          | Inr q' \<Rightarrow> i < n \<and> \<not> StepStatus_is_terminal (statuses q ! i) \<and> statuses q' = (statuses q)[i := st])) \<and>
      (rs3_completed_count q = length (filter (\<lambda>s. s = StepStatus.Completed) (statuses q)) \<and>
       rs3_pending_count q = length (filter (\<lambda>s. s = StepStatus.Pending) (statuses q)) \<and>
       (rs3_is_complete q \<longleftrightarrow> list_all StepStatus_is_terminal (statuses q))) \<and>
      (rs3_sequence_hash q = rs3_sequence_hash r \<longrightarrow>
         (e = e' \<and> kinds = map rs2_kind (rs3_steps r) \<and> statuses q = statuses r) \<or>
         forgery sha (hashed_bytes q \<union> hashed_bytes r))"
  (is "let as = _; q = ?q; r = ?r; kinds = _; n = _ in _")
proof -
  let ?b = "build_sequence sha e plans"
  note b = build_sequence_holds [of sha e plans]
  have q: "sequence_ok sha ?q" "statuses ?q = run move_status ms (statuses ?b)" "step_plan ?q = step_plan ?b" "rs3_epoch ?q = e"
    using advances_sound [of sha ?b ms, OF build_sequence_ok] build_sequence_views(4) by simp_all
  have r: "sequence_ok sha ?r" "rs3_epoch ?r = e'"
    using advances_sound [of sha "build_sequence sha e' plans'" ms', OF build_sequence_ok] build_sequence_views(4) by simp_all
  note same = step_plan_same [OF q(3)]
  have n: "length (rs3_steps ?q) = length (rs3_steps ?b)" using arg_cong [OF same(1), of length] by simp
  have st: "statuses ?b = replicate (length (rs3_steps ?b)) StepStatus.Pending"
    using build_sequence_views(1) [of sha e plans] arg_cong [OF build_sequence_views(3) [of sha e plans], of length] by simp
  have held: "distinct (map rs2_kind (rs3_steps ?q))" "set (map rs2_kind (rs3_steps ?q)) = ia_kind ` set (concat (map ip_actions plans))"
      "map rs2_step_index (rs3_steps ?q) = [0..<length (rs3_steps ?q)]"
      "sorted (map (\<lambda>s. (255 - unat (rs2_priority s), InterventionKind_as_u8 (rs2_kind s))) (rs3_steps ?q))"
    using b same(1,2) same(3) [of "\<lambda>e k p. (255 - unat p, InterventionKind_as_u8 k)"] n by simp_all
  have steps: "\<forall>s \<in> set (rs3_steps ?q). rs2_epoch s = e \<and>
      map_option ia_priority (find (\<lambda>a. ia_kind a = rs2_kind s) (concat (map ip_actions plans))) = Some (rs2_priority s)"
    by (intro ballI) (metis step_plan_step [OF q(3)] step_of_build)
  have len: "length (statuses ?q) = length (rs3_steps ?q)" by (simp add: statuses_def)
  have moves: "case advance_step sha ?q i s of
      Inl _ \<Rightarrow> length (rs3_steps ?q) \<le> i \<or> StepStatus_is_terminal (statuses ?q ! i)
    | Inr q' \<Rightarrow> i < length (rs3_steps ?q) \<and> \<not> StepStatus_is_terminal (statuses ?q ! i) \<and> statuses q' = (statuses ?q)[i := s]" for i s
    using advance_step_sound [OF q(1), of i s] len by (cases "advance_step sha ?q i s") (simp_all add: move_status_def)
  have statuses: "statuses ?q = run move_status ms (replicate (length (rs3_steps ?q)) StepStatus.Pending)"
    using st q(2) n by simp
  have commit: "(e = e' \<and> map rs2_kind (rs3_steps ?q) = map rs2_kind (rs3_steps ?r) \<and> statuses ?q = statuses ?r) \<or>
      forgery sha (hashed_bytes ?q \<union> hashed_bytes ?r)" if "rs3_sequence_hash ?q = rs3_sequence_hash ?r"
    using sequence_hash_commits [OF q(1) r(1) that] unfolding q(4) r(2) .
  show ?thesis
    unfolding Let_def length_map
    by (intro conjI held steps statuses allI moves sequence_ok_counts [OF q(1)] impI commit)
qed

theorem recovery_sequence_exact_witness:
  "let sha = \<lambda>b :: bytes. of_nat (length b) :: hash;
       a = \<lambda>k p. \<lparr>ia_kind = k, ia_priority = p, ia_rationale = []\<rparr>;
       plan = \<lambda>as. \<lparr>ip_epoch = 1, ip_severity = AlertSeverity.Emergency, ip_actions = as, ip_plan_hash = 0, ip_prev_plan_hash = 0\<rparr>;
       plans = [plan [a InterventionKind.PulseReset 50], plan [a InterventionKind.EmergencyHalt 100, a InterventionKind.PulseReset 75]];
       q = run (advance sha) [(0, StepStatus.Completed), (0, StepStatus.Pending), (1, StepStatus.Skipped)] (build_sequence sha 1 plans)
   in statuses q = [StepStatus.Completed, StepStatus.Skipped] \<and>
      rs3_is_complete q = list_all StepStatus_is_terminal (statuses q) \<and>
      (rs3_sequence_hash q = rs3_sequence_hash (build_sequence sha 1 plans) \<longrightarrow>
        forgery sha (hashed_bytes q \<union> hashed_bytes (build_sequence sha 1 plans)))"
proof -
  let ?sha = "\<lambda>b :: bytes. of_nat (length b) :: hash"
  let ?a = "\<lambda>k p. \<lparr>ia_kind = k, ia_priority = p, ia_rationale = []\<rparr>"
  let ?plan = "\<lambda>as. \<lparr>ip_epoch = 1, ip_severity = AlertSeverity.Emergency, ip_actions = as, ip_plan_hash = 0, ip_prev_plan_hash = 0\<rparr>"
  let ?plans = "[?plan [?a InterventionKind.PulseReset 50], ?plan [?a InterventionKind.EmergencyHalt 100, ?a InterventionKind.PulseReset 75]]"
  let ?ms = "[(0, StepStatus.Completed), (0, StepStatus.Pending), (1, StepStatus.Skipped)]"
  let ?b = "build_sequence ?sha 1 ?plans"
  let ?q = "run (advance ?sha) ?ms ?b"
  note exact = recovery_sequence_exact [where plans = "?plans" and sha = "?sha" and e = 1 and ms' = "[]" and e' = 1 and plans' = "?plans", unfolded Let_def]
  have kinds: "distinct (map rs2_kind (rs3_steps (run (advance ?sha) ms ?b)))"
      "set (map rs2_kind (rs3_steps (run (advance ?sha) ms ?b))) = {InterventionKind.PulseReset, InterventionKind.EmergencyHalt}" for ms
    using exact [of ms] by auto
  have two: "length (map rs2_kind (rs3_steps (run (advance ?sha) ms ?b))) = 2" for ms
    unfolding distinct_card [OF kinds(1), symmetric] kinds(2) by simp
  have st: "statuses (run (advance ?sha) ms ?b) = run move_status ms (replicate 2 StepStatus.Pending)" for ms
    using exact [of ms] unfolding two by (elim conjE)
  have moved: "statuses ?q = [StepStatus.Completed, StepStatus.Skipped]"
    using st [of "?ms"] by (simp add: move_status_def StepStatus_is_terminal_def numeral_2_eq_2)
  have start: "statuses ?b = [StepStatus.Pending, StepStatus.Pending]"
    using st [of "[]"] by (simp add: numeral_2_eq_2)
  have "rs3_is_complete ?q = list_all StepStatus_is_terminal (statuses ?q)"
    using exact [of "?ms"] by (elim conjE)
  moreover have "rs3_sequence_hash ?q = rs3_sequence_hash ?b \<longrightarrow>
      (1 = (1 :: u64) \<and> map rs2_kind (rs3_steps ?q) = map rs2_kind (rs3_steps ?b) \<and> statuses ?q = statuses ?b) \<or>
      forgery ?sha (hashed_bytes ?q \<union> hashed_bytes ?b)"
    using exact [of "?ms"] unfolding run_simps(1) by (elim conjE)
  ultimately show ?thesis unfolding Let_def moved start by simp
qed

section \<open>Constitutional Audit Certifier: final tamper-evident certificate (Gate 253)\<close>

text \<open>
  \<open>audit_certifier.rs\<close>. Produces an AuditCertificate over the triple: (VectorHistory,
  AlertLog, PlanHistory)
\<close>

record AuditCertificate =
  ac2_epoch_start :: u64
  ac2_epoch_end :: u64
  ac2_epoch_count :: nat
  ac2_vector_terminal :: hash
  ac2_alert_terminal :: hash
  ac2_plan_terminal :: hash
  ac2_chains_valid :: bool
  ac2_peak_condition :: OverallCondition
  ac2_peak_severity :: AlertSeverity
  ac2_certificate_hash :: hash
  ac2_is_replay_reconstructable :: bool

datatype CertifierError = CertifierError string

definition audit_certifier_certificate_bytes ::
  "hash \<Rightarrow> hash \<Rightarrow> hash \<Rightarrow> u64 \<Rightarrow> bytes" where
  "audit_certifier_certificate_bytes vector_terminal alert_terminal plan_terminal epoch_end =
     hash_bytes vector_terminal @ hash_bytes alert_terminal @ hash_bytes plan_terminal @ be8 epoch_end"

definition audit_certifier_compute_certificate_hash ::
  "sha \<Rightarrow> hash \<Rightarrow> hash \<Rightarrow> hash \<Rightarrow> u64 \<Rightarrow> hash"
      where
  "audit_certifier_compute_certificate_hash sha vector_terminal alert_terminal plan_terminal epoch_end =
     sha (audit_certifier_certificate_bytes vector_terminal alert_terminal plan_terminal epoch_end)"

definition certify ::
  "sha \<Rightarrow> VectorHistory \<Rightarrow> AlertLog \<Rightarrow> PlanHistory \<Rightarrow>
      CertifierError + AuditCertificate" where
  "certify sha vectors alerts plans =
     (if vh_vectors vectors = [] then Inl (CertifierError ''VectorHistory is empty'')
      else (let (vec_valid, _) = VectorHistory_verify_chain sha vectors;
          (alert_valid, _) = AlertLog_verify_chain sha alerts;
          (plan_valid, _) = PlanHistory_verify_chain sha plans;
          chains_valid = vec_valid \<and> alert_valid \<and> plan_valid;
          epoch_start = unwrap_or 0 (map_option shv_epoch (first_opt (vh_vectors vectors)));
          epoch_end = unwrap_or 0 (map_option shv_epoch (last_opt (vh_vectors vectors)));
          epoch_count = length (vh_vectors vectors);
          peak_condition = unwrap_or OverallCondition.Optimal (list_max (map shv_condition (vh_vectors
            vectors)));
          peak_severity = unwrap_or AlertSeverity.Nothing (list_max (map ar2_severity (al2_records
            alerts)));
          vector_terminal = VectorHistory_last_hash vectors;
          alert_terminal = AlertLog_last_hash alerts;
          plan_terminal = PlanHistory_last_hash plans;
          certificate_hash = audit_certifier_compute_certificate_hash sha vector_terminal alert_terminal
            plan_terminal epoch_end
      in Inr (\<lparr>ac2_epoch_start = epoch_start, ac2_epoch_end = epoch_end,
          ac2_epoch_count = epoch_count, ac2_vector_terminal = vector_terminal,
          ac2_alert_terminal = alert_terminal, ac2_plan_terminal = plan_terminal,
          ac2_chains_valid = chains_valid, ac2_peak_condition = peak_condition,
          ac2_peak_severity = peak_severity, ac2_certificate_hash = certificate_hash,
          ac2_is_replay_reconstructable = True\<rparr>)))"

end
