(* ===== verification/Compaction_Health.thy ===== *)
theory Compaction_Health
  imports System_Health "HOL-Library.Signed_Division"
begin

text \<open>
  The health of the compaction pipeline: the vector that joins it with the condition of the node, its
  momentum over a window of four, the epoch report, and what is derived from reports: alerts, advice,
  the service level, the capacity projection, the difference of two epochs, the trend over a window of
  four and the dashboard frame.
\<close>

section \<open>Compaction Health Aggregator (Gate 338)\<close>

text \<open>
  \<open>compaction_health_aggregator.rs\<close>. Combines compaction telemetry (Gate 337) with
  constitutional health (Gate 247 OverallCondition) to produce a per-epoch CompactionHealthVector.
\<close>

definition PRUNE_ALERT_THRESHOLD :: u64 where
  "PRUNE_ALERT_THRESHOLD = 1000"

datatype CompactionHealthGrade = Healthy | Nominal | Elevated | Critical

fun CompactionHealthGrade_as_u8 :: "CompactionHealthGrade \<Rightarrow> u8" where
  "CompactionHealthGrade_as_u8 CompactionHealthGrade.Healthy = 0"
| "CompactionHealthGrade_as_u8 CompactionHealthGrade.Nominal = 1"
| "CompactionHealthGrade_as_u8 CompactionHealthGrade.Elevated = 2"
| "CompactionHealthGrade_as_u8 CompactionHealthGrade.Critical = 3"

lemma CompactionHealthGrade_as_u8_inj [simp]: "CompactionHealthGrade_as_u8 x =
    CompactionHealthGrade_as_u8 y \<longleftrightarrow> x = y"
  by (cases x; cases y) auto

definition CompactionHealthGrade_classify ::
  "bool \<Rightarrow> u64 \<Rightarrow> CompactionHealthGrade" where
  "CompactionHealthGrade_classify chains_valid total_pruned =
     (let high = total_pruned \<ge> PRUNE_ALERT_THRESHOLD
      in case (chains_valid, high) of
         (True, False) \<Rightarrow> CompactionHealthGrade.Healthy
       | (True, True) \<Rightarrow> CompactionHealthGrade.Nominal
       | (False, False) \<Rightarrow> CompactionHealthGrade.Elevated
       | (False, True) \<Rightarrow> CompactionHealthGrade.Critical)"

datatype JointCondition = Optimal | Nominal | Degraded | Critical

fun JointCondition_as_u8 :: "JointCondition \<Rightarrow> u8" where
  "JointCondition_as_u8 JointCondition.Optimal = 0"
| "JointCondition_as_u8 JointCondition.Nominal = 1"
| "JointCondition_as_u8 JointCondition.Degraded = 2"
| "JointCondition_as_u8 JointCondition.Critical = 3"

lemma JointCondition_as_u8_inj [simp]: "JointCondition_as_u8 x = JointCondition_as_u8 y
    \<longleftrightarrow> x = y"
  by (cases x; cases y) auto

definition JointCondition_from_axes ::
  "CompactionHealthGrade \<Rightarrow> OverallCondition \<Rightarrow> JointCondition" where
  "JointCondition_from_axes grade cond =
     (if grade = CompactionHealthGrade.Critical \<or> cond = OverallCondition.Emergency then
         JointCondition.Critical
      else if grade = CompactionHealthGrade.Elevated \<or> cond = OverallCondition.Alert then
          JointCondition.Degraded
      else if grade = CompactionHealthGrade.Healthy \<and> cond = OverallCondition.Optimal then
          JointCondition.Optimal
      else JointCondition.Nominal)"

record CompactionHealthVector =
  chv_epoch :: u64
  chv_compaction_grade :: CompactionHealthGrade
  chv_constitutional_cond :: OverallCondition
  chv_joint_condition :: JointCondition
  chv_total_pruned_this_epoch :: u64
  chv_chains_valid :: bool
  chv_vector_hash :: hash
  chv_prev_hash :: hash

definition compaction_health_aggregator_vector_bytes ::
  "hash \<Rightarrow> u64 \<Rightarrow> CompactionHealthGrade \<Rightarrow> OverallCondition
      \<Rightarrow> JointCondition \<Rightarrow> u64 \<Rightarrow> bool \<Rightarrow> bytes" where
  "compaction_health_aggregator_vector_bytes prev epoch grade cond joint total_pruned chains_valid =
     hash_bytes prev @ be8 epoch @ [CompactionHealthGrade_as_u8 grade] @ [OverallCondition_as_u8 cond] @
         [JointCondition_as_u8 joint] @ be8 total_pruned @ [of_bool chains_valid]"

definition compaction_health_aggregator_compute_vector_hash ::
  "sha \<Rightarrow> hash \<Rightarrow> u64 \<Rightarrow> CompactionHealthGrade \<Rightarrow>
      OverallCondition \<Rightarrow> JointCondition \<Rightarrow> u64 \<Rightarrow> bool \<Rightarrow>
      hash" where
  "compaction_health_aggregator_compute_vector_hash sha prev epoch grade cond joint total_pruned
      chains_valid =
     sha (compaction_health_aggregator_vector_bytes prev epoch grade cond joint total_pruned
         chains_valid)"

record CompactionHealthLog =
  chl_vectors :: "CompactionHealthVector list"

definition CompactionHealthLog_new :: "CompactionHealthLog" where
  "CompactionHealthLog_new =
     \<lparr>chl_vectors = []\<rparr>"

definition CompactionHealthLog_latest ::
  "CompactionHealthLog \<Rightarrow> CompactionHealthVector option" where
  "CompactionHealthLog_latest self =
     last_opt (chl_vectors self)"

definition CompactionHealthLog_record ::
  "sha \<Rightarrow> u64 \<Rightarrow> bool \<Rightarrow> u64 \<Rightarrow> OverallCondition
      \<Rightarrow> CompactionHealthLog \<Rightarrow> CompactionHealthVector \<times>
      CompactionHealthLog" where
  "CompactionHealthLog_record sha epoch chains_valid total_pruned cond self =
     (let grade = CompactionHealthGrade_classify chains_valid total_pruned;
          joint = JointCondition_from_axes grade cond;
          prev = last_hash chv_vector_hash (chl_vectors self);
          vector_hash = compaction_health_aggregator_compute_vector_hash sha prev epoch grade cond joint
            total_pruned chains_valid;
          self = self\<lparr>chl_vectors := (chl_vectors self) @ [\<lparr>chv_epoch = epoch,
            chv_compaction_grade = grade, chv_constitutional_cond = cond, chv_joint_condition = joint,
            chv_total_pruned_this_epoch = total_pruned, chv_chains_valid = chains_valid,
            chv_vector_hash = vector_hash, chv_prev_hash = prev\<rparr>]\<rparr>
      in (last (chl_vectors self), self))"

definition CompactionHealthLog_critical_count :: "CompactionHealthLog \<Rightarrow> nat" where
  "CompactionHealthLog_critical_count self =
     length (filter (\<lambda>v. (chv_joint_condition v) = JointCondition.Critical) (chl_vectors self))"

definition CompactionHealthLog_optimal_count :: "CompactionHealthLog \<Rightarrow> nat" where
  "CompactionHealthLog_optimal_count self =
     length (filter (\<lambda>v. (chv_joint_condition v) = JointCondition.Optimal) (chl_vectors self))"

definition CompactionHealthLog_joint_condition_count ::
  "JointCondition \<Rightarrow> CompactionHealthLog \<Rightarrow> nat" where
  "CompactionHealthLog_joint_condition_count jc self =
     length (filter (\<lambda>v. (chv_joint_condition v) = jc) (chl_vectors self))"

definition CompactionHealthVector_bytes_of :: "CompactionHealthVector \<Rightarrow> bytes" where
  "CompactionHealthVector_bytes_of v =
     compaction_health_aggregator_vector_bytes (chv_prev_hash v) (chv_epoch v) (chv_compaction_grade v)
         (chv_constitutional_cond v) (chv_joint_condition v) (chv_total_pruned_this_epoch v)
         (chv_chains_valid v)"

definition CompactionHealthLog_verify_chain ::
  "sha \<Rightarrow> CompactionHealthLog \<Rightarrow> bool \<times> nat option" where
  "CompactionHealthLog_verify_chain sha self =
     verify_from chv_prev_hash chv_vector_hash (\<lambda>r. sha (CompactionHealthVector_bytes_of r)) 0
         genesis (chl_vectors self)"

lemma compaction_health_aggregator_vector_bytes_inj:
  "compaction_health_aggregator_vector_bytes prev epoch grade cond joint total_pruned chains_valid =
      compaction_health_aggregator_vector_bytes prev' epoch' grade' cond' joint' total_pruned'
      chains_valid' \<longleftrightarrow>
   prev = prev' \<and> epoch = epoch' \<and> grade = grade' \<and> cond = cond' \<and> joint = joint'
       \<and> total_pruned = total_pruned' \<and> chains_valid = chains_valid'"
  by (auto simp: compaction_health_aggregator_vector_bytes_def enc_simps)

definition CompactionHealthVector_committed :: "CompactionHealthVector \<Rightarrow> u64 \<times>
    CompactionHealthGrade \<times> OverallCondition \<times> JointCondition \<times> u64 \<times> bool"
    where
  "CompactionHealthVector_committed v =
     (chv_epoch v, chv_compaction_grade v, chv_constitutional_cond v, chv_joint_condition v,
         chv_total_pruned_this_epoch v, chv_chains_valid v)"

interpretation compaction_health_aggregator: epoch_log CompactionHealthVector_bytes_of chv_prev_hash
    chv_vector_hash CompactionHealthVector_committed
  "\<lambda>sha (epoch, chains_valid, total_pruned, cond) l. CompactionHealthLog_record sha epoch
      chains_valid total_pruned cond l"
  chl_vectors CompactionHealthLog_new "\<lambda>(a, _, c, _, e, f). (a, f, e, c)"
  by unfold_locales (auto simp: CompactionHealthLog_record_def
      compaction_health_aggregator_compute_vector_hash_def CompactionHealthLog_new_def Let_def
      CompactionHealthVector_bytes_of_def CompactionHealthVector_committed_def
      compaction_health_aggregator_vector_bytes_inj)

lemma compaction_health_aggregator_verify_iff: "CompactionHealthLog_verify_chain sha l = (True,
    None) \<longleftrightarrow> compaction_health_aggregator.ok sha (chl_vectors l)"
  by (simp add: CompactionHealthLog_verify_chain_def verify_from_iff)

section \<open>Compaction Momentum Tracker (Gate 339)\<close>

text \<open>
  \<open>compaction_momentum_tracker.rs\<close>. Rolling directional trend signal for the
  JointCondition (Gate 338) across a sliding observation window. Mirrors Gate 245 (momentum_tracker)
  for the compaction health subsystem.
\<close>

definition MOMENTUM_WINDOW :: nat where
  "MOMENTUM_WINDOW = 4"

datatype CompactionMomentumDir = Improving | Stable | Declining

fun CompactionMomentumDir_as_u8 :: "CompactionMomentumDir \<Rightarrow> u8" where
  "CompactionMomentumDir_as_u8 CompactionMomentumDir.Improving = 0"
| "CompactionMomentumDir_as_u8 CompactionMomentumDir.Stable = 1"
| "CompactionMomentumDir_as_u8 CompactionMomentumDir.Declining = 2"

lemma CompactionMomentumDir_as_u8_inj [simp]: "CompactionMomentumDir_as_u8 x =
    CompactionMomentumDir_as_u8 y \<longleftrightarrow> x = y"
  by (cases x; cases y) auto

definition CompactionMomentumDir_from_delta :: "i16 \<Rightarrow> CompactionMomentumDir" where
  "CompactionMomentumDir_from_delta delta_v =
     (if delta_v <s 0 then CompactionMomentumDir.Improving else if delta_v = 0 then
         CompactionMomentumDir.Stable else CompactionMomentumDir.Declining)"

record CompactionMomentumRecord =
  cmr_epoch :: u64
  cmr_joint_condition :: JointCondition
  cmr_score :: u8
  cmr_direction :: CompactionMomentumDir
  cmr_momentum_int :: i16
  cmr_window_size :: nat
  cmr_record_hash :: hash
  cmr_prev_hash :: hash

definition compaction_momentum_tracker_record_bytes ::
  "hash \<Rightarrow> u64 \<Rightarrow> u8 \<Rightarrow> CompactionMomentumDir \<Rightarrow> i16
      \<Rightarrow> nat \<Rightarrow> bytes" where
  "compaction_momentum_tracker_record_bytes prev epoch score dir momentum_int window_size =
     hash_bytes prev @ be8 epoch @ [score] @ [CompactionMomentumDir_as_u8 dir] @ be2 momentum_int @
         be2 (of_nat window_size :: u16)"

definition compaction_momentum_tracker_compute_record_hash ::
  "sha \<Rightarrow> hash \<Rightarrow> u64 \<Rightarrow> u8 \<Rightarrow> CompactionMomentumDir
      \<Rightarrow> i16 \<Rightarrow> nat \<Rightarrow> hash" where
  "compaction_momentum_tracker_compute_record_hash sha prev epoch score dir momentum_int window_size =
     sha (compaction_momentum_tracker_record_bytes prev epoch score dir momentum_int window_size)"

record CompactionMomentumLog =
  cml_records :: "CompactionMomentumRecord list"
  cml_window :: "u8 list"

definition CompactionMomentumLog_new :: "CompactionMomentumLog" where
  "CompactionMomentumLog_new =
     \<lparr>cml_records = [], cml_window = []\<rparr>"

definition CompactionMomentumLog_latest ::
  "CompactionMomentumLog \<Rightarrow> CompactionMomentumRecord option" where
  "CompactionMomentumLog_latest self =
     last_opt (cml_records self)"

definition CompactionMomentumLog_append ::
  "sha \<Rightarrow> u64 \<Rightarrow> JointCondition \<Rightarrow> CompactionMomentumLog \<Rightarrow>
      CompactionMomentumRecord \<times> CompactionMomentumLog" where
  "CompactionMomentumLog_append sha epoch joint_condition self =
     (let score = JointCondition_as_u8 joint_condition;
          self = (if (length (cml_window self)) = MOMENTUM_WINDOW then (let self =
            self\<lparr>cml_window := tl (cml_window self)\<rparr>
      in self)
      else self);
          self = self\<lparr>cml_window := (cml_window self) @ [score]\<rparr>;
          window_size = length (cml_window self);
          earliest = the (first_opt (cml_window self));
          latest = last (cml_window self);
          momentum_int = (ucast latest :: i16) - (ucast earliest :: i16);
          direction = CompactionMomentumDir_from_delta momentum_int;
          prev = last_hash cmr_record_hash (cml_records self);
          record_hash = compaction_momentum_tracker_compute_record_hash sha prev epoch score direction
            momentum_int window_size;
          self = self\<lparr>cml_records := (cml_records self) @ [\<lparr>cmr_epoch = epoch,
            cmr_joint_condition = joint_condition, cmr_score = score, cmr_direction = direction,
            cmr_momentum_int = momentum_int, cmr_window_size = window_size,
            cmr_record_hash = record_hash, cmr_prev_hash = prev\<rparr>]\<rparr>
      in (last (cml_records self), self))"

definition CompactionMomentumLog_direction_count ::
  "CompactionMomentumDir \<Rightarrow> CompactionMomentumLog \<Rightarrow> nat" where
  "CompactionMomentumLog_direction_count dir self =
     length (filter (\<lambda>r. (cmr_direction r) = dir) (cml_records self))"

definition CompactionMomentumLog_improving_epochs :: "CompactionMomentumLog \<Rightarrow> nat" where
  "CompactionMomentumLog_improving_epochs self =
     CompactionMomentumLog_direction_count CompactionMomentumDir.Improving self"

definition CompactionMomentumLog_declining_epochs :: "CompactionMomentumLog \<Rightarrow> nat" where
  "CompactionMomentumLog_declining_epochs self =
     CompactionMomentumLog_direction_count CompactionMomentumDir.Declining self"

definition CompactionMomentumRecord_bytes_of :: "CompactionMomentumRecord \<Rightarrow> bytes" where
  "CompactionMomentumRecord_bytes_of r =
     compaction_momentum_tracker_record_bytes (cmr_prev_hash r) (cmr_epoch r) (cmr_score r)
         (cmr_direction r) (cmr_momentum_int r) (cmr_window_size r)"

definition CompactionMomentumLog_verify_chain ::
  "sha \<Rightarrow> CompactionMomentumLog \<Rightarrow> bool \<times> nat option" where
  "CompactionMomentumLog_verify_chain sha self =
     verify_from cmr_prev_hash cmr_record_hash (\<lambda>r. sha (CompactionMomentumRecord_bytes_of r)) 0
         genesis (cml_records self)"

lemma compaction_momentum_tracker_record_bytes_inj:
  "compaction_momentum_tracker_record_bytes prev epoch score dir momentum_int window_size =
      compaction_momentum_tracker_record_bytes prev' epoch' score' dir' momentum_int' window_size'
      \<longleftrightarrow>
   prev = prev' \<and> epoch = epoch' \<and> score = score' \<and> dir = dir' \<and> momentum_int =
       momentum_int' \<and> (of_nat window_size :: u16) = (of_nat window_size' :: u16)"
  by (auto simp: compaction_momentum_tracker_record_bytes_def enc_simps)

definition CompactionMomentumRecord_committed :: "CompactionMomentumRecord \<Rightarrow> u64 \<times> u8
    \<times> CompactionMomentumDir \<times> i16 \<times> u16" where
  "CompactionMomentumRecord_committed r =
     (cmr_epoch r, cmr_score r, cmr_direction r, cmr_momentum_int r, of_nat (cmr_window_size r) :: u16)"

interpretation compaction_momentum_tracker: hash_log CompactionMomentumRecord_bytes_of cmr_prev_hash
    cmr_record_hash CompactionMomentumRecord_committed
  by unfold_locales (auto simp: CompactionMomentumRecord_bytes_of_def
      CompactionMomentumRecord_committed_def compaction_momentum_tracker_record_bytes_inj)

lemma compaction_momentum_tracker_verify_iff: "CompactionMomentumLog_verify_chain sha l = (True,
    None) \<longleftrightarrow> compaction_momentum_tracker.ok sha (cml_records l)"
  by (simp add: CompactionMomentumLog_verify_chain_def verify_from_iff)

lemma compaction_momentum_log_append_ok: "compaction_momentum_tracker.ok sha (cml_records l)
    \<Longrightarrow> compaction_momentum_tracker.ok sha (cml_records (snd (CompactionMomentumLog_append
    sha epoch joint_condition l)))"
  by (simp add: Let_def split_def CompactionMomentumLog_append_def
      compaction_momentum_tracker_compute_record_hash_def CompactionMomentumRecord_bytes_of_def split:
      option.split sum.split)

section \<open>Compaction Epoch Report (Gate 340)\<close>

text \<open>
  \<open>compaction_epoch_report.rs\<close>. Per-epoch summary record unifying the three compaction
  health axes: CompactionHealthVector (Gate 338) - JointCondition + grade CompactionMomentumRecord
  (Gate 339) - directional trend Telemetry summary fields (Gate 337) - spsf/health/res percentages
\<close>

record CompactionEpochReport =
  cer_epoch :: u64
  cer_joint_condition :: JointCondition
  cer_compaction_grade :: CompactionHealthGrade
  cer_total_pruned :: u64
  cer_chains_valid :: bool
  cer_direction :: CompactionMomentumDir
  cer_momentum_int :: i16
  cer_window_size :: nat
  cer_spsf_pct :: u8
  cer_health_pct :: u8
  cer_res_pct :: u8
  cer_report_hash :: hash
  cer_prev_hash :: hash

definition compaction_epoch_report_report_bytes ::
  "hash \<Rightarrow> u64 \<Rightarrow> JointCondition \<Rightarrow> CompactionHealthGrade \<Rightarrow>
      u64 \<Rightarrow> bool \<Rightarrow> CompactionMomentumDir \<Rightarrow> i16 \<Rightarrow> nat
      \<Rightarrow> u8 \<Rightarrow> u8 \<Rightarrow> u8 \<Rightarrow> bytes" where
  "compaction_epoch_report_report_bytes prev epoch joint grade total_pruned chains_valid dir
      momentum_int window_size spsf_pct health_pct res_pct =
     hash_bytes prev @ be8 epoch @ [JointCondition_as_u8 joint] @ [CompactionHealthGrade_as_u8 grade] @
         be8 total_pruned @ [of_bool chains_valid] @ [CompactionMomentumDir_as_u8 dir] @
         be2 momentum_int @ be2 (of_nat window_size :: u16) @ [spsf_pct] @ [health_pct] @ [res_pct]"

definition compaction_epoch_report_compute_report_hash ::
  "sha \<Rightarrow> hash \<Rightarrow> u64 \<Rightarrow> JointCondition \<Rightarrow>
      CompactionHealthGrade \<Rightarrow> u64 \<Rightarrow> bool \<Rightarrow> CompactionMomentumDir
      \<Rightarrow> i16 \<Rightarrow> nat \<Rightarrow> u8 \<Rightarrow> u8 \<Rightarrow> u8
      \<Rightarrow> hash" where
  "compaction_epoch_report_compute_report_hash sha prev epoch joint grade total_pruned chains_valid dir
      momentum_int window_size spsf_pct health_pct res_pct =
     sha (compaction_epoch_report_report_bytes prev epoch joint grade total_pruned chains_valid dir
         momentum_int window_size spsf_pct health_pct res_pct)"

record CompactionEpochReportLog =
  cerl_reports :: "CompactionEpochReport list"

definition CompactionEpochReportLog_new :: "CompactionEpochReportLog" where
  "CompactionEpochReportLog_new =
     \<lparr>cerl_reports = []\<rparr>"

definition CompactionEpochReportLog_latest ::
  "CompactionEpochReportLog \<Rightarrow> CompactionEpochReport option" where
  "CompactionEpochReportLog_latest self =
     last_opt (cerl_reports self)"

definition CompactionEpochReportLog_append ::
  "sha \<Rightarrow> CompactionHealthVector \<Rightarrow> CompactionMomentumRecord \<Rightarrow> u8
      \<Rightarrow> u8 \<Rightarrow> u8 \<Rightarrow> CompactionEpochReportLog \<Rightarrow>
      CompactionEpochReport \<times> CompactionEpochReportLog" where
  "CompactionEpochReportLog_append sha health momentum spsf_pct health_pct res_pct self =
     (let prev = last_hash cer_report_hash (cerl_reports self);
          report_hash = compaction_epoch_report_compute_report_hash sha prev (chv_epoch health)
            (chv_joint_condition health) (chv_compaction_grade health) (chv_total_pruned_this_epoch
            health) (chv_chains_valid health) (cmr_direction momentum) (cmr_momentum_int momentum)
            (cmr_window_size momentum) spsf_pct health_pct res_pct;
          self = self\<lparr>cerl_reports := (cerl_reports self) @
            [\<lparr>cer_epoch = chv_epoch health, cer_joint_condition = chv_joint_condition health,
            cer_compaction_grade = chv_compaction_grade health,
            cer_total_pruned = chv_total_pruned_this_epoch health,
            cer_chains_valid = chv_chains_valid health, cer_direction = cmr_direction momentum,
            cer_momentum_int = cmr_momentum_int momentum, cer_window_size = cmr_window_size momentum,
            cer_spsf_pct = spsf_pct, cer_health_pct = health_pct, cer_res_pct = res_pct,
            cer_report_hash = report_hash, cer_prev_hash = prev\<rparr>]\<rparr>
      in (last (cerl_reports self), self))"

definition CompactionEpochReportLog_critical_epochs ::
  "CompactionEpochReportLog \<Rightarrow> nat" where
  "CompactionEpochReportLog_critical_epochs self =
     length (filter (\<lambda>r. (cer_joint_condition r) = JointCondition.Critical) (cerl_reports
         self))"

definition CompactionEpochReportLog_optimal_epochs :: "CompactionEpochReportLog \<Rightarrow> nat" where
  "CompactionEpochReportLog_optimal_epochs self =
     length (filter (\<lambda>r. (cer_joint_condition r) = JointCondition.Optimal) (cerl_reports self))"

definition CompactionEpochReportLog_declining_epochs ::
  "CompactionEpochReportLog \<Rightarrow> nat" where
  "CompactionEpochReportLog_declining_epochs self =
     length (filter (\<lambda>r. (cer_direction r) = CompactionMomentumDir.Declining) (cerl_reports
         self))"

definition CompactionEpochReport_bytes_of :: "CompactionEpochReport \<Rightarrow> bytes" where
  "CompactionEpochReport_bytes_of r =
     compaction_epoch_report_report_bytes (cer_prev_hash r) (cer_epoch r) (cer_joint_condition r)
         (cer_compaction_grade r) (cer_total_pruned r) (cer_chains_valid r) (cer_direction r)
         (cer_momentum_int r) (cer_window_size r) (cer_spsf_pct r) (cer_health_pct r) (cer_res_pct r)"

definition CompactionEpochReportLog_verify_chain ::
  "sha \<Rightarrow> CompactionEpochReportLog \<Rightarrow> bool \<times> nat option" where
  "CompactionEpochReportLog_verify_chain sha self =
     verify_from cer_prev_hash cer_report_hash (\<lambda>r. sha (CompactionEpochReport_bytes_of r)) 0
         genesis (cerl_reports self)"

lemma compaction_epoch_report_report_bytes_inj:
  "compaction_epoch_report_report_bytes prev epoch joint grade total_pruned chains_valid dir
      momentum_int window_size spsf_pct health_pct res_pct = compaction_epoch_report_report_bytes prev'
      epoch' joint' grade' total_pruned' chains_valid' dir' momentum_int' window_size' spsf_pct'
      health_pct' res_pct' \<longleftrightarrow>
   prev = prev' \<and> epoch = epoch' \<and> joint = joint' \<and> grade = grade' \<and> total_pruned =
       total_pruned' \<and> chains_valid = chains_valid' \<and> dir = dir' \<and> momentum_int =
       momentum_int' \<and> (of_nat window_size :: u16) = (of_nat window_size' :: u16) \<and> spsf_pct =
       spsf_pct' \<and> health_pct = health_pct' \<and> res_pct = res_pct'"
  by (auto simp: compaction_epoch_report_report_bytes_def enc_simps)

definition CompactionEpochReport_committed :: "CompactionEpochReport \<Rightarrow> u64 \<times>
    JointCondition \<times> CompactionHealthGrade \<times> u64 \<times> bool \<times>
    CompactionMomentumDir \<times> i16 \<times> u16 \<times> u8 \<times> u8 \<times> u8" where
  "CompactionEpochReport_committed r =
     (cer_epoch r, cer_joint_condition r, cer_compaction_grade r, cer_total_pruned r,
         cer_chains_valid r, cer_direction r, cer_momentum_int r, of_nat (cer_window_size r) :: u16,
         cer_spsf_pct r, cer_health_pct r, cer_res_pct r)"

interpretation compaction_epoch_report: hash_log CompactionEpochReport_bytes_of cer_prev_hash
    cer_report_hash CompactionEpochReport_committed
  by unfold_locales (auto simp: CompactionEpochReport_bytes_of_def CompactionEpochReport_committed_def
      compaction_epoch_report_report_bytes_inj)

lemma compaction_epoch_report_verify_iff: "CompactionEpochReportLog_verify_chain sha l = (True,
    None) \<longleftrightarrow> compaction_epoch_report.ok sha (cerl_reports l)"
  by (simp add: CompactionEpochReportLog_verify_chain_def verify_from_iff)

lemma compaction_epoch_report_log_append_ok: "compaction_epoch_report.ok sha (cerl_reports l)
    \<Longrightarrow> compaction_epoch_report.ok sha (cerl_reports (snd (CompactionEpochReportLog_append
    sha health momentum spsf_pct health_pct res_pct l)))"
  by (simp add: Let_def split_def CompactionEpochReportLog_append_def
      compaction_epoch_report_compute_report_hash_def CompactionEpochReport_bytes_of_def split:
      option.split sum.split)

section \<open>Compaction Alert Classifier (Gate 341)\<close>

text \<open>
  \<open>compaction_alert_classifier.rs\<close>. Translates CompactionEpochReport signals (Gate 340)
  into a three-level alert state, with hysteresis to suppress transient flapping.
\<close>

definition ALERT_DECLINING_THRESHOLD :: u32 where
  "ALERT_DECLINING_THRESHOLD = 3"

datatype AlertLevel = Green | Amber | Red

fun AlertLevel_as_u8 :: "AlertLevel \<Rightarrow> u8" where
  "AlertLevel_as_u8 AlertLevel.Green = 0"
| "AlertLevel_as_u8 AlertLevel.Amber = 1"
| "AlertLevel_as_u8 AlertLevel.Red = 2"

lemma AlertLevel_as_u8_inj [simp]: "AlertLevel_as_u8 x = AlertLevel_as_u8 y \<longleftrightarrow> x = y"
  by (cases x; cases y) auto

definition AlertLevel_classify ::
  "JointCondition \<Rightarrow> CompactionMomentumDir \<Rightarrow> u32 \<Rightarrow> AlertLevel" where
  "AlertLevel_classify jc dir consecutive_declining =
     (if jc = JointCondition.Critical \<or> consecutive_declining \<ge> ALERT_DECLINING_THRESHOLD then
         AlertLevel.Red
      else if jc = JointCondition.Degraded \<or> (dir = CompactionMomentumDir.Declining \<and>
          consecutive_declining \<ge> 2) then AlertLevel.Amber
      else AlertLevel.Green)"

record CompactionAlertRecord =
  car_epoch :: u64
  car_alert_level :: AlertLevel
  car_joint_condition :: JointCondition
  car_direction :: CompactionMomentumDir
  car_consecutive_declining :: u32
  car_alert_hash :: hash
  car_prev_hash :: hash

definition compaction_alert_classifier_alert_bytes ::
  "hash \<Rightarrow> u64 \<Rightarrow> AlertLevel \<Rightarrow> JointCondition \<Rightarrow>
      CompactionMomentumDir \<Rightarrow> u32 \<Rightarrow> bytes" where
  "compaction_alert_classifier_alert_bytes prev epoch alert joint dir consecutive_declining =
     hash_bytes prev @ be8 epoch @ [AlertLevel_as_u8 alert] @ [JointCondition_as_u8 joint] @
         [CompactionMomentumDir_as_u8 dir] @ be4 consecutive_declining"

definition compaction_alert_classifier_compute_alert_hash ::
  "sha \<Rightarrow> hash \<Rightarrow> u64 \<Rightarrow> AlertLevel \<Rightarrow> JointCondition
      \<Rightarrow> CompactionMomentumDir \<Rightarrow> u32 \<Rightarrow> hash" where
  "compaction_alert_classifier_compute_alert_hash sha prev epoch alert joint dir consecutive_declining =
     sha (compaction_alert_classifier_alert_bytes prev epoch alert joint dir consecutive_declining)"

record CompactionAlertLog =
  cal_records :: "CompactionAlertRecord list"
  cal_consecutive_declining :: u32

definition CompactionAlertLog_new :: "CompactionAlertLog" where
  "CompactionAlertLog_new =
     \<lparr>cal_records = [], cal_consecutive_declining = 0\<rparr>"

definition CompactionAlertLog_latest ::
  "CompactionAlertLog \<Rightarrow> CompactionAlertRecord option" where
  "CompactionAlertLog_latest self =
     last_opt (cal_records self)"

definition CompactionAlertLog_append ::
  "sha \<Rightarrow> CompactionEpochReport \<Rightarrow> CompactionAlertLog \<Rightarrow>
      CompactionAlertRecord \<times> CompactionAlertLog" where
  "CompactionAlertLog_append sha report self =
     (let self = (if (cer_direction report) = CompactionMomentumDir.Declining then (let self =
         self\<lparr>cal_consecutive_declining := sat_add (cal_consecutive_declining self) 1\<rparr>
      in self)
      else (let self = self\<lparr>cal_consecutive_declining := 0\<rparr>
      in self));
          streak = cal_consecutive_declining self;
          alert_level = AlertLevel_classify (cer_joint_condition report) (cer_direction report) streak;
          prev = last_hash car_alert_hash (cal_records self);
          alert_hash = compaction_alert_classifier_compute_alert_hash sha prev (cer_epoch report)
            alert_level (cer_joint_condition report) (cer_direction report) streak;
          self = self\<lparr>cal_records := (cal_records self) @ [\<lparr>car_epoch = cer_epoch report,
            car_alert_level = alert_level, car_joint_condition = cer_joint_condition report,
            car_direction = cer_direction report, car_consecutive_declining = streak,
            car_alert_hash = alert_hash, car_prev_hash = prev\<rparr>]\<rparr>
      in (last (cal_records self), self))"

definition CompactionAlertLog_red_count :: "CompactionAlertLog \<Rightarrow> nat" where
  "CompactionAlertLog_red_count self =
     length (filter (\<lambda>r. (car_alert_level r) = AlertLevel.Red) (cal_records self))"

definition CompactionAlertLog_amber_count :: "CompactionAlertLog \<Rightarrow> nat" where
  "CompactionAlertLog_amber_count self =
     length (filter (\<lambda>r. (car_alert_level r) = AlertLevel.Amber) (cal_records self))"

definition CompactionAlertLog_green_count :: "CompactionAlertLog \<Rightarrow> nat" where
  "CompactionAlertLog_green_count self =
     length (filter (\<lambda>r. (car_alert_level r) = AlertLevel.Green) (cal_records self))"

definition CompactionAlertLog_max_consecutive_declining :: "CompactionAlertLog \<Rightarrow> u32" where
  "CompactionAlertLog_max_consecutive_declining self =
     unwrap_or 0 (list_max (map car_consecutive_declining (cal_records self)))"

definition CompactionAlertRecord_bytes_of :: "CompactionAlertRecord \<Rightarrow> bytes" where
  "CompactionAlertRecord_bytes_of r =
     compaction_alert_classifier_alert_bytes (car_prev_hash r) (car_epoch r) (car_alert_level r)
         (car_joint_condition r) (car_direction r) (car_consecutive_declining r)"

definition CompactionAlertLog_verify_chain ::
  "sha \<Rightarrow> CompactionAlertLog \<Rightarrow> bool \<times> nat option" where
  "CompactionAlertLog_verify_chain sha self =
     verify_from car_prev_hash car_alert_hash (\<lambda>r. sha (CompactionAlertRecord_bytes_of r)) 0
         genesis (cal_records self)"

lemma compaction_alert_classifier_alert_bytes_inj:
  "compaction_alert_classifier_alert_bytes prev epoch alert joint dir consecutive_declining =
      compaction_alert_classifier_alert_bytes prev' epoch' alert' joint' dir' consecutive_declining'
      \<longleftrightarrow>
   prev = prev' \<and> epoch = epoch' \<and> alert = alert' \<and> joint = joint' \<and> dir = dir'
       \<and> consecutive_declining = consecutive_declining'"
  by (auto simp: compaction_alert_classifier_alert_bytes_def enc_simps)

definition CompactionAlertRecord_committed :: "CompactionAlertRecord \<Rightarrow> u64 \<times>
    AlertLevel \<times> JointCondition \<times> CompactionMomentumDir \<times> u32" where
  "CompactionAlertRecord_committed r =
     (car_epoch r, car_alert_level r, car_joint_condition r, car_direction r,
         car_consecutive_declining r)"

interpretation compaction_alert_classifier: hash_log CompactionAlertRecord_bytes_of car_prev_hash
    car_alert_hash CompactionAlertRecord_committed
  by unfold_locales (auto simp: CompactionAlertRecord_bytes_of_def CompactionAlertRecord_committed_def
      compaction_alert_classifier_alert_bytes_inj)

lemma compaction_alert_classifier_verify_iff: "CompactionAlertLog_verify_chain sha l = (True,
    None) \<longleftrightarrow> compaction_alert_classifier.ok sha (cal_records l)"
  by (simp add: CompactionAlertLog_verify_chain_def verify_from_iff)

lemma compaction_alert_log_append_ok: "compaction_alert_classifier.ok sha (cal_records l)
    \<Longrightarrow> compaction_alert_classifier.ok sha (cal_records (snd (CompactionAlertLog_append
    sha report l)))"
  by (simp add: Let_def split_def CompactionAlertLog_append_def
      compaction_alert_classifier_compute_alert_hash_def CompactionAlertRecord_bytes_of_def split:
      option.split sum.split)

section \<open>Compaction Recovery Advisor (Gate 342)\<close>

text \<open>
  \<open>compaction_recovery_advisor.rs\<close>. Produces hash-chained recovery recommendations from
  CompactionAlertRecord (341) and CompactionEpochReport (340) signals.
\<close>

definition HIGH_PRUNE_THRESHOLD :: u64 where
  "HIGH_PRUNE_THRESHOLD = 500"

datatype RecoveryPriority = ChainRepair | PruneReduction | MomentumStabilize | MonitorOnly

fun RecoveryPriority_as_u8 :: "RecoveryPriority \<Rightarrow> u8" where
  "RecoveryPriority_as_u8 RecoveryPriority.ChainRepair = 0"
| "RecoveryPriority_as_u8 RecoveryPriority.PruneReduction = 1"
| "RecoveryPriority_as_u8 RecoveryPriority.MomentumStabilize = 2"
| "RecoveryPriority_as_u8 RecoveryPriority.MonitorOnly = 3"

lemma RecoveryPriority_as_u8_inj [simp]: "RecoveryPriority_as_u8 x = RecoveryPriority_as_u8 y
    \<longleftrightarrow> x = y"
  by (cases x; cases y) auto

datatype RecoveryRecommendation = RepairChains | ReducePruneLoad | StabilizeMomentum |
    ContinueMonitoring

fun RecoveryRecommendation_as_u8 :: "RecoveryRecommendation \<Rightarrow> u8" where
  "RecoveryRecommendation_as_u8 RecoveryRecommendation.RepairChains = 0"
| "RecoveryRecommendation_as_u8 RecoveryRecommendation.ReducePruneLoad = 1"
| "RecoveryRecommendation_as_u8 RecoveryRecommendation.StabilizeMomentum = 2"
| "RecoveryRecommendation_as_u8 RecoveryRecommendation.ContinueMonitoring = 3"

lemma RecoveryRecommendation_as_u8_inj [simp]: "RecoveryRecommendation_as_u8 x =
    RecoveryRecommendation_as_u8 y \<longleftrightarrow> x = y"
  by (cases x; cases y) auto

record RecoveryAction =
  ra_epoch :: u64
  ra_alert_level :: AlertLevel
  ra_priority :: RecoveryPriority
  ra_reason_code :: u8
  ra_recommendation :: RecoveryRecommendation
  ra_action_hash :: hash
  ra_prev_hash :: hash

definition action_bytes ::
  "hash \<Rightarrow> u64 \<Rightarrow> AlertLevel \<Rightarrow> RecoveryPriority \<Rightarrow> u8
      \<Rightarrow> RecoveryRecommendation \<Rightarrow> bytes" where
  "action_bytes prev epoch alert priority reason_code recommendation =
     hash_bytes prev @ be8 epoch @ [AlertLevel_as_u8 alert] @ [RecoveryPriority_as_u8 priority] @
         [reason_code] @ [RecoveryRecommendation_as_u8 recommendation]"

definition compute_action_hash ::
  "sha \<Rightarrow> hash \<Rightarrow> u64 \<Rightarrow> AlertLevel \<Rightarrow> RecoveryPriority
      \<Rightarrow> u8 \<Rightarrow> RecoveryRecommendation \<Rightarrow> hash" where
  "compute_action_hash sha prev epoch alert priority reason_code recommendation =
     sha (action_bytes prev epoch alert priority reason_code recommendation)"

definition advise ::
  "CompactionAlertRecord \<Rightarrow> CompactionEpochReport \<Rightarrow> RecoveryPriority \<times>
      RecoveryRecommendation \<times> u8" where
  "advise alert report =
     (let chain_broken = \<not> (cer_chains_valid report);
          high_prune = (cer_total_pruned report) \<ge> HIGH_PRUNE_THRESHOLD;
          declining = (cer_direction report) = CompactionMomentumDir.Declining \<and>
            (car_consecutive_declining alert) \<ge> 2;
          reason_code = or (or (of_bool chain_broken :: u8) (push_bit 1 (of_bool high_prune :: u8)))
            (push_bit 2 (of_bool declining :: u8))
      in if chain_broken then (RecoveryPriority.ChainRepair, RecoveryRecommendation.RepairChains,
          reason_code)
      else if high_prune then (RecoveryPriority.PruneReduction, RecoveryRecommendation.ReducePruneLoad,
          reason_code)
      else if declining then (RecoveryPriority.MomentumStabilize,
          RecoveryRecommendation.StabilizeMomentum, reason_code)
      else (RecoveryPriority.MonitorOnly, RecoveryRecommendation.ContinueMonitoring, reason_code))"

record RecoveryAdvisorLog =
  ral_actions :: "RecoveryAction list"

definition RecoveryAdvisorLog_new :: "RecoveryAdvisorLog" where
  "RecoveryAdvisorLog_new =
     \<lparr>ral_actions = []\<rparr>"

definition RecoveryAdvisorLog_latest :: "RecoveryAdvisorLog \<Rightarrow> RecoveryAction option" where
  "RecoveryAdvisorLog_latest self =
     last_opt (ral_actions self)"

definition RecoveryAdvisorLog_append ::
  "sha \<Rightarrow> CompactionAlertRecord \<Rightarrow> CompactionEpochReport \<Rightarrow>
      RecoveryAdvisorLog \<Rightarrow> RecoveryAction \<times> RecoveryAdvisorLog" where
  "RecoveryAdvisorLog_append sha alert report self =
     (let (priority, recommendation, reason_code) = advise alert report;
          prev = last_hash ra_action_hash (ral_actions self);
          action_hash = compute_action_hash sha prev (cer_epoch report) (car_alert_level alert) priority
            reason_code recommendation;
          self = self\<lparr>ral_actions := (ral_actions self) @ [\<lparr>ra_epoch = cer_epoch report,
            ra_alert_level = car_alert_level alert, ra_priority = priority,
            ra_reason_code = reason_code, ra_recommendation = recommendation,
            ra_action_hash = action_hash, ra_prev_hash = prev\<rparr>]\<rparr>
      in (last (ral_actions self), self))"

definition RecoveryAdvisorLog_action_count_by ::
  "RecoveryPriority \<Rightarrow> RecoveryAdvisorLog \<Rightarrow> nat" where
  "RecoveryAdvisorLog_action_count_by priority self =
     length (filter (\<lambda>a. (ra_priority a) = priority) (ral_actions self))"

definition RecoveryAdvisorLog_chain_repair_count :: "RecoveryAdvisorLog \<Rightarrow> nat" where
  "RecoveryAdvisorLog_chain_repair_count self =
     RecoveryAdvisorLog_action_count_by RecoveryPriority.ChainRepair self"

definition RecoveryAction_bytes_of :: "RecoveryAction \<Rightarrow> bytes" where
  "RecoveryAction_bytes_of a =
     action_bytes (ra_prev_hash a) (ra_epoch a) (ra_alert_level a) (ra_priority a) (ra_reason_code a)
         (ra_recommendation a)"

definition RecoveryAdvisorLog_verify_chain ::
  "sha \<Rightarrow> RecoveryAdvisorLog \<Rightarrow> bool \<times> nat option" where
  "RecoveryAdvisorLog_verify_chain sha self =
     verify_from ra_prev_hash ra_action_hash (\<lambda>r. sha (RecoveryAction_bytes_of r)) 0 genesis
         (ral_actions self)"

lemma action_bytes_inj:
  "action_bytes prev epoch alert priority reason_code recommendation = action_bytes prev' epoch' alert'
      priority' reason_code' recommendation' \<longleftrightarrow>
   prev = prev' \<and> epoch = epoch' \<and> alert = alert' \<and> priority = priority' \<and>
       reason_code = reason_code' \<and> recommendation = recommendation'"
  by (auto simp: action_bytes_def enc_simps)

definition RecoveryAction_committed :: "RecoveryAction \<Rightarrow> u64 \<times> AlertLevel \<times>
    RecoveryPriority \<times> u8 \<times> RecoveryRecommendation" where
  "RecoveryAction_committed a =
     (ra_epoch a, ra_alert_level a, ra_priority a, ra_reason_code a, ra_recommendation a)"

interpretation compaction_recovery_advisor: hash_log RecoveryAction_bytes_of ra_prev_hash ra_action_hash
    RecoveryAction_committed
  by unfold_locales (auto simp: RecoveryAction_bytes_of_def RecoveryAction_committed_def
      action_bytes_inj)

lemma compaction_recovery_advisor_verify_iff: "RecoveryAdvisorLog_verify_chain sha l = (True,
    None) \<longleftrightarrow> compaction_recovery_advisor.ok sha (ral_actions l)"
  by (simp add: RecoveryAdvisorLog_verify_chain_def verify_from_iff)

lemma recovery_advisor_log_append_ok: "compaction_recovery_advisor.ok sha (ral_actions l)
    \<Longrightarrow> compaction_recovery_advisor.ok sha (ral_actions (snd (RecoveryAdvisorLog_append
    sha alert report l)))"
  by (simp add: Let_def split_def RecoveryAdvisorLog_append_def compute_action_hash_def
      RecoveryAction_bytes_of_def split: option.split sum.split)

section \<open>Compaction SLA Tracker (Gate 343)\<close>

text \<open>
  \<open>compaction_sla_tracker.rs\<close>. Tracks per-epoch SLA compliance for the compaction
  subsystem. An epoch is SLA-compliant if ALL three conditions hold: 1. joint_condition <= Nominal (no
  Degraded or Critical) 2. alert_level <= Amber (no Red alert) 3. chains_valid == true
\<close>

record SlaEpochRecord =
  ser2_epoch :: u64
  ser2_compliant :: bool
  ser2_joint_ok :: bool
  ser2_alert_ok :: bool
  ser2_chains_ok :: bool
  ser2_violation_mask :: u8
  ser2_sla_hash :: hash
  ser2_prev_hash :: hash

definition sla_bytes ::
  "hash \<Rightarrow> u64 \<Rightarrow> bool \<Rightarrow> u8 \<Rightarrow> bytes" where
  "sla_bytes prev epoch compliant violation_mask =
     hash_bytes prev @ be8 epoch @ [of_bool compliant] @ [violation_mask]"

definition compute_sla_hash ::
  "sha \<Rightarrow> hash \<Rightarrow> u64 \<Rightarrow> bool \<Rightarrow> u8 \<Rightarrow> hash"
      where
  "compute_sla_hash sha prev epoch compliant violation_mask =
     sha (sla_bytes prev epoch compliant violation_mask)"

record SlaTrackerLog =
  stl_records :: "SlaEpochRecord list"

definition SlaTrackerLog_new :: "SlaTrackerLog" where
  "SlaTrackerLog_new =
     \<lparr>stl_records = []\<rparr>"

definition SlaTrackerLog_latest :: "SlaTrackerLog \<Rightarrow> SlaEpochRecord option" where
  "SlaTrackerLog_latest self =
     last_opt (stl_records self)"

definition SlaTrackerLog_append ::
  "sha \<Rightarrow> CompactionAlertRecord \<Rightarrow> CompactionEpochReport \<Rightarrow>
      SlaTrackerLog \<Rightarrow> SlaEpochRecord \<times> SlaTrackerLog" where
  "SlaTrackerLog_append sha alert report self =
     (let joint_ok = JointCondition_as_u8 (cer_joint_condition report) \<le> JointCondition_as_u8
         JointCondition.Nominal;
          alert_ok = AlertLevel_as_u8 (car_alert_level alert) \<le> AlertLevel_as_u8 AlertLevel.Amber;
          chains_ok = cer_chains_valid report;
          compliant = joint_ok \<and> alert_ok \<and> chains_ok;
          violation_mask = or (or (of_bool (\<not> joint_ok) :: u8) (push_bit 1 (of_bool (\<not>
            alert_ok) :: u8))) (push_bit 2 (of_bool (\<not> chains_ok) :: u8));
          prev = last_hash ser2_sla_hash (stl_records self);
          sla_hash = compute_sla_hash sha prev (cer_epoch report) compliant violation_mask;
          self = self\<lparr>stl_records := (stl_records self) @ [\<lparr>ser2_epoch = cer_epoch report,
            ser2_compliant = compliant, ser2_joint_ok = joint_ok, ser2_alert_ok = alert_ok,
            ser2_chains_ok = chains_ok, ser2_violation_mask = violation_mask, ser2_sla_hash = sla_hash,
            ser2_prev_hash = prev\<rparr>]\<rparr>
      in (last (stl_records self), self))"

definition SlaTrackerLog_compliant_count :: "SlaTrackerLog \<Rightarrow> nat" where
  "SlaTrackerLog_compliant_count self =
     length (filter ser2_compliant (stl_records self))"

definition SlaTrackerLog_violation_count :: "SlaTrackerLog \<Rightarrow> nat" where
  "SlaTrackerLog_violation_count self =
     length (filter (\<lambda>r. \<not> (ser2_compliant r)) (stl_records self))"

definition SlaTrackerLog_compliance_rate :: "SlaTrackerLog \<Rightarrow> u32" where
  "SlaTrackerLog_compliance_rate self =
     (if (stl_records self) = [] then 1000
      else ((of_nat (SlaTrackerLog_compliant_count self) :: u32) * 1000) div (of_nat (length
          (stl_records self)) :: u32))"

definition SlaTrackerLog_streak_compliant :: "SlaTrackerLog \<Rightarrow> nat" where
  "SlaTrackerLog_streak_compliant self =
     length (takeWhile ser2_compliant (rev (stl_records self)))"

definition SlaEpochRecord_bytes_of :: "SlaEpochRecord \<Rightarrow> bytes" where
  "SlaEpochRecord_bytes_of r =
     sla_bytes (ser2_prev_hash r) (ser2_epoch r) (ser2_compliant r) (ser2_violation_mask r)"

definition SlaTrackerLog_verify_chain ::
  "sha \<Rightarrow> SlaTrackerLog \<Rightarrow> bool \<times> nat option" where
  "SlaTrackerLog_verify_chain sha self =
     verify_from ser2_prev_hash ser2_sla_hash (\<lambda>r. sha (SlaEpochRecord_bytes_of r)) 0 genesis
         (stl_records self)"

lemma sla_bytes_inj:
  "sla_bytes prev epoch compliant violation_mask = sla_bytes prev' epoch' compliant' violation_mask'
      \<longleftrightarrow>
   prev = prev' \<and> epoch = epoch' \<and> compliant = compliant' \<and> violation_mask =
       violation_mask'"
  by (auto simp: sla_bytes_def enc_simps)

definition SlaEpochRecord_committed :: "SlaEpochRecord \<Rightarrow> u64 \<times> bool \<times> u8"
    where
  "SlaEpochRecord_committed r =
     (ser2_epoch r, ser2_compliant r, ser2_violation_mask r)"

interpretation compaction_sla_tracker: hash_log SlaEpochRecord_bytes_of ser2_prev_hash ser2_sla_hash
    SlaEpochRecord_committed
  by unfold_locales (auto simp: SlaEpochRecord_bytes_of_def SlaEpochRecord_committed_def sla_bytes_inj)

lemma compaction_sla_tracker_verify_iff: "SlaTrackerLog_verify_chain sha l = (True,
    None) \<longleftrightarrow> compaction_sla_tracker.ok sha (stl_records l)"
  by (simp add: SlaTrackerLog_verify_chain_def verify_from_iff)

lemma sla_tracker_log_append_ok: "compaction_sla_tracker.ok sha (stl_records l) \<Longrightarrow>
    compaction_sla_tracker.ok sha (stl_records (snd (SlaTrackerLog_append sha alert report l)))"
  by (simp add: Let_def split_def SlaTrackerLog_append_def compute_sla_hash_def
      SlaEpochRecord_bytes_of_def split: option.split sum.split)

section \<open>Compaction Capacity Planner (Gate 344)\<close>

text \<open>
  \<open>compaction_capacity_planner.rs\<close>. Projects epochs-to-capacity-ceiling from the recent
  CompactionEpochReport trend. Uses a simple linear extrapolation over the last CAPACITY_WINDOW=4
  reports.
\<close>

definition CAPACITY_WINDOW :: nat where
  "CAPACITY_WINDOW = 4"

definition CAPACITY_CEILING :: u64 where
  "CAPACITY_CEILING = 10000"

record CapacityProjection =
  cp3_epoch :: u64
  cp3_current_total :: u64
  cp3_mean_delta :: i64
  cp3_window_len :: nat
  cp3_epochs_to_ceiling :: u32
  cp3_at_capacity :: bool
  cp3_projection_hash :: hash
  cp3_prev_hash :: hash

definition projection_bytes ::
  "hash \<Rightarrow> u64 \<Rightarrow> u64 \<Rightarrow> i64 \<Rightarrow> nat \<Rightarrow> u32
      \<Rightarrow> bool \<Rightarrow> bytes" where
  "projection_bytes prev epoch current_total mean_delta window_len epochs_to_ceiling at_capacity =
     hash_bytes prev @ be8 epoch @ be8 current_total @ be8 mean_delta @ be4 (of_nat window_len :: u32) @
         be4 epochs_to_ceiling @ [of_bool at_capacity]"

definition compute_projection_hash ::
  "sha \<Rightarrow> hash \<Rightarrow> u64 \<Rightarrow> u64 \<Rightarrow> i64 \<Rightarrow> nat
      \<Rightarrow> u32 \<Rightarrow> bool \<Rightarrow> hash" where
  "compute_projection_hash sha prev epoch current_total mean_delta window_len epochs_to_ceiling
      at_capacity =
     sha (projection_bytes prev epoch current_total mean_delta window_len epochs_to_ceiling
         at_capacity)"

record CapacityPlannerLog =
  cpl_projections :: "CapacityProjection list"
  cpl_window :: "u64 list"

definition CapacityPlannerLog_new :: "CapacityPlannerLog" where
  "CapacityPlannerLog_new =
     \<lparr>cpl_projections = [], cpl_window = []\<rparr>"

definition CapacityPlannerLog_latest ::
  "CapacityPlannerLog \<Rightarrow> CapacityProjection option" where
  "CapacityPlannerLog_latest self =
     last_opt (cpl_projections self)"

definition CapacityPlannerLog_append ::
  "sha \<Rightarrow> CompactionEpochReport \<Rightarrow> CapacityPlannerLog \<Rightarrow>
      CapacityProjection \<times> CapacityPlannerLog" where
  "CapacityPlannerLog_append sha report self =
     (let window = cpl_window self;
          window = (if length window = CAPACITY_WINDOW then tl window else window) @
            [cer_total_pruned report];
          self = self\<lparr>cpl_window := window\<rparr>;
          window_len = length window;
          current_total = cer_total_pruned report;
          mean_delta = (if window_len < 2 then 0
            else word_of_int (sint (last window - hd window) sdiv int (window_len - 1)) :: i64);
          at_capacity = CAPACITY_CEILING \<le> current_total;
          epochs_to_ceiling = (if at_capacity then 0
            else if mean_delta \<le>s 0 then - 1
            else ucast (min ((CAPACITY_CEILING - current_total) div mean_delta) (ucast (- 1 :: u32))) ::
              u32);
          prev = last_hash cp3_projection_hash (cpl_projections self);
          projection_hash = compute_projection_hash sha prev (cer_epoch report) current_total mean_delta
            window_len epochs_to_ceiling at_capacity;
          self = self\<lparr>cpl_projections := cpl_projections self @
            [\<lparr>cp3_epoch = cer_epoch report,
            cp3_current_total = current_total, cp3_mean_delta = mean_delta, cp3_window_len = window_len,
            cp3_epochs_to_ceiling = epochs_to_ceiling, cp3_at_capacity = at_capacity,
            cp3_projection_hash = projection_hash, cp3_prev_hash = prev\<rparr>]\<rparr>
      in (last (cpl_projections self), self))"

definition CapacityPlannerLog_critical_projections :: "CapacityPlannerLog \<Rightarrow> nat" where
  "CapacityPlannerLog_critical_projections self =
     length (filter (\<lambda>p. (cp3_epochs_to_ceiling p) \<le> 5 \<and> \<not> (cp3_at_capacity p))
         (cpl_projections self))"

definition CapacityProjection_bytes_of :: "CapacityProjection \<Rightarrow> bytes" where
  "CapacityProjection_bytes_of p =
     projection_bytes (cp3_prev_hash p) (cp3_epoch p) (cp3_current_total p) (cp3_mean_delta p)
         (cp3_window_len p) (cp3_epochs_to_ceiling p) (cp3_at_capacity p)"

definition CapacityPlannerLog_verify_chain ::
  "sha \<Rightarrow> CapacityPlannerLog \<Rightarrow> bool \<times> nat option" where
  "CapacityPlannerLog_verify_chain sha self =
     verify_from cp3_prev_hash cp3_projection_hash (\<lambda>r. sha (CapacityProjection_bytes_of r)) 0
         genesis (cpl_projections self)"

lemma projection_bytes_inj:
  "projection_bytes prev epoch current_total mean_delta window_len epochs_to_ceiling at_capacity =
      projection_bytes prev' epoch' current_total' mean_delta' window_len' epochs_to_ceiling'
      at_capacity' \<longleftrightarrow>
   prev = prev' \<and> epoch = epoch' \<and> current_total = current_total' \<and> mean_delta =
       mean_delta' \<and> (of_nat window_len :: u32) = (of_nat window_len' :: u32) \<and>
       epochs_to_ceiling = epochs_to_ceiling' \<and> at_capacity = at_capacity'"
  by (auto simp: projection_bytes_def enc_simps)

definition CapacityProjection_committed :: "CapacityProjection \<Rightarrow> u64 \<times> u64 \<times>
    i64 \<times> u32 \<times> u32 \<times> bool" where
  "CapacityProjection_committed p =
     (cp3_epoch p, cp3_current_total p, cp3_mean_delta p, of_nat (cp3_window_len p) :: u32,
         cp3_epochs_to_ceiling p, cp3_at_capacity p)"

interpretation compaction_capacity_planner: hash_log CapacityProjection_bytes_of cp3_prev_hash
    cp3_projection_hash CapacityProjection_committed
  by unfold_locales (auto simp: CapacityProjection_bytes_of_def CapacityProjection_committed_def
      projection_bytes_inj)

lemma compaction_capacity_planner_verify_iff: "CapacityPlannerLog_verify_chain sha l = (True,
    None) \<longleftrightarrow> compaction_capacity_planner.ok sha (cpl_projections l)"
  by (simp add: CapacityPlannerLog_verify_chain_def verify_from_iff)

lemma capacity_planner_log_append_ok: "compaction_capacity_planner.ok sha (cpl_projections l)
    \<Longrightarrow> compaction_capacity_planner.ok sha (cpl_projections (snd
    (CapacityPlannerLog_append sha report l)))"
  by (simp add: Let_def split_def CapacityPlannerLog_append_def compute_projection_hash_def
      CapacityProjection_bytes_of_def split: option.split sum.split)

section \<open>Compaction Epoch Comparator (Gate 345)\<close>

text \<open>
  \<open>compaction_epoch_comparator.rs\<close>. Compares consecutive CompactionEpochReports and
  records the signed delta as a hash-chained EpochDeltaRecord.
\<close>

record EpochDeltaRecord =
  edr_epoch :: u64
  edr_prev_epoch :: u64
  edr_joint_improved :: bool
  edr_joint_worsened :: bool
  edr_chains_recovered :: bool
  edr_chains_degraded :: bool
  edr_pruned_delta :: i64
  edr_momentum_delta :: i16
  edr_direction_changed :: bool
  edr_delta_hash :: hash
  edr_prev_hash :: hash

definition flags_byte :: "EpochDeltaRecord \<Rightarrow> u8" where
  "flags_byte rec =
     or (or (or (or (of_bool (edr_joint_improved rec) :: u8) (push_bit 1 (of_bool (edr_joint_worsened
         rec) :: u8))) (push_bit 2 (of_bool (edr_chains_recovered rec) :: u8))) (push_bit 3 (of_bool
         (edr_chains_degraded rec) :: u8))) (push_bit 4 (of_bool (edr_direction_changed rec) :: u8))"

definition delta_bytes ::
  "hash \<Rightarrow> u64 \<Rightarrow> u64 \<Rightarrow> u8 \<Rightarrow> i64 \<Rightarrow> i16
      \<Rightarrow> bytes" where
  "delta_bytes prev epoch prev_epoch flags pruned_delta momentum_delta =
     hash_bytes prev @ be8 epoch @ be8 prev_epoch @ [flags] @ be8 pruned_delta @ be2 momentum_delta"

definition compute_delta_hash ::
  "sha \<Rightarrow> hash \<Rightarrow> u64 \<Rightarrow> u64 \<Rightarrow> u8 \<Rightarrow> i64
      \<Rightarrow> i16 \<Rightarrow> hash" where
  "compute_delta_hash sha prev epoch prev_epoch flags pruned_delta momentum_delta =
     sha (delta_bytes prev epoch prev_epoch flags pruned_delta momentum_delta)"

record EpochComparatorLog =
  ecl_deltas :: "EpochDeltaRecord list"

definition EpochComparatorLog_new :: "EpochComparatorLog" where
  "EpochComparatorLog_new =
     \<lparr>ecl_deltas = []\<rparr>"

definition EpochComparatorLog_latest :: "EpochComparatorLog \<Rightarrow> EpochDeltaRecord option" where
  "EpochComparatorLog_latest self =
     last_opt (ecl_deltas self)"

definition EpochComparatorLog_compare ::
  "sha \<Rightarrow> CompactionEpochReport \<Rightarrow> CompactionEpochReport \<Rightarrow>
      EpochComparatorLog \<Rightarrow> EpochDeltaRecord \<times> EpochComparatorLog" where
  "EpochComparatorLog_compare sha prev_r curr_r self =
     (let joint_improved = (JointCondition_as_u8 (cer_joint_condition curr_r)) < (JointCondition_as_u8
         (cer_joint_condition prev_r));
          joint_worsened = (JointCondition_as_u8 (cer_joint_condition curr_r)) > (JointCondition_as_u8
            (cer_joint_condition prev_r));
          chains_recovered = \<not> (cer_chains_valid prev_r) \<and> cer_chains_valid curr_r;
          chains_degraded = cer_chains_valid prev_r \<and> \<not> (cer_chains_valid curr_r);
          pruned_delta = (cer_total_pruned curr_r) - (cer_total_pruned prev_r);
          momentum_delta = (cer_momentum_int curr_r) - (cer_momentum_int prev_r);
          direction_changed = (cer_direction curr_r) \<noteq> (cer_direction prev_r);
          prev_hash = last_hash edr_delta_hash (ecl_deltas self);
          partial = \<lparr>edr_epoch = cer_epoch curr_r, edr_prev_epoch = cer_epoch prev_r,
            edr_joint_improved = joint_improved, edr_joint_worsened = joint_worsened,
            edr_chains_recovered = chains_recovered, edr_chains_degraded = chains_degraded,
            edr_pruned_delta = pruned_delta, edr_momentum_delta = momentum_delta,
            edr_direction_changed = direction_changed, edr_delta_hash = genesis,
            edr_prev_hash = prev_hash\<rparr>;
          flags = flags_byte partial;
          delta_hash = compute_delta_hash sha prev_hash (cer_epoch curr_r) (cer_epoch prev_r) flags
            pruned_delta momentum_delta;
          self = self\<lparr>ecl_deltas := (ecl_deltas self) @ [partial\<lparr>edr_delta_hash :=
            delta_hash\<rparr>]\<rparr>
      in (last (ecl_deltas self), self))"

definition EpochComparatorLog_improvement_count :: "EpochComparatorLog \<Rightarrow> nat" where
  "EpochComparatorLog_improvement_count self =
     length (filter (\<lambda>d. edr_joint_improved d \<or> edr_chains_recovered d) (ecl_deltas self))"

definition EpochComparatorLog_degradation_count :: "EpochComparatorLog \<Rightarrow> nat" where
  "EpochComparatorLog_degradation_count self =
     length (filter (\<lambda>d. edr_joint_worsened d \<or> edr_chains_degraded d) (ecl_deltas self))"

definition EpochDeltaRecord_bytes_of :: "EpochDeltaRecord \<Rightarrow> bytes" where
  "EpochDeltaRecord_bytes_of d =
     delta_bytes (edr_prev_hash d) (edr_epoch d) (edr_prev_epoch d) (flags_byte d) (edr_pruned_delta d)
         (edr_momentum_delta d)"

definition EpochComparatorLog_verify_chain ::
  "sha \<Rightarrow> EpochComparatorLog \<Rightarrow> bool \<times> nat option" where
  "EpochComparatorLog_verify_chain sha self =
     verify_from edr_prev_hash edr_delta_hash (\<lambda>r. sha (EpochDeltaRecord_bytes_of r)) 0 genesis
         (ecl_deltas self)"

lemma delta_bytes_inj:
  "delta_bytes prev epoch prev_epoch flags pruned_delta momentum_delta = delta_bytes prev' epoch'
      prev_epoch' flags' pruned_delta' momentum_delta' \<longleftrightarrow>
   prev = prev' \<and> epoch = epoch' \<and> prev_epoch = prev_epoch' \<and> flags = flags' \<and>
       pruned_delta = pruned_delta' \<and> momentum_delta = momentum_delta'"
  by (auto simp: delta_bytes_def enc_simps)

definition EpochDeltaRecord_committed :: "EpochDeltaRecord \<Rightarrow> u64 \<times> u64 \<times> u8
    \<times> i64 \<times> i16" where
  "EpochDeltaRecord_committed d =
     (edr_epoch d, edr_prev_epoch d, flags_byte d, edr_pruned_delta d, edr_momentum_delta d)"

interpretation compaction_epoch_comparator: hash_log EpochDeltaRecord_bytes_of edr_prev_hash
    edr_delta_hash EpochDeltaRecord_committed
  by unfold_locales (auto simp: EpochDeltaRecord_bytes_of_def EpochDeltaRecord_committed_def
      delta_bytes_inj)

lemma compaction_epoch_comparator_verify_iff: "EpochComparatorLog_verify_chain sha l = (True,
    None) \<longleftrightarrow> compaction_epoch_comparator.ok sha (ecl_deltas l)"
  by (simp add: EpochComparatorLog_verify_chain_def verify_from_iff)

lemma epoch_comparator_log_compare_ok: "compaction_epoch_comparator.ok sha (ecl_deltas l)
    \<Longrightarrow> compaction_epoch_comparator.ok sha (ecl_deltas (snd (EpochComparatorLog_compare
    sha prev_r curr_r l)))"
  by (simp add: Let_def split_def EpochComparatorLog_compare_def compute_delta_hash_def
      EpochDeltaRecord_bytes_of_def flags_byte_def split: option.split sum.split)

section \<open>Compaction Trend Analyzer (Gate 346)\<close>

text \<open>
  \<open>compaction_trend_analyzer.rs\<close>. Classifies multi-epoch compaction trends from a rolling
  window of
\<close>

definition TREND_WINDOW :: nat where
  "TREND_WINDOW = 4"

datatype TrendClass = Stable | Improving | Degrading | Volatile

fun TrendClass_as_u8 :: "TrendClass \<Rightarrow> u8" where
  "TrendClass_as_u8 TrendClass.Stable = 0"
| "TrendClass_as_u8 TrendClass.Improving = 1"
| "TrendClass_as_u8 TrendClass.Degrading = 2"
| "TrendClass_as_u8 TrendClass.Volatile = 3"

lemma TrendClass_as_u8_inj [simp]: "TrendClass_as_u8 x = TrendClass_as_u8 y \<longleftrightarrow> x = y"
  by (cases x; cases y) auto

definition TrendClass_classify ::
  "u32 \<Rightarrow> u32 \<Rightarrow> nat \<Rightarrow> TrendClass" where
  "TrendClass_classify improvement_count degradation_count window_size =
     (let threshold = (if window_size \<ge> TREND_WINDOW then 3 else max (sat_sub (of_nat window_size ::
         u32) 1) 1)
      in if improvement_count \<ge> threshold \<and> degradation_count = 0 then TrendClass.Improving
      else if degradation_count \<ge> threshold \<and> improvement_count = 0 then TrendClass.Degrading
      else if improvement_count \<ge> 1 \<and> degradation_count \<ge> 1 then TrendClass.Volatile
      else TrendClass.Stable)"

record TrendRecord =
  tr_epoch :: u64
  tr_trend_class :: TrendClass
  tr_window_size :: nat
  tr_improvement_count :: u32
  tr_degradation_count :: u32
  tr_net_pruned_delta :: i64
  tr_trend_hash :: hash
  tr_prev_hash :: hash

definition trend_bytes ::
  "hash \<Rightarrow> u64 \<Rightarrow> TrendClass \<Rightarrow> nat \<Rightarrow> u32 \<Rightarrow> u32
      \<Rightarrow> i64 \<Rightarrow> bytes" where
  "trend_bytes prev epoch trend_class window_size improvement_count degradation_count net_pruned_delta =
     hash_bytes prev @ be8 epoch @ [TrendClass_as_u8 trend_class] @ be2 (of_nat window_size :: u16) @
         be4 improvement_count @ be4 degradation_count @ be8 net_pruned_delta"

definition compute_trend_hash ::
  "sha \<Rightarrow> hash \<Rightarrow> u64 \<Rightarrow> TrendClass \<Rightarrow> nat \<Rightarrow> u32
      \<Rightarrow> u32 \<Rightarrow> i64 \<Rightarrow> hash" where
  "compute_trend_hash sha prev epoch trend_class window_size improvement_count degradation_count
      net_pruned_delta =
     sha (trend_bytes prev epoch trend_class window_size improvement_count degradation_count
         net_pruned_delta)"

record TrendAnalyzerLog =
  tal_records :: "TrendRecord list"
  tal_window :: "(bool \<times> bool \<times> i64) list"

definition TrendAnalyzerLog_new :: "TrendAnalyzerLog" where
  "TrendAnalyzerLog_new =
     \<lparr>tal_records = [], tal_window = []\<rparr>"

definition TrendAnalyzerLog_latest :: "TrendAnalyzerLog \<Rightarrow> TrendRecord option" where
  "TrendAnalyzerLog_latest self =
     last_opt (tal_records self)"

definition TrendAnalyzerLog_append ::
  "sha \<Rightarrow> EpochDeltaRecord \<Rightarrow> TrendAnalyzerLog \<Rightarrow> TrendRecord \<times>
      TrendAnalyzerLog" where
  "TrendAnalyzerLog_append sha delta_v self =
     (let self = (if (length (tal_window self)) = TREND_WINDOW then (let self = self\<lparr>tal_window
         := tl (tal_window self)\<rparr>
      in self)
      else self);
          is_improvement = edr_joint_improved delta_v \<or> edr_chains_recovered delta_v;
          is_degradation = edr_joint_worsened delta_v \<or> edr_chains_degraded delta_v;
          self = self\<lparr>tal_window := (tal_window self) @ [(is_improvement, is_degradation,
            edr_pruned_delta delta_v)]\<rparr>;
          window_size = length (tal_window self);
          improvement_count = (of_nat (length (filter (\<lambda>(imp, _,
            _). imp) (tal_window self))) :: u32);
          degradation_count = (of_nat (length (filter (\<lambda>(_, deg,
            _). deg) (tal_window self))) :: u32);
          net_pruned_delta = sum_list (map (\<lambda>(_, _, pd). pd) (tal_window self));
          trend_class = TrendClass_classify improvement_count degradation_count window_size;
          prev = last_hash tr_trend_hash (tal_records self);
          trend_hash = compute_trend_hash sha prev (edr_epoch delta_v) trend_class window_size
            improvement_count degradation_count net_pruned_delta;
          self = self\<lparr>tal_records := (tal_records self) @ [\<lparr>tr_epoch = edr_epoch delta_v,
            tr_trend_class = trend_class, tr_window_size = window_size,
            tr_improvement_count = improvement_count, tr_degradation_count = degradation_count,
            tr_net_pruned_delta = net_pruned_delta, tr_trend_hash = trend_hash,
            tr_prev_hash = prev\<rparr>]\<rparr>
      in (last (tal_records self), self))"

definition TrendAnalyzerLog_improving_trend_count :: "TrendAnalyzerLog \<Rightarrow> nat" where
  "TrendAnalyzerLog_improving_trend_count self =
     length (filter (\<lambda>r. (tr_trend_class r) = TrendClass.Improving) (tal_records self))"

definition TrendAnalyzerLog_degrading_trend_count :: "TrendAnalyzerLog \<Rightarrow> nat" where
  "TrendAnalyzerLog_degrading_trend_count self =
     length (filter (\<lambda>r. (tr_trend_class r) = TrendClass.Degrading) (tal_records self))"

definition TrendAnalyzerLog_volatile_trend_count :: "TrendAnalyzerLog \<Rightarrow> nat" where
  "TrendAnalyzerLog_volatile_trend_count self =
     length (filter (\<lambda>r. (tr_trend_class r) = TrendClass.Volatile) (tal_records self))"

definition TrendAnalyzerLog_stable_trend_count :: "TrendAnalyzerLog \<Rightarrow> nat" where
  "TrendAnalyzerLog_stable_trend_count self =
     length (filter (\<lambda>r. (tr_trend_class r) = TrendClass.Stable) (tal_records self))"

definition TrendRecord_bytes_of :: "TrendRecord \<Rightarrow> bytes" where
  "TrendRecord_bytes_of r =
     trend_bytes (tr_prev_hash r) (tr_epoch r) (tr_trend_class r) (tr_window_size r)
         (tr_improvement_count r) (tr_degradation_count r) (tr_net_pruned_delta r)"

definition TrendAnalyzerLog_verify_chain ::
  "sha \<Rightarrow> TrendAnalyzerLog \<Rightarrow> bool \<times> nat option" where
  "TrendAnalyzerLog_verify_chain sha self =
     verify_from tr_prev_hash tr_trend_hash (\<lambda>r. sha (TrendRecord_bytes_of r)) 0 genesis
         (tal_records self)"

lemma trend_bytes_inj:
  "trend_bytes prev epoch trend_class window_size improvement_count degradation_count net_pruned_delta =
      trend_bytes prev' epoch' trend_class' window_size' improvement_count' degradation_count'
      net_pruned_delta' \<longleftrightarrow>
   prev = prev' \<and> epoch = epoch' \<and> trend_class = trend_class' \<and> (of_nat window_size ::
       u16) = (of_nat window_size' :: u16) \<and> improvement_count = improvement_count' \<and>
       degradation_count = degradation_count' \<and> net_pruned_delta = net_pruned_delta'"
  by (auto simp: trend_bytes_def enc_simps)

definition TrendRecord_committed :: "TrendRecord \<Rightarrow> u64 \<times> TrendClass \<times> u16
    \<times> u32 \<times> u32 \<times> i64" where
  "TrendRecord_committed r =
     (tr_epoch r, tr_trend_class r, of_nat (tr_window_size r) :: u16, tr_improvement_count r,
         tr_degradation_count r, tr_net_pruned_delta r)"

interpretation compaction_trend_analyzer: hash_log TrendRecord_bytes_of tr_prev_hash tr_trend_hash
    TrendRecord_committed
  by unfold_locales (auto simp: TrendRecord_bytes_of_def TrendRecord_committed_def trend_bytes_inj)

lemma compaction_trend_analyzer_verify_iff: "TrendAnalyzerLog_verify_chain sha l = (True,
    None) \<longleftrightarrow> compaction_trend_analyzer.ok sha (tal_records l)"
  by (simp add: TrendAnalyzerLog_verify_chain_def verify_from_iff)

lemma trend_analyzer_log_append_ok: "compaction_trend_analyzer.ok sha (tal_records l) \<Longrightarrow>
    compaction_trend_analyzer.ok sha (tal_records (snd (TrendAnalyzerLog_append sha delta_v l)))"
  by (simp add: Let_def split_def TrendAnalyzerLog_append_def compute_trend_hash_def
      TrendRecord_bytes_of_def split: option.split sum.split)

section \<open>Compaction Dashboard Aggregator (Gate 347)\<close>

text \<open>
  \<open>compaction_dashboard.rs\<close>. Unifies all compaction subsystem signals into a single
  per-epoch DashboardFrame for operator consumption and higher-level integration.
\<close>

datatype DashboardCondition = Thriving | Stable | Concerning | Critical

fun DashboardCondition_as_u8 :: "DashboardCondition \<Rightarrow> u8" where
  "DashboardCondition_as_u8 DashboardCondition.Thriving = 0"
| "DashboardCondition_as_u8 DashboardCondition.Stable = 1"
| "DashboardCondition_as_u8 DashboardCondition.Concerning = 2"
| "DashboardCondition_as_u8 DashboardCondition.Critical = 3"

lemma DashboardCondition_as_u8_inj [simp]: "DashboardCondition_as_u8 x = DashboardCondition_as_u8 y
    \<longleftrightarrow> x = y"
  by (cases x; cases y) auto

definition DashboardCondition_classify ::
  "AlertLevel \<Rightarrow> TrendClass \<Rightarrow> bool \<Rightarrow> DashboardCondition" where
  "DashboardCondition_classify alert trend sla_compliant =
     (if alert = AlertLevel.Red \<or> trend = TrendClass.Degrading then DashboardCondition.Critical
      else if \<not> sla_compliant \<or> trend = TrendClass.Volatile \<or> alert = AlertLevel.Amber then
          DashboardCondition.Concerning
      else if sla_compliant \<and> trend = TrendClass.Improving \<and> alert = AlertLevel.Green then
          DashboardCondition.Thriving
      else DashboardCondition.Stable)"

record DashboardFrame_dashboard =
  df3_epoch :: u64
  df3_condition :: DashboardCondition
  df3_alert_level :: AlertLevel
  df3_trend_class :: TrendClass
  df3_sla_compliant :: bool
  df3_compliance_rate :: u32
  df3_improvement_count :: u32
  df3_degradation_count :: u32
  df3_frame_hash :: hash
  df3_prev_hash :: hash

definition compaction_dashboard_frame_bytes ::
  "hash \<Rightarrow> u64 \<Rightarrow> DashboardCondition \<Rightarrow> AlertLevel \<Rightarrow>
      TrendClass \<Rightarrow> bool \<Rightarrow> u32 \<Rightarrow> u32 \<Rightarrow> u32 \<Rightarrow>
      bytes" where
  "compaction_dashboard_frame_bytes prev epoch condition alert trend sla_compliant compliance_rate
      improvement_count degradation_count =
     hash_bytes prev @ be8 epoch @ [DashboardCondition_as_u8 condition] @ [AlertLevel_as_u8 alert] @
         [TrendClass_as_u8 trend] @ [of_bool sla_compliant] @ be4 compliance_rate @
         be4 improvement_count @ be4 degradation_count"

definition compaction_dashboard_compute_frame_hash ::
  "sha \<Rightarrow> hash \<Rightarrow> u64 \<Rightarrow> DashboardCondition \<Rightarrow> AlertLevel
      \<Rightarrow> TrendClass \<Rightarrow> bool \<Rightarrow> u32 \<Rightarrow> u32 \<Rightarrow> u32
      \<Rightarrow> hash" where
  "compaction_dashboard_compute_frame_hash sha prev epoch condition alert trend sla_compliant
      compliance_rate improvement_count degradation_count =
     sha (compaction_dashboard_frame_bytes prev epoch condition alert trend sla_compliant
         compliance_rate improvement_count degradation_count)"

record CompactionDashboard =
  cd_frames :: "DashboardFrame_dashboard list"

definition CompactionDashboard_new :: "CompactionDashboard" where
  "CompactionDashboard_new =
     \<lparr>cd_frames = []\<rparr>"

definition CompactionDashboard_latest ::
  "CompactionDashboard \<Rightarrow> DashboardFrame_dashboard option" where
  "CompactionDashboard_latest self =
     last_opt (cd_frames self)"

definition CompactionDashboard_record ::
  "sha \<Rightarrow> u64 \<Rightarrow> AlertLevel \<Rightarrow> TrendClass \<Rightarrow> bool
      \<Rightarrow> u32 \<Rightarrow> u32 \<Rightarrow> u32 \<Rightarrow> CompactionDashboard
      \<Rightarrow> DashboardFrame_dashboard \<times> CompactionDashboard" where
  "CompactionDashboard_record sha epoch alert trend sla_compliant compliance_rate improvement_count
      degradation_count self =
     (let condition = DashboardCondition_classify alert trend sla_compliant;
          prev = last_hash df3_frame_hash (cd_frames self);
          frame_hash = compaction_dashboard_compute_frame_hash sha prev epoch condition alert trend
            sla_compliant compliance_rate improvement_count degradation_count;
          self = self\<lparr>cd_frames := (cd_frames self) @ [\<lparr>df3_epoch = epoch,
            df3_condition = condition, df3_alert_level = alert, df3_trend_class = trend,
            df3_sla_compliant = sla_compliant, df3_compliance_rate = compliance_rate,
            df3_improvement_count = improvement_count, df3_degradation_count = degradation_count,
            df3_frame_hash = frame_hash, df3_prev_hash = prev\<rparr>]\<rparr>
      in (last (cd_frames self), self))"

definition CompactionDashboard_thriving_count :: "CompactionDashboard \<Rightarrow> nat" where
  "CompactionDashboard_thriving_count self =
     length (filter (\<lambda>f. (df3_condition f) = DashboardCondition.Thriving) (cd_frames self))"

definition CompactionDashboard_stable_count :: "CompactionDashboard \<Rightarrow> nat" where
  "CompactionDashboard_stable_count self =
     length (filter (\<lambda>f. (df3_condition f) = DashboardCondition.Stable) (cd_frames self))"

definition CompactionDashboard_concerning_count :: "CompactionDashboard \<Rightarrow> nat" where
  "CompactionDashboard_concerning_count self =
     length (filter (\<lambda>f. (df3_condition f) = DashboardCondition.Concerning) (cd_frames self))"

definition CompactionDashboard_critical_count :: "CompactionDashboard \<Rightarrow> nat" where
  "CompactionDashboard_critical_count self =
     length (filter (\<lambda>f. (df3_condition f) = DashboardCondition.Critical) (cd_frames self))"

definition DashboardFrame_dashboard_bytes_of :: "DashboardFrame_dashboard \<Rightarrow> bytes" where
  "DashboardFrame_dashboard_bytes_of f =
     compaction_dashboard_frame_bytes (df3_prev_hash f) (df3_epoch f) (df3_condition f) (df3_alert_level
         f) (df3_trend_class f) (df3_sla_compliant f) (df3_compliance_rate f) (df3_improvement_count f)
         (df3_degradation_count f)"

definition CompactionDashboard_verify_chain ::
  "sha \<Rightarrow> CompactionDashboard \<Rightarrow> bool \<times> nat option" where
  "CompactionDashboard_verify_chain sha self =
     verify_from df3_prev_hash df3_frame_hash (\<lambda>r. sha (DashboardFrame_dashboard_bytes_of r)) 0
         genesis (cd_frames self)"

lemma compaction_dashboard_frame_bytes_inj:
  "compaction_dashboard_frame_bytes prev epoch condition alert trend sla_compliant compliance_rate
      improvement_count degradation_count = compaction_dashboard_frame_bytes prev' epoch' condition'
      alert' trend' sla_compliant' compliance_rate' improvement_count' degradation_count'
      \<longleftrightarrow>
   prev = prev' \<and> epoch = epoch' \<and> condition = condition' \<and> alert = alert' \<and> trend =
       trend' \<and> sla_compliant = sla_compliant' \<and> compliance_rate = compliance_rate' \<and>
       improvement_count = improvement_count' \<and> degradation_count = degradation_count'"
  by (auto simp: compaction_dashboard_frame_bytes_def enc_simps)

definition DashboardFrame_dashboard_committed :: "DashboardFrame_dashboard \<Rightarrow> u64 \<times>
    DashboardCondition \<times> AlertLevel \<times> TrendClass \<times> bool \<times> u32 \<times> u32
    \<times> u32" where
  "DashboardFrame_dashboard_committed f =
     (df3_epoch f, df3_condition f, df3_alert_level f, df3_trend_class f, df3_sla_compliant f,
         df3_compliance_rate f, df3_improvement_count f, df3_degradation_count f)"

interpretation compaction_dashboard: epoch_log DashboardFrame_dashboard_bytes_of df3_prev_hash
    df3_frame_hash DashboardFrame_dashboard_committed
  "\<lambda>sha (epoch, alert, trend, sla_compliant, compliance_rate, improvement_count,
      degradation_count) l. CompactionDashboard_record sha epoch alert trend sla_compliant
      compliance_rate improvement_count degradation_count l"
  cd_frames CompactionDashboard_new "\<lambda>(a, _, c, d, e, f, g, h). (a, c, d, e, f, g, h)"
  by unfold_locales (auto simp: CompactionDashboard_record_def
      compaction_dashboard_compute_frame_hash_def CompactionDashboard_new_def Let_def
      DashboardFrame_dashboard_bytes_of_def DashboardFrame_dashboard_committed_def
      compaction_dashboard_frame_bytes_inj)

lemma compaction_dashboard_verify_iff: "CompactionDashboard_verify_chain sha l = (True,
    None) \<longleftrightarrow> compaction_dashboard.ok sha (cd_frames l)"
  by (simp add: CompactionDashboard_verify_chain_def verify_from_iff)

end
