(* ===== verification/Compaction_Broadcast.thy ===== *)
theory Compaction_Broadcast
  imports Journal Epoch_Log
begin

text \<open>
  How the result of a compaction reaches the mesh: the ledger of the hashes of an epoch, the audit
  seal over a window of it, the 32-byte broadcast frame of a seal, the validator of received frames,
  the state of synchronisation of the peers, their registry, and the dispatcher that sends a frame to
  the registered peers.
\<close>

section \<open>Compaction Epoch Ledger (Gate 348)\<close>

text \<open>
  \<open>compaction_epoch_ledger.rs\<close>. Tamper-evident per-epoch ledger binding all compaction
  subsystem terminal hashes into a single hash-chained LedgerEntry per epoch.
\<close>

record LedgerEntry =
  le2_epoch :: u64
  le2_report_hash :: hash
  le2_alert_hash :: hash
  le2_sla_hash :: hash
  le2_capacity_hash :: hash
  le2_delta_hash :: hash
  le2_trend_hash :: hash
  le2_dashboard_hash :: hash
  le2_entry_hash :: hash
  le2_prev_hash :: hash

definition compaction_epoch_ledger_entry_bytes ::
  "hash \<Rightarrow> u64 \<Rightarrow> hash \<Rightarrow> hash \<Rightarrow> hash \<Rightarrow> hash
      \<Rightarrow> hash \<Rightarrow> hash \<Rightarrow> hash \<Rightarrow> bytes" where
  "compaction_epoch_ledger_entry_bytes prev epoch report_hash alert_hash sla_hash capacity_hash
      delta_hash trend_hash dashboard_hash =
     hash_bytes prev @ be8 epoch @ hash_bytes report_hash @ hash_bytes alert_hash @
         hash_bytes sla_hash @ hash_bytes capacity_hash @ hash_bytes delta_hash @
         hash_bytes trend_hash @ hash_bytes dashboard_hash"

definition compaction_epoch_ledger_compute_entry_hash ::
  "sha \<Rightarrow> hash \<Rightarrow> u64 \<Rightarrow> hash \<Rightarrow> hash \<Rightarrow> hash
      \<Rightarrow> hash \<Rightarrow> hash \<Rightarrow> hash \<Rightarrow> hash \<Rightarrow> hash"
      where
  "compaction_epoch_ledger_compute_entry_hash sha prev epoch report_hash alert_hash sla_hash
      capacity_hash delta_hash trend_hash dashboard_hash =
     sha (compaction_epoch_ledger_entry_bytes prev epoch report_hash alert_hash sla_hash capacity_hash
         delta_hash trend_hash dashboard_hash)"

record CompactionEpochLedger =
  cel_entries :: "LedgerEntry list"

definition CompactionEpochLedger_new :: "CompactionEpochLedger" where
  "CompactionEpochLedger_new =
     \<lparr>cel_entries = []\<rparr>"

definition CompactionEpochLedger_entry_count :: "CompactionEpochLedger \<Rightarrow> nat" where
  "CompactionEpochLedger_entry_count self =
     length (cel_entries self)"

definition CompactionEpochLedger_latest ::
  "CompactionEpochLedger \<Rightarrow> LedgerEntry option" where
  "CompactionEpochLedger_latest self =
     last_opt (cel_entries self)"

definition CompactionEpochLedger_terminal_hash :: "CompactionEpochLedger \<Rightarrow> hash" where
  "CompactionEpochLedger_terminal_hash self =
     last_hash le2_entry_hash (cel_entries self)"

definition CompactionEpochLedger_append ::
  "sha \<Rightarrow> u64 \<Rightarrow> hash \<Rightarrow> hash \<Rightarrow> hash \<Rightarrow> hash
      \<Rightarrow> hash \<Rightarrow> hash \<Rightarrow> hash \<Rightarrow> CompactionEpochLedger
      \<Rightarrow> LedgerEntry \<times> CompactionEpochLedger" where
  "CompactionEpochLedger_append sha epoch report_hash alert_hash sla_hash capacity_hash delta_hash
      trend_hash dashboard_hash self =
     (let prev = last_hash le2_entry_hash (cel_entries self);
          entry_hash = compaction_epoch_ledger_compute_entry_hash sha prev epoch report_hash alert_hash
            sla_hash capacity_hash delta_hash trend_hash dashboard_hash;
          self = self\<lparr>cel_entries := (cel_entries self) @ [\<lparr>le2_epoch = epoch,
            le2_report_hash = report_hash, le2_alert_hash = alert_hash, le2_sla_hash = sla_hash,
            le2_capacity_hash = capacity_hash, le2_delta_hash = delta_hash, le2_trend_hash = trend_hash,
            le2_dashboard_hash = dashboard_hash, le2_entry_hash = entry_hash,
            le2_prev_hash = prev\<rparr>]\<rparr>
      in (last (cel_entries self), self))"

definition LedgerEntry_bytes_of :: "LedgerEntry \<Rightarrow> bytes" where
  "LedgerEntry_bytes_of e =
     compaction_epoch_ledger_entry_bytes (le2_prev_hash e) (le2_epoch e) (le2_report_hash e)
         (le2_alert_hash e) (le2_sla_hash e) (le2_capacity_hash e) (le2_delta_hash e) (le2_trend_hash e)
         (le2_dashboard_hash e)"

definition CompactionEpochLedger_verify_chain ::
  "sha \<Rightarrow> CompactionEpochLedger \<Rightarrow> bool \<times> nat option" where
  "CompactionEpochLedger_verify_chain sha self =
     verify_from le2_prev_hash le2_entry_hash (\<lambda>r. sha (LedgerEntry_bytes_of r)) 0 genesis
         (cel_entries self)"

lemma compaction_epoch_ledger_entry_bytes_inj:
  "compaction_epoch_ledger_entry_bytes prev epoch report_hash alert_hash sla_hash capacity_hash
      delta_hash trend_hash dashboard_hash = compaction_epoch_ledger_entry_bytes prev' epoch'
      report_hash' alert_hash' sla_hash' capacity_hash' delta_hash' trend_hash' dashboard_hash'
      \<longleftrightarrow>
   prev = prev' \<and> epoch = epoch' \<and> report_hash = report_hash' \<and> alert_hash = alert_hash'
       \<and> sla_hash = sla_hash' \<and> capacity_hash = capacity_hash' \<and> delta_hash = delta_hash'
       \<and> trend_hash = trend_hash' \<and> dashboard_hash = dashboard_hash'"
  by (auto simp: compaction_epoch_ledger_entry_bytes_def enc_simps)

definition LedgerEntry_committed :: "LedgerEntry \<Rightarrow> u64 \<times> hash \<times> hash \<times>
    hash \<times> hash \<times> hash \<times> hash \<times> hash" where
  "LedgerEntry_committed e =
     (le2_epoch e, le2_report_hash e, le2_alert_hash e, le2_sla_hash e, le2_capacity_hash e,
         le2_delta_hash e, le2_trend_hash e, le2_dashboard_hash e)"

interpretation compaction_epoch_ledger: epoch_log LedgerEntry_bytes_of le2_prev_hash le2_entry_hash
    LedgerEntry_committed
  "\<lambda>sha (epoch, report_hash, alert_hash, sla_hash, capacity_hash, delta_hash, trend_hash,
      dashboard_hash) l. CompactionEpochLedger_append sha epoch report_hash alert_hash sla_hash
      capacity_hash delta_hash trend_hash dashboard_hash l"
  cel_entries CompactionEpochLedger_new "\<lambda>c. c"
  by unfold_locales (auto simp: CompactionEpochLedger_append_def
      compaction_epoch_ledger_compute_entry_hash_def CompactionEpochLedger_new_def Let_def
      LedgerEntry_bytes_of_def LedgerEntry_committed_def compaction_epoch_ledger_entry_bytes_inj)

lemma compaction_epoch_ledger_verify_iff: "CompactionEpochLedger_verify_chain sha l = (True,
    None) \<longleftrightarrow> compaction_epoch_ledger.ok sha (cel_entries l)"
  by (simp add: CompactionEpochLedger_verify_chain_def verify_from_iff)

section \<open>Compaction Audit Seal (Gate 349)\<close>

text \<open>
  \<open>compaction_audit_seal.rs\<close>. Certifies a window of CompactionEpochLedger entries (Gate
  348) into a tamper-evident CompactionAuditSeal. Analogous to Gate 336 for the full compaction
  subsystem (gates 338-348).
\<close>

record CompactionAuditSeal =
  cas_epoch_start :: u64
  cas_epoch_end :: u64
  cas_epoch_count :: u64
  cas_chains_valid :: bool
  cas_terminal_hash :: hash
  cas_seal_hash :: hash
  cas_prev_hash :: hash

definition seal_bytes ::
  "hash \<Rightarrow> u64 \<Rightarrow> u64 \<Rightarrow> u64 \<Rightarrow> bool \<Rightarrow> hash
      \<Rightarrow> bytes" where
  "seal_bytes prev epoch_start epoch_end epoch_count chains_valid terminal_hash =
     hash_bytes prev @ be8 epoch_start @ be8 epoch_end @ be8 epoch_count @ [of_bool chains_valid] @
         hash_bytes terminal_hash"

definition compute_seal_hash ::
  "sha \<Rightarrow> hash \<Rightarrow> u64 \<Rightarrow> u64 \<Rightarrow> u64 \<Rightarrow> bool
      \<Rightarrow> hash \<Rightarrow> hash" where
  "compute_seal_hash sha prev epoch_start epoch_end epoch_count chains_valid terminal_hash =
     sha (seal_bytes prev epoch_start epoch_end epoch_count chains_valid terminal_hash)"

record CompactionAuditSealLog =
  casl_seals :: "CompactionAuditSeal list"

definition CompactionAuditSealLog_new :: "CompactionAuditSealLog" where
  "CompactionAuditSealLog_new =
     \<lparr>casl_seals = []\<rparr>"

definition CompactionAuditSealLog_seal_count :: "CompactionAuditSealLog \<Rightarrow> nat" where
  "CompactionAuditSealLog_seal_count self =
     length (casl_seals self)"

definition CompactionAuditSealLog_latest ::
  "CompactionAuditSealLog \<Rightarrow> CompactionAuditSeal option" where
  "CompactionAuditSealLog_latest self =
     last_opt (casl_seals self)"

definition LedgerEntry_window_bytes :: "LedgerEntry \<Rightarrow> bytes" where
  "LedgerEntry_window_bytes e =
     hash_bytes (le2_prev_hash e) @ be8 (le2_epoch e) @ hash_bytes (le2_report_hash e) @
     hash_bytes (le2_alert_hash e) @ hash_bytes (le2_sla_hash e) @ hash_bytes (le2_capacity_hash e) @
     hash_bytes (le2_delta_hash e) @ hash_bytes (le2_trend_hash e) @ hash_bytes (le2_dashboard_hash e)"

definition CompactionAuditSealLog_certify ::
  "sha \<Rightarrow> LedgerEntry list \<Rightarrow> CompactionAuditSealLog \<Rightarrow> (string +
      CompactionAuditSeal) \<times> CompactionAuditSealLog" where
  "CompactionAuditSealLog_certify sha entries_v self =
     (if entries_v = [] then (Inl ''[AUDIT_SEAL] Cannot certify empty entry window'', self)
      else
        (let epoch_start = le2_epoch (hd entries_v);
             epoch_end = le2_epoch (last entries_v);
             epoch_count = (of_nat (length entries_v) :: u64);
             chains_valid = fst (verify_from le2_prev_hash le2_entry_hash
               (\<lambda>e. sha (LedgerEntry_window_bytes e)) 0 (le2_prev_hash (hd entries_v))
                 entries_v);
             terminal_hash = le2_entry_hash (last entries_v);
             prev = last_hash cas_seal_hash (casl_seals self);
             seal_hash = compute_seal_hash sha prev epoch_start epoch_end epoch_count chains_valid
               terminal_hash;
             self = self\<lparr>casl_seals := casl_seals self @ [\<lparr>cas_epoch_start = epoch_start,
               cas_epoch_end = epoch_end, cas_epoch_count = epoch_count,
                 cas_chains_valid = chains_valid,
               cas_terminal_hash = terminal_hash, cas_seal_hash = seal_hash,
                 cas_prev_hash = prev\<rparr>]\<rparr>
         in (Inr (last (casl_seals self)), self)))"

definition CompactionAuditSealLog_certify_ledger ::
  "sha \<Rightarrow> CompactionEpochLedger \<Rightarrow> CompactionAuditSealLog \<Rightarrow> (string +
      CompactionAuditSeal) \<times> CompactionAuditSealLog" where
  "CompactionAuditSealLog_certify_ledger sha ledger self =
     (let (result, self) = CompactionAuditSealLog_certify sha (cel_entries ledger) self
      in (result, self))"

definition CompactionAuditSealLog_all_valid :: "CompactionAuditSealLog \<Rightarrow> bool" where
  "CompactionAuditSealLog_all_valid self \<longleftrightarrow>
     list_all cas_chains_valid (casl_seals self)"

definition CompactionAuditSeal_bytes_of :: "CompactionAuditSeal \<Rightarrow> bytes" where
  "CompactionAuditSeal_bytes_of s =
     seal_bytes (cas_prev_hash s) (cas_epoch_start s) (cas_epoch_end s) (cas_epoch_count s)
         (cas_chains_valid s) (cas_terminal_hash s)"

definition CompactionAuditSealLog_verify_chain ::
  "sha \<Rightarrow> CompactionAuditSealLog \<Rightarrow> bool \<times> nat option" where
  "CompactionAuditSealLog_verify_chain sha self =
     verify_from cas_prev_hash cas_seal_hash (\<lambda>r. sha (CompactionAuditSeal_bytes_of r)) 0
         genesis (casl_seals self)"

lemma seal_bytes_inj:
  "seal_bytes prev epoch_start epoch_end epoch_count chains_valid terminal_hash = seal_bytes prev'
      epoch_start' epoch_end' epoch_count' chains_valid' terminal_hash' \<longleftrightarrow>
   prev = prev' \<and> epoch_start = epoch_start' \<and> epoch_end = epoch_end' \<and> epoch_count =
       epoch_count' \<and> chains_valid = chains_valid' \<and> terminal_hash = terminal_hash'"
  by (auto simp: seal_bytes_def enc_simps)

definition CompactionAuditSeal_committed :: "CompactionAuditSeal \<Rightarrow> u64 \<times> u64 \<times>
    u64 \<times> bool \<times> hash" where
  "CompactionAuditSeal_committed s =
     (cas_epoch_start s, cas_epoch_end s, cas_epoch_count s, cas_chains_valid s, cas_terminal_hash s)"

interpretation compaction_audit_seal: hash_log CompactionAuditSeal_bytes_of cas_prev_hash cas_seal_hash
    CompactionAuditSeal_committed
  by unfold_locales (auto simp: CompactionAuditSeal_bytes_of_def CompactionAuditSeal_committed_def
      seal_bytes_inj)

lemma compaction_audit_seal_verify_iff: "CompactionAuditSealLog_verify_chain sha l = (True,
    None) \<longleftrightarrow> compaction_audit_seal.ok sha (casl_seals l)"
  by (simp add: CompactionAuditSealLog_verify_chain_def verify_from_iff)

lemma compaction_audit_seal_log_certify_ok: "compaction_audit_seal.ok sha (casl_seals l)
    \<Longrightarrow> compaction_audit_seal.ok sha (casl_seals (snd (CompactionAuditSealLog_certify sha
    entries_v l)))"
  by (simp add: Let_def split_def CompactionAuditSealLog_certify_def compute_seal_hash_def
      CompactionAuditSeal_bytes_of_def split: option.split sum.split)

lemma compaction_audit_seal_log_certify_ledger_ok: "compaction_audit_seal.ok sha (casl_seals l)
    \<Longrightarrow> compaction_audit_seal.ok sha (casl_seals (snd
    (CompactionAuditSealLog_certify_ledger sha ledger l)))"
  by (simp add: Let_def split_def CompactionAuditSealLog_certify_ledger_def
      compaction_audit_seal_log_certify_ok split: option.split sum.split)

section \<open>Compaction Broadcaster (Gate 350)\<close>

text \<open>
  \<open>compaction_broadcaster.rs\<close>. Encodes a CompactionAuditSeal (Gate 349) into a compact
  32-byte network frame for peer broadcast. Mirrors Gate 337 (CompactionTelemetryEncoder) but operates
  on the full-subsystem seal rather than per-epoch telemetry.
\<close>

definition BROADCAST_FRAME_LEN :: nat where
  "BROADCAST_FRAME_LEN = 32"

record BroadcastRecord =
  br2_epoch_end :: u64
  br2_frame :: bytes
  br2_record_hash :: hash
  br2_prev_hash :: hash

definition encode_frame :: "sha \<Rightarrow> CompactionAuditSeal \<Rightarrow> bytes" where
  "encode_frame sha seal =
     (let head = be8 (cas_epoch_end seal) @ be8 (cas_epoch_count seal) @
         [of_bool (cas_chains_valid seal)] @
            take 4 (hash_bytes (cas_seal_hash seal)) @ take 4 (hash_bytes (cas_terminal_hash seal))
      in head @ take 7 (hash_bytes (sha head)))"

definition compaction_broadcaster_record_bytes ::
  "hash \<Rightarrow> bytes \<Rightarrow> u64 \<Rightarrow> bytes" where
  "compaction_broadcaster_record_bytes prev frame epoch_end =
     hash_bytes prev @ frame @ be8 epoch_end"

definition compaction_broadcaster_compute_record_hash ::
  "sha \<Rightarrow> hash \<Rightarrow> bytes \<Rightarrow> u64 \<Rightarrow> hash" where
  "compaction_broadcaster_compute_record_hash sha prev frame epoch_end =
     sha (compaction_broadcaster_record_bytes prev frame epoch_end)"

record CompactionBroadcaster =
  cb_log :: "BroadcastRecord list"

record DecodedFrame =
  df4_epoch_end :: u64
  df4_epoch_count :: u64
  df4_chains_valid :: bool
  df4_seal_prefix :: bytes
  df4_terminal_prefix :: bytes

datatype BroadcastError = BroadcastError string

definition CompactionBroadcaster_new :: "CompactionBroadcaster" where
  "CompactionBroadcaster_new =
     \<lparr>cb_log = []\<rparr>"

definition CompactionBroadcaster_frame_count :: "CompactionBroadcaster \<Rightarrow> nat" where
  "CompactionBroadcaster_frame_count self =
     length (cb_log self)"

definition CompactionBroadcaster_latest ::
  "CompactionBroadcaster \<Rightarrow> BroadcastRecord option" where
  "CompactionBroadcaster_latest self =
     last_opt (cb_log self)"

definition CompactionBroadcaster_encode ::
  "sha \<Rightarrow> CompactionAuditSeal \<Rightarrow> CompactionBroadcaster \<Rightarrow>
      BroadcastRecord \<times> CompactionBroadcaster" where
  "CompactionBroadcaster_encode sha seal self =
     (let frame = encode_frame sha seal;
          prev = last_hash br2_record_hash (cb_log self);
          record_hash = compaction_broadcaster_compute_record_hash sha prev frame (cas_epoch_end seal);
          self = self\<lparr>cb_log := (cb_log self) @ [\<lparr>br2_epoch_end = cas_epoch_end seal,
            br2_frame = frame, br2_record_hash = record_hash, br2_prev_hash = prev\<rparr>]\<rparr>
      in (last (cb_log self), self))"

definition CompactionBroadcaster_decode :: "sha \<Rightarrow> bytes \<Rightarrow> BroadcastError +
    DecodedFrame" where
  "CompactionBroadcaster_decode sha frame =
     (if drop 25 frame \<noteq> take 7 (hash_bytes (sha (take 25 frame)))
      then Inl (BroadcastError ''[BROADCAST] Checksum mismatch'')
      else Inr \<lparr>df4_epoch_end = from_be (take 8 frame), df4_epoch_count = from_be (take 8 (drop 8
          frame)),
        df4_chains_valid = (frame ! 16 \<noteq> 0), df4_seal_prefix = take 4 (drop 17 frame),
        df4_terminal_prefix = take 4 (drop 21 frame)\<rparr>)"

definition BroadcastRecord_bytes_of :: "BroadcastRecord \<Rightarrow> bytes" where
  "BroadcastRecord_bytes_of r =
     compaction_broadcaster_record_bytes (br2_prev_hash r) (br2_frame r) (br2_epoch_end r)"

definition CompactionBroadcaster_verify_chain ::
  "sha \<Rightarrow> CompactionBroadcaster \<Rightarrow> bool \<times> nat option" where
  "CompactionBroadcaster_verify_chain sha self =
     verify_from br2_prev_hash br2_record_hash (\<lambda>r. sha (BroadcastRecord_bytes_of r)) 0 genesis
         (cb_log self)"

lemma compaction_broadcaster_record_bytes_inj:
  "compaction_broadcaster_record_bytes prev frame epoch_end = compaction_broadcaster_record_bytes prev'
      frame' epoch_end' \<longleftrightarrow>
   prev = prev' \<and> frame = frame' \<and> epoch_end = epoch_end'"
  by (auto simp: compaction_broadcaster_record_bytes_def enc_simps append_eq_append_conv)

definition BroadcastRecord_committed :: "BroadcastRecord \<Rightarrow> bytes \<times> u64" where
  "BroadcastRecord_committed r =
     (br2_frame r, br2_epoch_end r)"

interpretation compaction_broadcaster: hash_log BroadcastRecord_bytes_of br2_prev_hash br2_record_hash
    BroadcastRecord_committed
  by unfold_locales (auto simp: BroadcastRecord_bytes_of_def BroadcastRecord_committed_def
      compaction_broadcaster_record_bytes_inj)

lemma compaction_broadcaster_verify_iff: "CompactionBroadcaster_verify_chain sha l = (True,
    None) \<longleftrightarrow> compaction_broadcaster.ok sha (cb_log l)"
  by (simp add: CompactionBroadcaster_verify_chain_def verify_from_iff)

lemma compaction_broadcaster_encode_ok: "compaction_broadcaster.ok sha (cb_log l) \<Longrightarrow>
    compaction_broadcaster.ok sha (cb_log (snd (CompactionBroadcaster_encode sha seal l)))"
  by (simp add: Let_def split_def CompactionBroadcaster_encode_def
      compaction_broadcaster_compute_record_hash_def BroadcastRecord_bytes_of_def split: option.split
      sum.split)

lemma broadcast_frame_parts:
  fixes seal :: CompactionAuditSeal
  defines "f \<equiv> be8 (cas_epoch_end seal) @ be8 (cas_epoch_count seal) @ [of_bool (cas_chains_valid seal) :: u8] @
    take 4 (hash_bytes (cas_seal_hash seal)) @ take 4 (hash_bytes (cas_terminal_hash seal))"
  shows "encode_frame sha seal = f @ take 7 (hash_bytes (sha f))" and "length f = 25"
    and "length (encode_frame sha seal) = 32"
  by (simp_all add: encode_frame_def f_def Let_def)

lemma decode_encode_frame:
  "CompactionBroadcaster_decode sha (encode_frame sha seal) =
     Inr \<lparr>df4_epoch_end = cas_epoch_end seal, df4_epoch_count = cas_epoch_count seal,
       df4_chains_valid = cas_chains_valid seal, df4_seal_prefix = take 4 (hash_bytes (cas_seal_hash seal)),
       df4_terminal_prefix = take 4 (hash_bytes (cas_terminal_hash seal))\<rparr>"
  by (simp add: CompactionBroadcaster_decode_def broadcast_frame_parts from_be_be_bytes_id nth_append)

definition checksum_ok :: "sha \<Rightarrow> bytes \<Rightarrow> bool" where
  "checksum_ok sha f \<longleftrightarrow> drop 25 f = take 7 (hash_bytes (sha (take 25 f)))"

lemma decode_isl: "isl (CompactionBroadcaster_decode sha f) \<longleftrightarrow> \<not> checksum_ok sha f"
  by (simp add: CompactionBroadcaster_decode_def checksum_ok_def)

lemma be_bytes_from_be: "length bs = 8 \<Longrightarrow> be8 (from_be bs :: u64) = bs"
  using le_bytes_from_le [of "rev bs" 8, where 'a = 64] by (simp add: be_bytes_def from_be_def)

text \<open>The frame of some decoded fields, with the byte that carries the flag.\<close>

definition frame_of :: "sha \<Rightarrow> u8 \<Rightarrow> DecodedFrame \<Rightarrow> bytes" where
  "frame_of sha flag d =
     (let h = be8 (df4_epoch_end d) @ be8 (df4_epoch_count d) @ [flag] @ df4_seal_prefix d @ df4_terminal_prefix d
      in h @ take 7 (hash_bytes (sha h)))"

lemma take_25: "length f = 32 \<Longrightarrow>
  take 25 f = take 8 f @ take 8 (drop 8 f) @ [f ! 16] @ take 4 (drop 17 f) @ take 4 (drop 21 f)"
proof -
  assume l: "length f = 32"
  have "take 25 f = take (8 + (8 + (1 + (4 + 4)))) f" by simp
  also have "\<dots> = take 8 f @ take 8 (drop 8 f) @ take 1 (drop 16 f) @ take 4 (drop 17 f) @ take 4 (drop 21 f)"
    by (simp only: take_add drop_drop) simp
  also have "take 1 (drop 16 f) = [f ! 16]"
    using l by (simp add: take_Suc hd_drop_conv_nth)
  finally show ?thesis .
qed

lemma decode_frame_of:
  assumes "length (df4_seal_prefix d) = 4" and "length (df4_terminal_prefix d) = 4" and "df4_chains_valid d \<longleftrightarrow> flag \<noteq> 0"
  shows "CompactionBroadcaster_decode sha (frame_of sha flag d) = Inr d" and "length (frame_of sha flag d) = 32"
  using assms by (simp_all add: CompactionBroadcaster_decode_def frame_of_def Let_def from_be_be_bytes_id nth_append)

lemma decoded_frame:
  assumes "length f = 32" and "CompactionBroadcaster_decode sha f = Inr d"
  shows "f = frame_of sha (f ! 16) d" and "df4_chains_valid d \<longleftrightarrow> f ! 16 \<noteq> 0"
    and "length (df4_seal_prefix d) = 4" and "length (df4_terminal_prefix d) = 4"
proof -
  have d: "drop 25 f = take 7 (hash_bytes (sha (take 25 f)))"
      "df4_epoch_end d = from_be (take 8 f)" "df4_epoch_count d = from_be (take 8 (drop 8 f))"
      "df4_chains_valid d \<longleftrightarrow> f ! 16 \<noteq> 0" "df4_seal_prefix d = take 4 (drop 17 f)" "df4_terminal_prefix d = take 4 (drop 21 f)"
    using assms(2) by (auto simp: CompactionBroadcaster_decode_def split: if_splits)
  have "take 25 f = be8 (df4_epoch_end d) @ be8 (df4_epoch_count d) @ [f ! 16] @ df4_seal_prefix d @ df4_terminal_prefix d"
    using assms(1) by (simp add: d be_bytes_from_be take_25)
  then show "f = frame_of sha (f ! 16) d"
    using d(1) append_take_drop_id [of 25 f] by (simp add: Let_def frame_of_def)
  show "df4_chains_valid d \<longleftrightarrow> f ! 16 \<noteq> 0" by (rule d(4))
  show "length (df4_seal_prefix d) = 4" "length (df4_terminal_prefix d) = 4"
    using assms(1) by (simp_all add: d)
qed

lemma decodes_iff:
  assumes "length f = 32"
  shows "CompactionBroadcaster_decode sha f = Inr d \<longleftrightarrow>
    (\<exists>flag. f = frame_of sha flag d \<and> (df4_chains_valid d \<longleftrightarrow> flag \<noteq> 0) \<and>
       length (df4_seal_prefix d) = 4 \<and> length (df4_terminal_prefix d) = 4)"
proof
  assume "CompactionBroadcaster_decode sha f = Inr d"
  from decoded_frame [OF assms this] show "\<exists>flag. f = frame_of sha flag d \<and> (df4_chains_valid d \<longleftrightarrow> flag \<noteq> 0) \<and>
       length (df4_seal_prefix d) = 4 \<and> length (df4_terminal_prefix d) = 4"
    by blast
next
  assume "\<exists>flag. f = frame_of sha flag d \<and> (df4_chains_valid d \<longleftrightarrow> flag \<noteq> 0) \<and>
       length (df4_seal_prefix d) = 4 \<and> length (df4_terminal_prefix d) = 4"
  then show "CompactionBroadcaster_decode sha f = Inr d" by (elim exE conjE) (simp only: decode_frame_of(1))
qed

text \<open>
  C29.  What goes on the wire is what comes off it: the frame of a seal has 32 bytes and decodes to the
  figures of the seal and the prefixes of its hashes; and a frame of 32 bytes decodes to given fields
  exactly if it is the layout of these fields, with their checksum, for a flag byte that is not zero
  exactly if the flag is set.  Hence two frames that decode alike differ at most in that byte and in the
  checksum.
\<close>

theorem broadcast_frame_roundtrip:
  "length (encode_frame sha seal) = 32 \<and>
   CompactionBroadcaster_decode sha (encode_frame sha seal) =
     Inr \<lparr>df4_epoch_end = cas_epoch_end seal, df4_epoch_count = cas_epoch_count seal,
       df4_chains_valid = cas_chains_valid seal, df4_seal_prefix = take 4 (hash_bytes (cas_seal_hash seal)),
       df4_terminal_prefix = take 4 (hash_bytes (cas_terminal_hash seal))\<rparr> \<and>
   (length f = 32 \<longrightarrow>
      (CompactionBroadcaster_decode sha f = Inr d \<longleftrightarrow>
        (\<exists>flag. f = frame_of sha flag d \<and> (df4_chains_valid d \<longleftrightarrow> flag \<noteq> 0) \<and>
           length (df4_seal_prefix d) = 4 \<and> length (df4_terminal_prefix d) = 4)))"
  by (intro conjI impI broadcast_frame_parts(3) decode_encode_frame decodes_iff)

theorem broadcast_frame_roundtrip_witness:
  "let sha = \<lambda>b :: bytes. of_nat (length b) :: hash;
       d = \<lparr>df4_epoch_end = 5, df4_epoch_count = 3, df4_chains_valid = True, df4_seal_prefix = [1, 2, 3, 4],
         df4_terminal_prefix = [5, 6, 7, 8]\<rparr>
   in CompactionBroadcaster_decode sha (frame_of sha 1 d) = Inr d \<and>
      CompactionBroadcaster_decode sha (frame_of sha 2 d) = Inr d"
  using broadcast_frame_roundtrip [where sha = "\<lambda>b :: bytes. of_nat (length b) :: hash" and f = "frame_of (\<lambda>b. of_nat (length b)) 1 \<lparr>df4_epoch_end = 5, df4_epoch_count = 3,
         df4_chains_valid = True, df4_seal_prefix = [1, 2, 3, 4], df4_terminal_prefix = [5, 6, 7, 8]\<rparr>"]
    broadcast_frame_roundtrip [where sha = "\<lambda>b :: bytes. of_nat (length b) :: hash" and f = "frame_of (\<lambda>b. of_nat (length b)) 2 \<lparr>df4_epoch_end = 5, df4_epoch_count = 3,
         df4_chains_valid = True, df4_seal_prefix = [1, 2, 3, 4], df4_terminal_prefix = [5, 6, 7, 8]\<rparr>"]
    by (auto simp: decode_frame_of)

section \<open>Compaction Broadcast Validator (Gate 351)\<close>

text \<open>
  \<open>compaction_broadcast_validator.rs\<close>. Validates incoming BroadcastFrames (Gate 350) from
  peers, enforcing: 1. Checksum integrity (SHA-256 over frame[0..25]) 2. Epoch monotonicity (each
  frame's epoch_end >= previous) 3. Chain-of-epoch continuity (optional: epoch_end must advance by
  exactly 1)
\<close>

datatype ValidationVerdict = Valid | ChecksumFail | EpochRegressed | ChecksumAndEpoch

fun ValidationVerdict_as_u8 :: "ValidationVerdict \<Rightarrow> u8" where
  "ValidationVerdict_as_u8 ValidationVerdict.Valid = 0"
| "ValidationVerdict_as_u8 ValidationVerdict.ChecksumFail = 1"
| "ValidationVerdict_as_u8 ValidationVerdict.EpochRegressed = 2"
| "ValidationVerdict_as_u8 ValidationVerdict.ChecksumAndEpoch = 3"

lemma ValidationVerdict_as_u8_inj [simp]: "ValidationVerdict_as_u8 x = ValidationVerdict_as_u8 y
    \<longleftrightarrow> x = y"
  by (cases x; cases y) auto

definition ValidationVerdict_is_valid :: "ValidationVerdict \<Rightarrow> bool" where
  "ValidationVerdict_is_valid self \<longleftrightarrow>
     self = ValidationVerdict.Valid"

definition ValidationVerdict_has_checksum_fail :: "ValidationVerdict \<Rightarrow> bool" where
  "ValidationVerdict_has_checksum_fail self \<longleftrightarrow>
     self = ValidationVerdict.ChecksumFail \<or> self = ValidationVerdict.ChecksumAndEpoch"

definition ValidationVerdict_has_epoch_regression :: "ValidationVerdict \<Rightarrow> bool" where
  "ValidationVerdict_has_epoch_regression self \<longleftrightarrow>
     self = ValidationVerdict.EpochRegressed \<or> self = ValidationVerdict.ChecksumAndEpoch"

record ValidationRecord =
  vr2_frame_epoch_end :: u64
  vr2_verdict :: ValidationVerdict
  vr2_frame :: bytes
  vr2_record_hash :: hash
  vr2_prev_hash :: hash

definition validation_bytes ::
  "hash \<Rightarrow> u64 \<Rightarrow> u8 \<Rightarrow> bytes \<Rightarrow> bytes" where
  "validation_bytes prev frame_epoch_end verdict_byte frame =
     hash_bytes prev @ be8 frame_epoch_end @ [verdict_byte] @ frame"

definition compute_validation_hash ::
  "sha \<Rightarrow> hash \<Rightarrow> u64 \<Rightarrow> u8 \<Rightarrow> bytes \<Rightarrow> hash"
      where
  "compute_validation_hash sha prev frame_epoch_end verdict_byte frame =
     sha (validation_bytes prev frame_epoch_end verdict_byte frame)"

record CompactionBroadcastValidator =
  cbv_log :: "ValidationRecord list"
  cbv_last_epoch_end :: "u64 option"

datatype ValidatorError = ValidatorError string

definition CompactionBroadcastValidator_new :: "CompactionBroadcastValidator" where
  "CompactionBroadcastValidator_new =
     \<lparr>cbv_log = [], cbv_last_epoch_end = None\<rparr>"

definition CompactionBroadcastValidator_record_count ::
  "CompactionBroadcastValidator \<Rightarrow> nat" where
  "CompactionBroadcastValidator_record_count self =
     length (cbv_log self)"

definition CompactionBroadcastValidator_latest ::
  "CompactionBroadcastValidator \<Rightarrow> ValidationRecord option" where
  "CompactionBroadcastValidator_latest self =
     last_opt (cbv_log self)"

definition CompactionBroadcastValidator_count_verdict ::
  "ValidationVerdict \<Rightarrow> CompactionBroadcastValidator \<Rightarrow> nat" where
  "CompactionBroadcastValidator_count_verdict v self =
     length (filter (\<lambda>r. (vr2_verdict r) = v) (cbv_log self))"

definition CompactionBroadcastValidator_validate :: "sha \<Rightarrow> bytes \<Rightarrow>
    CompactionBroadcastValidator \<Rightarrow> ValidationRecord \<times> CompactionBroadcastValidator"
    where
  "CompactionBroadcastValidator_validate sha frame self =
     (let checksum_ok = \<not> isl (CompactionBroadcaster_decode sha frame);
          frame_epoch_end = (from_be (take 8 frame) :: u64);
          epoch_ok = (case cbv_last_epoch_end self of None \<Rightarrow> True | Some p \<Rightarrow> p
            \<le> frame_epoch_end);
          verdict = (case (checksum_ok, epoch_ok) of
              (True, True) \<Rightarrow> ValidationVerdict.Valid
            | (False, True) \<Rightarrow> ValidationVerdict.ChecksumFail
            | (True, False) \<Rightarrow> ValidationVerdict.EpochRegressed
            | (False, False) \<Rightarrow> ValidationVerdict.ChecksumAndEpoch);
          self = (if ValidationVerdict_is_valid verdict then self\<lparr>cbv_last_epoch_end := Some
            frame_epoch_end\<rparr> else self);
          prev = last_hash vr2_record_hash (cbv_log self);
          record_hash = compute_validation_hash sha prev frame_epoch_end (ValidationVerdict_as_u8
            verdict) frame;
          self = self\<lparr>cbv_log := cbv_log self @ [\<lparr>vr2_frame_epoch_end = frame_epoch_end,
            vr2_verdict = verdict,
            vr2_frame = frame, vr2_record_hash = record_hash, vr2_prev_hash = prev\<rparr>]\<rparr>
      in (last (cbv_log self), self))"

definition ValidationRecord_bytes_of :: "ValidationRecord \<Rightarrow> bytes" where
  "ValidationRecord_bytes_of r =
     validation_bytes (vr2_prev_hash r) (vr2_frame_epoch_end r) (ValidationVerdict_as_u8 (vr2_verdict
         r)) (vr2_frame r)"

definition CompactionBroadcastValidator_verify_chain ::
  "sha \<Rightarrow> CompactionBroadcastValidator \<Rightarrow> bool \<times> nat option" where
  "CompactionBroadcastValidator_verify_chain sha self =
     verify_from vr2_prev_hash vr2_record_hash (\<lambda>r. sha (ValidationRecord_bytes_of r)) 0 genesis
         (cbv_log self)"

lemma validation_bytes_inj:
  "validation_bytes prev frame_epoch_end verdict_byte frame = validation_bytes prev' frame_epoch_end'
      verdict_byte' frame' \<longleftrightarrow>
   prev = prev' \<and> frame_epoch_end = frame_epoch_end' \<and> verdict_byte = verdict_byte' \<and>
       frame = frame'"
  by (auto simp: validation_bytes_def enc_simps append_eq_append_conv)

definition ValidationRecord_committed :: "ValidationRecord \<Rightarrow> u64 \<times> u8 \<times> bytes"
    where
  "ValidationRecord_committed r =
     (vr2_frame_epoch_end r, ValidationVerdict_as_u8 (vr2_verdict r), vr2_frame r)"

interpretation compaction_broadcast_validator: hash_log ValidationRecord_bytes_of vr2_prev_hash
    vr2_record_hash ValidationRecord_committed
  by unfold_locales (auto simp: ValidationRecord_bytes_of_def ValidationRecord_committed_def
      validation_bytes_inj)

lemma compaction_broadcast_validator_verify_iff: "CompactionBroadcastValidator_verify_chain sha l =
    (True, None) \<longleftrightarrow> compaction_broadcast_validator.ok sha (cbv_log l)"
  by (simp add: CompactionBroadcastValidator_verify_chain_def verify_from_iff)

lemma compaction_broadcast_validator_validate_ok: "compaction_broadcast_validator.ok sha (cbv_log l)
    \<Longrightarrow> compaction_broadcast_validator.ok sha (cbv_log (snd
    (CompactionBroadcastValidator_validate sha frame l)))"
  by (simp add: Let_def split_def CompactionBroadcastValidator_validate_def compute_validation_hash_def
      ValidationRecord_bytes_of_def split: option.split sum.split)

abbreviation after_frames :: "sha \<Rightarrow> bytes list \<Rightarrow> CompactionBroadcastValidator" where
  "after_frames sha fs \<equiv> run (\<lambda>f v. snd (CompactionBroadcastValidator_validate sha f v)) fs CompactionBroadcastValidator_new"

definition valid_epochs :: "ValidationRecord list \<Rightarrow> u64 list" where
  "valid_epochs rs = map vr2_frame_epoch_end (filter (\<lambda>r. ValidationVerdict_is_valid (vr2_verdict r)) rs)"

definition judged :: "sha \<Rightarrow> ValidationRecord list \<Rightarrow> ValidationRecord \<Rightarrow> bool" where
  "judged sha rs r \<longleftrightarrow>
     vr2_frame_epoch_end r = from_be (take 8 (vr2_frame r)) \<and>
     (ValidationVerdict_has_checksum_fail (vr2_verdict r) \<longleftrightarrow> \<not> checksum_ok sha (vr2_frame r)) \<and>
     (ValidationVerdict_has_epoch_regression (vr2_verdict r) \<longleftrightarrow>
        (\<exists>e \<in> set (valid_epochs rs). vr2_frame_epoch_end r < e))"

lemma verdict_parts:
  "ValidationVerdict_is_valid v \<longleftrightarrow> \<not> ValidationVerdict_has_checksum_fail v \<and> \<not> ValidationVerdict_has_epoch_regression v"
  by (cases v) (simp_all add: ValidationVerdict_is_valid_def ValidationVerdict_has_checksum_fail_def
      ValidationVerdict_has_epoch_regression_def)

lemma valid_epochs_snoc [simp]:
  "valid_epochs [] = []"
  "valid_epochs (rs @ [r]) = valid_epochs rs @ (if ValidationVerdict_is_valid (vr2_verdict r) then [vr2_frame_epoch_end r] else [])"
  by (simp_all add: valid_epochs_def)

lemma sorted_last_max: "sorted (xs :: 'a::linorder list) \<Longrightarrow> xs \<noteq> [] \<Longrightarrow> (\<exists>y \<in> set xs. x < y) \<longleftrightarrow> x < last xs"
  by (induction xs rule: rev_induct) (auto simp: sorted_append intro: less_le_trans)

lemma validate_judges:
  fixes sha f v
  assumes "sorted (valid_epochs (cbv_log v))" and "cbv_last_epoch_end v = last_opt (valid_epochs (cbv_log v))"
  defines "r \<equiv> fst (CompactionBroadcastValidator_validate sha f v)"
    and "w \<equiv> snd (CompactionBroadcastValidator_validate sha f v)"
  shows "cbv_log w = cbv_log v @ [r]" and "vr2_frame r = f" and "judged sha (cbv_log v) r"
    and "sorted (valid_epochs (cbv_log w))" and "cbv_last_epoch_end w = last_opt (valid_epochs (cbv_log w))"
proof -
  let ?e = "from_be (take 8 f) :: u64"
  let ?b = "case cbv_last_epoch_end v of None \<Rightarrow> True | Some p \<Rightarrow> p \<le> ?e"
  let ?d = "case (checksum_ok sha f, ?b) of (True, True) \<Rightarrow> ValidationVerdict.Valid
    | (False, True) \<Rightarrow> ValidationVerdict.ChecksumFail | (True, False) \<Rightarrow> ValidationVerdict.EpochRegressed
    | (False, False) \<Rightarrow> ValidationVerdict.ChecksumAndEpoch"
  have r: "cbv_log w = cbv_log v @ [r]" "vr2_frame r = f" "vr2_frame_epoch_end r = ?e" "vr2_verdict r = ?d"
      "cbv_last_epoch_end w = (if ValidationVerdict_is_valid ?d then Some ?e else cbv_last_epoch_end v)"
    by (simp_all add: r_def w_def CompactionBroadcastValidator_validate_def Let_def decode_isl)
  have b: "?b \<longleftrightarrow> \<not> (\<exists>e \<in> set (valid_epochs (cbv_log v)). ?e < e)"
    using assms(1,2) sorted_last_max [OF assms(1), of ?e]
    by (cases "valid_epochs (cbv_log v) = []") (simp_all add: last_opt_def not_less)
  have d: "ValidationVerdict_has_checksum_fail ?d \<longleftrightarrow> \<not> checksum_ok sha f"
      "ValidationVerdict_has_epoch_regression ?d \<longleftrightarrow> \<not> ?b"
    by (cases "checksum_ok sha f"; cases ?b;
      simp add: ValidationVerdict_has_checksum_fail_def ValidationVerdict_has_epoch_regression_def)+
  show "cbv_log w = cbv_log v @ [r]" "vr2_frame r = f" by (fact r)+
  show "judged sha (cbv_log v) r" 
    unfolding judged_def r(2,3,4) unfolding d unfolding b by simp
  have "ValidationVerdict_is_valid ?d \<Longrightarrow> \<forall>e \<in> set (valid_epochs (cbv_log v)). e \<le> ?e"
    unfolding verdict_parts unfolding d unfolding b by (simp add: not_less)
  then show "sorted (valid_epochs (cbv_log w))" using assms(1) by (simp add: r sorted_append)
  show "cbv_last_epoch_end w = last_opt (valid_epochs (cbv_log w))" by (simp add: r assms(2))
qed

lemma after_frames_inv:
  "sorted (valid_epochs (cbv_log (after_frames sha fs))) \<and>
   cbv_last_epoch_end (after_frames sha fs) = last_opt (valid_epochs (cbv_log (after_frames sha fs))) \<and>
   map vr2_frame (cbv_log (after_frames sha fs)) = fs \<and>
   compaction_broadcast_validator.ok sha (cbv_log (after_frames sha fs))"
proof (induction fs rule: rev_induct)
  case Nil
  then show ?case by (simp add: CompactionBroadcastValidator_new_def)
next
  case (snoc f fs)
  then show ?case
    using validate_judges [of "after_frames sha fs" sha f] compaction_broadcast_validator_validate_ok [of sha "after_frames sha fs" f]
    by simp
qed

lemma after_frames_judged:
  "cbv_log (after_frames sha fs) = xs @ r # ys \<Longrightarrow> judged sha xs r"
proof (induction fs arbitrary: ys rule: rev_induct)
  case Nil
  then show ?case by (simp add: CompactionBroadcastValidator_new_def)
next
  case (snoc f fs)
  note v = after_frames_inv [of sha fs]
  have eq: "cbv_log (after_frames sha fs) @ [fst (CompactionBroadcastValidator_validate sha f (after_frames sha fs))] = xs @ r # ys"
    using snoc.prems validate_judges(1) [of "after_frames sha fs" sha f] v by simp
  then show ?case
  proof (cases ys rule: rev_cases)
    case Nil
    with eq show ?thesis using validate_judges(3) [of "after_frames sha fs" sha f] v by simp
  next
    case (snoc ys' y)
    with eq show ?thesis using snoc.IH by simp
  qed
qed

text \<open>
  C30.  What a validator accepts: after any frames, its log holds them in order and verifies; the verdict
  on each is Valid exactly if its checksum is right and no Valid frame before it has a later epoch, and
  otherwise names what is wrong; so the epochs of the Valid frames never go back.  Two validators with
  one last hash saw the same frames, or the hash was forged.
\<close>

theorem validator_accepts_exactly:
  "let v = after_frames sha fs; rs = cbv_log v in
   map vr2_frame rs = fs \<and> CompactionBroadcastValidator_verify_chain sha v = (True, None) \<and>
   sorted (valid_epochs rs) \<and>
   (\<forall>xs r ys. rs = xs @ r # ys \<longrightarrow>
      vr2_frame_epoch_end r = from_be (take 8 (vr2_frame r)) \<and>
      (ValidationVerdict_is_valid (vr2_verdict r) \<longleftrightarrow>
         \<not> ValidationVerdict_has_checksum_fail (vr2_verdict r) \<and> \<not> ValidationVerdict_has_epoch_regression (vr2_verdict r)) \<and>
      (ValidationVerdict_has_checksum_fail (vr2_verdict r) \<longleftrightarrow> \<not> checksum_ok sha (vr2_frame r)) \<and>
      (ValidationVerdict_has_epoch_regression (vr2_verdict r) \<longleftrightarrow>
         (\<exists>e \<in> set (valid_epochs xs). vr2_frame_epoch_end r < e))) \<and>
   (last_hash vr2_record_hash rs = last_hash vr2_record_hash (cbv_log (after_frames sha gs)) \<longrightarrow>
      fs = gs \<or> forgery sha (ValidationRecord_bytes_of ` (set rs \<union> set (cbv_log (after_frames sha gs)))))"
proof -
  have same: "fs = gs" if "map ValidationRecord_committed (cbv_log (after_frames sha fs)) =
      map ValidationRecord_committed (cbv_log (after_frames sha gs))"
  proof -
    have "map vr2_frame rs = map (\<lambda>c. snd (snd c)) (map ValidationRecord_committed rs)" for rs
      by (simp add: ValidationRecord_committed_def)
    then show ?thesis using that after_frames_inv [of sha fs] after_frames_inv [of sha gs] by metis
  qed
  show ?thesis
    unfolding Let_def compaction_broadcast_validator_verify_iff
    using after_frames_inv [of sha fs] after_frames_inv [of sha gs] after_frames_judged [of sha fs, unfolded judged_def]
      compaction_broadcast_validator.tamper_evident [of sha "cbv_log (after_frames sha fs)" "cbv_log (after_frames sha gs)"] same
    by (intro conjI allI impI verdict_parts) blast+
qed

theorem validator_accepts_exactly_witness:
  "let sha = \<lambda>b :: bytes. of_nat (length b) :: hash;
       s = \<lparr>cas_epoch_start = 1, cas_epoch_end = 4, cas_epoch_count = 4, cas_chains_valid = True, cas_terminal_hash = 9,
         cas_seal_hash = 8, cas_prev_hash = 0\<rparr>
   in \<exists>r. cbv_log (after_frames sha [encode_frame sha s]) = [r] \<and> ValidationVerdict_is_valid (vr2_verdict r)"
proof -
  let ?sha = "\<lambda>b :: bytes. of_nat (length b) :: hash"
  let ?s = "\<lparr>cas_epoch_start = 1, cas_epoch_end = 4, cas_epoch_count = 4, cas_chains_valid = True, cas_terminal_hash = 9,
         cas_seal_hash = 8, cas_prev_hash = 0\<rparr>"
  let ?f = "encode_frame ?sha ?s"
  note exact = validator_accepts_exactly [of ?sha "[?f]" "[?f]", unfolded Let_def]
  obtain r where r: "cbv_log (after_frames ?sha [?f]) = [r]" "vr2_frame r = ?f"
    using exact by (auto simp: map_eq_Cons_conv)
  have "\<forall>xs q ys. cbv_log (after_frames ?sha [?f]) = xs @ q # ys \<longrightarrow>
      (ValidationVerdict_is_valid (vr2_verdict q) \<longleftrightarrow>
         \<not> ValidationVerdict_has_checksum_fail (vr2_verdict q) \<and> \<not> ValidationVerdict_has_epoch_regression (vr2_verdict q)) \<and>
      (ValidationVerdict_has_checksum_fail (vr2_verdict q) \<longleftrightarrow> \<not> checksum_ok ?sha (vr2_frame q)) \<and>
      (ValidationVerdict_has_epoch_regression (vr2_verdict q) \<longleftrightarrow>
         (\<exists>e \<in> set (valid_epochs xs). vr2_frame_epoch_end q < e))"
    using exact by (elim conjE) simp
  from this [rule_format, of "[]" r "[]"] have "ValidationVerdict_is_valid (vr2_verdict r)"
    using r decode_isl [of ?sha ?f] by (simp add: decode_encode_frame)
  then show ?thesis unfolding Let_def using r(1) by blast
qed

section \<open>Compaction Sync State Machine (Gate 352)\<close>

text \<open>
  \<open>compaction_sync_state.rs\<close>. Tracks per-peer synchronization state for the compaction
  broadcast layer. Each peer has a SyncEntry recording its last acknowledged epoch and lag.
  Transitions are recorded in a hash-chained SyncEventLog.
\<close>

datatype SyncState = Unsynced | Synced | Lagging | Diverged

fun SyncState_as_u8 :: "SyncState \<Rightarrow> u8" where
  "SyncState_as_u8 SyncState.Unsynced = 0"
| "SyncState_as_u8 SyncState.Synced = 1"
| "SyncState_as_u8 SyncState.Lagging = 2"
| "SyncState_as_u8 SyncState.Diverged = 3"

lemma SyncState_as_u8_inj [simp]: "SyncState_as_u8 x = SyncState_as_u8 y \<longleftrightarrow> x = y"
  by (cases x; cases y) auto

definition SyncState_classify :: "u64 \<Rightarrow> u64 \<Rightarrow> SyncState" where
  "SyncState_classify last_acked current =
     (if current = 0 \<and> last_acked = 0 then SyncState.Synced
      else if last_acked = current then SyncState.Synced
      else if last_acked < current then SyncState.Lagging
      else SyncState.Diverged)"

record SyncEntry =
  se_peer_id :: u64
  se_last_acked_epoch :: u64
  se_current_epoch :: u64
  se_state :: SyncState
  se_lag :: u64

definition SyncEntry_new :: "u64 \<Rightarrow> u64 \<Rightarrow> u64 \<Rightarrow> SyncEntry" where
  "SyncEntry_new peer_id last_acked_epoch current_epoch =
     (let state = SyncState_classify last_acked_epoch current_epoch;
          lag = sat_sub current_epoch last_acked_epoch
      in \<lparr>se_peer_id = peer_id, se_last_acked_epoch = last_acked_epoch,
          se_current_epoch = current_epoch, se_state = state, se_lag = lag\<rparr>)"

record SyncEvent =
  se2_peer_id :: u64
  se2_new_state :: SyncState
  se2_last_acked_epoch :: u64
  se2_current_epoch :: u64
  se2_event_hash :: hash
  se2_prev_hash :: hash

definition event_bytes ::
  "hash \<Rightarrow> u64 \<Rightarrow> SyncState \<Rightarrow> u64 \<Rightarrow> u64 \<Rightarrow>
      bytes" where
  "event_bytes prev peer_id new_state last_acked current =
     hash_bytes prev @ be8 peer_id @ [SyncState_as_u8 new_state] @ be8 last_acked @ be8 current"

definition compute_event_hash ::
  "sha \<Rightarrow> hash \<Rightarrow> u64 \<Rightarrow> SyncState \<Rightarrow> u64 \<Rightarrow> u64
      \<Rightarrow> hash" where
  "compute_event_hash sha prev peer_id new_state last_acked current =
     sha (event_bytes prev peer_id new_state last_acked current)"

record CompactionSyncTracker =
  cst_peers :: "(u64, SyncEntry) btmap"
  cst_events :: "SyncEvent list"

definition CompactionSyncTracker_new :: "CompactionSyncTracker" where
  "CompactionSyncTracker_new =
     \<lparr>cst_peers = bt_empty, cst_events = []\<rparr>"

definition CompactionSyncTracker_peer_count :: "CompactionSyncTracker \<Rightarrow> nat" where
  "CompactionSyncTracker_peer_count self =
     bt_len (cst_peers self)"

definition CompactionSyncTracker_event_count :: "CompactionSyncTracker \<Rightarrow> nat" where
  "CompactionSyncTracker_event_count self =
     length (cst_events self)"

definition CompactionSyncTracker_update ::
  "sha \<Rightarrow> u64 \<Rightarrow> u64 \<Rightarrow> u64 \<Rightarrow> CompactionSyncTracker
      \<Rightarrow> SyncEvent \<times> CompactionSyncTracker" where
  "CompactionSyncTracker_update sha peer_id acked_epoch current_epoch self =
     (let entry = SyncEntry_new peer_id acked_epoch current_epoch;
          self = self\<lparr>cst_peers := bt_insert peer_id entry (cst_peers self)\<rparr>;
          prev = last_hash se2_event_hash (cst_events self);
          event_hash = compute_event_hash sha prev peer_id (se_state entry) acked_epoch current_epoch;
          self = self\<lparr>cst_events := (cst_events self) @ [\<lparr>se2_peer_id = peer_id,
            se2_new_state = se_state entry, se2_last_acked_epoch = acked_epoch,
            se2_current_epoch = current_epoch, se2_event_hash = event_hash,
            se2_prev_hash = prev\<rparr>]\<rparr>
      in (last (cst_events self), self))"

definition CompactionSyncTracker_get ::
  "u64 \<Rightarrow> CompactionSyncTracker \<Rightarrow> SyncEntry option" where
  "CompactionSyncTracker_get peer_id self =
     bt_get (cst_peers self) peer_id"

definition CompactionSyncTracker_synced_count :: "CompactionSyncTracker \<Rightarrow> nat" where
  "CompactionSyncTracker_synced_count self =
     length (filter (\<lambda>e. (se_state e) = SyncState.Synced) (bt_values (cst_peers self)))"

definition CompactionSyncTracker_lagging_count :: "CompactionSyncTracker \<Rightarrow> nat" where
  "CompactionSyncTracker_lagging_count self =
     length (filter (\<lambda>e. (se_state e) = SyncState.Lagging) (bt_values (cst_peers self)))"

definition CompactionSyncTracker_diverged_count :: "CompactionSyncTracker \<Rightarrow> nat" where
  "CompactionSyncTracker_diverged_count self =
     length (filter (\<lambda>e. (se_state e) = SyncState.Diverged) (bt_values (cst_peers self)))"

definition SyncEvent_bytes_of :: "SyncEvent \<Rightarrow> bytes" where
  "SyncEvent_bytes_of e =
     event_bytes (se2_prev_hash e) (se2_peer_id e) (se2_new_state e) (se2_last_acked_epoch e)
         (se2_current_epoch e)"

definition CompactionSyncTracker_verify_chain ::
  "sha \<Rightarrow> CompactionSyncTracker \<Rightarrow> bool \<times> nat option" where
  "CompactionSyncTracker_verify_chain sha self =
     verify_from se2_prev_hash se2_event_hash (\<lambda>r. sha (SyncEvent_bytes_of r)) 0 genesis
         (cst_events self)"

lemma event_bytes_inj:
  "event_bytes prev peer_id new_state last_acked current = event_bytes prev' peer_id' new_state'
      last_acked' current' \<longleftrightarrow>
   prev = prev' \<and> peer_id = peer_id' \<and> new_state = new_state' \<and> last_acked = last_acked'
       \<and> current = current'"
  by (auto simp: event_bytes_def enc_simps)

definition SyncEvent_committed :: "SyncEvent \<Rightarrow> u64 \<times> SyncState \<times> u64 \<times>
    u64" where
  "SyncEvent_committed e =
     (se2_peer_id e, se2_new_state e, se2_last_acked_epoch e, se2_current_epoch e)"

interpretation compaction_sync_state: epoch_log SyncEvent_bytes_of se2_prev_hash se2_event_hash
    SyncEvent_committed
  "\<lambda>sha (peer_id, acked_epoch, current_epoch) l. CompactionSyncTracker_update sha peer_id
      acked_epoch current_epoch l"
  cst_events CompactionSyncTracker_new "\<lambda>(a, _, c, d). (a, c, d)"
  by unfold_locales (auto simp: CompactionSyncTracker_update_def compute_event_hash_def
      CompactionSyncTracker_new_def Let_def SyncEvent_bytes_of_def SyncEvent_committed_def
      event_bytes_inj)

lemma compaction_sync_state_verify_iff: "CompactionSyncTracker_verify_chain sha l = (True,
    None) \<longleftrightarrow> compaction_sync_state.ok sha (cst_events l)"
  by (simp add: CompactionSyncTracker_verify_chain_def verify_from_iff)

section \<open>Compaction Peer Registry (Gate 353)\<close>

text \<open>
  \<open>compaction_peer_registry.rs\<close>. Maintains the canonical set of known broadcast peers for
  the compaction subsystem. Each peer is identified by a u64 peer_id and carries a 32-byte public
  fingerprint (opaque - no PKI assumed at T2).
\<close>

datatype RegistryEventKind = Admitted | Evicted

fun RegistryEventKind_as_u8 :: "RegistryEventKind \<Rightarrow> u8" where
  "RegistryEventKind_as_u8 RegistryEventKind.Admitted = 0"
| "RegistryEventKind_as_u8 RegistryEventKind.Evicted = 1"

lemma RegistryEventKind_as_u8_inj [simp]: "RegistryEventKind_as_u8 x = RegistryEventKind_as_u8 y
    \<longleftrightarrow> x = y"
  by (cases x; cases y) auto

record PeerRecord_registry =
  pr2_peer_id :: u64
  pr2_fingerprint :: hash
  pr2_admitted_at :: u64

record RegistryEvent =
  re2_kind :: RegistryEventKind
  re2_peer_id :: u64
  re2_epoch :: u64
  re2_fingerprint :: hash
  re2_event_hash :: hash
  re2_prev_hash :: hash

definition registry_bytes ::
  "hash \<Rightarrow> RegistryEventKind \<Rightarrow> u64 \<Rightarrow> u64 \<Rightarrow> hash
      \<Rightarrow> bytes" where
  "registry_bytes prev kind peer_id epoch fingerprint =
     hash_bytes prev @ [RegistryEventKind_as_u8 kind] @ be8 peer_id @ be8 epoch @
         hash_bytes fingerprint"

definition compute_registry_hash ::
  "sha \<Rightarrow> hash \<Rightarrow> RegistryEventKind \<Rightarrow> u64 \<Rightarrow> u64
      \<Rightarrow> hash \<Rightarrow> hash" where
  "compute_registry_hash sha prev kind peer_id epoch fingerprint =
     sha (registry_bytes prev kind peer_id epoch fingerprint)"

record CompactionPeerRegistry =
  cpr_peers :: "(u64, PeerRecord_registry) btmap"
  cpr_events :: "RegistryEvent list"

datatype RegistryError = RegistryError string

definition CompactionPeerRegistry_new :: "CompactionPeerRegistry" where
  "CompactionPeerRegistry_new =
     \<lparr>cpr_peers = bt_empty, cpr_events = []\<rparr>"

definition CompactionPeerRegistry_peer_count :: "CompactionPeerRegistry \<Rightarrow> nat" where
  "CompactionPeerRegistry_peer_count self =
     bt_len (cpr_peers self)"

definition CompactionPeerRegistry_event_count :: "CompactionPeerRegistry \<Rightarrow> nat" where
  "CompactionPeerRegistry_event_count self =
     length (cpr_events self)"

definition CompactionPeerRegistry_contains ::
  "u64 \<Rightarrow> CompactionPeerRegistry \<Rightarrow> bool" where
  "CompactionPeerRegistry_contains peer_id self \<longleftrightarrow>
     bt_has (cpr_peers self) peer_id"

definition CompactionPeerRegistry_get ::
  "u64 \<Rightarrow> CompactionPeerRegistry \<Rightarrow> PeerRecord_registry option" where
  "CompactionPeerRegistry_get peer_id self =
     bt_get (cpr_peers self) peer_id"

definition CompactionPeerRegistry_push_event ::
  "sha \<Rightarrow> RegistryEventKind \<Rightarrow> u64 \<Rightarrow> u64 \<Rightarrow> hash
      \<Rightarrow> CompactionPeerRegistry \<Rightarrow> RegistryEvent \<times> CompactionPeerRegistry"
      where
  "CompactionPeerRegistry_push_event sha kind peer_id epoch fingerprint self =
     (let prev = last_hash re2_event_hash (cpr_events self);
          event_hash = compute_registry_hash sha prev kind peer_id epoch fingerprint;
          self = self\<lparr>cpr_events := (cpr_events self) @ [\<lparr>re2_kind = kind,
            re2_peer_id = peer_id, re2_epoch = epoch, re2_fingerprint = fingerprint,
            re2_event_hash = event_hash, re2_prev_hash = prev\<rparr>]\<rparr>
      in (last (cpr_events self), self))"

definition CompactionPeerRegistry_admit ::
  "sha \<Rightarrow> u64 \<Rightarrow> hash \<Rightarrow> u64 \<Rightarrow> CompactionPeerRegistry
      \<Rightarrow> (RegistryError + RegistryEvent) \<times> CompactionPeerRegistry" where
  "CompactionPeerRegistry_admit sha peer_id fingerprint epoch self =
     (if bt_has (cpr_peers self) peer_id then (Inl (RegistryError ''[REGISTRY] Peer already admitted''),
         self)
      else (let self = self\<lparr>cpr_peers := bt_insert peer_id (\<lparr>pr2_peer_id = peer_id,
          pr2_fingerprint = fingerprint, pr2_admitted_at = epoch\<rparr>) (cpr_peers self)\<rparr>
      in (let (result, self) = CompactionPeerRegistry_push_event sha RegistryEventKind.Admitted peer_id
          epoch fingerprint self
      in (Inr result, self))))"

definition CompactionPeerRegistry_evict :: "sha \<Rightarrow> u64 \<Rightarrow> u64 \<Rightarrow>
    CompactionPeerRegistry \<Rightarrow> (RegistryError + RegistryEvent) \<times>
    CompactionPeerRegistry" where
  "CompactionPeerRegistry_evict sha peer_id epoch self =
     (case bt_get (cpr_peers self) peer_id of
        None \<Rightarrow> (Inl (RegistryError ''[REGISTRY] Peer not found''), self)
      | Some peer \<Rightarrow>
          (let self = self\<lparr>cpr_peers := bt_remove peer_id (cpr_peers self)\<rparr>;
               (event, self) = CompactionPeerRegistry_push_event sha RegistryEventKind.Evicted peer_id
                 epoch (pr2_fingerprint peer) self
           in (Inr event, self)))"

definition RegistryEvent_bytes_of :: "RegistryEvent \<Rightarrow> bytes" where
  "RegistryEvent_bytes_of e =
     registry_bytes (re2_prev_hash e) (re2_kind e) (re2_peer_id e) (re2_epoch e) (re2_fingerprint e)"

definition CompactionPeerRegistry_verify_chain ::
  "sha \<Rightarrow> CompactionPeerRegistry \<Rightarrow> bool \<times> nat option" where
  "CompactionPeerRegistry_verify_chain sha self =
     verify_from re2_prev_hash re2_event_hash (\<lambda>r. sha (RegistryEvent_bytes_of r)) 0 genesis
         (cpr_events self)"

lemma registry_bytes_inj:
  "registry_bytes prev kind peer_id epoch fingerprint = registry_bytes prev' kind' peer_id' epoch'
      fingerprint' \<longleftrightarrow>
   prev = prev' \<and> kind = kind' \<and> peer_id = peer_id' \<and> epoch = epoch' \<and> fingerprint =
       fingerprint'"
  by (auto simp: registry_bytes_def enc_simps)

definition RegistryEvent_committed :: "RegistryEvent \<Rightarrow> RegistryEventKind \<times> u64
    \<times> u64 \<times> hash" where
  "RegistryEvent_committed e =
     (re2_kind e, re2_peer_id e, re2_epoch e, re2_fingerprint e)"

interpretation compaction_peer_registry: hash_log RegistryEvent_bytes_of re2_prev_hash re2_event_hash
    RegistryEvent_committed
  by unfold_locales (auto simp: RegistryEvent_bytes_of_def RegistryEvent_committed_def
      registry_bytes_inj)

lemma compaction_peer_registry_verify_iff: "CompactionPeerRegistry_verify_chain sha l = (True,
    None) \<longleftrightarrow> compaction_peer_registry.ok sha (cpr_events l)"
  by (simp add: CompactionPeerRegistry_verify_chain_def verify_from_iff)

lemma compaction_peer_registry_push_event_ok: "compaction_peer_registry.ok sha (cpr_events l)
    \<Longrightarrow> compaction_peer_registry.ok sha (cpr_events (snd
    (CompactionPeerRegistry_push_event sha kind peer_id epoch fingerprint l)))"
  by (simp add: Let_def split_def CompactionPeerRegistry_push_event_def compute_registry_hash_def
      RegistryEvent_bytes_of_def split: option.split sum.split)

lemma compaction_peer_registry_admit_ok: "compaction_peer_registry.ok sha (cpr_events l)
    \<Longrightarrow> compaction_peer_registry.ok sha (cpr_events (snd (CompactionPeerRegistry_admit sha
    peer_id fingerprint epoch l)))"
  by (simp add: Let_def split_def CompactionPeerRegistry_admit_def
      compaction_peer_registry_push_event_ok split: option.split sum.split)

lemma compaction_peer_registry_evict_ok: "compaction_peer_registry.ok sha (cpr_events l)
    \<Longrightarrow> compaction_peer_registry.ok sha (cpr_events (snd (CompactionPeerRegistry_evict sha
    peer_id epoch l)))"
  by (simp add: Let_def split_def CompactionPeerRegistry_evict_def
      compaction_peer_registry_push_event_ok split: option.split sum.split)

section \<open>Compaction Gossip Dispatcher (Gate 354)\<close>

text \<open>
  \<open>compaction_gossip_dispatcher.rs\<close>. Ties together the broadcast layer: dispatches a
  BroadcastFrame to all registered peers, records per-peer delivery results in a hash-chained
  DispatchLog, and exposes aggregate delivery statistics.
\<close>

record DispatchResult =
  dr2_peer_id :: u64
  dr2_epoch_end :: u64
  dr2_delivered :: bool

record DispatchRecord =
  dr3_epoch_end :: u64
  dr3_peer_count :: u32
  dr3_delivered_count :: u32
  dr3_record_hash :: hash
  dr3_prev_hash :: hash

definition dispatch_bytes ::
  "hash \<Rightarrow> u64 \<Rightarrow> u32 \<Rightarrow> u32 \<Rightarrow> bytes" where
  "dispatch_bytes prev epoch_end peer_count delivered_count =
     hash_bytes prev @ be8 epoch_end @ be4 peer_count @ be4 delivered_count"

definition compute_dispatch_hash ::
  "sha \<Rightarrow> hash \<Rightarrow> u64 \<Rightarrow> u32 \<Rightarrow> u32 \<Rightarrow> hash"
      where
  "compute_dispatch_hash sha prev epoch_end peer_count delivered_count =
     sha (dispatch_bytes prev epoch_end peer_count delivered_count)"

record CompactionGossipDispatcher =
  cgd_records :: "DispatchRecord list"

datatype DispatchError = DispatchError string

definition CompactionGossipDispatcher_new :: "CompactionGossipDispatcher" where
  "CompactionGossipDispatcher_new =
     \<lparr>cgd_records = []\<rparr>"

definition CompactionGossipDispatcher_record_count ::
  "CompactionGossipDispatcher \<Rightarrow> nat" where
  "CompactionGossipDispatcher_record_count self =
     length (cgd_records self)"

definition CompactionGossipDispatcher_latest ::
  "CompactionGossipDispatcher \<Rightarrow> DispatchRecord option" where
  "CompactionGossipDispatcher_latest self =
     last_opt (cgd_records self)"

definition CompactionGossipDispatcher_total_delivered ::
  "CompactionGossipDispatcher \<Rightarrow> u64" where
  "CompactionGossipDispatcher_total_delivered self =
     sum_list (map (\<lambda>r. (ucast (dr3_delivered_count r) :: u64)) (cgd_records self))"

definition CompactionGossipDispatcher_total_missed ::
  "CompactionGossipDispatcher \<Rightarrow> u64" where
  "CompactionGossipDispatcher_total_missed self =
     sum_list (map (\<lambda>r. (ucast (sat_sub (dr3_peer_count r) (dr3_delivered_count r)) :: u64))
         (cgd_records self))"

definition play_admission :: "RegistryEvent \<Rightarrow> (u64, bool) btmap \<Rightarrow> (u64,
    bool) btmap" where
  "play_admission ev m =
     (case re2_kind ev of
        RegistryEventKind.Admitted \<Rightarrow> bt_insert (re2_peer_id ev) True m
      | RegistryEventKind.Evicted \<Rightarrow> bt_remove (re2_peer_id ev) m)"

definition CompactionGossipDispatcher_dispatch ::
  "sha \<Rightarrow> bytes \<Rightarrow> CompactionPeerRegistry \<Rightarrow> CompactionGossipDispatcher
      \<Rightarrow> (DispatchError + DispatchResult list \<times> DispatchRecord) \<times>
      CompactionGossipDispatcher" where
  "CompactionGossipDispatcher_dispatch sha frame registry self =
     (case CompactionBroadcaster_decode sha frame of
        Inl _ \<Rightarrow> (Inl (DispatchError ''[DISPATCH] Corrupt frame - checksum failed''), self)
      | Inr _ \<Rightarrow>
          (let epoch_end = (from_be (take 8 frame) :: u64);
               peer_count = (of_nat (CompactionPeerRegistry_peer_count registry) :: u32);
               results = (if peer_count = 0 then []
                 else map (\<lambda>pid. \<lparr>dr2_peer_id = pid, dr2_epoch_end = epoch_end,
                   dr2_delivered = True\<rparr>)
                   (bt_keys (fold play_admission (cpr_events registry) bt_empty)));
               delivered_count = (of_nat (length (filter dr2_delivered results)) :: u32);
               prev = last_hash dr3_record_hash (cgd_records self);
               record_hash = compute_dispatch_hash sha prev epoch_end peer_count delivered_count;
               self = self\<lparr>cgd_records := cgd_records self @ [\<lparr>dr3_epoch_end = epoch_end,
                 dr3_peer_count = peer_count,
                 dr3_delivered_count = delivered_count, dr3_record_hash = record_hash,
                   dr3_prev_hash = prev\<rparr>]\<rparr>
           in (Inr (results, last (cgd_records self)), self)))"

definition DispatchRecord_bytes_of :: "DispatchRecord \<Rightarrow> bytes" where
  "DispatchRecord_bytes_of r =
     dispatch_bytes (dr3_prev_hash r) (dr3_epoch_end r) (dr3_peer_count r) (dr3_delivered_count r)"

definition CompactionGossipDispatcher_verify_chain ::
  "sha \<Rightarrow> CompactionGossipDispatcher \<Rightarrow> bool \<times> nat option" where
  "CompactionGossipDispatcher_verify_chain sha self =
     verify_from dr3_prev_hash dr3_record_hash (\<lambda>r. sha (DispatchRecord_bytes_of r)) 0 genesis
         (cgd_records self)"

lemma dispatch_bytes_inj:
  "dispatch_bytes prev epoch_end peer_count delivered_count = dispatch_bytes prev' epoch_end'
      peer_count' delivered_count' \<longleftrightarrow>
   prev = prev' \<and> epoch_end = epoch_end' \<and> peer_count = peer_count' \<and> delivered_count =
       delivered_count'"
  by (auto simp: dispatch_bytes_def enc_simps)

definition DispatchRecord_committed :: "DispatchRecord \<Rightarrow> u64 \<times> u32 \<times> u32"
    where
  "DispatchRecord_committed r =
     (dr3_epoch_end r, dr3_peer_count r, dr3_delivered_count r)"

interpretation compaction_gossip_dispatcher: hash_log DispatchRecord_bytes_of dr3_prev_hash
    dr3_record_hash DispatchRecord_committed
  by unfold_locales (auto simp: DispatchRecord_bytes_of_def DispatchRecord_committed_def
      dispatch_bytes_inj)

lemma compaction_gossip_dispatcher_verify_iff: "CompactionGossipDispatcher_verify_chain sha l = (True,
    None) \<longleftrightarrow> compaction_gossip_dispatcher.ok sha (cgd_records l)"
  by (simp add: CompactionGossipDispatcher_verify_chain_def verify_from_iff)

lemma compaction_gossip_dispatcher_dispatch_ok: "compaction_gossip_dispatcher.ok sha (cgd_records l)
    \<Longrightarrow> compaction_gossip_dispatcher.ok sha (cgd_records (snd
    (CompactionGossipDispatcher_dispatch sha frame registry l)))"
  by (simp add: Let_def split_def CompactionGossipDispatcher_dispatch_def compute_dispatch_hash_def
      DispatchRecord_bytes_of_def split: option.split sum.split)

datatype RegistryOp = AdmitPeer u64 hash u64 | EvictPeer u64 u64

fun registry_step :: "sha \<Rightarrow> RegistryOp \<Rightarrow> CompactionPeerRegistry \<Rightarrow> CompactionPeerRegistry" where
  "registry_step sha (AdmitPeer p f e) r = snd (CompactionPeerRegistry_admit sha p f e r)"
| "registry_step sha (EvictPeer p e) r = snd (CompactionPeerRegistry_evict sha p e r)"

definition registry_view :: "CompactionPeerRegistry \<Rightarrow> u64 \<rightharpoonup> hash \<times> u64" where
  "registry_view r = (\<lambda>p. map_option (\<lambda>e. (pr2_fingerprint e, pr2_admitted_at e)) (bt_get (cpr_peers r) p))"

definition play_registry :: "RegistryEventKind \<times> u64 \<times> u64 \<times> hash \<Rightarrow> (u64 \<rightharpoonup> hash \<times> u64) \<Rightarrow> (u64 \<rightharpoonup> hash \<times> u64)" where
  "play_registry = (\<lambda>(k, p, e, f) v. case k of RegistryEventKind.Admitted \<Rightarrow> v(p \<mapsto> (f, e)) | RegistryEventKind.Evicted \<Rightarrow> v(p := None))"

lemma registry_step_played:
  "\<exists>rs. cpr_events (registry_step sha op r) = cpr_events r @ rs \<and>
     registry_view (registry_step sha op r) = fold play_registry (map RegistryEvent_committed rs) (registry_view r)"
proof (cases op)
  case (AdmitPeer p f e)
  then show ?thesis
    by (cases "bt_has (cpr_peers r) p")
      (simp_all add: CompactionPeerRegistry_admit_def CompactionPeerRegistry_push_event_def Let_def
        RegistryEvent_committed_def play_registry_def registry_view_def fun_eq_iff)
next
  case (EvictPeer p e)
  then show ?thesis
    by (cases "bt_get (cpr_peers r) p")
      (simp_all add: CompactionPeerRegistry_evict_def CompactionPeerRegistry_push_event_def Let_def
        RegistryEvent_committed_def play_registry_def registry_view_def fun_eq_iff)
qed

interpretation peer_registry: journal RegistryEvent_bytes_of re2_prev_hash re2_event_hash RegistryEvent_committed
  registry_step cpr_events registry_view play_registry CompactionPeerRegistry_new
proof
  show "cpr_events CompactionPeerRegistry_new = []" by (simp add: CompactionPeerRegistry_new_def)
  show "compaction_peer_registry.ok sha (cpr_events (registry_step sha op s))"
    if "compaction_peer_registry.ok sha (cpr_events s)" for sha op s
    using that compaction_peer_registry_admit_ok compaction_peer_registry_evict_ok by (cases op) simp_all
qed (rule registry_step_played)

abbreviation registry_after :: "sha \<Rightarrow> RegistryOp list \<Rightarrow> CompactionPeerRegistry" where
  "registry_after sha ops \<equiv> run (registry_step sha) ops CompactionPeerRegistry_new"

lemma registry_view_dom: "dom (registry_view r) = dom (bt_get (cpr_peers r))"
  by (auto simp: registry_view_def)

subsection \<open>Whom a dispatch reaches\<close>

lemma play_admission_dom:
  "dom (bt_get m) = dom v \<Longrightarrow> dom (bt_get (fold play_admission evs m)) = dom (fold play_registry (map RegistryEvent_committed evs) v)"
proof (induction evs arbitrary: m v)
  case (Cons ev evs)
  have "dom (bt_get (play_admission ev m)) = dom (play_registry (RegistryEvent_committed ev) v)"
    using Cons.prems by (auto simp: play_admission_def play_registry_def RegistryEvent_committed_def split: RegistryEventKind.splits)
  then show ?case using Cons.IH by simp
qed simp

lemma bt_keys_of_dom: "dom (bt_get m) = dom (bt_get n) \<Longrightarrow> bt_keys m = bt_keys n"
  by (metis sorted_bt_keys set_bt_keys strict_sorted_equal)

lemma registry_view_new: "registry_view CompactionPeerRegistry_new = Map.empty"
  by (simp add: registry_view_def CompactionPeerRegistry_new_def fun_eq_iff)

lemma dispatched_keys:
  "bt_keys (fold play_admission (cpr_events (registry_after sha ops)) bt_empty) = bt_keys (cpr_peers (registry_after sha ops))"
  using play_admission_dom [of bt_empty Map.empty "cpr_events (registry_after sha ops)"] peer_registry.replay [of sha ops]
  by (intro bt_keys_of_dom) (simp add: registry_view_dom [symmetric] registry_view_new)

lemma dispatch_exact:
  fixes sha ops f d
  defines "reg \<equiv> registry_after sha ops"
  defines "n \<equiv> (of_nat (bt_len (cpr_peers reg)) :: u32)"
  assumes "checksum_ok sha f" and "bt_len (cpr_peers reg) < 2 ^ 32"
  shows "\<exists>rec. CompactionGossipDispatcher_dispatch sha f reg d =
      (Inr (map (\<lambda>p. \<lparr>dr2_peer_id = p, dr2_epoch_end = from_be (take 8 f), dr2_delivered = True\<rparr>) (bt_keys (cpr_peers reg)), rec),
       d\<lparr>cgd_records := cgd_records d @ [rec]\<rparr>) \<and>
      dr3_epoch_end rec = from_be (take 8 f) \<and> dr3_peer_count rec = n \<and> dr3_delivered_count rec = n"
proof -
  have len: "length (bt_keys (cpr_peers reg)) = bt_len (cpr_peers reg)" by (simp add: bt_keys_def bt_len_def)
  have zero: "n = 0 \<longleftrightarrow> bt_keys (cpr_peers reg) = []"
    using assms(4) len by (auto simp: n_def word_unat_eq_iff unat_of_nat_small simp flip: length_0_conv)
  have "\<not> isl (CompactionBroadcaster_decode sha f)" using assms(3) by (simp add: decode_isl)
  then obtain df where df: "CompactionBroadcaster_decode sha f = Inr df" by (cases "CompactionBroadcaster_decode sha f") simp_all
  have keys: "bt_keys (fold play_admission (cpr_events reg) bt_empty) = bt_keys (cpr_peers reg)"
    unfolding reg_def by (rule dispatched_keys)
  let ?res = "map (\<lambda>p. \<lparr>dr2_peer_id = p, dr2_epoch_end = from_be (take 8 f), dr2_delivered = True\<rparr>) (bt_keys (cpr_peers reg))"
  have res: "(if n = 0 then [] else ?res) = ?res" using zero by simp
  have cnt: "(of_nat (length (filter dr2_delivered ?res)) :: u32) = n" by (simp add: n_def len filter_map o_def)
  show ?thesis
    unfolding CompactionGossipDispatcher_dispatch_def df Let_def sum.case CompactionPeerRegistry_peer_count_def
      keys n_def [symmetric] res cnt
    by simp
qed

text \<open>A peer is registered exactly if the last operation that named it was an admission.\<close>

fun op_peer :: "RegistryOp \<Rightarrow> u64" where
  "op_peer (AdmitPeer p f e) = p"
| "op_peer (EvictPeer p e) = p"

fun op_admits :: "RegistryOp \<Rightarrow> bool" where
  "op_admits (AdmitPeer p f e) = True"
| "op_admits (EvictPeer p e) = False"

definition admitted :: "RegistryOp list \<Rightarrow> u64 \<Rightarrow> bool" where
  "admitted ops p = (case last_opt (filter (\<lambda>op. op_peer op = p) ops) of None \<Rightarrow> False | Some op \<Rightarrow> op_admits op)"

lemma registered_iff: "bt_has (cpr_peers (registry_after sha ops)) p \<longleftrightarrow> admitted ops p"
proof (induction ops rule: rev_induct)
  case Nil
  then show ?case by (simp add: CompactionPeerRegistry_new_def admitted_def)
next
  case (snoc op ops)
  then show ?case
    by (cases op; cases "bt_get (cpr_peers (registry_after sha ops)) (op_peer op)")
      (auto simp: CompactionPeerRegistry_admit_def CompactionPeerRegistry_evict_def CompactionPeerRegistry_push_event_def
        Let_def admitted_def bt_has_def split: if_splits)
qed

lemma validate_fresh_frame:
  assumes "checksum_ok sha f" and "\<forall>e \<in> set (valid_epochs (cbv_log (after_frames sha fs))). e \<le> from_be (take 8 f)"
  shows "ValidationVerdict_is_valid (vr2_verdict (fst (CompactionBroadcastValidator_validate sha f (after_frames sha fs))))"
proof -
  note v = validate_judges [of "after_frames sha fs" sha f]
  have "judged sha (cbv_log (after_frames sha fs)) (fst (CompactionBroadcastValidator_validate sha f (after_frames sha fs)))"
      "vr2_frame (fst (CompactionBroadcastValidator_validate sha f (after_frames sha fs))) = f"
    using v after_frames_inv [of sha fs] by simp_all
  then show ?thesis using assms unfolding verdict_parts judged_def by (auto simp: not_less)
qed

lemma encoded_frame_ok:
  "checksum_ok sha (encode_frame sha seal)" "from_be (take 8 (encode_frame sha seal)) = cas_epoch_end seal"
  using decode_isl [of sha "encode_frame sha seal"] by (simp_all add: decode_encode_frame)
    (simp add: encode_frame_def Let_def from_be_be_bytes_id)

text \<open>
  C31.  From a seal to the mesh: after any admissions and evictions the registry verifies, its table is
  what its events say, and a peer is registered exactly if it was admitted and not evicted since.  The
  dispatch of the frame of any seal delivers it, with the epoch of the seal, exactly once to each
  registered peer, in the order of their numbers, and records as many; none ever counts as missed.  A
  validator takes the frame unless it took a later epoch before.  A frame with a wrong checksum is
  refused and not recorded.
\<close>

theorem dispatch_reaches_registered:
  "let reg = registry_after sha ops; f = encode_frame sha seal; e = cas_epoch_end seal;
       n = of_nat (bt_len (cpr_peers reg)) in
   (CompactionPeerRegistry_verify_chain sha reg = (True, None) \<and>
    registry_view reg = fold play_registry (map RegistryEvent_committed (cpr_events reg)) Map.empty \<and>
    (\<forall>p. bt_has (cpr_peers reg) p \<longleftrightarrow> admitted ops p)) \<and>
   (bt_len (cpr_peers reg) < 2 ^ 32 \<longrightarrow>
     (\<exists>ps rec. CompactionGossipDispatcher_dispatch sha f reg d =
        (Inr (map (\<lambda>p. \<lparr>dr2_peer_id = p, dr2_epoch_end = e, dr2_delivered = True\<rparr>) ps, rec),
         d\<lparr>cgd_records := cgd_records d @ [rec]\<rparr>) \<and>
        sorted_wrt (<) ps \<and> set ps = {p. admitted ops p} \<and>
        dr3_epoch_end rec = e \<and> dr3_peer_count rec = n \<and> dr3_delivered_count rec = n \<and>
        CompactionGossipDispatcher_total_missed (d\<lparr>cgd_records := cgd_records d @ [rec]\<rparr>) =
          CompactionGossipDispatcher_total_missed d)) \<and>
   ((\<forall>x \<in> set (valid_epochs (cbv_log (after_frames sha fs))). x \<le> e) \<longrightarrow>
     ValidationVerdict_is_valid (vr2_verdict (fst (CompactionBroadcastValidator_validate sha f (after_frames sha fs))))) \<and>
   (\<not> checksum_ok sha g \<longrightarrow>
     isl (fst (CompactionGossipDispatcher_dispatch sha g reg d)) \<and> snd (CompactionGossipDispatcher_dispatch sha g reg d) = d)"
proof -
  let ?reg = "registry_after sha ops" and ?f = "encode_frame sha seal" and ?e = "cas_epoch_end seal"
  let ?n = "of_nat (bt_len (cpr_peers ?reg)) :: u32"
  have reg: "CompactionPeerRegistry_verify_chain sha ?reg = (True, None)"
      "registry_view ?reg = fold play_registry (map RegistryEvent_committed (cpr_events ?reg)) Map.empty"
    using peer_registry.log_ok [of sha ops] peer_registry.replay [of sha ops]
    by (simp_all add: compaction_peer_registry_verify_iff registry_view_new)
  have keys: "set (bt_keys (cpr_peers ?reg)) = {p. admitted ops p}"
    using registered_iff [of sha ops] by (auto simp: bt_has_def)
  have dispatch: "\<exists>ps rec. CompactionGossipDispatcher_dispatch sha ?f ?reg d =
        (Inr (map (\<lambda>p. \<lparr>dr2_peer_id = p, dr2_epoch_end = ?e, dr2_delivered = True\<rparr>) ps, rec),
         d\<lparr>cgd_records := cgd_records d @ [rec]\<rparr>) \<and>
        sorted_wrt (<) ps \<and> set ps = {p. admitted ops p} \<and>
        dr3_epoch_end rec = ?e \<and> dr3_peer_count rec = ?n \<and> dr3_delivered_count rec = ?n \<and>
        CompactionGossipDispatcher_total_missed (d\<lparr>cgd_records := cgd_records d @ [rec]\<rparr>) =
          CompactionGossipDispatcher_total_missed d" if small: "bt_len (cpr_peers ?reg) < 2 ^ 32"
  proof -
    obtain rec where "CompactionGossipDispatcher_dispatch sha ?f ?reg d =
      (Inr (map (\<lambda>p. \<lparr>dr2_peer_id = p, dr2_epoch_end = ?e, dr2_delivered = True\<rparr>) (bt_keys (cpr_peers ?reg)), rec),
       d\<lparr>cgd_records := cgd_records d @ [rec]\<rparr>)" "dr3_epoch_end rec = ?e" "dr3_peer_count rec = ?n" "dr3_delivered_count rec = ?n"
      using dispatch_exact [of sha ?f ops d, OF encoded_frame_ok(1) small] unfolding encoded_frame_ok(2) by blast
    moreover from this have "CompactionGossipDispatcher_total_missed (d\<lparr>cgd_records := cgd_records d @ [rec]\<rparr>) =
        CompactionGossipDispatcher_total_missed d"
      by (simp add: CompactionGossipDispatcher_total_missed_def sat_sub_def)
    ultimately show ?thesis using keys sorted_bt_keys by blast
  qed
  have valid: "ValidationVerdict_is_valid (vr2_verdict (fst (CompactionBroadcastValidator_validate sha ?f (after_frames sha fs))))"
    if "\<forall>x \<in> set (valid_epochs (cbv_log (after_frames sha fs))). x \<le> ?e"
    using validate_fresh_frame [OF encoded_frame_ok(1)] that unfolding encoded_frame_ok(2) .
  have corrupt: "isl (fst (CompactionGossipDispatcher_dispatch sha g ?reg d)) \<and> snd (CompactionGossipDispatcher_dispatch sha g ?reg d) = d"
    if "\<not> checksum_ok sha g"
    using that decode_isl [of sha g]
    by (cases "CompactionBroadcaster_decode sha g") (simp_all add: CompactionGossipDispatcher_dispatch_def)
  show ?thesis
    unfolding Let_def by (intro conjI allI impI reg registered_iff dispatch valid corrupt)
qed

theorem dispatch_reaches_registered_witness:
  "let sha = \<lambda>b :: bytes. of_nat (length b) :: hash;
       s = \<lparr>cas_epoch_start = 1, cas_epoch_end = 4, cas_epoch_count = 4, cas_chains_valid = True, cas_terminal_hash = 9,
         cas_seal_hash = 8, cas_prev_hash = 0\<rparr>;
       reg = registry_after sha [AdmitPeer 7 1 0, AdmitPeer 3 2 1, EvictPeer 7 2]
   in \<exists>ps rec d. CompactionGossipDispatcher_dispatch sha (encode_frame sha s) reg CompactionGossipDispatcher_new =
        (Inr (map (\<lambda>p. \<lparr>dr2_peer_id = p, dr2_epoch_end = 4, dr2_delivered = True\<rparr>) ps, rec), d) \<and> set ps = {3}"
proof -
  let ?sha = "\<lambda>b :: bytes. of_nat (length b) :: hash"
  let ?s = "\<lparr>cas_epoch_start = 1, cas_epoch_end = 4, cas_epoch_count = 4, cas_chains_valid = True, cas_terminal_hash = 9,
         cas_seal_hash = 8, cas_prev_hash = 0\<rparr>"
  let ?ops = "[AdmitPeer 7 1 0, AdmitPeer 3 2 1, EvictPeer 7 2]"
  let ?reg = "registry_after ?sha ?ops"
  note exact = dispatch_reaches_registered [of ?sha ?ops ?s CompactionGossipDispatcher_new "[]" "[]", unfolded Let_def]
  have adm: "{p. admitted ?ops p} = {3}"
    by (auto simp: admitted_def last_opt_def split: if_splits)
  have has: "\<forall>p. bt_has (cpr_peers ?reg) p \<longleftrightarrow> admitted ?ops p" using exact by (elim conjE)
  then have "dom (bt_get (cpr_peers ?reg)) = {3}" using adm by (auto simp: bt_has_def)
  then have "bt_len (cpr_peers ?reg) < 2 ^ 32" by (simp add: bt_len_card)
  then show ?thesis using exact adm unfolding Let_def by auto
qed

end
