(* ===== verification/Compaction_Gossip_Health.thy ===== *)
theory Compaction_Gossip_Health
  imports Epoch_Log "HOL-Library.Signed_Division"
begin

text \<open>
  The health of the gossip about compactions: the report on deliveries and its compaction to an
  anchor, the vector of the joint condition, its momentum over a ring buffer of four, the epoch report
  and what is derived from reports: alerts, advice, the service level, the capacity projection, the
  difference of two epochs, the trend over a window of four and the dashboard frame.
\<close>

section \<open>Compaction Gossip Health Report (Gate 355)\<close>

text \<open>
  \<open>compaction_gossip_health.rs\<close>. Synthesises the compaction broadcast layer (Gates
  350-354) into a single per-epoch health verdict, mirroring Gate 320 for the compaction gossip layer.
\<close>

datatype CompactionGossipHealthClass = Green | Yellow | Red

fun CompactionGossipHealthClass_as_u8 :: "CompactionGossipHealthClass \<Rightarrow> u8" where
  "CompactionGossipHealthClass_as_u8 CompactionGossipHealthClass.Green = 0"
| "CompactionGossipHealthClass_as_u8 CompactionGossipHealthClass.Yellow = 1"
| "CompactionGossipHealthClass_as_u8 CompactionGossipHealthClass.Red = 2"

lemma CompactionGossipHealthClass_as_u8_inj [simp]: "CompactionGossipHealthClass_as_u8 x =
    CompactionGossipHealthClass_as_u8 y \<longleftrightarrow> x = y"
  by (cases x; cases y) auto

record CompactionGossipHealthInput =
  cghi_epoch :: u64
  cghi_validator_checksum_fails :: u32
  cghi_validator_epoch_regressions :: u32
  cghi_delivered_count :: u64
  cghi_missed_count :: u64
  cghi_lagging_peers :: u32
  cghi_diverged_peers :: u32
  cghi_admitted_peers :: u32

record CompactionGossipHealthReport =
  cghr_epoch :: u64
  cghr_health_class :: CompactionGossipHealthClass
  cghr_validator_checksum_fails :: u32
  cghr_validator_epoch_regressions :: u32
  cghr_delivered_count :: u64
  cghr_missed_count :: u64
  cghr_lagging_peers :: u32
  cghr_diverged_peers :: u32
  cghr_admitted_peers :: u32
  cghr_report_hash :: hash
  cghr_prev_hash :: hash

definition compaction_gossip_health_report_bytes ::
  "hash \<Rightarrow> u64 \<Rightarrow> CompactionGossipHealthClass \<Rightarrow> u32 \<Rightarrow> u32
      \<Rightarrow> u64 \<Rightarrow> u64 \<Rightarrow> u32 \<Rightarrow> u32 \<Rightarrow> u32
      \<Rightarrow> bytes" where
  "compaction_gossip_health_report_bytes prev epoch class_v checksum_fails epoch_regressions delivered
      missed lagging diverged admitted =
     hash_bytes prev @ be8 epoch @ [CompactionGossipHealthClass_as_u8 class_v] @ be4 checksum_fails @
         be4 epoch_regressions @ be8 delivered @ be8 missed @ be4 lagging @ be4 diverged @ be4 admitted"

definition compaction_gossip_health_compute_report_hash ::
  "sha \<Rightarrow> hash \<Rightarrow> u64 \<Rightarrow> CompactionGossipHealthClass \<Rightarrow> u32
      \<Rightarrow> u32 \<Rightarrow> u64 \<Rightarrow> u64 \<Rightarrow> u32 \<Rightarrow> u32
      \<Rightarrow> u32 \<Rightarrow> hash" where
  "compaction_gossip_health_compute_report_hash sha prev epoch class_v checksum_fails epoch_regressions
      delivered missed lagging diverged admitted =
     sha (compaction_gossip_health_report_bytes prev epoch class_v checksum_fails epoch_regressions
         delivered missed lagging diverged admitted)"

definition classify :: "CompactionGossipHealthInput \<Rightarrow> CompactionGossipHealthClass" where
  "classify input =
     (if (cghi_diverged_peers input) \<ge> 1 \<or> (cghi_validator_checksum_fails input) \<ge> 3 \<or>
         ((cghi_admitted_peers input) > 0 \<and> (cghi_delivered_count input) = 0) then
         CompactionGossipHealthClass.Red
      else if (cghi_lagging_peers input) \<ge> 1 \<or> (cghi_validator_epoch_regressions input) \<ge> 1
          \<or> (cghi_missed_count input) \<ge> 1 \<or> (cghi_validator_checksum_fails input) \<ge> 1
          then CompactionGossipHealthClass.Yellow
      else CompactionGossipHealthClass.Green)"

record CompactionGossipHealthMonitor =
  cghm_reports :: "CompactionGossipHealthReport list"

definition CompactionGossipHealthMonitor_new :: "CompactionGossipHealthMonitor" where
  "CompactionGossipHealthMonitor_new =
     \<lparr>cghm_reports = []\<rparr>"

definition CompactionGossipHealthMonitor_record_count ::
  "CompactionGossipHealthMonitor \<Rightarrow> nat" where
  "CompactionGossipHealthMonitor_record_count self =
     length (cghm_reports self)"

definition CompactionGossipHealthMonitor_latest ::
  "CompactionGossipHealthMonitor \<Rightarrow> CompactionGossipHealthReport option" where
  "CompactionGossipHealthMonitor_latest self =
     last_opt (cghm_reports self)"

definition CompactionGossipHealthMonitor_health_class ::
  "CompactionGossipHealthMonitor \<Rightarrow> CompactionGossipHealthClass option" where
  "CompactionGossipHealthMonitor_health_class self =
     map_option cghr_health_class (last_opt (cghm_reports self))"

definition CompactionGossipHealthMonitor_red_count ::
  "CompactionGossipHealthMonitor \<Rightarrow> nat" where
  "CompactionGossipHealthMonitor_red_count self =
     length (filter (\<lambda>r. (cghr_health_class r) = CompactionGossipHealthClass.Red) (cghm_reports
         self))"

definition CompactionGossipHealthMonitor_yellow_count ::
  "CompactionGossipHealthMonitor \<Rightarrow> nat" where
  "CompactionGossipHealthMonitor_yellow_count self =
     length (filter (\<lambda>r. (cghr_health_class r) = CompactionGossipHealthClass.Yellow)
         (cghm_reports self))"

definition CompactionGossipHealthMonitor_green_count ::
  "CompactionGossipHealthMonitor \<Rightarrow> nat" where
  "CompactionGossipHealthMonitor_green_count self =
     length (filter (\<lambda>r. (cghr_health_class r) = CompactionGossipHealthClass.Green)
         (cghm_reports self))"

definition CompactionGossipHealthMonitor_record ::
  "sha \<Rightarrow> CompactionGossipHealthInput \<Rightarrow> CompactionGossipHealthMonitor
      \<Rightarrow> CompactionGossipHealthReport \<times> CompactionGossipHealthMonitor" where
  "CompactionGossipHealthMonitor_record sha input self =
     (let class_v = classify input;
          prev = last_hash cghr_report_hash (cghm_reports self);
          report_hash = compaction_gossip_health_compute_report_hash sha prev (cghi_epoch input) class_v
            (cghi_validator_checksum_fails input) (cghi_validator_epoch_regressions input)
            (cghi_delivered_count input) (cghi_missed_count input) (cghi_lagging_peers input)
            (cghi_diverged_peers input) (cghi_admitted_peers input);
          self = self\<lparr>cghm_reports := (cghm_reports self) @
            [\<lparr>cghr_epoch = cghi_epoch input, cghr_health_class = class_v,
            cghr_validator_checksum_fails = cghi_validator_checksum_fails input,
            cghr_validator_epoch_regressions = cghi_validator_epoch_regressions input,
            cghr_delivered_count = cghi_delivered_count input, cghr_missed_count = cghi_missed_count
            input, cghr_lagging_peers = cghi_lagging_peers input,
            cghr_diverged_peers = cghi_diverged_peers input, cghr_admitted_peers = cghi_admitted_peers
            input, cghr_report_hash = report_hash, cghr_prev_hash = prev\<rparr>]\<rparr>
      in (last (cghm_reports self), self))"

definition CompactionGossipHealthReport_bytes_of ::
  "CompactionGossipHealthReport \<Rightarrow> bytes" where
  "CompactionGossipHealthReport_bytes_of r =
     compaction_gossip_health_report_bytes (cghr_prev_hash r) (cghr_epoch r) (cghr_health_class r)
         (cghr_validator_checksum_fails r) (cghr_validator_epoch_regressions r) (cghr_delivered_count r)
         (cghr_missed_count r) (cghr_lagging_peers r) (cghr_diverged_peers r) (cghr_admitted_peers r)"

definition CompactionGossipHealthMonitor_verify_chain ::
  "sha \<Rightarrow> CompactionGossipHealthMonitor \<Rightarrow> bool \<times> nat option" where
  "CompactionGossipHealthMonitor_verify_chain sha self =
     verify_from cghr_prev_hash cghr_report_hash (\<lambda>r. sha (CompactionGossipHealthReport_bytes_of
         r)) 0 genesis (cghm_reports self)"

lemma compaction_gossip_health_report_bytes_inj:
  "compaction_gossip_health_report_bytes prev epoch class_v checksum_fails epoch_regressions delivered
      missed lagging diverged admitted = compaction_gossip_health_report_bytes prev' epoch' class_v'
      checksum_fails' epoch_regressions' delivered' missed' lagging' diverged' admitted'
      \<longleftrightarrow>
   prev = prev' \<and> epoch = epoch' \<and> class_v = class_v' \<and> checksum_fails = checksum_fails'
       \<and> epoch_regressions = epoch_regressions' \<and> delivered = delivered' \<and> missed =
       missed' \<and> lagging = lagging' \<and> diverged = diverged' \<and> admitted = admitted'"
  by (auto simp: compaction_gossip_health_report_bytes_def enc_simps)

definition CompactionGossipHealthReport_committed :: "CompactionGossipHealthReport \<Rightarrow> u64
    \<times> CompactionGossipHealthClass \<times> u32 \<times> u32 \<times> u64 \<times> u64 \<times>
    u32 \<times> u32 \<times> u32" where
  "CompactionGossipHealthReport_committed r =
     (cghr_epoch r, cghr_health_class r, cghr_validator_checksum_fails r,
         cghr_validator_epoch_regressions r, cghr_delivered_count r, cghr_missed_count r,
         cghr_lagging_peers r, cghr_diverged_peers r, cghr_admitted_peers r)"

interpretation compaction_gossip_health: hash_log CompactionGossipHealthReport_bytes_of cghr_prev_hash
    cghr_report_hash CompactionGossipHealthReport_committed
  by unfold_locales (auto simp: CompactionGossipHealthReport_bytes_of_def
      CompactionGossipHealthReport_committed_def compaction_gossip_health_report_bytes_inj)

lemma compaction_gossip_health_verify_iff: "CompactionGossipHealthMonitor_verify_chain sha l = (True,
    None) \<longleftrightarrow> compaction_gossip_health.ok sha (cghm_reports l)"
  by (simp add: CompactionGossipHealthMonitor_verify_chain_def verify_from_iff)

lemma compaction_gossip_health_monitor_record_ok: "compaction_gossip_health.ok sha (cghm_reports l)
    \<Longrightarrow> compaction_gossip_health.ok sha (cghm_reports (snd
    (CompactionGossipHealthMonitor_record sha input l)))"
  by (simp add: Let_def split_def CompactionGossipHealthMonitor_record_def
      compaction_gossip_health_compute_report_hash_def CompactionGossipHealthReport_bytes_of_def split:
      option.split sum.split)

section \<open>Compaction Gossip Health Compactor (Gate 356)\<close>

text \<open>
  \<open>compaction_gossip_health_compactor.rs\<close>. Applies proof-preserving compaction (Gate 328
  pattern) to the CompactionGossipHealthMonitor chain (Gate 355). Long-running epoch sequences cause
  the health report chain to grow without bound; this gate prunes old reports while sealing them in a
  GossipHealthAnchor.
\<close>

definition class_byte :: "CompactionGossipHealthClass \<Rightarrow> u8" where
  "class_byte c =
     CompactionGossipHealthClass_as_u8 c"

definition worse ::
  "CompactionGossipHealthClass \<Rightarrow> CompactionGossipHealthClass \<Rightarrow>
      CompactionGossipHealthClass" where
  "worse a b =
     (if CompactionGossipHealthClass_as_u8 b > CompactionGossipHealthClass_as_u8 a then b
      else a)"

record GossipHealthAnchor =
  gha_anchor_epoch :: u64
  gha_terminal_hash :: hash
  gha_entry_count :: u64
  gha_peak_class :: CompactionGossipHealthClass

definition GossipHealthAnchor_from_pruned :: "sha \<Rightarrow> (u64 \<times> hash \<times>
    CompactionGossipHealthClass) list \<Rightarrow> GossipHealthAnchor" where
  "GossipHealthAnchor_from_pruned sha pruned =
     (if pruned = [] then
        \<lparr>gha_anchor_epoch = 0, gha_terminal_hash = genesis,
          gha_entry_count = 0, gha_peak_class = CompactionGossipHealthClass.Green\<rparr>
      else
        (let (acc, peak) = fold (\<lambda>(epoch, report_hash, cls) (acc, peak).
               (sha (hash_bytes acc @ be8 epoch @ hash_bytes report_hash @ [class_byte cls]),
                 worse peak cls))
               pruned (genesis, CompactionGossipHealthClass.Green)
         in \<lparr>gha_anchor_epoch = fst (last pruned), gha_terminal_hash = acc,
              gha_entry_count = of_nat (length pruned), gha_peak_class = peak\<rparr>))"

definition GossipHealthAnchor_peak_class_byte :: "GossipHealthAnchor \<Rightarrow> u8" where
  "GossipHealthAnchor_peak_class_byte self =
     class_byte (gha_peak_class self)"

record GossipHealthCompactionResult =
  ghcr_compaction_epoch :: u64
  ghcr_pruned_count :: u64
  ghcr_retained_count :: u64
  ghcr_anchor :: GossipHealthAnchor
  ghcr_certificate_hash :: hash

definition certificate_bytes ::
  "u64 \<Rightarrow> u64 \<Rightarrow> u64 \<Rightarrow> GossipHealthAnchor \<Rightarrow> bytes" where
  "certificate_bytes compaction_epoch pruned_count retained_count anchor =
     be8 compaction_epoch @ be8 pruned_count @ be8 retained_count @
         hash_bytes (gha_terminal_hash anchor) @ be8 (gha_anchor_epoch anchor) @
         [GossipHealthAnchor_peak_class_byte anchor]"

definition compute_certificate ::
  "sha \<Rightarrow> u64 \<Rightarrow> u64 \<Rightarrow> u64 \<Rightarrow> GossipHealthAnchor
      \<Rightarrow> hash" where
  "compute_certificate sha compaction_epoch pruned_count retained_count anchor =
     sha (certificate_bytes compaction_epoch pruned_count retained_count anchor)"

definition compact_gossip_health ::
  "sha \<Rightarrow> CompactionGossipHealthReport list \<Rightarrow> nat \<Rightarrow> u64 \<Rightarrow>
      GossipHealthCompactionResult" where
  "compact_gossip_health sha reports prune_count compaction_epoch =
     (let prune_count = min prune_count (length reports);
          pruned_slice = take prune_count reports;
          retained = (of_nat ((length reports) - prune_count) :: u64);
          triples = map (\<lambda>r. (cghr_epoch r, cghr_report_hash r,
            cghr_health_class r)) pruned_slice;
          anchor = GossipHealthAnchor_from_pruned sha triples;
          certificate_hash = compute_certificate sha compaction_epoch (of_nat prune_count :: u64)
            retained anchor
      in \<lparr>ghcr_compaction_epoch = compaction_epoch, ghcr_pruned_count = (of_nat prune_count ::
          u64), ghcr_retained_count = retained, ghcr_anchor = anchor,
          ghcr_certificate_hash = certificate_hash\<rparr>)"

record GossipHealthCompactionLogEntry =
  ghcle_result :: GossipHealthCompactionResult
  ghcle_prev_hash :: hash
  ghcle_entry_hash :: hash

definition compaction_gossip_health_compactor_entry_bytes ::
  "hash \<Rightarrow> GossipHealthCompactionResult \<Rightarrow> bytes" where
  "compaction_gossip_health_compactor_entry_bytes prev r =
     hash_bytes prev @ be8 (ghcr_compaction_epoch r) @ be8 (ghcr_pruned_count r) @
         be8 (ghcr_retained_count r) @ hash_bytes (ghcr_certificate_hash r)"

definition compaction_gossip_health_compactor_compute_entry_hash ::
  "sha \<Rightarrow> hash \<Rightarrow> GossipHealthCompactionResult \<Rightarrow> hash" where
  "compaction_gossip_health_compactor_compute_entry_hash sha prev r =
     sha (compaction_gossip_health_compactor_entry_bytes prev r)"

record GossipHealthCompactionLog =
  ghcl_entries :: "GossipHealthCompactionLogEntry list"

definition GossipHealthCompactionLog_new :: "GossipHealthCompactionLog" where
  "GossipHealthCompactionLog_new =
     \<lparr>ghcl_entries = []\<rparr>"

definition GossipHealthCompactionLog_append ::
  "sha \<Rightarrow> GossipHealthCompactionResult \<Rightarrow> GossipHealthCompactionLog \<Rightarrow>
      GossipHealthCompactionLogEntry \<times> GossipHealthCompactionLog" where
  "GossipHealthCompactionLog_append sha result self =
     (let prev = last_hash ghcle_entry_hash (ghcl_entries self);
          entry_hash = compaction_gossip_health_compactor_compute_entry_hash sha prev result;
          self = self\<lparr>ghcl_entries := (ghcl_entries self) @ [\<lparr>ghcle_result = result,
            ghcle_prev_hash = prev, ghcle_entry_hash = entry_hash\<rparr>]\<rparr>
      in (last (ghcl_entries self), self))"

definition GossipHealthCompactionLog_total_pruned :: "GossipHealthCompactionLog \<Rightarrow> u64" where
  "GossipHealthCompactionLog_total_pruned self =
     sum_list (map (\<lambda>e. ghcr_pruned_count (ghcle_result e)) (ghcl_entries self))"

definition GossipHealthCompactionLog_entry_count :: "GossipHealthCompactionLog \<Rightarrow> nat" where
  "GossipHealthCompactionLog_entry_count self =
     length (ghcl_entries self)"

definition GossipHealthCompactionLogEntry_bytes_of ::
  "GossipHealthCompactionLogEntry \<Rightarrow> bytes" where
  "GossipHealthCompactionLogEntry_bytes_of e =
     compaction_gossip_health_compactor_entry_bytes (ghcle_prev_hash e) (ghcle_result e)"

definition GossipHealthCompactionLog_verify_chain ::
  "sha \<Rightarrow> GossipHealthCompactionLog \<Rightarrow> bool \<times> nat option" where
  "GossipHealthCompactionLog_verify_chain sha self =
     verify_from ghcle_prev_hash ghcle_entry_hash (\<lambda>r. sha
         (GossipHealthCompactionLogEntry_bytes_of r)) 0 genesis (ghcl_entries self)"

lemma compaction_gossip_health_compactor_entry_bytes_inj:
  "compaction_gossip_health_compactor_entry_bytes prev r =
      compaction_gossip_health_compactor_entry_bytes prev' r' \<longleftrightarrow>
   prev = prev' \<and> (ghcr_compaction_epoch r) = (ghcr_compaction_epoch r') \<and> (ghcr_pruned_count
       r) = (ghcr_pruned_count r') \<and> (ghcr_retained_count r) = (ghcr_retained_count r') \<and>
       (ghcr_certificate_hash r) = (ghcr_certificate_hash r')"
  by (auto simp: compaction_gossip_health_compactor_entry_bytes_def enc_simps)

definition GossipHealthCompactionLogEntry_committed :: "GossipHealthCompactionLogEntry \<Rightarrow> u64
    \<times> u64 \<times> u64 \<times> hash" where
  "GossipHealthCompactionLogEntry_committed e =
     (ghcr_compaction_epoch (ghcle_result e), ghcr_pruned_count (ghcle_result e),
         ghcr_retained_count (ghcle_result e), ghcr_certificate_hash (ghcle_result e))"

interpretation compaction_gossip_health_compactor: hash_log GossipHealthCompactionLogEntry_bytes_of
    ghcle_prev_hash ghcle_entry_hash GossipHealthCompactionLogEntry_committed
  by unfold_locales (auto simp: GossipHealthCompactionLogEntry_bytes_of_def
      GossipHealthCompactionLogEntry_committed_def compaction_gossip_health_compactor_entry_bytes_inj)

lemma compaction_gossip_health_compactor_verify_iff: "GossipHealthCompactionLog_verify_chain sha l =
    (True, None) \<longleftrightarrow> compaction_gossip_health_compactor.ok sha (ghcl_entries l)"
  by (simp add: GossipHealthCompactionLog_verify_chain_def verify_from_iff)

lemma gossip_health_compaction_log_append_ok: "compaction_gossip_health_compactor.ok sha (ghcl_entries
    l) \<Longrightarrow> compaction_gossip_health_compactor.ok sha (ghcl_entries (snd
    (GossipHealthCompactionLog_append sha result l)))"
  by (simp add: Let_def split_def GossipHealthCompactionLog_append_def
      compaction_gossip_health_compactor_compute_entry_hash_def
      GossipHealthCompactionLogEntry_bytes_of_def split: option.split sum.split)

section \<open>Compaction Gossip Health Aggregator (Gate 360)\<close>

text \<open>
  \<open>compaction_gossip_health_aggregator.rs\<close>. Combines gossip telemetry validity
  (chains_valid, missed rate) with the per-epoch CompactionGossipHealthClass (Gate 355) into a
  GossipHealthVector. Mirrors Gate 338 (Compaction Health Aggregator) for the gossip subsystem.
\<close>

definition MISSED_ALERT_THRESHOLD :: u64 where
  "MISSED_ALERT_THRESHOLD = 10"

datatype GossipHealthGrade = Healthy | Nominal | Elevated | Critical

fun GossipHealthGrade_as_u8 :: "GossipHealthGrade \<Rightarrow> u8" where
  "GossipHealthGrade_as_u8 GossipHealthGrade.Healthy = 0"
| "GossipHealthGrade_as_u8 GossipHealthGrade.Nominal = 1"
| "GossipHealthGrade_as_u8 GossipHealthGrade.Elevated = 2"
| "GossipHealthGrade_as_u8 GossipHealthGrade.Critical = 3"

lemma GossipHealthGrade_as_u8_inj [simp]: "GossipHealthGrade_as_u8 x = GossipHealthGrade_as_u8 y
    \<longleftrightarrow> x = y"
  by (cases x; cases y) auto

definition GossipHealthGrade_classify :: "bool \<Rightarrow> u64 \<Rightarrow> GossipHealthGrade" where
  "GossipHealthGrade_classify chains_valid total_missed =
     (let high = total_missed \<ge> MISSED_ALERT_THRESHOLD
      in case (chains_valid, high) of
         (True, False) \<Rightarrow> GossipHealthGrade.Healthy
       | (True, True) \<Rightarrow> GossipHealthGrade.Nominal
       | (False, False) \<Rightarrow> GossipHealthGrade.Elevated
       | (False, True) \<Rightarrow> GossipHealthGrade.Critical)"

datatype GossipJointCondition = Optimal | Nominal | Degraded | Critical

fun GossipJointCondition_as_u8 :: "GossipJointCondition \<Rightarrow> u8" where
  "GossipJointCondition_as_u8 GossipJointCondition.Optimal = 0"
| "GossipJointCondition_as_u8 GossipJointCondition.Nominal = 1"
| "GossipJointCondition_as_u8 GossipJointCondition.Degraded = 2"
| "GossipJointCondition_as_u8 GossipJointCondition.Critical = 3"

lemma GossipJointCondition_as_u8_inj [simp]: "GossipJointCondition_as_u8 x = GossipJointCondition_as_u8
    y \<longleftrightarrow> x = y"
  by (cases x; cases y) auto

definition GossipJointCondition_classify ::
  "GossipHealthGrade \<Rightarrow> CompactionGossipHealthClass \<Rightarrow> GossipJointCondition" where
  "GossipJointCondition_classify grade class_v =
     (if grade = GossipHealthGrade.Critical \<or> class_v = CompactionGossipHealthClass.Red then
         GossipJointCondition.Critical
      else if grade = GossipHealthGrade.Elevated then GossipJointCondition.Degraded
      else if grade = GossipHealthGrade.Healthy \<and> class_v = CompactionGossipHealthClass.Green then
          GossipJointCondition.Optimal
      else if class_v = CompactionGossipHealthClass.Yellow then GossipJointCondition.Degraded
      else GossipJointCondition.Nominal)"

record GossipHealthVector =
  ghv_epoch :: u64
  ghv_gossip_grade :: GossipHealthGrade
  ghv_gossip_class :: CompactionGossipHealthClass
  ghv_joint_condition :: GossipJointCondition
  ghv_total_delivered :: u64
  ghv_total_missed :: u64
  ghv_chains_valid :: bool
  ghv_prev_hash :: hash
  ghv_vector_hash :: hash

definition compaction_gossip_health_aggregator_vector_bytes ::
  "hash \<Rightarrow> u64 \<Rightarrow> GossipHealthGrade \<Rightarrow> CompactionGossipHealthClass
      \<Rightarrow> GossipJointCondition \<Rightarrow> u64 \<Rightarrow> u64 \<Rightarrow> bool
      \<Rightarrow> bytes" where
  "compaction_gossip_health_aggregator_vector_bytes prev epoch grade class_v joint total_delivered
      total_missed chains_valid =
     hash_bytes prev @ be8 epoch @ [GossipHealthGrade_as_u8 grade] @
         [CompactionGossipHealthClass_as_u8 class_v] @ [GossipJointCondition_as_u8 joint] @
         be8 total_delivered @ be8 total_missed @ [of_bool chains_valid]"

definition compaction_gossip_health_aggregator_compute_vector_hash ::
  "sha \<Rightarrow> hash \<Rightarrow> u64 \<Rightarrow> GossipHealthGrade \<Rightarrow>
      CompactionGossipHealthClass \<Rightarrow> GossipJointCondition \<Rightarrow> u64 \<Rightarrow> u64
      \<Rightarrow> bool \<Rightarrow> hash" where
  "compaction_gossip_health_aggregator_compute_vector_hash sha prev epoch grade class_v joint
      total_delivered total_missed chains_valid =
     sha (compaction_gossip_health_aggregator_vector_bytes prev epoch grade class_v joint
         total_delivered total_missed chains_valid)"

record GossipHealthLog_aggregator =
  ghl2_vectors :: "GossipHealthVector list"

definition GossipHealthLog_aggregator_new :: "GossipHealthLog_aggregator" where
  "GossipHealthLog_aggregator_new =
     \<lparr>ghl2_vectors = []\<rparr>"

definition GossipHealthLog_aggregator_latest ::
  "GossipHealthLog_aggregator \<Rightarrow> GossipHealthVector option" where
  "GossipHealthLog_aggregator_latest self =
     last_opt (ghl2_vectors self)"

definition GossipHealthLog_aggregator_critical_count ::
  "GossipHealthLog_aggregator \<Rightarrow> nat" where
  "GossipHealthLog_aggregator_critical_count self =
     length (filter (\<lambda>v. (ghv_joint_condition v) = GossipJointCondition.Critical) (ghl2_vectors
         self))"

definition GossipHealthLog_aggregator_optimal_count ::
  "GossipHealthLog_aggregator \<Rightarrow> nat" where
  "GossipHealthLog_aggregator_optimal_count self =
     length (filter (\<lambda>v. (ghv_joint_condition v) = GossipJointCondition.Optimal) (ghl2_vectors
         self))"

definition GossipHealthLog_aggregator_joint_condition_count ::
  "GossipJointCondition \<Rightarrow> GossipHealthLog_aggregator \<Rightarrow> nat" where
  "GossipHealthLog_aggregator_joint_condition_count jc self =
     length (filter (\<lambda>v. (ghv_joint_condition v) = jc) (ghl2_vectors self))"

definition GossipHealthLog_aggregator_record ::
  "sha \<Rightarrow> u64 \<Rightarrow> CompactionGossipHealthClass \<Rightarrow> u64 \<Rightarrow> u64
      \<Rightarrow> bool \<Rightarrow> GossipHealthLog_aggregator \<Rightarrow> GossipHealthVector
      \<times> GossipHealthLog_aggregator" where
  "GossipHealthLog_aggregator_record sha epoch gossip_class total_delivered total_missed chains_valid
      self =
     (let grade = GossipHealthGrade_classify chains_valid total_missed;
          joint = GossipJointCondition_classify grade gossip_class;
          prev = last_hash ghv_vector_hash (ghl2_vectors self);
          vector_hash = compaction_gossip_health_aggregator_compute_vector_hash sha prev epoch grade
            gossip_class joint total_delivered total_missed chains_valid;
          self = self\<lparr>ghl2_vectors := (ghl2_vectors self) @ [\<lparr>ghv_epoch = epoch,
            ghv_gossip_grade = grade, ghv_gossip_class = gossip_class, ghv_joint_condition = joint,
            ghv_total_delivered = total_delivered, ghv_total_missed = total_missed,
            ghv_chains_valid = chains_valid, ghv_prev_hash = prev,
            ghv_vector_hash = vector_hash\<rparr>]\<rparr>
      in (last (ghl2_vectors self), self))"

definition GossipHealthVector_bytes_of :: "GossipHealthVector \<Rightarrow> bytes" where
  "GossipHealthVector_bytes_of v =
     compaction_gossip_health_aggregator_vector_bytes (ghv_prev_hash v) (ghv_epoch v) (ghv_gossip_grade
         v) (ghv_gossip_class v) (ghv_joint_condition v) (ghv_total_delivered v) (ghv_total_missed v)
         (ghv_chains_valid v)"

definition GossipHealthLog_aggregator_verify_chain ::
  "sha \<Rightarrow> GossipHealthLog_aggregator \<Rightarrow> bool \<times> nat option" where
  "GossipHealthLog_aggregator_verify_chain sha self =
     verify_from ghv_prev_hash ghv_vector_hash (\<lambda>r. sha (GossipHealthVector_bytes_of r)) 0
         genesis (ghl2_vectors self)"

lemma compaction_gossip_health_aggregator_vector_bytes_inj:
  "compaction_gossip_health_aggregator_vector_bytes prev epoch grade class_v joint total_delivered
      total_missed chains_valid = compaction_gossip_health_aggregator_vector_bytes prev' epoch' grade'
      class_v' joint' total_delivered' total_missed' chains_valid' \<longleftrightarrow>
   prev = prev' \<and> epoch = epoch' \<and> grade = grade' \<and> class_v = class_v' \<and> joint =
       joint' \<and> total_delivered = total_delivered' \<and> total_missed = total_missed' \<and>
       chains_valid = chains_valid'"
  by (auto simp: compaction_gossip_health_aggregator_vector_bytes_def enc_simps)

definition GossipHealthVector_committed :: "GossipHealthVector \<Rightarrow> u64 \<times>
    GossipHealthGrade \<times> CompactionGossipHealthClass \<times> GossipJointCondition \<times> u64
    \<times> u64 \<times> bool" where
  "GossipHealthVector_committed v =
     (ghv_epoch v, ghv_gossip_grade v, ghv_gossip_class v, ghv_joint_condition v, ghv_total_delivered v,
         ghv_total_missed v, ghv_chains_valid v)"

interpretation compaction_gossip_health_aggregator: epoch_log GossipHealthVector_bytes_of ghv_prev_hash
    ghv_vector_hash GossipHealthVector_committed
  "\<lambda>sha (epoch, gossip_class, total_delivered, total_missed,
      chains_valid) l. GossipHealthLog_aggregator_record sha epoch gossip_class total_delivered
      total_missed chains_valid l"
  ghl2_vectors GossipHealthLog_aggregator_new "\<lambda>(a, _, c, _, e, f, g). (a, c, e, f, g)"
  by unfold_locales (auto simp: GossipHealthLog_aggregator_record_def
      compaction_gossip_health_aggregator_compute_vector_hash_def GossipHealthLog_aggregator_new_def
      Let_def GossipHealthVector_bytes_of_def GossipHealthVector_committed_def
      compaction_gossip_health_aggregator_vector_bytes_inj)

lemma compaction_gossip_health_aggregator_verify_iff: "GossipHealthLog_aggregator_verify_chain sha l =
    (True, None) \<longleftrightarrow> compaction_gossip_health_aggregator.ok sha (ghl2_vectors l)"
  by (simp add: GossipHealthLog_aggregator_verify_chain_def verify_from_iff)

section \<open>Compaction Gossip Momentum Tracker (Gate 361)\<close>

text \<open>
  \<open>compaction_gossip_momentum_tracker.rs\<close>. Rolling directional trend signal for
  GossipJointCondition (Gate 360) across a sliding observation window. Mirrors Gate 339 for the gossip
  subsystem.
\<close>

definition GOSSIP_MOMENTUM_WINDOW :: nat where
  "GOSSIP_MOMENTUM_WINDOW = 4"

datatype GossipMomentumDir = Improving | Stable | Declining

fun GossipMomentumDir_as_u8 :: "GossipMomentumDir \<Rightarrow> u8" where
  "GossipMomentumDir_as_u8 GossipMomentumDir.Improving = 0"
| "GossipMomentumDir_as_u8 GossipMomentumDir.Stable = 1"
| "GossipMomentumDir_as_u8 GossipMomentumDir.Declining = 2"

lemma GossipMomentumDir_as_u8_inj [simp]: "GossipMomentumDir_as_u8 x = GossipMomentumDir_as_u8 y
    \<longleftrightarrow> x = y"
  by (cases x; cases y) auto

definition GossipMomentumDir_from_delta :: "i16 \<Rightarrow> GossipMomentumDir" where
  "GossipMomentumDir_from_delta delta_v =
     (if delta_v <s 0 then GossipMomentumDir.Improving else if delta_v = 0 then GossipMomentumDir.Stable
         else GossipMomentumDir.Declining)"

record GossipMomentumRecord =
  gmr_epoch :: u64
  gmr_joint_condition :: GossipJointCondition
  gmr_score :: u8
  gmr_direction :: GossipMomentumDir
  gmr_momentum_int :: i16
  gmr_window_size :: u16
  gmr_prev_hash :: hash
  gmr_record_hash :: hash

definition compaction_gossip_momentum_tracker_record_bytes ::
  "hash \<Rightarrow> u64 \<Rightarrow> u8 \<Rightarrow> GossipMomentumDir \<Rightarrow> i16
      \<Rightarrow> u16 \<Rightarrow> bytes" where
  "compaction_gossip_momentum_tracker_record_bytes prev epoch score dir momentum_int window_size =
     hash_bytes prev @ be8 epoch @ [score] @ [GossipMomentumDir_as_u8 dir] @ be2 momentum_int @
         be2 window_size"

definition compaction_gossip_momentum_tracker_compute_record_hash ::
  "sha \<Rightarrow> hash \<Rightarrow> u64 \<Rightarrow> u8 \<Rightarrow> GossipMomentumDir
      \<Rightarrow> i16 \<Rightarrow> u16 \<Rightarrow> hash" where
  "compaction_gossip_momentum_tracker_compute_record_hash sha prev epoch score dir momentum_int
      window_size =
     sha (compaction_gossip_momentum_tracker_record_bytes prev epoch score dir momentum_int
         window_size)"

record GossipMomentumLog =
  gml_records :: "GossipMomentumRecord list"
  gml_window :: bytes
  gml_w_len :: nat
  gml_w_head :: nat

definition GossipMomentumLog_new :: "GossipMomentumLog" where
  "GossipMomentumLog_new =
     \<lparr>gml_records = [], gml_window = replicate GOSSIP_MOMENTUM_WINDOW (0 :: u8), gml_w_len = 0,
         gml_w_head = 0\<rparr>"

definition GossipMomentumLog_record_count :: "GossipMomentumLog \<Rightarrow> nat" where
  "GossipMomentumLog_record_count self =
     length (gml_records self)"

definition GossipMomentumLog_latest ::
  "GossipMomentumLog \<Rightarrow> GossipMomentumRecord option" where
  "GossipMomentumLog_latest self =
     last_opt (gml_records self)"

definition GossipMomentumLog_direction_count ::
  "GossipMomentumDir \<Rightarrow> GossipMomentumLog \<Rightarrow> nat" where
  "GossipMomentumLog_direction_count dir self =
     length (filter (\<lambda>r. (gmr_direction r) = dir) (gml_records self))"

definition GossipMomentumLog_improving_epochs :: "GossipMomentumLog \<Rightarrow> nat" where
  "GossipMomentumLog_improving_epochs self =
     GossipMomentumLog_direction_count GossipMomentumDir.Improving self"

definition GossipMomentumLog_declining_epochs :: "GossipMomentumLog \<Rightarrow> nat" where
  "GossipMomentumLog_declining_epochs self =
     GossipMomentumLog_direction_count GossipMomentumDir.Declining self"

definition GossipMomentumLog_append ::
  "sha \<Rightarrow> u64 \<Rightarrow> GossipJointCondition \<Rightarrow> GossipMomentumLog
      \<Rightarrow> GossipMomentumRecord \<times> GossipMomentumLog" where
  "GossipMomentumLog_append sha epoch jc self =
     (let score = GossipJointCondition_as_u8 jc;
          slot = (gml_w_head self) mod GOSSIP_MOMENTUM_WINDOW;
          self = self\<lparr>gml_window := (gml_window self)[slot := score]\<rparr>;
          self = self\<lparr>gml_w_head := (gml_w_head self) + 1\<rparr>;
          self = (if (gml_w_len self) < GOSSIP_MOMENTUM_WINDOW then (let self = self\<lparr>gml_w_len :=
            (gml_w_len self) + 1\<rparr>
      in self)
      else self);
          window_size = gml_w_len self;
          (earliest, latest) = if window_size = 1 then (score, score) else (let oldest_slot = if
            (gml_w_len self) < GOSSIP_MOMENTUM_WINDOW then 0 else (gml_w_head self) mod
            GOSSIP_MOMENTUM_WINDOW; newest_slot = ((gml_w_head self) - 1) mod GOSSIP_MOMENTUM_WINDOW in
            ((gml_window self) ! oldest_slot, (gml_window self) ! newest_slot));
          momentum_int = (ucast latest :: i16) - (ucast earliest :: i16);
          direction = GossipMomentumDir_from_delta momentum_int;
          prev = last_hash gmr_record_hash (gml_records self);
          record_hash = compaction_gossip_momentum_tracker_compute_record_hash sha prev epoch score
            direction momentum_int (of_nat window_size :: u16);
          self = self\<lparr>gml_records := (gml_records self) @ [\<lparr>gmr_epoch = epoch,
            gmr_joint_condition = jc, gmr_score = score, gmr_direction = direction,
            gmr_momentum_int = momentum_int, gmr_window_size = (of_nat window_size :: u16),
            gmr_prev_hash = prev, gmr_record_hash = record_hash\<rparr>]\<rparr>
      in (last (gml_records self), self))"

definition GossipMomentumRecord_bytes_of :: "GossipMomentumRecord \<Rightarrow> bytes" where
  "GossipMomentumRecord_bytes_of r =
     compaction_gossip_momentum_tracker_record_bytes (gmr_prev_hash r) (gmr_epoch r) (gmr_score r)
         (gmr_direction r) (gmr_momentum_int r) (gmr_window_size r)"

definition GossipMomentumLog_verify_chain ::
  "sha \<Rightarrow> GossipMomentumLog \<Rightarrow> bool \<times> nat option" where
  "GossipMomentumLog_verify_chain sha self =
     verify_from gmr_prev_hash gmr_record_hash (\<lambda>r. sha (GossipMomentumRecord_bytes_of r)) 0
         genesis (gml_records self)"

lemma compaction_gossip_momentum_tracker_record_bytes_inj:
  "compaction_gossip_momentum_tracker_record_bytes prev epoch score dir momentum_int window_size =
      compaction_gossip_momentum_tracker_record_bytes prev' epoch' score' dir' momentum_int'
      window_size' \<longleftrightarrow>
   prev = prev' \<and> epoch = epoch' \<and> score = score' \<and> dir = dir' \<and> momentum_int =
       momentum_int' \<and> window_size = window_size'"
  by (auto simp: compaction_gossip_momentum_tracker_record_bytes_def enc_simps)

definition GossipMomentumRecord_committed :: "GossipMomentumRecord \<Rightarrow> u64 \<times> u8
    \<times> GossipMomentumDir \<times> i16 \<times> u16" where
  "GossipMomentumRecord_committed r =
     (gmr_epoch r, gmr_score r, gmr_direction r, gmr_momentum_int r, gmr_window_size r)"

interpretation compaction_gossip_momentum_tracker: hash_log GossipMomentumRecord_bytes_of gmr_prev_hash
    gmr_record_hash GossipMomentumRecord_committed
  by unfold_locales (auto simp: GossipMomentumRecord_bytes_of_def GossipMomentumRecord_committed_def
      compaction_gossip_momentum_tracker_record_bytes_inj)

lemma compaction_gossip_momentum_tracker_verify_iff: "GossipMomentumLog_verify_chain sha l = (True,
    None) \<longleftrightarrow> compaction_gossip_momentum_tracker.ok sha (gml_records l)"
  by (simp add: GossipMomentumLog_verify_chain_def verify_from_iff)

lemma gossip_momentum_log_append_ok: "compaction_gossip_momentum_tracker.ok sha (gml_records l)
    \<Longrightarrow> compaction_gossip_momentum_tracker.ok sha (gml_records (snd
    (GossipMomentumLog_append sha epoch jc l)))"
  by (simp add: Let_def split_def GossipMomentumLog_append_def
      compaction_gossip_momentum_tracker_compute_record_hash_def GossipMomentumRecord_bytes_of_def
      split: option.split sum.split)

section \<open>Compaction Gossip Epoch Report (Gate 362)\<close>

text \<open>
  \<open>compaction_gossip_epoch_report.rs\<close>. Per-epoch summary unifying the three gossip health
  axes. Mirrors Gate 340 (Compaction Epoch Report) for the gossip subsystem.
\<close>

record GossipEpochReport =
  ger_epoch :: u64
  ger_joint_condition :: GossipJointCondition
  ger_gossip_grade :: GossipHealthGrade
  ger_total_delivered :: u64
  ger_chains_valid :: bool
  ger_direction :: GossipMomentumDir
  ger_momentum_int :: i16
  ger_window_size :: nat
  ger_red_pct :: u8
  ger_yellow_pct :: u8
  ger_green_pct :: u8
  ger_report_hash :: hash
  ger_prev_hash :: hash

definition compaction_gossip_epoch_report_report_bytes ::
  "hash \<Rightarrow> u64 \<Rightarrow> GossipJointCondition \<Rightarrow> GossipHealthGrade
      \<Rightarrow> u64 \<Rightarrow> bool \<Rightarrow> GossipMomentumDir \<Rightarrow> i16
      \<Rightarrow> nat \<Rightarrow> u8 \<Rightarrow> u8 \<Rightarrow> u8 \<Rightarrow> bytes" where
  "compaction_gossip_epoch_report_report_bytes prev epoch joint grade total_delivered chains_valid dir
      momentum_int window_size red_pct yellow_pct green_pct =
     hash_bytes prev @ be8 epoch @ [GossipJointCondition_as_u8 joint] @
         [GossipHealthGrade_as_u8 grade] @ be8 total_delivered @ [of_bool chains_valid] @
         [GossipMomentumDir_as_u8 dir] @ be2 momentum_int @ be2 (of_nat window_size :: u16) @
         [red_pct] @ [yellow_pct] @ [green_pct]"

definition compaction_gossip_epoch_report_compute_report_hash ::
  "sha \<Rightarrow> hash \<Rightarrow> u64 \<Rightarrow> GossipJointCondition \<Rightarrow>
      GossipHealthGrade \<Rightarrow> u64 \<Rightarrow> bool \<Rightarrow> GossipMomentumDir
      \<Rightarrow> i16 \<Rightarrow> nat \<Rightarrow> u8 \<Rightarrow> u8 \<Rightarrow> u8
      \<Rightarrow> hash" where
  "compaction_gossip_epoch_report_compute_report_hash sha prev epoch joint grade total_delivered
      chains_valid dir momentum_int window_size red_pct yellow_pct green_pct =
     sha (compaction_gossip_epoch_report_report_bytes prev epoch joint grade total_delivered
         chains_valid dir momentum_int window_size red_pct yellow_pct green_pct)"

record GossipEpochReportLog =
  gerl_reports :: "GossipEpochReport list"

definition GossipEpochReportLog_new :: "GossipEpochReportLog" where
  "GossipEpochReportLog_new =
     \<lparr>gerl_reports = []\<rparr>"

definition GossipEpochReportLog_latest ::
  "GossipEpochReportLog \<Rightarrow> GossipEpochReport option" where
  "GossipEpochReportLog_latest self =
     last_opt (gerl_reports self)"

definition GossipEpochReportLog_append ::
  "sha \<Rightarrow> GossipHealthVector \<Rightarrow> GossipMomentumRecord \<Rightarrow> u8
      \<Rightarrow> u8 \<Rightarrow> u8 \<Rightarrow> GossipEpochReportLog \<Rightarrow>
      GossipEpochReport \<times> GossipEpochReportLog" where
  "GossipEpochReportLog_append sha health momentum red_pct yellow_pct green_pct self =
     (let prev = last_hash ger_report_hash (gerl_reports self);
          report_hash = compaction_gossip_epoch_report_compute_report_hash sha prev (ghv_epoch health)
            (ghv_joint_condition health) (ghv_gossip_grade health) (ghv_total_delivered health)
            (ghv_chains_valid health) (gmr_direction momentum) (gmr_momentum_int momentum) (unat
            (gmr_window_size momentum)) red_pct yellow_pct green_pct;
          self = self\<lparr>gerl_reports := (gerl_reports self) @
            [\<lparr>ger_epoch = ghv_epoch health, ger_joint_condition = ghv_joint_condition health,
            ger_gossip_grade = ghv_gossip_grade health, ger_total_delivered = ghv_total_delivered
            health, ger_chains_valid = ghv_chains_valid health, ger_direction = gmr_direction momentum,
            ger_momentum_int = gmr_momentum_int momentum, ger_window_size = unat (gmr_window_size
            momentum), ger_red_pct = red_pct, ger_yellow_pct = yellow_pct, ger_green_pct = green_pct,
            ger_report_hash = report_hash, ger_prev_hash = prev\<rparr>]\<rparr>
      in (last (gerl_reports self), self))"

definition GossipEpochReportLog_critical_epochs :: "GossipEpochReportLog \<Rightarrow> nat" where
  "GossipEpochReportLog_critical_epochs self =
     length (filter (\<lambda>r. (ger_joint_condition r) = GossipJointCondition.Critical) (gerl_reports
         self))"

definition GossipEpochReportLog_optimal_epochs :: "GossipEpochReportLog \<Rightarrow> nat" where
  "GossipEpochReportLog_optimal_epochs self =
     length (filter (\<lambda>r. (ger_joint_condition r) = GossipJointCondition.Optimal) (gerl_reports
         self))"

definition GossipEpochReportLog_declining_epochs :: "GossipEpochReportLog \<Rightarrow> nat" where
  "GossipEpochReportLog_declining_epochs self =
     length (filter (\<lambda>r. (ger_direction r) = GossipMomentumDir.Declining) (gerl_reports self))"

definition GossipEpochReport_bytes_of :: "GossipEpochReport \<Rightarrow> bytes" where
  "GossipEpochReport_bytes_of r =
     compaction_gossip_epoch_report_report_bytes (ger_prev_hash r) (ger_epoch r) (ger_joint_condition r)
         (ger_gossip_grade r) (ger_total_delivered r) (ger_chains_valid r) (ger_direction r)
         (ger_momentum_int r) (ger_window_size r) (ger_red_pct r) (ger_yellow_pct r) (ger_green_pct r)"

definition GossipEpochReportLog_verify_chain ::
  "sha \<Rightarrow> GossipEpochReportLog \<Rightarrow> bool \<times> nat option" where
  "GossipEpochReportLog_verify_chain sha self =
     verify_from ger_prev_hash ger_report_hash (\<lambda>r. sha (GossipEpochReport_bytes_of r)) 0
         genesis (gerl_reports self)"

lemma compaction_gossip_epoch_report_report_bytes_inj:
  "compaction_gossip_epoch_report_report_bytes prev epoch joint grade total_delivered chains_valid dir
      momentum_int window_size red_pct yellow_pct green_pct =
      compaction_gossip_epoch_report_report_bytes prev' epoch' joint' grade' total_delivered'
      chains_valid' dir' momentum_int' window_size' red_pct' yellow_pct' green_pct'
      \<longleftrightarrow>
   prev = prev' \<and> epoch = epoch' \<and> joint = joint' \<and> grade = grade' \<and> total_delivered
       = total_delivered' \<and> chains_valid = chains_valid' \<and> dir = dir' \<and> momentum_int =
       momentum_int' \<and> (of_nat window_size :: u16) = (of_nat window_size' :: u16) \<and> red_pct =
       red_pct' \<and> yellow_pct = yellow_pct' \<and> green_pct = green_pct'"
  by (auto simp: compaction_gossip_epoch_report_report_bytes_def enc_simps)

definition GossipEpochReport_committed :: "GossipEpochReport \<Rightarrow> u64 \<times>
    GossipJointCondition \<times> GossipHealthGrade \<times> u64 \<times> bool \<times>
    GossipMomentumDir \<times> i16 \<times> u16 \<times> u8 \<times> u8 \<times> u8" where
  "GossipEpochReport_committed r =
     (ger_epoch r, ger_joint_condition r, ger_gossip_grade r, ger_total_delivered r, ger_chains_valid r,
         ger_direction r, ger_momentum_int r, of_nat (ger_window_size r) :: u16, ger_red_pct r,
         ger_yellow_pct r, ger_green_pct r)"

interpretation compaction_gossip_epoch_report: hash_log GossipEpochReport_bytes_of ger_prev_hash
    ger_report_hash GossipEpochReport_committed
  by unfold_locales (auto simp: GossipEpochReport_bytes_of_def GossipEpochReport_committed_def
      compaction_gossip_epoch_report_report_bytes_inj)

lemma compaction_gossip_epoch_report_verify_iff: "GossipEpochReportLog_verify_chain sha l = (True,
    None) \<longleftrightarrow> compaction_gossip_epoch_report.ok sha (gerl_reports l)"
  by (simp add: GossipEpochReportLog_verify_chain_def verify_from_iff)

lemma gossip_epoch_report_log_append_ok: "compaction_gossip_epoch_report.ok sha (gerl_reports l)
    \<Longrightarrow> compaction_gossip_epoch_report.ok sha (gerl_reports (snd
    (GossipEpochReportLog_append sha health momentum red_pct yellow_pct green_pct l)))"
  by (simp add: Let_def split_def GossipEpochReportLog_append_def
      compaction_gossip_epoch_report_compute_report_hash_def GossipEpochReport_bytes_of_def split:
      option.split sum.split)

section \<open>Compaction Gossip Alert Classifier (Gate 363)\<close>

text \<open>
  \<open>compaction_gossip_alert_classifier.rs\<close>. Translates GossipEpochReport (Gate 362)
  signals into a three-level alert state with hysteresis. Mirrors Gate 341 for the gossip subsystem.
\<close>

definition GOSSIP_ALERT_DECLINING_THRESHOLD :: u32 where
  "GOSSIP_ALERT_DECLINING_THRESHOLD = 3"

datatype GossipAlertLevel = Green | Amber | Red

fun GossipAlertLevel_as_u8 :: "GossipAlertLevel \<Rightarrow> u8" where
  "GossipAlertLevel_as_u8 GossipAlertLevel.Green = 0"
| "GossipAlertLevel_as_u8 GossipAlertLevel.Amber = 1"
| "GossipAlertLevel_as_u8 GossipAlertLevel.Red = 2"

lemma GossipAlertLevel_as_u8_inj [simp]: "GossipAlertLevel_as_u8 x = GossipAlertLevel_as_u8 y
    \<longleftrightarrow> x = y"
  by (cases x; cases y) auto

definition GossipAlertLevel_classify ::
  "GossipJointCondition \<Rightarrow> GossipMomentumDir \<Rightarrow> u32 \<Rightarrow>
      GossipAlertLevel" where
  "GossipAlertLevel_classify jc dir consecutive_declining =
     (if jc = GossipJointCondition.Critical \<or> consecutive_declining \<ge>
         GOSSIP_ALERT_DECLINING_THRESHOLD then GossipAlertLevel.Red
      else if jc = GossipJointCondition.Degraded \<or> (dir = GossipMomentumDir.Declining \<and>
          consecutive_declining \<ge> 2) then GossipAlertLevel.Amber
      else GossipAlertLevel.Green)"

record GossipAlertRecord =
  gar_epoch :: u64
  gar_alert_level :: GossipAlertLevel
  gar_joint_condition :: GossipJointCondition
  gar_direction :: GossipMomentumDir
  gar_consecutive_declining :: u32
  gar_alert_hash :: hash
  gar_prev_hash :: hash

definition compaction_gossip_alert_classifier_alert_bytes ::
  "hash \<Rightarrow> u64 \<Rightarrow> GossipAlertLevel \<Rightarrow> GossipJointCondition
      \<Rightarrow> GossipMomentumDir \<Rightarrow> u32 \<Rightarrow> bytes" where
  "compaction_gossip_alert_classifier_alert_bytes prev epoch alert joint dir consecutive_declining =
     hash_bytes prev @ be8 epoch @ [GossipAlertLevel_as_u8 alert] @ [GossipJointCondition_as_u8 joint] @
         [GossipMomentumDir_as_u8 dir] @ be4 consecutive_declining"

definition compaction_gossip_alert_classifier_compute_alert_hash ::
  "sha \<Rightarrow> hash \<Rightarrow> u64 \<Rightarrow> GossipAlertLevel \<Rightarrow>
      GossipJointCondition \<Rightarrow> GossipMomentumDir \<Rightarrow> u32 \<Rightarrow> hash" where
  "compaction_gossip_alert_classifier_compute_alert_hash sha prev epoch alert joint dir
      consecutive_declining =
     sha (compaction_gossip_alert_classifier_alert_bytes prev epoch alert joint dir
         consecutive_declining)"

record GossipAlertLog =
  gal_records :: "GossipAlertRecord list"
  gal_consecutive_declining :: u32

definition GossipAlertLog_new :: "GossipAlertLog" where
  "GossipAlertLog_new =
     \<lparr>gal_records = [], gal_consecutive_declining = 0\<rparr>"

definition GossipAlertLog_latest :: "GossipAlertLog \<Rightarrow> GossipAlertRecord option" where
  "GossipAlertLog_latest self =
     last_opt (gal_records self)"

definition GossipAlertLog_append ::
  "sha \<Rightarrow> GossipEpochReport \<Rightarrow> GossipAlertLog \<Rightarrow> GossipAlertRecord
      \<times> GossipAlertLog" where
  "GossipAlertLog_append sha report self =
     (let self = (if (ger_direction report) = GossipMomentumDir.Declining then (let self =
         self\<lparr>gal_consecutive_declining := sat_add (gal_consecutive_declining self) 1\<rparr>
      in self)
      else (let self = self\<lparr>gal_consecutive_declining := 0\<rparr>
      in self));
          streak = gal_consecutive_declining self;
          alert_level = GossipAlertLevel_classify (ger_joint_condition report) (ger_direction report)
            streak;
          prev = last_hash gar_alert_hash (gal_records self);
          alert_hash = compaction_gossip_alert_classifier_compute_alert_hash sha prev (ger_epoch report)
            alert_level (ger_joint_condition report) (ger_direction report) streak;
          self = self\<lparr>gal_records := (gal_records self) @ [\<lparr>gar_epoch = ger_epoch report,
            gar_alert_level = alert_level, gar_joint_condition = ger_joint_condition report,
            gar_direction = ger_direction report, gar_consecutive_declining = streak,
            gar_alert_hash = alert_hash, gar_prev_hash = prev\<rparr>]\<rparr>
      in (last (gal_records self), self))"

definition GossipAlertLog_red_count :: "GossipAlertLog \<Rightarrow> nat" where
  "GossipAlertLog_red_count self =
     length (filter (\<lambda>r. (gar_alert_level r) = GossipAlertLevel.Red) (gal_records self))"

definition GossipAlertLog_amber_count :: "GossipAlertLog \<Rightarrow> nat" where
  "GossipAlertLog_amber_count self =
     length (filter (\<lambda>r. (gar_alert_level r) = GossipAlertLevel.Amber) (gal_records self))"

definition GossipAlertLog_green_count :: "GossipAlertLog \<Rightarrow> nat" where
  "GossipAlertLog_green_count self =
     length (filter (\<lambda>r. (gar_alert_level r) = GossipAlertLevel.Green) (gal_records self))"

definition GossipAlertLog_max_consecutive_declining :: "GossipAlertLog \<Rightarrow> u32" where
  "GossipAlertLog_max_consecutive_declining self =
     unwrap_or 0 (list_max (map gar_consecutive_declining (gal_records self)))"

definition GossipAlertRecord_bytes_of :: "GossipAlertRecord \<Rightarrow> bytes" where
  "GossipAlertRecord_bytes_of r =
     compaction_gossip_alert_classifier_alert_bytes (gar_prev_hash r) (gar_epoch r) (gar_alert_level r)
         (gar_joint_condition r) (gar_direction r) (gar_consecutive_declining r)"

definition GossipAlertLog_verify_chain ::
  "sha \<Rightarrow> GossipAlertLog \<Rightarrow> bool \<times> nat option" where
  "GossipAlertLog_verify_chain sha self =
     verify_from gar_prev_hash gar_alert_hash (\<lambda>r. sha (GossipAlertRecord_bytes_of r)) 0 genesis
         (gal_records self)"

lemma compaction_gossip_alert_classifier_alert_bytes_inj:
  "compaction_gossip_alert_classifier_alert_bytes prev epoch alert joint dir consecutive_declining =
      compaction_gossip_alert_classifier_alert_bytes prev' epoch' alert' joint' dir'
      consecutive_declining' \<longleftrightarrow>
   prev = prev' \<and> epoch = epoch' \<and> alert = alert' \<and> joint = joint' \<and> dir = dir'
       \<and> consecutive_declining = consecutive_declining'"
  by (auto simp: compaction_gossip_alert_classifier_alert_bytes_def enc_simps)

definition GossipAlertRecord_committed :: "GossipAlertRecord \<Rightarrow> u64 \<times> GossipAlertLevel
    \<times> GossipJointCondition \<times> GossipMomentumDir \<times> u32" where
  "GossipAlertRecord_committed r =
     (gar_epoch r, gar_alert_level r, gar_joint_condition r, gar_direction r,
         gar_consecutive_declining r)"

interpretation compaction_gossip_alert_classifier: hash_log GossipAlertRecord_bytes_of gar_prev_hash
    gar_alert_hash GossipAlertRecord_committed
  by unfold_locales (auto simp: GossipAlertRecord_bytes_of_def GossipAlertRecord_committed_def
      compaction_gossip_alert_classifier_alert_bytes_inj)

lemma compaction_gossip_alert_classifier_verify_iff: "GossipAlertLog_verify_chain sha l = (True,
    None) \<longleftrightarrow> compaction_gossip_alert_classifier.ok sha (gal_records l)"
  by (simp add: GossipAlertLog_verify_chain_def verify_from_iff)

lemma gossip_alert_log_append_ok: "compaction_gossip_alert_classifier.ok sha (gal_records l)
    \<Longrightarrow> compaction_gossip_alert_classifier.ok sha (gal_records (snd (GossipAlertLog_append
    sha report l)))"
  by (simp add: Let_def split_def GossipAlertLog_append_def
      compaction_gossip_alert_classifier_compute_alert_hash_def GossipAlertRecord_bytes_of_def split:
      option.split sum.split)

section \<open>Compaction Gossip Recovery Advisor (Gate 364)\<close>

text \<open>
  \<open>compaction_gossip_recovery_advisor.rs\<close>. Produces hash-chained recovery recommendations
  from GossipAlertRecord (363) and GossipEpochReport (362) signals. Mirrors Gate 342 for the gossip
  subsystem.
\<close>

definition GOSSIP_HIGH_RED_PCT_THRESHOLD :: u8 where
  "GOSSIP_HIGH_RED_PCT_THRESHOLD = 50"

datatype GossipRecoveryPriority = ChainRepair | DeliveryRecovery | MomentumStabilize | MonitorOnly

fun GossipRecoveryPriority_as_u8 :: "GossipRecoveryPriority \<Rightarrow> u8" where
  "GossipRecoveryPriority_as_u8 GossipRecoveryPriority.ChainRepair = 0"
| "GossipRecoveryPriority_as_u8 GossipRecoveryPriority.DeliveryRecovery = 1"
| "GossipRecoveryPriority_as_u8 GossipRecoveryPriority.MomentumStabilize = 2"
| "GossipRecoveryPriority_as_u8 GossipRecoveryPriority.MonitorOnly = 3"

lemma GossipRecoveryPriority_as_u8_inj [simp]: "GossipRecoveryPriority_as_u8 x =
    GossipRecoveryPriority_as_u8 y \<longleftrightarrow> x = y"
  by (cases x; cases y) auto

datatype GossipRecoveryRecommendation = RepairChains | RestoreDelivery | StabilizeMomentum |
    ContinueMonitoring

fun GossipRecoveryRecommendation_as_u8 :: "GossipRecoveryRecommendation \<Rightarrow> u8" where
  "GossipRecoveryRecommendation_as_u8 GossipRecoveryRecommendation.RepairChains = 0"
| "GossipRecoveryRecommendation_as_u8 GossipRecoveryRecommendation.RestoreDelivery = 1"
| "GossipRecoveryRecommendation_as_u8 GossipRecoveryRecommendation.StabilizeMomentum = 2"
| "GossipRecoveryRecommendation_as_u8 GossipRecoveryRecommendation.ContinueMonitoring = 3"

lemma GossipRecoveryRecommendation_as_u8_inj [simp]: "GossipRecoveryRecommendation_as_u8 x =
    GossipRecoveryRecommendation_as_u8 y \<longleftrightarrow> x = y"
  by (cases x; cases y) auto

record GossipRecoveryAction =
  gra_epoch :: u64
  gra_alert_level :: GossipAlertLevel
  gra_priority :: GossipRecoveryPriority
  gra_reason_code :: u8
  gra_recommendation :: GossipRecoveryRecommendation
  gra_action_hash :: hash
  gra_prev_hash :: hash

definition compaction_gossip_recovery_advisor_action_bytes ::
  "hash \<Rightarrow> u64 \<Rightarrow> GossipAlertLevel \<Rightarrow> GossipRecoveryPriority
      \<Rightarrow> u8 \<Rightarrow> GossipRecoveryRecommendation \<Rightarrow> bytes" where
  "compaction_gossip_recovery_advisor_action_bytes prev epoch alert priority reason_code recommendation
      =
     hash_bytes prev @ be8 epoch @ [GossipAlertLevel_as_u8 alert] @
         [GossipRecoveryPriority_as_u8 priority] @ [reason_code] @
         [GossipRecoveryRecommendation_as_u8 recommendation]"

definition compaction_gossip_recovery_advisor_compute_action_hash ::
  "sha \<Rightarrow> hash \<Rightarrow> u64 \<Rightarrow> GossipAlertLevel \<Rightarrow>
      GossipRecoveryPriority \<Rightarrow> u8 \<Rightarrow> GossipRecoveryRecommendation \<Rightarrow>
      hash" where
  "compaction_gossip_recovery_advisor_compute_action_hash sha prev epoch alert priority reason_code
      recommendation =
     sha (compaction_gossip_recovery_advisor_action_bytes prev epoch alert priority reason_code
         recommendation)"

definition compaction_gossip_recovery_advisor_advise ::
  "GossipAlertRecord \<Rightarrow> GossipEpochReport \<Rightarrow> GossipRecoveryPriority \<times>
      GossipRecoveryRecommendation \<times> u8" where
  "compaction_gossip_recovery_advisor_advise alert report =
     (let chain_broken = \<not> (ger_chains_valid report);
          high_red = (ger_red_pct report) \<ge> GOSSIP_HIGH_RED_PCT_THRESHOLD;
          declining = (ger_direction report) = GossipMomentumDir.Declining \<and>
            (gar_consecutive_declining alert) \<ge> 2;
          reason_code = or (or (of_bool chain_broken :: u8) (push_bit 1 (of_bool high_red :: u8)))
            (push_bit 2 (of_bool declining :: u8))
      in if chain_broken then (GossipRecoveryPriority.ChainRepair,
          GossipRecoveryRecommendation.RepairChains, reason_code)
      else if high_red then (GossipRecoveryPriority.DeliveryRecovery,
          GossipRecoveryRecommendation.RestoreDelivery, reason_code)
      else if declining then (GossipRecoveryPriority.MomentumStabilize,
          GossipRecoveryRecommendation.StabilizeMomentum, reason_code)
      else (GossipRecoveryPriority.MonitorOnly, GossipRecoveryRecommendation.ContinueMonitoring,
          reason_code))"

record GossipRecoveryAdvisorLog =
  gral_actions :: "GossipRecoveryAction list"

definition GossipRecoveryAdvisorLog_new :: "GossipRecoveryAdvisorLog" where
  "GossipRecoveryAdvisorLog_new =
     \<lparr>gral_actions = []\<rparr>"

definition GossipRecoveryAdvisorLog_latest ::
  "GossipRecoveryAdvisorLog \<Rightarrow> GossipRecoveryAction option" where
  "GossipRecoveryAdvisorLog_latest self =
     last_opt (gral_actions self)"

definition GossipRecoveryAdvisorLog_append ::
  "sha \<Rightarrow> GossipAlertRecord \<Rightarrow> GossipEpochReport \<Rightarrow>
      GossipRecoveryAdvisorLog \<Rightarrow> GossipRecoveryAction \<times> GossipRecoveryAdvisorLog"
      where
  "GossipRecoveryAdvisorLog_append sha alert report self =
     (let (priority, recommendation, reason_code) = compaction_gossip_recovery_advisor_advise alert
         report;
          prev = last_hash gra_action_hash (gral_actions self);
          action_hash = compaction_gossip_recovery_advisor_compute_action_hash sha prev (ger_epoch
            report) (gar_alert_level alert) priority reason_code recommendation;
          self = self\<lparr>gral_actions := (gral_actions self) @
            [\<lparr>gra_epoch = ger_epoch report, gra_alert_level = gar_alert_level alert,
            gra_priority = priority, gra_reason_code = reason_code, gra_recommendation = recommendation,
            gra_action_hash = action_hash, gra_prev_hash = prev\<rparr>]\<rparr>
      in (last (gral_actions self), self))"

definition GossipRecoveryAdvisorLog_action_count_by ::
  "GossipRecoveryPriority \<Rightarrow> GossipRecoveryAdvisorLog \<Rightarrow> nat" where
  "GossipRecoveryAdvisorLog_action_count_by priority self =
     length (filter (\<lambda>a. (gra_priority a) = priority) (gral_actions self))"

definition GossipRecoveryAdvisorLog_chain_repair_count ::
  "GossipRecoveryAdvisorLog \<Rightarrow> nat" where
  "GossipRecoveryAdvisorLog_chain_repair_count self =
     GossipRecoveryAdvisorLog_action_count_by GossipRecoveryPriority.ChainRepair self"

definition GossipRecoveryAction_bytes_of :: "GossipRecoveryAction \<Rightarrow> bytes" where
  "GossipRecoveryAction_bytes_of a =
     compaction_gossip_recovery_advisor_action_bytes (gra_prev_hash a) (gra_epoch a) (gra_alert_level a)
         (gra_priority a) (gra_reason_code a) (gra_recommendation a)"

definition GossipRecoveryAdvisorLog_verify_chain ::
  "sha \<Rightarrow> GossipRecoveryAdvisorLog \<Rightarrow> bool \<times> nat option" where
  "GossipRecoveryAdvisorLog_verify_chain sha self =
     verify_from gra_prev_hash gra_action_hash (\<lambda>r. sha (GossipRecoveryAction_bytes_of r)) 0
         genesis (gral_actions self)"

lemma compaction_gossip_recovery_advisor_action_bytes_inj:
  "compaction_gossip_recovery_advisor_action_bytes prev epoch alert priority reason_code recommendation
      = compaction_gossip_recovery_advisor_action_bytes prev' epoch' alert' priority' reason_code'
      recommendation' \<longleftrightarrow>
   prev = prev' \<and> epoch = epoch' \<and> alert = alert' \<and> priority = priority' \<and>
       reason_code = reason_code' \<and> recommendation = recommendation'"
  by (auto simp: compaction_gossip_recovery_advisor_action_bytes_def enc_simps)

definition GossipRecoveryAction_committed :: "GossipRecoveryAction \<Rightarrow> u64 \<times>
    GossipAlertLevel \<times> GossipRecoveryPriority \<times> u8 \<times> GossipRecoveryRecommendation"
    where
  "GossipRecoveryAction_committed a =
     (gra_epoch a, gra_alert_level a, gra_priority a, gra_reason_code a, gra_recommendation a)"

interpretation compaction_gossip_recovery_advisor: hash_log GossipRecoveryAction_bytes_of gra_prev_hash
    gra_action_hash GossipRecoveryAction_committed
  by unfold_locales (auto simp: GossipRecoveryAction_bytes_of_def GossipRecoveryAction_committed_def
      compaction_gossip_recovery_advisor_action_bytes_inj)

lemma compaction_gossip_recovery_advisor_verify_iff: "GossipRecoveryAdvisorLog_verify_chain sha l =
    (True, None) \<longleftrightarrow> compaction_gossip_recovery_advisor.ok sha (gral_actions l)"
  by (simp add: GossipRecoveryAdvisorLog_verify_chain_def verify_from_iff)

lemma gossip_recovery_advisor_log_append_ok: "compaction_gossip_recovery_advisor.ok sha (gral_actions l)
    \<Longrightarrow> compaction_gossip_recovery_advisor.ok sha (gral_actions (snd
    (GossipRecoveryAdvisorLog_append sha alert report l)))"
  by (simp add: Let_def split_def GossipRecoveryAdvisorLog_append_def
      compaction_gossip_recovery_advisor_compute_action_hash_def GossipRecoveryAction_bytes_of_def
      split: option.split sum.split)

section \<open>Compaction Gossip SLA Tracker (Gate 365)\<close>

text \<open>
  \<open>compaction_gossip_sla_tracker.rs\<close>. Tracks per-epoch SLA compliance for the gossip
  subsystem. Mirrors Gate 343. An epoch is SLA-compliant iff ALL three conditions hold: 1.
  joint_condition <= Nominal 2. alert_level <= Amber 3. chains_valid == true
\<close>

record GossipSlaRecord =
  gsr_epoch :: u64
  gsr_compliant :: bool
  gsr_joint_ok :: bool
  gsr_alert_ok :: bool
  gsr_chains_ok :: bool
  gsr_violation_mask :: u8
  gsr_sla_hash :: hash
  gsr_prev_hash :: hash

definition compaction_gossip_sla_tracker_sla_bytes ::
  "hash \<Rightarrow> u64 \<Rightarrow> bool \<Rightarrow> u8 \<Rightarrow> bytes" where
  "compaction_gossip_sla_tracker_sla_bytes prev epoch compliant violation_mask =
     hash_bytes prev @ be8 epoch @ [of_bool compliant] @ [violation_mask]"

definition compaction_gossip_sla_tracker_compute_sla_hash ::
  "sha \<Rightarrow> hash \<Rightarrow> u64 \<Rightarrow> bool \<Rightarrow> u8 \<Rightarrow> hash"
      where
  "compaction_gossip_sla_tracker_compute_sla_hash sha prev epoch compliant violation_mask =
     sha (compaction_gossip_sla_tracker_sla_bytes prev epoch compliant violation_mask)"

record GossipSlaTrackerLog =
  gstl_records :: "GossipSlaRecord list"

definition GossipSlaTrackerLog_new :: "GossipSlaTrackerLog" where
  "GossipSlaTrackerLog_new =
     \<lparr>gstl_records = []\<rparr>"

definition GossipSlaTrackerLog_latest ::
  "GossipSlaTrackerLog \<Rightarrow> GossipSlaRecord option" where
  "GossipSlaTrackerLog_latest self =
     last_opt (gstl_records self)"

definition GossipSlaTrackerLog_append ::
  "sha \<Rightarrow> GossipAlertRecord \<Rightarrow> GossipEpochReport \<Rightarrow> GossipSlaTrackerLog
      \<Rightarrow> GossipSlaRecord \<times> GossipSlaTrackerLog" where
  "GossipSlaTrackerLog_append sha alert report self =
     (let joint_ok = GossipJointCondition_as_u8 (ger_joint_condition report) \<le>
         GossipJointCondition_as_u8 GossipJointCondition.Nominal;
          alert_ok = GossipAlertLevel_as_u8 (gar_alert_level alert) \<le> GossipAlertLevel_as_u8
            GossipAlertLevel.Amber;
          chains_ok = ger_chains_valid report;
          compliant = joint_ok \<and> alert_ok \<and> chains_ok;
          violation_mask = or (or (of_bool (\<not> joint_ok) :: u8) (push_bit 1 (of_bool (\<not>
            alert_ok) :: u8))) (push_bit 2 (of_bool (\<not> chains_ok) :: u8));
          prev = last_hash gsr_sla_hash (gstl_records self);
          sla_hash = compaction_gossip_sla_tracker_compute_sla_hash sha prev (ger_epoch report)
            compliant violation_mask;
          self = self\<lparr>gstl_records := (gstl_records self) @
            [\<lparr>gsr_epoch = ger_epoch report, gsr_compliant = compliant, gsr_joint_ok = joint_ok,
            gsr_alert_ok = alert_ok, gsr_chains_ok = chains_ok, gsr_violation_mask = violation_mask,
            gsr_sla_hash = sla_hash, gsr_prev_hash = prev\<rparr>]\<rparr>
      in (last (gstl_records self), self))"

definition GossipSlaTrackerLog_compliant_count :: "GossipSlaTrackerLog \<Rightarrow> nat" where
  "GossipSlaTrackerLog_compliant_count self =
     length (filter gsr_compliant (gstl_records self))"

definition GossipSlaTrackerLog_violation_count :: "GossipSlaTrackerLog \<Rightarrow> nat" where
  "GossipSlaTrackerLog_violation_count self =
     length (filter (\<lambda>r. \<not> (gsr_compliant r)) (gstl_records self))"

definition GossipSlaTrackerLog_compliance_rate :: "GossipSlaTrackerLog \<Rightarrow> u32" where
  "GossipSlaTrackerLog_compliance_rate self =
     (if (gstl_records self) = [] then 1000
      else ((of_nat (GossipSlaTrackerLog_compliant_count self) :: u32) * 1000) div (of_nat (length
          (gstl_records self)) :: u32))"

definition GossipSlaTrackerLog_streak_compliant :: "GossipSlaTrackerLog \<Rightarrow> nat" where
  "GossipSlaTrackerLog_streak_compliant self =
     length (takeWhile gsr_compliant (rev (gstl_records self)))"

definition GossipSlaRecord_bytes_of :: "GossipSlaRecord \<Rightarrow> bytes" where
  "GossipSlaRecord_bytes_of r =
     compaction_gossip_sla_tracker_sla_bytes (gsr_prev_hash r) (gsr_epoch r) (gsr_compliant r)
         (gsr_violation_mask r)"

definition GossipSlaTrackerLog_verify_chain ::
  "sha \<Rightarrow> GossipSlaTrackerLog \<Rightarrow> bool \<times> nat option" where
  "GossipSlaTrackerLog_verify_chain sha self =
     verify_from gsr_prev_hash gsr_sla_hash (\<lambda>r. sha (GossipSlaRecord_bytes_of r)) 0 genesis
         (gstl_records self)"

lemma compaction_gossip_sla_tracker_sla_bytes_inj:
  "compaction_gossip_sla_tracker_sla_bytes prev epoch compliant violation_mask =
      compaction_gossip_sla_tracker_sla_bytes prev' epoch' compliant' violation_mask'
      \<longleftrightarrow>
   prev = prev' \<and> epoch = epoch' \<and> compliant = compliant' \<and> violation_mask =
       violation_mask'"
  by (auto simp: compaction_gossip_sla_tracker_sla_bytes_def enc_simps)

definition GossipSlaRecord_committed :: "GossipSlaRecord \<Rightarrow> u64 \<times> bool \<times> u8"
    where
  "GossipSlaRecord_committed r =
     (gsr_epoch r, gsr_compliant r, gsr_violation_mask r)"

interpretation compaction_gossip_sla_tracker: hash_log GossipSlaRecord_bytes_of gsr_prev_hash
    gsr_sla_hash GossipSlaRecord_committed
  by unfold_locales (auto simp: GossipSlaRecord_bytes_of_def GossipSlaRecord_committed_def
      compaction_gossip_sla_tracker_sla_bytes_inj)

lemma compaction_gossip_sla_tracker_verify_iff: "GossipSlaTrackerLog_verify_chain sha l = (True,
    None) \<longleftrightarrow> compaction_gossip_sla_tracker.ok sha (gstl_records l)"
  by (simp add: GossipSlaTrackerLog_verify_chain_def verify_from_iff)

lemma gossip_sla_tracker_log_append_ok: "compaction_gossip_sla_tracker.ok sha (gstl_records l)
    \<Longrightarrow> compaction_gossip_sla_tracker.ok sha (gstl_records (snd
    (GossipSlaTrackerLog_append sha alert report l)))"
  by (simp add: Let_def split_def GossipSlaTrackerLog_append_def
      compaction_gossip_sla_tracker_compute_sla_hash_def GossipSlaRecord_bytes_of_def split:
      option.split sum.split)

section \<open>Compaction Gossip Capacity Planner (Gate 366)\<close>

text \<open>
  \<open>compaction_gossip_capacity_planner.rs\<close>. Projects epochs-to-delivery-ceiling from the
  recent GossipEpochReport trend. Mirrors Gate 344 for the gossip subsystem. Uses a simple linear
  extrapolation over the last GOSSIP_CAPACITY_WINDOW=4 reports.
\<close>

definition GOSSIP_CAPACITY_WINDOW :: nat where
  "GOSSIP_CAPACITY_WINDOW = 4"

definition GOSSIP_DELIVERY_CEILING :: u64 where
  "GOSSIP_DELIVERY_CEILING = 1000000"

record GossipCapacityProjection =
  gcp_epoch :: u64
  gcp_current_total :: u64
  gcp_mean_delta :: i64
  gcp_window_len :: nat
  gcp_epochs_to_ceiling :: u32
  gcp_at_capacity :: bool
  gcp_projection_hash :: hash
  gcp_prev_hash :: hash

definition compaction_gossip_capacity_planner_projection_bytes ::
  "hash \<Rightarrow> u64 \<Rightarrow> u64 \<Rightarrow> i64 \<Rightarrow> nat \<Rightarrow> u32
      \<Rightarrow> bool \<Rightarrow> bytes" where
  "compaction_gossip_capacity_planner_projection_bytes prev epoch current_total mean_delta window_len
      epochs_to_ceiling at_capacity =
     hash_bytes prev @ be8 epoch @ be8 current_total @ be8 mean_delta @ be4 (of_nat window_len :: u32) @
         be4 epochs_to_ceiling @ [of_bool at_capacity]"

definition compaction_gossip_capacity_planner_compute_projection_hash ::
  "sha \<Rightarrow> hash \<Rightarrow> u64 \<Rightarrow> u64 \<Rightarrow> i64 \<Rightarrow> nat
      \<Rightarrow> u32 \<Rightarrow> bool \<Rightarrow> hash" where
  "compaction_gossip_capacity_planner_compute_projection_hash sha prev epoch current_total mean_delta
      window_len epochs_to_ceiling at_capacity =
     sha (compaction_gossip_capacity_planner_projection_bytes prev epoch current_total mean_delta
         window_len epochs_to_ceiling at_capacity)"

record GossipCapacityPlannerLog =
  gcpl2_projections :: "GossipCapacityProjection list"
  gcpl2_window :: "u64 list"

definition GossipCapacityPlannerLog_new :: "GossipCapacityPlannerLog" where
  "GossipCapacityPlannerLog_new =
     \<lparr>gcpl2_projections = [], gcpl2_window = []\<rparr>"

definition GossipCapacityPlannerLog_latest ::
  "GossipCapacityPlannerLog \<Rightarrow> GossipCapacityProjection option" where
  "GossipCapacityPlannerLog_latest self =
     last_opt (gcpl2_projections self)"

definition GossipCapacityPlannerLog_append ::
  "sha \<Rightarrow> GossipEpochReport \<Rightarrow> GossipCapacityPlannerLog \<Rightarrow>
      GossipCapacityProjection \<times> GossipCapacityPlannerLog" where
  "GossipCapacityPlannerLog_append sha report self =
     (let window = gcpl2_window self;
          window = (if length window = GOSSIP_CAPACITY_WINDOW then tl window else window) @
            [ger_total_delivered report];
          self = self\<lparr>gcpl2_window := window\<rparr>;
          window_len = length window;
          current_total = ger_total_delivered report;
          mean_delta = (if window_len < 2 then 0
            else word_of_int (sint (last window - hd window) sdiv int (window_len - 1)) :: i64);
          at_capacity = GOSSIP_DELIVERY_CEILING \<le> current_total;
          epochs_to_ceiling = (if at_capacity then 0
            else if mean_delta \<le>s 0 then - 1
            else ucast (min ((GOSSIP_DELIVERY_CEILING - current_total) div mean_delta) (ucast (- 1 ::
              u32))) :: u32);
          prev = last_hash gcp_projection_hash (gcpl2_projections self);
          projection_hash = compaction_gossip_capacity_planner_compute_projection_hash sha prev
            (ger_epoch report) current_total mean_delta
            window_len epochs_to_ceiling at_capacity;
          self = self\<lparr>gcpl2_projections := gcpl2_projections self @
            [\<lparr>gcp_epoch = ger_epoch report,
            gcp_current_total = current_total, gcp_mean_delta = mean_delta, gcp_window_len = window_len,
            gcp_epochs_to_ceiling = epochs_to_ceiling, gcp_at_capacity = at_capacity,
            gcp_projection_hash = projection_hash, gcp_prev_hash = prev\<rparr>]\<rparr>
      in (last (gcpl2_projections self), self))"

definition GossipCapacityPlannerLog_critical_projections ::
  "GossipCapacityPlannerLog \<Rightarrow> nat" where
  "GossipCapacityPlannerLog_critical_projections self =
     length (filter (\<lambda>p. (gcp_epochs_to_ceiling p) \<le> 5 \<and> \<not> (gcp_at_capacity p))
         (gcpl2_projections self))"

definition GossipCapacityProjection_bytes_of :: "GossipCapacityProjection \<Rightarrow> bytes" where
  "GossipCapacityProjection_bytes_of p =
     compaction_gossip_capacity_planner_projection_bytes (gcp_prev_hash p) (gcp_epoch p)
         (gcp_current_total p) (gcp_mean_delta p) (gcp_window_len p) (gcp_epochs_to_ceiling p)
         (gcp_at_capacity p)"

definition GossipCapacityPlannerLog_verify_chain ::
  "sha \<Rightarrow> GossipCapacityPlannerLog \<Rightarrow> bool \<times> nat option" where
  "GossipCapacityPlannerLog_verify_chain sha self =
     verify_from gcp_prev_hash gcp_projection_hash (\<lambda>r. sha (GossipCapacityProjection_bytes_of
         r)) 0 genesis (gcpl2_projections self)"

lemma compaction_gossip_capacity_planner_projection_bytes_inj:
  "compaction_gossip_capacity_planner_projection_bytes prev epoch current_total mean_delta window_len
      epochs_to_ceiling at_capacity = compaction_gossip_capacity_planner_projection_bytes prev' epoch'
      current_total' mean_delta' window_len' epochs_to_ceiling' at_capacity' \<longleftrightarrow>
   prev = prev' \<and> epoch = epoch' \<and> current_total = current_total' \<and> mean_delta =
       mean_delta' \<and> (of_nat window_len :: u32) = (of_nat window_len' :: u32) \<and>
       epochs_to_ceiling = epochs_to_ceiling' \<and> at_capacity = at_capacity'"
  by (auto simp: compaction_gossip_capacity_planner_projection_bytes_def enc_simps)

definition GossipCapacityProjection_committed :: "GossipCapacityProjection \<Rightarrow> u64 \<times>
    u64 \<times> i64 \<times> u32 \<times> u32 \<times> bool" where
  "GossipCapacityProjection_committed p =
     (gcp_epoch p, gcp_current_total p, gcp_mean_delta p, of_nat (gcp_window_len p) :: u32,
         gcp_epochs_to_ceiling p, gcp_at_capacity p)"

interpretation compaction_gossip_capacity_planner: hash_log GossipCapacityProjection_bytes_of
    gcp_prev_hash gcp_projection_hash GossipCapacityProjection_committed
  by unfold_locales (auto simp: GossipCapacityProjection_bytes_of_def
      GossipCapacityProjection_committed_def compaction_gossip_capacity_planner_projection_bytes_inj)

lemma compaction_gossip_capacity_planner_verify_iff: "GossipCapacityPlannerLog_verify_chain sha l =
    (True, None) \<longleftrightarrow> compaction_gossip_capacity_planner.ok sha (gcpl2_projections l)"
  by (simp add: GossipCapacityPlannerLog_verify_chain_def verify_from_iff)

lemma gossip_capacity_planner_log_append_ok: "compaction_gossip_capacity_planner.ok sha
    (gcpl2_projections l) \<Longrightarrow> compaction_gossip_capacity_planner.ok sha (gcpl2_projections
    (snd (GossipCapacityPlannerLog_append sha report l)))"
  by (simp add: Let_def split_def GossipCapacityPlannerLog_append_def
      compaction_gossip_capacity_planner_compute_projection_hash_def
      GossipCapacityProjection_bytes_of_def split: option.split sum.split)

section \<open>Compaction Gossip Epoch Comparator (Gate 367)\<close>

text \<open>
  \<open>compaction_gossip_epoch_comparator.rs\<close>. Compares consecutive GossipEpochReports and
  records the signed delta as a hash-chained GossipEpochDeltaRecord. Mirrors Gate 345 for the gossip
  subsystem.
\<close>

record GossipEpochDeltaRecord =
  gedr_epoch :: u64
  gedr_prev_epoch :: u64
  gedr_joint_improved :: bool
  gedr_joint_worsened :: bool
  gedr_chains_recovered :: bool
  gedr_chains_degraded :: bool
  gedr_delivered_delta :: i64
  gedr_momentum_delta :: i16
  gedr_direction_changed :: bool
  gedr_delta_hash :: hash
  gedr_prev_hash :: hash

definition compaction_gossip_epoch_comparator_flags_byte ::
  "GossipEpochDeltaRecord \<Rightarrow> u8" where
  "compaction_gossip_epoch_comparator_flags_byte rec =
     or (or (or (or (of_bool (gedr_joint_improved rec) :: u8) (push_bit 1 (of_bool (gedr_joint_worsened
         rec) :: u8))) (push_bit 2 (of_bool (gedr_chains_recovered rec) :: u8))) (push_bit 3 (of_bool
         (gedr_chains_degraded rec) :: u8))) (push_bit 4 (of_bool (gedr_direction_changed rec) :: u8))"

definition compaction_gossip_epoch_comparator_delta_bytes ::
  "hash \<Rightarrow> u64 \<Rightarrow> u64 \<Rightarrow> u8 \<Rightarrow> i64 \<Rightarrow> i16
      \<Rightarrow> bytes" where
  "compaction_gossip_epoch_comparator_delta_bytes prev epoch prev_epoch flags delivered_delta
      momentum_delta =
     hash_bytes prev @ be8 epoch @ be8 prev_epoch @ [flags] @ be8 delivered_delta @ be2 momentum_delta"

definition compaction_gossip_epoch_comparator_compute_delta_hash ::
  "sha \<Rightarrow> hash \<Rightarrow> u64 \<Rightarrow> u64 \<Rightarrow> u8 \<Rightarrow> i64
      \<Rightarrow> i16 \<Rightarrow> hash" where
  "compaction_gossip_epoch_comparator_compute_delta_hash sha prev epoch prev_epoch flags delivered_delta
      momentum_delta =
     sha (compaction_gossip_epoch_comparator_delta_bytes prev epoch prev_epoch flags delivered_delta
         momentum_delta)"

record GossipEpochComparatorLog =
  gecl2_deltas :: "GossipEpochDeltaRecord list"

definition GossipEpochComparatorLog_new :: "GossipEpochComparatorLog" where
  "GossipEpochComparatorLog_new =
     \<lparr>gecl2_deltas = []\<rparr>"

definition GossipEpochComparatorLog_latest ::
  "GossipEpochComparatorLog \<Rightarrow> GossipEpochDeltaRecord option" where
  "GossipEpochComparatorLog_latest self =
     last_opt (gecl2_deltas self)"

definition GossipEpochComparatorLog_compare ::
  "sha \<Rightarrow> GossipEpochReport \<Rightarrow> GossipEpochReport \<Rightarrow>
      GossipEpochComparatorLog \<Rightarrow> GossipEpochDeltaRecord \<times> GossipEpochComparatorLog"
      where
  "GossipEpochComparatorLog_compare sha prev_r curr_r self =
     (let joint_improved = (GossipJointCondition_as_u8 (ger_joint_condition curr_r)) <
         (GossipJointCondition_as_u8 (ger_joint_condition prev_r));
          joint_worsened = (GossipJointCondition_as_u8 (ger_joint_condition curr_r)) >
            (GossipJointCondition_as_u8 (ger_joint_condition prev_r));
          chains_recovered = \<not> (ger_chains_valid prev_r) \<and> ger_chains_valid curr_r;
          chains_degraded = ger_chains_valid prev_r \<and> \<not> (ger_chains_valid curr_r);
          delivered_delta = (ger_total_delivered curr_r) - (ger_total_delivered prev_r);
          momentum_delta = (ger_momentum_int curr_r) - (ger_momentum_int prev_r);
          direction_changed = (ger_direction curr_r) \<noteq> (ger_direction prev_r);
          prev_hash = last_hash gedr_delta_hash (gecl2_deltas self);
          partial = \<lparr>gedr_epoch = ger_epoch curr_r, gedr_prev_epoch = ger_epoch prev_r,
            gedr_joint_improved = joint_improved, gedr_joint_worsened = joint_worsened,
            gedr_chains_recovered = chains_recovered, gedr_chains_degraded = chains_degraded,
            gedr_delivered_delta = delivered_delta, gedr_momentum_delta = momentum_delta,
            gedr_direction_changed = direction_changed, gedr_delta_hash = genesis,
            gedr_prev_hash = prev_hash\<rparr>;
          flags = compaction_gossip_epoch_comparator_flags_byte partial;
          delta_hash = compaction_gossip_epoch_comparator_compute_delta_hash sha prev_hash (ger_epoch
            curr_r) (ger_epoch prev_r) flags delivered_delta momentum_delta;
          self = self\<lparr>gecl2_deltas := (gecl2_deltas self) @
            [partial\<lparr>gedr_delta_hash := delta_hash\<rparr>]\<rparr>
      in (last (gecl2_deltas self), self))"

definition GossipEpochComparatorLog_improvement_count ::
  "GossipEpochComparatorLog \<Rightarrow> nat" where
  "GossipEpochComparatorLog_improvement_count self =
     length (filter (\<lambda>d. gedr_joint_improved d \<or> gedr_chains_recovered d) (gecl2_deltas
         self))"

definition GossipEpochComparatorLog_degradation_count ::
  "GossipEpochComparatorLog \<Rightarrow> nat" where
  "GossipEpochComparatorLog_degradation_count self =
     length (filter (\<lambda>d. gedr_joint_worsened d \<or> gedr_chains_degraded d) (gecl2_deltas
         self))"

definition GossipEpochDeltaRecord_bytes_of :: "GossipEpochDeltaRecord \<Rightarrow> bytes" where
  "GossipEpochDeltaRecord_bytes_of d =
     compaction_gossip_epoch_comparator_delta_bytes (gedr_prev_hash d) (gedr_epoch d) (gedr_prev_epoch
         d) (compaction_gossip_epoch_comparator_flags_byte d) (gedr_delivered_delta d)
         (gedr_momentum_delta d)"

definition GossipEpochComparatorLog_verify_chain ::
  "sha \<Rightarrow> GossipEpochComparatorLog \<Rightarrow> bool \<times> nat option" where
  "GossipEpochComparatorLog_verify_chain sha self =
     verify_from gedr_prev_hash gedr_delta_hash (\<lambda>r. sha (GossipEpochDeltaRecord_bytes_of r)) 0
         genesis (gecl2_deltas self)"

lemma compaction_gossip_epoch_comparator_delta_bytes_inj:
  "compaction_gossip_epoch_comparator_delta_bytes prev epoch prev_epoch flags delivered_delta
      momentum_delta = compaction_gossip_epoch_comparator_delta_bytes prev' epoch' prev_epoch' flags'
      delivered_delta' momentum_delta' \<longleftrightarrow>
   prev = prev' \<and> epoch = epoch' \<and> prev_epoch = prev_epoch' \<and> flags = flags' \<and>
       delivered_delta = delivered_delta' \<and> momentum_delta = momentum_delta'"
  by (auto simp: compaction_gossip_epoch_comparator_delta_bytes_def enc_simps)

definition GossipEpochDeltaRecord_committed :: "GossipEpochDeltaRecord \<Rightarrow> u64 \<times> u64
    \<times> u8 \<times> i64 \<times> i16" where
  "GossipEpochDeltaRecord_committed d =
     (gedr_epoch d, gedr_prev_epoch d, compaction_gossip_epoch_comparator_flags_byte d,
         gedr_delivered_delta d, gedr_momentum_delta d)"

interpretation compaction_gossip_epoch_comparator: hash_log GossipEpochDeltaRecord_bytes_of
    gedr_prev_hash gedr_delta_hash GossipEpochDeltaRecord_committed
  by unfold_locales (auto simp: GossipEpochDeltaRecord_bytes_of_def GossipEpochDeltaRecord_committed_def
      compaction_gossip_epoch_comparator_delta_bytes_inj)

lemma compaction_gossip_epoch_comparator_verify_iff: "GossipEpochComparatorLog_verify_chain sha l =
    (True, None) \<longleftrightarrow> compaction_gossip_epoch_comparator.ok sha (gecl2_deltas l)"
  by (simp add: GossipEpochComparatorLog_verify_chain_def verify_from_iff)

lemma gossip_epoch_comparator_log_compare_ok: "compaction_gossip_epoch_comparator.ok sha (gecl2_deltas
    l) \<Longrightarrow> compaction_gossip_epoch_comparator.ok sha (gecl2_deltas (snd
    (GossipEpochComparatorLog_compare sha prev_r curr_r l)))"
  by (simp add: Let_def split_def GossipEpochComparatorLog_compare_def
      compaction_gossip_epoch_comparator_compute_delta_hash_def GossipEpochDeltaRecord_bytes_of_def
      compaction_gossip_epoch_comparator_flags_byte_def split: option.split sum.split)

section \<open>Compaction Gossip Trend Analyzer (Gate 368)\<close>

text \<open>
  \<open>compaction_gossip_trend_analyzer.rs\<close>. Classifies multi-epoch gossip trends from a
  rolling window of
\<close>

definition GOSSIP_TREND_WINDOW :: nat where
  "GOSSIP_TREND_WINDOW = 4"

datatype GossipTrendClass = Stable | Improving | Degrading | Volatile

fun GossipTrendClass_as_u8 :: "GossipTrendClass \<Rightarrow> u8" where
  "GossipTrendClass_as_u8 GossipTrendClass.Stable = 0"
| "GossipTrendClass_as_u8 GossipTrendClass.Improving = 1"
| "GossipTrendClass_as_u8 GossipTrendClass.Degrading = 2"
| "GossipTrendClass_as_u8 GossipTrendClass.Volatile = 3"

lemma GossipTrendClass_as_u8_inj [simp]: "GossipTrendClass_as_u8 x = GossipTrendClass_as_u8 y
    \<longleftrightarrow> x = y"
  by (cases x; cases y) auto

definition GossipTrendClass_classify ::
  "u32 \<Rightarrow> u32 \<Rightarrow> nat \<Rightarrow> GossipTrendClass" where
  "GossipTrendClass_classify improvement_count degradation_count window_size =
     (let threshold = (if window_size \<ge> GOSSIP_TREND_WINDOW then 3 else max (sat_sub (of_nat
         window_size :: u32) 1) 1)
      in if improvement_count \<ge> threshold \<and> degradation_count = 0 then
          GossipTrendClass.Improving
      else if degradation_count \<ge> threshold \<and> improvement_count = 0 then
          GossipTrendClass.Degrading
      else if improvement_count \<ge> 1 \<and> degradation_count \<ge> 1 then GossipTrendClass.Volatile
      else GossipTrendClass.Stable)"

record GossipTrendRecord =
  gtr_epoch :: u64
  gtr_trend_class :: GossipTrendClass
  gtr_window_size :: nat
  gtr_improvement_count :: u32
  gtr_degradation_count :: u32
  gtr_net_delivered_delta :: i64
  gtr_trend_hash :: hash
  gtr_prev_hash :: hash

definition compaction_gossip_trend_analyzer_trend_bytes ::
  "hash \<Rightarrow> u64 \<Rightarrow> GossipTrendClass \<Rightarrow> nat \<Rightarrow> u32
      \<Rightarrow> u32 \<Rightarrow> i64 \<Rightarrow> bytes" where
  "compaction_gossip_trend_analyzer_trend_bytes prev epoch trend_class window_size improvement_count
      degradation_count net_delivered_delta =
     hash_bytes prev @ be8 epoch @ [GossipTrendClass_as_u8 trend_class] @
         be2 (of_nat window_size :: u16) @ be4 improvement_count @ be4 degradation_count @
         be8 net_delivered_delta"

definition compaction_gossip_trend_analyzer_compute_trend_hash ::
  "sha \<Rightarrow> hash \<Rightarrow> u64 \<Rightarrow> GossipTrendClass \<Rightarrow> nat
      \<Rightarrow> u32 \<Rightarrow> u32 \<Rightarrow> i64 \<Rightarrow> hash" where
  "compaction_gossip_trend_analyzer_compute_trend_hash sha prev epoch trend_class window_size
      improvement_count degradation_count net_delivered_delta =
     sha (compaction_gossip_trend_analyzer_trend_bytes prev epoch trend_class window_size
         improvement_count degradation_count net_delivered_delta)"

record GossipTrendAnalyzerLog =
  gtal_records :: "GossipTrendRecord list"
  gtal_window :: "(bool \<times> bool \<times> i64) list"

definition GossipTrendAnalyzerLog_new :: "GossipTrendAnalyzerLog" where
  "GossipTrendAnalyzerLog_new =
     \<lparr>gtal_records = [], gtal_window = []\<rparr>"

definition GossipTrendAnalyzerLog_latest ::
  "GossipTrendAnalyzerLog \<Rightarrow> GossipTrendRecord option" where
  "GossipTrendAnalyzerLog_latest self =
     last_opt (gtal_records self)"

definition GossipTrendAnalyzerLog_append ::
  "sha \<Rightarrow> GossipEpochDeltaRecord \<Rightarrow> GossipTrendAnalyzerLog \<Rightarrow>
      GossipTrendRecord \<times> GossipTrendAnalyzerLog" where
  "GossipTrendAnalyzerLog_append sha delta_v self =
     (let self = (if (length (gtal_window self)) = GOSSIP_TREND_WINDOW then (let self =
         self\<lparr>gtal_window := tl (gtal_window self)\<rparr>
      in self)
      else self);
          is_improvement = gedr_joint_improved delta_v \<or> gedr_chains_recovered delta_v;
          is_degradation = gedr_joint_worsened delta_v \<or> gedr_chains_degraded delta_v;
          self = self\<lparr>gtal_window := (gtal_window self) @ [(is_improvement, is_degradation,
            gedr_delivered_delta delta_v)]\<rparr>;
          window_size = length (gtal_window self);
          improvement_count = (of_nat (length (filter (\<lambda>(imp, _,
            _). imp) (gtal_window self))) :: u32);
          degradation_count = (of_nat (length (filter (\<lambda>(_, deg,
            _). deg) (gtal_window self))) :: u32);
          net_delivered_delta = sum_list (map (\<lambda>(_, _, dd). dd) (gtal_window self));
          trend_class = GossipTrendClass_classify improvement_count degradation_count window_size;
          prev = last_hash gtr_trend_hash (gtal_records self);
          trend_hash = compaction_gossip_trend_analyzer_compute_trend_hash sha prev (gedr_epoch delta_v)
            trend_class window_size improvement_count degradation_count net_delivered_delta;
          self = self\<lparr>gtal_records := (gtal_records self) @
            [\<lparr>gtr_epoch = gedr_epoch delta_v, gtr_trend_class = trend_class,
            gtr_window_size = window_size, gtr_improvement_count = improvement_count,
            gtr_degradation_count = degradation_count, gtr_net_delivered_delta = net_delivered_delta,
            gtr_trend_hash = trend_hash, gtr_prev_hash = prev\<rparr>]\<rparr>
      in (last (gtal_records self), self))"

definition GossipTrendAnalyzerLog_improving_trend_count ::
  "GossipTrendAnalyzerLog \<Rightarrow> nat" where
  "GossipTrendAnalyzerLog_improving_trend_count self =
     length (filter (\<lambda>r. (gtr_trend_class r) = GossipTrendClass.Improving) (gtal_records self))"

definition GossipTrendAnalyzerLog_degrading_trend_count ::
  "GossipTrendAnalyzerLog \<Rightarrow> nat" where
  "GossipTrendAnalyzerLog_degrading_trend_count self =
     length (filter (\<lambda>r. (gtr_trend_class r) = GossipTrendClass.Degrading) (gtal_records self))"

definition GossipTrendAnalyzerLog_volatile_trend_count ::
  "GossipTrendAnalyzerLog \<Rightarrow> nat" where
  "GossipTrendAnalyzerLog_volatile_trend_count self =
     length (filter (\<lambda>r. (gtr_trend_class r) = GossipTrendClass.Volatile) (gtal_records self))"

definition GossipTrendAnalyzerLog_stable_trend_count :: "GossipTrendAnalyzerLog \<Rightarrow> nat" where
  "GossipTrendAnalyzerLog_stable_trend_count self =
     length (filter (\<lambda>r. (gtr_trend_class r) = GossipTrendClass.Stable) (gtal_records self))"

definition GossipTrendRecord_bytes_of :: "GossipTrendRecord \<Rightarrow> bytes" where
  "GossipTrendRecord_bytes_of r =
     compaction_gossip_trend_analyzer_trend_bytes (gtr_prev_hash r) (gtr_epoch r) (gtr_trend_class r)
         (gtr_window_size r) (gtr_improvement_count r) (gtr_degradation_count r)
         (gtr_net_delivered_delta r)"

definition GossipTrendAnalyzerLog_verify_chain ::
  "sha \<Rightarrow> GossipTrendAnalyzerLog \<Rightarrow> bool \<times> nat option" where
  "GossipTrendAnalyzerLog_verify_chain sha self =
     verify_from gtr_prev_hash gtr_trend_hash (\<lambda>r. sha (GossipTrendRecord_bytes_of r)) 0 genesis
         (gtal_records self)"

lemma compaction_gossip_trend_analyzer_trend_bytes_inj:
  "compaction_gossip_trend_analyzer_trend_bytes prev epoch trend_class window_size improvement_count
      degradation_count net_delivered_delta = compaction_gossip_trend_analyzer_trend_bytes prev' epoch'
      trend_class' window_size' improvement_count' degradation_count' net_delivered_delta'
      \<longleftrightarrow>
   prev = prev' \<and> epoch = epoch' \<and> trend_class = trend_class' \<and> (of_nat window_size ::
       u16) = (of_nat window_size' :: u16) \<and> improvement_count = improvement_count' \<and>
       degradation_count = degradation_count' \<and> net_delivered_delta = net_delivered_delta'"
  by (auto simp: compaction_gossip_trend_analyzer_trend_bytes_def enc_simps)

definition GossipTrendRecord_committed :: "GossipTrendRecord \<Rightarrow> u64 \<times> GossipTrendClass
    \<times> u16 \<times> u32 \<times> u32 \<times> i64" where
  "GossipTrendRecord_committed r =
     (gtr_epoch r, gtr_trend_class r, of_nat (gtr_window_size r) :: u16, gtr_improvement_count r,
         gtr_degradation_count r, gtr_net_delivered_delta r)"

interpretation compaction_gossip_trend_analyzer: hash_log GossipTrendRecord_bytes_of gtr_prev_hash
    gtr_trend_hash GossipTrendRecord_committed
  by unfold_locales (auto simp: GossipTrendRecord_bytes_of_def GossipTrendRecord_committed_def
      compaction_gossip_trend_analyzer_trend_bytes_inj)

lemma compaction_gossip_trend_analyzer_verify_iff: "GossipTrendAnalyzerLog_verify_chain sha l = (True,
    None) \<longleftrightarrow> compaction_gossip_trend_analyzer.ok sha (gtal_records l)"
  by (simp add: GossipTrendAnalyzerLog_verify_chain_def verify_from_iff)

lemma gossip_trend_analyzer_log_append_ok: "compaction_gossip_trend_analyzer.ok sha (gtal_records l)
    \<Longrightarrow> compaction_gossip_trend_analyzer.ok sha (gtal_records (snd
    (GossipTrendAnalyzerLog_append sha delta_v l)))"
  by (simp add: Let_def split_def GossipTrendAnalyzerLog_append_def
      compaction_gossip_trend_analyzer_compute_trend_hash_def GossipTrendRecord_bytes_of_def split:
      option.split sum.split)

section \<open>Compaction Gossip Dashboard Aggregator (Gate 369)\<close>

text \<open>
  \<open>compaction_gossip_dashboard_aggregator.rs\<close>. Unifies all gossip subsystem signals into
  a single per-epoch GossipDashboardFrame for operator consumption and higher-level integration.
  Mirrors Gate 347 for the gossip subsystem.
\<close>

datatype GossipDashboardCondition = Thriving | Stable | Concerning | Critical

fun GossipDashboardCondition_as_u8 :: "GossipDashboardCondition \<Rightarrow> u8" where
  "GossipDashboardCondition_as_u8 GossipDashboardCondition.Thriving = 0"
| "GossipDashboardCondition_as_u8 GossipDashboardCondition.Stable = 1"
| "GossipDashboardCondition_as_u8 GossipDashboardCondition.Concerning = 2"
| "GossipDashboardCondition_as_u8 GossipDashboardCondition.Critical = 3"

lemma GossipDashboardCondition_as_u8_inj [simp]: "GossipDashboardCondition_as_u8 x =
    GossipDashboardCondition_as_u8 y \<longleftrightarrow> x = y"
  by (cases x; cases y) auto

definition GossipDashboardCondition_classify ::
  "GossipAlertLevel \<Rightarrow> GossipTrendClass \<Rightarrow> bool \<Rightarrow>
      GossipDashboardCondition" where
  "GossipDashboardCondition_classify alert trend sla_compliant =
     (if alert = GossipAlertLevel.Red \<or> trend = GossipTrendClass.Degrading then
         GossipDashboardCondition.Critical
      else if \<not> sla_compliant \<or> trend = GossipTrendClass.Volatile \<or> alert =
          GossipAlertLevel.Amber then GossipDashboardCondition.Concerning
      else if sla_compliant \<and> trend = GossipTrendClass.Improving \<and> alert =
          GossipAlertLevel.Green then GossipDashboardCondition.Thriving
      else GossipDashboardCondition.Stable)"

record GossipDashboardFrame =
  gdf_epoch :: u64
  gdf_condition :: GossipDashboardCondition
  gdf_alert_level :: GossipAlertLevel
  gdf_trend_class :: GossipTrendClass
  gdf_sla_compliant :: bool
  gdf_compliance_rate :: u32
  gdf_improvement_count :: u32
  gdf_degradation_count :: u32
  gdf_frame_hash :: hash
  gdf_prev_hash :: hash

definition compaction_gossip_dashboard_aggregator_frame_bytes ::
  "hash \<Rightarrow> u64 \<Rightarrow> GossipDashboardCondition \<Rightarrow> GossipAlertLevel
      \<Rightarrow> GossipTrendClass \<Rightarrow> bool \<Rightarrow> u32 \<Rightarrow> u32
      \<Rightarrow> u32 \<Rightarrow> bytes" where
  "compaction_gossip_dashboard_aggregator_frame_bytes prev epoch condition alert trend sla_compliant
      compliance_rate improvement_count degradation_count =
     hash_bytes prev @ be8 epoch @ [GossipDashboardCondition_as_u8 condition] @
         [GossipAlertLevel_as_u8 alert] @ [GossipTrendClass_as_u8 trend] @ [of_bool sla_compliant] @
         be4 compliance_rate @ be4 improvement_count @ be4 degradation_count"

definition compaction_gossip_dashboard_aggregator_compute_frame_hash ::
  "sha \<Rightarrow> hash \<Rightarrow> u64 \<Rightarrow> GossipDashboardCondition \<Rightarrow>
      GossipAlertLevel \<Rightarrow> GossipTrendClass \<Rightarrow> bool \<Rightarrow> u32 \<Rightarrow>
      u32 \<Rightarrow> u32 \<Rightarrow> hash" where
  "compaction_gossip_dashboard_aggregator_compute_frame_hash sha prev epoch condition alert trend
      sla_compliant compliance_rate improvement_count degradation_count =
     sha (compaction_gossip_dashboard_aggregator_frame_bytes prev epoch condition alert trend
         sla_compliant compliance_rate improvement_count degradation_count)"

record GossipDashboard =
  gd_frames :: "GossipDashboardFrame list"

definition GossipDashboard_new :: "GossipDashboard" where
  "GossipDashboard_new =
     \<lparr>gd_frames = []\<rparr>"

definition GossipDashboard_latest :: "GossipDashboard \<Rightarrow> GossipDashboardFrame option" where
  "GossipDashboard_latest self =
     last_opt (gd_frames self)"

definition GossipDashboard_record ::
  "sha \<Rightarrow> u64 \<Rightarrow> GossipAlertLevel \<Rightarrow> GossipTrendClass \<Rightarrow>
      bool \<Rightarrow> u32 \<Rightarrow> u32 \<Rightarrow> u32 \<Rightarrow> GossipDashboard
      \<Rightarrow> GossipDashboardFrame \<times> GossipDashboard" where
  "GossipDashboard_record sha epoch alert trend sla_compliant compliance_rate improvement_count
      degradation_count self =
     (let condition = GossipDashboardCondition_classify alert trend sla_compliant;
          prev = last_hash gdf_frame_hash (gd_frames self);
          frame_hash = compaction_gossip_dashboard_aggregator_compute_frame_hash sha prev epoch
            condition alert trend sla_compliant compliance_rate improvement_count degradation_count;
          self = self\<lparr>gd_frames := (gd_frames self) @ [\<lparr>gdf_epoch = epoch,
            gdf_condition = condition, gdf_alert_level = alert, gdf_trend_class = trend,
            gdf_sla_compliant = sla_compliant, gdf_compliance_rate = compliance_rate,
            gdf_improvement_count = improvement_count, gdf_degradation_count = degradation_count,
            gdf_frame_hash = frame_hash, gdf_prev_hash = prev\<rparr>]\<rparr>
      in (last (gd_frames self), self))"

definition GossipDashboard_thriving_count :: "GossipDashboard \<Rightarrow> nat" where
  "GossipDashboard_thriving_count self =
     length (filter (\<lambda>f. (gdf_condition f) = GossipDashboardCondition.Thriving) (gd_frames
         self))"

definition GossipDashboard_stable_count :: "GossipDashboard \<Rightarrow> nat" where
  "GossipDashboard_stable_count self =
     length (filter (\<lambda>f. (gdf_condition f) = GossipDashboardCondition.Stable) (gd_frames self))"

definition GossipDashboard_concerning_count :: "GossipDashboard \<Rightarrow> nat" where
  "GossipDashboard_concerning_count self =
     length (filter (\<lambda>f. (gdf_condition f) = GossipDashboardCondition.Concerning) (gd_frames
         self))"

definition GossipDashboard_critical_count :: "GossipDashboard \<Rightarrow> nat" where
  "GossipDashboard_critical_count self =
     length (filter (\<lambda>f. (gdf_condition f) = GossipDashboardCondition.Critical) (gd_frames
         self))"

definition GossipDashboardFrame_bytes_of :: "GossipDashboardFrame \<Rightarrow> bytes" where
  "GossipDashboardFrame_bytes_of f =
     compaction_gossip_dashboard_aggregator_frame_bytes (gdf_prev_hash f) (gdf_epoch f) (gdf_condition
         f) (gdf_alert_level f) (gdf_trend_class f) (gdf_sla_compliant f) (gdf_compliance_rate f)
         (gdf_improvement_count f) (gdf_degradation_count f)"

definition GossipDashboard_verify_chain ::
  "sha \<Rightarrow> GossipDashboard \<Rightarrow> bool \<times> nat option" where
  "GossipDashboard_verify_chain sha self =
     verify_from gdf_prev_hash gdf_frame_hash (\<lambda>r. sha (GossipDashboardFrame_bytes_of r)) 0
         genesis (gd_frames self)"

lemma compaction_gossip_dashboard_aggregator_frame_bytes_inj:
  "compaction_gossip_dashboard_aggregator_frame_bytes prev epoch condition alert trend sla_compliant
      compliance_rate improvement_count degradation_count =
      compaction_gossip_dashboard_aggregator_frame_bytes prev' epoch' condition' alert' trend'
      sla_compliant' compliance_rate' improvement_count' degradation_count' \<longleftrightarrow>
   prev = prev' \<and> epoch = epoch' \<and> condition = condition' \<and> alert = alert' \<and> trend =
       trend' \<and> sla_compliant = sla_compliant' \<and> compliance_rate = compliance_rate' \<and>
       improvement_count = improvement_count' \<and> degradation_count = degradation_count'"
  by (auto simp: compaction_gossip_dashboard_aggregator_frame_bytes_def enc_simps)

definition GossipDashboardFrame_committed :: "GossipDashboardFrame \<Rightarrow> u64 \<times>
    GossipDashboardCondition \<times> GossipAlertLevel \<times> GossipTrendClass \<times> bool \<times>
    u32 \<times> u32 \<times> u32" where
  "GossipDashboardFrame_committed f =
     (gdf_epoch f, gdf_condition f, gdf_alert_level f, gdf_trend_class f, gdf_sla_compliant f,
         gdf_compliance_rate f, gdf_improvement_count f, gdf_degradation_count f)"

interpretation compaction_gossip_dashboard_aggregator: epoch_log GossipDashboardFrame_bytes_of
    gdf_prev_hash gdf_frame_hash GossipDashboardFrame_committed
  "\<lambda>sha (epoch, alert, trend, sla_compliant, compliance_rate, improvement_count,
      degradation_count) l. GossipDashboard_record sha epoch alert trend sla_compliant compliance_rate
      improvement_count degradation_count l"
  gd_frames GossipDashboard_new "\<lambda>(a, _, c, d, e, f, g, h). (a, c, d, e, f, g, h)"
  by unfold_locales (auto simp: GossipDashboard_record_def
      compaction_gossip_dashboard_aggregator_compute_frame_hash_def GossipDashboard_new_def Let_def
      GossipDashboardFrame_bytes_of_def GossipDashboardFrame_committed_def
      compaction_gossip_dashboard_aggregator_frame_bytes_inj)

lemma compaction_gossip_dashboard_aggregator_verify_iff: "GossipDashboard_verify_chain sha l = (True,
    None) \<longleftrightarrow> compaction_gossip_dashboard_aggregator.ok sha (gd_frames l)"
  by (simp add: GossipDashboard_verify_chain_def verify_from_iff)

end
