(* ===== verification/Compaction_Gossip_Broadcast.thy ===== *)
theory Compaction_Gossip_Broadcast
  imports Journal Epoch_Log
begin

text \<open>
  How the health of the compaction gossip reaches the mesh: the seal of an epoch, the certificate over
  a window of seals and its 24-byte telemetry frame, the ledger of the hashes of an epoch, the audit
  seal over a window of it, the 32-byte broadcast frame of a seal, the validator of received frames,
  the state of synchronisation of the peers, their registry, and the dispatcher that sends a frame to
  the registered peers.
\<close>

section \<open>Compaction Gossip Epoch Seal (Gate 357)\<close>

text \<open>
  \<open>compaction_gossip_epoch_seal.rs\<close>. Closes each gossip epoch with a tamper-evident seal
  binding:
\<close>

record GossipEpochSeal =
  ges3_epoch :: u64
  ges3_health_terminal :: hash
  ges3_compaction_terminal :: hash
  ges3_total_delivered :: u64
  ges3_total_missed :: u64
  ges3_red_epochs :: u32
  ges3_yellow_epochs :: u32
  ges3_green_epochs :: u32
  ges3_prev_hash :: hash
  ges3_seal_hash :: hash

definition compaction_gossip_epoch_seal_seal_bytes ::
  "hash \<Rightarrow> u64 \<Rightarrow> hash \<Rightarrow> hash \<Rightarrow> u64 \<Rightarrow> u64
      \<Rightarrow> u32 \<Rightarrow> u32 \<Rightarrow> u32 \<Rightarrow> bytes" where
  "compaction_gossip_epoch_seal_seal_bytes prev epoch health_terminal compaction_terminal
      total_delivered total_missed red_epochs yellow_epochs green_epochs =
     hash_bytes prev @ be8 epoch @ hash_bytes health_terminal @ hash_bytes compaction_terminal @
         be8 total_delivered @ be8 total_missed @ be4 red_epochs @ be4 yellow_epochs @ be4 green_epochs"

definition compaction_gossip_epoch_seal_compute_seal_hash ::
  "sha \<Rightarrow> hash \<Rightarrow> u64 \<Rightarrow> hash \<Rightarrow> hash \<Rightarrow> u64
      \<Rightarrow> u64 \<Rightarrow> u32 \<Rightarrow> u32 \<Rightarrow> u32 \<Rightarrow> hash" where
  "compaction_gossip_epoch_seal_compute_seal_hash sha prev epoch health_terminal compaction_terminal
      total_delivered total_missed red_epochs yellow_epochs green_epochs =
     sha (compaction_gossip_epoch_seal_seal_bytes prev epoch health_terminal compaction_terminal
         total_delivered total_missed red_epochs yellow_epochs green_epochs)"

record GossipEpochSealChain_seal =
  gesc2_seals :: "GossipEpochSeal list"

definition GossipEpochSealChain_seal_new :: "GossipEpochSealChain_seal" where
  "GossipEpochSealChain_seal_new =
     \<lparr>gesc2_seals = []\<rparr>"

definition GossipEpochSealChain_seal_seal_count :: "GossipEpochSealChain_seal \<Rightarrow> nat" where
  "GossipEpochSealChain_seal_seal_count self =
     length (gesc2_seals self)"

definition GossipEpochSealChain_seal_latest ::
  "GossipEpochSealChain_seal \<Rightarrow> GossipEpochSeal option" where
  "GossipEpochSealChain_seal_latest self =
     last_opt (gesc2_seals self)"

definition GossipEpochSealChain_seal_terminal_hash ::
  "GossipEpochSealChain_seal \<Rightarrow> hash" where
  "GossipEpochSealChain_seal_terminal_hash self =
     last_hash ges3_seal_hash (gesc2_seals self)"

definition GossipEpochSealChain_seal_append ::
  "sha \<Rightarrow> u64 \<Rightarrow> hash \<Rightarrow> hash \<Rightarrow> u64 \<Rightarrow> u64
      \<Rightarrow> u32 \<Rightarrow> u32 \<Rightarrow> u32 \<Rightarrow> GossipEpochSealChain_seal
      \<Rightarrow> GossipEpochSeal \<times> GossipEpochSealChain_seal" where
  "GossipEpochSealChain_seal_append sha epoch health_terminal compaction_terminal total_delivered
      total_missed red_epochs yellow_epochs green_epochs self =
     (let prev = GossipEpochSealChain_seal_terminal_hash self;
          seal_hash = compaction_gossip_epoch_seal_compute_seal_hash sha prev epoch health_terminal
            compaction_terminal total_delivered total_missed red_epochs yellow_epochs green_epochs;
          self = self\<lparr>gesc2_seals := (gesc2_seals self) @ [\<lparr>ges3_epoch = epoch,
            ges3_health_terminal = health_terminal, ges3_compaction_terminal = compaction_terminal,
            ges3_total_delivered = total_delivered, ges3_total_missed = total_missed,
            ges3_red_epochs = red_epochs, ges3_yellow_epochs = yellow_epochs,
            ges3_green_epochs = green_epochs, ges3_prev_hash = prev,
            ges3_seal_hash = seal_hash\<rparr>]\<rparr>
      in (last (gesc2_seals self), self))"

definition GossipEpochSeal_bytes_of :: "GossipEpochSeal \<Rightarrow> bytes" where
  "GossipEpochSeal_bytes_of s =
     compaction_gossip_epoch_seal_seal_bytes (ges3_prev_hash s) (ges3_epoch s) (ges3_health_terminal s)
         (ges3_compaction_terminal s) (ges3_total_delivered s) (ges3_total_missed s) (ges3_red_epochs s)
         (ges3_yellow_epochs s) (ges3_green_epochs s)"

definition GossipEpochSealChain_seal_verify_chain ::
  "sha \<Rightarrow> GossipEpochSealChain_seal \<Rightarrow> bool \<times> nat option" where
  "GossipEpochSealChain_seal_verify_chain sha self =
     verify_from ges3_prev_hash ges3_seal_hash (\<lambda>r. sha (GossipEpochSeal_bytes_of r)) 0 genesis
         (gesc2_seals self)"

lemma compaction_gossip_epoch_seal_seal_bytes_inj:
  "compaction_gossip_epoch_seal_seal_bytes prev epoch health_terminal compaction_terminal
      total_delivered total_missed red_epochs yellow_epochs green_epochs =
      compaction_gossip_epoch_seal_seal_bytes prev' epoch' health_terminal' compaction_terminal'
      total_delivered' total_missed' red_epochs' yellow_epochs' green_epochs' \<longleftrightarrow>
   prev = prev' \<and> epoch = epoch' \<and> health_terminal = health_terminal' \<and>
       compaction_terminal = compaction_terminal' \<and> total_delivered = total_delivered' \<and>
       total_missed = total_missed' \<and> red_epochs = red_epochs' \<and> yellow_epochs =
       yellow_epochs' \<and> green_epochs = green_epochs'"
  by (auto simp: compaction_gossip_epoch_seal_seal_bytes_def enc_simps)

definition GossipEpochSeal_committed :: "GossipEpochSeal \<Rightarrow> u64 \<times> hash \<times> hash
    \<times> u64 \<times> u64 \<times> u32 \<times> u32 \<times> u32" where
  "GossipEpochSeal_committed s =
     (ges3_epoch s, ges3_health_terminal s, ges3_compaction_terminal s, ges3_total_delivered s,
         ges3_total_missed s, ges3_red_epochs s, ges3_yellow_epochs s, ges3_green_epochs s)"

interpretation compaction_gossip_epoch_seal: epoch_log GossipEpochSeal_bytes_of ges3_prev_hash
    ges3_seal_hash GossipEpochSeal_committed
  "\<lambda>sha (epoch, health_terminal, compaction_terminal, total_delivered, total_missed, red_epochs,
      yellow_epochs, green_epochs) l. GossipEpochSealChain_seal_append sha epoch health_terminal
      compaction_terminal total_delivered total_missed red_epochs yellow_epochs green_epochs l"
  gesc2_seals GossipEpochSealChain_seal_new "\<lambda>c. c"
  by unfold_locales (auto simp: GossipEpochSealChain_seal_append_def
      compaction_gossip_epoch_seal_compute_seal_hash_def GossipEpochSealChain_seal_new_def Let_def
      GossipEpochSeal_bytes_of_def GossipEpochSeal_committed_def
      compaction_gossip_epoch_seal_seal_bytes_inj GossipEpochSealChain_seal_terminal_hash_def)

lemma compaction_gossip_epoch_seal_verify_iff: "GossipEpochSealChain_seal_verify_chain sha l = (True,
    None) \<longleftrightarrow> compaction_gossip_epoch_seal.ok sha (gesc2_seals l)"
  by (simp add: GossipEpochSealChain_seal_verify_chain_def verify_from_iff)

section \<open>Compaction Gossip Audit Certifier (Gate 358)\<close>

text \<open>
  \<open>compaction_gossip_audit_certifier.rs\<close>. Certifies a GossipEpochSealChain (Gate 357)
  over an epoch window, producing a tamper-evident GossipAuditCertificate. Mirrors Gate 336
  (Compaction Audit Certifier) for the compaction gossip subsystem.
\<close>

record GossipAuditCertificate =
  gac_epoch_start :: u64
  gac_epoch_end :: u64
  gac_epoch_count :: u64
  gac_chains_valid :: bool
  gac_total_delivered :: u64
  gac_total_missed :: u64
  gac_red_epochs :: u32
  gac_yellow_epochs :: u32
  gac_green_epochs :: u32
  gac_terminal_hash :: hash
  gac_certificate_hash :: hash
  gac_log_prev_hash :: hash
  gac_log_record_hash :: hash

definition compaction_gossip_audit_certifier_certificate_bytes ::
  "u64 \<Rightarrow> u64 \<Rightarrow> u64 \<Rightarrow> bool \<Rightarrow> u64 \<Rightarrow> u64
      \<Rightarrow> u32 \<Rightarrow> u32 \<Rightarrow> u32 \<Rightarrow> hash \<Rightarrow> bytes"
      where
  "compaction_gossip_audit_certifier_certificate_bytes epoch_start epoch_end epoch_count chains_valid
      total_delivered total_missed red yellow green terminal_hash =
     be8 epoch_start @ be8 epoch_end @ be8 epoch_count @ [of_bool chains_valid] @ be8 total_delivered @
         be8 total_missed @ be4 red @ be4 yellow @ be4 green @ hash_bytes terminal_hash"

definition compaction_gossip_audit_certifier_compute_certificate_hash ::
  "sha \<Rightarrow> u64 \<Rightarrow> u64 \<Rightarrow> u64 \<Rightarrow> bool \<Rightarrow> u64
      \<Rightarrow> u64 \<Rightarrow> u32 \<Rightarrow> u32 \<Rightarrow> u32 \<Rightarrow> hash
      \<Rightarrow> hash" where
  "compaction_gossip_audit_certifier_compute_certificate_hash sha epoch_start epoch_end epoch_count
      chains_valid total_delivered total_missed red yellow green terminal_hash =
     sha (compaction_gossip_audit_certifier_certificate_bytes epoch_start epoch_end epoch_count
         chains_valid total_delivered total_missed red yellow green terminal_hash)"

definition log_record_bytes ::
  "hash \<Rightarrow> hash \<Rightarrow> u64 \<Rightarrow> u64 \<Rightarrow> bytes" where
  "log_record_bytes prev cert_hash epoch_start epoch_end =
     hash_bytes prev @ hash_bytes cert_hash @ be8 epoch_start @ be8 epoch_end"

definition compute_log_record_hash ::
  "sha \<Rightarrow> hash \<Rightarrow> hash \<Rightarrow> u64 \<Rightarrow> u64 \<Rightarrow> hash"
      where
  "compute_log_record_hash sha prev cert_hash epoch_start epoch_end =
     sha (log_record_bytes prev cert_hash epoch_start epoch_end)"

record GossipCertifierLog =
  gcl_certs :: "GossipAuditCertificate list"

definition GossipCertifierLog_new :: "GossipCertifierLog" where
  "GossipCertifierLog_new =
     \<lparr>gcl_certs = []\<rparr>"

definition GossipCertifierLog_cert_count :: "GossipCertifierLog \<Rightarrow> nat" where
  "GossipCertifierLog_cert_count self =
     length (gcl_certs self)"

definition GossipCertifierLog_latest ::
  "GossipCertifierLog \<Rightarrow> GossipAuditCertificate option" where
  "GossipCertifierLog_latest self =
     last_opt (gcl_certs self)"

definition GossipCertifierLog_all_valid :: "GossipCertifierLog \<Rightarrow> bool" where
  "GossipCertifierLog_all_valid self \<longleftrightarrow>
     list_all gac_chains_valid (gcl_certs self)"

definition GossipCertifierLog_certify_window ::
  "sha \<Rightarrow> GossipEpochSeal list \<Rightarrow> u64 \<Rightarrow> u64 \<Rightarrow> bool
      \<Rightarrow> hash \<Rightarrow> GossipCertifierLog \<Rightarrow> GossipAuditCertificate \<times>
      GossipCertifierLog" where
  "GossipCertifierLog_certify_window sha seals epoch_start epoch_end chains_valid terminal_hash self =
     (let epoch_count = (of_nat (length seals) :: u64);
          total_delivered = sum_list (map ges3_total_delivered seals);
          total_missed = sum_list (map ges3_total_missed seals);
          red_epochs = sum_list (map ges3_red_epochs seals);
          yellow_epochs = sum_list (map ges3_yellow_epochs seals);
          green_epochs = sum_list (map ges3_green_epochs seals);
          certificate_hash = compaction_gossip_audit_certifier_compute_certificate_hash sha epoch_start
            epoch_end epoch_count chains_valid total_delivered total_missed red_epochs yellow_epochs
            green_epochs terminal_hash;
          prev = last_hash gac_log_record_hash (gcl_certs self);
          log_record_hash = compute_log_record_hash sha prev certificate_hash epoch_start epoch_end;
          self = self\<lparr>gcl_certs := (gcl_certs self) @ [\<lparr>gac_epoch_start = epoch_start,
            gac_epoch_end = epoch_end, gac_epoch_count = epoch_count, gac_chains_valid = chains_valid,
            gac_total_delivered = total_delivered, gac_total_missed = total_missed,
            gac_red_epochs = red_epochs, gac_yellow_epochs = yellow_epochs,
            gac_green_epochs = green_epochs, gac_terminal_hash = terminal_hash,
            gac_certificate_hash = certificate_hash, gac_log_prev_hash = prev,
            gac_log_record_hash = log_record_hash\<rparr>]\<rparr>
      in (last (gcl_certs self), self))"

definition GossipAuditCertificate_bytes_of :: "GossipAuditCertificate \<Rightarrow> bytes" where
  "GossipAuditCertificate_bytes_of c =
     log_record_bytes (gac_log_prev_hash c) (gac_certificate_hash c) (gac_epoch_start c) (gac_epoch_end
         c)"

definition GossipCertifierLog_verify_chain ::
  "sha \<Rightarrow> GossipCertifierLog \<Rightarrow> bool \<times> nat option" where
  "GossipCertifierLog_verify_chain sha self =
     verify_from gac_log_prev_hash gac_log_record_hash (\<lambda>r. sha (GossipAuditCertificate_bytes_of
         r)) 0 genesis (gcl_certs self)"

lemma log_record_bytes_inj:
  "log_record_bytes prev cert_hash epoch_start epoch_end = log_record_bytes prev' cert_hash'
      epoch_start' epoch_end' \<longleftrightarrow>
   prev = prev' \<and> cert_hash = cert_hash' \<and> epoch_start = epoch_start' \<and> epoch_end =
       epoch_end'"
  by (auto simp: log_record_bytes_def enc_simps)

definition GossipAuditCertificate_committed :: "GossipAuditCertificate \<Rightarrow> hash \<times> u64
    \<times> u64" where
  "GossipAuditCertificate_committed c =
     (gac_certificate_hash c, gac_epoch_start c, gac_epoch_end c)"

interpretation compaction_gossip_audit_certifier: hash_log GossipAuditCertificate_bytes_of
    gac_log_prev_hash gac_log_record_hash GossipAuditCertificate_committed
  by unfold_locales (auto simp: GossipAuditCertificate_bytes_of_def GossipAuditCertificate_committed_def
      log_record_bytes_inj)

lemma compaction_gossip_audit_certifier_verify_iff: "GossipCertifierLog_verify_chain sha l = (True,
    None) \<longleftrightarrow> compaction_gossip_audit_certifier.ok sha (gcl_certs l)"
  by (simp add: GossipCertifierLog_verify_chain_def verify_from_iff)

lemma gossip_certifier_log_certify_window_ok: "compaction_gossip_audit_certifier.ok sha (gcl_certs l)
    \<Longrightarrow> compaction_gossip_audit_certifier.ok sha (gcl_certs (snd
    (GossipCertifierLog_certify_window sha seals epoch_start epoch_end chains_valid terminal_hash l)))"
  by (simp add: Let_def split_def GossipCertifierLog_certify_window_def compute_log_record_hash_def
      GossipAuditCertificate_bytes_of_def split: option.split sum.split)

section \<open>Compaction Gossip Telemetry Encoder (Gate 359)\<close>

text \<open>
  \<open>compaction_gossip_telemetry_encoder.rs\<close>. Encodes a GossipAuditCertificate (Gate 358)
  into a compact 24-byte frame suitable for peer gossip broadcast. Mirrors Gate 337 for the gossip
  subsystem.
\<close>

definition GOSSIP_FRAME_SIZE :: nat where
  "GOSSIP_FRAME_SIZE = 24"

record GossipTelemetryFrame =
  gtf_bytes :: bytes

definition GossipTelemetryFrame_epoch_end :: "GossipTelemetryFrame \<Rightarrow> u64" where
  "GossipTelemetryFrame_epoch_end self = from_be (take 8 (gtf_bytes self))"

definition GossipTelemetryFrame_total_delivered :: "GossipTelemetryFrame \<Rightarrow> u64" where
  "GossipTelemetryFrame_total_delivered self = from_be (take 8 (drop 8 (gtf_bytes self)))"

definition GossipTelemetryFrame_chains_valid :: "GossipTelemetryFrame \<Rightarrow> bool" where
  "GossipTelemetryFrame_chains_valid self \<longleftrightarrow>
     ((gtf_bytes self) ! 16) = 1"

definition GossipTelemetryFrame_red_pct :: "GossipTelemetryFrame \<Rightarrow> u8" where
  "GossipTelemetryFrame_red_pct self =
     (gtf_bytes self) ! 17"

definition GossipTelemetryFrame_yellow_pct :: "GossipTelemetryFrame \<Rightarrow> u8" where
  "GossipTelemetryFrame_yellow_pct self =
     (gtf_bytes self) ! 18"

definition GossipTelemetryFrame_green_pct :: "GossipTelemetryFrame \<Rightarrow> u8" where
  "GossipTelemetryFrame_green_pct self =
     (gtf_bytes self) ! 19"

definition GossipTelemetryFrame_cert_prefix :: "GossipTelemetryFrame \<Rightarrow> bytes" where
  "GossipTelemetryFrame_cert_prefix self = take 4 (drop 20 (gtf_bytes self))"

definition gossip_telemetry_encode :: "GossipAuditCertificate \<Rightarrow> GossipTelemetryFrame" where
  "gossip_telemetry_encode cert =
     (let epoch_count = max (gac_epoch_count cert) 1;
          red_pct = (ucast (min (ucast (gac_red_epochs cert) * 100 div epoch_count) 100) :: u8);
          yellow_pct = (ucast (min (ucast (gac_yellow_epochs cert) * 100 div epoch_count) 100) :: u8);
          green_pct = (ucast (min (ucast (gac_green_epochs cert) * 100 div epoch_count) 100) :: u8)
      in \<lparr>gtf_bytes = be8 (gac_epoch_end cert) @
           be8 (gac_total_delivered cert) @ [of_bool (gac_chains_valid cert)] @
           [red_pct, yellow_pct, green_pct] @ take 4 (hash_bytes (gac_certificate_hash cert))\<rparr>)"

record GossipTelemetryDecoded =
  gtd_epoch_end :: u64
  gtd_total_delivered :: u64
  gtd_chains_valid :: bool
  gtd_red_pct :: u8
  gtd_yellow_pct :: u8
  gtd_green_pct :: u8
  gtd_cert_prefix :: bytes

definition gossip_telemetry_decode :: "GossipTelemetryFrame \<Rightarrow> GossipTelemetryDecoded" where
  "gossip_telemetry_decode frame =
     \<lparr>gtd_epoch_end = GossipTelemetryFrame_epoch_end frame,
         gtd_total_delivered = GossipTelemetryFrame_total_delivered frame,
         gtd_chains_valid = GossipTelemetryFrame_chains_valid frame,
         gtd_red_pct = GossipTelemetryFrame_red_pct frame, gtd_yellow_pct =
         GossipTelemetryFrame_yellow_pct frame, gtd_green_pct = GossipTelemetryFrame_green_pct frame,
         gtd_cert_prefix = GossipTelemetryFrame_cert_prefix frame\<rparr>"

record GossipTelemetryRecord =
  gtr2_frame :: GossipTelemetryFrame
  gtr2_prev_hash :: hash
  gtr2_record_hash :: hash

definition compaction_gossip_telemetry_encoder_record_bytes ::
  "hash \<Rightarrow> GossipTelemetryFrame \<Rightarrow> bytes" where
  "compaction_gossip_telemetry_encoder_record_bytes prev frame =
     hash_bytes prev @ gtf_bytes frame @ be8 (GossipTelemetryFrame_epoch_end frame)"

definition compaction_gossip_telemetry_encoder_compute_record_hash ::
  "sha \<Rightarrow> hash \<Rightarrow> GossipTelemetryFrame \<Rightarrow> hash" where
  "compaction_gossip_telemetry_encoder_compute_record_hash sha prev frame =
     sha (compaction_gossip_telemetry_encoder_record_bytes prev frame)"

record GossipTelemetryLog =
  gtl_records :: "GossipTelemetryRecord list"

definition GossipTelemetryLog_new :: "GossipTelemetryLog" where
  "GossipTelemetryLog_new =
     \<lparr>gtl_records = []\<rparr>"

definition GossipTelemetryLog_frame_count :: "GossipTelemetryLog \<Rightarrow> nat" where
  "GossipTelemetryLog_frame_count self =
     length (gtl_records self)"

definition GossipTelemetryLog_latest ::
  "GossipTelemetryLog \<Rightarrow> GossipTelemetryRecord option" where
  "GossipTelemetryLog_latest self =
     last_opt (gtl_records self)"

definition GossipTelemetryLog_push ::
  "sha \<Rightarrow> GossipTelemetryFrame \<Rightarrow> GossipTelemetryLog \<Rightarrow>
      GossipTelemetryRecord \<times> GossipTelemetryLog" where
  "GossipTelemetryLog_push sha frame self =
     (let prev = last_hash gtr2_record_hash (gtl_records self);
          record_hash = compaction_gossip_telemetry_encoder_compute_record_hash sha prev frame;
          self = self\<lparr>gtl_records := (gtl_records self) @ [\<lparr>gtr2_frame = frame,
            gtr2_prev_hash = prev, gtr2_record_hash = record_hash\<rparr>]\<rparr>
      in (last (gtl_records self), self))"

definition GossipTelemetryRecord_bytes_of :: "GossipTelemetryRecord \<Rightarrow> bytes" where
  "GossipTelemetryRecord_bytes_of r =
     compaction_gossip_telemetry_encoder_record_bytes (gtr2_prev_hash r) (gtr2_frame r)"

definition GossipTelemetryLog_verify_chain ::
  "sha \<Rightarrow> GossipTelemetryLog \<Rightarrow> bool \<times> nat option" where
  "GossipTelemetryLog_verify_chain sha self =
     verify_from gtr2_prev_hash gtr2_record_hash (\<lambda>r. sha (GossipTelemetryRecord_bytes_of r)) 0
         genesis (gtl_records self)"

lemma compaction_gossip_telemetry_encoder_record_bytes_inj:
  "compaction_gossip_telemetry_encoder_record_bytes prev frame =
      compaction_gossip_telemetry_encoder_record_bytes prev' frame' \<longleftrightarrow>
   prev = prev' \<and> (gtf_bytes frame) = (gtf_bytes frame') \<and> (GossipTelemetryFrame_epoch_end
       frame) = (GossipTelemetryFrame_epoch_end frame')"
  by (auto simp: compaction_gossip_telemetry_encoder_record_bytes_def enc_simps append_eq_append_conv)

definition GossipTelemetryRecord_committed :: "GossipTelemetryRecord \<Rightarrow> bytes \<times> u64"
    where
  "GossipTelemetryRecord_committed r =
     (gtf_bytes (gtr2_frame r), GossipTelemetryFrame_epoch_end (gtr2_frame r))"

interpretation compaction_gossip_telemetry_encoder: hash_log GossipTelemetryRecord_bytes_of
    gtr2_prev_hash gtr2_record_hash GossipTelemetryRecord_committed
  by unfold_locales (auto simp: GossipTelemetryRecord_bytes_of_def GossipTelemetryRecord_committed_def
      compaction_gossip_telemetry_encoder_record_bytes_inj)

lemma compaction_gossip_telemetry_encoder_verify_iff: "GossipTelemetryLog_verify_chain sha l = (True,
    None) \<longleftrightarrow> compaction_gossip_telemetry_encoder.ok sha (gtl_records l)"
  by (simp add: GossipTelemetryLog_verify_chain_def verify_from_iff)

lemma gossip_telemetry_log_push_ok: "compaction_gossip_telemetry_encoder.ok sha (gtl_records l)
    \<Longrightarrow> compaction_gossip_telemetry_encoder.ok sha (gtl_records (snd
    (GossipTelemetryLog_push sha frame l)))"
  by (simp add: Let_def split_def GossipTelemetryLog_push_def
      compaction_gossip_telemetry_encoder_compute_record_hash_def GossipTelemetryRecord_bytes_of_def
      split: option.split sum.split)

section \<open>Compaction Gossip Epoch Ledger (Gate 370)\<close>

text \<open>
  \<open>compaction_gossip_epoch_ledger.rs\<close>. Tamper-evident per-epoch ledger binding all gossip
  subsystem terminal hashes into a single hash-chained GossipLedgerEntry per epoch. Mirrors Gate 348
  for the gossip subsystem.
\<close>

record GossipLedgerEntry =
  gle_epoch :: u64
  gle_report_hash :: hash
  gle_alert_hash :: hash
  gle_sla_hash :: hash
  gle_capacity_hash :: hash
  gle_delta_hash :: hash
  gle_trend_hash :: hash
  gle_dashboard_hash :: hash
  gle_entry_hash :: hash
  gle_prev_hash :: hash

definition compaction_gossip_epoch_ledger_entry_bytes ::
  "hash \<Rightarrow> u64 \<Rightarrow> hash \<Rightarrow> hash \<Rightarrow> hash \<Rightarrow> hash
      \<Rightarrow> hash \<Rightarrow> hash \<Rightarrow> hash \<Rightarrow> bytes" where
  "compaction_gossip_epoch_ledger_entry_bytes prev epoch report_hash alert_hash sla_hash capacity_hash
      delta_hash trend_hash dashboard_hash =
     hash_bytes prev @ be8 epoch @ hash_bytes report_hash @ hash_bytes alert_hash @
         hash_bytes sla_hash @ hash_bytes capacity_hash @ hash_bytes delta_hash @
         hash_bytes trend_hash @ hash_bytes dashboard_hash"

definition compaction_gossip_epoch_ledger_compute_entry_hash ::
  "sha \<Rightarrow> hash \<Rightarrow> u64 \<Rightarrow> hash \<Rightarrow> hash \<Rightarrow> hash
      \<Rightarrow> hash \<Rightarrow> hash \<Rightarrow> hash \<Rightarrow> hash \<Rightarrow> hash"
      where
  "compaction_gossip_epoch_ledger_compute_entry_hash sha prev epoch report_hash alert_hash sla_hash
      capacity_hash delta_hash trend_hash dashboard_hash =
     sha (compaction_gossip_epoch_ledger_entry_bytes prev epoch report_hash alert_hash sla_hash
         capacity_hash delta_hash trend_hash dashboard_hash)"

record GossipEpochLedger =
  gel_entries :: "GossipLedgerEntry list"

definition GossipEpochLedger_new :: "GossipEpochLedger" where
  "GossipEpochLedger_new =
     \<lparr>gel_entries = []\<rparr>"

definition GossipEpochLedger_entry_count :: "GossipEpochLedger \<Rightarrow> nat" where
  "GossipEpochLedger_entry_count self =
     length (gel_entries self)"

definition GossipEpochLedger_latest :: "GossipEpochLedger \<Rightarrow> GossipLedgerEntry option" where
  "GossipEpochLedger_latest self =
     last_opt (gel_entries self)"

definition GossipEpochLedger_terminal_hash :: "GossipEpochLedger \<Rightarrow> hash" where
  "GossipEpochLedger_terminal_hash self =
     last_hash gle_entry_hash (gel_entries self)"

definition GossipEpochLedger_append ::
  "sha \<Rightarrow> u64 \<Rightarrow> hash \<Rightarrow> hash \<Rightarrow> hash \<Rightarrow> hash
      \<Rightarrow> hash \<Rightarrow> hash \<Rightarrow> hash \<Rightarrow> GossipEpochLedger
      \<Rightarrow> GossipLedgerEntry \<times> GossipEpochLedger" where
  "GossipEpochLedger_append sha epoch report_hash alert_hash sla_hash capacity_hash delta_hash
      trend_hash dashboard_hash self =
     (let prev = last_hash gle_entry_hash (gel_entries self);
          entry_hash = compaction_gossip_epoch_ledger_compute_entry_hash sha prev epoch report_hash
            alert_hash sla_hash capacity_hash delta_hash trend_hash dashboard_hash;
          self = self\<lparr>gel_entries := (gel_entries self) @ [\<lparr>gle_epoch = epoch,
            gle_report_hash = report_hash, gle_alert_hash = alert_hash, gle_sla_hash = sla_hash,
            gle_capacity_hash = capacity_hash, gle_delta_hash = delta_hash, gle_trend_hash = trend_hash,
            gle_dashboard_hash = dashboard_hash, gle_entry_hash = entry_hash,
            gle_prev_hash = prev\<rparr>]\<rparr>
      in (last (gel_entries self), self))"

definition GossipLedgerEntry_bytes_of :: "GossipLedgerEntry \<Rightarrow> bytes" where
  "GossipLedgerEntry_bytes_of e =
     compaction_gossip_epoch_ledger_entry_bytes (gle_prev_hash e) (gle_epoch e) (gle_report_hash e)
         (gle_alert_hash e) (gle_sla_hash e) (gle_capacity_hash e) (gle_delta_hash e) (gle_trend_hash e)
         (gle_dashboard_hash e)"

definition GossipEpochLedger_verify_chain ::
  "sha \<Rightarrow> GossipEpochLedger \<Rightarrow> bool \<times> nat option" where
  "GossipEpochLedger_verify_chain sha self =
     verify_from gle_prev_hash gle_entry_hash (\<lambda>r. sha (GossipLedgerEntry_bytes_of r)) 0 genesis
         (gel_entries self)"

lemma compaction_gossip_epoch_ledger_entry_bytes_inj:
  "compaction_gossip_epoch_ledger_entry_bytes prev epoch report_hash alert_hash sla_hash capacity_hash
      delta_hash trend_hash dashboard_hash = compaction_gossip_epoch_ledger_entry_bytes prev' epoch'
      report_hash' alert_hash' sla_hash' capacity_hash' delta_hash' trend_hash' dashboard_hash'
      \<longleftrightarrow>
   prev = prev' \<and> epoch = epoch' \<and> report_hash = report_hash' \<and> alert_hash = alert_hash'
       \<and> sla_hash = sla_hash' \<and> capacity_hash = capacity_hash' \<and> delta_hash = delta_hash'
       \<and> trend_hash = trend_hash' \<and> dashboard_hash = dashboard_hash'"
  by (auto simp: compaction_gossip_epoch_ledger_entry_bytes_def enc_simps)

definition GossipLedgerEntry_committed :: "GossipLedgerEntry \<Rightarrow> u64 \<times> hash \<times>
    hash \<times> hash \<times> hash \<times> hash \<times> hash \<times> hash" where
  "GossipLedgerEntry_committed e =
     (gle_epoch e, gle_report_hash e, gle_alert_hash e, gle_sla_hash e, gle_capacity_hash e,
         gle_delta_hash e, gle_trend_hash e, gle_dashboard_hash e)"

interpretation compaction_gossip_epoch_ledger: epoch_log GossipLedgerEntry_bytes_of gle_prev_hash
    gle_entry_hash GossipLedgerEntry_committed
  "\<lambda>sha (epoch, report_hash, alert_hash, sla_hash, capacity_hash, delta_hash, trend_hash,
      dashboard_hash) l. GossipEpochLedger_append sha epoch report_hash alert_hash sla_hash
      capacity_hash delta_hash trend_hash dashboard_hash l"
  gel_entries GossipEpochLedger_new "\<lambda>c. c"
  by unfold_locales (auto simp: GossipEpochLedger_append_def
      compaction_gossip_epoch_ledger_compute_entry_hash_def GossipEpochLedger_new_def Let_def
      GossipLedgerEntry_bytes_of_def GossipLedgerEntry_committed_def
      compaction_gossip_epoch_ledger_entry_bytes_inj)

lemma compaction_gossip_epoch_ledger_verify_iff: "GossipEpochLedger_verify_chain sha l = (True,
    None) \<longleftrightarrow> compaction_gossip_epoch_ledger.ok sha (gel_entries l)"
  by (simp add: GossipEpochLedger_verify_chain_def verify_from_iff)

section \<open>Compaction Gossip Audit Seal (Gate 371)\<close>

text \<open>
  \<open>compaction_gossip_audit_seal.rs\<close>. Certifies a window of GossipEpochLedger entries
  (Gate 370) into a tamper-evident GossipAuditSeal. Mirrors Gate 349 for the gossip subsystem.
\<close>

record GossipAuditSeal =
  gas_epoch_start :: u64
  gas_epoch_end :: u64
  gas_epoch_count :: u64
  gas_chains_valid :: bool
  gas_terminal_hash :: hash
  gas_seal_hash :: hash
  gas_prev_hash :: hash

definition compaction_gossip_audit_seal_seal_bytes ::
  "hash \<Rightarrow> u64 \<Rightarrow> u64 \<Rightarrow> u64 \<Rightarrow> bool \<Rightarrow> hash
      \<Rightarrow> bytes" where
  "compaction_gossip_audit_seal_seal_bytes prev epoch_start epoch_end epoch_count chains_valid
      terminal_hash =
     hash_bytes prev @ be8 epoch_start @ be8 epoch_end @ be8 epoch_count @ [of_bool chains_valid] @
         hash_bytes terminal_hash"

definition compaction_gossip_audit_seal_compute_seal_hash ::
  "sha \<Rightarrow> hash \<Rightarrow> u64 \<Rightarrow> u64 \<Rightarrow> u64 \<Rightarrow> bool
      \<Rightarrow> hash \<Rightarrow> hash" where
  "compaction_gossip_audit_seal_compute_seal_hash sha prev epoch_start epoch_end epoch_count
      chains_valid terminal_hash =
     sha (compaction_gossip_audit_seal_seal_bytes prev epoch_start epoch_end epoch_count chains_valid
         terminal_hash)"

record GossipAuditSealLog =
  gasl_seals :: "GossipAuditSeal list"

definition GossipAuditSealLog_new :: "GossipAuditSealLog" where
  "GossipAuditSealLog_new =
     \<lparr>gasl_seals = []\<rparr>"

definition GossipAuditSealLog_seal_count :: "GossipAuditSealLog \<Rightarrow> nat" where
  "GossipAuditSealLog_seal_count self =
     length (gasl_seals self)"

definition GossipAuditSealLog_latest :: "GossipAuditSealLog \<Rightarrow> GossipAuditSeal option" where
  "GossipAuditSealLog_latest self =
     last_opt (gasl_seals self)"

definition GossipLedgerEntry_window_bytes :: "GossipLedgerEntry \<Rightarrow> bytes" where
  "GossipLedgerEntry_window_bytes e =
     hash_bytes (gle_prev_hash e) @ be8 (gle_epoch e) @ hash_bytes (gle_report_hash e) @
     hash_bytes (gle_alert_hash e) @ hash_bytes (gle_sla_hash e) @ hash_bytes (gle_capacity_hash e) @
     hash_bytes (gle_delta_hash e) @ hash_bytes (gle_trend_hash e) @ hash_bytes (gle_dashboard_hash e)"

definition GossipAuditSealLog_certify ::
  "sha \<Rightarrow> GossipLedgerEntry list \<Rightarrow> GossipAuditSealLog \<Rightarrow> (string +
      GossipAuditSeal) \<times> GossipAuditSealLog" where
  "GossipAuditSealLog_certify sha entries_v self =
     (if entries_v = [] then (Inl ''[GOSSIP_AUDIT_SEAL] Cannot certify empty entry window'', self)
      else
        (let epoch_start = gle_epoch (hd entries_v);
             epoch_end = gle_epoch (last entries_v);
             epoch_count = (of_nat (length entries_v) :: u64);
             chains_valid = fst (verify_from gle_prev_hash gle_entry_hash
               (\<lambda>e. sha (GossipLedgerEntry_window_bytes e)) 0 (gle_prev_hash (hd entries_v))
                 entries_v);
             terminal_hash = gle_entry_hash (last entries_v);
             prev = last_hash gas_seal_hash (gasl_seals self);
             seal_hash = compaction_gossip_audit_seal_compute_seal_hash sha prev epoch_start epoch_end
               epoch_count chains_valid terminal_hash;
             self = self\<lparr>gasl_seals := gasl_seals self @ [\<lparr>gas_epoch_start = epoch_start,
               gas_epoch_end = epoch_end, gas_epoch_count = epoch_count,
                 gas_chains_valid = chains_valid,
               gas_terminal_hash = terminal_hash, gas_seal_hash = seal_hash,
                 gas_prev_hash = prev\<rparr>]\<rparr>
         in (Inr (last (gasl_seals self)), self)))"

definition GossipAuditSealLog_certify_ledger ::
  "sha \<Rightarrow> GossipEpochLedger \<Rightarrow> GossipAuditSealLog \<Rightarrow> (string +
      GossipAuditSeal) \<times> GossipAuditSealLog" where
  "GossipAuditSealLog_certify_ledger sha ledger self =
     (let (result, self) = GossipAuditSealLog_certify sha (gel_entries ledger) self
      in (result, self))"

definition GossipAuditSealLog_all_valid :: "GossipAuditSealLog \<Rightarrow> bool" where
  "GossipAuditSealLog_all_valid self \<longleftrightarrow>
     list_all gas_chains_valid (gasl_seals self)"

definition GossipAuditSeal_bytes_of :: "GossipAuditSeal \<Rightarrow> bytes" where
  "GossipAuditSeal_bytes_of s =
     compaction_gossip_audit_seal_seal_bytes (gas_prev_hash s) (gas_epoch_start s) (gas_epoch_end s)
         (gas_epoch_count s) (gas_chains_valid s) (gas_terminal_hash s)"

definition GossipAuditSealLog_verify_chain ::
  "sha \<Rightarrow> GossipAuditSealLog \<Rightarrow> bool \<times> nat option" where
  "GossipAuditSealLog_verify_chain sha self =
     verify_from gas_prev_hash gas_seal_hash (\<lambda>r. sha (GossipAuditSeal_bytes_of r)) 0 genesis
         (gasl_seals self)"

lemma compaction_gossip_audit_seal_seal_bytes_inj:
  "compaction_gossip_audit_seal_seal_bytes prev epoch_start epoch_end epoch_count chains_valid
      terminal_hash = compaction_gossip_audit_seal_seal_bytes prev' epoch_start' epoch_end' epoch_count'
      chains_valid' terminal_hash' \<longleftrightarrow>
   prev = prev' \<and> epoch_start = epoch_start' \<and> epoch_end = epoch_end' \<and> epoch_count =
       epoch_count' \<and> chains_valid = chains_valid' \<and> terminal_hash = terminal_hash'"
  by (auto simp: compaction_gossip_audit_seal_seal_bytes_def enc_simps)

definition GossipAuditSeal_committed :: "GossipAuditSeal \<Rightarrow> u64 \<times> u64 \<times> u64
    \<times> bool \<times> hash" where
  "GossipAuditSeal_committed s =
     (gas_epoch_start s, gas_epoch_end s, gas_epoch_count s, gas_chains_valid s, gas_terminal_hash s)"

interpretation compaction_gossip_audit_seal: hash_log GossipAuditSeal_bytes_of gas_prev_hash
    gas_seal_hash GossipAuditSeal_committed
  by unfold_locales (auto simp: GossipAuditSeal_bytes_of_def GossipAuditSeal_committed_def
      compaction_gossip_audit_seal_seal_bytes_inj)

lemma compaction_gossip_audit_seal_verify_iff: "GossipAuditSealLog_verify_chain sha l = (True,
    None) \<longleftrightarrow> compaction_gossip_audit_seal.ok sha (gasl_seals l)"
  by (simp add: GossipAuditSealLog_verify_chain_def verify_from_iff)

lemma gossip_audit_seal_log_certify_ok: "compaction_gossip_audit_seal.ok sha (gasl_seals l)
    \<Longrightarrow> compaction_gossip_audit_seal.ok sha (gasl_seals (snd (GossipAuditSealLog_certify
    sha entries_v l)))"
  by (simp add: Let_def split_def GossipAuditSealLog_certify_def
      compaction_gossip_audit_seal_compute_seal_hash_def GossipAuditSeal_bytes_of_def split:
      option.split sum.split)

lemma gossip_audit_seal_log_certify_ledger_ok: "compaction_gossip_audit_seal.ok sha (gasl_seals l)
    \<Longrightarrow> compaction_gossip_audit_seal.ok sha (gasl_seals (snd
    (GossipAuditSealLog_certify_ledger sha ledger l)))"
  by (simp add: Let_def split_def GossipAuditSealLog_certify_ledger_def gossip_audit_seal_log_certify_ok
      split: option.split sum.split)

section \<open>Compaction Gossip Broadcaster (Gate 372)\<close>

text \<open>
  \<open>compaction_gossip_broadcaster.rs\<close>. Encodes a GossipAuditSeal (Gate 371) into a compact
  32-byte network frame for peer broadcast. Mirrors Gate 350 for the gossip subsystem.
\<close>

definition GOSSIP_BROADCAST_FRAME_LEN :: nat where
  "GOSSIP_BROADCAST_FRAME_LEN = 32"

record GossipBroadcastRecord =
  gbr_epoch_end :: u64
  gbr_frame :: bytes
  gbr_record_hash :: hash
  gbr_prev_hash :: hash

definition gossip_encode_frame :: "sha \<Rightarrow> GossipAuditSeal \<Rightarrow> bytes" where
  "gossip_encode_frame sha seal =
     (let head = be8 (gas_epoch_end seal) @ be8 (gas_epoch_count seal) @
         [of_bool (gas_chains_valid seal)] @
            take 4 (hash_bytes (gas_seal_hash seal)) @ take 4 (hash_bytes (gas_terminal_hash seal))
      in head @ take 7 (hash_bytes (sha head)))"

definition compaction_gossip_broadcaster_record_bytes ::
  "hash \<Rightarrow> bytes \<Rightarrow> u64 \<Rightarrow> bytes" where
  "compaction_gossip_broadcaster_record_bytes prev frame epoch_end =
     hash_bytes prev @ frame @ be8 epoch_end"

definition compaction_gossip_broadcaster_compute_record_hash ::
  "sha \<Rightarrow> hash \<Rightarrow> bytes \<Rightarrow> u64 \<Rightarrow> hash" where
  "compaction_gossip_broadcaster_compute_record_hash sha prev frame epoch_end =
     sha (compaction_gossip_broadcaster_record_bytes prev frame epoch_end)"

record GossipBroadcaster =
  gb_log :: "GossipBroadcastRecord list"

record GossipDecodedFrame =
  gdf2_epoch_end :: u64
  gdf2_epoch_count :: u64
  gdf2_chains_valid :: bool
  gdf2_seal_prefix :: bytes
  gdf2_terminal_prefix :: bytes

datatype GossipBroadcastError = GossipBroadcastError string

definition GossipBroadcaster_new :: "GossipBroadcaster" where
  "GossipBroadcaster_new =
     \<lparr>gb_log = []\<rparr>"

definition GossipBroadcaster_frame_count :: "GossipBroadcaster \<Rightarrow> nat" where
  "GossipBroadcaster_frame_count self =
     length (gb_log self)"

definition GossipBroadcaster_latest ::
  "GossipBroadcaster \<Rightarrow> GossipBroadcastRecord option" where
  "GossipBroadcaster_latest self =
     last_opt (gb_log self)"

definition GossipBroadcaster_encode ::
  "sha \<Rightarrow> GossipAuditSeal \<Rightarrow> GossipBroadcaster \<Rightarrow> GossipBroadcastRecord
      \<times> GossipBroadcaster" where
  "GossipBroadcaster_encode sha seal self =
     (let frame = gossip_encode_frame sha seal;
          prev = last_hash gbr_record_hash (gb_log self);
          record_hash = compaction_gossip_broadcaster_compute_record_hash sha prev frame (gas_epoch_end
            seal);
          self = self\<lparr>gb_log := (gb_log self) @ [\<lparr>gbr_epoch_end = gas_epoch_end seal,
            gbr_frame = frame, gbr_record_hash = record_hash, gbr_prev_hash = prev\<rparr>]\<rparr>
      in (last (gb_log self), self))"

definition GossipBroadcaster_decode :: "sha \<Rightarrow> bytes \<Rightarrow> GossipBroadcastError +
    GossipDecodedFrame" where
  "GossipBroadcaster_decode sha frame =
     (if drop 25 frame \<noteq> take 7 (hash_bytes (sha (take 25 frame)))
      then Inl (GossipBroadcastError ''[GOSSIP_BROADCAST] Checksum mismatch'')
      else Inr \<lparr>gdf2_epoch_end = from_be (take 8 frame),
          gdf2_epoch_count = from_be (take 8 (drop 8 frame)),
        gdf2_chains_valid = (frame ! 16 \<noteq> 0), gdf2_seal_prefix = take 4 (drop 17 frame),
        gdf2_terminal_prefix = take 4 (drop 21 frame)\<rparr>)"

definition GossipBroadcastRecord_bytes_of :: "GossipBroadcastRecord \<Rightarrow> bytes" where
  "GossipBroadcastRecord_bytes_of r =
     compaction_gossip_broadcaster_record_bytes (gbr_prev_hash r) (gbr_frame r) (gbr_epoch_end r)"

definition GossipBroadcaster_verify_chain ::
  "sha \<Rightarrow> GossipBroadcaster \<Rightarrow> bool \<times> nat option" where
  "GossipBroadcaster_verify_chain sha self =
     verify_from gbr_prev_hash gbr_record_hash (\<lambda>r. sha (GossipBroadcastRecord_bytes_of r)) 0
         genesis (gb_log self)"

lemma compaction_gossip_broadcaster_record_bytes_inj:
  "compaction_gossip_broadcaster_record_bytes prev frame epoch_end =
      compaction_gossip_broadcaster_record_bytes prev' frame' epoch_end' \<longleftrightarrow>
   prev = prev' \<and> frame = frame' \<and> epoch_end = epoch_end'"
  by (auto simp: compaction_gossip_broadcaster_record_bytes_def enc_simps append_eq_append_conv)

definition GossipBroadcastRecord_committed :: "GossipBroadcastRecord \<Rightarrow> bytes \<times> u64"
    where
  "GossipBroadcastRecord_committed r =
     (gbr_frame r, gbr_epoch_end r)"

interpretation compaction_gossip_broadcaster: hash_log GossipBroadcastRecord_bytes_of gbr_prev_hash
    gbr_record_hash GossipBroadcastRecord_committed
  by unfold_locales (auto simp: GossipBroadcastRecord_bytes_of_def GossipBroadcastRecord_committed_def
      compaction_gossip_broadcaster_record_bytes_inj)

lemma compaction_gossip_broadcaster_verify_iff: "GossipBroadcaster_verify_chain sha l = (True,
    None) \<longleftrightarrow> compaction_gossip_broadcaster.ok sha (gb_log l)"
  by (simp add: GossipBroadcaster_verify_chain_def verify_from_iff)

lemma gossip_broadcaster_encode_ok: "compaction_gossip_broadcaster.ok sha (gb_log l) \<Longrightarrow>
    compaction_gossip_broadcaster.ok sha (gb_log (snd (GossipBroadcaster_encode sha seal l)))"
  by (simp add: Let_def split_def GossipBroadcaster_encode_def
      compaction_gossip_broadcaster_compute_record_hash_def GossipBroadcastRecord_bytes_of_def split:
      option.split sum.split)

section \<open>Compaction Gossip Broadcast Validator (Gate 373)\<close>

text \<open>
  \<open>compaction_gossip_broadcast_validator.rs\<close>. Validates incoming GossipBroadcastFrames
  (Gate 372) from peers, enforcing: 1. Checksum integrity (SHA-256 over frame[0..25]) 2. Epoch
  monotonicity (each frame's epoch_end >= previous) Mirrors Gate 351 for the gossip subsystem.
\<close>

datatype GossipValidationVerdict = Valid | ChecksumFail | EpochRegressed | ChecksumAndEpoch

fun GossipValidationVerdict_as_u8 :: "GossipValidationVerdict \<Rightarrow> u8" where
  "GossipValidationVerdict_as_u8 GossipValidationVerdict.Valid = 0"
| "GossipValidationVerdict_as_u8 GossipValidationVerdict.ChecksumFail = 1"
| "GossipValidationVerdict_as_u8 GossipValidationVerdict.EpochRegressed = 2"
| "GossipValidationVerdict_as_u8 GossipValidationVerdict.ChecksumAndEpoch = 3"

lemma GossipValidationVerdict_as_u8_inj [simp]: "GossipValidationVerdict_as_u8 x =
    GossipValidationVerdict_as_u8 y \<longleftrightarrow> x = y"
  by (cases x; cases y) auto

definition GossipValidationVerdict_is_valid :: "GossipValidationVerdict \<Rightarrow> bool" where
  "GossipValidationVerdict_is_valid self \<longleftrightarrow>
     self = GossipValidationVerdict.Valid"

definition GossipValidationVerdict_has_checksum_fail ::
  "GossipValidationVerdict \<Rightarrow> bool" where
  "GossipValidationVerdict_has_checksum_fail self \<longleftrightarrow>
     self = GossipValidationVerdict.ChecksumFail \<or> self = GossipValidationVerdict.ChecksumAndEpoch"

definition GossipValidationVerdict_has_epoch_regression ::
  "GossipValidationVerdict \<Rightarrow> bool" where
  "GossipValidationVerdict_has_epoch_regression self \<longleftrightarrow>
     self = GossipValidationVerdict.EpochRegressed \<or> self =
         GossipValidationVerdict.ChecksumAndEpoch"

record GossipValidationRecord =
  gvr_frame_epoch_end :: u64
  gvr_verdict :: GossipValidationVerdict
  gvr_frame :: bytes
  gvr_record_hash :: hash
  gvr_prev_hash :: hash

definition compaction_gossip_broadcast_validator_validation_bytes ::
  "hash \<Rightarrow> u64 \<Rightarrow> u8 \<Rightarrow> bytes \<Rightarrow> bytes" where
  "compaction_gossip_broadcast_validator_validation_bytes prev frame_epoch_end verdict_byte frame =
     hash_bytes prev @ be8 frame_epoch_end @ [verdict_byte] @ frame"

definition compaction_gossip_broadcast_validator_compute_validation_hash ::
  "sha \<Rightarrow> hash \<Rightarrow> u64 \<Rightarrow> u8 \<Rightarrow> bytes \<Rightarrow> hash"
      where
  "compaction_gossip_broadcast_validator_compute_validation_hash sha prev frame_epoch_end verdict_byte
      frame =
     sha (compaction_gossip_broadcast_validator_validation_bytes prev frame_epoch_end verdict_byte
         frame)"

record GossipBroadcastValidator =
  gbv_log :: "GossipValidationRecord list"
  gbv_last_epoch_end :: "u64 option"

definition GossipBroadcastValidator_new :: "GossipBroadcastValidator" where
  "GossipBroadcastValidator_new =
     \<lparr>gbv_log = [], gbv_last_epoch_end = None\<rparr>"

definition GossipBroadcastValidator_record_count :: "GossipBroadcastValidator \<Rightarrow> nat" where
  "GossipBroadcastValidator_record_count self =
     length (gbv_log self)"

definition GossipBroadcastValidator_latest ::
  "GossipBroadcastValidator \<Rightarrow> GossipValidationRecord option" where
  "GossipBroadcastValidator_latest self =
     last_opt (gbv_log self)"

definition GossipBroadcastValidator_count_verdict ::
  "GossipValidationVerdict \<Rightarrow> GossipBroadcastValidator \<Rightarrow> nat" where
  "GossipBroadcastValidator_count_verdict v self =
     length (filter (\<lambda>r. (gvr_verdict r) = v) (gbv_log self))"

definition GossipBroadcastValidator_validate :: "sha \<Rightarrow> bytes \<Rightarrow>
    GossipBroadcastValidator \<Rightarrow> GossipValidationRecord \<times> GossipBroadcastValidator"
    where
  "GossipBroadcastValidator_validate sha frame self =
     (let checksum_ok = \<not> isl (GossipBroadcaster_decode sha frame);
          frame_epoch_end = (from_be (take 8 frame) :: u64);
          epoch_ok = (case gbv_last_epoch_end self of None \<Rightarrow> True | Some p \<Rightarrow> p
            \<le> frame_epoch_end);
          verdict = (case (checksum_ok, epoch_ok) of
              (True, True) \<Rightarrow> GossipValidationVerdict.Valid
            | (False, True) \<Rightarrow> GossipValidationVerdict.ChecksumFail
            | (True, False) \<Rightarrow> GossipValidationVerdict.EpochRegressed
            | (False, False) \<Rightarrow> GossipValidationVerdict.ChecksumAndEpoch);
          self = (if GossipValidationVerdict_is_valid verdict then self\<lparr>gbv_last_epoch_end :=
            Some frame_epoch_end\<rparr> else self);
          prev = last_hash gvr_record_hash (gbv_log self);
          record_hash = compaction_gossip_broadcast_validator_compute_validation_hash sha prev
            frame_epoch_end (GossipValidationVerdict_as_u8 verdict) frame;
          self = self\<lparr>gbv_log := gbv_log self @ [\<lparr>gvr_frame_epoch_end = frame_epoch_end,
            gvr_verdict = verdict,
            gvr_frame = frame, gvr_record_hash = record_hash, gvr_prev_hash = prev\<rparr>]\<rparr>
      in (last (gbv_log self), self))"

definition GossipValidationRecord_bytes_of :: "GossipValidationRecord \<Rightarrow> bytes" where
  "GossipValidationRecord_bytes_of r =
     compaction_gossip_broadcast_validator_validation_bytes (gvr_prev_hash r) (gvr_frame_epoch_end r)
         (GossipValidationVerdict_as_u8 (gvr_verdict r)) (gvr_frame r)"

definition GossipBroadcastValidator_verify_chain ::
  "sha \<Rightarrow> GossipBroadcastValidator \<Rightarrow> bool \<times> nat option" where
  "GossipBroadcastValidator_verify_chain sha self =
     verify_from gvr_prev_hash gvr_record_hash (\<lambda>r. sha (GossipValidationRecord_bytes_of r)) 0
         genesis (gbv_log self)"

lemma compaction_gossip_broadcast_validator_validation_bytes_inj:
  "compaction_gossip_broadcast_validator_validation_bytes prev frame_epoch_end verdict_byte frame =
      compaction_gossip_broadcast_validator_validation_bytes prev' frame_epoch_end' verdict_byte' frame'
      \<longleftrightarrow>
   prev = prev' \<and> frame_epoch_end = frame_epoch_end' \<and> verdict_byte = verdict_byte' \<and>
       frame = frame'"
  by (auto simp: compaction_gossip_broadcast_validator_validation_bytes_def enc_simps
      append_eq_append_conv)

definition GossipValidationRecord_committed :: "GossipValidationRecord \<Rightarrow> u64 \<times> u8
    \<times> bytes" where
  "GossipValidationRecord_committed r =
     (gvr_frame_epoch_end r, GossipValidationVerdict_as_u8 (gvr_verdict r), gvr_frame r)"

interpretation compaction_gossip_broadcast_validator: hash_log GossipValidationRecord_bytes_of
    gvr_prev_hash gvr_record_hash GossipValidationRecord_committed
  by unfold_locales (auto simp: GossipValidationRecord_bytes_of_def GossipValidationRecord_committed_def
      compaction_gossip_broadcast_validator_validation_bytes_inj)

lemma compaction_gossip_broadcast_validator_verify_iff: "GossipBroadcastValidator_verify_chain sha l =
    (True, None) \<longleftrightarrow> compaction_gossip_broadcast_validator.ok sha (gbv_log l)"
  by (simp add: GossipBroadcastValidator_verify_chain_def verify_from_iff)

lemma gossip_broadcast_validator_validate_ok: "compaction_gossip_broadcast_validator.ok sha (gbv_log l)
    \<Longrightarrow> compaction_gossip_broadcast_validator.ok sha (gbv_log (snd
    (GossipBroadcastValidator_validate sha frame l)))"
  by (simp add: Let_def split_def GossipBroadcastValidator_validate_def
      compaction_gossip_broadcast_validator_compute_validation_hash_def
      GossipValidationRecord_bytes_of_def split: option.split sum.split)

section \<open>Compaction Gossip Sync State Machine (Gate 374)\<close>

text \<open>
  \<open>compaction_gossip_sync_state_machine.rs\<close>. Tracks per-peer synchronization state for
  the gossip broadcast layer. Each peer has a GossipSyncEntry recording its last acknowledged epoch
  and lag. Transitions are recorded in a hash-chained GossipSyncEventLog. Mirrors Gate 352 for the
  gossip subsystem.
\<close>

datatype GossipSyncState = Unsynced | Synced | Lagging | Diverged

fun GossipSyncState_as_u8 :: "GossipSyncState \<Rightarrow> u8" where
  "GossipSyncState_as_u8 GossipSyncState.Unsynced = 0"
| "GossipSyncState_as_u8 GossipSyncState.Synced = 1"
| "GossipSyncState_as_u8 GossipSyncState.Lagging = 2"
| "GossipSyncState_as_u8 GossipSyncState.Diverged = 3"

lemma GossipSyncState_as_u8_inj [simp]: "GossipSyncState_as_u8 x = GossipSyncState_as_u8 y
    \<longleftrightarrow> x = y"
  by (cases x; cases y) auto

definition GossipSyncState_classify :: "u64 \<Rightarrow> u64 \<Rightarrow> GossipSyncState" where
  "GossipSyncState_classify last_acked current =
     (if current = 0 \<and> last_acked = 0 then GossipSyncState.Synced
      else if last_acked = current then GossipSyncState.Synced
      else if last_acked < current then GossipSyncState.Lagging
      else GossipSyncState.Diverged)"

record GossipSyncEntry =
  gse_peer_id :: u64
  gse_last_acked_epoch :: u64
  gse_current_epoch :: u64
  gse_state :: GossipSyncState
  gse_lag :: u64

definition GossipSyncEntry_new ::
  "u64 \<Rightarrow> u64 \<Rightarrow> u64 \<Rightarrow> GossipSyncEntry" where
  "GossipSyncEntry_new peer_id last_acked_epoch current_epoch =
     (let state = GossipSyncState_classify last_acked_epoch current_epoch;
          lag = sat_sub current_epoch last_acked_epoch
      in \<lparr>gse_peer_id = peer_id, gse_last_acked_epoch = last_acked_epoch,
          gse_current_epoch = current_epoch, gse_state = state, gse_lag = lag\<rparr>)"

record GossipSyncEvent =
  gse2_peer_id :: u64
  gse2_new_state :: GossipSyncState
  gse2_last_acked_epoch :: u64
  gse2_current_epoch :: u64
  gse2_event_hash :: hash
  gse2_prev_hash :: hash

definition compaction_gossip_sync_state_machine_event_bytes ::
  "hash \<Rightarrow> u64 \<Rightarrow> GossipSyncState \<Rightarrow> u64 \<Rightarrow> u64
      \<Rightarrow> bytes" where
  "compaction_gossip_sync_state_machine_event_bytes prev peer_id new_state last_acked current =
     hash_bytes prev @ be8 peer_id @ [GossipSyncState_as_u8 new_state] @ be8 last_acked @ be8 current"

definition compaction_gossip_sync_state_machine_compute_event_hash ::
  "sha \<Rightarrow> hash \<Rightarrow> u64 \<Rightarrow> GossipSyncState \<Rightarrow> u64
      \<Rightarrow> u64 \<Rightarrow> hash" where
  "compaction_gossip_sync_state_machine_compute_event_hash sha prev peer_id new_state last_acked current
      =
     sha (compaction_gossip_sync_state_machine_event_bytes prev peer_id new_state last_acked current)"

record GossipSyncTracker =
  gst_peers :: "(u64, GossipSyncEntry) btmap"
  gst_events :: "GossipSyncEvent list"

definition GossipSyncTracker_new :: "GossipSyncTracker" where
  "GossipSyncTracker_new =
     \<lparr>gst_peers = bt_empty, gst_events = []\<rparr>"

definition GossipSyncTracker_peer_count :: "GossipSyncTracker \<Rightarrow> nat" where
  "GossipSyncTracker_peer_count self =
     bt_len (gst_peers self)"

definition GossipSyncTracker_event_count :: "GossipSyncTracker \<Rightarrow> nat" where
  "GossipSyncTracker_event_count self =
     length (gst_events self)"

definition GossipSyncTracker_update ::
  "sha \<Rightarrow> u64 \<Rightarrow> u64 \<Rightarrow> u64 \<Rightarrow> GossipSyncTracker
      \<Rightarrow> GossipSyncEvent \<times> GossipSyncTracker" where
  "GossipSyncTracker_update sha peer_id acked_epoch current_epoch self =
     (let entry = GossipSyncEntry_new peer_id acked_epoch current_epoch;
          self = self\<lparr>gst_peers := bt_insert peer_id entry (gst_peers self)\<rparr>;
          prev = last_hash gse2_event_hash (gst_events self);
          event_hash = compaction_gossip_sync_state_machine_compute_event_hash sha prev peer_id
            (gse_state entry) acked_epoch current_epoch;
          self = self\<lparr>gst_events := (gst_events self) @ [\<lparr>gse2_peer_id = peer_id,
            gse2_new_state = gse_state entry, gse2_last_acked_epoch = acked_epoch,
            gse2_current_epoch = current_epoch, gse2_event_hash = event_hash,
            gse2_prev_hash = prev\<rparr>]\<rparr>
      in (last (gst_events self), self))"

definition GossipSyncTracker_get ::
  "u64 \<Rightarrow> GossipSyncTracker \<Rightarrow> GossipSyncEntry option" where
  "GossipSyncTracker_get peer_id self =
     bt_get (gst_peers self) peer_id"

definition GossipSyncTracker_synced_count :: "GossipSyncTracker \<Rightarrow> nat" where
  "GossipSyncTracker_synced_count self =
     length (filter (\<lambda>e. (gse_state e) = GossipSyncState.Synced) (bt_values (gst_peers self)))"

definition GossipSyncTracker_lagging_count :: "GossipSyncTracker \<Rightarrow> nat" where
  "GossipSyncTracker_lagging_count self =
     length (filter (\<lambda>e. (gse_state e) = GossipSyncState.Lagging) (bt_values (gst_peers self)))"

definition GossipSyncTracker_diverged_count :: "GossipSyncTracker \<Rightarrow> nat" where
  "GossipSyncTracker_diverged_count self =
     length (filter (\<lambda>e. (gse_state e) = GossipSyncState.Diverged) (bt_values (gst_peers
         self)))"

definition GossipSyncEvent_bytes_of :: "GossipSyncEvent \<Rightarrow> bytes" where
  "GossipSyncEvent_bytes_of e =
     compaction_gossip_sync_state_machine_event_bytes (gse2_prev_hash e) (gse2_peer_id e)
         (gse2_new_state e) (gse2_last_acked_epoch e) (gse2_current_epoch e)"

definition GossipSyncTracker_verify_chain ::
  "sha \<Rightarrow> GossipSyncTracker \<Rightarrow> bool \<times> nat option" where
  "GossipSyncTracker_verify_chain sha self =
     verify_from gse2_prev_hash gse2_event_hash (\<lambda>r. sha (GossipSyncEvent_bytes_of r)) 0 genesis
         (gst_events self)"

lemma compaction_gossip_sync_state_machine_event_bytes_inj:
  "compaction_gossip_sync_state_machine_event_bytes prev peer_id new_state last_acked current =
      compaction_gossip_sync_state_machine_event_bytes prev' peer_id' new_state' last_acked' current'
      \<longleftrightarrow>
   prev = prev' \<and> peer_id = peer_id' \<and> new_state = new_state' \<and> last_acked = last_acked'
       \<and> current = current'"
  by (auto simp: compaction_gossip_sync_state_machine_event_bytes_def enc_simps)

definition GossipSyncEvent_committed :: "GossipSyncEvent \<Rightarrow> u64 \<times> GossipSyncState
    \<times> u64 \<times> u64" where
  "GossipSyncEvent_committed e =
     (gse2_peer_id e, gse2_new_state e, gse2_last_acked_epoch e, gse2_current_epoch e)"

interpretation compaction_gossip_sync_state_machine: epoch_log GossipSyncEvent_bytes_of gse2_prev_hash
    gse2_event_hash GossipSyncEvent_committed
  "\<lambda>sha (peer_id, acked_epoch, current_epoch) l. GossipSyncTracker_update sha peer_id
      acked_epoch current_epoch l"
  gst_events GossipSyncTracker_new "\<lambda>(a, _, c, d). (a, c, d)"
  by unfold_locales (auto simp: GossipSyncTracker_update_def
      compaction_gossip_sync_state_machine_compute_event_hash_def GossipSyncTracker_new_def Let_def
      GossipSyncEvent_bytes_of_def GossipSyncEvent_committed_def
      compaction_gossip_sync_state_machine_event_bytes_inj)

lemma compaction_gossip_sync_state_machine_verify_iff: "GossipSyncTracker_verify_chain sha l = (True,
    None) \<longleftrightarrow> compaction_gossip_sync_state_machine.ok sha (gst_events l)"
  by (simp add: GossipSyncTracker_verify_chain_def verify_from_iff)

section \<open>Compaction Gossip Peer Registry (Gate 375)\<close>

text \<open>
  \<open>compaction_gossip_peer_registry.rs\<close>. Maintains the canonical set of known broadcast
  peers for the gossip subsystem. Each peer is identified by a u64 peer_id and carries a 32-byte
  public fingerprint (opaque - no PKI assumed at T2). Mirrors Gate 353 for the gossip subsystem.
\<close>

datatype GossipRegistryEventKind = Admitted | Evicted

fun GossipRegistryEventKind_as_u8 :: "GossipRegistryEventKind \<Rightarrow> u8" where
  "GossipRegistryEventKind_as_u8 GossipRegistryEventKind.Admitted = 0"
| "GossipRegistryEventKind_as_u8 GossipRegistryEventKind.Evicted = 1"

lemma GossipRegistryEventKind_as_u8_inj [simp]: "GossipRegistryEventKind_as_u8 x =
    GossipRegistryEventKind_as_u8 y \<longleftrightarrow> x = y"
  by (cases x; cases y) auto

record GossipPeerRecord =
  gpr_peer_id :: u64
  gpr_fingerprint :: hash
  gpr_admitted_at :: u64

record GossipRegistryEvent =
  gre3_kind :: GossipRegistryEventKind
  gre3_peer_id :: u64
  gre3_epoch :: u64
  gre3_fingerprint :: hash
  gre3_event_hash :: hash
  gre3_prev_hash :: hash

definition gossip_registry_bytes ::
  "hash \<Rightarrow> GossipRegistryEventKind \<Rightarrow> u64 \<Rightarrow> u64 \<Rightarrow> hash
      \<Rightarrow> bytes" where
  "gossip_registry_bytes prev kind peer_id epoch fingerprint =
     hash_bytes prev @ [GossipRegistryEventKind_as_u8 kind] @ be8 peer_id @ be8 epoch @
         hash_bytes fingerprint"

definition compute_gossip_registry_hash ::
  "sha \<Rightarrow> hash \<Rightarrow> GossipRegistryEventKind \<Rightarrow> u64 \<Rightarrow> u64
      \<Rightarrow> hash \<Rightarrow> hash" where
  "compute_gossip_registry_hash sha prev kind peer_id epoch fingerprint =
     sha (gossip_registry_bytes prev kind peer_id epoch fingerprint)"

record GossipPeerRegistry =
  gpr2_peers :: "(u64, GossipPeerRecord) btmap"
  gpr2_events :: "GossipRegistryEvent list"

datatype GossipRegistryError = GossipRegistryError string

definition GossipPeerRegistry_new :: "GossipPeerRegistry" where
  "GossipPeerRegistry_new =
     \<lparr>gpr2_peers = bt_empty, gpr2_events = []\<rparr>"

definition GossipPeerRegistry_peer_count :: "GossipPeerRegistry \<Rightarrow> nat" where
  "GossipPeerRegistry_peer_count self =
     bt_len (gpr2_peers self)"

definition GossipPeerRegistry_event_count :: "GossipPeerRegistry \<Rightarrow> nat" where
  "GossipPeerRegistry_event_count self =
     length (gpr2_events self)"

definition GossipPeerRegistry_contains ::
  "u64 \<Rightarrow> GossipPeerRegistry \<Rightarrow> bool" where
  "GossipPeerRegistry_contains peer_id self \<longleftrightarrow>
     bt_has (gpr2_peers self) peer_id"

definition GossipPeerRegistry_get ::
  "u64 \<Rightarrow> GossipPeerRegistry \<Rightarrow> GossipPeerRecord option" where
  "GossipPeerRegistry_get peer_id self =
     bt_get (gpr2_peers self) peer_id"

definition GossipPeerRegistry_push_event ::
  "sha \<Rightarrow> GossipRegistryEventKind \<Rightarrow> u64 \<Rightarrow> u64 \<Rightarrow> hash
      \<Rightarrow> GossipPeerRegistry \<Rightarrow> GossipRegistryEvent \<times> GossipPeerRegistry"
      where
  "GossipPeerRegistry_push_event sha kind peer_id epoch fingerprint self =
     (let prev = last_hash gre3_event_hash (gpr2_events self);
          event_hash = compute_gossip_registry_hash sha prev kind peer_id epoch fingerprint;
          self = self\<lparr>gpr2_events := (gpr2_events self) @ [\<lparr>gre3_kind = kind,
            gre3_peer_id = peer_id, gre3_epoch = epoch, gre3_fingerprint = fingerprint,
            gre3_event_hash = event_hash, gre3_prev_hash = prev\<rparr>]\<rparr>
      in (last (gpr2_events self), self))"

definition GossipPeerRegistry_admit ::
  "sha \<Rightarrow> u64 \<Rightarrow> hash \<Rightarrow> u64 \<Rightarrow> GossipPeerRegistry
      \<Rightarrow> (GossipRegistryError + GossipRegistryEvent) \<times> GossipPeerRegistry" where
  "GossipPeerRegistry_admit sha peer_id fingerprint epoch self =
     (if bt_has (gpr2_peers self) peer_id then (Inl (GossipRegistryError
         ''[GOSSIP_REGISTRY] Peer already admitted''), self)
      else (let self = self\<lparr>gpr2_peers := bt_insert peer_id (\<lparr>gpr_peer_id = peer_id,
          gpr_fingerprint = fingerprint, gpr_admitted_at = epoch\<rparr>) (gpr2_peers self)\<rparr>
      in (let (result, self) = GossipPeerRegistry_push_event sha GossipRegistryEventKind.Admitted
          peer_id epoch fingerprint self
      in (Inr result, self))))"

definition GossipPeerRegistry_evict :: "sha \<Rightarrow> u64 \<Rightarrow> u64 \<Rightarrow>
    GossipPeerRegistry \<Rightarrow> (GossipRegistryError + GossipRegistryEvent) \<times>
    GossipPeerRegistry" where
  "GossipPeerRegistry_evict sha peer_id epoch self =
     (case bt_get (gpr2_peers self) peer_id of
        None \<Rightarrow> (Inl (GossipRegistryError ''[GOSSIP_REGISTRY] Peer not found''), self)
      | Some peer \<Rightarrow>
          (let self = self\<lparr>gpr2_peers := bt_remove peer_id (gpr2_peers self)\<rparr>;
               (event, self) = GossipPeerRegistry_push_event sha GossipRegistryEventKind.Evicted peer_id
                 epoch (gpr_fingerprint peer) self
           in (Inr event, self)))"

definition GossipRegistryEvent_bytes_of :: "GossipRegistryEvent \<Rightarrow> bytes" where
  "GossipRegistryEvent_bytes_of e =
     gossip_registry_bytes (gre3_prev_hash e) (gre3_kind e) (gre3_peer_id e) (gre3_epoch e)
         (gre3_fingerprint e)"

definition GossipPeerRegistry_verify_chain ::
  "sha \<Rightarrow> GossipPeerRegistry \<Rightarrow> bool \<times> nat option" where
  "GossipPeerRegistry_verify_chain sha self =
     verify_from gre3_prev_hash gre3_event_hash (\<lambda>r. sha (GossipRegistryEvent_bytes_of r)) 0
         genesis (gpr2_events self)"

lemma gossip_registry_bytes_inj:
  "gossip_registry_bytes prev kind peer_id epoch fingerprint = gossip_registry_bytes prev' kind'
      peer_id' epoch' fingerprint' \<longleftrightarrow>
   prev = prev' \<and> kind = kind' \<and> peer_id = peer_id' \<and> epoch = epoch' \<and> fingerprint =
       fingerprint'"
  by (auto simp: gossip_registry_bytes_def enc_simps)

definition GossipRegistryEvent_committed :: "GossipRegistryEvent \<Rightarrow> GossipRegistryEventKind
    \<times> u64 \<times> u64 \<times> hash" where
  "GossipRegistryEvent_committed e =
     (gre3_kind e, gre3_peer_id e, gre3_epoch e, gre3_fingerprint e)"

interpretation compaction_gossip_peer_registry: hash_log GossipRegistryEvent_bytes_of gre3_prev_hash
    gre3_event_hash GossipRegistryEvent_committed
  by unfold_locales (auto simp: GossipRegistryEvent_bytes_of_def GossipRegistryEvent_committed_def
      gossip_registry_bytes_inj)

lemma compaction_gossip_peer_registry_verify_iff: "GossipPeerRegistry_verify_chain sha l = (True,
    None) \<longleftrightarrow> compaction_gossip_peer_registry.ok sha (gpr2_events l)"
  by (simp add: GossipPeerRegistry_verify_chain_def verify_from_iff)

lemma gossip_peer_registry_push_event_ok: "compaction_gossip_peer_registry.ok sha (gpr2_events l)
    \<Longrightarrow> compaction_gossip_peer_registry.ok sha (gpr2_events (snd
    (GossipPeerRegistry_push_event sha kind peer_id epoch fingerprint l)))"
  by (simp add: Let_def split_def GossipPeerRegistry_push_event_def compute_gossip_registry_hash_def
      GossipRegistryEvent_bytes_of_def split: option.split sum.split)

lemma gossip_peer_registry_admit_ok: "compaction_gossip_peer_registry.ok sha (gpr2_events l)
    \<Longrightarrow> compaction_gossip_peer_registry.ok sha (gpr2_events (snd (GossipPeerRegistry_admit
    sha peer_id fingerprint epoch l)))"
  by (simp add: Let_def split_def GossipPeerRegistry_admit_def gossip_peer_registry_push_event_ok split:
      option.split sum.split)

lemma gossip_peer_registry_evict_ok: "compaction_gossip_peer_registry.ok sha (gpr2_events l)
    \<Longrightarrow> compaction_gossip_peer_registry.ok sha (gpr2_events (snd (GossipPeerRegistry_evict
    sha peer_id epoch l)))"
  by (simp add: Let_def split_def GossipPeerRegistry_evict_def gossip_peer_registry_push_event_ok split:
      option.split sum.split)

section \<open>Gossip Peer Dispatcher (Gate 376)\<close>

text \<open>
  \<open>gossip_peer_dispatcher.rs\<close>. Ties together the gossip broadcast layer: dispatches a
  GossipBroadcastFrame to all registered peers, records per-peer delivery results in a hash-chained
  GossipDispatchLog, and exposes aggregate delivery statistics. Mirrors Gate 354 for the gossip
  subsystem.
\<close>

record GossipDispatchResult =
  gdr_peer_id :: u64
  gdr_epoch_end :: u64
  gdr_delivered :: bool

record GossipDispatchRecord =
  gdr2_epoch_end :: u64
  gdr2_peer_count :: u32
  gdr2_delivered_count :: u32
  gdr2_record_hash :: hash
  gdr2_prev_hash :: hash

definition gossip_dispatch_bytes ::
  "hash \<Rightarrow> u64 \<Rightarrow> u32 \<Rightarrow> u32 \<Rightarrow> bytes" where
  "gossip_dispatch_bytes prev epoch_end peer_count delivered_count =
     hash_bytes prev @ be8 epoch_end @ be4 peer_count @ be4 delivered_count"

definition compute_gossip_dispatch_hash ::
  "sha \<Rightarrow> hash \<Rightarrow> u64 \<Rightarrow> u32 \<Rightarrow> u32 \<Rightarrow> hash"
      where
  "compute_gossip_dispatch_hash sha prev epoch_end peer_count delivered_count =
     sha (gossip_dispatch_bytes prev epoch_end peer_count delivered_count)"

record GossipPeerDispatcher =
  gpd_records :: "GossipDispatchRecord list"

datatype GossipDispatchError = GossipDispatchError string

definition GossipPeerDispatcher_new :: "GossipPeerDispatcher" where
  "GossipPeerDispatcher_new =
     \<lparr>gpd_records = []\<rparr>"

definition GossipPeerDispatcher_record_count :: "GossipPeerDispatcher \<Rightarrow> nat" where
  "GossipPeerDispatcher_record_count self =
     length (gpd_records self)"

definition GossipPeerDispatcher_latest ::
  "GossipPeerDispatcher \<Rightarrow> GossipDispatchRecord option" where
  "GossipPeerDispatcher_latest self =
     last_opt (gpd_records self)"

definition GossipPeerDispatcher_total_delivered :: "GossipPeerDispatcher \<Rightarrow> u64" where
  "GossipPeerDispatcher_total_delivered self =
     sum_list (map (\<lambda>r. (ucast (gdr2_delivered_count r) :: u64)) (gpd_records self))"

definition GossipPeerDispatcher_total_missed :: "GossipPeerDispatcher \<Rightarrow> u64" where
  "GossipPeerDispatcher_total_missed self =
     sum_list (map (\<lambda>r. (ucast (sat_sub (gdr2_peer_count r) (gdr2_delivered_count r)) :: u64))
         (gpd_records self))"

definition gossip_play_admission :: "GossipRegistryEvent \<Rightarrow> (u64,
    bool) btmap \<Rightarrow> (u64, bool) btmap" where
  "gossip_play_admission ev m =
     (case gre3_kind ev of
        GossipRegistryEventKind.Admitted \<Rightarrow> bt_insert (gre3_peer_id ev) True m
      | GossipRegistryEventKind.Evicted \<Rightarrow> bt_remove (gre3_peer_id ev) m)"

definition GossipPeerDispatcher_dispatch ::
  "sha \<Rightarrow> bytes \<Rightarrow> GossipPeerRegistry \<Rightarrow> GossipPeerDispatcher
      \<Rightarrow> (GossipDispatchError + GossipDispatchResult list \<times> GossipDispatchRecord)
      \<times> GossipPeerDispatcher" where
  "GossipPeerDispatcher_dispatch sha frame registry self =
     (case GossipBroadcaster_decode sha frame of
        Inl _ \<Rightarrow> (Inl (GossipDispatchError
          ''[GOSSIP_DISPATCH] Corrupt frame - checksum failed''), self)
      | Inr _ \<Rightarrow>
          (let epoch_end = (from_be (take 8 frame) :: u64);
               peer_count = (of_nat (GossipPeerRegistry_peer_count registry) :: u32);
               results = (if peer_count = 0 then []
                 else map (\<lambda>pid. \<lparr>gdr_peer_id = pid, gdr_epoch_end = epoch_end,
                   gdr_delivered = True\<rparr>)
                   (bt_keys (fold gossip_play_admission (gpr2_events registry) bt_empty)));
               delivered_count = (of_nat (length (filter gdr_delivered results)) :: u32);
               prev = last_hash gdr2_record_hash (gpd_records self);
               record_hash = compute_gossip_dispatch_hash sha prev epoch_end peer_count delivered_count;
               self = self\<lparr>gpd_records := gpd_records self @ [\<lparr>gdr2_epoch_end = epoch_end,
                 gdr2_peer_count = peer_count,
                 gdr2_delivered_count = delivered_count, gdr2_record_hash = record_hash,
                   gdr2_prev_hash = prev\<rparr>]\<rparr>
           in (Inr (results, last (gpd_records self)), self)))"

definition GossipDispatchRecord_bytes_of :: "GossipDispatchRecord \<Rightarrow> bytes" where
  "GossipDispatchRecord_bytes_of r =
     gossip_dispatch_bytes (gdr2_prev_hash r) (gdr2_epoch_end r) (gdr2_peer_count r)
         (gdr2_delivered_count r)"

definition GossipPeerDispatcher_verify_chain ::
  "sha \<Rightarrow> GossipPeerDispatcher \<Rightarrow> bool \<times> nat option" where
  "GossipPeerDispatcher_verify_chain sha self =
     verify_from gdr2_prev_hash gdr2_record_hash (\<lambda>r. sha (GossipDispatchRecord_bytes_of r)) 0
         genesis (gpd_records self)"

lemma gossip_dispatch_bytes_inj:
  "gossip_dispatch_bytes prev epoch_end peer_count delivered_count = gossip_dispatch_bytes prev'
      epoch_end' peer_count' delivered_count' \<longleftrightarrow>
   prev = prev' \<and> epoch_end = epoch_end' \<and> peer_count = peer_count' \<and> delivered_count =
       delivered_count'"
  by (auto simp: gossip_dispatch_bytes_def enc_simps)

definition GossipDispatchRecord_committed :: "GossipDispatchRecord \<Rightarrow> u64 \<times> u32
    \<times> u32" where
  "GossipDispatchRecord_committed r =
     (gdr2_epoch_end r, gdr2_peer_count r, gdr2_delivered_count r)"

interpretation peer_dispatcher: hash_log GossipDispatchRecord_bytes_of gdr2_prev_hash gdr2_record_hash
    GossipDispatchRecord_committed
  by unfold_locales (auto simp: GossipDispatchRecord_bytes_of_def GossipDispatchRecord_committed_def
      gossip_dispatch_bytes_inj)

lemma peer_dispatcher_verify_iff: "GossipPeerDispatcher_verify_chain sha l = (True,
    None) \<longleftrightarrow> peer_dispatcher.ok sha (gpd_records l)"
  by (simp add: GossipPeerDispatcher_verify_chain_def verify_from_iff)

lemma gossip_peer_dispatcher_dispatch_ok: "peer_dispatcher.ok sha (gpd_records l) \<Longrightarrow>
    peer_dispatcher.ok sha (gpd_records (snd (GossipPeerDispatcher_dispatch sha frame registry l)))"
  by (simp add: Let_def split_def GossipPeerDispatcher_dispatch_def compute_gossip_dispatch_hash_def
      GossipDispatchRecord_bytes_of_def split: option.split sum.split)

end
