(* ===== verification/Compaction_Seals.thy ===== *)
theory Compaction_Seals
  imports Compaction_Health
begin

text \<open>
  The seal of an epoch of compaction, the certificate over a window of seals, and the 24-byte
  telemetry frame that carries a certificate.
\<close>

section \<open>Compaction Epoch Seal (Gate 335)\<close>

text \<open>
  \<open>compaction_epoch_seal.rs\<close>. Closes each epoch with a tamper-evident seal binding the
  Unified Compaction Manager output (Gate 334) to an epoch sequence. Mirrors the pattern from
\<close>

record CompactionEpochSeal =
  ces_epoch :: u64
  ces_unified_hash :: hash
  ces_spsf_total_pruned :: u64
  ces_health_total_pruned :: u64
  ces_resonance_total_pruned :: u64
  ces_total_pruned :: u64
  ces_seal_hash :: hash
  ces_prev_hash :: hash

definition compaction_epoch_seal_seal_bytes ::
  "hash \<Rightarrow> u64 \<Rightarrow> hash \<Rightarrow> u64 \<Rightarrow> u64 \<Rightarrow> u64
      \<Rightarrow> u64 \<Rightarrow> bytes" where
  "compaction_epoch_seal_seal_bytes prev epoch unified_hash spsf_pruned health_pruned resonance_pruned
      total_pruned =
     hash_bytes prev @ be8 epoch @ hash_bytes unified_hash @ be8 spsf_pruned @ be8 health_pruned @
         be8 resonance_pruned @ be8 total_pruned"

definition compaction_epoch_seal_compute_seal_hash ::
  "sha \<Rightarrow> hash \<Rightarrow> u64 \<Rightarrow> hash \<Rightarrow> u64 \<Rightarrow> u64
      \<Rightarrow> u64 \<Rightarrow> u64 \<Rightarrow> hash" where
  "compaction_epoch_seal_compute_seal_hash sha prev epoch unified_hash spsf_pruned health_pruned
      resonance_pruned total_pruned =
     sha (compaction_epoch_seal_seal_bytes prev epoch unified_hash spsf_pruned health_pruned
         resonance_pruned total_pruned)"

record CompactionSealChain =
  csc_seals :: "CompactionEpochSeal list"

definition CompactionSealChain_new :: "CompactionSealChain" where
  "CompactionSealChain_new =
     \<lparr>csc_seals = []\<rparr>"

definition CompactionSealChain_seal_count :: "CompactionSealChain \<Rightarrow> nat" where
  "CompactionSealChain_seal_count self =
     length (csc_seals self)"

definition CompactionSealChain_latest ::
  "CompactionSealChain \<Rightarrow> CompactionEpochSeal option" where
  "CompactionSealChain_latest self =
     last_opt (csc_seals self)"

definition CompactionSealChain_terminal_hash :: "CompactionSealChain \<Rightarrow> hash" where
  "CompactionSealChain_terminal_hash self =
     last_hash ces_seal_hash (csc_seals self)"

definition CompactionSealChain_append ::
  "sha \<Rightarrow> u64 \<Rightarrow> hash \<Rightarrow> u64 \<Rightarrow> u64 \<Rightarrow> u64
      \<Rightarrow> CompactionSealChain \<Rightarrow> CompactionEpochSeal \<times> CompactionSealChain"
      where
  "CompactionSealChain_append sha epoch unified_hash spsf_total health_total resonance_total self =
     (let prev = CompactionSealChain_terminal_hash self;
          total_pruned = sat_add (sat_add spsf_total health_total) resonance_total;
          seal_hash = compaction_epoch_seal_compute_seal_hash sha prev epoch unified_hash spsf_total
            health_total resonance_total total_pruned;
          self = self\<lparr>csc_seals := (csc_seals self) @ [\<lparr>ces_epoch = epoch,
            ces_unified_hash = unified_hash, ces_spsf_total_pruned = spsf_total,
            ces_health_total_pruned = health_total, ces_resonance_total_pruned = resonance_total,
            ces_total_pruned = total_pruned, ces_seal_hash = seal_hash,
            ces_prev_hash = prev\<rparr>]\<rparr>
      in (last (csc_seals self), self))"

definition CompactionEpochSeal_bytes_of :: "CompactionEpochSeal \<Rightarrow> bytes" where
  "CompactionEpochSeal_bytes_of s =
     compaction_epoch_seal_seal_bytes (ces_prev_hash s) (ces_epoch s) (ces_unified_hash s)
         (ces_spsf_total_pruned s) (ces_health_total_pruned s) (ces_resonance_total_pruned s)
         (ces_total_pruned s)"

definition CompactionEpochSeal_checked :: "CompactionEpochSeal \<Rightarrow> bool" where
  "CompactionEpochSeal_checked s \<longleftrightarrow>
     (ces_total_pruned s) = (sat_add (sat_add (ces_spsf_total_pruned s) (ces_health_total_pruned s))
         (ces_resonance_total_pruned s))"

definition CompactionSealChain_verify_chain ::
  "sha \<Rightarrow> CompactionSealChain \<Rightarrow> bool \<times> nat option" where
  "CompactionSealChain_verify_chain sha self =
     verify_checked CompactionEpochSeal_checked ces_prev_hash ces_seal_hash (\<lambda>r. sha
         (CompactionEpochSeal_bytes_of r)) 0 genesis (csc_seals self)"

lemma compaction_epoch_seal_seal_bytes_inj:
  "compaction_epoch_seal_seal_bytes prev epoch unified_hash spsf_pruned health_pruned resonance_pruned
      total_pruned = compaction_epoch_seal_seal_bytes prev' epoch' unified_hash' spsf_pruned'
      health_pruned' resonance_pruned' total_pruned' \<longleftrightarrow>
   prev = prev' \<and> epoch = epoch' \<and> unified_hash = unified_hash' \<and> spsf_pruned =
       spsf_pruned' \<and> health_pruned = health_pruned' \<and> resonance_pruned = resonance_pruned'
       \<and> total_pruned = total_pruned'"
  by (auto simp: compaction_epoch_seal_seal_bytes_def enc_simps)

definition CompactionEpochSeal_committed :: "CompactionEpochSeal \<Rightarrow> u64 \<times> hash
    \<times> u64 \<times> u64 \<times> u64 \<times> u64" where
  "CompactionEpochSeal_committed s =
     (ces_epoch s, ces_unified_hash s, ces_spsf_total_pruned s, ces_health_total_pruned s,
         ces_resonance_total_pruned s, ces_total_pruned s)"

interpretation compaction_epoch_seal: hash_log CompactionEpochSeal_bytes_of ces_prev_hash ces_seal_hash
    CompactionEpochSeal_committed
  by unfold_locales (auto simp: CompactionEpochSeal_bytes_of_def CompactionEpochSeal_committed_def
      compaction_epoch_seal_seal_bytes_inj)

lemma compaction_epoch_seal_verify_iff: "CompactionSealChain_verify_chain sha l = (True,
    None) \<longleftrightarrow> compaction_epoch_seal.ok sha (csc_seals l) \<and> list_all
    CompactionEpochSeal_checked (csc_seals l)"
  by (simp add: CompactionSealChain_verify_chain_def verify_checked_iff)

lemma compaction_seal_chain_append_ok: "compaction_epoch_seal.ok sha (csc_seals l) \<Longrightarrow>
    compaction_epoch_seal.ok sha (csc_seals (snd (CompactionSealChain_append sha epoch unified_hash
    spsf_total health_total resonance_total l)))"
  by (simp add: Let_def split_def CompactionSealChain_append_def
      compaction_epoch_seal_compute_seal_hash_def CompactionEpochSeal_bytes_of_def
      CompactionEpochSeal_checked_def CompactionSealChain_terminal_hash_def split: option.split
      sum.split)

section \<open>Compaction Audit Certifier (Gate 336)\<close>

text \<open>
  \<open>compaction_audit_certifier.rs\<close>. Certifies a CompactionSealChain (Gate 335) over an
  epoch window, producing a tamper-evident CompactionAuditCertificate. Analogous to
\<close>

record CompactionAuditCertificate =
  cac_epoch_start :: u64
  cac_epoch_end :: u64
  cac_epoch_count :: u64
  cac_chains_valid :: bool
  cac_total_pruned_certified :: u64
  cac_spsf_pruned_certified :: u64
  cac_health_pruned_certified :: u64
  cac_resonance_pruned_certified :: u64
  cac_terminal_hash :: hash
  cac_certificate_hash :: hash
  cac_log_prev_hash :: hash
  cac_log_record_hash :: hash

definition compaction_audit_certifier_certificate_bytes ::
  "u64 \<Rightarrow> u64 \<Rightarrow> u64 \<Rightarrow> bool \<Rightarrow> u64 \<Rightarrow> u64
      \<Rightarrow> u64 \<Rightarrow> u64 \<Rightarrow> hash \<Rightarrow> bytes" where
  "compaction_audit_certifier_certificate_bytes epoch_start epoch_end epoch_count chains_valid
      total_pruned spsf health resonance terminal_hash =
     be8 epoch_start @ be8 epoch_end @ be8 epoch_count @ [of_bool chains_valid] @ be8 total_pruned @
         be8 spsf @ be8 health @ be8 resonance @ hash_bytes terminal_hash"

definition compaction_audit_certifier_compute_certificate_hash ::
  "sha \<Rightarrow> u64 \<Rightarrow> u64 \<Rightarrow> u64 \<Rightarrow> bool \<Rightarrow> u64
      \<Rightarrow> u64 \<Rightarrow> u64 \<Rightarrow> u64 \<Rightarrow> hash \<Rightarrow> hash" where
  "compaction_audit_certifier_compute_certificate_hash sha epoch_start epoch_end epoch_count
      chains_valid total_pruned spsf health resonance terminal_hash =
     sha (compaction_audit_certifier_certificate_bytes epoch_start epoch_end epoch_count chains_valid
         total_pruned spsf health resonance terminal_hash)"

definition compaction_audit_certifier_log_record_bytes ::
  "hash \<Rightarrow> hash \<Rightarrow> u64 \<Rightarrow> u64 \<Rightarrow> bool \<Rightarrow> bytes"
      where
  "compaction_audit_certifier_log_record_bytes prev cert_hash epoch_start epoch_end chains_valid =
     hash_bytes prev @ hash_bytes cert_hash @ be8 epoch_start @ be8 epoch_end @ [of_bool chains_valid]"

definition compaction_audit_certifier_compute_log_record_hash ::
  "sha \<Rightarrow> hash \<Rightarrow> hash \<Rightarrow> u64 \<Rightarrow> u64 \<Rightarrow> bool
      \<Rightarrow> hash" where
  "compaction_audit_certifier_compute_log_record_hash sha prev cert_hash epoch_start epoch_end
      chains_valid =
     sha (compaction_audit_certifier_log_record_bytes prev cert_hash epoch_start epoch_end
         chains_valid)"

record CertifierLog =
  cl6_entries :: "CompactionAuditCertificate list"

definition CertifierLog_new :: "CertifierLog" where
  "CertifierLog_new =
     \<lparr>cl6_entries = []\<rparr>"

definition CertifierLog_latest :: "CertifierLog \<Rightarrow> CompactionAuditCertificate option" where
  "CertifierLog_latest self =
     last_opt (cl6_entries self)"

definition CertifierLog_certify_window ::
  "sha \<Rightarrow> CompactionEpochSeal list \<Rightarrow> u64 \<Rightarrow> u64 \<Rightarrow> bool
      \<Rightarrow> CertifierLog \<Rightarrow> CompactionAuditCertificate \<times> CertifierLog" where
  "CertifierLog_certify_window sha seals epoch_start epoch_end chains_valid self =
     (let epoch_count = (of_nat (length seals) :: u64);
          spsf = unwrap_or 0 (last_opt (map ces_spsf_total_pruned seals));
          health = unwrap_or 0 (last_opt (map ces_health_total_pruned seals));
          resonance = unwrap_or 0 (last_opt (map ces_resonance_total_pruned seals));
          total_v = unwrap_or 0 (last_opt (map ces_total_pruned seals));
          terminal = last_hash ces_seal_hash seals;
          certificate_hash = compaction_audit_certifier_compute_certificate_hash sha epoch_start
            epoch_end epoch_count chains_valid total_v spsf health resonance terminal;
          prev = last_hash cac_log_record_hash (cl6_entries self);
          log_record_hash = compaction_audit_certifier_compute_log_record_hash sha prev certificate_hash
            epoch_start epoch_end chains_valid;
          self = self\<lparr>cl6_entries := (cl6_entries self) @ [\<lparr>cac_epoch_start = epoch_start,
            cac_epoch_end = epoch_end, cac_epoch_count = epoch_count, cac_chains_valid = chains_valid,
            cac_total_pruned_certified = total_v, cac_spsf_pruned_certified = spsf,
            cac_health_pruned_certified = health, cac_resonance_pruned_certified = resonance,
            cac_terminal_hash = terminal, cac_certificate_hash = certificate_hash,
            cac_log_prev_hash = prev, cac_log_record_hash = log_record_hash\<rparr>]\<rparr>
      in (last (cl6_entries self), self))"

definition CertifierLog_all_valid :: "CertifierLog \<Rightarrow> bool" where
  "CertifierLog_all_valid self \<longleftrightarrow>
     list_all cac_chains_valid (cl6_entries self)"

definition CompactionAuditCertificate_bytes_of :: "CompactionAuditCertificate \<Rightarrow> bytes" where
  "CompactionAuditCertificate_bytes_of e =
     compaction_audit_certifier_log_record_bytes (cac_log_prev_hash e) (cac_certificate_hash e)
         (cac_epoch_start e) (cac_epoch_end e) (cac_chains_valid e)"

definition CertifierLog_verify_chain ::
  "sha \<Rightarrow> CertifierLog \<Rightarrow> bool \<times> nat option" where
  "CertifierLog_verify_chain sha self =
     verify_from cac_log_prev_hash cac_log_record_hash (\<lambda>r. sha
         (CompactionAuditCertificate_bytes_of r)) 0 genesis (cl6_entries self)"

lemma compaction_audit_certifier_log_record_bytes_inj:
  "compaction_audit_certifier_log_record_bytes prev cert_hash epoch_start epoch_end chains_valid =
      compaction_audit_certifier_log_record_bytes prev' cert_hash' epoch_start' epoch_end' chains_valid'
      \<longleftrightarrow>
   prev = prev' \<and> cert_hash = cert_hash' \<and> epoch_start = epoch_start' \<and> epoch_end =
       epoch_end' \<and> chains_valid = chains_valid'"
  by (auto simp: compaction_audit_certifier_log_record_bytes_def enc_simps)

definition CompactionAuditCertificate_committed :: "CompactionAuditCertificate \<Rightarrow> hash
    \<times> u64 \<times> u64 \<times> bool" where
  "CompactionAuditCertificate_committed e =
     (cac_certificate_hash e, cac_epoch_start e, cac_epoch_end e, cac_chains_valid e)"

interpretation compaction_audit_certifier: hash_log CompactionAuditCertificate_bytes_of
    cac_log_prev_hash cac_log_record_hash CompactionAuditCertificate_committed
  by unfold_locales (auto simp: CompactionAuditCertificate_bytes_of_def
      CompactionAuditCertificate_committed_def compaction_audit_certifier_log_record_bytes_inj)

lemma compaction_audit_certifier_verify_iff: "CertifierLog_verify_chain sha l = (True,
    None) \<longleftrightarrow> compaction_audit_certifier.ok sha (cl6_entries l)"
  by (simp add: CertifierLog_verify_chain_def verify_from_iff)

lemma certifier_log_certify_window_ok: "compaction_audit_certifier.ok sha (cl6_entries l)
    \<Longrightarrow> compaction_audit_certifier.ok sha (cl6_entries (snd (CertifierLog_certify_window
    sha seals epoch_start epoch_end chains_valid l)))"
  by (simp add: Let_def split_def CertifierLog_certify_window_def
      compaction_audit_certifier_compute_log_record_hash_def CompactionAuditCertificate_bytes_of_def
      split: option.split sum.split)

section \<open>Compaction Telemetry Encoder (Gate 337)\<close>

text \<open>
  \<open>compaction_telemetry_encoder.rs\<close>. Encodes a CompactionAuditCertificate (Gate 336) into
  a compact 24-byte frame suitable for peer gossip broadcast. Mirrors Gate 254 (Constitutional
  Telemetry Encoder) for the compaction subsystem.
\<close>

definition compaction_telemetry_encoder_FRAME_SIZE :: nat where
  "compaction_telemetry_encoder_FRAME_SIZE = 24"

record CompactionTelemetryFrame =
  ctf_bytes :: bytes

definition CompactionTelemetryFrame_epoch_end :: "CompactionTelemetryFrame \<Rightarrow> u64" where
  "CompactionTelemetryFrame_epoch_end self =
     (from_be (take 8 (ctf_bytes self)) :: u64)"

definition CompactionTelemetryFrame_total_pruned :: "CompactionTelemetryFrame \<Rightarrow> u64" where
  "CompactionTelemetryFrame_total_pruned self =
     (from_be (drop 8 (take 16 (ctf_bytes self))) :: u64)"

definition CompactionTelemetryFrame_chains_valid :: "CompactionTelemetryFrame \<Rightarrow> bool" where
  "CompactionTelemetryFrame_chains_valid self \<longleftrightarrow>
     ((ctf_bytes self) ! 16) = 1"

definition CompactionTelemetryFrame_spsf_pct :: "CompactionTelemetryFrame \<Rightarrow> u8" where
  "CompactionTelemetryFrame_spsf_pct self =
     (ctf_bytes self) ! 17"

definition CompactionTelemetryFrame_health_pct :: "CompactionTelemetryFrame \<Rightarrow> u8" where
  "CompactionTelemetryFrame_health_pct self =
     (ctf_bytes self) ! 18"

definition CompactionTelemetryFrame_res_pct :: "CompactionTelemetryFrame \<Rightarrow> u8" where
  "CompactionTelemetryFrame_res_pct self =
     (ctf_bytes self) ! 19"

definition CompactionTelemetryFrame_cert_prefix :: "CompactionTelemetryFrame \<Rightarrow> bytes" where
  "CompactionTelemetryFrame_cert_prefix self =
     drop 20 (take 24 (ctf_bytes self))"

definition compaction_telemetry_encode :: "CompactionAuditCertificate \<Rightarrow>
    CompactionTelemetryFrame" where
  "compaction_telemetry_encode cert =
     (let total = max (cac_total_pruned_certified cert) 1;
          spsf_pct = (ucast (min (cac_spsf_pruned_certified cert * 100 div total) 100) :: u8);
          health_pct = (ucast (min (cac_health_pruned_certified cert * 100 div total) 100) :: u8);
          res_pct = (ucast (min (cac_resonance_pruned_certified cert * 100 div total) 100) :: u8)
      in \<lparr>ctf_bytes = be8 (cac_epoch_end cert) @
           be8 (cac_total_pruned_certified cert) @ [of_bool (cac_chains_valid cert)] @
           [spsf_pct, health_pct, res_pct] @ take 4 (hash_bytes (cac_certificate_hash cert))\<rparr>)"

definition compaction_telemetry_decode ::
  "CompactionTelemetryFrame \<Rightarrow> u64 \<times> u64 \<times> bool \<times> u8 \<times> u8
      \<times> u8 \<times> bytes" where
  "compaction_telemetry_decode frame =
     (CompactionTelemetryFrame_epoch_end frame, CompactionTelemetryFrame_total_pruned frame,
         CompactionTelemetryFrame_chains_valid frame, CompactionTelemetryFrame_spsf_pct frame,
         CompactionTelemetryFrame_health_pct frame, CompactionTelemetryFrame_res_pct frame,
         CompactionTelemetryFrame_cert_prefix frame)"

record CompactionTelemetryRecord =
  ctr_epoch_end :: u64
  ctr_frame :: bytes
  ctr_record_hash :: hash
  ctr_prev_hash :: hash

definition compaction_telemetry_encoder_record_bytes ::
  "hash \<Rightarrow> bytes \<Rightarrow> u64 \<Rightarrow> bytes" where
  "compaction_telemetry_encoder_record_bytes prev frame epoch_end =
     hash_bytes prev @ frame @ be8 epoch_end"

definition compaction_telemetry_encoder_compute_record_hash ::
  "sha \<Rightarrow> hash \<Rightarrow> bytes \<Rightarrow> u64 \<Rightarrow> hash" where
  "compaction_telemetry_encoder_compute_record_hash sha prev frame epoch_end =
     sha (compaction_telemetry_encoder_record_bytes prev frame epoch_end)"

record CompactionTelemetryLog =
  ctl_records :: "CompactionTelemetryRecord list"

definition CompactionTelemetryLog_new :: "CompactionTelemetryLog" where
  "CompactionTelemetryLog_new =
     \<lparr>ctl_records = []\<rparr>"

definition CompactionTelemetryLog_frame_count :: "CompactionTelemetryLog \<Rightarrow> nat" where
  "CompactionTelemetryLog_frame_count self =
     length (ctl_records self)"

definition CompactionTelemetryLog_latest ::
  "CompactionTelemetryLog \<Rightarrow> CompactionTelemetryRecord option" where
  "CompactionTelemetryLog_latest self =
     last_opt (ctl_records self)"

definition CompactionTelemetryLog_record_frame ::
  "sha \<Rightarrow> CompactionAuditCertificate \<Rightarrow> CompactionTelemetryLog \<Rightarrow>
      CompactionTelemetryRecord \<times> CompactionTelemetryLog" where
  "CompactionTelemetryLog_record_frame sha cert self =
     (let frame = compaction_telemetry_encode cert;
          prev = last_hash ctr_record_hash (ctl_records self);
          record_hash = compaction_telemetry_encoder_compute_record_hash sha prev (ctf_bytes frame)
            (cac_epoch_end cert);
          rec = \<lparr>ctr_epoch_end = cac_epoch_end cert, ctr_frame = ctf_bytes frame,
            ctr_record_hash = record_hash, ctr_prev_hash = prev\<rparr>;
          self = self\<lparr>ctl_records := (ctl_records self) @ [rec]\<rparr>
      in (rec, self))"

definition CompactionTelemetryRecord_bytes_of :: "CompactionTelemetryRecord \<Rightarrow> bytes" where
  "CompactionTelemetryRecord_bytes_of r =
     compaction_telemetry_encoder_record_bytes (ctr_prev_hash r) (ctr_frame r) (ctr_epoch_end r)"

definition CompactionTelemetryLog_verify_chain ::
  "sha \<Rightarrow> CompactionTelemetryLog \<Rightarrow> bool \<times> nat option" where
  "CompactionTelemetryLog_verify_chain sha self =
     verify_from ctr_prev_hash ctr_record_hash (\<lambda>r. sha (CompactionTelemetryRecord_bytes_of r))
         0 genesis (ctl_records self)"

lemma compaction_telemetry_encoder_record_bytes_inj:
  "compaction_telemetry_encoder_record_bytes prev frame epoch_end =
      compaction_telemetry_encoder_record_bytes prev' frame' epoch_end' \<longleftrightarrow>
   prev = prev' \<and> frame = frame' \<and> epoch_end = epoch_end'"
  by (auto simp: compaction_telemetry_encoder_record_bytes_def enc_simps append_eq_append_conv)

definition CompactionTelemetryRecord_committed :: "CompactionTelemetryRecord \<Rightarrow> bytes
    \<times> u64" where
  "CompactionTelemetryRecord_committed r =
     (ctr_frame r, ctr_epoch_end r)"

interpretation compaction_telemetry_encoder: hash_log CompactionTelemetryRecord_bytes_of ctr_prev_hash
    ctr_record_hash CompactionTelemetryRecord_committed
  by unfold_locales (auto simp: CompactionTelemetryRecord_bytes_of_def
      CompactionTelemetryRecord_committed_def compaction_telemetry_encoder_record_bytes_inj)

lemma compaction_telemetry_encoder_verify_iff: "CompactionTelemetryLog_verify_chain sha l = (True,
    None) \<longleftrightarrow> compaction_telemetry_encoder.ok sha (ctl_records l)"
  by (simp add: CompactionTelemetryLog_verify_chain_def verify_from_iff)

lemma compaction_telemetry_log_record_frame_ok: "compaction_telemetry_encoder.ok sha (ctl_records l)
    \<Longrightarrow> compaction_telemetry_encoder.ok sha (ctl_records (snd
    (CompactionTelemetryLog_record_frame sha cert l)))"
  by (simp add: Let_def split_def CompactionTelemetryLog_record_frame_def
      compaction_telemetry_encoder_compute_record_hash_def CompactionTelemetryRecord_bytes_of_def split:
      option.split sum.split)

end
