(* ===== verification/Synthesis.thy ===== *)
theory Synthesis
  imports Gossip_Epoch_Logs
begin

text \<open>
  The verdict on an epoch from the health of the network and the counts of nodes, the ledgers of
  verdicts that the nodes keep, the compaction of health reports into an anchor, and the resilience of
  the verdict over a window.
\<close>

section \<open>Gossip Health Compactor (Gate 332)\<close>

text \<open>
  \<open>gossip_health_compactor.rs\<close>. Applies the same proof-preserving compaction pattern
  (Gate 328) to the GossipHealthMonitor record chain (Gate 320). Long-running epoch sequences cause
  the health report chain to grow without bound; this gate prunes old reports while sealing them in a
  HealthAnchor.
\<close>

record HealthAnchor =
  ha_anchor_epoch :: u64
  ha_terminal_hash :: hash
  ha_entry_count :: u64
  ha_peak_class :: NetworkHealthClass

definition gossip_health_compactor_class_byte :: "NetworkHealthClass \<Rightarrow> u8" where
  "gossip_health_compactor_class_byte c =
     (case c of
         NetworkHealthClass.Green \<Rightarrow> 0
       | NetworkHealthClass.Yellow \<Rightarrow> 1
       | NetworkHealthClass.Red \<Rightarrow> 2)"

definition class_severity :: "NetworkHealthClass \<Rightarrow> u8" where
  "class_severity c =
     gossip_health_compactor_class_byte c"

definition HealthAnchor_from_pruned :: "sha \<Rightarrow> (u64 \<times> hash \<times>
    NetworkHealthClass) list \<Rightarrow> HealthAnchor" where
  "HealthAnchor_from_pruned sha pruned =
     (if pruned = [] then
        \<lparr>ha_anchor_epoch = 0, ha_terminal_hash = genesis,
          ha_entry_count = 0, ha_peak_class = NetworkHealthClass.Green\<rparr>
      else
        (let (acc, peak) = fold (\<lambda>(epoch, report_hash, cls) (acc, peak).
               (sha (hash_bytes acc @ be8 epoch @ hash_bytes report_hash @
                 [gossip_health_compactor_class_byte cls]),
                if class_severity cls > class_severity peak then cls else peak))
               pruned (genesis, NetworkHealthClass.Green)
         in \<lparr>ha_anchor_epoch = fst (last pruned), ha_terminal_hash = acc,
              ha_entry_count = of_nat (length pruned), ha_peak_class = peak\<rparr>))"

record HealthCompactionInput =
  hci_reports :: "(u64 \<times> hash \<times> NetworkHealthClass) list"
  hci_retain_count :: nat
  hci_compaction_epoch :: u64

definition build_input ::
  "GossipHealthReport list \<Rightarrow> nat \<Rightarrow> u64 \<Rightarrow> HealthCompactionInput"
      where
  "build_input reports retain_count compaction_epoch =
     (let entries_v = map (\<lambda>r. (ghr_epoch r, ghr_report_hash r, ghr_health_class r)) reports
      in \<lparr>hci_reports = entries_v, hci_retain_count = retain_count,
          hci_compaction_epoch = compaction_epoch\<rparr>)"

record HealthCompactionResult =
  hcr_compaction_epoch :: u64
  hcr_pruned_count :: nat
  hcr_retained_count :: nat
  hcr_anchor :: HealthAnchor
  hcr_certificate_hash :: hash

definition gossip_health_compactor_certificate_bytes ::
  "u64 \<Rightarrow> nat \<Rightarrow> nat \<Rightarrow> HealthAnchor \<Rightarrow> bytes" where
  "gossip_health_compactor_certificate_bytes compaction_epoch pruned_count retained_count anchor =
     be8 compaction_epoch @ be8 (of_nat pruned_count :: u64) @ be8 (of_nat retained_count :: u64) @
         hash_bytes (ha_terminal_hash anchor) @ be8 (ha_anchor_epoch anchor) @
         [gossip_health_compactor_class_byte (ha_peak_class anchor)]"

definition gossip_health_compactor_compute_certificate_hash ::
  "sha \<Rightarrow> u64 \<Rightarrow> nat \<Rightarrow> nat \<Rightarrow> HealthAnchor \<Rightarrow>
      hash" where
  "gossip_health_compactor_compute_certificate_hash sha compaction_epoch pruned_count retained_count
      anchor =
     sha (gossip_health_compactor_certificate_bytes compaction_epoch pruned_count retained_count
         anchor)"

definition compact_health ::
  "sha \<Rightarrow> HealthCompactionInput \<Rightarrow> HealthCompactionResult" where
  "compact_health sha inp =
     (let total_v = length (hci_reports inp);
          pruned_count = (if (hci_retain_count inp) \<ge> total_v then 0 else total_v -
            (hci_retain_count inp));
          retained_count = total_v - pruned_count;
          pruned = take pruned_count (hci_reports inp);
          anchor = HealthAnchor_from_pruned sha pruned;
          certificate_hash = gossip_health_compactor_compute_certificate_hash sha (hci_compaction_epoch
            inp) pruned_count retained_count anchor
      in \<lparr>hcr_compaction_epoch = hci_compaction_epoch inp, hcr_pruned_count = pruned_count,
          hcr_retained_count = retained_count, hcr_anchor = anchor,
          hcr_certificate_hash = certificate_hash\<rparr>)"

record HealthCompactionRecord =
  hcr2_compaction_epoch :: u64
  hcr2_pruned_count :: u64
  hcr2_retained_count :: u64
  hcr2_anchor_epoch :: u64
  hcr2_anchor_term_hash :: hash
  hcr2_peak_class :: NetworkHealthClass
  hcr2_record_hash :: hash
  hcr2_prev_hash :: hash

definition gossip_health_compactor_record_bytes ::
  "hash \<Rightarrow> u64 \<Rightarrow> u64 \<Rightarrow> u64 \<Rightarrow> u64 \<Rightarrow> hash
      \<Rightarrow> NetworkHealthClass \<Rightarrow> bytes" where
  "gossip_health_compactor_record_bytes prev compaction_epoch pruned_count retained_count anchor_epoch
      term_hash peak =
     hash_bytes prev @ be8 compaction_epoch @ be8 pruned_count @ be8 retained_count @ be8 anchor_epoch @
         hash_bytes term_hash @ [gossip_health_compactor_class_byte peak]"

definition gossip_health_compactor_compute_record_hash ::
  "sha \<Rightarrow> hash \<Rightarrow> u64 \<Rightarrow> u64 \<Rightarrow> u64 \<Rightarrow> u64
      \<Rightarrow> hash \<Rightarrow> NetworkHealthClass \<Rightarrow> hash" where
  "gossip_health_compactor_compute_record_hash sha prev compaction_epoch pruned_count retained_count
      anchor_epoch term_hash peak =
     sha (gossip_health_compactor_record_bytes prev compaction_epoch pruned_count retained_count
         anchor_epoch term_hash peak)"

record HealthCompactionLog =
  hcl_records :: "HealthCompactionRecord list"

definition HealthCompactionLog_new :: "HealthCompactionLog" where
  "HealthCompactionLog_new =
     \<lparr>hcl_records = []\<rparr>"

definition HealthCompactionLog_record ::
  "sha \<Rightarrow> HealthCompactionResult \<Rightarrow> HealthCompactionLog \<Rightarrow>
      HealthCompactionRecord \<times> HealthCompactionLog" where
  "HealthCompactionLog_record sha result self =
     (let prev = last_hash hcr2_record_hash (hcl_records self);
          record_hash = gossip_health_compactor_compute_record_hash sha prev (hcr_compaction_epoch
            result) (of_nat (hcr_pruned_count result) :: u64) (of_nat (hcr_retained_count result) ::
            u64) (ha_anchor_epoch (hcr_anchor result)) (ha_terminal_hash (hcr_anchor result))
            (ha_peak_class (hcr_anchor result));
          rec = \<lparr>hcr2_compaction_epoch = hcr_compaction_epoch result,
            hcr2_pruned_count = (of_nat (hcr_pruned_count result) :: u64),
            hcr2_retained_count = (of_nat (hcr_retained_count result) :: u64),
            hcr2_anchor_epoch = ha_anchor_epoch (hcr_anchor result),
            hcr2_anchor_term_hash = ha_terminal_hash (hcr_anchor result),
            hcr2_peak_class = ha_peak_class (hcr_anchor result), hcr2_record_hash = record_hash,
            hcr2_prev_hash = prev\<rparr>;
          self = self\<lparr>hcl_records := (hcl_records self) @ [rec]\<rparr>
      in (rec, self))"

definition HealthCompactionLog_total_pruned :: "HealthCompactionLog \<Rightarrow> u64" where
  "HealthCompactionLog_total_pruned self =
     sum_list (map hcr2_pruned_count (hcl_records self))"

definition HealthCompactionLog_latest ::
  "HealthCompactionLog \<Rightarrow> HealthCompactionRecord option" where
  "HealthCompactionLog_latest self =
     last_opt (hcl_records self)"

definition HealthCompactionRecord_bytes_of :: "HealthCompactionRecord \<Rightarrow> bytes" where
  "HealthCompactionRecord_bytes_of r =
     gossip_health_compactor_record_bytes (hcr2_prev_hash r) (hcr2_compaction_epoch r)
         (hcr2_pruned_count r) (hcr2_retained_count r) (hcr2_anchor_epoch r) (hcr2_anchor_term_hash r)
         (hcr2_peak_class r)"

definition HealthCompactionLog_verify_chain ::
  "sha \<Rightarrow> HealthCompactionLog \<Rightarrow> bool \<times> nat option" where
  "HealthCompactionLog_verify_chain sha self =
     verify_from hcr2_prev_hash hcr2_record_hash (\<lambda>r. sha (HealthCompactionRecord_bytes_of r)) 0
         genesis (hcl_records self)"

lemma gossip_health_compactor_record_bytes_inj:
  "gossip_health_compactor_record_bytes prev compaction_epoch pruned_count retained_count anchor_epoch
      term_hash peak = gossip_health_compactor_record_bytes prev' compaction_epoch' pruned_count'
      retained_count' anchor_epoch' term_hash' peak' \<longleftrightarrow>
   prev = prev' \<and> compaction_epoch = compaction_epoch' \<and> pruned_count = pruned_count' \<and>
       retained_count = retained_count' \<and> anchor_epoch = anchor_epoch' \<and> term_hash =
       term_hash' \<and> (gossip_health_compactor_class_byte peak) = (gossip_health_compactor_class_byte
       peak')"
  by (auto simp: gossip_health_compactor_record_bytes_def enc_simps)

definition HealthCompactionRecord_committed :: "HealthCompactionRecord \<Rightarrow> u64 \<times> u64
    \<times> u64 \<times> u64 \<times> hash \<times> u8" where
  "HealthCompactionRecord_committed r =
     (hcr2_compaction_epoch r, hcr2_pruned_count r, hcr2_retained_count r, hcr2_anchor_epoch r,
         hcr2_anchor_term_hash r, gossip_health_compactor_class_byte (hcr2_peak_class r))"

interpretation health_compactor: hash_log HealthCompactionRecord_bytes_of hcr2_prev_hash
    hcr2_record_hash HealthCompactionRecord_committed
  by unfold_locales (auto simp: HealthCompactionRecord_bytes_of_def HealthCompactionRecord_committed_def
      gossip_health_compactor_record_bytes_inj)

lemma health_compactor_verify_iff: "HealthCompactionLog_verify_chain sha l = (True,
    None) \<longleftrightarrow> health_compactor.ok sha (hcl_records l)"
  by (simp add: HealthCompactionLog_verify_chain_def verify_from_iff)

lemma health_compaction_log_record_ok: "health_compactor.ok sha (hcl_records l) \<Longrightarrow>
    health_compactor.ok sha (hcl_records (snd (HealthCompactionLog_record sha result l)))"
  by (simp add: Let_def split_def HealthCompactionLog_record_def
      gossip_health_compactor_compute_record_hash_def HealthCompactionRecord_bytes_of_def split:
      option.split sum.split)

section \<open>Constitutional Synthesis Monitor (Gate 322)\<close>

text \<open>
  \<open>constitutional_synthesis.rs\<close>. Synthesises the gossip health verdict (Gate 320) and
  resonance certification (Gate 321) into a single T0 constitutional verdict with a SHA-256 hash
  chain.
\<close>

definition compute_t0_verdict :: "NetworkHealthClass \<Rightarrow> bool \<Rightarrow> bool" where
  "compute_t0_verdict gossip_health_class resonance_certified \<longleftrightarrow>
     gossip_health_class \<noteq> NetworkHealthClass.Red \<and> resonance_certified"

record ConstitutionalSynthesisRecord =
  csr_epoch :: u64
  csr_gossip_health_class :: NetworkHealthClass
  csr_resonance_certified :: bool
  csr_t0_verdict :: bool
  csr_report_hash :: hash
  csr_prev_hash :: hash

record SynthesisInput =
  si2_epoch :: u64
  si2_gossip_health_class :: NetworkHealthClass
  si2_resonance_certified :: bool

definition synthesis_bytes ::
  "hash \<Rightarrow> u64 \<Rightarrow> NetworkHealthClass \<Rightarrow> bool \<Rightarrow> bool
      \<Rightarrow> bytes" where
  "synthesis_bytes prev epoch health certified t0 =
     hash_bytes prev @ be8 epoch @ [NetworkHealthClass_class_byte health] @ [of_bool certified] @
         [of_bool t0]"

definition compute_synthesis_hash ::
  "sha \<Rightarrow> hash \<Rightarrow> u64 \<Rightarrow> NetworkHealthClass \<Rightarrow> bool
      \<Rightarrow> bool \<Rightarrow> hash" where
  "compute_synthesis_hash sha prev epoch health certified t0 =
     sha (synthesis_bytes prev epoch health certified t0)"

record ConstitutionalSynthesisMonitor =
  csm_records :: "ConstitutionalSynthesisRecord list"

definition ConstitutionalSynthesisMonitor_new :: "ConstitutionalSynthesisMonitor" where
  "ConstitutionalSynthesisMonitor_new =
     \<lparr>csm_records = []\<rparr>"

definition ConstitutionalSynthesisMonitor_record ::
  "sha \<Rightarrow> SynthesisInput \<Rightarrow> ConstitutionalSynthesisMonitor \<Rightarrow>
      ConstitutionalSynthesisRecord \<times> ConstitutionalSynthesisMonitor" where
  "ConstitutionalSynthesisMonitor_record sha inp self =
     (let prev = last_hash csr_report_hash (csm_records self);
          t0 = compute_t0_verdict (si2_gossip_health_class inp) (si2_resonance_certified inp);
          report_hash = compute_synthesis_hash sha prev (si2_epoch inp) (si2_gossip_health_class inp)
            (si2_resonance_certified inp) t0;
          rec = \<lparr>csr_epoch = si2_epoch inp, csr_gossip_health_class = si2_gossip_health_class
            inp, csr_resonance_certified = si2_resonance_certified inp, csr_t0_verdict = t0,
            csr_report_hash = report_hash, csr_prev_hash = prev\<rparr>;
          self = self\<lparr>csm_records := (csm_records self) @ [rec]\<rparr>
      in (rec, self))"

definition ConstitutionalSynthesisMonitor_latest ::
  "ConstitutionalSynthesisMonitor \<Rightarrow> ConstitutionalSynthesisRecord option" where
  "ConstitutionalSynthesisMonitor_latest self =
     last_opt (csm_records self)"

definition ConstitutionalSynthesisMonitor_t0_verdict ::
  "ConstitutionalSynthesisMonitor \<Rightarrow> bool option" where
  "ConstitutionalSynthesisMonitor_t0_verdict self =
     map_option csr_t0_verdict (ConstitutionalSynthesisMonitor_latest self)"

definition ConstitutionalSynthesisMonitor_health_class ::
  "ConstitutionalSynthesisMonitor \<Rightarrow> NetworkHealthClass option" where
  "ConstitutionalSynthesisMonitor_health_class self =
     map_option csr_gossip_health_class (ConstitutionalSynthesisMonitor_latest self)"

definition ConstitutionalSynthesisRecord_bytes_of ::
  "ConstitutionalSynthesisRecord \<Rightarrow> bytes" where
  "ConstitutionalSynthesisRecord_bytes_of r =
     synthesis_bytes (csr_prev_hash r) (csr_epoch r) (csr_gossip_health_class r)
         (csr_resonance_certified r) (csr_t0_verdict r)"

definition ConstitutionalSynthesisMonitor_verify_chain ::
  "sha \<Rightarrow> ConstitutionalSynthesisMonitor \<Rightarrow> bool \<times> nat option" where
  "ConstitutionalSynthesisMonitor_verify_chain sha self =
     verify_from csr_prev_hash csr_report_hash (\<lambda>r. sha (ConstitutionalSynthesisRecord_bytes_of
         r)) 0 genesis (csm_records self)"

lemma synthesis_bytes_inj:
  "synthesis_bytes prev epoch health certified t0 = synthesis_bytes prev' epoch' health' certified' t0'
      \<longleftrightarrow>
   prev = prev' \<and> epoch = epoch' \<and> (NetworkHealthClass_class_byte health) =
       (NetworkHealthClass_class_byte health') \<and> certified = certified' \<and> t0 = t0'"
  by (auto simp: synthesis_bytes_def enc_simps)

definition ConstitutionalSynthesisRecord_committed :: "ConstitutionalSynthesisRecord \<Rightarrow> u64
    \<times> u8 \<times> bool \<times> bool" where
  "ConstitutionalSynthesisRecord_committed r =
     (csr_epoch r, NetworkHealthClass_class_byte (csr_gossip_health_class r), csr_resonance_certified r,
         csr_t0_verdict r)"

interpretation constitutional_synthesis: hash_log ConstitutionalSynthesisRecord_bytes_of csr_prev_hash
    csr_report_hash ConstitutionalSynthesisRecord_committed
  by unfold_locales (auto simp: ConstitutionalSynthesisRecord_bytes_of_def
      ConstitutionalSynthesisRecord_committed_def synthesis_bytes_inj)

lemma constitutional_synthesis_verify_iff: "ConstitutionalSynthesisMonitor_verify_chain sha l = (True,
    None) \<longleftrightarrow> constitutional_synthesis.ok sha (csm_records l)"
  by (simp add: ConstitutionalSynthesisMonitor_verify_chain_def verify_from_iff)

lemma constitutional_synthesis_monitor_record_ok: "constitutional_synthesis.ok sha (csm_records l)
    \<Longrightarrow> constitutional_synthesis.ok sha (csm_records (snd
    (ConstitutionalSynthesisMonitor_record sha inp l)))"
  by (simp add: Let_def split_def ConstitutionalSynthesisMonitor_record_def compute_synthesis_hash_def
      ConstitutionalSynthesisRecord_bytes_of_def split: option.split sum.split)

section \<open>Constitutional Verdict Ledger (Gate 323)\<close>

text \<open>
  \<open>verdict_ledger.rs\<close>. Per-node T0 constitutional verdict tracking with tamper-evident
  SHA-256 hash chain. Aggregates Gate 322 synthesis verdicts across a distributed swarm; enables each
  node to maintain its own constitutional audit trail and cross-verify peers at epoch boundaries.
\<close>

record VerdictEntry =
  ve2_node_id :: u64
  ve2_epoch :: u64
  ve2_t0_verdict :: bool
  ve2_health_class :: NetworkHealthClass
  ve2_resonance_certified :: bool
  ve2_entry_hash :: hash
  ve2_prev_hash :: hash

record VerdictInput =
  vi_node_id :: u64
  vi_epoch :: u64
  vi_t0_verdict :: bool
  vi_health_class :: NetworkHealthClass
  vi_resonance_certified :: bool

definition verdict_ledger_verdict_bytes ::
  "hash \<Rightarrow> u64 \<Rightarrow> u64 \<Rightarrow> bool \<Rightarrow> NetworkHealthClass
      \<Rightarrow> bool \<Rightarrow> bytes" where
  "verdict_ledger_verdict_bytes prev node_id epoch t0_verdict health_class resonance_certified =
     hash_bytes prev @ be8 node_id @ be8 epoch @ [of_bool t0_verdict] @
         [NetworkHealthClass_class_byte health_class] @ [of_bool resonance_certified]"

definition verdict_ledger_compute_verdict_hash ::
  "sha \<Rightarrow> hash \<Rightarrow> u64 \<Rightarrow> u64 \<Rightarrow> bool \<Rightarrow>
      NetworkHealthClass \<Rightarrow> bool \<Rightarrow> hash" where
  "verdict_ledger_compute_verdict_hash sha prev node_id epoch t0_verdict health_class
      resonance_certified =
     sha (verdict_ledger_verdict_bytes prev node_id epoch t0_verdict health_class resonance_certified)"

record NodeVerdictLedger =
  nvl_node_id :: u64
  nvl_entries :: "VerdictEntry list"

definition NodeVerdictLedger_new :: "u64 \<Rightarrow> NodeVerdictLedger" where
  "NodeVerdictLedger_new node_id =
     \<lparr>nvl_node_id = node_id, nvl_entries = []\<rparr>"

datatype VerdictLedgerError = VerdictLedgerError string

definition NodeVerdictLedger_append ::
  "sha \<Rightarrow> VerdictInput \<Rightarrow> NodeVerdictLedger \<Rightarrow> (VerdictLedgerError +
      VerdictEntry) \<times> NodeVerdictLedger" where
  "NodeVerdictLedger_append sha inp self =
     (if (vi_node_id inp) \<noteq> (nvl_node_id self) then (Inl (VerdictLedgerError
         ''[VERDICT] node_id mismatch''), self)
      else (let prev = last_hash ve2_entry_hash (nvl_entries self);
          entry_hash = verdict_ledger_compute_verdict_hash sha prev (vi_node_id inp) (vi_epoch inp)
            (vi_t0_verdict inp) (vi_health_class inp) (vi_resonance_certified inp);
          entry = \<lparr>ve2_node_id = vi_node_id inp, ve2_epoch = vi_epoch inp,
            ve2_t0_verdict = vi_t0_verdict inp, ve2_health_class = vi_health_class inp,
            ve2_resonance_certified = vi_resonance_certified inp, ve2_entry_hash = entry_hash,
            ve2_prev_hash = prev\<rparr>;
          self = self\<lparr>nvl_entries := (nvl_entries self) @ [entry]\<rparr>
      in (Inr entry, self)))"

definition NodeVerdictLedger_latest :: "NodeVerdictLedger \<Rightarrow> VerdictEntry option" where
  "NodeVerdictLedger_latest self =
     last_opt (nvl_entries self)"

definition NodeVerdictLedger_t0_verdict :: "NodeVerdictLedger \<Rightarrow> bool option" where
  "NodeVerdictLedger_t0_verdict self =
     map_option ve2_t0_verdict (NodeVerdictLedger_latest self)"

definition NodeVerdictLedger_terminal_hash :: "NodeVerdictLedger \<Rightarrow> hash" where
  "NodeVerdictLedger_terminal_hash self =
     last_hash ve2_entry_hash (nvl_entries self)"

definition NodeVerdictLedger_certified_count :: "NodeVerdictLedger \<Rightarrow> nat" where
  "NodeVerdictLedger_certified_count self =
     length (filter ve2_t0_verdict (nvl_entries self))"

definition VerdictEntry_bytes_of :: "VerdictEntry \<Rightarrow> bytes" where
  "VerdictEntry_bytes_of e =
     verdict_ledger_verdict_bytes (ve2_prev_hash e) (ve2_node_id e) (ve2_epoch e) (ve2_t0_verdict e)
         (ve2_health_class e) (ve2_resonance_certified e)"

definition NodeVerdictLedger_verify_chain ::
  "sha \<Rightarrow> NodeVerdictLedger \<Rightarrow> bool \<times> nat option" where
  "NodeVerdictLedger_verify_chain sha self =
     verify_from ve2_prev_hash ve2_entry_hash (\<lambda>r. sha (VerdictEntry_bytes_of r)) 0 genesis
         (nvl_entries self)"

record SwarmVerdictRegistry =
  svr_ledgers :: "(u64, NodeVerdictLedger) btmap"

definition SwarmVerdictRegistry_new :: "SwarmVerdictRegistry" where
  "SwarmVerdictRegistry_new =
     \<lparr>svr_ledgers = bt_empty\<rparr>"

definition SwarmVerdictRegistry_node_count :: "SwarmVerdictRegistry \<Rightarrow> nat" where
  "SwarmVerdictRegistry_node_count self =
     bt_len (svr_ledgers self)"

definition SwarmVerdictRegistry_record_verdict ::
  "sha \<Rightarrow> VerdictInput \<Rightarrow> SwarmVerdictRegistry \<Rightarrow> (VerdictLedgerError +
      VerdictEntry) \<times> SwarmVerdictRegistry" where
  "SwarmVerdictRegistry_record_verdict sha inp self =
     (let ledger = bt_get_or (NodeVerdictLedger_new (vi_node_id inp)) (svr_ledgers self) (vi_node_id
         inp)
      in (let (result, ledger) = NodeVerdictLedger_append sha inp ledger;
          self = self\<lparr>svr_ledgers := bt_insert (vi_node_id inp) ledger (svr_ledgers self)\<rparr>
      in (result, self)))"

definition SwarmVerdictRegistry_ledger_for ::
  "u64 \<Rightarrow> SwarmVerdictRegistry \<Rightarrow> NodeVerdictLedger option" where
  "SwarmVerdictRegistry_ledger_for node_id self =
     bt_get (svr_ledgers self) node_id"

definition SwarmVerdictRegistry_all_ledgers :: "SwarmVerdictRegistry \<Rightarrow> (u64 \<times>
    NodeVerdictLedger) list" where
  "SwarmVerdictRegistry_all_ledgers self = entries (svr_ledgers self)"

definition SwarmVerdictRegistry_consensus_t0 :: "SwarmVerdictRegistry \<Rightarrow> bool" where
  "SwarmVerdictRegistry_consensus_t0 self \<longleftrightarrow>
     (if bt_len (svr_ledgers self) = 0 then False
      else list_all (\<lambda>l. (NodeVerdictLedger_t0_verdict l) = (Some True)) (bt_values (svr_ledgers
          self)))"

definition SwarmVerdictRegistry_quorum_t0 :: "SwarmVerdictRegistry \<Rightarrow> bool" where
  "SwarmVerdictRegistry_quorum_t0 self \<longleftrightarrow>
     (let total_v = bt_len (svr_ledgers self)
      in if total_v = 0 then False
      else (let true_count = length (filter (\<lambda>l. (NodeVerdictLedger_t0_verdict l) = (Some True))
          (bt_values (svr_ledgers self)))
      in (usize_mul true_count 1000000) \<ge> (usize_mul total_v 618034)))"

definition SwarmVerdictRegistry_verify_all ::
  "sha \<Rightarrow> SwarmVerdictRegistry \<Rightarrow> bool \<times> ((u64, nat) btmap)" where
  "SwarmVerdictRegistry_verify_all sha self =
     (let failures = bt_empty;
          failures = fold (\<lambda>(node_id, ledger) failures. (let (ok_v,
            idx) = NodeVerdictLedger_verify_chain sha ledger;
          failures = (if \<not> ok_v then (let failures = bt_insert node_id (unwrap_or 0 idx) failures
      in failures)
      else failures)
      in failures)) (entries (svr_ledgers self)) failures
      in (bt_len failures = 0, failures))"

lemma verdict_ledger_verdict_bytes_inj:
  "verdict_ledger_verdict_bytes prev node_id epoch t0_verdict health_class resonance_certified =
      verdict_ledger_verdict_bytes prev' node_id' epoch' t0_verdict' health_class' resonance_certified'
      \<longleftrightarrow>
   prev = prev' \<and> node_id = node_id' \<and> epoch = epoch' \<and> t0_verdict = t0_verdict' \<and>
       (NetworkHealthClass_class_byte health_class) = (NetworkHealthClass_class_byte health_class')
       \<and> resonance_certified = resonance_certified'"
  by (auto simp: verdict_ledger_verdict_bytes_def enc_simps)

definition VerdictEntry_committed :: "VerdictEntry \<Rightarrow> u64 \<times> u64 \<times> bool \<times>
    u8 \<times> bool" where
  "VerdictEntry_committed e =
     (ve2_node_id e, ve2_epoch e, ve2_t0_verdict e, NetworkHealthClass_class_byte (ve2_health_class e),
         ve2_resonance_certified e)"

interpretation verdict_ledger: hash_log VerdictEntry_bytes_of ve2_prev_hash ve2_entry_hash
    VerdictEntry_committed
  by unfold_locales (auto simp: VerdictEntry_bytes_of_def VerdictEntry_committed_def
      verdict_ledger_verdict_bytes_inj)

lemma verdict_ledger_verify_iff: "NodeVerdictLedger_verify_chain sha l = (True,
    None) \<longleftrightarrow> verdict_ledger.ok sha (nvl_entries l)"
  by (simp add: NodeVerdictLedger_verify_chain_def verify_from_iff)

lemma node_verdict_ledger_append_ok: "verdict_ledger.ok sha (nvl_entries l) \<Longrightarrow>
    verdict_ledger.ok sha (nvl_entries (snd (NodeVerdictLedger_append sha inp l)))"
  by (simp add: Let_def split_def NodeVerdictLedger_append_def verdict_ledger_compute_verdict_hash_def
      VerdictEntry_bytes_of_def NodeVerdictLedger_terminal_hash_def split: option.split sum.split)

section \<open>Synthesis Resilience Monitor (Gate 327)\<close>

text \<open>
  \<open>synthesis_resilience.rs\<close>. Rolling-window health tracker for the constitutional
  synthesis arc (Gates 320-326) under network stress. Detects three failure signatures:
\<close>

definition synthesis_resilience_WINDOW_SIZE :: nat where
  "synthesis_resilience_WINDOW_SIZE = 8"

definition OSCILLATION_THRESHOLD :: nat where
  "OSCILLATION_THRESHOLD = 3"

definition QUORUM_LOSS_THRESHOLD :: nat where
  "QUORUM_LOSS_THRESHOLD = 3"

definition MAX_ALLOWED_GAP :: u64 where
  "MAX_ALLOWED_GAP = 2"

datatype ResilienceVerdict_resilience = Healthy | T0Oscillating | QuorumLoss | EpochGap | Degraded

fun ResilienceVerdict_resilience_as_u8 :: "ResilienceVerdict_resilience \<Rightarrow> u8" where
  "ResilienceVerdict_resilience_as_u8 ResilienceVerdict_resilience.Healthy = 0"
| "ResilienceVerdict_resilience_as_u8 ResilienceVerdict_resilience.T0Oscillating = 1"
| "ResilienceVerdict_resilience_as_u8 ResilienceVerdict_resilience.QuorumLoss = 2"
| "ResilienceVerdict_resilience_as_u8 ResilienceVerdict_resilience.EpochGap = 3"
| "ResilienceVerdict_resilience_as_u8 ResilienceVerdict_resilience.Degraded = 4"

lemma ResilienceVerdict_resilience_as_u8_inj [simp]: "ResilienceVerdict_resilience_as_u8 x =
    ResilienceVerdict_resilience_as_u8 y \<longleftrightarrow> x = y"
  by (cases x; cases y) auto

definition ResilienceVerdict_resilience_is_healthy ::
  "ResilienceVerdict_resilience \<Rightarrow> bool" where
  "ResilienceVerdict_resilience_is_healthy self \<longleftrightarrow>
     self = ResilienceVerdict_resilience.Healthy"

definition ResilienceVerdict_resilience_from_flags ::
  "bool \<Rightarrow> bool \<Rightarrow> bool \<Rightarrow> ResilienceVerdict_resilience" where
  "ResilienceVerdict_resilience_from_flags oscillating quorum_loss epoch_gap =
     (let count_v = ((of_bool oscillating :: nat) + (of_bool quorum_loss :: nat)) + (of_bool epoch_gap
         :: nat)
      in if count_v = 0 then ResilienceVerdict_resilience.Healthy else if (count_v = 1) \<and>
          oscillating then ResilienceVerdict_resilience.T0Oscillating else if (count_v = 1) \<and>
          quorum_loss then ResilienceVerdict_resilience.QuorumLoss else if count_v = 1 then
          ResilienceVerdict_resilience.EpochGap else ResilienceVerdict_resilience.Degraded)"

record EpochSnapshot_resilience =
  es3_epoch :: u64
  es3_t0_verdict :: bool
  es3_quorum_met :: bool

record ResilienceRecord =
  rr2_epoch :: u64
  rr2_t0_verdict :: bool
  rr2_quorum_met :: bool
  rr2_verdict :: ResilienceVerdict_resilience
  rr2_flip_count :: u8
  rr2_quorum_miss_count :: u8
  rr2_record_hash :: hash
  rr2_prev_hash :: hash

definition verdict_byte :: "ResilienceVerdict_resilience \<Rightarrow> u8" where
  "verdict_byte v =
     (case v of
         ResilienceVerdict_resilience.Healthy \<Rightarrow> 0
       | ResilienceVerdict_resilience.T0Oscillating \<Rightarrow> 1
       | ResilienceVerdict_resilience.QuorumLoss \<Rightarrow> 2
       | ResilienceVerdict_resilience.EpochGap \<Rightarrow> 3
       | ResilienceVerdict_resilience.Degraded \<Rightarrow> 4)"

definition synthesis_resilience_record_bytes ::
  "hash \<Rightarrow> u64 \<Rightarrow> bool \<Rightarrow> bool \<Rightarrow>
      ResilienceVerdict_resilience \<Rightarrow> u8 \<Rightarrow> u8 \<Rightarrow> bytes" where
  "synthesis_resilience_record_bytes prev epoch t0 quorum verdict flips quorum_miss =
     hash_bytes prev @ be8 epoch @ [of_bool t0] @ [of_bool quorum] @ [verdict_byte verdict] @ [flips] @
         [quorum_miss]"

definition synthesis_resilience_compute_record_hash ::
  "sha \<Rightarrow> hash \<Rightarrow> u64 \<Rightarrow> bool \<Rightarrow> bool \<Rightarrow>
      ResilienceVerdict_resilience \<Rightarrow> u8 \<Rightarrow> u8 \<Rightarrow> hash" where
  "synthesis_resilience_compute_record_hash sha prev epoch t0 quorum verdict flips quorum_miss =
     sha (synthesis_resilience_record_bytes prev epoch t0 quorum verdict flips quorum_miss)"

record SynthesisResilienceMonitor =
  srm_records :: "ResilienceRecord list"
  srm_window :: "EpochSnapshot_resilience list"
  srm_last_epoch :: "u64 option"

definition SynthesisResilienceMonitor_new :: "SynthesisResilienceMonitor" where
  "SynthesisResilienceMonitor_new =
     \<lparr>srm_records = [], srm_window = [], srm_last_epoch = None\<rparr>"

fun verdict_flips :: "EpochSnapshot_resilience list \<Rightarrow> u8 \<Rightarrow> u8" where
  "verdict_flips (a # b # snaps) flips =
     verdict_flips (b # snaps) (if es3_t0_verdict a \<noteq> es3_t0_verdict b then sat_add flips 1 else
         flips)"
| "verdict_flips snaps flips = flips"

definition SynthesisResilienceMonitor_count_flips :: "SynthesisResilienceMonitor \<Rightarrow> u8" where
  "SynthesisResilienceMonitor_count_flips self = verdict_flips (srm_window self) 0"

definition SynthesisResilienceMonitor_observe ::
  "sha \<Rightarrow> EpochSnapshot_resilience \<Rightarrow> SynthesisResilienceMonitor \<Rightarrow>
      ResilienceRecord \<times> SynthesisResilienceMonitor" where
  "SynthesisResilienceMonitor_observe sha snap self =
     (let epoch_gap = (case srm_last_epoch self of Some prev \<Rightarrow> (sat_sub (es3_epoch snap)
         prev) > (MAX_ALLOWED_GAP + 1) | None \<Rightarrow> False);
          self = self\<lparr>srm_last_epoch := Some (es3_epoch snap)\<rparr>;
          self = self\<lparr>srm_window := (srm_window self) @ [snap]\<rparr>;
          self = (if (length (srm_window self)) > synthesis_resilience_WINDOW_SIZE then (let self =
            self\<lparr>srm_window := tl (srm_window self)\<rparr>
      in self)
      else self);
          flip_count = SynthesisResilienceMonitor_count_flips self;
          quorum_miss_count = (of_nat (length (filter (\<lambda>s. \<not> (es3_quorum_met s))
            (srm_window self))) :: u8);
          oscillating = (unat flip_count) \<ge> OSCILLATION_THRESHOLD;
          quorum_loss = (unat quorum_miss_count) \<ge> QUORUM_LOSS_THRESHOLD;
          verdict = ResilienceVerdict_resilience_from_flags oscillating quorum_loss epoch_gap;
          prev = last_hash rr2_record_hash (srm_records self);
          record_hash = synthesis_resilience_compute_record_hash sha prev (es3_epoch snap)
            (es3_t0_verdict snap) (es3_quorum_met snap) verdict flip_count quorum_miss_count;
          rec = \<lparr>rr2_epoch = es3_epoch snap, rr2_t0_verdict = es3_t0_verdict snap,
            rr2_quorum_met = es3_quorum_met snap, rr2_verdict = verdict, rr2_flip_count = flip_count,
            rr2_quorum_miss_count = quorum_miss_count, rr2_record_hash = record_hash,
            rr2_prev_hash = prev\<rparr>;
          self = self\<lparr>srm_records := (srm_records self) @ [rec]\<rparr>
      in (rec, self))"

definition SynthesisResilienceMonitor_latest ::
  "SynthesisResilienceMonitor \<Rightarrow> ResilienceRecord option" where
  "SynthesisResilienceMonitor_latest self =
     last_opt (srm_records self)"

definition SynthesisResilienceMonitor_current_verdict ::
  "SynthesisResilienceMonitor \<Rightarrow> ResilienceVerdict_resilience option" where
  "SynthesisResilienceMonitor_current_verdict self =
     map_option rr2_verdict (SynthesisResilienceMonitor_latest self)"

definition SynthesisResilienceMonitor_healthy_count ::
  "SynthesisResilienceMonitor \<Rightarrow> nat" where
  "SynthesisResilienceMonitor_healthy_count self =
     length (filter (\<lambda>r. ResilienceVerdict_resilience_is_healthy (rr2_verdict r)) (srm_records
         self))"

definition SynthesisResilienceMonitor_degraded_count ::
  "SynthesisResilienceMonitor \<Rightarrow> nat" where
  "SynthesisResilienceMonitor_degraded_count self =
     length (filter (\<lambda>r. (rr2_verdict r) = ResilienceVerdict_resilience.Degraded) (srm_records
         self))"

definition ResilienceRecord_bytes_of :: "ResilienceRecord \<Rightarrow> bytes" where
  "ResilienceRecord_bytes_of r =
     synthesis_resilience_record_bytes (rr2_prev_hash r) (rr2_epoch r) (rr2_t0_verdict r)
         (rr2_quorum_met r) (rr2_verdict r) (rr2_flip_count r) (rr2_quorum_miss_count r)"

definition SynthesisResilienceMonitor_verify_chain ::
  "sha \<Rightarrow> SynthesisResilienceMonitor \<Rightarrow> bool \<times> nat option" where
  "SynthesisResilienceMonitor_verify_chain sha self =
     verify_from rr2_prev_hash rr2_record_hash (\<lambda>r. sha (ResilienceRecord_bytes_of r)) 0 genesis
         (srm_records self)"

lemma synthesis_resilience_record_bytes_inj:
  "synthesis_resilience_record_bytes prev epoch t0 quorum verdict flips quorum_miss =
      synthesis_resilience_record_bytes prev' epoch' t0' quorum' verdict' flips' quorum_miss'
      \<longleftrightarrow>
   prev = prev' \<and> epoch = epoch' \<and> t0 = t0' \<and> quorum = quorum' \<and> (verdict_byte
       verdict) = (verdict_byte verdict') \<and> flips = flips' \<and> quorum_miss = quorum_miss'"
  by (auto simp: synthesis_resilience_record_bytes_def enc_simps)

definition ResilienceRecord_committed :: "ResilienceRecord \<Rightarrow> u64 \<times> bool \<times> bool
    \<times> u8 \<times> u8 \<times> u8" where
  "ResilienceRecord_committed r =
     (rr2_epoch r, rr2_t0_verdict r, rr2_quorum_met r, verdict_byte (rr2_verdict r), rr2_flip_count r,
         rr2_quorum_miss_count r)"

interpretation synthesis_resilience: hash_log ResilienceRecord_bytes_of rr2_prev_hash rr2_record_hash
    ResilienceRecord_committed
  by unfold_locales (auto simp: ResilienceRecord_bytes_of_def ResilienceRecord_committed_def
      synthesis_resilience_record_bytes_inj)

lemma synthesis_resilience_verify_iff: "SynthesisResilienceMonitor_verify_chain sha l = (True,
    None) \<longleftrightarrow> synthesis_resilience.ok sha (srm_records l)"
  by (simp add: SynthesisResilienceMonitor_verify_chain_def verify_from_iff)

lemma synthesis_resilience_monitor_observe_ok: "synthesis_resilience.ok sha (srm_records l)
    \<Longrightarrow> synthesis_resilience.ok sha (srm_records (snd (SynthesisResilienceMonitor_observe
    sha snap l)))"
  by (simp add: Let_def split_def SynthesisResilienceMonitor_observe_def
      synthesis_resilience_compute_record_hash_def ResilienceRecord_bytes_of_def split: option.split
      sum.split)

end
