(* ===== verification/Peer_Quality.thy ===== *)
theory Peer_Quality
  imports Epoch_Log
begin

text \<open>
  What a node keeps of the quality of each of its peers: the latency and the quality of the link with
  their tiers, the heartbeats it misses, the probes between pairs, the verdict on its liveness and its
  score. Every component is a map from peers to logs that grow by one record per observation.
\<close>

section \<open>Peer Latency Tracker: per-peer round-trip latency estimation (Gate 276)\<close>

text \<open>
  \<open>latency_tracker.rs\<close>. Tracks observed round-trip latency (in milliseconds) per peer
  over a rolling window of samples. Classifies each peer into a LatencyTier based on the rolling
  average.
\<close>

definition LATENCY_WINDOW :: nat where
  "LATENCY_WINDOW = 8"

datatype LatencyTier_tracker = Fast | Normal | Slow | Timeout

fun LatencyTier_tracker_as_u8 :: "LatencyTier_tracker \<Rightarrow> u8" where
  "LatencyTier_tracker_as_u8 LatencyTier_tracker.Fast = 0"
| "LatencyTier_tracker_as_u8 LatencyTier_tracker.Normal = 1"
| "LatencyTier_tracker_as_u8 LatencyTier_tracker.Slow = 2"
| "LatencyTier_tracker_as_u8 LatencyTier_tracker.Timeout = 3"

lemma LatencyTier_tracker_as_u8_inj [simp]: "LatencyTier_tracker_as_u8 x = LatencyTier_tracker_as_u8 y
    \<longleftrightarrow> x = y"
  by (cases x; cases y) auto

instantiation LatencyTier_tracker :: linorder
begin

definition less_eq_LatencyTier_tracker where
  "a \<le> b \<longleftrightarrow> LatencyTier_tracker_as_u8 a \<le> LatencyTier_tracker_as_u8 b"

definition less_LatencyTier_tracker where
  "a < b \<longleftrightarrow> LatencyTier_tracker_as_u8 a < LatencyTier_tracker_as_u8 b"

instance
  by standard (auto simp: less_eq_LatencyTier_tracker_def less_LatencyTier_tracker_def less_le)

end

definition classify_tier :: "u32 \<Rightarrow> LatencyTier_tracker" where
  "classify_tier avg_ms =
     (if avg_ms \<le> 50 then LatencyTier_tracker.Fast
      else if avg_ms \<le> 200 then LatencyTier_tracker.Normal
      else if avg_ms \<le> 500 then LatencyTier_tracker.Slow
      else LatencyTier_tracker.Timeout)"

record LatencyRecord =
  lr_peer_id :: u32
  lr_epoch :: u64
  lr_sample_ms :: u32
  lr_rolling_avg :: u32
  lr_tier :: LatencyTier_tracker
  lr_record_hash :: hash
  lr_prev_hash :: hash

definition latency_tracker_record_bytes ::
  "u32 \<Rightarrow> u64 \<Rightarrow> u32 \<Rightarrow> LatencyTier_tracker \<Rightarrow> hash
      \<Rightarrow> bytes" where
  "latency_tracker_record_bytes peer_id epoch sample_ms tier prev =
     hash_bytes prev @ be4 peer_id @ be8 epoch @ be4 sample_ms @ [LatencyTier_tracker_as_u8 tier]"

definition latency_tracker_compute_record_hash ::
  "sha \<Rightarrow> u32 \<Rightarrow> u64 \<Rightarrow> u32 \<Rightarrow> LatencyTier_tracker
      \<Rightarrow> hash \<Rightarrow> hash" where
  "latency_tracker_compute_record_hash sha peer_id epoch sample_ms tier prev =
     sha (latency_tracker_record_bytes peer_id epoch sample_ms tier prev)"

record PeerLatencyLog =
  pll2_peer_id :: u32
  pll2_records :: "LatencyRecord list"
  pll2_window :: "u32 list"
  pll2_window_count :: nat
  pll2_window_pos :: nat

datatype LatencyLogError = StaleEpoch

fun LatencyLogError_as_u8 :: "LatencyLogError \<Rightarrow> u8" where
  "LatencyLogError_as_u8 LatencyLogError.StaleEpoch = 0"

lemma LatencyLogError_as_u8_inj [simp]: "LatencyLogError_as_u8 x = LatencyLogError_as_u8 y
    \<longleftrightarrow> x = y"
  by (cases x; cases y) auto

definition PeerLatencyLog_new :: "u32 \<Rightarrow> PeerLatencyLog" where
  "PeerLatencyLog_new peer_id =
     \<lparr>pll2_peer_id = peer_id, pll2_records = [], pll2_window = replicate LATENCY_WINDOW (0 ::
         u32), pll2_window_count = 0, pll2_window_pos = 0\<rparr>"

definition PeerLatencyLog_latest :: "PeerLatencyLog \<Rightarrow> LatencyRecord option" where
  "PeerLatencyLog_latest self =
     last_opt (pll2_records self)"

definition PeerLatencyLog_last_hash :: "PeerLatencyLog \<Rightarrow> hash" where
  "PeerLatencyLog_last_hash self =
     last_hash lr_record_hash (pll2_records self)"

definition PeerLatencyLog_rolling_average :: "PeerLatencyLog \<Rightarrow> u32" where
  "PeerLatencyLog_rolling_average self =
     (if (pll2_window_count self) = 0 then 0
      else (let sum_v = sum_list (map (\<lambda>v. (ucast v :: u64)) (take (pll2_window_count self)
          (pll2_window self)))
      in (ucast (sum_v div (of_nat (pll2_window_count self) :: u64)) :: u32)))"

definition PeerLatencyLog_record ::
  "sha \<Rightarrow> u64 \<Rightarrow> u32 \<Rightarrow> PeerLatencyLog \<Rightarrow> (LatencyLogError +
      LatencyRecord) \<times> PeerLatencyLog" where
  "PeerLatencyLog_record sha epoch sample_ms self =
     (if pll2_records self \<noteq> [] \<and> epoch \<le> (lr_epoch (last (pll2_records self))) then
         (Inl LatencyLogError.StaleEpoch, self)
      else (let self = self\<lparr>pll2_window := (pll2_window self)[pll2_window_pos self :=
          sample_ms]\<rparr>;
          self = self\<lparr>pll2_window_pos := ((pll2_window_pos self) + 1) mod LATENCY_WINDOW\<rparr>;
          self = (if (pll2_window_count self) < LATENCY_WINDOW then (let self =
            self\<lparr>pll2_window_count := (pll2_window_count self) + 1\<rparr>
      in self)
      else self);
          rolling_avg = PeerLatencyLog_rolling_average self;
          tier = classify_tier rolling_avg;
          prev_hash = PeerLatencyLog_last_hash self;
          record_hash = latency_tracker_compute_record_hash sha (pll2_peer_id self) epoch sample_ms tier
            prev_hash;
          self = self\<lparr>pll2_records := (pll2_records self) @
            [\<lparr>lr_peer_id = pll2_peer_id self, lr_epoch = epoch, lr_sample_ms = sample_ms,
            lr_rolling_avg = rolling_avg, lr_tier = tier, lr_record_hash = record_hash,
            lr_prev_hash = prev_hash\<rparr>]\<rparr>
      in (Inr (last (pll2_records self)), self)))"

definition PeerLatencyLog_fast_count :: "PeerLatencyLog \<Rightarrow> nat" where
  "PeerLatencyLog_fast_count self =
     length (filter (\<lambda>r. (lr_tier r) = LatencyTier_tracker.Fast) (pll2_records self))"

definition PeerLatencyLog_slow_count :: "PeerLatencyLog \<Rightarrow> nat" where
  "PeerLatencyLog_slow_count self =
     length (filter (\<lambda>r. (lr_tier r) = LatencyTier_tracker.Slow) (pll2_records self))"

definition PeerLatencyLog_timeout_count :: "PeerLatencyLog \<Rightarrow> nat" where
  "PeerLatencyLog_timeout_count self =
     length (filter (\<lambda>r. (lr_tier r) = LatencyTier_tracker.Timeout) (pll2_records self))"

definition PeerLatencyLog_worst_tier :: "PeerLatencyLog \<Rightarrow> LatencyTier_tracker option" where
  "PeerLatencyLog_worst_tier self =
     list_max (map lr_tier (pll2_records self))"

definition LatencyRecord_bytes_of :: "LatencyRecord \<Rightarrow> bytes" where
  "LatencyRecord_bytes_of r =
     latency_tracker_record_bytes (lr_peer_id r) (lr_epoch r) (lr_sample_ms r) (lr_tier r) (lr_prev_hash
         r)"

definition PeerLatencyLog_verify_chain ::
  "sha \<Rightarrow> PeerLatencyLog \<Rightarrow> bool \<times> nat option" where
  "PeerLatencyLog_verify_chain sha self =
     verify_from lr_prev_hash lr_record_hash (\<lambda>r. sha (LatencyRecord_bytes_of r)) 0 genesis
         (pll2_records self)"

record LatencyRegistry =
  lr2_peers :: "(u32, PeerLatencyLog) btmap"

definition LatencyRegistry_new :: "LatencyRegistry" where
  "LatencyRegistry_new =
     \<lparr>lr2_peers = bt_empty\<rparr>"

definition LatencyRegistry_peer_count :: "LatencyRegistry \<Rightarrow> nat" where
  "LatencyRegistry_peer_count self =
     bt_len (lr2_peers self)"

definition LatencyRegistry_observe ::
  "sha \<Rightarrow> u32 \<Rightarrow> u64 \<Rightarrow> u32 \<Rightarrow> LatencyRegistry \<Rightarrow>
      (LatencyLogError + LatencyTier_tracker) \<times> LatencyRegistry" where
  "LatencyRegistry_observe sha peer_id epoch sample_ms self =
     (let log = bt_get_or (PeerLatencyLog_new peer_id) (lr2_peers self) peer_id;
          self = self\<lparr>lr2_peers := bt_insert peer_id log (lr2_peers self)\<rparr>
      in (let (result, log) = PeerLatencyLog_record sha epoch sample_ms log;
          self = self\<lparr>lr2_peers := bt_insert peer_id log (lr2_peers self)\<rparr>
      in case result of Inl err \<Rightarrow> (Inl err, self)
      | Inr record_v \<Rightarrow> (Inr (lr_tier record_v), self)))"

definition LatencyRegistry_all_tiers ::
  "LatencyRegistry \<Rightarrow> (u32, LatencyTier_tracker) btmap" where
  "LatencyRegistry_all_tiers self =
     bt_of_list (List.map_filter (\<lambda>(id_v, log). map_option (\<lambda>r. (id_v,
         lr_tier r)) (PeerLatencyLog_latest log)) (entries (lr2_peers self)))"

definition LatencyRegistry_slow_peer_count :: "LatencyRegistry \<Rightarrow> nat" where
  "LatencyRegistry_slow_peer_count self =
     length (filter (\<lambda>t. LatencyTier_tracker_as_u8 t \<ge> LatencyTier_tracker_as_u8
         LatencyTier_tracker.Slow) (bt_values (LatencyRegistry_all_tiers self)))"

lemma latency_tracker_record_bytes_inj:
  "latency_tracker_record_bytes peer_id epoch sample_ms tier prev = latency_tracker_record_bytes
      peer_id' epoch' sample_ms' tier' prev' \<longleftrightarrow>
   prev = prev' \<and> peer_id = peer_id' \<and> epoch = epoch' \<and> sample_ms = sample_ms' \<and>
       tier = tier'"
  by (auto simp: latency_tracker_record_bytes_def enc_simps)

definition LatencyRecord_committed :: "LatencyRecord \<Rightarrow> u32 \<times> u64 \<times> u32
    \<times> LatencyTier_tracker" where
  "LatencyRecord_committed r =
     (lr_peer_id r, lr_epoch r, lr_sample_ms r, lr_tier r)"

interpretation peer_latency: hash_log LatencyRecord_bytes_of lr_prev_hash lr_record_hash
    LatencyRecord_committed
  by unfold_locales (auto simp: LatencyRecord_bytes_of_def LatencyRecord_committed_def
      latency_tracker_record_bytes_inj)

lemma peer_latency_verify_iff: "PeerLatencyLog_verify_chain sha l = (True,
    None) \<longleftrightarrow> peer_latency.ok sha (pll2_records l)"
  by (simp add: PeerLatencyLog_verify_chain_def verify_from_iff)

lemma peer_latency_log_record_ok: "peer_latency.ok sha (pll2_records l) \<Longrightarrow>
    peer_latency.ok sha (pll2_records (snd (PeerLatencyLog_record sha epoch sample_ms l)))"
  by (simp add: Let_def split_def PeerLatencyLog_record_def latency_tracker_compute_record_hash_def
      LatencyRecord_bytes_of_def PeerLatencyLog_last_hash_def split: option.split sum.split)

section \<open>Gossip Link Quality Monitor: per-peer link quality assessment (Gate 298)\<close>

text \<open>
  \<open>link_quality_monitor.rs\<close>. Tracks the quality of gossip links to each peer using an
  exponential moving
\<close>

definition MAX_LATENCY_TICKS :: u32 where
  "MAX_LATENCY_TICKS = 1000"

definition EMA_ALPHA_DENOM :: u32 where
  "EMA_ALPHA_DENOM = 4"

definition TIER_EXCELLENT :: u32 where
  "TIER_EXCELLENT = 10"

definition TIER_GOOD :: u32 where
  "TIER_GOOD = 30"

definition TIER_FAIR :: u32 where
  "TIER_FAIR = 100"

datatype LatencyTier_monitor = Excellent | Good | Fair | Poor | Timeout

fun LatencyTier_monitor_as_u8 :: "LatencyTier_monitor \<Rightarrow> u8" where
  "LatencyTier_monitor_as_u8 LatencyTier_monitor.Excellent = 0"
| "LatencyTier_monitor_as_u8 LatencyTier_monitor.Good = 1"
| "LatencyTier_monitor_as_u8 LatencyTier_monitor.Fair = 2"
| "LatencyTier_monitor_as_u8 LatencyTier_monitor.Poor = 3"
| "LatencyTier_monitor_as_u8 LatencyTier_monitor.Timeout = 4"

lemma LatencyTier_monitor_as_u8_inj [simp]: "LatencyTier_monitor_as_u8 x = LatencyTier_monitor_as_u8 y
    \<longleftrightarrow> x = y"
  by (cases x; cases y) auto

definition LatencyTier_monitor_tier_byte :: "LatencyTier_monitor \<Rightarrow> u8" where
  "LatencyTier_monitor_tier_byte self =
     LatencyTier_monitor_as_u8 self"

definition LatencyTier_monitor_from_smoothed ::
  "u32 \<Rightarrow> bool \<Rightarrow> LatencyTier_monitor" where
  "LatencyTier_monitor_from_smoothed smoothed is_timeout =
     (if is_timeout then LatencyTier_monitor.Timeout
      else if smoothed \<le> TIER_EXCELLENT then LatencyTier_monitor.Excellent
      else if smoothed \<le> TIER_GOOD then LatencyTier_monitor.Good
      else if smoothed \<le> TIER_FAIR then LatencyTier_monitor.Fair
      else LatencyTier_monitor.Poor)"

record LinkQualityRecord =
  lqr_peer_id :: u32
  lqr_epoch :: u64
  lqr_sample_latency :: u32
  lqr_smoothed_latency :: u32
  lqr_tier :: LatencyTier_monitor
  lqr_record_hash :: hash
  lqr_prev_hash :: hash

definition link_bytes ::
  "u32 \<Rightarrow> u64 \<Rightarrow> u32 \<Rightarrow> u32 \<Rightarrow> LatencyTier_monitor
      \<Rightarrow> hash \<Rightarrow> bytes" where
  "link_bytes peer_id epoch sample_latency smoothed_latency tier prev =
     hash_bytes prev @ be4 peer_id @ be8 epoch @ be4 sample_latency @ be4 smoothed_latency @
         [LatencyTier_monitor_tier_byte tier]"

definition compute_link_hash ::
  "sha \<Rightarrow> u32 \<Rightarrow> u64 \<Rightarrow> u32 \<Rightarrow> u32 \<Rightarrow>
      LatencyTier_monitor \<Rightarrow> hash \<Rightarrow> hash" where
  "compute_link_hash sha peer_id epoch sample_latency smoothed_latency tier prev =
     sha (link_bytes peer_id epoch sample_latency smoothed_latency tier prev)"

definition build_link_record ::
  "sha \<Rightarrow> u32 \<Rightarrow> u64 \<Rightarrow> u32 \<Rightarrow> u32 \<Rightarrow>
      LatencyTier_monitor \<Rightarrow> hash \<Rightarrow> LinkQualityRecord" where
  "build_link_record sha peer_id epoch sample_latency smoothed_latency tier prev_hash =
     (let record_hash = compute_link_hash sha peer_id epoch sample_latency smoothed_latency tier
         prev_hash
      in \<lparr>lqr_peer_id = peer_id, lqr_epoch = epoch, lqr_sample_latency = sample_latency,
          lqr_smoothed_latency = smoothed_latency, lqr_tier = tier, lqr_record_hash = record_hash,
          lqr_prev_hash = prev_hash\<rparr>)"

record LinkQualityLog =
  lql_peer_id :: u32
  lql_records :: "LinkQualityRecord list"

definition LinkQualityLog_new :: "u32 \<Rightarrow> LinkQualityLog" where
  "LinkQualityLog_new peer_id =
     \<lparr>lql_peer_id = peer_id, lql_records = []\<rparr>"

definition LinkQualityLog_last_hash :: "LinkQualityLog \<Rightarrow> hash" where
  "LinkQualityLog_last_hash self =
     last_hash lqr_record_hash (lql_records self)"

definition LinkQualityLog_push ::
  "sha \<Rightarrow> u64 \<Rightarrow> u32 \<Rightarrow> u32 \<Rightarrow> LatencyTier_monitor
      \<Rightarrow> LinkQualityLog \<Rightarrow> LinkQualityLog" where
  "LinkQualityLog_push sha epoch sample_latency smoothed_latency tier self =
     (let prev = LinkQualityLog_last_hash self;
          r = build_link_record sha (lql_peer_id self) epoch sample_latency smoothed_latency tier prev;
          self = self\<lparr>lql_records := (lql_records self) @ [r]\<rparr>
      in self)"

definition LinkQualityLog_timeout_count :: "LinkQualityLog \<Rightarrow> nat" where
  "LinkQualityLog_timeout_count self =
     length (filter (\<lambda>r. (lqr_tier r) = LatencyTier_monitor.Timeout) (lql_records self))"

definition LinkQualityLog_tier_count ::
  "LatencyTier_monitor \<Rightarrow> LinkQualityLog \<Rightarrow> nat" where
  "LinkQualityLog_tier_count tier self =
     length (filter (\<lambda>r. (lqr_tier r) = tier) (lql_records self))"

definition LinkQualityRecord_bytes_of :: "LinkQualityRecord \<Rightarrow> bytes" where
  "LinkQualityRecord_bytes_of r =
     link_bytes (lqr_peer_id r) (lqr_epoch r) (lqr_sample_latency r) (lqr_smoothed_latency r) (lqr_tier
         r) (lqr_prev_hash r)"

definition LinkQualityLog_verify_chain ::
  "sha \<Rightarrow> LinkQualityLog \<Rightarrow> bool \<times> nat option" where
  "LinkQualityLog_verify_chain sha self =
     verify_from lqr_prev_hash lqr_record_hash (\<lambda>r. sha (LinkQualityRecord_bytes_of r)) 0
         genesis (lql_records self)"

record PeerLinkState =
  pls_smoothed :: u32
  pls_log :: LinkQualityLog

record LinkQualityMonitor =
  lqm_peers :: "(u32, PeerLinkState) btmap"

definition LinkQualityMonitor_new :: "LinkQualityMonitor" where
  "LinkQualityMonitor_new =
     \<lparr>lqm_peers = bt_empty\<rparr>"

definition LinkQualityMonitor_apply_sample ::
  "sha \<Rightarrow> PeerLinkState \<Rightarrow> u64 \<Rightarrow> u32 \<Rightarrow> bool \<Rightarrow>
      PeerLinkState" where
  "LinkQualityMonitor_apply_sample sha state epoch sample is_timeout =
     (let new_smoothed = ((3 * (pls_smoothed state)) + sample) div EMA_ALPHA_DENOM;
          state = state\<lparr>pls_smoothed := new_smoothed\<rparr>;
          tier = LatencyTier_monitor_from_smoothed new_smoothed is_timeout;
          state = state\<lparr>pls_log := LinkQualityLog_push sha epoch sample new_smoothed tier
            (pls_log state)\<rparr>
      in state)"

definition LinkQualityMonitor_sample ::
  "sha \<Rightarrow> u32 \<Rightarrow> u64 \<Rightarrow> u32 \<Rightarrow> LinkQualityMonitor
      \<Rightarrow> LinkQualityMonitor" where
  "LinkQualityMonitor_sample sha peer_id epoch latency_ticks self =
     (let state = bt_get_or (\<lparr>pls_smoothed = latency_ticks,
         pls_log = LinkQualityLog_new peer_id\<rparr>) (lqm_peers self) peer_id;
          state = LinkQualityMonitor_apply_sample sha state epoch latency_ticks False;
          self = self\<lparr>lqm_peers := bt_insert peer_id state (lqm_peers self)\<rparr>
      in self)"

definition LinkQualityMonitor_sample_timeout ::
  "sha \<Rightarrow> u32 \<Rightarrow> u64 \<Rightarrow> LinkQualityMonitor \<Rightarrow>
      LinkQualityMonitor" where
  "LinkQualityMonitor_sample_timeout sha peer_id epoch self =
     (let state = bt_get_or (\<lparr>pls_smoothed = MAX_LATENCY_TICKS,
         pls_log = LinkQualityLog_new peer_id\<rparr>) (lqm_peers self) peer_id;
          state = LinkQualityMonitor_apply_sample sha state epoch MAX_LATENCY_TICKS True;
          self = self\<lparr>lqm_peers := bt_insert peer_id state (lqm_peers self)\<rparr>
      in self)"

definition LinkQualityMonitor_current_tier ::
  "u32 \<Rightarrow> LinkQualityMonitor \<Rightarrow> LatencyTier_monitor option" where
  "LinkQualityMonitor_current_tier peer_id self =
     Option.bind (bt_get (lqm_peers self) peer_id) (\<lambda>s. map_option lqr_tier (last_opt
         (lql_records (pls_log s))))"

definition LinkQualityMonitor_smoothed_latency ::
  "u32 \<Rightarrow> LinkQualityMonitor \<Rightarrow> u32 option" where
  "LinkQualityMonitor_smoothed_latency peer_id self =
     map_option pls_smoothed (bt_get (lqm_peers self) peer_id)"

definition LinkQualityMonitor_get_log ::
  "u32 \<Rightarrow> LinkQualityMonitor \<Rightarrow> LinkQualityLog option" where
  "LinkQualityMonitor_get_log peer_id self =
     map_option pls_log (bt_get (lqm_peers self) peer_id)"

definition LinkQualityMonitor_peers_at_tier ::
  "LatencyTier_monitor \<Rightarrow> LinkQualityMonitor \<Rightarrow> u32 list" where
  "LinkQualityMonitor_peers_at_tier tier self =
     map (\<lambda>(id_v, _). id_v) (filter (\<lambda>(_, s). unwrap_or False (map_option (\<lambda>r.
         (lqr_tier r) = tier) (last_opt (lql_records (pls_log s))))) (entries (lqm_peers self)))"

lemma link_bytes_inj:
  "link_bytes peer_id epoch sample_latency smoothed_latency tier prev = link_bytes peer_id' epoch'
      sample_latency' smoothed_latency' tier' prev' \<longleftrightarrow>
   prev = prev' \<and> peer_id = peer_id' \<and> epoch = epoch' \<and> sample_latency = sample_latency'
       \<and> smoothed_latency = smoothed_latency' \<and> (LatencyTier_monitor_tier_byte tier) =
       (LatencyTier_monitor_tier_byte tier')"
  by (auto simp: link_bytes_def enc_simps)

definition LinkQualityRecord_committed :: "LinkQualityRecord \<Rightarrow> u32 \<times> u64 \<times> u32
    \<times> u32 \<times> u8" where
  "LinkQualityRecord_committed r =
     (lqr_peer_id r, lqr_epoch r, lqr_sample_latency r, lqr_smoothed_latency r,
         LatencyTier_monitor_tier_byte (lqr_tier r))"

interpretation link_quality_monitor: hash_log LinkQualityRecord_bytes_of lqr_prev_hash lqr_record_hash
    LinkQualityRecord_committed
  by unfold_locales (auto simp: LinkQualityRecord_bytes_of_def LinkQualityRecord_committed_def
      link_bytes_inj)

lemma link_quality_monitor_verify_iff: "LinkQualityLog_verify_chain sha l = (True,
    None) \<longleftrightarrow> link_quality_monitor.ok sha (lql_records l)"
  by (simp add: LinkQualityLog_verify_chain_def verify_from_iff)

lemma build_link_record_linked:
  "lqr_prev_hash (build_link_record sha peer_id epoch sample_latency smoothed_latency tier prev_hash) =
      prev_hash"
  "lqr_record_hash (build_link_record sha peer_id epoch sample_latency smoothed_latency tier prev_hash)
      = sha (LinkQualityRecord_bytes_of (build_link_record sha peer_id epoch sample_latency
      smoothed_latency tier prev_hash))"
  by (simp_all add: build_link_record_def compute_link_hash_def LinkQualityRecord_bytes_of_def Let_def
      split_def)

lemma link_quality_log_push_ok: "link_quality_monitor.ok sha (lql_records l) \<Longrightarrow>
    link_quality_monitor.ok sha (lql_records (LinkQualityLog_push sha epoch sample_latency
    smoothed_latency tier l))"
  by (simp add: Let_def split_def LinkQualityLog_push_def LinkQualityLog_last_hash_def
      build_link_record_linked split: option.split sum.split)

section \<open>Gossip Heartbeat Tracker: per-peer liveness via periodic beat monitoring (Gate 302)\<close>

text \<open>
  \<open>heartbeat_tracker.rs\<close>. Tracks heartbeat signals from gossip peers. Each received beat
  updates the peer's last_seen_epoch. Missed beats increment a miss counter; exceeding MISS_THRESHOLD
  marks the peer as Suspect. Reaching DEAD_THRESHOLD marks it Dead.
\<close>

definition MISS_THRESHOLD :: u32 where
  "MISS_THRESHOLD = 3"

definition DEAD_THRESHOLD :: u32 where
  "DEAD_THRESHOLD = 6"

datatype PeerStatus_tracker = Alive | Suspect | Dead

fun PeerStatus_tracker_as_u8 :: "PeerStatus_tracker \<Rightarrow> u8" where
  "PeerStatus_tracker_as_u8 PeerStatus_tracker.Alive = 0"
| "PeerStatus_tracker_as_u8 PeerStatus_tracker.Suspect = 1"
| "PeerStatus_tracker_as_u8 PeerStatus_tracker.Dead = 2"

lemma PeerStatus_tracker_as_u8_inj [simp]: "PeerStatus_tracker_as_u8 x = PeerStatus_tracker_as_u8 y
    \<longleftrightarrow> x = y"
  by (cases x; cases y) auto

definition PeerStatus_tracker_status_byte :: "PeerStatus_tracker \<Rightarrow> u8" where
  "PeerStatus_tracker_status_byte self =
     PeerStatus_tracker_as_u8 self"

definition PeerStatus_tracker_from_miss_count :: "u32 \<Rightarrow> PeerStatus_tracker" where
  "PeerStatus_tracker_from_miss_count misses =
     (if misses \<ge> DEAD_THRESHOLD then PeerStatus_tracker.Dead
      else if misses \<ge> MISS_THRESHOLD then PeerStatus_tracker.Suspect
      else PeerStatus_tracker.Alive)"

datatype HeartbeatEvent = Beat | Miss

fun HeartbeatEvent_as_u8 :: "HeartbeatEvent \<Rightarrow> u8" where
  "HeartbeatEvent_as_u8 HeartbeatEvent.Beat = 0"
| "HeartbeatEvent_as_u8 HeartbeatEvent.Miss = 1"

lemma HeartbeatEvent_as_u8_inj [simp]: "HeartbeatEvent_as_u8 x = HeartbeatEvent_as_u8 y
    \<longleftrightarrow> x = y"
  by (cases x; cases y) auto

definition HeartbeatEvent_event_byte :: "HeartbeatEvent \<Rightarrow> u8" where
  "HeartbeatEvent_event_byte self =
     HeartbeatEvent_as_u8 self"

record HeartbeatRecord =
  hr_peer_id :: u32
  hr_epoch :: u64
  hr_event :: HeartbeatEvent
  hr_miss_count :: u32
  hr_status :: PeerStatus_tracker
  hr_record_hash :: hash
  hr_prev_hash :: hash

definition heartbeat_bytes ::
  "u32 \<Rightarrow> u64 \<Rightarrow> HeartbeatEvent \<Rightarrow> u32 \<Rightarrow> PeerStatus_tracker
      \<Rightarrow> hash \<Rightarrow> bytes" where
  "heartbeat_bytes peer_id epoch event miss_count status prev =
     hash_bytes prev @ be4 peer_id @ be8 epoch @ [HeartbeatEvent_event_byte event] @ be4 miss_count @
         [PeerStatus_tracker_status_byte status]"

definition compute_heartbeat_hash ::
  "sha \<Rightarrow> u32 \<Rightarrow> u64 \<Rightarrow> HeartbeatEvent \<Rightarrow> u32 \<Rightarrow>
      PeerStatus_tracker \<Rightarrow> hash \<Rightarrow> hash" where
  "compute_heartbeat_hash sha peer_id epoch event miss_count status prev =
     sha (heartbeat_bytes peer_id epoch event miss_count status prev)"

definition build_heartbeat_record ::
  "sha \<Rightarrow> u32 \<Rightarrow> u64 \<Rightarrow> HeartbeatEvent \<Rightarrow> u32 \<Rightarrow>
      PeerStatus_tracker \<Rightarrow> hash \<Rightarrow> HeartbeatRecord" where
  "build_heartbeat_record sha peer_id epoch event miss_count status prev_hash =
     (let record_hash = compute_heartbeat_hash sha peer_id epoch event miss_count status prev_hash
      in \<lparr>hr_peer_id = peer_id, hr_epoch = epoch, hr_event = event, hr_miss_count = miss_count,
          hr_status = status, hr_record_hash = record_hash, hr_prev_hash = prev_hash\<rparr>)"

record HeartbeatLog =
  hl2_peer_id :: u32
  hl2_records :: "HeartbeatRecord list"

definition HeartbeatLog_new :: "u32 \<Rightarrow> HeartbeatLog" where
  "HeartbeatLog_new peer_id =
     \<lparr>hl2_peer_id = peer_id, hl2_records = []\<rparr>"

definition HeartbeatLog_last_hash :: "HeartbeatLog \<Rightarrow> hash" where
  "HeartbeatLog_last_hash self =
     last_hash hr_record_hash (hl2_records self)"

definition HeartbeatLog_push ::
  "sha \<Rightarrow> u64 \<Rightarrow> HeartbeatEvent \<Rightarrow> u32 \<Rightarrow> PeerStatus_tracker
      \<Rightarrow> HeartbeatLog \<Rightarrow> HeartbeatRecord \<times> HeartbeatLog" where
  "HeartbeatLog_push sha epoch event miss_count status self =
     (let prev = HeartbeatLog_last_hash self;
          r = build_heartbeat_record sha (hl2_peer_id self) epoch event miss_count status prev;
          self = self\<lparr>hl2_records := (hl2_records self) @ [r]\<rparr>
      in (last (hl2_records self), self))"

definition HeartbeatLog_beat_count :: "HeartbeatLog \<Rightarrow> nat" where
  "HeartbeatLog_beat_count self =
     length (filter (\<lambda>r. (hr_event r) = HeartbeatEvent.Beat) (hl2_records self))"

definition HeartbeatLog_miss_count_total :: "HeartbeatLog \<Rightarrow> nat" where
  "HeartbeatLog_miss_count_total self =
     length (filter (\<lambda>r. (hr_event r) = HeartbeatEvent.Miss) (hl2_records self))"

definition HeartbeatRecord_bytes_of :: "HeartbeatRecord \<Rightarrow> bytes" where
  "HeartbeatRecord_bytes_of r =
     heartbeat_bytes (hr_peer_id r) (hr_epoch r) (hr_event r) (hr_miss_count r) (hr_status r)
         (hr_prev_hash r)"

definition HeartbeatLog_verify_chain ::
  "sha \<Rightarrow> HeartbeatLog \<Rightarrow> bool \<times> nat option" where
  "HeartbeatLog_verify_chain sha self =
     verify_from hr_prev_hash hr_record_hash (\<lambda>r. sha (HeartbeatRecord_bytes_of r)) 0 genesis
         (hl2_records self)"

record PeerHeartbeatState =
  phs_miss_count :: u32
  phs_log :: HeartbeatLog

record HeartbeatTracker =
  ht_peers :: "(u32, PeerHeartbeatState) btmap"

definition HeartbeatTracker_new :: "HeartbeatTracker" where
  "HeartbeatTracker_new =
     \<lparr>ht_peers = bt_empty\<rparr>"

definition HeartbeatTracker_beat ::
  "sha \<Rightarrow> u32 \<Rightarrow> u64 \<Rightarrow> HeartbeatTracker \<Rightarrow>
      HeartbeatTracker" where
  "HeartbeatTracker_beat sha peer_id epoch self =
     (let state = bt_get_or (\<lparr>phs_miss_count = 0, phs_log = HeartbeatLog_new peer_id\<rparr>)
         (ht_peers self) peer_id;
          state = state\<lparr>phs_miss_count := 0\<rparr>;
          state = state\<lparr>phs_log := snd (HeartbeatLog_push sha epoch HeartbeatEvent.Beat 0
            PeerStatus_tracker.Alive (phs_log state))\<rparr>;
          self = self\<lparr>ht_peers := bt_insert peer_id state (ht_peers self)\<rparr>
      in self)"

definition HeartbeatTracker_tick_miss ::
  "sha \<Rightarrow> u32 \<Rightarrow> u64 \<Rightarrow> HeartbeatTracker \<Rightarrow>
      HeartbeatTracker" where
  "HeartbeatTracker_tick_miss sha peer_id epoch self =
     (let state = bt_get_or (\<lparr>phs_miss_count = 0, phs_log = HeartbeatLog_new peer_id\<rparr>)
         (ht_peers self) peer_id;
          state = state\<lparr>phs_miss_count := sat_add (phs_miss_count state) 1\<rparr>;
          self = self\<lparr>ht_peers := bt_insert peer_id state (ht_peers self)\<rparr>;
          mc = phs_miss_count state;
          status = PeerStatus_tracker_from_miss_count mc;
          state = state\<lparr>phs_log := snd (HeartbeatLog_push sha epoch HeartbeatEvent.Miss mc status
            (phs_log state))\<rparr>;
          self = self\<lparr>ht_peers := bt_insert peer_id state (ht_peers self)\<rparr>
      in self)"

definition HeartbeatTracker_status ::
  "u32 \<Rightarrow> HeartbeatTracker \<Rightarrow> PeerStatus_tracker" where
  "HeartbeatTracker_status peer_id self =
     unwrap_or PeerStatus_tracker.Alive (map_option (\<lambda>s. PeerStatus_tracker_from_miss_count
         (phs_miss_count s)) (bt_get (ht_peers self) peer_id))"

definition HeartbeatTracker_miss_count :: "u32 \<Rightarrow> HeartbeatTracker \<Rightarrow> u32" where
  "HeartbeatTracker_miss_count peer_id self =
     unwrap_or 0 (map_option phs_miss_count (bt_get (ht_peers self) peer_id))"

definition HeartbeatTracker_suspect_peers :: "HeartbeatTracker \<Rightarrow> u32 list" where
  "HeartbeatTracker_suspect_peers self =
     map (\<lambda>(pid, _). pid) (filter (\<lambda>(_, s). (PeerStatus_tracker_from_miss_count
         (phs_miss_count s)) = PeerStatus_tracker.Suspect) (entries (ht_peers self)))"

definition HeartbeatTracker_dead_peers :: "HeartbeatTracker \<Rightarrow> u32 list" where
  "HeartbeatTracker_dead_peers self =
     map (\<lambda>(pid, _). pid) (filter (\<lambda>(_, s). (PeerStatus_tracker_from_miss_count
         (phs_miss_count s)) = PeerStatus_tracker.Dead) (entries (ht_peers self)))"

definition HeartbeatTracker_alive_peers :: "HeartbeatTracker \<Rightarrow> u32 list" where
  "HeartbeatTracker_alive_peers self =
     map (\<lambda>(pid, _). pid) (filter (\<lambda>(_, s). (PeerStatus_tracker_from_miss_count
         (phs_miss_count s)) = PeerStatus_tracker.Alive) (entries (ht_peers self)))"

definition HeartbeatTracker_get_log ::
  "u32 \<Rightarrow> HeartbeatTracker \<Rightarrow> HeartbeatLog option" where
  "HeartbeatTracker_get_log peer_id self =
     map_option phs_log (bt_get (ht_peers self) peer_id)"

lemma heartbeat_bytes_inj:
  "heartbeat_bytes peer_id epoch event miss_count status prev = heartbeat_bytes peer_id' epoch' event'
      miss_count' status' prev' \<longleftrightarrow>
   prev = prev' \<and> peer_id = peer_id' \<and> epoch = epoch' \<and> (HeartbeatEvent_event_byte event)
       = (HeartbeatEvent_event_byte event') \<and> miss_count = miss_count' \<and>
       (PeerStatus_tracker_status_byte status) = (PeerStatus_tracker_status_byte status')"
  by (auto simp: heartbeat_bytes_def enc_simps)

definition HeartbeatRecord_committed :: "HeartbeatRecord \<Rightarrow> u32 \<times> u64 \<times> u8
    \<times> u32 \<times> u8" where
  "HeartbeatRecord_committed r =
     (hr_peer_id r, hr_epoch r, HeartbeatEvent_event_byte (hr_event r), hr_miss_count r,
         PeerStatus_tracker_status_byte (hr_status r))"

interpretation heartbeat_tracker: hash_log HeartbeatRecord_bytes_of hr_prev_hash hr_record_hash
    HeartbeatRecord_committed
  by unfold_locales (auto simp: HeartbeatRecord_bytes_of_def HeartbeatRecord_committed_def
      heartbeat_bytes_inj)

lemma heartbeat_tracker_verify_iff: "HeartbeatLog_verify_chain sha l = (True,
    None) \<longleftrightarrow> heartbeat_tracker.ok sha (hl2_records l)"
  by (simp add: HeartbeatLog_verify_chain_def verify_from_iff)

lemma build_heartbeat_record_linked:
  "hr_prev_hash (build_heartbeat_record sha peer_id epoch event miss_count status prev_hash) =
      prev_hash"
  "hr_record_hash (build_heartbeat_record sha peer_id epoch event miss_count status prev_hash) = sha
      (HeartbeatRecord_bytes_of (build_heartbeat_record sha peer_id epoch event miss_count status
      prev_hash))"
  by (simp_all add: build_heartbeat_record_def compute_heartbeat_hash_def HeartbeatRecord_bytes_of_def
      Let_def split_def)

lemma heartbeat_log_push_ok: "heartbeat_tracker.ok sha (hl2_records l) \<Longrightarrow>
    heartbeat_tracker.ok sha (hl2_records (snd (HeartbeatLog_push sha epoch event miss_count status
    l)))"
  by (simp add: Let_def split_def HeartbeatLog_push_def HeartbeatLog_last_hash_def
      build_heartbeat_record_linked split: option.split sum.split)

section \<open>Gossip Topology Prober: active mesh connectivity probing (Gate 282)\<close>

text \<open>
  \<open>gossip_prober.rs\<close>. Tracks active connectivity probes between gossip nodes. Each probe
  round records per-peer results: Success (with RTT) or failure (Timeout/Refused/NoRoute).
\<close>

datatype ProbeResult = Success u32 | Timeout | Refused | NoRoute

definition ProbeResult_result_byte :: "ProbeResult \<Rightarrow> u8" where
  "ProbeResult_result_byte self =
     (case self of
         ProbeResult.Success _ \<Rightarrow> 0
       | ProbeResult.Timeout \<Rightarrow> 1
       | ProbeResult.Refused \<Rightarrow> 2
       | ProbeResult.NoRoute \<Rightarrow> 3)"

definition ProbeResult_rtt_ms :: "ProbeResult \<Rightarrow> u32" where
  "ProbeResult_rtt_ms self =
     (case self of
         ProbeResult.Success rtt_ms \<Rightarrow> rtt_ms
       | _ \<Rightarrow> 0)"

definition ProbeResult_is_success :: "ProbeResult \<Rightarrow> bool" where
  "ProbeResult_is_success self \<longleftrightarrow>
     (case self of ProbeResult.Success _ \<Rightarrow> True | _ \<Rightarrow> False)"

record PeerProbeRecord =
  ppr_prober_id :: u32
  ppr_target_id :: u32
  ppr_epoch :: u64
  ppr_result :: ProbeResult
  ppr_rtt_ms :: u32
  ppr_record_hash :: hash
  ppr_prev_hash :: hash

definition probe_bytes ::
  "u32 \<Rightarrow> u32 \<Rightarrow> u64 \<Rightarrow> ProbeResult \<Rightarrow> hash \<Rightarrow>
      bytes" where
  "probe_bytes prober_id target_id epoch result prev =
     hash_bytes prev @ be4 prober_id @ be4 target_id @ be8 epoch @ [ProbeResult_result_byte result] @
         be4 (ProbeResult_rtt_ms result)"

definition compute_probe_hash ::
  "sha \<Rightarrow> u32 \<Rightarrow> u32 \<Rightarrow> u64 \<Rightarrow> ProbeResult \<Rightarrow>
      hash \<Rightarrow> hash" where
  "compute_probe_hash sha prober_id target_id epoch result prev =
     sha (probe_bytes prober_id target_id epoch result prev)"

definition build_probe_record ::
  "sha \<Rightarrow> u32 \<Rightarrow> u32 \<Rightarrow> u64 \<Rightarrow> ProbeResult \<Rightarrow>
      hash \<Rightarrow> PeerProbeRecord" where
  "build_probe_record sha prober_id target_id epoch result prev_hash =
     (let record_hash = compute_probe_hash sha prober_id target_id epoch result prev_hash
      in \<lparr>ppr_prober_id = prober_id, ppr_target_id = target_id, ppr_epoch = epoch,
          ppr_result = result, ppr_rtt_ms = ProbeResult_rtt_ms result, ppr_record_hash = record_hash,
          ppr_prev_hash = prev_hash\<rparr>)"

record ProbeLog =
  pl_prober_id :: u32
  pl_target_id :: u32
  pl_records :: "PeerProbeRecord list"

datatype ProbeError = StaleEpoch

fun ProbeError_as_u8 :: "ProbeError \<Rightarrow> u8" where
  "ProbeError_as_u8 ProbeError.StaleEpoch = 0"

lemma ProbeError_as_u8_inj [simp]: "ProbeError_as_u8 x = ProbeError_as_u8 y \<longleftrightarrow> x = y"
  by (cases x; cases y) auto

definition ProbeLog_new :: "u32 \<Rightarrow> u32 \<Rightarrow> ProbeLog" where
  "ProbeLog_new prober_id target_id =
     \<lparr>pl_prober_id = prober_id, pl_target_id = target_id, pl_records = []\<rparr>"

definition ProbeLog_last_hash :: "ProbeLog \<Rightarrow> hash" where
  "ProbeLog_last_hash self =
     last_hash ppr_record_hash (pl_records self)"

definition ProbeLog_record ::
  "sha \<Rightarrow> u64 \<Rightarrow> ProbeResult \<Rightarrow> ProbeLog \<Rightarrow> (ProbeError +
      PeerProbeRecord) \<times> ProbeLog" where
  "ProbeLog_record sha epoch result self =
     (if pl_records self \<noteq> [] \<and> epoch \<le> (ppr_epoch (last (pl_records self))) then (Inl
         ProbeError.StaleEpoch, self)
      else (let prev = ProbeLog_last_hash self;
          r = build_probe_record sha (pl_prober_id self) (pl_target_id self) epoch result prev;
          self = self\<lparr>pl_records := (pl_records self) @ [r]\<rparr>
      in (Inr (last (pl_records self)), self)))"

definition ProbeLog_success_count :: "ProbeLog \<Rightarrow> nat" where
  "ProbeLog_success_count self =
     length (filter (\<lambda>r. ProbeResult_is_success (ppr_result r)) (pl_records self))"

definition ProbeLog_timeout_count :: "ProbeLog \<Rightarrow> nat" where
  "ProbeLog_timeout_count self =
     length (filter (\<lambda>r. (ppr_result r) = ProbeResult.Timeout) (pl_records self))"

definition ProbeLog_failure_count :: "ProbeLog \<Rightarrow> nat" where
  "ProbeLog_failure_count self =
     length (filter (\<lambda>r. \<not> (ProbeResult_is_success (ppr_result r))) (pl_records self))"

definition ProbeLog_avg_rtt_ms :: "ProbeLog \<Rightarrow> u32" where
  "ProbeLog_avg_rtt_ms self =
     (let successes = map ppr_rtt_ms (filter (\<lambda>r. ProbeResult_is_success (ppr_result r))
         (pl_records self))
      in if successes = [] then 0
      else (let sum_v = sum_list (map (\<lambda>v. (ucast v :: u64)) successes)
      in (ucast (sum_v div (of_nat (length successes) :: u64)) :: u32)))"

definition ProbeLog_currently_reachable :: "ProbeLog \<Rightarrow> bool" where
  "ProbeLog_currently_reachable self \<longleftrightarrow>
     unwrap_or False (map_option (\<lambda>r. ProbeResult_is_success (ppr_result r)) (last_opt
         (pl_records self)))"

definition PeerProbeRecord_bytes_of :: "PeerProbeRecord \<Rightarrow> bytes" where
  "PeerProbeRecord_bytes_of r =
     probe_bytes (ppr_prober_id r) (ppr_target_id r) (ppr_epoch r) (ppr_result r) (ppr_prev_hash r)"

definition ProbeLog_verify_chain ::
  "sha \<Rightarrow> ProbeLog \<Rightarrow> bool \<times> nat option" where
  "ProbeLog_verify_chain sha self =
     verify_from ppr_prev_hash ppr_record_hash (\<lambda>r. sha (PeerProbeRecord_bytes_of r)) 0 genesis
         (pl_records self)"

record ProbeMatrix =
  pm_logs :: "(u32 \<times> u32, ProbeLog) btmap"

definition ProbeMatrix_new :: "ProbeMatrix" where
  "ProbeMatrix_new =
     \<lparr>pm_logs = bt_empty\<rparr>"

definition ProbeMatrix_pair_count :: "ProbeMatrix \<Rightarrow> nat" where
  "ProbeMatrix_pair_count self =
     bt_len (pm_logs self)"

definition ProbeMatrix_record_probe ::
  "sha \<Rightarrow> u32 \<Rightarrow> u32 \<Rightarrow> u64 \<Rightarrow> ProbeResult \<Rightarrow>
      ProbeMatrix \<Rightarrow> (ProbeError + unit) \<times> ProbeMatrix" where
  "ProbeMatrix_record_probe sha prober_id target_id epoch result self =
     (let log = bt_get_or (ProbeLog_new prober_id target_id) (pm_logs self) (prober_id, target_id);
          self = self\<lparr>pm_logs := bt_insert (prober_id, target_id) log (pm_logs self)\<rparr>
      in (let (result, log) = ProbeLog_record sha epoch result log;
          self = self\<lparr>pm_logs := bt_insert (prober_id, target_id) log (pm_logs self)\<rparr>
      in case result of Inl err \<Rightarrow> (Inl err, self)
      | Inr _ \<Rightarrow> (Inr (), self)))"

definition ProbeMatrix_get_log ::
  "u32 \<Rightarrow> u32 \<Rightarrow> ProbeMatrix \<Rightarrow> ProbeLog option" where
  "ProbeMatrix_get_log prober_id target_id self =
     bt_get (pm_logs self) (prober_id, target_id)"

definition ProbeMatrix_reachable_from :: "u32 \<Rightarrow> ProbeMatrix \<Rightarrow> u32 list" where
  "ProbeMatrix_reachable_from prober_id self =
     map (\<lambda>((_, t), _). t) (filter (\<lambda>((p, _), log). p = prober_id \<and>
         ProbeLog_currently_reachable log) (entries (pm_logs self)))"

definition ProbeMatrix_unreachable_peers :: "u32 \<Rightarrow> ProbeMatrix \<Rightarrow> u32 list" where
  "ProbeMatrix_unreachable_peers prober_id self =
     map (\<lambda>((_, t), _). t) (filter (\<lambda>((p, _), log). p = prober_id \<and> \<not>
         (ProbeLog_currently_reachable log)) (entries (pm_logs self)))"

definition ProbeMatrix_avg_mesh_rtt :: "ProbeMatrix \<Rightarrow> u32" where
  "ProbeMatrix_avg_mesh_rtt self =
     (let total_v = 0;
          count_v = 0;
          (total_v, count_v) = fold (\<lambda>log (total_v, count_v). (let (total_v,
            count_v) = fold (\<lambda>r (total_v, count_v). (let (total_v,
            count_v) = (if ProbeResult_is_success (ppr_result r) then (let total_v = total_v + (ucast
            (ppr_rtt_ms r) :: u64);
          count_v = count_v + 1
      in (total_v, count_v))
      else (total_v, count_v))
      in (total_v, count_v))) (pl_records log) (total_v, count_v)
      in (total_v, count_v))) (bt_values (pm_logs self)) (total_v, count_v)
      in if count_v = 0 then 0
      else (ucast (total_v div count_v) :: u32))"

definition ProbeMatrix_total_success_count :: "ProbeMatrix \<Rightarrow> nat" where
  "ProbeMatrix_total_success_count self =
     sum_list (map ProbeLog_success_count (bt_values (pm_logs self)))"

definition ProbeMatrix_total_failure_count :: "ProbeMatrix \<Rightarrow> nat" where
  "ProbeMatrix_total_failure_count self =
     sum_list (map ProbeLog_failure_count (bt_values (pm_logs self)))"

lemma probe_bytes_inj:
  "probe_bytes prober_id target_id epoch result prev = probe_bytes prober_id' target_id' epoch' result'
      prev' \<longleftrightarrow>
   prev = prev' \<and> prober_id = prober_id' \<and> target_id = target_id' \<and> epoch = epoch' \<and>
       (ProbeResult_result_byte result) = (ProbeResult_result_byte result') \<and> (ProbeResult_rtt_ms
       result) = (ProbeResult_rtt_ms result')"
  by (auto simp: probe_bytes_def enc_simps)

definition PeerProbeRecord_committed :: "PeerProbeRecord \<Rightarrow> u32 \<times> u32 \<times> u64
    \<times> u8 \<times> u32" where
  "PeerProbeRecord_committed r =
     (ppr_prober_id r, ppr_target_id r, ppr_epoch r, ProbeResult_result_byte (ppr_result r),
         ProbeResult_rtt_ms (ppr_result r))"

interpretation prober: hash_log PeerProbeRecord_bytes_of ppr_prev_hash ppr_record_hash
    PeerProbeRecord_committed
  by unfold_locales (auto simp: PeerProbeRecord_bytes_of_def PeerProbeRecord_committed_def
      probe_bytes_inj)

lemma prober_verify_iff: "ProbeLog_verify_chain sha l = (True, None) \<longleftrightarrow> prober.ok sha
    (pl_records l)"
  by (simp add: ProbeLog_verify_chain_def verify_from_iff)

lemma build_probe_record_linked:
  "ppr_prev_hash (build_probe_record sha prober_id target_id epoch result prev_hash) = prev_hash"
  "ppr_record_hash (build_probe_record sha prober_id target_id epoch result prev_hash) = sha
      (PeerProbeRecord_bytes_of (build_probe_record sha prober_id target_id epoch result prev_hash))"
  by (simp_all add: build_probe_record_def compute_probe_hash_def PeerProbeRecord_bytes_of_def Let_def
      split_def)

lemma probe_log_record_ok: "prober.ok sha (pl_records l) \<Longrightarrow> prober.ok sha (pl_records
    (snd (ProbeLog_record sha epoch result l)))"
  by (simp add: Let_def split_def ProbeLog_record_def ProbeLog_last_hash_def build_probe_record_linked
      split: option.split sum.split)

section \<open>Gossip Peer Liveness Oracle: composite liveness classification (Gate 317)\<close>

text \<open>
  \<open>peer_liveness_oracle.rs\<close>. Classifies each peer as Live, Degraded, Suspect, or Dead
  based on three integer
\<close>

definition DEAD_MISS_THRESHOLD :: u8 where
  "DEAD_MISS_THRESHOLD = 6"

definition SUSPECT_MISS_THRESHOLD :: u8 where
  "SUSPECT_MISS_THRESHOLD = 3"

definition SUSPECT_REPUTATION_THRESHOLD :: u8 where
  "SUSPECT_REPUTATION_THRESHOLD = 20"

definition DEGRADED_REPUTATION_THRESHOLD :: u8 where
  "DEGRADED_REPUTATION_THRESHOLD = 50"

definition TIMEOUT_LATENCY_TIER :: u8 where
  "TIMEOUT_LATENCY_TIER = 4"

definition SLOW_LATENCY_TIER :: u8 where
  "SLOW_LATENCY_TIER = 3"

datatype LivenessVerdict = Live | Degraded | Suspect | Dead

fun LivenessVerdict_as_u8 :: "LivenessVerdict \<Rightarrow> u8" where
  "LivenessVerdict_as_u8 LivenessVerdict.Live = 0"
| "LivenessVerdict_as_u8 LivenessVerdict.Degraded = 1"
| "LivenessVerdict_as_u8 LivenessVerdict.Suspect = 2"
| "LivenessVerdict_as_u8 LivenessVerdict.Dead = 3"

lemma LivenessVerdict_as_u8_inj [simp]: "LivenessVerdict_as_u8 x = LivenessVerdict_as_u8 y
    \<longleftrightarrow> x = y"
  by (cases x; cases y) auto

definition LivenessVerdict_verdict_byte :: "LivenessVerdict \<Rightarrow> u8" where
  "LivenessVerdict_verdict_byte self =
     LivenessVerdict_as_u8 self"

definition classify_liveness ::
  "u8 \<Rightarrow> u8 \<Rightarrow> u8 \<Rightarrow> LivenessVerdict" where
  "classify_liveness miss_count latency_tier reputation_score =
     (if miss_count \<ge> DEAD_MISS_THRESHOLD then LivenessVerdict.Dead
      else if miss_count \<ge> SUSPECT_MISS_THRESHOLD \<or> reputation_score <
          SUSPECT_REPUTATION_THRESHOLD \<or> latency_tier \<ge> TIMEOUT_LATENCY_TIER then
          LivenessVerdict.Suspect
      else if miss_count \<ge> 1 \<or> reputation_score < DEGRADED_REPUTATION_THRESHOLD \<or>
          latency_tier \<ge> SLOW_LATENCY_TIER then LivenessVerdict.Degraded
      else LivenessVerdict.Live)"

record LivenessRecord =
  lr3_peer_id :: u32
  lr3_epoch :: u64
  lr3_miss_count :: u8
  lr3_latency_tier :: u8
  lr3_reputation_score :: u8
  lr3_verdict :: LivenessVerdict
  lr3_record_hash :: hash
  lr3_prev_hash :: hash

definition liveness_bytes ::
  "u32 \<Rightarrow> u64 \<Rightarrow> u8 \<Rightarrow> u8 \<Rightarrow> u8 \<Rightarrow>
      LivenessVerdict \<Rightarrow> hash \<Rightarrow> bytes" where
  "liveness_bytes peer_id epoch miss_count latency_tier reputation_score verdict prev =
     hash_bytes prev @ be4 peer_id @ be8 epoch @ [miss_count] @ [latency_tier] @ [reputation_score] @
         [LivenessVerdict_verdict_byte verdict]"

definition compute_liveness_hash ::
  "sha \<Rightarrow> u32 \<Rightarrow> u64 \<Rightarrow> u8 \<Rightarrow> u8 \<Rightarrow> u8
      \<Rightarrow> LivenessVerdict \<Rightarrow> hash \<Rightarrow> hash" where
  "compute_liveness_hash sha peer_id epoch miss_count latency_tier reputation_score verdict prev =
     sha (liveness_bytes peer_id epoch miss_count latency_tier reputation_score verdict prev)"

definition build_liveness_record ::
  "sha \<Rightarrow> u32 \<Rightarrow> u64 \<Rightarrow> u8 \<Rightarrow> u8 \<Rightarrow> u8
      \<Rightarrow> LivenessVerdict \<Rightarrow> hash \<Rightarrow> LivenessRecord" where
  "build_liveness_record sha peer_id epoch miss_count latency_tier reputation_score verdict prev_hash =
     (let record_hash = compute_liveness_hash sha peer_id epoch miss_count latency_tier reputation_score
         verdict prev_hash
      in \<lparr>lr3_peer_id = peer_id, lr3_epoch = epoch, lr3_miss_count = miss_count,
          lr3_latency_tier = latency_tier, lr3_reputation_score = reputation_score,
          lr3_verdict = verdict, lr3_record_hash = record_hash, lr3_prev_hash = prev_hash\<rparr>)"

record LivenessLog =
  ll_records :: "LivenessRecord list"

definition LivenessLog_new :: "LivenessLog" where
  "LivenessLog_new =
     \<lparr>ll_records = []\<rparr>"

definition LivenessLog_last_hash :: "LivenessLog \<Rightarrow> hash" where
  "LivenessLog_last_hash self =
     last_hash lr3_record_hash (ll_records self)"

definition LivenessLog_push ::
  "sha \<Rightarrow> u32 \<Rightarrow> u64 \<Rightarrow> u8 \<Rightarrow> u8 \<Rightarrow> u8
      \<Rightarrow> LivenessVerdict \<Rightarrow> LivenessLog \<Rightarrow> LivenessRecord \<times>
      LivenessLog" where
  "LivenessLog_push sha peer_id epoch miss_count latency_tier reputation_score verdict self =
     (let prev = LivenessLog_last_hash self;
          r = build_liveness_record sha peer_id epoch miss_count latency_tier reputation_score verdict
            prev;
          self = self\<lparr>ll_records := (ll_records self) @ [r]\<rparr>
      in (last (ll_records self), self))"

definition LivenessLog_live_count :: "LivenessLog \<Rightarrow> nat" where
  "LivenessLog_live_count self =
     length (filter (\<lambda>r. (lr3_verdict r) = LivenessVerdict.Live) (ll_records self))"

definition LivenessLog_dead_count :: "LivenessLog \<Rightarrow> nat" where
  "LivenessLog_dead_count self =
     length (filter (\<lambda>r. (lr3_verdict r) = LivenessVerdict.Dead) (ll_records self))"

definition LivenessLog_suspect_count :: "LivenessLog \<Rightarrow> nat" where
  "LivenessLog_suspect_count self =
     length (filter (\<lambda>r. (lr3_verdict r) = LivenessVerdict.Suspect) (ll_records self))"

definition LivenessRecord_bytes_of :: "LivenessRecord \<Rightarrow> bytes" where
  "LivenessRecord_bytes_of r =
     liveness_bytes (lr3_peer_id r) (lr3_epoch r) (lr3_miss_count r) (lr3_latency_tier r)
         (lr3_reputation_score r) (lr3_verdict r) (lr3_prev_hash r)"

definition LivenessLog_verify_chain ::
  "sha \<Rightarrow> LivenessLog \<Rightarrow> bool \<times> nat option" where
  "LivenessLog_verify_chain sha self =
     verify_from lr3_prev_hash lr3_record_hash (\<lambda>r. sha (LivenessRecord_bytes_of r)) 0 genesis
         (ll_records self)"

record PeerLivenessOracle =
  plo_latest :: "(u32, LivenessVerdict) btmap"
  plo_logs :: "(u32, LivenessLog) btmap"

definition PeerLivenessOracle_new :: "PeerLivenessOracle" where
  "PeerLivenessOracle_new =
     \<lparr>plo_latest = bt_empty, plo_logs = bt_empty\<rparr>"

definition PeerLivenessOracle_assess ::
  "sha \<Rightarrow> u32 \<Rightarrow> u64 \<Rightarrow> u8 \<Rightarrow> u8 \<Rightarrow> u8
      \<Rightarrow> PeerLivenessOracle \<Rightarrow> LivenessVerdict \<times> PeerLivenessOracle" where
  "PeerLivenessOracle_assess sha peer_id epoch miss_count latency_tier reputation_score self =
     (let verdict = classify_liveness miss_count latency_tier reputation_score;
          self = self\<lparr>plo_latest := bt_insert peer_id verdict (plo_latest self)\<rparr>;
          log = bt_get_or LivenessLog_new (plo_logs self) peer_id;
          log = snd (LivenessLog_push sha peer_id epoch miss_count latency_tier reputation_score verdict
            log);
          self = self\<lparr>plo_logs := bt_insert peer_id log (plo_logs self)\<rparr>
      in (verdict, self))"

definition PeerLivenessOracle_latest_verdict ::
  "u32 \<Rightarrow> PeerLivenessOracle \<Rightarrow> LivenessVerdict option" where
  "PeerLivenessOracle_latest_verdict peer_id self =
     bt_get (plo_latest self) peer_id"

definition PeerLivenessOracle_dead_peers :: "PeerLivenessOracle \<Rightarrow> u32 list" where
  "PeerLivenessOracle_dead_peers self =
     map (\<lambda>(pid, _). pid) (filter (\<lambda>(_, v). v = LivenessVerdict.Dead) (entries
         (plo_latest self)))"

definition PeerLivenessOracle_suspect_peers :: "PeerLivenessOracle \<Rightarrow> u32 list" where
  "PeerLivenessOracle_suspect_peers self =
     map (\<lambda>(pid, _). pid) (filter (\<lambda>(_, v). v = LivenessVerdict.Suspect) (entries
         (plo_latest self)))"

definition PeerLivenessOracle_live_peers :: "PeerLivenessOracle \<Rightarrow> u32 list" where
  "PeerLivenessOracle_live_peers self =
     map (\<lambda>(pid, _). pid) (filter (\<lambda>(_, v). v = LivenessVerdict.Live) (entries
         (plo_latest self)))"

definition PeerLivenessOracle_get_log ::
  "u32 \<Rightarrow> PeerLivenessOracle \<Rightarrow> LivenessLog option" where
  "PeerLivenessOracle_get_log peer_id self =
     bt_get (plo_logs self) peer_id"

lemma liveness_bytes_inj:
  "liveness_bytes peer_id epoch miss_count latency_tier reputation_score verdict prev = liveness_bytes
      peer_id' epoch' miss_count' latency_tier' reputation_score' verdict' prev' \<longleftrightarrow>
   prev = prev' \<and> peer_id = peer_id' \<and> epoch = epoch' \<and> miss_count = miss_count' \<and>
       latency_tier = latency_tier' \<and> reputation_score = reputation_score' \<and>
       (LivenessVerdict_verdict_byte verdict) = (LivenessVerdict_verdict_byte verdict')"
  by (auto simp: liveness_bytes_def enc_simps)

definition LivenessRecord_committed :: "LivenessRecord \<Rightarrow> u32 \<times> u64 \<times> u8
    \<times> u8 \<times> u8 \<times> u8" where
  "LivenessRecord_committed r =
     (lr3_peer_id r, lr3_epoch r, lr3_miss_count r, lr3_latency_tier r, lr3_reputation_score r,
         LivenessVerdict_verdict_byte (lr3_verdict r))"

interpretation peer_liveness_oracle: hash_log LivenessRecord_bytes_of lr3_prev_hash lr3_record_hash
    LivenessRecord_committed
  by unfold_locales (auto simp: LivenessRecord_bytes_of_def LivenessRecord_committed_def
      liveness_bytes_inj)

lemma peer_liveness_oracle_verify_iff: "LivenessLog_verify_chain sha l = (True,
    None) \<longleftrightarrow> peer_liveness_oracle.ok sha (ll_records l)"
  by (simp add: LivenessLog_verify_chain_def verify_from_iff)

lemma build_liveness_record_linked:
  "lr3_prev_hash (build_liveness_record sha peer_id epoch miss_count latency_tier reputation_score
      verdict prev_hash) = prev_hash"
  "lr3_record_hash (build_liveness_record sha peer_id epoch miss_count latency_tier reputation_score
      verdict prev_hash) = sha (LivenessRecord_bytes_of (build_liveness_record sha peer_id epoch
      miss_count latency_tier reputation_score verdict prev_hash))"
  by (simp_all add: build_liveness_record_def compute_liveness_hash_def LivenessRecord_bytes_of_def
      Let_def split_def)

lemma liveness_log_push_ok: "peer_liveness_oracle.ok sha (ll_records l) \<Longrightarrow>
    peer_liveness_oracle.ok sha (ll_records (snd (LivenessLog_push sha peer_id epoch miss_count
    latency_tier reputation_score verdict l)))"
  by (simp add: Let_def split_def LivenessLog_push_def LivenessLog_last_hash_def
      build_liveness_record_linked split: option.split sum.split)

section \<open>Gossip Peer Scoring Engine: composite peer quality scoring for selection decisions (Gate 300)\<close>

text \<open>
  \<open>peer_scoring_engine.rs\<close>. Combines four sub-scores into a composite [0..100] peer
  quality score: latency_score - Excellent=25, Good=20, Fair=12, Poor=5, Timeout=0 reputation_score -
  (reputation_pct * 25) / 100 [0..25] delivery_score - (delivery_pct * 25) / 100 [0..25] uptime_score
  - (min(uptime_epochs, 100) * 25) / 100 [0..25]
\<close>

definition SCORE_LATENCY_EXCELLENT :: u8 where
  "SCORE_LATENCY_EXCELLENT = 25"

definition SCORE_LATENCY_GOOD :: u8 where
  "SCORE_LATENCY_GOOD = 20"

definition SCORE_LATENCY_FAIR :: u8 where
  "SCORE_LATENCY_FAIR = 12"

definition SCORE_LATENCY_POOR :: u8 where
  "SCORE_LATENCY_POOR = 5"

definition SCORE_MAX_SUB :: u8 where
  "SCORE_MAX_SUB = 25"

definition SCORE_MAX :: u8 where
  "SCORE_MAX = 100"

definition UPTIME_CAP_EPOCHS :: u32 where
  "UPTIME_CAP_EPOCHS = 100"

definition latency_tier_score :: "u8 \<Rightarrow> u8" where
  "latency_tier_score tier_byte =
     (if tier_byte = 0 then SCORE_LATENCY_EXCELLENT else if tier_byte = 1 then SCORE_LATENCY_GOOD else
         if tier_byte = 2 then SCORE_LATENCY_FAIR else if tier_byte = 3 then SCORE_LATENCY_POOR else 0)"

definition reputation_sub_score :: "u8 \<Rightarrow> u8" where
  "reputation_sub_score reputation_pct =
     (ucast (((ucast reputation_pct :: u32) * (ucast SCORE_MAX_SUB :: u32)) div 100) :: u8)"

definition delivery_sub_score :: "u8 \<Rightarrow> u8" where
  "delivery_sub_score delivery_pct =
     (ucast (((ucast delivery_pct :: u32) * (ucast SCORE_MAX_SUB :: u32)) div 100) :: u8)"

definition uptime_sub_score :: "u32 \<Rightarrow> u8" where
  "uptime_sub_score uptime_epochs =
     (let capped = min uptime_epochs UPTIME_CAP_EPOCHS
      in (ucast ((capped * (ucast SCORE_MAX_SUB :: u32)) div UPTIME_CAP_EPOCHS) :: u8))"

definition compute_composite ::
  "u8 \<Rightarrow> u8 \<Rightarrow> u8 \<Rightarrow> u32 \<Rightarrow> u8" where
  "compute_composite latency_tier reputation_pct delivery_pct uptime_epochs =
     (let lat = (ucast (latency_tier_score latency_tier) :: u32);
          rep = (ucast (reputation_sub_score reputation_pct) :: u32);
          del = (ucast (delivery_sub_score delivery_pct) :: u32);
          upt = (ucast (uptime_sub_score uptime_epochs) :: u32)
      in (ucast (min (((lat + rep) + del) + upt) (ucast SCORE_MAX :: u32)) :: u8))"

record ScoreRecord =
  sr2_peer_id :: u32
  sr2_epoch :: u64
  sr2_latency_tier :: u8
  sr2_reputation_pct :: u8
  sr2_delivery_pct :: u8
  sr2_uptime_epochs :: u32
  sr2_composite_score :: u8
  sr2_record_hash :: hash
  sr2_prev_hash :: hash

definition peer_scoring_engine_score_bytes ::
  "u32 \<Rightarrow> u64 \<Rightarrow> u8 \<Rightarrow> u8 \<Rightarrow> u8 \<Rightarrow> u32
      \<Rightarrow> u8 \<Rightarrow> hash \<Rightarrow> bytes" where
  "peer_scoring_engine_score_bytes peer_id epoch latency_tier reputation_pct delivery_pct uptime_epochs
      composite_score prev =
     hash_bytes prev @ be4 peer_id @ be8 epoch @ [latency_tier] @ [reputation_pct] @ [delivery_pct] @
         be4 uptime_epochs @ [composite_score]"

definition peer_scoring_engine_compute_score_hash ::
  "sha \<Rightarrow> u32 \<Rightarrow> u64 \<Rightarrow> u8 \<Rightarrow> u8 \<Rightarrow> u8
      \<Rightarrow> u32 \<Rightarrow> u8 \<Rightarrow> hash \<Rightarrow> hash" where
  "peer_scoring_engine_compute_score_hash sha peer_id epoch latency_tier reputation_pct delivery_pct
      uptime_epochs composite_score prev =
     sha (peer_scoring_engine_score_bytes peer_id epoch latency_tier reputation_pct delivery_pct
         uptime_epochs composite_score prev)"

definition build_score_record ::
  "sha \<Rightarrow> u32 \<Rightarrow> u64 \<Rightarrow> u8 \<Rightarrow> u8 \<Rightarrow> u8
      \<Rightarrow> u32 \<Rightarrow> hash \<Rightarrow> ScoreRecord" where
  "build_score_record sha peer_id epoch latency_tier reputation_pct delivery_pct uptime_epochs prev_hash
      =
     (let composite_score = compute_composite latency_tier reputation_pct delivery_pct uptime_epochs;
          record_hash = peer_scoring_engine_compute_score_hash sha peer_id epoch latency_tier
            reputation_pct delivery_pct uptime_epochs composite_score prev_hash
      in \<lparr>sr2_peer_id = peer_id, sr2_epoch = epoch, sr2_latency_tier = latency_tier,
          sr2_reputation_pct = reputation_pct, sr2_delivery_pct = delivery_pct,
          sr2_uptime_epochs = uptime_epochs, sr2_composite_score = composite_score,
          sr2_record_hash = record_hash, sr2_prev_hash = prev_hash\<rparr>)"

record ScoreLog =
  sl2_peer_id :: u32
  sl2_records :: "ScoreRecord list"

definition ScoreLog_new :: "u32 \<Rightarrow> ScoreLog" where
  "ScoreLog_new peer_id =
     \<lparr>sl2_peer_id = peer_id, sl2_records = []\<rparr>"

definition ScoreLog_last_hash :: "ScoreLog \<Rightarrow> hash" where
  "ScoreLog_last_hash self =
     last_hash sr2_record_hash (sl2_records self)"

definition ScoreLog_record ::
  "sha \<Rightarrow> u64 \<Rightarrow> u8 \<Rightarrow> u8 \<Rightarrow> u8 \<Rightarrow> u32
      \<Rightarrow> ScoreLog \<Rightarrow> ScoreRecord \<times> ScoreLog" where
  "ScoreLog_record sha epoch latency_tier reputation_pct delivery_pct uptime_epochs self =
     (let prev = ScoreLog_last_hash self;
          r = build_score_record sha (sl2_peer_id self) epoch latency_tier reputation_pct delivery_pct
            uptime_epochs prev;
          self = self\<lparr>sl2_records := (sl2_records self) @ [r]\<rparr>
      in (last (sl2_records self), self))"

definition ScoreLog_avg_score :: "ScoreLog \<Rightarrow> u8" where
  "ScoreLog_avg_score self =
     (if (sl2_records self) = [] then 0
      else (let sum_v = sum_list (map (\<lambda>r. (ucast (sr2_composite_score r) :: u32)) (sl2_records
          self))
      in (ucast (sum_v div (of_nat (length (sl2_records self)) :: u32)) :: u8)))"

definition ScoreLog_min_score :: "ScoreLog \<Rightarrow> u8 option" where
  "ScoreLog_min_score self =
     list_min (map sr2_composite_score (sl2_records self))"

definition ScoreLog_max_score :: "ScoreLog \<Rightarrow> u8 option" where
  "ScoreLog_max_score self =
     list_max (map sr2_composite_score (sl2_records self))"

definition ScoreRecord_bytes_of :: "ScoreRecord \<Rightarrow> bytes" where
  "ScoreRecord_bytes_of r =
     peer_scoring_engine_score_bytes (sr2_peer_id r) (sr2_epoch r) (sr2_latency_tier r)
         (sr2_reputation_pct r) (sr2_delivery_pct r) (sr2_uptime_epochs r) (sr2_composite_score r)
         (sr2_prev_hash r)"

definition ScoreLog_verify_chain ::
  "sha \<Rightarrow> ScoreLog \<Rightarrow> bool \<times> nat option" where
  "ScoreLog_verify_chain sha self =
     verify_from sr2_prev_hash sr2_record_hash (\<lambda>r. sha (ScoreRecord_bytes_of r)) 0 genesis
         (sl2_records self)"

record PeerScoringEngine =
  pse_peers :: "(u32, ScoreLog) btmap"

definition PeerScoringEngine_new :: "PeerScoringEngine" where
  "PeerScoringEngine_new =
     \<lparr>pse_peers = bt_empty\<rparr>"

definition PeerScoringEngine_peer_count :: "PeerScoringEngine \<Rightarrow> nat" where
  "PeerScoringEngine_peer_count self =
     bt_len (pse_peers self)"

definition PeerScoringEngine_update_score ::
  "sha \<Rightarrow> u32 \<Rightarrow> u64 \<Rightarrow> u8 \<Rightarrow> u8 \<Rightarrow> u8
      \<Rightarrow> u32 \<Rightarrow> PeerScoringEngine \<Rightarrow> ScoreRecord \<times>
      PeerScoringEngine" where
  "PeerScoringEngine_update_score sha peer_id epoch latency_tier reputation_pct delivery_pct
      uptime_epochs self =
     (let log = bt_get_or (ScoreLog_new peer_id) (pse_peers self) peer_id
      in (let (result, log) = ScoreLog_record sha epoch latency_tier reputation_pct delivery_pct
          uptime_epochs log;
          self = self\<lparr>pse_peers := bt_insert peer_id log (pse_peers self)\<rparr>
      in (result, self)))"

definition PeerScoringEngine_composite_score ::
  "u32 \<Rightarrow> PeerScoringEngine \<Rightarrow> u8 option" where
  "PeerScoringEngine_composite_score peer_id self =
     map_option sr2_composite_score (Option.bind (bt_get (pse_peers self) peer_id) (\<lambda>l. last_opt
         (sl2_records l)))"

definition PeerScoringEngine_top_peers :: "nat \<Rightarrow> PeerScoringEngine \<Rightarrow> u32 list"
    where
  "PeerScoringEngine_top_peers n self =
     (let scored = List.map_filter (\<lambda>(pid, log). map_option (\<lambda>r. (pid,
         sr2_composite_score r)) (last_opt (sl2_records log)))
            (entries (pse_peers self));
          scored = sort_key (\<lambda>(_, s). 255 - unat s) (sort_key fst scored)
      in map fst (take n scored))"

definition PeerScoringEngine_all_scores ::
  "PeerScoringEngine \<Rightarrow> (u32 \<times> u8) list" where
  "PeerScoringEngine_all_scores self =
     List.map_filter (\<lambda>(pid, log). map_option (\<lambda>r. (pid,
         sr2_composite_score r)) (last_opt (sl2_records log))) (entries (pse_peers self))"

definition PeerScoringEngine_get_log ::
  "u32 \<Rightarrow> PeerScoringEngine \<Rightarrow> ScoreLog option" where
  "PeerScoringEngine_get_log peer_id self =
     bt_get (pse_peers self) peer_id"

lemma peer_scoring_engine_score_bytes_inj:
  "peer_scoring_engine_score_bytes peer_id epoch latency_tier reputation_pct delivery_pct uptime_epochs
      composite_score prev = peer_scoring_engine_score_bytes peer_id' epoch' latency_tier'
      reputation_pct' delivery_pct' uptime_epochs' composite_score' prev' \<longleftrightarrow>
   prev = prev' \<and> peer_id = peer_id' \<and> epoch = epoch' \<and> latency_tier = latency_tier'
       \<and> reputation_pct = reputation_pct' \<and> delivery_pct = delivery_pct' \<and> uptime_epochs
       = uptime_epochs' \<and> composite_score = composite_score'"
  by (auto simp: peer_scoring_engine_score_bytes_def enc_simps)

definition ScoreRecord_committed :: "ScoreRecord \<Rightarrow> u32 \<times> u64 \<times> u8 \<times> u8
    \<times> u8 \<times> u32 \<times> u8" where
  "ScoreRecord_committed r =
     (sr2_peer_id r, sr2_epoch r, sr2_latency_tier r, sr2_reputation_pct r, sr2_delivery_pct r,
         sr2_uptime_epochs r, sr2_composite_score r)"

interpretation peer_scoring_engine: hash_log ScoreRecord_bytes_of sr2_prev_hash sr2_record_hash
    ScoreRecord_committed
  by unfold_locales (auto simp: ScoreRecord_bytes_of_def ScoreRecord_committed_def
      peer_scoring_engine_score_bytes_inj)

lemma peer_scoring_engine_verify_iff: "ScoreLog_verify_chain sha l = (True,
    None) \<longleftrightarrow> peer_scoring_engine.ok sha (sl2_records l)"
  by (simp add: ScoreLog_verify_chain_def verify_from_iff)

lemma build_score_record_linked:
  "sr2_prev_hash (build_score_record sha peer_id epoch latency_tier reputation_pct delivery_pct
      uptime_epochs prev_hash) = prev_hash"
  "sr2_record_hash (build_score_record sha peer_id epoch latency_tier reputation_pct delivery_pct
      uptime_epochs prev_hash) = sha (ScoreRecord_bytes_of (build_score_record sha peer_id epoch
      latency_tier reputation_pct delivery_pct uptime_epochs prev_hash))"
  by (simp_all add: build_score_record_def peer_scoring_engine_compute_score_hash_def
      ScoreRecord_bytes_of_def Let_def split_def)

lemma score_log_record_ok: "peer_scoring_engine.ok sha (sl2_records l) \<Longrightarrow>
    peer_scoring_engine.ok sha (sl2_records (snd (ScoreLog_record sha epoch latency_tier reputation_pct
    delivery_pct uptime_epochs l)))"
  by (simp add: Let_def split_def ScoreLog_record_def ScoreLog_last_hash_def build_score_record_linked
      split: option.split sum.split)

end
