(* ===== verification/Peer_Limits.thy ===== *)
theory Peer_Limits
  imports Epoch_Log
begin

text \<open>
  What a node allows each of its peers: its reputation and the decay of it, the pressure it puts on
  the node, and the messages and bytes it may send in an epoch.
\<close>

section \<open>Peer Reputation Scorer: integer 0-100 reputation tracking (Gate 278)\<close>

text \<open>
  \<open>peer_reputation.rs\<close>. Tracks peer behavior events and computes a reputation score on a
  0-100 scale.
\<close>

definition peer_reputation_INITIAL_SCORE :: u8 where
  "peer_reputation_INITIAL_SCORE = 50"

datatype ReputationEvent = ValidMessage | InvalidMessage | TimelyDelivery | LateDelivery |
    DuplicateMessage | TtlViolation | ManifestMismatch | ReliableQuorum

fun ReputationEvent_as_u8 :: "ReputationEvent \<Rightarrow> u8" where
  "ReputationEvent_as_u8 ReputationEvent.ValidMessage = 0"
| "ReputationEvent_as_u8 ReputationEvent.InvalidMessage = 1"
| "ReputationEvent_as_u8 ReputationEvent.TimelyDelivery = 2"
| "ReputationEvent_as_u8 ReputationEvent.LateDelivery = 3"
| "ReputationEvent_as_u8 ReputationEvent.DuplicateMessage = 4"
| "ReputationEvent_as_u8 ReputationEvent.TtlViolation = 5"
| "ReputationEvent_as_u8 ReputationEvent.ManifestMismatch = 6"
| "ReputationEvent_as_u8 ReputationEvent.ReliableQuorum = 7"

lemma ReputationEvent_as_u8_inj [simp]: "ReputationEvent_as_u8 x = ReputationEvent_as_u8 y
    \<longleftrightarrow> x = y"
  by (cases x; cases y) auto

definition ReputationEvent_delta :: "ReputationEvent \<Rightarrow> i16" where
  "ReputationEvent_delta self =
     (case self of
         ReputationEvent.ValidMessage \<Rightarrow> 2
       | ReputationEvent.InvalidMessage \<Rightarrow> - 10
       | ReputationEvent.TimelyDelivery \<Rightarrow> 1
       | ReputationEvent.LateDelivery \<Rightarrow> - 3
       | ReputationEvent.DuplicateMessage \<Rightarrow> - 2
       | ReputationEvent.TtlViolation \<Rightarrow> - 15
       | ReputationEvent.ManifestMismatch \<Rightarrow> - 20
       | ReputationEvent.ReliableQuorum \<Rightarrow> 5)"

definition ReputationEvent_is_positive :: "ReputationEvent \<Rightarrow> bool" where
  "ReputationEvent_is_positive self \<longleftrightarrow>
     0 <s (ReputationEvent_delta self)"

datatype ReputationTier = Blocked | Suspicious | Neutral | Good | Trusted

fun ReputationTier_as_u8 :: "ReputationTier \<Rightarrow> u8" where
  "ReputationTier_as_u8 ReputationTier.Blocked = 0"
| "ReputationTier_as_u8 ReputationTier.Suspicious = 1"
| "ReputationTier_as_u8 ReputationTier.Neutral = 2"
| "ReputationTier_as_u8 ReputationTier.Good = 3"
| "ReputationTier_as_u8 ReputationTier.Trusted = 4"

lemma ReputationTier_as_u8_inj [simp]: "ReputationTier_as_u8 x = ReputationTier_as_u8 y
    \<longleftrightarrow> x = y"
  by (cases x; cases y) auto

definition peer_reputation_classify_tier :: "u8 \<Rightarrow> ReputationTier" where
  "peer_reputation_classify_tier score =
     (if score < 20 then ReputationTier.Blocked
      else if score < 40 then ReputationTier.Suspicious
      else if score < 60 then ReputationTier.Neutral
      else if score < 80 then ReputationTier.Good
      else ReputationTier.Trusted)"

record PeerReputation =
  pr3_peer_id :: u32
  pr3_score :: u8
  pr3_tier :: ReputationTier
  pr3_event_count :: u64
  pr3_positive_events :: u64
  pr3_negative_events :: u64
  pr3_rep_hash :: hash
  pr3_prev_hash :: hash

definition rep_bytes ::
  "u32 \<Rightarrow> u8 \<Rightarrow> u64 \<Rightarrow> hash \<Rightarrow> bytes" where
  "rep_bytes peer_id score event_count prev =
     hash_bytes prev @ be4 peer_id @ [score] @ be8 event_count"

definition compute_rep_hash ::
  "sha \<Rightarrow> u32 \<Rightarrow> u8 \<Rightarrow> u64 \<Rightarrow> hash \<Rightarrow> hash" where
  "compute_rep_hash sha peer_id score event_count prev =
     sha (rep_bytes peer_id score event_count prev)"

definition PeerReputation_new :: "sha \<Rightarrow> u32 \<Rightarrow> PeerReputation" where
  "PeerReputation_new sha peer_id =
     (let score = peer_reputation_INITIAL_SCORE;
          tier = peer_reputation_classify_tier score;
          rep_hash = compute_rep_hash sha peer_id score 0 genesis
      in \<lparr>pr3_peer_id = peer_id, pr3_score = score, pr3_tier = tier, pr3_event_count = 0,
          pr3_positive_events = 0, pr3_negative_events = 0, pr3_rep_hash = rep_hash,
          pr3_prev_hash = genesis\<rparr>)"

definition PeerReputation_apply_event ::
  "sha \<Rightarrow> ReputationEvent \<Rightarrow> PeerReputation \<Rightarrow> PeerReputation" where
  "PeerReputation_apply_event sha event self =
     (let new_score = (ucast (smin (smax ((ucast (pr3_score self) :: i16) + (ReputationEvent_delta
         event)) 0) 100) :: u8);
          self = self\<lparr>pr3_event_count := (pr3_event_count self) + 1\<rparr>;
          self = (if ReputationEvent_is_positive event then (let self = self\<lparr>pr3_positive_events
            := (pr3_positive_events self) + 1\<rparr>
      in self)
      else (let self = self\<lparr>pr3_negative_events := (pr3_negative_events self) + 1\<rparr>
      in self));
          prev = pr3_rep_hash self;
          self = self\<lparr>pr3_score := new_score\<rparr>;
          self = self\<lparr>pr3_tier := peer_reputation_classify_tier new_score\<rparr>;
          self = self\<lparr>pr3_rep_hash := compute_rep_hash sha (pr3_peer_id self) (pr3_score self)
            (pr3_event_count self) prev\<rparr>;
          self = self\<lparr>pr3_prev_hash := prev\<rparr>
      in self)"

definition PeerReputation_is_blocked :: "PeerReputation \<Rightarrow> bool" where
  "PeerReputation_is_blocked self \<longleftrightarrow>
     (pr3_tier self) = ReputationTier.Blocked"

definition PeerReputation_is_trusted :: "PeerReputation \<Rightarrow> bool" where
  "PeerReputation_is_trusted self \<longleftrightarrow>
     (pr3_tier self) = ReputationTier.Trusted"

record ReputationLedger =
  rl2_peers :: "(u32, PeerReputation) btmap"

definition ReputationLedger_new :: "ReputationLedger" where
  "ReputationLedger_new =
     \<lparr>rl2_peers = bt_empty\<rparr>"

definition ReputationLedger_peer_count :: "ReputationLedger \<Rightarrow> nat" where
  "ReputationLedger_peer_count self =
     bt_len (rl2_peers self)"

definition ReputationLedger_record_event ::
  "sha \<Rightarrow> u32 \<Rightarrow> ReputationEvent \<Rightarrow> ReputationLedger \<Rightarrow>
      ReputationLedger" where
  "ReputationLedger_record_event sha peer_id event self =
     (let rep = bt_get_or (PeerReputation_new sha peer_id) (rl2_peers self) peer_id;
          rep = PeerReputation_apply_event sha event rep;
          self = self\<lparr>rl2_peers := bt_insert peer_id rep (rl2_peers self)\<rparr>
      in self)"

definition ReputationLedger_get ::
  "u32 \<Rightarrow> ReputationLedger \<Rightarrow> PeerReputation option" where
  "ReputationLedger_get peer_id self =
     bt_get (rl2_peers self) peer_id"

definition ReputationLedger_trusted_peers :: "ReputationLedger \<Rightarrow> u32 list" where
  "ReputationLedger_trusted_peers self =
     map (\<lambda>(id_v, _). id_v) (filter (\<lambda>(_, r). PeerReputation_is_trusted r) (entries
         (rl2_peers self)))"

definition ReputationLedger_blocked_peers :: "ReputationLedger \<Rightarrow> u32 list" where
  "ReputationLedger_blocked_peers self =
     map (\<lambda>(id_v, _). id_v) (filter (\<lambda>(_, r). PeerReputation_is_blocked r) (entries
         (rl2_peers self)))"

definition ReputationLedger_weakest_peer :: "ReputationLedger \<Rightarrow> u32 option" where
  "ReputationLedger_weakest_peer self =
     map_option (\<lambda>(id_v, _). id_v) (min_by_key (\<lambda>(_,
         r). pr3_score r) (entries (rl2_peers self)))"

definition ReputationLedger_average_score :: "ReputationLedger \<Rightarrow> u8" where
  "ReputationLedger_average_score self =
     (if bt_len (rl2_peers self) = 0 then 0
      else (let sum_v = sum_list (map (\<lambda>r. unat (pr3_score r)) (bt_values (rl2_peers self)))
      in (of_nat (sum_v div (bt_len (rl2_peers self))) :: u8)))"

section \<open>Gossip Reputation Decay: epoch-based reputation erosion for inactive peers (Gate 288)\<close>

text \<open>
  \<open>reputation_decay.rs\<close>. Peers that do not produce gossip activity within an epoch have
  their reputation decremented by a configurable decay amount. Peers with no probed reachability
  receive accelerated decay. Tracks per-peer decay history in a hash-linked log.
\<close>

definition DECAY_INACTIVE :: u8 where
  "DECAY_INACTIVE = 3"

definition DECAY_UNREACHABLE :: u8 where
  "DECAY_UNREACHABLE = 8"

definition DECAY_OVERDUE :: u8 where
  "DECAY_OVERDUE = 5"

definition reputation_decay_INITIAL_SCORE :: u8 where
  "reputation_decay_INITIAL_SCORE = 50"

datatype DecayReason = Inactive | Unreachable | Overdue

fun DecayReason_as_u8 :: "DecayReason \<Rightarrow> u8" where
  "DecayReason_as_u8 DecayReason.Inactive = 0"
| "DecayReason_as_u8 DecayReason.Unreachable = 1"
| "DecayReason_as_u8 DecayReason.Overdue = 2"

lemma DecayReason_as_u8_inj [simp]: "DecayReason_as_u8 x = DecayReason_as_u8 y \<longleftrightarrow> x =
    y"
  by (cases x; cases y) auto

definition DecayReason_reason_byte :: "DecayReason \<Rightarrow> u8" where
  "DecayReason_reason_byte self =
     (case self of
         DecayReason.Inactive \<Rightarrow> 0
       | DecayReason.Unreachable \<Rightarrow> 1
       | DecayReason.Overdue \<Rightarrow> 2)"

definition DecayReason_decay_amount :: "DecayReason \<Rightarrow> u8" where
  "DecayReason_decay_amount self =
     (case self of
         DecayReason.Inactive \<Rightarrow> DECAY_INACTIVE
       | DecayReason.Unreachable \<Rightarrow> DECAY_UNREACHABLE
       | DecayReason.Overdue \<Rightarrow> DECAY_OVERDUE)"

record ReputationDecayRecord =
  rdr_peer_id :: u32
  rdr_epoch :: u64
  rdr_score_before :: u8
  rdr_score_after :: u8
  rdr_decay_amount :: u8
  rdr_reason :: DecayReason
  rdr_record_hash :: hash
  rdr_prev_hash :: hash

definition decay_bytes ::
  "u32 \<Rightarrow> u64 \<Rightarrow> u8 \<Rightarrow> u8 \<Rightarrow> u8 \<Rightarrow> DecayReason
      \<Rightarrow> hash \<Rightarrow> bytes" where
  "decay_bytes peer_id epoch score_before score_after decay_amount reason prev =
     hash_bytes prev @ be4 peer_id @ be8 epoch @ [score_before] @ [score_after] @ [decay_amount] @
         [DecayReason_reason_byte reason]"

definition compute_decay_hash ::
  "sha \<Rightarrow> u32 \<Rightarrow> u64 \<Rightarrow> u8 \<Rightarrow> u8 \<Rightarrow> u8
      \<Rightarrow> DecayReason \<Rightarrow> hash \<Rightarrow> hash" where
  "compute_decay_hash sha peer_id epoch score_before score_after decay_amount reason prev =
     sha (decay_bytes peer_id epoch score_before score_after decay_amount reason prev)"

definition build_decay_record ::
  "sha \<Rightarrow> u32 \<Rightarrow> u64 \<Rightarrow> u8 \<Rightarrow> DecayReason \<Rightarrow> hash
      \<Rightarrow> ReputationDecayRecord" where
  "build_decay_record sha peer_id epoch score_before reason prev_hash =
     (let decay_amount = DecayReason_decay_amount reason;
          score_after = sat_sub score_before decay_amount;
          record_hash = compute_decay_hash sha peer_id epoch score_before score_after decay_amount
            reason prev_hash
      in \<lparr>rdr_peer_id = peer_id, rdr_epoch = epoch, rdr_score_before = score_before,
          rdr_score_after = score_after, rdr_decay_amount = decay_amount, rdr_reason = reason,
          rdr_record_hash = record_hash, rdr_prev_hash = prev_hash\<rparr>)"

record PeerDecayLog =
  pdl_peer_id :: u32
  pdl_records :: "ReputationDecayRecord list"

datatype DecayError = StaleEpoch

fun DecayError_as_u8 :: "DecayError \<Rightarrow> u8" where
  "DecayError_as_u8 DecayError.StaleEpoch = 0"

lemma DecayError_as_u8_inj [simp]: "DecayError_as_u8 x = DecayError_as_u8 y \<longleftrightarrow> x = y"
  by (cases x; cases y) auto

definition PeerDecayLog_new :: "u32 \<Rightarrow> PeerDecayLog" where
  "PeerDecayLog_new peer_id =
     \<lparr>pdl_peer_id = peer_id, pdl_records = []\<rparr>"

definition PeerDecayLog_last_hash :: "PeerDecayLog \<Rightarrow> hash" where
  "PeerDecayLog_last_hash self =
     last_hash rdr_record_hash (pdl_records self)"

definition PeerDecayLog_record ::
  "sha \<Rightarrow> u64 \<Rightarrow> u8 \<Rightarrow> DecayReason \<Rightarrow> PeerDecayLog
      \<Rightarrow> (DecayError + ReputationDecayRecord) \<times> PeerDecayLog" where
  "PeerDecayLog_record sha epoch score_before reason self =
     (if pdl_records self \<noteq> [] \<and> epoch \<le> (rdr_epoch (last (pdl_records self))) then (Inl
         DecayError.StaleEpoch, self)
      else (let prev = PeerDecayLog_last_hash self;
          r = build_decay_record sha (pdl_peer_id self) epoch score_before reason prev;
          self = self\<lparr>pdl_records := (pdl_records self) @ [r]\<rparr>
      in (Inr (last (pdl_records self)), self)))"

definition PeerDecayLog_total_decayed :: "PeerDecayLog \<Rightarrow> u32" where
  "PeerDecayLog_total_decayed self =
     sum_list (map (\<lambda>r. (ucast (rdr_decay_amount r) :: u32)) (pdl_records self))"

definition PeerDecayLog_avg_decay_per_epoch :: "PeerDecayLog \<Rightarrow> u32" where
  "PeerDecayLog_avg_decay_per_epoch self =
     (if (pdl_records self) = [] then 0
      else (PeerDecayLog_total_decayed self) div (of_nat (length (pdl_records self)) :: u32))"

definition PeerDecayLog_min_score :: "PeerDecayLog \<Rightarrow> u8 option" where
  "PeerDecayLog_min_score self =
     list_min (map rdr_score_after (pdl_records self))"

definition ReputationDecayRecord_bytes_of :: "ReputationDecayRecord \<Rightarrow> bytes" where
  "ReputationDecayRecord_bytes_of r =
     decay_bytes (rdr_peer_id r) (rdr_epoch r) (rdr_score_before r) (rdr_score_after r)
         (rdr_decay_amount r) (rdr_reason r) (rdr_prev_hash r)"

definition PeerDecayLog_verify_chain ::
  "sha \<Rightarrow> PeerDecayLog \<Rightarrow> bool \<times> nat option" where
  "PeerDecayLog_verify_chain sha self =
     verify_from rdr_prev_hash rdr_record_hash (\<lambda>r. sha (ReputationDecayRecord_bytes_of r)) 0
         genesis (pdl_records self)"

record PeerState_decay =
  ps2_log :: PeerDecayLog
  ps2_current_score :: u8

record DecayEngine =
  de_peers :: "(u32, PeerState_decay) btmap"

definition DecayEngine_new :: "DecayEngine" where
  "DecayEngine_new =
     \<lparr>de_peers = bt_empty\<rparr>"

definition DecayEngine_peer_count :: "DecayEngine \<Rightarrow> nat" where
  "DecayEngine_peer_count self =
     bt_len (de_peers self)"

definition DecayEngine_apply_decay ::
  "sha \<Rightarrow> u32 \<Rightarrow> u64 \<Rightarrow> DecayReason \<Rightarrow> DecayEngine
      \<Rightarrow> (DecayError + ReputationDecayRecord) \<times> DecayEngine" where
  "DecayEngine_apply_decay sha peer_id epoch reason self =
     (let state = bt_get_or (\<lparr>ps2_log = PeerDecayLog_new peer_id,
         ps2_current_score = reputation_decay_INITIAL_SCORE\<rparr>) (de_peers self) peer_id;
          self = self\<lparr>de_peers := bt_insert peer_id state (de_peers self)\<rparr>;
          score_before = ps2_current_score state
      in (let (result, log') = PeerDecayLog_record sha epoch score_before reason (ps2_log state);
          state = state\<lparr>ps2_log := log'\<rparr>;
          self = self\<lparr>de_peers := bt_insert peer_id state (de_peers self)\<rparr>
      in case result of Inl err \<Rightarrow> (Inl err, self)
      | Inr rec \<Rightarrow> (let state = state\<lparr>ps2_current_score := rdr_score_after
          rec\<rparr>;
          self = self\<lparr>de_peers := bt_insert peer_id state (de_peers self)\<rparr>
      in (Inr rec, self))))"

definition DecayEngine_bulk_decay ::
  "sha \<Rightarrow> u64 \<Rightarrow> (u32 \<times> DecayReason) list \<Rightarrow> DecayEngine
      \<Rightarrow> (DecayError + ReputationDecayRecord) list \<times> DecayEngine" where
  "DecayEngine_bulk_decay sha epoch peer_reasons self =
     fold (\<lambda>(pid, reason) (results, self).
         (let (result, self) = DecayEngine_apply_decay sha pid epoch reason self in (results @ [result],
           self)))
       peer_reasons ([], self)"

definition DecayEngine_current_score :: "u32 \<Rightarrow> DecayEngine \<Rightarrow> u8 option" where
  "DecayEngine_current_score peer_id self =
     map_option ps2_current_score (bt_get (de_peers self) peer_id)"

definition DecayEngine_peers_below :: "u8 \<Rightarrow> DecayEngine \<Rightarrow> u32 list" where
  "DecayEngine_peers_below threshold self =
     map (\<lambda>(id_v, _). id_v) (filter (\<lambda>(_, s). (ps2_current_score s) < threshold)
         (entries (de_peers self)))"

definition DecayEngine_get_log ::
  "u32 \<Rightarrow> DecayEngine \<Rightarrow> PeerDecayLog option" where
  "DecayEngine_get_log peer_id self =
     map_option ps2_log (bt_get (de_peers self) peer_id)"

lemma decay_bytes_inj:
  "decay_bytes peer_id epoch score_before score_after decay_amount reason prev = decay_bytes peer_id'
      epoch' score_before' score_after' decay_amount' reason' prev' \<longleftrightarrow>
   prev = prev' \<and> peer_id = peer_id' \<and> epoch = epoch' \<and> score_before = score_before'
       \<and> score_after = score_after' \<and> decay_amount = decay_amount' \<and>
       (DecayReason_reason_byte reason) = (DecayReason_reason_byte reason')"
  by (auto simp: decay_bytes_def enc_simps)

definition ReputationDecayRecord_committed :: "ReputationDecayRecord \<Rightarrow> u32 \<times> u64
    \<times> u8 \<times> u8 \<times> u8 \<times> u8" where
  "ReputationDecayRecord_committed r =
     (rdr_peer_id r, rdr_epoch r, rdr_score_before r, rdr_score_after r, rdr_decay_amount r,
         DecayReason_reason_byte (rdr_reason r))"

interpretation reputation_decay: hash_log ReputationDecayRecord_bytes_of rdr_prev_hash rdr_record_hash
    ReputationDecayRecord_committed
  by unfold_locales (auto simp: ReputationDecayRecord_bytes_of_def ReputationDecayRecord_committed_def
      decay_bytes_inj)

lemma reputation_decay_verify_iff: "PeerDecayLog_verify_chain sha l = (True,
    None) \<longleftrightarrow> reputation_decay.ok sha (pdl_records l)"
  by (simp add: PeerDecayLog_verify_chain_def verify_from_iff)

lemma build_decay_record_linked:
  "rdr_prev_hash (build_decay_record sha peer_id epoch score_before reason prev_hash) = prev_hash"
  "rdr_record_hash (build_decay_record sha peer_id epoch score_before reason prev_hash) = sha
      (ReputationDecayRecord_bytes_of (build_decay_record sha peer_id epoch score_before reason
      prev_hash))"
  by (simp_all add: build_decay_record_def compute_decay_hash_def ReputationDecayRecord_bytes_of_def
      Let_def split_def)

lemma peer_decay_log_record_ok: "reputation_decay.ok sha (pdl_records l) \<Longrightarrow>
    reputation_decay.ok sha (pdl_records (snd (PeerDecayLog_record sha epoch score_before reason l)))"
  by (simp add: Let_def split_def PeerDecayLog_record_def PeerDecayLog_last_hash_def
      build_decay_record_linked split: option.split sum.split)

section \<open>Gossip Backpressure Monitor: per-peer rate tracking and backpressure (Gate 274)\<close>

text \<open>
  \<open>backpressure_monitor.rs\<close>. Tracks the incoming message rate per peer over a rolling
  window and emits backpressure decisions: Accept / Throttle / Drop.
\<close>

datatype BackpressureDecision = Accept | Throttle | Drop

fun BackpressureDecision_as_u8 :: "BackpressureDecision \<Rightarrow> u8" where
  "BackpressureDecision_as_u8 BackpressureDecision.Accept = 0"
| "BackpressureDecision_as_u8 BackpressureDecision.Throttle = 1"
| "BackpressureDecision_as_u8 BackpressureDecision.Drop = 2"

lemma BackpressureDecision_as_u8_inj [simp]: "BackpressureDecision_as_u8 x = BackpressureDecision_as_u8
    y \<longleftrightarrow> x = y"
  by (cases x; cases y) auto

definition classify_decision :: "u8 \<Rightarrow> BackpressureDecision" where
  "classify_decision rate_pct =
     (if rate_pct \<le> 70 then BackpressureDecision.Accept
      else if rate_pct \<le> 100 then BackpressureDecision.Throttle
      else BackpressureDecision.Drop)"

definition compute_rate_pct :: "u32 \<Rightarrow> u32 \<Rightarrow> u8" where
  "compute_rate_pct message_count capacity_per_epoch =
     (if capacity_per_epoch = 0 then (- 1 :: u8)
      else (let pct = ((ucast message_count :: u64) * 100) div (ucast capacity_per_epoch :: u64)
      in (ucast (min pct (ucast (- 1 :: u8) :: u64)) :: u8)))"

record PeerRateRecord =
  prr_peer_id :: u32
  prr_epoch :: u64
  prr_message_count :: u32
  prr_rate_pct :: u8
  prr_decision :: BackpressureDecision
  prr_record_hash :: hash
  prr_prev_hash :: hash

definition backpressure_monitor_record_bytes ::
  "u32 \<Rightarrow> u64 \<Rightarrow> u32 \<Rightarrow> BackpressureDecision \<Rightarrow> hash
      \<Rightarrow> bytes" where
  "backpressure_monitor_record_bytes peer_id epoch message_count decision prev =
     hash_bytes prev @ be4 peer_id @ be8 epoch @ be4 message_count @
         [BackpressureDecision_as_u8 decision]"

definition backpressure_monitor_compute_record_hash ::
  "sha \<Rightarrow> u32 \<Rightarrow> u64 \<Rightarrow> u32 \<Rightarrow> BackpressureDecision
      \<Rightarrow> hash \<Rightarrow> hash" where
  "backpressure_monitor_compute_record_hash sha peer_id epoch message_count decision prev =
     sha (backpressure_monitor_record_bytes peer_id epoch message_count decision prev)"

definition build_record ::
  "sha \<Rightarrow> u32 \<Rightarrow> u64 \<Rightarrow> u32 \<Rightarrow> u32 \<Rightarrow> hash
      \<Rightarrow> PeerRateRecord" where
  "build_record sha peer_id epoch message_count capacity_per_epoch prev_hash =
     (let rate_pct = compute_rate_pct message_count capacity_per_epoch;
          decision = classify_decision rate_pct;
          record_hash = backpressure_monitor_compute_record_hash sha peer_id epoch message_count
            decision prev_hash
      in \<lparr>prr_peer_id = peer_id, prr_epoch = epoch, prr_message_count = message_count,
          prr_rate_pct = rate_pct, prr_decision = decision, prr_record_hash = record_hash,
          prr_prev_hash = prev_hash\<rparr>)"

record PeerRateLog =
  prl_peer_id :: u32
  prl_records :: "PeerRateRecord list"

datatype RateLogError = StaleEpoch | PeerMismatch

fun RateLogError_as_u8 :: "RateLogError \<Rightarrow> u8" where
  "RateLogError_as_u8 RateLogError.StaleEpoch = 0"
| "RateLogError_as_u8 RateLogError.PeerMismatch = 1"

lemma RateLogError_as_u8_inj [simp]: "RateLogError_as_u8 x = RateLogError_as_u8 y \<longleftrightarrow>
    x = y"
  by (cases x; cases y) auto

definition PeerRateLog_new :: "u32 \<Rightarrow> PeerRateLog" where
  "PeerRateLog_new peer_id =
     \<lparr>prl_peer_id = peer_id, prl_records = []\<rparr>"

definition PeerRateLog_latest :: "PeerRateLog \<Rightarrow> PeerRateRecord option" where
  "PeerRateLog_latest self =
     last_opt (prl_records self)"

definition PeerRateLog_last_hash :: "PeerRateLog \<Rightarrow> hash" where
  "PeerRateLog_last_hash self =
     last_hash prr_record_hash (prl_records self)"

definition PeerRateLog_record ::
  "sha \<Rightarrow> u64 \<Rightarrow> u32 \<Rightarrow> u32 \<Rightarrow> PeerRateLog \<Rightarrow>
      (RateLogError + PeerRateRecord) \<times> PeerRateLog" where
  "PeerRateLog_record sha epoch message_count capacity_per_epoch self =
     (if prl_records self \<noteq> [] \<and> epoch \<le> (prr_epoch (last (prl_records self))) then (Inl
         RateLogError.StaleEpoch, self)
      else (let prev_hash = PeerRateLog_last_hash self;
          r = build_record sha (prl_peer_id self) epoch message_count capacity_per_epoch prev_hash;
          self = self\<lparr>prl_records := (prl_records self) @ [r]\<rparr>
      in (Inr (last (prl_records self)), self)))"

definition PeerRateLog_throttle_count :: "PeerRateLog \<Rightarrow> nat" where
  "PeerRateLog_throttle_count self =
     length (filter (\<lambda>r. (prr_decision r) = BackpressureDecision.Throttle) (prl_records self))"

definition PeerRateLog_drop_count :: "PeerRateLog \<Rightarrow> nat" where
  "PeerRateLog_drop_count self =
     length (filter (\<lambda>r. (prr_decision r) = BackpressureDecision.Drop) (prl_records self))"

definition PeerRateLog_max_rate_pct :: "PeerRateLog \<Rightarrow> u8" where
  "PeerRateLog_max_rate_pct self =
     unwrap_or 0 (list_max (map prr_rate_pct (prl_records self)))"

definition PeerRateRecord_bytes_of :: "PeerRateRecord \<Rightarrow> bytes" where
  "PeerRateRecord_bytes_of r =
     backpressure_monitor_record_bytes (prr_peer_id r) (prr_epoch r) (prr_message_count r) (prr_decision
         r) (prr_prev_hash r)"

definition PeerRateLog_verify_chain ::
  "sha \<Rightarrow> PeerRateLog \<Rightarrow> bool \<times> nat option" where
  "PeerRateLog_verify_chain sha self =
     verify_from prr_prev_hash prr_record_hash (\<lambda>r. sha (PeerRateRecord_bytes_of r)) 0 genesis
         (prl_records self)"

record BackpressureRegistry =
  br3_capacity_per_epoch :: u32
  br3_peers :: "(u32, PeerRateLog) btmap"

definition BackpressureRegistry_new :: "u32 \<Rightarrow> BackpressureRegistry" where
  "BackpressureRegistry_new capacity_per_epoch =
     \<lparr>br3_capacity_per_epoch = capacity_per_epoch, br3_peers = bt_empty\<rparr>"

definition BackpressureRegistry_peer_count :: "BackpressureRegistry \<Rightarrow> nat" where
  "BackpressureRegistry_peer_count self =
     bt_len (br3_peers self)"

definition BackpressureRegistry_record_message_batch ::
  "sha \<Rightarrow> u32 \<Rightarrow> u64 \<Rightarrow> u32 \<Rightarrow> BackpressureRegistry
      \<Rightarrow> (RateLogError + BackpressureDecision) \<times> BackpressureRegistry" where
  "BackpressureRegistry_record_message_batch sha peer_id epoch message_count self =
     (let log = bt_get_or (PeerRateLog_new peer_id) (br3_peers self) peer_id;
          self = self\<lparr>br3_peers := bt_insert peer_id log (br3_peers self)\<rparr>;
          cap = br3_capacity_per_epoch self
      in (let (result, log) = PeerRateLog_record sha epoch message_count cap log;
          self = self\<lparr>br3_peers := bt_insert peer_id log (br3_peers self)\<rparr>
      in case result of Inl err \<Rightarrow> (Inl err, self)
      | Inr record_v \<Rightarrow> (Inr (prr_decision record_v), self)))"

definition BackpressureRegistry_peer_decision ::
  "u32 \<Rightarrow> BackpressureRegistry \<Rightarrow> BackpressureDecision option" where
  "BackpressureRegistry_peer_decision peer_id self =
     map_option prr_decision (Option.bind (bt_get (br3_peers self) peer_id) PeerRateLog_latest)"

definition BackpressureRegistry_global_drop_count :: "BackpressureRegistry \<Rightarrow> nat" where
  "BackpressureRegistry_global_drop_count self =
     sum_list (map PeerRateLog_drop_count (bt_values (br3_peers self)))"

definition BackpressureRegistry_global_throttle_count :: "BackpressureRegistry \<Rightarrow> nat" where
  "BackpressureRegistry_global_throttle_count self =
     sum_list (map PeerRateLog_throttle_count (bt_values (br3_peers self)))"

lemma backpressure_monitor_record_bytes_inj:
  "backpressure_monitor_record_bytes peer_id epoch message_count decision prev =
      backpressure_monitor_record_bytes peer_id' epoch' message_count' decision' prev'
      \<longleftrightarrow>
   prev = prev' \<and> peer_id = peer_id' \<and> epoch = epoch' \<and> message_count = message_count'
       \<and> decision = decision'"
  by (auto simp: backpressure_monitor_record_bytes_def enc_simps)

definition PeerRateRecord_committed :: "PeerRateRecord \<Rightarrow> u32 \<times> u64 \<times> u32
    \<times> BackpressureDecision" where
  "PeerRateRecord_committed r =
     (prr_peer_id r, prr_epoch r, prr_message_count r, prr_decision r)"

interpretation backpressure_monitor: hash_log PeerRateRecord_bytes_of prr_prev_hash prr_record_hash
    PeerRateRecord_committed
  by unfold_locales (auto simp: PeerRateRecord_bytes_of_def PeerRateRecord_committed_def
      backpressure_monitor_record_bytes_inj)

lemma backpressure_monitor_verify_iff: "PeerRateLog_verify_chain sha l = (True,
    None) \<longleftrightarrow> backpressure_monitor.ok sha (prl_records l)"
  by (simp add: PeerRateLog_verify_chain_def verify_from_iff)

lemma build_record_linked:
  "prr_prev_hash (build_record sha peer_id epoch message_count capacity_per_epoch prev_hash) =
      prev_hash"
  "prr_record_hash (build_record sha peer_id epoch message_count capacity_per_epoch prev_hash) = sha
      (PeerRateRecord_bytes_of (build_record sha peer_id epoch message_count capacity_per_epoch
      prev_hash))"
  by (simp_all add: build_record_def backpressure_monitor_compute_record_hash_def
      PeerRateRecord_bytes_of_def Let_def split_def)

lemma peer_rate_log_record_ok: "backpressure_monitor.ok sha (prl_records l) \<Longrightarrow>
    backpressure_monitor.ok sha (prl_records (snd (PeerRateLog_record sha epoch message_count
    capacity_per_epoch l)))"
  by (simp add: Let_def split_def PeerRateLog_record_def PeerRateLog_last_hash_def build_record_linked
      split: option.split sum.split)

section \<open>Gossip Epoch Rate Limiter: token-bucket rate limiting per source per epoch (Gate 290)\<close>

text \<open>
  \<open>epoch_rate_limiter.rs\<close>. Each source is allocated a token bucket of BUCKET_CAPACITY
  tokens per epoch. Each gossip message consumes one token. When the bucket is empty, messages are
  rate-limited (dropped). Buckets auto-refill at epoch boundaries.
\<close>

definition BUCKET_CAPACITY :: u32 where
  "BUCKET_CAPACITY = 200"

datatype RateLimitDecision = Allowed | RateLimited

fun RateLimitDecision_as_u8 :: "RateLimitDecision \<Rightarrow> u8" where
  "RateLimitDecision_as_u8 RateLimitDecision.Allowed = 0"
| "RateLimitDecision_as_u8 RateLimitDecision.RateLimited = 1"

lemma RateLimitDecision_as_u8_inj [simp]: "RateLimitDecision_as_u8 x = RateLimitDecision_as_u8 y
    \<longleftrightarrow> x = y"
  by (cases x; cases y) auto

definition RateLimitDecision_decision_byte :: "RateLimitDecision \<Rightarrow> u8" where
  "RateLimitDecision_decision_byte self =
     (case self of
         RateLimitDecision.Allowed \<Rightarrow> 0
       | RateLimitDecision.RateLimited \<Rightarrow> 1)"

definition RateLimitDecision_is_allowed :: "RateLimitDecision \<Rightarrow> bool" where
  "RateLimitDecision_is_allowed self \<longleftrightarrow>
     self = RateLimitDecision.Allowed"

record BucketRecord_limiter =
  br4_source_id :: u32
  br4_epoch :: u64
  br4_tokens_used :: u32
  br4_tokens_dropped :: u32
  br4_record_hash :: hash
  br4_prev_hash :: hash

definition epoch_rate_limiter_bucket_bytes ::
  "u32 \<Rightarrow> u64 \<Rightarrow> u32 \<Rightarrow> u32 \<Rightarrow> hash \<Rightarrow> bytes"
      where
  "epoch_rate_limiter_bucket_bytes source_id epoch tokens_used tokens_dropped prev =
     hash_bytes prev @ be4 source_id @ be8 epoch @ be4 tokens_used @ be4 tokens_dropped"

definition epoch_rate_limiter_compute_bucket_hash ::
  "sha \<Rightarrow> u32 \<Rightarrow> u64 \<Rightarrow> u32 \<Rightarrow> u32 \<Rightarrow> hash
      \<Rightarrow> hash" where
  "epoch_rate_limiter_compute_bucket_hash sha source_id epoch tokens_used tokens_dropped prev =
     sha (epoch_rate_limiter_bucket_bytes source_id epoch tokens_used tokens_dropped prev)"

definition epoch_rate_limiter_build_bucket_record ::
  "sha \<Rightarrow> u32 \<Rightarrow> u64 \<Rightarrow> u32 \<Rightarrow> u32 \<Rightarrow> hash
      \<Rightarrow> BucketRecord_limiter" where
  "epoch_rate_limiter_build_bucket_record sha source_id epoch tokens_used tokens_dropped prev_hash =
     (let record_hash = epoch_rate_limiter_compute_bucket_hash sha source_id epoch tokens_used
         tokens_dropped prev_hash
      in \<lparr>br4_source_id = source_id, br4_epoch = epoch, br4_tokens_used = tokens_used,
          br4_tokens_dropped = tokens_dropped, br4_record_hash = record_hash,
          br4_prev_hash = prev_hash\<rparr>)"

record BucketLog_limiter =
  bl2_source_id :: u32
  bl2_records :: "BucketRecord_limiter list"

datatype BucketError = StaleEpoch

fun BucketError_as_u8 :: "BucketError \<Rightarrow> u8" where
  "BucketError_as_u8 BucketError.StaleEpoch = 0"

lemma BucketError_as_u8_inj [simp]: "BucketError_as_u8 x = BucketError_as_u8 y \<longleftrightarrow> x =
    y"
  by (cases x; cases y) auto

definition BucketLog_limiter_new :: "u32 \<Rightarrow> BucketLog_limiter" where
  "BucketLog_limiter_new source_id =
     \<lparr>bl2_source_id = source_id, bl2_records = []\<rparr>"

definition BucketLog_limiter_last_hash :: "BucketLog_limiter \<Rightarrow> hash" where
  "BucketLog_limiter_last_hash self =
     last_hash br4_record_hash (bl2_records self)"

definition BucketLog_limiter_record ::
  "sha \<Rightarrow> u64 \<Rightarrow> u32 \<Rightarrow> u32 \<Rightarrow> BucketLog_limiter
      \<Rightarrow> (BucketError + BucketRecord_limiter) \<times> BucketLog_limiter" where
  "BucketLog_limiter_record sha epoch tokens_used tokens_dropped self =
     (if bl2_records self \<noteq> [] \<and> epoch \<le> (br4_epoch (last (bl2_records self))) then (Inl
         BucketError.StaleEpoch, self)
      else (let prev = BucketLog_limiter_last_hash self;
          r = epoch_rate_limiter_build_bucket_record sha (bl2_source_id self) epoch tokens_used
            tokens_dropped prev;
          self = self\<lparr>bl2_records := (bl2_records self) @ [r]\<rparr>
      in (Inr (last (bl2_records self)), self)))"

definition BucketLog_limiter_total_allowed :: "BucketLog_limiter \<Rightarrow> u64" where
  "BucketLog_limiter_total_allowed self =
     sum_list (map (\<lambda>r. (ucast (br4_tokens_used r) :: u64)) (bl2_records self))"

definition BucketLog_limiter_total_dropped :: "BucketLog_limiter \<Rightarrow> u64" where
  "BucketLog_limiter_total_dropped self =
     sum_list (map (\<lambda>r. (ucast (br4_tokens_dropped r) :: u64)) (bl2_records self))"

definition BucketLog_limiter_drop_rate_pct :: "BucketLog_limiter \<Rightarrow> u8" where
  "BucketLog_limiter_drop_rate_pct self =
     (let total_v = (BucketLog_limiter_total_allowed self) + (BucketLog_limiter_total_dropped self)
      in if total_v = 0 then 0
      else (ucast (min (((BucketLog_limiter_total_dropped self) * 100) div total_v) 100) :: u8))"

definition BucketRecord_limiter_bytes_of :: "BucketRecord_limiter \<Rightarrow> bytes" where
  "BucketRecord_limiter_bytes_of r =
     epoch_rate_limiter_bucket_bytes (br4_source_id r) (br4_epoch r) (br4_tokens_used r)
         (br4_tokens_dropped r) (br4_prev_hash r)"

definition BucketLog_limiter_verify_chain ::
  "sha \<Rightarrow> BucketLog_limiter \<Rightarrow> bool \<times> nat option" where
  "BucketLog_limiter_verify_chain sha self =
     verify_from br4_prev_hash br4_record_hash (\<lambda>r. sha (BucketRecord_limiter_bytes_of r)) 0
         genesis (bl2_records self)"

record BucketState =
  bs_log :: BucketLog_limiter
  bs_current_epoch :: u64
  bs_tokens_used :: u32
  bs_tokens_dropped :: u32

record EpochRateLimiter =
  erl_capacity :: u32
  erl_sources :: "(u32, BucketState) btmap"

definition EpochRateLimiter_new :: "u32 \<Rightarrow> EpochRateLimiter" where
  "EpochRateLimiter_new capacity =
     \<lparr>erl_capacity = capacity, erl_sources = bt_empty\<rparr>"

definition EpochRateLimiter_with_default_capacity :: "EpochRateLimiter" where
  "EpochRateLimiter_with_default_capacity =
     EpochRateLimiter_new BUCKET_CAPACITY"

definition EpochRateLimiter_source_count :: "EpochRateLimiter \<Rightarrow> nat" where
  "EpochRateLimiter_source_count self =
     bt_len (erl_sources self)"

definition EpochRateLimiter_consume ::
  "u32 \<Rightarrow> u64 \<Rightarrow> EpochRateLimiter \<Rightarrow> RateLimitDecision \<times>
      EpochRateLimiter" where
  "EpochRateLimiter_consume source_id epoch self =
     (let cap = erl_capacity self;
          state = bt_get_or (\<lparr>bs_log = BucketLog_limiter_new source_id, bs_current_epoch = epoch,
            bs_tokens_used = 0, bs_tokens_dropped = 0\<rparr>) (erl_sources self) source_id;
          self = self\<lparr>erl_sources := bt_insert source_id state (erl_sources self)\<rparr>;
          state = (if epoch > (bs_current_epoch state) then (let state = state\<lparr>bs_current_epoch
            := epoch\<rparr>;
          state = state\<lparr>bs_tokens_used := 0\<rparr>;
          state = state\<lparr>bs_tokens_dropped := 0\<rparr>
      in state)
      else state);
          self = self\<lparr>erl_sources := bt_insert source_id state (erl_sources self)\<rparr>
      in if (bs_tokens_used state) < cap then (let state = state\<lparr>bs_tokens_used := sat_add
          (bs_tokens_used state) 1\<rparr>;
          self = self\<lparr>erl_sources := bt_insert source_id state (erl_sources self)\<rparr>
      in (RateLimitDecision.Allowed, self))
      else (let state = state\<lparr>bs_tokens_dropped := sat_add (bs_tokens_dropped state) 1\<rparr>;
          self = self\<lparr>erl_sources := bt_insert source_id state (erl_sources self)\<rparr>
      in (RateLimitDecision.RateLimited, self)))"

definition EpochRateLimiter_seal_epoch ::
  "sha \<Rightarrow> u64 \<Rightarrow> EpochRateLimiter \<Rightarrow> EpochRateLimiter" where
  "EpochRateLimiter_seal_epoch sha epoch self =
     (let self = self\<lparr>erl_sources := bt_map (\<lambda>_ state. (let state = (if (bs_current_epoch
         state) = epoch then (let (_, log') = BucketLog_limiter_record sha epoch (bs_tokens_used state)
         (bs_tokens_dropped state) (bs_log state);
          state = state\<lparr>bs_log := log'\<rparr>
      in state)
      else state)
      in state)) (erl_sources self)\<rparr>
      in self)"

definition EpochRateLimiter_get_log ::
  "u32 \<Rightarrow> EpochRateLimiter \<Rightarrow> BucketLog_limiter option" where
  "EpochRateLimiter_get_log source_id self =
     map_option bs_log (bt_get (erl_sources self) source_id)"

definition EpochRateLimiter_dropped_count ::
  "u32 \<Rightarrow> EpochRateLimiter \<Rightarrow> u32" where
  "EpochRateLimiter_dropped_count source_id self =
     unwrap_or 0 (map_option bs_tokens_dropped (bt_get (erl_sources self) source_id))"

definition EpochRateLimiter_sources_over_limit :: "EpochRateLimiter \<Rightarrow> u32 list" where
  "EpochRateLimiter_sources_over_limit self =
     map (\<lambda>(id_v, _). id_v) (filter (\<lambda>(_, s). (bs_tokens_dropped s) > 0) (entries
         (erl_sources self)))"

definition EpochRateLimiter_current_usage ::
  "u32 \<Rightarrow> EpochRateLimiter \<Rightarrow> u32 option" where
  "EpochRateLimiter_current_usage source_id self =
     map_option bs_tokens_used (bt_get (erl_sources self) source_id)"

lemma epoch_rate_limiter_bucket_bytes_inj:
  "epoch_rate_limiter_bucket_bytes source_id epoch tokens_used tokens_dropped prev =
      epoch_rate_limiter_bucket_bytes source_id' epoch' tokens_used' tokens_dropped' prev'
      \<longleftrightarrow>
   prev = prev' \<and> source_id = source_id' \<and> epoch = epoch' \<and> tokens_used = tokens_used'
       \<and> tokens_dropped = tokens_dropped'"
  by (auto simp: epoch_rate_limiter_bucket_bytes_def enc_simps)

definition BucketRecord_limiter_committed :: "BucketRecord_limiter \<Rightarrow> u32 \<times> u64
    \<times> u32 \<times> u32" where
  "BucketRecord_limiter_committed r =
     (br4_source_id r, br4_epoch r, br4_tokens_used r, br4_tokens_dropped r)"

interpretation epoch_rate_limiter: hash_log BucketRecord_limiter_bytes_of br4_prev_hash br4_record_hash
    BucketRecord_limiter_committed
  by unfold_locales (auto simp: BucketRecord_limiter_bytes_of_def BucketRecord_limiter_committed_def
      epoch_rate_limiter_bucket_bytes_inj)

lemma epoch_rate_limiter_verify_iff: "BucketLog_limiter_verify_chain sha l = (True,
    None) \<longleftrightarrow> epoch_rate_limiter.ok sha (bl2_records l)"
  by (simp add: BucketLog_limiter_verify_chain_def verify_from_iff)

lemma epoch_rate_limiter_build_bucket_record_linked:
  "br4_prev_hash (epoch_rate_limiter_build_bucket_record sha source_id epoch tokens_used tokens_dropped
      prev_hash) = prev_hash"
  "br4_record_hash (epoch_rate_limiter_build_bucket_record sha source_id epoch tokens_used
      tokens_dropped prev_hash) = sha (BucketRecord_limiter_bytes_of
      (epoch_rate_limiter_build_bucket_record sha source_id epoch tokens_used tokens_dropped
      prev_hash))"
  by (simp_all add: epoch_rate_limiter_build_bucket_record_def
      epoch_rate_limiter_compute_bucket_hash_def BucketRecord_limiter_bytes_of_def Let_def split_def)

lemma bucket_log_limiter_record_ok: "epoch_rate_limiter.ok sha (bl2_records l) \<Longrightarrow>
    epoch_rate_limiter.ok sha (bl2_records (snd (BucketLog_limiter_record sha epoch tokens_used
    tokens_dropped l)))"
  by (simp add: Let_def split_def BucketLog_limiter_record_def BucketLog_limiter_last_hash_def
      epoch_rate_limiter_build_bucket_record_linked split: option.split sum.split)

section \<open>Gossip Bandwidth Tracker: per-peer byte budget enforcement (Gate 284)\<close>

text \<open>
  \<open>bandwidth_tracker.rs\<close>. Tracks outbound gossip bytes per peer per epoch against a byte
  budget. Enforces limits to prevent any single peer from consuming the full bandwidth.
\<close>

definition DEFAULT_BUDGET_BYTES :: u64 where
  "DEFAULT_BUDGET_BYTES = 1000000"

datatype BandwidthDecision = Allow | Throttle | Deny

fun BandwidthDecision_as_u8 :: "BandwidthDecision \<Rightarrow> u8" where
  "BandwidthDecision_as_u8 BandwidthDecision.Allow = 0"
| "BandwidthDecision_as_u8 BandwidthDecision.Throttle = 1"
| "BandwidthDecision_as_u8 BandwidthDecision.Deny = 2"

lemma BandwidthDecision_as_u8_inj [simp]: "BandwidthDecision_as_u8 x = BandwidthDecision_as_u8 y
    \<longleftrightarrow> x = y"
  by (cases x; cases y) auto

definition BandwidthDecision_is_allowed :: "BandwidthDecision \<Rightarrow> bool" where
  "BandwidthDecision_is_allowed self \<longleftrightarrow>
     self = BandwidthDecision.Allow"

definition BandwidthDecision_is_rejected :: "BandwidthDecision \<Rightarrow> bool" where
  "BandwidthDecision_is_rejected self \<longleftrightarrow>
     self = BandwidthDecision.Deny"

record PeerBandwidthRecord =
  pbr_peer_id :: u32
  pbr_epoch :: u64
  pbr_bytes_allowed :: u64
  pbr_bytes_throttled :: u64
  pbr_bytes_denied :: u64
  pbr_budget_bytes :: u64
  pbr_utilization_pct :: u8
  pbr_record_hash :: hash
  pbr_prev_hash :: hash

definition bw_bytes ::
  "u32 \<Rightarrow> u64 \<Rightarrow> u64 \<Rightarrow> u64 \<Rightarrow> u64 \<Rightarrow> hash
      \<Rightarrow> bytes" where
  "bw_bytes peer_id epoch bytes_allowed bytes_throttled bytes_denied prev =
     hash_bytes prev @ be4 peer_id @ be8 epoch @ be8 bytes_allowed @ be8 bytes_throttled @
         be8 bytes_denied"

definition compute_bw_hash ::
  "sha \<Rightarrow> u32 \<Rightarrow> u64 \<Rightarrow> u64 \<Rightarrow> u64 \<Rightarrow> u64
      \<Rightarrow> hash \<Rightarrow> hash" where
  "compute_bw_hash sha peer_id epoch bytes_allowed bytes_throttled bytes_denied prev =
     sha (bw_bytes peer_id epoch bytes_allowed bytes_throttled bytes_denied prev)"

definition build_bandwidth_record ::
  "sha \<Rightarrow> u32 \<Rightarrow> u64 \<Rightarrow> u64 \<Rightarrow> u64 \<Rightarrow> u64
      \<Rightarrow> u64 \<Rightarrow> hash \<Rightarrow> PeerBandwidthRecord" where
  "build_bandwidth_record sha peer_id epoch bytes_allowed bytes_throttled bytes_denied budget_bytes
      prev_hash =
     (let utilization_pct = (if budget_bytes = 0 then (if bytes_allowed > 0 then 100 else 0) else (ucast
         (min ((bytes_allowed * 100) div budget_bytes) 100) :: u8));
          record_hash = compute_bw_hash sha peer_id epoch bytes_allowed bytes_throttled bytes_denied
            prev_hash
      in \<lparr>pbr_peer_id = peer_id, pbr_epoch = epoch, pbr_bytes_allowed = bytes_allowed,
          pbr_bytes_throttled = bytes_throttled, pbr_bytes_denied = bytes_denied,
          pbr_budget_bytes = budget_bytes, pbr_utilization_pct = utilization_pct,
          pbr_record_hash = record_hash, pbr_prev_hash = prev_hash\<rparr>)"

record PeerBandwidthLog =
  pbl_peer_id :: u32
  pbl_records :: "PeerBandwidthRecord list"

datatype BandwidthError = StaleEpoch

fun BandwidthError_as_u8 :: "BandwidthError \<Rightarrow> u8" where
  "BandwidthError_as_u8 BandwidthError.StaleEpoch = 0"

lemma BandwidthError_as_u8_inj [simp]: "BandwidthError_as_u8 x = BandwidthError_as_u8 y
    \<longleftrightarrow> x = y"
  by (cases x; cases y) auto

definition PeerBandwidthLog_new :: "u32 \<Rightarrow> PeerBandwidthLog" where
  "PeerBandwidthLog_new peer_id =
     \<lparr>pbl_peer_id = peer_id, pbl_records = []\<rparr>"

definition PeerBandwidthLog_last_hash :: "PeerBandwidthLog \<Rightarrow> hash" where
  "PeerBandwidthLog_last_hash self =
     last_hash pbr_record_hash (pbl_records self)"

definition PeerBandwidthLog_record_epoch ::
  "sha \<Rightarrow> u64 \<Rightarrow> u64 \<Rightarrow> u64 \<Rightarrow> u64 \<Rightarrow> u64
      \<Rightarrow> PeerBandwidthLog \<Rightarrow> (BandwidthError + PeerBandwidthRecord) \<times>
      PeerBandwidthLog" where
  "PeerBandwidthLog_record_epoch sha epoch bytes_allowed bytes_throttled bytes_denied budget_bytes self
      =
     (if pbl_records self \<noteq> [] \<and> epoch \<le> (pbr_epoch (last (pbl_records self))) then (Inl
         BandwidthError.StaleEpoch, self)
      else (let prev = PeerBandwidthLog_last_hash self;
          r = build_bandwidth_record sha (pbl_peer_id self) epoch bytes_allowed bytes_throttled
            bytes_denied budget_bytes prev;
          self = self\<lparr>pbl_records := (pbl_records self) @ [r]\<rparr>
      in (Inr (last (pbl_records self)), self)))"

definition PeerBandwidthLog_total_bytes_sent :: "PeerBandwidthLog \<Rightarrow> u64" where
  "PeerBandwidthLog_total_bytes_sent self =
     sum_list (map pbr_bytes_allowed (pbl_records self))"

definition PeerBandwidthLog_avg_utilization_pct :: "PeerBandwidthLog \<Rightarrow> u8" where
  "PeerBandwidthLog_avg_utilization_pct self =
     (if (pbl_records self) = [] then 0
      else (let sum_v = sum_list (map (\<lambda>r. (ucast (pbr_utilization_pct r) :: u64)) (pbl_records
          self))
      in (ucast (sum_v div (of_nat (length (pbl_records self)) :: u64)) :: u8)))"

definition PeerBandwidthLog_over_budget_epochs :: "PeerBandwidthLog \<Rightarrow> nat" where
  "PeerBandwidthLog_over_budget_epochs self =
     length (filter (\<lambda>r. (pbr_bytes_allowed r) \<ge> (pbr_budget_bytes r)) (pbl_records self))"

definition PeerBandwidthRecord_bytes_of :: "PeerBandwidthRecord \<Rightarrow> bytes" where
  "PeerBandwidthRecord_bytes_of r =
     bw_bytes (pbr_peer_id r) (pbr_epoch r) (pbr_bytes_allowed r) (pbr_bytes_throttled r)
         (pbr_bytes_denied r) (pbr_prev_hash r)"

definition PeerBandwidthLog_verify_chain ::
  "sha \<Rightarrow> PeerBandwidthLog \<Rightarrow> bool \<times> nat option" where
  "PeerBandwidthLog_verify_chain sha self =
     verify_from pbr_prev_hash pbr_record_hash (\<lambda>r. sha (PeerBandwidthRecord_bytes_of r)) 0
         genesis (pbl_records self)"

record PeerState_tracker =
  ps3_log :: PeerBandwidthLog
  ps3_current_epoch :: u64
  ps3_bytes_allowed :: u64
  ps3_bytes_throttled :: u64
  ps3_bytes_denied :: u64

record BandwidthRegistry =
  br5_budget_bytes :: u64
  br5_peers :: "(u32, PeerState_tracker) btmap"

definition BandwidthRegistry_new :: "u64 \<Rightarrow> BandwidthRegistry" where
  "BandwidthRegistry_new budget_bytes =
     \<lparr>br5_budget_bytes = budget_bytes, br5_peers = bt_empty\<rparr>"

definition BandwidthRegistry_with_default_budget :: "BandwidthRegistry" where
  "BandwidthRegistry_with_default_budget =
     BandwidthRegistry_new DEFAULT_BUDGET_BYTES"

definition BandwidthRegistry_peer_count :: "BandwidthRegistry \<Rightarrow> nat" where
  "BandwidthRegistry_peer_count self =
     bt_len (br5_peers self)"

definition BandwidthRegistry_request_bytes ::
  "u32 \<Rightarrow> u64 \<Rightarrow> u64 \<Rightarrow> BandwidthRegistry \<Rightarrow>
      BandwidthDecision \<times> BandwidthRegistry" where
  "BandwidthRegistry_request_bytes peer_id epoch bytes self =
     (let budget = br5_budget_bytes self;
          state = bt_get_or (\<lparr>ps3_log = PeerBandwidthLog_new peer_id, ps3_current_epoch = epoch,
            ps3_bytes_allowed = 0, ps3_bytes_throttled = 0, ps3_bytes_denied = 0\<rparr>) (br5_peers
            self) peer_id;
          self = self\<lparr>br5_peers := bt_insert peer_id state (br5_peers self)\<rparr>;
          state = (if epoch > (ps3_current_epoch state) then (let state = state\<lparr>ps3_current_epoch
            := epoch\<rparr>;
          state = state\<lparr>ps3_bytes_allowed := 0\<rparr>;
          state = state\<lparr>ps3_bytes_throttled := 0\<rparr>;
          state = state\<lparr>ps3_bytes_denied := 0\<rparr>
      in state)
      else state);
          self = self\<lparr>br5_peers := bt_insert peer_id state (br5_peers self)\<rparr>;
          used = ps3_bytes_allowed state;
          decision = (if used \<ge> budget then BandwidthDecision.Deny else if (sat_add used bytes) >
            budget then BandwidthDecision.Throttle else BandwidthDecision.Allow);
          state = (case decision of
         BandwidthDecision.Allow \<Rightarrow> (let state = state\<lparr>ps3_bytes_allowed := sat_add
           (ps3_bytes_allowed state) bytes\<rparr>
      in state)
       | BandwidthDecision.Throttle \<Rightarrow> (let state = state\<lparr>ps3_bytes_throttled :=
           sat_add (ps3_bytes_throttled state) bytes\<rparr>
      in state)
       | BandwidthDecision.Deny \<Rightarrow> (let state = state\<lparr>ps3_bytes_denied := sat_add
           (ps3_bytes_denied state) bytes\<rparr>
      in state));
          self = self\<lparr>br5_peers := bt_insert peer_id state (br5_peers self)\<rparr>
      in (decision, self))"

definition BandwidthRegistry_seal_epoch ::
  "sha \<Rightarrow> u64 \<Rightarrow> BandwidthRegistry \<Rightarrow> (BandwidthError + unit) \<times>
      BandwidthRegistry" where
  "BandwidthRegistry_seal_epoch sha epoch self =
     (let budget = br5_budget_bytes self
      in fold (\<lambda>(pid, state) (result, self).
           (case result of Inl err \<Rightarrow> (Inl err, self)
            | Inr _ \<Rightarrow>
                (if ps3_current_epoch state = epoch then
                   (let (recorded, log') = PeerBandwidthLog_record_epoch sha epoch (ps3_bytes_allowed
                     state)
                          (ps3_bytes_throttled state) (ps3_bytes_denied state) budget (ps3_log state);
                        state = state\<lparr>ps3_log := log'\<rparr>;
                        self = self\<lparr>br5_peers := bt_insert pid state (br5_peers self)\<rparr>
                    in case recorded of Inl _ \<Rightarrow> (Inl BandwidthError.StaleEpoch,
                      self) | Inr _ \<Rightarrow> (Inr (), self))
                 else (Inr (), self))))
         (entries (br5_peers self)) (Inr (), self))"

definition BandwidthRegistry_get_log ::
  "u32 \<Rightarrow> BandwidthRegistry \<Rightarrow> PeerBandwidthLog option" where
  "BandwidthRegistry_get_log peer_id self =
     map_option ps3_log (bt_get (br5_peers self) peer_id)"

definition BandwidthRegistry_current_usage ::
  "u32 \<Rightarrow> BandwidthRegistry \<Rightarrow> u64 option" where
  "BandwidthRegistry_current_usage peer_id self =
     map_option ps3_bytes_allowed (bt_get (br5_peers self) peer_id)"

lemma bw_bytes_inj:
  "bw_bytes peer_id epoch bytes_allowed bytes_throttled bytes_denied prev = bw_bytes peer_id' epoch'
      bytes_allowed' bytes_throttled' bytes_denied' prev' \<longleftrightarrow>
   prev = prev' \<and> peer_id = peer_id' \<and> epoch = epoch' \<and> bytes_allowed = bytes_allowed'
       \<and> bytes_throttled = bytes_throttled' \<and> bytes_denied = bytes_denied'"
  by (auto simp: bw_bytes_def enc_simps)

definition PeerBandwidthRecord_committed :: "PeerBandwidthRecord \<Rightarrow> u32 \<times> u64 \<times>
    u64 \<times> u64 \<times> u64" where
  "PeerBandwidthRecord_committed r =
     (pbr_peer_id r, pbr_epoch r, pbr_bytes_allowed r, pbr_bytes_throttled r, pbr_bytes_denied r)"

interpretation bandwidth_tracker: hash_log PeerBandwidthRecord_bytes_of pbr_prev_hash pbr_record_hash
    PeerBandwidthRecord_committed
  by unfold_locales (auto simp: PeerBandwidthRecord_bytes_of_def PeerBandwidthRecord_committed_def
      bw_bytes_inj)

lemma bandwidth_tracker_verify_iff: "PeerBandwidthLog_verify_chain sha l = (True,
    None) \<longleftrightarrow> bandwidth_tracker.ok sha (pbl_records l)"
  by (simp add: PeerBandwidthLog_verify_chain_def verify_from_iff)

lemma build_bandwidth_record_linked:
  "pbr_prev_hash (build_bandwidth_record sha peer_id epoch bytes_allowed bytes_throttled bytes_denied
      budget_bytes prev_hash) = prev_hash"
  "pbr_record_hash (build_bandwidth_record sha peer_id epoch bytes_allowed bytes_throttled bytes_denied
      budget_bytes prev_hash) = sha (PeerBandwidthRecord_bytes_of (build_bandwidth_record sha peer_id
      epoch bytes_allowed bytes_throttled bytes_denied budget_bytes prev_hash))"
  by (simp_all add: build_bandwidth_record_def compute_bw_hash_def PeerBandwidthRecord_bytes_of_def
      Let_def split_def)

lemma peer_bandwidth_log_record_epoch_ok: "bandwidth_tracker.ok sha (pbl_records l) \<Longrightarrow>
    bandwidth_tracker.ok sha (pbl_records (snd (PeerBandwidthLog_record_epoch sha epoch bytes_allowed
    bytes_throttled bytes_denied budget_bytes l)))"
  by (simp add: Let_def split_def PeerBandwidthLog_record_epoch_def PeerBandwidthLog_last_hash_def
      build_bandwidth_record_linked split: option.split sum.split)

end
