(* ===== verification/Peer_Registry.thy ===== *)
theory Peer_Registry
  imports System_Health "HOL-Library.Product_Lexorder"
begin

text \<open>
  Who the peers of a node are: the registry of their manifests with the epoch they were last seen in,
  the snapshots of the topology drawn from it, the negotiation of capabilities and the versions of
  them that a peer announces, and the address book.
\<close>

section \<open>Peer Manifest: signed peer identity + capability advertisement (Gate 257)\<close>

text \<open>
  \<open>peer_manifest.rs\<close>. Each node in the gossip mesh advertises a PeerManifest describing
  its capabilities and constitutional state. Manifests are hash-chained in a PeerRegistry.
\<close>

definition cap_GOSSIP :: u8 where
  "cap_GOSSIP = 1"

definition cap_RELAY :: u8 where
  "cap_RELAY = 2"

definition cap_AUDIT :: u8 where
  "cap_AUDIT = 4"

definition cap_CONSENSUS :: u8 where
  "cap_CONSENSUS = 8"

definition cap_ALL :: u8 where
  "cap_ALL = 15"

definition has_capability :: "u8 \<Rightarrow> u8 \<Rightarrow> bool" where
  "has_capability capabilities flag \<longleftrightarrow>
     (and capabilities flag) = flag"

record PeerManifest =
  pm2_node_id :: u32
  pm2_epoch :: u64
  pm2_capabilities :: u8
  pm2_phase :: ConstitutionalPhase
  pm2_manifest_hash :: hash

definition manifest_bytes ::
  "u32 \<Rightarrow> u64 \<Rightarrow> u8 \<Rightarrow> ConstitutionalPhase \<Rightarrow> bytes" where
  "manifest_bytes node_id epoch capabilities phase =
     be4 node_id @ be8 epoch @ [capabilities] @ [ConstitutionalPhase_as_u8 phase]"

definition compute_manifest_hash ::
  "sha \<Rightarrow> u32 \<Rightarrow> u64 \<Rightarrow> u8 \<Rightarrow> ConstitutionalPhase
      \<Rightarrow> hash" where
  "compute_manifest_hash sha node_id epoch capabilities phase =
     sha (manifest_bytes node_id epoch capabilities phase)"

definition PeerManifest_is_hash_valid :: "sha \<Rightarrow> PeerManifest \<Rightarrow> bool" where
  "PeerManifest_is_hash_valid sha self \<longleftrightarrow>
     (compute_manifest_hash sha (pm2_node_id self) (pm2_epoch self) (pm2_capabilities self) (pm2_phase
         self)) = (pm2_manifest_hash self)"

definition PeerManifest_has_capability :: "u8 \<Rightarrow> PeerManifest \<Rightarrow> bool" where
  "PeerManifest_has_capability flag self \<longleftrightarrow>
     has_capability (pm2_capabilities self) flag"

definition PeerManifest_is_operational :: "PeerManifest \<Rightarrow> bool" where
  "PeerManifest_is_operational self \<longleftrightarrow>
     ConstitutionalPhase_is_operational (pm2_phase self)"

definition build_manifest ::
  "sha \<Rightarrow> u32 \<Rightarrow> u64 \<Rightarrow> u8 \<Rightarrow> ConstitutionalPhase
      \<Rightarrow> PeerManifest" where
  "build_manifest sha node_id epoch capabilities phase =
     (let manifest_hash = compute_manifest_hash sha node_id epoch capabilities phase
      in \<lparr>pm2_node_id = node_id, pm2_epoch = epoch, pm2_capabilities = capabilities,
          pm2_phase = phase, pm2_manifest_hash = manifest_hash\<rparr>)"

datatype RegistryError_manifest = InvalidHash | StaleEpoch

fun RegistryError_manifest_as_u8 :: "RegistryError_manifest \<Rightarrow> u8" where
  "RegistryError_manifest_as_u8 RegistryError_manifest.InvalidHash = 0"
| "RegistryError_manifest_as_u8 RegistryError_manifest.StaleEpoch = 1"

lemma RegistryError_manifest_as_u8_inj [simp]: "RegistryError_manifest_as_u8 x =
    RegistryError_manifest_as_u8 y \<longleftrightarrow> x = y"
  by (cases x; cases y) auto

record PeerRegistry =
  pr4_records :: "(u32, PeerManifest) btmap"
  pr4_insertion_order :: "u32 list"

definition PeerRegistry_new :: "PeerRegistry" where
  "PeerRegistry_new =
     \<lparr>pr4_records = bt_empty, pr4_insertion_order = []\<rparr>"

definition PeerRegistry_register ::
  "sha \<Rightarrow> PeerManifest \<Rightarrow> PeerRegistry \<Rightarrow> (RegistryError_manifest +
      unit) \<times> PeerRegistry" where
  "PeerRegistry_register sha manifest self =
     (if \<not> (PeerManifest_is_hash_valid sha manifest) then (Inl RegistryError_manifest.InvalidHash,
         self)
      else case bt_get (pr4_records self) (pm2_node_id manifest) of Some existing \<Rightarrow> (if
          (pm2_epoch manifest) \<le> (pm2_epoch existing) then (Inl RegistryError_manifest.StaleEpoch,
          self)
      else (let self = self\<lparr>pr4_records := bt_insert (pm2_node_id manifest) manifest (pr4_records
          self)\<rparr>
      in (Inr (), self))) | _ \<Rightarrow> (let self = self\<lparr>pr4_insertion_order :=
          (pr4_insertion_order self) @ [pm2_node_id manifest]\<rparr>;
          self = self\<lparr>pr4_records := bt_insert (pm2_node_id manifest) manifest (pr4_records
            self)\<rparr>
      in (Inr (), self)))"

definition PeerRegistry_active_peers :: "PeerRegistry \<Rightarrow> PeerManifest list" where
  "PeerRegistry_active_peers self =
     List.map_filter (\<lambda>id_v. bt_get (pr4_records self) id_v) (pr4_insertion_order self)"

definition PeerRegistry_peers_with_cap ::
  "u8 \<Rightarrow> PeerRegistry \<Rightarrow> PeerManifest list" where
  "PeerRegistry_peers_with_cap flag self =
     filter (\<lambda>m. PeerManifest_has_capability flag m) (PeerRegistry_active_peers self)"

definition PeerRegistry_operational_peers :: "PeerRegistry \<Rightarrow> PeerManifest list" where
  "PeerRegistry_operational_peers self =
     filter PeerManifest_is_operational (PeerRegistry_active_peers self)"

definition PeerRegistry_get :: "u32 \<Rightarrow> PeerRegistry \<Rightarrow> PeerManifest option" where
  "PeerRegistry_get node_id self =
     bt_get (pr4_records self) node_id"

definition PeerRegistry_max_epoch :: "PeerRegistry \<Rightarrow> u64" where
  "PeerRegistry_max_epoch self =
     unwrap_or 0 (list_max (map pm2_epoch (bt_values (pr4_records self))))"

section \<open>Swarm Topology Snapshot: hash-linked mesh state capture (Gate 258)\<close>

text \<open>
  \<open>swarm_topology.rs\<close>. Captures the full peer mesh state at a given epoch into a
  TopologySnapshot. Snapshots are hash-chained in a TopologyLog for tamper-evident history.
\<close>

record TopologySnapshot =
  ts_epoch :: u64
  ts_peer_count :: nat
  ts_operational_count :: nat
  ts_cap_gossip_count :: nat
  ts_cap_consensus_count :: nat
  ts_max_peer_epoch :: u64
  ts_snapshot_hash :: hash
  ts_prev_hash :: hash

definition TopologySnapshot_quorum_reached :: "TopologySnapshot \<Rightarrow> bool" where
  "TopologySnapshot_quorum_reached self \<longleftrightarrow>
     (if (ts_peer_count self) = 0 then False
      else (usize_mul (ts_operational_count self) 1000000) \<ge> (usize_mul (ts_peer_count self)
          618034))"

definition TopologySnapshot_consensus_capable :: "TopologySnapshot \<Rightarrow> bool" where
  "TopologySnapshot_consensus_capable self \<longleftrightarrow>
     (ts_cap_consensus_count self) > 0"

definition swarm_topology_snapshot_bytes ::
  "u64 \<Rightarrow> nat \<Rightarrow> nat \<Rightarrow> u64 \<Rightarrow> hash \<Rightarrow> bytes"
      where
  "swarm_topology_snapshot_bytes epoch peer_count operational_count max_peer_epoch prev_hash =
     hash_bytes prev_hash @ be8 epoch @ be8 (of_nat peer_count :: u64) @
         be8 (of_nat operational_count :: u64) @ be8 max_peer_epoch"

definition swarm_topology_compute_snapshot_hash ::
  "sha \<Rightarrow> u64 \<Rightarrow> nat \<Rightarrow> nat \<Rightarrow> u64 \<Rightarrow> hash
      \<Rightarrow> hash" where
  "swarm_topology_compute_snapshot_hash sha epoch peer_count operational_count max_peer_epoch prev_hash
      =
     sha (swarm_topology_snapshot_bytes epoch peer_count operational_count max_peer_epoch prev_hash)"

definition build_snapshot ::
  "sha \<Rightarrow> u64 \<Rightarrow> PeerRegistry \<Rightarrow> hash \<Rightarrow> TopologySnapshot"
      where
  "build_snapshot sha epoch registry prev_hash =
     (let peer_count = bt_len (pr4_records registry);
          operational_count = length (PeerRegistry_operational_peers registry);
          cap_gossip_count = length (PeerRegistry_peers_with_cap cap_GOSSIP registry);
          cap_consensus_count = length (PeerRegistry_peers_with_cap cap_CONSENSUS registry);
          max_peer_epoch = PeerRegistry_max_epoch registry;
          snapshot_hash = swarm_topology_compute_snapshot_hash sha epoch peer_count operational_count
            max_peer_epoch prev_hash
      in \<lparr>ts_epoch = epoch, ts_peer_count = peer_count, ts_operational_count = operational_count,
          ts_cap_gossip_count = cap_gossip_count, ts_cap_consensus_count = cap_consensus_count,
          ts_max_peer_epoch = max_peer_epoch, ts_snapshot_hash = snapshot_hash,
          ts_prev_hash = prev_hash\<rparr>)"

record TopologyLog =
  tl2_snapshots :: "TopologySnapshot list"

datatype TopologyError = StaleEpoch

fun TopologyError_as_u8 :: "TopologyError \<Rightarrow> u8" where
  "TopologyError_as_u8 TopologyError.StaleEpoch = 0"

lemma TopologyError_as_u8_inj [simp]: "TopologyError_as_u8 x = TopologyError_as_u8 y
    \<longleftrightarrow> x = y"
  by (cases x; cases y) auto

definition TopologyLog_new :: "TopologyLog" where
  "TopologyLog_new =
     \<lparr>tl2_snapshots = []\<rparr>"

definition TopologyLog_latest :: "TopologyLog \<Rightarrow> TopologySnapshot option" where
  "TopologyLog_latest self =
     last_opt (tl2_snapshots self)"

definition TopologyLog_append ::
  "sha \<Rightarrow> u64 \<Rightarrow> PeerRegistry \<Rightarrow> TopologyLog \<Rightarrow>
      (TopologyError + TopologySnapshot) \<times> TopologyLog" where
  "TopologyLog_append sha epoch registry self =
     (if tl2_snapshots self \<noteq> [] \<and> epoch \<le> (ts_epoch (last (tl2_snapshots self))) then
         (Inl TopologyError.StaleEpoch, self)
      else (let prev_hash = last_hash ts_snapshot_hash (tl2_snapshots self);
          snap = build_snapshot sha epoch registry prev_hash;
          self = self\<lparr>tl2_snapshots := (tl2_snapshots self) @ [snap]\<rparr>
      in (Inr (last (tl2_snapshots self)), self)))"

definition TopologySnapshot_bytes_of :: "TopologySnapshot \<Rightarrow> bytes" where
  "TopologySnapshot_bytes_of snap =
     swarm_topology_snapshot_bytes (ts_epoch snap) (ts_peer_count snap) (ts_operational_count snap)
         (ts_max_peer_epoch snap) (ts_prev_hash snap)"

definition TopologyLog_verify_chain ::
  "sha \<Rightarrow> TopologyLog \<Rightarrow> bool \<times> nat option" where
  "TopologyLog_verify_chain sha self =
     verify_from ts_prev_hash ts_snapshot_hash (\<lambda>r. sha (TopologySnapshot_bytes_of r)) 0 genesis
         (tl2_snapshots self)"

definition TopologyLog_last_hash :: "TopologyLog \<Rightarrow> hash" where
  "TopologyLog_last_hash self =
     last_hash ts_snapshot_hash (tl2_snapshots self)"

lemma swarm_topology_snapshot_bytes_inj:
  "swarm_topology_snapshot_bytes epoch peer_count operational_count max_peer_epoch prev_hash =
      swarm_topology_snapshot_bytes epoch' peer_count' operational_count' max_peer_epoch' prev_hash'
      \<longleftrightarrow>
   prev_hash = prev_hash' \<and> epoch = epoch' \<and> (of_nat peer_count :: u64) = (of_nat peer_count'
       :: u64) \<and> (of_nat operational_count :: u64) = (of_nat operational_count' :: u64) \<and>
       max_peer_epoch = max_peer_epoch'"
  by (auto simp: swarm_topology_snapshot_bytes_def enc_simps)

definition TopologySnapshot_committed :: "TopologySnapshot \<Rightarrow> u64 \<times> u64 \<times> u64
    \<times> u64" where
  "TopologySnapshot_committed snap =
     (ts_epoch snap, of_nat (ts_peer_count snap) :: u64, of_nat (ts_operational_count snap) :: u64,
         ts_max_peer_epoch snap)"

interpretation swarm_topology: hash_log TopologySnapshot_bytes_of ts_prev_hash ts_snapshot_hash
    TopologySnapshot_committed
  by unfold_locales (auto simp: TopologySnapshot_bytes_of_def TopologySnapshot_committed_def
      swarm_topology_snapshot_bytes_inj)

lemma swarm_topology_verify_iff: "TopologyLog_verify_chain sha l = (True,
    None) \<longleftrightarrow> swarm_topology.ok sha (tl2_snapshots l)"
  by (simp add: TopologyLog_verify_chain_def verify_from_iff)

lemma build_snapshot_linked:
  "ts_prev_hash (build_snapshot sha epoch registry prev_hash) = prev_hash"
  "ts_snapshot_hash (build_snapshot sha epoch registry prev_hash) = sha (TopologySnapshot_bytes_of
      (build_snapshot sha epoch registry prev_hash))"
  by (simp_all add: build_snapshot_def swarm_topology_compute_snapshot_hash_def
      TopologySnapshot_bytes_of_def Let_def split_def)

lemma topology_log_append_ok: "swarm_topology.ok sha (tl2_snapshots l) \<Longrightarrow>
    swarm_topology.ok sha (tl2_snapshots (snd (TopologyLog_append sha epoch registry l)))"
  by (simp add: Let_def split_def TopologyLog_append_def TopologyLog_last_hash_def build_snapshot_linked
      split: option.split sum.split)

section \<open>Capability Negotiator: peer capability advertisement + intersection (Gate 269)\<close>

text \<open>
  \<open>capability_negotiator.rs\<close>. Negotiates the shared capability set between the local node
  and a peer node. Uses the bitmask capability system from peer_manifest
  (GOSSIP/RELAY/AUDIT/CONSENSUS).
\<close>

record NegotiationResult =
  nr2_local_id :: u32
  nr2_peer_id :: u32
  nr2_epoch :: u64
  nr2_local_caps :: u8
  nr2_peer_caps :: u8
  nr2_shared_caps :: u8
  nr2_gossip_ok :: bool
  nr2_consensus_ok :: bool
  nr2_relay_ok :: bool
  nr2_audit_ok :: bool
  nr2_negotiation_hash :: hash
  nr2_prev_hash :: hash

definition NegotiationResult_any_shared :: "NegotiationResult \<Rightarrow> bool" where
  "NegotiationResult_any_shared self \<longleftrightarrow>
     (nr2_shared_caps self) \<noteq> 0"

definition NegotiationResult_shared_count :: "NegotiationResult \<Rightarrow> u32" where
  "NegotiationResult_shared_count self =
     of_nat (pop_count (nr2_shared_caps self))"

definition NegotiationResult_fully_capable :: "NegotiationResult \<Rightarrow> bool" where
  "NegotiationResult_fully_capable self \<longleftrightarrow>
     nr2_gossip_ok self \<and> nr2_consensus_ok self"

definition neg_bytes ::
  "u32 \<Rightarrow> u32 \<Rightarrow> u8 \<Rightarrow> u8 \<Rightarrow> u64 \<Rightarrow> hash
      \<Rightarrow> bytes" where
  "neg_bytes local_id peer_id local_caps peer_caps epoch prev =
     hash_bytes prev @ be4 local_id @ be4 peer_id @ [local_caps] @ [peer_caps] @ be8 epoch"

definition compute_neg_hash ::
  "sha \<Rightarrow> u32 \<Rightarrow> u32 \<Rightarrow> u8 \<Rightarrow> u8 \<Rightarrow> u64
      \<Rightarrow> hash \<Rightarrow> hash" where
  "compute_neg_hash sha local_id peer_id local_caps peer_caps epoch prev =
     sha (neg_bytes local_id peer_id local_caps peer_caps epoch prev)"

definition negotiate ::
  "sha \<Rightarrow> u32 \<Rightarrow> u32 \<Rightarrow> u64 \<Rightarrow> u8 \<Rightarrow> u8
      \<Rightarrow> hash \<Rightarrow> NegotiationResult" where
  "negotiate sha local_id peer_id epoch local_caps peer_caps prev_hash =
     (let shared_caps = and local_caps peer_caps
      in \<lparr>nr2_local_id = local_id, nr2_peer_id = peer_id, nr2_epoch = epoch,
          nr2_local_caps = local_caps, nr2_peer_caps = peer_caps, nr2_shared_caps = shared_caps,
          nr2_gossip_ok = (and shared_caps cap_GOSSIP) \<noteq> 0,
          nr2_consensus_ok = (and shared_caps cap_CONSENSUS) \<noteq> 0,
          nr2_relay_ok = (and shared_caps cap_RELAY) \<noteq> 0,
          nr2_audit_ok = (and shared_caps cap_AUDIT) \<noteq> 0,
          nr2_negotiation_hash = compute_neg_hash sha local_id peer_id local_caps peer_caps epoch
          prev_hash, nr2_prev_hash = prev_hash\<rparr>)"

record NegotiationLog =
  nl2_local_id :: u32
  nl2_peer_id :: u32
  nl2_results :: "NegotiationResult list"

datatype NegLogError = StaleEpoch | PeerMismatch

fun NegLogError_as_u8 :: "NegLogError \<Rightarrow> u8" where
  "NegLogError_as_u8 NegLogError.StaleEpoch = 0"
| "NegLogError_as_u8 NegLogError.PeerMismatch = 1"

lemma NegLogError_as_u8_inj [simp]: "NegLogError_as_u8 x = NegLogError_as_u8 y \<longleftrightarrow> x =
    y"
  by (cases x; cases y) auto

definition NegotiationLog_new :: "u32 \<Rightarrow> u32 \<Rightarrow> NegotiationLog" where
  "NegotiationLog_new local_id peer_id =
     \<lparr>nl2_local_id = local_id, nl2_peer_id = peer_id, nl2_results = []\<rparr>"

definition NegotiationLog_latest :: "NegotiationLog \<Rightarrow> NegotiationResult option" where
  "NegotiationLog_latest self =
     last_opt (nl2_results self)"

definition NegotiationLog_last_hash :: "NegotiationLog \<Rightarrow> hash" where
  "NegotiationLog_last_hash self =
     last_hash nr2_negotiation_hash (nl2_results self)"

definition NegotiationLog_record ::
  "sha \<Rightarrow> u64 \<Rightarrow> u8 \<Rightarrow> u8 \<Rightarrow> NegotiationLog \<Rightarrow>
      (NegLogError + NegotiationResult) \<times> NegotiationLog" where
  "NegotiationLog_record sha epoch local_caps peer_caps self =
     (if nl2_results self \<noteq> [] \<and> epoch \<le> (nr2_epoch (last (nl2_results self))) then (Inl
         NegLogError.StaleEpoch, self)
      else (let prev_hash = NegotiationLog_last_hash self;
          result = negotiate sha (nl2_local_id self) (nl2_peer_id self) epoch local_caps peer_caps
            prev_hash;
          self = self\<lparr>nl2_results := (nl2_results self) @ [result]\<rparr>
      in (Inr (last (nl2_results self)), self)))"

definition NegotiationLog_last_shared_caps :: "NegotiationLog \<Rightarrow> u8" where
  "NegotiationLog_last_shared_caps self =
     unwrap_or 0 (map_option nr2_shared_caps (last_opt (nl2_results self)))"

definition NegotiationLog_capability_stable :: "NegotiationLog \<Rightarrow> bool" where
  "NegotiationLog_capability_stable self \<longleftrightarrow>
     (if (length (nl2_results self)) < 2 then True
      else (let first = nr2_shared_caps ((nl2_results self) ! 0)
      in list_all (\<lambda>r. (nr2_shared_caps r) = first) (nl2_results self)))"

definition NegotiationResult_bytes_of :: "NegotiationResult \<Rightarrow> bytes" where
  "NegotiationResult_bytes_of r =
     neg_bytes (nr2_local_id r) (nr2_peer_id r) (nr2_local_caps r) (nr2_peer_caps r) (nr2_epoch r)
         (nr2_prev_hash r)"

definition NegotiationLog_verify_chain ::
  "sha \<Rightarrow> NegotiationLog \<Rightarrow> bool \<times> nat option" where
  "NegotiationLog_verify_chain sha self =
     verify_from nr2_prev_hash nr2_negotiation_hash (\<lambda>r. sha (NegotiationResult_bytes_of r)) 0
         genesis (nl2_results self)"

lemma neg_bytes_inj:
  "neg_bytes local_id peer_id local_caps peer_caps epoch prev = neg_bytes local_id' peer_id' local_caps'
      peer_caps' epoch' prev' \<longleftrightarrow>
   prev = prev' \<and> local_id = local_id' \<and> peer_id = peer_id' \<and> local_caps = local_caps'
       \<and> peer_caps = peer_caps' \<and> epoch = epoch'"
  by (auto simp: neg_bytes_def enc_simps)

definition NegotiationResult_committed :: "NegotiationResult \<Rightarrow> u32 \<times> u32 \<times> u8
    \<times> u8 \<times> u64" where
  "NegotiationResult_committed r =
     (nr2_local_id r, nr2_peer_id r, nr2_local_caps r, nr2_peer_caps r, nr2_epoch r)"

interpretation capability_negotiator: hash_log NegotiationResult_bytes_of nr2_prev_hash
    nr2_negotiation_hash NegotiationResult_committed
  by unfold_locales (auto simp: NegotiationResult_bytes_of_def NegotiationResult_committed_def
      neg_bytes_inj)

lemma capability_negotiator_verify_iff: "NegotiationLog_verify_chain sha l = (True,
    None) \<longleftrightarrow> capability_negotiator.ok sha (nl2_results l)"
  by (simp add: NegotiationLog_verify_chain_def verify_from_iff)

lemma negotiate_linked:
  "nr2_prev_hash (negotiate sha local_id peer_id epoch local_caps peer_caps prev_hash) = prev_hash"
  "nr2_negotiation_hash (negotiate sha local_id peer_id epoch local_caps peer_caps prev_hash) = sha
      (NegotiationResult_bytes_of (negotiate sha local_id peer_id epoch local_caps peer_caps
      prev_hash))"
  by (simp_all add: negotiate_def compute_neg_hash_def NegotiationResult_bytes_of_def Let_def split_def)

lemma negotiation_log_record_ok: "capability_negotiator.ok sha (nl2_results l) \<Longrightarrow>
    capability_negotiator.ok sha (nl2_results (snd (NegotiationLog_record sha epoch local_caps peer_caps
    l)))"
  by (simp add: Let_def split_def NegotiationLog_record_def NegotiationLog_last_hash_def
      negotiate_linked split: option.split sum.split)

section \<open>Gossip Peer Capability Tracker: per-peer capability bitmask management (Gate 312)\<close>

text \<open>
  \<open>peer_capability_tracker.rs\<close>. Tracks which capabilities each peer advertises.
  Capabilities are represented as a u8 bitmask (up to 8 capability flags). Updates are only accepted
  if the epoch is strictly greater than the last-seen epoch for that peer (monotone). Capability
  changes are hash-chained for audit.
\<close>

definition CAP_GOSSIP :: u8 where
  "CAP_GOSSIP = 1"

definition CAP_CONSENSUS :: u8 where
  "CAP_CONSENSUS = 2"

definition CAP_RELAY :: u8 where
  "CAP_RELAY = 4"

definition CAP_AUDIT :: u8 where
  "CAP_AUDIT = 8"

definition CAP_STORAGE :: u8 where
  "CAP_STORAGE = 16"

definition CAP_EDGE :: u8 where
  "CAP_EDGE = 32"

record CapabilityRecord =
  cr2_peer_id :: u32
  cr2_epoch :: u64
  cr2_old_caps :: u8
  cr2_new_caps :: u8
  cr2_record_hash :: hash
  cr2_prev_hash :: hash

definition cap_bytes ::
  "u32 \<Rightarrow> u64 \<Rightarrow> u8 \<Rightarrow> u8 \<Rightarrow> hash \<Rightarrow> bytes" where
  "cap_bytes peer_id epoch old_caps new_caps prev =
     hash_bytes prev @ be4 peer_id @ be8 epoch @ [old_caps] @ [new_caps]"

definition compute_cap_hash ::
  "sha \<Rightarrow> u32 \<Rightarrow> u64 \<Rightarrow> u8 \<Rightarrow> u8 \<Rightarrow> hash
      \<Rightarrow> hash" where
  "compute_cap_hash sha peer_id epoch old_caps new_caps prev =
     sha (cap_bytes peer_id epoch old_caps new_caps prev)"

definition build_capability_record ::
  "sha \<Rightarrow> u32 \<Rightarrow> u64 \<Rightarrow> u8 \<Rightarrow> u8 \<Rightarrow> hash
      \<Rightarrow> CapabilityRecord" where
  "build_capability_record sha peer_id epoch old_caps new_caps prev_hash =
     (let record_hash = compute_cap_hash sha peer_id epoch old_caps new_caps prev_hash
      in \<lparr>cr2_peer_id = peer_id, cr2_epoch = epoch, cr2_old_caps = old_caps,
          cr2_new_caps = new_caps, cr2_record_hash = record_hash, cr2_prev_hash = prev_hash\<rparr>)"

record CapabilityLog =
  cl2_records :: "CapabilityRecord list"

definition CapabilityLog_new :: "CapabilityLog" where
  "CapabilityLog_new =
     \<lparr>cl2_records = []\<rparr>"

definition CapabilityLog_last_hash :: "CapabilityLog \<Rightarrow> hash" where
  "CapabilityLog_last_hash self =
     last_hash cr2_record_hash (cl2_records self)"

definition CapabilityLog_push ::
  "sha \<Rightarrow> u32 \<Rightarrow> u64 \<Rightarrow> u8 \<Rightarrow> u8 \<Rightarrow> CapabilityLog
      \<Rightarrow> CapabilityRecord \<times> CapabilityLog" where
  "CapabilityLog_push sha peer_id epoch old_caps new_caps self =
     (let prev = CapabilityLog_last_hash self;
          r = build_capability_record sha peer_id epoch old_caps new_caps prev;
          self = self\<lparr>cl2_records := (cl2_records self) @ [r]\<rparr>
      in (last (cl2_records self), self))"

definition CapabilityLog_update_count :: "CapabilityLog \<Rightarrow> nat" where
  "CapabilityLog_update_count self =
     length (filter (\<lambda>r. (cr2_old_caps r) \<noteq> (cr2_new_caps r)) (cl2_records self))"

definition CapabilityRecord_bytes_of :: "CapabilityRecord \<Rightarrow> bytes" where
  "CapabilityRecord_bytes_of r =
     cap_bytes (cr2_peer_id r) (cr2_epoch r) (cr2_old_caps r) (cr2_new_caps r) (cr2_prev_hash r)"

definition CapabilityLog_verify_chain ::
  "sha \<Rightarrow> CapabilityLog \<Rightarrow> bool \<times> nat option" where
  "CapabilityLog_verify_chain sha self =
     verify_from cr2_prev_hash cr2_record_hash (\<lambda>r. sha (CapabilityRecord_bytes_of r)) 0 genesis
         (cl2_records self)"

record PeerCapState =
  pcs_capabilities :: u8
  pcs_last_epoch :: u64

datatype CapError = StaleEpoch

fun CapError_as_u8 :: "CapError \<Rightarrow> u8" where
  "CapError_as_u8 CapError.StaleEpoch = 0"

lemma CapError_as_u8_inj [simp]: "CapError_as_u8 x = CapError_as_u8 y \<longleftrightarrow> x = y"
  by (cases x; cases y) auto

record PeerCapabilityTracker =
  pct_peers :: "(u32, PeerCapState) btmap"
  pct_log :: CapabilityLog

definition PeerCapabilityTracker_new :: "PeerCapabilityTracker" where
  "PeerCapabilityTracker_new =
     \<lparr>pct_peers = bt_empty, pct_log = CapabilityLog_new\<rparr>"

definition PeerCapabilityTracker_update ::
  "sha \<Rightarrow> u32 \<Rightarrow> u64 \<Rightarrow> u8 \<Rightarrow> PeerCapabilityTracker
      \<Rightarrow> (CapError + bool) \<times> PeerCapabilityTracker" where
  "PeerCapabilityTracker_update sha peer_id epoch caps self =
     (case bt_get (pct_peers self) peer_id of Some state \<Rightarrow> (if epoch \<le> (pcs_last_epoch
         state) then (Inl CapError.StaleEpoch, self)
      else (let old_caps = unwrap_or 0 (map_option pcs_capabilities (bt_get (pct_peers self) peer_id));
          changed = old_caps \<noteq> caps;
          self = self\<lparr>pct_peers := bt_insert peer_id (\<lparr>pcs_capabilities = caps,
            pcs_last_epoch = epoch\<rparr>) (pct_peers self)\<rparr>;
          self = self\<lparr>pct_log := snd (CapabilityLog_push sha peer_id epoch old_caps caps (pct_log
            self))\<rparr>
      in (Inr changed, self))) | _ \<Rightarrow> (let old_caps = unwrap_or 0 (map_option
          pcs_capabilities (bt_get (pct_peers self) peer_id));
          changed = old_caps \<noteq> caps;
          self = self\<lparr>pct_peers := bt_insert peer_id (\<lparr>pcs_capabilities = caps,
            pcs_last_epoch = epoch\<rparr>) (pct_peers self)\<rparr>;
          self = self\<lparr>pct_log := snd (CapabilityLog_push sha peer_id epoch old_caps caps (pct_log
            self))\<rparr>
      in (Inr changed, self)))"

definition PeerCapabilityTracker_capabilities ::
  "u32 \<Rightarrow> PeerCapabilityTracker \<Rightarrow> u8 option" where
  "PeerCapabilityTracker_capabilities peer_id self =
     map_option pcs_capabilities (bt_get (pct_peers self) peer_id)"

definition PeerCapabilityTracker_has_capability ::
  "u32 \<Rightarrow> u8 \<Rightarrow> PeerCapabilityTracker \<Rightarrow> bool" where
  "PeerCapabilityTracker_has_capability peer_id cap_bit self \<longleftrightarrow>
     unwrap_or False (map_option (\<lambda>s. (and (pcs_capabilities s) cap_bit) \<noteq> 0) (bt_get
         (pct_peers self) peer_id))"

definition PeerCapabilityTracker_peers_with_capability ::
  "u8 \<Rightarrow> PeerCapabilityTracker \<Rightarrow> u32 list" where
  "PeerCapabilityTracker_peers_with_capability cap_bit self =
     map (\<lambda>(pid, _). pid) (filter (\<lambda>(_, s). (and (pcs_capabilities s) cap_bit) \<noteq>
         0) (entries (pct_peers self)))"

definition PeerCapabilityTracker_remove ::
  "sha \<Rightarrow> u32 \<Rightarrow> u64 \<Rightarrow> PeerCapabilityTracker \<Rightarrow> bool
      \<times> PeerCapabilityTracker" where
  "PeerCapabilityTracker_remove sha peer_id epoch self =
     (let removed = bt_get (pct_peers self) peer_id;
          self = self\<lparr>pct_peers := bt_remove peer_id (pct_peers self)\<rparr>
      in case removed of Some state \<Rightarrow> (let self = self\<lparr>pct_log := snd
          (CapabilityLog_push sha peer_id epoch (pcs_capabilities state) 0 (pct_log self))\<rparr>
      in (True, self)) | _ \<Rightarrow> (False, self))"

definition PeerCapabilityTracker_tracked_count :: "PeerCapabilityTracker \<Rightarrow> nat" where
  "PeerCapabilityTracker_tracked_count self =
     bt_len (pct_peers self)"

lemma cap_bytes_inj:
  "cap_bytes peer_id epoch old_caps new_caps prev = cap_bytes peer_id' epoch' old_caps' new_caps' prev'
      \<longleftrightarrow>
   prev = prev' \<and> peer_id = peer_id' \<and> epoch = epoch' \<and> old_caps = old_caps' \<and>
       new_caps = new_caps'"
  by (auto simp: cap_bytes_def enc_simps)

definition CapabilityRecord_committed :: "CapabilityRecord \<Rightarrow> u32 \<times> u64 \<times> u8
    \<times> u8" where
  "CapabilityRecord_committed r =
     (cr2_peer_id r, cr2_epoch r, cr2_old_caps r, cr2_new_caps r)"

interpretation peer_capability_tracker: epoch_log CapabilityRecord_bytes_of cr2_prev_hash
    cr2_record_hash CapabilityRecord_committed
  "\<lambda>sha (peer_id, epoch, old_caps, new_caps) l. CapabilityLog_push sha peer_id epoch old_caps
      new_caps l"
  cl2_records CapabilityLog_new "\<lambda>c. c"
  by unfold_locales (auto simp: CapabilityLog_push_def compute_cap_hash_def CapabilityLog_new_def
      Let_def CapabilityRecord_bytes_of_def CapabilityRecord_committed_def cap_bytes_inj
      build_capability_record_def CapabilityLog_last_hash_def)

lemma peer_capability_tracker_verify_iff: "CapabilityLog_verify_chain sha l = (True,
    None) \<longleftrightarrow> peer_capability_tracker.ok sha (cl2_records l)"
  by (simp add: CapabilityLog_verify_chain_def verify_from_iff)

section \<open>Gossip Peer Address Book: peer endpoint registry (Gate 315)\<close>

text \<open>
  \<open>peer_address_book.rs\<close>. Maps peer_id (u32) to a network address string (e.g.
  "192.168.1.1:7890"). Updates are accepted only if the supplied epoch strictly exceeds the last
  registered epoch for that peer (monotone). Removals are unconditional. All mutations are
  hash-chained for audit.
\<close>

definition MAX_ADDRESS_LEN :: nat where
  "MAX_ADDRESS_LEN = 128"

definition MAX_BOOK_SIZE :: nat where
  "MAX_BOOK_SIZE = 256"

datatype AddressOp = Register | Update | Remove

fun AddressOp_as_u8 :: "AddressOp \<Rightarrow> u8" where
  "AddressOp_as_u8 AddressOp.Register = 0"
| "AddressOp_as_u8 AddressOp.Update = 1"
| "AddressOp_as_u8 AddressOp.Remove = 2"

lemma AddressOp_as_u8_inj [simp]: "AddressOp_as_u8 x = AddressOp_as_u8 y \<longleftrightarrow> x = y"
  by (cases x; cases y) auto

definition AddressOp_op_byte :: "AddressOp \<Rightarrow> u8" where
  "AddressOp_op_byte self =
     AddressOp_as_u8 self"

record AddressRecord =
  ar3_peer_id :: u32
  ar3_epoch :: u64
  ar3_address_hash :: hash
  ar3_op :: AddressOp
  ar3_record_hash :: hash
  ar3_prev_hash :: hash

definition address_bytes ::
  "u32 \<Rightarrow> u64 \<Rightarrow> hash \<Rightarrow> AddressOp \<Rightarrow> hash \<Rightarrow>
      bytes" where
  "address_bytes peer_id epoch address_hash op prev =
     hash_bytes prev @ be4 peer_id @ be8 epoch @ hash_bytes address_hash @ [AddressOp_op_byte op]"

definition compute_address_hash ::
  "sha \<Rightarrow> u32 \<Rightarrow> u64 \<Rightarrow> hash \<Rightarrow> AddressOp \<Rightarrow> hash
      \<Rightarrow> hash" where
  "compute_address_hash sha peer_id epoch address_hash op prev =
     sha (address_bytes peer_id epoch address_hash op prev)"

definition build_address_record ::
  "sha \<Rightarrow> u32 \<Rightarrow> u64 \<Rightarrow> hash \<Rightarrow> AddressOp \<Rightarrow> hash
      \<Rightarrow> AddressRecord" where
  "build_address_record sha peer_id epoch address_hash op prev_hash =
     (let record_hash = compute_address_hash sha peer_id epoch address_hash op prev_hash
      in \<lparr>ar3_peer_id = peer_id, ar3_epoch = epoch, ar3_address_hash = address_hash, ar3_op = op,
          ar3_record_hash = record_hash, ar3_prev_hash = prev_hash\<rparr>)"

record AddressLog =
  al3_records :: "AddressRecord list"

definition AddressLog_new :: "AddressLog" where
  "AddressLog_new =
     \<lparr>al3_records = []\<rparr>"

definition AddressLog_last_hash :: "AddressLog \<Rightarrow> hash" where
  "AddressLog_last_hash self =
     last_hash ar3_record_hash (al3_records self)"

definition AddressLog_push ::
  "sha \<Rightarrow> u32 \<Rightarrow> u64 \<Rightarrow> hash \<Rightarrow> AddressOp \<Rightarrow>
      AddressLog \<Rightarrow> AddressRecord \<times> AddressLog" where
  "AddressLog_push sha peer_id epoch address_hash op self =
     (let prev = AddressLog_last_hash self;
          r = build_address_record sha peer_id epoch address_hash op prev;
          self = self\<lparr>al3_records := (al3_records self) @ [r]\<rparr>
      in (last (al3_records self), self))"

definition AddressLog_register_count :: "AddressLog \<Rightarrow> nat" where
  "AddressLog_register_count self =
     length (filter (\<lambda>r. (ar3_op r) = AddressOp.Register) (al3_records self))"

definition AddressLog_update_count :: "AddressLog \<Rightarrow> nat" where
  "AddressLog_update_count self =
     length (filter (\<lambda>r. (ar3_op r) = AddressOp.Update) (al3_records self))"

definition AddressLog_remove_count :: "AddressLog \<Rightarrow> nat" where
  "AddressLog_remove_count self =
     length (filter (\<lambda>r. (ar3_op r) = AddressOp.Remove) (al3_records self))"

definition AddressRecord_bytes_of :: "AddressRecord \<Rightarrow> bytes" where
  "AddressRecord_bytes_of r =
     address_bytes (ar3_peer_id r) (ar3_epoch r) (ar3_address_hash r) (ar3_op r) (ar3_prev_hash r)"

definition AddressLog_verify_chain ::
  "sha \<Rightarrow> AddressLog \<Rightarrow> bool \<times> nat option" where
  "AddressLog_verify_chain sha self =
     verify_from ar3_prev_hash ar3_record_hash (\<lambda>r. sha (AddressRecord_bytes_of r)) 0 genesis
         (al3_records self)"

datatype AddressError = StaleEpoch | AddressTooLong | BookFull

fun AddressError_as_u8 :: "AddressError \<Rightarrow> u8" where
  "AddressError_as_u8 AddressError.StaleEpoch = 0"
| "AddressError_as_u8 AddressError.AddressTooLong = 1"
| "AddressError_as_u8 AddressError.BookFull = 2"

lemma AddressError_as_u8_inj [simp]: "AddressError_as_u8 x = AddressError_as_u8 y \<longleftrightarrow>
    x = y"
  by (cases x; cases y) auto

record PeerEntry_book =
  pe2_address :: string
  pe2_last_epoch :: u64

record PeerAddressBook =
  pab_entries :: "(u32, string \<times> u64) btmap"
  pab_log :: AddressLog

definition hash_address_bytes :: "string \<Rightarrow> bytes" where
  "hash_address_bytes addr =
     string_bytes addr"

definition hash_address :: "sha \<Rightarrow> string \<Rightarrow> hash" where
  "hash_address sha addr =
     sha (hash_address_bytes addr)"

definition PeerAddressBook_new :: "PeerAddressBook" where
  "PeerAddressBook_new =
     \<lparr>pab_entries = bt_empty, pab_log = AddressLog_new\<rparr>"

definition PeerAddressBook_register ::
  "sha \<Rightarrow> u32 \<Rightarrow> string \<Rightarrow> u64 \<Rightarrow> PeerAddressBook
      \<Rightarrow> (AddressError + AddressOp) \<times> PeerAddressBook" where
  "PeerAddressBook_register sha peer_id address epoch self =
     (if (length address) > MAX_ADDRESS_LEN then (Inl AddressError.AddressTooLong, self)
      else (let is_new = \<not> (bt_has (pab_entries self) peer_id)
      in if is_new \<and> (bt_len (pab_entries self)) \<ge> MAX_BOOK_SIZE then (Inl
          AddressError.BookFull, self)
      else case bt_get (pab_entries self) peer_id of Some (_, last_epoch) \<Rightarrow> (if epoch \<le>
          last_epoch then (Inl AddressError.StaleEpoch, self)
      else (let op = (if is_new then AddressOp.Register else AddressOp.Update);
          addr_hash = hash_address sha address;
          self = self\<lparr>pab_entries := bt_insert peer_id (address,
            epoch) (pab_entries self)\<rparr>;
          self = self\<lparr>pab_log := snd (AddressLog_push sha peer_id epoch addr_hash op (pab_log
            self))\<rparr>
      in (Inr op, self))) | _ \<Rightarrow> (let op = (if is_new then AddressOp.Register else
          AddressOp.Update);
          addr_hash = hash_address sha address;
          self = self\<lparr>pab_entries := bt_insert peer_id (address,
            epoch) (pab_entries self)\<rparr>;
          self = self\<lparr>pab_log := snd (AddressLog_push sha peer_id epoch addr_hash op (pab_log
            self))\<rparr>
      in (Inr op, self))))"

definition PeerAddressBook_remove ::
  "sha \<Rightarrow> u32 \<Rightarrow> u64 \<Rightarrow> PeerAddressBook \<Rightarrow> bool \<times>
      PeerAddressBook" where
  "PeerAddressBook_remove sha peer_id epoch self =
     (let removed = bt_get (pab_entries self) peer_id;
          self = self\<lparr>pab_entries := bt_remove peer_id (pab_entries self)\<rparr>
      in case removed of Some (address, _) \<Rightarrow> (let addr_hash = hash_address sha address;
          self = self\<lparr>pab_log := snd (AddressLog_push sha peer_id epoch addr_hash
            AddressOp.Remove (pab_log self))\<rparr>
      in (True, self)) | _ \<Rightarrow> (False, self))"

definition PeerAddressBook_lookup ::
  "u32 \<Rightarrow> PeerAddressBook \<Rightarrow> string option" where
  "PeerAddressBook_lookup peer_id self =
     map_option (\<lambda>(addr, _). addr) (bt_get (pab_entries self) peer_id)"

definition PeerAddressBook_all_peers :: "PeerAddressBook \<Rightarrow> u32 list" where
  "PeerAddressBook_all_peers self =
     bt_keys (pab_entries self)"

definition PeerAddressBook_book_size :: "PeerAddressBook \<Rightarrow> nat" where
  "PeerAddressBook_book_size self =
     bt_len (pab_entries self)"

lemma address_bytes_inj:
  "address_bytes peer_id epoch address_hash op prev = address_bytes peer_id' epoch' address_hash' op'
      prev' \<longleftrightarrow>
   prev = prev' \<and> peer_id = peer_id' \<and> epoch = epoch' \<and> address_hash = address_hash'
       \<and> (AddressOp_op_byte op) = (AddressOp_op_byte op')"
  by (auto simp: address_bytes_def enc_simps)

definition AddressRecord_committed :: "AddressRecord \<Rightarrow> u32 \<times> u64 \<times> hash
    \<times> u8" where
  "AddressRecord_committed r =
     (ar3_peer_id r, ar3_epoch r, ar3_address_hash r, AddressOp_op_byte (ar3_op r))"

interpretation peer_address_book: hash_log AddressRecord_bytes_of ar3_prev_hash ar3_record_hash
    AddressRecord_committed
  by unfold_locales (auto simp: AddressRecord_bytes_of_def AddressRecord_committed_def
      address_bytes_inj)

lemma peer_address_book_verify_iff: "AddressLog_verify_chain sha l = (True,
    None) \<longleftrightarrow> peer_address_book.ok sha (al3_records l)"
  by (simp add: AddressLog_verify_chain_def verify_from_iff)

lemma build_address_record_linked:
  "ar3_prev_hash (build_address_record sha peer_id epoch address_hash op prev_hash) = prev_hash"
  "ar3_record_hash (build_address_record sha peer_id epoch address_hash op prev_hash) = sha
      (AddressRecord_bytes_of (build_address_record sha peer_id epoch address_hash op prev_hash))"
  by (simp_all add: build_address_record_def compute_address_hash_def AddressRecord_bytes_of_def Let_def
      split_def)

lemma address_log_push_ok: "peer_address_book.ok sha (al3_records l) \<Longrightarrow>
    peer_address_book.ok sha (al3_records (snd (AddressLog_push sha peer_id epoch address_hash op l)))"
  by (simp add: Let_def split_def AddressLog_push_def AddressLog_last_hash_def
      build_address_record_linked split: option.split sum.split)

end
