(* ===== verification/Peer_Messages.thy ===== *)
theory Peer_Messages
  imports Epoch_Log "HOL-Library.Product_Lexorder"
begin

text \<open>
  What a node does with one message: whether the peer subscribes to its topic, whether it was seen
  before, whether its authentication tag matches the session key, which of the pending messages goes
  first, and how many hops it may still travel.
\<close>

section \<open>Gossip Subscription Filter: topic-based message forwarding decisions (Gate 314)\<close>

text \<open>
  \<open>subscription_filter.rs\<close>. Determines whether a gossip message should be forwarded to a
  peer based on their active topic subscriptions. Integrates with the topic subscription
\<close>

definition MAX_FILTER_TOPICS :: nat where
  "MAX_FILTER_TOPICS = 64"

datatype FilterDecision = Forward | Drop | NoSubscriptions

fun FilterDecision_as_u8 :: "FilterDecision \<Rightarrow> u8" where
  "FilterDecision_as_u8 FilterDecision.Forward = 0"
| "FilterDecision_as_u8 FilterDecision.Drop = 1"
| "FilterDecision_as_u8 FilterDecision.NoSubscriptions = 2"

lemma FilterDecision_as_u8_inj [simp]: "FilterDecision_as_u8 x = FilterDecision_as_u8 y
    \<longleftrightarrow> x = y"
  by (cases x; cases y) auto

definition FilterDecision_decision_byte :: "FilterDecision \<Rightarrow> u8" where
  "FilterDecision_decision_byte self =
     FilterDecision_as_u8 self"

record FilterRecord =
  fr3_peer_id :: u32
  fr3_epoch :: u64
  fr3_topic_hash :: hash
  fr3_decision :: FilterDecision
  fr3_record_hash :: hash
  fr3_prev_hash :: hash

definition filter_bytes ::
  "u32 \<Rightarrow> u64 \<Rightarrow> hash \<Rightarrow> FilterDecision \<Rightarrow> hash
      \<Rightarrow> bytes" where
  "filter_bytes peer_id epoch topic_hash decision prev =
     hash_bytes prev @ be4 peer_id @ be8 epoch @ hash_bytes topic_hash @
         [FilterDecision_decision_byte decision]"

definition compute_filter_hash ::
  "sha \<Rightarrow> u32 \<Rightarrow> u64 \<Rightarrow> hash \<Rightarrow> FilterDecision \<Rightarrow>
      hash \<Rightarrow> hash" where
  "compute_filter_hash sha peer_id epoch topic_hash decision prev =
     sha (filter_bytes peer_id epoch topic_hash decision prev)"

definition build_filter_record ::
  "sha \<Rightarrow> u32 \<Rightarrow> u64 \<Rightarrow> hash \<Rightarrow> FilterDecision \<Rightarrow>
      hash \<Rightarrow> FilterRecord" where
  "build_filter_record sha peer_id epoch topic_hash decision prev_hash =
     (let record_hash = compute_filter_hash sha peer_id epoch topic_hash decision prev_hash
      in \<lparr>fr3_peer_id = peer_id, fr3_epoch = epoch, fr3_topic_hash = topic_hash,
          fr3_decision = decision, fr3_record_hash = record_hash, fr3_prev_hash = prev_hash\<rparr>)"

record FilterLog =
  fl2_records :: "FilterRecord list"

definition FilterLog_new :: "FilterLog" where
  "FilterLog_new =
     \<lparr>fl2_records = []\<rparr>"

definition FilterLog_last_hash :: "FilterLog \<Rightarrow> hash" where
  "FilterLog_last_hash self =
     last_hash fr3_record_hash (fl2_records self)"

definition FilterLog_push ::
  "sha \<Rightarrow> u32 \<Rightarrow> u64 \<Rightarrow> hash \<Rightarrow> FilterDecision \<Rightarrow>
      FilterLog \<Rightarrow> FilterRecord \<times> FilterLog" where
  "FilterLog_push sha peer_id epoch topic_hash decision self =
     (let prev = FilterLog_last_hash self;
          r = build_filter_record sha peer_id epoch topic_hash decision prev;
          self = self\<lparr>fl2_records := (fl2_records self) @ [r]\<rparr>
      in (last (fl2_records self), self))"

definition FilterLog_forward_count :: "FilterLog \<Rightarrow> nat" where
  "FilterLog_forward_count self =
     length (filter (\<lambda>r. (fr3_decision r) = FilterDecision.Forward) (fl2_records self))"

definition FilterLog_drop_count :: "FilterLog \<Rightarrow> nat" where
  "FilterLog_drop_count self =
     length (filter (\<lambda>r. (fr3_decision r) = FilterDecision.Drop) (fl2_records self))"

definition FilterRecord_bytes_of :: "FilterRecord \<Rightarrow> bytes" where
  "FilterRecord_bytes_of r =
     filter_bytes (fr3_peer_id r) (fr3_epoch r) (fr3_topic_hash r) (fr3_decision r) (fr3_prev_hash r)"

definition FilterLog_verify_chain ::
  "sha \<Rightarrow> FilterLog \<Rightarrow> bool \<times> nat option" where
  "FilterLog_verify_chain sha self =
     verify_from fr3_prev_hash fr3_record_hash (\<lambda>r. sha (FilterRecord_bytes_of r)) 0 genesis
         (fl2_records self)"

record PeerFilterState =
  pfs_topics :: "(hash, unit) btmap"

record SubscriptionFilter =
  sf2_peers :: "(u32, (hash, unit) btmap) btmap"
  sf2_logs :: "(u32, FilterLog) btmap"

definition SubscriptionFilter_new :: "SubscriptionFilter" where
  "SubscriptionFilter_new =
     \<lparr>sf2_peers = bt_empty, sf2_logs = bt_empty\<rparr>"

definition SubscriptionFilter_register_topics ::
  "u32 \<Rightarrow> hash list \<Rightarrow> SubscriptionFilter \<Rightarrow> SubscriptionFilter" where
  "SubscriptionFilter_register_topics peer_id topics self =
     (let set_v = bt_of_list (map (\<lambda>k. (k, ())) (take MAX_FILTER_TOPICS topics));
          self = self\<lparr>sf2_peers := bt_insert peer_id set_v (sf2_peers self)\<rparr>;
          entry_v = bt_get_or FilterLog_new (sf2_logs self) peer_id;
          self = self\<lparr>sf2_logs := bt_insert peer_id entry_v (sf2_logs self)\<rparr>
      in self)"

definition SubscriptionFilter_evaluate ::
  "sha \<Rightarrow> u32 \<Rightarrow> hash \<Rightarrow> u64 \<Rightarrow> SubscriptionFilter
      \<Rightarrow> FilterDecision \<times> SubscriptionFilter" where
  "SubscriptionFilter_evaluate sha peer_id topic_hash epoch self =
     (let decision = (case bt_get (sf2_peers self) peer_id of None \<Rightarrow>
         FilterDecision.NoSubscriptions | Some topics \<Rightarrow> if bt_len topics = 0 then
         FilterDecision.NoSubscriptions else if bt_has topics topic_hash then FilterDecision.Forward
         else FilterDecision.Drop);
          log = bt_get_or FilterLog_new (sf2_logs self) peer_id;
          log = snd (FilterLog_push sha peer_id epoch topic_hash decision log);
          self = self\<lparr>sf2_logs := bt_insert peer_id log (sf2_logs self)\<rparr>
      in (decision, self))"

definition SubscriptionFilter_clear_peer ::
  "u32 \<Rightarrow> SubscriptionFilter \<Rightarrow> SubscriptionFilter" where
  "SubscriptionFilter_clear_peer peer_id self =
     (let self = self\<lparr>sf2_peers := bt_remove peer_id (sf2_peers self)\<rparr>;
          self = self\<lparr>sf2_logs := bt_remove peer_id (sf2_logs self)\<rparr>
      in self)"

definition SubscriptionFilter_peer_count :: "SubscriptionFilter \<Rightarrow> nat" where
  "SubscriptionFilter_peer_count self =
     bt_len (sf2_peers self)"

definition SubscriptionFilter_get_log ::
  "u32 \<Rightarrow> SubscriptionFilter \<Rightarrow> FilterLog option" where
  "SubscriptionFilter_get_log peer_id self =
     bt_get (sf2_logs self) peer_id"

definition SubscriptionFilter_topics_for ::
  "u32 \<Rightarrow> SubscriptionFilter \<Rightarrow> hash list" where
  "SubscriptionFilter_topics_for peer_id self =
     unwrap_or [] (map_option bt_keys (bt_get (sf2_peers self) peer_id))"

lemma filter_bytes_inj:
  "filter_bytes peer_id epoch topic_hash decision prev = filter_bytes peer_id' epoch' topic_hash'
      decision' prev' \<longleftrightarrow>
   prev = prev' \<and> peer_id = peer_id' \<and> epoch = epoch' \<and> topic_hash = topic_hash' \<and>
       (FilterDecision_decision_byte decision) = (FilterDecision_decision_byte decision')"
  by (auto simp: filter_bytes_def enc_simps)

definition FilterRecord_committed :: "FilterRecord \<Rightarrow> u32 \<times> u64 \<times> hash \<times>
    u8" where
  "FilterRecord_committed r =
     (fr3_peer_id r, fr3_epoch r, fr3_topic_hash r, FilterDecision_decision_byte (fr3_decision r))"

interpretation subscription_filter: hash_log FilterRecord_bytes_of fr3_prev_hash fr3_record_hash
    FilterRecord_committed
  by unfold_locales (auto simp: FilterRecord_bytes_of_def FilterRecord_committed_def filter_bytes_inj)

lemma subscription_filter_verify_iff: "FilterLog_verify_chain sha l = (True,
    None) \<longleftrightarrow> subscription_filter.ok sha (fl2_records l)"
  by (simp add: FilterLog_verify_chain_def verify_from_iff)

lemma build_filter_record_linked:
  "fr3_prev_hash (build_filter_record sha peer_id epoch topic_hash decision prev_hash) = prev_hash"
  "fr3_record_hash (build_filter_record sha peer_id epoch topic_hash decision prev_hash) = sha
      (FilterRecord_bytes_of (build_filter_record sha peer_id epoch topic_hash decision prev_hash))"
  by (simp_all add: build_filter_record_def compute_filter_hash_def FilterRecord_bytes_of_def Let_def
      split_def)

lemma filter_log_push_ok: "subscription_filter.ok sha (fl2_records l) \<Longrightarrow>
    subscription_filter.ok sha (fl2_records (snd (FilterLog_push sha peer_id epoch topic_hash decision
    l)))"
  by (simp add: Let_def split_def FilterLog_push_def FilterLog_last_hash_def build_filter_record_linked
      split: option.split sum.split)

section \<open>Gossip Topic Subscription Registry: peer topic interest tracking (Gate 305)\<close>

text \<open>
  \<open>topic_subscription.rs\<close>. Maintains a registry of which topics each peer has subscribed
  to. Topics are identified by a u32 topic_id. Subscriptions and withdrawals are recorded as
  hash-chained SubRecords for audit.
\<close>

definition MAX_TOPICS_PER_PEER :: nat where
  "MAX_TOPICS_PER_PEER = 64"

datatype SubEvent = Subscribe | Unsubscribe

fun SubEvent_as_u8 :: "SubEvent \<Rightarrow> u8" where
  "SubEvent_as_u8 SubEvent.Subscribe = 0"
| "SubEvent_as_u8 SubEvent.Unsubscribe = 1"

lemma SubEvent_as_u8_inj [simp]: "SubEvent_as_u8 x = SubEvent_as_u8 y \<longleftrightarrow> x = y"
  by (cases x; cases y) auto

definition SubEvent_event_byte :: "SubEvent \<Rightarrow> u8" where
  "SubEvent_event_byte self =
     SubEvent_as_u8 self"

record SubRecord =
  sr3_peer_id :: u32
  sr3_epoch :: u64
  sr3_topic_id :: u32
  sr3_event :: SubEvent
  sr3_record_hash :: hash
  sr3_prev_hash :: hash

definition topic_subscription_sub_bytes ::
  "u32 \<Rightarrow> u64 \<Rightarrow> u32 \<Rightarrow> SubEvent \<Rightarrow> hash \<Rightarrow>
      bytes" where
  "topic_subscription_sub_bytes peer_id epoch topic_id event prev =
     hash_bytes prev @ be4 peer_id @ be8 epoch @ be4 topic_id @ [SubEvent_event_byte event]"

definition compute_sub_hash ::
  "sha \<Rightarrow> u32 \<Rightarrow> u64 \<Rightarrow> u32 \<Rightarrow> SubEvent \<Rightarrow> hash
      \<Rightarrow> hash" where
  "compute_sub_hash sha peer_id epoch topic_id event prev =
     sha (topic_subscription_sub_bytes peer_id epoch topic_id event prev)"

definition build_sub_record ::
  "sha \<Rightarrow> u32 \<Rightarrow> u64 \<Rightarrow> u32 \<Rightarrow> SubEvent \<Rightarrow> hash
      \<Rightarrow> SubRecord" where
  "build_sub_record sha peer_id epoch topic_id event prev_hash =
     (let record_hash = compute_sub_hash sha peer_id epoch topic_id event prev_hash
      in \<lparr>sr3_peer_id = peer_id, sr3_epoch = epoch, sr3_topic_id = topic_id, sr3_event = event,
          sr3_record_hash = record_hash, sr3_prev_hash = prev_hash\<rparr>)"

record SubLog =
  sl3_peer_id :: u32
  sl3_records :: "SubRecord list"

definition SubLog_new :: "u32 \<Rightarrow> SubLog" where
  "SubLog_new peer_id =
     \<lparr>sl3_peer_id = peer_id, sl3_records = []\<rparr>"

definition SubLog_last_hash :: "SubLog \<Rightarrow> hash" where
  "SubLog_last_hash self =
     last_hash sr3_record_hash (sl3_records self)"

definition SubLog_push ::
  "sha \<Rightarrow> u64 \<Rightarrow> u32 \<Rightarrow> SubEvent \<Rightarrow> SubLog \<Rightarrow>
      SubRecord \<times> SubLog" where
  "SubLog_push sha epoch topic_id event self =
     (let prev = SubLog_last_hash self;
          r = build_sub_record sha (sl3_peer_id self) epoch topic_id event prev;
          self = self\<lparr>sl3_records := (sl3_records self) @ [r]\<rparr>
      in (last (sl3_records self), self))"

definition SubLog_subscribe_count :: "SubLog \<Rightarrow> nat" where
  "SubLog_subscribe_count self =
     length (filter (\<lambda>r. (sr3_event r) = SubEvent.Subscribe) (sl3_records self))"

definition SubLog_unsubscribe_count :: "SubLog \<Rightarrow> nat" where
  "SubLog_unsubscribe_count self =
     length (filter (\<lambda>r. (sr3_event r) = SubEvent.Unsubscribe) (sl3_records self))"

definition SubRecord_bytes_of :: "SubRecord \<Rightarrow> bytes" where
  "SubRecord_bytes_of r =
     topic_subscription_sub_bytes (sr3_peer_id r) (sr3_epoch r) (sr3_topic_id r) (sr3_event r)
         (sr3_prev_hash r)"

definition SubLog_verify_chain ::
  "sha \<Rightarrow> SubLog \<Rightarrow> bool \<times> nat option" where
  "SubLog_verify_chain sha self =
     verify_from sr3_prev_hash sr3_record_hash (\<lambda>r. sha (SubRecord_bytes_of r)) 0 genesis
         (sl3_records self)"

datatype SubError = AlreadySubscribed | TopicLimitReached

fun SubError_as_u8 :: "SubError \<Rightarrow> u8" where
  "SubError_as_u8 SubError.AlreadySubscribed = 0"
| "SubError_as_u8 SubError.TopicLimitReached = 1"

lemma SubError_as_u8_inj [simp]: "SubError_as_u8 x = SubError_as_u8 y \<longleftrightarrow> x = y"
  by (cases x; cases y) auto

record PeerSubState =
  pss_topics :: "(u32, unit) btmap"
  pss_log :: SubLog

record TopicSubscriptionRegistry =
  tsr_peers :: "(u32, PeerSubState) btmap"

definition TopicSubscriptionRegistry_new :: "TopicSubscriptionRegistry" where
  "TopicSubscriptionRegistry_new =
     \<lparr>tsr_peers = bt_empty\<rparr>"

definition TopicSubscriptionRegistry_ensure_peer ::
  "u32 \<Rightarrow> TopicSubscriptionRegistry \<Rightarrow> TopicSubscriptionRegistry" where
  "TopicSubscriptionRegistry_ensure_peer peer_id self =
     (let entry_v = bt_get_or (\<lparr>pss_topics = bt_empty, pss_log = SubLog_new peer_id\<rparr>)
         (tsr_peers self) peer_id;
          self = self\<lparr>tsr_peers := bt_insert peer_id entry_v (tsr_peers self)\<rparr>
      in self)"

definition TopicSubscriptionRegistry_subscribe ::
  "sha \<Rightarrow> u32 \<Rightarrow> u64 \<Rightarrow> u32 \<Rightarrow> TopicSubscriptionRegistry
      \<Rightarrow> (SubError + unit) \<times> TopicSubscriptionRegistry" where
  "TopicSubscriptionRegistry_subscribe sha peer_id epoch topic_id self =
     (let self = TopicSubscriptionRegistry_ensure_peer peer_id self;
          state = the (bt_get (tsr_peers self) peer_id)
      in if bt_has (pss_topics state) topic_id then (Inl SubError.AlreadySubscribed, self)
      else if (bt_len (pss_topics state)) \<ge> MAX_TOPICS_PER_PEER then (Inl
          SubError.TopicLimitReached, self)
      else (let state = state\<lparr>pss_topics := bt_insert topic_id () (pss_topics state)\<rparr>;
          state = state\<lparr>pss_log := snd (SubLog_push sha epoch topic_id SubEvent.Subscribe
            (pss_log state))\<rparr>;
          self = self\<lparr>tsr_peers := bt_insert peer_id state (tsr_peers self)\<rparr>
      in (Inr (), self)))"

definition TopicSubscriptionRegistry_unsubscribe ::
  "sha \<Rightarrow> u32 \<Rightarrow> u64 \<Rightarrow> u32 \<Rightarrow> TopicSubscriptionRegistry
      \<Rightarrow> bool \<times> TopicSubscriptionRegistry" where
  "TopicSubscriptionRegistry_unsubscribe sha peer_id epoch topic_id self =
     (case bt_get (tsr_peers self) peer_id of Some state \<Rightarrow> (let removed = bt_has (pss_topics
         state) topic_id;
          state = state\<lparr>pss_topics := bt_remove topic_id (pss_topics state)\<rparr>;
          self = self\<lparr>tsr_peers := bt_insert peer_id state (tsr_peers self)\<rparr>
      in if removed then (let state = state\<lparr>pss_log := snd (SubLog_push sha epoch topic_id
          SubEvent.Unsubscribe (pss_log state))\<rparr>;
          self = self\<lparr>tsr_peers := bt_insert peer_id state (tsr_peers self)\<rparr>
      in (True, self))
      else (False, self)) | None \<Rightarrow> (False, self))"

definition TopicSubscriptionRegistry_is_subscribed ::
  "u32 \<Rightarrow> u32 \<Rightarrow> TopicSubscriptionRegistry \<Rightarrow> bool" where
  "TopicSubscriptionRegistry_is_subscribed peer_id topic_id self \<longleftrightarrow>
     unwrap_or False (map_option (\<lambda>s. bt_has (pss_topics s) topic_id) (bt_get (tsr_peers self)
         peer_id))"

definition TopicSubscriptionRegistry_topics_for ::
  "u32 \<Rightarrow> TopicSubscriptionRegistry \<Rightarrow> u32 list" where
  "TopicSubscriptionRegistry_topics_for peer_id self =
     unwrap_or [] (map_option (\<lambda>s. bt_keys (pss_topics s)) (bt_get (tsr_peers self) peer_id))"

definition TopicSubscriptionRegistry_peers_for_topic ::
  "u32 \<Rightarrow> TopicSubscriptionRegistry \<Rightarrow> u32 list" where
  "TopicSubscriptionRegistry_peers_for_topic topic_id self =
     map (\<lambda>(pid, _). pid) (filter (\<lambda>(_, s). bt_has (pss_topics s) topic_id) (entries
         (tsr_peers self)))"

definition TopicSubscriptionRegistry_get_log ::
  "u32 \<Rightarrow> TopicSubscriptionRegistry \<Rightarrow> SubLog option" where
  "TopicSubscriptionRegistry_get_log peer_id self =
     map_option pss_log (bt_get (tsr_peers self) peer_id)"

definition TopicSubscriptionRegistry_peer_count :: "TopicSubscriptionRegistry \<Rightarrow> nat" where
  "TopicSubscriptionRegistry_peer_count self =
     bt_len (tsr_peers self)"

lemma topic_subscription_sub_bytes_inj:
  "topic_subscription_sub_bytes peer_id epoch topic_id event prev = topic_subscription_sub_bytes
      peer_id' epoch' topic_id' event' prev' \<longleftrightarrow>
   prev = prev' \<and> peer_id = peer_id' \<and> epoch = epoch' \<and> topic_id = topic_id' \<and>
       (SubEvent_event_byte event) = (SubEvent_event_byte event')"
  by (auto simp: topic_subscription_sub_bytes_def enc_simps)

definition SubRecord_committed :: "SubRecord \<Rightarrow> u32 \<times> u64 \<times> u32 \<times> u8"
    where
  "SubRecord_committed r =
     (sr3_peer_id r, sr3_epoch r, sr3_topic_id r, SubEvent_event_byte (sr3_event r))"

interpretation topic_subscription: hash_log SubRecord_bytes_of sr3_prev_hash sr3_record_hash
    SubRecord_committed
  by unfold_locales (auto simp: SubRecord_bytes_of_def SubRecord_committed_def
      topic_subscription_sub_bytes_inj)

lemma topic_subscription_verify_iff: "SubLog_verify_chain sha l = (True,
    None) \<longleftrightarrow> topic_subscription.ok sha (sl3_records l)"
  by (simp add: SubLog_verify_chain_def verify_from_iff)

lemma build_sub_record_linked:
  "sr3_prev_hash (build_sub_record sha peer_id epoch topic_id event prev_hash) = prev_hash"
  "sr3_record_hash (build_sub_record sha peer_id epoch topic_id event prev_hash) = sha
      (SubRecord_bytes_of (build_sub_record sha peer_id epoch topic_id event prev_hash))"
  by (simp_all add: build_sub_record_def compute_sub_hash_def SubRecord_bytes_of_def Let_def split_def)

lemma sub_log_push_ok: "topic_subscription.ok sha (sl3_records l) \<Longrightarrow>
    topic_subscription.ok sha (sl3_records (snd (SubLog_push sha epoch topic_id event l)))"
  by (simp add: Let_def split_def SubLog_push_def SubLog_last_hash_def build_sub_record_linked split:
      option.split sum.split)

section \<open>Gossip Message Cache: epoch-scoped content-addressed message store (Gate 313)\<close>

text \<open>
  \<open>gossip_message_cache.rs\<close>. Stores recent gossip message payloads keyed by their SHA-256
  content hash. Each epoch, messages can be inserted and retrieved by hash. At epoch advance, messages
  older than CACHE_WINDOW_EPOCHS are evicted. The cache prevents re-processing the same payload within
  the window.
\<close>

definition CACHE_WINDOW_EPOCHS :: u64 where
  "CACHE_WINDOW_EPOCHS = 6"

definition MAX_ENTRIES_PER_EPOCH :: nat where
  "MAX_ENTRIES_PER_EPOCH = 512"

datatype CacheDecision = Inserted | AlreadyPresent | EpochFull

fun CacheDecision_as_u8 :: "CacheDecision \<Rightarrow> u8" where
  "CacheDecision_as_u8 CacheDecision.Inserted = 0"
| "CacheDecision_as_u8 CacheDecision.AlreadyPresent = 1"
| "CacheDecision_as_u8 CacheDecision.EpochFull = 2"

lemma CacheDecision_as_u8_inj [simp]: "CacheDecision_as_u8 x = CacheDecision_as_u8 y
    \<longleftrightarrow> x = y"
  by (cases x; cases y) auto

definition CacheDecision_decision_byte :: "CacheDecision \<Rightarrow> u8" where
  "CacheDecision_decision_byte self =
     CacheDecision_as_u8 self"

record CacheRecord =
  cr3_content_hash :: hash
  cr3_inserted_epoch :: u64
  cr3_decision :: CacheDecision
  cr3_record_hash :: hash
  cr3_prev_hash :: hash

definition cache_bytes ::
  "hash \<Rightarrow> u64 \<Rightarrow> CacheDecision \<Rightarrow> hash \<Rightarrow> bytes" where
  "cache_bytes content_hash inserted_epoch decision prev =
     hash_bytes prev @ hash_bytes content_hash @ be8 inserted_epoch @
         [CacheDecision_decision_byte decision]"

definition compute_cache_hash ::
  "sha \<Rightarrow> hash \<Rightarrow> u64 \<Rightarrow> CacheDecision \<Rightarrow> hash \<Rightarrow>
      hash" where
  "compute_cache_hash sha content_hash inserted_epoch decision prev =
     sha (cache_bytes content_hash inserted_epoch decision prev)"

definition build_cache_record ::
  "sha \<Rightarrow> hash \<Rightarrow> u64 \<Rightarrow> CacheDecision \<Rightarrow> hash \<Rightarrow>
      CacheRecord" where
  "build_cache_record sha content_hash inserted_epoch decision prev_hash =
     (let record_hash = compute_cache_hash sha content_hash inserted_epoch decision prev_hash
      in \<lparr>cr3_content_hash = content_hash, cr3_inserted_epoch = inserted_epoch,
          cr3_decision = decision, cr3_record_hash = record_hash, cr3_prev_hash = prev_hash\<rparr>)"

record CacheLog =
  cl3_records :: "CacheRecord list"

definition CacheLog_new :: "CacheLog" where
  "CacheLog_new =
     \<lparr>cl3_records = []\<rparr>"

definition CacheLog_last_hash :: "CacheLog \<Rightarrow> hash" where
  "CacheLog_last_hash self =
     last_hash cr3_record_hash (cl3_records self)"

definition CacheLog_push ::
  "sha \<Rightarrow> hash \<Rightarrow> u64 \<Rightarrow> CacheDecision \<Rightarrow> CacheLog
      \<Rightarrow> CacheRecord \<times> CacheLog" where
  "CacheLog_push sha content_hash inserted_epoch decision self =
     (let prev = CacheLog_last_hash self;
          r = build_cache_record sha content_hash inserted_epoch decision prev;
          self = self\<lparr>cl3_records := (cl3_records self) @ [r]\<rparr>
      in (last (cl3_records self), self))"

definition CacheLog_inserted_count :: "CacheLog \<Rightarrow> nat" where
  "CacheLog_inserted_count self =
     length (filter (\<lambda>r. (cr3_decision r) = CacheDecision.Inserted) (cl3_records self))"

definition CacheLog_already_present_count :: "CacheLog \<Rightarrow> nat" where
  "CacheLog_already_present_count self =
     length (filter (\<lambda>r. (cr3_decision r) = CacheDecision.AlreadyPresent) (cl3_records self))"

definition CacheRecord_bytes_of :: "CacheRecord \<Rightarrow> bytes" where
  "CacheRecord_bytes_of r =
     cache_bytes (cr3_content_hash r) (cr3_inserted_epoch r) (cr3_decision r) (cr3_prev_hash r)"

definition CacheLog_verify_chain ::
  "sha \<Rightarrow> CacheLog \<Rightarrow> bool \<times> nat option" where
  "CacheLog_verify_chain sha self =
     verify_from cr3_prev_hash cr3_record_hash (\<lambda>r. sha (CacheRecord_bytes_of r)) 0 genesis
         (cl3_records self)"

record GossipMessageCache =
  gmc_window :: "(u64, (hash, unit) btmap) btmap"
  gmc_current_epoch :: u64
  gmc_log :: CacheLog

definition GossipMessageCache_new :: "u64 \<Rightarrow> GossipMessageCache" where
  "GossipMessageCache_new initial_epoch =
     \<lparr>gmc_window = bt_empty, gmc_current_epoch = initial_epoch, gmc_log = CacheLog_new\<rparr>"

definition GossipMessageCache_evict_old :: "GossipMessageCache \<Rightarrow> GossipMessageCache" where
  "GossipMessageCache_evict_old self =
     (let cutoff = sat_sub (gmc_current_epoch self) CACHE_WINDOW_EPOCHS;
          self = self\<lparr>gmc_window := bt_retain (\<lambda>epoch _. epoch > cutoff) (gmc_window
            self)\<rparr>
      in self)"

definition GossipMessageCache_advance_epoch ::
  "u64 \<Rightarrow> GossipMessageCache \<Rightarrow> GossipMessageCache" where
  "GossipMessageCache_advance_epoch new_epoch self =
     (if new_epoch > (gmc_current_epoch self) then (let self = self\<lparr>gmc_current_epoch :=
         new_epoch\<rparr>;
          self = GossipMessageCache_evict_old self
      in self)
      else self)"

definition GossipMessageCache_insert ::
  "sha \<Rightarrow> hash \<Rightarrow> u64 \<Rightarrow> GossipMessageCache \<Rightarrow> CacheDecision
      \<times> GossipMessageCache" where
  "GossipMessageCache_insert sha content_hash epoch self =
     (let self = (if epoch > (gmc_current_epoch self) then (let self = self\<lparr>gmc_current_epoch :=
         epoch\<rparr>;
          self = GossipMessageCache_evict_old self
      in self)
      else self)
      in if list_ex (\<lambda>slot. bt_has slot content_hash) (bt_values (gmc_window self)) then (let
          self = self\<lparr>gmc_log := snd (CacheLog_push sha content_hash epoch
          CacheDecision.AlreadyPresent (gmc_log self))\<rparr>
      in (CacheDecision.AlreadyPresent, self))
      else (let slot = bt_get_or bt_empty (gmc_window self) epoch;
          self = self\<lparr>gmc_window := bt_insert epoch slot (gmc_window self)\<rparr>
      in if (bt_len slot) \<ge> MAX_ENTRIES_PER_EPOCH then (let self = self\<lparr>gmc_log := snd
          (CacheLog_push sha content_hash epoch CacheDecision.EpochFull (gmc_log self))\<rparr>
      in (CacheDecision.EpochFull, self))
      else (let slot = bt_insert content_hash () slot;
          self = self\<lparr>gmc_window := bt_insert epoch slot (gmc_window self)\<rparr>;
          self = self\<lparr>gmc_log := snd (CacheLog_push sha content_hash epoch CacheDecision.Inserted
            (gmc_log self))\<rparr>
      in (CacheDecision.Inserted, self))))"

definition GossipMessageCache_contains ::
  "hash \<Rightarrow> GossipMessageCache \<Rightarrow> bool" where
  "GossipMessageCache_contains content_hash self \<longleftrightarrow>
     list_ex (\<lambda>slot. bt_has slot content_hash) (bt_values (gmc_window self))"

definition GossipMessageCache_window_entry_count :: "GossipMessageCache \<Rightarrow> nat" where
  "GossipMessageCache_window_entry_count self =
     sum_list (map bt_len (bt_values (gmc_window self)))"

lemma cache_bytes_inj:
  "cache_bytes content_hash inserted_epoch decision prev = cache_bytes content_hash' inserted_epoch'
      decision' prev' \<longleftrightarrow>
   prev = prev' \<and> content_hash = content_hash' \<and> inserted_epoch = inserted_epoch' \<and>
       (CacheDecision_decision_byte decision) = (CacheDecision_decision_byte decision')"
  by (auto simp: cache_bytes_def enc_simps)

definition CacheRecord_committed :: "CacheRecord \<Rightarrow> hash \<times> u64 \<times> u8" where
  "CacheRecord_committed r =
     (cr3_content_hash r, cr3_inserted_epoch r, CacheDecision_decision_byte (cr3_decision r))"

interpretation message_cache: hash_log CacheRecord_bytes_of cr3_prev_hash cr3_record_hash
    CacheRecord_committed
  by unfold_locales (auto simp: CacheRecord_bytes_of_def CacheRecord_committed_def cache_bytes_inj)

lemma message_cache_verify_iff: "CacheLog_verify_chain sha l = (True,
    None) \<longleftrightarrow> message_cache.ok sha (cl3_records l)"
  by (simp add: CacheLog_verify_chain_def verify_from_iff)

lemma build_cache_record_linked:
  "cr3_prev_hash (build_cache_record sha content_hash inserted_epoch decision prev_hash) = prev_hash"
  "cr3_record_hash (build_cache_record sha content_hash inserted_epoch decision prev_hash) = sha
      (CacheRecord_bytes_of (build_cache_record sha content_hash inserted_epoch decision prev_hash))"
  by (simp_all add: build_cache_record_def compute_cache_hash_def CacheRecord_bytes_of_def Let_def
      split_def)

lemma cache_log_push_ok: "message_cache.ok sha (cl3_records l) \<Longrightarrow> message_cache.ok sha
    (cl3_records (snd (CacheLog_push sha content_hash inserted_epoch decision l)))"
  by (simp add: Let_def split_def CacheLog_push_def CacheLog_last_hash_def build_cache_record_linked
      split: option.split sum.split)

section \<open>Gossip Message Authenticator: epoch-keyed message integrity tagging (Gate 289)\<close>

text \<open>
  \<open>message_authenticator.rs\<close>. Each gossip message is tagged with a 16-byte authentication
  token derived from SHA-256(peer_id_be4 || epoch_be8 || session_key[16] || message_id_be8 ||
  payload_hash[32]). The first 16 bytes of the digest are used as the token. Verification recomputes
  and compares. Forgery attempts are counted and hash-linked per peer.
\<close>

definition AUTH_TAG_LEN :: nat where
  "AUTH_TAG_LEN = 16"

definition auth_tag_bytes :: "u32 \<Rightarrow> u64 \<Rightarrow> bytes \<Rightarrow> u64 \<Rightarrow>
    hash \<Rightarrow> bytes" where
  "auth_tag_bytes peer_id epoch session_key message_id payload_hash =
     be4 peer_id @ be8 epoch @ session_key @ be8 message_id @ hash_bytes payload_hash"

definition compute_auth_tag :: "sha \<Rightarrow> u32 \<Rightarrow> u64 \<Rightarrow> bytes
    \<Rightarrow> u64 \<Rightarrow> hash \<Rightarrow> bytes" where
  "compute_auth_tag sha peer_id epoch session_key message_id payload_hash =
     take AUTH_TAG_LEN (hash_bytes (sha (auth_tag_bytes peer_id epoch session_key message_id
         payload_hash)))"

definition hash_payload_bytes :: "u8 list \<Rightarrow> bytes" where
  "hash_payload_bytes message_bytes =
     message_bytes"

definition hash_payload :: "sha \<Rightarrow> u8 list \<Rightarrow> hash" where
  "hash_payload sha message_bytes =
     sha (hash_payload_bytes message_bytes)"

record MessageAuthRecord =
  mar_peer_id :: u32
  mar_epoch :: u64
  mar_message_id :: u64
  mar_payload_hash :: hash
  mar_auth_tag :: bytes
  mar_is_valid :: bool
  mar_record_hash :: hash
  mar_prev_hash :: hash

definition message_authenticator_record_bytes ::
  "u32 \<Rightarrow> u64 \<Rightarrow> u64 \<Rightarrow> bool \<Rightarrow> hash \<Rightarrow> bytes"
      where
  "message_authenticator_record_bytes peer_id epoch message_id is_valid prev =
     hash_bytes prev @ be4 peer_id @ be8 epoch @ be8 message_id @ [of_bool is_valid]"

definition message_authenticator_compute_record_hash ::
  "sha \<Rightarrow> u32 \<Rightarrow> u64 \<Rightarrow> u64 \<Rightarrow> bool \<Rightarrow> hash
      \<Rightarrow> hash" where
  "message_authenticator_compute_record_hash sha peer_id epoch message_id is_valid prev =
     sha (message_authenticator_record_bytes peer_id epoch message_id is_valid prev)"

definition build_auth_record ::
  "sha \<Rightarrow> u32 \<Rightarrow> u64 \<Rightarrow> u64 \<Rightarrow> hash \<Rightarrow> bytes
      \<Rightarrow> bool \<Rightarrow> hash \<Rightarrow> MessageAuthRecord" where
  "build_auth_record sha peer_id epoch message_id payload_hash auth_tag is_valid prev_hash =
     (let record_hash = message_authenticator_compute_record_hash sha peer_id epoch message_id is_valid
         prev_hash
      in \<lparr>mar_peer_id = peer_id, mar_epoch = epoch, mar_message_id = message_id,
          mar_payload_hash = payload_hash, mar_auth_tag = auth_tag, mar_is_valid = is_valid,
          mar_record_hash = record_hash, mar_prev_hash = prev_hash\<rparr>)"

record AuthLog =
  al4_peer_id :: u32
  al4_records :: "MessageAuthRecord list"

definition AuthLog_new :: "u32 \<Rightarrow> AuthLog" where
  "AuthLog_new peer_id =
     \<lparr>al4_peer_id = peer_id, al4_records = []\<rparr>"

definition AuthLog_last_hash :: "AuthLog \<Rightarrow> hash" where
  "AuthLog_last_hash self =
     last_hash mar_record_hash (al4_records self)"

definition AuthLog_append ::
  "sha \<Rightarrow> u64 \<Rightarrow> u64 \<Rightarrow> hash \<Rightarrow> bytes \<Rightarrow> bool
      \<Rightarrow> AuthLog \<Rightarrow> AuthLog" where
  "AuthLog_append sha epoch message_id payload_hash auth_tag is_valid self =
     (let prev = AuthLog_last_hash self;
          r = build_auth_record sha (al4_peer_id self) epoch message_id payload_hash auth_tag is_valid
            prev;
          self = self\<lparr>al4_records := (al4_records self) @ [r]\<rparr>
      in self)"

definition AuthLog_valid_count :: "AuthLog \<Rightarrow> nat" where
  "AuthLog_valid_count self =
     length (filter mar_is_valid (al4_records self))"

definition AuthLog_forgery_count :: "AuthLog \<Rightarrow> nat" where
  "AuthLog_forgery_count self =
     length (filter (\<lambda>r. \<not> (mar_is_valid r)) (al4_records self))"

definition MessageAuthRecord_bytes_of :: "MessageAuthRecord \<Rightarrow> bytes" where
  "MessageAuthRecord_bytes_of r =
     message_authenticator_record_bytes (mar_peer_id r) (mar_epoch r) (mar_message_id r) (mar_is_valid
         r) (mar_prev_hash r)"

definition AuthLog_verify_chain ::
  "sha \<Rightarrow> AuthLog \<Rightarrow> bool \<times> nat option" where
  "AuthLog_verify_chain sha self =
     verify_from mar_prev_hash mar_record_hash (\<lambda>r. sha (MessageAuthRecord_bytes_of r)) 0
         genesis (al4_records self)"

record MessageAuthenticator =
  ma_session_key :: bytes
  ma_peers :: "(u32, AuthLog) btmap"

definition MessageAuthenticator_new :: "bytes \<Rightarrow> MessageAuthenticator" where
  "MessageAuthenticator_new session_key =
     \<lparr>ma_session_key = session_key, ma_peers = bt_empty\<rparr>"

definition MessageAuthenticator_peer_count :: "MessageAuthenticator \<Rightarrow> nat" where
  "MessageAuthenticator_peer_count self =
     bt_len (ma_peers self)"

definition MessageAuthenticator_tag_message ::
  "sha \<Rightarrow> u32 \<Rightarrow> u64 \<Rightarrow> u64 \<Rightarrow> hash \<Rightarrow>
      MessageAuthenticator \<Rightarrow> bytes" where
  "MessageAuthenticator_tag_message sha peer_id epoch message_id payload_hash self =
     compute_auth_tag sha peer_id epoch (ma_session_key self) message_id payload_hash"

definition MessageAuthenticator_verify_message ::
  "sha \<Rightarrow> u32 \<Rightarrow> u64 \<Rightarrow> u64 \<Rightarrow> hash \<Rightarrow> bytes
      \<Rightarrow> MessageAuthenticator \<Rightarrow> bool \<times> MessageAuthenticator" where
  "MessageAuthenticator_verify_message sha peer_id epoch message_id payload_hash claimed_tag self =
     (let expected = compute_auth_tag sha peer_id epoch (ma_session_key self) message_id payload_hash;
          is_valid = claimed_tag = expected;
          log = bt_get_or (AuthLog_new peer_id) (ma_peers self) peer_id;
          log = AuthLog_append sha epoch message_id payload_hash claimed_tag is_valid log;
          self = self\<lparr>ma_peers := bt_insert peer_id log (ma_peers self)\<rparr>
      in (is_valid, self))"

definition MessageAuthenticator_total_forgeries :: "MessageAuthenticator \<Rightarrow> nat" where
  "MessageAuthenticator_total_forgeries self =
     sum_list (map AuthLog_forgery_count (bt_values (ma_peers self)))"

definition MessageAuthenticator_peer_forgery_count ::
  "u32 \<Rightarrow> MessageAuthenticator \<Rightarrow> nat" where
  "MessageAuthenticator_peer_forgery_count peer_id self =
     unwrap_or 0 (map_option AuthLog_forgery_count (bt_get (ma_peers self) peer_id))"

definition MessageAuthenticator_get_log ::
  "u32 \<Rightarrow> MessageAuthenticator \<Rightarrow> AuthLog option" where
  "MessageAuthenticator_get_log peer_id self =
     bt_get (ma_peers self) peer_id"

lemma message_authenticator_record_bytes_inj:
  "message_authenticator_record_bytes peer_id epoch message_id is_valid prev =
      message_authenticator_record_bytes peer_id' epoch' message_id' is_valid' prev'
      \<longleftrightarrow>
   prev = prev' \<and> peer_id = peer_id' \<and> epoch = epoch' \<and> message_id = message_id' \<and>
       is_valid = is_valid'"
  by (auto simp: message_authenticator_record_bytes_def enc_simps)

definition MessageAuthRecord_committed :: "MessageAuthRecord \<Rightarrow> u32 \<times> u64 \<times> u64
    \<times> bool" where
  "MessageAuthRecord_committed r =
     (mar_peer_id r, mar_epoch r, mar_message_id r, mar_is_valid r)"

interpretation message_authenticator: hash_log MessageAuthRecord_bytes_of mar_prev_hash mar_record_hash
    MessageAuthRecord_committed
  by unfold_locales (auto simp: MessageAuthRecord_bytes_of_def MessageAuthRecord_committed_def
      message_authenticator_record_bytes_inj)

lemma message_authenticator_verify_iff: "AuthLog_verify_chain sha l = (True,
    None) \<longleftrightarrow> message_authenticator.ok sha (al4_records l)"
  by (simp add: AuthLog_verify_chain_def verify_from_iff)

lemma build_auth_record_linked:
  "mar_prev_hash (build_auth_record sha peer_id epoch message_id payload_hash auth_tag is_valid
      prev_hash) = prev_hash"
  "mar_record_hash (build_auth_record sha peer_id epoch message_id payload_hash auth_tag is_valid
      prev_hash) = sha (MessageAuthRecord_bytes_of (build_auth_record sha peer_id epoch message_id
      payload_hash auth_tag is_valid prev_hash))"
  by (simp_all add: build_auth_record_def message_authenticator_compute_record_hash_def
      MessageAuthRecord_bytes_of_def Let_def split_def)

lemma auth_log_append_ok: "message_authenticator.ok sha (al4_records l) \<Longrightarrow>
    message_authenticator.ok sha (al4_records (AuthLog_append sha epoch message_id payload_hash auth_tag
    is_valid l))"
  by (simp add: Let_def split_def AuthLog_append_def AuthLog_last_hash_def build_auth_record_linked
      split: option.split sum.split)

section \<open>Gossip Priority Queue: deterministic outbound message scheduling (Gate 277)\<close>

text \<open>
  \<open>gossip_priority.rs\<close>. Orders pending outbound gossip messages by computed priority
  score. Priority is a pure integer function of message properties - no float.
\<close>

definition URGENT_THRESHOLD :: u32 where
  "URGENT_THRESHOLD = 1000"

definition HIGH_THRESHOLD :: u32 where
  "HIGH_THRESHOLD = 500"

definition NORMAL_THRESHOLD :: u32 where
  "NORMAL_THRESHOLD = 100"

datatype MessagePriority = Urgent | High | Normal | Low

fun MessagePriority_as_u8 :: "MessagePriority \<Rightarrow> u8" where
  "MessagePriority_as_u8 MessagePriority.Urgent = 0"
| "MessagePriority_as_u8 MessagePriority.High = 1"
| "MessagePriority_as_u8 MessagePriority.Normal = 2"
| "MessagePriority_as_u8 MessagePriority.Low = 3"

lemma MessagePriority_as_u8_inj [simp]: "MessagePriority_as_u8 x = MessagePriority_as_u8 y
    \<longleftrightarrow> x = y"
  by (cases x; cases y) auto

definition classify_priority :: "u32 \<Rightarrow> MessagePriority" where
  "classify_priority score =
     (if score \<ge> URGENT_THRESHOLD then MessagePriority.Urgent
      else if score \<ge> HIGH_THRESHOLD then MessagePriority.High
      else if score \<ge> NORMAL_THRESHOLD then MessagePriority.Normal
      else MessagePriority.Low)"

definition compute_score ::
  "u8 \<Rightarrow> u8 \<Rightarrow> u8 \<Rightarrow> u64 \<Rightarrow> u32" where
  "compute_score ttl_remaining urgency fanout elapsed_epochs =
     (let ttl = (ucast (min ttl_remaining 15) :: u32);
          urg = (ucast (min (max urgency 1) 10) :: u32);
          fan = (ucast (min (max fanout 1) 8) :: u32);
          elap = (ucast (min elapsed_epochs 1000) :: u32)
      in ((ttl * urg) * fan) div (elap + 1))"

record PendingMessage =
  pm3_message_id :: u64
  pm3_node_id :: u32
  pm3_sequence :: u64
  pm3_ttl_remaining :: u8
  pm3_urgency :: u8
  pm3_fanout :: u8
  pm3_enqueue_epoch :: u64
  pm3_score :: u32
  pm3_priority :: MessagePriority

definition PendingMessage_effective_score :: "u64 \<Rightarrow> PendingMessage \<Rightarrow> u32" where
  "PendingMessage_effective_score current_epoch self =
     (let elapsed = sat_sub current_epoch (pm3_enqueue_epoch self)
      in compute_score (pm3_ttl_remaining self) (pm3_urgency self) (pm3_fanout self) elapsed)"

definition PendingMessage_is_expired :: "u64 \<Rightarrow> PendingMessage \<Rightarrow> bool" where
  "PendingMessage_is_expired current_epoch self \<longleftrightarrow>
     (let elapsed = sat_sub current_epoch (pm3_enqueue_epoch self)
      in elapsed > (ucast (pm3_ttl_remaining self) :: u64))"

record GossipPriorityQueue =
  gpq_next_id :: u64
  gpq_inner :: "(int \<times> u64, PendingMessage) btmap"

definition GossipPriorityQueue_new :: "GossipPriorityQueue" where
  "GossipPriorityQueue_new =
     \<lparr>gpq_next_id = 0, gpq_inner = bt_empty\<rparr>"

definition GossipPriorityQueue_enqueue ::
  "u32 \<Rightarrow> u64 \<Rightarrow> u8 \<Rightarrow> u8 \<Rightarrow> u8 \<Rightarrow> u64
      \<Rightarrow> GossipPriorityQueue \<Rightarrow> u64 \<times> GossipPriorityQueue" where
  "GossipPriorityQueue_enqueue node_id sequence ttl_remaining urgency fanout current_epoch self =
     (let id_v = gpq_next_id self;
          self = self\<lparr>gpq_next_id := gpq_next_id self + 1\<rparr>;
          score = compute_score ttl_remaining urgency fanout 0;
          priority = classify_priority score;
          msg = \<lparr>pm3_message_id = id_v, pm3_node_id = node_id, pm3_sequence = sequence,
                 pm3_ttl_remaining = ttl_remaining, pm3_urgency = urgency, pm3_fanout = fanout,
                 pm3_enqueue_epoch = current_epoch, pm3_score = score, pm3_priority = priority\<rparr>;
          self = self\<lparr>gpq_inner := bt_insert (- uint score, id_v) msg (gpq_inner self)\<rparr>
      in (id_v, self))"

definition GossipPriorityQueue_dequeue_batch ::
  "u64 \<Rightarrow> nat \<Rightarrow> GossipPriorityQueue \<Rightarrow> PendingMessage list \<times>
      GossipPriorityQueue" where
  "GossipPriorityQueue_dequeue_batch current_epoch max_count self =
     (if max_count = 0 then ([], self)
      else
        (let scored = map (\<lambda>(k, msg). (PendingMessage_effective_score current_epoch msg,
          pm3_message_id msg, k))
               (entries (gpq_inner self));
             scored = sort_key (\<lambda>(score, id_v, _). (- uint score, id_v)) scored;
             take_v = min max_count (length scored)
         in fold (\<lambda>(_, _, key) (result, self).
              (case bt_get (gpq_inner self) key of
                 None \<Rightarrow> (result, self)
               | Some msg \<Rightarrow>
                   (let self = self\<lparr>gpq_inner := bt_remove key (gpq_inner self)\<rparr>;
                        eff_score = PendingMessage_effective_score current_epoch msg;
                        msg = msg\<lparr>pm3_score := eff_score,
                          pm3_priority := classify_priority eff_score\<rparr>
                    in (result @ [msg], self))))
              (take take_v scored) ([], self)))"

definition GossipPriorityQueue_peek_top ::
  "u64 \<Rightarrow> GossipPriorityQueue \<Rightarrow> PendingMessage option" where
  "GossipPriorityQueue_peek_top current_epoch self =
     max_by_key (\<lambda>msg. (PendingMessage_effective_score current_epoch msg,
         (- 1 :: u64) - (pm3_message_id msg))) (bt_values (gpq_inner self))"

definition GossipPriorityQueue_discard_expired ::
  "u64 \<Rightarrow> GossipPriorityQueue \<Rightarrow> nat \<times> GossipPriorityQueue" where
  "GossipPriorityQueue_discard_expired current_epoch self =
     (let before = bt_len (gpq_inner self);
          self = self\<lparr>gpq_inner := bt_retain (\<lambda>_ msg. \<not> (PendingMessage_is_expired
            current_epoch msg)) (gpq_inner self)\<rparr>
      in (before - (bt_len (gpq_inner self)), self))"

section \<open>Message Deduplication Cache: epoch-scoped gossip dedup (Gate 275)\<close>

text \<open>
  \<open>dedup_cache.rs\<close>.
\<close>

definition DEFAULT_MAX_EPOCH_LAG :: u64 where
  "DEFAULT_MAX_EPOCH_LAG = 3"

datatype DedupResult = New | Duplicate u64

definition DedupResult_is_new :: "DedupResult \<Rightarrow> bool" where
  "DedupResult_is_new self \<longleftrightarrow>
     self = DedupResult.New"

definition DedupResult_is_duplicate :: "DedupResult \<Rightarrow> bool" where
  "DedupResult_is_duplicate self \<longleftrightarrow>
     (case self of DedupResult.Duplicate _ \<Rightarrow> True | _ \<Rightarrow> False)"

record DedupCache =
  dc_current_epoch :: u64
  dc_max_epoch_lag :: u64
  dc_entries :: "(u32 \<times> u64, u64) btmap"
  dc_hit_count :: u64
  dc_insert_count :: u64

datatype DedupError_cache = EpochTooOld | EpochTooFuture

fun DedupError_cache_as_u8 :: "DedupError_cache \<Rightarrow> u8" where
  "DedupError_cache_as_u8 DedupError_cache.EpochTooOld = 0"
| "DedupError_cache_as_u8 DedupError_cache.EpochTooFuture = 1"

lemma DedupError_cache_as_u8_inj [simp]: "DedupError_cache_as_u8 x = DedupError_cache_as_u8 y
    \<longleftrightarrow> x = y"
  by (cases x; cases y) auto

definition DedupCache_new :: "u64 \<Rightarrow> u64 \<Rightarrow> DedupCache" where
  "DedupCache_new initial_epoch max_epoch_lag =
     \<lparr>dc_current_epoch = initial_epoch, dc_max_epoch_lag = max_epoch_lag, dc_entries = bt_empty,
         dc_hit_count = 0, dc_insert_count = 0\<rparr>"

definition DedupCache_entry_count :: "DedupCache \<Rightarrow> nat" where
  "DedupCache_entry_count self =
     bt_len (dc_entries self)"

definition DedupCache_hit_rate_pct :: "DedupCache \<Rightarrow> u8" where
  "DedupCache_hit_rate_pct self =
     (let total_v = (dc_hit_count self) + (dc_insert_count self)
      in if total_v = 0 then 0
      else (ucast (min (((dc_hit_count self) * 100) div total_v) 100) :: u8))"

definition DedupCache_check_and_insert ::
  "u32 \<Rightarrow> u64 \<Rightarrow> u64 \<Rightarrow> DedupCache \<Rightarrow> (DedupError_cache +
      DedupResult) \<times> DedupCache" where
  "DedupCache_check_and_insert node_id sequence epoch self =
     (if (epoch + (dc_max_epoch_lag self)) < (dc_current_epoch self) then (Inl
         DedupError_cache.EpochTooOld, self)
      else if epoch > ((dc_current_epoch self) + 1) then (Inl DedupError_cache.EpochTooFuture, self)
      else (let key = (node_id, sequence)
      in case bt_get (dc_entries self) key of Some seen_epoch \<Rightarrow> (let self =
          self\<lparr>dc_hit_count := (dc_hit_count self) + 1\<rparr>
      in (Inr (DedupResult.Duplicate seen_epoch), self)) | _ \<Rightarrow> (let self =
          self\<lparr>dc_entries := bt_insert key epoch (dc_entries self)\<rparr>;
          self = self\<lparr>dc_insert_count := (dc_insert_count self) + 1\<rparr>
      in (Inr DedupResult.New, self))))"

definition DedupCache_evict_stale :: "DedupCache \<Rightarrow> DedupCache" where
  "DedupCache_evict_stale self =
     (if (dc_current_epoch self) < (dc_max_epoch_lag self) then self
      else (let threshold = (dc_current_epoch self) - (dc_max_epoch_lag self);
          self = self\<lparr>dc_entries := bt_retain (\<lambda>_ seen_epoch. seen_epoch \<ge> threshold)
            (dc_entries self)\<rparr>
      in self))"

definition DedupCache_advance_epoch :: "u64 \<Rightarrow> DedupCache \<Rightarrow> DedupCache" where
  "DedupCache_advance_epoch new_epoch self =
     (if new_epoch \<le> (dc_current_epoch self) then self
      else (let self = self\<lparr>dc_current_epoch := new_epoch\<rparr>;
          self = DedupCache_evict_stale self
      in self))"

section \<open>Gossip TTL Enforcer: per-message TTL tracking and hop-count enforcement (Gate 286)\<close>

text \<open>
  \<open>ttl_enforcer.rs\<close>. Tracks message TTL (time-to-live) hop counts. Each time a gossip
  message is forwarded, its TTL is decremented. If TTL reaches 0, the message must be dropped. Detects
  TTL inflation: a forwarded message claiming a TTL higher than its origin record.
\<close>

definition MAX_INITIAL_TTL :: u8 where
  "MAX_INITIAL_TTL = 15"

datatype TtlDropReason = Expired | Inflated | TooHigh

fun TtlDropReason_as_u8 :: "TtlDropReason \<Rightarrow> u8" where
  "TtlDropReason_as_u8 TtlDropReason.Expired = 0"
| "TtlDropReason_as_u8 TtlDropReason.Inflated = 1"
| "TtlDropReason_as_u8 TtlDropReason.TooHigh = 2"

lemma TtlDropReason_as_u8_inj [simp]: "TtlDropReason_as_u8 x = TtlDropReason_as_u8 y
    \<longleftrightarrow> x = y"
  by (cases x; cases y) auto

datatype TtlDecision = Forward u8 | Drop TtlDropReason

definition TtlDecision_decision_byte :: "TtlDecision \<Rightarrow> u8" where
  "TtlDecision_decision_byte self =
     (case self of
         TtlDecision.Forward _ \<Rightarrow> 0
       | TtlDecision.Drop TtlDropReason.Expired \<Rightarrow> 1
       | TtlDecision.Drop TtlDropReason.Inflated \<Rightarrow> 2
       | TtlDecision.Drop TtlDropReason.TooHigh \<Rightarrow> 3)"

definition TtlDecision_is_forward :: "TtlDecision \<Rightarrow> bool" where
  "TtlDecision_is_forward self \<longleftrightarrow>
     (case self of TtlDecision.Forward _ \<Rightarrow> True | _ \<Rightarrow> False)"

definition TtlDecision_is_drop :: "TtlDecision \<Rightarrow> bool" where
  "TtlDecision_is_drop self \<longleftrightarrow>
     (case self of TtlDecision.Drop _ \<Rightarrow> True | _ \<Rightarrow> False)"

record MessageTtlRecord =
  mtr_message_id :: u64
  mtr_origin_ttl :: u8
  mtr_current_ttl :: u8
  mtr_hop_count :: u8
  mtr_decision :: TtlDecision
  mtr_record_hash :: hash
  mtr_prev_hash :: hash

definition ttl_bytes ::
  "u64 \<Rightarrow> u8 \<Rightarrow> u8 \<Rightarrow> u8 \<Rightarrow> TtlDecision \<Rightarrow> hash
      \<Rightarrow> bytes" where
  "ttl_bytes message_id origin_ttl current_ttl hop_count decision prev =
     hash_bytes prev @ be8 message_id @ [origin_ttl] @ [current_ttl] @ [hop_count] @
         [TtlDecision_decision_byte decision]"

definition compute_ttl_hash ::
  "sha \<Rightarrow> u64 \<Rightarrow> u8 \<Rightarrow> u8 \<Rightarrow> u8 \<Rightarrow> TtlDecision
      \<Rightarrow> hash \<Rightarrow> hash" where
  "compute_ttl_hash sha message_id origin_ttl current_ttl hop_count decision prev =
     sha (ttl_bytes message_id origin_ttl current_ttl hop_count decision prev)"

record MessageState =
  ms2_origin_ttl :: u8
  ms2_current_ttl :: u8
  ms2_hop_count :: u8
  ms2_last_hash :: hash
  ms2_drop_reason :: "TtlDropReason option"

record TtlEnforcer =
  te2_messages :: "(u64, MessageState) btmap"
  te2_expired_count :: u64
  te2_inflated_count :: u64
  te2_forwarded_count :: u64

datatype TtlError = AlreadyRegistered | TtlTooHigh | MessageNotFound | MessageAlreadyDropped

fun TtlError_as_u8 :: "TtlError \<Rightarrow> u8" where
  "TtlError_as_u8 TtlError.AlreadyRegistered = 0"
| "TtlError_as_u8 TtlError.TtlTooHigh = 1"
| "TtlError_as_u8 TtlError.MessageNotFound = 2"
| "TtlError_as_u8 TtlError.MessageAlreadyDropped = 3"

lemma TtlError_as_u8_inj [simp]: "TtlError_as_u8 x = TtlError_as_u8 y \<longleftrightarrow> x = y"
  by (cases x; cases y) auto

definition TtlEnforcer_new :: "TtlEnforcer" where
  "TtlEnforcer_new =
     \<lparr>te2_messages = bt_empty, te2_expired_count = 0, te2_inflated_count = 0,
         te2_forwarded_count = 0\<rparr>"

definition TtlEnforcer_message_count :: "TtlEnforcer \<Rightarrow> nat" where
  "TtlEnforcer_message_count self =
     bt_len (te2_messages self)"

definition TtlEnforcer_register_origin ::
  "sha \<Rightarrow> u64 \<Rightarrow> u8 \<Rightarrow> TtlEnforcer \<Rightarrow> (TtlError +
      MessageTtlRecord) \<times> TtlEnforcer" where
  "TtlEnforcer_register_origin sha message_id origin_ttl self =
     (if bt_has (te2_messages self) message_id then (Inl TtlError.AlreadyRegistered, self)
      else if origin_ttl > MAX_INITIAL_TTL then (Inl TtlError.TtlTooHigh, self)
      else (let decision = TtlDecision.Forward origin_ttl;
          record_hash = compute_ttl_hash sha message_id origin_ttl origin_ttl 0 decision genesis;
          state = \<lparr>ms2_origin_ttl = origin_ttl, ms2_current_ttl = origin_ttl, ms2_hop_count = 0,
            ms2_last_hash = record_hash, ms2_drop_reason = None\<rparr>;
          self = self\<lparr>te2_messages := bt_insert message_id state (te2_messages self)\<rparr>
      in (Inr (\<lparr>mtr_message_id = message_id, mtr_origin_ttl = origin_ttl,
          mtr_current_ttl = origin_ttl, mtr_hop_count = 0, mtr_decision = decision,
          mtr_record_hash = record_hash, mtr_prev_hash = genesis\<rparr>), self)))"

definition TtlEnforcer_forward ::
  "sha \<Rightarrow> u64 \<Rightarrow> u8 \<Rightarrow> TtlEnforcer \<Rightarrow> (TtlError +
      (MessageTtlRecord \<times> TtlDecision)) \<times> TtlEnforcer" where
  "TtlEnforcer_forward sha message_id claimed_ttl self =
     (case bt_get (te2_messages self) message_id of
        None \<Rightarrow> (Inl TtlError.MessageNotFound, self)
      | Some state \<Rightarrow>
          (if ms2_drop_reason state \<noteq> None then (Inl TtlError.MessageAlreadyDropped, self)
           else
             (let prev_hash = ms2_last_hash state;
                  expected_ttl = sat_sub (ms2_current_ttl state) 1;
                  (decision, state, self) =
                    (if expected_ttl < claimed_ttl then
                       (TtlDecision.Drop TtlDropReason.Inflated,
                         state\<lparr>ms2_drop_reason := Some TtlDropReason.Inflated\<rparr>,
                        self\<lparr>te2_inflated_count := te2_inflated_count self + 1\<rparr>)
                     else if expected_ttl = 0 then
                       (TtlDecision.Drop TtlDropReason.Expired,
                         state\<lparr>ms2_drop_reason := Some TtlDropReason.Expired\<rparr>,
                        self\<lparr>te2_expired_count := te2_expired_count self + 1\<rparr>)
                     else
                       (TtlDecision.Forward expected_ttl,
                        state\<lparr>ms2_current_ttl := expected_ttl,
                          ms2_hop_count := sat_add (ms2_hop_count state) 1\<rparr>,
                        self\<lparr>te2_forwarded_count := te2_forwarded_count self + 1\<rparr>));
                  record_hash = compute_ttl_hash sha message_id (ms2_origin_ttl state) (ms2_current_ttl
                    state)
                    (ms2_hop_count state) decision prev_hash;
                  state = state\<lparr>ms2_last_hash := record_hash\<rparr>;
                  rec = \<lparr>mtr_message_id = message_id, mtr_origin_ttl = ms2_origin_ttl state,
                    mtr_current_ttl = ms2_current_ttl state, mtr_hop_count = ms2_hop_count state,
                    mtr_decision = decision, mtr_record_hash = record_hash,
                      mtr_prev_hash = prev_hash\<rparr>
              in (Inr (rec, decision), self\<lparr>te2_messages := bt_insert message_id state
                (te2_messages self)\<rparr>))))"

definition TtlEnforcer_active_messages :: "TtlEnforcer \<Rightarrow> u64 list" where
  "TtlEnforcer_active_messages self =
     map (\<lambda>(id_v, _). id_v) (filter (\<lambda>(_, s). (ms2_drop_reason s) = None \<and>
         (ms2_current_ttl s) > 0) (entries (te2_messages self)))"

text \<open>The calls of an enforcer in the order they are made, and what they amount to for one message.\<close>

datatype TtlOp = RegisterOrigin u64 u8 | ForwardHop u64 u8

fun ttl_step :: "sha \<Rightarrow> TtlOp \<Rightarrow> TtlEnforcer \<Rightarrow> TtlEnforcer" where
  "ttl_step sha (RegisterOrigin message_id ttl) e = snd (TtlEnforcer_register_origin sha message_id ttl e)"
| "ttl_step sha (ForwardHop message_id ttl) e = snd (TtlEnforcer_forward sha message_id ttl e)"

fun forwarded :: "TtlError + MessageTtlRecord \<times> TtlDecision \<Rightarrow> bool" where
  "forwarded (Inr (_, TtlDecision.Forward _)) \<longleftrightarrow> True"
| "forwarded _ \<longleftrightarrow> False"

fun forwards :: "sha \<Rightarrow> u64 \<Rightarrow> TtlOp list \<Rightarrow> TtlEnforcer \<Rightarrow> nat" where
  "forwards sha i [] e = 0"
| "forwards sha i (op # ops) e =
     (case op of
        RegisterOrigin j ttl \<Rightarrow> 0
      | ForwardHop j ttl \<Rightarrow> of_bool (j = i \<and> forwarded (fst (TtlEnforcer_forward sha j ttl e)))) +
     forwards sha i ops (ttl_step sha op e)"

definition hops :: "u64 \<Rightarrow> TtlEnforcer \<Rightarrow> nat" where
  "hops i e = (case bt_get (te2_messages e) i of None \<Rightarrow> 0 | Some s \<Rightarrow> unat (ms2_hop_count s))"

definition travel_ok :: "MessageState \<Rightarrow> bool" where
  "travel_ok s \<longleftrightarrow>
     unat (ms2_hop_count s) + unat (ms2_current_ttl s) = unat (ms2_origin_ttl s) \<and>
     unat (ms2_origin_ttl s) \<le> 15 \<and> (unat (ms2_origin_ttl s) = 0 \<or> 0 < unat (ms2_current_ttl s))"

definition ttl_inv :: "TtlEnforcer \<Rightarrow> bool" where
  "ttl_inv e \<longleftrightarrow>
     (\<forall>i s. bt_get (te2_messages e) i = Some s \<longrightarrow> travel_ok s) \<and>
     te2_forwarded_count e = of_nat (bt_sum (\<lambda>_ s. unat (ms2_hop_count s)) (te2_messages e)) \<and>
     te2_expired_count e =
       of_nat (bt_sum (\<lambda>_ s. of_bool (ms2_drop_reason s = Some TtlDropReason.Expired)) (te2_messages e)) \<and>
     te2_inflated_count e =
       of_nat (bt_sum (\<lambda>_ s. of_bool (ms2_drop_reason s = Some TtlDropReason.Inflated)) (te2_messages e))"

lemma ttl_inv_new: "ttl_inv TtlEnforcer_new"
  by (simp add: ttl_inv_def TtlEnforcer_new_def)

lemma forward_refused:
  "bt_get (te2_messages e) i = None \<Longrightarrow> TtlEnforcer_forward sha i c e = (Inl TtlError.MessageNotFound, e)"
  "bt_get (te2_messages e) i = Some s \<Longrightarrow> ms2_drop_reason s \<noteq> None \<Longrightarrow>
     TtlEnforcer_forward sha i c e = (Inl TtlError.MessageAlreadyDropped, e)"
  by (simp_all add: TtlEnforcer_forward_def)

lemma forward_live:
  assumes "bt_get (te2_messages e) i = Some s" "ms2_drop_reason s = None"
  obtains
    (inflated) r h where "TtlEnforcer_forward sha i c e = (Inr (r, TtlDecision.Drop TtlDropReason.Inflated),
        e\<lparr>te2_inflated_count := te2_inflated_count e + 1,
          te2_messages := bt_insert i (s\<lparr>ms2_drop_reason := Some TtlDropReason.Inflated, ms2_last_hash := h\<rparr>) (te2_messages e)\<rparr>)"
  | (expired) r h where "TtlEnforcer_forward sha i c e = (Inr (r, TtlDecision.Drop TtlDropReason.Expired),
        e\<lparr>te2_expired_count := te2_expired_count e + 1,
          te2_messages := bt_insert i (s\<lparr>ms2_drop_reason := Some TtlDropReason.Expired, ms2_last_hash := h\<rparr>) (te2_messages e)\<rparr>)"
  | (onward) r h d where "TtlEnforcer_forward sha i c e = (Inr (r, TtlDecision.Forward d),
        e\<lparr>te2_forwarded_count := te2_forwarded_count e + 1,
          te2_messages := bt_insert i (s\<lparr>ms2_current_ttl := d, ms2_hop_count := sat_add (ms2_hop_count s) 1,
            ms2_last_hash := h\<rparr>) (te2_messages e)\<rparr>)"
      "d = sat_sub (ms2_current_ttl s) 1" "d \<noteq> 0"
proof -
  consider "sat_sub (ms2_current_ttl s) 1 < c"
    | "\<not> sat_sub (ms2_current_ttl s) 1 < c" "sat_sub (ms2_current_ttl s) 1 = 0"
    | "\<not> sat_sub (ms2_current_ttl s) 1 < c" "sat_sub (ms2_current_ttl s) 1 \<noteq> 0" by blast
  then show thesis
  proof cases
    case 1
    show thesis by (rule inflated, insert assms 1, simp add: TtlEnforcer_forward_def Let_def)
  next
    case 2
    show thesis by (rule expired, insert assms 2, simp add: TtlEnforcer_forward_def Let_def)
  next
    case 3
    show thesis by (rule onward [OF _ refl 3(2)], insert assms 3, simp add: TtlEnforcer_forward_def Let_def)
  qed
qed

lemma travel_onward:
  assumes "travel_ok s" "d = sat_sub (ms2_current_ttl s) 1" "d \<noteq> 0"
  shows "travel_ok (s\<lparr>ms2_current_ttl := d, ms2_hop_count := sat_add (ms2_hop_count s) 1, ms2_last_hash := h\<rparr>)"
    and "unat (sat_add (ms2_hop_count s) 1) = unat (ms2_hop_count s) + 1"
proof -
  have d: "unat d = unat (ms2_current_ttl s) - 1" using assms(2) by (simp add: sat_simps)
  moreover have "unat d \<noteq> 0" using assms(3) by (simp add: unat_eq_zero)
  moreover have "unat (ms2_hop_count s) + unat (ms2_current_ttl s) \<le> 15"
    using assms(1) by (simp add: travel_ok_def)
  ultimately show h: "unat (sat_add (ms2_hop_count s) 1) = unat (ms2_hop_count s) + 1"
    by (simp add: sat_simps)
  show "travel_ok (s\<lparr>ms2_current_ttl := d, ms2_hop_count := sat_add (ms2_hop_count s) 1, ms2_last_hash := h\<rparr>)"
    using assms(1,3) d \<open>unat d \<noteq> 0\<close> h by (auto simp: travel_ok_def)
qed

text \<open>What one insertion does to the three sums.\<close>

lemma ttl_inv_insert:
  assumes "ttl_inv e" "bt_get (te2_messages e) i = Some s" "travel_ok s'"
    "unat (ms2_hop_count s') = unat (ms2_hop_count s) + f"
    "of_bool (ms2_drop_reason s' = Some TtlDropReason.Expired) =
       (of_bool (ms2_drop_reason s = Some TtlDropReason.Expired) + x :: nat)"
    "of_bool (ms2_drop_reason s' = Some TtlDropReason.Inflated) =
       (of_bool (ms2_drop_reason s = Some TtlDropReason.Inflated) + n :: nat)"
    "te2_messages e' = bt_insert i s' (te2_messages e)"
    "te2_forwarded_count e' = te2_forwarded_count e + of_nat f"
    "te2_expired_count e' = te2_expired_count e + of_nat x"
    "te2_inflated_count e' = te2_inflated_count e + of_nat n"
  shows "ttl_inv e'"
proof -
  have "bt_sum g (bt_insert i s' (te2_messages e)) = bt_sum g (te2_messages e) + y"
    if "g i s' = g i s + y" for g y
    using bt_sum_insert [of g i s' "te2_messages e"] assms(2) that by simp
  note sums = this [of "\<lambda>_ s. unat (ms2_hop_count s)", OF assms(4)]
    this [of "\<lambda>_ s. of_bool (ms2_drop_reason s = Some TtlDropReason.Expired)", OF assms(5)]
    this [of "\<lambda>_ s. of_bool (ms2_drop_reason s = Some TtlDropReason.Inflated)", OF assms(6)]
  show ?thesis using assms(1,3,7-10) by (simp add: ttl_inv_def sums)
qed

lemma ttl_inv_forward: "ttl_inv e \<Longrightarrow> ttl_inv (snd (TtlEnforcer_forward sha i c e))"
proof -
  assume inv: "ttl_inv e"
  show ?thesis
  proof (cases "bt_get (te2_messages e) i")
    case None
    then show ?thesis using inv by (simp add: forward_refused)
  next
    case s: (Some s)
    then have ok: "travel_ok s" using inv by (simp add: ttl_inv_def)
    show ?thesis
    proof (cases "ms2_drop_reason s")
      case None
      with s show ?thesis
      proof (cases rule: forward_live [where c = c and sha = sha])
        case (inflated r h)
        have "travel_ok (s\<lparr>ms2_drop_reason := Some TtlDropReason.Inflated, ms2_last_hash := h\<rparr>)"
          using ok by (simp add: travel_ok_def)
        then show ?thesis using None inflated by (intro ttl_inv_insert [OF inv s, where f = 0 and x = 0 and n = 1]) auto
      next
        case (expired r h)
        have "travel_ok (s\<lparr>ms2_drop_reason := Some TtlDropReason.Expired, ms2_last_hash := h\<rparr>)"
          using ok by (simp add: travel_ok_def)
        then show ?thesis using None expired by (intro ttl_inv_insert [OF inv s, where f = 0 and x = 1 and n = 0]) auto
      next
        case (onward r h d)
        note t = travel_onward [OF ok onward(2,3)]
        show ?thesis using t(2) None onward(1) by (intro ttl_inv_insert [OF inv s t(1), where f = 1 and x = 0 and n = 0]) auto
      qed
    qed (use s inv in \<open>simp add: forward_refused\<close>)
  qed
qed

lemma ttl_inv_register: "ttl_inv e \<Longrightarrow> ttl_inv (snd (TtlEnforcer_register_origin sha i ttl e))"
proof -
  assume inv: "ttl_inv e"
  show ?thesis
  proof (cases "bt_has (te2_messages e) i \<or> MAX_INITIAL_TTL < ttl")
    case False
    then have none: "bt_get (te2_messages e) i = None" and "\<not> 15 < ttl"
      by (auto simp: bt_has_def MAX_INITIAL_TTL_def)
    then have "unat ttl \<le> 15" by (simp add: word_less_nat_alt not_less)
    then show ?thesis using inv none False
        bt_sum_insert [of "\<lambda>_ s. unat (ms2_hop_count s)" i _ "te2_messages e"]
        bt_sum_insert [of "\<lambda>_ s. of_bool (ms2_drop_reason s = Some TtlDropReason.Expired)" i _ "te2_messages e"]
        bt_sum_insert [of "\<lambda>_ s. of_bool (ms2_drop_reason s = Some TtlDropReason.Inflated)" i _ "te2_messages e"]
      by (auto simp: ttl_inv_def TtlEnforcer_register_origin_def Let_def travel_ok_def word_gt_0)
  qed (use inv in \<open>auto simp: TtlEnforcer_register_origin_def\<close>)
qed

lemma ttl_inv_step: "ttl_inv e \<Longrightarrow> ttl_inv (ttl_step sha op e)"
  by (cases op) (simp_all add: ttl_inv_forward ttl_inv_register)

lemma ttl_inv_run: "ttl_inv e \<Longrightarrow> ttl_inv (fold (ttl_step sha) ops e)"
  by (induction ops arbitrary: e) (simp_all add: ttl_inv_step)

lemma hops_register: "hops j (snd (TtlEnforcer_register_origin sha i ttl e)) = hops j e"
  by (auto simp: TtlEnforcer_register_origin_def Let_def hops_def bt_has_def split: option.split)

lemma hops_forward:
  assumes "ttl_inv e"
  shows "hops j (snd (TtlEnforcer_forward sha i c e)) =
    hops j e + of_bool (i = j \<and> forwarded (fst (TtlEnforcer_forward sha i c e)))"
proof (cases "bt_get (te2_messages e) i")
  case None
  then show ?thesis by (simp add: forward_refused)
next
  case s: (Some s)
  then have ok: "travel_ok s" using assms by (simp add: ttl_inv_def)
  show ?thesis
  proof (cases "ms2_drop_reason s")
    case None
    with s show ?thesis
    proof (cases rule: forward_live [where c = c and sha = sha])
      case (onward r h d)
      then show ?thesis using s travel_onward(2) [OF ok onward(2,3)] by (simp add: hops_def)
    qed (simp_all add: hops_def s)
  qed (use s in \<open>simp add: forward_refused\<close>)
qed

lemma forwards_hops:
  "ttl_inv e \<Longrightarrow> forwards sha i ops e + hops i e = hops i (fold (ttl_step sha) ops e)"
proof (induction ops arbitrary: e)
  case (Cons op ops)
  then show ?case using Cons.IH [OF ttl_inv_step [OF Cons.prems, of sha op]]
    by (cases op) (simp_all add: hops_register hops_forward)
qed simp

text \<open>C34. However the calls of an enforcer are mixed, a message is forwarded at most 14 times over its whole life,
exactly as often as its state says; its hops and the lifetime it has left add up to the one it was registered
with, which is at most 15; and the three counters of the enforcer are, modulo \<open>2^64\<close>, the hops of all
messages and the numbers of messages that were dropped as expired and as inflated.\<close>

theorem ttl_bounds_travel:
  "(let e = fold (ttl_step sha) ops TtlEnforcer_new
    in forwards sha i ops TtlEnforcer_new = hops i e \<and> hops i e \<le> 14 \<and>
       list_all (\<lambda>(_, s). travel_ok s) (entries (te2_messages e)) \<and>
       te2_forwarded_count e = of_nat (bt_sum (\<lambda>_ s. unat (ms2_hop_count s)) (te2_messages e)) \<and>
       te2_expired_count e =
         of_nat (bt_sum (\<lambda>_ s. of_bool (ms2_drop_reason s = Some TtlDropReason.Expired)) (te2_messages e)) \<and>
       te2_inflated_count e =
         of_nat (bt_sum (\<lambda>_ s. of_bool (ms2_drop_reason s = Some TtlDropReason.Inflated)) (te2_messages e)))"
proof -
  define e where "e = fold (ttl_step sha) ops TtlEnforcer_new"
  have inv: "ttl_inv e" unfolding e_def by (rule ttl_inv_run [OF ttl_inv_new])
  have "forwards sha i ops TtlEnforcer_new = hops i e"
    using forwards_hops [OF ttl_inv_new, of sha i ops] by (simp add: e_def hops_def TtlEnforcer_new_def)
  moreover have "hops i e \<le> 14"
  proof (cases "bt_get (te2_messages e) i")
    case (Some s)
    then have "travel_ok s" using inv by (simp add: ttl_inv_def)
    then show ?thesis using Some by (auto simp: hops_def travel_ok_def)
  qed (simp add: hops_def)
  moreover have "list_all (\<lambda>(_, s). travel_ok s) (entries (te2_messages e))"
    using inv by (auto simp: ttl_inv_def list_all_iff in_entries_iff)
  ultimately show ?thesis using inv unfolding e_def [symmetric] Let_def ttl_inv_def by blast
qed

end
