(* ===== verification/Peer_Selection.thy ===== *)
theory Peer_Selection
  imports Epoch_Log "HOL-Library.Product_Lexorder"
begin

text \<open>
  Which peers a node gossips with, and when: the classification of the mesh by the reachability of its
  nodes, the selection of the best peers, the Fibonacci schedule of the rounds, the fanout that
  follows the rate of delivery, and the boundary of an epoch by the votes of the peers.
\<close>

section \<open>Mesh Partition Detector: network partition detection from probe evidence (Gate 283)\<close>

text \<open>
  \<open>partition_detector.rs\<close>. Analyzes gossip probe reachability data to classify the mesh
  topology into partition states. Uses integer-only arithmetic. BTreeMap for deterministic iteration.
\<close>

datatype PartitionClass = Unified | Asymmetric | Clustered | Isolated u32 | Unknown

definition PartitionClass_class_byte :: "PartitionClass \<Rightarrow> u8" where
  "PartitionClass_class_byte self =
     (case self of
         PartitionClass.Unified \<Rightarrow> 0
       | PartitionClass.Asymmetric \<Rightarrow> 1
       | PartitionClass.Clustered \<Rightarrow> 2
       | PartitionClass.Isolated _ \<Rightarrow> 3
       | PartitionClass.Unknown \<Rightarrow> 4)"

definition PartitionClass_is_healthy :: "PartitionClass \<Rightarrow> bool" where
  "PartitionClass_is_healthy self \<longleftrightarrow>
     self = PartitionClass.Unified"

definition asymmetric_pair :: "u32 list \<Rightarrow> (u32 \<Rightarrow> u32 \<Rightarrow> bool)
    \<Rightarrow> bool" where
  "asymmetric_pair nodes reachability_fn \<longleftrightarrow>
     list_ex (\<lambda>a. list_ex (\<lambda>b. a \<noteq> b \<and> reachability_fn a b \<and> \<not>
         reachability_fn b a) nodes) nodes"

definition visit_neighbors ::
  "u32 list \<Rightarrow> (u32 \<Rightarrow> u32 \<Rightarrow> bool) \<Rightarrow> u32 \<Rightarrow>
      (u32, unit) btmap \<times> u32 list \<Rightarrow> (u32, unit) btmap \<times> u32 list" where
  "visit_neighbors nodes reachability_fn node =
     fold (\<lambda>neighbor (visited, queue).
       if \<not> bt_has visited neighbor \<and> reachability_fn node neighbor
       then (bt_insert neighbor () visited, queue @ [neighbor]) else (visited, queue)) nodes"

fun visit_loop ::
  "nat \<Rightarrow> u32 list \<Rightarrow> (u32 \<Rightarrow> u32 \<Rightarrow> bool) \<Rightarrow>
      (u32, unit) btmap \<times> u32 list \<Rightarrow> (u32, unit) btmap option" where
  "visit_loop 0 nodes reachability_fn (visited, queue) = None"
| "visit_loop (Suc fuel) nodes reachability_fn (visited, queue) =
     (if queue = [] then Some visited
      else visit_loop fuel nodes reachability_fn (visit_neighbors nodes reachability_fn (last queue)
          (visited, butlast queue)))"

fun component_loop ::
  "nat \<Rightarrow> u32 list \<Rightarrow> (u32 \<Rightarrow> u32 \<Rightarrow> bool) \<Rightarrow> u32
      list \<Rightarrow> (u32, unit) btmap \<times> nat \<Rightarrow> PartitionClass option" where
  "component_loop fuel nodes reachability_fn [] (visited, component_count) = Some
      PartitionClass.Unified"
| "component_loop fuel nodes reachability_fn (start # starts) (visited, component_count) =
     (if bt_has visited start then component_loop fuel nodes reachability_fn starts (visited,
         component_count)
      else
        (let component_count = component_count + 1
         in if component_count > 1 then Some PartitionClass.Clustered
            else case visit_loop fuel nodes reachability_fn (bt_insert start () visited, [start]) of
                None \<Rightarrow> None
              | Some visited \<Rightarrow> component_loop fuel nodes reachability_fn starts (visited,
                component_count)))"

definition detect_partition :: "(u32, unit) btmap \<Rightarrow> (u32 \<Rightarrow> u32 \<Rightarrow>
    bool) \<Rightarrow> PartitionClass option" where
  "detect_partition node_ids reachability_fn =
     (if bt_len node_ids < 2 then Some PartitionClass.Unknown
      else
        (let nodes = bt_keys node_ids
         in case find (\<lambda>a. \<not> list_ex (\<lambda>b. b \<noteq> a \<and> reachability_fn a b)
           nodes) nodes of
              Some a \<Rightarrow> Some (PartitionClass.Isolated a)
            | None \<Rightarrow>
                if asymmetric_pair nodes reachability_fn then Some PartitionClass.Asymmetric
                else component_loop (length nodes + 1) nodes reachability_fn nodes (bt_empty, 0)))"

definition count_reachable_pairs :: "(u32, unit) btmap \<Rightarrow> (u32 \<Rightarrow> u32
    \<Rightarrow> bool) \<Rightarrow> u32 \<times> u32" where
  "count_reachable_pairs node_ids reachability_fn =
     (let nodes = bt_keys node_ids;
          n = (of_nat (length nodes) :: u32)
      in if n < 2 then (0, 0)
         else
           (let total = n * (n - 1);
                reachable = fold (\<lambda>a reachable. fold (\<lambda>b reachable.
                    if a \<noteq> b \<and> reachability_fn a b then reachable + 1 else reachable) nodes
                      reachable) nodes (0 :: u32)
            in (reachable, total)))"

record PartitionReport =
  pr5_epoch :: u64
  pr5_class :: PartitionClass
  pr5_reachable_pairs :: u32
  pr5_total_pairs :: u32
  pr5_reachability_pct :: u8
  pr5_report_hash :: hash
  pr5_prev_hash :: hash

definition partition_detector_report_bytes ::
  "u64 \<Rightarrow> PartitionClass \<Rightarrow> u32 \<Rightarrow> u32 \<Rightarrow> hash \<Rightarrow>
      bytes" where
  "partition_detector_report_bytes epoch class_v reachable_pairs total_pairs prev =
     hash_bytes prev @ be8 epoch @ [PartitionClass_class_byte class_v] @ be4 reachable_pairs @
         be4 total_pairs"

definition partition_detector_compute_report_hash ::
  "sha \<Rightarrow> u64 \<Rightarrow> PartitionClass \<Rightarrow> u32 \<Rightarrow> u32 \<Rightarrow>
      hash \<Rightarrow> hash" where
  "partition_detector_compute_report_hash sha epoch class_v reachable_pairs total_pairs prev =
     sha (partition_detector_report_bytes epoch class_v reachable_pairs total_pairs prev)"

definition build_partition_report ::
  "sha \<Rightarrow> u64 \<Rightarrow> PartitionClass \<Rightarrow> u32 \<Rightarrow> u32 \<Rightarrow>
      hash \<Rightarrow> PartitionReport" where
  "build_partition_report sha epoch class_v reachable_pairs total_pairs prev_hash =
     (let reachability_pct = (if total_pairs = 0 then 0 else (ucast (min (((ucast reachable_pairs ::
         u64) * 100) div (ucast total_pairs :: u64)) 100) :: u8));
          report_hash = partition_detector_compute_report_hash sha epoch class_v reachable_pairs
            total_pairs prev_hash
      in \<lparr>pr5_epoch = epoch, pr5_class = class_v, pr5_reachable_pairs = reachable_pairs,
          pr5_total_pairs = total_pairs, pr5_reachability_pct = reachability_pct,
          pr5_report_hash = report_hash, pr5_prev_hash = prev_hash\<rparr>)"

record PartitionLog =
  pl2_records :: "PartitionReport list"

datatype PartitionError = StaleEpoch

fun PartitionError_as_u8 :: "PartitionError \<Rightarrow> u8" where
  "PartitionError_as_u8 PartitionError.StaleEpoch = 0"

lemma PartitionError_as_u8_inj [simp]: "PartitionError_as_u8 x = PartitionError_as_u8 y
    \<longleftrightarrow> x = y"
  by (cases x; cases y) auto

definition PartitionLog_new :: "PartitionLog" where
  "PartitionLog_new =
     \<lparr>pl2_records = []\<rparr>"

definition PartitionLog_last_hash :: "PartitionLog \<Rightarrow> hash" where
  "PartitionLog_last_hash self =
     last_hash pr5_report_hash (pl2_records self)"

definition PartitionLog_record ::
  "sha \<Rightarrow> u64 \<Rightarrow> PartitionClass \<Rightarrow> u32 \<Rightarrow> u32 \<Rightarrow>
      PartitionLog \<Rightarrow> (PartitionError + PartitionReport) \<times> PartitionLog" where
  "PartitionLog_record sha epoch class_v reachable_pairs total_pairs self =
     (if pl2_records self \<noteq> [] \<and> epoch \<le> (pr5_epoch (last (pl2_records self))) then (Inl
         PartitionError.StaleEpoch, self)
      else (let prev = PartitionLog_last_hash self;
          r = build_partition_report sha epoch class_v reachable_pairs total_pairs prev;
          self = self\<lparr>pl2_records := (pl2_records self) @ [r]\<rparr>
      in (Inr (last (pl2_records self)), self)))"

definition PartitionLog_unified_count :: "PartitionLog \<Rightarrow> nat" where
  "PartitionLog_unified_count self =
     length (filter (\<lambda>r. (pr5_class r) = PartitionClass.Unified) (pl2_records self))"

definition PartitionLog_partition_count :: "PartitionLog \<Rightarrow> nat" where
  "PartitionLog_partition_count self =
     length (filter (\<lambda>r. (pr5_class r) \<noteq> PartitionClass.Unified) (pl2_records self))"

definition PartitionLog_longest_non_unified_run :: "PartitionLog \<Rightarrow> nat" where
  "PartitionLog_longest_non_unified_run self =
     (let max_run = 0;
          run_v = 0;
          (run_v, max_run) = fold (\<lambda>r (run_v, max_run). (let (run_v,
            max_run) = (if (pr5_class r) \<noteq> PartitionClass.Unified then (let run_v = run_v + 1
      in if run_v > max_run then (let max_run = run_v
      in (run_v, max_run))
      else (run_v, max_run))
      else (let run_v = 0
      in (run_v, max_run)))
      in (run_v, max_run))) (pl2_records self) (run_v, max_run)
      in max_run)"

definition PartitionLog_latest :: "PartitionLog \<Rightarrow> PartitionReport option" where
  "PartitionLog_latest self =
     last_opt (pl2_records self)"

definition PartitionReport_bytes_of :: "PartitionReport \<Rightarrow> bytes" where
  "PartitionReport_bytes_of r =
     partition_detector_report_bytes (pr5_epoch r) (pr5_class r) (pr5_reachable_pairs r)
         (pr5_total_pairs r) (pr5_prev_hash r)"

definition PartitionLog_verify_chain ::
  "sha \<Rightarrow> PartitionLog \<Rightarrow> bool \<times> nat option" where
  "PartitionLog_verify_chain sha self =
     verify_from pr5_prev_hash pr5_report_hash (\<lambda>r. sha (PartitionReport_bytes_of r)) 0 genesis
         (pl2_records self)"

lemma partition_detector_report_bytes_inj:
  "partition_detector_report_bytes epoch class_v reachable_pairs total_pairs prev =
      partition_detector_report_bytes epoch' class_v' reachable_pairs' total_pairs' prev'
      \<longleftrightarrow>
   prev = prev' \<and> epoch = epoch' \<and> (PartitionClass_class_byte class_v) =
       (PartitionClass_class_byte class_v') \<and> reachable_pairs = reachable_pairs' \<and> total_pairs
       = total_pairs'"
  by (auto simp: partition_detector_report_bytes_def enc_simps)

definition PartitionReport_committed :: "PartitionReport \<Rightarrow> u64 \<times> u8 \<times> u32
    \<times> u32" where
  "PartitionReport_committed r =
     (pr5_epoch r, PartitionClass_class_byte (pr5_class r), pr5_reachable_pairs r, pr5_total_pairs r)"

interpretation partition_detector: hash_log PartitionReport_bytes_of pr5_prev_hash pr5_report_hash
    PartitionReport_committed
  by unfold_locales (auto simp: PartitionReport_bytes_of_def PartitionReport_committed_def
      partition_detector_report_bytes_inj)

lemma partition_detector_verify_iff: "PartitionLog_verify_chain sha l = (True,
    None) \<longleftrightarrow> partition_detector.ok sha (pl2_records l)"
  by (simp add: PartitionLog_verify_chain_def verify_from_iff)

lemma build_partition_report_linked:
  "pr5_prev_hash (build_partition_report sha epoch class_v reachable_pairs total_pairs prev_hash) =
      prev_hash"
  "pr5_report_hash (build_partition_report sha epoch class_v reachable_pairs total_pairs prev_hash) =
      sha (PartitionReport_bytes_of (build_partition_report sha epoch class_v reachable_pairs
      total_pairs prev_hash))"
  by (simp_all add: build_partition_report_def partition_detector_compute_report_hash_def
      PartitionReport_bytes_of_def Let_def split_def)

lemma partition_log_record_ok: "partition_detector.ok sha (pl2_records l) \<Longrightarrow>
    partition_detector.ok sha (pl2_records (snd (PartitionLog_record sha epoch class_v reachable_pairs
    total_pairs l)))"
  by (simp add: Let_def split_def PartitionLog_record_def PartitionLog_last_hash_def
      build_partition_report_linked split: option.split sum.split)

text \<open>The mesh as a graph on its nodes.\<close>

definition mesh_edges :: "u32 set \<Rightarrow> (u32 \<Rightarrow> u32 \<Rightarrow> bool) \<Rightarrow> (u32 \<times> u32) set" where
  "mesh_edges N r = {(a, b). a \<in> N \<and> b \<in> N \<and> r a b}"

lemma mesh_edgesI: "a \<in> N \<Longrightarrow> b \<in> N \<Longrightarrow> r a b \<Longrightarrow> (a, b) \<in> mesh_edges N r"
  by (simp add: mesh_edges_def)

lemma mesh_edgesD: "(a, b) \<in> mesh_edges N r \<Longrightarrow> a \<in> N \<and> b \<in> N \<and> r a b"
  by (simp add: mesh_edges_def)

lemma visit_neighbors_spec:
  assumes "distinct nodes"
  shows "visit_neighbors nodes r a (visited, queue) =
    (fold (\<lambda>b m. if \<not> bt_has visited b \<and> r a b then bt_insert b () m else m) nodes visited,
     queue @ filter (\<lambda>b. \<not> bt_has visited b \<and> r a b) nodes)"
proof -
  have "fold (\<lambda>b (m, q). if \<not> bt_has m b \<and> r a b then (bt_insert b () m, q @ [b]) else (m, q)) nodes (m, q) =
      (fold (\<lambda>b m. if \<not> bt_has visited b \<and> r a b then bt_insert b () m else m) nodes m,
       q @ filter (\<lambda>b. \<not> bt_has visited b \<and> r a b) nodes)"
    if "\<forall>b \<in> set nodes. bt_has m b \<longleftrightarrow> bt_has visited b" for m q
    using assms that
  proof (induction nodes arbitrary: m q)
    case (Cons b nodes)
    have same: "\<forall>c \<in> set nodes. bt_has (bt_insert b () m) c \<longleftrightarrow> bt_has visited c" using Cons.prems by auto
    show ?case using Cons.prems Cons.IH [of m q] Cons.IH [OF _ same, of "q @ [b]"] by simp
  qed simp
  then show ?thesis by (simp add: visit_neighbors_def)
qed

lemma has_fold_insert:
  "bt_has (fold (\<lambda>b m. if P b then bt_insert b () m else m) nodes m) c \<longleftrightarrow> bt_has m c \<or> c \<in> set nodes \<and> P c"
  by (induction nodes arbitrary: m) auto

definition visit_inv :: "u32 list \<Rightarrow> (u32 \<Rightarrow> u32 \<Rightarrow> bool) \<Rightarrow> u32 \<Rightarrow> (u32, unit) btmap \<Rightarrow> u32 list \<Rightarrow> bool" where
  "visit_inv nodes r s visited queue \<longleftrightarrow>
     (\<forall>c. bt_has visited c \<longrightarrow> c \<in> set nodes \<and> (s, c) \<in> (mesh_edges (set nodes) r)\<^sup>*) \<and>
     (\<forall>c \<in> set queue. bt_has visited c) \<and> bt_has visited s \<and>
     (\<forall>a b. bt_has visited a \<longrightarrow> a \<notin> set queue \<longrightarrow> b \<in> set nodes \<longrightarrow> r a b \<longrightarrow> bt_has visited b)"

lemma visit_invI:
  assumes "\<And>c. bt_has visited c \<Longrightarrow> c \<in> set nodes"
    "\<And>c. bt_has visited c \<Longrightarrow> (s, c) \<in> (mesh_edges (set nodes) r)\<^sup>*"
    "\<And>c. c \<in> set queue \<Longrightarrow> bt_has visited c" "bt_has visited s"
    "\<And>a b. bt_has visited a \<Longrightarrow> a \<notin> set queue \<Longrightarrow> b \<in> set nodes \<Longrightarrow> r a b \<Longrightarrow> bt_has visited b"
  shows "visit_inv nodes r s visited queue"
  unfolding visit_inv_def using assms by blast

lemma visit_invD:
  assumes "visit_inv nodes r s visited queue"
  shows "bt_has visited c \<Longrightarrow> c \<in> set nodes"
    and "bt_has visited c \<Longrightarrow> (s, c) \<in> (mesh_edges (set nodes) r)\<^sup>*"
    and "c \<in> set queue \<Longrightarrow> bt_has visited c" and "bt_has visited s"
    and "bt_has visited a \<Longrightarrow> a \<notin> set queue \<Longrightarrow> b \<in> set nodes \<Longrightarrow> r a b \<Longrightarrow> bt_has visited b"
  using assms unfolding visit_inv_def by blast+

lemma visit_inv_step:
  assumes "distinct nodes" "visit_inv nodes r s visited queue" "queue \<noteq> []"
    "visit_neighbors nodes r (last queue) (visited, butlast queue) = (visited', queue')"
  shows "visit_inv nodes r s visited' queue'"
    and "length queue' + card {b \<in> set nodes. \<not> bt_has visited' b} + 1 =
         length queue + card {b \<in> set nodes. \<not> bt_has visited b}"
proof -
  note inv = visit_invD [OF assms(2)]
  define a where "a = last queue"
  define new where "new = filter (\<lambda>b. \<not> bt_has visited b \<and> r a b) nodes"
  have q: "queue' = butlast queue @ new"
    using assms(4) visit_neighbors_spec [OF assms(1)] by (simp add: a_def new_def)
  have has: "bt_has visited' c \<longleftrightarrow> bt_has visited c \<or> c \<in> set new" for c
    using assms(4) visit_neighbors_spec [OF assms(1)] by (auto simp: has_fold_insert a_def new_def)
  have a: "a \<in> set queue" using assms(3) by (simp add: a_def)
  have new: "c \<in> set nodes \<and> r a c" if "c \<in> set new" for c using that by (simp add: new_def)
  have sub: "c \<in> set queue" if "c \<in> set (butlast queue)" for c using that by (rule in_set_butlastD)
  have split: "c = a \<or> c \<in> set (butlast queue)" if "c \<in> set queue" for c
    using that assms(3) by (metis a_def append_butlast_last_id in_set_conv_decomp rotate1.simps(2) set_ConsD set_rotate1 append_is_Nil_conv Un_iff set_append empty_iff list.set(1) insert_iff list.set(2))
  show "visit_inv nodes r s visited' queue'"
  proof (rule visit_invI)
    fix c assume c: "bt_has visited' c"
    then show "c \<in> set nodes" using has inv(1) new by blast
    show "(s, c) \<in> (mesh_edges (set nodes) r)\<^sup>*"
    proof (cases "bt_has visited c")
      case False
      then have "c \<in> set new" using c has by blast
      then have "(a, c) \<in> mesh_edges (set nodes) r" using inv(1,3) [of a] a new by (intro mesh_edgesI) blast+
      then show ?thesis using inv(2) [OF inv(3) [OF a]] by (rule rtrancl_into_rtrancl [rotated])
    qed (rule inv(2))
  next
    fix c assume "c \<in> set queue'"
    then show "bt_has visited' c" using q has inv(3) sub by auto
  next
    show "bt_has visited' s" using has inv(4) by blast
  next
    fix c b assume b: "bt_has visited' c" "c \<notin> set queue'" "b \<in> set nodes" "r c b"
    then have c: "bt_has visited c" "c \<notin> set (butlast queue)" using has q by auto
    show "bt_has visited' b"
    proof (cases "c = a")
      case True
      then show ?thesis using has b by (auto simp: new_def)
    next
      case False
      then have "c \<notin> set queue" using c(2) split by blast
      then show ?thesis using has inv(5) [OF c(1) _ b(3,4)] by blast
    qed
  qed
  have parts: "{b \<in> set nodes. \<not> bt_has visited b} = {b \<in> set nodes. \<not> bt_has visited' b} \<union> set new"
    using has by (auto simp: new_def)
  have "{b \<in> set nodes. \<not> bt_has visited' b} \<inter> set new = {}" using has by blast
  then have "card {b \<in> set nodes. \<not> bt_has visited b} = card {b \<in> set nodes. \<not> bt_has visited' b} + card (set new)"
    unfolding parts by (intro card_Un_disjoint) simp_all
  moreover have "card (set new) = length new" using assms(1) by (intro distinct_card) (simp add: new_def)
  ultimately show "length queue' + card {b \<in> set nodes. \<not> bt_has visited' b} + 1 =
      length queue + card {b \<in> set nodes. \<not> bt_has visited b}"
    using assms(3) by (simp add: q)
qed

lemma visit_loop_reaches:
  assumes "distinct nodes" "visit_inv nodes r s visited queue"
    "length queue + card {b \<in> set nodes. \<not> bt_has visited b} < fuel"
  shows "\<exists>v. visit_loop fuel nodes r (visited, queue) = Some v \<and>
    (\<forall>c. bt_has v c \<longleftrightarrow> (s, c) \<in> (mesh_edges (set nodes) r)\<^sup>*)"
  using assms(2,3)
proof (induction fuel arbitrary: visited queue)
  case (Suc fuel)
  note inv = visit_invD [OF Suc.prems(1)]
  show ?case
  proof (cases "queue = []")
    case True
    have "bt_has visited c" if "(s, c) \<in> (mesh_edges (set nodes) r)\<^sup>*" for c
      using that
    proof induction
      case (step a b)
      then show ?case using inv(5) [of a b] True mesh_edgesD [OF step.hyps(2)] by simp
    qed (rule inv(4))
    then show ?thesis using inv(2) True by auto
  next
    case False
    obtain v' q' where step: "visit_neighbors nodes r (last queue) (visited, butlast queue) = (v', q')"
      by (cases "visit_neighbors nodes r (last queue) (visited, butlast queue)")
    note inv' = visit_inv_step [OF assms(1) Suc.prems(1) False step]
    have "length q' + card {b \<in> set nodes. \<not> bt_has v' b} < fuel" using inv'(2) Suc.prems(2) by linarith
    from Suc.IH [OF inv'(1) this] show ?thesis using False step by simp
  qed
qed simp

lemma component_loop_counted:
  "component_loop fuel nodes r starts (visited, 1) =
     Some (if \<forall>c \<in> set starts. bt_has visited c then PartitionClass.Unified else PartitionClass.Clustered)"
  by (induction starts) auto

text \<open>The first node of an ascending list with a property is the least one with it.\<close>

lemma find_least:
  fixes xs :: "'a::linorder list"
  assumes "sorted_wrt (<) xs"
  shows "find P xs = Some a \<longleftrightarrow> a \<in> set xs \<and> P a \<and> (\<forall>b \<in> set xs. P b \<longrightarrow> a \<le> b)"
  using assms
proof (induction xs)
  case (Cons x xs)
  show ?case
  proof (cases "P x")
    case True
    then show ?thesis using Cons.prems by (auto simp: less_imp_le dest: antisym)
  next
    case False
    then show ?thesis using Cons by auto
  qed
qed simp

definition isolated_in :: "u32 set \<Rightarrow> (u32 \<Rightarrow> u32 \<Rightarrow> bool) \<Rightarrow> u32 \<Rightarrow> bool" where
  "isolated_in N r a \<longleftrightarrow> a \<in> N \<and> (\<forall>b \<in> N. b \<noteq> a \<longrightarrow> \<not> r a b)"

lemma isolated_iff:
  "a \<in> set nodes \<and> \<not> list_ex (\<lambda>b. b \<noteq> a \<and> r a b) nodes \<longleftrightarrow> isolated_in (set nodes) r a"
  by (auto simp: isolated_in_def list_ex_iff)

lemma asymmetric_iff:
  "asymmetric_pair nodes r \<longleftrightarrow> (\<exists>a \<in> set nodes. \<exists>b \<in> set nodes. r a b \<and> \<not> r b a)"
  unfolding asymmetric_pair_def list_ex_iff by metis

lemma components_verdict:
  assumes "nodes \<noteq> []" "distinct nodes" "symp_on (set nodes) r"
  shows "component_loop (length nodes + 1) nodes r nodes (bt_empty, 0) =
    Some (if \<forall>a \<in> set nodes. \<forall>b \<in> set nodes. (a, b) \<in> (mesh_edges (set nodes) r)\<^sup>*
          then PartitionClass.Unified else PartitionClass.Clustered)"
proof -
  let ?E = "mesh_edges (set nodes) r"
  obtain s rest where nodes: "nodes = s # rest" using assms(1) by (cases nodes) auto
  have inv: "visit_inv nodes r s (bt_insert s () bt_empty) [s]"
    by (rule visit_invI) (auto simp: nodes)
  have "{b \<in> set nodes. \<not> bt_has (bt_insert s () bt_empty) b} = set rest"
    using assms(2) by (auto simp: nodes)
  then have "length [s] + card {b \<in> set nodes. \<not> bt_has (bt_insert s () bt_empty) b} < length nodes + 1"
    using assms(2) by (simp add: nodes distinct_card)
  from visit_loop_reaches [OF assms(2) inv this] obtain v where
    v: "visit_loop (length nodes + 1) nodes r (bt_insert s () bt_empty, [s]) = Some v"
      "\<And>c. bt_has v c \<longleftrightarrow> (s, c) \<in> ?E\<^sup>*" by blast
  have "(b, a) \<in> ?E" if "(a, b) \<in> ?E" for a b
    using that assms(3) by (auto simp: mesh_edges_def symp_on_def)
  then have sym: "(b, a) \<in> ?E\<^sup>*" if "(a, b) \<in> ?E\<^sup>*" for a b
    using that sym_rtrancl [of ?E] by (auto simp: sym_def)
  have "(\<forall>c \<in> set rest. bt_has v c) \<longleftrightarrow> (\<forall>a \<in> set nodes. \<forall>b \<in> set nodes. (a, b) \<in> ?E\<^sup>*)"
  proof
    assume all: "\<forall>c \<in> set rest. bt_has v c"
    then have "(s, c) \<in> ?E\<^sup>*" if "c \<in> set nodes" for c using that v(2) by (cases "c = s") (auto simp: nodes)
    then show "\<forall>a \<in> set nodes. \<forall>b \<in> set nodes. (a, b) \<in> ?E\<^sup>*" by (blast intro: sym rtrancl_trans)
  qed (use v(2) in \<open>simp add: nodes\<close>)
  then show ?thesis using v(1) component_loop_counted [of "length nodes + 1" nodes r rest v] by (simp add: nodes Let_def)
qed

lemma count_inner:
  "fold (\<lambda>b n. if a \<noteq> b \<and> r a b then n + 1 else n) nodes n =
     n + (of_nat (length (filter (\<lambda>b. a \<noteq> b \<and> r a b) nodes)) :: u32)"
  by (induction nodes arbitrary: n) auto

lemma count_outer:
  "fold (\<lambda>a n. fold (\<lambda>b n. if a \<noteq> b \<and> r a b then n + 1 else n) ms n) nodes n =
     n + (of_nat (\<Sum>a \<leftarrow> nodes. length (filter (\<lambda>b. a \<noteq> b \<and> r a b) ms)) :: u32)"
  by (induction nodes arbitrary: n) (auto simp: count_inner)

lemma count_pairs:
  assumes "distinct nodes"
  shows "(\<Sum>a \<leftarrow> nodes. length (filter (\<lambda>b. a \<noteq> b \<and> r a b) nodes)) =
    card {(a, b). a \<in> set nodes \<and> b \<in> set nodes \<and> a \<noteq> b \<and> r a b}"
proof -
  have len: "length (filter (\<lambda>b. a \<noteq> b \<and> r a b) nodes) = card {b \<in> set nodes. a \<noteq> b \<and> r a b}" for a
    using assms by (metis distinct_card distinct_filter set_filter)
  have "card (SIGMA a:set nodes. {b \<in> set nodes. a \<noteq> b \<and> r a b}) = (\<Sum>a \<in> set nodes. card {b \<in> set nodes. a \<noteq> b \<and> r a b})"
    by (rule card_SigmaI) simp_all
  moreover have "(SIGMA a:set nodes. {b \<in> set nodes. a \<noteq> b \<and> r a b}) =
      {(a, b). a \<in> set nodes \<and> b \<in> set nodes \<and> a \<noteq> b \<and> r a b}" by auto
  ultimately show ?thesis using assms by (simp add: len sum_list_distinct_conv_sum_set)
qed

lemma count_reachable_exact:
  assumes "card (dom (bt_get m)) < 2 ^ 32"
  shows "count_reachable_pairs m r =
    (of_nat (card {(a, b). a \<in> dom (bt_get m) \<and> b \<in> dom (bt_get m) \<and> a \<noteq> b \<and> r a b}),
     of_nat (card (dom (bt_get m)) * (card (dom (bt_get m)) - 1)))"
proof -
  let ?n = "card (dom (bt_get m))"
  have len: "length (bt_keys m) = ?n" by (metis distinct_bt_keys distinct_card set_bt_keys)
  have small: "(of_nat ?n :: u32) < 2 \<longleftrightarrow> ?n < 2"
    using assms by (simp add: word_less_nat_alt unat_of_nat)
  show ?thesis
  proof (cases "?n < 2")
    case True
    then have "\<exists>x. dom (bt_get m) \<subseteq> {x}"
      by (metis One_nat_def bot.extremum card_1_singletonE card_eq_0_iff finite_bt_dom less_2_cases order_refl)
    then have "{(a, b). a \<in> dom (bt_get m) \<and> b \<in> dom (bt_get m) \<and> a \<noteq> b \<and> r a b} = {}" by blast
    moreover have "?n * (?n - 1) = 0" using True by (auto simp: less_2_cases_iff)
    ultimately show ?thesis using True small by (simp only: count_reachable_pairs_def len Let_def if_True) simp
  next
    case False
    have "(of_nat ?n :: u32) * (of_nat ?n - 1) = of_nat (?n * (?n - 1))" using False by simp
    then show ?thesis using False small
      by (simp add: count_reachable_pairs_def len count_outer count_pairs del: of_nat_mult)
  qed
qed

lemma detect_partition_cases:
  fixes m :: "(u32, unit) btmap" and r :: "u32 \<Rightarrow> u32 \<Rightarrow> bool"
  defines "N \<equiv> dom (bt_get m)"
  shows "card N < 2 \<Longrightarrow> detect_partition m r = Some PartitionClass.Unknown"
    and "2 \<le> card N \<Longrightarrow> isolated_in N r a \<Longrightarrow> (\<And>b. isolated_in N r b \<Longrightarrow> a \<le> b) \<Longrightarrow>
      detect_partition m r = Some (PartitionClass.Isolated a)"
    and "2 \<le> card N \<Longrightarrow> (\<And>b. \<not> isolated_in N r b) \<Longrightarrow> \<not> symp_on N r \<Longrightarrow>
      detect_partition m r = Some PartitionClass.Asymmetric"
    and "2 \<le> card N \<Longrightarrow> (\<And>b. \<not> isolated_in N r b) \<Longrightarrow> symp_on N r \<Longrightarrow>
      detect_partition m r = Some (if \<forall>a \<in> N. \<forall>b \<in> N. (a, b) \<in> (mesh_edges N r)\<^sup>*
        then PartitionClass.Unified else PartitionClass.Clustered)"
proof -
  have N: "set (bt_keys m) = N" by (simp add: N_def)
  let ?f = "find (\<lambda>a. \<not> list_ex (\<lambda>b. b \<noteq> a \<and> r a b) (bt_keys m)) (bt_keys m)"
  have found: "?f = Some a \<longleftrightarrow> isolated_in N r a \<and> (\<forall>b. isolated_in N r b \<longrightarrow> a \<le> b)" for a
    using find_least [OF sorted_bt_keys [of m], of "\<lambda>a. \<not> list_ex (\<lambda>b. b \<noteq> a \<and> r a b) (bt_keys m)" a]
      isolated_iff [of _ "bt_keys m" r] unfolding N by blast
  have len: "bt_len m = card N" by (simp add: N_def bt_len_card)
  have asym: "asymmetric_pair (bt_keys m) r \<longleftrightarrow> \<not> symp_on N r"
    using asymmetric_iff [of "bt_keys m" r] unfolding N symp_on_def by blast
  show "card N < 2 \<Longrightarrow> detect_partition m r = Some PartitionClass.Unknown"
    by (simp add: detect_partition_def len)
  show "detect_partition m r = Some (PartitionClass.Isolated a)"
    if "2 \<le> card N" "isolated_in N r a" "\<And>b. isolated_in N r b \<Longrightarrow> a \<le> b"
  proof -
    have "?f = Some a" using that found by blast
    then show ?thesis using that by (simp add: detect_partition_def len)
  qed
  have none: "?f = None" if "\<And>b. \<not> isolated_in N r b"
    using that found by (cases ?f) blast+
  show "detect_partition m r = Some PartitionClass.Asymmetric"
    if "2 \<le> card N" "\<And>b. \<not> isolated_in N r b" "\<not> symp_on N r"
    using that none asym by (simp add: detect_partition_def len)
  show "detect_partition m r = Some (if \<forall>a \<in> N. \<forall>b \<in> N. (a, b) \<in> (mesh_edges N r)\<^sup>*
        then PartitionClass.Unified else PartitionClass.Clustered)"
    if "2 \<le> card N" "\<And>b. \<not> isolated_in N r b" "symp_on N r"
  proof -
    have "length (bt_keys m) = card N" using len by (simp add: bt_len_def bt_keys_def)
    then have "bt_keys m \<noteq> []" using that(1) by auto
    from components_verdict [OF this distinct_bt_keys, of r] that(3)
    have "component_loop (length (bt_keys m) + 1) (bt_keys m) r (bt_keys m) (bt_empty, 0) =
        Some (if \<forall>a \<in> N. \<forall>b \<in> N. (a, b) \<in> (mesh_edges N r)\<^sup>*
          then PartitionClass.Unified else PartitionClass.Clustered)" unfolding N by blast
    then show ?thesis using that none asym by (simp add: detect_partition_def len)
  qed
qed

lemma detect_partition_exact:
  assumes "N = dom (bt_get m)"
  shows "detect_partition m r = Some
      (if card N < 2 then PartitionClass.Unknown
       else if \<exists>a. isolated_in N r a then PartitionClass.Isolated (Min {a. isolated_in N r a})
       else if \<exists>a \<in> N. \<exists>b \<in> N. r a b \<and> \<not> r b a then PartitionClass.Asymmetric
       else if \<forall>a \<in> N. \<forall>b \<in> N. (a, b) \<in> (mesh_edges N r)\<^sup>* then PartitionClass.Unified
       else PartitionClass.Clustered)"
proof -
  note verdicts = detect_partition_cases [of m, folded assms(1)]
  have fin: "finite {a. isolated_in N r a}" by simp
  have sym: "symp_on N r \<longleftrightarrow> \<not> (\<exists>a \<in> N. \<exists>b \<in> N. r a b \<and> \<not> r b a)"
    by (auto simp: symp_on_def)
  show ?thesis
  proof (cases "card N < 2")
    case True
    then show ?thesis using verdicts(1) by simp
  next
    case big: False
    show ?thesis
    proof (cases "\<exists>a. isolated_in N r a")
      case True
      have "isolated_in N r (Min {a. isolated_in N r a})" using Min_in [OF fin] True by blast
      moreover have "Min {a. isolated_in N r a} \<le> b" if "isolated_in N r b" for b
        using Min_le [OF fin] that by blast
      ultimately have "detect_partition m r = Some (PartitionClass.Isolated (Min {a. isolated_in N r a}))"
        using big by (intro verdicts(2)) simp_all
      then show ?thesis using big True by simp
    next
      case False
      then have none: "\<not> isolated_in N r b" for b by blast
      have two: "2 \<le> card N" using big by simp
      show ?thesis
      proof (cases "symp_on N r")
        case True
        then have s: "\<not> (\<exists>a \<in> N. \<exists>b \<in> N. r a b \<and> \<not> r b a)" using sym by blast
        show ?thesis unfolding if_not_P [OF big] if_not_P [OF False] if_not_P [OF s]
          by (rule verdicts(4) [OF two none True])
      next
        case asym: False
        then have s: "\<exists>a \<in> N. \<exists>b \<in> N. r a b \<and> \<not> r b a" using sym by blast
        show ?thesis unfolding if_not_P [OF big] if_not_P [OF False] if_P [OF s]
          by (rule verdicts(3) [OF two none asym])
      qed
    qed
  qed
qed

text \<open>C32. The detector always ends with a verdict, decided in the order of the code: Unknown for fewer than two
nodes; else Isolated with the least node that reaches no other, if there is one; else Asymmetric if some node
reaches another that does not reach it back; else Unified if every node has a path to every other, whether or not
it reaches it directly, and Clustered if not.  The figures it records are the number of ordered pairs that reach
each other directly and the number of all ordered pairs, for fewer than \<open>2^32\<close> nodes.  (The comment of the
function has the asymmetric pair looked for before the isolated node, and Unified for all pairs reachable.)\<close>

theorem partition_verdict_exact:
  fixes m :: "(u32, unit) btmap" and r :: "u32 \<Rightarrow> u32 \<Rightarrow> bool"
  assumes "N = dom (bt_get m)" "card N < 2 ^ 32"
  shows "detect_partition m r = Some
      (if card N < 2 then PartitionClass.Unknown
       else if \<exists>a. isolated_in N r a then PartitionClass.Isolated (Min {a. isolated_in N r a})
       else if \<exists>a \<in> N. \<exists>b \<in> N. r a b \<and> \<not> r b a then PartitionClass.Asymmetric
       else if \<forall>a \<in> N. \<forall>b \<in> N. (a, b) \<in> (mesh_edges N r)\<^sup>* then PartitionClass.Unified
       else PartitionClass.Clustered) \<and>
    count_reachable_pairs m r =
      (of_nat (card {(a, b). a \<in> N \<and> b \<in> N \<and> a \<noteq> b \<and> r a b}), of_nat (card N * (card N - 1)))"
  using detect_partition_exact [OF assms(1)] count_reachable_exact [of m r] assms by simp

definition three_nodes :: "(u32, unit) btmap" where
  "three_nodes = bt_insert 1 () (bt_insert 2 () (bt_insert 3 () bt_empty))"

lemma partition_verdict_exact_witness:
  "detect_partition three_nodes (\<lambda>a b. a = 2 \<or> b = 2) = Some PartitionClass.Unified \<and>
   (1, 3) \<in> (mesh_edges {1, 2, 3} (\<lambda>a b. a = 2 \<or> b = 2))\<^sup>* \<and> card {1, 2, 3 :: u32} < 2 ^ 32"
proof -
  let ?r = "\<lambda>a b. a = (2 :: u32) \<or> b = 2"
  have d: "dom (bt_get three_nodes) = {1, 2, 3}" by (auto simp: three_nodes_def)
  have u: "detect_partition three_nodes ?r = Some PartitionClass.Unified" by code_simp
  have c: "card {1, 2, 3 :: u32} < 2 ^ 32" by simp
  show ?thesis using partition_verdict_exact [OF d [symmetric] c, of ?r] u c by (simp split: if_splits)
qed

text \<open>Of two nodes of which one reaches the other, the pair is asymmetric, and the verdict is Isolated; a chain of
three nodes is Unified although its ends do not reach each other.\<close>

lemma isolated_before_asymmetric:
  "detect_partition (bt_insert 1 () (bt_insert 2 () bt_empty)) (\<lambda>a b. a = 1 \<and> b = 2) = Some (PartitionClass.Isolated 2)"
  by code_simp

section \<open>Gossip Peer Selector: topology-aware peer selection for gossip forwarding (Gate 291)\<close>

text \<open>
  \<open>peer_selector.rs\<close>. Selects which peers to forward a gossip message to, based on:
\<close>

record SelectionCriteria =
  sc_sender_id :: u32
  sc_max_fanout :: u8
  sc_min_score :: u8
  sc_max_latency_tier :: u8

record SelectionRecord =
  sr4_epoch :: u64
  sr4_sender_id :: u32
  sr4_candidate_count :: u8
  sr4_selected_count :: u8
  sr4_selected_ids :: "u32 list"
  sr4_record_hash :: hash
  sr4_prev_hash :: hash

definition selection_bytes ::
  "u64 \<Rightarrow> u32 \<Rightarrow> u8 \<Rightarrow> u8 \<Rightarrow> u32 list \<Rightarrow> hash
      \<Rightarrow> bytes" where
  "selection_bytes epoch sender_id candidate_count selected_count selected_ids prev =
     hash_bytes prev @ be8 epoch @ be4 sender_id @ [candidate_count] @ [selected_count] @
         concat (map be4 selected_ids)"

definition compute_selection_hash ::
  "sha \<Rightarrow> u64 \<Rightarrow> u32 \<Rightarrow> u8 \<Rightarrow> u8 \<Rightarrow> u32 list
      \<Rightarrow> hash \<Rightarrow> hash" where
  "compute_selection_hash sha epoch sender_id candidate_count selected_count selected_ids prev =
     sha (selection_bytes epoch sender_id candidate_count selected_count selected_ids prev)"

definition build_selection_record ::
  "sha \<Rightarrow> u64 \<Rightarrow> u32 \<Rightarrow> u8 \<Rightarrow> u32 list \<Rightarrow> hash
      \<Rightarrow> SelectionRecord" where
  "build_selection_record sha epoch sender_id candidate_count selected_ids prev_hash =
     (let selected_count = (of_nat (length selected_ids) :: u8);
          record_hash = compute_selection_hash sha epoch sender_id candidate_count selected_count
            selected_ids prev_hash
      in \<lparr>sr4_epoch = epoch, sr4_sender_id = sender_id, sr4_candidate_count = candidate_count,
          sr4_selected_count = selected_count, sr4_selected_ids = selected_ids,
          sr4_record_hash = record_hash, sr4_prev_hash = prev_hash\<rparr>)"

record SelectionLog =
  sl4_records :: "SelectionRecord list"

datatype SelectionError = StaleEpoch

fun SelectionError_as_u8 :: "SelectionError \<Rightarrow> u8" where
  "SelectionError_as_u8 SelectionError.StaleEpoch = 0"

lemma SelectionError_as_u8_inj [simp]: "SelectionError_as_u8 x = SelectionError_as_u8 y
    \<longleftrightarrow> x = y"
  by (cases x; cases y) auto

definition SelectionLog_new :: "SelectionLog" where
  "SelectionLog_new =
     \<lparr>sl4_records = []\<rparr>"

definition SelectionLog_last_hash :: "SelectionLog \<Rightarrow> hash" where
  "SelectionLog_last_hash self =
     last_hash sr4_record_hash (sl4_records self)"

definition SelectionLog_record ::
  "sha \<Rightarrow> u64 \<Rightarrow> u32 \<Rightarrow> u8 \<Rightarrow> u32 list \<Rightarrow>
      SelectionLog \<Rightarrow> (SelectionError + SelectionRecord) \<times> SelectionLog" where
  "SelectionLog_record sha epoch sender_id candidate_count selected_ids self =
     (if sl4_records self \<noteq> [] \<and> epoch < (sr4_epoch (last (sl4_records self))) then (Inl
         SelectionError.StaleEpoch, self)
      else (let prev = SelectionLog_last_hash self;
          r = build_selection_record sha epoch sender_id candidate_count selected_ids prev;
          self = self\<lparr>sl4_records := (sl4_records self) @ [r]\<rparr>
      in (Inr (last (sl4_records self)), self)))"

definition SelectionLog_avg_selected_count :: "SelectionLog \<Rightarrow> u8" where
  "SelectionLog_avg_selected_count self =
     (if (sl4_records self) = [] then 0
      else (let sum_v = sum_list (map (\<lambda>r. (ucast (sr4_selected_count r) :: u32)) (sl4_records
          self))
      in (ucast (sum_v div (of_nat (length (sl4_records self)) :: u32)) :: u8)))"

definition SelectionLog_zero_selection_count :: "SelectionLog \<Rightarrow> nat" where
  "SelectionLog_zero_selection_count self =
     length (filter (\<lambda>r. (sr4_selected_count r) = 0) (sl4_records self))"

definition SelectionRecord_bytes_of :: "SelectionRecord \<Rightarrow> bytes" where
  "SelectionRecord_bytes_of r =
     selection_bytes (sr4_epoch r) (sr4_sender_id r) (sr4_candidate_count r) (sr4_selected_count r)
         (sr4_selected_ids r) (sr4_prev_hash r)"

definition SelectionLog_verify_chain ::
  "sha \<Rightarrow> SelectionLog \<Rightarrow> bool \<times> nat option" where
  "SelectionLog_verify_chain sha self =
     verify_from sr4_prev_hash sr4_record_hash (\<lambda>r. sha (SelectionRecord_bytes_of r)) 0 genesis
         (sl4_records self)"

definition select_peers :: "SelectionCriteria \<Rightarrow> (u32, u8) btmap \<Rightarrow> (u32,
    u8) btmap \<Rightarrow> u32 list \<times> u8" where
  "select_peers criteria peer_scores peer_latency_tiers =
     (let eligible = filter (\<lambda>(pid, score). pid \<noteq> sc_sender_id criteria \<and>
         sc_min_score criteria \<le> score \<and>
              unwrap_or 3 (bt_get peer_latency_tiers pid) \<le> sc_max_latency_tier criteria) (entries
                peer_scores);
          candidate_count = (of_nat (length eligible) :: u8);
          eligible = sort_key (\<lambda>(_, score). 255 - unat score) (sort_key fst eligible);
          take_v = min (unat (sc_max_fanout criteria)) (length eligible);
          selected = map fst (take take_v eligible);
          selected = sort selected
      in (selected, candidate_count))"

record PeerSelector =
  ps4_log :: SelectionLog

definition PeerSelector_new :: "PeerSelector" where
  "PeerSelector_new =
     \<lparr>ps4_log = SelectionLog_new\<rparr>"

definition PeerSelector_record_and_select ::
  "sha \<Rightarrow> u64 \<Rightarrow> SelectionCriteria \<Rightarrow> (u32,
      u8) btmap \<Rightarrow> (u32, u8) btmap \<Rightarrow> PeerSelector \<Rightarrow> (SelectionError +
      ((u32 list) \<times> SelectionRecord)) \<times> PeerSelector" where
  "PeerSelector_record_and_select sha epoch criteria peer_scores peer_latency_tiers self =
     (let (selected, candidate_count) = select_peers criteria peer_scores peer_latency_tiers
      in (let (result, log') = SelectionLog_record sha epoch (sc_sender_id criteria) candidate_count
          selected (ps4_log self);
          self = self\<lparr>ps4_log := log'\<rparr>
      in case result of Inl err \<Rightarrow> (Inl err, self)
      | Inr rec \<Rightarrow> (Inr (selected, rec), self)))"

lemma selection_bytes_inj:
  "selection_bytes epoch sender_id candidate_count selected_count selected_ids prev = selection_bytes
      epoch' sender_id' candidate_count' selected_count' selected_ids' prev' \<longleftrightarrow>
   prev = prev' \<and> epoch = epoch' \<and> sender_id = sender_id' \<and> candidate_count =
       candidate_count' \<and> selected_count = selected_count' \<and> selected_ids = selected_ids'"
  by (auto simp: selection_bytes_def enc_simps append_eq_append_conv)

definition SelectionRecord_committed :: "SelectionRecord \<Rightarrow> u64 \<times> u32 \<times> u8
    \<times> u8 \<times> u32 list" where
  "SelectionRecord_committed r =
     (sr4_epoch r, sr4_sender_id r, sr4_candidate_count r, sr4_selected_count r, sr4_selected_ids r)"

interpretation peer_selector: hash_log SelectionRecord_bytes_of sr4_prev_hash sr4_record_hash
    SelectionRecord_committed
  by unfold_locales (auto simp: SelectionRecord_bytes_of_def SelectionRecord_committed_def
      selection_bytes_inj)

lemma peer_selector_verify_iff: "SelectionLog_verify_chain sha l = (True,
    None) \<longleftrightarrow> peer_selector.ok sha (sl4_records l)"
  by (simp add: SelectionLog_verify_chain_def verify_from_iff)

lemma build_selection_record_linked:
  "sr4_prev_hash (build_selection_record sha epoch sender_id candidate_count selected_ids prev_hash) =
      prev_hash"
  "sr4_record_hash (build_selection_record sha epoch sender_id candidate_count selected_ids prev_hash) =
      sha (SelectionRecord_bytes_of (build_selection_record sha epoch sender_id candidate_count
      selected_ids prev_hash))"
  by (simp_all add: build_selection_record_def compute_selection_hash_def SelectionRecord_bytes_of_def
      Let_def split_def)

lemma selection_log_record_ok: "peer_selector.ok sha (sl4_records l) \<Longrightarrow> peer_selector.ok
    sha (sl4_records (snd (SelectionLog_record sha epoch sender_id candidate_count selected_ids l)))"
  by (simp add: Let_def split_def SelectionLog_record_def SelectionLog_last_hash_def
      build_selection_record_linked split: option.split sum.split)

text \<open>Who may be selected, and who ranks before whom.\<close>

definition eligible_peer :: "SelectionCriteria \<Rightarrow> (u32, u8) btmap \<Rightarrow> (u32, u8) btmap \<Rightarrow> u32 \<Rightarrow> bool" where
  "eligible_peer c scores tiers p \<longleftrightarrow>
     (\<exists>s. bt_get scores p = Some s \<and> sc_min_score c \<le> s) \<and> p \<noteq> sc_sender_id c \<and>
     (case bt_get tiers p of None \<Rightarrow> 3 | Some t \<Rightarrow> t) \<le> sc_max_latency_tier c"

definition ranks_before :: "(u32, u8) btmap \<Rightarrow> u32 \<Rightarrow> u32 \<Rightarrow> bool" where
  "ranks_before scores p q \<longleftrightarrow>
     bt_get_or 0 scores q < bt_get_or 0 scores p \<or> bt_get_or 0 scores p = bt_get_or 0 scores q \<and> p < q"

definition candidates :: "SelectionCriteria \<Rightarrow> (u32, u8) btmap \<Rightarrow> (u32, u8) btmap \<Rightarrow> (u32 \<times> u8) list" where
  "candidates c scores tiers = filter (\<lambda>(pid, score). pid \<noteq> sc_sender_id c \<and> sc_min_score c \<le> score \<and>
     unwrap_or 3 (bt_get tiers pid) \<le> sc_max_latency_tier c) (entries scores)"

definition ranking :: "SelectionCriteria \<Rightarrow> (u32, u8) btmap \<Rightarrow> (u32, u8) btmap \<Rightarrow> (u32 \<times> u8) list" where
  "ranking c scores tiers = sort_key (\<lambda>(_, score). 255 - unat score) (sort_key fst (candidates c scores tiers))"

lemma select_peers_eq:
  "select_peers c scores tiers =
     (sort (map fst (take (min (unat (sc_max_fanout c)) (length (candidates c scores tiers))) (ranking c scores tiers))),
      of_nat (length (candidates c scores tiers)))"
  by (simp add: select_peers_def Let_def candidates_def ranking_def)

lemma keys_sorted_candidates: "keys_sorted (candidates c scores tiers)"
  by (simp add: candidates_def keys_sorted_filter)

lemma in_candidates: "(p, s) \<in> set (candidates c scores tiers) \<longleftrightarrow> bt_get scores p = Some s \<and> eligible_peer c scores tiers p"
  by (auto simp: candidates_def in_entries_iff eligible_peer_def unwrap_or_def)

lemma candidates_eligible: "fst ` set (candidates c scores tiers) = {p. eligible_peer c scores tiers p}"
proof (intro set_eqI iffI)
  fix p assume "p \<in> fst ` set (candidates c scores tiers)"
  then show "p \<in> {p. eligible_peer c scores tiers p}" using in_candidates [of _ _ c scores tiers] by auto
next
  fix p assume p: "p \<in> {p. eligible_peer c scores tiers p}"
  then obtain s where "bt_get scores p = Some s" by (auto simp: eligible_peer_def)
  then have "(p, s) \<in> set (candidates c scores tiers)" using p in_candidates [of p s c scores tiers] by simp
  then show "p \<in> fst ` set (candidates c scores tiers)" by (rule image_eqI [rotated]) simp
qed

lemma length_candidates: "length (candidates c scores tiers) = card {p. eligible_peer c scores tiers p}"
  using keys_sorted_distinct [OF keys_sorted_candidates] candidates_eligible by (metis distinct_card length_map set_map)

lemma mset_ranking: "mset (ranking c scores tiers) = mset (candidates c scores tiers)"
  by (simp add: ranking_def)

lemmas ranking_facts = mset_eq_facts [OF mset_ranking]

lemma higher_score_ranks_before:
  assumes "bt_get scores p = Some s" "bt_get scores q = Some t"
    and "255 - unat s < 255 - unat t \<or> 255 - unat s = 255 - unat t \<and> p < q"
  shows "ranks_before scores p q"
proof -
  have "unat s < 256" "unat t < 256" using unsigned_less [of s] unsigned_less [of t] by simp_all
  then have "unat t < unat s \<or> unat s = unat t \<and> p < q" using assms(3) by linarith
  then show ?thesis using assms(1,2) by (auto simp: ranks_before_def bt_get_or_def word_less_nat_alt word_unat_eq_iff)
qed

lemma ranking_sorted:
  "sorted_wrt (\<lambda>x y. 255 - unat (snd x) < 255 - unat (snd y) \<or>
     255 - unat (snd x) = 255 - unat (snd y) \<and> fst x < fst y) (ranking c scores tiers)"
proof -
  have "sort_key fst (candidates c scores tiers) = candidates c scores tiers"
    using keys_sorted_candidates by (intro sort_key_id_if_sorted strict_sorted_imp_sorted)
  moreover have "sorted_wrt (\<lambda>x y. fst x < fst y) (candidates c scores tiers)"
    using keys_sorted_candidates [of c scores tiers] by (simp add: sorted_wrt_map)
  ultimately show ?thesis
    unfolding ranking_def using sort_key_stable_wrt [of "\<lambda>x y. fst x < fst y" "candidates c scores tiers" "\<lambda>x. 255 - unat (snd x)"]
    by (simp add: case_prod_unfold)
qed

lemma earlier_ranks_before:
  assumes "x \<in> set (take k (ranking c scores tiers))" "y \<in> set (drop k (ranking c scores tiers))"
  shows "ranks_before scores (fst x) (fst y)"
proof (rule higher_score_ranks_before)
  have "x \<in> set (candidates c scores tiers)" "y \<in> set (candidates c scores tiers)"
    using assms ranking_facts(1) [of c scores tiers] by (auto dest: in_set_takeD in_set_dropD)
  then show "bt_get scores (fst x) = Some (snd x)" "bt_get scores (fst y) = Some (snd y)"
    using in_candidates [of "fst x" "snd x"] in_candidates [of "fst y" "snd y"] by simp_all
qed (rule take_before_drop [OF ranking_sorted assms])

lemma left_out_ranks_later:
  assumes "eligible_peer c scores tiers q" "q \<notin> fst ` set (take k (ranking c scores tiers))"
  shows "\<exists>y \<in> set (drop k (ranking c scores tiers)). q = fst y"
proof -
  have "q \<in> fst ` set (ranking c scores tiers)" using assms(1) ranking_facts(1) candidates_eligible by blast
  then have "q \<in> fst ` set (take k (ranking c scores tiers)) \<union> fst ` set (drop k (ranking c scores tiers))"
    by (metis append_take_drop_id image_Un set_append)
  then show ?thesis using assms(2) by blast
qed

text \<open>C33. The selection is the best of the eligible peers: it is strictly ascending, it holds eligible peers only, as
many as the fanout allows or all of them if they are fewer, and every peer in it ranks before every eligible
peer left out, by its score and then by its number.  The count of candidates on record is the number of
eligible peers modulo 256.\<close>

theorem selection_takes_best:
  "(let (selected, candidates) = select_peers c scores tiers
    in sorted_wrt (<) selected \<and>
       set selected \<subseteq> {p. eligible_peer c scores tiers p} \<and>
       length selected = min (unat (sc_max_fanout c)) (card {p. eligible_peer c scores tiers p}) \<and>
       {(p, q). p \<in> set selected \<and> q \<notin> set selected \<and> eligible_peer c scores tiers q}
         \<subseteq> {(p, q). ranks_before scores p q} \<and>
       unat candidates = card {p. eligible_peer c scores tiers p} mod 256)"
proof -
  let ?C = "candidates c scores tiers" and ?R = "ranking c scores tiers"
  let ?k = "min (unat (sc_max_fanout c)) (length ?C)"
  have "distinct (map fst ?R)" using keys_sorted_distinct [OF keys_sorted_candidates] ranking_facts(3) by blast
  then have "distinct (map fst (take ?k ?R))" by (metis distinct_take take_map)
  then have "sorted_wrt (<) (sort (map fst (take ?k ?R)))" by (simp add: strict_sorted_iff)
  moreover have "fst ` set (take ?k ?R) \<subseteq> {p. eligible_peer c scores tiers p}"
    using candidates_eligible [of c scores tiers] ranking_facts(1) [of c scores tiers] by (auto dest: in_set_takeD)
  moreover have "length (take ?k ?R) = min (unat (sc_max_fanout c)) (card {p. eligible_peer c scores tiers p})"
    by (simp add: ranking_facts(2) length_candidates)
  moreover have "{(p, q). p \<in> fst ` set (take ?k ?R) \<and> q \<notin> fst ` set (take ?k ?R) \<and> eligible_peer c scores tiers q}
       \<subseteq> {(p, q). ranks_before scores p q}"
  proof clarify
    fix x q assume x: "x \<in> set (take ?k ?R)" and q: "q \<notin> fst ` set (take ?k ?R)" "eligible_peer c scores tiers q"
    from left_out_ranks_later [OF q(2,1)] obtain y where "y \<in> set (drop ?k ?R)" "q = fst y" by blast
    then show "ranks_before scores (fst x) q" using earlier_ranks_before [OF x] by simp
  qed
  moreover have "unat (of_nat (length ?C) :: u8) = card {p. eligible_peer c scores tiers p} mod 256"
    by (simp add: unat_of_nat length_candidates)
  ultimately show ?thesis by (simp only: select_peers_eq Let_def split_conv set_sort set_map length_sort length_map)
qed

section \<open>Gossip Scheduler: Fibonacci-paced gossip interval calculator (Gate 271)\<close>

text \<open>
  \<open>gossip_scheduler.rs\<close>. Computes gossip broadcast intervals using Fibonacci pacing (same
  constitutional basis as the TypeScript Fibonacci scheduler in Gate 124). Intervals are bounded to
  prevent unbounded spacing at large sequence numbers.
\<close>

definition FIB_CAP_INDEX :: u8 where
  "FIB_CAP_INDEX = 11"

definition BASE_INTERVAL_MS :: u32 where
  "BASE_INTERVAL_MS = 100"

definition MAX_INTERVAL_MS :: u32 where
  "MAX_INTERVAL_MS = 89 * BASE_INTERVAL_MS"

definition fibonacci :: "u8 \<Rightarrow> u8" where
  "fibonacci n =
     (let n = min n FIB_CAP_INDEX
      in if n = 0 \<or> n = 1 then 1
         else if n = 2 then 1
         else snd (fold (\<lambda>_ (a, b). (let c = sat_add a b; a = b; b = c in (a,
           b))) [2..<unat n] (1, 1)))"

definition fib_interval_ms :: "u8 \<Rightarrow> u32" where
  "fib_interval_ms fib_index =
     (ucast (fibonacci fib_index) :: u32) * BASE_INTERVAL_MS"

record GossipInterval =
  gi_sequence :: u64
  gi_fib_index :: u8
  gi_interval_ms :: u32
  gi_cumulative_ms :: u64
  gi_interval_hash :: hash
  gi_prev_hash :: hash

definition interval_bytes ::
  "u64 \<Rightarrow> u8 \<Rightarrow> u32 \<Rightarrow> hash \<Rightarrow> bytes" where
  "interval_bytes sequence fib_index interval_ms prev =
     hash_bytes prev @ be8 sequence @ [fib_index] @ be4 interval_ms"

definition compute_interval_hash ::
  "sha \<Rightarrow> u64 \<Rightarrow> u8 \<Rightarrow> u32 \<Rightarrow> hash \<Rightarrow> hash" where
  "compute_interval_hash sha sequence fib_index interval_ms prev =
     sha (interval_bytes sequence fib_index interval_ms prev)"

record GossipSchedule =
  gs_intervals :: "GossipInterval list"

datatype ScheduleError = StaleSequence

fun ScheduleError_as_u8 :: "ScheduleError \<Rightarrow> u8" where
  "ScheduleError_as_u8 ScheduleError.StaleSequence = 0"

lemma ScheduleError_as_u8_inj [simp]: "ScheduleError_as_u8 x = ScheduleError_as_u8 y
    \<longleftrightarrow> x = y"
  by (cases x; cases y) auto

definition GossipSchedule_new :: "GossipSchedule" where
  "GossipSchedule_new =
     \<lparr>gs_intervals = []\<rparr>"

definition GossipSchedule_latest :: "GossipSchedule \<Rightarrow> GossipInterval option" where
  "GossipSchedule_latest self =
     last_opt (gs_intervals self)"

definition GossipSchedule_last_hash :: "GossipSchedule \<Rightarrow> hash" where
  "GossipSchedule_last_hash self =
     last_hash gi_interval_hash (gs_intervals self)"

definition GossipSchedule_next_fib_index :: "GossipSchedule \<Rightarrow> u8" where
  "GossipSchedule_next_fib_index self =
     (let n = (of_nat ((length (gs_intervals self)) + 1) :: u8)
      in min n FIB_CAP_INDEX)"

definition GossipSchedule_current_cumulative :: "GossipSchedule \<Rightarrow> u64" where
  "GossipSchedule_current_cumulative self =
     unwrap_or 0 (map_option gi_cumulative_ms (last_opt (gs_intervals self)))"

definition GossipSchedule_tick ::
  "sha \<Rightarrow> u64 \<Rightarrow> GossipSchedule \<Rightarrow> (ScheduleError + GossipInterval)
      \<times> GossipSchedule" where
  "GossipSchedule_tick sha sequence self =
     (if gs_intervals self \<noteq> [] \<and> sequence \<le> (gi_sequence (last (gs_intervals self)))
         then (Inl ScheduleError.StaleSequence, self)
      else (let fib_index = GossipSchedule_next_fib_index self;
          ms = fib_interval_ms fib_index;
          cumulative = (GossipSchedule_current_cumulative self) + (ucast ms :: u64);
          prev_hash = GossipSchedule_last_hash self;
          hash = compute_interval_hash sha sequence fib_index ms prev_hash;
          self = self\<lparr>gs_intervals := (gs_intervals self) @ [\<lparr>gi_sequence = sequence,
            gi_fib_index = fib_index, gi_interval_ms = ms, gi_cumulative_ms = cumulative,
            gi_interval_hash = hash, gi_prev_hash = prev_hash\<rparr>]\<rparr>
      in (Inr (last (gs_intervals self)), self)))"

definition GossipSchedule_next_interval_ms :: "GossipSchedule \<Rightarrow> u32" where
  "GossipSchedule_next_interval_ms self =
     fib_interval_ms (GossipSchedule_next_fib_index self)"

definition GossipSchedule_total_elapsed_ms :: "GossipSchedule \<Rightarrow> u64" where
  "GossipSchedule_total_elapsed_ms self =
     GossipSchedule_current_cumulative self"

definition GossipInterval_bytes_of :: "GossipInterval \<Rightarrow> bytes" where
  "GossipInterval_bytes_of iv =
     interval_bytes (gi_sequence iv) (gi_fib_index iv) (gi_interval_ms iv) (gi_prev_hash iv)"

definition GossipSchedule_verify_chain ::
  "sha \<Rightarrow> GossipSchedule \<Rightarrow> bool \<times> nat option" where
  "GossipSchedule_verify_chain sha self =
     verify_from gi_prev_hash gi_interval_hash (\<lambda>r. sha (GossipInterval_bytes_of r)) 0 genesis
         (gs_intervals self)"

lemma interval_bytes_inj:
  "interval_bytes sequence fib_index interval_ms prev = interval_bytes sequence' fib_index' interval_ms'
      prev' \<longleftrightarrow>
   prev = prev' \<and> sequence = sequence' \<and> fib_index = fib_index' \<and> interval_ms =
       interval_ms'"
  by (auto simp: interval_bytes_def enc_simps)

definition GossipInterval_committed :: "GossipInterval \<Rightarrow> u64 \<times> u8 \<times> u32" where
  "GossipInterval_committed iv =
     (gi_sequence iv, gi_fib_index iv, gi_interval_ms iv)"

interpretation scheduler: rising_log GossipInterval_bytes_of gi_prev_hash gi_interval_hash
    GossipInterval_committed
  GossipSchedule_tick
  gs_intervals GossipSchedule_new "\<lambda>(a, _, _). a" "\<lambda>c. c"
  by unfold_locales (auto simp: GossipSchedule_tick_def compute_interval_hash_def GossipSchedule_new_def
      Let_def GossipInterval_bytes_of_def GossipInterval_committed_def interval_bytes_inj
      GossipSchedule_last_hash_def)

lemma scheduler_verify_iff: "GossipSchedule_verify_chain sha l = (True,
    None) \<longleftrightarrow> scheduler.ok sha (gs_intervals l)"
  by (simp add: GossipSchedule_verify_chain_def verify_from_iff)

section \<open>Gossip Adaptive Fanout Controller: delivery-rate-aware fanout adjustment (Gate 296)\<close>

text \<open>
  \<open>adaptive_fanout_controller.rs\<close>. Dynamically adjusts the gossip fanout based on
  observed delivery success rate. When delivery rate falls below LOW_DELIVERY_THRESHOLD (60%), fanout
  is increased. When it exceeds HIGH_DELIVERY_THRESHOLD (90%), fanout is decreased. Each adjustment is
  hash-chained in a FanoutLog.
\<close>

definition MIN_FANOUT :: u8 where
  "MIN_FANOUT = 2"

definition MAX_FANOUT :: u8 where
  "MAX_FANOUT = 16"

definition DEFAULT_FANOUT :: u8 where
  "DEFAULT_FANOUT = 4"

definition LOW_DELIVERY_THRESHOLD :: u8 where
  "LOW_DELIVERY_THRESHOLD = 60"

definition HIGH_DELIVERY_THRESHOLD :: u8 where
  "HIGH_DELIVERY_THRESHOLD = 90"

definition FANOUT_STEP :: u8 where
  "FANOUT_STEP = 1"

datatype FanoutAdjustment = Increase | Decrease | Unchanged

fun FanoutAdjustment_as_u8 :: "FanoutAdjustment \<Rightarrow> u8" where
  "FanoutAdjustment_as_u8 FanoutAdjustment.Increase = 0"
| "FanoutAdjustment_as_u8 FanoutAdjustment.Decrease = 1"
| "FanoutAdjustment_as_u8 FanoutAdjustment.Unchanged = 2"

lemma FanoutAdjustment_as_u8_inj [simp]: "FanoutAdjustment_as_u8 x = FanoutAdjustment_as_u8 y
    \<longleftrightarrow> x = y"
  by (cases x; cases y) auto

definition FanoutAdjustment_adj_byte :: "FanoutAdjustment \<Rightarrow> u8" where
  "FanoutAdjustment_adj_byte self =
     FanoutAdjustment_as_u8 self"

record FanoutRecord =
  fr4_epoch :: u64
  fr4_delivery_rate :: u8
  fr4_old_fanout :: u8
  fr4_new_fanout :: u8
  fr4_adjustment :: FanoutAdjustment
  fr4_record_hash :: hash
  fr4_prev_hash :: hash

definition adaptive_fanout_controller_fanout_bytes ::
  "u64 \<Rightarrow> u8 \<Rightarrow> u8 \<Rightarrow> u8 \<Rightarrow> FanoutAdjustment \<Rightarrow>
      hash \<Rightarrow> bytes" where
  "adaptive_fanout_controller_fanout_bytes epoch delivery_rate old_fanout new_fanout adjustment prev =
     hash_bytes prev @ be8 epoch @ [delivery_rate] @ [old_fanout] @ [new_fanout] @
         [FanoutAdjustment_adj_byte adjustment]"

definition adaptive_fanout_controller_compute_fanout_hash ::
  "sha \<Rightarrow> u64 \<Rightarrow> u8 \<Rightarrow> u8 \<Rightarrow> u8 \<Rightarrow>
      FanoutAdjustment \<Rightarrow> hash \<Rightarrow> hash" where
  "adaptive_fanout_controller_compute_fanout_hash sha epoch delivery_rate old_fanout new_fanout
      adjustment prev =
     sha (adaptive_fanout_controller_fanout_bytes epoch delivery_rate old_fanout new_fanout adjustment
         prev)"

definition build_fanout_record ::
  "sha \<Rightarrow> u64 \<Rightarrow> u8 \<Rightarrow> u8 \<Rightarrow> u8 \<Rightarrow>
      FanoutAdjustment \<Rightarrow> hash \<Rightarrow> FanoutRecord" where
  "build_fanout_record sha epoch delivery_rate old_fanout new_fanout adjustment prev_hash =
     (let record_hash = adaptive_fanout_controller_compute_fanout_hash sha epoch delivery_rate
         old_fanout new_fanout adjustment prev_hash
      in \<lparr>fr4_epoch = epoch, fr4_delivery_rate = delivery_rate, fr4_old_fanout = old_fanout,
          fr4_new_fanout = new_fanout, fr4_adjustment = adjustment, fr4_record_hash = record_hash,
          fr4_prev_hash = prev_hash\<rparr>)"

record FanoutLog =
  fl3_records :: "FanoutRecord list"

datatype FanoutError = StaleEpoch | AttemptedZero

fun FanoutError_as_u8 :: "FanoutError \<Rightarrow> u8" where
  "FanoutError_as_u8 FanoutError.StaleEpoch = 0"
| "FanoutError_as_u8 FanoutError.AttemptedZero = 1"

lemma FanoutError_as_u8_inj [simp]: "FanoutError_as_u8 x = FanoutError_as_u8 y \<longleftrightarrow> x =
    y"
  by (cases x; cases y) auto

definition FanoutLog_new :: "FanoutLog" where
  "FanoutLog_new =
     \<lparr>fl3_records = []\<rparr>"

definition FanoutLog_last_hash :: "FanoutLog \<Rightarrow> hash" where
  "FanoutLog_last_hash self =
     last_hash fr4_record_hash (fl3_records self)"

definition FanoutLog_record ::
  "sha \<Rightarrow> u64 \<Rightarrow> u8 \<Rightarrow> u8 \<Rightarrow> u8 \<Rightarrow>
      FanoutAdjustment \<Rightarrow> FanoutLog \<Rightarrow> (FanoutError + FanoutRecord) \<times>
      FanoutLog" where
  "FanoutLog_record sha epoch delivery_rate old_fanout new_fanout adjustment self =
     (if fl3_records self \<noteq> [] \<and> epoch \<le> (fr4_epoch (last (fl3_records self))) then (Inl
         FanoutError.StaleEpoch, self)
      else (let prev = FanoutLog_last_hash self;
          r = build_fanout_record sha epoch delivery_rate old_fanout new_fanout adjustment prev;
          self = self\<lparr>fl3_records := (fl3_records self) @ [r]\<rparr>
      in (Inr (last (fl3_records self)), self)))"

definition FanoutLog_increase_count :: "FanoutLog \<Rightarrow> nat" where
  "FanoutLog_increase_count self =
     length (filter (\<lambda>r. (fr4_adjustment r) = FanoutAdjustment.Increase) (fl3_records self))"

definition FanoutLog_decrease_count :: "FanoutLog \<Rightarrow> nat" where
  "FanoutLog_decrease_count self =
     length (filter (\<lambda>r. (fr4_adjustment r) = FanoutAdjustment.Decrease) (fl3_records self))"

definition FanoutLog_avg_fanout :: "FanoutLog \<Rightarrow> u8" where
  "FanoutLog_avg_fanout self =
     (if (fl3_records self) = [] then 0
      else (let sum_v = sum_list (map (\<lambda>r. (ucast (fr4_new_fanout r) :: u32)) (fl3_records
          self))
      in (ucast (sum_v div (of_nat (length (fl3_records self)) :: u32)) :: u8)))"

definition FanoutRecord_bytes_of :: "FanoutRecord \<Rightarrow> bytes" where
  "FanoutRecord_bytes_of r =
     adaptive_fanout_controller_fanout_bytes (fr4_epoch r) (fr4_delivery_rate r) (fr4_old_fanout r)
         (fr4_new_fanout r) (fr4_adjustment r) (fr4_prev_hash r)"

definition FanoutLog_verify_chain ::
  "sha \<Rightarrow> FanoutLog \<Rightarrow> bool \<times> nat option" where
  "FanoutLog_verify_chain sha self =
     verify_from fr4_prev_hash fr4_record_hash (\<lambda>r. sha (FanoutRecord_bytes_of r)) 0 genesis
         (fl3_records self)"

record FanoutController =
  fc_fanout :: u8
  fc_log :: FanoutLog

definition FanoutController_new :: "FanoutController" where
  "FanoutController_new =
     \<lparr>fc_fanout = DEFAULT_FANOUT, fc_log = FanoutLog_new\<rparr>"

definition FanoutController_with_fanout :: "u8 \<Rightarrow> FanoutController" where
  "FanoutController_with_fanout fanout =
     \<lparr>fc_fanout = min (max fanout MIN_FANOUT) MAX_FANOUT, fc_log = FanoutLog_new\<rparr>"

definition FanoutController_observe ::
  "sha \<Rightarrow> u64 \<Rightarrow> u32 \<Rightarrow> u32 \<Rightarrow> FanoutController
      \<Rightarrow> (FanoutError + FanoutAdjustment) \<times> FanoutController" where
  "FanoutController_observe sha epoch delivered attempted self =
     (if attempted = 0 then (Inl FanoutError.AttemptedZero, self)
      else
        (let rate = (ucast ((ucast (min delivered attempted) * 100 :: u64) div ucast attempted) :: u8);
             old = fc_fanout self;
             (adj, self) =
               (if rate < LOW_DELIVERY_THRESHOLD then
                  (FanoutAdjustment.Increase,
                   self\<lparr>fc_fanout := min (sat_add (fc_fanout self) FANOUT_STEP)
                     MAX_FANOUT\<rparr>)
                else if HIGH_DELIVERY_THRESHOLD < rate then
                  (FanoutAdjustment.Decrease,
                   self\<lparr>fc_fanout := max (sat_sub (fc_fanout self) FANOUT_STEP)
                     MIN_FANOUT\<rparr>)
                else (FanoutAdjustment.Unchanged, self));
             (_, log') = FanoutLog_record sha epoch rate old (fc_fanout self) adj (fc_log self)
         in (Inr adj, self\<lparr>fc_log := log'\<rparr>)))"

lemma adaptive_fanout_controller_fanout_bytes_inj:
  "adaptive_fanout_controller_fanout_bytes epoch delivery_rate old_fanout new_fanout adjustment prev =
      adaptive_fanout_controller_fanout_bytes epoch' delivery_rate' old_fanout' new_fanout' adjustment'
      prev' \<longleftrightarrow>
   prev = prev' \<and> epoch = epoch' \<and> delivery_rate = delivery_rate' \<and> old_fanout =
       old_fanout' \<and> new_fanout = new_fanout' \<and> (FanoutAdjustment_adj_byte adjustment) =
       (FanoutAdjustment_adj_byte adjustment')"
  by (auto simp: adaptive_fanout_controller_fanout_bytes_def enc_simps)

definition FanoutRecord_committed :: "FanoutRecord \<Rightarrow> u64 \<times> u8 \<times> u8 \<times> u8
    \<times> u8" where
  "FanoutRecord_committed r =
     (fr4_epoch r, fr4_delivery_rate r, fr4_old_fanout r, fr4_new_fanout r,
         FanoutAdjustment_adj_byte (fr4_adjustment r))"

interpretation adaptive_fanout_controller: hash_log FanoutRecord_bytes_of fr4_prev_hash fr4_record_hash
    FanoutRecord_committed
  by unfold_locales (auto simp: FanoutRecord_bytes_of_def FanoutRecord_committed_def
      adaptive_fanout_controller_fanout_bytes_inj)

lemma adaptive_fanout_controller_verify_iff: "FanoutLog_verify_chain sha l = (True,
    None) \<longleftrightarrow> adaptive_fanout_controller.ok sha (fl3_records l)"
  by (simp add: FanoutLog_verify_chain_def verify_from_iff)

lemma build_fanout_record_linked:
  "fr4_prev_hash (build_fanout_record sha epoch delivery_rate old_fanout new_fanout adjustment
      prev_hash) = prev_hash"
  "fr4_record_hash (build_fanout_record sha epoch delivery_rate old_fanout new_fanout adjustment
      prev_hash) = sha (FanoutRecord_bytes_of (build_fanout_record sha epoch delivery_rate old_fanout
      new_fanout adjustment prev_hash))"
  by (simp_all add: build_fanout_record_def adaptive_fanout_controller_compute_fanout_hash_def
      FanoutRecord_bytes_of_def Let_def split_def)

lemma fanout_log_record_ok: "adaptive_fanout_controller.ok sha (fl3_records l) \<Longrightarrow>
    adaptive_fanout_controller.ok sha (fl3_records (snd (FanoutLog_record sha epoch delivery_rate
    old_fanout new_fanout adjustment l)))"
  by (simp add: Let_def split_def FanoutLog_record_def FanoutLog_last_hash_def
      build_fanout_record_linked split: option.split sum.split)

section \<open>Gossip Epoch Boundary Detector: network-wide epoch transition coordination (Gate 297)\<close>

text \<open>
  \<open>epoch_boundary_detector.rs\<close>. Detects when the gossip network is crossing an epoch
  boundary by tracking the highest epoch seen from each peer. When a quorum (>= BOUNDARY_QUORUM_PCT%)
  of seen peers have advanced beyond the current epoch, a BoundaryEvent is emitted.
\<close>

definition BOUNDARY_QUORUM_PCT :: u8 where
  "BOUNDARY_QUORUM_PCT = 67"

datatype BoundaryPhase = Stable | Transitioning | Committed

fun BoundaryPhase_as_u8 :: "BoundaryPhase \<Rightarrow> u8" where
  "BoundaryPhase_as_u8 BoundaryPhase.Stable = 0"
| "BoundaryPhase_as_u8 BoundaryPhase.Transitioning = 1"
| "BoundaryPhase_as_u8 BoundaryPhase.Committed = 2"

lemma BoundaryPhase_as_u8_inj [simp]: "BoundaryPhase_as_u8 x = BoundaryPhase_as_u8 y
    \<longleftrightarrow> x = y"
  by (cases x; cases y) auto

definition BoundaryPhase_phase_byte :: "BoundaryPhase \<Rightarrow> u8" where
  "BoundaryPhase_phase_byte self =
     BoundaryPhase_as_u8 self"

record BoundaryEvent =
  be3_old_epoch :: u64
  be3_new_epoch :: u64
  be3_phase :: BoundaryPhase
  be3_peers_advanced :: u32
  be3_peers_total :: u32
  be3_event_hash :: hash
  be3_prev_hash :: hash

definition boundary_bytes ::
  "u64 \<Rightarrow> u64 \<Rightarrow> BoundaryPhase \<Rightarrow> u32 \<Rightarrow> u32 \<Rightarrow>
      hash \<Rightarrow> bytes" where
  "boundary_bytes old_epoch new_epoch phase peers_advanced peers_total prev =
     hash_bytes prev @ be8 old_epoch @ be8 new_epoch @ be4 peers_advanced @ be4 peers_total @
         [BoundaryPhase_phase_byte phase]"

definition compute_boundary_hash ::
  "sha \<Rightarrow> u64 \<Rightarrow> u64 \<Rightarrow> BoundaryPhase \<Rightarrow> u32 \<Rightarrow>
      u32 \<Rightarrow> hash \<Rightarrow> hash" where
  "compute_boundary_hash sha old_epoch new_epoch phase peers_advanced peers_total prev =
     sha (boundary_bytes old_epoch new_epoch phase peers_advanced peers_total prev)"

definition build_boundary_event ::
  "sha \<Rightarrow> u64 \<Rightarrow> u64 \<Rightarrow> BoundaryPhase \<Rightarrow> u32 \<Rightarrow>
      u32 \<Rightarrow> hash \<Rightarrow> BoundaryEvent" where
  "build_boundary_event sha old_epoch new_epoch phase peers_advanced peers_total prev_hash =
     (let event_hash = compute_boundary_hash sha old_epoch new_epoch phase peers_advanced peers_total
         prev_hash
      in \<lparr>be3_old_epoch = old_epoch, be3_new_epoch = new_epoch, be3_phase = phase,
          be3_peers_advanced = peers_advanced, be3_peers_total = peers_total,
          be3_event_hash = event_hash, be3_prev_hash = prev_hash\<rparr>)"

record BoundaryLog =
  bl3_events :: "BoundaryEvent list"

datatype BoundaryError = EpochNotAdvancing

fun BoundaryError_as_u8 :: "BoundaryError \<Rightarrow> u8" where
  "BoundaryError_as_u8 BoundaryError.EpochNotAdvancing = 0"

lemma BoundaryError_as_u8_inj [simp]: "BoundaryError_as_u8 x = BoundaryError_as_u8 y
    \<longleftrightarrow> x = y"
  by (cases x; cases y) auto

definition BoundaryLog_new :: "BoundaryLog" where
  "BoundaryLog_new =
     \<lparr>bl3_events = []\<rparr>"

definition BoundaryLog_last_hash :: "BoundaryLog \<Rightarrow> hash" where
  "BoundaryLog_last_hash self =
     last_hash be3_event_hash (bl3_events self)"

definition BoundaryLog_record ::
  "sha \<Rightarrow> u64 \<Rightarrow> u64 \<Rightarrow> BoundaryPhase \<Rightarrow> u32 \<Rightarrow>
      u32 \<Rightarrow> BoundaryLog \<Rightarrow> (BoundaryError + BoundaryEvent) \<times> BoundaryLog"
      where
  "BoundaryLog_record sha old_epoch new_epoch phase peers_advanced peers_total self =
     (if new_epoch \<le> old_epoch then (Inl BoundaryError.EpochNotAdvancing, self)
      else (let prev = BoundaryLog_last_hash self;
          e = build_boundary_event sha old_epoch new_epoch phase peers_advanced peers_total prev;
          self = self\<lparr>bl3_events := (bl3_events self) @ [e]\<rparr>
      in (Inr (last (bl3_events self)), self)))"

definition BoundaryLog_transition_count :: "BoundaryLog \<Rightarrow> nat" where
  "BoundaryLog_transition_count self =
     length (filter (\<lambda>e. (be3_phase e) = BoundaryPhase.Transitioning) (bl3_events self))"

definition BoundaryLog_committed_count :: "BoundaryLog \<Rightarrow> nat" where
  "BoundaryLog_committed_count self =
     length (filter (\<lambda>e. (be3_phase e) = BoundaryPhase.Committed) (bl3_events self))"

definition BoundaryEvent_bytes_of :: "BoundaryEvent \<Rightarrow> bytes" where
  "BoundaryEvent_bytes_of e =
     boundary_bytes (be3_old_epoch e) (be3_new_epoch e) (be3_phase e) (be3_peers_advanced e)
         (be3_peers_total e) (be3_prev_hash e)"

definition BoundaryLog_verify_chain ::
  "sha \<Rightarrow> BoundaryLog \<Rightarrow> bool \<times> nat option" where
  "BoundaryLog_verify_chain sha self =
     verify_from be3_prev_hash be3_event_hash (\<lambda>r. sha (BoundaryEvent_bytes_of r)) 0 genesis
         (bl3_events self)"

record EpochBoundaryDetector =
  ebd_peer_epochs :: "(u32, u64) btmap"
  ebd_log :: BoundaryLog

definition EpochBoundaryDetector_new :: "EpochBoundaryDetector" where
  "EpochBoundaryDetector_new =
     \<lparr>ebd_peer_epochs = bt_empty, ebd_log = BoundaryLog_new\<rparr>"

definition EpochBoundaryDetector_report_peer_epoch ::
  "u32 \<Rightarrow> u64 \<Rightarrow> EpochBoundaryDetector \<Rightarrow> EpochBoundaryDetector" where
  "EpochBoundaryDetector_report_peer_epoch peer_id epoch self =
     (let e = bt_get_or 0 (ebd_peer_epochs self) peer_id;
          self = self\<lparr>ebd_peer_epochs := bt_insert peer_id e (ebd_peer_epochs self)\<rparr>
      in if epoch > e then (let e = epoch;
          self = self\<lparr>ebd_peer_epochs := bt_insert peer_id e (ebd_peer_epochs self)\<rparr>
      in self)
      else self)"

definition EpochBoundaryDetector_peers_total :: "EpochBoundaryDetector \<Rightarrow> u32" where
  "EpochBoundaryDetector_peers_total self =
     (of_nat (bt_len (ebd_peer_epochs self)) :: u32)"

definition EpochBoundaryDetector_peers_advanced ::
  "u64 \<Rightarrow> EpochBoundaryDetector \<Rightarrow> u32" where
  "EpochBoundaryDetector_peers_advanced current_epoch self =
     (of_nat (length (filter (\<lambda>e. e > current_epoch) (bt_values (ebd_peer_epochs self)))) ::
         u32)"

definition EpochBoundaryDetector_evaluate ::
  "u64 \<Rightarrow> EpochBoundaryDetector \<Rightarrow> BoundaryPhase" where
  "EpochBoundaryDetector_evaluate current_epoch self =
     (let total_v = EpochBoundaryDetector_peers_total self
      in if total_v = 0 then BoundaryPhase.Stable
      else (let advanced = EpochBoundaryDetector_peers_advanced current_epoch self
      in if advanced = total_v then BoundaryPhase.Committed
      else if (advanced * 100) \<ge> (total_v * (ucast BOUNDARY_QUORUM_PCT :: u32)) then
          BoundaryPhase.Transitioning
      else BoundaryPhase.Stable))"

definition EpochBoundaryDetector_trigger_boundary ::
  "sha \<Rightarrow> u64 \<Rightarrow> u64 \<Rightarrow> EpochBoundaryDetector \<Rightarrow>
      (BoundaryError + BoundaryPhase) \<times> EpochBoundaryDetector" where
  "EpochBoundaryDetector_trigger_boundary sha old_epoch new_epoch self =
     (let phase = EpochBoundaryDetector_evaluate old_epoch self;
          advanced = EpochBoundaryDetector_peers_advanced old_epoch self;
          total_v = EpochBoundaryDetector_peers_total self
      in (let (result, log') = BoundaryLog_record sha old_epoch new_epoch phase advanced total_v
          (ebd_log self);
          self = self\<lparr>ebd_log := log'\<rparr>
      in case result of Inl err \<Rightarrow> (Inl err, self)
      | Inr _ \<Rightarrow> (Inr phase, self)))"

lemma boundary_bytes_inj:
  "boundary_bytes old_epoch new_epoch phase peers_advanced peers_total prev = boundary_bytes old_epoch'
      new_epoch' phase' peers_advanced' peers_total' prev' \<longleftrightarrow>
   prev = prev' \<and> old_epoch = old_epoch' \<and> new_epoch = new_epoch' \<and> peers_advanced =
       peers_advanced' \<and> peers_total = peers_total' \<and> (BoundaryPhase_phase_byte phase) =
       (BoundaryPhase_phase_byte phase')"
  by (auto simp: boundary_bytes_def enc_simps)

definition BoundaryEvent_committed :: "BoundaryEvent \<Rightarrow> u64 \<times> u64 \<times> u32
    \<times> u32 \<times> u8" where
  "BoundaryEvent_committed e =
     (be3_old_epoch e, be3_new_epoch e, be3_peers_advanced e, be3_peers_total e,
         BoundaryPhase_phase_byte (be3_phase e))"

interpretation epoch_boundary_detector: hash_log BoundaryEvent_bytes_of be3_prev_hash be3_event_hash
    BoundaryEvent_committed
  by unfold_locales (auto simp: BoundaryEvent_bytes_of_def BoundaryEvent_committed_def
      boundary_bytes_inj)

lemma epoch_boundary_detector_verify_iff: "BoundaryLog_verify_chain sha l = (True,
    None) \<longleftrightarrow> epoch_boundary_detector.ok sha (bl3_events l)"
  by (simp add: BoundaryLog_verify_chain_def verify_from_iff)

lemma build_boundary_event_linked:
  "be3_prev_hash (build_boundary_event sha old_epoch new_epoch phase peers_advanced peers_total
      prev_hash) = prev_hash"
  "be3_event_hash (build_boundary_event sha old_epoch new_epoch phase peers_advanced peers_total
      prev_hash) = sha (BoundaryEvent_bytes_of (build_boundary_event sha old_epoch new_epoch phase
      peers_advanced peers_total prev_hash))"
  by (simp_all add: build_boundary_event_def compute_boundary_hash_def BoundaryEvent_bytes_of_def
      Let_def split_def)

lemma boundary_log_record_ok: "epoch_boundary_detector.ok sha (bl3_events l) \<Longrightarrow>
    epoch_boundary_detector.ok sha (bl3_events (snd (BoundaryLog_record sha old_epoch new_epoch phase
    peers_advanced peers_total l)))"
  by (simp add: Let_def split_def BoundaryLog_record_def BoundaryLog_last_hash_def
      build_boundary_event_linked split: option.split sum.split)

end
