(* ===== verification/Epoch_Ledgers.thy ===== *)
theory Epoch_Ledgers
  imports Epoch_Log
begin

text \<open>
  What the mesh puts on record of an epoch: the votes and the watermark that move it on, the figures
  that are integrated and supervised, the seal and the certificates over ledgers, the audit of what is
  sealed, and the archive of snapshots with a bounded capacity.
\<close>

section \<open>Epoch Synchronizer: cross-peer epoch alignment + lag detection (Gate 260)\<close>

text \<open>
  \<open>epoch_synchronizer.rs\<close>. Compares the local epoch against peer epochs from beacon data
  to detect lag. Produces a SyncRecord describing alignment status and recommending action.
\<close>

datatype EpochAlignment = Synchronized | LocalLagging | LocalLeading | NoPeers

fun EpochAlignment_as_u8 :: "EpochAlignment \<Rightarrow> u8" where
  "EpochAlignment_as_u8 EpochAlignment.Synchronized = 0"
| "EpochAlignment_as_u8 EpochAlignment.LocalLagging = 1"
| "EpochAlignment_as_u8 EpochAlignment.LocalLeading = 2"
| "EpochAlignment_as_u8 EpochAlignment.NoPeers = 3"

lemma EpochAlignment_as_u8_inj [simp]: "EpochAlignment_as_u8 x = EpochAlignment_as_u8 y
    \<longleftrightarrow> x = y"
  by (cases x; cases y) auto

definition EpochAlignment_is_synchronized :: "EpochAlignment \<Rightarrow> bool" where
  "EpochAlignment_is_synchronized self \<longleftrightarrow>
     self = EpochAlignment.Synchronized"

definition EpochAlignment_needs_catchup :: "EpochAlignment \<Rightarrow> bool" where
  "EpochAlignment_needs_catchup self \<longleftrightarrow>
     self = EpochAlignment.LocalLagging"

record SyncRecord =
  sr5_local_epoch :: u64
  sr5_max_peer_epoch :: u64
  sr5_min_peer_epoch :: u64
  sr5_peer_count :: nat
  sr5_lag :: u64
  sr5_lead :: u64
  sr5_alignment :: EpochAlignment
  sr5_sync_hash :: hash
  sr5_prev_hash :: hash

definition SyncRecord_peer_spread :: "SyncRecord \<Rightarrow> u64" where
  "SyncRecord_peer_spread self =
     sat_sub (sr5_max_peer_epoch self) (sr5_min_peer_epoch self)"

definition sync_bytes ::
  "u64 \<Rightarrow> u64 \<Rightarrow> nat \<Rightarrow> hash \<Rightarrow> bytes" where
  "sync_bytes local_epoch max_peer_epoch peer_count prev_hash =
     hash_bytes prev_hash @ be8 local_epoch @ be8 max_peer_epoch @ be8 (of_nat peer_count :: u64)"

definition compute_sync_hash ::
  "sha \<Rightarrow> u64 \<Rightarrow> u64 \<Rightarrow> nat \<Rightarrow> hash \<Rightarrow> hash"
      where
  "compute_sync_hash sha local_epoch max_peer_epoch peer_count prev_hash =
     sha (sync_bytes local_epoch max_peer_epoch peer_count prev_hash)"

definition classify_alignment ::
  "u64 \<Rightarrow> u64 \<Rightarrow> nat \<Rightarrow> EpochAlignment \<times> u64 \<times> u64" where
  "classify_alignment local_epoch max_peer_epoch peer_count =
     (if peer_count = 0 then (EpochAlignment.NoPeers, 0, 0)
      else (let lag = sat_sub max_peer_epoch local_epoch;
          lead = sat_sub local_epoch max_peer_epoch;
          alignment = (if lag > 0 then EpochAlignment.LocalLagging else if lead > 0 then
            EpochAlignment.LocalLeading else EpochAlignment.Synchronized)
      in (alignment, lag, lead)))"

definition build_sync_record ::
  "sha \<Rightarrow> u64 \<Rightarrow> u64 list \<Rightarrow> hash \<Rightarrow> SyncRecord" where
  "build_sync_record sha local_epoch peer_epochs prev_hash =
     (let peer_count = length peer_epochs;
          max_peer_epoch = unwrap_or 0 (list_max peer_epochs);
          min_peer_epoch = unwrap_or 0 (list_min peer_epochs);
          (alignment, lag, lead) = classify_alignment local_epoch max_peer_epoch peer_count;
          sync_hash = compute_sync_hash sha local_epoch max_peer_epoch peer_count prev_hash
      in \<lparr>sr5_local_epoch = local_epoch, sr5_max_peer_epoch = max_peer_epoch,
          sr5_min_peer_epoch = min_peer_epoch, sr5_peer_count = peer_count, sr5_lag = lag,
          sr5_lead = lead, sr5_alignment = alignment, sr5_sync_hash = sync_hash,
          sr5_prev_hash = prev_hash\<rparr>)"

record SyncLog =
  sl5_records :: "SyncRecord list"

datatype SyncError = StaleEpoch

fun SyncError_as_u8 :: "SyncError \<Rightarrow> u8" where
  "SyncError_as_u8 SyncError.StaleEpoch = 0"

lemma SyncError_as_u8_inj [simp]: "SyncError_as_u8 x = SyncError_as_u8 y \<longleftrightarrow> x = y"
  by (cases x; cases y) auto

definition SyncLog_new :: "SyncLog" where
  "SyncLog_new =
     \<lparr>sl5_records = []\<rparr>"

definition SyncLog_latest :: "SyncLog \<Rightarrow> SyncRecord option" where
  "SyncLog_latest self =
     last_opt (sl5_records self)"

definition SyncLog_last_hash :: "SyncLog \<Rightarrow> hash" where
  "SyncLog_last_hash self =
     last_hash sr5_sync_hash (sl5_records self)"

definition SyncLog_record ::
  "sha \<Rightarrow> u64 \<Rightarrow> u64 list \<Rightarrow> SyncLog \<Rightarrow> (SyncError +
      SyncRecord) \<times> SyncLog" where
  "SyncLog_record sha local_epoch peer_epochs self =
     (if sl5_records self \<noteq> [] \<and> local_epoch < (sr5_local_epoch (last (sl5_records self)))
         then (Inl SyncError.StaleEpoch, self)
      else (let prev_hash = SyncLog_last_hash self;
          rec = build_sync_record sha local_epoch peer_epochs prev_hash;
          self = self\<lparr>sl5_records := (sl5_records self) @ [rec]\<rparr>
      in (Inr (last (sl5_records self)), self)))"

definition SyncLog_lag_count :: "SyncLog \<Rightarrow> nat" where
  "SyncLog_lag_count self =
     length (filter (\<lambda>r. EpochAlignment_needs_catchup (sr5_alignment r)) (sl5_records self))"

definition SyncLog_synchronized_count :: "SyncLog \<Rightarrow> nat" where
  "SyncLog_synchronized_count self =
     length (filter (\<lambda>r. EpochAlignment_is_synchronized (sr5_alignment r)) (sl5_records self))"

definition SyncLog_max_lag :: "SyncLog \<Rightarrow> u64" where
  "SyncLog_max_lag self =
     unwrap_or 0 (list_max (map sr5_lag (sl5_records self)))"

definition SyncRecord_bytes_of :: "SyncRecord \<Rightarrow> bytes" where
  "SyncRecord_bytes_of rec =
     sync_bytes (sr5_local_epoch rec) (sr5_max_peer_epoch rec) (sr5_peer_count rec) (sr5_prev_hash rec)"

definition SyncLog_verify_chain ::
  "sha \<Rightarrow> SyncLog \<Rightarrow> bool \<times> nat option" where
  "SyncLog_verify_chain sha self =
     verify_from sr5_prev_hash sr5_sync_hash (\<lambda>r. sha (SyncRecord_bytes_of r)) 0 genesis
         (sl5_records self)"

lemma sync_bytes_inj:
  "sync_bytes local_epoch max_peer_epoch peer_count prev_hash = sync_bytes local_epoch' max_peer_epoch'
      peer_count' prev_hash' \<longleftrightarrow>
   prev_hash = prev_hash' \<and> local_epoch = local_epoch' \<and> max_peer_epoch = max_peer_epoch'
       \<and> (of_nat peer_count :: u64) = (of_nat peer_count' :: u64)"
  by (auto simp: sync_bytes_def enc_simps)

definition SyncRecord_committed :: "SyncRecord \<Rightarrow> u64 \<times> u64 \<times> u64" where
  "SyncRecord_committed rec =
     (sr5_local_epoch rec, sr5_max_peer_epoch rec, of_nat (sr5_peer_count rec) :: u64)"

interpretation epoch_synchronizer: hash_log SyncRecord_bytes_of sr5_prev_hash sr5_sync_hash
    SyncRecord_committed
  by unfold_locales (auto simp: SyncRecord_bytes_of_def SyncRecord_committed_def sync_bytes_inj)

lemma epoch_synchronizer_verify_iff: "SyncLog_verify_chain sha l = (True,
    None) \<longleftrightarrow> epoch_synchronizer.ok sha (sl5_records l)"
  by (simp add: SyncLog_verify_chain_def verify_from_iff)

lemma build_sync_record_linked:
  "sr5_prev_hash (build_sync_record sha local_epoch peer_epochs prev_hash) = prev_hash"
  "sr5_sync_hash (build_sync_record sha local_epoch peer_epochs prev_hash) = sha (SyncRecord_bytes_of
      (build_sync_record sha local_epoch peer_epochs prev_hash))"
  by (simp_all add: build_sync_record_def compute_sync_hash_def SyncRecord_bytes_of_def Let_def
      split_def)

lemma sync_log_record_ok: "epoch_synchronizer.ok sha (sl5_records l) \<Longrightarrow>
    epoch_synchronizer.ok sha (sl5_records (snd (SyncLog_record sha local_epoch peer_epochs l)))"
  by (simp add: Let_def split_def SyncLog_record_def SyncLog_last_hash_def build_sync_record_linked
      split: option.split sum.split)

section \<open>Gossip Epoch Watermark: high-water-mark epoch tracking per peer (Gate 310)\<close>

text \<open>
  \<open>epoch_watermark.rs\<close>. Tracks the highest epoch observed from each peer. The watermark
  advances monotonically - it never moves backward. When a peer reports an epoch lower than the
  recorded watermark, it is classified as Stale. The global watermark is the minimum watermark across
  all tracked peers (the "consensus floor"). Watermark updates are hash-chained for audit.
\<close>

definition epoch_watermark_MAX_TRACKED_PEERS :: nat where
  "epoch_watermark_MAX_TRACKED_PEERS = 256"

datatype WatermarkEvent = Advance | Stale

fun WatermarkEvent_as_u8 :: "WatermarkEvent \<Rightarrow> u8" where
  "WatermarkEvent_as_u8 WatermarkEvent.Advance = 0"
| "WatermarkEvent_as_u8 WatermarkEvent.Stale = 1"

lemma WatermarkEvent_as_u8_inj [simp]: "WatermarkEvent_as_u8 x = WatermarkEvent_as_u8 y
    \<longleftrightarrow> x = y"
  by (cases x; cases y) auto

definition WatermarkEvent_event_byte :: "WatermarkEvent \<Rightarrow> u8" where
  "WatermarkEvent_event_byte self =
     WatermarkEvent_as_u8 self"

record WatermarkRecord =
  wr2_peer_id :: u32
  wr2_epoch :: u64
  wr2_previous_watermark :: u64
  wr2_new_watermark :: u64
  wr2_event :: WatermarkEvent
  wr2_record_hash :: hash
  wr2_prev_hash :: hash

definition watermark_bytes ::
  "u32 \<Rightarrow> u64 \<Rightarrow> u64 \<Rightarrow> u64 \<Rightarrow> WatermarkEvent \<Rightarrow>
      hash \<Rightarrow> bytes" where
  "watermark_bytes peer_id epoch previous_watermark new_watermark event prev =
     hash_bytes prev @ be4 peer_id @ be8 epoch @ be8 previous_watermark @ be8 new_watermark @
         [WatermarkEvent_event_byte event]"

definition compute_watermark_hash ::
  "sha \<Rightarrow> u32 \<Rightarrow> u64 \<Rightarrow> u64 \<Rightarrow> u64 \<Rightarrow>
      WatermarkEvent \<Rightarrow> hash \<Rightarrow> hash" where
  "compute_watermark_hash sha peer_id epoch previous_watermark new_watermark event prev =
     sha (watermark_bytes peer_id epoch previous_watermark new_watermark event prev)"

definition build_watermark_record ::
  "sha \<Rightarrow> u32 \<Rightarrow> u64 \<Rightarrow> u64 \<Rightarrow> u64 \<Rightarrow>
      WatermarkEvent \<Rightarrow> hash \<Rightarrow> WatermarkRecord" where
  "build_watermark_record sha peer_id epoch previous_watermark new_watermark event prev_hash =
     (let record_hash = compute_watermark_hash sha peer_id epoch previous_watermark new_watermark event
         prev_hash
      in \<lparr>wr2_peer_id = peer_id, wr2_epoch = epoch, wr2_previous_watermark = previous_watermark,
          wr2_new_watermark = new_watermark, wr2_event = event, wr2_record_hash = record_hash,
          wr2_prev_hash = prev_hash\<rparr>)"

record WatermarkLog =
  wl_records :: "WatermarkRecord list"

definition WatermarkLog_new :: "WatermarkLog" where
  "WatermarkLog_new =
     \<lparr>wl_records = []\<rparr>"

definition WatermarkLog_last_hash :: "WatermarkLog \<Rightarrow> hash" where
  "WatermarkLog_last_hash self =
     last_hash wr2_record_hash (wl_records self)"

definition WatermarkLog_push ::
  "sha \<Rightarrow> u32 \<Rightarrow> u64 \<Rightarrow> u64 \<Rightarrow> u64 \<Rightarrow>
      WatermarkEvent \<Rightarrow> WatermarkLog \<Rightarrow> WatermarkRecord \<times> WatermarkLog"
      where
  "WatermarkLog_push sha peer_id epoch previous_watermark new_watermark event self =
     (let prev = WatermarkLog_last_hash self;
          r = build_watermark_record sha peer_id epoch previous_watermark new_watermark event prev;
          self = self\<lparr>wl_records := (wl_records self) @ [r]\<rparr>
      in (last (wl_records self), self))"

definition WatermarkLog_advance_count :: "WatermarkLog \<Rightarrow> nat" where
  "WatermarkLog_advance_count self =
     length (filter (\<lambda>r. (wr2_event r) = WatermarkEvent.Advance) (wl_records self))"

definition WatermarkLog_stale_count :: "WatermarkLog \<Rightarrow> nat" where
  "WatermarkLog_stale_count self =
     length (filter (\<lambda>r. (wr2_event r) = WatermarkEvent.Stale) (wl_records self))"

definition WatermarkRecord_bytes_of :: "WatermarkRecord \<Rightarrow> bytes" where
  "WatermarkRecord_bytes_of r =
     watermark_bytes (wr2_peer_id r) (wr2_epoch r) (wr2_previous_watermark r) (wr2_new_watermark r)
         (wr2_event r) (wr2_prev_hash r)"

definition WatermarkLog_verify_chain ::
  "sha \<Rightarrow> WatermarkLog \<Rightarrow> bool \<times> nat option" where
  "WatermarkLog_verify_chain sha self =
     verify_from wr2_prev_hash wr2_record_hash (\<lambda>r. sha (WatermarkRecord_bytes_of r)) 0 genesis
         (wl_records self)"

datatype WatermarkError = TooManyPeers

fun WatermarkError_as_u8 :: "WatermarkError \<Rightarrow> u8" where
  "WatermarkError_as_u8 WatermarkError.TooManyPeers = 0"

lemma WatermarkError_as_u8_inj [simp]: "WatermarkError_as_u8 x = WatermarkError_as_u8 y
    \<longleftrightarrow> x = y"
  by (cases x; cases y) auto

record EpochWatermark =
  ew_watermarks :: "(u32, u64) btmap"
  ew_log :: WatermarkLog

definition EpochWatermark_new :: "EpochWatermark" where
  "EpochWatermark_new =
     \<lparr>ew_watermarks = bt_empty, ew_log = WatermarkLog_new\<rparr>"

definition EpochWatermark_update ::
  "sha \<Rightarrow> u32 \<Rightarrow> u64 \<Rightarrow> EpochWatermark \<Rightarrow> (WatermarkError +
      WatermarkEvent) \<times> EpochWatermark" where
  "EpochWatermark_update sha peer_id epoch self =
     (let prev_wm = unwrap_or 0 (bt_get (ew_watermarks self) peer_id)
      in if epoch > prev_wm then (if \<not> (bt_has (ew_watermarks self) peer_id) \<and> (bt_len
          (ew_watermarks self)) \<ge> epoch_watermark_MAX_TRACKED_PEERS then (Inl
          WatermarkError.TooManyPeers, self)
      else (let self = self\<lparr>ew_watermarks := bt_insert peer_id epoch (ew_watermarks
          self)\<rparr>;
          self = self\<lparr>ew_log := snd (WatermarkLog_push sha peer_id epoch prev_wm epoch
            WatermarkEvent.Advance (ew_log self))\<rparr>
      in (Inr WatermarkEvent.Advance, self)))
      else (let self = self\<lparr>ew_log := snd (WatermarkLog_push sha peer_id epoch prev_wm prev_wm
          WatermarkEvent.Stale (ew_log self))\<rparr>
      in (Inr WatermarkEvent.Stale, self)))"

definition EpochWatermark_watermark :: "u32 \<Rightarrow> EpochWatermark \<Rightarrow> u64 option" where
  "EpochWatermark_watermark peer_id self =
     bt_get (ew_watermarks self) peer_id"

definition EpochWatermark_global_floor :: "EpochWatermark \<Rightarrow> u64 option" where
  "EpochWatermark_global_floor self =
     list_min (bt_values (ew_watermarks self))"

definition EpochWatermark_peers_at_or_above ::
  "u64 \<Rightarrow> EpochWatermark \<Rightarrow> nat" where
  "EpochWatermark_peers_at_or_above epoch self =
     length (filter (\<lambda>wm. wm \<ge> epoch) (bt_values (ew_watermarks self)))"

definition EpochWatermark_tracked_count :: "EpochWatermark \<Rightarrow> nat" where
  "EpochWatermark_tracked_count self =
     bt_len (ew_watermarks self)"

lemma watermark_bytes_inj:
  "watermark_bytes peer_id epoch previous_watermark new_watermark event prev = watermark_bytes peer_id'
      epoch' previous_watermark' new_watermark' event' prev' \<longleftrightarrow>
   prev = prev' \<and> peer_id = peer_id' \<and> epoch = epoch' \<and> previous_watermark =
       previous_watermark' \<and> new_watermark = new_watermark' \<and> (WatermarkEvent_event_byte
       event) = (WatermarkEvent_event_byte event')"
  by (auto simp: watermark_bytes_def enc_simps)

definition WatermarkRecord_committed :: "WatermarkRecord \<Rightarrow> u32 \<times> u64 \<times> u64
    \<times> u64 \<times> u8" where
  "WatermarkRecord_committed r =
     (wr2_peer_id r, wr2_epoch r, wr2_previous_watermark r, wr2_new_watermark r,
         WatermarkEvent_event_byte (wr2_event r))"

interpretation epoch_watermark: hash_log WatermarkRecord_bytes_of wr2_prev_hash wr2_record_hash
    WatermarkRecord_committed
  by unfold_locales (auto simp: WatermarkRecord_bytes_of_def WatermarkRecord_committed_def
      watermark_bytes_inj)

lemma epoch_watermark_verify_iff: "WatermarkLog_verify_chain sha l = (True,
    None) \<longleftrightarrow> epoch_watermark.ok sha (wl_records l)"
  by (simp add: WatermarkLog_verify_chain_def verify_from_iff)

lemma build_watermark_record_linked:
  "wr2_prev_hash (build_watermark_record sha peer_id epoch previous_watermark new_watermark event
      prev_hash) = prev_hash"
  "wr2_record_hash (build_watermark_record sha peer_id epoch previous_watermark new_watermark event
      prev_hash) = sha (WatermarkRecord_bytes_of (build_watermark_record sha peer_id epoch
      previous_watermark new_watermark event prev_hash))"
  by (simp_all add: build_watermark_record_def compute_watermark_hash_def WatermarkRecord_bytes_of_def
      Let_def split_def)

lemma watermark_log_push_ok: "epoch_watermark.ok sha (wl_records l) \<Longrightarrow> epoch_watermark.ok
    sha (wl_records (snd (WatermarkLog_push sha peer_id epoch previous_watermark new_watermark event
    l)))"
  by (simp add: Let_def split_def WatermarkLog_push_def WatermarkLog_last_hash_def
      build_watermark_record_linked split: option.split sum.split)

section \<open>Gossip Epoch Integrator: cross-subsystem epoch close coordination (Gate 292)\<close>

text \<open>
  \<open>epoch_integrator.rs\<close>. At epoch close, collects summary statistics from the gossip
  protection subsystems and produces a single tamper-evident EpochIntegrationRecord that captures the
  joint state of: flood guard, TTL enforcer, bandwidth tracker, epoch auditor, rate limiter, and
  reputation decay subsystems.
\<close>

record EpochIntegrationInput =
  eii_epoch :: u64
  eii_flood_banned_count :: u32
  eii_flood_dropped :: u64
  eii_ttl_expired :: u64
  eii_ttl_inflated :: u64
  eii_bw_denied_peers :: u32
  eii_audit_consistent :: bool
  eii_rate_limited_count :: u32
  eii_decayed_peers :: u32

definition compute_health_score :: "EpochIntegrationInput \<Rightarrow> u8" where
  "compute_health_score input =
     (let penalty = 0;
          penalty = (if (eii_flood_banned_count input) > 0 then (let penalty = sat_add penalty 20
      in penalty)
      else penalty);
          penalty = (if (eii_ttl_inflated input) > 0 then (let penalty = sat_add penalty 15
      in penalty)
      else penalty);
          penalty = (if \<not> (eii_audit_consistent input) then (let penalty = sat_add penalty 30
      in penalty)
      else penalty);
          penalty = (if (eii_bw_denied_peers input) > 3 then (let penalty = sat_add penalty 15
      in penalty)
      else penalty)
      in sat_sub 100 penalty)"

record EpochIntegrationRecord =
  eir_epoch :: u64
  eir_flood_banned_count :: u32
  eir_flood_dropped :: u64
  eir_ttl_expired :: u64
  eir_ttl_inflated :: u64
  eir_bw_denied_peers :: u32
  eir_audit_consistent :: bool
  eir_rate_limited_count :: u32
  eir_decayed_peers :: u32
  eir_health_score :: u8
  eir_record_hash :: hash
  eir_prev_hash :: hash

definition integration_bytes ::
  "u64 \<Rightarrow> u32 \<Rightarrow> u64 \<Rightarrow> u64 \<Rightarrow> u64 \<Rightarrow> u32
      \<Rightarrow> bool \<Rightarrow> u32 \<Rightarrow> u32 \<Rightarrow> u8 \<Rightarrow> hash
      \<Rightarrow> bytes" where
  "integration_bytes epoch flood_banned_count flood_dropped ttl_expired ttl_inflated bw_denied_peers
      audit_consistent rate_limited_count decayed_peers health_score prev =
     hash_bytes prev @ be8 epoch @ be4 flood_banned_count @ be8 flood_dropped @ be8 ttl_expired @
         be8 ttl_inflated @ be4 bw_denied_peers @ [of_bool audit_consistent] @ be4 rate_limited_count @
         be4 decayed_peers @ [health_score]"

definition compute_integration_hash ::
  "sha \<Rightarrow> u64 \<Rightarrow> u32 \<Rightarrow> u64 \<Rightarrow> u64 \<Rightarrow> u64
      \<Rightarrow> u32 \<Rightarrow> bool \<Rightarrow> u32 \<Rightarrow> u32 \<Rightarrow> u8
      \<Rightarrow> hash \<Rightarrow> hash" where
  "compute_integration_hash sha epoch flood_banned_count flood_dropped ttl_expired ttl_inflated
      bw_denied_peers audit_consistent rate_limited_count decayed_peers health_score prev =
     sha (integration_bytes epoch flood_banned_count flood_dropped ttl_expired ttl_inflated
         bw_denied_peers audit_consistent rate_limited_count decayed_peers health_score prev)"

definition build_integration_record ::
  "sha \<Rightarrow> EpochIntegrationInput \<Rightarrow> hash \<Rightarrow> EpochIntegrationRecord"
      where
  "build_integration_record sha input prev_hash =
     (let health_score = compute_health_score input;
          record_hash = compute_integration_hash sha (eii_epoch input) (eii_flood_banned_count input)
            (eii_flood_dropped input) (eii_ttl_expired input) (eii_ttl_inflated input)
            (eii_bw_denied_peers input) (eii_audit_consistent input) (eii_rate_limited_count input)
            (eii_decayed_peers input) health_score prev_hash
      in \<lparr>eir_epoch = eii_epoch input, eir_flood_banned_count = eii_flood_banned_count input,
          eir_flood_dropped = eii_flood_dropped input, eir_ttl_expired = eii_ttl_expired input,
          eir_ttl_inflated = eii_ttl_inflated input, eir_bw_denied_peers = eii_bw_denied_peers input,
          eir_audit_consistent = eii_audit_consistent input, eir_rate_limited_count =
          eii_rate_limited_count input, eir_decayed_peers = eii_decayed_peers input,
          eir_health_score = health_score, eir_record_hash = record_hash,
          eir_prev_hash = prev_hash\<rparr>)"

record IntegrationChain =
  ic_records :: "EpochIntegrationRecord list"

datatype IntegrationError = StaleEpoch

fun IntegrationError_as_u8 :: "IntegrationError \<Rightarrow> u8" where
  "IntegrationError_as_u8 IntegrationError.StaleEpoch = 0"

lemma IntegrationError_as_u8_inj [simp]: "IntegrationError_as_u8 x = IntegrationError_as_u8 y
    \<longleftrightarrow> x = y"
  by (cases x; cases y) auto

definition IntegrationChain_new :: "IntegrationChain" where
  "IntegrationChain_new =
     \<lparr>ic_records = []\<rparr>"

definition IntegrationChain_latest ::
  "IntegrationChain \<Rightarrow> EpochIntegrationRecord option" where
  "IntegrationChain_latest self =
     last_opt (ic_records self)"

definition IntegrationChain_last_hash :: "IntegrationChain \<Rightarrow> hash" where
  "IntegrationChain_last_hash self =
     last_hash eir_record_hash (ic_records self)"

definition IntegrationChain_terminal_hash :: "IntegrationChain \<Rightarrow> hash option" where
  "IntegrationChain_terminal_hash self =
     map_option eir_record_hash (last_opt (ic_records self))"

definition IntegrationChain_append ::
  "sha \<Rightarrow> EpochIntegrationInput \<Rightarrow> IntegrationChain \<Rightarrow>
      (IntegrationError + EpochIntegrationRecord) \<times> IntegrationChain" where
  "IntegrationChain_append sha input self =
     (if ic_records self \<noteq> [] \<and> (eii_epoch input) \<le> (eir_epoch (last (ic_records self)))
         then (Inl IntegrationError.StaleEpoch, self)
      else (let prev = IntegrationChain_last_hash self;
          r = build_integration_record sha input prev;
          self = self\<lparr>ic_records := (ic_records self) @ [r]\<rparr>
      in (Inr (last (ic_records self)), self)))"

definition IntegrationChain_healthy_epoch_count :: "IntegrationChain \<Rightarrow> nat" where
  "IntegrationChain_healthy_epoch_count self =
     length (filter (\<lambda>r. (eir_health_score r) \<ge> 80) (ic_records self))"

definition IntegrationChain_degraded_epoch_count :: "IntegrationChain \<Rightarrow> nat" where
  "IntegrationChain_degraded_epoch_count self =
     length (filter (\<lambda>r. (eir_health_score r) < 80) (ic_records self))"

definition IntegrationChain_avg_health_score :: "IntegrationChain \<Rightarrow> u8" where
  "IntegrationChain_avg_health_score self =
     (if (ic_records self) = [] then 0
      else (let sum_v = sum_list (map (\<lambda>r. (ucast (eir_health_score r) :: u32)) (ic_records
          self))
      in (ucast (sum_v div (of_nat (length (ic_records self)) :: u32)) :: u8)))"

definition EpochIntegrationRecord_bytes_of :: "EpochIntegrationRecord \<Rightarrow> bytes" where
  "EpochIntegrationRecord_bytes_of r =
     integration_bytes (eir_epoch r) (eir_flood_banned_count r) (eir_flood_dropped r) (eir_ttl_expired
         r) (eir_ttl_inflated r) (eir_bw_denied_peers r) (eir_audit_consistent r)
         (eir_rate_limited_count r) (eir_decayed_peers r) (eir_health_score r) (eir_prev_hash r)"

definition IntegrationChain_verify_chain ::
  "sha \<Rightarrow> IntegrationChain \<Rightarrow> bool \<times> nat option" where
  "IntegrationChain_verify_chain sha self =
     verify_from eir_prev_hash eir_record_hash (\<lambda>r. sha (EpochIntegrationRecord_bytes_of r)) 0
         genesis (ic_records self)"

lemma integration_bytes_inj:
  "integration_bytes epoch flood_banned_count flood_dropped ttl_expired ttl_inflated bw_denied_peers
      audit_consistent rate_limited_count decayed_peers health_score prev = integration_bytes epoch'
      flood_banned_count' flood_dropped' ttl_expired' ttl_inflated' bw_denied_peers' audit_consistent'
      rate_limited_count' decayed_peers' health_score' prev' \<longleftrightarrow>
   prev = prev' \<and> epoch = epoch' \<and> flood_banned_count = flood_banned_count' \<and>
       flood_dropped = flood_dropped' \<and> ttl_expired = ttl_expired' \<and> ttl_inflated =
       ttl_inflated' \<and> bw_denied_peers = bw_denied_peers' \<and> audit_consistent =
       audit_consistent' \<and> rate_limited_count = rate_limited_count' \<and> decayed_peers =
       decayed_peers' \<and> health_score = health_score'"
  by (auto simp: integration_bytes_def enc_simps)

definition EpochIntegrationRecord_committed :: "EpochIntegrationRecord \<Rightarrow> u64 \<times> u32
    \<times> u64 \<times> u64 \<times> u64 \<times> u32 \<times> bool \<times> u32 \<times> u32 \<times>
    u8" where
  "EpochIntegrationRecord_committed r =
     (eir_epoch r, eir_flood_banned_count r, eir_flood_dropped r, eir_ttl_expired r, eir_ttl_inflated r,
         eir_bw_denied_peers r, eir_audit_consistent r, eir_rate_limited_count r, eir_decayed_peers r,
         eir_health_score r)"

interpretation epoch_integrator: hash_log EpochIntegrationRecord_bytes_of eir_prev_hash eir_record_hash
    EpochIntegrationRecord_committed
  by unfold_locales (auto simp: EpochIntegrationRecord_bytes_of_def EpochIntegrationRecord_committed_def
      integration_bytes_inj)

lemma epoch_integrator_verify_iff: "IntegrationChain_verify_chain sha l = (True,
    None) \<longleftrightarrow> epoch_integrator.ok sha (ic_records l)"
  by (simp add: IntegrationChain_verify_chain_def verify_from_iff)

lemma build_integration_record_linked:
  "eir_prev_hash (build_integration_record sha input prev_hash) = prev_hash"
  "eir_record_hash (build_integration_record sha input prev_hash) = sha (EpochIntegrationRecord_bytes_of
      (build_integration_record sha input prev_hash))"
  by (simp_all add: build_integration_record_def compute_integration_hash_def
      EpochIntegrationRecord_bytes_of_def Let_def split_def)

lemma integration_chain_append_ok: "epoch_integrator.ok sha (ic_records l) \<Longrightarrow>
    epoch_integrator.ok sha (ic_records (snd (IntegrationChain_append sha input l)))"
  by (simp add: Let_def split_def IntegrationChain_append_def IntegrationChain_last_hash_def
      IntegrationChain_terminal_hash_def build_integration_record_linked split: option.split sum.split)

section \<open>Gossip Mesh Supervisor: epoch-level gossip subsystem snapshot (Gate 279)\<close>

text \<open>
  \<open>mesh_supervisor.rs\<close>. Binds the outputs of the gossip mesh subsystems into a single
  per-epoch supervision record. Provides a tamper-evident hash over all subsystem states at epoch
  boundary.
\<close>

record MeshSupervisionRecord =
  msr_epoch :: u64
  msr_fanout :: u8
  msr_drop_count :: u32
  msr_spread_reach_pct :: u8
  msr_quorum_reachable :: bool
  msr_avg_reputation :: u8
  msr_blocked_peer_count :: u16
  msr_trusted_peer_count :: u16
  msr_pending_queue_len :: u32
  msr_supervision_hash :: hash
  msr_prev_hash :: hash

definition supervision_bytes ::
  "u64 \<Rightarrow> u8 \<Rightarrow> u32 \<Rightarrow> u8 \<Rightarrow> bool \<Rightarrow> u8
      \<Rightarrow> u16 \<Rightarrow> u16 \<Rightarrow> u32 \<Rightarrow> hash \<Rightarrow> bytes"
      where
  "supervision_bytes epoch fanout drop_count spread_reach_pct quorum_reachable avg_reputation
      blocked_peer_count trusted_peer_count pending_queue_len prev =
     hash_bytes prev @ be8 epoch @ [fanout] @ be4 drop_count @ [spread_reach_pct] @
         [of_bool quorum_reachable] @ [avg_reputation] @ be2 blocked_peer_count @
         be2 trusted_peer_count @ be4 pending_queue_len"

definition compute_supervision_hash ::
  "sha \<Rightarrow> u64 \<Rightarrow> u8 \<Rightarrow> u32 \<Rightarrow> u8 \<Rightarrow> bool
      \<Rightarrow> u8 \<Rightarrow> u16 \<Rightarrow> u16 \<Rightarrow> u32 \<Rightarrow> hash
      \<Rightarrow> hash" where
  "compute_supervision_hash sha epoch fanout drop_count spread_reach_pct quorum_reachable avg_reputation
      blocked_peer_count trusted_peer_count pending_queue_len prev =
     sha (supervision_bytes epoch fanout drop_count spread_reach_pct quorum_reachable avg_reputation
         blocked_peer_count trusted_peer_count pending_queue_len prev)"

definition build_supervision_record ::
  "sha \<Rightarrow> u64 \<Rightarrow> u8 \<Rightarrow> u32 \<Rightarrow> u8 \<Rightarrow> bool
      \<Rightarrow> u8 \<Rightarrow> u16 \<Rightarrow> u16 \<Rightarrow> u32 \<Rightarrow> hash
      \<Rightarrow> MeshSupervisionRecord" where
  "build_supervision_record sha epoch fanout drop_count spread_reach_pct quorum_reachable avg_reputation
      blocked_peer_count trusted_peer_count pending_queue_len prev_hash =
     (let supervision_hash = compute_supervision_hash sha epoch fanout drop_count spread_reach_pct
         quorum_reachable avg_reputation blocked_peer_count trusted_peer_count pending_queue_len
         prev_hash
      in \<lparr>msr_epoch = epoch, msr_fanout = fanout, msr_drop_count = drop_count,
          msr_spread_reach_pct = spread_reach_pct, msr_quorum_reachable = quorum_reachable,
          msr_avg_reputation = avg_reputation, msr_blocked_peer_count = blocked_peer_count,
          msr_trusted_peer_count = trusted_peer_count, msr_pending_queue_len = pending_queue_len,
          msr_supervision_hash = supervision_hash, msr_prev_hash = prev_hash\<rparr>)"

definition MeshSupervisionRecord_mesh_healthy :: "MeshSupervisionRecord \<Rightarrow> bool" where
  "MeshSupervisionRecord_mesh_healthy self \<longleftrightarrow>
     msr_quorum_reachable self \<and> (msr_spread_reach_pct self) \<ge> 50 \<and>
         (msr_blocked_peer_count self) = 0"

definition MeshSupervisionRecord_backpressure_alert :: "MeshSupervisionRecord \<Rightarrow> bool" where
  "MeshSupervisionRecord_backpressure_alert self \<longleftrightarrow>
     (msr_drop_count self) > 10"

record MeshSupervisionLog =
  msl_records :: "MeshSupervisionRecord list"

datatype SupervisionError = StaleEpoch

fun SupervisionError_as_u8 :: "SupervisionError \<Rightarrow> u8" where
  "SupervisionError_as_u8 SupervisionError.StaleEpoch = 0"

lemma SupervisionError_as_u8_inj [simp]: "SupervisionError_as_u8 x = SupervisionError_as_u8 y
    \<longleftrightarrow> x = y"
  by (cases x; cases y) auto

definition MeshSupervisionLog_new :: "MeshSupervisionLog" where
  "MeshSupervisionLog_new =
     \<lparr>msl_records = []\<rparr>"

definition MeshSupervisionLog_latest ::
  "MeshSupervisionLog \<Rightarrow> MeshSupervisionRecord option" where
  "MeshSupervisionLog_latest self =
     last_opt (msl_records self)"

definition MeshSupervisionLog_last_hash :: "MeshSupervisionLog \<Rightarrow> hash" where
  "MeshSupervisionLog_last_hash self =
     last_hash msr_supervision_hash (msl_records self)"

definition MeshSupervisionLog_append ::
  "sha \<Rightarrow> u64 \<Rightarrow> u8 \<Rightarrow> u32 \<Rightarrow> u8 \<Rightarrow> bool
      \<Rightarrow> u8 \<Rightarrow> u16 \<Rightarrow> u16 \<Rightarrow> u32 \<Rightarrow>
      MeshSupervisionLog \<Rightarrow> (SupervisionError + MeshSupervisionRecord) \<times>
      MeshSupervisionLog" where
  "MeshSupervisionLog_append sha epoch fanout drop_count spread_reach_pct quorum_reachable
      avg_reputation blocked_peer_count trusted_peer_count pending_queue_len self =
     (if msl_records self \<noteq> [] \<and> epoch \<le> (msr_epoch (last (msl_records self))) then (Inl
         SupervisionError.StaleEpoch, self)
      else (let prev_hash = MeshSupervisionLog_last_hash self;
          r = build_supervision_record sha epoch fanout drop_count spread_reach_pct quorum_reachable
            avg_reputation blocked_peer_count trusted_peer_count pending_queue_len prev_hash;
          self = self\<lparr>msl_records := (msl_records self) @ [r]\<rparr>
      in (Inr (last (msl_records self)), self)))"

definition MeshSupervisionLog_min_reach_pct :: "MeshSupervisionLog \<Rightarrow> u8" where
  "MeshSupervisionLog_min_reach_pct self =
     unwrap_or 0 (list_min (map msr_spread_reach_pct (msl_records self)))"

definition MeshSupervisionLog_max_drop_count :: "MeshSupervisionLog \<Rightarrow> u32" where
  "MeshSupervisionLog_max_drop_count self =
     unwrap_or 0 (list_max (map msr_drop_count (msl_records self)))"

definition MeshSupervisionLog_quorum_loss_epochs :: "MeshSupervisionLog \<Rightarrow> nat" where
  "MeshSupervisionLog_quorum_loss_epochs self =
     length (filter (\<lambda>r. \<not> (msr_quorum_reachable r)) (msl_records self))"

definition MeshSupervisionLog_healthy_epoch_count :: "MeshSupervisionLog \<Rightarrow> nat" where
  "MeshSupervisionLog_healthy_epoch_count self =
     length (filter MeshSupervisionRecord_mesh_healthy (msl_records self))"

definition MeshSupervisionRecord_bytes_of :: "MeshSupervisionRecord \<Rightarrow> bytes" where
  "MeshSupervisionRecord_bytes_of r =
     supervision_bytes (msr_epoch r) (msr_fanout r) (msr_drop_count r) (msr_spread_reach_pct r)
         (msr_quorum_reachable r) (msr_avg_reputation r) (msr_blocked_peer_count r)
         (msr_trusted_peer_count r) (msr_pending_queue_len r) (msr_prev_hash r)"

definition MeshSupervisionLog_verify_chain ::
  "sha \<Rightarrow> MeshSupervisionLog \<Rightarrow> bool \<times> nat option" where
  "MeshSupervisionLog_verify_chain sha self =
     verify_from msr_prev_hash msr_supervision_hash (\<lambda>r. sha (MeshSupervisionRecord_bytes_of r))
         0 genesis (msl_records self)"

lemma supervision_bytes_inj:
  "supervision_bytes epoch fanout drop_count spread_reach_pct quorum_reachable avg_reputation
      blocked_peer_count trusted_peer_count pending_queue_len prev = supervision_bytes epoch' fanout'
      drop_count' spread_reach_pct' quorum_reachable' avg_reputation' blocked_peer_count'
      trusted_peer_count' pending_queue_len' prev' \<longleftrightarrow>
   prev = prev' \<and> epoch = epoch' \<and> fanout = fanout' \<and> drop_count = drop_count' \<and>
       spread_reach_pct = spread_reach_pct' \<and> quorum_reachable = quorum_reachable' \<and>
       avg_reputation = avg_reputation' \<and> blocked_peer_count = blocked_peer_count' \<and>
       trusted_peer_count = trusted_peer_count' \<and> pending_queue_len = pending_queue_len'"
  by (auto simp: supervision_bytes_def enc_simps)

definition MeshSupervisionRecord_committed :: "MeshSupervisionRecord \<Rightarrow> u64 \<times> u8
    \<times> u32 \<times> u8 \<times> bool \<times> u8 \<times> u16 \<times> u16 \<times> u32" where
  "MeshSupervisionRecord_committed r =
     (msr_epoch r, msr_fanout r, msr_drop_count r, msr_spread_reach_pct r, msr_quorum_reachable r,
         msr_avg_reputation r, msr_blocked_peer_count r, msr_trusted_peer_count r,
         msr_pending_queue_len r)"

interpretation mesh_supervisor: rising_log MeshSupervisionRecord_bytes_of msr_prev_hash
    msr_supervision_hash MeshSupervisionRecord_committed
  "\<lambda>sha (epoch, fanout, drop_count, spread_reach_pct, quorum_reachable, avg_reputation,
      blocked_peer_count, trusted_peer_count, pending_queue_len) l. MeshSupervisionLog_append sha epoch
      fanout drop_count spread_reach_pct quorum_reachable avg_reputation blocked_peer_count
      trusted_peer_count pending_queue_len l"
  msl_records MeshSupervisionLog_new "\<lambda>c. c" "\<lambda>(epoch, _, _, _, _, _, _, _, _). epoch"
  by unfold_locales (auto simp: MeshSupervisionLog_append_def compute_supervision_hash_def
      MeshSupervisionLog_new_def Let_def MeshSupervisionRecord_bytes_of_def
      MeshSupervisionRecord_committed_def supervision_bytes_inj build_supervision_record_def
      MeshSupervisionLog_last_hash_def)

lemma mesh_supervisor_verify_iff: "MeshSupervisionLog_verify_chain sha l = (True,
    None) \<longleftrightarrow> mesh_supervisor.ok sha (msl_records l)"
  by (simp add: MeshSupervisionLog_verify_chain_def verify_from_iff)

section \<open>Mesh Ledger: cross-module tamper-evident epoch ledger (Gate 268)\<close>

text \<open>
  \<open>mesh_ledger.rs\<close>. Binds the hashes from census, fault, recovery, quorum, and ticker
  modules into a single hash-chained MeshEntry per epoch. Provides a unified audit trail across all
  gossip mesh health subsystems.
\<close>

record MeshEntry =
  me_epoch :: u64
  me_census_hash :: hash
  me_fault_hash :: hash
  me_plan_hash :: hash
  me_quorum_hash :: hash
  me_ticker_hash :: hash
  me_entry_hash :: hash
  me_prev_hash :: hash

definition mesh_ledger_entry_bytes ::
  "u64 \<Rightarrow> hash \<Rightarrow> hash \<Rightarrow> hash \<Rightarrow> hash \<Rightarrow> hash
      \<Rightarrow> hash \<Rightarrow> bytes" where
  "mesh_ledger_entry_bytes epoch census_hash fault_hash plan_hash quorum_hash ticker_hash prev =
     hash_bytes prev @ be8 epoch @ hash_bytes census_hash @ hash_bytes fault_hash @
         hash_bytes plan_hash @ hash_bytes quorum_hash @ hash_bytes ticker_hash"

definition mesh_ledger_compute_entry_hash ::
  "sha \<Rightarrow> u64 \<Rightarrow> hash \<Rightarrow> hash \<Rightarrow> hash \<Rightarrow> hash
      \<Rightarrow> hash \<Rightarrow> hash \<Rightarrow> hash" where
  "mesh_ledger_compute_entry_hash sha epoch census_hash fault_hash plan_hash quorum_hash ticker_hash
      prev =
     sha (mesh_ledger_entry_bytes epoch census_hash fault_hash plan_hash quorum_hash ticker_hash prev)"

definition build_entry ::
  "sha \<Rightarrow> u64 \<Rightarrow> hash \<Rightarrow> hash \<Rightarrow> hash \<Rightarrow> hash
      \<Rightarrow> hash \<Rightarrow> hash \<Rightarrow> MeshEntry" where
  "build_entry sha epoch census_hash fault_hash plan_hash quorum_hash ticker_hash prev_hash =
     (let entry_hash = mesh_ledger_compute_entry_hash sha epoch census_hash fault_hash plan_hash
         quorum_hash ticker_hash prev_hash
      in \<lparr>me_epoch = epoch, me_census_hash = census_hash, me_fault_hash = fault_hash,
          me_plan_hash = plan_hash, me_quorum_hash = quorum_hash, me_ticker_hash = ticker_hash,
          me_entry_hash = entry_hash, me_prev_hash = prev_hash\<rparr>)"

record MeshLedger =
  ml2_entries :: "MeshEntry list"

datatype MeshLedgerError = StaleEpoch

fun MeshLedgerError_as_u8 :: "MeshLedgerError \<Rightarrow> u8" where
  "MeshLedgerError_as_u8 MeshLedgerError.StaleEpoch = 0"

lemma MeshLedgerError_as_u8_inj [simp]: "MeshLedgerError_as_u8 x = MeshLedgerError_as_u8 y
    \<longleftrightarrow> x = y"
  by (cases x; cases y) auto

definition MeshLedger_new :: "MeshLedger" where
  "MeshLedger_new =
     \<lparr>ml2_entries = []\<rparr>"

definition MeshLedger_latest :: "MeshLedger \<Rightarrow> MeshEntry option" where
  "MeshLedger_latest self =
     last_opt (ml2_entries self)"

definition MeshLedger_last_hash :: "MeshLedger \<Rightarrow> hash" where
  "MeshLedger_last_hash self =
     last_hash me_entry_hash (ml2_entries self)"

definition MeshLedger_terminal_hash :: "MeshLedger \<Rightarrow> hash" where
  "MeshLedger_terminal_hash self =
     MeshLedger_last_hash self"

definition MeshLedger_append ::
  "sha \<Rightarrow> u64 \<Rightarrow> hash \<Rightarrow> hash \<Rightarrow> hash \<Rightarrow> hash
      \<Rightarrow> hash \<Rightarrow> MeshLedger \<Rightarrow> (MeshLedgerError + MeshEntry) \<times>
      MeshLedger" where
  "MeshLedger_append sha epoch census_hash fault_hash plan_hash quorum_hash ticker_hash self =
     (if ml2_entries self \<noteq> [] \<and> epoch \<le> (me_epoch (last (ml2_entries self))) then (Inl
         MeshLedgerError.StaleEpoch, self)
      else (let prev_hash = MeshLedger_last_hash self;
          entry = build_entry sha epoch census_hash fault_hash plan_hash quorum_hash ticker_hash
            prev_hash;
          self = self\<lparr>ml2_entries := (ml2_entries self) @ [entry]\<rparr>
      in (Inr (last (ml2_entries self)), self)))"

definition MeshLedger_entry_count :: "MeshLedger \<Rightarrow> nat" where
  "MeshLedger_entry_count self =
     length (ml2_entries self)"

definition MeshEntry_bytes_of :: "MeshEntry \<Rightarrow> bytes" where
  "MeshEntry_bytes_of entry =
     mesh_ledger_entry_bytes (me_epoch entry) (me_census_hash entry) (me_fault_hash entry) (me_plan_hash
         entry) (me_quorum_hash entry) (me_ticker_hash entry) (me_prev_hash entry)"

definition MeshLedger_verify_chain ::
  "sha \<Rightarrow> MeshLedger \<Rightarrow> bool \<times> nat option" where
  "MeshLedger_verify_chain sha self =
     verify_from me_prev_hash me_entry_hash (\<lambda>r. sha (MeshEntry_bytes_of r)) 0 genesis
         (ml2_entries self)"

lemma mesh_ledger_entry_bytes_inj:
  "mesh_ledger_entry_bytes epoch census_hash fault_hash plan_hash quorum_hash ticker_hash prev =
      mesh_ledger_entry_bytes epoch' census_hash' fault_hash' plan_hash' quorum_hash' ticker_hash' prev'
      \<longleftrightarrow>
   prev = prev' \<and> epoch = epoch' \<and> census_hash = census_hash' \<and> fault_hash = fault_hash'
       \<and> plan_hash = plan_hash' \<and> quorum_hash = quorum_hash' \<and> ticker_hash =
       ticker_hash'"
  by (auto simp: mesh_ledger_entry_bytes_def enc_simps)

definition MeshEntry_committed :: "MeshEntry \<Rightarrow> u64 \<times> hash \<times> hash \<times> hash
    \<times> hash \<times> hash" where
  "MeshEntry_committed entry =
     (me_epoch entry, me_census_hash entry, me_fault_hash entry, me_plan_hash entry,
         me_quorum_hash entry, me_ticker_hash entry)"

interpretation mesh_ledger: rising_log MeshEntry_bytes_of me_prev_hash me_entry_hash MeshEntry_committed
  "\<lambda>sha (epoch, census_hash, fault_hash, plan_hash, quorum_hash,
      ticker_hash) l. MeshLedger_append sha epoch census_hash fault_hash plan_hash quorum_hash
      ticker_hash l"
  ml2_entries MeshLedger_new "\<lambda>c. c" "\<lambda>(epoch, _, _, _, _, _). epoch"
  by unfold_locales (auto simp: MeshLedger_append_def mesh_ledger_compute_entry_hash_def
      MeshLedger_new_def Let_def MeshEntry_bytes_of_def MeshEntry_committed_def
      mesh_ledger_entry_bytes_inj build_entry_def MeshLedger_last_hash_def)

lemma mesh_ledger_verify_iff: "MeshLedger_verify_chain sha l = (True,
    None) \<longleftrightarrow> mesh_ledger.ok sha (ml2_entries l)"
  by (simp add: MeshLedger_verify_chain_def verify_from_iff)

section \<open>Epoch Sealer: terminal epoch seal across all gossip subsystems (Gate 270)\<close>

text \<open>
  \<open>epoch_sealer.rs\<close>. Produces an EpochSeal that cryptographically binds the terminal
  state of all gossip mesh subsystems at epoch close. The seal is a compact tamper-evident proof that
  all subsystems were observed at the declared epoch.
\<close>

record EpochSeal =
  es_epoch :: u64
  es_ledger_hash :: hash
  es_consensus_hash :: hash
  es_topology_hash :: hash
  es_sync_hash :: hash
  es_seal_hash :: hash
  es_prev_seal_hash :: hash

definition epoch_sealer_seal_bytes ::
  "u64 \<Rightarrow> hash \<Rightarrow> hash \<Rightarrow> hash \<Rightarrow> hash \<Rightarrow> hash
      \<Rightarrow> bytes" where
  "epoch_sealer_seal_bytes epoch ledger_hash consensus_hash topology_hash sync_hash prev =
     hash_bytes prev @ be8 epoch @ hash_bytes ledger_hash @ hash_bytes consensus_hash @
         hash_bytes topology_hash @ hash_bytes sync_hash"

definition epoch_sealer_compute_seal_hash ::
  "sha \<Rightarrow> u64 \<Rightarrow> hash \<Rightarrow> hash \<Rightarrow> hash \<Rightarrow> hash
      \<Rightarrow> hash \<Rightarrow> hash" where
  "epoch_sealer_compute_seal_hash sha epoch ledger_hash consensus_hash topology_hash sync_hash prev =
     sha (epoch_sealer_seal_bytes epoch ledger_hash consensus_hash topology_hash sync_hash prev)"

definition build_seal ::
  "sha \<Rightarrow> u64 \<Rightarrow> hash \<Rightarrow> hash \<Rightarrow> hash \<Rightarrow> hash
      \<Rightarrow> hash \<Rightarrow> EpochSeal" where
  "build_seal sha epoch ledger_hash consensus_hash topology_hash sync_hash prev_seal_hash =
     (let seal_hash = epoch_sealer_compute_seal_hash sha epoch ledger_hash consensus_hash topology_hash
         sync_hash prev_seal_hash
      in \<lparr>es_epoch = epoch, es_ledger_hash = ledger_hash, es_consensus_hash = consensus_hash,
          es_topology_hash = topology_hash, es_sync_hash = sync_hash, es_seal_hash = seal_hash,
          es_prev_seal_hash = prev_seal_hash\<rparr>)"

record SealChain =
  sc2_seals :: "EpochSeal list"

datatype SealError = StaleEpoch

fun SealError_as_u8 :: "SealError \<Rightarrow> u8" where
  "SealError_as_u8 SealError.StaleEpoch = 0"

lemma SealError_as_u8_inj [simp]: "SealError_as_u8 x = SealError_as_u8 y \<longleftrightarrow> x = y"
  by (cases x; cases y) auto

definition SealChain_new :: "SealChain" where
  "SealChain_new =
     \<lparr>sc2_seals = []\<rparr>"

definition SealChain_latest :: "SealChain \<Rightarrow> EpochSeal option" where
  "SealChain_latest self =
     last_opt (sc2_seals self)"

definition SealChain_last_hash :: "SealChain \<Rightarrow> hash" where
  "SealChain_last_hash self =
     last_hash es_seal_hash (sc2_seals self)"

definition SealChain_terminal_seal_hash :: "SealChain \<Rightarrow> hash" where
  "SealChain_terminal_seal_hash self =
     SealChain_last_hash self"

definition SealChain_seal_count :: "SealChain \<Rightarrow> nat" where
  "SealChain_seal_count self =
     length (sc2_seals self)"

definition SealChain_append ::
  "sha \<Rightarrow> u64 \<Rightarrow> hash \<Rightarrow> hash \<Rightarrow> hash \<Rightarrow> hash
      \<Rightarrow> SealChain \<Rightarrow> (SealError + EpochSeal) \<times> SealChain" where
  "SealChain_append sha epoch ledger_hash consensus_hash topology_hash sync_hash self =
     (if sc2_seals self \<noteq> [] \<and> epoch \<le> (es_epoch (last (sc2_seals self))) then (Inl
         SealError.StaleEpoch, self)
      else (let prev = SealChain_last_hash self;
          seal = build_seal sha epoch ledger_hash consensus_hash topology_hash sync_hash prev;
          self = self\<lparr>sc2_seals := (sc2_seals self) @ [seal]\<rparr>
      in (Inr (last (sc2_seals self)), self)))"

definition EpochSeal_bytes_of :: "EpochSeal \<Rightarrow> bytes" where
  "EpochSeal_bytes_of seal =
     epoch_sealer_seal_bytes (es_epoch seal) (es_ledger_hash seal) (es_consensus_hash seal)
         (es_topology_hash seal) (es_sync_hash seal) (es_prev_seal_hash seal)"

definition SealChain_verify_chain ::
  "sha \<Rightarrow> SealChain \<Rightarrow> bool \<times> nat option" where
  "SealChain_verify_chain sha self =
     verify_from es_prev_seal_hash es_seal_hash (\<lambda>r. sha (EpochSeal_bytes_of r)) 0 genesis
         (sc2_seals self)"

lemma epoch_sealer_seal_bytes_inj:
  "epoch_sealer_seal_bytes epoch ledger_hash consensus_hash topology_hash sync_hash prev =
      epoch_sealer_seal_bytes epoch' ledger_hash' consensus_hash' topology_hash' sync_hash' prev'
      \<longleftrightarrow>
   prev = prev' \<and> epoch = epoch' \<and> ledger_hash = ledger_hash' \<and> consensus_hash =
       consensus_hash' \<and> topology_hash = topology_hash' \<and> sync_hash = sync_hash'"
  by (auto simp: epoch_sealer_seal_bytes_def enc_simps)

definition EpochSeal_committed :: "EpochSeal \<Rightarrow> u64 \<times> hash \<times> hash \<times> hash
    \<times> hash" where
  "EpochSeal_committed seal =
     (es_epoch seal, es_ledger_hash seal, es_consensus_hash seal, es_topology_hash seal,
         es_sync_hash seal)"

interpretation epoch_sealer: rising_log EpochSeal_bytes_of es_prev_seal_hash es_seal_hash
    EpochSeal_committed
  "\<lambda>sha (epoch, ledger_hash, consensus_hash, topology_hash,
      sync_hash) l. SealChain_append sha epoch ledger_hash consensus_hash topology_hash sync_hash l"
  sc2_seals SealChain_new "\<lambda>c. c" "\<lambda>(epoch, _, _, _, _). epoch"
  by unfold_locales (auto simp: SealChain_append_def epoch_sealer_compute_seal_hash_def
      SealChain_new_def Let_def EpochSeal_bytes_of_def EpochSeal_committed_def
      epoch_sealer_seal_bytes_inj build_seal_def SealChain_last_hash_def)

lemma epoch_sealer_verify_iff: "SealChain_verify_chain sha l = (True,
    None) \<longleftrightarrow> epoch_sealer.ok sha (sc2_seals l)"
  by (simp add: SealChain_verify_chain_def verify_from_iff)

section \<open>Mesh Convergence Certifier: multi-epoch gossip stability proof (Gate 281)\<close>

text \<open>
  \<open>convergence_certifier.rs\<close>. Certifies that the gossip mesh has achieved convergence:
  stable quorum, stable spread reach, and no blocked peers across a window of epochs.
\<close>

definition CONVERGENCE_WINDOW_SIZE :: nat where
  "CONVERGENCE_WINDOW_SIZE = 3"

definition MIN_REACH_PCT :: u8 where
  "MIN_REACH_PCT = 50"

definition MAX_CONVERGED_FANOUT :: u8 where
  "MAX_CONVERGED_FANOUT = 7"

record EpochSnapshot =
  es2_epoch :: u64
  es2_fanout :: u8
  es2_spread_reach_pct :: u8
  es2_quorum_reachable :: bool
  es2_blocked_peer_count :: u16

definition EpochSnapshot_satisfies_convergence :: "EpochSnapshot \<Rightarrow> bool" where
  "EpochSnapshot_satisfies_convergence self \<longleftrightarrow>
     es2_quorum_reachable self \<and> (es2_spread_reach_pct self) \<ge> MIN_REACH_PCT \<and>
         (es2_blocked_peer_count self) = 0 \<and> (es2_fanout self) \<le> MAX_CONVERGED_FANOUT"

record ConvergenceCertificate =
  cc2_epoch_start :: u64
  cc2_epoch_end :: u64
  cc2_window_size :: u8
  cc2_min_reach_pct :: u8
  cc2_max_fanout :: u8
  cc2_is_converged :: bool
  cc2_certificate_hash :: hash
  cc2_prev_hash :: hash

definition convergence_certifier_cert_bytes ::
  "u64 \<Rightarrow> u64 \<Rightarrow> u8 \<Rightarrow> u8 \<Rightarrow> u8 \<Rightarrow> bool
      \<Rightarrow> hash \<Rightarrow> bytes" where
  "convergence_certifier_cert_bytes epoch_start epoch_end window_size min_reach_pct max_fanout
      is_converged prev =
     hash_bytes prev @ be8 epoch_start @ be8 epoch_end @ [window_size] @ [min_reach_pct] @
         [max_fanout] @ [of_bool is_converged]"

definition convergence_certifier_compute_cert_hash ::
  "sha \<Rightarrow> u64 \<Rightarrow> u64 \<Rightarrow> u8 \<Rightarrow> u8 \<Rightarrow> u8
      \<Rightarrow> bool \<Rightarrow> hash \<Rightarrow> hash" where
  "convergence_certifier_compute_cert_hash sha epoch_start epoch_end window_size min_reach_pct
      max_fanout is_converged prev =
     sha (convergence_certifier_cert_bytes epoch_start epoch_end window_size min_reach_pct max_fanout
         is_converged prev)"

record ConvergenceCertifier =
  cc3_window :: "EpochSnapshot list"
  cc3_certificates :: "ConvergenceCertificate list"

definition ConvergenceCertifier_new :: "ConvergenceCertifier" where
  "ConvergenceCertifier_new =
     \<lparr>cc3_window = [], cc3_certificates = []\<rparr>"

definition ConvergenceCertifier_certificate_count :: "ConvergenceCertifier \<Rightarrow> nat" where
  "ConvergenceCertifier_certificate_count self =
     length (cc3_certificates self)"

definition ConvergenceCertifier_latest_certificate ::
  "ConvergenceCertifier \<Rightarrow> ConvergenceCertificate option" where
  "ConvergenceCertifier_latest_certificate self =
     last_opt (cc3_certificates self)"

definition ConvergenceCertifier_last_cert_hash :: "ConvergenceCertifier \<Rightarrow> hash" where
  "ConvergenceCertifier_last_cert_hash self =
     last_hash cc2_certificate_hash (cc3_certificates self)"

definition ConvergenceCertifier_push_epoch ::
  "sha \<Rightarrow> EpochSnapshot \<Rightarrow> ConvergenceCertifier \<Rightarrow>
      (ConvergenceCertificate option) \<times> ConvergenceCertifier" where
  "ConvergenceCertifier_push_epoch sha snapshot self =
     (let self = (if (length (cc3_window self)) \<ge> CONVERGENCE_WINDOW_SIZE then (let self =
         self\<lparr>cc3_window := tl (cc3_window self)\<rparr>
      in self)
      else self);
          self = self\<lparr>cc3_window := (cc3_window self) @ [snapshot]\<rparr>
      in if (length (cc3_window self)) < CONVERGENCE_WINDOW_SIZE then (None, self)
      else (let epoch_start = es2_epoch ((cc3_window self) ! 0);
          epoch_end = es2_epoch ((cc3_window self) ! ((length (cc3_window self)) - 1));
          window_size = (of_nat (length (cc3_window self)) :: u8);
          min_reach = unwrap_or 0 (list_min (map es2_spread_reach_pct (cc3_window self)));
          max_fanout = unwrap_or 0 (list_max (map es2_fanout (cc3_window self)));
          is_converged = list_all EpochSnapshot_satisfies_convergence (cc3_window self);
          prev = ConvergenceCertifier_last_cert_hash self;
          certificate_hash = convergence_certifier_compute_cert_hash sha epoch_start epoch_end
            window_size min_reach max_fanout is_converged prev;
          cert = \<lparr>cc2_epoch_start = epoch_start, cc2_epoch_end = epoch_end,
            cc2_window_size = window_size, cc2_min_reach_pct = min_reach, cc2_max_fanout = max_fanout,
            cc2_is_converged = is_converged, cc2_certificate_hash = certificate_hash,
            cc2_prev_hash = prev\<rparr>;
          self = self\<lparr>cc3_certificates := (cc3_certificates self) @ [cert]\<rparr>
      in (last_opt (cc3_certificates self), self)))"

definition ConvergenceCertifier_consecutive_converged_count ::
  "ConvergenceCertifier \<Rightarrow> nat" where
  "ConvergenceCertifier_consecutive_converged_count self =
     length (takeWhile cc2_is_converged (rev (cc3_certificates self)))"

definition ConvergenceCertificate_bytes_of :: "ConvergenceCertificate \<Rightarrow> bytes" where
  "ConvergenceCertificate_bytes_of c =
     convergence_certifier_cert_bytes (cc2_epoch_start c) (cc2_epoch_end c) (cc2_window_size c)
         (cc2_min_reach_pct c) (cc2_max_fanout c) (cc2_is_converged c) (cc2_prev_hash c)"

definition ConvergenceCertifier_verify_chain ::
  "sha \<Rightarrow> ConvergenceCertifier \<Rightarrow> bool \<times> nat option" where
  "ConvergenceCertifier_verify_chain sha self =
     verify_from cc2_prev_hash cc2_certificate_hash (\<lambda>r. sha (ConvergenceCertificate_bytes_of
         r)) 0 genesis (cc3_certificates self)"

lemma convergence_certifier_cert_bytes_inj:
  "convergence_certifier_cert_bytes epoch_start epoch_end window_size min_reach_pct max_fanout
      is_converged prev = convergence_certifier_cert_bytes epoch_start' epoch_end' window_size'
      min_reach_pct' max_fanout' is_converged' prev' \<longleftrightarrow>
   prev = prev' \<and> epoch_start = epoch_start' \<and> epoch_end = epoch_end' \<and> window_size =
       window_size' \<and> min_reach_pct = min_reach_pct' \<and> max_fanout = max_fanout' \<and>
       is_converged = is_converged'"
  by (auto simp: convergence_certifier_cert_bytes_def enc_simps)

definition ConvergenceCertificate_committed :: "ConvergenceCertificate \<Rightarrow> u64 \<times> u64
    \<times> u8 \<times> u8 \<times> u8 \<times> bool" where
  "ConvergenceCertificate_committed c =
     (cc2_epoch_start c, cc2_epoch_end c, cc2_window_size c, cc2_min_reach_pct c, cc2_max_fanout c,
         cc2_is_converged c)"

interpretation convergence_certifier: hash_log ConvergenceCertificate_bytes_of cc2_prev_hash
    cc2_certificate_hash ConvergenceCertificate_committed
  by unfold_locales (auto simp: ConvergenceCertificate_bytes_of_def ConvergenceCertificate_committed_def
      convergence_certifier_cert_bytes_inj)

lemma convergence_certifier_verify_iff: "ConvergenceCertifier_verify_chain sha l = (True,
    None) \<longleftrightarrow> convergence_certifier.ok sha (cc3_certificates l)"
  by (simp add: ConvergenceCertifier_verify_chain_def verify_from_iff)

lemma convergence_certifier_push_epoch_ok: "convergence_certifier.ok sha (cc3_certificates l)
    \<Longrightarrow> convergence_certifier.ok sha (cc3_certificates (snd
    (ConvergenceCertifier_push_epoch sha snapshot l)))"
  by (simp add: Let_def split_def ConvergenceCertifier_push_epoch_def
      convergence_certifier_compute_cert_hash_def ConvergenceCertificate_bytes_of_def
      ConvergenceCertifier_last_cert_hash_def split: option.split sum.split)

section \<open>Gossip Epoch Auditor: cross-module epoch consistency verification (Gate 287)\<close>

text \<open>
  \<open>epoch_auditor.rs\<close>. At each epoch close, audits the consistency of gossip subsystem
  states. Checks that multiple subsystem epoch values agree and detects anomalies.
\<close>

definition MAX_LAG_ALLOWED :: u64 where
  "MAX_LAG_ALLOWED = 3"

definition SUBSYSTEM_COUNT :: u8 where
  "SUBSYSTEM_COUNT = 5"

record AuditInput =
  ai_epoch :: u64
  ai_supervisor_epoch :: u64
  ai_finalizer_epoch :: u64
  ai_scheduler_epoch :: u64
  ai_prober_max_epoch :: u64
  ai_bandwidth_epoch :: u64

datatype AuditFinding = Consistent | Lagging string u64 | Leading string u64 | Diverged string

definition AuditFinding_finding_byte :: "AuditFinding \<Rightarrow> u8" where
  "AuditFinding_finding_byte self =
     (case self of
         AuditFinding.Consistent \<Rightarrow> 0
       | AuditFinding.Lagging _ _ \<Rightarrow> 1
       | AuditFinding.Leading _ _ \<Rightarrow> 2
       | AuditFinding.Diverged _ \<Rightarrow> 3)"

definition AuditFinding_is_healthy :: "AuditFinding \<Rightarrow> bool" where
  "AuditFinding_is_healthy self \<longleftrightarrow>
     self = AuditFinding.Consistent"

definition audit_epoch :: "AuditInput \<Rightarrow> AuditFinding \<times> u8" where
  "audit_epoch input =
     (let epoch = ai_epoch input;
          subsystems = [(''supervisor'', ai_supervisor_epoch input), (''finalizer'',
            ai_finalizer_epoch input), (''scheduler'', ai_scheduler_epoch input), (''prober'',
            ai_prober_max_epoch input), (''bandwidth'', ai_bandwidth_epoch input)];
          consistent = 0;
          first_anomaly = None;
          (consistent, first_anomaly) = fold (\<lambda>(name, subsys_epoch) (consistent,
            first_anomaly). (let (consistent, first_anomaly) = (if subsys_epoch = epoch then (let
            consistent = consistent + 1
      in (consistent, first_anomaly))
      else if first_anomaly = None then (let first_anomaly = Some (if subsys_epoch < epoch then (let lag
          = epoch - subsys_epoch in if lag > MAX_LAG_ALLOWED then AuditFinding.Diverged name else
          AuditFinding.Lagging name lag) else (let lead = subsys_epoch - epoch in AuditFinding.Leading
          name lead))
      in (consistent, first_anomaly))
      else (consistent, first_anomaly))
      in (consistent, first_anomaly))) subsystems (consistent, first_anomaly);
          finding = unwrap_or AuditFinding.Consistent first_anomaly
      in (finding, consistent))"

record EpochAuditRecord =
  ear_epoch :: u64
  ear_finding :: AuditFinding
  ear_consistent_count :: u8
  ear_total_checked :: u8
  ear_audit_hash :: hash
  ear_prev_hash :: hash

definition audit_bytes ::
  "u64 \<Rightarrow> AuditFinding \<Rightarrow> u8 \<Rightarrow> u8 \<Rightarrow> hash \<Rightarrow>
      bytes" where
  "audit_bytes epoch finding consistent_count total_checked prev =
     hash_bytes prev @ be8 epoch @ [AuditFinding_finding_byte finding] @ [consistent_count] @
         [total_checked]"

definition compute_audit_hash ::
  "sha \<Rightarrow> u64 \<Rightarrow> AuditFinding \<Rightarrow> u8 \<Rightarrow> u8 \<Rightarrow> hash
      \<Rightarrow> hash" where
  "compute_audit_hash sha epoch finding consistent_count total_checked prev =
     sha (audit_bytes epoch finding consistent_count total_checked prev)"

definition build_audit_record ::
  "sha \<Rightarrow> u64 \<Rightarrow> AuditFinding \<Rightarrow> u8 \<Rightarrow> u8 \<Rightarrow> hash
      \<Rightarrow> EpochAuditRecord" where
  "build_audit_record sha epoch finding consistent_count total_checked prev_hash =
     (let audit_hash = compute_audit_hash sha epoch finding consistent_count total_checked prev_hash
      in \<lparr>ear_epoch = epoch, ear_finding = finding, ear_consistent_count = consistent_count,
          ear_total_checked = total_checked, ear_audit_hash = audit_hash,
          ear_prev_hash = prev_hash\<rparr>)"

record EpochAuditLog =
  eal_records :: "EpochAuditRecord list"

datatype AuditError = StaleEpoch

fun AuditError_as_u8 :: "AuditError \<Rightarrow> u8" where
  "AuditError_as_u8 AuditError.StaleEpoch = 0"

lemma AuditError_as_u8_inj [simp]: "AuditError_as_u8 x = AuditError_as_u8 y \<longleftrightarrow> x = y"
  by (cases x; cases y) auto

definition EpochAuditLog_new :: "EpochAuditLog" where
  "EpochAuditLog_new =
     \<lparr>eal_records = []\<rparr>"

definition EpochAuditLog_latest :: "EpochAuditLog \<Rightarrow> EpochAuditRecord option" where
  "EpochAuditLog_latest self =
     last_opt (eal_records self)"

definition EpochAuditLog_last_hash :: "EpochAuditLog \<Rightarrow> hash" where
  "EpochAuditLog_last_hash self =
     last_hash ear_audit_hash (eal_records self)"

definition EpochAuditLog_record ::
  "sha \<Rightarrow> AuditInput \<Rightarrow> EpochAuditLog \<Rightarrow> (AuditError +
      EpochAuditRecord) \<times> EpochAuditLog" where
  "EpochAuditLog_record sha input self =
     (if eal_records self \<noteq> [] \<and> (ai_epoch input) \<le> (ear_epoch (last (eal_records
         self))) then (Inl AuditError.StaleEpoch, self)
      else (let (finding, consistent_count) = audit_epoch input;
          prev = EpochAuditLog_last_hash self;
          r = build_audit_record sha (ai_epoch input) finding consistent_count SUBSYSTEM_COUNT prev;
          self = self\<lparr>eal_records := (eal_records self) @ [r]\<rparr>
      in (Inr (last (eal_records self)), self)))"

definition EpochAuditLog_consistent_epoch_count :: "EpochAuditLog \<Rightarrow> nat" where
  "EpochAuditLog_consistent_epoch_count self =
     length (filter (\<lambda>r. AuditFinding_is_healthy (ear_finding r)) (eal_records self))"

definition EpochAuditLog_diverged_epoch_count :: "EpochAuditLog \<Rightarrow> nat" where
  "EpochAuditLog_diverged_epoch_count self =
     length (filter (\<lambda>r. (case ear_finding r of AuditFinding.Diverged _ \<Rightarrow> True | _
         \<Rightarrow> False)) (eal_records self))"

definition EpochAuditLog_anomaly_epoch_count :: "EpochAuditLog \<Rightarrow> nat" where
  "EpochAuditLog_anomaly_epoch_count self =
     length (filter (\<lambda>r. \<not> (AuditFinding_is_healthy (ear_finding r))) (eal_records self))"

definition EpochAuditRecord_bytes_of :: "EpochAuditRecord \<Rightarrow> bytes" where
  "EpochAuditRecord_bytes_of r =
     audit_bytes (ear_epoch r) (ear_finding r) (ear_consistent_count r) (ear_total_checked r)
         (ear_prev_hash r)"

definition EpochAuditLog_verify_chain ::
  "sha \<Rightarrow> EpochAuditLog \<Rightarrow> bool \<times> nat option" where
  "EpochAuditLog_verify_chain sha self =
     verify_from ear_prev_hash ear_audit_hash (\<lambda>r. sha (EpochAuditRecord_bytes_of r)) 0 genesis
         (eal_records self)"

lemma audit_bytes_inj:
  "audit_bytes epoch finding consistent_count total_checked prev = audit_bytes epoch' finding'
      consistent_count' total_checked' prev' \<longleftrightarrow>
   prev = prev' \<and> epoch = epoch' \<and> (AuditFinding_finding_byte finding) =
       (AuditFinding_finding_byte finding') \<and> consistent_count = consistent_count' \<and>
       total_checked = total_checked'"
  by (auto simp: audit_bytes_def enc_simps)

definition EpochAuditRecord_committed :: "EpochAuditRecord \<Rightarrow> u64 \<times> u8 \<times> u8
    \<times> u8" where
  "EpochAuditRecord_committed r =
     (ear_epoch r, AuditFinding_finding_byte (ear_finding r), ear_consistent_count r,
         ear_total_checked r)"

interpretation epoch_auditor: hash_log EpochAuditRecord_bytes_of ear_prev_hash ear_audit_hash
    EpochAuditRecord_committed
  by unfold_locales (auto simp: EpochAuditRecord_bytes_of_def EpochAuditRecord_committed_def
      audit_bytes_inj)

lemma epoch_auditor_verify_iff: "EpochAuditLog_verify_chain sha l = (True,
    None) \<longleftrightarrow> epoch_auditor.ok sha (eal_records l)"
  by (simp add: EpochAuditLog_verify_chain_def verify_from_iff)

lemma build_audit_record_linked:
  "ear_prev_hash (build_audit_record sha epoch finding consistent_count total_checked prev_hash) =
      prev_hash"
  "ear_audit_hash (build_audit_record sha epoch finding consistent_count total_checked prev_hash) = sha
      (EpochAuditRecord_bytes_of (build_audit_record sha epoch finding consistent_count total_checked
      prev_hash))"
  by (simp_all add: build_audit_record_def compute_audit_hash_def EpochAuditRecord_bytes_of_def Let_def
      split_def)

lemma epoch_audit_log_record_ok: "epoch_auditor.ok sha (eal_records l) \<Longrightarrow>
    epoch_auditor.ok sha (eal_records (snd (EpochAuditLog_record sha input l)))"
  by (simp add: Let_def split_def EpochAuditLog_record_def EpochAuditLog_last_hash_def
      build_audit_record_linked split: option.split sum.split)

section \<open>Consensus Ledger: distributed vote log with quorum certification (Gate 261)\<close>

text \<open>
  \<open>consensus_ledger.rs\<close>. Collects votes from multiple nodes on a proposed value
  (represented as [u8;32]). Certifies quorum at the 1/phi threshold (integer arithmetic).
\<close>

record VoteEntry =
  ve_voter_id :: u32
  ve_proposal_hash :: hash
  ve_epoch :: u64
  ve_vote_hash :: hash

definition vote_bytes :: "u32 \<Rightarrow> hash \<Rightarrow> u64 \<Rightarrow> bytes" where
  "vote_bytes voter_id proposal_hash epoch =
     be4 voter_id @ hash_bytes proposal_hash @ be8 epoch"

definition compute_vote_hash ::
  "sha \<Rightarrow> u32 \<Rightarrow> hash \<Rightarrow> u64 \<Rightarrow> hash" where
  "compute_vote_hash sha voter_id proposal_hash epoch =
     sha (vote_bytes voter_id proposal_hash epoch)"

definition VoteEntry_is_hash_valid :: "sha \<Rightarrow> VoteEntry \<Rightarrow> bool" where
  "VoteEntry_is_hash_valid sha self \<longleftrightarrow>
     (compute_vote_hash sha (ve_voter_id self) (ve_proposal_hash self) (ve_epoch self)) = (ve_vote_hash
         self)"

definition build_vote ::
  "sha \<Rightarrow> u32 \<Rightarrow> hash \<Rightarrow> u64 \<Rightarrow> VoteEntry" where
  "build_vote sha voter_id proposal_hash epoch =
     (let vote_hash = compute_vote_hash sha voter_id proposal_hash epoch
      in \<lparr>ve_voter_id = voter_id, ve_proposal_hash = proposal_hash, ve_epoch = epoch,
          ve_vote_hash = vote_hash\<rparr>)"

record ConsensusRound =
  cr4_round_id :: u64
  cr4_proposal_hash :: hash
  cr4_votes :: "(u32, VoteEntry) btmap"
  cr4_voter_count :: nat
  cr4_round_hash :: hash

definition ConsensusRound_vote_count :: "ConsensusRound \<Rightarrow> nat" where
  "ConsensusRound_vote_count self =
     bt_len (cr4_votes self)"

definition ConsensusRound_quorum_reached :: "ConsensusRound \<Rightarrow> bool" where
  "ConsensusRound_quorum_reached self \<longleftrightarrow>
     (if (cr4_voter_count self) = 0 then False
      else (usize_mul (ConsensusRound_vote_count self) 1000000) \<ge> (usize_mul (cr4_voter_count self)
          618034))"

definition round_bytes ::
  "u64 \<Rightarrow> hash \<Rightarrow> nat \<Rightarrow> nat \<Rightarrow> bytes" where
  "round_bytes round_id proposal vote_count voter_count =
     be8 round_id @ hash_bytes proposal @ be8 (of_nat vote_count :: u64) @
         be8 (of_nat voter_count :: u64)"

definition compute_round_hash ::
  "sha \<Rightarrow> u64 \<Rightarrow> hash \<Rightarrow> nat \<Rightarrow> nat \<Rightarrow> hash"
      where
  "compute_round_hash sha round_id proposal vote_count voter_count =
     sha (round_bytes round_id proposal vote_count voter_count)"

datatype RoundError = InvalidVoteHash | ProposalMismatch

definition ConsensusRound_cast_vote ::
  "sha \<Rightarrow> VoteEntry \<Rightarrow> ConsensusRound \<Rightarrow> (RoundError + unit) \<times>
      ConsensusRound" where
  "ConsensusRound_cast_vote sha vote self =
     (if \<not> (VoteEntry_is_hash_valid sha vote) then (Inl RoundError.InvalidVoteHash, self)
      else if (ve_proposal_hash vote) \<noteq> (cr4_proposal_hash self) then (Inl
          RoundError.ProposalMismatch, self)
      else (let self = self\<lparr>cr4_votes := bt_insert (ve_voter_id vote) vote (cr4_votes
          self)\<rparr>;
          self = self\<lparr>cr4_round_hash := compute_round_hash sha (cr4_round_id self)
            (cr4_proposal_hash self) (bt_len (cr4_votes self)) (cr4_voter_count self)\<rparr>
      in (Inr (), self)))"

definition build_round ::
  "sha \<Rightarrow> u64 \<Rightarrow> hash \<Rightarrow> nat \<Rightarrow> ConsensusRound" where
  "build_round sha round_id proposal_hash voter_count =
     (let round_hash = compute_round_hash sha round_id proposal_hash 0 voter_count
      in \<lparr>cr4_round_id = round_id, cr4_proposal_hash = proposal_hash, cr4_votes = bt_empty,
          cr4_voter_count = voter_count, cr4_round_hash = round_hash\<rparr>)"

fun RoundError_as_u8 :: "RoundError \<Rightarrow> u8" where
  "RoundError_as_u8 RoundError.InvalidVoteHash = 0"
| "RoundError_as_u8 RoundError.ProposalMismatch = 1"

lemma RoundError_as_u8_inj [simp]: "RoundError_as_u8 x = RoundError_as_u8 y \<longleftrightarrow> x = y"
  by (cases x; cases y) auto

record ConsensusCertificate =
  cc4_round_id :: u64
  cc4_proposal_hash :: hash
  cc4_vote_count :: nat
  cc4_voter_count :: nat
  cc4_quorum_reached :: bool
  cc4_cert_hash :: hash
  cc4_prev_cert_hash :: hash

definition consensus_ledger_cert_bytes :: "hash \<Rightarrow> hash \<Rightarrow> bytes" where
  "consensus_ledger_cert_bytes round_hash prev =
     hash_bytes prev @ hash_bytes round_hash"

definition consensus_ledger_compute_cert_hash ::
  "sha \<Rightarrow> hash \<Rightarrow> hash \<Rightarrow> hash" where
  "consensus_ledger_compute_cert_hash sha round_hash prev =
     sha (consensus_ledger_cert_bytes round_hash prev)"

definition certify_round ::
  "sha \<Rightarrow> ConsensusRound \<Rightarrow> hash \<Rightarrow> ConsensusCertificate" where
  "certify_round sha round prev_cert_hash =
     (let cert_hash = consensus_ledger_compute_cert_hash sha (cr4_round_hash round) prev_cert_hash
      in \<lparr>cc4_round_id = cr4_round_id round, cc4_proposal_hash = cr4_proposal_hash round,
          cc4_vote_count = ConsensusRound_vote_count round, cc4_voter_count = cr4_voter_count round,
          cc4_quorum_reached = ConsensusRound_quorum_reached round, cc4_cert_hash = cert_hash,
          cc4_prev_cert_hash = prev_cert_hash\<rparr>)"

record ConsensusLedger =
  cl4_certs :: "ConsensusCertificate list"

datatype LedgerError_ledger = StaleRound

fun LedgerError_ledger_as_u8 :: "LedgerError_ledger \<Rightarrow> u8" where
  "LedgerError_ledger_as_u8 LedgerError_ledger.StaleRound = 0"

lemma LedgerError_ledger_as_u8_inj [simp]: "LedgerError_ledger_as_u8 x = LedgerError_ledger_as_u8 y
    \<longleftrightarrow> x = y"
  by (cases x; cases y) auto

definition ConsensusLedger_new :: "ConsensusLedger" where
  "ConsensusLedger_new =
     \<lparr>cl4_certs = []\<rparr>"

definition ConsensusLedger_latest :: "ConsensusLedger \<Rightarrow> ConsensusCertificate option" where
  "ConsensusLedger_latest self =
     last_opt (cl4_certs self)"

definition ConsensusLedger_last_hash :: "ConsensusLedger \<Rightarrow> hash" where
  "ConsensusLedger_last_hash self =
     last_hash cc4_cert_hash (cl4_certs self)"

definition ConsensusLedger_append ::
  "sha \<Rightarrow> ConsensusRound \<Rightarrow> ConsensusLedger \<Rightarrow> (LedgerError_ledger +
      ConsensusCertificate) \<times> ConsensusLedger" where
  "ConsensusLedger_append sha round self =
     (if cl4_certs self \<noteq> [] \<and> (cr4_round_id round) \<le> (cc4_round_id (last (cl4_certs
         self))) then (Inl LedgerError_ledger.StaleRound, self)
      else (let prev = ConsensusLedger_last_hash self;
          cert = certify_round sha round prev;
          self = self\<lparr>cl4_certs := (cl4_certs self) @ [cert]\<rparr>
      in (Inr (last (cl4_certs self)), self)))"

definition ConsensusLedger_quorum_count :: "ConsensusLedger \<Rightarrow> nat" where
  "ConsensusLedger_quorum_count self =
     length (filter cc4_quorum_reached (cl4_certs self))"

fun links_from :: "nat \<Rightarrow> hash \<Rightarrow> ConsensusCertificate list \<Rightarrow> bool
    \<times> nat option" where
  "links_from i expected_prev [] = (True, None)"
| "links_from i expected_prev (cert # certs) =
     (if cc4_prev_cert_hash cert \<noteq> expected_prev then (False, Some i)
      else links_from (i + 1) (cc4_cert_hash cert) certs)"

definition ConsensusLedger_verify_chain :: "ConsensusLedger \<Rightarrow> bool \<times> nat option"
    where
  "ConsensusLedger_verify_chain self = links_from 0 genesis (cl4_certs self)"

section \<open>Gossip Epoch Rate Ledger: per-epoch message throughput accounting (Gate 316)\<close>

text \<open>
  \<open>epoch_rate_ledger.rs\<close>. Records the number of messages sent, received, and dropped in
  each gossip epoch. A rate limit cap (MAX_MESSAGES_PER_EPOCH) triggers the Exceeded flag when the
  combined sent+received count exceeds it. Epochs must be submitted in strictly increasing order;
  submitting the same or older epoch returns Err(StaleEpoch). All epoch summaries are hash-chained for
  audit.
\<close>

definition MAX_MESSAGES_PER_EPOCH :: u64 where
  "MAX_MESSAGES_PER_EPOCH = 10000"

datatype EpochRateStatus = Normal | Exceeded

fun EpochRateStatus_as_u8 :: "EpochRateStatus \<Rightarrow> u8" where
  "EpochRateStatus_as_u8 EpochRateStatus.Normal = 0"
| "EpochRateStatus_as_u8 EpochRateStatus.Exceeded = 1"

lemma EpochRateStatus_as_u8_inj [simp]: "EpochRateStatus_as_u8 x = EpochRateStatus_as_u8 y
    \<longleftrightarrow> x = y"
  by (cases x; cases y) auto

definition EpochRateStatus_status_byte :: "EpochRateStatus \<Rightarrow> u8" where
  "EpochRateStatus_status_byte self =
     EpochRateStatus_as_u8 self"

record EpochRateRecord =
  err_epoch :: u64
  err_sent :: u64
  err_received :: u64
  err_dropped :: u64
  err_status :: EpochRateStatus
  err_record_hash :: hash
  err_prev_hash :: hash

definition epoch_rate_ledger_rate_bytes ::
  "u64 \<Rightarrow> u64 \<Rightarrow> u64 \<Rightarrow> u64 \<Rightarrow> EpochRateStatus \<Rightarrow>
      hash \<Rightarrow> bytes" where
  "epoch_rate_ledger_rate_bytes epoch sent received dropped status prev =
     hash_bytes prev @ be8 epoch @ be8 sent @ be8 received @ be8 dropped @
         [EpochRateStatus_status_byte status]"

definition compute_rate_hash ::
  "sha \<Rightarrow> u64 \<Rightarrow> u64 \<Rightarrow> u64 \<Rightarrow> u64 \<Rightarrow>
      EpochRateStatus \<Rightarrow> hash \<Rightarrow> hash" where
  "compute_rate_hash sha epoch sent received dropped status prev =
     sha (epoch_rate_ledger_rate_bytes epoch sent received dropped status prev)"

definition build_rate_record ::
  "sha \<Rightarrow> u64 \<Rightarrow> u64 \<Rightarrow> u64 \<Rightarrow> u64 \<Rightarrow>
      EpochRateStatus \<Rightarrow> hash \<Rightarrow> EpochRateRecord" where
  "build_rate_record sha epoch sent received dropped status prev_hash =
     (let record_hash = compute_rate_hash sha epoch sent received dropped status prev_hash
      in \<lparr>err_epoch = epoch, err_sent = sent, err_received = received, err_dropped = dropped,
          err_status = status, err_record_hash = record_hash, err_prev_hash = prev_hash\<rparr>)"

datatype RateLedgerError = StaleEpoch

fun RateLedgerError_as_u8 :: "RateLedgerError \<Rightarrow> u8" where
  "RateLedgerError_as_u8 RateLedgerError.StaleEpoch = 0"

lemma RateLedgerError_as_u8_inj [simp]: "RateLedgerError_as_u8 x = RateLedgerError_as_u8 y
    \<longleftrightarrow> x = y"
  by (cases x; cases y) auto

record EpochRateLedger =
  erl2_records :: "EpochRateRecord list"
  erl2_last_epoch :: "u64 option"

definition EpochRateLedger_new :: "EpochRateLedger" where
  "EpochRateLedger_new =
     \<lparr>erl2_records = [], erl2_last_epoch = None\<rparr>"

definition EpochRateLedger_last_hash :: "EpochRateLedger \<Rightarrow> hash" where
  "EpochRateLedger_last_hash self =
     last_hash err_record_hash (erl2_records self)"

definition EpochRateLedger_seal_epoch ::
  "sha \<Rightarrow> u64 \<Rightarrow> u64 \<Rightarrow> u64 \<Rightarrow> u64 \<Rightarrow>
      EpochRateLedger \<Rightarrow> (RateLedgerError + EpochRateStatus) \<times> EpochRateLedger" where
  "EpochRateLedger_seal_epoch sha epoch sent received dropped self =
     (case erl2_last_epoch self of Some last_v \<Rightarrow> (if epoch \<le> last_v then (Inl
         RateLedgerError.StaleEpoch, self)
      else (let total_v = sat_add sent received;
          status = (if total_v > MAX_MESSAGES_PER_EPOCH then EpochRateStatus.Exceeded else
            EpochRateStatus.Normal);
          prev = EpochRateLedger_last_hash self;
          r = build_rate_record sha epoch sent received dropped status prev;
          self = self\<lparr>erl2_records := (erl2_records self) @ [r]\<rparr>;
          self = self\<lparr>erl2_last_epoch := Some epoch\<rparr>
      in (Inr status, self))) | _ \<Rightarrow> (let total_v = sat_add sent received;
          status = (if total_v > MAX_MESSAGES_PER_EPOCH then EpochRateStatus.Exceeded else
            EpochRateStatus.Normal);
          prev = EpochRateLedger_last_hash self;
          r = build_rate_record sha epoch sent received dropped status prev;
          self = self\<lparr>erl2_records := (erl2_records self) @ [r]\<rparr>;
          self = self\<lparr>erl2_last_epoch := Some epoch\<rparr>
      in (Inr status, self)))"

definition EpochRateLedger_total_sent :: "EpochRateLedger \<Rightarrow> u64" where
  "EpochRateLedger_total_sent self =
     fold (\<lambda>x acc. sat_add acc x) (map err_sent (erl2_records self)) (0 :: u64)"

definition EpochRateLedger_total_received :: "EpochRateLedger \<Rightarrow> u64" where
  "EpochRateLedger_total_received self =
     fold (\<lambda>x acc. sat_add acc x) (map err_received (erl2_records self)) (0 :: u64)"

definition EpochRateLedger_total_dropped :: "EpochRateLedger \<Rightarrow> u64" where
  "EpochRateLedger_total_dropped self =
     fold (\<lambda>x acc. sat_add acc x) (map err_dropped (erl2_records self)) (0 :: u64)"

definition EpochRateLedger_exceeded_epoch_count :: "EpochRateLedger \<Rightarrow> nat" where
  "EpochRateLedger_exceeded_epoch_count self =
     length (filter (\<lambda>r. (err_status r) = EpochRateStatus.Exceeded) (erl2_records self))"

definition EpochRateRecord_bytes_of :: "EpochRateRecord \<Rightarrow> bytes" where
  "EpochRateRecord_bytes_of r =
     epoch_rate_ledger_rate_bytes (err_epoch r) (err_sent r) (err_received r) (err_dropped r)
         (err_status r) (err_prev_hash r)"

definition EpochRateLedger_verify_chain ::
  "sha \<Rightarrow> EpochRateLedger \<Rightarrow> bool \<times> nat option" where
  "EpochRateLedger_verify_chain sha self =
     verify_from err_prev_hash err_record_hash (\<lambda>r. sha (EpochRateRecord_bytes_of r)) 0 genesis
         (erl2_records self)"

lemma epoch_rate_ledger_rate_bytes_inj:
  "epoch_rate_ledger_rate_bytes epoch sent received dropped status prev = epoch_rate_ledger_rate_bytes
      epoch' sent' received' dropped' status' prev' \<longleftrightarrow>
   prev = prev' \<and> epoch = epoch' \<and> sent = sent' \<and> received = received' \<and> dropped =
       dropped' \<and> (EpochRateStatus_status_byte status) = (EpochRateStatus_status_byte status')"
  by (auto simp: epoch_rate_ledger_rate_bytes_def enc_simps)

definition EpochRateRecord_committed :: "EpochRateRecord \<Rightarrow> u64 \<times> u64 \<times> u64
    \<times> u64 \<times> u8" where
  "EpochRateRecord_committed r =
     (err_epoch r, err_sent r, err_received r, err_dropped r, EpochRateStatus_status_byte (err_status
         r))"

interpretation epoch_rate_ledger: hash_log EpochRateRecord_bytes_of err_prev_hash err_record_hash
    EpochRateRecord_committed
  by unfold_locales (auto simp: EpochRateRecord_bytes_of_def EpochRateRecord_committed_def
      epoch_rate_ledger_rate_bytes_inj)

lemma epoch_rate_ledger_verify_iff: "EpochRateLedger_verify_chain sha l = (True,
    None) \<longleftrightarrow> epoch_rate_ledger.ok sha (erl2_records l)"
  by (simp add: EpochRateLedger_verify_chain_def verify_from_iff)

lemma build_rate_record_linked:
  "err_prev_hash (build_rate_record sha epoch sent received dropped status prev_hash) = prev_hash"
  "err_record_hash (build_rate_record sha epoch sent received dropped status prev_hash) = sha
      (EpochRateRecord_bytes_of (build_rate_record sha epoch sent received dropped status prev_hash))"
  by (simp_all add: build_rate_record_def compute_rate_hash_def EpochRateRecord_bytes_of_def Let_def
      split_def)

lemma epoch_rate_ledger_seal_epoch_ok: "epoch_rate_ledger.ok sha (erl2_records l) \<Longrightarrow>
    epoch_rate_ledger.ok sha (erl2_records (snd (EpochRateLedger_seal_epoch sha epoch sent received
    dropped l)))"
  by (simp add: Let_def split_def EpochRateLedger_seal_epoch_def EpochRateLedger_last_hash_def
      build_rate_record_linked split: option.split sum.split)

section \<open>Gossip Epoch Snapshot Archive: rolling epoch-boundary state archive (Gate 319)\<close>

text \<open>
  \<open>epoch_snapshot_archive.rs\<close>. Stores a compact snapshot of the gossip subsystem state at
  the close of each epoch. Snapshots capture: epoch number, active peer count, message counts, and a
  content fingerprint (SHA-256 of the captured fields). Archives are hash-chained for tamper evidence.
  Epoch numbers must be strictly monotone.
\<close>

definition MAX_ARCHIVE_SIZE :: nat where
  "MAX_ARCHIVE_SIZE = 128"

record SnapshotRecord =
  sr6_epoch :: u64
  sr6_active_peers :: u32
  sr6_messages_sent :: u64
  sr6_messages_received :: u64
  sr6_messages_dropped :: u64
  sr6_content_hash :: hash
  sr6_record_hash :: hash
  sr6_prev_hash :: hash

definition content_bytes ::
  "u64 \<Rightarrow> u32 \<Rightarrow> u64 \<Rightarrow> u64 \<Rightarrow> u64 \<Rightarrow> bytes"
      where
  "content_bytes epoch active_peers messages_sent messages_received messages_dropped =
     be8 epoch @ be4 active_peers @ be8 messages_sent @ be8 messages_received @ be8 messages_dropped"

definition compute_content_hash ::
  "sha \<Rightarrow> u64 \<Rightarrow> u32 \<Rightarrow> u64 \<Rightarrow> u64 \<Rightarrow> u64
      \<Rightarrow> hash" where
  "compute_content_hash sha epoch active_peers messages_sent messages_received messages_dropped =
     sha (content_bytes epoch active_peers messages_sent messages_received messages_dropped)"

definition epoch_snapshot_archive_record_bytes :: "hash \<Rightarrow> hash \<Rightarrow> bytes" where
  "epoch_snapshot_archive_record_bytes content_hash prev =
     hash_bytes prev @ hash_bytes content_hash"

definition epoch_snapshot_archive_compute_record_hash ::
  "sha \<Rightarrow> hash \<Rightarrow> hash \<Rightarrow> hash" where
  "epoch_snapshot_archive_compute_record_hash sha content_hash prev =
     sha (epoch_snapshot_archive_record_bytes content_hash prev)"

definition build_snapshot_record ::
  "sha \<Rightarrow> u64 \<Rightarrow> u32 \<Rightarrow> u64 \<Rightarrow> u64 \<Rightarrow> u64
      \<Rightarrow> hash \<Rightarrow> SnapshotRecord" where
  "build_snapshot_record sha epoch active_peers messages_sent messages_received messages_dropped
      prev_hash =
     (let content_hash = compute_content_hash sha epoch active_peers messages_sent messages_received
         messages_dropped;
          record_hash = epoch_snapshot_archive_compute_record_hash sha content_hash prev_hash
      in \<lparr>sr6_epoch = epoch, sr6_active_peers = active_peers, sr6_messages_sent = messages_sent,
          sr6_messages_received = messages_received, sr6_messages_dropped = messages_dropped,
          sr6_content_hash = content_hash, sr6_record_hash = record_hash,
          sr6_prev_hash = prev_hash\<rparr>)"

datatype ArchiveError = StaleEpoch

fun ArchiveError_as_u8 :: "ArchiveError \<Rightarrow> u8" where
  "ArchiveError_as_u8 ArchiveError.StaleEpoch = 0"

lemma ArchiveError_as_u8_inj [simp]: "ArchiveError_as_u8 x = ArchiveError_as_u8 y \<longleftrightarrow>
    x = y"
  by (cases x; cases y) auto

record EpochSnapshotArchive =
  esa_records :: "(u64, SnapshotRecord) btmap"
  esa_last_epoch :: "u64 option"
  esa_last_hash :: hash

definition EpochSnapshotArchive_new :: "EpochSnapshotArchive" where
  "EpochSnapshotArchive_new =
     \<lparr>esa_records = bt_empty, esa_last_epoch = None, esa_last_hash = genesis\<rparr>"

fun evict_oldest :: "nat \<Rightarrow> (u64, SnapshotRecord) btmap \<Rightarrow> (u64,
    SnapshotRecord) btmap option" where
  "evict_oldest 0 records = None"
| "evict_oldest (Suc fuel) records =
     (if bt_len records > MAX_ARCHIVE_SIZE then
        (case bt_keys records of
           oldest_key # _ \<Rightarrow> evict_oldest fuel (bt_remove oldest_key records)
         | [] \<Rightarrow> evict_oldest fuel records)
      else Some records)"

definition EpochSnapshotArchive_archive ::
  "sha \<Rightarrow> u64 \<Rightarrow> u32 \<Rightarrow> u64 \<Rightarrow> u64 \<Rightarrow> u64
      \<Rightarrow> EpochSnapshotArchive \<Rightarrow> ((ArchiveError + unit) \<times>
      EpochSnapshotArchive) option" where
  "EpochSnapshotArchive_archive sha epoch active_peers messages_sent messages_received messages_dropped
      self =
     (if (case esa_last_epoch self of None \<Rightarrow> False | Some last_v \<Rightarrow> epoch \<le>
         last_v) then Some (Inl ArchiveError.StaleEpoch, self)
      else
        (let r = build_snapshot_record sha epoch active_peers messages_sent messages_received
          messages_dropped (esa_last_hash self);
             self = self\<lparr>esa_last_hash := sr6_record_hash r\<rparr>;
             self = self\<lparr>esa_last_epoch := Some epoch\<rparr>;
             self = self\<lparr>esa_records := bt_insert epoch r (esa_records self)\<rparr>
         in case evict_oldest (bt_len (esa_records self) + 1) (esa_records self) of
              None \<Rightarrow> None
            | Some records \<Rightarrow> Some (Inr (), self\<lparr>esa_records := records\<rparr>)))"

definition EpochSnapshotArchive_get ::
  "u64 \<Rightarrow> EpochSnapshotArchive \<Rightarrow> SnapshotRecord option" where
  "EpochSnapshotArchive_get epoch self =
     bt_get (esa_records self) epoch"

definition EpochSnapshotArchive_latest ::
  "EpochSnapshotArchive \<Rightarrow> SnapshotRecord option" where
  "EpochSnapshotArchive_latest self =
     last_opt (bt_values (esa_records self))"

definition EpochSnapshotArchive_archive_size :: "EpochSnapshotArchive \<Rightarrow> nat" where
  "EpochSnapshotArchive_archive_size self =
     bt_len (esa_records self)"

definition EpochSnapshotArchive_total_messages_sent :: "EpochSnapshotArchive \<Rightarrow> u64" where
  "EpochSnapshotArchive_total_messages_sent self =
     fold (\<lambda>x acc. sat_add acc x) (map sr6_messages_sent (bt_values (esa_records self))) (0 ::
         u64)"

definition EpochSnapshotArchive_total_messages_dropped :: "EpochSnapshotArchive \<Rightarrow> u64" where
  "EpochSnapshotArchive_total_messages_dropped self =
     fold (\<lambda>x acc. sat_add acc x) (map sr6_messages_dropped (bt_values (esa_records self))) (0
         :: u64)"

fun archive_verify_from :: "sha \<Rightarrow> hash \<Rightarrow> SnapshotRecord list \<Rightarrow> bool
    \<times> u64 option" where
  "archive_verify_from sha expected_prev [] = (True, None)"
| "archive_verify_from sha expected_prev (r # rs) =
     (if compute_content_hash sha (sr6_epoch r) (sr6_active_peers r) (sr6_messages_sent r)
           (sr6_messages_received r) (sr6_messages_dropped r) \<noteq> sr6_content_hash r
      then (False, Some (sr6_epoch r))
      else if epoch_snapshot_archive_compute_record_hash sha (sr6_content_hash r) (sr6_prev_hash r)
          \<noteq> sr6_record_hash r
      then (False, Some (sr6_epoch r))
      else if sr6_prev_hash r \<noteq> expected_prev then (False, Some (sr6_epoch r))
      else archive_verify_from sha (sr6_record_hash r) rs)"

definition EpochSnapshotArchive_verify_chain :: "sha \<Rightarrow> EpochSnapshotArchive \<Rightarrow>
    bool \<times> u64 option" where
  "EpochSnapshotArchive_verify_chain sha self = archive_verify_from sha genesis (bt_values (esa_records
      self))"

text \<open>What an archive is given: epoch, active peers, messages sent, received and dropped.\<close>

type_synonym snapshot_input = "u64 \<times> u32 \<times> u64 \<times> u64 \<times> u64"

fun archive_step :: "sha \<Rightarrow> snapshot_input \<Rightarrow> EpochSnapshotArchive \<Rightarrow> EpochSnapshotArchive option" where
  "archive_step sha (e, p, s, r, d) a = map_option snd (EpochSnapshotArchive_archive sha e p s r d a)"

definition archive_after :: "sha \<Rightarrow> snapshot_input list \<Rightarrow> EpochSnapshotArchive option" where
  "archive_after sha xs = fold (\<lambda>x a. Option.bind a (archive_step sha x)) xs (Some EpochSnapshotArchive_new)"

fun snapshot_of :: "sha \<Rightarrow> snapshot_input \<Rightarrow> hash \<Rightarrow> SnapshotRecord" where
  "snapshot_of sha (e, p, s, r, d) prev = build_snapshot_record sha e p s r d prev"

text \<open>The records of some snapshots, all of them kept.\<close>

definition snapshots :: "sha \<Rightarrow> snapshot_input list \<Rightarrow> SnapshotRecord list" where
  "snapshots sha xs = fold (\<lambda>x rs. rs @ [snapshot_of sha x (last_hash sr6_record_hash rs)]) xs []"

lemma snapshots_simps [simp]:
  "snapshots sha [] = []"
  "snapshots sha (xs @ [x]) = snapshots sha xs @ [snapshot_of sha x (last_hash sr6_record_hash (snapshots sha xs))]"
  by (simp_all add: snapshots_def)

lemma snapshot_of_fields [simp]:
  "sr6_epoch (snapshot_of sha x prev) = fst x"
  "sr6_prev_hash (snapshot_of sha x prev) = prev"
  by (cases x; simp add: build_snapshot_record_def Let_def)+

lemma length_snapshots [simp]: "length (snapshots sha xs) = length xs"
  by (induction xs rule: rev_induct) simp_all

lemma epochs_snapshots [simp]: "map sr6_epoch (snapshots sha xs) = map fst xs"
  by (induction xs rule: rev_induct) simp_all

definition sound_snapshot :: "sha \<Rightarrow> SnapshotRecord \<Rightarrow> bool" where
  "sound_snapshot sha r \<longleftrightarrow>
     compute_content_hash sha (sr6_epoch r) (sr6_active_peers r) (sr6_messages_sent r)
       (sr6_messages_received r) (sr6_messages_dropped r) = sr6_content_hash r \<and>
     epoch_snapshot_archive_compute_record_hash sha (sr6_content_hash r) (sr6_prev_hash r) = sr6_record_hash r"

lemma sound_snapshot_of: "sound_snapshot sha (snapshot_of sha x prev)"
  by (cases x) (simp add: build_snapshot_record_def Let_def sound_snapshot_def)

text \<open>The check of records that are sound and linked depends on the first link only.\<close>

fun linked :: "hash \<Rightarrow> SnapshotRecord list \<Rightarrow> bool" where
  "linked g [] \<longleftrightarrow> True"
| "linked g (r # rs) \<longleftrightarrow> sr6_prev_hash r = g \<and> linked (sr6_record_hash r) rs"

lemma linked_append:
  "linked g (rs @ ss) \<longleftrightarrow> linked g rs \<and> linked (if rs = [] then g else sr6_record_hash (last rs)) ss"
  by (induction rs arbitrary: g) auto

lemma archive_verify_linked:
  "list_all (sound_snapshot sha) rs \<Longrightarrow> linked g rs \<Longrightarrow> archive_verify_from sha g rs = (True, None)"
  by (induction rs arbitrary: g) (auto simp: sound_snapshot_def)

lemma archive_verify_unlinked:
  "sound_snapshot sha r \<Longrightarrow> sr6_prev_hash r \<noteq> g \<Longrightarrow>
     archive_verify_from sha g (r # rs) = (False, Some (sr6_epoch r))"
  by (simp add: sound_snapshot_def)

lemma snapshots_ok: "list_all (sound_snapshot sha) (snapshots sha xs) \<and> linked genesis (snapshots sha xs)"
  by (induction xs rule: rev_induct) (auto simp: sound_snapshot_of linked_append last_hash_def)

text \<open>The state of an archive that was given some snapshots in ascending order.\<close>

definition archive_inv :: "sha \<Rightarrow> snapshot_input list \<Rightarrow> EpochSnapshotArchive \<Rightarrow> bool" where
  "archive_inv sha xs a \<longleftrightarrow>
     entries (esa_records a) =
       map (\<lambda>r. (sr6_epoch r, r)) (drop (length xs - MAX_ARCHIVE_SIZE) (snapshots sha xs)) \<and>
     esa_last_hash a = last_hash sr6_record_hash (snapshots sha xs) \<and>
     esa_last_epoch a = map_option fst (last_opt xs)"

lemma entries_remove_first:
  assumes "entries m = (k, v) # xs"
  shows "entries (bt_remove k m) = xs"
proof -
  have "keys_sorted ((k, v) # xs)" using keys_sorted_entries [of m] assms by simp
  then have "filter (\<lambda>e. fst e \<noteq> k) xs = xs" by (force intro: filter_True)
  then show ?thesis using assms by (simp add: bt_remove.rep_eq)
qed

lemma evict_oldest_within: "bt_len m \<le> MAX_ARCHIVE_SIZE \<Longrightarrow> evict_oldest (Suc fuel) m = Some m"
  by simp

lemma evict_oldest_one:
  assumes "entries m = (k, v) # xs" "length xs = MAX_ARCHIVE_SIZE"
  shows "evict_oldest (Suc (Suc fuel)) m = Some (bt_remove k m)"
  using assms entries_remove_first [OF assms(1)] by (simp add: bt_len_def bt_keys_def)

lemma archive_step_refuse:
  assumes "archive_inv sha xs a" "xs \<noteq> []" "fst x \<le> fst (last xs)"
  shows "archive_step sha x a = Some a"
  using assms by (cases x) (simp add: archive_inv_def EpochSnapshotArchive_archive_def last_opt_def)

lemma archive_step_accept:
  assumes inv: "archive_inv sha xs a" and up: "sorted_wrt (<) (map fst (xs @ [x]))"
  shows "\<exists>a'. archive_step sha x a = Some a' \<and> archive_inv sha (xs @ [x]) a'"
proof -
  let ?rs = "snapshots sha xs" and ?n = "length xs"
  define r where "r = snapshot_of sha x (last_hash sr6_record_hash ?rs)"
  define m where "m = bt_insert (fst x) r (esa_records a)"
  have below: "\<forall>e \<in> set (entries (esa_records a)). fst e < fst x"
  proof
    fix e assume "e \<in> set (entries (esa_records a))"
    then have "fst e \<in> sr6_epoch ` set ?rs"
      using inv by (auto simp: archive_inv_def dest: in_set_dropD)
    then have "fst e \<in> fst ` set xs" by (metis epochs_snapshots list.set_map)
    then show "fst e < fst x" using up by (auto simp: sorted_wrt_append)
  qed
  have m: "entries m = map (\<lambda>r. (sr6_epoch r, r)) (drop (?n - MAX_ARCHIVE_SIZE) ?rs @ [r])"
    using inv entries_insert_last [OF below] by (simp add: m_def archive_inv_def r_def)
  have new: "\<not> (case esa_last_epoch a of None \<Rightarrow> False | Some last_v \<Rightarrow> fst x \<le> last_v)"
    using inv up by (cases xs rule: rev_cases) (auto simp: archive_inv_def last_opt_def sorted_wrt_append)
  have step: "archive_step sha x a = map_option (\<lambda>m'. a\<lparr>esa_last_hash := sr6_record_hash r,
      esa_last_epoch := Some (fst x), esa_records := m'\<rparr>) (evict_oldest (bt_len m + 1) m)"
  proof -
    obtain e p s v d where x: "x = (e, p, s, v, d)" by (cases x)
    have L: "esa_last_hash a = last_hash sr6_record_hash ?rs" using inv by (simp add: archive_inv_def)
    have r: "build_snapshot_record sha e p s v d (esa_last_hash a) = r" by (simp add: r_def x L)
    have m': "bt_insert e r (esa_records a) = m" by (simp add: m_def x)
    show ?thesis using new [unfolded x fst_conv]
      by (cases "evict_oldest (bt_len m + 1) m")
        (simp_all add: x EpochSnapshotArchive_archive_def Let_def r m' del: evict_oldest.simps bt_len_insert)
  qed
  have len: "bt_len m = Suc (min ?n MAX_ARCHIVE_SIZE)" by (simp add: bt_len_def m)
  have "\<exists>m'. evict_oldest (bt_len m + 1) m = Some m' \<and>
      entries m' = map (\<lambda>r. (sr6_epoch r, r)) (drop (Suc ?n - MAX_ARCHIVE_SIZE) (?rs @ [r]))"
  proof (cases "?n < MAX_ARCHIVE_SIZE")
    case True
    then show ?thesis using m len by simp
  next
    case False
    then have big: "0 < length (drop (?n - MAX_ARCHIVE_SIZE) ?rs)" by (simp add: MAX_ARCHIVE_SIZE_def)
    obtain q qs where q: "drop (?n - MAX_ARCHIVE_SIZE) ?rs = q # qs" using big by (cases "drop (?n - MAX_ARCHIVE_SIZE) ?rs") auto
    have "length (q # qs) = MAX_ARCHIVE_SIZE" using False by (simp add: q [symmetric])
    then have l: "length (map (\<lambda>r. (sr6_epoch r, r)) (qs @ [r])) = MAX_ARCHIVE_SIZE" by simp
    have e: "entries m = (sr6_epoch q, q) # map (\<lambda>r. (sr6_epoch r, r)) (qs @ [r])" by (simp add: m q)
    have "drop (Suc ?n - MAX_ARCHIVE_SIZE) ?rs = qs"
      using False q by (metis Suc_diff_le drop_Suc list.sel(3) not_less tl_drop)
    then have d: "drop (Suc ?n - MAX_ARCHIVE_SIZE) (?rs @ [r]) = qs @ [r]" by (simp add: MAX_ARCHIVE_SIZE_def)
    have f: "bt_len m + 1 = Suc (Suc MAX_ARCHIVE_SIZE)" using len False by simp
    show ?thesis unfolding f d using evict_oldest_one [OF e l, of MAX_ARCHIVE_SIZE] entries_remove_first [OF e] by blast
  qed
  then obtain m' where "evict_oldest (bt_len m + 1) m = Some m'"
    "entries m' = map (\<lambda>r. (sr6_epoch r, r)) (drop (Suc ?n - MAX_ARCHIVE_SIZE) (?rs @ [r]))" by blast
  then show ?thesis by (simp add: step archive_inv_def r_def last_opt_def last_hash_def)
qed

lemma archive_after_inv:
  "\<exists>a. archive_after sha xs = Some a \<and> archive_inv sha (fold (admit fst) xs []) a"
proof (induction xs rule: rev_induct)
  case Nil
  then show ?case by (simp add: archive_after_def archive_inv_def EpochSnapshotArchive_new_def bt_empty.rep_eq last_opt_def last_hash_def)
next
  case (snoc x xs)
  let ?kept = "fold (admit fst) xs []"
  obtain a where a: "archive_after sha xs = Some a" "archive_inv sha ?kept a" using snoc by blast
  have after: "archive_after sha (xs @ [x]) = archive_step sha x a" using a(1) by (simp add: archive_after_def)
  have up: "sorted_wrt (<) (map fst (fold (admit fst) (xs @ [x]) []))" by (rule fold_admit_rising)
  show ?case
  proof (cases "?kept \<noteq> [] \<and> fst x \<le> fst (last ?kept)")
    case True
    then have "admit fst x ?kept = ?kept" by (auto simp: admit_def)
    then show ?thesis using after a(2) archive_step_refuse [OF a(2)] True by simp
  next
    case False
    then have "admit fst x ?kept = ?kept @ [x]" by (auto simp: admit_def)
    then show ?thesis using after archive_step_accept [OF a(2)] up by simp
  qed
qed

lemma archive_verdict:
  assumes "bt_values (esa_records a) = drop (length kept - 128) (snapshots sha kept)"
  shows "EpochSnapshotArchive_verify_chain sha a =
    (if length kept \<le> 128 \<or> sr6_record_hash (snapshots sha kept ! (length kept - 129)) = genesis then (True, None)
     else (False, Some (fst (kept ! (length kept - 128)))))"
proof -
  let ?n = "length kept" and ?rs = "snapshots sha kept"
  note v = assms and ok = snapshots_ok [of sha kept]
  show ?thesis
  proof (cases "?n \<le> 128")
    case True
    then show ?thesis using ok by (simp add: EpochSnapshotArchive_verify_chain_def v archive_verify_linked)
  next
    case False
    define i where "i = ?n - 128"
    have i: "0 < i" "i < ?n" "?n - 129 = i - 1" using False by (simp_all add: i_def)
    have "?rs \<noteq> []" using i(2) length_snapshots [of sha kept] by (metis length_0_conv not_less_zero)
    then have "last (take i ?rs) = ?rs ! (i - 1)" using i by (subst last_conv_nth) auto
    then have link: "linked (sr6_record_hash (?rs ! (i - 1))) (drop i ?rs)"
      using ok linked_append [of genesis "take i ?rs" "drop i ?rs"] i \<open>?rs \<noteq> []\<close> by auto
    have split: "drop i ?rs = ?rs ! i # drop (Suc i) ?rs" using i by (simp add: Cons_nth_drop_Suc)
    have sound: "list_all (sound_snapshot sha) (drop i ?rs)"
      using ok by (auto simp: list_all_iff dest: in_set_dropD)
    have ep: "sr6_epoch (?rs ! i) = fst (kept ! i)"
      using i epochs_snapshots [of sha kept] by (metis length_snapshots nth_map)
    show ?thesis
    proof (cases "sr6_record_hash (?rs ! (i - 1)) = genesis")
      case True
      then show ?thesis using link sound i by (simp add: EpochSnapshotArchive_verify_chain_def v i_def [symmetric] archive_verify_linked)
    next
      case neq: False
      have "sound_snapshot sha (?rs ! i)" "sr6_prev_hash (?rs ! i) \<noteq> genesis"
        using sound link neq by (simp_all add: split)
      then show ?thesis using neq False i ep
        by (simp add: EpochSnapshotArchive_verify_chain_def v i_def [symmetric] split archive_verify_unlinked)
    qed
  qed
qed

text \<open>C35. The archive takes any sequence of snapshots and always returns; it refuses those whose epoch is not beyond the
last one it took, and holds the records of the last 128 it took, in order, each linked to the one before.  Its
own check accepts it as long as nothing was evicted; after the first eviction the check of the untouched archive
fails at the oldest record retained, unless the hash of the record before it happens to be zero.\<close>

theorem archive_keeps_window:
  "\<exists>a. archive_after sha xs = Some a \<and>
     (let kept = fold (admit fst) xs []; rs = snapshots sha kept; n = length kept
      in bt_values (esa_records a) = drop (n - 128) rs \<and>
         bt_keys (esa_records a) = map fst (drop (n - 128) kept) \<and>
         EpochSnapshotArchive_archive_size a = min n 128 \<and> linked genesis rs \<and>
         EpochSnapshotArchive_verify_chain sha a =
           (if n \<le> 128 \<or> sr6_record_hash (rs ! (n - 129)) = genesis then (True, None)
            else (False, Some (fst (kept ! (n - 128))))))"
proof -
  define kept where "kept = fold (admit fst) xs []"
  let ?n = "length kept" and ?rs = "snapshots sha kept"
  obtain a where a: "archive_after sha xs = Some a" "archive_inv sha kept a"
    using archive_after_inv [of sha xs] by (auto simp: kept_def)
  have e: "entries (esa_records a) = map (\<lambda>r. (sr6_epoch r, r)) (drop (?n - 128) ?rs)"
    using a(2) by (simp add: archive_inv_def MAX_ARCHIVE_SIZE_def)
  have v: "bt_values (esa_records a) = drop (?n - 128) ?rs" by (simp add: bt_values_def e o_def)
  have k: "bt_keys (esa_records a) = map fst (drop (?n - 128) kept)"
    using epochs_snapshots [of sha kept] by (simp add: bt_keys_def e o_def drop_map [symmetric])
  have s: "EpochSnapshotArchive_archive_size a = min ?n 128"
    by (simp add: EpochSnapshotArchive_archive_size_def bt_len_def e)
  note ok = snapshots_ok [of sha kept]
  note archive_verdict [OF v]
  then show ?thesis using a(1) v k s ok by (auto simp: kept_def [symmetric] Let_def)
qed

section \<open>Epoch Synthesis Seal (Gate 324)\<close>

text \<open>
  \<open>epoch_synthesis_seal.rs\<close>. Closes each epoch by producing a tamper-evident SHA-256 seal
  over all three constitutional synthesis layers introduced in Gates 320-323:
\<close>

record EpochSynthesisSeal =
  ess_epoch :: u64
  ess_gossip_health_hash :: hash
  ess_resonance_hash :: hash
  ess_verdict_hash :: hash
  ess_t0_consensus :: bool
  ess_quorum_t0 :: bool
  ess_seal_hash :: hash
  ess_prev_seal :: hash

record SealInput =
  si_epoch :: u64
  si_gossip_health_hash :: hash
  si_resonance_hash :: hash
  si_node_terminal_hashes :: "(u64, hash) btmap"
  si_t0_consensus :: bool
  si_quorum_t0 :: bool

definition compute_verdict_hash :: "sha \<Rightarrow> (u64, hash) btmap \<Rightarrow> hash" where
  "compute_verdict_hash sha node_terminal_hashes =
     (if entries node_terminal_hashes = [] then genesis
      else sha (concat (map (\<lambda>(node_id, terminal). be8 node_id @
          hash_bytes terminal) (entries node_terminal_hashes))))"

definition epoch_synthesis_seal_seal_bytes ::
  "hash \<Rightarrow> u64 \<Rightarrow> hash \<Rightarrow> hash \<Rightarrow> hash \<Rightarrow> bool
      \<Rightarrow> bool \<Rightarrow> bytes" where
  "epoch_synthesis_seal_seal_bytes prev epoch gossip_health_hash resonance_hash verdict_hash
      t0_consensus quorum_t0 =
     hash_bytes prev @ be8 epoch @ hash_bytes gossip_health_hash @ hash_bytes resonance_hash @
         hash_bytes verdict_hash @ [of_bool t0_consensus] @ [of_bool quorum_t0]"

definition epoch_synthesis_seal_compute_seal_hash ::
  "sha \<Rightarrow> hash \<Rightarrow> u64 \<Rightarrow> hash \<Rightarrow> hash \<Rightarrow> hash
      \<Rightarrow> bool \<Rightarrow> bool \<Rightarrow> hash" where
  "epoch_synthesis_seal_compute_seal_hash sha prev epoch gossip_health_hash resonance_hash verdict_hash
      t0_consensus quorum_t0 =
     sha (epoch_synthesis_seal_seal_bytes prev epoch gossip_health_hash resonance_hash verdict_hash
         t0_consensus quorum_t0)"

record SynthesisSealChain =
  ssc_seals :: "EpochSynthesisSeal list"

definition SynthesisSealChain_new :: "SynthesisSealChain" where
  "SynthesisSealChain_new =
     \<lparr>ssc_seals = []\<rparr>"

definition SynthesisSealChain_append ::
  "sha \<Rightarrow> SealInput \<Rightarrow> SynthesisSealChain \<Rightarrow> EpochSynthesisSeal
      \<times> SynthesisSealChain" where
  "SynthesisSealChain_append sha inp self =
     (let prev = last_hash ess_seal_hash (ssc_seals self);
          verdict_hash = compute_verdict_hash sha (si_node_terminal_hashes inp);
          seal_hash = epoch_synthesis_seal_compute_seal_hash sha prev (si_epoch inp)
            (si_gossip_health_hash inp) (si_resonance_hash inp) verdict_hash (si_t0_consensus inp)
            (si_quorum_t0 inp);
          seal = \<lparr>ess_epoch = si_epoch inp, ess_gossip_health_hash = si_gossip_health_hash inp,
            ess_resonance_hash = si_resonance_hash inp, ess_verdict_hash = verdict_hash,
            ess_t0_consensus = si_t0_consensus inp, ess_quorum_t0 = si_quorum_t0 inp,
            ess_seal_hash = seal_hash, ess_prev_seal = prev\<rparr>;
          self = self\<lparr>ssc_seals := (ssc_seals self) @ [seal]\<rparr>
      in (seal, self))"

definition SynthesisSealChain_latest ::
  "SynthesisSealChain \<Rightarrow> EpochSynthesisSeal option" where
  "SynthesisSealChain_latest self =
     last_opt (ssc_seals self)"

definition SynthesisSealChain_terminal_hash :: "SynthesisSealChain \<Rightarrow> hash" where
  "SynthesisSealChain_terminal_hash self =
     last_hash ess_seal_hash (ssc_seals self)"

definition SynthesisSealChain_consensus_count :: "SynthesisSealChain \<Rightarrow> nat" where
  "SynthesisSealChain_consensus_count self =
     length (filter (\<lambda>s. ess_t0_consensus s \<and> ess_quorum_t0 s) (ssc_seals self))"

definition SynthesisSealChain_violation_count :: "SynthesisSealChain \<Rightarrow> nat" where
  "SynthesisSealChain_violation_count self =
     length (filter (\<lambda>s. \<not> (ess_t0_consensus s)) (ssc_seals self))"

definition EpochSynthesisSeal_bytes_of :: "EpochSynthesisSeal \<Rightarrow> bytes" where
  "EpochSynthesisSeal_bytes_of s =
     epoch_synthesis_seal_seal_bytes (ess_prev_seal s) (ess_epoch s) (ess_gossip_health_hash s)
         (ess_resonance_hash s) (ess_verdict_hash s) (ess_t0_consensus s) (ess_quorum_t0 s)"

definition SynthesisSealChain_verify_chain ::
  "sha \<Rightarrow> SynthesisSealChain \<Rightarrow> bool \<times> nat option" where
  "SynthesisSealChain_verify_chain sha self =
     verify_from ess_prev_seal ess_seal_hash (\<lambda>r. sha (EpochSynthesisSeal_bytes_of r)) 0 genesis
         (ssc_seals self)"

lemma epoch_synthesis_seal_seal_bytes_inj:
  "epoch_synthesis_seal_seal_bytes prev epoch gossip_health_hash resonance_hash verdict_hash
      t0_consensus quorum_t0 = epoch_synthesis_seal_seal_bytes prev' epoch' gossip_health_hash'
      resonance_hash' verdict_hash' t0_consensus' quorum_t0' \<longleftrightarrow>
   prev = prev' \<and> epoch = epoch' \<and> gossip_health_hash = gossip_health_hash' \<and>
       resonance_hash = resonance_hash' \<and> verdict_hash = verdict_hash' \<and> t0_consensus =
       t0_consensus' \<and> quorum_t0 = quorum_t0'"
  by (auto simp: epoch_synthesis_seal_seal_bytes_def enc_simps)

definition EpochSynthesisSeal_committed :: "EpochSynthesisSeal \<Rightarrow> u64 \<times> hash \<times>
    hash \<times> hash \<times> bool \<times> bool" where
  "EpochSynthesisSeal_committed s =
     (ess_epoch s, ess_gossip_health_hash s, ess_resonance_hash s, ess_verdict_hash s,
         ess_t0_consensus s, ess_quorum_t0 s)"

interpretation epoch_synthesis_seal: hash_log EpochSynthesisSeal_bytes_of ess_prev_seal ess_seal_hash
    EpochSynthesisSeal_committed
  by unfold_locales (auto simp: EpochSynthesisSeal_bytes_of_def EpochSynthesisSeal_committed_def
      epoch_synthesis_seal_seal_bytes_inj)

lemma epoch_synthesis_seal_verify_iff: "SynthesisSealChain_verify_chain sha l = (True,
    None) \<longleftrightarrow> epoch_synthesis_seal.ok sha (ssc_seals l)"
  by (simp add: SynthesisSealChain_verify_chain_def verify_from_iff)

lemma synthesis_seal_chain_append_ok: "epoch_synthesis_seal.ok sha (ssc_seals l) \<Longrightarrow>
    epoch_synthesis_seal.ok sha (ssc_seals (snd (SynthesisSealChain_append sha inp l)))"
  by (simp add: Let_def split_def SynthesisSealChain_append_def
      epoch_synthesis_seal_compute_seal_hash_def EpochSynthesisSeal_bytes_of_def
      SynthesisSealChain_terminal_hash_def split: option.split sum.split)

end
