(* ===== verification/Fault_Handling.thy ===== *)
theory Fault_Handling
  imports Peer_Registry Node_State_Machine Quorum_Guard
begin

text \<open>
  How the mesh reacts to the life cycles of its nodes: the census of their states, the assessment of
  the faults of an epoch, the plan of recovery drawn from both, the fanout that a level of quorum
  calls for, and the tick that turns the condition of a node into the next heartbeat.
\<close>

section \<open>Mesh Census: periodic peer mesh population snapshot (Gate 264)\<close>

text \<open>
  \<open>mesh_census.rs\<close>. Takes a periodic census of the gossip mesh, counting nodes by state
  and capability. Produces a CensusRecord for each epoch; records are hash-chained.
\<close>

record CensusRecord =
  cr5_epoch :: u64
  cr5_total_nodes :: nat
  cr5_active_count :: nat
  cr5_degraded_count :: nat
  cr5_halted_count :: nat
  cr5_gossip_capable_count :: nat
  cr5_consensus_capable_count :: nat
  cr5_health_ratio_pct :: u8
  cr5_census_hash :: hash
  cr5_prev_hash :: hash

definition CensusRecord_mesh_healthy :: "CensusRecord \<Rightarrow> bool" where
  "CensusRecord_mesh_healthy self \<longleftrightarrow>
     (if (cr5_total_nodes self) = 0 then False
      else (usize_mul (cr5_active_count self) 1000000) \<ge> (usize_mul (cr5_total_nodes self) 618034))"

definition census_bytes ::
  "u64 \<Rightarrow> nat \<Rightarrow> nat \<Rightarrow> nat \<Rightarrow> nat \<Rightarrow> hash
      \<Rightarrow> bytes" where
  "census_bytes epoch total_v active degraded halted prev =
     hash_bytes prev @ be8 epoch @ be8 (of_nat total_v :: u64) @ be8 (of_nat active :: u64) @
         be8 (of_nat degraded :: u64) @ be8 (of_nat halted :: u64)"

definition compute_census_hash ::
  "sha \<Rightarrow> u64 \<Rightarrow> nat \<Rightarrow> nat \<Rightarrow> nat \<Rightarrow> nat
      \<Rightarrow> hash \<Rightarrow> hash" where
  "compute_census_hash sha epoch total_v active degraded halted prev =
     sha (census_bytes epoch total_v active degraded halted prev)"

definition take_census ::
  "sha \<Rightarrow> u64 \<Rightarrow> NodeHistory list \<Rightarrow> PeerRegistry \<Rightarrow> hash
      \<Rightarrow> CensusRecord" where
  "take_census sha epoch histories registry prev_hash =
     (let total_nodes = length histories;
          active_count = length (filter (\<lambda>h. NodeState_is_operational (nh_current_state h))
            histories);
          degraded_count = length (filter (\<lambda>h. (nh_current_state h) = NodeState.Degraded)
            histories);
          halted_count = length (filter (\<lambda>h. (nh_current_state h) = NodeState.Halted)
            histories);
          gossip_capable_count = length (PeerRegistry_peers_with_cap cap_GOSSIP registry);
          consensus_capable_count = length (PeerRegistry_peers_with_cap cap_CONSENSUS registry);
          health_ratio_pct = (if total_nodes = 0 then 0 else (of_nat (min ((usize_mul active_count 100)
            div total_nodes) 100) :: u8));
          census_hash = compute_census_hash sha epoch total_nodes active_count degraded_count
            halted_count prev_hash
      in \<lparr>cr5_epoch = epoch, cr5_total_nodes = total_nodes, cr5_active_count = active_count,
          cr5_degraded_count = degraded_count, cr5_halted_count = halted_count,
          cr5_gossip_capable_count = gossip_capable_count, cr5_consensus_capable_count =
          consensus_capable_count, cr5_health_ratio_pct = health_ratio_pct,
          cr5_census_hash = census_hash, cr5_prev_hash = prev_hash\<rparr>)"

datatype CensusTrend = Improving | Stable | Declining | Insufficient

fun CensusTrend_as_u8 :: "CensusTrend \<Rightarrow> u8" where
  "CensusTrend_as_u8 CensusTrend.Improving = 0"
| "CensusTrend_as_u8 CensusTrend.Stable = 1"
| "CensusTrend_as_u8 CensusTrend.Declining = 2"
| "CensusTrend_as_u8 CensusTrend.Insufficient = 3"

lemma CensusTrend_as_u8_inj [simp]: "CensusTrend_as_u8 x = CensusTrend_as_u8 y \<longleftrightarrow> x =
    y"
  by (cases x; cases y) auto

record CensusLog =
  cl5_records :: "CensusRecord list"

datatype CensusError = StaleEpoch

fun CensusError_as_u8 :: "CensusError \<Rightarrow> u8" where
  "CensusError_as_u8 CensusError.StaleEpoch = 0"

lemma CensusError_as_u8_inj [simp]: "CensusError_as_u8 x = CensusError_as_u8 y \<longleftrightarrow> x =
    y"
  by (cases x; cases y) auto

definition CensusLog_new :: "CensusLog" where
  "CensusLog_new =
     \<lparr>cl5_records = []\<rparr>"

definition CensusLog_latest :: "CensusLog \<Rightarrow> CensusRecord option" where
  "CensusLog_latest self =
     last_opt (cl5_records self)"

definition CensusLog_last_hash :: "CensusLog \<Rightarrow> hash" where
  "CensusLog_last_hash self =
     last_hash cr5_census_hash (cl5_records self)"

definition CensusLog_record ::
  "sha \<Rightarrow> u64 \<Rightarrow> NodeHistory list \<Rightarrow> PeerRegistry \<Rightarrow>
      CensusLog \<Rightarrow> (CensusError + CensusRecord) \<times> CensusLog" where
  "CensusLog_record sha epoch histories registry self =
     (if cl5_records self \<noteq> [] \<and> epoch \<le> (cr5_epoch (last (cl5_records self))) then (Inl
         CensusError.StaleEpoch, self)
      else (let prev_hash = CensusLog_last_hash self;
          rec = take_census sha epoch histories registry prev_hash;
          self = self\<lparr>cl5_records := (cl5_records self) @ [rec]\<rparr>
      in (Inr (last (cl5_records self)), self)))"

definition CensusLog_min_health_pct :: "CensusLog \<Rightarrow> u8" where
  "CensusLog_min_health_pct self =
     unwrap_or 0 (list_min (map cr5_health_ratio_pct (cl5_records self)))"

definition CensusLog_trend :: "CensusLog \<Rightarrow> CensusTrend" where
  "CensusLog_trend self =
     (if (length (cl5_records self)) < 2 then CensusTrend.Insufficient
      else (let prev = cr5_health_ratio_pct ((cl5_records self) ! ((length (cl5_records self)) - 2));
          last_v = cr5_health_ratio_pct ((cl5_records self) ! ((length (cl5_records self)) - 1))
      in if last_v > prev then CensusTrend.Improving
      else if last_v < prev then CensusTrend.Declining
      else CensusTrend.Stable))"

definition CensusRecord_bytes_of :: "CensusRecord \<Rightarrow> bytes" where
  "CensusRecord_bytes_of rec =
     census_bytes (cr5_epoch rec) (cr5_total_nodes rec) (cr5_active_count rec) (cr5_degraded_count rec)
         (cr5_halted_count rec) (cr5_prev_hash rec)"

definition CensusLog_verify_chain ::
  "sha \<Rightarrow> CensusLog \<Rightarrow> bool \<times> nat option" where
  "CensusLog_verify_chain sha self =
     verify_from cr5_prev_hash cr5_census_hash (\<lambda>r. sha (CensusRecord_bytes_of r)) 0 genesis
         (cl5_records self)"

lemma census_bytes_inj:
  "census_bytes epoch total_v active degraded halted prev = census_bytes epoch' total_v' active'
      degraded' halted' prev' \<longleftrightarrow>
   prev = prev' \<and> epoch = epoch' \<and> (of_nat total_v :: u64) = (of_nat total_v' :: u64) \<and>
       (of_nat active :: u64) = (of_nat active' :: u64) \<and> (of_nat degraded :: u64) = (of_nat
       degraded' :: u64) \<and> (of_nat halted :: u64) = (of_nat halted' :: u64)"
  by (auto simp: census_bytes_def enc_simps)

definition CensusRecord_committed :: "CensusRecord \<Rightarrow> u64 \<times> u64 \<times> u64 \<times>
    u64 \<times> u64" where
  "CensusRecord_committed rec =
     (cr5_epoch rec, of_nat (cr5_total_nodes rec) :: u64, of_nat (cr5_active_count rec) :: u64,
         of_nat (cr5_degraded_count rec) :: u64, of_nat (cr5_halted_count rec) :: u64)"

interpretation mesh_census: hash_log CensusRecord_bytes_of cr5_prev_hash cr5_census_hash
    CensusRecord_committed
  by unfold_locales (auto simp: CensusRecord_bytes_of_def CensusRecord_committed_def census_bytes_inj)

lemma mesh_census_verify_iff: "CensusLog_verify_chain sha l = (True,
    None) \<longleftrightarrow> mesh_census.ok sha (cl5_records l)"
  by (simp add: CensusLog_verify_chain_def verify_from_iff)

lemma take_census_linked:
  "cr5_prev_hash (take_census sha epoch histories registry prev_hash) = prev_hash"
  "cr5_census_hash (take_census sha epoch histories registry prev_hash) = sha (CensusRecord_bytes_of
      (take_census sha epoch histories registry prev_hash))"
  by (simp_all add: take_census_def compute_census_hash_def CensusRecord_bytes_of_def Let_def split_def)

lemma census_log_record_ok: "mesh_census.ok sha (cl5_records l) \<Longrightarrow> mesh_census.ok sha
    (cl5_records (snd (CensusLog_record sha epoch histories registry l)))"
  by (simp add: Let_def split_def CensusLog_record_def CensusLog_last_hash_def take_census_linked split:
      option.split sum.split)

section \<open>Fault Detector: mesh-wide fault pattern classifier (Gate 263)\<close>

text \<open>
  \<open>fault_detector.rs\<close>. Analyses NodeHistory records across the mesh to classify fault
  patterns. Fault classification helps triage whether degradations are isolated or systemic.
\<close>

datatype FaultClass = Nothing | Isolated | Correlated | Cascading

fun FaultClass_as_u8 :: "FaultClass \<Rightarrow> u8" where
  "FaultClass_as_u8 FaultClass.Nothing = 0"
| "FaultClass_as_u8 FaultClass.Isolated = 1"
| "FaultClass_as_u8 FaultClass.Correlated = 2"
| "FaultClass_as_u8 FaultClass.Cascading = 3"

lemma FaultClass_as_u8_inj [simp]: "FaultClass_as_u8 x = FaultClass_as_u8 y \<longleftrightarrow> x = y"
  by (cases x; cases y) auto

definition FaultClass_is_systemic :: "FaultClass \<Rightarrow> bool" where
  "FaultClass_is_systemic self \<longleftrightarrow>
     self = FaultClass.Correlated \<or> self = FaultClass.Cascading"

definition FaultClass_requires_intervention :: "FaultClass \<Rightarrow> bool" where
  "FaultClass_requires_intervention self \<longleftrightarrow>
     self = FaultClass.Cascading"

record FaultReport =
  fr5_epoch :: u64
  fr5_degraded_nodes :: "u32 list"
  fr5_fault_class :: FaultClass
  fr5_window_epochs :: u8
  fr5_report_hash :: hash
  fr5_prev_hash :: hash

definition FaultReport_degraded_count :: "FaultReport \<Rightarrow> nat" where
  "FaultReport_degraded_count self =
     length (fr5_degraded_nodes self)"

definition FaultReport_is_clean :: "FaultReport \<Rightarrow> bool" where
  "FaultReport_is_clean self \<longleftrightarrow>
     (fr5_fault_class self) = FaultClass.Nothing"

definition fault_detector_report_bytes ::
  "u64 \<Rightarrow> nat \<Rightarrow> FaultClass \<Rightarrow> hash \<Rightarrow> bytes" where
  "fault_detector_report_bytes epoch degraded_count fault_class prev =
     hash_bytes prev @ be8 epoch @ be8 (of_nat degraded_count :: u64) @ [FaultClass_as_u8 fault_class]"

definition fault_detector_compute_report_hash ::
  "sha \<Rightarrow> u64 \<Rightarrow> nat \<Rightarrow> FaultClass \<Rightarrow> hash \<Rightarrow>
      hash" where
  "fault_detector_compute_report_hash sha epoch degraded_count fault_class prev =
     sha (fault_detector_report_bytes epoch degraded_count fault_class prev)"

definition count_degraded :: "NodeHistory list \<Rightarrow> u32 list" where
  "count_degraded histories =
     sort (map nh_node_id (filter (\<lambda>h. nh_current_state h \<in> {NodeState.Degraded,
         NodeState.Halted}) histories))"

definition epoch_degradation_counts :: "NodeHistory list \<Rightarrow> u64 \<Rightarrow> u8
    \<Rightarrow> (u64, nat) btmap" where
  "epoch_degradation_counts histories epoch window =
     (let start_epoch = sat_sub epoch (ucast window)
      in fold (\<lambda>h counts. fold (\<lambda>rec counts.
             if nr_to_state rec = NodeState.Degraded \<and> start_epoch \<le> nr_epoch rec \<and>
               nr_epoch rec \<le> epoch
             then bt_insert (nr_epoch rec) (bt_get_or 0 counts (nr_epoch rec) + 1) counts else counts)
               (nh_records h) counts)
           histories bt_empty)"

definition classify_fault :: "nat \<Rightarrow> (u64, nat) btmap \<Rightarrow> FaultClass" where
  "classify_fault degraded_count epoch_counts =
     (if degraded_count = 0 then FaultClass.Nothing
      else if degraded_count = 1 then FaultClass.Isolated
      else (let values = bt_values epoch_counts
      in if (length values) \<ge> 2 then (let monotone = list_all (\<lambda>w. (w ! 1) \<ge> (w ! 0))
          (map (\<lambda>(x, y). [x, y]) (zip values (tl values)))
      in if monotone then FaultClass.Cascading
      else FaultClass.Correlated)
      else FaultClass.Correlated))"

definition assess ::
  "sha \<Rightarrow> u64 \<Rightarrow> NodeHistory list \<Rightarrow> u8 \<Rightarrow> hash
      \<Rightarrow> FaultReport" where
  "assess sha epoch histories window prev_hash =
     (let degraded_nodes = count_degraded histories;
          epoch_counts = epoch_degradation_counts histories epoch window;
          fault_class = classify_fault (length degraded_nodes) epoch_counts;
          report_hash = fault_detector_compute_report_hash sha epoch (length degraded_nodes) fault_class
            prev_hash
      in \<lparr>fr5_epoch = epoch, fr5_degraded_nodes = degraded_nodes, fr5_fault_class = fault_class,
          fr5_window_epochs = window, fr5_report_hash = report_hash, fr5_prev_hash = prev_hash\<rparr>)"

record FaultLog =
  fl4_reports :: "FaultReport list"

datatype FaultLogError = StaleEpoch

fun FaultLogError_as_u8 :: "FaultLogError \<Rightarrow> u8" where
  "FaultLogError_as_u8 FaultLogError.StaleEpoch = 0"

lemma FaultLogError_as_u8_inj [simp]: "FaultLogError_as_u8 x = FaultLogError_as_u8 y
    \<longleftrightarrow> x = y"
  by (cases x; cases y) auto

definition FaultLog_new :: "FaultLog" where
  "FaultLog_new =
     \<lparr>fl4_reports = []\<rparr>"

definition FaultLog_latest :: "FaultLog \<Rightarrow> FaultReport option" where
  "FaultLog_latest self =
     last_opt (fl4_reports self)"

definition FaultLog_last_hash :: "FaultLog \<Rightarrow> hash" where
  "FaultLog_last_hash self =
     last_hash fr5_report_hash (fl4_reports self)"

definition FaultLog_record ::
  "sha \<Rightarrow> u64 \<Rightarrow> NodeHistory list \<Rightarrow> u8 \<Rightarrow> FaultLog
      \<Rightarrow> (FaultLogError + FaultReport) \<times> FaultLog" where
  "FaultLog_record sha epoch histories window self =
     (if fl4_reports self \<noteq> [] \<and> epoch < (fr5_epoch (last (fl4_reports self))) then (Inl
         FaultLogError.StaleEpoch, self)
      else (let prev_hash = FaultLog_last_hash self;
          report = assess sha epoch histories window prev_hash;
          self = self\<lparr>fl4_reports := (fl4_reports self) @ [report]\<rparr>
      in (Inr (last (fl4_reports self)), self)))"

definition FaultLog_cascading_count :: "FaultLog \<Rightarrow> nat" where
  "FaultLog_cascading_count self =
     length (filter (\<lambda>r. (fr5_fault_class r) = FaultClass.Cascading) (fl4_reports self))"

definition FaultLog_max_degraded_count :: "FaultLog \<Rightarrow> nat" where
  "FaultLog_max_degraded_count self =
     unwrap_or 0 (list_max (map FaultReport_degraded_count (fl4_reports self)))"

definition FaultReport_bytes_of :: "FaultReport \<Rightarrow> bytes" where
  "FaultReport_bytes_of rep =
     fault_detector_report_bytes (fr5_epoch rep) (FaultReport_degraded_count rep) (fr5_fault_class rep)
         (fr5_prev_hash rep)"

definition FaultLog_verify_chain ::
  "sha \<Rightarrow> FaultLog \<Rightarrow> bool \<times> nat option" where
  "FaultLog_verify_chain sha self =
     verify_from fr5_prev_hash fr5_report_hash (\<lambda>r. sha (FaultReport_bytes_of r)) 0 genesis
         (fl4_reports self)"

lemma fault_detector_report_bytes_inj:
  "fault_detector_report_bytes epoch degraded_count fault_class prev = fault_detector_report_bytes
      epoch' degraded_count' fault_class' prev' \<longleftrightarrow>
   prev = prev' \<and> epoch = epoch' \<and> (of_nat degraded_count :: u64) = (of_nat degraded_count' ::
       u64) \<and> fault_class = fault_class'"
  by (auto simp: fault_detector_report_bytes_def enc_simps)

definition FaultReport_committed :: "FaultReport \<Rightarrow> u64 \<times> u64 \<times> FaultClass"
    where
  "FaultReport_committed rep =
     (fr5_epoch rep, of_nat (FaultReport_degraded_count rep) :: u64, fr5_fault_class rep)"

interpretation fault_detector: hash_log FaultReport_bytes_of fr5_prev_hash fr5_report_hash
    FaultReport_committed
  by unfold_locales (auto simp: FaultReport_bytes_of_def FaultReport_committed_def
      fault_detector_report_bytes_inj)

lemma fault_detector_verify_iff: "FaultLog_verify_chain sha l = (True,
    None) \<longleftrightarrow> fault_detector.ok sha (fl4_reports l)"
  by (simp add: FaultLog_verify_chain_def verify_from_iff)

lemma assess_linked:
  "fr5_prev_hash (assess sha epoch histories window prev_hash) = prev_hash"
  "fr5_report_hash (assess sha epoch histories window prev_hash) = sha (FaultReport_bytes_of (assess sha
      epoch histories window prev_hash))"
  by (simp_all add: assess_def fault_detector_compute_report_hash_def FaultReport_bytes_of_def Let_def
      split_def FaultReport_degraded_count_def)

lemma fault_log_record_ok: "fault_detector.ok sha (fl4_reports l) \<Longrightarrow> fault_detector.ok
    sha (fl4_reports (snd (FaultLog_record sha epoch histories window l)))"
  by (simp add: Let_def split_def FaultLog_record_def FaultLog_last_hash_def assess_linked split:
      option.split sum.split)

section \<open>Recovery Planner: ranked recovery action sequences for degraded mesh (Gate 265)\<close>

text \<open>
  \<open>recovery_planner.rs\<close>. Analyses CensusRecord + FaultReport to produce a ranked
  RecoveryPlan. Each plan is a sequence of RecoveryAction items in priority order.
\<close>

datatype RecoveryActionKind = MonitorOnly | IsolateNode | RestartNode | ReduceLoad | ActivateSpare |
    PartialQuorumMode | HaltAndReform

fun RecoveryActionKind_as_u8 :: "RecoveryActionKind \<Rightarrow> u8" where
  "RecoveryActionKind_as_u8 RecoveryActionKind.MonitorOnly = 0"
| "RecoveryActionKind_as_u8 RecoveryActionKind.IsolateNode = 1"
| "RecoveryActionKind_as_u8 RecoveryActionKind.RestartNode = 2"
| "RecoveryActionKind_as_u8 RecoveryActionKind.ReduceLoad = 3"
| "RecoveryActionKind_as_u8 RecoveryActionKind.ActivateSpare = 4"
| "RecoveryActionKind_as_u8 RecoveryActionKind.PartialQuorumMode = 5"
| "RecoveryActionKind_as_u8 RecoveryActionKind.HaltAndReform = 6"

lemma RecoveryActionKind_as_u8_inj [simp]: "RecoveryActionKind_as_u8 x = RecoveryActionKind_as_u8 y
    \<longleftrightarrow> x = y"
  by (cases x; cases y) auto

definition RecoveryActionKind_is_disruptive :: "RecoveryActionKind \<Rightarrow> bool" where
  "RecoveryActionKind_is_disruptive self \<longleftrightarrow>
     self = RecoveryActionKind.PartialQuorumMode \<or> self = RecoveryActionKind.HaltAndReform"

record RecoveryAction_planner =
  ra2_kind :: RecoveryActionKind
  ra2_priority :: u8
  ra2_target_node_id :: "u32 option"
  ra2_rationale :: string

definition RecoveryAction_planner_is_node_specific :: "RecoveryAction_planner \<Rightarrow> bool" where
  "RecoveryAction_planner_is_node_specific self \<longleftrightarrow>
     (ra2_target_node_id self) \<noteq> None"

record RecoveryPlan =
  rp_epoch :: u64
  rp_fault_class :: FaultClass
  rp_actions :: "RecoveryAction_planner list"
  rp_plan_hash :: hash
  rp_prev_hash :: hash

definition RecoveryPlan_action_count :: "RecoveryPlan \<Rightarrow> nat" where
  "RecoveryPlan_action_count self =
     length (rp_actions self)"

definition RecoveryPlan_requires_disruption :: "RecoveryPlan \<Rightarrow> bool" where
  "RecoveryPlan_requires_disruption self \<longleftrightarrow>
     list_ex (\<lambda>a. RecoveryActionKind_is_disruptive (ra2_kind a)) (rp_actions self)"

definition RecoveryPlan_top_action :: "RecoveryPlan \<Rightarrow> RecoveryAction_planner option" where
  "RecoveryPlan_top_action self =
     first_opt (rp_actions self)"

definition recovery_planner_plan_bytes ::
  "u64 \<Rightarrow> FaultClass \<Rightarrow> nat \<Rightarrow> hash \<Rightarrow> bytes" where
  "recovery_planner_plan_bytes epoch fault_class action_count prev =
     hash_bytes prev @ be8 epoch @ [FaultClass_as_u8 fault_class] @ be8 (of_nat action_count :: u64)"

definition recovery_planner_compute_plan_hash ::
  "sha \<Rightarrow> u64 \<Rightarrow> FaultClass \<Rightarrow> nat \<Rightarrow> hash \<Rightarrow>
      hash" where
  "recovery_planner_compute_plan_hash sha epoch fault_class action_count prev =
     sha (recovery_planner_plan_bytes epoch fault_class action_count prev)"

definition build_recovery_plan :: "sha \<Rightarrow> u64 \<Rightarrow> CensusRecord \<Rightarrow>
    FaultClass \<Rightarrow> u32 list \<Rightarrow> hash \<Rightarrow> RecoveryPlan" where
  "build_recovery_plan sha epoch census fault_class degraded_nodes prev_hash =
     (let actions = (case fault_class of
          FaultClass.Nothing \<Rightarrow>
            [\<lparr>ra2_kind = RecoveryActionKind.MonitorOnly, ra2_priority = 200,
              ra2_target_node_id = None, ra2_rationale = ''no fault detected''\<rparr>]
        | FaultClass.Isolated \<Rightarrow>
            [\<lparr>ra2_kind = RecoveryActionKind.RestartNode, ra2_priority = 10,
              ra2_target_node_id = first_opt degraded_nodes, ra2_rationale =
                ''isolated fault - restart degraded node''\<rparr>,
             \<lparr>ra2_kind = RecoveryActionKind.MonitorOnly, ra2_priority = 100,
              ra2_target_node_id = None, ra2_rationale = ''monitor mesh health after restart''\<rparr>]
        | FaultClass.Correlated \<Rightarrow>
            map (\<lambda>n. \<lparr>ra2_kind = RecoveryActionKind.IsolateNode, ra2_priority = 20,
              ra2_target_node_id = Some n, ra2_rationale =
                ''correlated fault - isolate degraded node''\<rparr>) degraded_nodes @
            [\<lparr>ra2_kind = RecoveryActionKind.ActivateSpare, ra2_priority = 30,
              ra2_target_node_id = None, ra2_rationale = ''replace isolated nodes with spare''\<rparr>,
             \<lparr>ra2_kind = RecoveryActionKind.ReduceLoad, ra2_priority = 40,
              ra2_target_node_id = None, ra2_rationale = ''reduce gossip load during recovery''\<rparr>]
        | FaultClass.Cascading \<Rightarrow>
            (if CensusRecord_mesh_healthy census then
               [\<lparr>ra2_kind = RecoveryActionKind.PartialQuorumMode, ra2_priority = 5,
                 ra2_target_node_id = None, ra2_rationale =
                   ''cascading fault - operate at reduced quorum''\<rparr>] @
               map (\<lambda>n. \<lparr>ra2_kind = RecoveryActionKind.IsolateNode, ra2_priority = 15,
                 ra2_target_node_id = Some n, ra2_rationale =
                   ''isolate cascading fault source''\<rparr>) degraded_nodes @
               [\<lparr>ra2_kind = RecoveryActionKind.ActivateSpare, ra2_priority = 25,
                 ra2_target_node_id = None, ra2_rationale =
                   ''activate spare to restore quorum''\<rparr>]
             else
               [\<lparr>ra2_kind = RecoveryActionKind.HaltAndReform, ra2_priority = 0,
                 ra2_target_node_id = None, ra2_rationale =
                   ''mesh below phi threshold - halt and reform''\<rparr>]));
          actions = sort_key (\<lambda>a. (ra2_priority a, RecoveryActionKind_as_u8 (ra2_kind a)))
            actions;
          plan_hash = recovery_planner_compute_plan_hash sha epoch fault_class (length actions)
            prev_hash
      in \<lparr>rp_epoch = epoch, rp_fault_class = fault_class, rp_actions = actions,
           rp_plan_hash = plan_hash, rp_prev_hash = prev_hash\<rparr>)"

record PlanLog =
  pl3_plans :: "RecoveryPlan list"

datatype PlanLogError = StaleEpoch

fun PlanLogError_as_u8 :: "PlanLogError \<Rightarrow> u8" where
  "PlanLogError_as_u8 PlanLogError.StaleEpoch = 0"

lemma PlanLogError_as_u8_inj [simp]: "PlanLogError_as_u8 x = PlanLogError_as_u8 y \<longleftrightarrow>
    x = y"
  by (cases x; cases y) auto

definition PlanLog_new :: "PlanLog" where
  "PlanLog_new =
     \<lparr>pl3_plans = []\<rparr>"

definition PlanLog_latest :: "PlanLog \<Rightarrow> RecoveryPlan option" where
  "PlanLog_latest self =
     last_opt (pl3_plans self)"

definition PlanLog_last_hash :: "PlanLog \<Rightarrow> hash" where
  "PlanLog_last_hash self =
     last_hash rp_plan_hash (pl3_plans self)"

definition PlanLog_record ::
  "sha \<Rightarrow> u64 \<Rightarrow> CensusRecord \<Rightarrow> FaultClass \<Rightarrow> u32 list
      \<Rightarrow> PlanLog \<Rightarrow> (PlanLogError + RecoveryPlan) \<times> PlanLog" where
  "PlanLog_record sha epoch census fault_class degraded_nodes self =
     (if pl3_plans self \<noteq> [] \<and> epoch \<le> (rp_epoch (last (pl3_plans self))) then (Inl
         PlanLogError.StaleEpoch, self)
      else (let prev_hash = PlanLog_last_hash self;
          plan = build_recovery_plan sha epoch census fault_class degraded_nodes prev_hash;
          self = self\<lparr>pl3_plans := (pl3_plans self) @ [plan]\<rparr>
      in (Inr (last (pl3_plans self)), self)))"

definition PlanLog_disruptive_count :: "PlanLog \<Rightarrow> nat" where
  "PlanLog_disruptive_count self =
     length (filter RecoveryPlan_requires_disruption (pl3_plans self))"

definition RecoveryPlan_bytes_of :: "RecoveryPlan \<Rightarrow> bytes" where
  "RecoveryPlan_bytes_of plan =
     recovery_planner_plan_bytes (rp_epoch plan) (rp_fault_class plan) (RecoveryPlan_action_count plan)
         (rp_prev_hash plan)"

definition PlanLog_verify_chain ::
  "sha \<Rightarrow> PlanLog \<Rightarrow> bool \<times> nat option" where
  "PlanLog_verify_chain sha self =
     verify_from rp_prev_hash rp_plan_hash (\<lambda>r. sha (RecoveryPlan_bytes_of r)) 0 genesis
         (pl3_plans self)"

lemma recovery_planner_plan_bytes_inj:
  "recovery_planner_plan_bytes epoch fault_class action_count prev = recovery_planner_plan_bytes epoch'
      fault_class' action_count' prev' \<longleftrightarrow>
   prev = prev' \<and> epoch = epoch' \<and> fault_class = fault_class' \<and> (of_nat action_count ::
       u64) = (of_nat action_count' :: u64)"
  by (auto simp: recovery_planner_plan_bytes_def enc_simps)

definition RecoveryPlan_committed :: "RecoveryPlan \<Rightarrow> u64 \<times> FaultClass \<times> u64"
    where
  "RecoveryPlan_committed plan =
     (rp_epoch plan, rp_fault_class plan, of_nat (RecoveryPlan_action_count plan) :: u64)"

interpretation recovery_planner: hash_log RecoveryPlan_bytes_of rp_prev_hash rp_plan_hash
    RecoveryPlan_committed
  by unfold_locales (auto simp: RecoveryPlan_bytes_of_def RecoveryPlan_committed_def
      recovery_planner_plan_bytes_inj)

lemma recovery_planner_verify_iff: "PlanLog_verify_chain sha l = (True,
    None) \<longleftrightarrow> recovery_planner.ok sha (pl3_plans l)"
  by (simp add: PlanLog_verify_chain_def verify_from_iff)

lemma build_recovery_plan_linked:
  "rp_prev_hash (build_recovery_plan sha epoch census fault_class degraded_nodes prev_hash) = prev_hash"
  "rp_plan_hash (build_recovery_plan sha epoch census fault_class degraded_nodes prev_hash) = sha
      (RecoveryPlan_bytes_of (build_recovery_plan sha epoch census fault_class degraded_nodes
      prev_hash))"
  by (simp_all add: build_recovery_plan_def recovery_planner_compute_plan_hash_def
      RecoveryPlan_bytes_of_def Let_def split_def RecoveryPlan_action_count_def)

lemma plan_log_record_ok: "recovery_planner.ok sha (pl3_plans l) \<Longrightarrow> recovery_planner.ok
    sha (pl3_plans (snd (PlanLog_record sha epoch census fault_class degraded_nodes l)))"
  by (simp add: Let_def split_def PlanLog_record_def PlanLog_last_hash_def build_recovery_plan_linked
      split: option.split sum.split)

section \<open>Fanout Controller: adaptive gossip fanout based on mesh health (Gate 273)\<close>

text \<open>
  \<open>fanout_controller.rs\<close>. Computes the optimal gossip fanout for the current epoch based
  on:
\<close>

datatype FanoutPolicy = Conservative | Standard | Aggressive | Maximum

fun FanoutPolicy_as_u8 :: "FanoutPolicy \<Rightarrow> u8" where
  "FanoutPolicy_as_u8 FanoutPolicy.Conservative = 0"
| "FanoutPolicy_as_u8 FanoutPolicy.Standard = 1"
| "FanoutPolicy_as_u8 FanoutPolicy.Aggressive = 2"
| "FanoutPolicy_as_u8 FanoutPolicy.Maximum = 3"

lemma FanoutPolicy_as_u8_inj [simp]: "FanoutPolicy_as_u8 x = FanoutPolicy_as_u8 y \<longleftrightarrow>
    x = y"
  by (cases x; cases y) auto

definition FanoutPolicy_fanout_value :: "FanoutPolicy \<Rightarrow> u8" where
  "FanoutPolicy_fanout_value self =
     (case self of
         FanoutPolicy.Conservative \<Rightarrow> 2
       | FanoutPolicy.Standard \<Rightarrow> 3
       | FanoutPolicy.Aggressive \<Rightarrow> 5
       | FanoutPolicy.Maximum \<Rightarrow> 8)"

definition FanoutPolicy_rationale :: "FanoutPolicy \<Rightarrow> string" where
  "FanoutPolicy_rationale self =
     (case self of
         FanoutPolicy.Conservative \<Rightarrow>
           ''mesh healthy, small network - conservative fanout sufficient''
       | FanoutPolicy.Standard \<Rightarrow> ''normal operating mode - standard fanout''
       | FanoutPolicy.Aggressive \<Rightarrow>
           ''quorum at threshold or health degraded - aggressive fanout''
       | FanoutPolicy.Maximum \<Rightarrow>
           ''quorum lost or health critical - maximum fanout for recovery'')"

definition select_policy ::
  "QuorumLevel \<Rightarrow> u8 \<Rightarrow> nat \<Rightarrow> FanoutPolicy" where
  "select_policy quorum_level health_ratio total_nodes =
     (case quorum_level of
         QuorumLevel.NoNodes \<Rightarrow> FanoutPolicy.Maximum
       | QuorumLevel.BelowQuorum \<Rightarrow> FanoutPolicy.Maximum
       | QuorumLevel.AtThreshold \<Rightarrow> FanoutPolicy.Aggressive
       | QuorumLevel.Healthy \<Rightarrow> if health_ratio < 50 then FanoutPolicy.Maximum
      else if health_ratio < 70 then FanoutPolicy.Aggressive
      else if total_nodes \<le> 8 then FanoutPolicy.Conservative
      else FanoutPolicy.Standard)"

record FanoutDecision =
  fd_epoch :: u64
  fd_policy :: FanoutPolicy
  fd_fanout :: u8
  fd_rationale :: string
  fd_decision_hash :: hash
  fd_prev_hash :: hash

definition decision_bytes ::
  "u64 \<Rightarrow> FanoutPolicy \<Rightarrow> u8 \<Rightarrow> hash \<Rightarrow> bytes" where
  "decision_bytes epoch policy fanout prev =
     hash_bytes prev @ be8 epoch @ [FanoutPolicy_as_u8 policy] @ [fanout]"

definition compute_decision_hash ::
  "sha \<Rightarrow> u64 \<Rightarrow> FanoutPolicy \<Rightarrow> u8 \<Rightarrow> hash \<Rightarrow>
      hash" where
  "compute_decision_hash sha epoch policy fanout prev =
     sha (decision_bytes epoch policy fanout prev)"

definition build_decision ::
  "sha \<Rightarrow> u64 \<Rightarrow> QuorumLevel \<Rightarrow> u8 \<Rightarrow> nat \<Rightarrow> hash
      \<Rightarrow> FanoutDecision" where
  "build_decision sha epoch quorum_level health_ratio total_nodes prev_hash =
     (let policy = select_policy quorum_level health_ratio total_nodes;
          fanout = FanoutPolicy_fanout_value policy;
          rationale = FanoutPolicy_rationale policy;
          decision_hash = compute_decision_hash sha epoch policy fanout prev_hash
      in \<lparr>fd_epoch = epoch, fd_policy = policy, fd_fanout = fanout, fd_rationale = rationale,
          fd_decision_hash = decision_hash, fd_prev_hash = prev_hash\<rparr>)"

definition FanoutDecision_is_elevated :: "FanoutDecision \<Rightarrow> bool" where
  "FanoutDecision_is_elevated self \<longleftrightarrow>
     FanoutPolicy_as_u8 (fd_policy self) \<ge> FanoutPolicy_as_u8 FanoutPolicy.Aggressive"

record FanoutLog_controller =
  fl5_decisions :: "FanoutDecision list"

datatype FanoutLogError = StaleEpoch

fun FanoutLogError_as_u8 :: "FanoutLogError \<Rightarrow> u8" where
  "FanoutLogError_as_u8 FanoutLogError.StaleEpoch = 0"

lemma FanoutLogError_as_u8_inj [simp]: "FanoutLogError_as_u8 x = FanoutLogError_as_u8 y
    \<longleftrightarrow> x = y"
  by (cases x; cases y) auto

definition FanoutLog_controller_new :: "FanoutLog_controller" where
  "FanoutLog_controller_new =
     \<lparr>fl5_decisions = []\<rparr>"

definition FanoutLog_controller_latest ::
  "FanoutLog_controller \<Rightarrow> FanoutDecision option" where
  "FanoutLog_controller_latest self =
     last_opt (fl5_decisions self)"

definition FanoutLog_controller_last_hash :: "FanoutLog_controller \<Rightarrow> hash" where
  "FanoutLog_controller_last_hash self =
     last_hash fd_decision_hash (fl5_decisions self)"

definition FanoutLog_controller_record ::
  "sha \<Rightarrow> u64 \<Rightarrow> QuorumLevel \<Rightarrow> u8 \<Rightarrow> nat \<Rightarrow>
      FanoutLog_controller \<Rightarrow> (FanoutLogError + FanoutDecision) \<times>
      FanoutLog_controller" where
  "FanoutLog_controller_record sha epoch quorum_level health_ratio total_nodes self =
     (if fl5_decisions self \<noteq> [] \<and> epoch \<le> (fd_epoch (last (fl5_decisions self))) then
         (Inl FanoutLogError.StaleEpoch, self)
      else (let prev_hash = FanoutLog_controller_last_hash self;
          d = build_decision sha epoch quorum_level health_ratio total_nodes prev_hash;
          self = self\<lparr>fl5_decisions := (fl5_decisions self) @ [d]\<rparr>
      in (Inr (last (fl5_decisions self)), self)))"

definition FanoutLog_controller_average_fanout :: "FanoutLog_controller \<Rightarrow> u8" where
  "FanoutLog_controller_average_fanout self =
     (if (fl5_decisions self) = [] then 0
      else (let sum_v = sum_list (map (\<lambda>d. unat (fd_fanout d)) (fl5_decisions self))
      in (of_nat (sum_v div (length (fl5_decisions self))) :: u8)))"

definition FanoutLog_controller_max_fanout :: "FanoutLog_controller \<Rightarrow> u8" where
  "FanoutLog_controller_max_fanout self =
     unwrap_or 0 (list_max (map fd_fanout (fl5_decisions self)))"

definition FanoutLog_controller_aggressive_epoch_count :: "FanoutLog_controller \<Rightarrow> nat" where
  "FanoutLog_controller_aggressive_epoch_count self =
     length (filter FanoutDecision_is_elevated (fl5_decisions self))"

definition FanoutDecision_bytes_of :: "FanoutDecision \<Rightarrow> bytes" where
  "FanoutDecision_bytes_of d =
     decision_bytes (fd_epoch d) (fd_policy d) (fd_fanout d) (fd_prev_hash d)"

definition FanoutLog_controller_verify_chain ::
  "sha \<Rightarrow> FanoutLog_controller \<Rightarrow> bool \<times> nat option" where
  "FanoutLog_controller_verify_chain sha self =
     verify_from fd_prev_hash fd_decision_hash (\<lambda>r. sha (FanoutDecision_bytes_of r)) 0 genesis
         (fl5_decisions self)"

lemma decision_bytes_inj:
  "decision_bytes epoch policy fanout prev = decision_bytes epoch' policy' fanout' prev'
      \<longleftrightarrow>
   prev = prev' \<and> epoch = epoch' \<and> policy = policy' \<and> fanout = fanout'"
  by (auto simp: decision_bytes_def enc_simps)

definition FanoutDecision_committed :: "FanoutDecision \<Rightarrow> u64 \<times> FanoutPolicy \<times>
    u8" where
  "FanoutDecision_committed d =
     (fd_epoch d, fd_policy d, fd_fanout d)"

interpretation fanout_controller: hash_log FanoutDecision_bytes_of fd_prev_hash fd_decision_hash
    FanoutDecision_committed
  by unfold_locales (auto simp: FanoutDecision_bytes_of_def FanoutDecision_committed_def
      decision_bytes_inj)

lemma fanout_controller_verify_iff: "FanoutLog_controller_verify_chain sha l = (True,
    None) \<longleftrightarrow> fanout_controller.ok sha (fl5_decisions l)"
  by (simp add: FanoutLog_controller_verify_chain_def verify_from_iff)

lemma build_decision_linked:
  "fd_prev_hash (build_decision sha epoch quorum_level health_ratio total_nodes prev_hash) = prev_hash"
  "fd_decision_hash (build_decision sha epoch quorum_level health_ratio total_nodes prev_hash) = sha
      (FanoutDecision_bytes_of (build_decision sha epoch quorum_level health_ratio total_nodes
      prev_hash))"
  by (simp_all add: build_decision_def compute_decision_hash_def FanoutDecision_bytes_of_def Let_def
      split_def)

lemma fanout_log_controller_record_ok: "fanout_controller.ok sha (fl5_decisions l) \<Longrightarrow>
    fanout_controller.ok sha (fl5_decisions (snd (FanoutLog_controller_record sha epoch quorum_level
    health_ratio total_nodes l)))"
  by (simp add: Let_def split_def FanoutLog_controller_record_def FanoutLog_controller_last_hash_def
      build_decision_linked split: option.split sum.split)

section \<open>Health Ticker: epoch-by-epoch condensed health signal (Gate 267)\<close>

text \<open>
  \<open>health_ticker.rs\<close>. Produces a compact 3-byte TickerFrame encoding the constitutional
  health state of the mesh at each epoch. Designed for low-overhead gossip broadcast.
\<close>

datatype TickerFrame = TickerFrame bytes

definition TickerFrame_quorum_level :: "TickerFrame \<Rightarrow> QuorumLevel" where
  "TickerFrame_quorum_level self =
     (if ((case self of TickerFrame x \<Rightarrow> x) ! 0) = 0 then QuorumLevel.Healthy else if ((case
         self of TickerFrame x \<Rightarrow> x) ! 0) = 1 then QuorumLevel.AtThreshold else if ((case
         self of TickerFrame x \<Rightarrow> x) ! 0) = 2 then QuorumLevel.BelowQuorum else
         QuorumLevel.NoNodes)"

definition TickerFrame_health_pct :: "TickerFrame \<Rightarrow> u8" where
  "TickerFrame_health_pct self =
     (case self of TickerFrame x \<Rightarrow> x) ! 1"

definition TickerFrame_fault_class :: "TickerFrame \<Rightarrow> FaultClass" where
  "TickerFrame_fault_class self =
     (if (drop_bit 4 ((case self of TickerFrame x \<Rightarrow> x) ! 2)) = 0 then FaultClass.Nothing
         else if (drop_bit 4 ((case self of TickerFrame x \<Rightarrow> x) ! 2)) = 1 then
         FaultClass.Isolated else if (drop_bit 4 ((case self of TickerFrame x \<Rightarrow> x) ! 2)) = 2
         then FaultClass.Correlated else FaultClass.Cascading)"

definition TickerFrame_top_action_kind :: "TickerFrame \<Rightarrow> RecoveryActionKind option" where
  "TickerFrame_top_action_kind self =
     (let nibble = and ((case self of TickerFrame x \<Rightarrow> x) ! 2) 15
      in if nibble = 0 then Some RecoveryActionKind.MonitorOnly else if nibble = 1 then Some
          RecoveryActionKind.IsolateNode else if nibble = 2 then Some RecoveryActionKind.RestartNode
          else if nibble = 3 then Some RecoveryActionKind.ReduceLoad else if nibble = 4 then Some
          RecoveryActionKind.ActivateSpare else if nibble = 5 then Some
          RecoveryActionKind.PartialQuorumMode else if nibble = 6 then Some
          RecoveryActionKind.HaltAndReform else None)"

definition TickerFrame_is_healthy :: "TickerFrame \<Rightarrow> bool" where
  "TickerFrame_is_healthy self \<longleftrightarrow>
     QuorumLevel_is_quorum_met (TickerFrame_quorum_level self) \<and> (TickerFrame_fault_class self) =
         FaultClass.Nothing"

definition TickerFrame_as_bytes :: "TickerFrame \<Rightarrow> bytes" where
  "TickerFrame_as_bytes self =
     (case self of TickerFrame x \<Rightarrow> x)"

definition build_ticker_frame ::
  "QuorumLevel \<Rightarrow> u8 \<Rightarrow> FaultClass \<Rightarrow> RecoveryActionKind option
      \<Rightarrow> TickerFrame" where
  "build_ticker_frame quorum_level health_pct fault_class top_action =
     (let fault_nibble = push_bit 4 (and (FaultClass_as_u8 fault_class) 15);
          action_nibble = (case top_action of Some k \<Rightarrow> and (RecoveryActionKind_as_u8 k) 15 |
            None \<Rightarrow> 15)
      in TickerFrame [QuorumLevel_as_u8 quorum_level, health_pct, or fault_nibble action_nibble])"

record TickerRecord =
  tr2_epoch :: u64
  tr2_frame :: TickerFrame
  tr2_ticker_hash :: hash
  tr2_prev_hash :: hash

definition ticker_bytes :: "u64 \<Rightarrow> TickerFrame \<Rightarrow> hash \<Rightarrow> bytes" where
  "ticker_bytes epoch frame prev =
     hash_bytes prev @ be8 epoch @ (case frame of TickerFrame x \<Rightarrow> x)"

definition compute_ticker_hash ::
  "sha \<Rightarrow> u64 \<Rightarrow> TickerFrame \<Rightarrow> hash \<Rightarrow> hash" where
  "compute_ticker_hash sha epoch frame prev =
     sha (ticker_bytes epoch frame prev)"

record TickerLog =
  tl3_records :: "TickerRecord list"

datatype TickerError = StaleEpoch

fun TickerError_as_u8 :: "TickerError \<Rightarrow> u8" where
  "TickerError_as_u8 TickerError.StaleEpoch = 0"

lemma TickerError_as_u8_inj [simp]: "TickerError_as_u8 x = TickerError_as_u8 y \<longleftrightarrow> x =
    y"
  by (cases x; cases y) auto

definition TickerLog_new :: "TickerLog" where
  "TickerLog_new =
     \<lparr>tl3_records = []\<rparr>"

definition TickerLog_latest :: "TickerLog \<Rightarrow> TickerRecord option" where
  "TickerLog_latest self =
     last_opt (tl3_records self)"

definition TickerLog_last_hash :: "TickerLog \<Rightarrow> hash" where
  "TickerLog_last_hash self =
     last_hash tr2_ticker_hash (tl3_records self)"

definition TickerLog_append ::
  "sha \<Rightarrow> u64 \<Rightarrow> TickerFrame \<Rightarrow> TickerLog \<Rightarrow> (TickerError +
      TickerRecord) \<times> TickerLog" where
  "TickerLog_append sha epoch frame self =
     (if tl3_records self \<noteq> [] \<and> epoch \<le> (tr2_epoch (last (tl3_records self))) then (Inl
         TickerError.StaleEpoch, self)
      else (let prev_hash = TickerLog_last_hash self;
          ticker_hash = compute_ticker_hash sha epoch frame prev_hash;
          self = self\<lparr>tl3_records := (tl3_records self) @ [\<lparr>tr2_epoch = epoch,
            tr2_frame = frame, tr2_ticker_hash = ticker_hash, tr2_prev_hash = prev_hash\<rparr>]\<rparr>
      in (Inr (last (tl3_records self)), self)))"

definition TickerLog_healthy_count :: "TickerLog \<Rightarrow> nat" where
  "TickerLog_healthy_count self =
     length (filter (\<lambda>r. TickerFrame_is_healthy (tr2_frame r)) (tl3_records self))"

definition TickerLog_alert_count :: "TickerLog \<Rightarrow> nat" where
  "TickerLog_alert_count self =
     length (filter (\<lambda>r. QuorumLevel_requires_alert (TickerFrame_quorum_level (tr2_frame r)))
         (tl3_records self))"

definition TickerRecord_bytes_of :: "TickerRecord \<Rightarrow> bytes" where
  "TickerRecord_bytes_of rec =
     ticker_bytes (tr2_epoch rec) (tr2_frame rec) (tr2_prev_hash rec)"

definition TickerLog_verify_chain ::
  "sha \<Rightarrow> TickerLog \<Rightarrow> bool \<times> nat option" where
  "TickerLog_verify_chain sha self =
     verify_from tr2_prev_hash tr2_ticker_hash (\<lambda>r. sha (TickerRecord_bytes_of r)) 0 genesis
         (tl3_records self)"

lemma ticker_bytes_inj:
  "ticker_bytes epoch frame prev = ticker_bytes epoch' frame' prev' \<longleftrightarrow>
   prev = prev' \<and> epoch = epoch' \<and> (case frame of TickerFrame x \<Rightarrow> x) = (case
       frame' of TickerFrame x \<Rightarrow> x)"
  by (auto simp: ticker_bytes_def enc_simps append_eq_append_conv)

definition TickerRecord_committed :: "TickerRecord \<Rightarrow> u64 \<times> bytes" where
  "TickerRecord_committed rec =
     (tr2_epoch rec, case (tr2_frame rec) of TickerFrame x \<Rightarrow> x)"

interpretation health_ticker: hash_log TickerRecord_bytes_of tr2_prev_hash tr2_ticker_hash
    TickerRecord_committed
  by unfold_locales (auto simp: TickerRecord_bytes_of_def TickerRecord_committed_def ticker_bytes_inj)

lemma health_ticker_verify_iff: "TickerLog_verify_chain sha l = (True,
    None) \<longleftrightarrow> health_ticker.ok sha (tl3_records l)"
  by (simp add: TickerLog_verify_chain_def verify_from_iff)

lemma ticker_log_append_ok: "health_ticker.ok sha (tl3_records l) \<Longrightarrow> health_ticker.ok sha
    (tl3_records (snd (TickerLog_append sha epoch frame l)))"
  by (simp add: Let_def split_def TickerLog_append_def compute_ticker_hash_def TickerRecord_bytes_of_def
      TickerLog_last_hash_def split: option.split sum.split)

end
