(* ===== verification/Mesh_Frames.thy ===== *)
theory Mesh_Frames
  imports System_Health
begin

text \<open>
  The frames that carry the constitutional state of a node to its peers: the 40-byte state frame and
  the log of what was sent and received, the validation of the frames of a peer against the local
  context, the 16-byte beacon with its log, and the 32-byte telemetry packet of a dashboard frame.
\<close>

section \<open>Constitutional State Broadcaster (Gate 325)\<close>

text \<open>
  \<open>state_broadcaster.rs\<close>. Encodes the epoch synthesis seal (Gate 324) as a 40-byte
  network frame for peer-to-peer broadcast of constitutional state. Closes the gossip loop:
  constitutional verdict produced by Gates 320-324 propagates as a compact, verifiable broadcast
  frame.
\<close>

definition state_broadcaster_FRAME_SIZE :: nat where
  "state_broadcaster_FRAME_SIZE = 40"

definition FLAG_T0_CONSENSUS :: u8 where
  "FLAG_T0_CONSENSUS = 1"

definition FLAG_QUORUM_T0 :: u8 where
  "FLAG_QUORUM_T0 = 2"

record StateFrame =
  sf3_epoch :: u64
  sf3_seal_hash_prefix :: bytes
  sf3_gossip_hash_prefix :: bytes
  sf3_resonance_hash_prefix :: bytes
  sf3_flags :: u8
  sf3_checksum :: bytes

definition state_frame_checksum :: "sha \<Rightarrow> u64 \<Rightarrow> bytes \<Rightarrow> u8
    \<Rightarrow> bytes" where
  "state_frame_checksum sha epoch seal_prefix flags =
     (let digest = sha (be8 epoch @ seal_prefix @ [flags]) in take 7 (hash_bytes digest))"

definition StateFrame_encode :: "sha \<Rightarrow> u64 \<Rightarrow> hash \<Rightarrow> hash
    \<Rightarrow> hash \<Rightarrow> bool \<Rightarrow> bool \<Rightarrow> StateFrame" where
  "StateFrame_encode sha epoch seal_hash gossip_health_hash resonance_hash t0_consensus quorum_t0 =
     (let seal_hash_prefix = take 8 (hash_bytes seal_hash);
          gossip_hash_prefix = take 8 (hash_bytes gossip_health_hash);
          resonance_hash_prefix = take 8 (hash_bytes resonance_hash);
          flags = (0 :: u8);
          flags = (if t0_consensus then or flags FLAG_T0_CONSENSUS else flags);
          flags = (if quorum_t0 then or flags FLAG_QUORUM_T0 else flags);
          checksum = state_frame_checksum sha epoch seal_hash_prefix flags
      in \<lparr>sf3_epoch = epoch, sf3_seal_hash_prefix = seal_hash_prefix,
          sf3_gossip_hash_prefix = gossip_hash_prefix,
           sf3_resonance_hash_prefix = resonance_hash_prefix, sf3_flags = flags,
             sf3_checksum = checksum\<rparr>)"

definition StateFrame_to_bytes :: "StateFrame \<Rightarrow> bytes" where
  "StateFrame_to_bytes self =
     be8 (sf3_epoch self) @ sf3_seal_hash_prefix self @ sf3_gossip_hash_prefix self @
     sf3_resonance_hash_prefix self @ [sf3_flags self] @ sf3_checksum self"

definition StateFrame_verify_checksum :: "sha \<Rightarrow> StateFrame \<Rightarrow> bool" where
  "StateFrame_verify_checksum sha self \<longleftrightarrow>
     sf3_checksum self = state_frame_checksum sha (sf3_epoch self) (sf3_seal_hash_prefix self)
         (sf3_flags self)"

datatype BroadcastError_broadcaster = BroadcastError_broadcaster string

definition StateFrame_from_bytes :: "sha \<Rightarrow> bytes \<Rightarrow> BroadcastError_broadcaster +
    StateFrame" where
  "StateFrame_from_bytes sha bs =
     (let epoch = (from_be (take 8 bs) :: u64);
          seal_hash_prefix = take 8 (drop 8 bs);
          gossip_hash_prefix = take 8 (drop 16 bs);
          resonance_hash_prefix = take 8 (drop 24 bs);
          flags = bs ! 32;
          checksum = take 7 (drop 33 bs);
          frame = \<lparr>sf3_epoch = epoch, sf3_seal_hash_prefix = seal_hash_prefix,
            sf3_gossip_hash_prefix = gossip_hash_prefix,
            sf3_resonance_hash_prefix = resonance_hash_prefix, sf3_flags = flags,
              sf3_checksum = checksum\<rparr>
      in if \<not> StateFrame_verify_checksum sha frame then Inl (BroadcastError_broadcaster
          ''[BROADCAST] checksum mismatch'')
         else Inr frame)"

definition StateFrame_t0_consensus :: "StateFrame \<Rightarrow> bool" where
  "StateFrame_t0_consensus self \<longleftrightarrow>
     (and (sf3_flags self) FLAG_T0_CONSENSUS) \<noteq> 0"

definition StateFrame_quorum_t0 :: "StateFrame \<Rightarrow> bool" where
  "StateFrame_quorum_t0 self \<longleftrightarrow>
     (and (sf3_flags self) FLAG_QUORUM_T0) \<noteq> 0"

datatype BroadcastEvent = Sent | Received

fun BroadcastEvent_as_u8 :: "BroadcastEvent \<Rightarrow> u8" where
  "BroadcastEvent_as_u8 BroadcastEvent.Sent = 0"
| "BroadcastEvent_as_u8 BroadcastEvent.Received = 1"

lemma BroadcastEvent_as_u8_inj [simp]: "BroadcastEvent_as_u8 x = BroadcastEvent_as_u8 y
    \<longleftrightarrow> x = y"
  by (cases x; cases y) auto

record BroadcastRecord_broadcaster =
  br6_epoch :: u64
  br6_event :: BroadcastEvent
  br6_t0_consensus :: bool
  br6_record_hash :: hash
  br6_prev_hash :: hash

definition state_broadcaster_record_bytes ::
  "hash \<Rightarrow> u64 \<Rightarrow> BroadcastEvent \<Rightarrow> bool \<Rightarrow> bytes" where
  "state_broadcaster_record_bytes prev epoch event t0_consensus =
     hash_bytes prev @ be8 epoch @ [BroadcastEvent_as_u8 event] @ [of_bool t0_consensus]"

definition state_broadcaster_compute_record_hash ::
  "sha \<Rightarrow> hash \<Rightarrow> u64 \<Rightarrow> BroadcastEvent \<Rightarrow> bool
      \<Rightarrow> hash" where
  "state_broadcaster_compute_record_hash sha prev epoch event t0_consensus =
     sha (state_broadcaster_record_bytes prev epoch event t0_consensus)"

record BroadcastLog =
  bl4_records :: "BroadcastRecord_broadcaster list"

definition BroadcastLog_new :: "BroadcastLog" where
  "BroadcastLog_new =
     \<lparr>bl4_records = []\<rparr>"

definition BroadcastLog_append_record ::
  "sha \<Rightarrow> u64 \<Rightarrow> BroadcastEvent \<Rightarrow> bool \<Rightarrow> BroadcastLog
      \<Rightarrow> BroadcastRecord_broadcaster \<times> BroadcastLog" where
  "BroadcastLog_append_record sha epoch event t0_consensus self =
     (let prev = last_hash br6_record_hash (bl4_records self);
          record_hash = state_broadcaster_compute_record_hash sha prev epoch event t0_consensus;
          rec = \<lparr>br6_epoch = epoch, br6_event = event, br6_t0_consensus = t0_consensus,
            br6_record_hash = record_hash, br6_prev_hash = prev\<rparr>;
          self = self\<lparr>bl4_records := (bl4_records self) @ [rec]\<rparr>
      in (rec, self))"

definition BroadcastLog_record_broadcast ::
  "sha \<Rightarrow> StateFrame \<Rightarrow> BroadcastLog \<Rightarrow> BroadcastRecord_broadcaster
      \<times> BroadcastLog" where
  "BroadcastLog_record_broadcast sha frame self =
     (let (result, self) = BroadcastLog_append_record sha (sf3_epoch frame) BroadcastEvent.Sent
         (StateFrame_t0_consensus frame) self
      in (result, self))"

definition BroadcastLog_record_receipt ::
  "sha \<Rightarrow> StateFrame \<Rightarrow> BroadcastLog \<Rightarrow> BroadcastRecord_broadcaster
      \<times> BroadcastLog" where
  "BroadcastLog_record_receipt sha frame self =
     (let (result, self) = BroadcastLog_append_record sha (sf3_epoch frame) BroadcastEvent.Received
         (StateFrame_t0_consensus frame) self
      in (result, self))"

definition BroadcastLog_consensus_received_count :: "BroadcastLog \<Rightarrow> nat" where
  "BroadcastLog_consensus_received_count self =
     length (filter (\<lambda>r. (br6_event r) = BroadcastEvent.Received \<and> br6_t0_consensus r)
         (bl4_records self))"

definition BroadcastRecord_broadcaster_bytes_of ::
  "BroadcastRecord_broadcaster \<Rightarrow> bytes" where
  "BroadcastRecord_broadcaster_bytes_of r =
     state_broadcaster_record_bytes (br6_prev_hash r) (br6_epoch r) (br6_event r) (br6_t0_consensus r)"

definition BroadcastLog_verify_chain ::
  "sha \<Rightarrow> BroadcastLog \<Rightarrow> bool \<times> nat option" where
  "BroadcastLog_verify_chain sha self =
     verify_from br6_prev_hash br6_record_hash (\<lambda>r. sha (BroadcastRecord_broadcaster_bytes_of
         r)) 0 genesis (bl4_records self)"

lemma state_broadcaster_record_bytes_inj:
  "state_broadcaster_record_bytes prev epoch event t0_consensus = state_broadcaster_record_bytes prev'
      epoch' event' t0_consensus' \<longleftrightarrow>
   prev = prev' \<and> epoch = epoch' \<and> event = event' \<and> t0_consensus = t0_consensus'"
  by (auto simp: state_broadcaster_record_bytes_def enc_simps)

definition BroadcastRecord_broadcaster_committed :: "BroadcastRecord_broadcaster \<Rightarrow> u64
    \<times> BroadcastEvent \<times> bool" where
  "BroadcastRecord_broadcaster_committed r =
     (br6_epoch r, br6_event r, br6_t0_consensus r)"

interpretation state_broadcaster: epoch_log BroadcastRecord_broadcaster_bytes_of br6_prev_hash
    br6_record_hash BroadcastRecord_broadcaster_committed
  "\<lambda>sha (epoch, event, t0_consensus) l. BroadcastLog_append_record sha epoch event t0_consensus
      l"
  bl4_records BroadcastLog_new "\<lambda>c. c"
  by unfold_locales (auto simp: BroadcastLog_append_record_def state_broadcaster_compute_record_hash_def
      BroadcastLog_new_def Let_def BroadcastRecord_broadcaster_bytes_of_def
      BroadcastRecord_broadcaster_committed_def state_broadcaster_record_bytes_inj)

lemma state_broadcaster_verify_iff: "BroadcastLog_verify_chain sha l = (True,
    None) \<longleftrightarrow> state_broadcaster.ok sha (bl4_records l)"
  by (simp add: BroadcastLog_verify_chain_def verify_from_iff)

lemma frame_layout:
  assumes "length b0 = 8" "length b1 = 8" "length b2 = 8" "length b3 = 8"
  shows "take 8 (b0 @ b1 @ b2 @ b3 @ f # c) = b0" "take 8 (drop 8 (b0 @ b1 @ b2 @ b3 @ f # c)) = b1"
    "take 8 (drop 16 (b0 @ b1 @ b2 @ b3 @ f # c)) = b2" "take 8 (drop 24 (b0 @ b1 @ b2 @ b3 @ f # c)) = b3"
    "(b0 @ b1 @ b2 @ b3 @ f # c) ! 32 = f" "drop 33 (b0 @ b1 @ b2 @ b3 @ f # c) = c"
  using assms by (simp_all add: nth_append)

lemma state_frame_reads:
  assumes "length s = 8" "length g = 8" "length r = 8"
  shows "StateFrame_from_bytes sha (be8 e @ s @ g @ r @ f # state_frame_checksum sha e s f)
    = Inr \<lparr>sf3_epoch = e, sf3_seal_hash_prefix = s, sf3_gossip_hash_prefix = g,
            sf3_resonance_hash_prefix = r, sf3_flags = f, sf3_checksum = state_frame_checksum sha e s f\<rparr>"
proof -
  have "length (state_frame_checksum sha e s f) = 7" by (simp add: state_frame_checksum_def Let_def)
  moreover have "(from_be (be8 e) :: u64) = e" by (simp add: from_be_be_bytes_id)
  ultimately show ?thesis
    unfolding StateFrame_from_bytes_def Let_def frame_layout [OF length_be_bytes assms]
    by (simp add: StateFrame_verify_checksum_def)
qed

lemma state_frame_flags:
  "(and (or (if a then 1 else 0) (if b then 2 else 0)) 1 :: u8) = (if a then 1 else 0)"
  "(and (or (if a then 1 else 0) (if b then 2 else 0)) 2 :: u8) = (if b then 2 else 0)"
  by simp_all

lemma state_frame_roundtrip:
  "StateFrame_from_bytes sha (StateFrame_to_bytes (StateFrame_encode sha e s g r t q)) = Inr (StateFrame_encode sha e s g r t q)"
  "StateFrame_t0_consensus (StateFrame_encode sha e s g r t q) = t"
  "StateFrame_quorum_t0 (StateFrame_encode sha e s g r t q) = q"
  by (simp_all add: StateFrame_to_bytes_def StateFrame_encode_def state_frame_reads StateFrame_t0_consensus_def
     StateFrame_quorum_t0_def FLAG_T0_CONSENSUS_def FLAG_QUORUM_T0_def Let_def)

section \<open>Peer Frame Validator (Gate 326)\<close>

text \<open>
  \<open>peer_frame_validator.rs\<close>. Validates a received StateFrame (Gate 325) against the local
  node's constitutional expectations. Detects divergence between remote claims and local T0 state,
  classifying each received frame as:
\<close>

definition MAX_EPOCH_LAG :: u64 where
  "MAX_EPOCH_LAG = 5"

datatype ValidationVerdict_validator = Accepted | Degraded | Diverged | Rejected | EpochStale

fun ValidationVerdict_validator_as_u8 :: "ValidationVerdict_validator \<Rightarrow> u8" where
  "ValidationVerdict_validator_as_u8 ValidationVerdict_validator.Accepted = 0"
| "ValidationVerdict_validator_as_u8 ValidationVerdict_validator.Degraded = 1"
| "ValidationVerdict_validator_as_u8 ValidationVerdict_validator.Diverged = 2"
| "ValidationVerdict_validator_as_u8 ValidationVerdict_validator.Rejected = 3"
| "ValidationVerdict_validator_as_u8 ValidationVerdict_validator.EpochStale = 4"

lemma ValidationVerdict_validator_as_u8_inj [simp]: "ValidationVerdict_validator_as_u8 x =
    ValidationVerdict_validator_as_u8 y \<longleftrightarrow> x = y"
  by (cases x; cases y) auto

instantiation ValidationVerdict_validator :: linorder
begin

definition less_eq_ValidationVerdict_validator where
  "a \<le> b \<longleftrightarrow> ValidationVerdict_validator_as_u8 a \<le>
      ValidationVerdict_validator_as_u8 b"

definition less_ValidationVerdict_validator where
  "a < b \<longleftrightarrow> ValidationVerdict_validator_as_u8 a < ValidationVerdict_validator_as_u8
      b"

instance
  by standard (auto simp: less_eq_ValidationVerdict_validator_def less_ValidationVerdict_validator_def
      less_le)

end

definition ValidationVerdict_validator_score :: "ValidationVerdict_validator \<Rightarrow> u8" where
  "ValidationVerdict_validator_score self =
     ValidationVerdict_validator_as_u8 self"

definition ValidationVerdict_validator_is_healthy ::
  "ValidationVerdict_validator \<Rightarrow> bool" where
  "ValidationVerdict_validator_is_healthy self \<longleftrightarrow>
     self = ValidationVerdict_validator.Accepted"

record ValidationRecord_validator =
  vr3_peer_id :: u64
  vr3_epoch :: u64
  vr3_verdict :: ValidationVerdict_validator
  vr3_remote_t0 :: bool
  vr3_local_t0 :: bool
  vr3_record_hash :: hash
  vr3_prev_hash :: hash

record LocalContext =
  lc_local_epoch :: u64
  lc_local_t0 :: bool
  lc_local_quorum :: bool

definition peer_frame_validator_record_bytes ::
  "hash \<Rightarrow> u64 \<Rightarrow> u64 \<Rightarrow> ValidationVerdict_validator \<Rightarrow> bool
      \<Rightarrow> bool \<Rightarrow> bytes" where
  "peer_frame_validator_record_bytes prev peer_id epoch verdict remote_t0 local_t0 =
     hash_bytes prev @ be8 peer_id @ be8 epoch @ [ValidationVerdict_validator_score verdict] @
         [of_bool remote_t0] @ [of_bool local_t0]"

definition peer_frame_validator_compute_record_hash ::
  "sha \<Rightarrow> hash \<Rightarrow> u64 \<Rightarrow> u64 \<Rightarrow> ValidationVerdict_validator
      \<Rightarrow> bool \<Rightarrow> bool \<Rightarrow> hash" where
  "peer_frame_validator_compute_record_hash sha prev peer_id epoch verdict remote_t0 local_t0 =
     sha (peer_frame_validator_record_bytes prev peer_id epoch verdict remote_t0 local_t0)"

definition classify_frame ::
  "sha \<Rightarrow> StateFrame \<Rightarrow> LocalContext \<Rightarrow> ValidationVerdict_validator"
      where
  "classify_frame sha frame ctx =
     (if \<not> (StateFrame_verify_checksum sha frame) then ValidationVerdict_validator.Rejected
      else if (sat_add (sf3_epoch frame) MAX_EPOCH_LAG) < (lc_local_epoch ctx) then
          ValidationVerdict_validator.EpochStale
      else (let remote_t0 = StateFrame_t0_consensus frame
      in if remote_t0 = (lc_local_t0 ctx) then ValidationVerdict_validator.Accepted
      else if lc_local_quorum ctx \<and> \<not> remote_t0 then ValidationVerdict_validator.Diverged
      else ValidationVerdict_validator.Degraded))"

record PeerValidationLog =
  pvl_peer_id :: u64
  pvl_records :: "ValidationRecord_validator list"

definition PeerValidationLog_new :: "u64 \<Rightarrow> PeerValidationLog" where
  "PeerValidationLog_new peer_id =
     \<lparr>pvl_peer_id = peer_id, pvl_records = []\<rparr>"

definition PeerValidationLog_append ::
  "sha \<Rightarrow> StateFrame \<Rightarrow> LocalContext \<Rightarrow> ValidationVerdict_validator
      \<Rightarrow> PeerValidationLog \<Rightarrow> ValidationRecord_validator \<times>
      PeerValidationLog" where
  "PeerValidationLog_append sha frame ctx verdict self =
     (let prev = last_hash vr3_record_hash (pvl_records self);
          remote_t0 = StateFrame_t0_consensus frame;
          record_hash = peer_frame_validator_compute_record_hash sha prev (pvl_peer_id self) (sf3_epoch
            frame) verdict remote_t0 (lc_local_t0 ctx);
          rec = \<lparr>vr3_peer_id = pvl_peer_id self, vr3_epoch = sf3_epoch frame,
            vr3_verdict = verdict, vr3_remote_t0 = remote_t0, vr3_local_t0 = lc_local_t0 ctx,
            vr3_record_hash = record_hash, vr3_prev_hash = prev\<rparr>;
          self = self\<lparr>pvl_records := (pvl_records self) @ [rec]\<rparr>
      in (rec, self))"

definition PeerValidationLog_latest_verdict ::
  "PeerValidationLog \<Rightarrow> ValidationVerdict_validator option" where
  "PeerValidationLog_latest_verdict self =
     map_option vr3_verdict (last_opt (pvl_records self))"

definition PeerValidationLog_fault_count :: "PeerValidationLog \<Rightarrow> nat" where
  "PeerValidationLog_fault_count self =
     length (filter (\<lambda>r. (vr3_verdict r) = ValidationVerdict_validator.Diverged \<or>
         (vr3_verdict r) = ValidationVerdict_validator.Rejected) (pvl_records self))"

definition ValidationRecord_validator_bytes_of :: "ValidationRecord_validator \<Rightarrow> bytes" where
  "ValidationRecord_validator_bytes_of r =
     peer_frame_validator_record_bytes (vr3_prev_hash r) (vr3_peer_id r) (vr3_epoch r) (vr3_verdict r)
         (vr3_remote_t0 r) (vr3_local_t0 r)"

definition PeerValidationLog_verify_chain ::
  "sha \<Rightarrow> PeerValidationLog \<Rightarrow> bool \<times> nat option" where
  "PeerValidationLog_verify_chain sha self =
     verify_from vr3_prev_hash vr3_record_hash (\<lambda>r. sha (ValidationRecord_validator_bytes_of r))
         0 genesis (pvl_records self)"

record ValidationRegistry =
  vr4_logs :: "(u64, PeerValidationLog) btmap"

definition ValidationRegistry_new :: "ValidationRegistry" where
  "ValidationRegistry_new =
     \<lparr>vr4_logs = bt_empty\<rparr>"

definition ValidationRegistry_peer_count :: "ValidationRegistry \<Rightarrow> nat" where
  "ValidationRegistry_peer_count self =
     bt_len (vr4_logs self)"

definition ValidationRegistry_validate ::
  "sha \<Rightarrow> u64 \<Rightarrow> StateFrame \<Rightarrow> LocalContext \<Rightarrow>
      ValidationRegistry \<Rightarrow> ValidationRecord_validator \<times> ValidationRegistry" where
  "ValidationRegistry_validate sha peer_id frame ctx self =
     (let verdict = classify_frame sha frame ctx;
          log = bt_get_or (PeerValidationLog_new peer_id) (vr4_logs self) peer_id
      in (let (result, log) = PeerValidationLog_append sha frame ctx verdict log;
          self = self\<lparr>vr4_logs := bt_insert peer_id log (vr4_logs self)\<rparr>
      in (result, self)))"

definition ValidationRegistry_diverged_peer_count :: "ValidationRegistry \<Rightarrow> nat" where
  "ValidationRegistry_diverged_peer_count self =
     length (filter (\<lambda>l. case PeerValidationLog_latest_verdict l of Some v \<Rightarrow>
         ValidationVerdict_validator_as_u8 v \<ge> ValidationVerdict_validator_as_u8
         ValidationVerdict_validator.Diverged | _ \<Rightarrow> False) (bt_values (vr4_logs self)))"

definition ValidationRegistry_quorum_converged :: "ValidationRegistry \<Rightarrow> bool" where
  "ValidationRegistry_quorum_converged self \<longleftrightarrow>
     (let total_v = bt_len (vr4_logs self)
      in if total_v = 0 then False
      else (let accepted = length (filter (\<lambda>l. (PeerValidationLog_latest_verdict l) = (Some
          ValidationVerdict_validator.Accepted)) (bt_values (vr4_logs self)))
      in (usize_mul accepted 1000000) \<ge> (usize_mul total_v 618034)))"

definition ValidationRegistry_verify_all ::
  "sha \<Rightarrow> ValidationRegistry \<Rightarrow> bool \<times> ((u64, nat) btmap)" where
  "ValidationRegistry_verify_all sha self =
     (let failures = bt_empty;
          failures = fold (\<lambda>(peer_id, log) failures. (let (ok_v,
            idx) = PeerValidationLog_verify_chain sha log;
          failures = (if \<not> ok_v then (let failures = bt_insert peer_id (unwrap_or 0 idx) failures
      in failures)
      else failures)
      in failures)) (entries (vr4_logs self)) failures
      in (bt_len failures = 0, failures))"

definition ValidationRegistry_log_for ::
  "u64 \<Rightarrow> ValidationRegistry \<Rightarrow> PeerValidationLog option" where
  "ValidationRegistry_log_for peer_id self =
     bt_get (vr4_logs self) peer_id"

lemma peer_frame_validator_record_bytes_inj:
  "peer_frame_validator_record_bytes prev peer_id epoch verdict remote_t0 local_t0 =
      peer_frame_validator_record_bytes prev' peer_id' epoch' verdict' remote_t0' local_t0'
      \<longleftrightarrow>
   prev = prev' \<and> peer_id = peer_id' \<and> epoch = epoch' \<and>
       (ValidationVerdict_validator_score verdict) = (ValidationVerdict_validator_score verdict') \<and>
       remote_t0 = remote_t0' \<and> local_t0 = local_t0'"
  by (auto simp: peer_frame_validator_record_bytes_def enc_simps)

definition ValidationRecord_validator_committed :: "ValidationRecord_validator \<Rightarrow> u64
    \<times> u64 \<times> u8 \<times> bool \<times> bool" where
  "ValidationRecord_validator_committed r =
     (vr3_peer_id r, vr3_epoch r, ValidationVerdict_validator_score (vr3_verdict r), vr3_remote_t0 r,
         vr3_local_t0 r)"

interpretation peer_frame_validator: hash_log ValidationRecord_validator_bytes_of vr3_prev_hash
    vr3_record_hash ValidationRecord_validator_committed
  by unfold_locales (auto simp: ValidationRecord_validator_bytes_of_def
      ValidationRecord_validator_committed_def peer_frame_validator_record_bytes_inj)

lemma peer_frame_validator_verify_iff: "PeerValidationLog_verify_chain sha l = (True,
    None) \<longleftrightarrow> peer_frame_validator.ok sha (pvl_records l)"
  by (simp add: PeerValidationLog_verify_chain_def verify_from_iff)

lemma peer_validation_log_append_ok: "peer_frame_validator.ok sha (pvl_records l) \<Longrightarrow>
    peer_frame_validator.ok sha (pvl_records (snd (PeerValidationLog_append sha frame ctx verdict l)))"
  by (simp add: Let_def split_def PeerValidationLog_append_def
      peer_frame_validator_compute_record_hash_def ValidationRecord_validator_bytes_of_def split:
      option.split sum.split)

section \<open>Constitutional Beacon: 16-byte self-broadcast frame (Gate 259)\<close>

text \<open>
  \<open>constitutional_beacon.rs\<close>. Each node periodically broadcasts a BeaconFrame advertising
  its current constitutional state. Compact 16-byte wire format for efficient mesh propagation.
\<close>

datatype BeaconFrame = BeaconFrame bytes

definition BeaconFrame_as_bytes :: "BeaconFrame \<Rightarrow> bytes" where
  "BeaconFrame_as_bytes self =
     (case self of BeaconFrame x \<Rightarrow> x)"

definition BeaconFrame_epoch :: "BeaconFrame \<Rightarrow> u64" where
  "BeaconFrame_epoch self =
     (from_be (take 8 (case self of BeaconFrame x \<Rightarrow> x)) :: u64)"

definition BeaconFrame_node_id_byte :: "BeaconFrame \<Rightarrow> u8" where
  "BeaconFrame_node_id_byte self =
     (case self of BeaconFrame x \<Rightarrow> x) ! 8"

definition constitutional_beacon_decode_phase :: "u8 \<Rightarrow> ConstitutionalPhase option" where
  "constitutional_beacon_decode_phase b =
     (if b = 0 then Some ConstitutionalPhase.Nominal else if b = 1 then Some
         ConstitutionalPhase.Degraded else if b = 2 then Some ConstitutionalPhase.Recovery else if b = 3
         then Some ConstitutionalPhase.Critical else None)"

definition BeaconFrame_phase :: "BeaconFrame \<Rightarrow> ConstitutionalPhase option" where
  "BeaconFrame_phase self =
     constitutional_beacon_decode_phase ((case self of BeaconFrame x \<Rightarrow> x) ! 9)"

definition BeaconFrame_capabilities :: "BeaconFrame \<Rightarrow> u8" where
  "BeaconFrame_capabilities self =
     (case self of BeaconFrame x \<Rightarrow> x) ! 10"

definition BeaconFrame_quorum_flag :: "BeaconFrame \<Rightarrow> bool" where
  "BeaconFrame_quorum_flag self \<longleftrightarrow>
     ((case self of BeaconFrame x \<Rightarrow> x) ! 11) \<noteq> 0"

definition BeaconFrame_checksum :: "BeaconFrame \<Rightarrow> bytes" where
  "BeaconFrame_checksum self =
     drop 12 (take 16 (case self of BeaconFrame x \<Rightarrow> x))"

definition beacon_checksum :: "sha \<Rightarrow> bytes \<Rightarrow> bytes" where
  "beacon_checksum sha data = take 4 (hash_bytes (sha data))"

definition BeaconFrame_is_checksum_valid :: "sha \<Rightarrow> BeaconFrame \<Rightarrow> bool" where
  "BeaconFrame_is_checksum_valid sha self \<longleftrightarrow>
     (beacon_checksum sha (take 12 (case self of BeaconFrame x \<Rightarrow> x))) =
         (BeaconFrame_checksum self)"

definition build_beacon :: "sha \<Rightarrow> u32 \<Rightarrow> u64 \<Rightarrow> ConstitutionalPhase
    \<Rightarrow> u8 \<Rightarrow> bool \<Rightarrow> BeaconFrame" where
  "build_beacon sha node_id epoch phase capabilities quorum =
     (let head = be8 epoch @ [ucast (drop_bit 24 node_id), ConstitutionalPhase_as_u8 phase,
         capabilities, of_bool quorum]
      in BeaconFrame (head @ beacon_checksum sha head))"

record BeaconRecord =
  br7_node_id :: u32
  br7_frame :: BeaconFrame
  br7_beacon_hash :: hash
  br7_prev_hash :: hash

definition beacon_bytes :: "hash \<Rightarrow> BeaconFrame \<Rightarrow> bytes" where
  "beacon_bytes prev frame = hash_bytes prev @ BeaconFrame_as_bytes frame"

definition compute_beacon_hash :: "sha \<Rightarrow> hash \<Rightarrow> BeaconFrame \<Rightarrow> hash"
    where
  "compute_beacon_hash sha prev frame = sha (beacon_bytes prev frame)"

record BeaconLog =
  bl5_records :: "BeaconRecord list"

datatype BeaconError = InvalidChecksum | StaleEpoch

fun BeaconError_as_u8 :: "BeaconError \<Rightarrow> u8" where
  "BeaconError_as_u8 BeaconError.InvalidChecksum = 0"
| "BeaconError_as_u8 BeaconError.StaleEpoch = 1"

lemma BeaconError_as_u8_inj [simp]: "BeaconError_as_u8 x = BeaconError_as_u8 y \<longleftrightarrow> x =
    y"
  by (cases x; cases y) auto

definition BeaconLog_new :: "BeaconLog" where
  "BeaconLog_new =
     \<lparr>bl5_records = []\<rparr>"

definition BeaconLog_latest :: "BeaconLog \<Rightarrow> BeaconRecord option" where
  "BeaconLog_latest self =
     last_opt (bl5_records self)"

definition BeaconLog_last_hash :: "BeaconLog \<Rightarrow> hash" where
  "BeaconLog_last_hash self =
     last_hash br7_beacon_hash (bl5_records self)"

definition BeaconLog_append ::
  "sha \<Rightarrow> u32 \<Rightarrow> BeaconFrame \<Rightarrow> BeaconLog \<Rightarrow> (BeaconError +
      BeaconRecord) \<times> BeaconLog" where
  "BeaconLog_append sha node_id frame self =
     (if \<not> (BeaconFrame_is_checksum_valid sha frame) then (Inl BeaconError.InvalidChecksum, self)
      else if bl5_records self \<noteq> [] \<and> (BeaconFrame_epoch frame) \<le> (BeaconFrame_epoch
          (br7_frame (last (bl5_records self)))) then (Inl BeaconError.StaleEpoch, self)
      else (let prev_hash = BeaconLog_last_hash self;
          beacon_hash = compute_beacon_hash sha prev_hash frame;
          self = self\<lparr>bl5_records := (bl5_records self) @ [\<lparr>br7_node_id = node_id,
            br7_frame = frame, br7_beacon_hash = beacon_hash, br7_prev_hash = prev_hash\<rparr>]\<rparr>
      in (Inr (last (bl5_records self)), self)))"

definition BeaconLog_verify_chain :: "sha \<Rightarrow> BeaconLog \<Rightarrow> bool \<times> nat
    option" where
  "BeaconLog_verify_chain sha self =
     verify_from br7_prev_hash br7_beacon_hash
       (\<lambda>rec. compute_beacon_hash sha (br7_prev_hash rec) (br7_frame rec)) 0 genesis
           (bl5_records self)"

section \<open>Constitutional Telemetry Encoder: 32-byte gossip packet (Gate 254)\<close>

text \<open>
  \<open>telemetry_encoder.rs\<close>. Encodes a DashboardFrame into a compact 32-byte TelemetryPacket
  for gossip broadcast. Deterministic encode/decode. SHA-256 of the 24 data bytes gives the last 8
  bytes (packet_checksum truncated to 8 bytes).
\<close>

datatype TelemetryPacket_encoder = TelemetryPacket_encoder hash

definition TelemetryPacket_encoder_as_bytes :: "TelemetryPacket_encoder \<Rightarrow> hash" where
  "TelemetryPacket_encoder_as_bytes self =
     (case self of TelemetryPacket_encoder x \<Rightarrow> x)"

definition TelemetryPacket_epoch :: "TelemetryPacket_encoder \<Rightarrow> u64" where
  "TelemetryPacket_epoch self = from_be (take 8 (hash_bytes (TelemetryPacket_encoder_as_bytes self)))"

definition decode_condition :: "u8 \<Rightarrow> OverallCondition option" where
  "decode_condition b =
     (if b = 0 then Some OverallCondition.Optimal else if b = 1 then Some OverallCondition.Good else if
         b = 2 then Some OverallCondition.Caution else if b = 3 then Some OverallCondition.Alert else if
         b = 4 then Some OverallCondition.Emergency else None)"

definition TelemetryPacket_condition :: "TelemetryPacket_encoder \<Rightarrow> OverallCondition option"
    where
  "TelemetryPacket_condition self = decode_condition ((hash_bytes (TelemetryPacket_encoder_as_bytes
      self)) ! 8)"

definition decode_trend :: "u8 \<Rightarrow> OverallTrend option" where
  "decode_trend b =
     (if b = 0 then Some OverallTrend.Thriving else if b = 1 then Some OverallTrend.Stable else if b = 2
         then Some OverallTrend.Concerning else if b = 3 then Some OverallTrend.Critical else None)"

definition TelemetryPacket_trend :: "TelemetryPacket_encoder \<Rightarrow> OverallTrend option" where
  "TelemetryPacket_trend self = decode_trend ((hash_bytes (TelemetryPacket_encoder_as_bytes self)) ! 9)"

definition decode_severity :: "u8 \<Rightarrow> AlertSeverity option" where
  "decode_severity b =
     (if b = 0 then Some AlertSeverity.Nothing else if b = 1 then Some AlertSeverity.Info else if b = 2
         then Some AlertSeverity.Warn else if b = 3 then Some AlertSeverity.Critical else if b = 4 then
         Some AlertSeverity.Emergency else None)"

definition TelemetryPacket_severity :: "TelemetryPacket_encoder \<Rightarrow> AlertSeverity option"
    where
  "TelemetryPacket_severity self = decode_severity ((hash_bytes (TelemetryPacket_encoder_as_bytes self))
      ! 10)"

definition telemetry_encoder_decode_phase :: "u8 \<Rightarrow> ConstitutionalPhase option" where
  "telemetry_encoder_decode_phase b =
     (if b = 0 then Some ConstitutionalPhase.Nominal else if b = 1 then Some
         ConstitutionalPhase.Degraded else if b = 2 then Some ConstitutionalPhase.Recovery else if b = 3
         then Some ConstitutionalPhase.Critical else None)"

definition TelemetryPacket_phase :: "TelemetryPacket_encoder \<Rightarrow> ConstitutionalPhase option"
    where
  "TelemetryPacket_phase self = telemetry_encoder_decode_phase ((hash_bytes
      (TelemetryPacket_encoder_as_bytes self)) ! 11)"

definition decode_momentum_dir :: "u8 \<Rightarrow> MomentumDir option" where
  "decode_momentum_dir b =
     (if b = 0 then Some MomentumDir.Improving else if b = 1 then Some MomentumDir.Stable else if b = 2
         then Some MomentumDir.Declining else None)"

definition TelemetryPacket_momentum_dir :: "TelemetryPacket_encoder \<Rightarrow> MomentumDir option"
    where
  "TelemetryPacket_momentum_dir self = decode_momentum_dir ((hash_bytes
      (TelemetryPacket_encoder_as_bytes self)) ! 12)"

definition TelemetryPacket_degraded_count :: "TelemetryPacket_encoder \<Rightarrow> u8" where
  "TelemetryPacket_degraded_count self = (hash_bytes (TelemetryPacket_encoder_as_bytes self)) ! 13"

definition TelemetryPacket_momentum_int_clamped :: "TelemetryPacket_encoder \<Rightarrow> i16" where
  "TelemetryPacket_momentum_int_clamped self = from_be (take 2 (drop 14 (hash_bytes
      (TelemetryPacket_encoder_as_bytes self))))"

definition packet_checksum :: "sha \<Rightarrow> bytes \<Rightarrow> bytes" where
  "packet_checksum sha data = take 8 (hash_bytes (sha data))"

definition TelemetryPacket_is_checksum_valid :: "sha \<Rightarrow> TelemetryPacket_encoder \<Rightarrow>
    bool" where
  "TelemetryPacket_is_checksum_valid sha self \<longleftrightarrow>
     (let expected = packet_checksum sha (take 16 (hash_bytes (TelemetryPacket_encoder_as_bytes self)))
      in take 8 (drop 16 (hash_bytes (TelemetryPacket_encoder_as_bytes self))) = expected)"

definition TelemetryPacket_frame_hash_prefix :: "TelemetryPacket_encoder \<Rightarrow> bytes" where
  "TelemetryPacket_frame_hash_prefix self = take 8 (drop 24 (hash_bytes
      (TelemetryPacket_encoder_as_bytes self)))"

definition telemetry_encode :: "sha \<Rightarrow> DashboardFrame \<Rightarrow> AlertSeverity
    \<Rightarrow> TelemetryPacket_encoder" where
  "telemetry_encode sha frame severity =
     (let clamped = (if df2_momentum_int frame <s - 32768 then (- 32768 :: i16)
            else if 32767 <s df2_momentum_int frame then 32767 else ucast (df2_momentum_int frame));
          head = be8 (df2_epoch frame) @
            [OverallCondition_as_u8 (shv_condition (df2_vector frame)),
             OverallTrend_as_u8 (df2_overall_trend frame), AlertSeverity_as_u8 severity,
             ConstitutionalPhase_as_u8 (df2_phase frame), MomentumDir_as_u8 (df2_momentum_dir frame),
             shv_degraded_count (df2_vector frame)] @ be2 (ucast clamped)
      in TelemetryPacket_encoder
           (from_be (head @ packet_checksum sha head @ take 8 (hash_bytes (df2_frame_hash frame)))))"

datatype EncoderError = EncoderError string

lemma telemetry_layout:
  assumes "length e = 8" "length m = 2" "length c = 8" "length h = 8"
  shows "take 8 (e @ [a0, a1, a2, a3, a4, a5] @ m @ c @ h) = e"
    "(e @ [a0, a1, a2, a3, a4, a5] @ m @ c @ h) ! 8 = a0" "(e @ [a0, a1, a2, a3, a4, a5] @ m @ c @ h) ! 9 = a1"
    "(e @ [a0, a1, a2, a3, a4, a5] @ m @ c @ h) ! 10 = a2" "(e @ [a0, a1, a2, a3, a4, a5] @ m @ c @ h) ! 11 = a3"
    "(e @ [a0, a1, a2, a3, a4, a5] @ m @ c @ h) ! 12 = a4" "(e @ [a0, a1, a2, a3, a4, a5] @ m @ c @ h) ! 13 = a5"
    "take 2 (drop 14 (e @ [a0, a1, a2, a3, a4, a5] @ m @ c @ h)) = m"
    "take 16 (e @ [a0, a1, a2, a3, a4, a5] @ m @ c @ h) = e @ [a0, a1, a2, a3, a4, a5] @ m"
    "take 8 (drop 16 (e @ [a0, a1, a2, a3, a4, a5] @ m @ c @ h)) = c"
    "take 8 (drop 24 (e @ [a0, a1, a2, a3, a4, a5] @ m @ c @ h)) = h"
  using assms by (simp_all add: nth_append)

lemma decode_as_u8:
  "decode_condition (OverallCondition_as_u8 c) = Some c"
  "decode_trend (OverallTrend_as_u8 t) = Some t"
  "decode_severity (AlertSeverity_as_u8 s) = Some s"
  "telemetry_encoder_decode_phase (ConstitutionalPhase_as_u8 p) = Some p"
  "decode_momentum_dir (MomentumDir_as_u8 d) = Some d"
  subgoal by (cases c) (simp_all add: decode_condition_def)
  subgoal by (cases t) (simp_all add: decode_trend_def)
  subgoal by (cases s) (simp_all add: decode_severity_def)
  subgoal by (cases p) (simp_all add: telemetry_encoder_decode_phase_def)
  subgoal by (cases d) (simp_all add: decode_momentum_dir_def)
  done

lemma hash_bytes_of_be:
  assumes "length bs = 32"
  shows "hash_bytes (from_be bs) = bs"
proof -
  have "le_bytes 32 (from_le (rev bs) :: hash) = rev bs" using assms by (intro le_bytes_from_le) simp_all
  then show ?thesis by (simp add: hash_bytes_def be_bytes_def from_be_def)
qed

lemma sint_narrow:
  assumes "- 32768 \<le> sint (m :: i64)" "sint m \<le> 32767"
  shows "sint (ucast m :: i16) = sint m"
proof -
  have "sint (ucast m :: i16) = signed_take_bit 15 (uint m)"
    by (simp add: sint_uint unsigned_ucast_eq signed_take_bit_take_bit)
  also have "\<dots> = signed_take_bit 15 (sint m)"
    by (simp add: sint_uint signed_take_bit_signed_take_bit)
  also have "\<dots> = sint m" using assms by (intro signed_take_bit_int_eq_self) simp_all
  finally show ?thesis .
qed

definition momentum_wire :: "i64 \<Rightarrow> i16" where
  "momentum_wire m = (if m <s - 32768 then - 32768 else if 32767 <s m then 32767 else ucast m)"

lemma sint_momentum_wire: "sint (momentum_wire m) = max (- 32768) (min 32767 (sint m))"
proof -
  have "sint (- 32768 :: i64) = - 32768" "sint (32767 :: i64) = 32767" "sint (- 32768 :: i16) = - 32768" "sint (32767 :: i16) = 32767"
    by simp_all
  then show ?thesis using sint_narrow [of m] by (auto simp: momentum_wire_def word_sless_alt)
qed

lemma telemetry_encode_decodes:
  "let p = telemetry_encode sha fr sev in
     TelemetryPacket_is_checksum_valid sha p \<and> TelemetryPacket_epoch p = df2_epoch fr \<and>
     TelemetryPacket_condition p = Some (shv_condition (df2_vector fr)) \<and>
     TelemetryPacket_trend p = Some (df2_overall_trend fr) \<and> TelemetryPacket_severity p = Some sev \<and>
     TelemetryPacket_phase p = Some (df2_phase fr) \<and> TelemetryPacket_momentum_dir p = Some (df2_momentum_dir fr) \<and>
     TelemetryPacket_degraded_count p = shv_degraded_count (df2_vector fr) \<and>
     sint (TelemetryPacket_momentum_int_clamped p) = max (- 32768) (min 32767 (sint (df2_momentum_int fr))) \<and>
     TelemetryPacket_frame_hash_prefix p = take 8 (hash_bytes (df2_frame_hash fr))"
proof -
  define e where "e = be8 (df2_epoch fr)"
  define m where "m = be2 (momentum_wire (df2_momentum_int fr))"
  define six where "six = [OverallCondition_as_u8 (shv_condition (df2_vector fr)), OverallTrend_as_u8 (df2_overall_trend fr),
    AlertSeverity_as_u8 sev, ConstitutionalPhase_as_u8 (df2_phase fr), MomentumDir_as_u8 (df2_momentum_dir fr),
    shv_degraded_count (df2_vector fr)]"
  define c where "c = packet_checksum sha (e @ six @ m)"
  define h where "h = take 8 (hash_bytes (df2_frame_hash fr))"
  have l: "length e = 8" "length m = 2" "length c = 8" "length h = 8"
    by (simp_all add: e_def m_def c_def h_def packet_checksum_def)
  have "TelemetryPacket_encoder_as_bytes (telemetry_encode sha fr sev) = from_be (e @ six @ m @ c @ h)"
    by (simp add: telemetry_encode_def TelemetryPacket_encoder_as_bytes_def Let_def c_def six_def e_def m_def h_def momentum_wire_def)
  then have b: "hash_bytes (TelemetryPacket_encoder_as_bytes (telemetry_encode sha fr sev)) = e @ six @ m @ c @ h"
    using l by (simp add: hash_bytes_of_be six_def)
  have "from_be e = df2_epoch fr" "from_be m = momentum_wire (df2_momentum_int fr)" 
    by (simp_all add: e_def m_def from_be_be_bytes_id)
  then show ?thesis
    unfolding Let_def TelemetryPacket_is_checksum_valid_def TelemetryPacket_epoch_def TelemetryPacket_condition_def
      TelemetryPacket_trend_def TelemetryPacket_severity_def TelemetryPacket_phase_def TelemetryPacket_momentum_dir_def
      TelemetryPacket_degraded_count_def TelemetryPacket_momentum_int_clamped_def TelemetryPacket_frame_hash_prefix_def b
    unfolding six_def telemetry_layout [OF l]
    by (simp add: decode_as_u8
      sint_momentum_wire c_def [unfolded six_def] h_def [symmetric])
qed

end
