(* ===== verification/Mesh_Geometry.thy ===== *)
theory Mesh_Geometry
  imports Epoch_Log
begin

text \<open>
  The integer geometry that the mesh is laid out by: the pyramid of layers with square capacities, the
  twelve sectors, the router on twelve nodes with its breadth-first search, digital roots and their
  families, proportional coordinates, the encoding of a name by the values of its letters, and the
  check of ring compositions.
\<close>

section \<open>Gate 207: Pyramidal Stack Engine\<close>

text \<open>
  \<open>pyramidal_stack.rs\<close>. Computes cumulative causal capacity of mesh layers using square
  pyramidal numbers. Validates P_n = n(n+1)(2n+1)/6 and enforces geometric capacity limits.
\<close>

definition pyramidal_number :: "u64 \<Rightarrow> u64" where
  "pyramidal_number n =
     (if n = 0 then 0
      else ((n * (n + 1)) * ((2 * n) + 1)) div 6)"

record PyramidalLayer =
  pl4_layer_index :: u64
  pl4_node_capacity :: u64
  pl4_cumulative_nodes :: u64

record PyramidalStack =
  ps5_layers :: "PyramidalLayer list"
  ps5_max_layer :: u64

definition PyramidalStack_initialize_layers :: "PyramidalStack \<Rightarrow> PyramidalStack" where
  "PyramidalStack_initialize_layers self =
     foldl (\<lambda>self k. let node_capacity = k * k; cumulative = pyramidal_number k
         in self\<lparr>ps5_layers := ps5_layers self @
              [\<lparr>pl4_layer_index = k, pl4_node_capacity = node_capacity,
                pl4_cumulative_nodes = cumulative\<rparr>]\<rparr>)
       self (map of_nat [1..<unat (ps5_max_layer self) + 1])"

definition PyramidalStack_new :: "u64 \<Rightarrow> PyramidalStack" where
  "PyramidalStack_new max_layer =
     (let stack = \<lparr>ps5_layers = [], ps5_max_layer = max_layer\<rparr>;
          stack = PyramidalStack_initialize_layers stack
      in stack)"

definition PyramidalStack_get_cumulative_capacity ::
  "u64 \<Rightarrow> PyramidalStack \<Rightarrow> u64 option" where
  "PyramidalStack_get_cumulative_capacity layer self =
     (if layer = 0 \<or> layer > (ps5_max_layer self) then None
      else Some (pyramidal_number layer))"

definition PyramidalStack_validate_layer_8 :: "PyramidalStack \<Rightarrow> string + bool" where
  "PyramidalStack_validate_layer_8 self =
     (let expected = (204 :: u64); actual = pyramidal_number 8
      in if actual = expected then Inr True
         else Inl ''Layer 8 capacity mismatch: expected 204, got {actual}'')"

datatype CapacityExceeded = InvalidLayer u64 | NodeCountExceeded u64 u64 u64

definition PyramidalStack_check_capacity ::
  "u64 \<Rightarrow> u64 \<Rightarrow> PyramidalStack \<Rightarrow> CapacityExceeded + bool" where
  "PyramidalStack_check_capacity node_count layer self =
     (case PyramidalStack_get_cumulative_capacity layer self of None \<Rightarrow> Inl
         (CapacityExceeded.InvalidLayer layer)
      | Some capacity \<Rightarrow> (if node_count > capacity then Inl
          (CapacityExceeded.NodeCountExceeded node_count capacity layer)
      else Inr True))"

definition PyramidalStack_find_minimum_layer ::
  "u64 \<Rightarrow> PyramidalStack \<Rightarrow> u64 option" where
  "PyramidalStack_find_minimum_layer node_count self =
     (case find (\<lambda>layer. node_count \<le> (pl4_cumulative_nodes layer)) (ps5_layers self) of
         Some layer \<Rightarrow> Some (pl4_layer_index layer) | None \<Rightarrow> None)"

definition PyramidalStack_verify_algebraic_structure ::
  "PyramidalStack \<Rightarrow> string + unit" where
  "PyramidalStack_verify_algebraic_structure self =
     (let n = 8;
          computed = ((n * (n + 1)) * ((2 * n) + 1)) div 6;
          expected = 204
      in if computed = expected then Inr ()
      else Inl ''Algebraic structure verification failed'')"

section \<open>Gate 207: Dodecagonal Mesh Engine\<close>

text \<open>
  \<open>dodecagonal_mesh.rs\<close>. Transforms the 204-node pyramid into a 12-fold symmetric
  quasicrystalline lattice. Eliminates tessellation gaps inherent in 8-fold symmetry for infinite
  scalability.
\<close>

record DodecagonalSector =
  ds_sector_id :: u8
  ds_node_count :: u64
  ds_harmonic_index :: u64

record DodecagonalMesh_mesh =
  dm_sectors :: "DodecagonalSector list"
  dm_total_nodes :: u64
  dm_phase_shifted :: bool

definition DodecagonalMesh_mesh_distribute_nodes ::
  "DodecagonalMesh_mesh \<Rightarrow> DodecagonalMesh_mesh" where
  "DodecagonalMesh_mesh_distribute_nodes self =
     (let base_per_sector = (dm_total_nodes self) div 12;
          remainder = (dm_total_nodes self) mod 12;
          self = fold (\<lambda>i self. (let extra = (if (of_nat i :: u64) < remainder then 1 else 0);
          self = self\<lparr>dm_sectors := (dm_sectors self) @ [\<lparr>ds_sector_id = (of_nat i :: u8),
            ds_node_count = base_per_sector + extra, ds_harmonic_index = (of_nat i :: u64) +
            1\<rparr>]\<rparr>
      in self)) [0..<12] self
      in self)"

definition DodecagonalMesh_mesh_new :: "u64 \<Rightarrow> DodecagonalMesh_mesh" where
  "DodecagonalMesh_mesh_new total_nodes =
     (let mesh = \<lparr>dm_sectors = [], dm_total_nodes = total_nodes,
         dm_phase_shifted = False\<rparr>;
          mesh = DodecagonalMesh_mesh_distribute_nodes mesh
      in mesh)"

definition DodecagonalMesh_mesh_validate_204_factorization ::
  "DodecagonalMesh_mesh \<Rightarrow> string + bool" where
  "DodecagonalMesh_mesh_validate_204_factorization self =
     (if (dm_total_nodes self) \<noteq> 204 then Inl ''Total nodes must be 204 for validation''
      else (let sum_v = sum_list (map ds_node_count (dm_sectors self))
      in if sum_v = 204 then Inr True
      else Inl ''Factorization error: sector sum does not equal 204''))"

definition DodecagonalMesh_mesh_check_tessellation_gaps ::
  "DodecagonalMesh_mesh \<Rightarrow> u64" where
  "DodecagonalMesh_mesh_check_tessellation_gaps self =
     (dm_total_nodes self) mod 12"

definition DodecagonalMesh_mesh_trigger_phase_shift ::
  "DodecagonalMesh_mesh \<Rightarrow> (string + unit) \<times> DodecagonalMesh_mesh" where
  "DodecagonalMesh_mesh_trigger_phase_shift self =
     (if (dm_total_nodes self) < 204 then (Inl ''Phase shift requires minimum 204 nodes'', self)
      else (let self = self\<lparr>dm_phase_shifted := True\<rparr>
      in (Inr (), self)))"

definition DodecagonalMesh_mesh_find_max_load_sector ::
  "DodecagonalMesh_mesh \<Rightarrow> DodecagonalSector option" where
  "DodecagonalMesh_mesh_find_max_load_sector self =
     max_by_key ds_node_count (dm_sectors self)"

definition DodecagonalMesh_mesh_get_harmonic_resonance ::
  "u8 \<Rightarrow> DodecagonalMesh_mesh \<Rightarrow> u64 option" where
  "DodecagonalMesh_mesh_get_harmonic_resonance sector_id self =
     map_option ds_harmonic_index (nth_opt (unat sector_id) (dm_sectors self))"

record TilingReport =
  tr3_iterations :: u32
  tr3_total_tiles :: u64
  tr3_gap_count :: u64
  tr3_overlap_count :: u64

definition DodecagonalMesh_mesh_simulate_penrose_tiling :: "u32 \<Rightarrow> DodecagonalMesh_mesh
    \<Rightarrow> string + TilingReport" where
  "DodecagonalMesh_mesh_simulate_penrose_tiling iterations self =
     (if \<not> dm_phase_shifted self then Inl ''Must trigger phase shift before tiling simulation''
      else (let report = \<lparr>tr3_iterations = iterations, tr3_total_tiles = 0, tr3_gap_count = 0,
          tr3_overlap_count = 0\<rparr>;
          report = ((\<lambda>report. report\<lparr>tr3_total_tiles := tr3_total_tiles report +
            12\<rparr>) ^^ unat iterations) report
        in Inr report))"

section \<open>Gate 212: Dodecagonal Symmetry Router\<close>

text \<open>
  \<open>dodecagonal_router.rs\<close>. 12-fold symmetric routing topology using integer arithmetic.
  Each node i connects to (i+-1)%12 (ring neighbors) and (i+6)%12 (opposite).
\<close>

definition DODECAGON_NODES :: u8 where
  "DODECAGON_NODES = 12"

record DodecagonalMesh_router =
  dm2_adjacency :: "bytes list"

definition build_dodecagonal_mesh :: "DodecagonalMesh_router" where
  "build_dodecagonal_mesh =
     \<lparr>dm2_adjacency = map (\<lambda>i. let n1 = (of_nat i + 1) mod DODECAGON_NODES;
           n2 = (of_nat i + 11) mod DODECAGON_NODES;
           n3 = (of_nat i + 6) mod DODECAGON_NODES
         in sort [n1, n2, n3]) [0..<unat DODECAGON_NODES]\<rparr>"

fun route_visit :: "u8 \<Rightarrow> bytes \<Rightarrow> bytes \<Rightarrow> bytes list \<Rightarrow> u8
    set \<Rightarrow> bytes + (bytes list \<times> u8 set)" where
  "route_visit to path [] queue visited = Inr (queue, visited)"
| "route_visit to path (next # neighbors) queue visited =
     (if next = to then Inl (path @ [next])
      else if next \<in> visited then route_visit to path neighbors queue visited
      else route_visit to path neighbors (queue @ [path @ [next]]) (insert next visited))"

fun route_search :: "nat \<Rightarrow> DodecagonalMesh_router \<Rightarrow> u8 \<Rightarrow> bytes list
    \<Rightarrow> u8 set \<Rightarrow> bytes option" where
  "route_search fuel mesh to [] visited = Some []"
| "route_search 0 mesh to (path # queue) visited = None"
| "route_search (Suc fuel) mesh to (path # queue) visited =
     (case route_visit to path (dm2_adjacency mesh ! unat (last path)) queue visited of
        Inl found \<Rightarrow> Some found
      | Inr (queue, visited) \<Rightarrow> route_search fuel mesh to queue visited)"

definition route :: "DodecagonalMesh_router \<Rightarrow> u8 \<Rightarrow> u8 \<Rightarrow> bytes
    option" where
  "route mesh from_v to =
     (if \<not> (from_v < DODECAGON_NODES \<and> to < DODECAGON_NODES) then None
      else if from_v = to then Some [from_v]
      else route_search (unat DODECAGON_NODES + 1) mesh to [[from_v]] {from_v})"

definition ring_distance :: "u8 \<Rightarrow> u8 \<Rightarrow> u8" where
  "ring_distance a b =
     (let diff = (if a > b then a - b else b - a)
      in min diff (DODECAGON_NODES - diff))"

text \<open>
  The mesh and its distances: a walk steps along the adjacency; the distance of two nodes is the ring distance,
  or the chord and the rest of the ring from the opposite node.
\<close>

fun mesh_walk :: "DodecagonalMesh_router \<Rightarrow> u8 list \<Rightarrow> bool" where
  "mesh_walk mesh [] \<longleftrightarrow> False"
| "mesh_walk mesh [a] \<longleftrightarrow> a < DODECAGON_NODES"
| "mesh_walk mesh (a # b # p) \<longleftrightarrow>
     a < DODECAGON_NODES \<and> b \<in> set (dm2_adjacency mesh ! unat a) \<and> mesh_walk mesh (b # p)"

definition hop_distance :: "u8 \<Rightarrow> u8 \<Rightarrow> nat" where
  "hop_distance a b = (let d = unat (ring_distance a b) in min d (7 - d))"

definition dodecagon :: "u8 list" where
  "dodecagon = [0, 1, 2, 3, 4, 5, 6, 7, 8, 9, 10, 11]"

lemma dodecagon_eq: "dodecagon = map of_nat [0..<12]"
  by code_simp

lemma in_dodecagon: "a < DODECAGON_NODES \<longleftrightarrow> a \<in> set dodecagon"
proof
  assume "a < DODECAGON_NODES"
  then have "unat a \<in> {0..<12}" by (simp add: DODECAGON_NODES_def word_less_nat_alt)
  then have "of_nat (unat a) \<in> (of_nat ` {0..<12} :: u8 set)" by (rule imageI)
  then show "a \<in> set dodecagon" unfolding dodecagon_eq by simp
next
  show "a \<in> set dodecagon \<Longrightarrow> a < DODECAGON_NODES"
    by (auto simp: dodecagon_def DODECAGON_NODES_def word_less_nat_alt)
qed

lemma mesh_eq: "dm2_adjacency build_dodecagonal_mesh =
  [[1, 6, 11], [0, 2, 7], [1, 3, 8], [2, 4, 9], [3, 5, 10], [4, 6, 11],
   [0, 5, 7], [1, 6, 8], [2, 7, 9], [3, 8, 10], [4, 9, 11], [0, 5, 10]]"
  by code_simp

lemma build_mesh_eq: "build_dodecagonal_mesh = \<lparr>dm2_adjacency =
  [[1, 6, 11], [0, 2, 7], [1, 3, 8], [2, 4, 9], [3, 5, 10], [4, 6, 11],
   [0, 5, 7], [1, 6, 8], [2, 7, 9], [3, 8, 10], [4, 9, 11], [0, 5, 10]]\<rparr>"
  by (simp add: mesh_eq[symmetric])

lemma hop_steps:
  "list_all (\<lambda>a. list_all (\<lambda>b. list_all (\<lambda>c. hop_distance a b \<le> Suc (hop_distance c b))
     (dm2_adjacency build_dodecagonal_mesh ! unat a)) dodecagon) dodecagon"
  unfolding mesh_eq by code_simp


lemma hop_zero: "list_all (\<lambda>a. hop_distance a a = 0) dodecagon"
  by code_simp

definition routes_ok :: "DodecagonalMesh_router \<Rightarrow> u8 \<Rightarrow> u8 \<Rightarrow> bool" where
  "routes_ok mesh a b = (case route mesh a b of None \<Rightarrow> False
     | Some p \<Rightarrow> mesh_walk mesh p \<and> hd p = a \<and> last p = b \<and> length p = Suc (hop_distance a b))"

lemma routes_checked: "list_all (\<lambda>a. list_all (routes_ok build_dodecagonal_mesh a) dodecagon) dodecagon"
  unfolding build_mesh_eq by code_simp

lemma hop_step:
  "a < DODECAGON_NODES \<Longrightarrow> b < DODECAGON_NODES \<Longrightarrow> c \<in> set (dm2_adjacency build_dodecagonal_mesh ! unat a) \<Longrightarrow>
   hop_distance a b \<le> Suc (hop_distance c b)"
  using hop_steps by (simp add: in_dodecagon list_all_iff)

lemma walk_nodes: "mesh_walk mesh p \<Longrightarrow> p \<noteq> [] \<and> last p < DODECAGON_NODES"
  by (induction mesh p rule: mesh_walk.induct) auto

lemma walk_length: "mesh_walk build_dodecagonal_mesh p \<Longrightarrow> hop_distance (hd p) (last p) < length p"
proof (induction p rule: induct_list012)
  case (2 a)
  then show ?case using hop_zero by (simp add: in_dodecagon list_all_iff)
next
  case (3 a b p)
  then have "hop_distance b (last (b # p)) < length (b # p)" by simp
  moreover have "hop_distance a (last (b # p)) \<le> Suc (hop_distance b (last (b # p)))"
    using 3 walk_nodes by (intro hop_step) fastforce+
  ultimately show ?case by simp
qed simp

text \<open>
  C36.  Routing on the dodecagon: exactly for two nodes of the mesh the router returns a route; it is a walk along the
  adjacency from one to the other with one node more than their distance, and no walk between them is shorter.  Thirteen
  rounds of the breadth-first search are enough.
\<close>

theorem route_is_shortest:
  "case route build_dodecagonal_mesh a b of
     None \<Rightarrow> \<not> (a < DODECAGON_NODES \<and> b < DODECAGON_NODES)
   | Some p \<Rightarrow> a < DODECAGON_NODES \<and> b < DODECAGON_NODES \<and>
       mesh_walk build_dodecagonal_mesh p \<and> hd p = a \<and> last p = b \<and> length p = Suc (hop_distance a b) \<and>
       (\<forall>q. mesh_walk build_dodecagonal_mesh q \<and> hd q = a \<and> last q = b \<longrightarrow> length p \<le> length q)"
proof (cases "a < DODECAGON_NODES \<and> b < DODECAGON_NODES")
  case True
  then have "routes_ok build_dodecagonal_mesh a b" using routes_checked by (simp add: in_dodecagon list_all_iff)
  then show ?thesis using True
    by (auto simp: routes_ok_def Suc_le_eq dest: walk_length split: option.splits)
next
  case False
  then show ?thesis by (auto simp: route_def)
qed

theorem route_is_shortest_witness:
  "route build_dodecagonal_mesh 0 3 = Some [0, 1, 2, 3] \<and> length [0 :: u8, 1, 2, 3] \<le> length [0 :: u8, 11, 10, 4, 3]"
proof -
  have r: "route build_dodecagonal_mesh 0 3 = Some [0, 1, 2, 3]" unfolding build_mesh_eq by code_simp
  moreover have "mesh_walk build_dodecagonal_mesh [0, 11, 10, 4, 3]" unfolding build_mesh_eq by code_simp
  ultimately show ?thesis using route_is_shortest [of 0 3] by fastforce
qed

lemma route_some:
  assumes "a < DODECAGON_NODES" "b < DODECAGON_NODES"
  shows "\<exists>p. route build_dodecagonal_mesh a b = Some p \<and> p \<noteq> []"
proof -
  have "routes_ok build_dodecagonal_mesh a b" using routes_checked assms by (simp add: in_dodecagon list_all_iff)
  then show ?thesis by (auto simp: routes_ok_def split: option.splits)
qed

section \<open>Gate 214: Vortex Sequence Classifier\<close>

text \<open>
  \<open>vortex_classifier.rs\<close>. Digital root cycle detection and family classification.
\<close>

definition TRIADIC_MEMBERS :: bytes where
  "TRIADIC_MEMBERS = [3, 6, 9]"

definition TRIADIC_SUM :: u64 where
  "TRIADIC_SUM = 18"

definition HEXADIC_SUM :: u64 where
  "HEXADIC_SUM = 27"

definition ALL_DR_SUM :: u64 where
  "ALL_DR_SUM = 45"

datatype VortexFamily = Triadic | Hexadic

fun VortexFamily_as_u8 :: "VortexFamily \<Rightarrow> u8" where
  "VortexFamily_as_u8 VortexFamily.Triadic = 0"
| "VortexFamily_as_u8 VortexFamily.Hexadic = 1"

lemma VortexFamily_as_u8_inj [simp]: "VortexFamily_as_u8 x = VortexFamily_as_u8 y \<longleftrightarrow>
    x = y"
  by (cases x; cases y) auto

definition digital_root :: "u64 \<Rightarrow> u8" where
  "digital_root n =
     (if n = 0 then 9
      else (let r = (ucast (n mod 9) :: u8)
      in if r = 0 then 9
      else r))"

definition classify_vortex :: "u64 \<Rightarrow> VortexFamily" where
  "classify_vortex n =
     (let root = digital_root n
      in if root \<in> set TRIADIC_MEMBERS then VortexFamily.Triadic
      else VortexFamily.Hexadic)"

definition is_sequence_stable :: "u64 list \<Rightarrow> bool" where
  "is_sequence_stable seq \<longleftrightarrow>
     (if seq = [] then True
      else (let first_family = classify_vortex (seq ! 0)
      in list_all (\<lambda>n. (classify_vortex n) = first_family) seq))"

definition vortex_cycle_length :: "u64 \<Rightarrow> u8 option" where
  "vortex_cycle_length start_v =
     (if start_v = 0 then None
      else case classify_vortex start_v of
         VortexFamily.Triadic \<Rightarrow> Some 3
       | VortexFamily.Hexadic \<Rightarrow> Some 6)"

section \<open>Gate 213: Proportional Unit Metric\<close>

text \<open>
  \<open>proportional_metric.rs\<close>. Rational arithmetic proportional coordinates - avoids float
  comparison via cross-multiplication.
\<close>

definition SQUARED_SUM_K8 :: u64 where
  "SQUARED_SUM_K8 = 204"

record ProportionalPoint =
  pp2_numerator :: u64
  pp2_denominator :: u64

datatype MetricError = MetricError string

definition ProportionalPoint_new :: "u64 \<Rightarrow> u64 \<Rightarrow> MetricError +
    ProportionalPoint" where
  "ProportionalPoint_new numerator denominator =
     (if denominator = 0 then Inl (MetricError ''Denominator must be > 0'')
      else Inr \<lparr>pp2_numerator = numerator, pp2_denominator = denominator\<rparr>)"

definition ProportionalPoint_is_proportional_to ::
  "ProportionalPoint \<Rightarrow> ProportionalPoint \<Rightarrow> bool" where
  "ProportionalPoint_is_proportional_to other self \<longleftrightarrow>
     ((pp2_numerator self) * (pp2_denominator other)) = ((pp2_numerator other) * (pp2_denominator
         self))"

definition ProportionalPoint_scale ::
  "u64 \<Rightarrow> ProportionalPoint \<Rightarrow> ProportionalPoint" where
  "ProportionalPoint_scale factor self =
     \<lparr>pp2_numerator = (pp2_numerator self) * factor, pp2_denominator = pp2_denominator
         self\<rparr>"

definition ProportionalPoint_normalized_to :: "u64 \<Rightarrow> ProportionalPoint \<Rightarrow>
    ProportionalPoint option option" where
  "ProportionalPoint_normalized_to base_denominator self =
     (if pp2_denominator self = 0 then None
      else if base_denominator mod pp2_denominator self = 0 then
        let factor = base_denominator div pp2_denominator self
        in Some (Some \<lparr>pp2_numerator = pp2_numerator self * factor,
          pp2_denominator = base_denominator\<rparr>)
      else Some None)"

record ProportionalGrid =
  pg_base_unit :: ProportionalPoint
  pg_width_units :: u64
  pg_height_units :: u64

definition ProportionalGrid_new ::
  "ProportionalPoint \<Rightarrow> u64 \<Rightarrow> u64 \<Rightarrow> ProportionalGrid" where
  "ProportionalGrid_new base width height =
     \<lparr>pg_base_unit = base, pg_width_units = width, pg_height_units = height\<rparr>"

definition ProportionalGrid_point_at ::
  "u64 \<Rightarrow> u64 \<Rightarrow> ProportionalGrid \<Rightarrow> ProportionalPoint option" where
  "ProportionalGrid_point_at x y self =
     (if x \<ge> (pg_width_units self) \<or> y \<ge> (pg_height_units self) then None
      else Some (ProportionalPoint_scale ((x + y) + 1) (pg_base_unit self)))"

definition ProportionalGrid_verify_squared_sum :: "ProportionalGrid \<Rightarrow> bool" where
  "ProportionalGrid_verify_squared_sum self \<longleftrightarrow>
     (if pg_width_units self = 8 then sum_list (map (\<lambda>i. of_nat i * of_nat i) [1..<9]) =
         SQUARED_SUM_K8 else False)"

section \<open>Gate 215: Abjad Letter Encoder\<close>

text \<open>
  \<open>abjad_encoder.rs\<close>. Encodes letter sequences (via Abjad integer values) into AEGIS
  routing structures. The Abjad system assigns integer values to letters - functionally equivalent to
  any bijective letter->integer mapping (like ASCII). The math operates on the integers.
\<close>

record LetterRecord =
  lr4_abjad_value :: u64
  lr4_digital_root :: u8
  lr4_family :: VortexFamily
  lr4_dodecagon_node :: u8
  lr4_opposite_node :: u8
  lr4_dot_count :: u8
  lr4_cycle_length :: "u8 option"

record AbjadEncoding =
  ae2_letters :: "LetterRecord list"
  ae2_abjad_sum :: u64
  ae2_abjad_product :: u64
  ae2_sum_dr :: u8
  ae2_product_dr :: u8
  ae2_sum_family :: VortexFamily
  ae2_product_family :: VortexFamily
  ae2_name_node :: u8
  ae2_routing_path :: "u8 list"
  ae2_is_self_referential :: bool

datatype AbjadEncoderError = AbjadEncoderError string

definition letter_record :: "u64 \<times> u8 \<Rightarrow> LetterRecord" where
  "letter_record l = (case l of (val, dots) \<Rightarrow>
     (let dr = digital_root val;
          family = classify_vortex val;
          node = ucast (val mod ucast DODECAGON_NODES);
          opposite = (node + 6) mod DODECAGON_NODES
      in \<lparr>lr4_abjad_value = val, lr4_digital_root = dr, lr4_family = family,
          lr4_dodecagon_node = node,
           lr4_opposite_node = opposite, lr4_dot_count = dots, lr4_cycle_length = vortex_cycle_length
             val\<rparr>))"

fun route_letters :: "DodecagonalMesh_router \<Rightarrow> bytes \<Rightarrow> LetterRecord list
    \<Rightarrow> bytes option" where
  "route_letters mesh routing_path (a # b # rest) =
     (case route mesh (lr4_dodecagon_node a) (lr4_dodecagon_node b) of
        None \<Rightarrow> None
      | Some segment \<Rightarrow>
          if routing_path = [] then route_letters mesh segment (b # rest)
          else if segment = [] then None
          else route_letters mesh (routing_path @ drop 1 segment) (b # rest))"
| "route_letters mesh routing_path records = Some routing_path"

definition abjad_encode :: "(u64 \<times> u8) list \<Rightarrow> (AbjadEncoderError + AbjadEncoding)
    option" where
  "abjad_encode letters =
     (if letters = [] then Some (Inl (AbjadEncoderError ''Letter sequence must not be empty''))
      else if list_ex (\<lambda>(v, _). v = 0) letters then Some (Inl (AbjadEncoderError
          ''Abjad value 0 is not defined''))
      else
        let mesh = build_dodecagonal_mesh;
            (records, abjad_sum, abjad_product) =
              foldl (\<lambda>(records, abjad_sum, abjad_product) l.
                  (records @ [letter_record l], sat_add abjad_sum (fst l),
                    sat_mul abjad_product (fst l)))
                ([], 0, 1) letters
        in case (if length records = 1 then Some [lr4_dodecagon_node (records ! 0)] else route_letters
          mesh [] records) of
             None \<Rightarrow> None
           | Some routing_path \<Rightarrow>
               let sum_dr = digital_root abjad_sum;
                   product_dr = digital_root abjad_product;
                   sum_family = classify_vortex abjad_sum;
                   product_family = classify_vortex abjad_product;
                   name_node = ucast (abjad_sum mod ucast DODECAGON_NODES);
                   is_self_referential = (sum_dr = product_dr)
               in Some (Inr \<lparr>ae2_letters = records, ae2_abjad_sum = abjad_sum,
                 ae2_abjad_product = abjad_product,
                    ae2_sum_dr = sum_dr, ae2_product_dr = product_dr, ae2_sum_family = sum_family,
                    ae2_product_family = product_family, ae2_name_node = name_node,
                    ae2_routing_path = routing_path, ae2_is_self_referential =
                      is_self_referential\<rparr>))"

definition TARIQ_LETTERS :: "(u64 \<times> u8) list" where
  "TARIQ_LETTERS = [(9, 0), (1, 0), (200, 0), (100, 2)]"

definition tariq_encoding :: "AbjadEncoding option" where
  "tariq_encoding = (case abjad_encode TARIQ_LETTERS of Some (Inr enc) \<Rightarrow> Some enc | _
      \<Rightarrow> None)"

definition letter_distance :: "LetterRecord \<Rightarrow> LetterRecord \<Rightarrow> u8" where
  "letter_distance a b =
     ring_distance (lr4_dodecagon_node a) (lr4_dodecagon_node b)"

definition is_triadic_attractor :: "AbjadEncoding \<Rightarrow> bool" where
  "is_triadic_attractor enc \<longleftrightarrow>
     (ae2_product_dr enc) = 9"

definition squared_sum_ratio :: "AbjadEncoding \<Rightarrow> u64 option" where
  "squared_sum_ratio enc =
     (if (ae2_name_node enc) = 0 then None
      else Some (SQUARED_SUM_K8 div (ucast (ae2_name_node enc) :: u64)))"

lemma route_letters_some:
  "\<forall>l\<in>set ls. lr4_dodecagon_node l < DODECAGON_NODES \<Longrightarrow> route_letters build_dodecagonal_mesh path ls \<noteq> None"
proof (induction "build_dodecagonal_mesh" path ls rule: route_letters.induct)
  case (1 path a b rest)
  then show ?case using route_some [of "lr4_dodecagon_node a" "lr4_dodecagon_node b"] by auto
qed simp_all

lemma letter_node: "lr4_dodecagon_node (letter_record l) < DODECAGON_NODES"
proof -
  have "unat (fst l mod 12) < 12" by (simp add: unat_mod)
  then have "unat (ucast (fst l mod 12) :: u8) < 12"
    by (simp add: unsigned_ucast_eq take_bit_eq_mod le_less_trans [OF mod_less_eq_dividend])
  then show ?thesis
    by (cases l) (simp add: letter_record_def Let_def DODECAGON_NODES_def word_less_nat_alt)
qed

lemma encode_fold:
  "fst (foldl (\<lambda>(records, abjad_sum, abjad_product) l.
     (records @ [letter_record l], sat_add abjad_sum (fst l), sat_mul abjad_product (fst l))) (rs, s, p) letters)
   = rs @ map letter_record letters"
  by (induction letters arbitrary: rs s p) auto

lemma abjad_encode_returns: "abjad_encode letters \<noteq> None"
proof -
  obtain rs s p where f: "foldl (\<lambda>(records, abjad_sum, abjad_product) l.
     (records @ [letter_record l], sat_add abjad_sum (fst l), sat_mul abjad_product (fst l))) ([], 0, 1) letters = (rs, s, p)"
    by (rule prod_cases3)
  then have "rs = map letter_record letters" using encode_fold [of "[]" 0 1 letters] by simp
  then have "route_letters build_dodecagonal_mesh [] rs \<noteq> None" by (intro route_letters_some) (simp add: letter_node)
  then have "(if length rs = 1 then Some [lr4_dodecagon_node (rs ! 0)]
      else route_letters build_dodecagonal_mesh [] rs) \<noteq> None"
    by (simp split: if_split)
  then obtain path where p: "(if length rs = 1 then Some [lr4_dodecagon_node (rs ! 0)]
      else route_letters build_dodecagonal_mesh [] rs) = Some path"
    unfolding not_None_eq by (rule exE)
  show ?thesis unfolding abjad_encode_def f Let_def prod.case p option.case by simp
qed

section \<open>Gate 217: Ring Composition Verifier\<close>

text \<open>
  \<open>ring_composition.rs\<close>. A-B-C...C'-B'-A' chiastic (ring) structure verified in Quranic
  text by Michel Cuypers (Bloomsbury Academic 2015, peer-reviewed in Journal of Qur'anic Studies).
\<close>

datatype RingVerdict = Valid | SymmetryBroken | TooShort

fun RingVerdict_as_u8 :: "RingVerdict \<Rightarrow> u8" where
  "RingVerdict_as_u8 RingVerdict.Valid = 0"
| "RingVerdict_as_u8 RingVerdict.SymmetryBroken = 1"
| "RingVerdict_as_u8 RingVerdict.TooShort = 2"

lemma RingVerdict_as_u8_inj [simp]: "RingVerdict_as_u8 x = RingVerdict_as_u8 y \<longleftrightarrow> x =
    y"
  by (cases x; cases y) auto

record RingCompositionResult =
  rcr_verdict :: RingVerdict
  rcr_center_index :: nat
  rcr_depth :: nat
  rcr_first_broken_pair :: "(nat \<times> nat) option"

definition verify_ring :: "hash list \<Rightarrow> RingCompositionResult" where
  "verify_ring seq =
     (let n = length seq in
      if n < 3 then \<lparr>rcr_verdict = TooShort, rcr_center_index = 0, rcr_depth = 0,
           rcr_first_broken_pair = None\<rparr>
      else
        let center_index = (n - 1) div 2; depth = n div 2
        in case find (\<lambda>i. seq ! i \<noteq> seq ! (n - 1 - i)) [0..<depth] of
             Some i \<Rightarrow> \<lparr>rcr_verdict = SymmetryBroken, rcr_center_index = center_index,
               rcr_depth = depth, rcr_first_broken_pair = Some (i, n - 1 - i)\<rparr>
           | None \<Rightarrow> \<lparr>rcr_verdict = Valid, rcr_center_index = center_index,
               rcr_depth = depth, rcr_first_broken_pair = None\<rparr>)"

definition build_ring :: "hash list \<Rightarrow> hash option \<Rightarrow> hash list" where
  "build_ring half center =
     (let result = half;
          result = (case center of Some c \<Rightarrow> result @ [c] | None \<Rightarrow> result)
      in foldl (\<lambda>result i. result @ [half ! i]) result (rev [0..<length half]))"

lemma rev_at: "i < length xs \<Longrightarrow> rev xs ! i = xs ! (length xs - 1 - i)"
  by (simp add: rev_nth)

lemma mirrored_half:
  assumes h: "\<forall>i<length xs div 2. xs ! i = xs ! (length xs - 1 - i)" and i: "i < length xs"
  shows "xs ! (length xs - 1 - i) = xs ! i"
proof (cases "i < length xs div 2")
  case True
  then show ?thesis using h by (metis (no_types))
next
  case False
  define k where "k = length xs - 1 - i"
  have k: "i = length xs - 1 - k" "k < length xs" using i unfolding k_def by arith+
  show ?thesis
  proof (cases "k < length xs div 2")
    case True
    then have "xs ! k = xs ! (length xs - 1 - k)" using h by blast
    then show ?thesis unfolding k_def [symmetric] k(1) [symmetric] .
  next
    case F: False
    then have "k = i" using False k by arith
    then show ?thesis unfolding k_def by (rule arg_cong)
  qed
qed

lemma palindrome_half: "rev xs = xs \<longleftrightarrow> (\<forall>i<length xs div 2. xs ! i = xs ! (length xs - 1 - i))"
proof
  assume r: "rev xs = xs"
  show "\<forall>i<length xs div 2. xs ! i = xs ! (length xs - 1 - i)"
  proof (intro allI impI)
    fix i assume "i < length xs div 2"
    then have "rev xs ! i = xs ! (length xs - 1 - i)" by (intro rev_at) arith
    then show "xs ! i = xs ! (length xs - 1 - i)" by (simp only: r)
  qed
next
  assume h: "\<forall>i<length xs div 2. xs ! i = xs ! (length xs - 1 - i)"
  show "rev xs = xs"
  proof (rule nth_equalityI)
    fix i assume "i < length (rev xs)"
    then have i: "i < length xs" by simp
    show "rev xs ! i = xs ! i" unfolding rev_at [OF i] by (rule mirrored_half [OF h i])
  qed simp
qed

lemma find_upt_Some: "find P [0..<n] = Some i \<longleftrightarrow> i < n \<and> P i \<and> (\<forall>k<i. \<not> P k)"
  by (auto simp: find_Some_iff intro: exI [of _ i])

lemma find_upt_None: "find P [0..<n] = None \<longleftrightarrow> (\<forall>k<n. \<not> P k)"
  by (auto simp: find_None_iff)

lemma ring_verdict_cases:
  "case rcr_verdict (verify_ring seq) of
     RingVerdict.TooShort \<Rightarrow> length seq < 3
   | RingVerdict.Valid \<Rightarrow> 3 \<le> length seq \<and> rev seq = seq \<and> rcr_first_broken_pair (verify_ring seq) = None
   | RingVerdict.SymmetryBroken \<Rightarrow> 3 \<le> length seq \<and> rev seq \<noteq> seq \<and>
       (\<exists>i j. rcr_first_broken_pair (verify_ring seq) = Some (i, j) \<and> i < j \<and> i + j + 1 = length seq \<and>
          seq ! i \<noteq> seq ! j \<and> take i seq = take i (rev seq))"
proof (cases "length seq < 3")
  case True
  then show ?thesis by (simp add: verify_ring_def)
next
  case False
  show ?thesis
  proof (cases "find (\<lambda>i. seq ! i \<noteq> seq ! (length seq - 1 - i)) [0..<length seq div 2]")
    case None
    then have "rev seq = seq" by (simp add: palindrome_half find_upt_None)
    then show ?thesis using False None by (simp add: verify_ring_def Let_def)
  next
    case (Some i)
    note S = Some [unfolded find_upt_Some]
    then have "rev seq \<noteq> seq" unfolding palindrome_half by blast
    moreover have "take i seq = take i (rev seq)"
      using S by (intro nth_equalityI) (simp_all add: rev_at)
    moreover have "i < length seq - 1 - i" "i + (length seq - 1 - i) + 1 = length seq" using S by arith+
    ultimately show ?thesis using False Some S by (simp add: verify_ring_def Let_def)
  qed
qed

lemma build_ring_eq: "build_ring half center = half @ (case center of None \<Rightarrow> [] | Some c \<Rightarrow> [c]) @ rev half"
proof -
  have f: "foldl (\<lambda>r i. r @ [half ! i]) acc is = acc @ map ((!) half) is" for acc "is"
    by (induction "is" arbitrary: acc) auto
  have "map ((!) half) (rev [0..<length half]) = rev half" by (simp add: rev_map [symmetric] map_nth)
  then show ?thesis by (simp add: build_ring_def f split: option.split)
qed

lemma built_ring_valid:
  "rcr_verdict (verify_ring (build_ring half center)) =
     (if half = [] \<or> length half = 1 \<and> center = None then RingVerdict.TooShort else RingVerdict.Valid)"
proof -
  have r: "rev (build_ring half center) = build_ring half center" by (simp add: build_ring_eq split: option.split)
  have l: "length (build_ring half center) = 2 * length half + (if center = None then 0 else 1)"
    by (simp add: build_ring_eq split: option.split)
  have "length (build_ring half center) < 3 \<longleftrightarrow> half = [] \<or> length half = 1 \<and> center = None"
    unfolding l by (cases half) auto
  then show ?thesis using ring_verdict_cases [of "build_ring half center"] r
    by (cases "rcr_verdict (verify_ring (build_ring half center))") auto
qed

section \<open>Gate 216: Tajweed Phonological DFA\<close>

text \<open>
  \<open>tajweed_dfa.rs\<close>. Tajweed is a Deterministic Finite Automaton for Arabic phoneme
  streams.
\<close>

definition TAJWEED_EMPIRICAL_SPAN_YEARS :: u64 where
  "TAJWEED_EMPIRICAL_SPAN_YEARS = 1400"

definition TAJWEED_EMPIRICAL_SPAN_DAYS :: u64 where
  "TAJWEED_EMPIRICAL_SPAN_DAYS = 511350"

definition TAJWEED_EMPIRICAL_SPAN_SECONDS :: u64 where
  "TAJWEED_EMPIRICAL_SPAN_SECONDS = 44180640000"

definition TAJWEED_MIN_RECITATIONS :: u64 where
  "TAJWEED_MIN_RECITATIONS = 2556750"

datatype Makhraj = AlJawf | AlHalq | AlLisan | AlShafatayn | AlKhaishoom

fun Makhraj_as_u8 :: "Makhraj \<Rightarrow> u8" where
  "Makhraj_as_u8 Makhraj.AlJawf = 0"
| "Makhraj_as_u8 Makhraj.AlHalq = 1"
| "Makhraj_as_u8 Makhraj.AlLisan = 2"
| "Makhraj_as_u8 Makhraj.AlShafatayn = 3"
| "Makhraj_as_u8 Makhraj.AlKhaishoom = 4"

lemma Makhraj_as_u8_inj [simp]: "Makhraj_as_u8 x = Makhraj_as_u8 y \<longleftrightarrow> x = y"
  by (cases x; cases y) auto

datatype PhonemeClass = NoonSakinah | TanweenFamily | IdghamGhunnah | IdghamNoGhunnah | Iqlab | Ikhfa |
    IdharHalqi | Other

fun PhonemeClass_as_u8 :: "PhonemeClass \<Rightarrow> u8" where
  "PhonemeClass_as_u8 PhonemeClass.NoonSakinah = 0"
| "PhonemeClass_as_u8 PhonemeClass.TanweenFamily = 1"
| "PhonemeClass_as_u8 PhonemeClass.IdghamGhunnah = 2"
| "PhonemeClass_as_u8 PhonemeClass.IdghamNoGhunnah = 3"
| "PhonemeClass_as_u8 PhonemeClass.Iqlab = 4"
| "PhonemeClass_as_u8 PhonemeClass.Ikhfa = 5"
| "PhonemeClass_as_u8 PhonemeClass.IdharHalqi = 6"
| "PhonemeClass_as_u8 PhonemeClass.Other = 7"

lemma PhonemeClass_as_u8_inj [simp]: "PhonemeClass_as_u8 x = PhonemeClass_as_u8 y \<longleftrightarrow>
    x = y"
  by (cases x; cases y) auto

datatype TajweedRule = IdghamWithGhunnah | IdghamWithoutGhunnah | Iqlab | Ikhfa | Idhar | NoRule

fun TajweedRule_as_u8 :: "TajweedRule \<Rightarrow> u8" where
  "TajweedRule_as_u8 TajweedRule.IdghamWithGhunnah = 0"
| "TajweedRule_as_u8 TajweedRule.IdghamWithoutGhunnah = 1"
| "TajweedRule_as_u8 TajweedRule.Iqlab = 2"
| "TajweedRule_as_u8 TajweedRule.Ikhfa = 3"
| "TajweedRule_as_u8 TajweedRule.Idhar = 4"
| "TajweedRule_as_u8 TajweedRule.NoRule = 5"

lemma TajweedRule_as_u8_inj [simp]: "TajweedRule_as_u8 x = TajweedRule_as_u8 y \<longleftrightarrow> x =
    y"
  by (cases x; cases y) auto

datatype TajweedError = TajweedError string

definition apply_tajweed :: "PhonemeClass \<Rightarrow> PhonemeClass \<Rightarrow> TajweedRule" where
  "apply_tajweed current next_v =
     (case current of
         PhonemeClass.NoonSakinah \<Rightarrow> (case next_v of
         PhonemeClass.IdghamGhunnah \<Rightarrow> TajweedRule.IdghamWithGhunnah
       | PhonemeClass.IdghamNoGhunnah \<Rightarrow> TajweedRule.IdghamWithoutGhunnah
       | PhonemeClass.Iqlab \<Rightarrow> TajweedRule.Iqlab
       | PhonemeClass.Ikhfa \<Rightarrow> TajweedRule.Ikhfa
       | PhonemeClass.IdharHalqi \<Rightarrow> TajweedRule.Idhar
       | _ \<Rightarrow> TajweedRule.NoRule)
       | PhonemeClass.TanweenFamily \<Rightarrow> (case next_v of
         PhonemeClass.IdghamGhunnah \<Rightarrow> TajweedRule.IdghamWithGhunnah
       | PhonemeClass.IdghamNoGhunnah \<Rightarrow> TajweedRule.IdghamWithoutGhunnah
       | PhonemeClass.Iqlab \<Rightarrow> TajweedRule.Iqlab
       | PhonemeClass.Ikhfa \<Rightarrow> TajweedRule.Ikhfa
       | PhonemeClass.IdharHalqi \<Rightarrow> TajweedRule.Idhar
       | _ \<Rightarrow> TajweedRule.NoRule)
       | _ \<Rightarrow> TajweedRule.NoRule)"

definition classify_codepoint :: "u32 \<Rightarrow> PhonemeClass" where
  "classify_codepoint cp =
     (if cp = 1606 then PhonemeClass.NoonSakinah else if cp = 1610 then PhonemeClass.IdghamGhunnah else
         if cp = 1605 then PhonemeClass.IdghamGhunnah else if cp = 1608 then PhonemeClass.IdghamGhunnah
         else if cp = 1604 then PhonemeClass.IdghamNoGhunnah else if cp = 1585 then
         PhonemeClass.IdghamNoGhunnah else if cp = 1576 then PhonemeClass.Iqlab else if cp = 1569 then
         PhonemeClass.IdharHalqi else if cp = 1607 then PhonemeClass.IdharHalqi else if cp = 1593 then
         PhonemeClass.IdharHalqi else if cp = 1581 then PhonemeClass.IdharHalqi else if cp = 1594 then
         PhonemeClass.IdharHalqi else if cp = 1582 then PhonemeClass.IdharHalqi else if cp = 1578 then
         PhonemeClass.Ikhfa else if cp = 1579 then PhonemeClass.Ikhfa else if cp = 1580 then
         PhonemeClass.Ikhfa else if cp = 1583 then PhonemeClass.Ikhfa else if cp = 1584 then
         PhonemeClass.Ikhfa else if cp = 1586 then PhonemeClass.Ikhfa else if cp = 1587 then
         PhonemeClass.Ikhfa else if cp = 1588 then PhonemeClass.Ikhfa else if cp = 1589 then
         PhonemeClass.Ikhfa else if cp = 1590 then PhonemeClass.Ikhfa else if cp = 1591 then
         PhonemeClass.Ikhfa else if cp = 1592 then PhonemeClass.Ikhfa else if cp = 1601 then
         PhonemeClass.Ikhfa else if cp = 1602 then PhonemeClass.Ikhfa else if cp = 1603 then
         PhonemeClass.Ikhfa else PhonemeClass.Other)"

definition makhraj_of :: "u32 \<Rightarrow> Makhraj option" where
  "makhraj_of cp =
     (if cp = 1575 \<or> cp = 1608 \<or> cp = 1610 then Some Makhraj.AlJawf else if cp = 1569 \<or> cp =
         1607 then Some Makhraj.AlHalq else if cp = 1593 \<or> cp = 1581 then Some Makhraj.AlHalq else
         if cp = 1594 \<or> cp = 1582 then Some Makhraj.AlHalq else if cp = 1602 \<or> cp = 1603 then
         Some Makhraj.AlLisan else if cp = 1580 \<or> cp = 1588 then Some Makhraj.AlLisan else if cp =
         1590 then Some Makhraj.AlLisan else if cp = 1604 then Some Makhraj.AlLisan else if cp = 1606
         then Some Makhraj.AlLisan else if cp = 1585 then Some Makhraj.AlLisan else if cp = 1578 \<or>
         cp = 1583 \<or> cp = 1591 then Some Makhraj.AlLisan else if cp = 1579 \<or> cp = 1584 \<or> cp
         = 1592 then Some Makhraj.AlLisan else if cp = 1589 \<or> cp = 1586 \<or> cp = 1587 then Some
         Makhraj.AlLisan else if cp = 1601 then Some Makhraj.AlShafatayn else if cp = 1576 \<or> cp =
         1605 then Some Makhraj.AlShafatayn else if cp = 1580 then None else None)"

definition process_stream :: "PhonemeClass list \<Rightarrow> TajweedError + (TajweedRule list)" where
  "process_stream phonemes =
     (if phonemes = [] then Inl (TajweedError ''[TAJWEED_REJECT] Empty phoneme stream'')
      else (let rules = [];
          rules = fold (\<lambda>i rules. (let current = phonemes ! i;
          next_v = (if (i + 1) < (length phonemes) then phonemes ! (i + 1) else PhonemeClass.Other);
          rules = rules @ [apply_tajweed current next_v]
      in rules)) [0..<length phonemes] rules
      in Inr rules))"

end
