(* ===== verification/Mesh_Control.thy ===== *)
theory Mesh_Control
  imports Epoch_Log
begin

text \<open>
  How a node controls itself: the discrete-event scheduler that falls back from local inference to the
  verification in the cloud and to rollback, the backpressure by the length of its queues, and the
  estimate of how far gossip spreads.
\<close>

section \<open>DEVS- Scheduler - Discrete-Event State Machine\<close>

text \<open>
  \<open>devs_scheduler.rs\<close>. State transitions: LocalInference -> Degraded (on Lyapunov
  violation or H_d > ) Degraded -> CloudVerify (on persistent instability) CloudVerify ->
  LocalInference (on verified stable state) Any -> Rollback (on budget cap or critical H_d)
\<close>

datatype DEVSState = LocalInference | Degraded | CloudVerify | Rollback

fun DEVSState_as_u8 :: "DEVSState \<Rightarrow> u8" where
  "DEVSState_as_u8 DEVSState.LocalInference = 0"
| "DEVSState_as_u8 DEVSState.Degraded = 1"
| "DEVSState_as_u8 DEVSState.CloudVerify = 2"
| "DEVSState_as_u8 DEVSState.Rollback = 3"

lemma DEVSState_as_u8_inj [simp]: "DEVSState_as_u8 x = DEVSState_as_u8 y \<longleftrightarrow> x = y"
  by (cases x; cases y) auto

record DEVSTransition =
  devst_from :: DEVSState
  devst_to :: DEVSState
  devst_reason :: string
  devst_step :: u64

record DEVSScheduler =
  devss_state :: DEVSState
  devss_step :: u64
  devss_degraded_streak :: u32
  devss_degraded_threshold :: u32
  devss_rollback_buffer :: "(u8 list) list"
  devss_transitions :: "DEVSTransition list"

definition DEVSScheduler_new :: "u32 \<Rightarrow> DEVSScheduler" where
  "DEVSScheduler_new degraded_threshold =
     \<lparr>devss_state = DEVSState.LocalInference, devss_step = 0, devss_degraded_streak = 0,
         devss_degraded_threshold = degraded_threshold, devss_rollback_buffer = [],
         devss_transitions = []\<rparr>"

definition DEVSScheduler_transition ::
  "DEVSState \<Rightarrow> string \<Rightarrow> DEVSScheduler \<Rightarrow> DEVSScheduler" where
  "DEVSScheduler_transition to reason self =
     (if (devss_state self) \<noteq> to then (let self = self\<lparr>devss_transitions :=
         (devss_transitions self) @ [\<lparr>devst_from = devss_state self, devst_to = to,
         devst_reason = reason, devst_step = devss_step self\<rparr>]\<rparr>;
          self = self\<lparr>devss_state := to\<rparr>
      in self)
      else self)"

definition DEVSScheduler_tick ::
  "bool \<Rightarrow> bool \<Rightarrow> bool \<Rightarrow> bool \<Rightarrow> DEVSScheduler
      \<Rightarrow> DEVSScheduler" where
  "DEVSScheduler_tick lyapunov_stable h_d_rollback cloud_verified budget_exhausted self =
     (let self = self\<lparr>devss_step := (devss_step self) + 1\<rparr>
      in if budget_exhausted \<or> (h_d_rollback \<and> (devss_state self) = DEVSState.CloudVerify) then
          (let self = DEVSScheduler_transition DEVSState.Rollback ''budget_exhausted_or_persistent_h_d''
          self
      in self)
      else case devss_state self of
         DEVSState.LocalInference \<Rightarrow> if \<not> lyapunov_stable \<or> h_d_rollback then (let
           self = self\<lparr>devss_degraded_streak := (devss_degraded_streak self) + 1\<rparr>;
          self = DEVSScheduler_transition DEVSState.Degraded ''lyapunov_violation_or_h_d'' self
      in self)
      else (let self = self\<lparr>devss_degraded_streak := 0\<rparr>
      in self)
       | DEVSState.Degraded \<Rightarrow> if lyapunov_stable \<and> \<not> h_d_rollback then (let self =
           self\<lparr>devss_degraded_streak := 0\<rparr>;
          self = DEVSScheduler_transition DEVSState.LocalInference ''stability_restored'' self
      in self)
      else (let self = self\<lparr>devss_degraded_streak := (devss_degraded_streak self) + 1\<rparr>
      in if (devss_degraded_streak self) \<ge> (devss_degraded_threshold self) then (let self =
          DEVSScheduler_transition DEVSState.CloudVerify ''persistent_degradation'' self
      in self)
      else self)
       | DEVSState.CloudVerify \<Rightarrow> if cloud_verified then (let self =
           self\<lparr>devss_degraded_streak := 0\<rparr>;
          self = DEVSScheduler_transition DEVSState.LocalInference ''cloud_verified_stable'' self
      in self)
      else self
       | DEVSState.Rollback \<Rightarrow> self)"

definition DEVSScheduler_needs_cloud_verification :: "DEVSScheduler \<Rightarrow> bool" where
  "DEVSScheduler_needs_cloud_verification self \<longleftrightarrow>
     (devss_state self) = DEVSState.CloudVerify"

lemma devs_rollback_iff:
  "devss_state (DEVSScheduler_tick lyapunov_stable h_d verified exhausted s) = DEVSState.Rollback \<longleftrightarrow>
   devss_state s = DEVSState.Rollback \<or> exhausted \<or> h_d \<and> devss_state s = DEVSState.CloudVerify"
  by (cases "devss_state s") (simp_all add: DEVSScheduler_tick_def DEVSScheduler_transition_def Let_def)

section \<open>Gossip Backpressure Controller: downstream-load-aware injection throttling (Gate 294)\<close>

text \<open>
  \<open>backpressure_controller.rs\<close>. When downstream peers are overloaded (queue depth exceeds
  threshold), upstream message injection is throttled by reducing an injection allowance. Each tick
  the allowance is partially restored (leaky-bucket recovery). A BackpressureEvent is emitted whenever
  the controller transitions between pressure states.
\<close>

definition LOW_WATER_MARK :: u32 where
  "LOW_WATER_MARK = 100"

definition HIGH_WATER_MARK :: u32 where
  "HIGH_WATER_MARK = 500"

definition RECOVERY_PER_TICK :: u32 where
  "RECOVERY_PER_TICK = 20"

definition MAX_ALLOWANCE :: u32 where
  "MAX_ALLOWANCE = 200"

datatype PressureLevel = Normal | Moderate | Severe

fun PressureLevel_as_u8 :: "PressureLevel \<Rightarrow> u8" where
  "PressureLevel_as_u8 PressureLevel.Normal = 0"
| "PressureLevel_as_u8 PressureLevel.Moderate = 1"
| "PressureLevel_as_u8 PressureLevel.Severe = 2"

lemma PressureLevel_as_u8_inj [simp]: "PressureLevel_as_u8 x = PressureLevel_as_u8 y
    \<longleftrightarrow> x = y"
  by (cases x; cases y) auto

definition PressureLevel_level_byte :: "PressureLevel \<Rightarrow> u8" where
  "PressureLevel_level_byte self =
     PressureLevel_as_u8 self"

definition PressureLevel_from_queue_depth :: "u32 \<Rightarrow> PressureLevel" where
  "PressureLevel_from_queue_depth depth =
     (if depth > HIGH_WATER_MARK then PressureLevel.Severe
      else if depth > LOW_WATER_MARK then PressureLevel.Moderate
      else PressureLevel.Normal)"

definition PressureLevel_allowance_fraction :: "PressureLevel \<Rightarrow> u32 \<times> u32" where
  "PressureLevel_allowance_fraction self =
     (case self of
         PressureLevel.Normal \<Rightarrow> (1, 1)
       | PressureLevel.Moderate \<Rightarrow> (1, 2)
       | PressureLevel.Severe \<Rightarrow> (1, 10))"

record BackpressureEvent =
  be4_peer_id :: u32
  be4_epoch :: u64
  be4_queue_depth :: u32
  be4_level :: PressureLevel
  be4_allowance :: u32
  be4_event_hash :: hash
  be4_prev_hash :: hash

definition backpressure_controller_backpressure_bytes ::
  "u32 \<Rightarrow> u64 \<Rightarrow> u32 \<Rightarrow> PressureLevel \<Rightarrow> u32 \<Rightarrow>
      hash \<Rightarrow> bytes" where
  "backpressure_controller_backpressure_bytes peer_id epoch queue_depth level allowance prev =
     hash_bytes prev @ be4 peer_id @ be8 epoch @ be4 queue_depth @ [PressureLevel_level_byte level] @
         be4 allowance"

definition backpressure_controller_compute_backpressure_hash ::
  "sha \<Rightarrow> u32 \<Rightarrow> u64 \<Rightarrow> u32 \<Rightarrow> PressureLevel \<Rightarrow>
      u32 \<Rightarrow> hash \<Rightarrow> hash" where
  "backpressure_controller_compute_backpressure_hash sha peer_id epoch queue_depth level allowance prev
      =
     sha (backpressure_controller_backpressure_bytes peer_id epoch queue_depth level allowance prev)"

definition build_backpressure_event ::
  "sha \<Rightarrow> u32 \<Rightarrow> u64 \<Rightarrow> u32 \<Rightarrow> PressureLevel \<Rightarrow>
      u32 \<Rightarrow> hash \<Rightarrow> BackpressureEvent" where
  "build_backpressure_event sha peer_id epoch queue_depth level allowance prev_hash =
     (let event_hash = backpressure_controller_compute_backpressure_hash sha peer_id epoch queue_depth
         level allowance prev_hash
      in \<lparr>be4_peer_id = peer_id, be4_epoch = epoch, be4_queue_depth = queue_depth,
          be4_level = level, be4_allowance = allowance, be4_event_hash = event_hash,
          be4_prev_hash = prev_hash\<rparr>)"

record BackpressureLog =
  bl6_peer_id :: u32
  bl6_events :: "BackpressureEvent list"

datatype BackpressureError = StaleEpoch

fun BackpressureError_as_u8 :: "BackpressureError \<Rightarrow> u8" where
  "BackpressureError_as_u8 BackpressureError.StaleEpoch = 0"

lemma BackpressureError_as_u8_inj [simp]: "BackpressureError_as_u8 x = BackpressureError_as_u8 y
    \<longleftrightarrow> x = y"
  by (cases x; cases y) auto

definition BackpressureLog_new :: "u32 \<Rightarrow> BackpressureLog" where
  "BackpressureLog_new peer_id =
     \<lparr>bl6_peer_id = peer_id, bl6_events = []\<rparr>"

definition BackpressureLog_last_hash :: "BackpressureLog \<Rightarrow> hash" where
  "BackpressureLog_last_hash self =
     last_hash be4_event_hash (bl6_events self)"

definition BackpressureLog_record ::
  "sha \<Rightarrow> u64 \<Rightarrow> u32 \<Rightarrow> PressureLevel \<Rightarrow> u32 \<Rightarrow>
      BackpressureLog \<Rightarrow> (BackpressureError + BackpressureEvent) \<times> BackpressureLog"
      where
  "BackpressureLog_record sha epoch queue_depth level allowance self =
     (if bl6_events self \<noteq> [] \<and> epoch < (be4_epoch (last (bl6_events self))) then (Inl
         BackpressureError.StaleEpoch, self)
      else (let prev = BackpressureLog_last_hash self;
          e = build_backpressure_event sha (bl6_peer_id self) epoch queue_depth level allowance prev;
          self = self\<lparr>bl6_events := (bl6_events self) @ [e]\<rparr>
      in (Inr (last (bl6_events self)), self)))"

definition BackpressureLog_severe_count :: "BackpressureLog \<Rightarrow> nat" where
  "BackpressureLog_severe_count self =
     length (filter (\<lambda>e. (be4_level e) = PressureLevel.Severe) (bl6_events self))"

definition BackpressureLog_moderate_count :: "BackpressureLog \<Rightarrow> nat" where
  "BackpressureLog_moderate_count self =
     length (filter (\<lambda>e. (be4_level e) = PressureLevel.Moderate) (bl6_events self))"

definition BackpressureEvent_bytes_of :: "BackpressureEvent \<Rightarrow> bytes" where
  "BackpressureEvent_bytes_of e =
     backpressure_controller_backpressure_bytes (be4_peer_id e) (be4_epoch e) (be4_queue_depth e)
         (be4_level e) (be4_allowance e) (be4_prev_hash e)"

definition BackpressureLog_verify_chain ::
  "sha \<Rightarrow> BackpressureLog \<Rightarrow> bool \<times> nat option" where
  "BackpressureLog_verify_chain sha self =
     verify_from be4_prev_hash be4_event_hash (\<lambda>r. sha (BackpressureEvent_bytes_of r)) 0 genesis
         (bl6_events self)"

record PeerPressureState =
  pps_log :: BackpressureLog
  pps_allowance :: u32

record BackpressureController =
  bc_peers :: "(u32, PeerPressureState) btmap"

definition BackpressureController_new :: "BackpressureController" where
  "BackpressureController_new =
     \<lparr>bc_peers = bt_empty\<rparr>"

definition BackpressureController_peer_count :: "BackpressureController \<Rightarrow> nat" where
  "BackpressureController_peer_count self =
     bt_len (bc_peers self)"

definition BackpressureController_update ::
  "sha \<Rightarrow> u32 \<Rightarrow> u64 \<Rightarrow> u32 \<Rightarrow> BackpressureController
      \<Rightarrow> (PressureLevel \<times> u32) \<times> BackpressureController" where
  "BackpressureController_update sha peer_id epoch queue_depth self =
     (let level = PressureLevel_from_queue_depth queue_depth;
          (num, den) = PressureLevel_allowance_fraction level;
          granted = (MAX_ALLOWANCE * num) div den;
          state = bt_get_or (\<lparr>pps_log = BackpressureLog_new peer_id,
            pps_allowance = MAX_ALLOWANCE\<rparr>) (bc_peers self) peer_id;
          state = state\<lparr>pps_allowance := granted\<rparr>;
          (_, log') = BackpressureLog_record sha epoch queue_depth level granted (pps_log state);
          state = state\<lparr>pps_log := log'\<rparr>;
          self = self\<lparr>bc_peers := bt_insert peer_id state (bc_peers self)\<rparr>
      in ((level, granted), self))"

definition BackpressureController_tick_recovery ::
  "u32 \<Rightarrow> BackpressureController \<Rightarrow> BackpressureController" where
  "BackpressureController_tick_recovery peer_id self =
     (case bt_get (bc_peers self) peer_id of Some state \<Rightarrow> (let state =
         state\<lparr>pps_allowance := min (sat_add (pps_allowance state) RECOVERY_PER_TICK)
         MAX_ALLOWANCE\<rparr>;
          self = self\<lparr>bc_peers := bt_insert peer_id state (bc_peers self)\<rparr>
      in self) | None \<Rightarrow> self)"

definition BackpressureController_current_allowance ::
  "u32 \<Rightarrow> BackpressureController \<Rightarrow> u32 option" where
  "BackpressureController_current_allowance peer_id self =
     map_option pps_allowance (bt_get (bc_peers self) peer_id)"

definition BackpressureController_get_log ::
  "u32 \<Rightarrow> BackpressureController \<Rightarrow> BackpressureLog option" where
  "BackpressureController_get_log peer_id self =
     map_option pps_log (bt_get (bc_peers self) peer_id)"

definition BackpressureController_peers_under_pressure ::
  "BackpressureController \<Rightarrow> u32 list" where
  "BackpressureController_peers_under_pressure self =
     map (\<lambda>(id_v, _). id_v) (filter (\<lambda>(_, s). unwrap_or False (map_option (\<lambda>e.
         (be4_level e) \<noteq> PressureLevel.Normal) (last_opt (bl6_events (pps_log s))))) (entries
         (bc_peers self)))"

lemma backpressure_controller_backpressure_bytes_inj:
  "backpressure_controller_backpressure_bytes peer_id epoch queue_depth level allowance prev =
      backpressure_controller_backpressure_bytes peer_id' epoch' queue_depth' level' allowance' prev'
      \<longleftrightarrow>
   prev = prev' \<and> peer_id = peer_id' \<and> epoch = epoch' \<and> queue_depth = queue_depth' \<and>
       (PressureLevel_level_byte level) = (PressureLevel_level_byte level') \<and> allowance =
       allowance'"
  by (auto simp: backpressure_controller_backpressure_bytes_def enc_simps)

definition BackpressureEvent_committed :: "BackpressureEvent \<Rightarrow> u32 \<times> u64 \<times> u32
    \<times> u8 \<times> u32" where
  "BackpressureEvent_committed e =
     (be4_peer_id e, be4_epoch e, be4_queue_depth e, PressureLevel_level_byte (be4_level e),
         be4_allowance e)"

interpretation backpressure_controller: hash_log BackpressureEvent_bytes_of be4_prev_hash be4_event_hash
    BackpressureEvent_committed
  by unfold_locales (auto simp: BackpressureEvent_bytes_of_def BackpressureEvent_committed_def
      backpressure_controller_backpressure_bytes_inj)

lemma backpressure_controller_verify_iff: "BackpressureLog_verify_chain sha l = (True,
    None) \<longleftrightarrow> backpressure_controller.ok sha (bl6_events l)"
  by (simp add: BackpressureLog_verify_chain_def verify_from_iff)

lemma build_backpressure_event_linked:
  "be4_prev_hash (build_backpressure_event sha peer_id epoch queue_depth level allowance prev_hash) =
      prev_hash"
  "be4_event_hash (build_backpressure_event sha peer_id epoch queue_depth level allowance prev_hash) =
      sha (BackpressureEvent_bytes_of (build_backpressure_event sha peer_id epoch queue_depth level
      allowance prev_hash))"
  by (simp_all add: build_backpressure_event_def backpressure_controller_compute_backpressure_hash_def
      BackpressureEvent_bytes_of_def Let_def split_def)

lemma backpressure_log_record_ok: "backpressure_controller.ok sha (bl6_events l) \<Longrightarrow>
    backpressure_controller.ok sha (bl6_events (snd (BackpressureLog_record sha epoch queue_depth level
    allowance l)))"
  by (simp add: Let_def split_def BackpressureLog_record_def BackpressureLog_last_hash_def
      build_backpressure_event_linked split: option.split sum.split)

section \<open>Spread Estimator: gossip message propagation reach estimator (Gate 272)\<close>

text \<open>
  \<open>spread_estimator.rs\<close>. Estimates how many hops and nodes a gossip message will reach
  given the current routing table state and gossip fanout. Uses purely integer arithmetic.
\<close>

record SpreadModel =
  sm2_fanout :: u8
  sm2_max_ttl :: u8
  sm2_total_nodes :: nat

definition SpreadModel_new :: "u8 \<Rightarrow> u8 \<Rightarrow> nat \<Rightarrow> SpreadModel" where
  "SpreadModel_new fanout max_ttl total_nodes =
     \<lparr>sm2_fanout = fanout, sm2_max_ttl = max_ttl, sm2_total_nodes = total_nodes\<rparr>"

definition USIZE_MAX :: nat where
  "USIZE_MAX = 2 ^ 64 - 1"

fun reach_loop :: "nat \<Rightarrow> nat \<Rightarrow> nat \<Rightarrow> nat \<Rightarrow> nat
    \<Rightarrow> nat" where
  "reach_loop fanout total_nodes 0 layer reach = min reach total_nodes"
| "reach_loop fanout total_nodes (Suc ttl) layer reach =
     (let layer = min (layer * fanout) USIZE_MAX; reach = min (reach + layer) USIZE_MAX
      in if reach \<ge> total_nodes then total_nodes else reach_loop fanout total_nodes ttl layer
          reach)"

definition estimate_reach :: "u8 \<Rightarrow> u8 \<Rightarrow> nat \<Rightarrow> nat" where
  "estimate_reach fanout max_ttl total_nodes =
     (if total_nodes = 0 \<or> fanout = 0 then 0
      else if fanout = 1 then min (unat max_ttl + 1) total_nodes
      else reach_loop (unat fanout) total_nodes (unat max_ttl) 1 1)"

fun hops_loop :: "nat \<Rightarrow> nat \<Rightarrow> u8 \<Rightarrow> nat list \<Rightarrow> nat
    \<Rightarrow> nat \<Rightarrow> u8 option" where
  "hops_loop fanout quorum_needed max_ttl [] layer reach = (if reach \<ge> quorum_needed then Some
      max_ttl else None)"
| "hops_loop fanout quorum_needed max_ttl (hop # hops) layer reach =
     (if reach \<ge> quorum_needed then Some (of_nat hop)
      else let layer = min (layer * fanout) USIZE_MAX; reach = min (reach + layer) USIZE_MAX
        in if reach \<ge> quorum_needed then Some (of_nat hop + 1)
           else hops_loop fanout quorum_needed max_ttl hops layer reach)"

definition hops_to_quorum :: "u8 \<Rightarrow> u8 \<Rightarrow> nat \<Rightarrow> u8 option" where
  "hops_to_quorum fanout max_ttl total_nodes =
     (if total_nodes = 0 \<or> fanout = 0 then None
      else let quorum_needed = usize_add (usize_mul total_nodes 618034) 999999 div 1000000
        in hops_loop (unat fanout) quorum_needed max_ttl [0..<unat max_ttl] 1 1)"

record SpreadEstimate =
  se3_source_node :: u32
  se3_fanout :: u8
  se3_max_ttl :: u8
  se3_total_nodes :: nat
  se3_estimated_reach :: nat
  se3_reach_pct :: u8
  se3_hops_to_quorum :: "u8 option"
  se3_estimate_hash :: hash
  se3_prev_hash :: hash

definition estimate_bytes ::
  "u32 \<Rightarrow> u8 \<Rightarrow> u8 \<Rightarrow> nat \<Rightarrow> hash \<Rightarrow> bytes" where
  "estimate_bytes source fanout max_ttl total_nodes prev =
     hash_bytes prev @ be4 source @ [fanout] @ [max_ttl] @ be8 (of_nat total_nodes :: u64)"

definition compute_estimate_hash ::
  "sha \<Rightarrow> u32 \<Rightarrow> u8 \<Rightarrow> u8 \<Rightarrow> nat \<Rightarrow> hash
      \<Rightarrow> hash" where
  "compute_estimate_hash sha source fanout max_ttl total_nodes prev =
     sha (estimate_bytes source fanout max_ttl total_nodes prev)"

definition build_estimate ::
  "sha \<Rightarrow> u32 \<Rightarrow> SpreadModel \<Rightarrow> hash \<Rightarrow> SpreadEstimate"
      where
  "build_estimate sha source_node model prev_hash =
     (let estimated_reach = estimate_reach (sm2_fanout model) (sm2_max_ttl model) (sm2_total_nodes
         model);
          reach_pct = (if (sm2_total_nodes model) = 0 then 100 else (of_nat (min ((usize_mul
            estimated_reach 100) div (sm2_total_nodes model)) 100) :: u8));
          hops = hops_to_quorum (sm2_fanout model) (sm2_max_ttl model) (sm2_total_nodes model);
          estimate_hash = compute_estimate_hash sha source_node (sm2_fanout model) (sm2_max_ttl model)
            (sm2_total_nodes model) prev_hash
      in \<lparr>se3_source_node = source_node, se3_fanout = sm2_fanout model,
          se3_max_ttl = sm2_max_ttl model, se3_total_nodes = sm2_total_nodes model,
          se3_estimated_reach = estimated_reach, se3_reach_pct = reach_pct, se3_hops_to_quorum = hops,
          se3_estimate_hash = estimate_hash, se3_prev_hash = prev_hash\<rparr>)"

definition SpreadEstimate_quorum_reachable :: "SpreadEstimate \<Rightarrow> bool" where
  "SpreadEstimate_quorum_reachable self \<longleftrightarrow>
     (se3_hops_to_quorum self) \<noteq> None"

record EstimateLog =
  el_estimates :: "SpreadEstimate list"

datatype EstimateError = EmptyLog

fun EstimateError_as_u8 :: "EstimateError \<Rightarrow> u8" where
  "EstimateError_as_u8 EstimateError.EmptyLog = 0"

lemma EstimateError_as_u8_inj [simp]: "EstimateError_as_u8 x = EstimateError_as_u8 y
    \<longleftrightarrow> x = y"
  by (cases x; cases y) auto

definition EstimateLog_new :: "EstimateLog" where
  "EstimateLog_new =
     \<lparr>el_estimates = []\<rparr>"

definition EstimateLog_latest :: "EstimateLog \<Rightarrow> SpreadEstimate option" where
  "EstimateLog_latest self =
     last_opt (el_estimates self)"

definition EstimateLog_last_hash :: "EstimateLog \<Rightarrow> hash" where
  "EstimateLog_last_hash self =
     last_hash se3_estimate_hash (el_estimates self)"

definition EstimateLog_record ::
  "sha \<Rightarrow> u32 \<Rightarrow> SpreadModel \<Rightarrow> EstimateLog \<Rightarrow>
      SpreadEstimate \<times> EstimateLog" where
  "EstimateLog_record sha source_node model self =
     (let prev_hash = EstimateLog_last_hash self;
          est = build_estimate sha source_node model prev_hash;
          self = self\<lparr>el_estimates := (el_estimates self) @ [est]\<rparr>
      in (last (el_estimates self), self))"

definition EstimateLog_max_reach_pct :: "EstimateLog \<Rightarrow> u8" where
  "EstimateLog_max_reach_pct self =
     unwrap_or 0 (list_max (map se3_reach_pct (el_estimates self)))"

definition EstimateLog_quorum_reachable_count :: "EstimateLog \<Rightarrow> nat" where
  "EstimateLog_quorum_reachable_count self =
     length (filter SpreadEstimate_quorum_reachable (el_estimates self))"

definition SpreadEstimate_bytes_of :: "SpreadEstimate \<Rightarrow> bytes" where
  "SpreadEstimate_bytes_of est =
     estimate_bytes (se3_source_node est) (se3_fanout est) (se3_max_ttl est) (se3_total_nodes est)
         (se3_prev_hash est)"

definition EstimateLog_verify_chain ::
  "sha \<Rightarrow> EstimateLog \<Rightarrow> bool \<times> nat option" where
  "EstimateLog_verify_chain sha self =
     verify_from se3_prev_hash se3_estimate_hash (\<lambda>r. sha (SpreadEstimate_bytes_of r)) 0 genesis
         (el_estimates self)"

lemma estimate_bytes_inj:
  "estimate_bytes source fanout max_ttl total_nodes prev = estimate_bytes source' fanout' max_ttl'
      total_nodes' prev' \<longleftrightarrow>
   prev = prev' \<and> source = source' \<and> fanout = fanout' \<and> max_ttl = max_ttl' \<and> (of_nat
       total_nodes :: u64) = (of_nat total_nodes' :: u64)"
  by (auto simp: estimate_bytes_def enc_simps)

definition SpreadEstimate_committed :: "SpreadEstimate \<Rightarrow> u32 \<times> u8 \<times> u8
    \<times> u64" where
  "SpreadEstimate_committed est =
     (se3_source_node est, se3_fanout est, se3_max_ttl est, of_nat (se3_total_nodes est) :: u64)"

interpretation spread_estimator: hash_log SpreadEstimate_bytes_of se3_prev_hash se3_estimate_hash
    SpreadEstimate_committed
  by unfold_locales (auto simp: SpreadEstimate_bytes_of_def SpreadEstimate_committed_def
      estimate_bytes_inj)

lemma spread_estimator_verify_iff: "EstimateLog_verify_chain sha l = (True,
    None) \<longleftrightarrow> spread_estimator.ok sha (el_estimates l)"
  by (simp add: EstimateLog_verify_chain_def verify_from_iff)

lemma build_estimate_linked:
  "se3_prev_hash (build_estimate sha source_node model prev_hash) = prev_hash"
  "se3_estimate_hash (build_estimate sha source_node model prev_hash) = sha (SpreadEstimate_bytes_of
      (build_estimate sha source_node model prev_hash))"
  by (simp_all add: build_estimate_def compute_estimate_hash_def SpreadEstimate_bytes_of_def Let_def
      split_def)

lemma estimate_log_record_ok: "spread_estimator.ok sha (el_estimates l) \<Longrightarrow>
    spread_estimator.ok sha (el_estimates (snd (EstimateLog_record sha source_node model l)))"
  by (simp add: Let_def split_def EstimateLog_record_def EstimateLog_last_hash_def build_estimate_linked
      split: option.split sum.split)

definition spread_within :: "nat \<Rightarrow> nat \<Rightarrow> nat" where
  "spread_within fanout h = (\<Sum>i\<le>h. fanout ^ i)"

lemma spread_within_Suc: "spread_within f (Suc h) = spread_within f h + f ^ Suc h"
  by (simp add: spread_within_def)

lemma spread_within_0 [simp]: "spread_within f 0 = 1"
  by (simp add: spread_within_def)

lemma power_le_spread: "f ^ h \<le> spread_within f h"
  by (cases h) (simp_all add: spread_within_Suc)

lemma spread_mono: "h \<le> k \<Longrightarrow> spread_within f h \<le> spread_within f k"
  by (induction rule: dec_induct) (auto simp: spread_within_Suc)

lemma spread_step:
  assumes "spread_within f k \<le> USIZE_MAX"
  shows "min (spread_within f k + min (f ^ k * f) USIZE_MAX) USIZE_MAX = min (spread_within f (Suc k)) USIZE_MAX"
  using assms by (simp add: spread_within_Suc mult.commute)

lemma spread_step_exact:
  assumes "spread_within f (Suc k) \<le> USIZE_MAX"
  shows "min (f ^ k * f) USIZE_MAX = f ^ Suc k" "min (spread_within f k + f ^ Suc k) USIZE_MAX = spread_within f (Suc k)"
  using assms by (simp_all add: spread_within_Suc mult.commute)

lemma reach_loop_exact:
  assumes "N \<le> USIZE_MAX" "spread_within f k \<le> USIZE_MAX"
  shows "reach_loop f N ttl (f ^ k) (spread_within f k) = min (spread_within f (k + ttl)) N"
  using assms
proof (induction ttl arbitrary: k)
  case (Suc ttl)
  have m: "spread_within f (Suc k) \<le> spread_within f (k + Suc ttl)" by (rule spread_mono) simp
  show ?case
  proof (cases "N \<le> spread_within f (Suc k)")
    case True
    then have "N \<le> min (spread_within f (Suc k)) USIZE_MAX" using Suc.prems by simp
    moreover have "min (spread_within f (k + Suc ttl)) N = N" using True m by simp
    ultimately show ?thesis by (simp only: reach_loop.simps Let_def spread_step [OF Suc.prems(2)] if_True)
  next
    case False
    then have s: "spread_within f (Suc k) \<le> USIZE_MAX" using Suc.prems by simp
    have "reach_loop f N (Suc ttl) (f ^ k) (spread_within f k) = reach_loop f N ttl (f ^ Suc k) (spread_within f (Suc k))"
      by (simp only: reach_loop.simps Let_def spread_step_exact [OF s] False if_False)
    then show ?thesis using Suc.IH [OF Suc.prems(1) s] by simp
  qed
qed simp

definition least_hop :: "nat \<Rightarrow> nat \<Rightarrow> u8 \<Rightarrow> u8 option \<Rightarrow> bool" where
  "least_hop f quorum ttl r \<longleftrightarrow> (case r of
     None \<Rightarrow> spread_within f (unat ttl) < quorum
   | Some h \<Rightarrow> h \<le> ttl \<and> quorum \<le> spread_within f (unat h) \<and> (\<forall>k<unat h. spread_within f k < quorum))"

lemma hops_loop_exact:
  assumes "quorum \<le> USIZE_MAX" "spread_within f k \<le> USIZE_MAX" "k \<le> unat ttl" "\<forall>j<k. spread_within f j < quorum"
  shows "least_hop f quorum ttl (hops_loop f quorum ttl [k..<unat ttl] (f ^ k) (spread_within f k))"
  using assms
proof (induction "unat ttl - k" arbitrary: k)
  case 0
  then have k: "k = unat ttl" by simp
  show ?case using 0 unfolding k by (simp add: least_hop_def)
next
  case (Suc d)
  then have k: "k < unat ttl" by simp
  have "Suc k < 2 ^ LENGTH(8)" using k unat_le_max [of ttl] by simp
  then have u: "unat (of_nat k :: u8) = k" "unat (of_nat k + 1 :: u8) = Suc k"
    using unat_of_nat_small [of k, where 'a = 8] unat_of_nat_small [of "Suc k", where 'a = 8]
    by (simp_all add: add.commute)
  have up: "[k..<unat ttl] = k # [Suc k..<unat ttl]" using k by (rule upt_conv_Cons)
  show ?case
  proof (cases "quorum \<le> spread_within f k")
    case True
    then show ?thesis using Suc.prems k u unfolding up by (simp add: least_hop_def word_le_nat_alt)
  next
    case F: False
    then have below: "\<forall>j<Suc k. spread_within f j < quorum" using Suc.prems by (simp add: less_Suc_eq)
    show ?thesis
    proof (cases "quorum \<le> spread_within f (Suc k)")
      case True
      then have "quorum \<le> min (spread_within f (Suc k)) USIZE_MAX" using Suc.prems by simp
      then have "hops_loop f quorum ttl [k..<unat ttl] (f ^ k) (spread_within f k) = Some (of_nat k + 1)"
        unfolding up by (simp only: hops_loop.simps Let_def spread_step [OF Suc.prems(2)] F if_True if_False)
      then show ?thesis using True below k u by (simp add: least_hop_def word_le_nat_alt)
    next
      case False
      then have s: "spread_within f (Suc k) \<le> USIZE_MAX" using Suc.prems by simp
      have "hops_loop f quorum ttl [k..<unat ttl] (f ^ k) (spread_within f k)
        = hops_loop f quorum ttl [Suc k..<unat ttl] (f ^ Suc k) (spread_within f (Suc k))"
        unfolding up by (simp only: hops_loop.simps Let_def spread_step_exact [OF s] F False if_False)
      moreover have "least_hop f quorum ttl (hops_loop f quorum ttl [Suc k..<unat ttl] (f ^ Suc k) (spread_within f (Suc k)))"
        using Suc.hyps Suc.prems k s below by (intro Suc.hyps(1)) simp_all
      ultimately show ?thesis by (simp only:)
    qed
  qed
qed

text \<open>
  C37.  The estimate of the spread: the saturating loops compute the sum of the geometric series, cut at the number of
  nodes, and the least number of hops within the lifetime that reaches the quorum, if there is one.  The quorum is the
  golden part of the nodes, rounded up, as long as its product fits 64 bits, which is up to some 30 million million
  nodes; beyond, it is the golden part of what is left of the product.
\<close>

theorem spread_estimate_exact:
  assumes "total_nodes \<le> USIZE_MAX" 
  shows "estimate_reach fanout max_ttl total_nodes =
           (if fanout = 0 then 0 else min (spread_within (unat fanout) (unat max_ttl)) total_nodes) \<and>
         (if fanout = 0 \<or> total_nodes = 0 then hops_to_quorum fanout max_ttl total_nodes = None
          else least_hop (unat fanout) ((total_nodes * 618034 + 999999) mod 2 ^ 64 div 1000000) max_ttl
            (hops_to_quorum fanout max_ttl total_nodes)) \<and>
         (total_nodes \<le> 29847458349716 \<longrightarrow>
            (total_nodes * 618034 + 999999) mod 2 ^ 64 div 1000000 = (total_nodes * 618034 + 999999) div 1000000)"
proof (cases "fanout = 0 \<or> total_nodes = 0")
  case True
  then show ?thesis by (auto simp: estimate_reach_def hops_to_quorum_def)
next
  case False
  let ?q = "(total_nodes * 618034 + 999999) mod 2 ^ 64 div 1000000"
  have "(total_nodes * 618034 + 999999) mod 2 ^ 64 \<le> USIZE_MAX"
    using mod_less_divisor [of "2 ^ 64" "total_nodes * 618034 + 999999"] by (simp add: USIZE_MAX_def)
  then have q: "?q \<le> USIZE_MAX" by (meson div_le_dividend order_trans)
  have "hops_to_quorum fanout max_ttl total_nodes = hops_loop (unat fanout) ?q max_ttl [0..<unat max_ttl] 1 1"
    using False by (auto simp only: hops_to_quorum_def usize_mul_add Let_def split: if_split)
  then have "least_hop (unat fanout) ?q max_ttl (hops_to_quorum fanout max_ttl total_nodes)"
    using hops_loop_exact [OF q, of "unat fanout" 0 max_ttl] by (simp add: USIZE_MAX_def)
  moreover have "estimate_reach fanout max_ttl total_nodes = min (spread_within (unat fanout) (unat max_ttl)) total_nodes"
  proof (cases "fanout = 1")
    case True
    then show ?thesis using False by (simp add: estimate_reach_def spread_within_def)
  next
    case F: False
    then show ?thesis using False reach_loop_exact [OF assms, of "unat fanout" 0 "unat max_ttl"]
      by (simp add: estimate_reach_def USIZE_MAX_def)
  qed
  moreover have "total_nodes * 618034 + 999999 < 2 ^ 64" if "total_nodes \<le> 29847458349716" using that by simp
  ultimately show ?thesis using False by simp
qed

theorem spread_estimate_exact_witness:
  "estimate_reach 3 2 100 = 13 \<and> least_hop 3 62 2 (hops_to_quorum 3 2 100)"
proof -
  have "spread_within 3 2 = 13" by (simp add: spread_within_def numeral_2_eq_2)
  moreover have "100 \<le> USIZE_MAX" by (simp add: USIZE_MAX_def)
  ultimately show ?thesis using spread_estimate_exact [of 100 3 2] by simp
qed

end
