(* ===== verification/Lineage_Compactor.thy ===== *)
theory Lineage_Compactor
  imports Epoch_Log
begin

text \<open>
  The lineage compactor (Gate 207), \<open>lineage_compactor.rs\<close>: states of epochs wait in a table until a
  compaction packs the epochs that the strategy selects, one segment for each run of consecutive epochs,
  and reading an epoch back goes through the table first and the segments after.  The balanced strategy
  takes three times the length of a vector of \<open>u64\<close>, which cannot overflow: the vector is in memory.
\<close>

section \<open>Strategies, segments, reports\<close>

datatype CompactionStrategy = Aggressive | Balanced | Conservative

record CompactedSegment =
  seg_start_epoch :: u64
  seg_end_epoch :: u64
  seg_original_checksum :: string
  seg_divergence_epochs :: "u64 list"
  seg_compressed_state :: bytes

record LineageCompactor =
  lin_pending_segments :: "(u64, bytes) btmap"
  lin_compacted_history :: "CompactedSegment list"
  lin_strategy :: CompactionStrategy
  lin_compaction_threshold :: nat
  lin_immutable_checkpoints :: "(u64, string) btmap"

record CompressedSegmentInfo =
  sgi_original_size :: nat
  sgi_compressed_size :: nat
  sgi_segment :: CompactedSegment

record CompactionReport =
  lcr_epochs_compacted :: nat
  lcr_segments_created :: nat
  lcr_bytes_saved :: nat

record CompactionStats =
  lst_pending_segments :: nat
  lst_compacted_segments :: nat
  lst_pending_bytes :: nat
  lst_compacted_bytes :: nat
  lst_immutable_checkpoints :: nat

datatype CompactionError =
    NoSegmentsToCompact
  | NoEligibleSegments
  | EmptyEpochGroup
  | MissingSegment u64
  | EpochNotFound u64
  | InvalidSegmentFormat

definition LineageCompactor_new :: "CompactionStrategy \<Rightarrow> nat \<Rightarrow> LineageCompactor" where
  "LineageCompactor_new strategy threshold =
     \<lparr>lin_pending_segments = bt_empty, lin_compacted_history = [], lin_strategy = strategy,
      lin_compaction_threshold = threshold, lin_immutable_checkpoints = bt_empty\<rparr>"

definition LineageCompactor_add_segment :: "u64 \<Rightarrow> bytes \<Rightarrow> LineageCompactor \<Rightarrow> LineageCompactor" where
  "LineageCompactor_add_segment epoch state_data self =
     self\<lparr>lin_pending_segments := bt_insert epoch state_data (lin_pending_segments self)\<rparr>"

definition LineageCompactor_mark_checkpoint :: "u64 \<Rightarrow> string \<Rightarrow> LineageCompactor \<Rightarrow> LineageCompactor" where
  "LineageCompactor_mark_checkpoint epoch checksum self =
     self\<lparr>lin_immutable_checkpoints := bt_insert epoch checksum (lin_immutable_checkpoints self)\<rparr>"

definition LineageCompactor_mark_divergence :: "u64 \<Rightarrow> LineageCompactor \<Rightarrow> LineageCompactor" where
  "LineageCompactor_mark_divergence epoch self = self"

definition LineageCompactor_should_compact :: "LineageCompactor \<Rightarrow> bool" where
  "LineageCompactor_should_compact self \<longleftrightarrow>
     bt_len (lin_pending_segments self) \<ge> lin_compaction_threshold self"

section \<open>Selection of the epochs\<close>

definition LineageCompactor_select_epochs_to_compact :: "LineageCompactor \<Rightarrow> u64 list" where
  "LineageCompactor_select_epochs_to_compact self =
     (let eligible = filter (\<lambda>epoch. \<not> bt_has (lin_immutable_checkpoints self) epoch) (bt_keys (lin_pending_segments self))
      in case lin_strategy self of
         Aggressive \<Rightarrow>
           let keep_count = max 1 (length eligible div 10)
           in take (length eligible - keep_count) eligible
       | Balanced \<Rightarrow>
           let keep_count = max 1 (length eligible * 3 div 10);
               to_keep = drop (length eligible - keep_count) eligible;
               eligible = take (length eligible - keep_count) eligible;
               sampled = map snd (filter (\<lambda>(i, _). i mod 10 = 0) (enumerate 0 eligible))
           in sort (to_keep @ sampled)
       | Conservative \<Rightarrow>
           if eligible = [] then eligible
           else let latest = last eligible in filter (\<lambda>e. latest - e > 100) eligible)"

section \<open>Packing and reading back\<close>

definition hex_string :: "hash \<Rightarrow> string" where
  "hex_string h = concat (map (\<lambda>b. [''0123456789abcdef'' ! (unat b div 16), ''0123456789abcdef'' ! (unat b mod 16)])
     (hash_bytes h))"

fun gather_data :: "(u64, bytes) btmap \<Rightarrow> bytes \<Rightarrow> u64 list \<Rightarrow> CompactionError + bytes" where
  "gather_data pending original_data [] = Inr original_data"
| "gather_data pending original_data (epoch # epochs) =
     (case bt_get pending epoch of
        Some data \<Rightarrow> gather_data pending (original_data @ data) epochs
      | None \<Rightarrow> Inl (MissingSegment epoch))"

definition MAGIC_ALCE :: bytes where
  "MAGIC_ALCE = [65, 76, 67, 69]"

definition LineageCompactor_compress_segment ::
  "sha \<Rightarrow> u64 list \<Rightarrow> LineageCompactor \<Rightarrow> CompactionError + CompressedSegmentInfo" where
  "LineageCompactor_compress_segment sha epochs self =
     (if epochs = [] then Inl EmptyEpochGroup
      else case gather_data (lin_pending_segments self) [] epochs of
         Inl e \<Rightarrow> Inl e
       | Inr original_data \<Rightarrow>
           let original_size = length original_data;
               compressed = MAGIC_ALCE @ le_bytes 8 (hd epochs) @ le_bytes 8 (last epochs) @
                 le_bytes 4 (of_nat original_size :: u32) @ original_data;
               compressed_size = length compressed;
               checksum = hex_string (sha original_data);
               divergence_epochs = filter (\<lambda>e. False) epochs;
               segment = \<lparr>seg_start_epoch = hd epochs, seg_end_epoch = last epochs, seg_original_checksum = checksum,
                 seg_divergence_epochs = divergence_epochs, seg_compressed_state = compressed\<rparr>
           in Inr \<lparr>sgi_original_size = original_size, sgi_compressed_size = compressed_size, sgi_segment = segment\<rparr>)"

type_synonym packing = "CompressedSegmentInfo list \<times> nat"

fun pack_epochs :: "sha \<Rightarrow> LineageCompactor \<Rightarrow> u64 list \<Rightarrow> u64 list \<Rightarrow> u64 option \<Rightarrow> packing \<Rightarrow>
    CompactionError + (packing \<times> u64 list)" where
  "pack_epochs sha self [] current_segment_epochs prev_epoch packed = Inr (packed, current_segment_epochs)"
| "pack_epochs sha self (epoch # epochs) current_segment_epochs prev_epoch (compressed_segments, total_bytes_saved) =
     (if (case prev_epoch of None \<Rightarrow> False | Some prev \<Rightarrow> epoch \<noteq> prev + 1) \<and> current_segment_epochs \<noteq> [] then
        case LineageCompactor_compress_segment sha current_segment_epochs self of
          Inl e \<Rightarrow> Inl e
        | Inr segment \<Rightarrow> pack_epochs sha self epochs [epoch] (Some epoch)
            (compressed_segments @ [segment], total_bytes_saved + (sgi_original_size segment - sgi_compressed_size segment))
      else pack_epochs sha self epochs (current_segment_epochs @ [epoch]) (Some epoch) (compressed_segments, total_bytes_saved))"

definition pack_rest :: "sha \<Rightarrow> LineageCompactor \<Rightarrow> packing \<times> u64 list \<Rightarrow> CompactionError + packing" where
  "pack_rest sha self p =
     (case p of ((compressed_segments, total_bytes_saved), current_segment_epochs) \<Rightarrow>
        if current_segment_epochs = [] then Inr (compressed_segments, total_bytes_saved)
        else case LineageCompactor_compress_segment sha current_segment_epochs self of
          Inl e \<Rightarrow> Inl e
        | Inr segment \<Rightarrow> Inr (compressed_segments @ [segment],
            total_bytes_saved + (sgi_original_size segment - sgi_compressed_size segment)))"

definition LineageCompactor_compact ::
  "sha \<Rightarrow> LineageCompactor \<Rightarrow> (CompactionError + CompactionReport) \<times> LineageCompactor" where
  "LineageCompactor_compact sha self =
     (if bt_len (lin_pending_segments self) = 0 then (Inl NoSegmentsToCompact, self)
      else
        let epochs_to_compact = LineageCompactor_select_epochs_to_compact self
        in if epochs_to_compact = [] then (Inl NoEligibleSegments, self)
           else case pack_epochs sha self epochs_to_compact [] None ([], 0) of
             Inl e \<Rightarrow> (Inl e, self)
           | Inr packed \<Rightarrow>
               case pack_rest sha self packed of
                 Inl e \<Rightarrow> (Inl e, self)
               | Inr (compressed_segments, total_bytes_saved) \<Rightarrow>
                   (Inr \<lparr>lcr_epochs_compacted = length epochs_to_compact, lcr_segments_created = length compressed_segments,
                         lcr_bytes_saved = total_bytes_saved\<rparr>,
                    self\<lparr>lin_pending_segments := foldl (\<lambda>m epoch. bt_remove epoch m) (lin_pending_segments self) epochs_to_compact,
                         lin_compacted_history := lin_compacted_history self @ map sgi_segment compressed_segments\<rparr>))"

definition LineageCompactor_decompress_segment_for_epoch :: "CompactedSegment \<Rightarrow> u64 \<Rightarrow> CompactionError + bytes" where
  "LineageCompactor_decompress_segment_for_epoch segment target_epoch =
     (if length (seg_compressed_state segment) < 20 \<or> take 4 (seg_compressed_state segment) \<noteq> MAGIC_ALCE
      then Inl InvalidSegmentFormat
      else Inr (drop 20 (seg_compressed_state segment)))"

definition LineageCompactor_retrieve :: "u64 \<Rightarrow> LineageCompactor \<Rightarrow> CompactionError + bytes" where
  "LineageCompactor_retrieve epoch self =
     (case bt_get (lin_pending_segments self) epoch of
        Some data \<Rightarrow> Inr data
      | None \<Rightarrow>
          case find (\<lambda>segment. epoch \<ge> seg_start_epoch segment \<and> epoch \<le> seg_end_epoch segment) (lin_compacted_history self) of
            Some segment \<Rightarrow> LineageCompactor_decompress_segment_for_epoch segment epoch
          | None \<Rightarrow> Inl (EpochNotFound epoch))"

definition LineageCompactor_stats :: "LineageCompactor \<Rightarrow> CompactionStats" where
  "LineageCompactor_stats self =
     (let pending_bytes = sum_list (map length (bt_values (lin_pending_segments self)));
          compacted_bytes = sum_list (map (\<lambda>s. length (seg_compressed_state s)) (lin_compacted_history self))
      in \<lparr>lst_pending_segments = bt_len (lin_pending_segments self), lst_compacted_segments = length (lin_compacted_history self),
          lst_pending_bytes = pending_bytes, lst_compacted_bytes = compacted_bytes,
          lst_immutable_checkpoints = bt_len (lin_immutable_checkpoints self)\<rparr>)"

section \<open>What a compaction does\<close>

text \<open>
  The runs of consecutive epochs of a list, the bytes of a run, and the segment they are packed in.
\<close>

fun runs :: "u64 list \<Rightarrow> u64 list \<Rightarrow> u64 list list" where
  "runs current [] = (if current = [] then [] else [current])"
| "runs current (e # es) =
     (if current \<noteq> [] \<and> e \<noteq> last current + 1 then current # runs [e] es else runs (current @ [e]) es)"

fun consecutive_epochs :: "u64 list \<Rightarrow> bool" where
  "consecutive_epochs (a # b # es) \<longleftrightarrow> b = a + 1 \<and> consecutive_epochs (b # es)"
| "consecutive_epochs es \<longleftrightarrow> True"

definition run_data :: "(u64, bytes) btmap \<Rightarrow> u64 list \<Rightarrow> bytes" where
  "run_data m r = concat (map (\<lambda>e. the (bt_get m e)) r)"

definition segment_of :: "sha \<Rightarrow> (u64, bytes) btmap \<Rightarrow> u64 list \<Rightarrow> CompactedSegment" where
  "segment_of sha m r =
     \<lparr>seg_start_epoch = hd r, seg_end_epoch = last r, seg_original_checksum = hex_string (sha (run_data m r)),
      seg_divergence_epochs = [],
      seg_compressed_state = MAGIC_ALCE @ le_bytes 8 (hd r) @ le_bytes 8 (last r) @
        le_bytes 4 (of_nat (length (run_data m r)) :: u32) @ run_data m r\<rparr>"

definition info_of :: "sha \<Rightarrow> (u64, bytes) btmap \<Rightarrow> u64 list \<Rightarrow> CompressedSegmentInfo" where
  "info_of sha m r =
     \<lparr>sgi_original_size = length (run_data m r), sgi_compressed_size = length (run_data m r) + 24,
      sgi_segment = segment_of sha m r\<rparr>"

lemma concat_runs: "concat (runs current es) = current @ es"
  by (induction current es rule: runs.induct) auto

lemma runs_nonempty: "r \<in> set (runs current es) \<Longrightarrow> r \<noteq> []"
  by (induction current es rule: runs.induct) (auto split: if_splits)

lemma consecutive_snoc:
  "consecutive_epochs (es @ [e]) \<longleftrightarrow> consecutive_epochs es \<and> (es = [] \<or> e = last es + 1)"
  by (induction es rule: consecutive_epochs.induct) auto

lemma runs_consecutive: "consecutive_epochs current \<Longrightarrow> r \<in> set (runs current es) \<Longrightarrow> consecutive_epochs r"
  by (induction current es rule: runs.induct) (auto simp: consecutive_snoc split: if_splits)

lemma runs_Nil: "runs current es = [] \<longleftrightarrow> current = [] \<and> es = []"
  using concat_runs [of current es] by (cases "runs current es") (auto dest: runs_nonempty)

lemma in_range_of_run:
  "consecutive_epochs r \<Longrightarrow> sorted_wrt (<) r \<Longrightarrow> r \<noteq> [] \<Longrightarrow> hd r \<le> e \<Longrightarrow> e \<le> last r \<Longrightarrow> e \<in> set r"
proof (induction r rule: consecutive_epochs.induct)
  case (1 a b es)
  show ?case
  proof (cases "e = a")
    case False
    then have "b \<le> e" using 1 by (simp add: inc_le)
    then have "e \<in> set (b # es)" using 1 by (intro 1(1)) auto
    then show ?thesis by simp
  qed simp
qed auto

lemma gather_data_eq:
  "\<forall>e\<in>set es. bt_has m e \<Longrightarrow> gather_data m acc es = Inr (acc @ run_data m es)"
  by (induction es arbitrary: acc) (auto simp: run_data_def bt_has_def)

lemma compress_segment_eq:
  assumes "r \<noteq> []" "\<forall>e\<in>set r. bt_has (lin_pending_segments self) e"
  shows "LineageCompactor_compress_segment sha r self = Inr (info_of sha (lin_pending_segments self) r)"
  using assms
  by (simp add: LineageCompactor_compress_segment_def gather_data_eq info_of_def segment_of_def Let_def MAGIC_ALCE_def)

lemma pack_epochs_eq:
  assumes "\<forall>e\<in>set (current @ es). bt_has (lin_pending_segments self) e" "current \<noteq> [] \<longrightarrow> prev = Some (last current)"
    "current = [] \<longrightarrow> prev = None"
  shows "\<exists>p. pack_epochs sha self es current prev (segs, saved) = Inr p \<and>
     pack_rest sha self p = Inr (segs @ map (info_of sha (lin_pending_segments self)) (runs current es), saved)"
  using assms
proof (induction es arbitrary: current prev segs saved)
  case Nil
  then show ?case by (simp add: pack_rest_def compress_segment_eq info_of_def)
next
  case (Cons e es)
  show ?case
  proof (cases "current \<noteq> [] \<and> e \<noteq> last current + 1")
    case True
    then show ?thesis
      using Cons.IH [of "[e]" "Some e" "segs @ [info_of sha (lin_pending_segments self) current]" saved] Cons.prems
      by (simp add: compress_segment_eq info_of_def)
  next
    case False
    then show ?thesis using Cons.IH [of "current @ [e]" "Some e" segs saved] Cons.prems
      by (cases "current = []") simp_all
  qed
qed


lemma set_sampled: "set (map snd (filter P (enumerate n xs))) \<subseteq> set xs"
  by (induction xs arbitrary: n) (auto simp: enumerate_simps)

lemma sorted_sampled: "sorted_wrt R xs \<Longrightarrow> sorted_wrt R (map snd (filter P (enumerate n xs)))"
proof (induction xs arbitrary: n)
  case (Cons x xs)
  then show ?case using set_sampled [of P "Suc n" xs] by (auto simp: enumerate_simps)
qed simp

definition eligible_epochs :: "LineageCompactor \<Rightarrow> u64 list" where
  "eligible_epochs self = filter (\<lambda>e. \<not> bt_has (lin_immutable_checkpoints self) e) (bt_keys (lin_pending_segments self))"

lemma eligible_sorted: "sorted_wrt (<) (eligible_epochs self)"
  by (simp add: eligible_epochs_def sorted_wrt_filter)

lemma balanced_selection:
  assumes "lin_strategy self = Balanced"
  defines "n \<equiv> length (eligible_epochs self) - max 1 (length (eligible_epochs self) * 3 div 10)"
  defines "old \<equiv> map snd (filter (\<lambda>(i, _). i mod 10 = 0) (enumerate 0 (take n (eligible_epochs self))))"
  shows "set (LineageCompactor_select_epochs_to_compact self) = set (drop n (eligible_epochs self)) \<union> set old"
    and "sorted_wrt (<) (LineageCompactor_select_epochs_to_compact self)"
proof -
  have sel: "LineageCompactor_select_epochs_to_compact self = sort (drop n (eligible_epochs self) @ old)"
    using assms(1) by (simp add: LineageCompactor_select_epochs_to_compact_def Let_def eligible_epochs_def [symmetric] n_def old_def)
  show "set (LineageCompactor_select_epochs_to_compact self) = set (drop n (eligible_epochs self)) \<union> set old"
    by (simp add: sel)
  have d: "distinct (eligible_epochs self)" using eligible_sorted [of self] by (simp add: strict_sorted_iff)
  have "sorted_wrt (<) old" unfolding old_def
    by (intro sorted_sampled) (metis append_take_drop_id eligible_sorted sorted_wrt_append)
  then have "distinct old" by (simp add: strict_sorted_iff)
  moreover have "set old \<subseteq> set (take n (eligible_epochs self))" unfolding old_def by (rule set_sampled)
  moreover have "set (take n (eligible_epochs self)) \<inter> set (drop n (eligible_epochs self)) = {}"
    using d by (rule set_take_disj_set_drop_if_distinct) simp
  ultimately have "distinct (drop n (eligible_epochs self) @ old)" using d by (auto simp: distinct_drop)
  then show "sorted_wrt (<) (LineageCompactor_select_epochs_to_compact self)" by (simp add: sel strict_sorted_iff)
qed

lemma select_cases:
  "set (LineageCompactor_select_epochs_to_compact self) \<subseteq> set (eligible_epochs self) \<and>
   sorted_wrt (<) (LineageCompactor_select_epochs_to_compact self)"
proof (cases "lin_strategy self")
  case Aggressive
  then show ?thesis using eligible_sorted [of self]
    by (auto simp: LineageCompactor_select_epochs_to_compact_def Let_def eligible_epochs_def [symmetric]
        sorted_wrt_take dest: in_set_takeD)
next
  case Balanced
  have "set (LineageCompactor_select_epochs_to_compact self) \<subseteq> set (eligible_epochs self)"
    unfolding balanced_selection(1) [OF Balanced]
    using subset_trans [OF set_sampled set_take_subset] by (simp add: set_drop_subset del: set_map)
  then show ?thesis using balanced_selection(2) [OF Balanced] by simp
next
  case Conservative
  then show ?thesis using eligible_sorted [of self]
    by (auto simp: LineageCompactor_select_epochs_to_compact_def Let_def eligible_epochs_def [symmetric] sorted_wrt_filter)
qed

lemma selected_pending:
  "e \<in> set (LineageCompactor_select_epochs_to_compact self) \<Longrightarrow>
   bt_has (lin_pending_segments self) e \<and> \<not> bt_has (lin_immutable_checkpoints self) e"
  using select_cases [of self] by (auto simp: eligible_epochs_def bt_has_def dom_def)

lemma balanced_packs_newest:
  assumes "lin_strategy self = Balanced" "eligible_epochs self \<noteq> []"
  shows "last (eligible_epochs self) \<in> set (LineageCompactor_select_epochs_to_compact self)"
proof -
  have "length (eligible_epochs self) - max 1 (length (eligible_epochs self) * 3 div 10) < length (eligible_epochs self)"
    using assms(2) by (cases "eligible_epochs self") auto
  then have "last (eligible_epochs self) \<in> set (drop (length (eligible_epochs self) -
      max 1 (length (eligible_epochs self) * 3 div 10)) (eligible_epochs self))"
    by (metis drop_eq_Nil last_drop last_in_set linorder_not_less)
  then show ?thesis using balanced_selection(1) [OF assms(1)] by blast
qed

lemma drop_packed:
  "bt_get (foldl (\<lambda>m epoch. bt_remove epoch m) m es) e = (if e \<in> set es then None else bt_get m e)"
  by (induction es arbitrary: m) auto

lemma compact_eq:
  defines "sel \<equiv> \<lambda>self. LineageCompactor_select_epochs_to_compact self"
  shows "LineageCompactor_compact sha self =
    (if bt_len (lin_pending_segments self) = 0 then (Inl NoSegmentsToCompact, self)
     else if sel self = [] then (Inl NoEligibleSegments, self)
     else (Inr \<lparr>lcr_epochs_compacted = length (sel self), lcr_segments_created = length (runs [] (sel self)), lcr_bytes_saved = 0\<rparr>,
           self\<lparr>lin_pending_segments := foldl (\<lambda>m epoch. bt_remove epoch m) (lin_pending_segments self) (sel self),
             lin_compacted_history := lin_compacted_history self @
               map (segment_of sha (lin_pending_segments self)) (runs [] (sel self))\<rparr>))"
proof -
  obtain p where "pack_epochs sha self (sel self) [] None ([], 0) = Inr p"
    "pack_rest sha self p = Inr (map (info_of sha (lin_pending_segments self)) (runs [] (sel self)), 0)"
    using pack_epochs_eq [of "[]" "sel self" self None sha "[]" 0] selected_pending [of _ self] by (auto simp: sel_def)
  moreover have "sgi_segment \<circ> info_of sha m = segment_of sha m" for m by (simp add: fun_eq_iff info_of_def)
  ultimately show ?thesis by (simp add: LineageCompactor_compact_def Let_def sel_def)
qed

lemma run_of_epoch:
  assumes "sorted_wrt (<) es" "e \<in> set es"
  shows "\<exists>r\<in>set (runs [] es). e \<in> set r"
    and "r \<in> set (runs [] es) \<Longrightarrow> hd r \<le> e \<Longrightarrow> e \<le> last r \<Longrightarrow> e \<in> set r"
proof -
  have c: "concat (runs [] es) = es" by (simp add: concat_runs)
  have "e \<in> set (concat (runs [] es))" unfolding c by (rule assms(2))
  then show "\<exists>r\<in>set (runs [] es). e \<in> set r" unfolding set_concat by (rule UN_E) (rule bexI)
  assume r: "r \<in> set (runs [] es)" "hd r \<le> e" "e \<le> last r"
  obtain as bs where "runs [] es = as @ r # bs" using r(1) by (auto simp: in_set_conv_decomp)
  then have "es = concat as @ r @ concat bs" using c by simp
  then have "sorted_wrt (<) r" using assms(1) by (simp add: sorted_wrt_append)
  then show "e \<in> set r" using r runs_nonempty [OF r(1)] runs_consecutive [OF _ r(1)] by (intro in_range_of_run) simp_all
qed

lemma read_back:
  "LineageCompactor_decompress_segment_for_epoch (segment_of sha m r) e
    = Inr (le_bytes 4 (of_nat (length (run_data m r)) :: u32) @ run_data m r)"
  by (simp add: LineageCompactor_decompress_segment_for_epoch_def segment_of_def MAGIC_ALCE_def)


lemma find_none_append: "find P xs = None \<Longrightarrow> find P (xs @ ys) = find P ys"
  by (induction xs) (auto split: if_splits)

lemma run_bounds:
  assumes "sorted_wrt (<) es" "r \<in> set (runs [] es)" "e \<in> set r"
  shows "hd r \<le> e \<and> e \<le> last r"
proof -
  obtain as bs where "runs [] es = as @ r # bs" using assms(2) by (auto simp: in_set_conv_decomp)
  then have "es = concat as @ r @ concat bs" using concat_runs [of "[]" es] by simp
  then have "sorted r" using assms(1) by (auto simp: sorted_wrt_append strict_sorted_iff)
  moreover have "r \<noteq> []" using assms(3) by auto
  ultimately show ?thesis using assms(3)
    by (auto simp: in_set_conv_nth hd_conv_nth [OF \<open>r \<noteq> []\<close>] last_conv_nth [OF \<open>r \<noteq> []\<close>] sorted_iff_nth_mono)
qed

lemma find_packed:
  assumes "sorted_wrt (<) es" "e \<in> set es"
  shows "\<exists>r\<in>set (runs [] es). e \<in> set r \<and>
    find (\<lambda>s. e \<ge> seg_start_epoch s \<and> e \<le> seg_end_epoch s) (map (segment_of sha m) (runs [] es)) = Some (segment_of sha m r)"
proof -
  let ?P = "\<lambda>s. e \<ge> seg_start_epoch s \<and> e \<le> seg_end_epoch s"
  obtain r where r: "r \<in> set (runs [] es)" "e \<in> set r" using run_of_epoch(1) [OF assms] by blast
  have "?P (segment_of sha m r)" using run_bounds [OF assms(1) r] by (simp add: segment_of_def)
  then have "find ?P (map (segment_of sha m) (runs [] es)) \<noteq> None" using r(1) by (auto simp: find_None_iff)
  then obtain s where s: "find ?P (map (segment_of sha m) (runs [] es)) = Some s" by blast
  then have "s \<in> set (map (segment_of sha m) (runs [] es))" "?P s" by (auto simp: find_Some_iff)
  then obtain q where "q \<in> set (runs [] es)" "s = segment_of sha m q" "hd q \<le> e" "e \<le> last q"
    by (auto simp: segment_of_def)
  then show ?thesis using run_of_epoch(2) [OF assms] s by blast
qed

lemma retrieve_packed:
  assumes "sorted_wrt (<) es" "e \<in> set es" "bt_get (lin_pending_segments self) e = None"
    and "lin_compacted_history self = history @ map (segment_of sha m) (runs [] es)"
    and "find (\<lambda>s. e \<ge> seg_start_epoch s \<and> e \<le> seg_end_epoch s) history = None"
  shows "\<exists>r\<in>set (runs [] es). e \<in> set r \<and>
    LineageCompactor_retrieve e self = Inr (le_bytes 4 (of_nat (length (run_data m r)) :: u32) @ run_data m r)"
proof -
  obtain r where "r \<in> set (runs [] es)" "e \<in> set r"
    "find (\<lambda>s. e \<ge> seg_start_epoch s \<and> e \<le> seg_end_epoch s) (map (segment_of sha m) (runs [] es)) = Some (segment_of sha m r)"
    using find_packed [OF assms(1,2)] by blast
  then show ?thesis by (intro bexI [of _ r]) (simp_all add: LineageCompactor_retrieve_def assms(3,4) find_none_append [OF assms(5)] read_back)
qed

lemma nothing_selected: "bt_len (lin_pending_segments self) = 0 \<Longrightarrow> LineageCompactor_select_epochs_to_compact self = []"
  using select_cases [of self] by (simp add: eligible_epochs_def bt_len_def bt_keys_def)

text \<open>
  When a strategy selects anything, from the epochs that are not checkpoints: the aggressive one if there
  are two, the balanced one if there is one, the conservative one if one is more than 100 behind the last.
\<close>

definition packable :: "LineageCompactor \<Rightarrow> u64 set" where
  "packable self = {e. bt_has (lin_pending_segments self) e \<and> \<not> bt_has (lin_immutable_checkpoints self) e}"

fun selects :: "CompactionStrategy \<Rightarrow> u64 set \<Rightarrow> bool" where
  "selects Aggressive E \<longleftrightarrow> 2 \<le> card E"
| "selects Balanced E \<longleftrightarrow> 1 \<le> card E"
| "selects Conservative E \<longleftrightarrow> (\<exists>e \<in> E. \<exists>l \<in> E. unat e + 100 < unat l)"

lemma set_eligible: "set (eligible_epochs self) = packable self"
  by (auto simp: eligible_epochs_def packable_def bt_has_def dom_def)

lemma card_packable: "card (packable self) = length (eligible_epochs self)"
  using distinct_card [of "eligible_epochs self"] eligible_sorted [of self] by (simp add: set_eligible strict_sorted_iff)

lemma eligible_last: "e \<in> packable self \<Longrightarrow> e \<le> last (eligible_epochs self)"
  using eligible_sorted [of self] unfolding set_eligible [symmetric]
  by (cases "eligible_epochs self" rule: rev_cases) (auto simp: sorted_wrt_append less_imp_le)

lemma conservative_iff:
  "(\<exists>e \<in> packable self. last (eligible_epochs self) - e > 100) \<longleftrightarrow>
     (\<exists>e \<in> packable self. \<exists>l \<in> packable self. unat e + 100 < unat l)"
proof -
  have gt: "last (eligible_epochs self) - e > 100 \<longleftrightarrow> unat e + 100 < unat (last (eligible_epochs self))"
    if "e \<in> packable self" for e
    using eligible_last [OF that] by (auto simp: word_less_nat_alt unat_sub word_le_nat_alt)
  have "last (eligible_epochs self) \<in> packable self" if "e \<in> packable self" for e
    using that last_in_set [of "eligible_epochs self"] by (cases "eligible_epochs self") (auto simp: set_eligible [symmetric])
  moreover have "unat l \<le> unat (last (eligible_epochs self))" if "l \<in> packable self" for l
    using eligible_last [OF that] by (simp add: word_le_nat_alt)
  ultimately show ?thesis using gt by (meson less_le_trans)
qed

lemma selects_iff: "LineageCompactor_select_epochs_to_compact self \<noteq> [] \<longleftrightarrow> selects (lin_strategy self) (packable self)"
proof (cases "lin_strategy self")
  case Aggressive
  then show ?thesis
    by (auto simp: LineageCompactor_select_epochs_to_compact_def Let_def eligible_epochs_def [symmetric] card_packable)
next
  case Balanced
  show ?thesis
  proof (cases "eligible_epochs self = []")
    case True
    then have "card (packable self) = 0" unfolding card_packable by simp
    moreover have "LineageCompactor_select_epochs_to_compact self = []" using select_cases [of self] True by simp
    ultimately show ?thesis using Balanced by simp
  next
    case False
    then show ?thesis using Balanced balanced_packs_newest [OF Balanced False]
      by (auto simp: card_packable Suc_le_eq)
  qed
next
  case Conservative
  have "LineageCompactor_select_epochs_to_compact self \<noteq> [] \<longleftrightarrow>
      (\<exists>e \<in> packable self. last (eligible_epochs self) - e > 100)"
    using Conservative
    by (auto simp: LineageCompactor_select_epochs_to_compact_def Let_def eligible_epochs_def [symmetric]
        filter_empty_conv simp flip: set_eligible)
  then show ?thesis using Conservative conservative_iff [of self] by simp
qed

text \<open>
  C38.  A compaction fails, without an effect, with \<open>NoSegmentsToCompact\<close> exactly if no epoch waits, and
  with \<open>NoEligibleSegments\<close> exactly if some do and the strategy selects none: the aggressive one of fewer
  than two epochs that are not checkpoints, the balanced one of none, the conservative one if none is more
  than 100 behind another.  Otherwise it succeeds: the selected epochs, none of them a checkpoint, leave
  the table and are packed in one segment for each run of consecutive ones; no byte is saved, as every
  segment is longer than what it holds by its header.  Reading a packed epoch back, unless a segment of an
  earlier compaction spans it, gives the data of its whole run, behind the last four bytes of the header.
\<close>

theorem lineage_compaction_exact:
  "let (result, self') = LineageCompactor_compact sha self;
       packed = LineageCompactor_select_epochs_to_compact self; m = lin_pending_segments self
   in if bt_len m = 0 then result = Inl NoSegmentsToCompact \<and> self' = self
      else if \<not> selects (lin_strategy self) {e. bt_has m e \<and> \<not> bt_has (lin_immutable_checkpoints self) e}
      then result = Inl NoEligibleSegments \<and> self' = self
      else packed \<noteq> [] \<and>
        concat (runs [] packed) = packed \<and> (\<forall>r\<in>set (runs [] packed). consecutive_epochs r) \<and>
        result = Inr \<lparr>lcr_epochs_compacted = length packed, lcr_segments_created = length (runs [] packed), lcr_bytes_saved = 0\<rparr> \<and>
        lin_compacted_history self' = lin_compacted_history self @ map (segment_of sha m) (runs [] packed) \<and>
        (\<forall>e. bt_get (lin_pending_segments self') e = (if e \<in> set packed then None else bt_get m e)) \<and>
        (\<forall>e\<in>set packed. bt_has m e \<and> \<not> bt_has (lin_immutable_checkpoints self) e \<and>
          (find (\<lambda>s. e \<ge> seg_start_epoch s \<and> e \<le> seg_end_epoch s) (lin_compacted_history self) = None \<longrightarrow>
           (\<exists>r\<in>set (runs [] packed). e \<in> set r \<and>
             LineageCompactor_retrieve e self' = Inr (le_bytes 4 (of_nat (length (run_data m r)) :: u32) @ run_data m r))))"
proof -
  let ?sel = "LineageCompactor_select_epochs_to_compact self" and ?m = "lin_pending_segments self"
  have selects: "selects (lin_strategy self) {e. bt_has ?m e \<and> \<not> bt_has (lin_immutable_checkpoints self) e} \<longleftrightarrow> ?sel \<noteq> []"
    using selects_iff [of self] by (simp add: packable_def)
  consider (none) "bt_len ?m = 0" | (unselected) "bt_len ?m \<noteq> 0" "?sel = []" | (some) "bt_len ?m \<noteq> 0" "?sel \<noteq> []"
    by blast
  then show ?thesis
  proof cases
    case none
    then have eq: "LineageCompactor_compact sha self = (Inl NoSegmentsToCompact, self)" by (simp add: compact_eq)
    show ?thesis unfolding eq Let_def prod.case if_P [OF none] by (intro conjI refl)
  next
    case unselected
    then have eq: "LineageCompactor_compact sha self = (Inl NoEligibleSegments, self)"
      by (simp add: compact_eq)
    have none: "\<not> ?sel \<noteq> []" using unselected(2) by simp
    show ?thesis unfolding eq Let_def prod.case selects if_not_P [OF unselected(1)] if_P [OF none] by (intro conjI refl)
  next
    case some
    let ?self' = "self\<lparr>lin_pending_segments := foldl (\<lambda>m epoch. bt_remove epoch m) ?m ?sel,
      lin_compacted_history := lin_compacted_history self @ map (segment_of sha ?m) (runs [] ?sel)\<rparr>"
    have s: "sorted_wrt (<) ?sel" using select_cases [of self] by simp
    have gone: "bt_get (lin_pending_segments ?self') e = (if e \<in> set ?sel then None else bt_get ?m e)" for e
      by (simp add: drop_packed)
    have read: "\<exists>r\<in>set (runs [] ?sel). e \<in> set r \<and>
        LineageCompactor_retrieve e ?self' = Inr (le_bytes 4 (of_nat (length (run_data ?m r)) :: u32) @ run_data ?m r)"
      if "e \<in> set ?sel" "find (\<lambda>s. e \<ge> seg_start_epoch s \<and> e \<le> seg_end_epoch s) (lin_compacted_history self) = None" for e
    proof (rule retrieve_packed [where sha = sha, OF s that(1) _ _ that(2)])
      show "bt_get (lin_pending_segments ?self') e = None" unfolding gone by (simp only: that(1) if_True)
    qed simp
    have eq: "LineageCompactor_compact sha self = (Inr \<lparr>lcr_epochs_compacted = length ?sel,
        lcr_segments_created = length (runs [] ?sel), lcr_bytes_saved = 0\<rparr>, ?self')"
      using some by (simp only: compact_eq if_False)
    show ?thesis
      unfolding eq Let_def prod.case selects if_not_P [OF some(1)] not_not if_not_P [OF some(2)]
    proof (intro conjI ballI allI impI)
      show "?sel \<noteq> []" by (rule some(2))
      show "concat (runs [] ?sel) = ?sel" by (simp add: concat_runs)
      show "consecutive_epochs r" if "r \<in> set (runs [] ?sel)" for r
        by (rule runs_consecutive [OF _ that]) simp
      show "bt_has ?m e" if "e \<in> set ?sel" for e by (rule conjunct1 [OF selected_pending [OF that]])
      show "\<not> bt_has (lin_immutable_checkpoints self) e" if "e \<in> set ?sel" for e
        by (rule conjunct2 [OF selected_pending [OF that]])
      show "lin_compacted_history ?self' = lin_compacted_history self @ map (segment_of sha ?m) (runs [] ?sel)" by simp
      show "bt_get (lin_pending_segments ?self') e = (if e \<in> set ?sel then None else bt_get ?m e)" for e by (rule gone)
      show "\<exists>r\<in>set (runs [] ?sel). e \<in> set r \<and>
          LineageCompactor_retrieve e ?self' = Inr (le_bytes 4 (of_nat (length (run_data ?m r)) :: u32) @ run_data ?m r)"
        if "e \<in> set ?sel" "find (\<lambda>s. e \<ge> seg_start_epoch s \<and> e \<le> seg_end_epoch s) (lin_compacted_history self) = None" for e
        using that by (rule read)
    qed (rule refl)
  qed
qed

theorem lineage_compaction_exact_witness:
  "let self = LineageCompactor_add_segment 2 [20] (LineageCompactor_add_segment 1 [10]
         (LineageCompactor_add_segment 0 [7] (LineageCompactor_new Aggressive 3)));
       self' = snd (LineageCompactor_compact (\<lambda>b. 0) self)
   in LineageCompactor_select_epochs_to_compact self = [0, 1] \<and>
      LineageCompactor_retrieve 1 self' = Inr [2, 0, 0, 0, 7, 10]"
proof -
  let ?self = "LineageCompactor_add_segment 2 [20] (LineageCompactor_add_segment 1 [10]
         (LineageCompactor_add_segment 0 [7] (LineageCompactor_new Aggressive 3)))"
  have sel: "LineageCompactor_select_epochs_to_compact ?self = [0, 1]" by code_simp
  have r: "runs [] [0, 1] = [[0, 1]]" by simp
  have waiting: "bt_len (lin_pending_segments ?self) \<noteq> 0" by code_simp
  have chosen: "selects (lin_strategy ?self) {e. bt_has (lin_pending_segments ?self) e \<and>
      \<not> bt_has (lin_immutable_checkpoints ?self) e}"
    using selects_iff [of ?self] sel by (simp add: packable_def)
  have "run_data (lin_pending_segments ?self) [0, 1] = [7, 10]"
    by (simp add: run_data_def LineageCompactor_add_segment_def LineageCompactor_new_def)
  moreover have "le_bytes 4 (2 :: u32) = [2, 0, 0, 0]" by code_simp
  moreover have "lin_compacted_history ?self = []" by (simp add: LineageCompactor_add_segment_def LineageCompactor_new_def)
  ultimately show ?thesis
    using lineage_compaction_exact [where self = ?self and sha = "\<lambda>b. 0"]
    by (cases "LineageCompactor_compact (\<lambda>b. 0) ?self") (simp add: sel r Let_def waiting chosen)
qed
end
