(* ===== verification/Substrate.thy ===== *)
theory Substrate
  imports Epoch_Log "HOL-Library.Signed_Division"
begin

text \<open>
  The constitutional substrate, the crate \<open>src/crates/constitutional-substrate\<close>: fixed-point arithmetic
  (\<open>primitives.rs\<close>), the bounded entropy (\<open>entropy.rs\<close>), attestations and archive headers with their wire
  formats (\<open>attestation.rs\<close>, \<open>archive.rs\<close>), and the append-only replay ledger (\<open>replay.rs\<close>) over a hasher
  that the callers supply.  A panic of an assertion is \<open>None\<close>; an array of bytes is a list whose length the
  well-formedness predicates state; the intermediate \<open>i128\<close> values are integers, as they never leave the range.
\<close>

section \<open>Fixed-point arithmetic\<close>

definition FIXED_SHIFT :: nat where
  "FIXED_SHIFT = 16"

definition FIXED_SCALE :: i64 where
  "FIXED_SCALE = push_bit FIXED_SHIFT 1"

definition fits_i64 :: "int \<Rightarrow> bool" where
  "fits_i64 x \<longleftrightarrow> - (2 ^ 63) \<le> x \<and> x \<le> 2 ^ 63 - 1"

definition fixed_mul :: "i64 \<Rightarrow> i64 \<Rightarrow> i64 option" where
  "fixed_mul a b =
     (let result = sint a * sint b; shifted = drop_bit FIXED_SHIFT result
      in if fits_i64 shifted then Some (of_int shifted) else None)"

definition fixed_div :: "i64 \<Rightarrow> i64 \<Rightarrow> i64 option" where
  "fixed_div a b =
     (if b = 0 then None
      else let numerator = sint a * sint FIXED_SCALE; result = numerator sdiv sint b
        in if fits_i64 result then Some (of_int result) else None)"

definition to_fixed :: "i64 \<Rightarrow> i64" where
  "to_fixed x = x * FIXED_SCALE"

definition from_fixed :: "i64 \<Rightarrow> i64" where
  "from_fixed x = signed_drop_bit FIXED_SHIFT x"

definition fixed_clamp :: "i64 \<Rightarrow> i64 \<Rightarrow> i64 \<Rightarrow> i64 option" where
  "fixed_clamp x lo hi = (if lo \<le>s hi then Some (smin (smax x lo) hi) else None)"

definition i64_div_checked :: "i64 \<Rightarrow> i64 \<Rightarrow> i64 option" where
  "i64_div_checked a b =
     (if b = 0 \<or> \<not> fits_i64 (sint a sdiv sint b) then None else Some (of_int (sint a sdiv sint b)))"

section \<open>Violations, provenance, ontology\<close>

definition bytes_at :: "nat \<Rightarrow> nat \<Rightarrow> bytes \<Rightarrow> bytes" where
  "bytes_at i j b = take (j - i) (drop i b)"

definition zero_padded :: "nat \<Rightarrow> bytes \<Rightarrow> bytes" where
  "zero_padded n b = take n b @ replicate (n - length b) 0"

datatype ViolationSeverity = T0Abort | T1Alert | T2Warn

fun ViolationSeverity_as_u8 :: "ViolationSeverity \<Rightarrow> u8" where
  "ViolationSeverity_as_u8 T0Abort = 0"
| "ViolationSeverity_as_u8 T1Alert = 1"
| "ViolationSeverity_as_u8 T2Warn = 2"

definition ViolationSeverity_from_byte :: "u8 \<Rightarrow> ViolationSeverity option" where
  "ViolationSeverity_from_byte b =
     (if b = 0 then Some T0Abort else if b = 1 then Some T1Alert else if b = 2 then Some T2Warn else None)"

record InvariantViolation =
  iv_invariant_id :: bytes
  iv_severity :: ViolationSeverity
  iv_holonic_scale :: u8
  iv_observed_fixed :: i64
  iv_expected_fixed :: i64

definition InvariantViolation_new :: "bytes \<Rightarrow> ViolationSeverity \<Rightarrow> i64 \<Rightarrow> i64 \<Rightarrow> u8 \<Rightarrow> InvariantViolation" where
  "InvariantViolation_new i severity observed_fixed expected_fixed holonic_scale =
     \<lparr>iv_invariant_id = zero_padded 16 i, iv_severity = severity, iv_holonic_scale = holonic_scale,
      iv_observed_fixed = observed_fixed, iv_expected_fixed = expected_fixed\<rparr>"

definition InvariantViolation_is_t0_abort :: "InvariantViolation \<Rightarrow> bool" where
  "InvariantViolation_is_t0_abort self \<longleftrightarrow> iv_severity self = T0Abort"

definition InvariantViolation_to_bytes :: "InvariantViolation \<Rightarrow> bytes" where
  "InvariantViolation_to_bytes self =
     iv_invariant_id self @ [ViolationSeverity_as_u8 (iv_severity self), iv_holonic_scale self] @
     le_bytes 8 (iv_observed_fixed self) @ le_bytes 8 (iv_expected_fixed self) @ replicate 4 0"

definition InvariantViolation_from_bytes :: "bytes \<Rightarrow> InvariantViolation option" where
  "InvariantViolation_from_bytes b =
     (case ViolationSeverity_from_byte (b ! 16) of
        None \<Rightarrow> None
      | Some severity \<Rightarrow> Some
          \<lparr>iv_invariant_id = bytes_at 0 16 b, iv_severity = severity, iv_holonic_scale = b ! 17,
           iv_observed_fixed = from_le (bytes_at 18 26 b), iv_expected_fixed = from_le (bytes_at 26 34 b)\<rparr>)"

record ProvenanceReference =
  prf_drive_id :: bytes
  prf_claim_hash :: hash
  prf_tier :: u8

definition ProvenanceReference_new :: "string \<Rightarrow> hash \<Rightarrow> u8 \<Rightarrow> ProvenanceReference" where
  "ProvenanceReference_new drive_id claim_hash tier =
     \<lparr>prf_drive_id = zero_padded 64 (string_bytes drive_id), prf_claim_hash = claim_hash, prf_tier = tier\<rparr>"

definition ProvenanceReference_to_bytes :: "ProvenanceReference \<Rightarrow> bytes" where
  "ProvenanceReference_to_bytes self = prf_drive_id self @ hash_bytes (prf_claim_hash self) @ [prf_tier self]"

definition ProvenanceReference_from_bytes :: "bytes \<Rightarrow> ProvenanceReference" where
  "ProvenanceReference_from_bytes b =
     \<lparr>prf_drive_id = bytes_at 0 64 b, prf_claim_hash = from_be (bytes_at 64 96 b), prf_tier = b ! 96\<rparr>"

record OntologyReference =
  onr_term :: bytes
  onr_ontology_version :: u32

definition OntologyReference_new :: "string \<Rightarrow> u32 \<Rightarrow> OntologyReference" where
  "OntologyReference_new t ontology_version =
     \<lparr>onr_term = zero_padded 128 (string_bytes t), onr_ontology_version = ontology_version\<rparr>"

definition OntologyReference_to_bytes :: "OntologyReference \<Rightarrow> bytes" where
  "OntologyReference_to_bytes self = onr_term self @ le_bytes 4 (onr_ontology_version self)"

definition OntologyReference_from_bytes :: "bytes \<Rightarrow> OntologyReference" where
  "OntologyReference_from_bytes b =
     \<lparr>onr_term = bytes_at 0 128 b, onr_ontology_version = from_le (bytes_at 128 132 b)\<rparr>"

section \<open>Bounded entropy\<close>

record EntropyVector =
  env_value_fixed :: i64
  env_threshold_fixed :: i64
  env_dimensions :: u32

definition EntropyVector_new :: "i64 \<Rightarrow> i64 \<Rightarrow> u32 \<Rightarrow> EntropyVector option" where
  "EntropyVector_new value_fixed threshold_fixed dimensions =
     (if value_fixed <s 0 \<or> dimensions < 2 then None
      else Some \<lparr>env_value_fixed = value_fixed, env_threshold_fixed = threshold_fixed, env_dimensions = dimensions\<rparr>)"

definition EntropyVector_exceeds_threshold :: "EntropyVector \<Rightarrow> bool" where
  "EntropyVector_exceeds_threshold self \<longleftrightarrow> env_threshold_fixed self <s env_value_fixed self"

definition EntropyVector_headroom_ratio_fixed :: "EntropyVector \<Rightarrow> i64 option" where
  "EntropyVector_headroom_ratio_fixed self =
     (if env_threshold_fixed self = 0 then Some 0
      else let numerator = (env_threshold_fixed self - env_value_fixed self) * FIXED_SCALE
        in i64_div_checked numerator (env_threshold_fixed self))"

definition EntropyVector_normalised_fixed :: "EntropyVector \<Rightarrow> i64 option" where
  "EntropyVector_normalised_fixed self =
     (if env_threshold_fixed self = 0 then Some 0 else fixed_div (env_value_fixed self) (env_threshold_fixed self))"

definition EntropyVector_to_bytes :: "EntropyVector \<Rightarrow> bytes" where
  "EntropyVector_to_bytes self =
     le_bytes 8 (env_value_fixed self) @ le_bytes 8 (env_threshold_fixed self) @ le_bytes 4 (env_dimensions self) @ replicate 4 0"

definition EntropyVector_from_bytes :: "bytes \<Rightarrow> EntropyVector option" where
  "EntropyVector_from_bytes b =
     (let value_fixed = from_le (bytes_at 0 8 b); threshold_fixed = from_le (bytes_at 8 16 b);
          dimensions = from_le (bytes_at 16 20 b)
      in if value_fixed <s 0 \<or> dimensions < 2 then None
         else Some \<lparr>env_value_fixed = value_fixed, env_threshold_fixed = threshold_fixed, env_dimensions = dimensions\<rparr>)"

section \<open>Archive versions and headers\<close>

record ArchiveVersion =
  arv_major :: u16
  arv_minor :: u16
  arv_patch :: u16

definition ARCHIVE_V1_0_0 :: ArchiveVersion where
  "ARCHIVE_V1_0_0 = \<lparr>arv_major = 1, arv_minor = 0, arv_patch = 0\<rparr>"

definition ArchiveVersion_to_bytes :: "ArchiveVersion \<Rightarrow> bytes" where
  "ArchiveVersion_to_bytes self = le_bytes 2 (arv_major self) @ le_bytes 2 (arv_minor self) @ le_bytes 2 (arv_patch self)"

definition ArchiveVersion_from_bytes :: "bytes \<Rightarrow> ArchiveVersion" where
  "ArchiveVersion_from_bytes b =
     \<lparr>arv_major = from_le [b ! 0, b ! 1], arv_minor = from_le [b ! 2, b ! 3], arv_patch = from_le [b ! 4, b ! 5]\<rparr>"

definition ArchiveVersion_is_compatible_with :: "ArchiveVersion \<Rightarrow> ArchiveVersion \<Rightarrow> bool" where
  "ArchiveVersion_is_compatible_with self archive \<longleftrightarrow> arv_major self = arv_major archive"

definition ArchiveVersion_assert_compatible :: "ArchiveVersion \<Rightarrow> ArchiveVersion \<Rightarrow> unit option" where
  "ArchiveVersion_assert_compatible self archive =
     (if ArchiveVersion_is_compatible_with self archive then Some () else None)"

record ArchiveHeader =
  arh_archive_version :: ArchiveVersion
  arh_archived_at_sequence :: u64
  arh_total_cycles :: u64
  arh_entropy_at_start :: i64
  arh_entropy_at_end :: "i64 option"
  arh_integrity_hash :: hash

definition ArchiveHeader_to_bytes :: "ArchiveHeader \<Rightarrow> bytes" where
  "ArchiveHeader_to_bytes self =
     (let (eta_val, has_eta) = (case arh_entropy_at_end self of None \<Rightarrow> (0, 0 :: u16) | Some e \<Rightarrow> (e, 1))
      in ArchiveVersion_to_bytes (arh_archive_version self) @ le_bytes 8 (arh_archived_at_sequence self) @
         le_bytes 8 (arh_total_cycles self) @ le_bytes 8 (arh_entropy_at_start self) @ le_bytes 8 eta_val @
         le_bytes 2 has_eta @ hash_bytes (arh_integrity_hash self) @ replicate 46 0)"

definition ArchiveHeader_from_bytes :: "bytes \<Rightarrow> ArchiveHeader option" where
  "ArchiveHeader_from_bytes b =
     (let eta_raw = from_le (bytes_at 30 38 b); has_eta = (from_le (bytes_at 38 40 b) :: u16)
      in Some
         \<lparr>arh_archive_version = ArchiveVersion_from_bytes (bytes_at 0 6 b),
          arh_archived_at_sequence = from_le (bytes_at 6 14 b), arh_total_cycles = from_le (bytes_at 14 22 b),
          arh_entropy_at_start = from_le (bytes_at 22 30 b),
          arh_entropy_at_end = (if has_eta = 1 then Some eta_raw else None),
          arh_integrity_hash = from_be (bytes_at 40 72 b)\<rparr>)"

section \<open>Attestations\<close>

definition VERIFIER_V4_STATISTICAL :: u8 where
  "VERIFIER_V4_STATISTICAL = 4"

definition VCG_WEIGHT_EXCLUDED_CLASS :: u8 where
  "VCG_WEIGHT_EXCLUDED_CLASS = VERIFIER_V4_STATISTICAL"

record VerifierAttestation =
  vat_verifier_id :: bytes
  vat_artifact_hash :: hash
  vat_passed :: bool
  vat_verifier_class :: u8
  vat_archive_version :: ArchiveVersion

definition VerifierAttestation_new :: "string \<Rightarrow> hash \<Rightarrow> bool \<Rightarrow> u8 \<Rightarrow> VerifierAttestation" where
  "VerifierAttestation_new verifier_id artifact_hash passed verifier_class =
     \<lparr>vat_verifier_id = zero_padded 64 (string_bytes verifier_id), vat_artifact_hash = artifact_hash, vat_passed = passed,
      vat_verifier_class = verifier_class, vat_archive_version = ARCHIVE_V1_0_0\<rparr>"

definition VerifierAttestation_is_vcg_admissible :: "VerifierAttestation \<Rightarrow> bool" where
  "VerifierAttestation_is_vcg_admissible self \<longleftrightarrow> vat_verifier_class self < VCG_WEIGHT_EXCLUDED_CLASS"

definition VerifierAttestation_to_bytes :: "VerifierAttestation \<Rightarrow> bytes" where
  "VerifierAttestation_to_bytes self =
     vat_verifier_id self @ hash_bytes (vat_artifact_hash self) @ [of_bool (vat_passed self), vat_verifier_class self] @
     replicate 2 0 @ ArchiveVersion_to_bytes (vat_archive_version self)"

definition VerifierAttestation_from_bytes :: "bytes \<Rightarrow> VerifierAttestation option" where
  "VerifierAttestation_from_bytes b =
     (case (if b ! 96 = 0 then Some False else if b ! 96 = 1 then Some True else None) of
        None \<Rightarrow> None
      | Some passed \<Rightarrow> Some
          \<lparr>vat_verifier_id = bytes_at 0 64 b, vat_artifact_hash = from_be (bytes_at 64 96 b), vat_passed = passed,
           vat_verifier_class = b ! 97, vat_archive_version = ArchiveVersion_from_bytes (bytes_at 100 106 b)\<rparr>)"

section \<open>The replay ledger\<close>

type_synonym chain_hasher = "hash \<Rightarrow> hash \<Rightarrow> u64 \<Rightarrow> hash"

record ReplayEvent =
  rpe_sequence :: u64
  rpe_event_type :: u32
  rpe_payload_hash :: hash
  rpe_prev_hash :: hash
  rpe_archive_version :: bytes

definition ReplayEvent_to_bytes :: "ReplayEvent \<Rightarrow> bytes" where
  "ReplayEvent_to_bytes self =
     le_bytes 8 (rpe_sequence self) @ le_bytes 4 (rpe_event_type self) @ hash_bytes (rpe_payload_hash self) @
     hash_bytes (rpe_prev_hash self) @ rpe_archive_version self"

definition ReplayEvent_from_bytes :: "bytes \<Rightarrow> ReplayEvent option" where
  "ReplayEvent_from_bytes b = Some
     \<lparr>rpe_sequence = from_le (bytes_at 0 8 b), rpe_event_type = from_le (bytes_at 8 12 b),
      rpe_payload_hash = from_be (bytes_at 12 44 b), rpe_prev_hash = from_be (bytes_at 44 76 b),
      rpe_archive_version = bytes_at 76 82 b\<rparr>"

record ReplayLedger =
  rpl_events :: "ReplayEvent list"

definition ReplayLedger_new :: ReplayLedger where
  "ReplayLedger_new = \<lparr>rpl_events = []\<rparr>"

definition ReplayLedger_append :: "u32 \<Rightarrow> hash \<Rightarrow> chain_hasher \<Rightarrow> ReplayLedger \<Rightarrow> u64 \<times> ReplayLedger" where
  "ReplayLedger_append event_type payload_hash hasher self =
     (let sequence = of_nat (length (rpl_events self));
          prev_hash = (if rpl_events self = [] then genesis
            else let prev = last (rpl_events self)
              in hasher (rpe_prev_hash prev) (rpe_payload_hash prev) (rpe_sequence prev))
      in (sequence, self\<lparr>rpl_events := rpl_events self @
            [\<lparr>rpe_sequence = sequence, rpe_event_type = event_type, rpe_payload_hash = payload_hash,
              rpe_prev_hash = prev_hash, rpe_archive_version = ArchiveVersion_to_bytes ARCHIVE_V1_0_0\<rparr>]\<rparr>))"

definition ReplayLedger_verify_structural :: "chain_hasher \<Rightarrow> ReplayLedger \<Rightarrow> bool" where
  "ReplayLedger_verify_structural hasher self \<longleftrightarrow>
     list_all (\<lambda>i. let event = rpl_events self ! i in
         rpe_sequence event = of_nat i \<and>
         (if i = 0 then rpe_prev_hash event = genesis
          else let prev = rpl_events self ! (i - 1)
            in rpe_prev_hash event = hasher (rpe_prev_hash prev) (rpe_payload_hash prev) (rpe_sequence prev)))
       [0..<length (rpl_events self)]"

definition ReplayLedger_get :: "u64 \<Rightarrow> ReplayLedger \<Rightarrow> ReplayEvent option" where
  "ReplayLedger_get sequence self = nth_opt (unat sequence) (rpl_events self)"

section \<open>Facts of the formats and of the ledger\<close>

lemma severity_byte [simp]: "ViolationSeverity_from_byte (ViolationSeverity_as_u8 s) = Some s"
  by (cases s) (simp_all add: ViolationSeverity_from_byte_def)

lemma bytes_at_first: "length a = n \<Longrightarrow> bytes_at 0 n (a @ r) = a"
  by (simp add: bytes_at_def)

lemma bytes_at_next:
  "length a \<le> i \<Longrightarrow> bytes_at i j (a @ r) = bytes_at (i - length a) (j - length a) r"
  by (simp add: bytes_at_def)

lemma bytes_at_rest: "length a = n \<Longrightarrow> bytes_at 0 n a = a"
  by (simp add: bytes_at_def)

lemma bytes_at_skip: "0 < i \<Longrightarrow> bytes_at i j (x # r) = bytes_at (i - 1) (j - 1) r"
  by (cases i) (simp_all add: bytes_at_def)

lemma hash_from_bytes [simp]: "(from_be (hash_bytes h) :: hash) = h"
  by (simp add: hash_bytes_def from_be_be_bytes_id)

lemma from_le_le_id:
  "from_le (le_bytes 2 (a :: u16)) = a" "from_le (le_bytes 4 (b :: u32)) = b" "from_le (le_bytes 8 (c :: u64)) = c"
  by (simp_all add: from_le_le_bytes_id)

lemmas format_simps = bytes_at_first bytes_at_next bytes_at_rest bytes_at_skip nth_append from_le_le_id

lemma violation_format:
  "length (iv_invariant_id v) = 16 \<Longrightarrow> length (InvariantViolation_to_bytes v) = 38 \<and>
     InvariantViolation_from_bytes (InvariantViolation_to_bytes v) = Some v"
  by (simp add: InvariantViolation_to_bytes_def InvariantViolation_from_bytes_def format_simps)

lemma provenance_format:
  "length (prf_drive_id p) = 64 \<Longrightarrow> length (ProvenanceReference_to_bytes p) = 97 \<and>
     ProvenanceReference_from_bytes (ProvenanceReference_to_bytes p) = p"
  by (simp add: ProvenanceReference_to_bytes_def ProvenanceReference_from_bytes_def format_simps)

lemma ontology_format:
  "length (onr_term t) = 128 \<Longrightarrow> length (OntologyReference_to_bytes t) = 132 \<and>
     OntologyReference_from_bytes (OntologyReference_to_bytes t) = t"
  by (simp add: OntologyReference_to_bytes_def OntologyReference_from_bytes_def format_simps)

lemma entropy_format:
  "\<not> env_value_fixed e <s 0 \<Longrightarrow> \<not> env_dimensions e < 2 \<Longrightarrow> length (EntropyVector_to_bytes e) = 24 \<and>
     EntropyVector_from_bytes (EntropyVector_to_bytes e) = Some e"
  by (simp add: EntropyVector_to_bytes_def EntropyVector_from_bytes_def format_simps Let_def)

lemma le2_explicit: "le_bytes 2 (w :: u16) = [ucast w, ucast (drop_bit 8 w)]"
  by (simp add: numeral_2_eq_2)

lemma version_format:
  "length (ArchiveVersion_to_bytes a) = 6 \<and> ArchiveVersion_from_bytes (ArchiveVersion_to_bytes a) = a"
proof -
  have "from_le [ucast w, ucast (drop_bit 8 w)] = (w :: u16)" for w
    unfolding le2_explicit [symmetric] by (rule from_le_le_id)
  then show ?thesis
    by (simp add: ArchiveVersion_to_bytes_def ArchiveVersion_from_bytes_def le2_explicit del: from_le.simps)
qed

lemma header_format:
  "length (ArchiveHeader_to_bytes h) = 118 \<and> ArchiveHeader_from_bytes (ArchiveHeader_to_bytes h) = Some h"
  using version_format [of "arh_archive_version h"]
  by (cases "arh_entropy_at_end h")
    (simp_all add: ArchiveHeader_to_bytes_def ArchiveHeader_from_bytes_def format_simps Let_def)

lemma attestation_format:
  "length (vat_verifier_id t) = 64 \<Longrightarrow> length (VerifierAttestation_to_bytes t) = 106 \<and>
     VerifierAttestation_from_bytes (VerifierAttestation_to_bytes t) = Some t"
  using version_format [of "vat_archive_version t"]
  by (cases "vat_passed t") (simp_all add: VerifierAttestation_to_bytes_def VerifierAttestation_from_bytes_def format_simps)

lemma event_format:
  "length (rpe_archive_version e) = 6 \<Longrightarrow> length (ReplayEvent_to_bytes e) = 82 \<and>
     ReplayEvent_from_bytes (ReplayEvent_to_bytes e) = Some e"
  by (simp add: ReplayEvent_to_bytes_def ReplayEvent_from_bytes_def format_simps)

definition ledger_of :: "chain_hasher \<Rightarrow> (u32 \<times> hash) list \<Rightarrow> ReplayLedger" where
  "ledger_of hasher inputs = foldl (\<lambda>l (t, p). snd (ReplayLedger_append t p hasher l)) ReplayLedger_new inputs"

definition event_input :: "ReplayEvent \<Rightarrow> u32 \<times> hash" where
  "event_input e = (rpe_event_type e, rpe_payload_hash e)"

definition stamped :: "ReplayEvent \<Rightarrow> ReplayEvent" where
  "stamped e = e\<lparr>rpe_archive_version := ArchiveVersion_to_bytes ARCHIVE_V1_0_0\<rparr>"

definition chain_next :: "chain_hasher \<Rightarrow> ReplayEvent list \<Rightarrow> hash" where
  "chain_next hasher es = (if es = [] then genesis
     else hasher (rpe_prev_hash (last es)) (rpe_payload_hash (last es)) (rpe_sequence (last es)))"

lemma chain_next_stamped: "chain_next hasher (map stamped es) = chain_next hasher es"
  by (simp add: chain_next_def last_map stamped_def)

lemma verify_snoc:
  "ReplayLedger_verify_structural hasher \<lparr>rpl_events = es @ [e]\<rparr> \<longleftrightarrow>
   ReplayLedger_verify_structural hasher \<lparr>rpl_events = es\<rparr> \<and>
   rpe_sequence e = of_nat (length es) \<and> rpe_prev_hash e = chain_next hasher es"
proof -
  have "last es = es ! (length es - 1)" if "es \<noteq> []" using that by (rule last_conv_nth)
  then show ?thesis
    by (auto simp: ReplayLedger_verify_structural_def chain_next_def list_all_iff nth_append Let_def)
qed

lemma ledger_of_snoc:
  "rpl_events (ledger_of hasher (map event_input (es @ [e]))) =
     (let ls = rpl_events (ledger_of hasher (map event_input es)) in
      ls @ [\<lparr>rpe_sequence = of_nat (length ls), rpe_event_type = rpe_event_type e, rpe_payload_hash = rpe_payload_hash e,
             rpe_prev_hash = chain_next hasher ls, rpe_archive_version = ArchiveVersion_to_bytes ARCHIVE_V1_0_0\<rparr>])"
  by (simp add: ledger_of_def event_input_def ReplayLedger_append_def chain_next_def Let_def)

lemma length_ledger_of: "length (rpl_events (ledger_of hasher inputs)) = length inputs"
  by (induction inputs rule: rev_induct)
    (auto simp: ledger_of_def ReplayLedger_new_def ReplayLedger_append_def Let_def split: prod.splits)

lemma verify_iff_replayed:
  "ReplayLedger_verify_structural hasher \<lparr>rpl_events = es\<rparr> \<longleftrightarrow>
   map stamped es = rpl_events (ledger_of hasher (map event_input es))"
proof (induction es rule: rev_induct)
  case Nil
  then show ?case by (simp add: ReplayLedger_verify_structural_def ledger_of_def ReplayLedger_new_def)
next
  case (snoc e es)
  let ?ls = "rpl_events (ledger_of hasher (map event_input es))"
  have l: "length ?ls = length es" by (simp add: length_ledger_of)
  have "map stamped (es @ [e]) = rpl_events (ledger_of hasher (map event_input (es @ [e]))) \<longleftrightarrow>
      map stamped es = ?ls \<and> rpe_sequence e = of_nat (length es) \<and> rpe_prev_hash e = chain_next hasher ?ls"
    unfolding ledger_of_snoc Let_def l by (cases e) (simp add: stamped_def)
  also have "\<dots> \<longleftrightarrow> map stamped es = ?ls \<and> rpe_sequence e = of_nat (length es) \<and> rpe_prev_hash e = chain_next hasher es"
    by (metis chain_next_stamped)
  finally show ?case unfolding verify_snoc snoc.IH by simp
qed

lemma ledger_of_verifies: "ReplayLedger_verify_structural hasher (ledger_of hasher inputs)"
proof (induction inputs rule: rev_induct)
  case Nil
  then show ?case by (simp add: ReplayLedger_verify_structural_def ledger_of_def ReplayLedger_new_def)
next
  case (snoc x xs)
  define es where "es = rpl_events (ledger_of hasher xs)"
  have l: "ledger_of hasher xs = \<lparr>rpl_events = es\<rparr>" by (simp add: es_def)
  obtain t p where x: "x = (t, p)" by (cases x)
  have "ledger_of hasher (xs @ [x]) = snd (ReplayLedger_append t p hasher (ledger_of hasher xs))"
    by (simp add: ledger_of_def x)
  also have "\<dots> = \<lparr>rpl_events = es @ [\<lparr>rpe_sequence = of_nat (length es), rpe_event_type = t, rpe_payload_hash = p,
      rpe_prev_hash = chain_next hasher es, rpe_archive_version = ArchiveVersion_to_bytes ARCHIVE_V1_0_0\<rparr>]\<rparr>"
    unfolding l by (simp add: ReplayLedger_append_def chain_next_def Let_def)
  finally show ?case using snoc.IH unfolding l by (simp add: verify_snoc)
qed

lemma verify_map:
  assumes "\<And>e. rpe_sequence (f e) = rpe_sequence e \<and> rpe_payload_hash (f e) = rpe_payload_hash e \<and> rpe_prev_hash (f e) = rpe_prev_hash e"
  shows "ReplayLedger_verify_structural hasher \<lparr>rpl_events = map f es\<rparr> = ReplayLedger_verify_structural hasher \<lparr>rpl_events = es\<rparr>"
proof (induction es rule: rev_induct)
  case (snoc e es)
  have "chain_next hasher (map f es) = chain_next hasher es" using assms by (simp add: chain_next_def last_map)
  then show ?case using snoc.IH assms by (simp add: verify_snoc)
qed simp

text \<open>
  C39.  A ledger passes the structural verification exactly if it is, up to the archive versions, the ledger that appending
  its own events builds; what the operations build always passes.  The verification does not look at the types of the
  events, at their archive versions, nor at the payload of the last one: changing them is not noticed.
\<close>

theorem replay_ledger_exact:
  "(ReplayLedger_verify_structural hasher \<lparr>rpl_events = es\<rparr> \<longleftrightarrow>
     map stamped es = rpl_events (ledger_of hasher (map event_input es))) \<and>
   ReplayLedger_verify_structural hasher (ledger_of hasher inputs) \<and>
   ReplayLedger_verify_structural hasher
     \<lparr>rpl_events = map (\<lambda>e. e\<lparr>rpe_event_type := t e, rpe_archive_version := v e\<rparr>) es\<rparr>
     = ReplayLedger_verify_structural hasher \<lparr>rpl_events = es\<rparr> \<and>
   ReplayLedger_verify_structural hasher \<lparr>rpl_events = es @ [e\<lparr>rpe_payload_hash := p\<rparr>]\<rparr>
     = ReplayLedger_verify_structural hasher \<lparr>rpl_events = es @ [e]\<rparr>"
  by (intro conjI verify_iff_replayed ledger_of_verifies verify_map) (simp_all add: verify_snoc)

text \<open>
  C40.  The wire formats of the substrate: each value encodes to its documented number of bytes and decodes to itself, as
  long as its arrays have their lengths and an entropy is not negative and has two dimensions.
\<close>

theorem substrate_formats_roundtrip:
  assumes "length (iv_invariant_id w) = 16" "length (prf_drive_id p) = 64" "length (onr_term t) = 128"
    and "\<not> env_value_fixed e <s 0" "\<not> env_dimensions e < 2"
    and "length (vat_verifier_id a) = 64" "length (rpe_archive_version r) = 6"
  shows "length (InvariantViolation_to_bytes w) = 38 \<and> InvariantViolation_from_bytes (InvariantViolation_to_bytes w) = Some w \<and>
    length (ProvenanceReference_to_bytes p) = 97 \<and> ProvenanceReference_from_bytes (ProvenanceReference_to_bytes p) = p \<and>
    length (OntologyReference_to_bytes t) = 132 \<and> OntologyReference_from_bytes (OntologyReference_to_bytes t) = t \<and>
    length (EntropyVector_to_bytes e) = 24 \<and> EntropyVector_from_bytes (EntropyVector_to_bytes e) = Some e \<and>
    length (ArchiveHeader_to_bytes h) = 118 \<and> ArchiveHeader_from_bytes (ArchiveHeader_to_bytes h) = Some h \<and>
    length (VerifierAttestation_to_bytes a) = 106 \<and> VerifierAttestation_from_bytes (VerifierAttestation_to_bytes a) = Some a \<and>
    length (ReplayEvent_to_bytes r) = 82 \<and> ReplayEvent_from_bytes (ReplayEvent_to_bytes r) = Some r"
  using violation_format [OF assms(1)] provenance_format [OF assms(2)] ontology_format [OF assms(3)]
    entropy_format [OF assms(4,5)] header_format [of h] attestation_format [OF assms(6)] event_format [OF assms(7)]
  by simp

lemma length_zero_padded [simp]: "length (zero_padded n b) = n"
  by (simp add: zero_padded_def)

theorem substrate_formats_roundtrip_witness:
  "let w = InvariantViolation_new [73, 78, 86] T0Abort 5 7 1; p = ProvenanceReference_new ''doc'' 9 0;
       t = OntologyReference_new ''Entropy'' 1; e = \<lparr>env_value_fixed = 3, env_threshold_fixed = 9, env_dimensions = 2\<rparr>;
       h = \<lparr>arh_archive_version = ARCHIVE_V1_0_0, arh_archived_at_sequence = 4, arh_total_cycles = 4, arh_entropy_at_start = 0,
            arh_entropy_at_end = Some 8, arh_integrity_hash = 77\<rparr>;
       a = VerifierAttestation_new ''v1'' 5 True 1;
       r = \<lparr>rpe_sequence = 0, rpe_event_type = 2, rpe_payload_hash = 6, rpe_prev_hash = genesis,
            rpe_archive_version = ArchiveVersion_to_bytes ARCHIVE_V1_0_0\<rparr>
   in InvariantViolation_from_bytes (InvariantViolation_to_bytes w) = Some w \<and>
      EntropyVector_from_bytes (EntropyVector_to_bytes e) = Some e \<and>
      ArchiveHeader_from_bytes (ArchiveHeader_to_bytes h) = Some h \<and>
      VerifierAttestation_from_bytes (VerifierAttestation_to_bytes a) = Some a \<and>
      ReplayEvent_from_bytes (ReplayEvent_to_bytes r) = Some r"
proof -
  have s: "\<not> (3 :: i64) <s 0" by code_simp
  show ?thesis
    unfolding Let_def
    using substrate_formats_roundtrip
      [where w = "InvariantViolation_new [73, 78, 86] T0Abort 5 7 1" and p = "ProvenanceReference_new ''doc'' 9 0"
        and t = "OntologyReference_new ''Entropy'' 1" and e = "\<lparr>env_value_fixed = 3, env_threshold_fixed = 9, env_dimensions = 2\<rparr>"
        and a = "VerifierAttestation_new ''v1'' 5 True 1"
        and h = "\<lparr>arh_archive_version = ARCHIVE_V1_0_0, arh_archived_at_sequence = 4, arh_total_cycles = 4, arh_entropy_at_start = 0,
            arh_entropy_at_end = Some 8, arh_integrity_hash = 77\<rparr>"
        and r = "\<lparr>rpe_sequence = 0, rpe_event_type = 2, rpe_payload_hash = 6, rpe_prev_hash = genesis,
            rpe_archive_version = ArchiveVersion_to_bytes ARCHIVE_V1_0_0\<rparr>"] s version_format [of ARCHIVE_V1_0_0]
    by (simp add: InvariantViolation_new_def ProvenanceReference_new_def OntologyReference_new_def VerifierAttestation_new_def)
qed

section \<open>Facts of the arithmetic\<close>

lemma sint_of_fitting: "fits_i64 x \<Longrightarrow> sint (of_int x :: i64) = x"
  by (simp add: fits_i64_def signed_of_int signed_take_bit_int_eq_self)

lemma fixed_mul_exact:
  "case fixed_mul a b of
     None \<Rightarrow> \<not> fits_i64 (sint a * sint b div 65536)
   | Some r \<Rightarrow> sint r = sint a * sint b div 65536"
  by (simp add: fixed_mul_def FIXED_SHIFT_def drop_bit_eq_div Let_def sint_of_fitting)

lemma sint_fixed_scale: "sint FIXED_SCALE = 65536"
  by (simp add: FIXED_SCALE_def FIXED_SHIFT_def push_bit_eq_mult)

lemma fixed_div_exact:
  "case fixed_div a b of
     None \<Rightarrow> b = 0 \<or> \<not> fits_i64 (sint a * 65536 sdiv sint b)
   | Some r \<Rightarrow> sint r = sint a * 65536 sdiv sint b"
  by (simp add: fixed_div_def sint_fixed_scale Let_def sint_of_fitting)

lemma headroom_wraps:
  "EntropyVector_headroom_ratio_fixed \<lparr>env_value_fixed = 0, env_threshold_fixed = 2 ^ 48, env_dimensions = 2\<rparr> = Some 0"
  by code_simp

lemma headroom_exact:
  assumes "env_threshold_fixed e \<noteq> 0" "fits_i64 (sint (env_threshold_fixed e) - sint (env_value_fixed e))"
    and "fits_i64 ((sint (env_threshold_fixed e) - sint (env_value_fixed e)) * 65536)"
  shows "EntropyVector_headroom_ratio_fixed e = fixed_div (env_threshold_fixed e - env_value_fixed e) (env_threshold_fixed e)"
proof -
  have d: "sint (env_threshold_fixed e - env_value_fixed e) = sint (env_threshold_fixed e) - sint (env_value_fixed e)"
    using sint_of_fitting [OF assms(2)] by simp
  have "of_int ((sint (env_threshold_fixed e) - sint (env_value_fixed e)) * 65536)
      = (env_threshold_fixed e - env_value_fixed e) * FIXED_SCALE"
    by (simp add: FIXED_SCALE_def FIXED_SHIFT_def push_bit_eq_mult)
  then have "sint ((env_threshold_fixed e - env_value_fixed e) * FIXED_SCALE)
      = (sint (env_threshold_fixed e) - sint (env_value_fixed e)) * 65536"
    using sint_of_fitting [OF assms(3)] by simp
  then show ?thesis using assms(1)
    by (simp add: EntropyVector_headroom_ratio_fixed_def i64_div_checked_def fixed_div_def Let_def d sint_fixed_scale)
qed
end
