(* ===== verification/Spec2Isabelle.thy ===== *)
theory Spec2Isabelle
  imports Prelude Ordered_Map Lattice_Dag Hash_Chain Token_Bucket Nonce_Cache Sequence_Tracker Ack_Tracker
    Retry_Scheduler Priority_Queue Fragmenter Validation_Dfa Hysteresis Frames State_Anchor
    Domain_Firewall Semantic_Graph Semantic_Algebra Acoustic_Dfa Affine_Canvas Autonode_Node
    Spsf_Store Spsf_Compactor Spsf_Verifier Node_State_Machine Quorum_Guard Epochs Flood_Guard
    Message_Deduplicator Rate_Monitor Rate_Monitors Journal Routing_Table Connection_Pool Peer_Blocklist
    Session_Tracker Spsf_Scheduler Spsf_Manager Gossip_Broadcaster Gossip_Router
    Epoch_Log Gossip_Peer_Logs Gossip_Delivery_Logs Gossip_Epoch_Logs Swarm_Health System_Health Recovery
    Compaction_Health Compaction_Broadcast Compaction_Gossip_Health Compaction_Gossip_Broadcast
    Compaction_Seals Synthesis Peer_Quality Peer_Limits Peer_Registry Peer_Messages Peer_Selection
    Epoch_Ledgers Fault_Handling Mesh_Frames Mesh_Geometry Mesh_Control
    Lineage_Compactor Substrate
begin

text \<open>
  A verification library of the AEGIS mesh: the Rust crates \<open>src/aegis-cl-psi\<close> (the gossip layer, some
  400 modules \<open>src/*.rs\<close>, each a data structure with a hash-chained log of its decisions) and
  \<open>src/aegis-runtime\<close> (the autonomous node and its pillars).

  \<^bold>\<open>How the code is modelled.\<close>  A struct is a record, an enum a datatype, \<open>T::method\<close> the definition
  \<open>T_method\<close>; a method on \<open>&mut self\<close> takes the state and returns the result with the new state; an
  error is an \<open>Inl\<close>, a panic \<open>None\<close>.  Machine integers are words of their width, unchecked additions
  wrap, saturating ones are \<open>sat_add\<close> and its like; a \<open>usize\<close> is a natural number where it is a length,
  an index or a count, and its products wrap at 64 bits (\<open>usize_mul\<close>).  SHA-256 is a parameter \<open>sha\<close> of which nothing is
  assumed: what rests on it is stated as ``or the hash was forged'', \<open>forgery\<close> being two byte strings
  among those hashed with one hash, or one with the genesis hash.  Files, sockets, clocks and other
  threads are arguments: the content of the file, the outcome of each call, the interleaving of steps.

  \<^bold>\<open>Foundations.\<close>  \<open>Prelude\<close>: integers, byte encodings, runs of a machine and the locales of an invariant,
  a budget and a purged view.  \<open>Ordered_Map\<close>: \<open>BTreeMap\<close> and \<open>BTreeSet\<close>.  \<open>Hash_Chain\<close>: the chain of
  records, \<open>verify_chain\<close>, and the locale \<open>hash_log\<close> of its tamper evidence, interpreted for every log.
  \<open>Epochs\<close>: the greatest epoch seen and the messages since it last advanced.  \<open>Journal\<close>: the locale of a
  table every change of which is logged; the log determines the table, and so does its terminal hash.

  \<^bold>\<open>The gossip layer.\<close>  \<open>Token_Bucket\<close>, \<open>Flood_Guard\<close>: rate limits, bounds on what they let through.
  \<open>Nonce_Cache\<close>, \<open>Message_Deduplicator\<close>, \<open>Sequence_Tracker\<close>: replays and duplicates, decided exactly.
  \<open>Ack_Tracker\<close>, \<open>Retry_Scheduler\<close>: delivery, with the books balanced and the expiry and the backoff
  exact.  \<open>Priority_Queue\<close>, \<open>Fragmenter\<close>: the order of messages, and their reassembly.
  \<open>Node_State_Machine\<close>, \<open>Quorum_Guard\<close>: the life of a node as the paths of a relation, the health of the
  quorum.  \<open>Routing_Table\<close>, \<open>Connection_Pool\<close>, \<open>Peer_Blocklist\<close>, \<open>Session_Tracker\<close>: who is reached
  through whom, who is connected, barred or in a session, each table the replay of its journal.
  \<open>Gossip_Broadcaster\<close>, \<open>Gossip_Router\<close>: the packets a node sends and forwards; a mesh of routers as a
  transition system whose runs all end.  \<open>Spsf_Store\<close>, \<open>Spsf_Compactor\<close>, \<open>Spsf_Verifier\<close>: the
  persistence layer, its compaction and its audit, put together in this file; \<open>Spsf_Scheduler\<close>,
  \<open>Spsf_Manager\<close>: when a compaction is due, and the manager that runs it and keeps the history.
  \<open>Rate_Monitor\<close>, \<open>Rate_Monitors\<close>: the 185 modules \<open>gossip_broadcast_*.rs\<close>, a definition each, and
  what holds of every one.

  \<^bold>\<open>Logs of an epoch.\<close>  Most modules of the mesh are one pattern: figures of an epoch are weighed into a verdict and
  appended to a hash-chained log.  \<open>Epoch_Log\<close>: slices, extremes, stable sorting, and the contract of such a log, a
  locale that each of them interprets.  For every log a lemma \<open>..._bytes_inj\<close> says its hashed bytes determine the
  record, \<open>..._verify_iff\<close> that \<open>verify_chain\<close> accepts exactly the linked records with their hashes, and \<open>..._ok\<close>
  that its operations keep it so.  \<open>Gossip_Peer_Logs\<close>, \<open>Gossip_Delivery_Logs\<close>, \<open>Gossip_Epoch_Logs\<close>: \<open>gossip_*.rs\<close>.
  \<open>Swarm_Health\<close>, \<open>System_Health\<close>: the health of swarm and system, alerts, phases, dashboards.  \<open>Recovery\<close>: plans,
  sequences and their statuses.  \<open>Compaction_Health\<close>, \<open>Compaction_Broadcast\<close>, \<open>Compaction_Gossip_Health\<close>,
  \<open>Compaction_Gossip_Broadcast\<close>, \<open>Compaction_Seals\<close>: \<open>compaction_*.rs\<close>, from the frames of a seal to the peers that
  get them.  \<open>Synthesis\<close>: compaction of the gossip health, synthesis, verdicts, resilience.

  \<^bold>\<open>Peers and epochs.\<close>  \<open>Peer_Quality\<close>, \<open>Peer_Limits\<close>, \<open>Peer_Registry\<close>: latency, heartbeats, scores, decay, rates,
  capabilities, addresses.  \<open>Peer_Messages\<close>: subscriptions, caches, authentication, and the lifetime of a message.
  \<open>Peer_Selection\<close>: partitions of the mesh, found by a breadth-first search, the selection of peers, intervals, fanout.
  \<open>Epoch_Ledgers\<close>: synchronisation, watermarks, certificates, consensus rounds, and the archive of snapshots.
  \<open>Fault_Handling\<close>: census, faults, plans.  \<open>Mesh_Frames\<close>: the state frame, its validation, the beacon and the
  telemetry packet.  \<open>Mesh_Geometry\<close>: pyramid, dodecagon and its router, letters, rings.  \<open>Mesh_Control\<close>: the scheduler
  of states, backpressure, the spread of gossip.  \<open>Lineage_Compactor\<close>: packing of old epochs and reading them back.
  \<open>Lattice_Dag\<close>: the paths that the types of the program admit.

  \<^bold>\<open>The node.\<close>  \<open>State_Anchor\<close>, \<open>Domain_Firewall\<close>, \<open>Semantic_Algebra\<close>, \<open>Acoustic_Dfa\<close>, \<open>Affine_Canvas\<close>,
  \<open>Semantic_Graph\<close>, \<open>Validation_Dfa\<close>, \<open>Frames\<close>, \<open>Hysteresis\<close>: the pillars.  \<open>Autonode_Node\<close>: the node
  that holds them, its verdict and its beacon.  \<open>Substrate\<close>: the crate \<open>src/crates/constitutional-substrate\<close>, fixed-point
  arithmetic, wire formats and the replay ledger over a hasher given by its callers.

  \<^bold>\<open>What is proved.\<close>  For each component an invariant over any sequence of its operations, the exact
  effect of the operations that decide something, and the tamper evidence of its log; equivalences with
  a grammar, a path relation, a breadth-first distance, a geometric series; round trips of the wire and file formats;
  the refinement of a table by its journal; that flooding ends, with the nodes it reaches, and that a backlog of compactions is worked
  off; the composition of components where one consumes what another makes.  Where the code does not do what it
  says, a lemma shows it on an input.

  \<^bold>\<open>Bounds and partiality.\<close>  Loops over a structure are structural recursion; the
  traversal of \<open>Semantic_Graph\<close> and the chain of needs in \<open>Semantic_Algebra\<close> have termination proofs; the
  traversal of \<open>Semantic_Algebra\<close>, which may run forever, is a partial function proved to return where
  it does.  Three loops have fuel, and a theorem that it is enough: the search of \<open>Peer_Selection\<close> (one round for
  each node and one more), the eviction of \<open>Epoch_Ledgers\<close> (one for each record and one more), the router of
  \<open>Mesh_Geometry\<close> (thirteen).  A theorem about counters that saturate or wrap says below which count it holds.

  \<^bold>\<open>Not modelled\<close> are the floating-point modules of \<open>aegis-cl-psi\<close> (routing splines, state caches, Lyapunov and
  Wasserstein monitors, resonance, coherence and chords, and the pipelines and swarm nodes whose types hold their
  values), as that arithmetic has no counterpart here; the modules that write JSON or check the signatures of
  another crate (audit, compliance, edge verifier); command line, cloud bridge and browser bindings; the crates
  \<open>eccf\<close>, \<open>gcce\<close> and the hypervisor, which no modelled crate uses; and the display of values as text.
\<close>

section \<open>Properties that span components\<close>

definition history_entries :: "SovereignPersistenceLayer \<Rightarrow> entry list" where
  "history_entries l = map (\<lambda>r. (sf_sequence_id r, sf_state_hash r)) (bt_values (sl_index l))"

text \<open>
  C21.  A store can be compacted and audited: after any calls without a failing write, the entries of
  the index, compacted to the last \<open>k\<close> of them, verify against the anchor, and the terminal hash of the
  audit is that of the chain over all the entries, dropped ones included.
\<close>

theorem store_compaction_audits:
  assumes "SovereignPersistenceLayer_open io root None = (Inr l, f)"
    and "list_all faultless ops" and "length ops < 2 ^ 64"
    and "es = history_entries (snd (run spsf_step ops (f, l)))" and "es \<noteq> []" and "0 < k"
  shows "let c = compact sha \<lparr>ci_entries = es, ci_retain_count = k, ci_compaction_epoch = epoch\<rparr>;
             v = verify_suffix sha (cr_anchor c) (drop (cr_pruned_count c) es)
    in vr_verdict v = Verified \<and> vr_suffix_terminal_hash v = chain_from sha genesis es \<and>
       vr_verified_count v = min k (length es)"
proof -
  let ?inp = "\<lparr>ci_entries = es, ci_retain_count = k, ci_compaction_epoch = epoch\<rparr>"
  let ?n = "length es - k" and ?m = "sl_index (snd (run spsf_step ops (f, l)))"
  obtain seg where seg: "index_of seg ?m" and len: "length seg < 2 ^ 64"
    using reached_history(3,4) [OF assms(1-3)] by blast
  have es: "map fst es = map fst (entries ?m)" "map fst es = map of_nat [0..<length es]" "length es = length seg"
    using seg by (simp_all add: assms(4) history_entries_def index_of_def numbered_def bt_values_def o_def)
  have sorted: "sorted_wrt (<) (map fst es)" unfolding es(1) by (rule keys_sorted_entries)
  have nth: "fst (es ! i) = of_nat i" if "i < length es" for i
    using that arg_cong [OF es(2), of "\<lambda>xs. xs ! i"] by simp
  have "vr_verdict (verify_suffix sha (cr_anchor (compact sha ?inp)) (drop ?n es)) = Verified"
  proof -
    have kept: "?n < length es" using assms(5,6) by (cases es) auto
    moreover have "fst (es ! ?n) = fst (es ! (?n - 1)) + 1" if "0 < ?n"
      using nth [OF kept] nth [of "?n - 1"] kept that by (metis Suc_pred' less_imp_diff_less of_nat_Suc add.commute)
    ultimately show ?thesis
      using verify_compacted [of ?inp ?n sha] sorted len es(3) by simp
  qed
  then show ?thesis
    using verify_verified [of sha "cr_anchor (compact sha ?inp)" "drop ?n es"] chain_compacted [of ?n ?inp sha]
    by (simp add: Let_def compact_counts min.commute)
qed

lemma store_compaction_audits_witness:
  "let io = \<lparr>ci_open = True, ci_write = Written, ci_flush = True\<rparr>;
       fl = (Some (hash_bytes 7), \<lparr>sl_index = bt_empty, sl_genesis_root = 7\<rparr>);
       es = history_entries (snd (run spsf_step [Commit io 1 0 5 [9], Commit io 1 1 6 []] fl));
       sha = \<lambda>b. of_nat (length b);
       c = compact sha \<lparr>ci_entries = es, ci_retain_count = 1, ci_compaction_epoch = 3\<rparr>;
       v = verify_suffix sha (cr_anchor c) (drop (cr_pruned_count c) es)
   in es = [(0, 5), (1, 6)] \<and> vr_verdict v = Verified \<and> vr_suffix_terminal_hash v = chain_from sha genesis es"
proof -
  let ?io = "\<lparr>ci_open = True, ci_write = Written, ci_flush = True\<rparr>"
  let ?l = "\<lparr>sl_index = bt_empty, sl_genesis_root = 7\<rparr>" and ?f = "Some (hash_bytes 7)"
  let ?ops = "[Commit ?io 1 0 5 [9], Commit ?io 1 1 6 []]"
  have es: "history_entries (snd (run spsf_step ?ops (?f, ?l))) = [(0, 5), (1, 6)]"
    by (simp add: history_entries_def SovereignPersistenceLayer_commit_verified_step_def sequence_guard_def
        bt_last_def Let_def bt_empty.rep_eq bt_insert.rep_eq bt_values_def)
  have opened: "SovereignPersistenceLayer_open
      \<lparr>oi_read = True, oi_create = True, oi_write = Written, oi_flush = True\<rparr> 7 None = (Inr ?l, ?f)"
    by (simp add: SovereignPersistenceLayer_open_def)
  have ok: "list_all faultless ?ops" "length ?ops < 2 ^ 64" "[(0, 5), (1, 6)] \<noteq> ([] :: entry list)" "(0 :: nat) < 1"
    by simp_all
  show ?thesis
    using store_compaction_audits [OF opened ok(1,2) es [symmetric] ok(3,4), of "\<lambda>b. of_nat (length b)" 3]
    unfolding Let_def es by simp
qed

end
